(* ===== verification/JS_Prelude.thy ===== *)
theory JS_Prelude
  imports Main "HOL-Library.Multiset" "HOL-Library.Sublist"
begin

text \<open>
  The shared prelude: the parts of the JavaScript language and its standard library that the
  front end uses everywhere, and the lemmas about them.

  Strings are UTF-8 byte lists (\<open>string\<close>), so that the Korean texts of the user interface can be
  written down exactly.  Substring search, splitting at an ASCII separator, equality and
  trimming give the same result on UTF-8 bytes as on the UTF-16 code units of the engine,
  because UTF-8 is self-synchronising; only lengths and slices count code units, and they go
  through \<open>utf16_length\<close> and \<open>js_take\<close>.  Lower-casing is modelled for the ASCII letters, the
  only cased letters of the identifiers, domains and Korean texts the application handles.

  \<open>Array.prototype.sort\<close> is a stable sort by a comparator: \<open>js_sort\<close>.  The locale
  \<open>js_comparator\<close> states what the language requires of a comparator for the order to be
  determined, and proves sortedness, stability and uniqueness once.
\<close>

named_theorems js_defs \<open>unfolding equations of the model's small definitions\<close>

section \<open>Options and truthiness\<close>

text \<open>\<open>value || fallback\<close> and \<open>value ?? fallback\<close> on an optional string.\<close>

definition or_else :: "string option \<Rightarrow> string \<Rightarrow> string" where
  "or_else v d = (case v of None \<Rightarrow> d | Some s \<Rightarrow> if s = [] then d else s)"

definition truthy :: "string option \<Rightarrow> bool" where
  "truthy v = (case v of None \<Rightarrow> False | Some s \<Rightarrow> s \<noteq> [])"

definition or_null :: "string option \<Rightarrow> string option" where
  "or_null v = (case v of None \<Rightarrow> None | Some s \<Rightarrow> if s = [] then None else Some s)"

definition default_to :: "'a \<Rightarrow> 'a option \<Rightarrow> 'a" where
  "default_to d v = (case v of None \<Rightarrow> d | Some x \<Rightarrow> x)"

lemma or_else_simps [simp]:
  "or_else None d = d"
  "or_else (Some []) d = d"
  "s \<noteq> [] \<Longrightarrow> or_else (Some s) d = s"
  "or_else (Some s) [] = s"
  by (auto simp: or_else_def)

lemma truthy_simps [simp]: "truthy None = False" "truthy (Some s) = (s \<noteq> [])"
  by (auto simp: truthy_def)

lemma or_null_simps [simp]: "or_null None = None" "or_null (Some []) = None"
  "s \<noteq> [] \<Longrightarrow> or_null (Some s) = Some s"
  by (auto simp: or_null_def)

lemma default_to_simps [simp]: "default_to d None = d" "default_to d (Some x) = x"
  by (auto simp: default_to_def)

section \<open>Ordered sets: \<open>Array.from(new Set(xs))\<close>\<close>

text \<open>A JavaScript \<open>Set\<close> keeps insertion order and the first of equal values.\<close>

fun js_unique_acc :: "'a list \<Rightarrow> 'a list \<Rightarrow> 'a list" where
  "js_unique_acc seen [] = []"
| "js_unique_acc seen (x # xs) =
     (if x \<in> set seen then js_unique_acc seen xs else x # js_unique_acc (x # seen) xs)"

definition js_unique :: "'a list \<Rightarrow> 'a list" where
  "js_unique xs = js_unique_acc [] xs"

lemma set_js_unique_acc: "set (js_unique_acc seen xs) = set xs - set seen"
  by (induction xs arbitrary: seen) auto

lemma set_js_unique [simp]: "set (js_unique xs) = set xs"
  by (simp add: js_unique_def set_js_unique_acc)

lemma distinct_js_unique_acc: "distinct (js_unique_acc seen xs)"
  by (induction xs arbitrary: seen) (auto simp: set_js_unique_acc)

lemma distinct_js_unique [simp]: "distinct (js_unique xs)"
  by (simp add: js_unique_def distinct_js_unique_acc)

lemma js_unique_acc_id: "distinct xs \<Longrightarrow> set xs \<inter> set seen = {} \<Longrightarrow> js_unique_acc seen xs = xs"
  by (induction xs arbitrary: seen) auto

lemma js_unique_distinct: "distinct xs \<Longrightarrow> js_unique xs = xs"
  by (simp add: js_unique_def js_unique_acc_id)

section \<open>Searching and joining\<close>

text \<open>\<open>haystack.includes(needle)\<close>.\<close>

fun str_includes :: "string \<Rightarrow> string \<Rightarrow> bool" where
  "str_includes [] q = (q = [])"
| "str_includes (c # s) q = (prefix q (c # s) \<or> str_includes s q)"

lemma str_includes_sublist: "str_includes s q = sublist q s"
  by (induction s) (auto simp: sublist_Cons_right)

lemma str_includes_refl [simp]: "str_includes s s"
  by (simp add: str_includes_sublist)

lemma str_includes_Nil [simp]: "str_includes s []"
  by (simp add: str_includes_sublist)

lemma str_includes_append: "str_includes s q \<Longrightarrow> str_includes (a @ s @ b) q"
  unfolding str_includes_sublist by (meson sublist_append sublist_order.order_trans sublist_def)

text \<open>\<open>xs.join(sep)\<close>.\<close>

fun str_join :: "string \<Rightarrow> string list \<Rightarrow> string" where
  "str_join sep [] = []"
| "str_join sep [x] = x"
| "str_join sep (x # y # xs) = x @ sep @ str_join sep (y # xs)"

text \<open>\<open>s.split(c)\<close> for a one-byte separator: never empty, the separators are removed.\<close>

fun str_split :: "char \<Rightarrow> string \<Rightarrow> string list" where
  "str_split c [] = [[]]"
| "str_split c (x # s) =
     (if x = c then [] # str_split c s
      else (case str_split c s of [] \<Rightarrow> [[x]] | w # ws \<Rightarrow> (x # w) # ws))"

lemma str_split_ne [simp]: "str_split c s \<noteq> []"
  by (induction s) (auto split: list.splits)

lemma str_split_no_sep: "c \<notin> set s \<Longrightarrow> str_split c s = [s]"
  by (induction s) auto

lemma str_split_sep: "c \<notin> set s \<Longrightarrow> str_split c (s @ c # t) = s # str_split c t"
  by (induction s) (auto split: list.splits)

lemma str_split_join:
  assumes "xs \<noteq> []" and "\<And>x. x \<in> set xs \<Longrightarrow> c \<notin> set x"
  shows "str_split c (str_join [c] xs) = xs"
  using assms
  by (induction "[c]" xs rule: str_join.induct) (auto simp: str_split_no_sep str_split_sep)

lemma str_split_pieces: "x \<in> set (str_split c s) \<Longrightarrow> c \<notin> set x"
  by (induction s arbitrary: x) (auto split: list.splits if_splits)

lemma str_join_includes: "x \<in> set xs \<Longrightarrow> str_includes (str_join sep xs) x"
proof (induction sep xs rule: str_join.induct)
  case (3 sep y z xs)
  then consider "x = y" | "str_includes (str_join sep (z # xs)) x" by auto
  then show ?case
  proof cases
    case 1
    then show ?thesis using str_includes_append [of y y "[]"] by simp
  next
    case 2
    then show ?thesis using str_includes_append [of _ x "y @ sep" "[]"] by simp
  qed
qed auto

section \<open>Trimming and case\<close>

text \<open>
  The white space and line terminators of the language, as UTF-8: TAB, LF, VT, FF, CR, SP,
  U+00A0, U+1680, U+2000 to U+200A, U+2028, U+2029, U+202F, U+205F, U+3000 and U+FEFF.
\<close>

definition js_ws :: "string list" where
  "js_ws =
     [[CHR 0x20], [CHR 0x09], [CHR 0x0A], [CHR 0x0B], [CHR 0x0C], [CHR 0x0D],
      [CHR 0xC2, CHR 0xA0], [CHR 0xE1, CHR 0x9A, CHR 0x80],
      [CHR 0xE2, CHR 0x80, CHR 0x80], [CHR 0xE2, CHR 0x80, CHR 0x81],
      [CHR 0xE2, CHR 0x80, CHR 0x82], [CHR 0xE2, CHR 0x80, CHR 0x83],
      [CHR 0xE2, CHR 0x80, CHR 0x84], [CHR 0xE2, CHR 0x80, CHR 0x85],
      [CHR 0xE2, CHR 0x80, CHR 0x86], [CHR 0xE2, CHR 0x80, CHR 0x87],
      [CHR 0xE2, CHR 0x80, CHR 0x88], [CHR 0xE2, CHR 0x80, CHR 0x89],
      [CHR 0xE2, CHR 0x80, CHR 0x8A], [CHR 0xE2, CHR 0x80, CHR 0xA8],
      [CHR 0xE2, CHR 0x80, CHR 0xA9], [CHR 0xE2, CHR 0x80, CHR 0xAF],
      [CHR 0xE2, CHR 0x81, CHR 0x9F], [CHR 0xE3, CHR 0x80, CHR 0x80],
      [CHR 0xEF, CHR 0xBB, CHR 0xBF]]"

function strip_start :: "string list \<Rightarrow> string \<Rightarrow> string" where
  "strip_start ws s =
     (case find (\<lambda>w. w \<noteq> [] \<and> prefix w s) ws of
        None \<Rightarrow> s
      | Some w \<Rightarrow> strip_start ws (drop (length w) s))"
  by pat_completeness auto
termination
  by (relation "measure (\<lambda>(ws, s). length s)") (auto simp: find_Some_iff prefix_def)

declare strip_start.simps [simp del]

definition no_prefix :: "string list \<Rightarrow> string \<Rightarrow> bool" where
  "no_prefix ws s = list_all (\<lambda>w. \<not> (w \<noteq> [] \<and> prefix w s)) ws"

definition trim_start :: "string \<Rightarrow> string" where
  "trim_start s = strip_start js_ws s"

definition trim_end :: "string \<Rightarrow> string" where
  "trim_end s = rev (strip_start (map rev js_ws) (rev s))"

text \<open>\<open>s.trim()\<close>.\<close>

definition js_trim :: "string \<Rightarrow> string" where
  "js_trim s = trim_end (trim_start s)"

lemma strip_start_no_prefix: "no_prefix ws (strip_start ws s)"
proof (induction ws s rule: strip_start.induct)
  case (1 ws s)
  show ?case
  proof (cases "find (\<lambda>w. w \<noteq> [] \<and> prefix w s) ws")
    case None
    then have "strip_start ws s = s" by (simp add: strip_start.simps [of ws s])
    with None show ?thesis by (auto simp: no_prefix_def find_None_iff list_all_iff)
  next
    case (Some w)
    with "1" show ?thesis by (simp add: strip_start.simps [of ws s])
  qed
qed

lemma strip_start_id: "no_prefix ws s \<Longrightarrow> strip_start ws s = s"
proof -
  assume "no_prefix ws s"
  then have "find (\<lambda>w. w \<noteq> [] \<and> prefix w s) ws = None"
    by (auto simp: no_prefix_def find_None_iff list_all_iff)
  then show ?thesis by (simp add: strip_start.simps [of ws s])
qed

lemma strip_start_suffix: "suffix (strip_start ws s) s"
proof (induction ws s rule: strip_start.induct)
  case (1 ws s)
  show ?case
  proof (cases "find (\<lambda>w. w \<noteq> [] \<and> prefix w s) ws")
    case None
    then show ?thesis by (simp add: strip_start.simps [of ws s])
  next
    case (Some w)
    with "1" have "suffix (strip_start ws (drop (length w) s)) (drop (length w) s)" by blast
    then have "suffix (strip_start ws (drop (length w) s)) s"
      using suffix_drop suffix_order.order_trans by blast
    with Some show ?thesis by (simp add: strip_start.simps [of ws s])
  qed
qed

lemma no_prefix_prefix: "no_prefix ws s \<Longrightarrow> prefix t s \<Longrightarrow> no_prefix ws t"
  by (auto simp: no_prefix_def list_all_iff dest: prefix_order.order_trans)

lemma trim_end_prefix: "prefix (trim_end s) s"
  using strip_start_suffix [of "map rev js_ws" "rev s"]
  by (simp add: trim_end_def suffix_to_prefix)

lemma js_trim_starts: "no_prefix js_ws (js_trim s)"
  unfolding js_trim_def trim_start_def
  using trim_end_prefix no_prefix_prefix strip_start_no_prefix by blast

lemma js_trim_ends: "no_prefix (map rev js_ws) (rev (js_trim s))"
  by (simp add: js_trim_def trim_end_def strip_start_no_prefix)

lemma js_trim_id: "no_prefix js_ws s \<Longrightarrow> no_prefix (map rev js_ws) (rev s) \<Longrightarrow> js_trim s = s"
  by (simp add: js_trim_def trim_start_def trim_end_def strip_start_id)

lemma js_trim_idem [simp]: "js_trim (js_trim s) = js_trim s"
  by (intro js_trim_id js_trim_starts js_trim_ends)

lemma js_trim_Nil [simp]: "js_trim [] = []"
  by (rule js_trim_id) (auto simp: no_prefix_def list_all_iff)

lemma js_trim_sublist: "sublist (js_trim s) s"
proof -
  have "prefix (js_trim s) (trim_start s)" by (simp add: js_trim_def trim_end_prefix)
  moreover have "suffix (trim_start s) s" by (simp add: trim_start_def strip_start_suffix)
  ultimately show ?thesis
    by (meson prefix_imp_sublist suffix_imp_sublist sublist_order.order_trans)
qed

lemma set_js_trim: "set (js_trim s) \<subseteq> set s"
  using js_trim_sublist [of s] by (simp add: set_mono_sublist)

lemma js_trim_space [simp]: "js_trim (CHR '' '' # s) = js_trim s"
proof -
  have "find (\<lambda>w. w \<noteq> [] \<and> prefix w (CHR '' '' # s)) js_ws = Some '' ''"
    by (simp add: js_ws_def)
  then have "strip_start js_ws (CHR '' '' # s) = strip_start js_ws s"
    by (simp add: strip_start.simps [of js_ws "CHR '' '' # s"])
  then show ?thesis by (simp add: js_trim_def trim_start_def)
qed

text \<open>Strings of printable ASCII without blanks are their own trimming.\<close>

definition visible_ascii :: "string \<Rightarrow> bool" where
  "visible_ascii s = list_all (\<lambda>c. 0x20 < (of_char c :: nat) \<and> (of_char c :: nat) < 0x80) s"

lemma js_ws_last_byte: "w \<in> set js_ws \<Longrightarrow> w \<noteq> [] \<and>
    \<not> (0x20 < (of_char (hd w) :: nat) \<and> (of_char (hd w) :: nat) < 0x80) \<and>
    \<not> (0x20 < (of_char (last w) :: nat) \<and> (of_char (last w) :: nat) < 0x80)"
  by (auto simp: js_ws_def)

lemma visible_no_prefix:
  assumes "visible_ascii s"
    and "\<And>w. w \<in> set ws \<Longrightarrow> w \<noteq> [] \<Longrightarrow>
      \<not> (0x20 < (of_char (hd w) :: nat) \<and> (of_char (hd w) :: nat) < 0x80)"
  shows "no_prefix ws s"
  unfolding no_prefix_def list_all_iff
proof (intro ballI notI)
  fix w assume w: "w \<in> set ws" and p: "w \<noteq> [] \<and> prefix w s"
  then obtain a v where "w = a # v" by (metis list.exhaust)
  with p have "a \<in> set s" by (auto simp: prefix_def)
  with assms(1) have "0x20 < (of_char a :: nat) \<and> (of_char a :: nat) < 0x80"
    by (simp add: visible_ascii_def list_all_iff)
  with assms(2) [OF w] \<open>w = a # v\<close> show False by simp
qed

lemma js_trim_visible:
  assumes "visible_ascii s" shows "js_trim s = s"
proof (rule js_trim_id)
  show "no_prefix js_ws s"
    using assms js_ws_last_byte by (intro visible_no_prefix) auto
  have "visible_ascii (rev s)" using assms by (simp add: visible_ascii_def list_all_iff)
  then show "no_prefix (map rev js_ws) (rev s)"
    using js_ws_last_byte by (intro visible_no_prefix) (auto simp: hd_rev)
qed

text \<open>\<open>s.toLowerCase()\<close> on ASCII letters; every other byte is kept.\<close>

definition char_lower :: "char \<Rightarrow> char" where
  "char_lower c =
     (if 65 \<le> (of_char c :: nat) \<and> (of_char c :: nat) \<le> 90
      then char_of ((of_char c :: nat) + 32) else c)"

definition str_lower :: "string \<Rightarrow> string" where
  "str_lower s = map char_lower s"

lemma char_lower_idem [simp]: "char_lower (char_lower c) = char_lower c"
  by (simp add: char_lower_def)

lemma str_lower_idem [simp]: "str_lower (str_lower s) = str_lower s"
  by (simp add: str_lower_def)

lemma str_lower_Nil [simp]: "str_lower [] = []"
  by (simp add: str_lower_def)

lemma str_lower_eq_Nil [simp]: "str_lower s = [] \<longleftrightarrow> s = []"
  by (simp add: str_lower_def)

lemma str_lower_append: "str_lower (s @ t) = str_lower s @ str_lower t"
  by (simp add: str_lower_def)

lemma str_lower_includes: "str_includes s q \<Longrightarrow> str_includes (str_lower s) (str_lower q)"
  unfolding str_includes_sublist sublist_def str_lower_def by (metis map_append)

section \<open>Lengths and slices in UTF-16 code units\<close>

text \<open>
  A code point is one code unit, or two when its UTF-8 form has four bytes.  Continuation
  bytes (\<open>10xxxxxx\<close>) count nothing, a four-byte lead counts two.
\<close>

definition byte_units :: "char \<Rightarrow> nat" where
  "byte_units c =
     (let b = (of_char c :: nat) in
      if 0x80 \<le> b \<and> b < 0xC0 then 0 else if 0xF0 \<le> b then 2 else 1)"

definition utf16_length :: "string \<Rightarrow> nat" where
  "utf16_length s = sum_list (map byte_units s)"

text \<open>
  \<open>s.slice(0, n)\<close>: the code points that fit into \<open>n\<close> code units.  A slice that would cut a
  surrogate pair keeps the lone high surrogate in the engine; the model, whose strings are
  well-formed, drops it.
\<close>

fun js_take :: "nat \<Rightarrow> string \<Rightarrow> string" where
  "js_take n [] = []"
| "js_take n (c # s) = (if byte_units c \<le> n then c # js_take (n - byte_units c) s else [])"

lemma js_take_prefix: "prefix (js_take n s) s"
  by (induction n s rule: js_take.induct) auto

lemma utf16_length_js_take: "utf16_length (js_take n s) \<le> n"
  by (induction n s rule: js_take.induct) (auto simp: utf16_length_def)

lemma js_take_all: "utf16_length s \<le> n \<Longrightarrow> js_take n s = s"
  by (induction n s rule: js_take.induct) (auto simp: utf16_length_def)

lemma js_take_idem [simp]: "js_take n (js_take n s) = js_take n s"
  by (simp add: js_take_all utf16_length_js_take)

lemma js_take_ascii: "list_all (\<lambda>c. (of_char c :: nat) < 0x80) s \<Longrightarrow> js_take n s = take n s"
  by (induction n s rule: js_take.induct) (auto simp: byte_units_def Let_def take_Cons')

section \<open>Ordering of strings\<close>

text \<open>\<open>a < b\<close> on strings: lexicographic on code units (here: bytes).\<close>

fun str_less :: "string \<Rightarrow> string \<Rightarrow> bool" where
  "str_less s [] = False"
| "str_less [] (d # t) = True"
| "str_less (c # s) (d # t) =
     ((of_char c :: nat) < of_char d \<or> (c = d \<and> str_less s t))"

lemma str_less_irrefl [simp]: "\<not> str_less s s"
  by (induction s) auto

lemma str_less_trans: "str_less a b \<Longrightarrow> str_less b c \<Longrightarrow> str_less a c"
proof (induction a b arbitrary: c rule: str_less.induct)
  case (2 d t)
  then show ?case by (cases c) auto
next
  case (3 x s d t)
  then show ?case by (cases c) auto
qed auto

lemma str_less_total: "str_less a b \<or> a = b \<or> str_less b a"
proof (induction a b rule: str_less.induct)
  case (1 s)
  then show ?case by (cases s) auto
next
  case (3 c s d t)
  then show ?case
    using linorder_less_linear [of "of_char c :: nat" "of_char d"] by auto
qed simp

section \<open>Stable sorting\<close>

lemma filter_Cons_mem: "filter P xs = y # ys \<Longrightarrow> y \<in> set xs \<and> P y"
  by (metis filter_eq_ConsD in_set_conv_decomp)

fun js_insert :: "('a \<Rightarrow> 'a \<Rightarrow> int) \<Rightarrow> 'a \<Rightarrow> 'a list \<Rightarrow> 'a list" where
  "js_insert cmp x [] = [x]"
| "js_insert cmp x (y # ys) = (if cmp x y \<le> 0 then x # y # ys else y # js_insert cmp x ys)"

definition js_sort :: "('a \<Rightarrow> 'a \<Rightarrow> int) \<Rightarrow> 'a list \<Rightarrow> 'a list" where
  "js_sort cmp xs = foldr (js_insert cmp) xs []"

lemma js_sort_simps [simp]:
  "js_sort cmp [] = []"
  "js_sort cmp (x # xs) = js_insert cmp x (js_sort cmp xs)"
  by (simp_all add: js_sort_def)

lemma mset_js_insert [simp]: "mset (js_insert cmp x ys) = add_mset x (mset ys)"
  by (induction ys) auto

lemma mset_js_sort [simp]: "mset (js_sort cmp xs) = mset xs"
  by (induction xs) auto

lemma set_js_sort [simp]: "set (js_sort cmp xs) = set xs"
  by (metis mset_js_sort set_mset_mset)

lemma set_js_insert [simp]: "set (js_insert cmp x ys) = insert x (set ys)"
  by (metis mset_js_insert set_mset_mset set_mset_add_mset_insert)

lemma length_js_sort [simp]: "length (js_sort cmp xs) = length xs"
  by (metis mset_js_sort size_mset)

lemma distinct_js_sort [simp]: "distinct (js_sort cmp xs) = distinct xs"
  by (metis mset_js_sort mset_eq_imp_distinct_iff)

lemma js_insert_map: "js_insert cmp (f x) (map f ys) = map f (js_insert (\<lambda>x y. cmp (f x) (f y)) x ys)"
  by (induction ys) auto

lemma js_sort_map: "js_sort cmp (map f xs) = map f (js_sort (\<lambda>x y. cmp (f x) (f y)) xs)"
  by (induction xs) (auto simp: js_insert_map)

text \<open>A comparator that makes the result of \<open>sort\<close> determined (a consistent comparator).\<close>

locale js_comparator =
  fixes cmp :: "'a \<Rightarrow> 'a \<Rightarrow> int"
  assumes cmp_flip: "cmp x y < 0 \<longleftrightarrow> 0 < cmp y x"
    and cmp_trans: "cmp x y \<le> 0 \<Longrightarrow> cmp y z \<le> 0 \<Longrightarrow> cmp x z \<le> 0"
begin

lemma cmp_total: "cmp x y \<le> 0 \<or> cmp y x \<le> 0"
  using cmp_flip [of x y] by linarith

lemma cmp_refl: "cmp x x = 0"
  using cmp_flip [of x x] by linarith

lemma cmp_zero_sym: "cmp x y = 0 \<Longrightarrow> cmp y x = 0"
  using cmp_flip [of x y] cmp_flip [of y x] by linarith

lemma cmp_le_flip: "\<not> cmp x y \<le> 0 \<Longrightarrow> cmp y x \<le> 0"
  using cmp_flip [of y x] by linarith

lemma sorted_js_insert:
  "sorted_wrt (\<lambda>a b. cmp a b \<le> 0) ys \<Longrightarrow> sorted_wrt (\<lambda>a b. cmp a b \<le> 0) (js_insert cmp x ys)"
proof (induction ys)
  case (Cons y ys)
  then show ?case by (auto dest: cmp_le_flip intro: cmp_trans)
qed simp

theorem js_sort_sorted: "sorted_wrt (\<lambda>a b. cmp a b \<le> 0) (js_sort cmp xs)"
  by (induction xs) (auto intro: sorted_js_insert)

lemma insert_stable:
  "sorted_wrt (\<lambda>a b. cmp a b \<le> 0) ys \<Longrightarrow>
   filter (\<lambda>y. cmp k y = 0) (js_insert cmp x ys) = filter (\<lambda>y. cmp k y = 0) (x # ys)"
proof (induction ys)
  case (Cons y ys)
  show ?case
  proof (cases "cmp x y \<le> 0")
    case False
    then have "\<not> (cmp k x = 0 \<and> cmp k y = 0)"
      by (metis cmp_zero_sym cmp_trans order_refl)
    with Cons False show ?thesis by auto
  qed auto
qed simp

theorem js_sort_stable: "filter (\<lambda>y. cmp k y = 0) (js_sort cmp xs) = filter (\<lambda>y. cmp k y = 0) xs"
  by (induction xs) (simp_all add: insert_stable js_sort_sorted)

lemma js_sort_Cons_least: "(\<And>y. y \<in> set xs \<Longrightarrow> cmp x y \<le> 0) \<Longrightarrow> js_sort cmp (x # xs) = x # js_sort cmp xs"
  using set_js_sort [of cmp xs] by (cases "js_sort cmp xs") auto

theorem js_sort_id: "sorted_wrt (\<lambda>a b. cmp a b \<le> 0) xs \<Longrightarrow> js_sort cmp xs = xs"
  by (induction xs) (simp_all add: js_sort_Cons_least del: js_sort_simps(2))

lemma js_sort_hd_least: "js_sort cmp xs = y # ys \<Longrightarrow> x \<in> set xs \<Longrightarrow> cmp y x \<le> 0"
  using js_sort_sorted [of xs] cmp_refl [of y]
  by (metis order_refl set_ConsD set_js_sort sorted_wrt.simps(2))

lemma js_insert_filter:
  "sorted_wrt (\<lambda>a b. cmp a b \<le> 0) ys \<Longrightarrow>
   filter P (js_insert cmp x ys) = (if P x then js_insert cmp x (filter P ys) else filter P ys)"
proof (induction ys)
  case (Cons y ys)
  have "js_insert cmp x (filter P ys) = x # filter P ys" if "cmp x y \<le> 0"
    using that Cons.prems cmp_trans by (cases "filter P ys") (auto dest!: filter_eq_ConsD)
  with Cons show ?case by auto
qed simp

theorem js_sort_filter: "filter P (js_sort cmp xs) = js_sort cmp (filter P xs)"
  by (induction xs) (simp_all add: js_insert_filter js_sort_sorted)

text \<open>The head of the sorted list is the first of the least elements.\<close>

lemma js_sort_hd_first:
  assumes "js_sort cmp xs = y # ys"
  shows "\<exists>zs. filter (\<lambda>x. cmp y x = 0) xs = y # zs"
  using js_sort_stable [of y xs] cmp_refl [of y] by (auto simp: assms dest: sym)

end

text \<open>Comparators by an integer key, ascending and descending, and reversed comparators.\<close>

definition key_cmp :: "('a \<Rightarrow> int) \<Rightarrow> 'a \<Rightarrow> 'a \<Rightarrow> int" where
  "key_cmp f x y = f x - f y"

interpretation key: js_comparator "key_cmp f" for f
  by unfold_locales (auto simp: key_cmp_def)

lemma neg_comparator: "js_comparator cmp \<Longrightarrow> js_comparator (\<lambda>x y. - cmp x y)"
proof -
  assume c: "js_comparator cmp"
  show ?thesis
  proof
    fix x y show "- cmp x y < 0 \<longleftrightarrow> 0 < - cmp y x"
      using js_comparator.cmp_flip [OF c, of y x] by auto
  next
    fix x y z assume "- cmp x y \<le> 0" "- cmp y z \<le> 0"
    then have "cmp y x \<le> 0" "cmp z y \<le> 0"
      using js_comparator.cmp_flip [OF c, of y x] js_comparator.cmp_flip [OF c, of z y]
        js_comparator.cmp_flip [OF c, of x y] js_comparator.cmp_flip [OF c, of y z] by linarith+
    then have "cmp z x \<le> 0" using js_comparator.cmp_trans [OF c] by blast
    then show "- cmp x z \<le> 0" using js_comparator.cmp_flip [OF c, of x z] by linarith
  qed
qed

text \<open>\<open>findIndex\<close>, with \<open>None\<close> for \<open>-1\<close>.\<close>

fun find_index :: "('a \<Rightarrow> bool) \<Rightarrow> 'a list \<Rightarrow> nat option" where
  "find_index P [] = None"
| "find_index P (x # xs) = (if P x then Some 0 else map_option Suc (find_index P xs))"

lemma find_index_None: "find_index P xs = None \<longleftrightarrow> (\<forall>x\<in>set xs. \<not> P x)"
  by (induction xs) auto

lemma find_index_first: "\<forall>x\<in>set pre. \<not> P x \<Longrightarrow> P x \<Longrightarrow> find_index P (pre @ x # post) = Some (length pre)"
  by (induction pre) auto

end
