(* ===== verification/JS_Number.thy ===== *)
theory JS_Number
  imports Complex_Main JS_Prelude
begin

text \<open>
  Numbers of the language: IEEE-754 doubles as the rationals they denote, with the rounding of
  every inexact operation made explicit by \<open>fl\<close> (round to nearest, ties to even, with the
  subnormal range), \<open>Number(text)\<close> for the string-to-number conversion, decimal printing of
  integers, and \<open>Math.round\<close>.  The two zeros are not told apart.

  The locale \<open>double_rounding\<close> states the two facts the client proofs need of the rounding
  (it is monotone, and exact on the safe integers); \<open>fl\<close> is shown to satisfy them.
\<close>

section \<open>Decimal notation\<close>

definition digit_char :: "nat \<Rightarrow> char" where
  "digit_char n = char_of (48 + n)"

definition is_digit :: "char \<Rightarrow> bool" where
  "is_digit c = (48 \<le> (of_char c :: nat) \<and> (of_char c :: nat) \<le> 57)"

definition digit_val :: "char \<Rightarrow> nat" where
  "digit_val c = of_char c - 48"

fun show_nat :: "nat \<Rightarrow> string" where
  "show_nat n = (if n < 10 then [digit_char n] else show_nat (n div 10) @ [digit_char (n mod 10)])"

declare show_nat.simps [simp del]

definition show_int :: "int \<Rightarrow> string" where
  "show_int i = (if i < 0 then CHR ''-'' # show_nat (nat (- i)) else show_nat (nat i))"

definition read_nat :: "string \<Rightarrow> nat" where
  "read_nat s = foldl (\<lambda>a c. 10 * a + digit_val c) 0 s"

text \<open>Exactly \<open>w\<close> digits, as \<open>padStart(w, "0")\<close> gives for a number below \<open>10 ^ w\<close>.\<close>

fun pad_nat :: "nat \<Rightarrow> nat \<Rightarrow> string" where
  "pad_nat 0 n = []"
| "pad_nat (Suc w) n = pad_nat w (n div 10) @ [digit_char (n mod 10)]"

lemma of_char_digit: "n < 10 \<Longrightarrow> (of_char (digit_char n) :: nat) = 48 + n"
  by (simp add: digit_char_def)

lemma digit_val_char [simp]: "n < 10 \<Longrightarrow> digit_val (digit_char n) = n"
  by (simp add: digit_val_def of_char_digit)

lemma is_digit_char [simp]: "n < 10 \<Longrightarrow> is_digit (digit_char n)"
  by (simp add: is_digit_def of_char_digit)

lemma read_nat_snoc [simp]: "read_nat (s @ [c]) = 10 * read_nat s + digit_val c"
  by (simp add: read_nat_def)

lemma read_nat_Nil [simp]: "read_nat [] = 0"
  by (simp add: read_nat_def)

lemma read_show_nat [simp]: "read_nat (show_nat n) = n"
proof (induction n rule: show_nat.induct)
  case (1 n)
  show ?case
  proof (cases "n < 10")
    case True
    then show ?thesis
      using read_nat_snoc [of "[]"] by (simp add: show_nat.simps [of n] del: read_nat_snoc)
  next
    case False
    with "1" show ?thesis by (simp add: show_nat.simps [of n])
  qed
qed

lemma show_nat_digits: "list_all is_digit (show_nat n)"
proof (induction n rule: show_nat.induct)
  case (1 n)
  then show ?case by (cases "n < 10") (simp_all add: show_nat.simps [of n])
qed

lemma show_nat_ne [simp]: "show_nat n \<noteq> []"
  by (simp add: show_nat.simps [of n])

lemma show_nat_inj: "show_nat m = show_nat n \<Longrightarrow> m = n"
  by (metis read_show_nat)

lemma length_pad_nat [simp]: "length (pad_nat w n) = w"
  by (induction w arbitrary: n) auto

lemma pad_nat_digits: "list_all is_digit (pad_nat w n)"
  by (induction w arbitrary: n) auto

lemma read_pad_nat: "read_nat (pad_nat w n) = n mod 10 ^ w"
  by (induction w arbitrary: n) (auto simp: mod_mult2_eq)

lemma read_nat_digits_bound: "list_all is_digit s \<Longrightarrow> read_nat s < 10 ^ length s"
proof (induction s rule: rev_induct)
  case (snoc c s)
  then have "digit_val c \<le> 9" by (auto simp: is_digit_def digit_val_def)
  with snoc show ?case by simp
qed simp

lemma pad_read_nat: "list_all is_digit s \<Longrightarrow> pad_nat (length s) (read_nat s) = s"
proof (induction s rule: rev_induct)
  case (snoc c s)
  then have d: "48 \<le> (of_char c :: nat)" "(of_char c :: nat) \<le> 57" by (auto simp: is_digit_def)
  then have "digit_val c < 10" by (simp add: digit_val_def)
  moreover have "digit_char (digit_val c) = c"
    using d by (simp add: digit_char_def digit_val_def)
  ultimately show ?case using snoc by simp
qed simp

lemma digit_visible: "list_all is_digit s \<Longrightarrow> visible_ascii s"
  by (auto simp: visible_ascii_def is_digit_def list_all_iff)

section \<open>Rounding to double precision\<close>

lemma ceiling_half_less: "(2::rat) < y \<Longrightarrow> nat \<lceil>y / 2\<rceil> < nat \<lceil>y\<rceil>"
proof -
  assume y: "2 < y"
  have "of_int \<lceil>y / 2\<rceil> < y / 2 + 1" by linarith
  also have "\<dots> < y" using y by simp
  also have "y \<le> of_int \<lceil>y\<rceil>" by simp
  finally have "\<lceil>y / 2\<rceil> < \<lceil>y\<rceil>" by (simp only: of_int_less_iff)
  moreover have "0 < \<lceil>y\<rceil>" using y by simp
  ultimately show ?thesis by simp
qed

text \<open>\<open>flog2 x\<close> is the integer part of the binary logarithm of a positive \<open>x\<close>.\<close>

function flog2 :: "rat \<Rightarrow> int" where
  "flog2 x =
     (if x \<le> 0 then 0
      else if 2 \<le> x then 1 + flog2 (x / 2)
      else if x < 1 then flog2 (2 * x) - 1
      else 0)"
  by pat_completeness auto

termination
proof (relation "measure (\<lambda>x::rat. if 1 \<le> x then nat \<lfloor>x\<rfloor> else 1 + nat \<lceil>1 / x\<rceil>)", goal_cases)
  case (2 x)
  then have "1 \<le> x / 2" "\<lfloor>x / 2\<rfloor> < \<lfloor>x\<rfloor>" "0 < \<lfloor>x\<rfloor>" by linarith+
  then show ?case using 2 by simp
next
  case (3 x)
  show ?case
  proof (cases "1 \<le> 2 * x")
    case True
    with 3 have "\<lfloor>2 * x\<rfloor> = 1" by linarith
    moreover have "0 < \<lceil>1 / x\<rceil>" using 3 by simp
    ultimately show ?thesis using True 3 by simp
  next
    case False
    with 3 have "2 < 1 / x" by (simp add: field_simps)
    from ceiling_half_less [OF this] show ?thesis using False 3 by (simp add: mult.commute)
  qed
qed simp

declare flog2.simps [simp del]

lemma flog2_bounds: "0 < x \<Longrightarrow> 2 powi flog2 x \<le> x \<and> x < 2 powi (flog2 x + 1)"
proof (induction x rule: flog2.induct)
  case (1 x)
  consider "2 \<le> x" | "x < 1" | "1 \<le> x" "x < 2" by linarith
  then show ?case
  proof cases
    case 1
    with "1.IH"(1) have "2 powi flog2 (x / 2) \<le> x / 2 \<and> x / 2 < 2 powi (flog2 (x / 2) + 1)" by simp
    with 1 show ?thesis by (simp add: flog2.simps [of x] power_int_add add.commute)
  next
    case 2
    with "1.IH"(2) "1.prems"
    have "2 powi flog2 (2 * x) \<le> 2 * x \<and> 2 * x < 2 powi (flog2 (2 * x) + 1)" by simp
    with 2 "1.prems" show ?thesis
      by (simp add: flog2.simps [of x] power_int_diff power_int_add)
  next
    case 3
    then show ?thesis by (simp add: flog2.simps [of x])
  qed
qed

lemma flog2_mono: "0 < x \<Longrightarrow> x \<le> y \<Longrightarrow> flog2 x \<le> flog2 y"
proof (rule ccontr)
  assume xy: "0 < x" "x \<le> y" and "\<not> flog2 x \<le> flog2 y"
  then have "(2::rat) powi (flog2 y + 1) \<le> 2 powi flog2 x" by (intro power_int_increasing) auto
  with flog2_bounds [of x] flog2_bounds [of y] xy show False by linarith
qed

definition rnd_even :: "rat \<Rightarrow> int" where
  "rnd_even x =
     (let f = \<lfloor>x\<rfloor>; d = x - of_int f in
      if d < 1 / 2 then f else if 1 / 2 < d then f + 1 else if even f then f else f + 1)"

lemma rnd_even_int [simp]: "rnd_even (of_int n) = n"
  by (simp add: rnd_even_def)

lemma rnd_even_mono: "x \<le> y \<Longrightarrow> rnd_even x \<le> rnd_even y"
proof -
  assume xy: "x \<le> y"
  then have f: "\<lfloor>x\<rfloor> \<le> \<lfloor>y\<rfloor>" by (rule floor_mono)
  show ?thesis
  proof (cases "\<lfloor>x\<rfloor> = \<lfloor>y\<rfloor>")
    case True
    with xy show ?thesis by (auto simp: rnd_even_def Let_def)
  next
    case False
    with f show ?thesis by (auto simp: rnd_even_def Let_def)
  qed
qed

definition ulp_exp :: "rat \<Rightarrow> int" where
  "ulp_exp x = max (flog2 x - 52) (-1074)"

definition fl_pos :: "rat \<Rightarrow> rat" where
  "fl_pos x = of_int (rnd_even (x / 2 powi ulp_exp x)) * 2 powi ulp_exp x"

definition fl :: "rat \<Rightarrow> rat" where
  "fl x = (if x = 0 then 0 else if 0 < x then fl_pos x else - fl_pos (- x))"

lemma powi_int_quotient: "i \<le> j \<Longrightarrow> (2::rat) powi j / 2 powi i = of_int (2 ^ nat (j - i))"
proof -
  assume "i \<le> j"
  have "(2::rat) powi j / 2 powi i = 2 powi (j - i)" by (simp add: power_int_diff)
  also have "\<dots> = 2 ^ nat (j - i)" using \<open>i \<le> j\<close> by (simp add: power_int_def)
  finally show ?thesis by simp
qed

lemma fl_pos_le_power:
  assumes "0 < x" "x \<le> 2 powi e" "ulp_exp x \<le> e"
  shows "fl_pos x \<le> 2 powi e"
proof -
  let ?u = "(2::rat) powi ulp_exp x"
  have "x / ?u \<le> 2 powi e / ?u" using assms(2) by (simp add: divide_right_mono)
  also have "\<dots> = of_int (2 ^ nat (e - ulp_exp x))" using assms(3) by (rule powi_int_quotient)
  finally have "rnd_even (x / ?u) \<le> 2 ^ nat (e - ulp_exp x)"
    using rnd_even_mono rnd_even_int by metis
  then have "(of_int (rnd_even (x / ?u)) :: rat) \<le> of_int (2 ^ nat (e - ulp_exp x))"
    by (simp only: of_int_le_iff)
  also have "\<dots> = 2 powi e / ?u" using assms(3) by (rule powi_int_quotient [symmetric])
  finally show ?thesis by (simp add: fl_pos_def field_simps)
qed

lemma fl_pos_ge_power:
  assumes "0 < y" "2 powi e \<le> y" "ulp_exp y \<le> e"
  shows "2 powi e \<le> fl_pos y"
proof -
  let ?u = "(2::rat) powi ulp_exp y"
  have "of_int (2 ^ nat (e - ulp_exp y)) = 2 powi e / ?u"
    using assms(3) by (rule powi_int_quotient [symmetric])
  also have "\<dots> \<le> y / ?u" using assms(2) by (simp add: divide_right_mono)
  finally have "2 ^ nat (e - ulp_exp y) \<le> rnd_even (y / ?u)"
    using rnd_even_mono rnd_even_int by metis
  then have "(of_int (2 ^ nat (e - ulp_exp y)) :: rat) \<le> of_int (rnd_even (y / ?u))"
    by (simp only: of_int_le_iff)
  then have "2 powi e / ?u \<le> of_int (rnd_even (y / ?u))"
    using powi_int_quotient [OF assms(3)] by simp
  then show ?thesis by (simp add: fl_pos_def field_simps)
qed

lemma fl_pos_mono:
  assumes "0 < x" "x \<le> y" shows "fl_pos x \<le> fl_pos y"
proof (cases "ulp_exp x = ulp_exp y")
  case True
  then have "rnd_even (x / 2 powi ulp_exp x) \<le> rnd_even (y / 2 powi ulp_exp y)"
    using assms by (intro rnd_even_mono) (simp add: divide_right_mono)
  then have "(of_int (rnd_even (x / 2 powi ulp_exp x)) :: rat) \<le> of_int (rnd_even (y / 2 powi ulp_exp y))"
    by (simp only: of_int_le_iff)
  with True show ?thesis unfolding fl_pos_def by (metis mult_right_mono zero_le_power_int zero_le_numeral)
next
  case False
  have lm: "flog2 x \<le> flog2 y" using assms by (rule flog2_mono)
  with False have less: "ulp_exp x < ulp_exp y" "flog2 x < flog2 y" "ulp_exp y = flog2 y - 52"
    by (auto simp: ulp_exp_def)
  have "x < 2 powi (flog2 x + 1)" using flog2_bounds assms by blast
  also have "\<dots> \<le> 2 powi flog2 y" using less by (intro power_int_increasing) auto
  finally have "fl_pos x \<le> 2 powi flog2 y" using assms less by (intro fl_pos_le_power) auto
  also have "\<dots> \<le> fl_pos y" using assms less flog2_bounds [of y] by (intro fl_pos_ge_power) auto
  finally show ?thesis .
qed

lemma fl_pos_nonneg: "0 < x \<Longrightarrow> 0 \<le> fl_pos x"
proof -
  assume "0 < x"
  then have "rnd_even (of_int 0) \<le> rnd_even (x / 2 powi ulp_exp x)"
    by (intro rnd_even_mono) simp
  then have "0 \<le> rnd_even (x / 2 powi ulp_exp x)" using rnd_even_int [of 0] by simp
  then show ?thesis by (simp add: fl_pos_def)
qed

theorem fl_mono: "x \<le> y \<Longrightarrow> fl x \<le> fl y"
  using fl_pos_mono [of x y] fl_pos_mono [of "- y" "- x"] fl_pos_nonneg [of y] fl_pos_nonneg [of "- x"]
  by (auto simp: fl_def)

lemma fl_pos_int:
  assumes "0 < n" "n \<le> 2 ^ 53" shows "fl_pos (of_int n) = of_int n"
proof (cases "n = 2 ^ 53")
  case True
  have b: "(2::rat) powi flog2 (of_int n) \<le> of_int n" "of_int n < (2::rat) powi (flog2 (of_int n) + 1)"
    using flog2_bounds [of "of_int n"] assms by auto
  have p: "(of_int n :: rat) = 2 powi 53" using True by simp
  have "flog2 (of_int n) = 53"
  proof (rule antisym)
    show "flog2 (of_int n) \<le> 53"
    proof (rule ccontr)
      assume "\<not> flog2 (of_int n) \<le> 53"
      then have "(2::rat) powi 54 \<le> 2 powi flog2 (of_int n)" by (intro power_int_increasing) auto
      with b p show False by simp
    qed
    show "53 \<le> flog2 (of_int n)"
    proof (rule ccontr)
      assume "\<not> 53 \<le> flog2 (of_int n)"
      then have "(2::rat) powi (flog2 (of_int n) + 1) \<le> 2 powi 53" by (intro power_int_increasing) auto
      with b p show False by simp
    qed
  qed
  then have u: "ulp_exp (of_int n) = 1" by (simp add: ulp_exp_def)
  have "(of_int n :: rat) / 2 = of_int (2 ^ 52)" using True by simp
  then have "rnd_even (of_int n / 2) = 2 ^ 52" by (simp only: rnd_even_int)
  with u True show ?thesis by (simp add: fl_pos_def)
next
  case False
  have "flog2 (of_int n) < 53"
  proof (rule ccontr)
    assume "\<not> flog2 (of_int n) < 53"
    then have "(2::rat) powi 53 \<le> 2 powi flog2 (of_int n)" by (intro power_int_increasing) auto
    also have "\<dots> \<le> of_int n" using flog2_bounds [of "of_int n"] assms by auto
    finally have "(of_int (2 ^ 53) :: rat) \<le> of_int n" by simp
    with False assms show False by (simp only: of_int_le_iff)
  qed
  then have "ulp_exp (of_int n) \<le> 0" by (simp add: ulp_exp_def)
  then have "(1::rat) / 2 powi ulp_exp (of_int n) = of_int (2 ^ nat (- ulp_exp (of_int n)))"
    using powi_int_quotient [of "ulp_exp (of_int n)" 0] by simp
  then have "(of_int n :: rat) / 2 powi ulp_exp (of_int n) = of_int (n * 2 ^ nat (- ulp_exp (of_int n)))"
    by (metis mult.right_neutral of_int_mult times_divide_eq_right)
  then have "of_int (rnd_even (of_int n / 2 powi ulp_exp (of_int n))) = (of_int n :: rat) / 2 powi ulp_exp (of_int n)"
    by (metis rnd_even_int)
  then show ?thesis by (simp add: fl_pos_def)
qed

theorem fl_int: "\<bar>n\<bar> \<le> 2 ^ 53 \<Longrightarrow> fl (of_int n) = of_int n"
  using fl_pos_int [of n] fl_pos_int [of "- n"] by (auto simp: fl_def)

text \<open>What the clients rely on.\<close>

locale double_rounding =
  fixes rnd :: "rat \<Rightarrow> rat"
  assumes rnd_mono: "x \<le> y \<Longrightarrow> rnd x \<le> rnd y"
    and rnd_int: "\<bar>n\<bar> \<le> 2 ^ 53 \<Longrightarrow> rnd (of_int n) = of_int n"
begin

lemma rnd_le_int: "x \<le> of_int n \<Longrightarrow> \<bar>n\<bar> \<le> 2 ^ 53 \<Longrightarrow> rnd x \<le> of_int n"
  using rnd_mono [of x "of_int n"] rnd_int by simp

lemma rnd_ge_int: "of_int n \<le> x \<Longrightarrow> \<bar>n\<bar> \<le> 2 ^ 53 \<Longrightarrow> of_int n \<le> rnd x"
  using rnd_mono [of "of_int n" x] rnd_int by simp

lemma rnd_unit: "0 \<le> x \<Longrightarrow> x \<le> 1 \<Longrightarrow> 0 \<le> rnd x \<and> rnd x \<le> 1"
  using rnd_ge_int [of 0 x] rnd_le_int [of x 1] by simp

end

interpretation dbl: double_rounding fl
  by unfold_locales (rule fl_mono, assumption, rule fl_int)

text \<open>\<open>Math.round\<close>: to the nearest integer, ties upwards.\<close>

definition math_round :: "rat \<Rightarrow> int" where
  "math_round x = \<lfloor>x + 1 / 2\<rfloor>"

lemma math_round_int [simp]: "math_round (of_int n) = n"
  unfolding math_round_def by linarith

lemma math_round_mono: "x \<le> y \<Longrightarrow> math_round x \<le> math_round y"
  by (simp add: math_round_def floor_mono)

lemma math_round_le_int: "x \<le> of_int n \<Longrightarrow> math_round x \<le> n"
  using math_round_mono math_round_int by metis

lemma math_round_ge_int: "of_int n \<le> x \<Longrightarrow> n \<le> math_round x"
  using math_round_mono math_round_int by metis

section \<open>Sorting numbers\<close>

text \<open>\<open>(a, b) => a - b\<close>: the difference of two doubles has the sign of their order.\<close>

definition rat_cmp :: "rat \<Rightarrow> rat \<Rightarrow> int" where
  "rat_cmp a b = (if a < b then - 1 else if a = b then 0 else 1)"

interpretation ratc: js_comparator rat_cmp
  by unfold_locales (auto simp: rat_cmp_def split: if_splits)

lemma rat_sorted: "sorted_wrt (\<lambda>a b. rat_cmp a b \<le> 0) qs \<longleftrightarrow> sorted qs"
  by (simp add: rat_cmp_def sorted_wrt_iff_nth_less sorted_iff_nth_mono_less not_less)
    (metis linorder_le_cases order_antisym order_less_le zero_less_one not_one_le_zero)

section \<open>\<open>Number(text)\<close>\<close>

datatype jsnum = NaN | PosInf | NegInf | Num rat

definition exp_part :: "string \<Rightarrow> int option" where
  "exp_part s =
     (case s of
        [] \<Rightarrow> Some 0
      | c # r \<Rightarrow>
          if c = CHR ''e'' \<or> c = CHR ''E''
          then (let neg = (r \<noteq> [] \<and> hd r = CHR ''-'');
                    ds = (case r of d # t \<Rightarrow> if d = CHR ''-'' \<or> d = CHR ''+'' then t else r | [] \<Rightarrow> [])
                in if ds \<noteq> [] \<and> list_all is_digit ds
                   then Some (if neg then - int (read_nat ds) else int (read_nat ds))
                   else None)
          else None)"

text \<open>An unsigned decimal literal: its exact value.\<close>

definition decimal_value :: "string \<Rightarrow> rat option" where
  "decimal_value s =
     (let ip = takeWhile is_digit s;
          r = dropWhile is_digit s;
          dot = (r \<noteq> [] \<and> hd r = CHR ''.'');
          fp = (if dot then takeWhile is_digit (tl r) else []);
          r2 = (if dot then dropWhile is_digit (tl r) else r)
      in if ip = [] \<and> fp = [] then None
         else map_option
                (\<lambda>e. of_nat (read_nat (ip @ fp)) * 10 powi (e - int (length fp)))
                (exp_part r2))"

definition to_double :: "rat \<Rightarrow> jsnum" where
  "to_double x =
     (if 2 ^ 1024 \<le> fl x then PosInf else if fl x \<le> - (2 ^ 1024) then NegInf else Num (fl x))"

definition radix_digit :: "char \<Rightarrow> nat" where
  "radix_digit c =
     (let b = (of_char c :: nat) in
      if 48 \<le> b \<and> b \<le> 57 then b - 48
      else if 65 \<le> b \<and> b \<le> 70 then b - 55
      else if 97 \<le> b \<and> b \<le> 102 then b - 87
      else 99)"

definition radix_value :: "nat \<Rightarrow> string \<Rightarrow> jsnum" where
  "radix_value r s =
     (if s \<noteq> [] \<and> list_all (\<lambda>c. radix_digit c < r) s
      then to_double (of_nat (foldl (\<lambda>a c. r * a + radix_digit c) 0 s))
      else NaN)"

definition signed_value :: "bool \<Rightarrow> string \<Rightarrow> jsnum" where
  "signed_value neg s =
     (if s = ''Infinity'' then (if neg then NegInf else PosInf)
      else (case decimal_value s of
              None \<Rightarrow> NaN
            | Some v \<Rightarrow> to_double (if neg then - v else v)))"

definition js_number :: "string \<Rightarrow> jsnum" where
  "js_number s =
     (case js_trim s of
        [] \<Rightarrow> Num 0
      | c # r \<Rightarrow>
          if c = CHR ''-'' then signed_value True r
          else if c = CHR ''+'' then signed_value False r
          else if c = CHR ''0'' \<and> r \<noteq> [] \<and> hd r \<in> {CHR ''x'', CHR ''X''} then radix_value 16 (tl r)
          else if c = CHR ''0'' \<and> r \<noteq> [] \<and> hd r \<in> {CHR ''o'', CHR ''O''} then radix_value 8 (tl r)
          else if c = CHR ''0'' \<and> r \<noteq> [] \<and> hd r \<in> {CHR ''b'', CHR ''B''} then radix_value 2 (tl r)
          else signed_value False (c # r))"

text \<open>\<open>Number.isInteger\<close> and the integer a number denotes.\<close>

definition num_int :: "jsnum \<Rightarrow> int option" where
  "num_int n = (case n of Num q \<Rightarrow> if of_int \<lfloor>q\<rfloor> = q then Some \<lfloor>q\<rfloor> else None | _ \<Rightarrow> None)"

lemma takeWhile_digits: "list_all is_digit s \<Longrightarrow> takeWhile is_digit s = s \<and> dropWhile is_digit s = []"
  by (auto simp: list_all_iff)

lemma decimal_value_digits:
  "s \<noteq> [] \<Longrightarrow> list_all is_digit s \<Longrightarrow> decimal_value s = Some (of_nat (read_nat s))"
  by (simp add: decimal_value_def takeWhile_digits exp_part_def)

lemma digit_not_alpha: "is_digit c \<Longrightarrow>
    c \<noteq> CHR ''-'' \<and> c \<noteq> CHR ''+'' \<and> c \<noteq> CHR ''x'' \<and> c \<noteq> CHR ''X'' \<and> c \<noteq> CHR ''o'' \<and>
    c \<noteq> CHR ''O'' \<and> c \<noteq> CHR ''b'' \<and> c \<noteq> CHR ''B'' \<and> c \<noteq> CHR ''I''"
  by (auto simp: is_digit_def)

text \<open>A string of decimal digits is read as the integer it denotes, when that is a safe integer.\<close>

theorem js_number_digits:
  assumes "s \<noteq> []" "list_all is_digit s" "read_nat s \<le> 2 ^ 53"
  shows "js_number s = Num (of_nat (read_nat s))"
proof -
  obtain c r where s: "s = c # r" using assms(1) by (cases s) auto
  have f: "fl (of_nat (read_nat s)) = of_nat (read_nat s)"
    using fl_int [of "int (read_nat s)"] assms(3) by simp
  have "(of_nat (read_nat s) :: rat) \<le> of_nat (2 ^ 53)" using assms(3) by (simp only: of_nat_le_iff)
  then have "(of_nat (read_nat s) :: rat) < 2 ^ 1024" by simp
  moreover have "- (2 ^ 1024) < (of_nat (read_nat s) :: rat)"
    by (rule less_le_trans [of _ 0]) auto
  ultimately have td: "to_double (of_nat (read_nat s)) = Num (of_nat (read_nat s))"
    by (simp add: to_double_def f)
  have tr: "js_trim s = s" using assms(2) by (simp add: js_trim_visible digit_visible)
  have dv: "decimal_value s = Some (of_nat (read_nat s))"
    using assms(1,2) by (rule decimal_value_digits)
  have c: "is_digit c" using assms(2) s by simp
  have h: "r \<noteq> [] \<Longrightarrow> is_digit (hd r)" using assms(2) s by (cases r) auto
  have "s \<noteq> ''Infinity''" using s digit_not_alpha [OF c] by auto
  then have sv: "signed_value False s = Num (of_nat (read_nat s))"
    by (simp only: signed_value_def dv td option.case if_False)
  have nr: "(c = CHR ''0'' \<and> r \<noteq> [] \<and> hd r \<in> X) = False"
    if "X \<subseteq> {CHR ''x'', CHR ''X'', CHR ''o'', CHR ''O'', CHR ''b'', CHR ''B''}" for X
    using that h digit_not_alpha by fastforce
  have nx: "(c = CHR ''0'' \<and> r \<noteq> [] \<and> hd r \<in> {CHR ''x'', CHR ''X''}) = False"
    and no: "(c = CHR ''0'' \<and> r \<noteq> [] \<and> hd r \<in> {CHR ''o'', CHR ''O''}) = False"
    and nb: "(c = CHR ''0'' \<and> r \<noteq> [] \<and> hd r \<in> {CHR ''b'', CHR ''B''}) = False"
    by (rule nr, simp)+
  have sg: "(c = CHR ''-'') = False" "(c = CHR ''+'') = False"
    using digit_not_alpha [OF c] by auto
  have "js_number s = signed_value False (c # r)"
    unfolding js_number_def tr unfolding s list.case nx no nb sg by simp
  then show ?thesis using sv s by simp
qed

end
