(* ===== verification/JS_Date.thy ===== *)
theory JS_Date
  imports JS_Number "HOL-Library.Monad_Syntax"
begin

text \<open>
  Dates of the language.  A time value is an integer number of milliseconds since 1970-01-01
  UTC, at most \<open>8.64e15\<close> in absolute value; an invalid date is \<open>None\<close>.  \<open>to_iso\<close> is
  \<open>toISOString\<close>, \<open>iso_parse\<close> reads the date-time string format of the language, and
  \<open>date_parse\<close> is \<open>Date.parse\<close>: for every string outside that format (and for calendar
  dates that do not exist, such as 30 February, where engines differ) the result is up to the
  engine, so it is a parameter, a field of the record \<open>js_host\<close>.

  Proved here: the calendar functions are inverse to each other, \<open>iso_parse\<close> inverts
  \<open>to_iso\<close>, and printing is injective.
\<close>

section \<open>The engine's implementation-defined operations\<close>

record js_host =
  date_fallback :: "string \<Rightarrow> int option"
  local_to_utc :: "int \<Rightarrow> int"
  utc_to_local :: "int \<Rightarrow> int"
  locale_compare :: "string \<Rightarrow> string \<Rightarrow> int"

text \<open>An engine that runs in UTC and accepts the standard format only, for concrete evaluations.\<close>

definition utc_host :: js_host where
  "utc_host = \<lparr>date_fallback = \<lambda>_. None, local_to_utc = \<lambda>t. t, utc_to_local = \<lambda>t. t,
     locale_compare = \<lambda>a b. int (length a) - int (length b)\<rparr>"

datatype js_error = RangeError | TypeError | UriError | HttpError nat string

section \<open>The calendar\<close>

definition day_ms :: int where "day_ms = 86400000"

definition is_leap :: "int \<Rightarrow> bool" where
  "is_leap y = (4 dvd y \<and> (\<not> 100 dvd y \<or> 400 dvd y))"

text \<open>Day number of 1 January of year \<open>y\<close>.\<close>

definition day_from_year :: "int \<Rightarrow> int" where
  "day_from_year y =
     365 * (y - 1970) + (y - 1969) div 4 - (y - 1901) div 100 + (y - 1601) div 400"

definition month_start :: "bool \<Rightarrow> int \<Rightarrow> int" where
  "month_start leap m =
     (let l = (if leap then 1 else 0) in
      if m \<le> 1 then 0 else if m = 2 then 31 else if m = 3 then 59 + l else if m = 4 then 90 + l
      else if m = 5 then 120 + l else if m = 6 then 151 + l else if m = 7 then 181 + l
      else if m = 8 then 212 + l else if m = 9 then 243 + l else if m = 10 then 273 + l
      else if m = 11 then 304 + l else if m = 12 then 334 + l else 365 + l)"

definition month_of_yday :: "bool \<Rightarrow> int \<Rightarrow> int" where
  "month_of_yday leap d =
     (if d < month_start leap 2 then 1 else if d < month_start leap 3 then 2
      else if d < month_start leap 4 then 3 else if d < month_start leap 5 then 4
      else if d < month_start leap 6 then 5 else if d < month_start leap 7 then 6
      else if d < month_start leap 8 then 7 else if d < month_start leap 9 then 8
      else if d < month_start leap 10 then 9 else if d < month_start leap 11 then 10
      else if d < month_start leap 12 then 11 else 12)"

definition month_len :: "bool \<Rightarrow> int \<Rightarrow> int" where
  "month_len leap m = month_start leap (m + 1) - month_start leap m"

definition legal_date :: "int \<Rightarrow> int \<Rightarrow> int \<Rightarrow> bool" where
  "legal_date y m d = (1 \<le> m \<and> m \<le> 12 \<and> 1 \<le> d \<and> d \<le> month_len (is_leap y) m)"

definition day_of_civil :: "int \<Rightarrow> int \<Rightarrow> int \<Rightarrow> int" where
  "day_of_civil y m d = day_from_year y + month_start (is_leap y) m + d - 1"

definition year_of_day :: "int \<Rightarrow> int" where
  "year_of_day n =
     (let y = 1970 + (400 * n) div 146097 in
      if n < day_from_year y then y - 1 else if day_from_year (y + 1) \<le> n then y + 1 else y)"

definition civil_of_day :: "int \<Rightarrow> int \<times> int \<times> int" where
  "civil_of_day n =
     (let y = year_of_day n; yd = n - day_from_year y; m = month_of_yday (is_leap y) yd
      in (y, m, yd - month_start (is_leap y) m + 1))"

lemma div_succ:
  assumes "0 < (k::int)" shows "(x + 1) div k = x div k + (if k dvd x + 1 then 1 else 0)"
proof (cases "k dvd x + 1")
  case True
  then obtain c where c: "x + 1 = k * c" by (rule dvdE)
  then have "x = k * (c - 1) + (k - 1)" by (simp add: algebra_simps)
  then have "x div k = c - 1" using assms int_div_pos_eq [of x k "c - 1" "k - 1"] by auto
  with True c assms show ?thesis by simp
next
  case False
  have "x mod k \<noteq> k - 1"
  proof
    assume "x mod k = k - 1"
    then have "x + 1 = k * (x div k + 1)" using mult_div_mod_eq [of k x] by (simp only: distrib_left)
    with False show False by (metis dvd_triv_left)
  qed
  then have "x mod k + 1 < k" "0 \<le> x mod k + 1"
    using pos_mod_bound [OF assms, of x] pos_mod_sign [OF assms, of x] by linarith+
  moreover have "x + 1 = k * (x div k) + (x mod k + 1)" by simp
  ultimately have "(x + 1) div k = x div k"
    using int_div_pos_eq [of "x + 1" k "x div k" "x mod k + 1"] by blast
  with False show ?thesis by simp
qed

lemma day_from_year_step: "day_from_year (y + 1) = day_from_year y + (if is_leap y then 366 else 365)"
proof -
  have q: "(4 dvd y - 1968) = (4 dvd y)" "(100 dvd y - 1900) = (100 dvd y)"
    "(400 dvd y - 1600) = (400 dvd y)"
    by (rule dvd_diff_left_iff, simp)+
  have a: "(y - 1968) div 4 = (y - 1969) div 4 + (if 4 dvd y then 1 else 0)"
    using div_succ [of 4 "y - 1969"] unfolding q(1) [symmetric] by simp
  have b: "(y - 1900) div 100 = (y - 1901) div 100 + (if 100 dvd y then 1 else 0)"
    using div_succ [of 100 "y - 1901"] unfolding q(2) [symmetric] by simp
  have c: "(y - 1600) div 400 = (y - 1601) div 400 + (if 400 dvd y then 1 else 0)"
    using div_succ [of 400 "y - 1601"] unfolding q(3) [symmetric] by simp
  have d: "400 dvd y \<Longrightarrow> 100 dvd y" "100 dvd y \<Longrightarrow> 4 dvd y"
    using dvd_trans [of 100 400 y] dvd_trans [of 4 100 y] by simp_all
  have e: "y + 1 - 1969 = y - 1968" "y + 1 - 1901 = y - 1900" "y + 1 - 1601 = y - 1600" by auto
  show ?thesis unfolding day_from_year_def e a b c is_leap_def using d
    by (cases "4 dvd y"; cases "100 dvd y"; cases "400 dvd y"; simp)
qed

lemma day_from_year_bounds:
  "400 * day_from_year y \<le> 146097 * (y - 1970) + 589"
  "146097 * (y - 1970) - 506 \<le> 400 * day_from_year y"
proof -
  define a b c where "a = (y - 1969) div 4" and "b = (y - 1901) div 100" and "c = (y - 1601) div 400"
  have a: "4 * a \<le> y - 1969" "y - 1969 \<le> 4 * a + 3" by (simp_all add: a_def)
  have b: "100 * b \<le> y - 1901" "y - 1901 \<le> 100 * b + 99" by (simp_all add: b_def)
  have c: "400 * c \<le> y - 1601" "y - 1601 \<le> 400 * c + 399" by (simp_all add: c_def)
  have e: "400 * day_from_year y = 146000 * (y - 1970) + 100 * (4 * a) - 4 * (100 * b) + 400 * c"
    by (simp add: day_from_year_def a_def b_def c_def)
  have "100 * (4 * a) \<le> 100 * (y - 1969)" "4 * (y - 1901) \<le> 4 * (100 * b + 99)"
    using a(1) b(2) by simp_all
  then show "400 * day_from_year y \<le> 146097 * (y - 1970) + 589" using e c(1) by (simp add: algebra_simps)
  have "100 * (y - 1969) \<le> 100 * (4 * a + 3)" "4 * (100 * b) \<le> 4 * (y - 1901)"
    using a(2) b(1) by simp_all
  then show "146097 * (y - 1970) - 506 \<le> 400 * day_from_year y" using e c(2) by (simp add: algebra_simps)
qed

lemma year_of_day_bounds: "day_from_year (year_of_day n) \<le> n \<and> n < day_from_year (year_of_day n + 1)"
proof -
  define y where "y = 1970 + (400 * n) div 146097"
  have y: "146097 * (y - 1970) \<le> 400 * n" "400 * n < 146097 * (y - 1969)"
    by (auto simp: y_def)
  note s = day_from_year_step [of y] day_from_year_step [of "y - 1"] day_from_year_step [of "y + 1"]
  note b = day_from_year_bounds [of y] day_from_year_bounds [of "y + 1"]
  show ?thesis
    using y s b unfolding year_of_day_def y_def [symmetric] Let_def by (auto split: if_splits)
qed

lemma day_from_year_mono: "y \<le> z \<Longrightarrow> day_from_year y \<le> day_from_year z"
proof (induction "nat (z - y)" arbitrary: z)
  case (Suc k)
  then have "k = nat ((z - 1) - y)" "y \<le> z - 1" by linarith+
  then have "day_from_year y \<le> day_from_year (z - 1)" using Suc by blast
  also have "\<dots> \<le> day_from_year z" using day_from_year_step [of "z - 1"] by (simp split: if_splits)
  finally show ?case .
qed simp

lemma year_of_day_unique: "day_from_year y \<le> n \<Longrightarrow> n < day_from_year (y + 1) \<Longrightarrow> year_of_day n = y"
  using year_of_day_bounds [of n] day_from_year_mono [of "y + 1" "year_of_day n"]
    day_from_year_mono [of "year_of_day n + 1" y] by linarith

lemma month_start_vals [simp]:
  "month_start l 1 = 0" "month_start l 2 = 31"
  "month_start l 3 = 59 + of_bool l" "month_start l 4 = 90 + of_bool l"
  "month_start l 5 = 120 + of_bool l" "month_start l 6 = 151 + of_bool l"
  "month_start l 7 = 181 + of_bool l" "month_start l 8 = 212 + of_bool l"
  "month_start l 9 = 243 + of_bool l" "month_start l 10 = 273 + of_bool l"
  "month_start l 11 = 304 + of_bool l" "month_start l 12 = 334 + of_bool l"
  "month_start l 13 = 365 + of_bool l"
  by (simp_all add: month_start_def)

lemma month_cases: "1 \<le> m \<Longrightarrow> m \<le> 12 \<Longrightarrow>
    m = 1 \<or> m = 2 \<or> m = 3 \<or> m = 4 \<or> m = 5 \<or> m = 6 \<or> m = 7 \<or> m = 8 \<or> m = 9 \<or> m = 10 \<or> m = 11 \<or> m = (12::int)"
  by arith

lemma month_of_yday_cases:
  obtains m where "month_of_yday leap d = m" "1 \<le> m" "m \<le> 12"
    "m = 1 \<or> month_start leap m \<le> d" "m = 12 \<or> d < month_start leap (m + 1)"
  by (rule that [OF refl]) (simp_all add: month_of_yday_def)

lemma month_of_yday_bounds:
  assumes "0 \<le> d" "d < 365 + of_bool leap"
  shows "1 \<le> month_of_yday leap d" "month_of_yday leap d \<le> 12"
    "month_start leap (month_of_yday leap d) \<le> d" "d < month_start leap (month_of_yday leap d + 1)"
  using assms by (cases rule: month_of_yday_cases [of leap d]; auto)+

lemma month_of_yday_unique:
  assumes "1 \<le> m" "m \<le> 12" "month_start leap m \<le> d" "d < month_start leap (m + 1)"
  shows "month_of_yday leap d = m"
  using month_cases [OF assms(1,2)] assms(3,4)
  by (cases leap) (elim disjE; simp add: month_of_yday_def)+

lemma month_start_range: "1 \<le> m \<Longrightarrow> m \<le> 12 \<Longrightarrow>
    0 \<le> month_start leap m \<and> month_start leap (m + 1) \<le> 365 + of_bool leap"
  by (drule month_cases, assumption) (elim disjE; simp)

theorem civil_of_day_of_civil:
  assumes "legal_date y m d" shows "civil_of_day (day_of_civil y m d) = (y, m, d)"
proof -
  let ?yd = "month_start (is_leap y) m + d - 1"
  have m: "1 \<le> m" "m \<le> 12" and d: "1 \<le> d" "d \<le> month_start (is_leap y) (m + 1) - month_start (is_leap y) m"
    using assms by (auto simp: legal_date_def month_len_def)
  have yd: "0 \<le> ?yd" "?yd < 365 + of_bool (is_leap y)"
    using month_start_range [OF m, of "is_leap y"] d by linarith+
  then have "year_of_day (day_of_civil y m d) = y"
    by (intro year_of_day_unique) (auto simp: day_of_civil_def day_from_year_step)
  moreover have "month_of_yday (is_leap y) ?yd = m"
    using m d by (intro month_of_yday_unique) auto
  moreover have "day_of_civil y m d - day_from_year y = ?yd" by (simp add: day_of_civil_def)
  ultimately show ?thesis by (simp add: civil_of_day_def Let_def)
qed

theorem day_of_civil_of_day:
  "civil_of_day n = (y, m, d) \<Longrightarrow> legal_date y m d \<and> day_of_civil y m d = n"
proof -
  assume e: "civil_of_day n = (y, m, d)"
  let ?yd = "n - day_from_year y"
  have y: "y = year_of_day n" and m: "m = month_of_yday (is_leap y) ?yd"
    and d: "d = ?yd - month_start (is_leap y) m + 1"
    using e by (auto simp: civil_of_day_def Let_def)
  have "0 \<le> ?yd" "?yd < 365 + of_bool (is_leap y)"
    using year_of_day_bounds [of n] day_from_year_step [of y] y by auto
  from month_of_yday_bounds [OF this] m d show ?thesis
    by (auto simp: legal_date_def month_len_def day_of_civil_def)
qed

section \<open>Printing\<close>

text \<open>The largest time value (\<open>TimeClip\<close>).\<close>

definition max_time :: int where "max_time = 8640000000000000"

definition time_clip :: "int \<Rightarrow> int option" where
  "time_clip t = (if \<bar>t\<bar> \<le> max_time then Some t else None)"

definition year_string :: "int \<Rightarrow> string" where
  "year_string y =
     (if 0 \<le> y \<and> y \<le> 9999 then pad_nat 4 (nat y)
      else (if y < 0 then CHR ''-'' else CHR ''+'') # pad_nat 6 (nat \<bar>y\<bar>))"

definition date_string :: "int \<Rightarrow> string" where
  "date_string n =
     (case civil_of_day n of (y, m, d) \<Rightarrow>
        year_string y @ ''-'' @ pad_nat 2 (nat m) @ ''-'' @ pad_nat 2 (nat d))"

definition clock_string :: "int \<Rightarrow> string" where
  "clock_string u =
     pad_nat 2 (nat (u div 3600000)) @ '':'' @ pad_nat 2 (nat (u div 60000 mod 60)) @ '':'' @
     pad_nat 2 (nat (u div 1000 mod 60)) @ ''.'' @ pad_nat 3 (nat (u mod 1000))"

definition to_iso :: "int \<Rightarrow> string" where
  "to_iso t = date_string (t div day_ms) @ ''T'' @ clock_string (t mod day_ms) @ ''Z''"

text \<open>\<open>new Date(t).toISOString()\<close>: a \<open>RangeError\<close> outside the range of time values.\<close>

definition to_iso_string :: "int \<Rightarrow> js_error + string" where
  "to_iso_string t = (if \<bar>t\<bar> \<le> max_time then Inr (to_iso t) else Inl RangeError)"

section \<open>Parsing\<close>

definition take_num :: "nat \<Rightarrow> string \<Rightarrow> (int \<times> string) option" where
  "take_num w s =
     (if length (take w s) = w \<and> list_all is_digit (take w s)
      then Some (int (read_nat (take w s)), drop w s) else None)"

definition expect :: "char \<Rightarrow> string \<Rightarrow> string option" where
  "expect c s = (case s of [] \<Rightarrow> None | x # r \<Rightarrow> if x = c then Some r else None)"

definition parse_year :: "string \<Rightarrow> (int \<times> string) option" where
  "parse_year s =
     (case s of
        [] \<Rightarrow> None
      | c # r \<Rightarrow>
          if c = CHR ''+'' then take_num 6 r
          else if c = CHR ''-'' then
            Option.bind (take_num 6 r) (\<lambda>(y, r). if y = 0 then None else Some (- y, r))
          else take_num 4 s)"

text \<open>Month and day, both optional.\<close>

definition parse_month_day :: "string \<Rightarrow> (int \<times> int \<times> string) option" where
  "parse_month_day s =
     (case expect CHR ''-'' s of
        None \<Rightarrow> Some (1, 1, s)
      | Some r \<Rightarrow>
          Option.bind (take_num 2 r) (\<lambda>(m, r).
            case expect CHR ''-'' r of
              None \<Rightarrow> Some (m, 1, r)
            | Some r \<Rightarrow> Option.bind (take_num 2 r) (\<lambda>(d, r). Some (m, d, r))))"

text \<open>Seconds and milliseconds, both optional.\<close>

definition parse_seconds :: "string \<Rightarrow> (int \<times> int \<times> string) option" where
  "parse_seconds s =
     (case expect CHR '':'' s of
        None \<Rightarrow> Some (0, 0, s)
      | Some r \<Rightarrow>
          Option.bind (take_num 2 r) (\<lambda>(sec, r).
            case expect CHR ''.'' r of
              None \<Rightarrow> Some (sec, 0, r)
            | Some r \<Rightarrow> Option.bind (take_num 3 r) (\<lambda>(ms, r). Some (sec, ms, r))))"

definition parse_clock :: "string \<Rightarrow> (int \<times> string) option" where
  "parse_clock s =
     do {
       (h, r) \<leftarrow> take_num 2 s;
       r \<leftarrow> expect CHR '':'' r;
       (mi, r) \<leftarrow> take_num 2 r;
       (sec, ms, r) \<leftarrow> parse_seconds r;
       if mi \<le> 59 \<and> sec \<le> 59 \<and> (h \<le> 23 \<or> (h = 24 \<and> mi = 0 \<and> sec = 0 \<and> ms = 0))
       then Some (h * 3600000 + mi * 60000 + sec * 1000 + ms, r) else None
     }"

text \<open>The zone: \<open>Z\<close>, an offset (in milliseconds), or none for local time.\<close>

definition parse_zone :: "string \<Rightarrow> int option option" where
  "parse_zone s =
     (case s of
        [] \<Rightarrow> Some None
      | c # r \<Rightarrow>
          if c = CHR ''Z'' then (if r = [] then Some (Some 0) else None)
          else if c = CHR ''+'' \<or> c = CHR ''-'' then
            do {
              (h, r) \<leftarrow> take_num 2 r;
              r \<leftarrow> expect CHR '':'' r;
              (mi, r) \<leftarrow> take_num 2 r;
              if r = [] \<and> h \<le> 23 \<and> mi \<le> 59
              then Some (Some ((if c = CHR ''-'' then - 1 else 1) * (h * 3600000 + mi * 60000)))
              else None
            }
          else None)"

definition iso_parse :: "(int \<Rightarrow> int) \<Rightarrow> string \<Rightarrow> int option" where
  "iso_parse loc s =
     do {
       (y, r) \<leftarrow> parse_year s;
       (m, d, r) \<leftarrow> parse_month_day r;
       if legal_date y m d then
         (if r = [] then Some (day_of_civil y m d * day_ms)
          else do {
            r \<leftarrow> expect CHR ''T'' r;
            (u, r) \<leftarrow> parse_clock r;
            z \<leftarrow> parse_zone r;
            Some (let t = day_of_civil y m d * day_ms + u in
                  case z of None \<Rightarrow> loc t | Some off \<Rightarrow> t - off)
          })
       else None
     }"

definition date_parse :: "js_host \<Rightarrow> string \<Rightarrow> int option" where
  "date_parse H s =
     Option.bind
       (case iso_parse (local_to_utc H) s of Some t \<Rightarrow> Some t | None \<Rightarrow> date_fallback H s)
       time_clip"

lemma take_num_pad: "n < 10 ^ w \<Longrightarrow> take_num w (pad_nat w n @ r) = Some (int n, r)"
  by (simp add: take_num_def pad_nat_digits read_pad_nat)

lemma expect_Cons [simp]: "expect c (x # r) = (if x = c then Some r else None)"
  by (simp add: expect_def)

lemma expect_Nil [simp]: "expect c [] = None"
  by (simp add: expect_def)

lemma pad_nat_hd: "pad_nat w n = c # r \<Longrightarrow> is_digit c"
  using pad_nat_digits [of w n] by simp

lemma parse_year_string:
  assumes "\<bar>y\<bar> < 1000000" shows "parse_year (year_string y @ r) = Some (y, r)"
proof (cases "0 \<le> y \<and> y \<le> 9999")
  case True
  obtain c v where p: "pad_nat 4 (nat y) = c # v" 
    by (cases "pad_nat 4 (nat y)") (use length_pad_nat [of 4 "nat y"] in auto)
  then have "is_digit c" by (rule pad_nat_hd)
  from digit_not_alpha [OF this] have "parse_year (year_string y @ r) = take_num 4 (pad_nat 4 (nat y) @ r)"
    using True p by (auto simp: parse_year_def year_string_def)
  moreover have "nat y < 10 ^ 4" using True by (simp add: nat_less_iff)
  ultimately show ?thesis using True take_num_pad [of "nat y" 4 r] by simp
next
  case False
  then show ?thesis
    using assms take_num_pad [of "nat \<bar>y\<bar>" 6 r] by (auto simp: parse_year_def year_string_def)
qed

lemma parse_month_day_string:
  assumes "0 \<le> m" "m < 100" "0 \<le> d" "d < 100"
  shows "parse_month_day (''-'' @ pad_nat 2 (nat m) @ ''-'' @ pad_nat 2 (nat d) @ r) = Some (m, d, r)"
  using assms take_num_pad [of "nat m" 2] take_num_pad [of "nat d" 2]
  by (simp add: parse_month_day_def)

lemma clock_fields:
  assumes "0 \<le> u" "u < day_ms"
  shows "0 \<le> u div 3600000" "u div 3600000 \<le> 23"
    "u div 3600000 * 3600000 + (u div 60000 mod 60) * 60000 + (u div 1000 mod 60) * 1000 + u mod 1000 = u"
proof -
  show "0 \<le> u div 3600000" using assms by (simp add: pos_imp_zdiv_nonneg_iff)
  show "u div 3600000 \<le> 23" using assms by (simp add: day_ms_def)
  have "u div 60000 mod 60 = u div 60000 - 60 * (u div 3600000)"
    by (simp add: minus_mult_div_eq_mod [symmetric] zdiv_zmult2_eq [symmetric])
  moreover have "u div 1000 mod 60 = u div 1000 - 60 * (u div 60000)"
    by (simp add: minus_mult_div_eq_mod [symmetric] zdiv_zmult2_eq [symmetric])
  moreover have "u mod 1000 = u - 1000 * (u div 1000)"
    by (simp add: minus_mult_div_eq_mod [symmetric])
  ultimately show "u div 3600000 * 3600000 + (u div 60000 mod 60) * 60000
      + (u div 1000 mod 60) * 1000 + u mod 1000 = u" by linarith
qed

lemma parse_clock_fields:
  assumes "0 \<le> h" "h \<le> 23" "0 \<le> mi" "mi \<le> 59" "0 \<le> sec" "sec \<le> 59" "0 \<le> ms" "ms \<le> 999"
  shows "parse_clock (pad_nat 2 (nat h) @ '':'' @ pad_nat 2 (nat mi) @ '':'' @
      pad_nat 2 (nat sec) @ ''.'' @ pad_nat 3 (nat ms) @ r)
    = Some (h * 3600000 + mi * 60000 + sec * 1000 + ms, r)"
  using assms take_num_pad [of "nat h" 2] take_num_pad [of "nat mi" 2] take_num_pad [of "nat sec" 2]
    take_num_pad [of "nat ms" 3]
  by (simp add: parse_clock_def parse_seconds_def)

lemma parse_clock_string:
  assumes "0 \<le> u" "u < day_ms" shows "parse_clock (clock_string u @ r) = Some (u, r)"
proof -
  note f = clock_fields [OF assms]
  have "clock_string u @ r = pad_nat 2 (nat (u div 3600000)) @ '':'' @ pad_nat 2 (nat (u div 60000 mod 60)) @
      '':'' @ pad_nat 2 (nat (u div 1000 mod 60)) @ ''.'' @ pad_nat 3 (nat (u mod 1000)) @ r"
    by (simp add: clock_string_def)
  also have "parse_clock \<dots> = Some (u div 3600000 * 3600000 + (u div 60000 mod 60) * 60000
      + (u div 1000 mod 60) * 1000 + u mod 1000, r)"
    using f(1,2) by (intro parse_clock_fields) auto
  finally show ?thesis unfolding f(3) .
qed

lemma month_len_bound: "legal_date y m d \<Longrightarrow> 0 \<le> m \<and> m < 100 \<and> 0 \<le> d \<and> d < 100"
  using month_cases [of m] unfolding legal_date_def month_len_def
  by (elim conjE disjE) (auto simp: of_bool_def split: if_splits)

lemma year_of_day_range:
  assumes "\<bar>n\<bar> \<le> 100000001" shows "\<bar>year_of_day n\<bar> < 1000000"
proof -
  define y where "y = year_of_day n"
  have "day_from_year y \<le> n" "n < day_from_year (y + 1)"
    using year_of_day_bounds [of n] by (auto simp: y_def)
  moreover have "146097 * (y - 1970) - 506 \<le> 400 * day_from_year y"
    "400 * day_from_year (y + 1) \<le> 146097 * (y - 1969) + 589"
    using day_from_year_bounds [of y] day_from_year_bounds [of "y + 1"] by simp_all
  ultimately have "146097 * (y - 1970) \<le> 400 * n + 506" "400 * n \<le> 146097 * (y - 1969) + 589"
    by linarith+
  moreover have "n \<le> 100000001" "- 100000001 \<le> n" using assms by linarith+
  ultimately have "y < 1000000" "- 1000000 < y" by (simp_all add: right_diff_distrib)
  then show ?thesis by (simp add: y_def abs_less_iff)
qed

lemma parse_date_string:
  assumes "\<bar>n\<bar> \<le> 100000001" "civil_of_day n = (y, m, d)"
  shows "Option.bind (parse_year (date_string n @ r)) (\<lambda>(y, r). map_option (Pair y) (parse_month_day r))
    = Some (y, m, d, r)"
proof -
  have l: "legal_date y m d" using day_of_civil_of_day [OF assms(2)] by blast
  have "y = year_of_day n" using assms(2) by (simp add: civil_of_day_def Let_def)
  then have "\<bar>y\<bar> < 1000000" using year_of_day_range [OF assms(1)] by simp
  from parse_year_string [OF this] show ?thesis
    using parse_month_day_string [of m d r] month_len_bound [OF l] assms(2)
    by (simp add: date_string_def)
qed

theorem iso_parse_to_iso:
  assumes "\<bar>t\<bar> \<le> max_time" shows "iso_parse loc (to_iso t) = Some t"
proof -
  obtain y m d where c: "civil_of_day (t div day_ms) = (y, m, d)" by (cases "civil_of_day (t div day_ms)")
  have n: "\<bar>t div day_ms\<bar> \<le> 100000001"
    using assms unfolding max_time_def day_ms_def by linarith
  have l: "legal_date y m d" and day: "day_of_civil y m d = t div day_ms"
    using day_of_civil_of_day [OF c] by auto
  have u: "0 \<le> t mod day_ms" "t mod day_ms < day_ms" by (auto simp: day_ms_def)
  have "\<bar>y\<bar> < 1000000"
    using c year_of_day_range [OF n] by (simp add: civil_of_day_def Let_def)
  note py = parse_year_string [OF this]
  have md: "parse_month_day (''-'' @ pad_nat 2 (nat m) @ ''-'' @ pad_nat 2 (nat d) @ r) = Some (m, d, r)" for r
    using parse_month_day_string [of m d] month_len_bound [OF l] by blast
  have e: "to_iso t = year_string y @ (''-'' @ pad_nat 2 (nat m) @ ''-'' @ pad_nat 2 (nat d) @
      (''T'' @ clock_string (t mod day_ms) @ ''Z''))"
    by (simp add: to_iso_def date_string_def c)
  show ?thesis
    unfolding iso_parse_def e py md bind.simps prod.case
    using parse_clock_string [OF u] l by (simp add: day parse_zone_def)
qed

corollary date_parse_to_iso: "\<bar>t\<bar> \<le> max_time \<Longrightarrow> date_parse H (to_iso t) = Some t"
  by (simp add: date_parse_def iso_parse_to_iso time_clip_def)

lemma date_parse_range: "date_parse H s = Some t \<Longrightarrow> \<bar>t\<bar> \<le> max_time"
  by (auto simp: date_parse_def time_clip_def bind_eq_Some_conv split: if_splits)

lemma to_iso_inj: "\<bar>t\<bar> \<le> max_time \<Longrightarrow> \<bar>u\<bar> \<le> max_time \<Longrightarrow> to_iso t = to_iso u \<Longrightarrow> t = u"
  by (metis iso_parse_to_iso option.inject)

section \<open>Calendar dates as text\<close>

text \<open>The pattern \<open>/^\d{4}-\d{2}-\d{2}$/\<close>, and the three numbers it delimits.\<close>

definition date_shape :: "string \<Rightarrow> bool" where
  "date_shape s =
     (length s = 10 \<and> list_all is_digit (take 4 s) \<and> s ! 4 = CHR ''-'' \<and>
      list_all is_digit (take 2 (drop 5 s)) \<and> s ! 7 = CHR ''-'' \<and> list_all is_digit (drop 8 s))"

definition shape_year :: "string \<Rightarrow> int" where "shape_year s = int (read_nat (take 4 s))"
definition shape_month :: "string \<Rightarrow> int" where "shape_month s = int (read_nat (take 2 (drop 5 s)))"
definition shape_day :: "string \<Rightarrow> int" where "shape_day s = int (read_nat (drop 8 s))"

text \<open>A date that exists, written in that pattern.\<close>

definition calendar_date :: "string \<Rightarrow> bool" where
  "calendar_date s = (date_shape s \<and> legal_date (shape_year s) (shape_month s) (shape_day s))"

definition ymd_string :: "int \<Rightarrow> int \<Rightarrow> int \<Rightarrow> string" where
  "ymd_string y m d = pad_nat 4 (nat y) @ ''-'' @ pad_nat 2 (nat m) @ ''-'' @ pad_nat 2 (nat d)"

lemma length_ymd_string [simp]: "length (ymd_string y m d) = 10"
  by (simp add: ymd_string_def)

lemma date_shape_ymd:
  assumes "date_shape s"
  shows "s = ymd_string (shape_year s) (shape_month s) (shape_day s)"
    "0 \<le> shape_year s" "shape_year s \<le> 9999"
proof -
  have l: "length s = 10" and d: "list_all is_digit (take 4 s)" "list_all is_digit (take 2 (drop 5 s))"
    "list_all is_digit (drop 8 s)" and c: "s ! 4 = CHR ''-''" "s ! 7 = CHR ''-''"
    using assms by (auto simp: date_shape_def)
  have "s = take 4 s @ s ! 4 # take 2 (drop 5 s) @ s ! 7 # drop 8 s"
  proof -
    have a: "s = take 4 s @ drop 4 s" by simp
    have b: "drop 4 s = s ! 4 # drop 5 s" using l by (simp add: Cons_nth_drop_Suc [symmetric])
    have e: "drop 5 s = take 2 (drop 5 s) @ drop 2 (drop 5 s)" by (simp only: append_take_drop_id)
    have f: "drop 2 (drop 5 s) = s ! 7 # drop 8 s" using l by (simp add: Cons_nth_drop_Suc [symmetric])
    show ?thesis by (subst a, subst b, subst e, subst f) simp
  qed
  moreover have "pad_nat 4 (read_nat (take 4 s)) = take 4 s"
    "pad_nat 2 (read_nat (take 2 (drop 5 s))) = take 2 (drop 5 s)"
    "pad_nat 2 (read_nat (drop 8 s)) = drop 8 s"
    using pad_read_nat [OF d(1)] pad_read_nat [OF d(2)] pad_read_nat [OF d(3)] l by auto
  ultimately show "s = ymd_string (shape_year s) (shape_month s) (shape_day s)"
    using c by (simp add: ymd_string_def shape_year_def shape_month_def shape_day_def)
  show "0 \<le> shape_year s" by (simp add: shape_year_def)
  show "shape_year s \<le> 9999"
    using read_nat_digits_bound [OF d(1)] l by (simp add: shape_year_def)
qed

lemma calendar_date_ymd:
  assumes "legal_date y m d" "0 \<le> y" "y \<le> 9999"
  shows "calendar_date (ymd_string y m d)" "shape_year (ymd_string y m d) = y"
    "shape_month (ymd_string y m d) = m" "shape_day (ymd_string y m d) = d"
proof -
  have b: "0 \<le> m" "m < 100" "0 \<le> d" "d < 100" using month_len_bound [OF assms(1)] by auto
  have t: "take 4 (ymd_string y m d) = pad_nat 4 (nat y)"
    "take 2 (drop 5 (ymd_string y m d)) = pad_nat 2 (nat m)"
    "drop 8 (ymd_string y m d) = pad_nat 2 (nat d)"
    "ymd_string y m d ! 4 = CHR ''-''" "ymd_string y m d ! 7 = CHR ''-''"
    by (simp_all add: ymd_string_def nth_append)
  have "nat y < 10 ^ 4" "nat m < 10 ^ 2" "nat d < 10 ^ 2" using assms b by (simp_all add: nat_less_iff)
  then show f: "shape_year (ymd_string y m d) = y" "shape_month (ymd_string y m d) = m"
    "shape_day (ymd_string y m d) = d"
    using assms b by (simp_all add: shape_year_def shape_month_def shape_day_def t read_pad_nat)
  show "calendar_date (ymd_string y m d)"
    using assms(1) by (simp add: calendar_date_def date_shape_def f t pad_nat_digits)
qed

lemma year_string_4: "0 \<le> y \<Longrightarrow> y \<le> 9999 \<Longrightarrow> year_string y = pad_nat 4 (nat y)"
  by (simp add: year_string_def)

text \<open>The first ten characters of an ISO string are its date, if the year has four digits.\<close>

lemma iso_date_part:
  assumes "civil_of_day (t div day_ms) = (y, m, d)" "0 \<le> y" "y \<le> 9999"
  shows "take 10 (to_iso t) = ymd_string y m d"
  using assms by (simp add: to_iso_def date_string_def year_string_4 ymd_string_def)

lemma iso_expanded_year:
  assumes "civil_of_day (t div day_ms) = (y, m, d)" "\<not> (0 \<le> y \<and> y \<le> 9999)"
  shows "\<not> date_shape (take 10 (to_iso t))"
proof -
  have "take 10 (to_iso t) ! 0 \<in> {CHR ''-'', CHR ''+''}"
    using assms by (auto simp: to_iso_def date_string_def year_string_def)
  moreover have "take 10 (to_iso t) \<noteq> []" using assms by (auto simp: to_iso_def date_string_def year_string_def)
  ultimately show ?thesis
    by (cases "take 10 (to_iso t)") (auto simp: date_shape_def is_digit_def take_Cons')
qed

theorem iso_prefix_calendar: "date_shape (take 10 (to_iso t)) \<Longrightarrow> calendar_date (take 10 (to_iso t))"
proof -
  assume s: "date_shape (take 10 (to_iso t))"
  obtain y m d where c: "civil_of_day (t div day_ms) = (y, m, d)" by (cases "civil_of_day (t div day_ms)")
  with s iso_expanded_year have y: "0 \<le> y" "y \<le> 9999" by blast+
  have "legal_date y m d" using day_of_civil_of_day [OF c] by blast
  then show ?thesis using y by (simp add: iso_date_part [OF c y] calendar_date_ymd)
qed

lemma parse_midnight:
  assumes "calendar_date s"
  shows "iso_parse loc (s @ ''T00:00:00Z'')
    = Some (day_of_civil (shape_year s) (shape_month s) (shape_day s) * day_ms)"
proof -
  let ?y = "shape_year s" and ?m = "shape_month s" and ?d = "shape_day s"
  have sh: "date_shape s" and l: "legal_date ?y ?m ?d" using assms by (auto simp: calendar_date_def)
  note f = date_shape_ymd [OF sh]
  have y: "\<bar>?y\<bar> < 1000000" using f(2,3) by linarith
  have e: "s @ ''T00:00:00Z'' = year_string ?y @ (''-'' @ pad_nat 2 (nat ?m) @ ''-'' @ pad_nat 2 (nat ?d) @
      ''T00:00:00Z'')"
    by (subst f(1)) (simp add: ymd_string_def year_string_4 [OF f(2,3)])
  have md: "parse_month_day (''-'' @ pad_nat 2 (nat ?m) @ ''-'' @ pad_nat 2 (nat ?d) @ r) = Some (?m, ?d, r)" for r
    using month_len_bound [OF l] by (intro parse_month_day_string) auto
  have z: "read_nat ''00'' = 0" by code_simp
  have "parse_clock ''00:00:00Z'' = Some (0, ''Z'')"
    by (simp add: parse_clock_def parse_seconds_def take_num_def is_digit_def z)
  then show ?thesis
    unfolding iso_parse_def e parse_year_string [OF y] md bind.simps prod.case
    using l by (simp add: parse_zone_def)
qed

lemma midnight_date:
  assumes "calendar_date s"
  shows "take 10 (to_iso (day_of_civil (shape_year s) (shape_month s) (shape_day s) * day_ms)) = s"
proof -
  have sh: "date_shape s" and l: "legal_date (shape_year s) (shape_month s) (shape_day s)"
    using assms by (auto simp: calendar_date_def)
  note f = date_shape_ymd [OF sh]
  have "day_of_civil (shape_year s) (shape_month s) (shape_day s) * day_ms div day_ms
    = day_of_civil (shape_year s) (shape_month s) (shape_day s)" by (simp add: day_ms_def)
  with civil_of_day_of_civil [OF l] have
    "civil_of_day (day_of_civil (shape_year s) (shape_month s) (shape_day s) * day_ms div day_ms)
      = (shape_year s, shape_month s, shape_day s)" by simp
  from iso_date_part [OF this f(2,3)] show ?thesis using f(1) by simp
qed

lemma day_of_civil_bounds:
  assumes "legal_date y m d" "0 \<le> y" "y \<le> 9999"
  shows "- 719528 \<le> day_of_civil y m d \<and> day_of_civil y m d \<le> 2933100"
proof -
  let ?n = "day_of_civil y m d"
  have m: "1 \<le> m" "m \<le> 12" using assms(1) by (auto simp: legal_date_def)
  have d: "1 \<le> d" "d < 100" "0 \<le> month_start (is_leap y) m" "month_start (is_leap y) m \<le> 366"
    using assms(1) month_len_bound [OF assms(1)] month_start_range [OF m, of "is_leap y"]
      month_start_range [OF m, of "is_leap y"]
    by (auto simp: legal_date_def month_len_def of_bool_def split: if_splits)
  have "day_from_year 0 \<le> day_from_year y" "day_from_year y \<le> day_from_year 9999"
    using assms by (auto intro: day_from_year_mono)
  moreover have "day_from_year 0 = - 719528" "day_from_year 9999 = 2932532"
    by (simp_all add: day_from_year_def)
  ultimately show ?thesis using d by (simp add: day_of_civil_def)
qed

lemma day_of_civil_range:
  assumes "legal_date y m d" "0 \<le> y" "y \<le> 9999"
  shows "\<bar>day_of_civil y m d * day_ms\<bar> \<le> max_time"
  using day_of_civil_bounds [OF assms] by (simp add: day_ms_def max_time_def abs_le_iff)

lemma is_digit_ascii: "is_digit c \<Longrightarrow> (of_char c :: nat) < 0x80"
  by (simp add: is_digit_def)

lemma pad_nat_ascii: "list_all (\<lambda>c. (of_char c :: nat) < 0x80) (pad_nat w n)"
  using pad_nat_digits [of w n] by (auto simp: list_all_iff is_digit_ascii)

lemma js_take_iso [simp]: "js_take n (to_iso t) = take n (to_iso t)"
  by (rule js_take_ascii)
    (auto simp: to_iso_def date_string_def year_string_def clock_string_def pad_nat_ascii split: prod.split)

text \<open>
  The check that several components make of a date given as text: it has the shape, the engine
  reads midnight UTC of it, and printing that instant gives the text back.  Whatever an engine
  does with dates that do not exist, the check accepts exactly the dates that do.
\<close>

definition utc_date_check :: "js_host \<Rightarrow> string \<Rightarrow> bool" where
  "utc_date_check H s =
     (date_shape s \<and>
      (case date_parse H (s @ ''T00:00:00Z'') of
         None \<Rightarrow> False
       | Some t \<Rightarrow> js_take 10 (to_iso t) = s))"

theorem utc_date_check_iff: "utc_date_check H s \<longleftrightarrow> calendar_date s"
proof
  assume "utc_date_check H s"
  then obtain t where "date_shape s" "take 10 (to_iso t) = s"
    by (auto simp: utc_date_check_def split: option.splits)
  with iso_prefix_calendar [of t] show "calendar_date s" by simp
next
  assume c: "calendar_date s"
  let ?t = "day_of_civil (shape_year s) (shape_month s) (shape_day s) * day_ms"
  have sh: "date_shape s" and l: "legal_date (shape_year s) (shape_month s) (shape_day s)"
    using c by (auto simp: calendar_date_def)
  have "\<bar>?t\<bar> \<le> max_time" using l date_shape_ymd(2,3) [OF sh] by (intro day_of_civil_range)
  then have "date_parse H (s @ ''T00:00:00Z'') = Some ?t"
    by (simp add: date_parse_def parse_midnight [OF c] time_clip_def)
  with sh midnight_date [OF c] show "utc_date_check H s" by (simp add: utc_date_check_def)
qed

end
