(* ===== verification/Ui_Text.thy ===== *)
theory Ui_Text
  imports Main
begin

text \<open>
  The Korean texts that the modelled functions put into their results, as UTF-8 byte lists.
  Each name says in English what the text says.
\<close>

definition txt_day :: string where
  "txt_day =
     [CHR 0xEC, CHR 0x9D, CHR 0xBC]"

definition txt_hours :: string where
  "txt_hours =
     [CHR 0xEC, CHR 0x8B, CHR 0x9C, CHR 0xEA, CHR 0xB0, CHR 0x84]"

definition txt_minutes :: string where
  "txt_minutes =
     [CHR 0xEB, CHR 0xB6, CHR 0x84]"

definition txt_seconds :: string where
  "txt_seconds =
     [CHR 0xEC, CHR 0xB4, CHR 0x88]"

definition txt_left :: string where
  "txt_left =
     [CHR 0x20, CHR 0xEB, CHR 0x82, CHR 0xA8, CHR 0xEC, CHR 0x9D, CHR 0x8C]"

definition txt_ending :: string where
  "txt_ending =
     [CHR 0xEC, CHR 0xA2, CHR 0x85, CHR 0xEB, CHR 0xA3, CHR 0x8C, CHR 0x20, CHR 0xEC, CHR 0xB2,
      CHR 0x98, CHR 0xEB, CHR 0xA6, CHR 0xAC, CHR 0x20, CHR 0xEC, CHR 0xA4, CHR 0x91]"

definition txt_mode_disabled :: string where
  "txt_mode_disabled =
     [CHR 0xEB, CHR 0x9D, CHR 0xBC, CHR 0xEC, CHR 0x9A, CHR 0xB0, CHR 0xED, CHR 0x8C, CHR 0x85,
      CHR 0x20, CHR 0xEB, CHR 0xB9, CHR 0x84, CHR 0xED, CHR 0x99, CHR 0x9C, CHR 0xEC, CHR 0x84,
      CHR 0xB1]"

definition txt_mode_maintenance :: string where
  "txt_mode_maintenance =
     [CHR 0xEC, CHR 0xA0, CHR 0x90, CHR 0xEA, CHR 0xB2, CHR 0x80, CHR 0x20, CHR 0xEC, CHR 0x95,
      CHR 0x88, CHR 0xEB, CHR 0x82, CHR 0xB4]"

definition txt_mode_active :: string where
  "txt_mode_active =
     [CHR 0xEC, CHR 0xA0, CHR 0x95, CHR 0xEC, CHR 0x83, CHR 0x81, CHR 0x20, CHR 0xEC, CHR 0x9A,
      CHR 0xB4, CHR 0xEC, CHR 0x98, CHR 0x81]"

definition txt_conseq_disabled :: string where
  "txt_conseq_disabled =
     [CHR 0xEC, CHR 0x84, CHR 0xA0, CHR 0xED, CHR 0x83, CHR 0x9D, CHR 0xED, CHR 0x95, CHR 0x9C,
      CHR 0x20, CHR 0xEB, CHR 0x8F, CHR 0x84, CHR 0xEB, CHR 0xA9, CHR 0x94, CHR 0xEC, CHR 0x9D,
      CHR 0xB8, CHR 0xEC, CHR 0x9D, CHR 0x98, CHR 0x20, CHR 0x54, CHR 0x72, CHR 0x61, CHR 0x65,
      CHR 0x66, CHR 0x69, CHR 0x6B, CHR 0x20, CHR 0xEB, CHR 0x9D, CHR 0xBC, CHR 0xEC, CHR 0x9A,
      CHR 0xB0, CHR 0xED, CHR 0x84, CHR 0xB0, CHR 0xEA, CHR 0xB0, CHR 0x80, CHR 0x20, CHR 0xEC,
      CHR 0xA0, CHR 0x9C, CHR 0xEA, CHR 0xB1, CHR 0xB0, CHR 0xEB, CHR 0x90, CHR 0x98, CHR 0xEC,
      CHR 0x96, CHR 0xB4, CHR 0x20, CHR 0xEC, CHR 0x99, CHR 0xB8, CHR 0xEB, CHR 0xB6, CHR 0x80,
      CHR 0x20, CHR 0xEC, CHR 0x9A, CHR 0x94, CHR 0xEC, CHR 0xB2, CHR 0xAD, CHR 0xEC, CHR 0x9D,
      CHR 0x80, CHR 0x20, CHR 0x34, CHR 0x30, CHR 0x34, CHR 0xEB, CHR 0xA1, CHR 0x9C, CHR 0x20,
      CHR 0xEC, CHR 0x9D, CHR 0x91, CHR 0xEB, CHR 0x8B, CHR 0xB5, CHR 0xED, CHR 0x95, CHR 0xA9,
      CHR 0xEB, CHR 0x8B, CHR 0x88, CHR 0xEB, CHR 0x8B, CHR 0xA4, CHR 0x2E]"

definition txt_conseq_maintenance :: string where
  "txt_conseq_maintenance =
     [CHR 0xEC, CHR 0x84, CHR 0xA0, CHR 0xED, CHR 0x83, CHR 0x9D, CHR 0xED, CHR 0x95, CHR 0x9C,
      CHR 0x20, CHR 0xEB, CHR 0x8F, CHR 0x84, CHR 0xEB, CHR 0xA9, CHR 0x94, CHR 0xEC, CHR 0x9D,
      CHR 0xB8, CHR 0xEC, CHR 0x9D, CHR 0x80, CHR 0x20, CHR 0xEC, CHR 0x9B, CHR 0x90, CHR 0xEB,
      CHR 0x9E, CHR 0x98, CHR 0x20, CHR 0xEC, CHR 0x95, CHR 0xB1, CHR 0x20, CHR 0xEB, CHR 0x8C,
      CHR 0x80, CHR 0xEC, CHR 0x8B, CHR 0xA0, CHR 0x20, CHR 0xEA, CHR 0xB3, CHR 0xB5, CHR 0xEA,
      CHR 0xB0, CHR 0x9C, CHR 0x20, CHR 0xEC, CHR 0xA0, CHR 0x90, CHR 0xEA, CHR 0xB2, CHR 0x80,
      CHR 0x20, CHR 0xEC, CHR 0x95, CHR 0x88, CHR 0xEB, CHR 0x82, CHR 0xB4, CHR 0x20, CHR 0xED,
      CHR 0x99, CHR 0x94, CHR 0xEB, CHR 0xA9, CHR 0xB4, CHR 0xEC, CHR 0x9D, CHR 0x84, CHR 0x20,
      CHR 0xEC, CHR 0xA0, CHR 0x9C, CHR 0xEA, CHR 0xB3, CHR 0xB5, CHR 0xED, CHR 0x95, CHR 0xA9,
      CHR 0xEB, CHR 0x8B, CHR 0x88, CHR 0xEB, CHR 0x8B, CHR 0xA4, CHR 0x2E]"

definition txt_conseq_active :: string where
  "txt_conseq_active =
     [CHR 0xEC, CHR 0x84, CHR 0xA0, CHR 0xED, CHR 0x83, CHR 0x9D, CHR 0xED, CHR 0x95, CHR 0x9C,
      CHR 0x20, CHR 0xEB, CHR 0x8F, CHR 0x84, CHR 0xEB, CHR 0xA9, CHR 0x94, CHR 0xEC, CHR 0x9D,
      CHR 0xB8, CHR 0xEC, CHR 0x9D, CHR 0xB4, CHR 0x20, CHR 0xEC, CHR 0x9B, CHR 0x90, CHR 0xEB,
      CHR 0x9E, CHR 0x98, CHR 0x20, CHR 0xEC, CHR 0x97, CHR 0x85, CHR 0xEC, CHR 0x8A, CHR 0xA4,
      CHR 0xED, CHR 0x8A, CHR 0xB8, CHR 0xEB, CHR 0xA6, CHR 0xBC, CHR 0x20, CHR 0xEC, CHR 0x95,
      CHR 0xB1, CHR 0xEC, CHR 0x9C, CHR 0xBC, CHR 0xEB, CHR 0xA1, CHR 0x9C, CHR 0x20, CHR 0xEB,
      CHR 0x8B, CHR 0xA4, CHR 0xEC, CHR 0x8B, CHR 0x9C, CHR 0x20, CHR 0xEC, CHR 0x97, CHR 0xB0,
      CHR 0xEA, CHR 0xB2, CHR 0xB0, CHR 0xEB, CHR 0x90, CHR 0xA9, CHR 0xEB, CHR 0x8B, CHR 0x88,
      CHR 0xEB, CHR 0x8B, CHR 0xA4, CHR 0x2E]"

definition txt_services_to :: string where
  "txt_services_to =
     [CHR 0xEA, CHR 0xB0, CHR 0x9C, CHR 0x20, CHR 0xEC, CHR 0x84, CHR 0x9C, CHR 0xEB, CHR 0xB9,
      CHR 0x84, CHR 0xEC, CHR 0x8A, CHR 0xA4, CHR 0xEB, CHR 0xA5, CHR 0xBC, CHR 0x20, CHR 0x27]"

definition txt_to_state_q :: string where
  "txt_to_state_q =
     [CHR 0x27, CHR 0x20, CHR 0xEC, CHR 0x83, CHR 0x81, CHR 0xED, CHR 0x83, CHR 0x9C, CHR 0xEB,
      CHR 0xA1, CHR 0x9C, CHR 0x20, CHR 0xEB, CHR 0xB3, CHR 0x80, CHR 0xEA, CHR 0xB2, CHR 0xBD,
      CHR 0xED, CHR 0x95, CHR 0xA9, CHR 0xEB, CHR 0x8B, CHR 0x88, CHR 0xEA, CHR 0xB9, CHR 0x8C,
      CHR 0x3F, CHR 0x0A, CHR 0x0A]"

definition txt_bulk_partial :: string where
  "txt_bulk_partial =
     [CHR 0xEC, CHR 0x9A, CHR 0xB4, CHR 0xEC, CHR 0x98, CHR 0x81, CHR 0x20, CHR 0xEC, CHR 0x83,
      CHR 0x81, CHR 0xED, CHR 0x83, CHR 0x9C, CHR 0x20, CHR 0xEC, CHR 0x9D, CHR 0xBC, CHR 0xEB,
      CHR 0xB6, CHR 0x80, CHR 0x20, CHR 0xEB, CHR 0xB3, CHR 0x80, CHR 0xEA, CHR 0xB2, CHR 0xBD,
      CHR 0x20, CHR 0xEC, CHR 0x8B, CHR 0xA4, CHR 0xED, CHR 0x8C, CHR 0xA8]"

definition txt_bulk_done :: string where
  "txt_bulk_done =
     [CHR 0xEC, CHR 0x9A, CHR 0xB4, CHR 0xEC, CHR 0x98, CHR 0x81, CHR 0x20, CHR 0xEC, CHR 0x83,
      CHR 0x81, CHR 0xED, CHR 0x83, CHR 0x9C, CHR 0x20, CHR 0xEC, CHR 0x9D, CHR 0xBC, CHR 0xEA,
      CHR 0xB4, CHR 0x84, CHR 0x20, CHR 0xEB, CHR 0xB3, CHR 0x80, CHR 0xEA, CHR 0xB2, CHR 0xBD,
      CHR 0x20, CHR 0xEC, CHR 0x99, CHR 0x84, CHR 0xEB, CHR 0xA3, CHR 0x8C]"

definition txt_bulk_done_no_notice :: string where
  "txt_bulk_done_no_notice =
     [CHR 0xEC, CHR 0x9A, CHR 0xB4, CHR 0xEC, CHR 0x98, CHR 0x81, CHR 0x20, CHR 0xEC, CHR 0x83,
      CHR 0x81, CHR 0xED, CHR 0x83, CHR 0x9C, CHR 0x20, CHR 0xEB, CHR 0xB3, CHR 0x80, CHR 0xEA,
      CHR 0xB2, CHR 0xBD, CHR 0x20, CHR 0xEC, CHR 0x99, CHR 0x84, CHR 0xEB, CHR 0xA3, CHR 0x8C,
      CHR 0x2C, CHR 0x20, CHR 0xEB, CHR 0xAC, CHR 0xB6, CHR 0xEC, CHR 0x9D, CHR 0x8C, CHR 0x20,
      CHR 0xEC, CHR 0x95, CHR 0x8C, CHR 0xEB, CHR 0xA6, CHR 0xBC, CHR 0x20, CHR 0xEC, CHR 0x9A,
      CHR 0x94, CHR 0xEC, CHR 0xB2, CHR 0xAD, CHR 0x20, CHR 0xEC, CHR 0x8B, CHR 0xA4, CHR 0xED,
      CHR 0x8C, CHR 0xA8]"

definition txt_applied :: string where
  "txt_applied =
     [CHR 0xEA, CHR 0xB0, CHR 0x9C, CHR 0x20, CHR 0xEC, CHR 0xA0, CHR 0x81, CHR 0xEC, CHR 0x9A,
      CHR 0xA9, CHR 0x2C, CHR 0x20]"

definition txt_failed_colon :: string where
  "txt_failed_colon =
     [CHR 0xEA, CHR 0xB0, CHR 0x9C, CHR 0x20, CHR 0xEC, CHR 0x8B, CHR 0xA4, CHR 0xED, CHR 0x8C,
      CHR 0xA8, CHR 0x3A, CHR 0x20]"

definition txt_notice_failed :: string where
  "txt_notice_failed =
     [CHR 0x20, CHR 0xC2, CHR 0xB7, CHR 0x20, CHR 0xEB, CHR 0xAC, CHR 0xB6, CHR 0xEC, CHR 0x9D,
      CHR 0x8C, CHR 0x20, CHR 0xEC, CHR 0x95, CHR 0x8C, CHR 0xEB, CHR 0xA6, CHR 0xBC, CHR 0x20,
      CHR 0xEC, CHR 0x9A, CHR 0x94, CHR 0xEC, CHR 0xB2, CHR 0xAD, CHR 0x20, CHR 0xEC, CHR 0x8B,
      CHR 0xA4, CHR 0xED, CHR 0x8C, CHR 0xA8]"

definition txt_services_in :: string where
  "txt_services_in =
     [CHR 0xEA, CHR 0xB0, CHR 0x9C, CHR 0x20, CHR 0xEC, CHR 0x84, CHR 0x9C, CHR 0xEB, CHR 0xB9,
      CHR 0x84, CHR 0xEC, CHR 0x8A, CHR 0xA4, CHR 0xEB, CHR 0xA5, CHR 0xBC, CHR 0x20]"

definition txt_changed_to :: string where
  "txt_changed_to =
     [CHR 0x20, CHR 0xEC, CHR 0x83, CHR 0x81, CHR 0xED, CHR 0x83, CHR 0x9C, CHR 0xEB, CHR 0xA1,
      CHR 0x9C, CHR 0x20, CHR 0xEB, CHR 0xB3, CHR 0x80, CHR 0xEA, CHR 0xB2, CHR 0xBD, CHR 0xED,
      CHR 0x96, CHR 0x88, CHR 0xEC, CHR 0x8A, CHR 0xB5, CHR 0xEB, CHR 0x8B, CHR 0x88, CHR 0xEB,
      CHR 0x8B, CHR 0xA4, CHR 0x2E]"

definition txt_already_same :: string where
  "txt_already_same =
     [CHR 0xEC, CHR 0x9D, CHR 0xB4, CHR 0xEB, CHR 0xAF, CHR 0xB8, CHR 0x20, CHR 0xEA, CHR 0xB0,
      CHR 0x99, CHR 0xEC, CHR 0x9D, CHR 0x80, CHR 0x20, CHR 0xEC, CHR 0x83, CHR 0x81, CHR 0xED,
      CHR 0x83, CHR 0x9C, CHR 0xEC, CHR 0x97, CHR 0xAC, CHR 0xEC, CHR 0x84, CHR 0x9C, CHR 0x20,
      CHR 0xEB, CHR 0xB3, CHR 0x80, CHR 0xEA, CHR 0xB2, CHR 0xBD, CHR 0xEB, CHR 0x90, CHR 0x9C,
      CHR 0x20, CHR 0xEC, CHR 0x84, CHR 0x9C, CHR 0xEB, CHR 0xB9, CHR 0x84, CHR 0xEC, CHR 0x8A,
      CHR 0xA4, CHR 0xEA, CHR 0xB0, CHR 0x80, CHR 0x20, CHR 0xEC, CHR 0x97, CHR 0x86, CHR 0xEC,
      CHR 0x8A, CHR 0xB5, CHR 0xEB, CHR 0x8B, CHR 0x88, CHR 0xEB, CHR 0x8B, CHR 0xA4, CHR 0x2E]"

definition txt_refresh_retry :: string where
  "txt_refresh_retry =
     [CHR 0xEB, CHR 0xAA, CHR 0xA9, CHR 0xEB, CHR 0xA1, CHR 0x9D, CHR 0xEC, CHR 0x9D, CHR 0x84,
      CHR 0x20, CHR 0xEC, CHR 0x83, CHR 0x88, CHR 0xEB, CHR 0xA1, CHR 0x9C, CHR 0xEA, CHR 0xB3,
      CHR 0xA0, CHR 0xEC, CHR 0xB9, CHR 0xA8, CHR 0xED, CHR 0x95, CHR 0x9C, CHR 0x20, CHR 0xEB,
      CHR 0x92, CHR 0xA4, CHR 0x20, CHR 0xEB, CHR 0x8B, CHR 0xA4, CHR 0xEC, CHR 0x8B, CHR 0x9C,
      CHR 0x20, CHR 0xEC, CHR 0x8B, CHR 0x9C, CHR 0xEB, CHR 0x8F, CHR 0x84, CHR 0xED, CHR 0x95,
      CHR 0xB4, CHR 0x20, CHR 0xEC, CHR 0xA3, CHR 0xBC, CHR 0xEC, CHR 0x84, CHR 0xB8, CHR 0xEC,
      CHR 0x9A, CHR 0x94, CHR 0x2E]"

definition txt_err_redirect_tls :: string where
  "txt_err_redirect_tls =
     [CHR 0x48, CHR 0x54, CHR 0x54, CHR 0x50, CHR 0x53, CHR 0x20, CHR 0xEB, CHR 0xA6, CHR 0xAC,
      CHR 0xEB, CHR 0x8B, CHR 0xA4, CHR 0xEC, CHR 0x9D, CHR 0xB4, CHR 0xEB, CHR 0xA0, CHR 0x89,
      CHR 0xED, CHR 0x8A, CHR 0xB8, CHR 0xEB, CHR 0x8A, CHR 0x94, CHR 0x20, CHR 0x54, CHR 0x4C,
      CHR 0x53, CHR 0x20, CHR 0xED, CHR 0x99, CHR 0x9C, CHR 0xEC, CHR 0x84, CHR 0xB1, CHR 0xED,
      CHR 0x99, CHR 0x94, CHR 0x20, CHR 0xEC, CHR 0x8B, CHR 0x9C, CHR 0xEC, CHR 0x97, CHR 0x90,
      CHR 0xEB, CHR 0xA7, CHR 0x8C, CHR 0x20, CHR 0xEC, CHR 0x82, CHR 0xAC, CHR 0xEC, CHR 0x9A,
      CHR 0xA9, CHR 0xED, CHR 0x95, CHR 0xA0, CHR 0x20, CHR 0xEC, CHR 0x88, CHR 0x98, CHR 0x20,
      CHR 0xEC, CHR 0x9E, CHR 0x88, CHR 0xEC, CHR 0x8A, CHR 0xB5, CHR 0xEB, CHR 0x8B, CHR 0x88,
      CHR 0xEB, CHR 0x8B, CHR 0xA4]"

definition txt_err_group_mode :: string where
  "txt_err_group_mode =
     [CHR 0x41, CHR 0x75, CHR 0x74, CHR 0x68, CHR 0x65, CHR 0x6E, CHR 0x74, CHR 0x69, CHR 0x6B,
      CHR 0x20, CHR 0xEC, CHR 0x9D, CHR 0xB8, CHR 0xEC, CHR 0xA6, CHR 0x9D, CHR 0x20, CHR 0xEB,
      CHR 0xAA, CHR 0xA8, CHR 0xEB, CHR 0x93, CHR 0x9C, CHR 0xEC, CHR 0x97, CHR 0x90, CHR 0xEC,
      CHR 0x84, CHR 0x9C, CHR 0xEB, CHR 0xA7, CHR 0x8C, CHR 0x20, CHR 0xEA, CHR 0xB7, CHR 0xB8,
      CHR 0xEB, CHR 0xA3, CHR 0xB9, CHR 0xEC, CHR 0x9D, CHR 0x84, CHR 0x20, CHR 0xEC, CHR 0x84,
      CHR 0xA0, CHR 0xED, CHR 0x83, CHR 0x9D, CHR 0xED, CHR 0x95, CHR 0xA0, CHR 0x20, CHR 0xEC,
      CHR 0x88, CHR 0x98, CHR 0x20, CHR 0xEC, CHR 0x97, CHR 0x86, CHR 0xEC, CHR 0x8A, CHR 0xB5,
      CHR 0xEB, CHR 0x8B, CHR 0x88, CHR 0xEB, CHR 0x8B, CHR 0xA4]"

definition txt_err_auth_exclusive :: string where
  "txt_err_auth_exclusive =
     [CHR 0xEC, CHR 0x99, CHR 0xB8, CHR 0xEB, CHR 0xB6, CHR 0x80, CHR 0x20, CHR 0xEC, CHR 0x9D,
      CHR 0xB8, CHR 0xEC, CHR 0xA6, CHR 0x9D, CHR 0x28, CHR 0x41, CHR 0x75, CHR 0x74, CHR 0x68,
      CHR 0x65, CHR 0x6E, CHR 0x74, CHR 0x69, CHR 0x6B, CHR 0x2F, CHR 0x54, CHR 0x6F, CHR 0x6B,
      CHR 0x65, CHR 0x6E, CHR 0x29, CHR 0xEA, CHR 0xB3, CHR 0xBC, CHR 0x20, CHR 0x42, CHR 0x61,
      CHR 0x73, CHR 0x69, CHR 0x63, CHR 0x20, CHR 0x41, CHR 0x75, CHR 0x74, CHR 0x68, CHR 0xEB,
      CHR 0x8A, CHR 0x94, CHR 0x20, CHR 0xEB, CHR 0x8F, CHR 0x99, CHR 0xEC, CHR 0x8B, CHR 0x9C,
      CHR 0xEC, CHR 0x97, CHR 0x90, CHR 0x20, CHR 0xEC, CHR 0x82, CHR 0xAC, CHR 0xEC, CHR 0x9A,
      CHR 0xA9, CHR 0xED, CHR 0x95, CHR 0xA0, CHR 0x20, CHR 0xEC, CHR 0x88, CHR 0x98, CHR 0x20,
      CHR 0xEC, CHR 0x97, CHR 0x86, CHR 0xEC, CHR 0x8A, CHR 0xB5, CHR 0xEB, CHR 0x8B, CHR 0x88,
      CHR 0xEB, CHR 0x8B, CHR 0xA4]"

definition txt_err_rate_limit :: string where
  "txt_err_rate_limit =
     [CHR 0x52, CHR 0x61, CHR 0x74, CHR 0x65, CHR 0x20, CHR 0x4C, CHR 0x69, CHR 0x6D, CHR 0x69,
      CHR 0x74, CHR 0xEC, CHR 0x9D, CHR 0x84, CHR 0x20, CHR 0xED, CHR 0x99, CHR 0x9C, CHR 0xEC,
      CHR 0x84, CHR 0xB1, CHR 0xED, CHR 0x99, CHR 0x94, CHR 0xED, CHR 0x95, CHR 0x98, CHR 0xEB,
      CHR 0xA9, CHR 0xB4, CHR 0x20, CHR 0x61, CHR 0x76, CHR 0x65, CHR 0x72, CHR 0x61, CHR 0x67,
      CHR 0x65, CHR 0xEC, CHR 0x99, CHR 0x80, CHR 0x20, CHR 0x62, CHR 0x75, CHR 0x72, CHR 0x73,
      CHR 0x74, CHR 0xEB, CHR 0xA5, CHR 0xBC, CHR 0x20, CHR 0xEB, CHR 0xAA, CHR 0xA8, CHR 0xEB,
      CHR 0x91, CHR 0x90, CHR 0x20, CHR 0xEC, CHR 0x9E, CHR 0x85, CHR 0xEB, CHR 0xA0, CHR 0xA5,
      CHR 0xED, CHR 0x95, CHR 0xB4, CHR 0xEC, CHR 0x95, CHR 0xBC, CHR 0x20, CHR 0xED, CHR 0x95,
      CHR 0xA9, CHR 0xEB, CHR 0x8B, CHR 0x88, CHR 0xEB, CHR 0x8B, CHR 0xA4]"

definition txt_err_health_path :: string where
  "txt_err_health_path =
     [CHR 0xED, CHR 0x97, CHR 0xAC, CHR 0xEC, CHR 0x8A, CHR 0xA4, CHR 0x20, CHR 0xEC, CHR 0xB2,
      CHR 0xB4, CHR 0xED, CHR 0x81, CHR 0xAC, CHR 0x20, CHR 0xEA, CHR 0xB2, CHR 0xBD, CHR 0xEB,
      CHR 0xA1, CHR 0x9C, CHR 0xEB, CHR 0x8A, CHR 0x94, CHR 0x20, CHR 0x27, CHR 0x2F, CHR 0x27,
      CHR 0xEB, CHR 0xA1, CHR 0x9C, CHR 0x20, CHR 0xEC, CHR 0x8B, CHR 0x9C, CHR 0xEC, CHR 0x9E,
      CHR 0x91, CHR 0xED, CHR 0x95, CHR 0xB4, CHR 0xEC, CHR 0x95, CHR 0xBC, CHR 0x20, CHR 0xED,
      CHR 0x95, CHR 0xA9, CHR 0xEB, CHR 0x8B, CHR 0x88, CHR 0xEB, CHR 0x8B, CHR 0xA4]"

definition txt_err_statuses :: string where
  "txt_err_statuses =
     [CHR 0xEA, CHR 0xB8, CHR 0xB0, CHR 0xEB, CHR 0x8C, CHR 0x80, CHR 0x20, CHR 0xEC, CHR 0x83,
      CHR 0x81, CHR 0xED, CHR 0x83, CHR 0x9C, CHR 0x20, CHR 0xEC, CHR 0xBD, CHR 0x94, CHR 0xEB,
      CHR 0x93, CHR 0x9C, CHR 0xEB, CHR 0x8A, CHR 0x94, CHR 0x20, CHR 0x31, CHR 0x30, CHR 0x30,
      CHR 0x7E, CHR 0x35, CHR 0x39, CHR 0x39, CHR 0x20, CHR 0xEB, CHR 0xB2, CHR 0x94, CHR 0xEC,
      CHR 0x9C, CHR 0x84, CHR 0x20, CHR 0xEC, CHR 0xA0, CHR 0x95, CHR 0xEC, CHR 0x88, CHR 0x98,
      CHR 0xEB, CHR 0xA7, CHR 0x8C, CHR 0x20, CHR 0xEC, CHR 0x9E, CHR 0x85, CHR 0xEB, CHR 0xA0,
      CHR 0xA5, CHR 0xED, CHR 0x95, CHR 0xA0, CHR 0x20, CHR 0xEC, CHR 0x88, CHR 0x98, CHR 0x20,
      CHR 0xEC, CHR 0x9E, CHR 0x88, CHR 0xEC, CHR 0x8A, CHR 0xB5, CHR 0xEB, CHR 0x8B, CHR 0x88,
      CHR 0xEB, CHR 0x8B, CHR 0xA4]"

definition txt_err_name :: string where
  "txt_err_name =
     [CHR 0xEC, CHR 0x84, CHR 0x9C, CHR 0xEB, CHR 0xB9, CHR 0x84, CHR 0xEC, CHR 0x8A, CHR 0xA4,
      CHR 0x20, CHR 0xEC, CHR 0x9D, CHR 0xB4, CHR 0xEB, CHR 0xA6, CHR 0x84, CHR 0xEC, CHR 0x9D,
      CHR 0x84, CHR 0x20, CHR 0xEC, CHR 0x9E, CHR 0x85, CHR 0xEB, CHR 0xA0, CHR 0xA5, CHR 0xED,
      CHR 0x95, CHR 0x98, CHR 0xEC, CHR 0x84, CHR 0xB8, CHR 0xEC, CHR 0x9A, CHR 0x94]"

definition txt_err_domain :: string where
  "txt_err_domain =
     [CHR 0xEC, CHR 0x9C, CHR 0xA0, CHR 0xED, CHR 0x9A, CHR 0xA8, CHR 0xED, CHR 0x95, CHR 0x9C,
      CHR 0x20, CHR 0xEB, CHR 0x8F, CHR 0x84, CHR 0xEB, CHR 0xA9, CHR 0x94, CHR 0xEC, CHR 0x9D,
      CHR 0xB8, CHR 0x20, CHR 0xED, CHR 0x98, CHR 0x95, CHR 0xEC, CHR 0x8B, CHR 0x9D, CHR 0xEC,
      CHR 0x9D, CHR 0xB4, CHR 0x20, CHR 0xEC, CHR 0x95, CHR 0x84, CHR 0xEB, CHR 0x8B, CHR 0x99,
      CHR 0xEB, CHR 0x8B, CHR 0x88, CHR 0xEB, CHR 0x8B, CHR 0xA4]"

definition txt_err_upstream_host :: string where
  "txt_err_upstream_host =
     [CHR 0xEC, CHR 0x97, CHR 0x85, CHR 0xEC, CHR 0x8A, CHR 0xA4, CHR 0xED, CHR 0x8A, CHR 0xB8,
      CHR 0xEB, CHR 0xA6, CHR 0xBC, CHR 0x20, CHR 0xED, CHR 0x98, CHR 0xB8, CHR 0xEC, CHR 0x8A,
      CHR 0xA4, CHR 0xED, CHR 0x8A, CHR 0xB8, CHR 0xEB, CHR 0xA5, CHR 0xBC, CHR 0x20, CHR 0xEC,
      CHR 0x9E, CHR 0x85, CHR 0xEB, CHR 0xA0, CHR 0xA5, CHR 0xED, CHR 0x95, CHR 0x98, CHR 0xEC,
      CHR 0x84, CHR 0xB8, CHR 0xEC, CHR 0x9A, CHR 0x94]"

definition txt_err_port :: string where
  "txt_err_port =
     [CHR 0x31, CHR 0x7E, CHR 0x36, CHR 0x35, CHR 0x35, CHR 0x33, CHR 0x35, CHR 0x20, CHR 0xEB,
      CHR 0xB2, CHR 0x94, CHR 0xEC, CHR 0x9C, CHR 0x84, CHR 0xEC, CHR 0x9D, CHR 0x98, CHR 0x20,
      CHR 0xED, CHR 0x8F, CHR 0xAC, CHR 0xED, CHR 0x8A, CHR 0xB8, CHR 0xEB, CHR 0xA5, CHR 0xBC,
      CHR 0x20, CHR 0xEC, CHR 0x9E, CHR 0x85, CHR 0xEB, CHR 0xA0, CHR 0xA5, CHR 0xED, CHR 0x95,
      CHR 0x98, CHR 0xEC, CHR 0x84, CHR 0xB8, CHR 0xEC, CHR 0x9A, CHR 0x94]"

definition txt_err_message_len :: string where
  "txt_err_message_len =
     [CHR 0xEC, CHR 0xA0, CHR 0x90, CHR 0xEA, CHR 0xB2, CHR 0x80, CHR 0x20, CHR 0xEC, CHR 0x95,
      CHR 0x88, CHR 0xEB, CHR 0x82, CHR 0xB4, CHR 0x20, CHR 0xEB, CHR 0xAC, CHR 0xB8, CHR 0xEA,
      CHR 0xB5, CHR 0xAC, CHR 0xEB, CHR 0x8A, CHR 0x94, CHR 0x20, CHR 0x33, CHR 0x30, CHR 0x30,
      CHR 0xEC, CHR 0x9E, CHR 0x90, CHR 0x20, CHR 0xEC, CHR 0x9D, CHR 0xB4, CHR 0xED, CHR 0x95,
      CHR 0x98, CHR 0xEC, CHR 0x97, CHR 0xAC, CHR 0xEC, CHR 0x95, CHR 0xBC, CHR 0x20, CHR 0xED,
      CHR 0x95, CHR 0xA9, CHR 0xEB, CHR 0x8B, CHR 0x88, CHR 0xEB, CHR 0x8B, CHR 0xA4]"

definition txt_err_until :: string where
  "txt_err_until =
     [CHR 0xEC, CHR 0x98, CHR 0xAC, CHR 0xEB, CHR 0xB0, CHR 0x94, CHR 0xEB, CHR 0xA5, CHR 0xB8,
      CHR 0x20, CHR 0xEC, CHR 0xA0, CHR 0x90, CHR 0xEA, CHR 0xB2, CHR 0x80, CHR 0x20, CHR 0xEC,
      CHR 0xA2, CHR 0x85, CHR 0xEB, CHR 0xA3, CHR 0x8C, CHR 0x20, CHR 0xEC, CHR 0x98, CHR 0x88,
      CHR 0xEC, CHR 0xA0, CHR 0x95, CHR 0x20, CHR 0xEC, CHR 0x8B, CHR 0x9C, CHR 0xEA, CHR 0xB0,
      CHR 0x81, CHR 0xEC, CHR 0x9D, CHR 0x84, CHR 0x20, CHR 0xEC, CHR 0x9E, CHR 0x85, CHR 0xEB,
      CHR 0xA0, CHR 0xA5, CHR 0xED, CHR 0x95, CHR 0x98, CHR 0xEC, CHR 0x84, CHR 0xB8, CHR 0xEC,
      CHR 0x9A, CHR 0x94]"

definition txt_err_positive :: string where
  "txt_err_positive =
     [CHR 0x31, CHR 0x20, CHR 0xEC, CHR 0x9D, CHR 0xB4, CHR 0xEC, CHR 0x83, CHR 0x81, CHR 0xEC,
      CHR 0x9D, CHR 0x98, CHR 0x20, CHR 0xEC, CHR 0xA0, CHR 0x95, CHR 0xEC, CHR 0x88, CHR 0x98,
      CHR 0xEB, CHR 0xA5, CHR 0xBC, CHR 0x20, CHR 0xEC, CHR 0x9E, CHR 0x85, CHR 0xEB, CHR 0xA0,
      CHR 0xA5, CHR 0xED, CHR 0x95, CHR 0x98, CHR 0xEC, CHR 0x84, CHR 0xB8, CHR 0xEC, CHR 0x9A,
      CHR 0x94]"

definition txt_docker_404 :: string where
  "txt_docker_404 =
     [CHR 0xEC, CHR 0xBB, CHR 0xA8, CHR 0xED, CHR 0x85, CHR 0x8C, CHR 0xEC, CHR 0x9D, CHR 0xB4,
      CHR 0xEB, CHR 0x84, CHR 0x88, CHR 0x20, CHR 0xEC, CHR 0xA1, CHR 0xB0, CHR 0xED, CHR 0x9A,
      CHR 0x8C, CHR 0x20, CHR 0x41, CHR 0x50, CHR 0x49, CHR 0xEB, CHR 0xA5, CHR 0xBC, CHR 0x20,
      CHR 0xEC, CHR 0xB0, CHR 0xBE, CHR 0xEC, CHR 0xA7, CHR 0x80, CHR 0x20, CHR 0xEB, CHR 0xAA,
      CHR 0xBB, CHR 0xED, CHR 0x96, CHR 0x88, CHR 0xEC, CHR 0x8A, CHR 0xB5, CHR 0xEB, CHR 0x8B,
      CHR 0x88, CHR 0xEB, CHR 0x8B, CHR 0xA4, CHR 0x2E, CHR 0x20, CHR 0xED, CHR 0x8E, CHR 0x98,
      CHR 0xEC, CHR 0x9D, CHR 0xB4, CHR 0xEC, CHR 0xA7, CHR 0x80, CHR 0xEB, CHR 0xA5, CHR 0xBC,
      CHR 0x20, CHR 0xEC, CHR 0x83, CHR 0x88, CHR 0xEB, CHR 0xA1, CHR 0x9C, CHR 0xEA, CHR 0xB3,
      CHR 0xA0, CHR 0xEC, CHR 0xB9, CHR 0xA8, CHR 0xED, CHR 0x95, CHR 0x9C, CHR 0x20, CHR 0xEB,
      CHR 0x92, CHR 0xA4, CHR 0x20, CHR 0xEB, CHR 0x8B, CHR 0xA4, CHR 0xEC, CHR 0x8B, CHR 0x9C,
      CHR 0x20, CHR 0xEC, CHR 0x8B, CHR 0x9C, CHR 0xEB, CHR 0x8F, CHR 0x84, CHR 0xED, CHR 0x95,
      CHR 0x98, CHR 0xEC, CHR 0x84, CHR 0xB8, CHR 0xEC, CHR 0x9A, CHR 0x94, CHR 0x2E]"

definition txt_docker_failed :: string where
  "txt_docker_failed =
     [CHR 0xEC, CHR 0xBB, CHR 0xA8, CHR 0xED, CHR 0x85, CHR 0x8C, CHR 0xEC, CHR 0x9D, CHR 0xB4,
      CHR 0xEB, CHR 0x84, CHR 0x88, CHR 0x20, CHR 0xEB, CHR 0xAA, CHR 0xA9, CHR 0xEB, CHR 0xA1,
      CHR 0x9D, CHR 0xEC, CHR 0x9D, CHR 0x84, CHR 0x20, CHR 0xEA, CHR 0xB0, CHR 0x80, CHR 0xEC,
      CHR 0xA0, CHR 0xB8, CHR 0xEC, CHR 0x98, CHR 0xA4, CHR 0xEC, CHR 0xA7, CHR 0x80, CHR 0x20,
      CHR 0xEB, CHR 0xAA, CHR 0xBB, CHR 0xED, CHR 0x96, CHR 0x88, CHR 0xEC, CHR 0x8A, CHR 0xB5,
      CHR 0xEB, CHR 0x8B, CHR 0x88, CHR 0xEB, CHR 0x8B, CHR 0xA4, CHR 0x2E]"

definition txt_no_active_router :: string where
  "txt_no_active_router =
     [CHR 0xED, CHR 0x99, CHR 0x9C, CHR 0xEC, CHR 0x84, CHR 0xB1, CHR 0x20, CHR 0x54, CHR 0x72,
      CHR 0x61, CHR 0x65, CHR 0x66, CHR 0x69, CHR 0x6B, CHR 0x20, CHR 0xEB, CHR 0x9D, CHR 0xBC,
      CHR 0xEC, CHR 0x9A, CHR 0xB0, CHR 0xED, CHR 0x84, CHR 0xB0, CHR 0xEB, CHR 0xA5, CHR 0xBC,
      CHR 0x20, CHR 0xEC, CHR 0xB0, CHR 0xBE, CHR 0xEC, CHR 0xA7, CHR 0x80, CHR 0x20, CHR 0xEB,
      CHR 0xAA, CHR 0xBB, CHR 0xED, CHR 0x96, CHR 0x88, CHR 0xEC, CHR 0x8A, CHR 0xB5, CHR 0xEB,
      CHR 0x8B, CHR 0x88, CHR 0xEB, CHR 0x8B, CHR 0xA4]"

definition txt_diagnosis_failed :: string where
  "txt_diagnosis_failed =
     [CHR 0xEC, CHR 0x84, CHR 0x9C, CHR 0xEB, CHR 0xB9, CHR 0x84, CHR 0xEC, CHR 0x8A, CHR 0xA4,
      CHR 0x20, CHR 0xEC, CHR 0xA0, CHR 0x80, CHR 0xEC, CHR 0x9E, CHR 0xA5, CHR 0x20, CHR 0xED,
      CHR 0x9B, CHR 0x84, CHR 0x20, CHR 0xEA, CHR 0xB2, CHR 0x8C, CHR 0xEC, CHR 0x9D, CHR 0xB4,
      CHR 0xED, CHR 0x8A, CHR 0xB8, CHR 0xEC, CHR 0x9B, CHR 0xA8, CHR 0xEC, CHR 0x9D, CHR 0xB4,
      CHR 0x20, CHR 0xEC, CHR 0xA7, CHR 0x84, CHR 0xEB, CHR 0x8B, CHR 0xA8, CHR 0xEC, CHR 0x9D,
      CHR 0x84, CHR 0x20, CHR 0xEC, CHR 0x8B, CHR 0xA4, CHR 0xED, CHR 0x96, CHR 0x89, CHR 0xED,
      CHR 0x95, CHR 0x98, CHR 0xEC, CHR 0xA7, CHR 0x80, CHR 0x20, CHR 0xEB, CHR 0xAA, CHR 0xBB,
      CHR 0xED, CHR 0x96, CHR 0x88, CHR 0xEC, CHR 0x8A, CHR 0xB5, CHR 0xEB, CHR 0x8B, CHR 0x88,
      CHR 0xEB, CHR 0x8B, CHR 0xA4, CHR 0x2E]"

definition txt_diagnosis_result :: string where
  "txt_diagnosis_result =
     [CHR 0xEA, CHR 0xB2, CHR 0x8C, CHR 0xEC, CHR 0x9D, CHR 0xB4, CHR 0xED, CHR 0x8A, CHR 0xB8,
      CHR 0xEC, CHR 0x9B, CHR 0xA8, CHR 0xEC, CHR 0x9D, CHR 0xB4, CHR 0x20, CHR 0xEC, CHR 0xA7,
      CHR 0x84, CHR 0xEB, CHR 0x8B, CHR 0xA8, CHR 0x20, CHR 0xEA, CHR 0xB2, CHR 0xB0, CHR 0xEA,
      CHR 0xB3, CHR 0xBC]"

definition txt_login_failed_challenge :: string where
  "txt_login_failed_challenge =
     [CHR 0xEC, CHR 0x95, CHR 0x84, CHR 0xEC, CHR 0x9D, CHR 0xB4, CHR 0xEB, CHR 0x94, CHR 0x94,
      CHR 0x2F, CHR 0xEB, CHR 0xB9, CHR 0x84, CHR 0xEB, CHR 0xB0, CHR 0x80, CHR 0xEB, CHR 0xB2,
      CHR 0x88, CHR 0xED, CHR 0x98, CHR 0xB8, CHR 0x20, CHR 0xEB, CHR 0x98, CHR 0x90, CHR 0xEB,
      CHR 0x8A, CHR 0x94, CHR 0x20, CHR 0xEC, CHR 0xB6, CHR 0x94, CHR 0xEA, CHR 0xB0, CHR 0x80,
      CHR 0x20, CHR 0xEB, CHR 0xA1, CHR 0x9C, CHR 0xEA, CHR 0xB7, CHR 0xB8, CHR 0xEC, CHR 0x9D,
      CHR 0xB8, CHR 0x20, CHR 0xEA, CHR 0xB2, CHR 0x80, CHR 0xEC, CHR 0xA6, CHR 0x9D, CHR 0xEC,
      CHR 0x9D, CHR 0xB4, CHR 0x20, CHR 0xEC, CHR 0x98, CHR 0xAC, CHR 0xEB, CHR 0xB0, CHR 0x94,
      CHR 0xEB, CHR 0xA5, CHR 0xB4, CHR 0xEC, CHR 0xA7, CHR 0x80, CHR 0x20, CHR 0xEC, CHR 0x95,
      CHR 0x8A, CHR 0xEC, CHR 0x8A, CHR 0xB5, CHR 0xEB, CHR 0x8B, CHR 0x88, CHR 0xEB, CHR 0x8B,
      CHR 0xA4]"

definition txt_login_failed :: string where
  "txt_login_failed =
     [CHR 0xEC, CHR 0x95, CHR 0x84, CHR 0xEC, CHR 0x9D, CHR 0xB4, CHR 0xEB, CHR 0x94, CHR 0x94,
      CHR 0x20, CHR 0xEB, CHR 0x98, CHR 0x90, CHR 0xEB, CHR 0x8A, CHR 0x94, CHR 0x20, CHR 0xEB,
      CHR 0xB9, CHR 0x84, CHR 0xEB, CHR 0xB0, CHR 0x80, CHR 0xEB, CHR 0xB2, CHR 0x88, CHR 0xED,
      CHR 0x98, CHR 0xB8, CHR 0xEA, CHR 0xB0, CHR 0x80, CHR 0x20, CHR 0xEC, CHR 0x98, CHR 0xAC,
      CHR 0xEB, CHR 0xB0, CHR 0x94, CHR 0xEB, CHR 0xA5, CHR 0xB4, CHR 0xEC, CHR 0xA7, CHR 0x80,
      CHR 0x20, CHR 0xEC, CHR 0x95, CHR 0x8A, CHR 0xEC, CHR 0x8A, CHR 0xB5, CHR 0xEB, CHR 0x8B,
      CHR 0x88, CHR 0xEB, CHR 0x8B, CHR 0xA4]"

definition txt_login_challenge_missing :: string where
  "txt_login_challenge_missing =
     [CHR 0xEC, CHR 0xB6, CHR 0x94, CHR 0xEA, CHR 0xB0, CHR 0x80, CHR 0x20, CHR 0xEB, CHR 0xA1,
      CHR 0x9C, CHR 0xEA, CHR 0xB7, CHR 0xB8, CHR 0xEC, CHR 0x9D, CHR 0xB8, CHR 0x20, CHR 0xEA,
      CHR 0xB2, CHR 0x80, CHR 0xEC, CHR 0xA6, CHR 0x9D, CHR 0xEC, CHR 0x9D, CHR 0x84, CHR 0x20,
      CHR 0xEC, CHR 0x99, CHR 0x84, CHR 0xEB, CHR 0xA3, CHR 0x8C, CHR 0xED, CHR 0x95, CHR 0xB4,
      CHR 0xEC, CHR 0xA3, CHR 0xBC, CHR 0xEC, CHR 0x84, CHR 0xB8, CHR 0xEC, CHR 0x9A, CHR 0x94]"

definition txt_mismatch_both :: string where
  "txt_mismatch_both =
     [CHR 0x42, CHR 0x61, CHR 0x63, CHR 0x6B, CHR 0x65, CHR 0x6E, CHR 0x64, CHR 0xEC, CHR 0x99,
      CHR 0x80, CHR 0x20, CHR 0x46, CHR 0x72, CHR 0x6F, CHR 0x6E, CHR 0x74, CHR 0x65, CHR 0x6E,
      CHR 0x64, CHR 0xEC, CHR 0x9D, CHR 0x98, CHR 0x20, CHR 0xEB, CHR 0xB2, CHR 0x84, CHR 0xEC,
      CHR 0xA0, CHR 0x84, CHR 0x20, CHR 0xEB, CHR 0xB0, CHR 0x8F, CHR 0x20, CHR 0xEC, CHR 0xBB,
      CHR 0xA4, CHR 0xEB, CHR 0xB0, CHR 0x8B, CHR 0x20, CHR 0xEB, CHR 0x9D, CHR 0xBC, CHR 0xEB,
      CHR 0xB2, CHR 0xA8, CHR 0xEC, CHR 0x9D, CHR 0xB4, CHR 0x20, CHR 0xEC, CHR 0x84, CHR 0x9C,
      CHR 0xEB, CHR 0xA1, CHR 0x9C, CHR 0x20, CHR 0xEB, CHR 0x8B, CHR 0xA4, CHR 0xEB, CHR 0xA6,
      CHR 0x85, CHR 0xEB, CHR 0x8B, CHR 0x88, CHR 0xEB, CHR 0x8B, CHR 0xA4, CHR 0x2E]"

definition txt_mismatch_version :: string where
  "txt_mismatch_version =
     [CHR 0x42, CHR 0x61, CHR 0x63, CHR 0x6B, CHR 0x65, CHR 0x6E, CHR 0x64, CHR 0xEC, CHR 0x99,
      CHR 0x80, CHR 0x20, CHR 0x46, CHR 0x72, CHR 0x6F, CHR 0x6E, CHR 0x74, CHR 0x65, CHR 0x6E,
      CHR 0x64, CHR 0xEC, CHR 0x9D, CHR 0x98, CHR 0x20, CHR 0xEB, CHR 0xB2, CHR 0x84, CHR 0xEC,
      CHR 0xA0, CHR 0x84, CHR 0x20, CHR 0xEB, CHR 0x9D, CHR 0xBC, CHR 0xEB, CHR 0xB2, CHR 0xA8,
      CHR 0xEC, CHR 0x9D, CHR 0xB4, CHR 0x20, CHR 0xEC, CHR 0x84, CHR 0x9C, CHR 0xEB, CHR 0xA1,
      CHR 0x9C, CHR 0x20, CHR 0xEB, CHR 0x8B, CHR 0xA4, CHR 0xEB, CHR 0xA6, CHR 0x85, CHR 0xEB,
      CHR 0x8B, CHR 0x88, CHR 0xEB, CHR 0x8B, CHR 0xA4, CHR 0x2E]"

definition txt_mismatch_revision :: string where
  "txt_mismatch_revision =
     [CHR 0x42, CHR 0x61, CHR 0x63, CHR 0x6B, CHR 0x65, CHR 0x6E, CHR 0x64, CHR 0xEC, CHR 0x99,
      CHR 0x80, CHR 0x20, CHR 0x46, CHR 0x72, CHR 0x6F, CHR 0x6E, CHR 0x74, CHR 0x65, CHR 0x6E,
      CHR 0x64, CHR 0xEC, CHR 0x9D, CHR 0x98, CHR 0x20, CHR 0xEC, CHR 0xBB, CHR 0xA4, CHR 0xEB,
      CHR 0xB0, CHR 0x8B, CHR 0x20, CHR 0xEB, CHR 0x9D, CHR 0xBC, CHR 0xEB, CHR 0xB2, CHR 0xA8,
      CHR 0xEC, CHR 0x9D, CHR 0xB4, CHR 0x20, CHR 0xEC, CHR 0x84, CHR 0x9C, CHR 0xEB, CHR 0xA1,
      CHR 0x9C, CHR 0x20, CHR 0xEB, CHR 0x8B, CHR 0xA4, CHR 0xEB, CHR 0xA6, CHR 0x85, CHR 0xEB,
      CHR 0x8B, CHR 0x88, CHR 0xEB, CHR 0x8B, CHR 0xA4, CHR 0x2E]"

definition txt_below_one_second :: string where
  "txt_below_one_second =
     [CHR 0x31, CHR 0xEC, CHR 0xB4, CHR 0x88, CHR 0x20, CHR 0xEB, CHR 0xAF, CHR 0xB8, CHR 0xEB,
      CHR 0xA7, CHR 0x8C]"

definition txt_plan_check1 :: string where
  "txt_plan_check1 =
     [CHR 0xEC, CHR 0x97, CHR 0x85, CHR 0xEB, CHR 0x8D, CHR 0xB0, CHR 0xEC, CHR 0x9D, CHR 0xB4,
      CHR 0xED, CHR 0x8A, CHR 0xB8, CHR 0x20, CHR 0xEC, CHR 0xA0, CHR 0x84, CHR 0x20, CHR 0xEB,
      CHR 0x9D, CHR 0xBC, CHR 0xEC, CHR 0x9A, CHR 0xB0, CHR 0xED, CHR 0x84, CHR 0xB0, CHR 0x2C,
      CHR 0x20, CHR 0xEC, CHR 0x9D, CHR 0xB8, CHR 0xEC, CHR 0xA6, CHR 0x9D, CHR 0xEC, CHR 0x84,
      CHR 0x9C, CHR 0x2C, CHR 0x20, CHR 0xEC, CHR 0x84, CHR 0x9C, CHR 0xEB, CHR 0xB9, CHR 0x84,
      CHR 0xEC, CHR 0x8A, CHR 0xA4, CHR 0x20, CHR 0xED, CHR 0x97, CHR 0xAC, CHR 0xEC, CHR 0x8A,
      CHR 0xA4, CHR 0x20, CHR 0xEC, CHR 0x83, CHR 0x81, CHR 0xED, CHR 0x83, CHR 0x9C, CHR 0xEA,
      CHR 0xB0, CHR 0x80, CHR 0x20, CHR 0xEB, CHR 0xAA, CHR 0xA8, CHR 0xEB, CHR 0x91, CHR 0x90,
      CHR 0x20, CHR 0xEC, CHR 0xA0, CHR 0x95, CHR 0xEC, CHR 0x83, CHR 0x81, CHR 0xEC, CHR 0x9D,
      CHR 0xB8, CHR 0xEC, CHR 0xA7, CHR 0x80, CHR 0x20, CHR 0xED, CHR 0x99, CHR 0x95, CHR 0xEC,
      CHR 0x9D, CHR 0xB8, CHR 0xED, CHR 0x95, CHR 0xA9, CHR 0xEB, CHR 0x8B, CHR 0x88, CHR 0xEB,
      CHR 0x8B, CHR 0xA4, CHR 0x2E]"

definition txt_plan_check2 :: string where
  "txt_plan_check2 =
     [CHR 0x54, CHR 0x72, CHR 0x61, CHR 0x65, CHR 0x66, CHR 0x69, CHR 0x6B, CHR 0x20, CHR 0xEC,
      CHR 0xBB, CHR 0xA8, CHR 0xED, CHR 0x85, CHR 0x8C, CHR 0xEC, CHR 0x9D, CHR 0xB4, CHR 0xEB,
      CHR 0x84, CHR 0x88, CHR 0xEC, CHR 0x9D, CHR 0x98, CHR 0x20, CHR 0xED, CHR 0x98, CHR 0x84,
      CHR 0xEC, CHR 0x9E, CHR 0xAC, CHR 0x20, CHR 0xEC, CHR 0x9D, CHR 0xB4, CHR 0xEB, CHR 0xAF,
      CHR 0xB8, CHR 0xEC, CHR 0xA7, CHR 0x80, CHR 0x20, CHR 0xED, CHR 0x83, CHR 0x9C, CHR 0xEA,
      CHR 0xB7, CHR 0xB8, CHR 0xEC, CHR 0x99, CHR 0x80, CHR 0x20, CHR 0x63, CHR 0x6F, CHR 0x6D,
      CHR 0x70, CHR 0x6F, CHR 0x73, CHR 0x65, CHR 0x20, CHR 0xEC, CHR 0x9C, CHR 0x84, CHR 0xEC,
      CHR 0xB9, CHR 0x98, CHR 0xEB, CHR 0xA5, CHR 0xBC, CHR 0x20, CHR 0xEB, CHR 0xA8, CHR 0xBC,
      CHR 0xEC, CHR 0xA0, CHR 0x80, CHR 0x20, CHR 0xEA, CHR 0xB8, CHR 0xB0, CHR 0xEB, CHR 0xA1,
      CHR 0x9D, CHR 0xED, CHR 0x95, CHR 0xA9, CHR 0xEB, CHR 0x8B, CHR 0x88, CHR 0xEB, CHR 0x8B,
      CHR 0xA4, CHR 0x2E]"

definition txt_plan_check3 :: string where
  "txt_plan_check3 =
     [CHR 0xEC, CHR 0x9D, CHR 0xB8, CHR 0xEC, CHR 0xA6, CHR 0x9D, CHR 0xEC, CHR 0x84, CHR 0x9C,
      CHR 0x20, CHR 0xEC, CHR 0xA0, CHR 0x80, CHR 0xEC, CHR 0x9E, CHR 0xA5, CHR 0xEC, CHR 0x86,
      CHR 0x8C, CHR 0x28, CHR 0x61, CHR 0x63, CHR 0x6D, CHR 0x65, CHR 0x2E, CHR 0x6A, CHR 0x73,
      CHR 0x6F, CHR 0x6E, CHR 0x29, CHR 0xEC, CHR 0x99, CHR 0x80, CHR 0x20, CHR 0x54, CHR 0x72,
      CHR 0x61, CHR 0x65, CHR 0x66, CHR 0x69, CHR 0x6B, CHR 0x20, CHR 0xEC, CHR 0xA0, CHR 0x95,
      CHR 0xEC, CHR 0xA0, CHR 0x81, CHR 0x20, CHR 0xEC, CHR 0x84, CHR 0xA4, CHR 0xEC, CHR 0xA0,
      CHR 0x95, CHR 0x20, CHR 0xED, CHR 0x8C, CHR 0x8C, CHR 0xEC, CHR 0x9D, CHR 0xBC, CHR 0xEC,
      CHR 0x9D, CHR 0x84, CHR 0x20, CHR 0xEB, CHR 0xB0, CHR 0xB1, CHR 0xEC, CHR 0x97, CHR 0x85,
      CHR 0xED, CHR 0x95, CHR 0x9C, CHR 0x20, CHR 0xEB, CHR 0x92, CHR 0xA4, CHR 0x20, CHR 0xEC,
      CHR 0xA7, CHR 0x84, CHR 0xED, CHR 0x96, CHR 0x89, CHR 0xED, CHR 0x95, CHR 0xA9, CHR 0xEB,
      CHR 0x8B, CHR 0x88, CHR 0xEB, CHR 0x8B, CHR 0xA4, CHR 0x2E]"

definition txt_plan_check4 :: string where
  "txt_plan_check4 =
     [CHR 0xEC, CHR 0x97, CHR 0x85, CHR 0xEB, CHR 0x8D, CHR 0xB0, CHR 0xEC, CHR 0x9D, CHR 0xB4,
      CHR 0xED, CHR 0x8A, CHR 0xB8, CHR 0x20, CHR 0xED, CHR 0x9B, CHR 0x84, CHR 0x20, CHR 0xEB,
      CHR 0x8C, CHR 0x80, CHR 0xEC, CHR 0x8B, CHR 0x9C, CHR 0xEB, CHR 0xB3, CHR 0xB4, CHR 0xEB,
      CHR 0x93, CHR 0x9C, CHR 0xEC, CHR 0x9D, CHR 0x98, CHR 0x20, CHR 0xEB, CHR 0x9D, CHR 0xBC,
      CHR 0xEC, CHR 0x9A, CHR 0xB0, CHR 0xED, CHR 0x84, CHR 0xB0, CHR 0x2F, CHR 0xEC, CHR 0x9D,
      CHR 0xB8, CHR 0xEC, CHR 0xA6, CHR 0x9D, CHR 0xEC, CHR 0x84, CHR 0x9C, CHR 0x2F, CHR 0xEC,
      CHR 0x84, CHR 0x9C, CHR 0xEB, CHR 0xB9, CHR 0x84, CHR 0xEC, CHR 0x8A, CHR 0xA4, CHR 0x20,
      CHR 0xED, CHR 0x97, CHR 0xAC, CHR 0xEC, CHR 0x8A, CHR 0xA4, CHR 0x20, CHR 0xEC, CHR 0x83,
      CHR 0x81, CHR 0xED, CHR 0x83, CHR 0x9C, CHR 0xEB, CHR 0xA5, CHR 0xBC, CHR 0x20, CHR 0xEB,
      CHR 0x8B, CHR 0xA4, CHR 0xEC, CHR 0x8B, CHR 0x9C, CHR 0x20, CHR 0xED, CHR 0x99, CHR 0x95,
      CHR 0xEC, CHR 0x9D, CHR 0xB8, CHR 0xED, CHR 0x95, CHR 0xA9, CHR 0xEB, CHR 0x8B, CHR 0x88,
      CHR 0xEB, CHR 0x8B, CHR 0xA4, CHR 0x2E]"

definition txt_advisory_before :: string where
  "txt_advisory_before =
     [CHR 0xEA, CHR 0xB3, CHR 0xB5, CHR 0xEC, CHR 0x8B, CHR 0x9D, CHR 0x20, CHR 0xEB, CHR 0xB3,
      CHR 0xB4, CHR 0xEC, CHR 0x95, CHR 0x88, CHR 0x20, CHR 0xEA, CHR 0xB6, CHR 0x8C, CHR 0xEA,
      CHR 0xB3, CHR 0xA0, CHR 0x3A, CHR 0x20]"

definition txt_advisory_after :: string where
  "txt_advisory_after =
     [CHR 0x20, CHR 0xEC, CHR 0x88, CHR 0x98, CHR 0xEC, CHR 0xA0, CHR 0x95, CHR 0xEC, CHR 0x9D,
      CHR 0xB4, CHR 0x20, CHR 0xED, CHR 0x8F, CHR 0xAC, CHR 0xED, CHR 0x95, CHR 0xA8, CHR 0xEB,
      CHR 0x90, CHR 0x98, CHR 0xEC, CHR 0x96, CHR 0xB4, CHR 0x20, CHR 0xEC, CHR 0x9E, CHR 0x88,
      CHR 0xEC, CHR 0x8A, CHR 0xB5, CHR 0xEB, CHR 0x8B, CHR 0x88, CHR 0xEB, CHR 0x8B, CHR 0xA4,
      CHR 0x2E]"

definition txt_security_notes :: string where
  "txt_security_notes =
     [CHR 0xEA, CHR 0xB3, CHR 0xB5, CHR 0xEC, CHR 0x8B, CHR 0x9D, CHR 0x20, CHR 0xEB, CHR 0xA6,
      CHR 0xB4, CHR 0xEB, CHR 0xA6, CHR 0xAC, CHR 0xEC, CHR 0x8A, CHR 0xA4, CHR 0x20, CHR 0xEB,
      CHR 0x85, CHR 0xB8, CHR 0xED, CHR 0x8A, CHR 0xB8, CHR 0xEC, CHR 0x97, CHR 0x90, CHR 0x20,
      CHR 0xEB, CHR 0xB3, CHR 0xB4, CHR 0xEC, CHR 0x95, CHR 0x88, CHR 0x20, CHR 0xEC, CHR 0x88,
      CHR 0x98, CHR 0xEC, CHR 0xA0, CHR 0x95, CHR 0xEC, CHR 0x9D, CHR 0xB4, CHR 0x20, CHR 0xED,
      CHR 0x8F, CHR 0xAC, CHR 0xED, CHR 0x95, CHR 0xA8, CHR 0xEB, CHR 0x90, CHR 0x98, CHR 0xEC,
      CHR 0x96, CHR 0xB4, CHR 0x20, CHR 0xEC, CHR 0x9E, CHR 0x88, CHR 0xEC, CHR 0x8A, CHR 0xB5,
      CHR 0xEB, CHR 0x8B, CHR 0x88, CHR 0xEB, CHR 0x8B, CHR 0xA4, CHR 0x2E]"

definition txt_security_patch :: string where
  "txt_security_patch =
     [CHR 0xEB, CHR 0xB3, CHR 0xB4, CHR 0xEC, CHR 0x95, CHR 0x88, CHR 0x20, CHR 0xED, CHR 0x8C,
      CHR 0xA8, CHR 0xEC, CHR 0xB9, CHR 0x98]"

definition txt_cmd_image :: string where
  "txt_cmd_image =
     [CHR 0xED, CHR 0x98, CHR 0x84, CHR 0xEC, CHR 0x9E, CHR 0xAC, CHR 0x20, CHR 0xEC, CHR 0x9D,
      CHR 0xB4, CHR 0xEB, CHR 0xAF, CHR 0xB8, CHR 0xEC, CHR 0xA7, CHR 0x80, CHR 0x20, CHR 0xED,
      CHR 0x99, CHR 0x95, CHR 0xEC, CHR 0x9D, CHR 0xB8]"

definition txt_cmd_image_desc :: string where
  "txt_cmd_image_desc =
     [CHR 0xEB, CHR 0xA1, CHR 0xA4, CHR 0xEB, CHR 0xB0, CHR 0xB1, CHR 0xEC, CHR 0x97, CHR 0x90,
      CHR 0x20, CHR 0xED, CHR 0x95, CHR 0x84, CHR 0xEC, CHR 0x9A, CHR 0x94, CHR 0xED, CHR 0x95,
      CHR 0x9C, CHR 0x20, CHR 0xEA, CHR 0xB8, CHR 0xB0, CHR 0xEC, CHR 0xA1, CHR 0xB4, CHR 0x20,
      CHR 0x54, CHR 0x72, CHR 0x61, CHR 0x65, CHR 0x66, CHR 0x69, CHR 0x6B, CHR 0x20, CHR 0xEC,
      CHR 0x9D, CHR 0xB4, CHR 0xEB, CHR 0xAF, CHR 0xB8, CHR 0xEC, CHR 0xA7, CHR 0x80, CHR 0x20,
      CHR 0xED, CHR 0x83, CHR 0x9C, CHR 0xEA, CHR 0xB7, CHR 0xB8, CHR 0xEB, CHR 0xA5, CHR 0xBC,
      CHR 0x20, CHR 0xED, CHR 0x99, CHR 0x95, CHR 0xEC, CHR 0x9D, CHR 0xB8, CHR 0xED, CHR 0x95,
      CHR 0xA9, CHR 0xEB, CHR 0x8B, CHR 0x88, CHR 0xEB, CHR 0x8B, CHR 0xA4, CHR 0x2E]"

definition txt_cmd_compose :: string where
  "txt_cmd_compose =
     [CHR 0x43, CHR 0x6F, CHR 0x6D, CHR 0x70, CHR 0x6F, CHR 0x73, CHR 0x65, CHR 0x20, CHR 0xEC,
      CHR 0x9C, CHR 0x84, CHR 0xEC, CHR 0xB9, CHR 0x98, CHR 0x20, CHR 0xED, CHR 0x99, CHR 0x95,
      CHR 0xEC, CHR 0x9D, CHR 0xB8]"

definition txt_cmd_compose_desc :: string where
  "txt_cmd_compose_desc =
     [CHR 0x54, CHR 0x72, CHR 0x61, CHR 0x65, CHR 0x66, CHR 0x69, CHR 0x6B, CHR 0x20, CHR 0x63,
      CHR 0x6F, CHR 0x6D, CHR 0x70, CHR 0x6F, CHR 0x73, CHR 0x65, CHR 0x20, CHR 0xED, CHR 0x8C,
      CHR 0x8C, CHR 0xEC, CHR 0x9D, CHR 0xBC, CHR 0xEC, CHR 0x9D, CHR 0xB4, CHR 0x20, CHR 0xEC,
      CHR 0x9E, CHR 0x88, CHR 0xEB, CHR 0x8A, CHR 0x94, CHR 0x20, CHR 0xEC, CHR 0x9E, CHR 0x91,
      CHR 0xEC, CHR 0x97, CHR 0x85, CHR 0x20, CHR 0xEB, CHR 0x94, CHR 0x94, CHR 0xEB, CHR 0xA0,
      CHR 0x89, CHR 0xED, CHR 0x84, CHR 0xB0, CHR 0xEB, CHR 0xA6, CHR 0xAC, CHR 0xEB, CHR 0xA5,
      CHR 0xBC, CHR 0x20, CHR 0xEC, CHR 0xB0, CHR 0xBE, CHR 0xEC, CHR 0x8A, CHR 0xB5, CHR 0xEB,
      CHR 0x8B, CHR 0x88, CHR 0xEB, CHR 0x8B, CHR 0xA4, CHR 0x2E]"

definition txt_cmd_apply :: string where
  "txt_cmd_apply =
     [CHR 0xEC, CHR 0x97, CHR 0x85, CHR 0xEB, CHR 0x8D, CHR 0xB0, CHR 0xEC, CHR 0x9D, CHR 0xB4,
      CHR 0xED, CHR 0x8A, CHR 0xB8, CHR 0x20, CHR 0xEC, CHR 0xA0, CHR 0x81, CHR 0xEC, CHR 0x9A,
      CHR 0xA9]"

definition txt_cmd_apply_desc :: string where
  "txt_cmd_apply_desc =
     [CHR 0xEC, CHR 0x83, CHR 0x88, CHR 0x20, CHR 0xEC, CHR 0x9D, CHR 0xB4, CHR 0xEB, CHR 0xAF,
      CHR 0xB8, CHR 0xEC, CHR 0xA7, CHR 0x80, CHR 0xEB, CHR 0xA5, CHR 0xBC, CHR 0x20, CHR 0xEB,
      CHR 0xB0, CHR 0x9B, CHR 0xEC, CHR 0x9D, CHR 0x80, CHR 0x20, CHR 0xEB, CHR 0x92, CHR 0xA4,
      CHR 0x20, CHR 0xEC, CHR 0x95, CHR 0x88, CHR 0xEC, CHR 0xA0, CHR 0x84, CHR 0x20, CHR 0xEA,
      CHR 0xB2, CHR 0xBD, CHR 0xEB, CHR 0xA1, CHR 0x9C, CHR 0xEC, CHR 0x97, CHR 0x90, CHR 0xEC,
      CHR 0x84, CHR 0x9C, CHR 0x20, CHR 0x54, CHR 0x72, CHR 0x61, CHR 0x65, CHR 0x66, CHR 0x69,
      CHR 0x6B, CHR 0xEB, CHR 0xA7, CHR 0x8C, CHR 0x20, CHR 0xEC, CHR 0x9E, CHR 0xAC, CHR 0xEC,
      CHR 0x83, CHR 0x9D, CHR 0xEC, CHR 0x84, CHR 0xB1, CHR 0xED, CHR 0x95, CHR 0xA9, CHR 0xEB,
      CHR 0x8B, CHR 0x88, CHR 0xEB, CHR 0x8B, CHR 0xA4, CHR 0x2E]"

definition txt_cmd_logs :: string where
  "txt_cmd_logs =
     [CHR 0xEC, CHR 0x97, CHR 0x85, CHR 0xEB, CHR 0x8D, CHR 0xB0, CHR 0xEC, CHR 0x9D, CHR 0xB4,
      CHR 0xED, CHR 0x8A, CHR 0xB8, CHR 0x20, CHR 0xED, CHR 0x9B, CHR 0x84, CHR 0x20, CHR 0xEB,
      CHR 0xA1, CHR 0x9C, CHR 0xEA, CHR 0xB7, CHR 0xB8, CHR 0x20, CHR 0xED, CHR 0x99, CHR 0x95,
      CHR 0xEC, CHR 0x9D, CHR 0xB8]"

definition txt_cmd_logs_desc :: string where
  "txt_cmd_logs_desc =
     [CHR 0xEC, CHR 0x8B, CHR 0x9C, CHR 0xEC, CHR 0x9E, CHR 0x91, CHR 0x20, CHR 0xEC, CHR 0x98,
      CHR 0xA4, CHR 0xEB, CHR 0xA5, CHR 0x98, CHR 0x2C, CHR 0x20, CHR 0x41, CHR 0x43, CHR 0x4D,
      CHR 0x45, CHR 0x20, CHR 0xEC, CHR 0x98, CHR 0xA4, CHR 0xEB, CHR 0xA5, CHR 0x98, CHR 0x2C,
      CHR 0x20, CHR 0x70, CHR 0x72, CHR 0x6F, CHR 0x76, CHR 0x69, CHR 0x64, CHR 0x65, CHR 0x72,
      CHR 0x20, CHR 0xEC, CHR 0x98, CHR 0xA4, CHR 0xEB, CHR 0xA5, CHR 0x98, CHR 0xEA, CHR 0xB0,
      CHR 0x80, CHR 0x20, CHR 0xEC, CHR 0x97, CHR 0x86, CHR 0xEB, CHR 0x8A, CHR 0x94, CHR 0xEC,
      CHR 0xA7, CHR 0x80, CHR 0x20, CHR 0xED, CHR 0x99, CHR 0x95, CHR 0xEC, CHR 0x9D, CHR 0xB8,
      CHR 0xED, CHR 0x95, CHR 0xA9, CHR 0xEB, CHR 0x8B, CHR 0x88, CHR 0xEB, CHR 0x8B, CHR 0xA4,
      CHR 0x2E]"

definition txt_rollback_dynamic :: string where
  "txt_rollback_dynamic =
     [CHR 0xEB, CHR 0xAC, CHR 0xB8, CHR 0xEC, CHR 0xA0, CHR 0x9C, CHR 0xEA, CHR 0xB0, CHR 0x80,
      CHR 0x20, CHR 0xEC, CHR 0x83, CHR 0x9D, CHR 0xEA, CHR 0xB8, CHR 0xB0, CHR 0xEB, CHR 0xA9,
      CHR 0xB4, CHR 0x20, CHR 0x43, CHR 0x6F, CHR 0x6D, CHR 0x70, CHR 0x6F, CHR 0x73, CHR 0x65,
      CHR 0x20, CHR 0xED, CHR 0x8C, CHR 0x8C, CHR 0xEC, CHR 0x9D, CHR 0xBC, CHR 0xEC, CHR 0x9D,
      CHR 0x98, CHR 0x20, CHR 0x54, CHR 0x72, CHR 0x61, CHR 0x65, CHR 0x66, CHR 0x69, CHR 0x6B,
      CHR 0x20, CHR 0x69, CHR 0x6D, CHR 0x61, CHR 0x67, CHR 0x65, CHR 0x20, CHR 0xED, CHR 0x83,
      CHR 0x9C, CHR 0xEA, CHR 0xB7, CHR 0xB8, CHR 0xEB, CHR 0xA5, CHR 0xBC, CHR 0x20, CHR 0xEC,
      CHR 0x97, CHR 0x85, CHR 0xEB, CHR 0x8D, CHR 0xB0, CHR 0xEC, CHR 0x9D, CHR 0xB4, CHR 0xED,
      CHR 0x8A, CHR 0xB8, CHR 0x20, CHR 0xEC, CHR 0xA0, CHR 0x84, CHR 0x20, CHR 0xEA, CHR 0xB0,
      CHR 0x92, CHR 0xEC, CHR 0x9C, CHR 0xBC, CHR 0xEB, CHR 0xA1, CHR 0x9C, CHR 0x20, CHR 0xEB,
      CHR 0x90, CHR 0x98, CHR 0xEB, CHR 0x8F, CHR 0x8C, CHR 0xEB, CHR 0xA6, CHR 0xB0, CHR 0x20,
      CHR 0xEB, CHR 0x92, CHR 0xA4, CHR 0x20, CHR 0xEC, CHR 0x9C, CHR 0x84, CHR 0xEC, CHR 0x9D,
      CHR 0x98, CHR 0x20, CHR 0x60, CHR 0xEC, CHR 0x97, CHR 0x85, CHR 0xEB, CHR 0x8D, CHR 0xB0,
      CHR 0xEC, CHR 0x9D, CHR 0xB4, CHR 0xED, CHR 0x8A, CHR 0xB8, CHR 0x20, CHR 0xEC, CHR 0xA0,
      CHR 0x81, CHR 0xEC, CHR 0x9A, CHR 0xA9, CHR 0x60, CHR 0x20, CHR 0xEB, CHR 0xAA, CHR 0x85,
      CHR 0xEB, CHR 0xA0, CHR 0xB9, CHR 0xEC, CHR 0x9D, CHR 0x84, CHR 0x20, CHR 0xEB, CHR 0x8B,
      CHR 0xA4, CHR 0xEC, CHR 0x8B, CHR 0x9C, CHR 0x20, CHR 0xEC, CHR 0x8B, CHR 0xA4, CHR 0xED,
      CHR 0x96, CHR 0x89, CHR 0xED, CHR 0x95, CHR 0xA9, CHR 0xEB, CHR 0x8B, CHR 0x88, CHR 0xEB,
      CHR 0x8B, CHR 0xA4, CHR 0x2E]"

definition txt_rollback_static :: string where
  "txt_rollback_static =
     [CHR 0xEB, CHR 0xAC, CHR 0xB8, CHR 0xEC, CHR 0xA0, CHR 0x9C, CHR 0xEA, CHR 0xB0, CHR 0x80,
      CHR 0x20, CHR 0xEC, CHR 0x83, CHR 0x9D, CHR 0xEA, CHR 0xB8, CHR 0xB0, CHR 0xEB, CHR 0xA9,
      CHR 0xB4, CHR 0x20, CHR 0x43, CHR 0x6F, CHR 0x6D, CHR 0x70, CHR 0x6F, CHR 0x73, CHR 0x65,
      CHR 0x20, CHR 0xED, CHR 0x8C, CHR 0x8C, CHR 0xEC, CHR 0x9D, CHR 0xBC, CHR 0xEC, CHR 0x9D,
      CHR 0x98, CHR 0x20, CHR 0x54, CHR 0x72, CHR 0x61, CHR 0x65, CHR 0x66, CHR 0x69, CHR 0x6B,
      CHR 0x20, CHR 0x69, CHR 0x6D, CHR 0x61, CHR 0x67, CHR 0x65, CHR 0x20, CHR 0xED, CHR 0x83,
      CHR 0x9C, CHR 0xEA, CHR 0xB7, CHR 0xB8, CHR 0xEB, CHR 0xA5, CHR 0xBC, CHR 0x20, CHR 0xEC,
      CHR 0x97, CHR 0x85, CHR 0xEB, CHR 0x8D, CHR 0xB0, CHR 0xEC, CHR 0x9D, CHR 0xB4, CHR 0xED,
      CHR 0x8A, CHR 0xB8, CHR 0x20, CHR 0xEC, CHR 0xA0, CHR 0x84, CHR 0x20, CHR 0xEA, CHR 0xB0,
      CHR 0x92, CHR 0xEC, CHR 0x9C, CHR 0xBC, CHR 0xEB, CHR 0xA1, CHR 0x9C, CHR 0x20, CHR 0xEB,
      CHR 0x90, CHR 0x98, CHR 0xEB, CHR 0x8F, CHR 0x8C, CHR 0xEB, CHR 0xA6, CHR 0xB0, CHR 0x20,
      CHR 0xEB, CHR 0x92, CHR 0xA4, CHR 0x20, CHR 0xEC, CHR 0x95, CHR 0x88, CHR 0xEC, CHR 0xA0,
      CHR 0x84, CHR 0x20, CHR 0xEC, CHR 0x9E, CHR 0xAC, CHR 0xEC, CHR 0x83, CHR 0x9D, CHR 0xEC,
      CHR 0x84, CHR 0xB1, CHR 0x20, CHR 0xEC, CHR 0x8A, CHR 0xA4, CHR 0xED, CHR 0x81, CHR 0xAC,
      CHR 0xEB, CHR 0xA6, CHR 0xBD, CHR 0xED, CHR 0x8A, CHR 0xB8, CHR 0xEB, CHR 0xA5, CHR 0xBC,
      CHR 0x20, CHR 0xEB, CHR 0x8B, CHR 0xA4, CHR 0xEC, CHR 0x8B, CHR 0x9C, CHR 0x20, CHR 0xEC,
      CHR 0x8B, CHR 0xA4, CHR 0xED, CHR 0x96, CHR 0x89, CHR 0xED, CHR 0x95, CHR 0xA9, CHR 0xEB,
      CHR 0x8B, CHR 0x88, CHR 0xEB, CHR 0x8B, CHR 0xA4, CHR 0x2E]"

definition txt_risk_low :: string where
  "txt_risk_low =
     [CHR 0xED, CHR 0x8C, CHR 0xA8, CHR 0xEC, CHR 0xB9, CHR 0x98, CHR 0x20, CHR 0xEC, CHR 0x97,
      CHR 0x85, CHR 0xEB, CHR 0x8D, CHR 0xB0, CHR 0xEC, CHR 0x9D, CHR 0xB4, CHR 0xED, CHR 0x8A,
      CHR 0xB8]"

definition txt_risk_medium :: string where
  "txt_risk_medium =
     [CHR 0xEB, CHR 0xA7, CHR 0x88, CHR 0xEC, CHR 0x9D, CHR 0xB4, CHR 0xEB, CHR 0x84, CHR 0x88,
      CHR 0x20, CHR 0xEC, CHR 0x97, CHR 0x85, CHR 0xEB, CHR 0x8D, CHR 0xB0, CHR 0xEC, CHR 0x9D,
      CHR 0xB4, CHR 0xED, CHR 0x8A, CHR 0xB8]"

definition txt_risk_high :: string where
  "txt_risk_high =
     [CHR 0xEB, CHR 0xA9, CHR 0x94, CHR 0xEC, CHR 0x9D, CHR 0xB4, CHR 0xEC, CHR 0xA0, CHR 0x80,
      CHR 0x20, CHR 0xEC, CHR 0x97, CHR 0x85, CHR 0xEB, CHR 0x8D, CHR 0xB0, CHR 0xEC, CHR 0x9D,
      CHR 0xB4, CHR 0xED, CHR 0x8A, CHR 0xB8]"

definition txt_risk_unknown :: string where
  "txt_risk_unknown =
     [CHR 0xEC, CHR 0x98, CHR 0x81, CHR 0xED, CHR 0x96, CHR 0xA5, CHR 0xEB, CHR 0x8F, CHR 0x84,
      CHR 0x20, CHR 0xED, CHR 0x99, CHR 0x95, CHR 0xEC, CHR 0x9D, CHR 0xB8, CHR 0x20, CHR 0xED,
      CHR 0x95, CHR 0x84, CHR 0xEC, CHR 0x9A, CHR 0x94]"

definition txt_sum_security :: string where
  "txt_sum_security =
     [CHR 0xEA, CHR 0xB3, CHR 0xB5, CHR 0xEC, CHR 0x8B, CHR 0x9D, CHR 0x20, CHR 0xEB, CHR 0xB3,
      CHR 0xB4, CHR 0xEC, CHR 0x95, CHR 0x88, CHR 0x20]"

definition txt_sum_advisories_before :: string where
  "txt_sum_advisories_before =
     [CHR 0xEA, CHR 0xB6, CHR 0x8C, CHR 0xEA, CHR 0xB3, CHR 0xA0, CHR 0x20]"

definition txt_sum_advisories_after :: string where
  "txt_sum_advisories_after =
     [CHR 0xEA, CHR 0xB1, CHR 0xB4, CHR 0xEC, CHR 0x9D, CHR 0x98, CHR 0x20]"

definition txt_sum_security_after :: string where
  "txt_sum_security_after =
     [CHR 0xEC, CHR 0x88, CHR 0x98, CHR 0xEC, CHR 0xA0, CHR 0x95, CHR 0xEC, CHR 0x9D, CHR 0xB4,
      CHR 0x20, CHR 0xED, CHR 0x8F, CHR 0xAC, CHR 0xED, CHR 0x95, CHR 0xA8, CHR 0xEB, CHR 0x90,
      CHR 0x98, CHR 0xEC, CHR 0x96, CHR 0xB4, CHR 0x20, CHR 0xEC, CHR 0x9A, CHR 0xB0, CHR 0xEC,
      CHR 0x84, CHR 0xA0, CHR 0x20, CHR 0xEC, CHR 0xA0, CHR 0x81, CHR 0xEC, CHR 0x9A, CHR 0xA9,
      CHR 0xEC, CHR 0x9D, CHR 0x84, CHR 0x20, CHR 0xEA, CHR 0xB6, CHR 0x8C, CHR 0xEC, CHR 0x9E,
      CHR 0xA5, CHR 0xED, CHR 0x95, CHR 0xA9, CHR 0xEB, CHR 0x8B, CHR 0x88, CHR 0xEB, CHR 0x8B,
      CHR 0xA4, CHR 0x2E, CHR 0x20]"

definition txt_sum_from :: string where
  "txt_sum_from =
     [CHR 0xEC, CHR 0x97, CHR 0x90, CHR 0xEC, CHR 0x84, CHR 0x9C, CHR 0x20]"

definition txt_sum_low :: string where
  "txt_sum_low =
     [CHR 0xEB, CHR 0xA1, CHR 0x9C, CHR 0x20, CHR 0xEC, CHR 0x98, CHR 0xAC, CHR 0xEB, CHR 0x9D,
      CHR 0xBC, CHR 0xEA, CHR 0xB0, CHR 0x80, CHR 0xEB, CHR 0x8A, CHR 0x94, CHR 0x20, CHR 0xED,
      CHR 0x8C, CHR 0xA8, CHR 0xEC, CHR 0xB9, CHR 0x98, CHR 0x20, CHR 0xEC, CHR 0x97, CHR 0x85,
      CHR 0xEB, CHR 0x8D, CHR 0xB0, CHR 0xEC, CHR 0x9D, CHR 0xB4, CHR 0xED, CHR 0x8A, CHR 0xB8,
      CHR 0xEC, CHR 0x9D, CHR 0xB4, CHR 0xEB, CHR 0xA9, CHR 0xB0, CHR 0x2C, CHR 0x20, CHR 0xEC,
      CHR 0xA0, CHR 0x81, CHR 0xEC, CHR 0x9A, CHR 0xA9, CHR 0x20, CHR 0xED, CHR 0x9B, CHR 0x84,
      CHR 0x20, CHR 0xEB, CHR 0x9D, CHR 0xBC, CHR 0xEC, CHR 0x9A, CHR 0xB0, CHR 0xED, CHR 0x84,
      CHR 0xB0, CHR 0xEC, CHR 0x99, CHR 0x80, CHR 0x20, CHR 0xEC, CHR 0x9D, CHR 0xB8, CHR 0xEC,
      CHR 0xA6, CHR 0x9D, CHR 0xEC, CHR 0x84, CHR 0x9C, CHR 0x20, CHR 0xEC, CHR 0x83, CHR 0x81,
      CHR 0xED, CHR 0x83, CHR 0x9C, CHR 0x20, CHR 0xED, CHR 0x99, CHR 0x95, CHR 0xEC, CHR 0x9D,
      CHR 0xB8, CHR 0xEC, CHR 0x9D, CHR 0xB4, CHR 0x20, CHR 0xED, CHR 0x95, CHR 0x84, CHR 0xEC,
      CHR 0x9A, CHR 0x94, CHR 0xED, CHR 0x95, CHR 0xA9, CHR 0xEB, CHR 0x8B, CHR 0x88, CHR 0xEB,
      CHR 0x8B, CHR 0xA4, CHR 0x2E]"

definition txt_sum_medium :: string where
  "txt_sum_medium =
     [CHR 0xEB, CHR 0xA1, CHR 0x9C, CHR 0x20, CHR 0xEC, CHR 0x98, CHR 0xAC, CHR 0xEB, CHR 0x9D,
      CHR 0xBC, CHR 0xEA, CHR 0xB0, CHR 0x80, CHR 0xEB, CHR 0x8A, CHR 0x94, CHR 0x20, CHR 0xEB,
      CHR 0xA7, CHR 0x88, CHR 0xEC, CHR 0x9D, CHR 0xB4, CHR 0xEB, CHR 0x84, CHR 0x88, CHR 0x20,
      CHR 0xEC, CHR 0x97, CHR 0x85, CHR 0xEB, CHR 0x8D, CHR 0xB0, CHR 0xEC, CHR 0x9D, CHR 0xB4,
      CHR 0xED, CHR 0x8A, CHR 0xB8, CHR 0xEC, CHR 0x9E, CHR 0x85, CHR 0xEB, CHR 0x8B, CHR 0x88,
      CHR 0xEB, CHR 0x8B, CHR 0xA4, CHR 0x2E, CHR 0x20, CHR 0xEB, CHR 0xA6, CHR 0xB4, CHR 0xEB,
      CHR 0xA6, CHR 0xAC, CHR 0xEC, CHR 0xA6, CHR 0x88, CHR 0x20, CHR 0xEB, CHR 0x85, CHR 0xB8,
      CHR 0xED, CHR 0x8A, CHR 0xB8, CHR 0x20, CHR 0xED, CHR 0x99, CHR 0x95, CHR 0xEC, CHR 0x9D,
      CHR 0xB8, CHR 0x20, CHR 0xED, CHR 0x9B, CHR 0x84, CHR 0x20, CHR 0xEC, CHR 0xA7, CHR 0xA7,
      CHR 0xEC, CHR 0x9D, CHR 0x80, CHR 0x20, CHR 0xEC, CHR 0xA0, CHR 0x90, CHR 0xEA, CHR 0xB2,
      CHR 0x80, CHR 0x20, CHR 0xEC, CHR 0xB0, CHR 0xBD, CHR 0xEC, CHR 0x97, CHR 0x90, CHR 0xEC,
      CHR 0x84, CHR 0x9C, CHR 0x20, CHR 0xEC, CHR 0xA7, CHR 0x84, CHR 0xED, CHR 0x96, CHR 0x89,
      CHR 0xED, CHR 0x95, CHR 0x98, CHR 0xEB, CHR 0x8A, CHR 0x94, CHR 0x20, CHR 0xEA, CHR 0xB2,
      CHR 0x83, CHR 0xEC, CHR 0x9D, CHR 0x84, CHR 0x20, CHR 0xEA, CHR 0xB6, CHR 0x8C, CHR 0xEC,
      CHR 0x9E, CHR 0xA5, CHR 0xED, CHR 0x95, CHR 0xA9, CHR 0xEB, CHR 0x8B, CHR 0x88, CHR 0xEB,
      CHR 0x8B, CHR 0xA4, CHR 0x2E]"

definition txt_sum_high :: string where
  "txt_sum_high =
     [CHR 0xEB, CHR 0xA1, CHR 0x9C, CHR 0x20, CHR 0xEC, CHR 0x98, CHR 0xAC, CHR 0xEB, CHR 0x9D,
      CHR 0xBC, CHR 0xEA, CHR 0xB0, CHR 0x80, CHR 0xEB, CHR 0x8A, CHR 0x94, CHR 0x20, CHR 0xEB,
      CHR 0xA9, CHR 0x94, CHR 0xEC, CHR 0x9D, CHR 0xB4, CHR 0xEC, CHR 0xA0, CHR 0x80, CHR 0x20,
      CHR 0xEC, CHR 0x97, CHR 0x85, CHR 0xEB, CHR 0x8D, CHR 0xB0, CHR 0xEC, CHR 0x9D, CHR 0xB4,
      CHR 0xED, CHR 0x8A, CHR 0xB8, CHR 0xEC, CHR 0x9E, CHR 0x85, CHR 0xEB, CHR 0x8B, CHR 0x88,
      CHR 0xEB, CHR 0x8B, CHR 0xA4, CHR 0x2E, CHR 0x20, CHR 0xEC, CHR 0x84, CHR 0xA4, CHR 0xEC,
      CHR 0xA0, CHR 0x95, CHR 0x20, CHR 0xED, CHR 0x98, CHR 0xB8, CHR 0xED, CHR 0x99, CHR 0x98,
      CHR 0xEC, CHR 0x84, CHR 0xB1, CHR 0x20, CHR 0xEA, CHR 0xB2, CHR 0x80, CHR 0xED, CHR 0x86,
      CHR 0xA0, CHR 0xEC, CHR 0x99, CHR 0x80, CHR 0x20, CHR 0xEB, CHR 0xA1, CHR 0xA4, CHR 0xEB,
      CHR 0xB0, CHR 0xB1, CHR 0x20, CHR 0xEA, CHR 0xB3, CHR 0x84, CHR 0xED, CHR 0x9A, CHR 0x8D,
      CHR 0x20, CHR 0xEC, CHR 0x97, CHR 0x86, CHR 0xEC, CHR 0x9D, CHR 0xB4, CHR 0x20, CHR 0xEB,
      CHR 0xB0, CHR 0x94, CHR 0xEB, CHR 0xA1, CHR 0x9C, CHR 0x20, CHR 0xEC, CHR 0xA0, CHR 0x81,
      CHR 0xEC, CHR 0x9A, CHR 0xA9, CHR 0xED, CHR 0x95, CHR 0x98, CHR 0xEB, CHR 0xA9, CHR 0xB4,
      CHR 0x20, CHR 0xEC, CHR 0x9C, CHR 0x84, CHR 0xED, CHR 0x97, CHR 0x98, CHR 0xED, CHR 0x95,
      CHR 0xA9, CHR 0xEB, CHR 0x8B, CHR 0x88, CHR 0xEB, CHR 0x8B, CHR 0xA4, CHR 0x2E]"

definition txt_sum_unknown :: string where
  "txt_sum_unknown =
     [CHR 0xEB, CHR 0xA1, CHR 0x9C, CHR 0x20, CHR 0xEC, CHR 0x97, CHR 0x85, CHR 0xEB, CHR 0x8D,
      CHR 0xB0, CHR 0xEC, CHR 0x9D, CHR 0xB4, CHR 0xED, CHR 0x8A, CHR 0xB8, CHR 0xEA, CHR 0xB0,
      CHR 0x80, CHR 0x20, CHR 0xEA, CHR 0xB0, CHR 0x90, CHR 0xEC, CHR 0xA7, CHR 0x80, CHR 0xEB,
      CHR 0x90, CHR 0x90, CHR 0xEC, CHR 0x8A, CHR 0xB5, CHR 0xEB, CHR 0x8B, CHR 0x88, CHR 0xEB,
      CHR 0x8B, CHR 0xA4, CHR 0x2E, CHR 0x20, CHR 0xEB, CHR 0xB2, CHR 0x84, CHR 0xEC, CHR 0xA0,
      CHR 0x84, CHR 0x20, CHR 0xEC, CHR 0xB0, CHR 0xA8, CHR 0xEC, CHR 0x9D, CHR 0xB4, CHR 0xEB,
      CHR 0xA5, CHR 0xBC, CHR 0x20, CHR 0xED, CHR 0x95, CHR 0xB4, CHR 0xEC, CHR 0x84, CHR 0x9D,
      CHR 0xED, CHR 0x95, CHR 0x98, CHR 0xEC, CHR 0xA7, CHR 0x80, CHR 0x20, CHR 0xEB, CHR 0xAA,
      CHR 0xBB, CHR 0xED, CHR 0x95, CHR 0xB4, CHR 0x20, CHR 0xEB, CHR 0xA6, CHR 0xB4, CHR 0xEB,
      CHR 0xA6, CHR 0xAC, CHR 0xEC, CHR 0xA6, CHR 0x88, CHR 0x20, CHR 0xEB, CHR 0x85, CHR 0xB8,
      CHR 0xED, CHR 0x8A, CHR 0xB8, CHR 0x20, CHR 0xED, CHR 0x99, CHR 0x95, CHR 0xEC, CHR 0x9D,
      CHR 0xB8, CHR 0xEC, CHR 0x9D, CHR 0xB4, CHR 0x20, CHR 0xED, CHR 0x95, CHR 0x84, CHR 0xEC,
      CHR 0x9A, CHR 0x94, CHR 0xED, CHR 0x95, CHR 0xA9, CHR 0xEB, CHR 0x8B, CHR 0x88, CHR 0xEB,
      CHR 0x8B, CHR 0xA4, CHR 0x2E]"

definition txt_lquote :: string where
  "txt_lquote =
     [CHR 0xE2, CHR 0x80, CHR 0x98]"

definition txt_rquote :: string where
  "txt_rquote =
     [CHR 0xE2, CHR 0x80, CHR 0x99]"

definition txt_sf_load_failed :: string where
  "txt_sf_load_failed =
     [CHR 0xEB, CHR 0xB8, CHR 0x8C, CHR 0xEB, CHR 0x9D, CHR 0xBC, CHR 0xEC, CHR 0x9A, CHR 0xB0,
      CHR 0xEC, CHR 0xA0, CHR 0x80, CHR 0xEC, CHR 0x97, CHR 0x90, CHR 0xEC, CHR 0x84, CHR 0x9C,
      CHR 0x20, CHR 0xEC, CHR 0xA0, CHR 0x80, CHR 0xEC, CHR 0x9E, CHR 0xA5, CHR 0x20, CHR 0xED,
      CHR 0x95, CHR 0x84, CHR 0xED, CHR 0x84, CHR 0xB0, CHR 0xEB, CHR 0xA5, CHR 0xBC, CHR 0x20,
      CHR 0xEB, CHR 0xB6, CHR 0x88, CHR 0xEB, CHR 0x9F, CHR 0xAC, CHR 0xEC, CHR 0x98, CHR 0xA4,
      CHR 0xEC, CHR 0xA7, CHR 0x80, CHR 0x20, CHR 0xEB, CHR 0xAA, CHR 0xBB, CHR 0xED, CHR 0x96,
      CHR 0x88, CHR 0xEC, CHR 0x8A, CHR 0xB5, CHR 0xEB, CHR 0x8B, CHR 0x88, CHR 0xEB, CHR 0x8B,
      CHR 0xA4, CHR 0x2E]"

definition txt_sf_write_failed :: string where
  "txt_sf_write_failed =
     [CHR 0xEB, CHR 0xB8, CHR 0x8C, CHR 0xEB, CHR 0x9D, CHR 0xBC, CHR 0xEC, CHR 0x9A, CHR 0xB0,
      CHR 0xEC, CHR 0xA0, CHR 0x80, CHR 0xEC, CHR 0x97, CHR 0x90, CHR 0x20, CHR 0xEC, CHR 0xA0,
      CHR 0x80, CHR 0xEC, CHR 0x9E, CHR 0xA5, CHR 0x20, CHR 0xED, CHR 0x95, CHR 0x84, CHR 0xED,
      CHR 0x84, CHR 0xB0, CHR 0xEB, CHR 0xA5, CHR 0xBC, CHR 0x20, CHR 0xEA, CHR 0xB8, CHR 0xB0,
      CHR 0xEB, CHR 0xA1, CHR 0x9D, CHR 0xED, CHR 0x95, CHR 0x98, CHR 0xEC, CHR 0xA7, CHR 0x80,
      CHR 0x20, CHR 0xEB, CHR 0xAA, CHR 0xBB, CHR 0xED, CHR 0x96, CHR 0x88, CHR 0xEC, CHR 0x8A,
      CHR 0xB5, CHR 0xEB, CHR 0x8B, CHR 0x88, CHR 0xEB, CHR 0x8B, CHR 0xA4, CHR 0x2E]"

definition txt_sf_sort_failed :: string where
  "txt_sf_sort_failed =
     [CHR 0xEB, CHR 0xB8, CHR 0x8C, CHR 0xEB, CHR 0x9D, CHR 0xBC, CHR 0xEC, CHR 0x9A, CHR 0xB0,
      CHR 0xEC, CHR 0xA0, CHR 0x80, CHR 0xEC, CHR 0x97, CHR 0x90, CHR 0x20, CHR 0xEB, CHR 0xAA,
      CHR 0xA9, CHR 0xEB, CHR 0xA1, CHR 0x9D, CHR 0x20, CHR 0xEC, CHR 0xA0, CHR 0x95, CHR 0xEB,
      CHR 0xA0, CHR 0xAC, CHR 0x20, CHR 0xEA, CHR 0xB8, CHR 0xB0, CHR 0xEC, CHR 0xA4, CHR 0x80,
      CHR 0xEC, CHR 0x9D, CHR 0x84, CHR 0x20, CHR 0xEC, CHR 0xA0, CHR 0x80, CHR 0xEC, CHR 0x9E,
      CHR 0xA5, CHR 0xED, CHR 0x95, CHR 0x98, CHR 0xEC, CHR 0xA7, CHR 0x80, CHR 0x20, CHR 0xEB,
      CHR 0xAA, CHR 0xBB, CHR 0xED, CHR 0x96, CHR 0x88, CHR 0xEC, CHR 0x8A, CHR 0xB5, CHR 0xEB,
      CHR 0x8B, CHR 0x88, CHR 0xEB, CHR 0x8B, CHR 0xA4, CHR 0x2E]"

definition txt_sf_name_missing :: string where
  "txt_sf_name_missing =
     [CHR 0xEC, CHR 0xA0, CHR 0x80, CHR 0xEC, CHR 0x9E, CHR 0xA5, CHR 0xED, CHR 0x95, CHR 0xA0,
      CHR 0x20, CHR 0xED, CHR 0x95, CHR 0x84, CHR 0xED, CHR 0x84, CHR 0xB0, CHR 0x20, CHR 0xEC,
      CHR 0x9D, CHR 0xB4, CHR 0xEB, CHR 0xA6, CHR 0x84, CHR 0xEC, CHR 0x9D, CHR 0x84, CHR 0x20,
      CHR 0xEC, CHR 0x9E, CHR 0x85, CHR 0xEB, CHR 0xA0, CHR 0xA5, CHR 0xED, CHR 0x95, CHR 0x98,
      CHR 0xEC, CHR 0x84, CHR 0xB8, CHR 0xEC, CHR 0x9A, CHR 0x94, CHR 0x2E]"

definition txt_sf_limit :: string where
  "txt_sf_limit =
     [CHR 0xEC, CHR 0xA0, CHR 0x80, CHR 0xEC, CHR 0x9E, CHR 0xA5, CHR 0x20, CHR 0xED, CHR 0x95,
      CHR 0x84, CHR 0xED, CHR 0x84, CHR 0xB0, CHR 0xEB, CHR 0x8A, CHR 0x94, CHR 0x20, CHR 0xEC,
      CHR 0xB5, CHR 0x9C, CHR 0xEB, CHR 0x8C, CHR 0x80, CHR 0x20, CHR 0x32, CHR 0x30, CHR 0xEA,
      CHR 0xB0, CHR 0x9C, CHR 0xEC, CHR 0x9E, CHR 0x85, CHR 0xEB, CHR 0x8B, CHR 0x88, CHR 0xEB,
      CHR 0x8B, CHR 0xA4, CHR 0x2E, CHR 0x20, CHR 0xEA, CHR 0xB8, CHR 0xB0, CHR 0xEC, CHR 0xA1,
      CHR 0xB4, CHR 0x20, CHR 0xED, CHR 0x95, CHR 0xAD, CHR 0xEB, CHR 0xAA, CHR 0xA9, CHR 0xEC,
      CHR 0x9D, CHR 0x84, CHR 0x20, CHR 0xEC, CHR 0x82, CHR 0xAD, CHR 0xEC, CHR 0xA0, CHR 0x9C,
      CHR 0xED, CHR 0x95, CHR 0x98, CHR 0xEA, CHR 0xB1, CHR 0xB0, CHR 0xEB, CHR 0x82, CHR 0x98,
      CHR 0x20, CHR 0xEA, CHR 0xB0, CHR 0x99, CHR 0xEC, CHR 0x9D, CHR 0x80, CHR 0x20, CHR 0xEC,
      CHR 0x9D, CHR 0xB4, CHR 0xEB, CHR 0xA6, CHR 0x84, CHR 0xEC, CHR 0x9C, CHR 0xBC, CHR 0xEB,
      CHR 0xA1, CHR 0x9C, CHR 0x20, CHR 0xEB, CHR 0x8D, CHR 0xAE, CHR 0xEC, CHR 0x96, CHR 0xB4,
      CHR 0xEC, CHR 0x93, CHR 0xB0, CHR 0xEC, CHR 0x84, CHR 0xB8, CHR 0xEC, CHR 0x9A, CHR 0x94,
      CHR 0x2E]"

definition txt_sf_saved :: string where
  "txt_sf_saved =
     [CHR 0x20, CHR 0xED, CHR 0x95, CHR 0x84, CHR 0xED, CHR 0x84, CHR 0xB0, CHR 0xEB, CHR 0xA5,
      CHR 0xBC, CHR 0x20, CHR 0xEC, CHR 0xA0, CHR 0x80, CHR 0xEC, CHR 0x9E, CHR 0xA5, CHR 0xED,
      CHR 0x96, CHR 0x88, CHR 0xEC, CHR 0x8A, CHR 0xB5, CHR 0xEB, CHR 0x8B, CHR 0x88, CHR 0xEB,
      CHR 0x8B, CHR 0xA4, CHR 0x2E]"

definition txt_sf_applied :: string where
  "txt_sf_applied =
     [CHR 0x20, CHR 0xED, CHR 0x95, CHR 0x84, CHR 0xED, CHR 0x84, CHR 0xB0, CHR 0xEB, CHR 0xA5,
      CHR 0xBC, CHR 0x20, CHR 0xEC, CHR 0xA0, CHR 0x81, CHR 0xEC, CHR 0x9A, CHR 0xA9, CHR 0xED,
      CHR 0x96, CHR 0x88, CHR 0xEC, CHR 0x8A, CHR 0xB5, CHR 0xEB, CHR 0x8B, CHR 0x88, CHR 0xEB,
      CHR 0x8B, CHR 0xA4, CHR 0x2E]"

definition txt_sf_removed :: string where
  "txt_sf_removed =
     [CHR 0x20, CHR 0xED, CHR 0x95, CHR 0x84, CHR 0xED, CHR 0x84, CHR 0xB0, CHR 0xEB, CHR 0xA5,
      CHR 0xBC, CHR 0x20, CHR 0xEC, CHR 0x82, CHR 0xAD, CHR 0xEC, CHR 0xA0, CHR 0x9C, CHR 0xED,
      CHR 0x96, CHR 0x88, CHR 0xEC, CHR 0x8A, CHR 0xB5, CHR 0xEB, CHR 0x8B, CHR 0x88, CHR 0xEB,
      CHR 0x8B, CHR 0xA4, CHR 0x2E]"

definition txt_sf_count :: string where
  "txt_sf_count =
     [CHR 0xEC, CHR 0xA0, CHR 0x80, CHR 0xEC, CHR 0x9E, CHR 0xA5, CHR 0x20, CHR 0xED, CHR 0x95,
      CHR 0x84, CHR 0xED, CHR 0x84, CHR 0xB0, CHR 0x20]"

definition txt_sf_cleared :: string where
  "txt_sf_cleared =
     [CHR 0xEA, CHR 0xB0, CHR 0x9C, CHR 0xEB, CHR 0xA5, CHR 0xBC, CHR 0x20, CHR 0xEB, CHR 0xAA,
      CHR 0xA8, CHR 0xEB, CHR 0x91, CHR 0x90, CHR 0x20, CHR 0xEC, CHR 0x82, CHR 0xAD, CHR 0xEC,
      CHR 0xA0, CHR 0x9C, CHR 0xED, CHR 0x96, CHR 0x88, CHR 0xEC, CHR 0x8A, CHR 0xB5, CHR 0xEB,
      CHR 0x8B, CHR 0x88, CHR 0xEB, CHR 0x8B, CHR 0xA4, CHR 0x2E]"

definition txt_sf_backed :: string where
  "txt_sf_backed =
     [CHR 0xEA, CHR 0xB0, CHR 0x9C, CHR 0xEB, CHR 0xA5, CHR 0xBC, CHR 0x20, CHR 0x4A, CHR 0x53,
      CHR 0x4F, CHR 0x4E, CHR 0xEC, CHR 0x9C, CHR 0xBC, CHR 0xEB, CHR 0xA1, CHR 0x9C, CHR 0x20,
      CHR 0xEB, CHR 0xB0, CHR 0xB1, CHR 0xEC, CHR 0x97, CHR 0x85, CHR 0xED, CHR 0x96, CHR 0x88,
      CHR 0xEC, CHR 0x8A, CHR 0xB5, CHR 0xEB, CHR 0x8B, CHR 0x88, CHR 0xEB, CHR 0x8B, CHR 0xA4,
      CHR 0x2E]"

definition txt_sf_backup_failed :: string where
  "txt_sf_backup_failed =
     [CHR 0xEC, CHR 0xA0, CHR 0x80, CHR 0xEC, CHR 0x9E, CHR 0xA5, CHR 0x20, CHR 0xED, CHR 0x95,
      CHR 0x84, CHR 0xED, CHR 0x84, CHR 0xB0, CHR 0x20, CHR 0x4A, CHR 0x53, CHR 0x4F, CHR 0x4E,
      CHR 0x20, CHR 0xEB, CHR 0xB0, CHR 0xB1, CHR 0xEC, CHR 0x97, CHR 0x85, CHR 0xEC, CHR 0x9D,
      CHR 0x84, CHR 0x20, CHR 0xEB, CHR 0xA7, CHR 0x8C, CHR 0xEB, CHR 0x93, CHR 0xA4, CHR 0xEC,
      CHR 0xA7, CHR 0x80, CHR 0x20, CHR 0xEB, CHR 0xAA, CHR 0xBB, CHR 0xED, CHR 0x96, CHR 0x88,
      CHR 0xEC, CHR 0x8A, CHR 0xB5, CHR 0xEB, CHR 0x8B, CHR 0x88, CHR 0xEB, CHR 0x8B, CHR 0xA4,
      CHR 0x2E]"

definition txt_sf_one_backed :: string where
  "txt_sf_one_backed =
     [CHR 0x20, CHR 0xED, CHR 0x95, CHR 0x84, CHR 0xED, CHR 0x84, CHR 0xB0, CHR 0xEB, CHR 0xA5,
      CHR 0xBC, CHR 0x20, CHR 0xEA, CHR 0xB0, CHR 0x9C, CHR 0xEB, CHR 0xB3, CHR 0x84, CHR 0x20,
      CHR 0x4A, CHR 0x53, CHR 0x4F, CHR 0x4E, CHR 0xEC, CHR 0x9C, CHR 0xBC, CHR 0xEB, CHR 0xA1,
      CHR 0x9C, CHR 0x20, CHR 0xEB, CHR 0xB0, CHR 0xB1, CHR 0xEC, CHR 0x97, CHR 0x85, CHR 0xED,
      CHR 0x96, CHR 0x88, CHR 0xEC, CHR 0x8A, CHR 0xB5, CHR 0xEB, CHR 0x8B, CHR 0x88, CHR 0xEB,
      CHR 0x8B, CHR 0xA4, CHR 0x2E]"

definition txt_sf_one_backup_failed :: string where
  "txt_sf_one_backup_failed =
     [CHR 0xEC, CHR 0x84, CHR 0xA0, CHR 0xED, CHR 0x83, CHR 0x9D, CHR 0xED, CHR 0x95, CHR 0x9C,
      CHR 0x20, CHR 0xEC, CHR 0xA0, CHR 0x80, CHR 0xEC, CHR 0x9E, CHR 0xA5, CHR 0x20, CHR 0xED,
      CHR 0x95, CHR 0x84, CHR 0xED, CHR 0x84, CHR 0xB0, CHR 0x20, CHR 0x4A, CHR 0x53, CHR 0x4F,
      CHR 0x4E, CHR 0x20, CHR 0xEB, CHR 0xB0, CHR 0xB1, CHR 0xEC, CHR 0x97, CHR 0x85, CHR 0xEC,
      CHR 0x9D, CHR 0x84, CHR 0x20, CHR 0xEB, CHR 0xA7, CHR 0x8C, CHR 0xEB, CHR 0x93, CHR 0xA4,
      CHR 0xEC, CHR 0xA7, CHR 0x80, CHR 0x20, CHR 0xEB, CHR 0xAA, CHR 0xBB, CHR 0xED, CHR 0x96,
      CHR 0x88, CHR 0xEC, CHR 0x8A, CHR 0xB5, CHR 0xEB, CHR 0x8B, CHR 0x88, CHR 0xEB, CHR 0x8B,
      CHR 0xA4, CHR 0x2E]"

definition txt_sf_too_big :: string where
  "txt_sf_too_big =
     [CHR 0xEC, CHR 0xA0, CHR 0x80, CHR 0xEC, CHR 0x9E, CHR 0xA5, CHR 0x20, CHR 0xED, CHR 0x95,
      CHR 0x84, CHR 0xED, CHR 0x84, CHR 0xB0, CHR 0x20, CHR 0xEB, CHR 0xB0, CHR 0xB1, CHR 0xEC,
      CHR 0x97, CHR 0x85, CHR 0x20, CHR 0xED, CHR 0x8C, CHR 0x8C, CHR 0xEC, CHR 0x9D, CHR 0xBC,
      CHR 0xEC, CHR 0x9D, CHR 0x80, CHR 0x20, CHR 0x32, CHR 0x35, CHR 0x36, CHR 0x4B, CHR 0x42,
      CHR 0x20, CHR 0xEC, CHR 0x9D, CHR 0xB4, CHR 0xED, CHR 0x95, CHR 0x98, CHR 0xEC, CHR 0x97,
      CHR 0xAC, CHR 0xEC, CHR 0x95, CHR 0xBC, CHR 0x20, CHR 0xED, CHR 0x95, CHR 0xA9, CHR 0xEB,
      CHR 0x8B, CHR 0x88, CHR 0xEB, CHR 0x8B, CHR 0xA4, CHR 0x2E]"

definition txt_sf_bad_file :: string where
  "txt_sf_bad_file =
     [CHR 0xEC, CHR 0xA7, CHR 0x80, CHR 0xEC, CHR 0x9B, CHR 0x90, CHR 0xED, CHR 0x95, CHR 0x98,
      CHR 0xEB, CHR 0x8A, CHR 0x94, CHR 0x20, CHR 0xEC, CHR 0xA0, CHR 0x80, CHR 0xEC, CHR 0x9E,
      CHR 0xA5, CHR 0x20, CHR 0xED, CHR 0x95, CHR 0x84, CHR 0xED, CHR 0x84, CHR 0xB0, CHR 0x20,
      CHR 0x4A, CHR 0x53, CHR 0x4F, CHR 0x4E, CHR 0x20, CHR 0xEB, CHR 0xB0, CHR 0xB1, CHR 0xEC,
      CHR 0x97, CHR 0x85, CHR 0x20, CHR 0xED, CHR 0x8C, CHR 0x8C, CHR 0xEC, CHR 0x9D, CHR 0xBC,
      CHR 0xEC, CHR 0x9D, CHR 0xB4, CHR 0x20, CHR 0xEC, CHR 0x95, CHR 0x84, CHR 0xEB, CHR 0x8B,
      CHR 0x99, CHR 0xEB, CHR 0x8B, CHR 0x88, CHR 0xEB, CHR 0x8B, CHR 0xA4, CHR 0x2E]"

definition txt_sf_choose :: string where
  "txt_sf_choose =
     [CHR 0xEB, CHR 0xB0, CHR 0xB1, CHR 0xEC, CHR 0x97, CHR 0x85, CHR 0x20, CHR 0xEB, CHR 0x82,
      CHR 0xB4, CHR 0xEC, CHR 0x9A, CHR 0xA9, CHR 0xEC, CHR 0x9D, CHR 0x84, CHR 0x20, CHR 0xED,
      CHR 0x99, CHR 0x95, CHR 0xEC, CHR 0x9D, CHR 0xB8, CHR 0xED, CHR 0x95, CHR 0x9C, CHR 0x20,
      CHR 0xEB, CHR 0x92, CHR 0xA4, CHR 0x20, CHR 0xEA, CHR 0xB5, CHR 0x90, CHR 0xEC, CHR 0xB2,
      CHR 0xB4, CHR 0x20, CHR 0xEB, CHR 0x98, CHR 0x90, CHR 0xEB, CHR 0x8A, CHR 0x94, CHR 0x20,
      CHR 0xEB, CHR 0xB3, CHR 0x91, CHR 0xED, CHR 0x95, CHR 0xA9, CHR 0xEC, CHR 0x9D, CHR 0x84,
      CHR 0x20, CHR 0xEC, CHR 0x84, CHR 0xA0, CHR 0xED, CHR 0x83, CHR 0x9D, CHR 0xED, CHR 0x95,
      CHR 0x98, CHR 0xEC, CHR 0x84, CHR 0xB8, CHR 0xEC, CHR 0x9A, CHR 0x94, CHR 0x2E]"

definition txt_sf_read_failed :: string where
  "txt_sf_read_failed =
     [CHR 0xEC, CHR 0xA0, CHR 0x80, CHR 0xEC, CHR 0x9E, CHR 0xA5, CHR 0x20, CHR 0xED, CHR 0x95,
      CHR 0x84, CHR 0xED, CHR 0x84, CHR 0xB0, CHR 0x20, CHR 0x4A, CHR 0x53, CHR 0x4F, CHR 0x4E,
      CHR 0x20, CHR 0xEB, CHR 0xB0, CHR 0xB1, CHR 0xEC, CHR 0x97, CHR 0x85, CHR 0xEC, CHR 0x9D,
      CHR 0x84, CHR 0x20, CHR 0xEC, CHR 0x9D, CHR 0xBD, CHR 0xEC, CHR 0xA7, CHR 0x80, CHR 0x20,
      CHR 0xEB, CHR 0xAA, CHR 0xBB, CHR 0xED, CHR 0x96, CHR 0x88, CHR 0xEC, CHR 0x8A, CHR 0xB5,
      CHR 0xEB, CHR 0x8B, CHR 0x88, CHR 0xEB, CHR 0x8B, CHR 0xA4, CHR 0x2E]"

definition txt_sf_with_backup :: string where
  "txt_sf_with_backup =
     [CHR 0xEC, CHR 0xA0, CHR 0x80, CHR 0xEC, CHR 0x9E, CHR 0xA5, CHR 0x20, CHR 0xED, CHR 0x95,
      CHR 0x84, CHR 0xED, CHR 0x84, CHR 0xB0, CHR 0xEB, CHR 0xA5, CHR 0xBC, CHR 0x20, CHR 0x4A,
      CHR 0x53, CHR 0x4F, CHR 0x4E, CHR 0x20, CHR 0xEB, CHR 0xB0, CHR 0xB1, CHR 0xEC, CHR 0x97,
      CHR 0x85, CHR 0xEA, CHR 0xB3, CHR 0xBC, CHR 0x20]"

definition txt_sf_merge :: string where
  "txt_sf_merge =
     [CHR 0xEB, CHR 0xB3, CHR 0x91, CHR 0xED, CHR 0x95, CHR 0xA9]"

definition txt_sf_replace :: string where
  "txt_sf_replace =
     [CHR 0xEA, CHR 0xB5, CHR 0x90, CHR 0xEC, CHR 0xB2, CHR 0xB4]"

definition txt_sf_result :: string where
  "txt_sf_result =
     [CHR 0xED, CHR 0x96, CHR 0x88, CHR 0xEC, CHR 0x8A, CHR 0xB5, CHR 0xEB, CHR 0x8B, CHR 0x88,
      CHR 0xEB, CHR 0x8B, CHR 0xA4, CHR 0x2E, CHR 0x20, CHR 0xEA, CHR 0xB2, CHR 0xB0, CHR 0xEA,
      CHR 0xB3, CHR 0xBC, CHR 0x20]"

definition txt_sf_limit_omits :: string where
  "txt_sf_limit_omits =
     [CHR 0xEA, CHR 0xB0, CHR 0x9C, CHR 0xEC, CHR 0x9D, CHR 0xB4, CHR 0xEB, CHR 0xA9, CHR 0xB0,
      CHR 0x2C, CHR 0x20, CHR 0x32, CHR 0x30, CHR 0xEA, CHR 0xB0, CHR 0x9C, CHR 0x20, CHR 0xEC,
      CHR 0xA0, CHR 0x9C, CHR 0xED, CHR 0x95, CHR 0x9C, CHR 0xEC, CHR 0x9C, CHR 0xBC, CHR 0xEB,
      CHR 0xA1, CHR 0x9C, CHR 0x20]"

definition txt_sf_omitted :: string where
  "txt_sf_omitted =
     [CHR 0xEA, CHR 0xB0, CHR 0x9C, CHR 0xEB, CHR 0xA5, CHR 0xBC, CHR 0x20, CHR 0xEC, CHR 0xA0,
      CHR 0x9C, CHR 0xEC, CHR 0x99, CHR 0xB8, CHR 0xED, CHR 0x96, CHR 0x88, CHR 0xEC, CHR 0x8A,
      CHR 0xB5, CHR 0xEB, CHR 0x8B, CHR 0x88, CHR 0xEB, CHR 0x8B, CHR 0xA4, CHR 0x2E]"

definition txt_sf_items_end :: string where
  "txt_sf_items_end =
     [CHR 0xEA, CHR 0xB0, CHR 0x9C, CHR 0xEC, CHR 0x9E, CHR 0x85, CHR 0xEB, CHR 0x8B, CHR 0x88,
      CHR 0xEB, CHR 0x8B, CHR 0xA4, CHR 0x2E]"

definition txt_sf_rename_missing :: string where
  "txt_sf_rename_missing =
     [CHR 0xEB, CHR 0xB3, CHR 0x80, CHR 0xEA, CHR 0xB2, CHR 0xBD, CHR 0xED, CHR 0x95, CHR 0xA0,
      CHR 0x20, CHR 0xED, CHR 0x95, CHR 0x84, CHR 0xED, CHR 0x84, CHR 0xB0, CHR 0x20, CHR 0xEC,
      CHR 0x9D, CHR 0xB4, CHR 0xEB, CHR 0xA6, CHR 0x84, CHR 0xEC, CHR 0x9D, CHR 0x84, CHR 0x20,
      CHR 0xEC, CHR 0x9E, CHR 0x85, CHR 0xEB, CHR 0xA0, CHR 0xA5, CHR 0xED, CHR 0x95, CHR 0x98,
      CHR 0xEC, CHR 0x84, CHR 0xB8, CHR 0xEC, CHR 0x9A, CHR 0x94, CHR 0x2E]"

definition txt_sf_name_taken :: string where
  "txt_sf_name_taken =
     [CHR 0x20, CHR 0xEC, CHR 0x9D, CHR 0xB4, CHR 0xEB, CHR 0xA6, CHR 0x84, CHR 0xEC, CHR 0x9D,
      CHR 0xB4, CHR 0x20, CHR 0xEC, CHR 0x9D, CHR 0xB4, CHR 0xEB, CHR 0xAF, CHR 0xB8, CHR 0x20,
      CHR 0xEC, CHR 0x9E, CHR 0x88, CHR 0xEC, CHR 0x8A, CHR 0xB5, CHR 0xEB, CHR 0x8B, CHR 0x88,
      CHR 0xEB, CHR 0x8B, CHR 0xA4, CHR 0x2E]"

definition txt_sf_rename_from :: string where
  "txt_sf_rename_from =
     [CHR 0x20, CHR 0xED, CHR 0x95, CHR 0x84, CHR 0xED, CHR 0x84, CHR 0xB0, CHR 0x20, CHR 0xEC,
      CHR 0x9D, CHR 0xB4, CHR 0xEB, CHR 0xA6, CHR 0x84, CHR 0xEC, CHR 0x9D, CHR 0x84, CHR 0x20]"

definition txt_sf_renamed :: string where
  "txt_sf_renamed =
     [CHR 0x28, CHR 0xEC, CHR 0x9C, CHR 0xBC, CHR 0x29, CHR 0xEB, CHR 0xA1, CHR 0x9C, CHR 0x20,
      CHR 0xEB, CHR 0xB3, CHR 0x80, CHR 0xEA, CHR 0xB2, CHR 0xBD, CHR 0xED, CHR 0x96, CHR 0x88,
      CHR 0xEC, CHR 0x8A, CHR 0xB5, CHR 0xEB, CHR 0x8B, CHR 0x88, CHR 0xEB, CHR 0x8B, CHR 0xA4,
      CHR 0x2E]"

definition txt_sf_cancelled :: string where
  "txt_sf_cancelled =
     [CHR 0xEC, CHR 0xA0, CHR 0x80, CHR 0xEC, CHR 0x9E, CHR 0xA5, CHR 0x20, CHR 0xED, CHR 0x95,
      CHR 0x84, CHR 0xED, CHR 0x84, CHR 0xB0, CHR 0x20, CHR 0x4A, CHR 0x53, CHR 0x4F, CHR 0x4E,
      CHR 0x20, CHR 0xEB, CHR 0xB3, CHR 0xB5, CHR 0xEC, CHR 0x9B, CHR 0x90, CHR 0xEC, CHR 0x9D,
      CHR 0x84, CHR 0x20, CHR 0xEC, CHR 0xB7, CHR 0xA8, CHR 0xEC, CHR 0x86, CHR 0x8C, CHR 0xED,
      CHR 0x96, CHR 0x88, CHR 0xEC, CHR 0x8A, CHR 0xB5, CHR 0xEB, CHR 0x8B, CHR 0x88, CHR 0xEB,
      CHR 0x8B, CHR 0xA4, CHR 0x2E]"

definition txt_tr_not_started :: string where
  "txt_tr_not_started =
     [CHR 0xEC, CHR 0x9E, CHR 0x90, CHR 0xEB, CHR 0x8F, CHR 0x99, CHR 0x20, CHR 0xEA, CHR 0xB2,
      CHR 0xB0, CHR 0xEA, CHR 0xB3, CHR 0xBC, CHR 0x20, CHR 0xED, CHR 0x99, CHR 0x95, CHR 0xEC,
      CHR 0x9D, CHR 0xB8, CHR 0xEC, CHR 0x9D, CHR 0x84, CHR 0x20, CHR 0xEC, CHR 0x8B, CHR 0x9C,
      CHR 0xEC, CHR 0x9E, CHR 0x91, CHR 0xED, CHR 0x95, CHR 0x98, CHR 0xEC, CHR 0xA7, CHR 0x80,
      CHR 0x20, CHR 0xEC, CHR 0x95, CHR 0x8A, CHR 0xEC, CHR 0x95, CHR 0x98, CHR 0xEC, CHR 0x8A,
      CHR 0xB5, CHR 0xEB, CHR 0x8B, CHR 0x88, CHR 0xEB, CHR 0x8B, CHR 0xA4]"

definition txt_tr_secondary :: string where
  "txt_tr_secondary =
     [CHR 0xEB, CHR 0xB3, CHR 0xB4, CHR 0xEC, CHR 0xA1, CHR 0xB0, CHR 0x20, CHR 0xEC, CHR 0xA0,
      CHR 0x9C, CHR 0xED, CHR 0x95, CHR 0x9C, CHR 0x20, CHR 0xEC, CHR 0x9E, CHR 0xAC, CHR 0xEC,
      CHR 0x8B, CHR 0x9C, CHR 0xEB, CHR 0x8F, CHR 0x84]"

definition txt_tr_reset :: string where
  "txt_tr_reset =
     [CHR 0xEC, CHR 0xB4, CHR 0x88, CHR 0xEA, CHR 0xB8, CHR 0xB0, CHR 0xED, CHR 0x99, CHR 0x94]"

definition txt_tr_time :: string where
  "txt_tr_time =
     [CHR 0x20, CHR 0xEC, CHR 0x8B, CHR 0x9C, CHR 0xEA, CHR 0xB0, CHR 0x81, CHR 0x20]"

definition txt_tr_after :: string where
  "txt_tr_after =
     [CHR 0x20, CHR 0xEC, CHR 0x9D, CHR 0xB4, CHR 0xED, CHR 0x9B, CHR 0x84, CHR 0x20, CHR 0xEC,
      CHR 0x82, CHR 0xAC, CHR 0xEC, CHR 0x9A, CHR 0xA9, CHR 0xED, CHR 0x95, CHR 0xA0, CHR 0x20,
      CHR 0xEC, CHR 0x88, CHR 0x98, CHR 0x20, CHR 0xEC, CHR 0x9E, CHR 0x88, CHR 0xEC, CHR 0x8A,
      CHR 0xB5, CHR 0xEB, CHR 0x8B, CHR 0x88, CHR 0xEB, CHR 0x8B, CHR 0xA4, CHR 0x2E]"

definition txt_tr_stopped :: string where
  "txt_tr_stopped =
     [CHR 0xEC, CHR 0x83, CHR 0x88, CHR 0x20, CHR 0xEC, CHR 0x8B, CHR 0xA4, CHR 0xED, CHR 0x96,
      CHR 0x89, CHR 0x20, CHR 0xEA, CHR 0xB2, CHR 0xB0, CHR 0xEA, CHR 0xB3, CHR 0xBC, CHR 0x20,
      CHR 0xEC, CHR 0x9E, CHR 0x90, CHR 0xEB, CHR 0x8F, CHR 0x99, CHR 0x20, CHR 0xED, CHR 0x99,
      CHR 0x95, CHR 0xEC, CHR 0x9D, CHR 0xB8, CHR 0x20, CHR 0xEC, CHR 0xA4, CHR 0x91, CHR 0xEC,
      CHR 0xA7, CHR 0x80]"

definition txt_tr_new_run :: string where
  "txt_tr_new_run =
     [CHR 0xEC, CHR 0x83, CHR 0x88, CHR 0x20, CHR 0xEC, CHR 0x88, CHR 0x98, CHR 0xEB, CHR 0x8F,
      CHR 0x99, CHR 0x20, CHR 0xEC, CHR 0xA0, CHR 0x90, CHR 0xEA, CHR 0xB2, CHR 0x80, CHR 0x20]"

definition txt_tr_success :: string where
  "txt_tr_success =
     [CHR 0xEC, CHR 0x84, CHR 0xB1, CHR 0xEA, CHR 0xB3, CHR 0xB5]"

definition txt_tr_failure :: string where
  "txt_tr_failure =
     [CHR 0xEC, CHR 0x8B, CHR 0xA4, CHR 0xED, CHR 0x8C, CHR 0xA8]"

definition txt_tr_skipped :: string where
  "txt_tr_skipped =
     [CHR 0xEA, CHR 0xB1, CHR 0xB4, CHR 0xEB, CHR 0x84, CHR 0x88, CHR 0xEB, CHR 0x9C, CHR 0x80]"

definition txt_tr_checked :: string where
  "txt_tr_checked =
     [CHR 0x47, CHR 0x69, CHR 0x74, CHR 0x48, CHR 0x75, CHR 0x62, CHR 0x20, CHR 0x41, CHR 0x63,
      CHR 0x74, CHR 0x69, CHR 0x6F, CHR 0x6E, CHR 0x73, CHR 0x20, CHR 0xEC, CHR 0x8B, CHR 0xA4,
      CHR 0xED, CHR 0x96, CHR 0x89, CHR 0x20, CHR 0xEA, CHR 0xB2, CHR 0xB0, CHR 0xEA, CHR 0xB3,
      CHR 0xBC, CHR 0xEB, CHR 0xA5, CHR 0xBC, CHR 0x20, CHR 0xED, CHR 0x99, CHR 0x95, CHR 0xEC,
      CHR 0x9D, CHR 0xB8, CHR 0xED, CHR 0x96, CHR 0x88, CHR 0xEC, CHR 0x8A, CHR 0xB5, CHR 0xEB,
      CHR 0x8B, CHR 0x88, CHR 0xEB, CHR 0x8B, CHR 0xA4, CHR 0x2E]"

definition txt_tr_view :: string where
  "txt_tr_view =
     [CHR 0x47, CHR 0x69, CHR 0x74, CHR 0x48, CHR 0x75, CHR 0x62, CHR 0x20, CHR 0xEC, CHR 0x8B,
      CHR 0xA4, CHR 0xED, CHR 0x96, CHR 0x89, CHR 0x20, CHR 0xEB, CHR 0xB3, CHR 0xB4, CHR 0xEA,
      CHR 0xB8, CHR 0xB0]"

definition txt_tr_not_found :: string where
  "txt_tr_not_found =
     [CHR 0xEC, CHR 0x83, CHR 0x88, CHR 0x20, CHR 0xEC, CHR 0x8B, CHR 0xA4, CHR 0xED, CHR 0x96,
      CHR 0x89, CHR 0x20, CHR 0xEA, CHR 0xB2, CHR 0xB0, CHR 0xEA, CHR 0xB3, CHR 0xBC, CHR 0xEB,
      CHR 0xA5, CHR 0xBC, CHR 0x20, CHR 0xEC, CHR 0x95, CHR 0x84, CHR 0xEC, CHR 0xA7, CHR 0x81,
      CHR 0x20, CHR 0xEC, CHR 0xB0, CHR 0xBE, CHR 0xEC, CHR 0xA7, CHR 0x80, CHR 0x20, CHR 0xEB,
      CHR 0xAA, CHR 0xBB, CHR 0xED, CHR 0x96, CHR 0x88, CHR 0xEC, CHR 0x8A, CHR 0xB5, CHR 0xEB,
      CHR 0x8B, CHR 0x88, CHR 0xEB, CHR 0x8B, CHR 0xA4]"

definition txt_tr_refresh_hint :: string where
  "txt_tr_refresh_hint =
     [CHR 0x47, CHR 0x69, CHR 0x74, CHR 0x48, CHR 0x75, CHR 0x62, CHR 0x20, CHR 0xEC, CHR 0x8B,
      CHR 0xA4, CHR 0xED, CHR 0x96, CHR 0x89, CHR 0x20, CHR 0xED, CHR 0x9B, CHR 0x84, CHR 0x20,
      CHR 0xEC, CHR 0x84, CHR 0xA4, CHR 0xEC, CHR 0xA0, CHR 0x95, CHR 0x20, CHR 0xED, CHR 0x99,
      CHR 0x94, CHR 0xEB, CHR 0xA9, CHR 0xB4, CHR 0xEC, CHR 0x9D, CHR 0x98, CHR 0x20, CHR 0xEC,
      CHR 0xA7, CHR 0x80, CHR 0xEA, CHR 0xB8, CHR 0x88, CHR 0x20, CHR 0xEC, CHR 0x83, CHR 0x88,
      CHR 0xEB, CHR 0xA1, CHR 0x9C, CHR 0xEA, CHR 0xB3, CHR 0xA0, CHR 0xEC, CHR 0xB9, CHR 0xA8,
      CHR 0xEC, CHR 0x9D, CHR 0x84, CHR 0x20, CHR 0xEB, CHR 0x88, CHR 0x8C, CHR 0xEB, CHR 0x9F,
      CHR 0xAC, CHR 0x20, CHR 0xED, CHR 0x99, CHR 0x95, CHR 0xEC, CHR 0x9D, CHR 0xB8, CHR 0xED,
      CHR 0x95, CHR 0x98, CHR 0xEC, CHR 0x84, CHR 0xB8, CHR 0xEC, CHR 0x9A, CHR 0x94, CHR 0x2E]"

definition txt_tr_check_failed :: string where
  "txt_tr_check_failed =
     [CHR 0xEC, CHR 0x83, CHR 0x88, CHR 0x20, CHR 0xEC, CHR 0x8B, CHR 0xA4, CHR 0xED, CHR 0x96,
      CHR 0x89, CHR 0x20, CHR 0xEA, CHR 0xB2, CHR 0xB0, CHR 0xEA, CHR 0xB3, CHR 0xBC, CHR 0x20,
      CHR 0xEC, CHR 0x9E, CHR 0x90, CHR 0xEB, CHR 0x8F, CHR 0x99, CHR 0x20, CHR 0xED, CHR 0x99,
      CHR 0x95, CHR 0xEC, CHR 0x9D, CHR 0xB8, CHR 0x20, CHR 0xEC, CHR 0x8B, CHR 0xA4, CHR 0xED,
      CHR 0x8C, CHR 0xA8]"

definition txt_tr_history_failed :: string where
  "txt_tr_history_failed =
     [CHR 0x47, CHR 0x69, CHR 0x74, CHR 0x48, CHR 0x75, CHR 0x62, CHR 0x20, CHR 0xEC, CHR 0x8B,
      CHR 0xA4, CHR 0xED, CHR 0x96, CHR 0x89, CHR 0x20, CHR 0xEC, CHR 0x9D, CHR 0xB4, CHR 0xEB,
      CHR 0xA0, CHR 0xA5, CHR 0xEC, CHR 0x9D, CHR 0x84, CHR 0x20, CHR 0xED, CHR 0x99, CHR 0x95,
      CHR 0xEC, CHR 0x9D, CHR 0xB8, CHR 0xED, CHR 0x95, CHR 0x98, CHR 0xEC, CHR 0xA7, CHR 0x80,
      CHR 0x20, CHR 0xEB, CHR 0xAA, CHR 0xBB, CHR 0xED, CHR 0x96, CHR 0x88, CHR 0xEC, CHR 0x8A,
      CHR 0xB5, CHR 0xEB, CHR 0x8B, CHR 0x88, CHR 0xEB, CHR 0x8B, CHR 0xA4]"

definition txt_err_input :: string where
  "txt_err_input =
     [CHR 0xEC, CHR 0x9E, CHR 0x85, CHR 0xEB, CHR 0xA0, CHR 0xA5, CHR 0xEA, CHR 0xB0, CHR 0x92,
      CHR 0xEC, CHR 0x9D, CHR 0x84, CHR 0x20, CHR 0xED, CHR 0x99, CHR 0x95, CHR 0xEC, CHR 0x9D,
      CHR 0xB8, CHR 0xED, CHR 0x95, CHR 0xB4, CHR 0xEC, CHR 0xA3, CHR 0xBC, CHR 0xEC, CHR 0x84,
      CHR 0xB8, CHR 0xEC, CHR 0x9A, CHR 0x94, CHR 0x2E, CHR 0x20]"

definition txt_err_server :: string where
  "txt_err_server =
     [CHR 0xEC, CHR 0x84, CHR 0x9C, CHR 0xEB, CHR 0xB2, CHR 0x84, CHR 0x20, CHR 0xEC, CHR 0x98,
      CHR 0xA4, CHR 0xEB, CHR 0xA5, CHR 0x98, CHR 0xEA, CHR 0xB0, CHR 0x80, CHR 0x20, CHR 0xEB,
      CHR 0xB0, CHR 0x9C, CHR 0xEC, CHR 0x83, CHR 0x9D, CHR 0xED, CHR 0x96, CHR 0x88, CHR 0xEC,
      CHR 0x8A, CHR 0xB5, CHR 0xEB, CHR 0x8B, CHR 0x88, CHR 0xEB, CHR 0x8B, CHR 0xA4, CHR 0x2E,
      CHR 0x20]"

definition txt_err_retry :: string where
  "txt_err_retry =
     [CHR 0x20, CHR 0xEC, CHR 0x9E, CHR 0xA0, CHR 0xEC, CHR 0x8B, CHR 0x9C, CHR 0x20, CHR 0xED,
      CHR 0x9B, CHR 0x84, CHR 0x20, CHR 0xEB, CHR 0x8B, CHR 0xA4, CHR 0xEC, CHR 0x8B, CHR 0x9C,
      CHR 0x20, CHR 0xEC, CHR 0x8B, CHR 0x9C, CHR 0xEB, CHR 0x8F, CHR 0x84, CHR 0xED, CHR 0x95,
      CHR 0xB4, CHR 0xEC, CHR 0xA3, CHR 0xBC, CHR 0xEC, CHR 0x84, CHR 0xB8, CHR 0xEC, CHR 0x9A,
      CHR 0x94, CHR 0x2E]"

definition txt_dg_failed :: string where
  "txt_dg_failed =
     [CHR 0xEC, CHR 0x84, CHR 0x9C, CHR 0xEB, CHR 0xB9, CHR 0x84, CHR 0xEC, CHR 0x8A, CHR 0xA4,
      CHR 0x20, CHR 0xEC, CHR 0xA0, CHR 0x80, CHR 0xEC, CHR 0x9E, CHR 0xA5, CHR 0x20, CHR 0xED,
      CHR 0x9B, CHR 0x84, CHR 0x20, CHR 0xEA, CHR 0xB2, CHR 0x8C, CHR 0xEC, CHR 0x9D, CHR 0xB4,
      CHR 0xED, CHR 0x8A, CHR 0xB8, CHR 0xEC, CHR 0x9B, CHR 0xA8, CHR 0xEC, CHR 0x9D, CHR 0xB4,
      CHR 0x20, CHR 0xEC, CHR 0xA7, CHR 0x84, CHR 0xEB, CHR 0x8B, CHR 0xA8, CHR 0xEC, CHR 0x9D,
      CHR 0x84, CHR 0x20, CHR 0xEC, CHR 0x8B, CHR 0xA4, CHR 0xED, CHR 0x96, CHR 0x89, CHR 0xED,
      CHR 0x95, CHR 0x98, CHR 0xEC, CHR 0xA7, CHR 0x80, CHR 0x20, CHR 0xEB, CHR 0xAA, CHR 0xBB,
      CHR 0xED, CHR 0x96, CHR 0x88, CHR 0xEC, CHR 0x8A, CHR 0xB5, CHR 0xEB, CHR 0x8B, CHR 0x88,
      CHR 0xEB, CHR 0x8B, CHR 0xA4, CHR 0x2E]"

definition txt_dg_no_router :: string where
  "txt_dg_no_router =
     [CHR 0xED, CHR 0x99, CHR 0x9C, CHR 0xEC, CHR 0x84, CHR 0xB1, CHR 0x20, CHR 0x54, CHR 0x72,
      CHR 0x61, CHR 0x65, CHR 0x66, CHR 0x69, CHR 0x6B, CHR 0x20, CHR 0xEB, CHR 0x9D, CHR 0xBC,
      CHR 0xEC, CHR 0x9A, CHR 0xB0, CHR 0xED, CHR 0x84, CHR 0xB0, CHR 0xEB, CHR 0xA5, CHR 0xBC,
      CHR 0x20, CHR 0xEC, CHR 0xB0, CHR 0xBE, CHR 0xEC, CHR 0xA7, CHR 0x80, CHR 0x20, CHR 0xEB,
      CHR 0xAA, CHR 0xBB, CHR 0xED, CHR 0x96, CHR 0x88, CHR 0xEC, CHR 0x8A, CHR 0xB5, CHR 0xEB,
      CHR 0x8B, CHR 0x88, CHR 0xEB, CHR 0x8B, CHR 0xA4]"

definition txt_dg_summary :: string where
  "txt_dg_summary =
     [CHR 0xEA, CHR 0xB2, CHR 0x8C, CHR 0xEC, CHR 0x9D, CHR 0xB4, CHR 0xED, CHR 0x8A, CHR 0xB8,
      CHR 0xEC, CHR 0x9B, CHR 0xA8, CHR 0xEC, CHR 0x9D, CHR 0xB4, CHR 0x20, CHR 0xEC, CHR 0xA7,
      CHR 0x84, CHR 0xEB, CHR 0x8B, CHR 0xA8, CHR 0x20, CHR 0xEA, CHR 0xB2, CHR 0xB0, CHR 0xEA,
      CHR 0xB3, CHR 0xBC]"

definition txt_dg_service :: string where
  "txt_dg_service =
     [CHR 0xEC, CHR 0x84, CHR 0x9C, CHR 0xEB, CHR 0xB9, CHR 0x84, CHR 0xEC, CHR 0x8A, CHR 0xA4,
      CHR 0x20]"

definition txt_dg_created :: string where
  "txt_dg_created =
     [CHR 0xEC, CHR 0xB6, CHR 0x94, CHR 0xEA, CHR 0xB0, CHR 0x80]"

definition txt_dg_updated :: string where
  "txt_dg_updated =
     [CHR 0xEC, CHR 0x88, CHR 0x98, CHR 0xEC, CHR 0xA0, CHR 0x95]"

definition txt_dg_saved :: string where
  "txt_dg_saved =
     [CHR 0x20, CHR 0xEC, CHR 0xA0, CHR 0x80, CHR 0xEC, CHR 0x9E, CHR 0xA5, CHR 0x20, CHR 0xEC,
      CHR 0x99, CHR 0x84, CHR 0xEB, CHR 0xA3, CHR 0x8C]"

definition txt_dg_needs_check :: string where
  "txt_dg_needs_check =
     [CHR 0xEC, CHR 0xA7, CHR 0x84, CHR 0xEB, CHR 0x8B, CHR 0xA8, CHR 0x20, CHR 0xED, CHR 0x99,
      CHR 0x95, CHR 0xEC, CHR 0x9D, CHR 0xB8, CHR 0x20, CHR 0xED, CHR 0x95, CHR 0x84, CHR 0xEC,
      CHR 0x9A, CHR 0x94]"

definition txt_dg_ok :: string where
  "txt_dg_ok =
     [CHR 0xEA, CHR 0xB2, CHR 0x8C, CHR 0xEC, CHR 0x9D, CHR 0xB4, CHR 0xED, CHR 0x8A, CHR 0xB8,
      CHR 0xEC, CHR 0x9B, CHR 0xA8, CHR 0xEC, CHR 0x9D, CHR 0xB4, CHR 0x20, CHR 0xEC, CHR 0xA7,
      CHR 0x84, CHR 0xEB, CHR 0x8B, CHR 0xA8, CHR 0x20, CHR 0xEC, CHR 0xA0, CHR 0x95, CHR 0xEC,
      CHR 0x83, CHR 0x81]"

definition txt_dg_warning :: string where
  "txt_dg_warning =
     [CHR 0xEA, CHR 0xB2, CHR 0x8C, CHR 0xEC, CHR 0x9D, CHR 0xB4, CHR 0xED, CHR 0x8A, CHR 0xB8,
      CHR 0xEC, CHR 0x9B, CHR 0xA8, CHR 0xEC, CHR 0x9D, CHR 0xB4, CHR 0x20, CHR 0xEC, CHR 0xB6,
      CHR 0x94, CHR 0xEA, CHR 0xB0, CHR 0x80, CHR 0x20, CHR 0xED, CHR 0x99, CHR 0x95, CHR 0xEC,
      CHR 0x9D, CHR 0xB8, CHR 0x20, CHR 0xED, CHR 0x95, CHR 0x84, CHR 0xEC, CHR 0x9A, CHR 0x94]"

definition txt_dg_problem :: string where
  "txt_dg_problem =
     [CHR 0xEA, CHR 0xB2, CHR 0x8C, CHR 0xEC, CHR 0x9D, CHR 0xB4, CHR 0xED, CHR 0x8A, CHR 0xB8,
      CHR 0xEC, CHR 0x9B, CHR 0xA8, CHR 0xEC, CHR 0x9D, CHR 0xB4, CHR 0x20, CHR 0xEB, CHR 0xAC,
      CHR 0xB8, CHR 0xEC, CHR 0xA0, CHR 0x9C, CHR 0x20, CHR 0xEA, CHR 0xB0, CHR 0x90, CHR 0xEC,
      CHR 0xA7, CHR 0x80]"

definition txt_dg_none :: string where
  "txt_dg_none =
     [CHR 0xEA, CHR 0xB2, CHR 0x8C, CHR 0xEC, CHR 0x9D, CHR 0xB4, CHR 0xED, CHR 0x8A, CHR 0xB8,
      CHR 0xEC, CHR 0x9B, CHR 0xA8, CHR 0xEC, CHR 0x9D, CHR 0xB4, CHR 0x20, CHR 0xEC, CHR 0xA7,
      CHR 0x84, CHR 0xEB, CHR 0x8B, CHR 0xA8, CHR 0x20, CHR 0xEA, CHR 0xB2, CHR 0xB0, CHR 0xEA,
      CHR 0xB3, CHR 0xBC, CHR 0x20, CHR 0xEC, CHR 0x97, CHR 0x86, CHR 0xEC, CHR 0x9D, CHR 0x8C]"

definition txt_dg_dot :: string where
  "txt_dg_dot =
     [CHR 0x20, CHR 0xC2, CHR 0xB7, CHR 0x20]"

definition txt_dg_connect_failed :: string where
  "txt_dg_connect_failed =
     [CHR 0x44, CHR 0x6F, CHR 0x63, CHR 0x6B, CHR 0x65, CHR 0x72, CHR 0x20, CHR 0xEB, CHR 0x84,
      CHR 0xA4, CHR 0xED, CHR 0x8A, CHR 0xB8, CHR 0xEC, CHR 0x9B, CHR 0x8C, CHR 0xED, CHR 0x81,
      CHR 0xAC, CHR 0x20, CHR 0xEC, CHR 0x97, CHR 0xB0, CHR 0xEA, CHR 0xB2, CHR 0xB0, CHR 0xEC,
      CHR 0x9D, CHR 0x84, CHR 0x20, CHR 0xEC, CHR 0x8B, CHR 0xA4, CHR 0xED, CHR 0x96, CHR 0x89,
      CHR 0xED, CHR 0x95, CHR 0x98, CHR 0xEC, CHR 0xA7, CHR 0x80, CHR 0x20, CHR 0xEB, CHR 0xAA,
      CHR 0xBB, CHR 0xED, CHR 0x96, CHR 0x88, CHR 0xEC, CHR 0x8A, CHR 0xB5, CHR 0xEB, CHR 0x8B,
      CHR 0x88, CHR 0xEB, CHR 0x8B, CHR 0xA4, CHR 0x2E]"

end
