(* ===== verification/Toast.thy ===== *)
theory Toast
  imports Main
begin

text \<open>
  The notices that pages show (\<open>shared/components/ToastNotice.tsx\<close>): the value, and the delay after
  which a notice goes away by itself.
\<close>

datatype Tone = ToneSuccess | ToneWarning | ToneError

record ToastNoticeValue =
  tn_detail :: "string option"
  tn_link :: "(string \<times> string) option"
  tn_message :: string
  tn_tone :: Tone

definition toast_close_delay :: "ToastNoticeValue option \<Rightarrow> nat option" where
  "toast_close_delay notice =
     (case notice of
        None \<Rightarrow> None
      | Some n \<Rightarrow> if tn_link n \<noteq> None then None else Some 5000)"

end
