(* ===== verification/Service_Model.thy ===== *)
theory Service_Model
  imports JS_Date Ui_Text Toast
begin

text \<open>
  Services and their routing mode: the data of \<open>service-api/serviceTypes.ts\<close>, the routing
  helpers of \<open>lib/serviceRouting.ts\<close>, the bulk mutation of \<open>hooks/useServices.ts\<close> and the
  bulk selection of \<open>useServicesBulkRouting.ts\<close>.

  The backend is a parameter: the call that updates one service and the call that completes a
  bulk operation are functions on an abstract world \<open>'w\<close> that return the new world and an
  error or nothing.  The React state of the bulk selection is a record, each callback of the
  hook is a function on it, and \<open>bulk_step\<close> is the step relation of the whole hook.
\<close>

section \<open>Data\<close>

datatype AuthMode = AuthNone | AuthAuthentik | AuthToken
datatype FramePolicy = FrameDeny | FrameSameorigin | FrameOff
datatype RoutingMode = RActive | RDisabled | RMaintenance
datatype Scheme = Http | Https

record Service =
  svc_id :: string
  svc_name :: string
  svc_domain :: string
  svc_upstream_host :: string
  svc_upstream_port :: rat
  svc_routing_mode :: RoutingMode
  svc_maintenance_message :: string
  svc_maintenance_until :: "string option"
  svc_upstream_scheme :: Scheme
  svc_skip_tls_verify :: bool
  svc_tls_enabled :: bool
  svc_https_redirect_enabled :: bool
  svc_auth_enabled :: bool
  svc_auth_mode :: AuthMode
  svc_api_key :: "string option"
  svc_allowed_ips :: "string list"
  svc_blocked_paths :: "string list"
  svc_rate_limit_enabled :: bool
  svc_rate_limit_average :: "rat option"
  svc_rate_limit_burst :: "rat option"
  svc_custom_headers :: "(string \<times> string) list"
  svc_frame_policy :: FramePolicy
  svc_healthcheck_enabled :: bool
  svc_healthcheck_path :: string
  svc_healthcheck_timeout_ms :: rat
  svc_healthcheck_expected_statuses :: "int list"
  svc_basic_auth_enabled :: bool
  svc_basic_auth_user_count :: nat
  svc_basic_auth_usernames :: "string list"
  svc_middleware_template_ids :: "string list"
  svc_authentik_group_id :: "string option"
  svc_authentik_group_name :: "string option"
  svc_cloudflare_record_id :: "string option"
  svc_created_at :: string
  svc_updated_at :: string

datatype HealthStatus = HUp | HDown | HUnknown

record UpstreamHealth =
  uh_service_id :: string
  uh_domain :: string
  uh_status :: HealthStatus
  uh_status_code :: "rat option"
  uh_latency_ms :: "rat option"
  uh_error :: "string option"
  uh_error_kind :: "string option"
  uh_checked_url :: string
  uh_checked_at :: string

text \<open>A service for concrete evaluations.\<close>

definition sample_service :: "string \<Rightarrow> string \<Rightarrow> string \<Rightarrow> RoutingMode \<Rightarrow> Service" where
  "sample_service i n d m =
     \<lparr>svc_id = i, svc_name = n, svc_domain = d, svc_upstream_host = ''app'',
      svc_upstream_port = 80, svc_routing_mode = m, svc_maintenance_message = [],
      svc_maintenance_until = None, svc_upstream_scheme = Http, svc_skip_tls_verify = False,
      svc_tls_enabled = True, svc_https_redirect_enabled = True, svc_auth_enabled = False,
      svc_auth_mode = AuthNone, svc_api_key = None, svc_allowed_ips = [], svc_blocked_paths = [],
      svc_rate_limit_enabled = False, svc_rate_limit_average = None, svc_rate_limit_burst = None,
      svc_custom_headers = [], svc_frame_policy = FrameDeny, svc_healthcheck_enabled = True,
      svc_healthcheck_path = ''/'', svc_healthcheck_timeout_ms = 3000,
      svc_healthcheck_expected_statuses = [], svc_basic_auth_enabled = False,
      svc_basic_auth_user_count = 0, svc_basic_auth_usernames = [], svc_middleware_template_ids = [],
      svc_authentik_group_id = None, svc_authentik_group_name = None,
      svc_cloudflare_record_id = None, svc_created_at = ''2026-01-01T00:00:00Z'',
      svc_updated_at = ''2026-01-01T00:00:00Z''\<rparr>"

lemma sample_service_sel [simp]:
  "svc_id (sample_service i n d m) = i"
  "svc_name (sample_service i n d m) = n"
  "svc_domain (sample_service i n d m) = d"
  "svc_routing_mode (sample_service i n d m) = m"
  by (simp_all add: sample_service_def)

section \<open>Routing helpers (\<open>lib/serviceRouting.ts\<close>)\<close>

record ServiceRoutingCounts =
  rc_active :: nat
  rc_disabled :: nat
  rc_maintenance :: nat

fun bump_count :: "RoutingMode \<Rightarrow> ServiceRoutingCounts \<Rightarrow> ServiceRoutingCounts" where
  "bump_count RActive c = c\<lparr>rc_active := rc_active c + 1\<rparr>"
| "bump_count RDisabled c = c\<lparr>rc_disabled := rc_disabled c + 1\<rparr>"
| "bump_count RMaintenance c = c\<lparr>rc_maintenance := rc_maintenance c + 1\<rparr>"

definition countServiceRoutingModes :: "Service list \<Rightarrow> ServiceRoutingCounts" where
  "countServiceRoutingModes services =
     fold (\<lambda>s. bump_count (svc_routing_mode s)) services
       \<lparr>rc_active = 0, rc_disabled = 0, rc_maintenance = 0\<rparr>"

definition getRoutingUpdateTargets :: "Service list \<Rightarrow> string list \<Rightarrow> RoutingMode \<Rightarrow> Service list" where
  "getRoutingUpdateTargets services selectedServiceIds routingMode =
     filter (\<lambda>s. svc_id s \<in> set selectedServiceIds \<and> svc_routing_mode s \<noteq> routingMode) services"

text \<open>The loop of \<open>applyRoutingModeUpdates\<close>: one awaited call per service, failures collected.\<close>

fun apply_updates ::
    "('w \<Rightarrow> string \<Rightarrow> RoutingMode \<Rightarrow> js_error option \<times> 'w) \<Rightarrow>
     RoutingMode \<Rightarrow> Service list \<Rightarrow> string list \<Rightarrow> 'w \<Rightarrow> string list \<times> 'w" where
  "apply_updates upd mode [] failed w = (failed, w)"
| "apply_updates upd mode (s # ss) failed w =
     (case upd w (svc_id s) mode of
        (None, w') \<Rightarrow> apply_updates upd mode ss failed w'
      | (Some e, w') \<Rightarrow> apply_updates upd mode ss (failed @ [svc_id s]) w')"

record RoutingResult =
  rr_successCount :: int
  rr_failedServiceIds :: "string list"

definition applyRoutingModeUpdates ::
    "('w \<Rightarrow> string \<Rightarrow> RoutingMode \<Rightarrow> js_error option \<times> 'w) \<Rightarrow>
     Service list \<Rightarrow> RoutingMode \<Rightarrow> 'w \<Rightarrow> RoutingResult \<times> 'w" where
  "applyRoutingModeUpdates upd services mode w =
     (case apply_updates upd mode services [] w of (failed, w') \<Rightarrow>
        (\<lparr>rr_successCount = int (length services) - int (length failed),
          rr_failedServiceIds = failed\<rparr>, w'))"

lemma bump_count_fold:
  "fold (\<lambda>s. bump_count (svc_routing_mode s)) ss c =
     \<lparr>rc_active = rc_active c + length (filter (\<lambda>s. svc_routing_mode s = RActive) ss),
      rc_disabled = rc_disabled c + length (filter (\<lambda>s. svc_routing_mode s = RDisabled) ss),
      rc_maintenance = rc_maintenance c + length (filter (\<lambda>s. svc_routing_mode s = RMaintenance) ss)\<rparr>"
proof (induction ss arbitrary: c)
  case (Cons s ss)
  then show ?case by (cases "svc_routing_mode s") simp_all
qed simp

text \<open>
  The failures are exactly the services whose own call failed; the world is threaded through
  the calls in list order.  \<open>call_trace\<close> lists what each call returned.
\<close>

fun call_trace ::
    "('w \<Rightarrow> string \<Rightarrow> RoutingMode \<Rightarrow> js_error option \<times> 'w) \<Rightarrow>
     RoutingMode \<Rightarrow> Service list \<Rightarrow> 'w \<Rightarrow> (string \<times> js_error option) list \<times> 'w" where
  "call_trace upd mode [] w = ([], w)"
| "call_trace upd mode (s # ss) w =
     (let (r, w') = upd w (svc_id s) mode; (rs, w'') = call_trace upd mode ss w'
      in ((svc_id s, r) # rs, w''))"

lemma apply_updates_trace:
  "apply_updates upd mode ss failed w =
     (failed @ map fst (filter (\<lambda>c. snd c \<noteq> None) (fst (call_trace upd mode ss w))),
      snd (call_trace upd mode ss w))"
  by (induction ss arbitrary: failed w) (auto simp: Let_def split: prod.splits option.splits)

lemma call_trace_ids: "map fst (fst (call_trace upd mode ss w)) = map svc_id ss"
  by (induction ss arbitrary: w) (simp_all add: case_prod_beta Let_def)

lemma map_fst_filter_subset: "set (map fst (filter P xs)) \<subseteq> set (map fst xs)"
  by auto

section \<open>The bulk mutation (\<open>useBulkUpdateServiceRoutingMode\<close>)\<close>

record BulkResult =
  br_successCount :: int
  br_failedServiceIds :: "string list"
  br_operationId :: string
  br_notificationCompleted :: bool

record 'w backend =
  be_update :: "'w \<Rightarrow> string \<Rightarrow> RoutingMode \<Rightarrow> string \<Rightarrow> js_error option \<times> 'w"
  be_complete :: "'w \<Rightarrow> string \<Rightarrow> js_error option \<times> 'w"
  be_random_uuid :: "'w \<Rightarrow> string \<times> 'w"

definition bulkUpdateRoutingMode ::
    "'w backend \<Rightarrow> Service list \<Rightarrow> string list \<Rightarrow> RoutingMode \<Rightarrow> string option \<Rightarrow> 'w \<Rightarrow>
     BulkResult \<times> 'w" where
  "bulkUpdateRoutingMode B services selectedServiceIds mode bulkOperationId w =
     (let (operationId, w0) =
            (case bulkOperationId of Some i \<Rightarrow> (i, w) | None \<Rightarrow> be_random_uuid B w);
          targets = getRoutingUpdateTargets services selectedServiceIds mode;
          (result, w1) =
            applyRoutingModeUpdates (\<lambda>v i m. be_update B v i m operationId) targets mode w0;
          (notificationCompleted, w2) =
            (if targets \<noteq> []
             then (case be_complete B w1 operationId of (e, v) \<Rightarrow> (e = None, v))
             else (True, w1))
      in (\<lparr>br_successCount = rr_successCount result,
           br_failedServiceIds = rr_failedServiceIds result,
           br_operationId = operationId,
           br_notificationCompleted = notificationCompleted\<rparr>, w2))"

section \<open>The bulk selection (\<open>useServicesBulkRouting.ts\<close>)\<close>

record BulkRoutingFailure =
  bf_operationId :: string
  bf_routingMode :: RoutingMode
  bf_serviceIds :: "string list"
  bf_serviceNames :: "string list"

record bulk_state =
  bs_selectedServiceIds :: "string list"
  bs_routingMode :: RoutingMode
  bs_failure :: "BulkRoutingFailure option"

definition bulk_init :: bulk_state where
  "bulk_init = \<lparr>bs_selectedServiceIds = [], bs_routingMode = RActive, bs_failure = None\<rparr>"

fun getRoutingModeLabel :: "RoutingMode \<Rightarrow> string" where
  "getRoutingModeLabel RDisabled = txt_mode_disabled"
| "getRoutingModeLabel RMaintenance = txt_mode_maintenance"
| "getRoutingModeLabel RActive = txt_mode_active"

fun getRoutingModeConsequence :: "RoutingMode \<Rightarrow> string" where
  "getRoutingModeConsequence RDisabled = txt_conseq_disabled"
| "getRoutingModeConsequence RMaintenance = txt_conseq_maintenance"
| "getRoutingModeConsequence RActive = txt_conseq_active"

definition confirm_text :: "nat \<Rightarrow> RoutingMode \<Rightarrow> string" where
  "confirm_text n m =
     show_nat n @ txt_services_to @ getRoutingModeLabel m @ txt_to_state_q @ getRoutingModeConsequence m"

definition allVisibleSelected :: "Service list \<Rightarrow> bulk_state \<Rightarrow> bool" where
  "allVisibleSelected visible st =
     (visible \<noteq> [] \<and> list_all (\<lambda>s. svc_id s \<in> set (bs_selectedServiceIds st)) visible)"

text \<open>The effect that runs when the list of services changes.\<close>

definition prune_selection :: "Service list \<Rightarrow> bulk_state \<Rightarrow> bulk_state" where
  "prune_selection services st =
     st\<lparr>bs_selectedServiceIds :=
          filter (\<lambda>i. i \<in> svc_id ` set services) (bs_selectedServiceIds st)\<rparr>"

definition service_name_of :: "Service list \<Rightarrow> string \<Rightarrow> string" where
  "service_name_of services i =
     (case find (\<lambda>s. svc_id s = i) services of Some s \<Rightarrow> svc_name s | None \<Rightarrow> i)"

text \<open>
  What \<open>execute\<close> does with the outcome of the mutation: \<open>Inl\<close> is a rejected promise with the
  error's message, if it has one.
\<close>

definition settle ::
    "Service list \<Rightarrow> RoutingMode \<Rightarrow> (string option + BulkResult) \<Rightarrow> bulk_state \<Rightarrow>
     bulk_state \<times> ToastNoticeValue" where
  "settle services mode outcome st =
     (case outcome of
        Inl msg \<Rightarrow>
          (st, \<lparr>tn_detail = Some (default_to txt_refresh_retry msg), tn_link = None,
                tn_message = txt_bulk_partial, tn_tone = ToneWarning\<rparr>)
      | Inr r \<Rightarrow>
          if br_failedServiceIds r \<noteq> [] then
            (let names = map (service_name_of services) (br_failedServiceIds r) in
             (st\<lparr>bs_selectedServiceIds := br_failedServiceIds r,
                 bs_failure := Some \<lparr>bf_operationId = br_operationId r, bf_routingMode = mode,
                                     bf_serviceIds = br_failedServiceIds r, bf_serviceNames = names\<rparr>\<rparr>,
              \<lparr>tn_detail = Some (show_int (br_successCount r) @ txt_applied @
                 show_nat (length names) @ txt_failed_colon @ str_join '', '' names @
                 (if br_notificationCompleted r then [] else txt_notice_failed)),
               tn_link = None, tn_message = txt_bulk_partial, tn_tone = ToneWarning\<rparr>))
          else
            (st\<lparr>bs_selectedServiceIds := [], bs_failure := None\<rparr>,
             \<lparr>tn_detail = Some (if br_successCount r > 0
                then show_int (br_successCount r) @ txt_services_in @ getRoutingModeLabel mode @ txt_changed_to
                else txt_already_same),
              tn_link = None,
              tn_message = (if br_notificationCompleted r then txt_bulk_done else txt_bulk_done_no_notice),
              tn_tone = (if br_notificationCompleted r then ToneSuccess else ToneWarning)\<rparr>))"

text \<open>
  \<open>execute\<close>: the confirmation, the mutation (which may reject: \<open>crash\<close>), and the outcome.
  \<open>confirm\<close> is the user's answer to the dialog.
\<close>

definition execute ::
    "'w backend \<Rightarrow> Service list \<Rightarrow> (string \<Rightarrow> bool) \<Rightarrow> (string option) option \<Rightarrow>
     string list \<Rightarrow> RoutingMode \<Rightarrow> string option \<Rightarrow> bool \<Rightarrow> bulk_state \<Rightarrow> 'w \<Rightarrow>
     bulk_state \<times> ToastNoticeValue option \<times> 'w" where
  "execute B services confirm crash serviceIds mode operationId confirmChange st w =
     (if confirmChange \<and> \<not> confirm (confirm_text (length serviceIds) mode) then (st, None, w)
      else case crash of
        Some msg \<Rightarrow> (case settle services mode (Inl msg) st of (st', n) \<Rightarrow> (st', Some n, w))
      | None \<Rightarrow>
          (case bulkUpdateRoutingMode B services serviceIds mode operationId w of (r, w') \<Rightarrow>
             (case settle services mode (Inr r) st of (st', n) \<Rightarrow> (st', Some n, w'))))"

definition bulk_apply ::
    "'w backend \<Rightarrow> Service list \<Rightarrow> (string \<Rightarrow> bool) \<Rightarrow> (string option) option \<Rightarrow> bulk_state \<Rightarrow> 'w \<Rightarrow>
     bulk_state \<times> ToastNoticeValue option \<times> 'w" where
  "bulk_apply B services confirm crash st w =
     execute B services confirm crash (bs_selectedServiceIds st) (bs_routingMode st) None True st w"

definition bulk_retry ::
    "'w backend \<Rightarrow> Service list \<Rightarrow> (string option) option \<Rightarrow> bulk_state \<Rightarrow> 'w \<Rightarrow>
     bulk_state \<times> ToastNoticeValue option \<times> 'w" where
  "bulk_retry B services crash st w =
     (case bs_failure st of
        None \<Rightarrow> (st, None, w)
      | Some f \<Rightarrow>
          execute B services (\<lambda>_. True) crash (bf_serviceIds f) (bf_routingMode f)
            (Some (bf_operationId f)) False st w)"

definition bulk_clear :: "bulk_state \<Rightarrow> bulk_state" where
  "bulk_clear st = st\<lparr>bs_selectedServiceIds := [], bs_failure := None\<rparr>"

definition selectService :: "Service \<Rightarrow> bool \<Rightarrow> bulk_state \<Rightarrow> bulk_state" where
  "selectService service selected st =
     st\<lparr>bs_failure := None,
        bs_selectedServiceIds :=
          (if selected then js_unique (bs_selectedServiceIds st @ [svc_id service])
           else filter (\<lambda>i. i \<noteq> svc_id service) (bs_selectedServiceIds st))\<rparr>"

definition setRoutingMode :: "RoutingMode \<Rightarrow> bulk_state \<Rightarrow> bulk_state" where
  "setRoutingMode mode st = st\<lparr>bs_routingMode := mode, bs_failure := None\<rparr>"

definition toggleVisible :: "Service list \<Rightarrow> bulk_state \<Rightarrow> bulk_state" where
  "toggleVisible visible st =
     st\<lparr>bs_failure := None,
        bs_selectedServiceIds :=
          (if allVisibleSelected visible st
           then filter (\<lambda>i. i \<notin> svc_id ` set visible) (bs_selectedServiceIds st)
           else js_unique (bs_selectedServiceIds st @ map svc_id visible))\<rparr>"

text \<open>One step of the hook, over any list of services with distinct ids.\<close>

inductive bulk_step :: "'w backend \<Rightarrow> bulk_state \<times> 'w \<Rightarrow> bulk_state \<times> 'w \<Rightarrow> bool"
  for B :: "'w backend" where
  step_services: "bulk_step B (st, w) (prune_selection services st, w)"
| step_select: "bulk_step B (st, w) (selectService s b st, w)"
| step_mode: "bulk_step B (st, w) (setRoutingMode m st, w)"
| step_toggle: "bulk_step B (st, w) (toggleVisible visible st, w)"
| step_clear: "bulk_step B (st, w) (bulk_clear st, w)"
| step_apply: "distinct (map svc_id services) \<Longrightarrow>
     bulk_apply B services confirm crash st w = (st', n, w') \<Longrightarrow> bulk_step B (st, w) (st', w')"
| step_retry: "distinct (map svc_id services) \<Longrightarrow>
     bulk_retry B services crash st w = (st', n, w') \<Longrightarrow> bulk_step B (st, w) (st', w')"

inductive bulk_reachable :: "'w backend \<Rightarrow> 'w \<Rightarrow> bulk_state \<times> 'w \<Rightarrow> bool"
  for B :: "'w backend" and w0 :: 'w where
  reach_init: "bulk_reachable B w0 (bulk_init, w0)"
| reach_step: "bulk_reachable B w0 s \<Longrightarrow> bulk_step B s t \<Longrightarrow> bulk_reachable B w0 t"

inductive_cases bulk_stepE [elim]: "bulk_step B s t"

text \<open>
  The invariant of the hook: no id is selected twice, and while a failure is shown, it names
  at least one service, has one name per service, and everything that is selected failed.
\<close>

definition bulk_inv :: "bulk_state \<Rightarrow> bool" where
  "bulk_inv st =
     (distinct (bs_selectedServiceIds st) \<and>
      (case bs_failure st of
         None \<Rightarrow> True
       | Some f \<Rightarrow> bf_serviceIds f \<noteq> [] \<and> distinct (bf_serviceIds f) \<and>
           length (bf_serviceNames f) = length (bf_serviceIds f) \<and>
           set (bs_selectedServiceIds st) \<subseteq> set (bf_serviceIds f)))"

lemma targets_ids: "distinct (map svc_id services) \<Longrightarrow>
    distinct (map svc_id (getRoutingUpdateTargets services ids m))"
  by (simp add: getRoutingUpdateTargets_def distinct_map_filter)

lemma apply_failed_subset:
  "applyRoutingModeUpdates upd ss m w = (r, w') \<Longrightarrow>
   set (rr_failedServiceIds r) \<subseteq> svc_id ` set ss \<and>
   (distinct (map svc_id ss) \<longrightarrow> distinct (rr_failedServiceIds r)) \<and>
   rr_successCount r + int (length (rr_failedServiceIds r)) = int (length ss)"
proof -
  assume e: "applyRoutingModeUpdates upd ss m w = (r, w')"
  let ?tr = "fst (call_trace upd m ss w)"
  have f: "rr_failedServiceIds r = map fst (filter (\<lambda>c. snd c \<noteq> None) ?tr)"
    and n: "rr_successCount r = int (length ss) - int (length (rr_failedServiceIds r))"
    using e by (auto simp: applyRoutingModeUpdates_def apply_updates_trace)
  have "set (rr_failedServiceIds r) \<subseteq> set (map fst ?tr)" unfolding f by (rule map_fst_filter_subset)
  moreover have "distinct (map fst ?tr) \<Longrightarrow> distinct (rr_failedServiceIds r)"
    unfolding f by (rule distinct_map_filter)
  ultimately show ?thesis using n by (simp add: call_trace_ids)
qed

lemma bulk_update_failed:
  assumes "bulkUpdateRoutingMode B services ids m opid w = (r, w')"
  shows "set (br_failedServiceIds r) \<subseteq> svc_id ` set (getRoutingUpdateTargets services ids m)"
    "distinct (map svc_id services) \<Longrightarrow> distinct (br_failedServiceIds r)"
    "br_successCount r + int (length (br_failedServiceIds r))
       = int (length (getRoutingUpdateTargets services ids m))"
    "opid = Some i \<Longrightarrow> br_operationId r = i"
proof -
  obtain i0 w0 where i0: "(case opid of Some i \<Rightarrow> (i, w) | None \<Rightarrow> be_random_uuid B w) = (i0, w0)"
    by (metis surj_pair)
  obtain q w1 where q: "applyRoutingModeUpdates (\<lambda>v i m. be_update B v i m i0)
      (getRoutingUpdateTargets services ids m) m w0 = (q, w1)" by (metis surj_pair)
  have r: "br_failedServiceIds r = rr_failedServiceIds q" "br_successCount r = rr_successCount q"
    "br_operationId r = i0"
    using assms by (auto simp: bulkUpdateRoutingMode_def i0 q Let_def split: prod.splits if_splits)
  show "set (br_failedServiceIds r) \<subseteq> svc_id ` set (getRoutingUpdateTargets services ids m)"
    "br_successCount r + int (length (br_failedServiceIds r))
       = int (length (getRoutingUpdateTargets services ids m))"
    using apply_failed_subset [OF q] r by auto
  show "distinct (map svc_id services) \<Longrightarrow> distinct (br_failedServiceIds r)"
    using apply_failed_subset [OF q] r targets_ids by auto
  show "opid = Some i \<Longrightarrow> br_operationId r = i" using i0 r by auto
qed

lemma settle_inv:
  assumes "bulk_inv st" "\<And>r. outcome = Inr r \<Longrightarrow> distinct (br_failedServiceIds r)"
  shows "bulk_inv (fst (settle services m outcome st))"
  using assms by (cases outcome) (auto simp: settle_def bulk_inv_def Let_def)

lemma execute_inv:
  assumes "bulk_inv st" "distinct (map svc_id services)"
    "execute B services confirm crash ids m opid cc st w = (st', n, w')"
  shows "bulk_inv st'"
proof -
  obtain r v where r: "bulkUpdateRoutingMode B services ids m opid w = (r, v)" by (metis surj_pair)
  have "distinct (br_failedServiceIds r)" using bulk_update_failed(2) [OF r] assms(2) by simp
  then have i: "bulk_inv (fst (settle services m (Inr r) st))" "\<And>msg. bulk_inv (fst (settle services m (Inl msg) st))"
    using assms(1) by (auto intro!: settle_inv)
  show ?thesis
    using assms(1,3) i
    by (auto simp: execute_def r split: if_splits option.splits prod.splits)
      (metis fst_conv)+
qed

lemma bulk_step_inv: "bulk_step B s t \<Longrightarrow> bulk_inv (fst s) \<Longrightarrow> bulk_inv (fst t)"
proof (induction rule: bulk_step.induct)
  case (step_apply services confirm crash st w st' n w')
  then show ?case using execute_inv by (auto simp: bulk_apply_def)
next
  case (step_retry services crash st w st' n w')
  then show ?case using execute_inv by (auto simp: bulk_retry_def split: option.splits)
qed (auto simp: bulk_inv_def prune_selection_def selectService_def setRoutingMode_def
    toggleVisible_def bulk_clear_def split: option.splits)

section \<open>Properties\<close>

text \<open>C2. Every state that the bulk-routing hook can reach, by any sequence of selections,
  toggles, mode changes, list refreshes, applications and retries against any backend, keeps
  the invariant: no id is selected twice, and a failure that is shown names at least one
  service, has one name per id, and covers everything that is selected.\<close>

theorem bulk_reachable_inv: "bulk_reachable B w0 s \<Longrightarrow> bulk_inv (fst s)"
proof (induction rule: bulk_reachable.induct)
  case reach_init
  show ?case by (simp add: bulk_inv_def bulk_init_def)
next
  case (reach_step s t)
  then show ?case using bulk_step_inv by blast
qed

theorem bulk_reachable_inv_witness:
  "bulk_inv (selectService (sample_service ''a'' ''A'' ''a.kr'' RActive) True bulk_init)"
proof -
  let ?B = "\<lparr>be_update = \<lambda>w i m o'. (None, w), be_complete = \<lambda>w i. (None, w),
             be_random_uuid = \<lambda>w. (''u'', w)\<rparr> :: unit backend"
  have "bulk_reachable ?B () (selectService (sample_service ''a'' ''A'' ''a.kr'' RActive) True bulk_init, ())"
    by (rule reach_step [OF reach_init step_select])
  from bulk_reachable_inv [OF this] show ?thesis by simp
qed

text \<open>Applying a routing mode to a list of services makes one call per service, in order,
  each on the world the previous call left; the failed ids are exactly those whose own call
  failed, in order, and the success count is the number of the other calls.\<close>

theorem applyRoutingModeUpdates_correct:
  "applyRoutingModeUpdates upd services mode w =
     (let (calls, w') = call_trace upd mode services w in
      (\<lparr>rr_successCount = int (length (filter (\<lambda>c. snd c = None) calls)),
        rr_failedServiceIds = map fst (filter (\<lambda>c. snd c \<noteq> None) calls)\<rparr>, w'))
   \<and> map fst (fst (call_trace upd mode services w)) = map svc_id services"
proof -
  let ?cs = "fst (call_trace upd mode services w)"
  have "length ?cs = length services"
    using call_trace_ids [of upd mode services w] by (metis length_map)
  with sum_length_filter_compl [of "\<lambda>c. snd c = None" ?cs]
  have "int (length services) - int (length (filter (\<lambda>c. snd c \<noteq> None) ?cs))
    = int (length (filter (\<lambda>c. snd c = None) ?cs))" by linarith
  then show ?thesis
    by (simp add: applyRoutingModeUpdates_def apply_updates_trace call_trace_ids Let_def case_prod_beta)
qed

text \<open>A bulk change touches only services that were selected and are not in the target
  mode yet; it accounts for each of them exactly once, as a success or as a failure; and a
  retry keeps the operation id of the operation that failed.\<close>

theorem bulkUpdateRoutingMode_accounts:
  assumes "bulkUpdateRoutingMode B services ids m opid w = (r, w')"
  shows "set (br_failedServiceIds r) \<subseteq> {i. i \<in> set ids \<and> (\<exists>s\<in>set services. svc_id s = i \<and> svc_routing_mode s \<noteq> m)}
    \<and> br_successCount r + int (length (br_failedServiceIds r))
        = int (length (getRoutingUpdateTargets services ids m))
    \<and> (\<forall>i. opid = Some i \<longrightarrow> br_operationId r = i)"
  using bulk_update_failed [OF assms] by (auto simp: getRoutingUpdateTargets_def)

text \<open>Toggling the visible services selects all of them when some were not selected, and
  deselects exactly them when all were; services that are not visible keep their selection.\<close>

theorem toggleVisible_selection:
  "set (bs_selectedServiceIds (toggleVisible visible st)) =
     (if allVisibleSelected visible st
      then set (bs_selectedServiceIds st) - svc_id ` set visible
      else set (bs_selectedServiceIds st) \<union> svc_id ` set visible)"
  by (auto simp: toggleVisible_def)

text \<open>The routing counters count every service once, under its own mode.\<close>

theorem countServiceRoutingModes_correct:
  "countServiceRoutingModes services =
     \<lparr>rc_active = length (filter (\<lambda>s. svc_routing_mode s = RActive) services),
      rc_disabled = length (filter (\<lambda>s. svc_routing_mode s = RDisabled) services),
      rc_maintenance = length (filter (\<lambda>s. svc_routing_mode s = RMaintenance) services)\<rparr>
   \<and> rc_active (countServiceRoutingModes services) + rc_disabled (countServiceRoutingModes services)
     + rc_maintenance (countServiceRoutingModes services) = length services"
proof -
  have "length (filter (\<lambda>s. svc_routing_mode s = RActive) ss)
      + length (filter (\<lambda>s. svc_routing_mode s = RDisabled) ss)
      + length (filter (\<lambda>s. svc_routing_mode s = RMaintenance) ss) = length ss" for ss
  proof (induction ss)
    case (Cons s ss)
    then show ?case by (cases "svc_routing_mode s") simp_all
  qed simp
  then show ?thesis by (simp add: countServiceRoutingModes_def bump_count_fold)
qed

end
