(* ===== verification/Maintenance.thy ===== *)
theory Maintenance
  imports JS_Date Ui_Text
begin

text \<open>
  The maintenance window of a service (\<open>features/services/lib/maintenanceSchedule.ts\<close>): the
  conversion between the stored UTC instant and the Korean local time of the form field, the
  remaining time, extending a window, and the schedule of all services in maintenance.
\<close>

section \<open>Definitions\<close>

definition KOREA_OFFSET_MS :: int where "KOREA_OFFSET_MS = 9 * 60 * 60 * 1000"
definition MAINTENANCE_SOON_MS :: int where "MAINTENANCE_SOON_MS = 24 * 60 * 60 * 1000"

record MaintenanceScheduleService =
  ms_id :: string
  ms_name :: string
  ms_domain :: string
  ms_routing_mode :: string
  ms_maintenance_until :: "string option"

datatype MaintenanceTiming = Overdue | Soon | Scheduled | Unscheduled

record MaintenanceScheduleEntry =
  me_service :: MaintenanceScheduleService
  me_endTimestamp :: "int option"
  me_timing :: MaintenanceTiming

definition toKoreanDateTimeLocal :: "js_host \<Rightarrow> string option \<Rightarrow> js_error + string" where
  "toKoreanDateTimeLocal H v =
     (if \<not> truthy v then Inr []
      else case date_parse H (the v) of
        None \<Rightarrow> Inr []
      | Some timestamp \<Rightarrow>
          (case to_iso_string (timestamp + KOREA_OFFSET_MS) of
             Inl e \<Rightarrow> Inl e
           | Inr s \<Rightarrow> Inr (js_take 16 s)))"

definition toMaintenanceUntilIso :: "js_host \<Rightarrow> string option \<Rightarrow> string option" where
  "toMaintenanceUntilIso H v =
     (if \<not> truthy v then None
      else map_option to_iso (date_parse H (the v @ '':00+09:00'')))"

text \<open>\<open>Math.ceil(ms / 60_000)\<close>: exact for differences of time values.\<close>

definition ceil_minutes :: "int \<Rightarrow> int" where
  "ceil_minutes ms = - ((- ms) div 60000)"

definition formatMaintenanceRemaining :: "js_host \<Rightarrow> string option \<Rightarrow> int \<Rightarrow> string option" where
  "formatMaintenanceRemaining H v now =
     (if \<not> truthy v then None
      else case date_parse H (the v) of
        None \<Rightarrow> None
      | Some timestamp \<Rightarrow>
          (let remaining = ceil_minutes (timestamp - now) in
           if remaining \<le> 0 then Some txt_ending
           else
             (let days = remaining div 1440;
                  hours = remaining mod 1440 div 60;
                  minutes = remaining mod 60
              in if days > 0 then
                   Some (show_int days @ txt_day @
                     (if hours > 0 then '' '' @ show_int hours @ txt_hours else []) @ txt_left)
                 else if hours > 0 then
                   Some (show_int hours @ txt_hours @
                     (if minutes > 0 then '' '' @ show_int minutes @ txt_minutes else []) @ txt_left)
                 else Some (show_int minutes @ txt_minutes @ txt_left))))"

definition extendMaintenanceUntil :: "js_host \<Rightarrow> string option \<Rightarrow> int \<Rightarrow> int \<Rightarrow> js_error + string" where
  "extendMaintenanceUntil H v hours now =
     (let timestamp = (if truthy v then date_parse H (the v) else None);
          base = (case timestamp of None \<Rightarrow> now | Some t \<Rightarrow> if t < now then now else t)
      in to_iso_string (base + hours * 60 * 60 * 1000))"

text \<open>The comparator of the schedule: \<open>null\<close> counts as \<open>Infinity\<close>, and \<open>Infinity - Infinity\<close>
  is \<open>NaN\<close>, which \<open>sort\<close> takes as zero.\<close>

fun cmp_inf_last :: "int option \<Rightarrow> int option \<Rightarrow> int" where
  "cmp_inf_last (Some a) (Some b) = a - b"
| "cmp_inf_last (Some a) None = - 1"
| "cmp_inf_last None (Some b) = 1"
| "cmp_inf_last None None = 0"

definition schedule_cmp :: "MaintenanceScheduleEntry \<Rightarrow> MaintenanceScheduleEntry \<Rightarrow> int" where
  "schedule_cmp a b = cmp_inf_last (me_endTimestamp a) (me_endTimestamp b)"

definition timing_of :: "int \<Rightarrow> int option \<Rightarrow> MaintenanceTiming" where
  "timing_of now endTimestamp =
     (case endTimestamp of
        None \<Rightarrow> Unscheduled
      | Some t \<Rightarrow>
          if t \<le> now then Overdue
          else if t - now \<le> MAINTENANCE_SOON_MS then Soon
          else Scheduled)"

definition schedule_entry :: "js_host \<Rightarrow> int \<Rightarrow> MaintenanceScheduleService \<Rightarrow> MaintenanceScheduleEntry" where
  "schedule_entry H now service =
     (let endTimestamp =
            (if truthy (ms_maintenance_until service)
             then date_parse H (the (ms_maintenance_until service)) else None)
      in \<lparr>me_service = service, me_endTimestamp = endTimestamp,
          me_timing = timing_of now endTimestamp\<rparr>)"

definition getMaintenanceSchedule ::
    "js_host \<Rightarrow> MaintenanceScheduleService list \<Rightarrow> int \<Rightarrow> MaintenanceScheduleEntry list" where
  "getMaintenanceSchedule H services now =
     js_sort schedule_cmp
       (map (schedule_entry H now)
          (filter (\<lambda>s. ms_routing_mode s = ''maintenance'') services))"

section \<open>Lemmas\<close>

lemma cmp_inf_last_flip: "cmp_inf_last a b < 0 \<longleftrightarrow> 0 < cmp_inf_last b a"
  by (cases a; cases b) auto

lemma cmp_inf_last_trans: "cmp_inf_last a b \<le> 0 \<Longrightarrow> cmp_inf_last b c \<le> 0 \<Longrightarrow> cmp_inf_last a c \<le> 0"
  by (cases a; cases b; cases c) auto

interpretation sched: js_comparator schedule_cmp
  by unfold_locales (auto simp: schedule_cmp_def cmp_inf_last_flip intro: cmp_inf_last_trans)

text \<open>The order in which the timings appear in the schedule.\<close>

fun timing_rank :: "MaintenanceTiming \<Rightarrow> nat" where
  "timing_rank Overdue = 0"
| "timing_rank Soon = 1"
| "timing_rank Scheduled = 2"
| "timing_rank Unscheduled = 3"

lemma timing_rank_mono: "cmp_inf_last a b \<le> 0 \<Longrightarrow> timing_rank (timing_of now a) \<le> timing_rank (timing_of now b)"
  by (cases a; cases b) (auto simp: timing_of_def)

lemma schedule_rank_mono:
  "schedule_cmp (schedule_entry H now a) (schedule_entry H now b) \<le> 0 \<Longrightarrow>
   timing_rank (me_timing (schedule_entry H now a)) \<le> timing_rank (me_timing (schedule_entry H now b))"
  by (simp add: schedule_cmp_def schedule_entry_def Let_def timing_rank_mono)

lemma minute_clock:
  assumes "0 \<le> u" "u < day_ms"
  shows "take 5 (clock_string u) = pad_nat 2 (nat (u div 3600000)) @ '':'' @ pad_nat 2 (nat (u div 60000 mod 60))"
  by (simp add: clock_string_def)

lemma minute_floor:
  assumes "0 \<le> u" "u < day_ms"
  shows "u div 3600000 * 3600000 + (u div 60000 mod 60) * 60000 = u - u mod 60000"
proof -
  have "u div 60000 mod 60 = u div 60000 - 60 * (u div 3600000)"
    by (simp add: minus_mult_div_eq_mod [symmetric] zdiv_zmult2_eq [symmetric])
  moreover have "u mod 60000 = u - 60000 * (u div 60000)"
    by (simp add: minus_mult_div_eq_mod [symmetric])
  ultimately show ?thesis by linarith
qed

lemma parse_minute_clock:
  assumes "0 \<le> h" "h \<le> 23" "0 \<le> mi" "mi \<le> 59"
  shows "parse_clock (pad_nat 2 (nat h) @ '':'' @ pad_nat 2 (nat mi) @ '':00+09:00'')
    = Some (h * 3600000 + mi * 60000, ''+09:00'')"
proof -
  have z: "read_nat ''00'' = 0" by code_simp
  have "parse_seconds '':00+09:00'' = Some (0, 0, ''+09:00'')"
    by (simp add: parse_seconds_def take_num_def is_digit_def z)
  moreover have "take_num 2 (pad_nat 2 (nat h) @ r) = Some (h, r)"
    "take_num 2 (pad_nat 2 (nat mi) @ r) = Some (mi, r)" for r
    using assms take_num_pad [of "nat h" 2] take_num_pad [of "nat mi" 2] by auto
  ultimately show ?thesis using assms by (simp add: parse_clock_def)
qed

lemma parse_korean_zone: "parse_zone ''+09:00'' = Some (Some KOREA_OFFSET_MS)"
proof -
  have "read_nat ''09'' = 9" "read_nat ''00'' = 0" by code_simp+
  then show ?thesis by (simp add: parse_zone_def take_num_def is_digit_def KOREA_OFFSET_MS_def)
qed

text \<open>Sixteen characters of an ISO string with a four-digit year: date and minutes.\<close>

lemma iso_minutes:
  assumes "civil_of_day (t div day_ms) = (y, m, d)" "0 \<le> y" "y \<le> 9999"
  shows "take 16 (to_iso t) = ymd_string y m d @ ''T'' @
    pad_nat 2 (nat (t mod day_ms div 3600000)) @ '':'' @ pad_nat 2 (nat (t mod day_ms div 60000 mod 60))"
  using assms
  by (simp add: to_iso_def date_string_def year_string_4 ymd_string_def clock_string_def)

lemma mod_day_minutes: "t mod day_ms mod 60000 = t mod 60000"
  by (simp add: day_ms_def mod_mod_cancel)

text \<open>Reading the form field back: the local time of \<open>t\<close>, cut to the minute.\<close>

lemma parse_local_minutes:
  assumes c: "civil_of_day (t div day_ms) = (y, m, d)" and y: "0 \<le> y" "y \<le> 9999"
  shows "iso_parse loc (take 16 (to_iso t) @ '':00+09:00'') = Some (t - t mod 60000 - KOREA_OFFSET_MS)"
proof -
  let ?u = "t mod day_ms"
  let ?h = "?u div 3600000" and ?mi = "?u div 60000 mod 60"
  have u: "0 \<le> ?u" "?u < day_ms" by (auto simp: day_ms_def)
  have l: "legal_date y m d" and day: "day_of_civil y m d = t div day_ms"
    using day_of_civil_of_day [OF c] by auto
  have h: "0 \<le> ?h" "?h \<le> 23" using clock_fields(1,2) [OF u] .
  have mi: "0 \<le> ?mi" "?mi \<le> 59" by auto
  have ya: "\<bar>y\<bar> < 1000000" using y by linarith
  have md: "parse_month_day (''-'' @ pad_nat 2 (nat m) @ ''-'' @ pad_nat 2 (nat d) @ r) = Some (m, d, r)" for r
    using month_len_bound [OF l] by (intro parse_month_day_string) auto
  have e: "take 16 (to_iso t) @ '':00+09:00'' = year_string y @ (''-'' @ pad_nat 2 (nat m) @ ''-'' @
      pad_nat 2 (nat d) @ (''T'' @ (pad_nat 2 (nat ?h) @ '':'' @ pad_nat 2 (nat ?mi) @ '':00+09:00'')))"
    by (simp add: iso_minutes [OF c y] ymd_string_def year_string_4 [OF y])
  have v: "t div day_ms * day_ms + (?h * 3600000 + ?mi * 60000) = t - t mod 60000"
    using minute_floor [OF u] mod_day_minutes [of t] div_mult_mod_eq [of t day_ms] by linarith
  have ex: "expect CHR ''T'' (''T'' @ r) = Some r" for r by simp
  show ?thesis
    unfolding iso_parse_def e parse_year_string [OF ya] md bind.simps prod.case ex
      parse_minute_clock [OF h mi] parse_korean_zone
    using l v by (simp add: day Let_def)
qed

lemma korean_local_roundtrip:
  assumes "\<bar>t\<bar> \<le> max_time" "\<bar>t + KOREA_OFFSET_MS\<bar> \<le> max_time"
    and "0 \<le> year_of_day ((t + KOREA_OFFSET_MS) div day_ms)"
    and "year_of_day ((t + KOREA_OFFSET_MS) div day_ms) \<le> 9999"
  shows "\<exists>s. toKoreanDateTimeLocal H (Some (to_iso t)) = Inr s \<and>
    toMaintenanceUntilIso H (Some s) = Some (to_iso (t - t mod 60000))"
proof -
  let ?t = "t + KOREA_OFFSET_MS"
  let ?s = "take 16 (to_iso ?t)"
  obtain y m d where c: "civil_of_day (?t div day_ms) = (y, m, d)" by (cases "civil_of_day (?t div day_ms)")
  have y: "0 \<le> y" "y \<le> 9999" using c assms(3,4) by (auto simp: civil_of_day_def Let_def)
  have ne: "to_iso t \<noteq> []" "?s \<noteq> []" by (simp_all add: to_iso_def)
  have "toKoreanDateTimeLocal H (Some (to_iso t)) = Inr ?s"
    using assms(1,2) ne by (simp add: toKoreanDateTimeLocal_def date_parse_to_iso to_iso_string_def)
  moreover have "?t mod 60000 = t mod 60000"
    using mod_mult_self1 [of t 540 60000] by (simp add: KOREA_OFFSET_MS_def)
  then have "date_parse H (?s @ '':00+09:00'') = time_clip (t - t mod 60000)"
    using parse_local_minutes [OF c y, of "local_to_utc H"] by (simp add: date_parse_def)
  moreover have "\<bar>t - t mod 60000\<bar> \<le> max_time"
  proof -
    have "0 \<le> t mod 60000" by simp
    moreover have "- max_time \<le> t - t mod 60000"
    proof -
      have "- max_time = 60000 * (- 144000000000)" by (simp add: max_time_def)
      moreover have "- 144000000000 \<le> t div 60000" using assms(1) by (simp add: max_time_def)
      moreover have "t - t mod 60000 = 60000 * (t div 60000)" by (simp add: minus_mod_eq_mult_div)
      ultimately show ?thesis by linarith
    qed
    ultimately show ?thesis using assms(1) by linarith
  qed
  ultimately show ?thesis
    using ne by (auto simp: toMaintenanceUntilIso_def time_clip_def)
qed

section \<open>Properties\<close>

text \<open>C11. The form field and the stored instant agree: an instant that is shown in Korean local
  time and read back from the form gives the same instant, cut to the full minute, whatever the
  engine does outside the standard date format (for every instant whose Korean year has four
  digits).\<close>

theorem maintenance_until_roundtrip:
  assumes "\<bar>t\<bar> \<le> max_time" "\<bar>t + KOREA_OFFSET_MS\<bar> \<le> max_time"
    and "0 \<le> year_of_day ((t + KOREA_OFFSET_MS) div day_ms)"
    and "year_of_day ((t + KOREA_OFFSET_MS) div day_ms) \<le> 9999"
  shows "\<exists>s. toKoreanDateTimeLocal H (Some (to_iso t)) = Inr s \<and>
    toMaintenanceUntilIso H (Some s) = Some (to_iso (t - t mod 60000))"
  using assms by (rule korean_local_roundtrip)

theorem maintenance_until_roundtrip_witness:
  "\<exists>s. toKoreanDateTimeLocal
      utc_host
      (Some (to_iso 1767225661000)) = Inr s \<and>
    toMaintenanceUntilIso
      utc_host
      (Some s) = Some (to_iso 1767225660000)"
proof -
  have "year_of_day 20454 = 2026" by (simp add: year_of_day_def day_from_year_def)
  then have y: "year_of_day ((1767225661000 + KOREA_OFFSET_MS) div day_ms) = 2026"
    by (simp add: KOREA_OFFSET_MS_def day_ms_def)
  have r: "\<bar>1767225661000\<bar> \<le> max_time" "\<bar>1767225661000 + KOREA_OFFSET_MS\<bar> \<le> max_time"
    by (simp_all add: max_time_def KOREA_OFFSET_MS_def)
  from maintenance_until_roundtrip [OF r] y show ?thesis by simp
qed

text \<open>The maintenance schedule lists exactly the services in maintenance mode, each with the
  end time that its text denotes, ordered by end time with the open-ended ones last; so the
  overdue ones come before those that end within a day, those before the later ones, and those
  before the unscheduled ones.\<close>

theorem getMaintenanceSchedule_correct:
  "mset (map me_service (getMaintenanceSchedule H services now))
     = mset (filter (\<lambda>s. ms_routing_mode s = ''maintenance'') services)
   \<and> sorted_wrt (\<lambda>a b. cmp_inf_last (me_endTimestamp a) (me_endTimestamp b) \<le> 0)
       (getMaintenanceSchedule H services now)
   \<and> sorted (map (\<lambda>e. timing_rank (me_timing e)) (getMaintenanceSchedule H services now))"
proof -
  let ?es = "map (schedule_entry H now) (filter (\<lambda>s. ms_routing_mode s = ''maintenance'') services)"
  have srt: "sorted_wrt (\<lambda>a b. schedule_cmp a b \<le> 0) (js_sort schedule_cmp ?es)"
    by (rule sched.js_sort_sorted)
  have "mset (map me_service (js_sort schedule_cmp ?es)) = image_mset me_service (mset ?es)"
    by (simp only: mset_map mset_js_sort)
  also have "\<dots> = mset (map me_service ?es)" by (simp only: mset_map)
  also have "map me_service ?es = filter (\<lambda>s. ms_routing_mode s = ''maintenance'') services"
    by (induction services) (auto simp: schedule_entry_def Let_def)
  finally have m: "mset (map me_service (js_sort schedule_cmp ?es))
      = mset (filter (\<lambda>s. ms_routing_mode s = ''maintenance'') services)" .
  have "sorted_wrt (\<lambda>a b. timing_rank (me_timing a) \<le> timing_rank (me_timing b)) (js_sort schedule_cmp ?es)"
    by (rule sorted_wrt_mono_rel [OF _ srt]) (auto intro: schedule_rank_mono)
  then have "sorted (map (\<lambda>e. timing_rank (me_timing e)) (js_sort schedule_cmp ?es))"
    by (simp add: sorted_map)
  with m srt show ?thesis by (simp add: getMaintenanceSchedule_def schedule_cmp_def)
qed

text \<open>Extending a window by some hours gives an instant that is that many hours after the
  later of now and the current end; an unreadable or past end counts as now.  The only failure
  is the \<open>RangeError\<close> of an instant outside the range of dates.\<close>

theorem extendMaintenanceUntil_later:
  "extendMaintenanceUntil H v hours now =
     (let target = max now (case (if truthy v then date_parse H (the v) else None) of
                              None \<Rightarrow> now | Some t \<Rightarrow> t) + hours * 3600000
      in if \<bar>target\<bar> \<le> max_time then Inr (to_iso target) else Inl RangeError)"
  by (auto simp: extendMaintenanceUntil_def to_iso_string_def Let_def max_def mult.commute
      split: option.splits)

end
