(* ===== verification/JS_Object.thy ===== *)
theory JS_Object
  imports JS_Number
begin

text \<open>
  Plain objects used as dictionaries.  An object is its list of own
  properties in creation order; \<open>obj_set\<close> is the assignment \<open>o[k] = v\<close> (an assignment of a
  primitive to \<open>__proto__\<close> creates no property), and \<open>obj_entries\<close> is \<open>Object.entries\<close>,
  which lists array-index keys first, in numeric order.
\<close>

type_synonym 'v js_object = "(string \<times> 'v) list"

fun obj_get :: "string \<Rightarrow> 'v js_object \<Rightarrow> 'v option" where
  "obj_get k [] = None"
| "obj_get k ((a, b) # ps) = (if a = k then Some b else obj_get k ps)"

fun obj_put :: "string \<Rightarrow> 'v \<Rightarrow> 'v js_object \<Rightarrow> 'v js_object" where
  "obj_put k v [] = [(k, v)]"
| "obj_put k v ((a, b) # ps) = (if a = k then (k, v) # ps else (a, b) # obj_put k v ps)"

definition obj_set :: "string \<Rightarrow> 'v \<Rightarrow> 'v js_object \<Rightarrow> 'v js_object" where
  "obj_set k v ps = (if k = ''__proto__'' then ps else obj_put k v ps)"

definition index_key :: "string \<Rightarrow> bool" where
  "index_key k =
     (k \<noteq> [] \<and> list_all is_digit k \<and> (k = ''0'' \<or> hd k \<noteq> CHR ''0'') \<and> read_nat k < 2 ^ 32 - 1)"

definition obj_entries :: "'v js_object \<Rightarrow> 'v js_object" where
  "obj_entries ps =
     js_sort (key_cmp (\<lambda>p. int (read_nat (fst p)))) (filter (\<lambda>p. index_key (fst p)) ps)
     @ filter (\<lambda>p. \<not> index_key (fst p)) ps"

lemma obj_get_put: "obj_get j (obj_put k v ps) = (if j = k then Some v else obj_get j ps)"
  by (induction ps) auto

lemma obj_get_set: "k \<noteq> ''__proto__'' \<Longrightarrow> obj_get j (obj_set k v ps) = (if j = k then Some v else obj_get j ps)"
  by (simp add: obj_set_def obj_get_put)

lemma obj_put_new: "k \<notin> fst ` set ps \<Longrightarrow> obj_put k v ps = ps @ [(k, v)]"
  by (induction ps) auto

lemma obj_put_keys: "fst ` set (obj_put k v ps) = insert k (fst ` set ps)"
proof (induction ps)
  case (Cons p ps)
  then show ?case by (cases p) (simp add: insert_commute)
qed simp

lemma obj_put_distinct: "distinct (map fst ps) \<Longrightarrow> distinct (map fst (obj_put k v ps))"
proof (induction ps)
  case (Cons p ps)
  then show ?case using obj_put_keys [of k v ps] by (cases p) auto
qed simp

lemma obj_set_distinct: "distinct (map fst ps) \<Longrightarrow> distinct (map fst (obj_set k v ps))"
  by (simp add: obj_set_def obj_put_distinct)

lemma obj_entries_plain: "list_all (\<lambda>p. \<not> index_key (fst p)) ps \<Longrightarrow> obj_entries ps = ps"
proof -
  assume "list_all (\<lambda>p. \<not> index_key (fst p)) ps"
  then have "filter (\<lambda>p. index_key (fst p)) ps = []" "filter (\<lambda>p. \<not> index_key (fst p)) ps = ps"
    by (auto simp: list_all_iff filter_empty_conv intro: filter_True)
  then show ?thesis by (simp add: obj_entries_def)
qed

lemma obj_entries_mset: "mset (obj_entries ps) = mset ps"
  by (simp add: obj_entries_def multiset_partition [symmetric])

end
