(* ===== verification/Service_Form.thy ===== *)
theory Service_Form
  imports Service_Model Maintenance JS_Object
begin

text \<open>
  The form that creates and edits a service: \<open>serviceFormUtils.ts\<close> (the parsers of the text
  areas and the token generator), \<open>serviceFormSchema.ts\<close> and \<open>serviceFormValidation.ts\<close> (what
  a valid form is), \<open>serviceFormPayload.ts\<close> (default values and the submitted payload),
  \<open>useServiceFormSyncEffects.ts\<close> (the effects that keep dependent fields consistent) and
  \<open>editServicePageHelpers.ts\<close>.

  The schema library is used through what its documentation says of the checks: a form is
  accepted when no check of the base schema and no refinement reports an issue.  An issue is a
  pair of the field and the message; \<open>base_issues\<close> lists them on a form whose numbers are
  already coerced.
\<close>

section \<open>Text areas (\<open>serviceFormUtils.ts\<close>)\<close>

text \<open>\<open>input.split(/\r?\n|,/)\<close>.\<close>

fun split_entries :: "string \<Rightarrow> string list" where
  "split_entries [] = [[]]"
| "split_entries (c # s) =
     (if c = CHR '','' \<or> c = CHR 0x0A then [] # split_entries s
      else if c = CHR 0x0D \<and> s \<noteq> [] \<and> hd s = CHR 0x0A then [] # split_entries (tl s)
      else (case split_entries s of [] \<Rightarrow> [[c]] | w # ws \<Rightarrow> (c # w) # ws))"

definition entry_list :: "string \<Rightarrow> string list" where
  "entry_list s = filter (\<lambda>x. x \<noteq> []) (map js_trim (split_entries s))"

text \<open>\<open>(a, b) => a - b\<close> on numbers; a \<open>NaN\<close> counts as zero.\<close>

fun num_cmp :: "jsnum \<Rightarrow> jsnum \<Rightarrow> int" where
  "num_cmp (Num a) (Num b) = rat_cmp a b"
| "num_cmp NaN _ = 0"
| "num_cmp _ NaN = 0"
| "num_cmp PosInf PosInf = 0"
| "num_cmp NegInf NegInf = 0"
| "num_cmp PosInf _ = 1"
| "num_cmp _ PosInf = - 1"
| "num_cmp NegInf _ = - 1"
| "num_cmp _ NegInf = 1"

definition parseHealthcheckExpectedStatuses :: "string option \<Rightarrow> jsnum list" where
  "parseHealthcheckExpectedStatuses input =
     (if \<not> truthy input then []
      else js_sort num_cmp (js_unique (map js_number (entry_list (the input)))))"

definition parseAllowedIps :: "string option \<Rightarrow> string list" where
  "parseAllowedIps input = (if \<not> truthy input then [] else entry_list (the input))"

definition parseBlockedPaths :: "string option \<Rightarrow> string list" where
  "parseBlockedPaths input =
     (if \<not> truthy input then []
      else map (\<lambda>path. if prefix ''/'' path then path else ''/'' @ path) (entry_list (the input)))"

subsection \<open>The token generator\<close>

definition hex_digit :: "nat \<Rightarrow> char" where
  "hex_digit n = (if n < 10 then char_of (48 + n) else char_of (87 + n))"

definition hex_byte :: "nat \<Rightarrow> string" where
  "hex_byte b = [hex_digit (b div 16), hex_digit (b mod 16)]"

definition b64_char :: "nat \<Rightarrow> char" where
  "b64_char n =
     (if n < 26 then char_of (65 + n) else if n < 52 then char_of (71 + n)
      else if n < 62 then char_of (n - 4) else if n = 62 then CHR ''+'' else CHR ''/'')"

fun btoa :: "string \<Rightarrow> string" where
  "btoa [] = []"
| "btoa [a] =
     (let x = of_char a :: nat in
      [b64_char (x div 4), b64_char (x mod 4 * 16), CHR ''='', CHR ''=''])"
| "btoa [a, b] =
     (let x = of_char a :: nat; y = of_char b :: nat in
      [b64_char (x div 4), b64_char (x mod 4 * 16 + y div 16), b64_char (y mod 16 * 4), CHR ''=''])"
| "btoa (a # b # c # s) =
     (let x = of_char a :: nat; y = of_char b :: nat; z = of_char c :: nat in
      [b64_char (x div 4), b64_char (x mod 4 * 16 + y div 16),
       b64_char (y mod 16 * 4 + z div 64), b64_char (z mod 64)] @ btoa s)"

text \<open>\<open>generateSecureToken\<close>, with the 32 bytes that \<open>crypto.getRandomValues\<close> filled in.\<close>

definition url_safe_char :: "char \<Rightarrow> char" where
  "url_safe_char c = (if c = CHR ''+'' then CHR ''-'' else if c = CHR ''/'' then CHR ''_'' else c)"

definition generateSecureToken :: "nat list \<Rightarrow> string" where
  "generateSecureToken bytes =
     ''service_'' @
     take 44 (filter (\<lambda>c. c \<noteq> CHR ''='') (map url_safe_char (btoa (concat (map hex_byte bytes)))))"

section \<open>The form\<close>

record Credential =
  cr_username :: string
  cr_password :: string

record ServiceFormData =
  sf_name :: string
  sf_domain :: string
  sf_upstream_host :: string
  sf_upstream_port :: rat
  sf_routing_mode :: RoutingMode
  sf_maintenance_message :: string
  sf_maintenance_until :: string
  sf_upstream_scheme :: Scheme
  sf_skip_tls_verify :: bool
  sf_tls_enabled :: bool
  sf_https_redirect_enabled :: bool
  sf_auth_mode :: AuthMode
  sf_api_key :: "string option"
  sf_basic_auth_enabled :: bool
  sf_middleware_template_ids :: "string list"
  sf_authentik_group_id :: "string option"
  sf_basic_auth_credentials :: "Credential list"
  sf_allowed_ips_input :: "string option"
  sf_blocked_paths_input :: "string option"
  sf_rate_limit_enabled :: bool
  sf_rate_limit_average :: "rat option"
  sf_rate_limit_burst :: "rat option"
  sf_custom_headers :: "(string \<times> string) list"
  sf_frame_policy :: FramePolicy
  sf_healthcheck_enabled :: bool
  sf_healthcheck_path :: string
  sf_healthcheck_timeout_ms :: rat
  sf_healthcheck_expected_statuses_input :: "string option"

record ServiceFormDefaultValues =
  sd_name :: "string option"
  sd_domain :: "string option"
  sd_upstream_host :: "string option"
  sd_upstream_port :: "rat option"
  sd_routing_mode :: "RoutingMode option"
  sd_maintenance_message :: "string option"
  sd_maintenance_until :: "string option"
  sd_upstream_scheme :: "Scheme option"
  sd_skip_tls_verify :: "bool option"
  sd_tls_enabled :: "bool option"
  sd_https_redirect_enabled :: "bool option"
  sd_auth_mode :: "AuthMode option"
  sd_api_key :: "string option"
  sd_basic_auth_enabled :: "bool option"
  sd_middleware_template_ids :: "string list option"
  sd_authentik_group_id :: "string option"
  sd_allowed_ips :: "string list option"
  sd_blocked_paths :: "string list option"
  sd_rate_limit_average :: "rat option"
  sd_rate_limit_burst :: "rat option"
  sd_custom_headers :: "(string \<times> string) list option"
  sd_frame_policy :: "FramePolicy option"
  sd_healthcheck_enabled :: "bool option"
  sd_healthcheck_path :: "string option"
  sd_healthcheck_timeout_ms :: "rat option"
  sd_healthcheck_expected_statuses :: "int list option"
  sd_basic_auth_usernames :: "string list option"

record ServiceCreate =
  sc_name :: string
  sc_domain :: string
  sc_upstream_host :: string
  sc_upstream_port :: rat
  sc_routing_mode :: RoutingMode
  sc_maintenance_message :: string
  sc_maintenance_until :: "string option"
  sc_upstream_scheme :: Scheme
  sc_skip_tls_verify :: bool
  sc_tls_enabled :: bool
  sc_https_redirect_enabled :: bool
  sc_auth_mode :: AuthMode
  sc_api_key :: "string option"
  sc_basic_auth_enabled :: bool
  sc_middleware_template_ids :: "string list"
  sc_rate_limit_enabled :: bool
  sc_allowed_ips :: "string list"
  sc_blocked_paths :: "string list"
  sc_rate_limit_average :: "rat option"
  sc_rate_limit_burst :: "rat option"
  sc_custom_headers :: "string js_object"
  sc_frame_policy :: FramePolicy
  sc_healthcheck_enabled :: bool
  sc_healthcheck_path :: string
  sc_healthcheck_timeout_ms :: rat
  sc_healthcheck_expected_statuses :: "jsnum list"
  sc_basic_auth_credentials :: "Credential list"
  sc_authentik_group_id :: "string option"

section \<open>Validation\<close>

subsection \<open>The base schema (\<open>serviceFormSchema.ts\<close>)\<close>

definition is_letter :: "char \<Rightarrow> bool" where
  "is_letter c =
     (let b = (of_char c :: nat) in (65 \<le> b \<and> b \<le> 90) \<or> (97 \<le> b \<and> b \<le> 122))"

definition is_alnum :: "char \<Rightarrow> bool" where
  "is_alnum c = (is_letter c \<or> is_digit c)"

text \<open>\<open>[a-zA-Z0-9]([a-zA-Z0-9\-]{0,61}[a-zA-Z0-9])?\<close>\<close>

definition domain_label :: "string \<Rightarrow> bool" where
  "domain_label l =
     (l \<noteq> [] \<and> length l \<le> 63 \<and> is_alnum (hd l) \<and> is_alnum (last l) \<and>
      list_all (\<lambda>c. is_alnum c \<or> c = CHR ''-'') l)"

text \<open>The domain pattern: labels that each end in a dot, then a top-level name of letters.\<close>

definition domain_pattern :: "string \<Rightarrow> bool" where
  "domain_pattern s =
     (let ls = str_split CHR ''.'' s in
      2 \<le> length ls \<and> list_all domain_label (butlast ls) \<and>
      2 \<le> length (last ls) \<and> list_all is_letter (last ls))"

type_synonym issue = "string \<times> string"

definition positive_int :: "rat \<Rightarrow> bool" where
  "positive_int q = (of_int \<lfloor>q\<rfloor> = q \<and> 0 < q)"

definition check :: "bool \<Rightarrow> string \<Rightarrow> string \<Rightarrow> issue list" where
  "check ok path msg = (if ok then [] else [(path, msg)])"

definition base_issues :: "js_host \<Rightarrow> ServiceFormData \<Rightarrow> issue list" where
  "base_issues H v =
     check (sf_name v \<noteq> []) ''name'' txt_err_name @
     check (domain_pattern (sf_domain v)) ''domain'' txt_err_domain @
     check (sf_upstream_host v \<noteq> []) ''upstream_host'' txt_err_upstream_host @
     check (1 \<le> sf_upstream_port v \<and> sf_upstream_port v \<le> 65535) ''upstream_port'' txt_err_port @
     check (utf16_length (sf_maintenance_message v) \<le> 300) ''maintenance_message'' txt_err_message_len @
     check (sf_maintenance_until v = [] \<or> toMaintenanceUntilIso H (Some (sf_maintenance_until v)) \<noteq> None)
       ''maintenance_until'' txt_err_until @
     check (case sf_rate_limit_average v of None \<Rightarrow> True | Some q \<Rightarrow> positive_int q)
       ''rate_limit_average'' txt_err_positive @
     check (case sf_rate_limit_burst v of None \<Rightarrow> True | Some q \<Rightarrow> positive_int q)
       ''rate_limit_burst'' txt_err_positive @
     check (positive_int (sf_healthcheck_timeout_ms v)) ''healthcheck_timeout_ms'' txt_err_positive"

subsection \<open>The refinements (\<open>serviceFormValidation.ts\<close>)\<close>

definition falsy_number :: "rat option \<Rightarrow> bool" where
  "falsy_number q = (case q of None \<Rightarrow> True | Some x \<Rightarrow> x = 0)"

definition valid_status :: "jsnum \<Rightarrow> bool" where
  "valid_status n = (case num_int n of None \<Rightarrow> False | Some i \<Rightarrow> 100 \<le> i \<and> i \<le> 599)"

definition validateServiceFormRefinements :: "ServiceFormData \<Rightarrow> issue list" where
  "validateServiceFormRefinements v =
     check (\<not> (sf_https_redirect_enabled v \<and> \<not> sf_tls_enabled v))
       ''https_redirect_enabled'' txt_err_redirect_tls @
     check (\<not> (sf_auth_mode v \<noteq> AuthAuthentik \<and> truthy (sf_authentik_group_id v)))
       ''authentik_group_id'' txt_err_group_mode @
     check (\<not> (sf_auth_mode v \<noteq> AuthNone \<and> sf_basic_auth_enabled v))
       ''basic_auth_enabled'' txt_err_auth_exclusive @
     check (\<not> (sf_rate_limit_enabled v \<and>
               (falsy_number (sf_rate_limit_average v) \<or> falsy_number (sf_rate_limit_burst v))))
       ''rate_limit_average'' txt_err_rate_limit @
     check (prefix ''/'' (js_trim (sf_healthcheck_path v)))
       ''healthcheck_path'' txt_err_health_path @
     check (list_all valid_status
              (parseHealthcheckExpectedStatuses (sf_healthcheck_expected_statuses_input v)))
       ''healthcheck_expected_statuses_input'' txt_err_statuses"

definition serviceFormSchema :: "js_host \<Rightarrow> ServiceFormData \<Rightarrow> bool" where
  "serviceFormSchema H v = (base_issues H v = [] \<and> validateServiceFormRefinements v = [])"

section \<open>Default values and payload (\<open>serviceFormPayload.ts\<close>)\<close>

definition no_defaults :: ServiceFormDefaultValues where
  "no_defaults =
     \<lparr>sd_name = None, sd_domain = None, sd_upstream_host = None, sd_upstream_port = None,
      sd_routing_mode = None, sd_maintenance_message = None, sd_maintenance_until = None,
      sd_upstream_scheme = None, sd_skip_tls_verify = None, sd_tls_enabled = None,
      sd_https_redirect_enabled = None, sd_auth_mode = None, sd_api_key = None,
      sd_basic_auth_enabled = None, sd_middleware_template_ids = None, sd_authentik_group_id = None,
      sd_allowed_ips = None, sd_blocked_paths = None, sd_rate_limit_average = None,
      sd_rate_limit_burst = None, sd_custom_headers = None, sd_frame_policy = None,
      sd_healthcheck_enabled = None, sd_healthcheck_path = None, sd_healthcheck_timeout_ms = None,
      sd_healthcheck_expected_statuses = None, sd_basic_auth_usernames = None\<rparr>"

definition createServiceFormDefaultValues ::
    "js_host \<Rightarrow> ServiceFormDefaultValues \<Rightarrow> js_error + ServiceFormData" where
  "createServiceFormDefaultValues H d =
     (let headerEntries = obj_entries (default_to [] (sd_custom_headers d));
          usernames = default_to [] (sd_basic_auth_usernames d);
          credentials =
            (if usernames \<noteq> [] then map (\<lambda>u. \<lparr>cr_username = u, cr_password = []\<rparr>) usernames
             else [\<lparr>cr_username = [], cr_password = []\<rparr>])
      in case toKoreanDateTimeLocal H (sd_maintenance_until d) of
           Inl e \<Rightarrow> Inl e
         | Inr maintenanceUntil \<Rightarrow> Inr
             \<lparr>sf_name = or_else (sd_name d) [],
              sf_domain = or_else (sd_domain d) [],
              sf_upstream_host = or_else (sd_upstream_host d) [],
              sf_upstream_port = default_to 80 (sd_upstream_port d),
              sf_routing_mode = default_to RActive (sd_routing_mode d),
              sf_maintenance_message = or_else (sd_maintenance_message d) [],
              sf_maintenance_until = maintenanceUntil,
              sf_upstream_scheme = default_to Http (sd_upstream_scheme d),
              sf_skip_tls_verify = default_to False (sd_skip_tls_verify d),
              sf_tls_enabled = default_to True (sd_tls_enabled d),
              sf_https_redirect_enabled = default_to True (sd_https_redirect_enabled d),
              sf_auth_mode = default_to AuthNone (sd_auth_mode d),
              sf_api_key = or_null (sd_api_key d),
              sf_basic_auth_enabled = default_to False (sd_basic_auth_enabled d),
              sf_middleware_template_ids = default_to [] (sd_middleware_template_ids d),
              sf_authentik_group_id = Some (or_else (sd_authentik_group_id d) []),
              sf_basic_auth_credentials = credentials,
              sf_allowed_ips_input = Some (or_else (map_option (str_join [CHR 0x0A]) (sd_allowed_ips d)) []),
              sf_blocked_paths_input = Some (or_else (map_option (str_join [CHR 0x0A]) (sd_blocked_paths d)) []),
              sf_rate_limit_enabled = (sd_rate_limit_average d \<noteq> None \<and> sd_rate_limit_burst d \<noteq> None),
              sf_rate_limit_average = sd_rate_limit_average d,
              sf_rate_limit_burst = sd_rate_limit_burst d,
              sf_custom_headers = (if headerEntries \<noteq> [] then headerEntries else [([], [])]),
              sf_frame_policy = default_to FrameDeny (sd_frame_policy d),
              sf_healthcheck_enabled = default_to True (sd_healthcheck_enabled d),
              sf_healthcheck_path = or_else (sd_healthcheck_path d) ''/'',
              sf_healthcheck_timeout_ms = default_to 3000 (sd_healthcheck_timeout_ms d),
              sf_healthcheck_expected_statuses_input =
                Some (or_else (map_option (\<lambda>ns. str_join '', '' (map show_int ns))
                        (sd_healthcheck_expected_statuses d)) [])\<rparr>)"

definition header_object :: "(string \<times> string) list \<Rightarrow> string js_object" where
  "header_object items =
     fold (\<lambda>(k, v) acc. if js_trim k = [] then acc else obj_set (js_trim k) (js_trim v) acc) items []"

definition submit_credentials :: "Credential list \<Rightarrow> Credential list" where
  "submit_credentials cs =
     filter (\<lambda>c. cr_username c \<noteq> [])
       (map (\<lambda>c. \<lparr>cr_username = js_trim (cr_username c), cr_password = cr_password c\<rparr>) cs)"

definition buildServiceSubmitPayload :: "js_host \<Rightarrow> ServiceFormData \<Rightarrow> ServiceCreate" where
  "buildServiceSubmitPayload H v =
     \<lparr>sc_name = sf_name v,
      sc_domain = sf_domain v,
      sc_upstream_host = sf_upstream_host v,
      sc_upstream_port = sf_upstream_port v,
      sc_routing_mode = sf_routing_mode v,
      sc_maintenance_message = js_trim (sf_maintenance_message v),
      sc_maintenance_until = toMaintenanceUntilIso H (Some (sf_maintenance_until v)),
      sc_upstream_scheme = sf_upstream_scheme v,
      sc_skip_tls_verify = (if sf_upstream_scheme v = Https then sf_skip_tls_verify v else False),
      sc_tls_enabled = sf_tls_enabled v,
      sc_https_redirect_enabled = sf_https_redirect_enabled v,
      sc_auth_mode = sf_auth_mode v,
      sc_api_key = (if sf_auth_mode v = AuthToken then sf_api_key v else None),
      sc_basic_auth_enabled = sf_basic_auth_enabled v,
      sc_middleware_template_ids = sf_middleware_template_ids v,
      sc_rate_limit_enabled = sf_rate_limit_enabled v,
      sc_allowed_ips = parseAllowedIps (sf_allowed_ips_input v),
      sc_blocked_paths = parseBlockedPaths (sf_blocked_paths_input v),
      sc_rate_limit_average = (if sf_rate_limit_enabled v then sf_rate_limit_average v else None),
      sc_rate_limit_burst = (if sf_rate_limit_enabled v then sf_rate_limit_burst v else None),
      sc_custom_headers = header_object (sf_custom_headers v),
      sc_frame_policy = sf_frame_policy v,
      sc_healthcheck_enabled = sf_healthcheck_enabled v,
      sc_healthcheck_path = or_else (Some (js_trim (sf_healthcheck_path v))) ''/'',
      sc_healthcheck_timeout_ms = sf_healthcheck_timeout_ms v,
      sc_healthcheck_expected_statuses =
        parseHealthcheckExpectedStatuses (sf_healthcheck_expected_statuses_input v),
      sc_basic_auth_credentials =
        (if sf_basic_auth_enabled v then submit_credentials (sf_basic_auth_credentials v) else []),
      sc_authentik_group_id =
        (if sf_auth_mode v = AuthAuthentik then or_null (sf_authentik_group_id v) else None)\<rparr>"

definition serviceToFormDefaultValues :: "Service \<Rightarrow> ServiceFormDefaultValues" where
  "serviceToFormDefaultValues s =
     \<lparr>sd_name = Some (svc_name s), sd_domain = Some (svc_domain s),
      sd_upstream_host = Some (svc_upstream_host s), sd_upstream_port = Some (svc_upstream_port s),
      sd_routing_mode = Some (svc_routing_mode s),
      sd_maintenance_message = Some (svc_maintenance_message s),
      sd_maintenance_until = svc_maintenance_until s,
      sd_upstream_scheme = Some (svc_upstream_scheme s),
      sd_skip_tls_verify = Some (svc_skip_tls_verify s), sd_tls_enabled = Some (svc_tls_enabled s),
      sd_https_redirect_enabled = Some (svc_https_redirect_enabled s),
      sd_auth_mode = Some (svc_auth_mode s), sd_api_key = svc_api_key s,
      sd_basic_auth_enabled = Some (svc_basic_auth_enabled s),
      sd_middleware_template_ids = Some (svc_middleware_template_ids s),
      sd_authentik_group_id = svc_authentik_group_id s,
      sd_allowed_ips = Some (svc_allowed_ips s), sd_blocked_paths = Some (svc_blocked_paths s),
      sd_rate_limit_average = svc_rate_limit_average s, sd_rate_limit_burst = svc_rate_limit_burst s,
      sd_custom_headers = Some (svc_custom_headers s), sd_frame_policy = Some (svc_frame_policy s),
      sd_healthcheck_enabled = Some (svc_healthcheck_enabled s),
      sd_healthcheck_path = Some (svc_healthcheck_path s),
      sd_healthcheck_timeout_ms = Some (svc_healthcheck_timeout_ms s),
      sd_healthcheck_expected_statuses = Some (svc_healthcheck_expected_statuses s),
      sd_basic_auth_usernames = Some (svc_basic_auth_usernames s)\<rparr>"

section \<open>Dependent fields (\<open>useServiceFormSyncEffects.ts\<close>)\<close>

text \<open>
  The hook declares six effects.  An effect runs after the first render (\<open>prev = None\<close>) and
  after every render in which a value of its dependency list differs from the previous render
  (\<open>prev\<close> are the watched values of that render); the conditions read the values of the render,
  the writes go to the form in the order of the effects.  \<open>token\<close> is what the token generator
  returns.
\<close>

record SyncDeps =
  dep_apiKey :: "string option"
  dep_authMode :: AuthMode
  dep_defaultApiKey :: "string option"
  dep_tlsEnabled :: bool
  dep_upstreamScheme :: Scheme

definition sync_deps :: "string option \<Rightarrow> ServiceFormData \<Rightarrow> SyncDeps" where
  "sync_deps defaultApiKey v =
     \<lparr>dep_apiKey = sf_api_key v, dep_authMode = sf_auth_mode v, dep_defaultApiKey = defaultApiKey,
      dep_tlsEnabled = sf_tls_enabled v, dep_upstreamScheme = sf_upstream_scheme v\<rparr>"

definition dep_changed :: "(SyncDeps \<Rightarrow> 'a) \<Rightarrow> SyncDeps option \<Rightarrow> SyncDeps \<Rightarrow> bool" where
  "dep_changed f prev cur = (case prev of None \<Rightarrow> True | Some p \<Rightarrow> f p \<noteq> f cur)"

definition serviceFormSyncEffects ::
    "SyncDeps option \<Rightarrow> string option \<Rightarrow> string \<Rightarrow> ServiceFormData \<Rightarrow> ServiceFormData" where
  "serviceFormSyncEffects prev defaultApiKey token v =
     (let d = sync_deps defaultApiKey v;
          v1 = (if dep_changed dep_defaultApiKey prev d \<and> truthy defaultApiKey
                then v\<lparr>sf_api_key := defaultApiKey\<rparr> else v);
          v2 = (if dep_changed (\<lambda>x. (dep_authMode x, dep_apiKey x)) prev d \<and>
                   dep_authMode d = AuthToken \<and> \<not> truthy (dep_apiKey d)
                then v1\<lparr>sf_api_key := Some token\<rparr> else v1);
          v3 = (if dep_changed dep_tlsEnabled prev d \<and> \<not> dep_tlsEnabled d
                then v2\<lparr>sf_https_redirect_enabled := False\<rparr> else v2);
          v4 = (if dep_changed dep_authMode prev d \<and> dep_authMode d \<noteq> AuthAuthentik
                then v3\<lparr>sf_authentik_group_id := Some []\<rparr> else v3);
          v5 = (if dep_changed dep_authMode prev d \<and> dep_authMode d \<noteq> AuthNone
                then v4\<lparr>sf_basic_auth_enabled := False,
                        sf_basic_auth_credentials := [\<lparr>cr_username = [], cr_password = []\<rparr>]\<rparr>
                else v4)
      in if dep_changed dep_upstreamScheme prev d \<and> dep_upstreamScheme d = Http
         then v5\<lparr>sf_skip_tls_verify := False\<rparr> else v5)"

end
