(* ===== verification/Service_Form_Correct.thy ===== *)
theory Service_Form_Correct
  imports Service_Form
begin

text \<open>
  Correctness of the service form: the parsers of the text areas, the status codes, the header
  object, the token, the validated payload, and that editing a service without changing
  anything submits the settings the service has.
\<close>

section \<open>Text areas\<close>

definition clean_entry :: "string \<Rightarrow> bool" where
  "clean_entry x =
     (x \<noteq> [] \<and> js_trim x = x \<and> CHR '','' \<notin> set x \<and> CHR 0x0A \<notin> set x \<and> CHR 0x0D \<notin> set x)"

lemma split_entries_ne [simp]: "split_entries s \<noteq> []"
  by (induction s rule: split_entries.induct) (auto split: list.splits)

lemma split_entries_pieces:
  "x \<in> set (split_entries s) \<Longrightarrow> CHR '','' \<notin> set x \<and> CHR 0x0A \<notin> set x"
  by (induction s arbitrary: x rule: split_entries.induct) (auto split: list.splits if_splits)

lemma split_entries_none:
  "CHR '','' \<notin> set x \<Longrightarrow> CHR 0x0A \<notin> set x \<Longrightarrow> CHR 0x0D \<notin> set x \<Longrightarrow> split_entries x = [x]"
  by (induction x) auto

lemma split_entries_sep:
  "CHR '','' \<notin> set x \<Longrightarrow> CHR 0x0A \<notin> set x \<Longrightarrow> CHR 0x0D \<notin> set x \<Longrightarrow> c = CHR '','' \<or> c = CHR 0x0A \<Longrightarrow>
   split_entries (x @ c # s) = x # split_entries s"
proof (induction x)
  case (Cons a x)
  then show ?case by (auto split: list.splits)
qed auto

lemma entry_list_member: "x \<in> set (entry_list s) \<Longrightarrow>
    x \<noteq> [] \<and> js_trim x = x \<and> CHR '','' \<notin> set x \<and> CHR 0x0A \<notin> set x"
  using split_entries_pieces set_js_trim by (fastforce simp: entry_list_def)

lemma entry_list_Nil [simp]: "entry_list [] = []"
  by (simp add: entry_list_def)

lemma entry_list_lines:
  "list_all clean_entry xs \<Longrightarrow> entry_list (str_join [CHR 0x0A] xs) = xs"
proof (induction "[CHR 0x0A]" xs rule: str_join.induct)
  case (2 x)
  then show ?case by (simp add: entry_list_def clean_entry_def split_entries_none)
next
  case (3 x y xs)
  then have "entry_list (str_join [CHR 0x0A] (y # xs)) = y # xs" by simp
  moreover have "split_entries (x @ [CHR 0x0A] @ str_join [CHR 0x0A] (y # xs))
      = x # split_entries (str_join [CHR 0x0A] (y # xs))"
    using "3.prems" split_entries_sep [of x "CHR 0x0A"] by (simp add: clean_entry_def)
  ultimately show ?case using "3.prems" by (simp add: entry_list_def clean_entry_def)
qed simp

text \<open>An entry may itself hold separators: the list of the joined entries is the list of the
  entries of each, as long as no entry ends in a carriage return.\<close>

lemma split_entries_append:
  "x = [] \<or> last x \<noteq> CHR 0x0D \<Longrightarrow> split_entries (x @ CHR 0x0A # s) = split_entries x @ split_entries s"
proof (induction x rule: split_entries.induct)
  case (2 c x)
  then show ?case
    by (cases x) (auto split: list.splits if_splits simp: split_entries_ne)
qed simp

lemma entry_list_append:
  "x = [] \<or> last x \<noteq> CHR 0x0D \<Longrightarrow> entry_list (x @ CHR 0x0A # s) = entry_list x @ entry_list s"
  by (simp add: entry_list_def split_entries_append)

lemma entry_list_joined:
  "list_all (\<lambda>x. x \<noteq> [] \<and> last x \<noteq> CHR 0x0D) xs \<Longrightarrow>
   entry_list (str_join [CHR 0x0A] xs) = concat (map entry_list xs)"
  by (induction "[CHR 0x0A]" xs rule: str_join.induct) (simp_all add: entry_list_append)

lemma trimmed_last:
  assumes "js_trim x = x" "x \<noteq> []" shows "last x \<noteq> CHR 0x0D"
proof
  assume l: "last x = CHR 0x0D"
  have r: "rev x = CHR 0x0D # rev (butlast x)"
    using assms(2) l by (metis append_butlast_last_id rev_eq_Cons_iff rev_rev_ident)
  have n: "no_prefix (map rev js_ws) (rev x)" using js_trim_ends [of x] assms(1) by simp
  have "[CHR 0x0D] \<in> set (map rev js_ws)" by (simp add: js_ws_def)
  with n have "\<not> prefix [CHR 0x0D] (rev x)" unfolding no_prefix_def list_all_iff by blast
  then show False by (simp add: r)
qed

lemma entry_list_clean: "clean_entry x \<Longrightarrow> entry_list x = [x]"
  by (simp add: entry_list_def clean_entry_def split_entries_none)

lemma split_entries_space: "split_entries (CHR '' '' # s) = (CHR '' '' # hd (split_entries s)) # tl (split_entries s)"
  by (cases "split_entries s") auto

lemma entry_list_space: "entry_list (CHR '' '' # s) = entry_list s"
  by (cases "split_entries s") (auto simp: entry_list_def)

lemma entry_list_commas:
  "list_all clean_entry xs \<Longrightarrow> entry_list (str_join '', '' xs) = xs"
proof (induction "'', ''" xs rule: str_join.induct)
  case (2 x)
  then show ?case by (simp add: entry_list_def clean_entry_def split_entries_none)
next
  case (3 x y xs)
  then have "entry_list (CHR '' '' # str_join '', '' (y # xs)) = y # xs" by (simp add: entry_list_space)
  moreover have "split_entries (x @ '', '' @ str_join '', '' (y # xs))
      = x # split_entries (CHR '' '' # str_join '', '' (y # xs))"
    using "3.prems" split_entries_sep [of x "CHR '',''" "CHR '' '' # str_join '', '' (y # xs)"]
    by (simp add: clean_entry_def)
  ultimately show ?case using "3.prems" by (simp add: entry_list_def clean_entry_def)
qed simp

section \<open>Numbers\<close>

lemma num_cmp_Num: "(\<lambda>x y. num_cmp (Num x) (Num y)) = rat_cmp"
  by (intro ext) simp

lemma sort_Num: "js_sort num_cmp (map Num qs) = map Num (js_sort rat_cmp qs)"
  by (simp add: js_sort_map num_cmp_Num)

lemma show_int_nonneg: "0 \<le> n \<Longrightarrow> show_int n = show_nat (nat n)"
  by (simp add: show_int_def)

lemma js_number_show_int:
  assumes "0 \<le> n" "n \<le> 2 ^ 53" shows "js_number (show_int n) = Num (of_int n)"
proof -
  have "nat n \<le> 2 ^ 53" using assms by (simp add: nat_le_iff)
  then have "js_number (show_nat (nat n)) = Num (of_nat (read_nat (show_nat (nat n))))"
    by (intro js_number_digits) (simp_all add: show_nat_digits)
  then show ?thesis using assms by (simp add: show_int_nonneg)
qed

lemma show_int_clean: "0 \<le> n \<Longrightarrow> clean_entry (show_int n)"
proof -
  assume n: "0 \<le> n"
  have d: "list_all is_digit (show_nat (nat n))" by (rule show_nat_digits)
  have "c \<notin> set (show_nat (nat n))" if "\<not> is_digit c" for c using d that by (auto simp: list_all_iff)
  moreover have "\<not> is_digit CHR '',''" "\<not> is_digit CHR 0x0A" "\<not> is_digit CHR 0x0D"
    by (simp_all add: is_digit_def)
  ultimately show ?thesis
    using n d by (simp add: clean_entry_def show_int_nonneg js_trim_visible digit_visible)
qed

lemma statuses_roundtrip:
  assumes "sorted_wrt (<) ns" "\<forall>n\<in>set ns. 0 \<le> n \<and> n \<le> 2 ^ 53"
  shows "parseHealthcheckExpectedStatuses (Some (str_join '', '' (map show_int ns)))
    = map (\<lambda>n. Num (of_int n)) ns"
proof (cases "ns = []")
  case False
  have "list_all clean_entry (map show_int ns)" using assms(2) by (auto simp: list_all_iff show_int_clean)
  then have e: "entry_list (str_join '', '' (map show_int ns)) = map show_int ns" by (rule entry_list_commas)
  have ne: "str_join '', '' (map show_int ns) \<noteq> []" using e False by auto
  have n: "map js_number (map show_int ns) = map Num (map of_int ns)"
    using assms(2) by (simp add: js_number_show_int)
  have s: "sorted ns" "distinct ns" using assms(1) by (simp_all add: strict_sorted_iff)
  then have "distinct (map Num (map of_int ns))" by (simp add: distinct_map inj_on_def)
  moreover have "sorted (map of_int ns :: rat list)"
    using s(1) by (simp add: sorted_iff_nth_mono)
  ultimately have r: "js_sort num_cmp (js_unique (map Num (map of_int ns))) = map Num (map of_int ns)"
    by (simp only: js_unique_distinct sort_Num ratc.js_sort_id rat_sorted)
  have "parseHealthcheckExpectedStatuses (Some (str_join '', '' (map show_int ns)))
      = js_sort num_cmp (js_unique (map js_number (entry_list (str_join '', '' (map show_int ns)))))"
    using ne by (simp add: parseHealthcheckExpectedStatuses_def)
  also have "\<dots> = map Num (map of_int ns)" by (simp only: e n r)
  finally show ?thesis by (simp add: comp_def)
qed (simp add: parseHealthcheckExpectedStatuses_def)

lemma valid_status_int: "valid_status n \<Longrightarrow> \<exists>i. n = Num (of_int i) \<and> 100 \<le> i \<and> i \<le> 599"
  by (auto simp: valid_status_def num_int_def split: option.splits jsnum.splits if_splits)
    (metis+)?

lemma valid_statuses_sorted:
  assumes "list_all valid_status (parseHealthcheckExpectedStatuses input)"
  shows "\<exists>ns::int list. parseHealthcheckExpectedStatuses input = map (\<lambda>i. Num (of_int i)) ns \<and>
    sorted_wrt (<) ns \<and> (\<forall>i\<in>set ns. 100 \<le> i \<and> i \<le> 599)"
proof (cases "truthy input")
  case True
  let ?u = "js_unique (map js_number (entry_list (the input)))"
  have p: "parseHealthcheckExpectedStatuses input = js_sort num_cmp ?u"
    using True by (simp add: parseHealthcheckExpectedStatuses_def)
  have v: "\<forall>n\<in>set ?u. \<exists>i. n = Num (of_int i) \<and> 100 \<le> i \<and> i \<le> 599"
    using assms valid_status_int by (simp add: p list_all_iff)
  then obtain f where f: "\<forall>n\<in>set ?u. n = Num (of_int (f n)) \<and> 100 \<le> f n \<and> f n \<le> 599" by metis
  define ms where "ms = map f ?u"
  have u: "?u = map Num (map of_int ms)" using f by (auto simp: ms_def intro!: map_idI [symmetric])
  have "distinct (map Num (map of_int ms))" unfolding u [symmetric] by simp
  then have dm: "distinct ms" by (simp add: distinct_map)
  have e: "js_sort num_cmp ?u = map Num (js_sort rat_cmp (map of_int ms))" by (simp only: u sort_Num)
  also have "js_sort rat_cmp (map of_int ms) = map of_int (js_sort (\<lambda>x y. rat_cmp (of_int x) (of_int y)) ms)"
    by (rule js_sort_map)
  finally have e: "js_sort num_cmp ?u
      = map (\<lambda>i. Num (of_int i)) (js_sort (\<lambda>x y. rat_cmp (of_int x) (of_int y)) ms)" by (simp add: comp_def)
  define ns where "ns = js_sort (\<lambda>x y. rat_cmp (of_int x) (of_int y)) ms"
  have "sorted (map of_int ns :: rat list)"
    unfolding ns_def js_sort_map [symmetric] rat_sorted [symmetric] by (rule ratc.js_sort_sorted)
  then have "sorted ns" by (simp add: sorted_iff_nth_mono)
  moreover have "distinct ns" using dm by (simp add: ns_def)
  moreover have "\<forall>i\<in>set ns. 100 \<le> i \<and> i \<le> 599" using f by (auto simp: ns_def ms_def)
  ultimately show ?thesis using p e by (auto simp: ns_def strict_sorted_iff)
qed (simp add: parseHealthcheckExpectedStatuses_def)

section \<open>Headers\<close>

lemma header_fold_distinct:
  "distinct (map fst acc) \<Longrightarrow>
   distinct (map fst (fold (\<lambda>(k, v) acc. if js_trim k = [] then acc else obj_set (js_trim k) (js_trim v) acc) items acc))"
  by (induction items arbitrary: acc) (auto simp: obj_set_distinct)

definition stored_headers :: "(string \<times> string) list \<Rightarrow> bool" where
  "stored_headers hs =
     (distinct (map fst hs) \<and>
      list_all (\<lambda>(k, v). k \<noteq> [] \<and> js_trim k = k \<and> js_trim v = v \<and> k \<noteq> ''__proto__'' \<and> \<not> index_key k) hs)"

text \<open>The same without the restriction on array-index keys.\<close>

definition trimmed_headers :: "(string \<times> string) list \<Rightarrow> bool" where
  "trimmed_headers hs =
     (distinct (map fst hs) \<and>
      list_all (\<lambda>(k, v). k \<noteq> [] \<and> js_trim k = k \<and> js_trim v = v \<and> k \<noteq> ''__proto__'') hs)"

lemma trimmed_entries: "trimmed_headers hs \<Longrightarrow> trimmed_headers (obj_entries hs)"
proof -
  assume h: "trimmed_headers hs"
  have m: "mset (obj_entries hs) = mset hs" by (rule obj_entries_mset)
  then have "distinct (map fst (obj_entries hs)) = distinct (map fst hs)"
    by (intro mset_eq_imp_distinct_iff) (simp add: m)
  moreover have "set (obj_entries hs) = set hs" using m by (rule mset_eq_setD)
  ultimately show ?thesis using h by (simp add: trimmed_headers_def list_all_iff)
qed

lemma header_fold_trimmed:
  "trimmed_headers hs \<Longrightarrow> fst ` set acc \<inter> fst ` set hs = {} \<Longrightarrow>
   fold (\<lambda>(k, v) acc. if js_trim k = [] then acc else obj_set (js_trim k) (js_trim v) acc) hs acc = acc @ hs"
proof (induction hs arbitrary: acc)
  case (Cons h hs)
  obtain k v where h: "h = (k, v)" by (cases h)
  have "obj_set (js_trim k) (js_trim v) acc = acc @ [(k, v)]"
    using Cons.prems h by (auto simp: trimmed_headers_def obj_set_def obj_put_new)
  moreover have "trimmed_headers hs" using Cons.prems by (simp add: trimmed_headers_def)
  moreover have "fst ` set (acc @ [(k, v)]) \<inter> fst ` set hs = {}"
    using Cons.prems h by (auto simp: trimmed_headers_def)
  ultimately show ?case using Cons.IH Cons.prems h by (auto simp: trimmed_headers_def)
qed simp

lemma header_object_trimmed: "trimmed_headers hs \<Longrightarrow> header_object hs = hs"
  using header_fold_trimmed [of hs "[]"] by (simp add: header_object_def)

lemma stored_trimmed: "stored_headers hs \<Longrightarrow> trimmed_headers hs"
  by (auto simp: stored_headers_def trimmed_headers_def list_all_iff)

lemma header_object_id: "stored_headers hs \<Longrightarrow> header_object hs = hs"
  by (rule header_object_trimmed) (rule stored_trimmed)

lemma stored_headers_entries: "stored_headers hs \<Longrightarrow> obj_entries hs = hs"
  by (intro obj_entries_plain) (auto simp: stored_headers_def list_all_iff)

lemma submit_credentials_stored:
  "list_all (\<lambda>u. u \<noteq> [] \<and> js_trim u = u) us \<Longrightarrow>
   submit_credentials (map (\<lambda>u. \<lparr>cr_username = u, cr_password = []\<rparr>) us)
     = map (\<lambda>u. \<lparr>cr_username = u, cr_password = []\<rparr>) us"
  by (induction us) (auto simp: submit_credentials_def)

section \<open>The token\<close>

lemma mod3_Suc3: "Suc (Suc (Suc n)) mod 3 = n mod 3"
  by presburger

lemma btoa_append: "length a mod 3 = 0 \<Longrightarrow> btoa (a @ b) = btoa a @ btoa b"
proof (induction a rule: btoa.induct)
  case (4 x y z s)
  then have "length s mod 3 = 0" by (simp add: mod3_Suc3)
  with 4 show ?case by (simp add: Let_def)
qed (auto simp: Let_def)

lemma length_btoa: "length a mod 3 = 0 \<Longrightarrow> 3 * length (btoa a) = 4 * length a"
proof (induction a rule: btoa.induct)
  case (4 x y z s)
  then have "length s mod 3 = 0" by (simp add: mod3_Suc3)
  with 4 show ?case by (simp add: Let_def)
qed (auto simp: Let_def)

definition b64_symbol :: "char \<Rightarrow> bool" where
  "b64_symbol c = (is_alnum c \<or> c = CHR ''+'' \<or> c = CHR ''/'')"

lemma b64_char_symbol: "b64_symbol (b64_char n)"
  by (auto simp: b64_symbol_def b64_char_def is_alnum_def is_letter_def is_digit_def Let_def)

lemma btoa_symbols: "c \<in> set (btoa s) \<Longrightarrow> b64_symbol c \<or> c = CHR ''=''"
  by (induction s rule: btoa.induct) (auto simp: Let_def b64_char_symbol)

lemma btoa_symbols_exact: "length s mod 3 = 0 \<Longrightarrow> c \<in> set (btoa s) \<Longrightarrow> b64_symbol c"
proof (induction s rule: btoa.induct)
  case (4 x y z s)
  then have "length s mod 3 = 0" by (simp add: mod3_Suc3)
  with 4 show ?case by (auto simp: Let_def b64_char_symbol)
qed (auto simp: Let_def)

lemma b64_symbol_not_pad: "b64_symbol c \<Longrightarrow> url_safe_char c \<noteq> CHR ''=''"
  by (auto simp: b64_symbol_def url_safe_char_def is_alnum_def is_letter_def is_digit_def)

text \<open>The token is made of the first 33 hexadecimal digits only.\<close>

lemma token_body:
  assumes "33 \<le> length h"
  shows "take 44 (filter (\<lambda>c. c \<noteq> CHR ''='') (map url_safe_char (btoa h)))
    = map url_safe_char (btoa (take 33 h))"
proof -
  let ?a = "btoa (take 33 h)" and ?b = "btoa (drop 33 h)"
  have l: "length (take 33 h) = 33" using assms by simp
  have d: "length (take 33 h) mod 3 = 0" by (simp only: l) simp
  have "btoa h = ?a @ ?b" using btoa_append [OF d, of "drop 33 h"] by simp
  moreover have "length ?a = 44" using length_btoa [OF d] l by simp
  moreover have "filter (\<lambda>c. c \<noteq> CHR ''='') (map url_safe_char ?a) = map url_safe_char ?a"
    using btoa_symbols_exact [OF d] b64_symbol_not_pad by (auto simp: filter_id_conv)
  ultimately show ?thesis by simp
qed

lemma length_hex: "length (concat (map hex_byte bs)) = 2 * length bs"
  by (induction bs) (auto simp: hex_byte_def)

lemma take_hex: "take (2 * n) (concat (map hex_byte bs)) = concat (map hex_byte (take n bs))"
proof (induction bs arbitrary: n)
  case (Cons b bs)
  then show ?case by (cases n) (auto simp: hex_byte_def)
qed simp

section \<open>A service as the backend stores it\<close>

text \<open>
  What the backend's entity and request schemas guarantee of a stored service, and three things
  that only the form demands: a name, a message that counts at most 300 UTF-16 units, and an end
  of the maintenance whose Korean year has four digits.
\<close>

definition stored_until :: "js_host \<Rightarrow> string option \<Rightarrow> bool" where
  "stored_until H v =
     (case v of None \<Rightarrow> True
      | Some s \<Rightarrow> s \<noteq> [] \<and>
          (case date_parse H s of None \<Rightarrow> False
           | Some t \<Rightarrow> \<bar>t + KOREA_OFFSET_MS\<bar> \<le> max_time \<and>
               0 \<le> year_of_day ((t + KOREA_OFFSET_MS) div day_ms) \<and>
               year_of_day ((t + KOREA_OFFSET_MS) div day_ms) \<le> 9999))"

definition stored_service :: "js_host \<Rightarrow> Service \<Rightarrow> bool" where
  "stored_service H s =
     (svc_name s \<noteq> [] \<and> domain_pattern (svc_domain s) \<and> svc_upstream_host s \<noteq> [] \<and>
      1 \<le> svc_upstream_port s \<and> svc_upstream_port s \<le> 65535 \<and>
      js_trim (svc_maintenance_message s) = svc_maintenance_message s \<and>
      utf16_length (svc_maintenance_message s) \<le> 300 \<and>
      stored_until H (svc_maintenance_until s) \<and>
      (svc_skip_tls_verify s \<longrightarrow> svc_upstream_scheme s = Https) \<and>
      (svc_https_redirect_enabled s \<longrightarrow> svc_tls_enabled s) \<and>
      (if svc_auth_mode s = AuthToken then truthy (svc_api_key s) else svc_api_key s = None) \<and>
      (svc_authentik_group_id s \<noteq> None \<longrightarrow> svc_auth_mode s = AuthAuthentik \<and> truthy (svc_authentik_group_id s)) \<and>
      list_all clean_entry (svc_allowed_ips s) \<and>
      list_all (\<lambda>p. js_trim p = p \<and> prefix ''/'' p) (svc_blocked_paths s) \<and>
      (svc_rate_limit_average s = None \<longleftrightarrow> svc_rate_limit_burst s = None) \<and>
      (case svc_rate_limit_average s of None \<Rightarrow> True | Some q \<Rightarrow> positive_int q) \<and>
      (case svc_rate_limit_burst s of None \<Rightarrow> True | Some q \<Rightarrow> positive_int q) \<and>
      trimmed_headers (svc_custom_headers s) \<and>
      prefix ''/'' (svc_healthcheck_path s) \<and> js_trim (svc_healthcheck_path s) = svc_healthcheck_path s \<and>
      positive_int (svc_healthcheck_timeout_ms s) \<and>
      sorted_wrt (<) (svc_healthcheck_expected_statuses s) \<and>
      (\<forall>n\<in>set (svc_healthcheck_expected_statuses s). 100 \<le> n \<and> n \<le> 599) \<and>
      list_all (\<lambda>u. u \<noteq> [] \<and> js_trim u = u) (svc_basic_auth_usernames s) \<and>
      (svc_basic_auth_enabled s \<longleftrightarrow> svc_basic_auth_usernames s \<noteq> []) \<and>
      (svc_basic_auth_enabled s \<longrightarrow> svc_auth_mode s = AuthNone))"

lemma stored_facts:
  assumes "stored_service H s"
  shows "svc_name s \<noteq> []"
    and "domain_pattern (svc_domain s)"
    and "svc_upstream_host s \<noteq> []"
    and "1 \<le> svc_upstream_port s"
    and "svc_upstream_port s \<le> 65535"
    and "js_trim (svc_maintenance_message s) = svc_maintenance_message s"
    and "utf16_length (svc_maintenance_message s) \<le> 300"
    and "stored_until H (svc_maintenance_until s)"
    and "svc_skip_tls_verify s \<longrightarrow> svc_upstream_scheme s = Https"
    and "svc_https_redirect_enabled s \<longrightarrow> svc_tls_enabled s"
    and "if svc_auth_mode s = AuthToken then truthy (svc_api_key s) else svc_api_key s = None"
    and "svc_authentik_group_id s \<noteq> None \<longrightarrow> svc_auth_mode s = AuthAuthentik \<and> truthy (svc_authentik_group_id s)"
    and "list_all clean_entry (svc_allowed_ips s)"
    and "list_all (\<lambda>p. js_trim p = p \<and> prefix ''/'' p) (svc_blocked_paths s)"
    and "svc_rate_limit_average s = None \<longleftrightarrow> svc_rate_limit_burst s = None"
    and "case svc_rate_limit_average s of None \<Rightarrow> True | Some q \<Rightarrow> positive_int q"
    and "case svc_rate_limit_burst s of None \<Rightarrow> True | Some q \<Rightarrow> positive_int q"
    and "trimmed_headers (svc_custom_headers s)"
    and "prefix ''/'' (svc_healthcheck_path s)"
    and "js_trim (svc_healthcheck_path s) = svc_healthcheck_path s"
    and "positive_int (svc_healthcheck_timeout_ms s)"
    and "sorted_wrt (<) (svc_healthcheck_expected_statuses s)"
    and "\<forall>n\<in>set (svc_healthcheck_expected_statuses s). 100 \<le> n \<and> n \<le> 599"
    and "list_all (\<lambda>u. u \<noteq> [] \<and> js_trim u = u) (svc_basic_auth_usernames s)"
    and "svc_basic_auth_enabled s \<longleftrightarrow> svc_basic_auth_usernames s \<noteq> []"
    and "svc_basic_auth_enabled s \<longrightarrow> svc_auth_mode s = AuthNone"
  using assms unfolding stored_service_def by - (elim conjE, assumption)+

text \<open>The end of a maintenance cut to the minute, which is what the field of the form can hold.\<close>

definition full_minute :: "js_host \<Rightarrow> string option \<Rightarrow> string option" where
  "full_minute H v =
     (case v of None \<Rightarrow> None
      | Some s \<Rightarrow> map_option (\<lambda>t. to_iso (t - t mod 60000)) (date_parse H s))"

text \<open>The paths that the text area makes of a stored path: its parts between commas and line
  breaks, each with a leading slash.\<close>

definition path_parts :: "string \<Rightarrow> string list" where
  "path_parts p = map (\<lambda>q. if prefix ''/'' q then q else ''/'' @ q) (entry_list p)"

lemma path_parts_single: "clean_entry p \<Longrightarrow> prefix ''/'' p \<Longrightarrow> path_parts p = [p]"
  by (simp add: path_parts_def entry_list_clean)

lemma path_parts_plain:
  "list_all (\<lambda>p. js_trim p = p \<and> prefix ''/'' p) ps \<Longrightarrow>
   list_all (\<lambda>p. CHR '','' \<notin> set p \<and> CHR 0x0A \<notin> set p \<and> CHR 0x0D \<notin> set p) ps \<Longrightarrow>
   concat (map path_parts ps) = ps"
proof (induction ps)
  case (Cons p ps)
  then have "clean_entry p" by (auto simp: clean_entry_def)
  with Cons show ?case by (simp add: path_parts_single)
qed simp

text \<open>The settings of a service as a payload that asks for no change, up to the minute of the
  maintenance end and to the parts of the blocked paths.  The headers are the same properties in
  the order in which an object lists them.\<close>

definition unchanged_payload :: "js_host \<Rightarrow> Service \<Rightarrow> ServiceCreate" where
  "unchanged_payload H s =
     \<lparr>sc_name = svc_name s, sc_domain = svc_domain s, sc_upstream_host = svc_upstream_host s,
      sc_upstream_port = svc_upstream_port s, sc_routing_mode = svc_routing_mode s,
      sc_maintenance_message = svc_maintenance_message s,
      sc_maintenance_until = full_minute H (svc_maintenance_until s),
      sc_upstream_scheme = svc_upstream_scheme s,
      sc_skip_tls_verify = svc_skip_tls_verify s, sc_tls_enabled = svc_tls_enabled s,
      sc_https_redirect_enabled = svc_https_redirect_enabled s, sc_auth_mode = svc_auth_mode s,
      sc_api_key = svc_api_key s, sc_basic_auth_enabled = svc_basic_auth_enabled s,
      sc_middleware_template_ids = svc_middleware_template_ids s,
      sc_rate_limit_enabled = (svc_rate_limit_average s \<noteq> None),
      sc_allowed_ips = svc_allowed_ips s,
      sc_blocked_paths = concat (map path_parts (svc_blocked_paths s)),
      sc_rate_limit_average = svc_rate_limit_average s, sc_rate_limit_burst = svc_rate_limit_burst s,
      sc_custom_headers = obj_entries (svc_custom_headers s), sc_frame_policy = svc_frame_policy s,
      sc_healthcheck_enabled = svc_healthcheck_enabled s,
      sc_healthcheck_path = svc_healthcheck_path s,
      sc_healthcheck_timeout_ms = svc_healthcheck_timeout_ms s,
      sc_healthcheck_expected_statuses = map (\<lambda>n. Num (of_int n)) (svc_healthcheck_expected_statuses s),
      sc_basic_auth_credentials =
        (if svc_basic_auth_enabled s
         then map (\<lambda>u. \<lparr>cr_username = u, cr_password = []\<rparr>) (svc_basic_auth_usernames s) else []),
      sc_authentik_group_id = svc_authentik_group_id s\<rparr>"

lemma allowed_ips_roundtrip:
  "list_all clean_entry xs \<Longrightarrow> parseAllowedIps (Some (or_else (Some (str_join [CHR 0x0A] xs)) [])) = xs"
  using entry_list_lines [of xs] by (auto simp: parseAllowedIps_def)

lemma blocked_paths_roundtrip:
  assumes "list_all (\<lambda>p. js_trim p = p \<and> prefix ''/'' p) xs"
  shows "parseBlockedPaths (Some (or_else (Some (str_join [CHR 0x0A] xs)) [])) = concat (map path_parts xs)"
proof -
  have "list_all (\<lambda>x. x \<noteq> [] \<and> last x \<noteq> CHR 0x0D) xs"
    using assms trimmed_last by (fastforce simp: list_all_iff)
  from entry_list_joined [OF this] have e: "entry_list (str_join [CHR 0x0A] xs) = concat (map entry_list xs)" .
  have "map (\<lambda>path. if prefix ''/'' path then path else ''/'' @ path) (concat (map entry_list xs))
      = concat (map path_parts xs)"
    by (simp add: path_parts_def [abs_def] map_concat comp_def)
  moreover have "parseBlockedPaths (Some (or_else (Some (str_join [CHR 0x0A] xs)) []))
      = map (\<lambda>path. if prefix ''/'' path then path else ''/'' @ path) (entry_list (str_join [CHR 0x0A] xs))"
    by (cases "str_join [CHR 0x0A] xs = []") (simp_all add: parseBlockedPaths_def)
  ultimately show ?thesis by (simp only: e)
qed

lemma until_roundtrip:
  assumes "stored_until H v"
  shows "\<exists>l. toKoreanDateTimeLocal H v = Inr l \<and> toMaintenanceUntilIso H (Some l) = full_minute H v \<and>
    (l = [] \<or> full_minute H v \<noteq> None)"
proof (cases v)
  case None
  then show ?thesis by (simp add: toKoreanDateTimeLocal_def toMaintenanceUntilIso_def full_minute_def)
next
  case (Some s)
  then obtain t where t: "s \<noteq> []" "date_parse H s = Some t" "\<bar>t + KOREA_OFFSET_MS\<bar> \<le> max_time"
      "0 \<le> year_of_day ((t + KOREA_OFFSET_MS) div day_ms)"
      "year_of_day ((t + KOREA_OFFSET_MS) div day_ms) \<le> 9999"
    using assms by (auto simp: stored_until_def split: option.splits)
  have ne: "to_iso t \<noteq> []" by (simp add: to_iso_def)
  have same: "toKoreanDateTimeLocal H (Some s) = toKoreanDateTimeLocal H (Some (to_iso t))"
    using t(1,2) date_parse_to_iso [OF date_parse_range [OF t(2)], of H] ne by (simp add: toKoreanDateTimeLocal_def)
  from korean_local_roundtrip [OF date_parse_range [OF t(2)] t(3-5), of H] show ?thesis
    using t(2) Some same by (auto simp: full_minute_def)
qed

lemma statuses_input_roundtrip:
  assumes "sorted_wrt (<) ns" "\<forall>n\<in>set ns. 100 \<le> n \<and> n \<le> (599::int)"
  shows "parseHealthcheckExpectedStatuses (Some (or_else (Some (str_join '', '' (map show_int ns))) []))
    = map (\<lambda>n. Num (of_int n)) ns"
proof -
  have "\<forall>n\<in>set ns. 0 \<le> n \<and> n \<le> (2::int) ^ 53" using assms(2) by (auto intro: order_trans)
  from statuses_roundtrip [OF assms(1) this] show ?thesis by simp
qed

lemma headers_roundtrip:
  assumes "trimmed_headers hs"
  shows "header_object (if obj_entries hs \<noteq> [] then obj_entries hs else [([], [])]) = obj_entries hs"
  using header_object_trimmed [OF trimmed_entries [OF assms]] by (auto simp: header_object_def)

lemma header_lookup_fold:
  "obj_get k (fold (\<lambda>(k, v) acc. if js_trim k = [] then acc else obj_set (js_trim k) (js_trim v) acc) items acc) =
   (if k = [] \<or> k = ''__proto__'' then obj_get k acc
    else case find (\<lambda>(k', v). js_trim k' = k) (rev items) of
      Some (k', v) \<Rightarrow> Some (js_trim v) | None \<Rightarrow> obj_get k acc)"
proof (induction items rule: rev_induct)
  case (snoc it items)
  obtain k' v where it: "it = (k', v)" by (cases it)
  show ?case
    using snoc by (auto simp: it obj_set_def obj_get_put)
qed simp

section \<open>Consistency of dependent fields\<close>

definition form_consistent :: "ServiceFormData \<Rightarrow> bool" where
  "form_consistent f =
     ((sf_https_redirect_enabled f \<longrightarrow> sf_tls_enabled f) \<and>
      (truthy (sf_authentik_group_id f) \<longrightarrow> sf_auth_mode f = AuthAuthentik) \<and>
      (sf_basic_auth_enabled f \<longrightarrow> sf_auth_mode f = AuthNone) \<and>
      (sf_auth_mode f = AuthToken \<longrightarrow> truthy (sf_api_key f)) \<and>
      (sf_skip_tls_verify f \<longrightarrow> sf_upstream_scheme f = Https))"

text \<open>The form of a new service.\<close>

definition blank_form :: ServiceFormData where
  "blank_form =
     (case createServiceFormDefaultValues
         utc_host no_defaults of
        Inr f \<Rightarrow> f)"

section \<open>Properties\<close>

text \<open>The fields of the untouched form that hold lists.\<close>

lemma unchanged_lists:
  assumes "stored_service H s"
  shows "parseAllowedIps (Some (or_else (Some (str_join [CHR 0x0A] (svc_allowed_ips s))) [])) = svc_allowed_ips s"
    and "parseBlockedPaths (Some (or_else (Some (str_join [CHR 0x0A] (svc_blocked_paths s))) []))
      = concat (map path_parts (svc_blocked_paths s))"
    and "parseHealthcheckExpectedStatuses (Some (or_else (Some (str_join '', '' (map show_int (svc_healthcheck_expected_statuses s)))) []))
      = map (\<lambda>n. Num (of_int n)) (svc_healthcheck_expected_statuses s)"
    and "header_object (if obj_entries (svc_custom_headers s) \<noteq> [] then obj_entries (svc_custom_headers s) else [([], [])])
      = obj_entries (svc_custom_headers s)"
  by - (rule allowed_ips_roundtrip blocked_paths_roundtrip statuses_input_roundtrip headers_roundtrip;
    rule stored_facts [OF assms])+

text \<open>The form that the edit page makes of a stored service, field by field.\<close>

lemma edit_form_fields:
  assumes "createServiceFormDefaultValues H (serviceToFormDefaultValues s) = Inr f"
  shows "sf_name f = svc_name s" "sf_domain f = svc_domain s" "sf_upstream_host f = svc_upstream_host s"
    "sf_upstream_port f = svc_upstream_port s" "sf_routing_mode f = svc_routing_mode s"
    "sf_maintenance_message f = svc_maintenance_message s"
    "Inr (sf_maintenance_until f) = toKoreanDateTimeLocal H (svc_maintenance_until s)"
    "sf_upstream_scheme f = svc_upstream_scheme s" "sf_skip_tls_verify f = svc_skip_tls_verify s"
    "sf_tls_enabled f = svc_tls_enabled s" "sf_https_redirect_enabled f = svc_https_redirect_enabled s"
    "sf_auth_mode f = svc_auth_mode s" "sf_api_key f = or_null (svc_api_key s)"
    "sf_basic_auth_enabled f = svc_basic_auth_enabled s"
    "sf_middleware_template_ids f = svc_middleware_template_ids s"
    "sf_authentik_group_id f = Some (or_else (svc_authentik_group_id s) [])"
    "sf_basic_auth_credentials f =
      (if svc_basic_auth_usernames s \<noteq> []
       then map (\<lambda>u. \<lparr>cr_username = u, cr_password = []\<rparr>) (svc_basic_auth_usernames s)
       else [\<lparr>cr_username = [], cr_password = []\<rparr>])"
    "sf_allowed_ips_input f = Some (or_else (Some (str_join [CHR 0x0A] (svc_allowed_ips s))) [])"
    "sf_blocked_paths_input f = Some (or_else (Some (str_join [CHR 0x0A] (svc_blocked_paths s))) [])"
    "sf_rate_limit_enabled f = (svc_rate_limit_average s \<noteq> None \<and> svc_rate_limit_burst s \<noteq> None)"
    "sf_rate_limit_average f = svc_rate_limit_average s" "sf_rate_limit_burst f = svc_rate_limit_burst s"
    "sf_custom_headers f =
      (if obj_entries (svc_custom_headers s) \<noteq> [] then obj_entries (svc_custom_headers s) else [([], [])])"
    "sf_frame_policy f = svc_frame_policy s" "sf_healthcheck_enabled f = svc_healthcheck_enabled s"
    "sf_healthcheck_path f = or_else (Some (svc_healthcheck_path s)) ''/''"
    "sf_healthcheck_timeout_ms f = svc_healthcheck_timeout_ms s"
    "sf_healthcheck_expected_statuses_input f =
      Some (or_else (Some (str_join '', '' (map show_int (svc_healthcheck_expected_statuses s)))) [])"
  using assms
  by (cases "toKoreanDateTimeLocal H (svc_maintenance_until s)";
      force simp: createServiceFormDefaultValues_def serviceToFormDefaultValues_def Let_def)+

text \<open>The six effects of the first render leave the form of a stored service as it is: the API
  key is the stored one, a token form has one, the redirect is off without TLS, and the group,
  basic authentication and the skipped certificate check belong to the mode.\<close>

lemma truthy_or_null: "truthy (or_null v) = truthy v"
  by (cases v) (auto simp: or_null_def)

lemma or_null_truthy: "truthy v \<Longrightarrow> or_null v = v"
  by (cases v) auto

lemma form_update_ids:
  "sf_api_key f = k \<Longrightarrow> f\<lparr>sf_api_key := k\<rparr> = f"
  "\<not> sf_https_redirect_enabled f \<Longrightarrow> f\<lparr>sf_https_redirect_enabled := False\<rparr> = f"
  "sf_authentik_group_id f = g \<Longrightarrow> f\<lparr>sf_authentik_group_id := g\<rparr> = f"
  "\<not> sf_basic_auth_enabled f \<Longrightarrow> sf_basic_auth_credentials f = c \<Longrightarrow>
     f\<lparr>sf_basic_auth_enabled := False, sf_basic_auth_credentials := c\<rparr> = f"
  "\<not> sf_skip_tls_verify f \<Longrightarrow> f\<lparr>sf_skip_tls_verify := False\<rparr> = f"
  by (cases f; simp)+

lemma edit_form_settled:
  assumes s: "stored_service H s"
    and f: "createServiceFormDefaultValues H (serviceToFormDefaultValues s) = Inr f"
  shows "serviceFormSyncEffects None (svc_api_key s) token f = f"
proof -
  note e = edit_form_fields [OF f] and c = stored_facts [OF s]
  have k: "(if truthy (svc_api_key s) then f\<lparr>sf_api_key := svc_api_key s\<rparr> else f) = f"
    by (simp add: e(13) or_null_truthy form_update_ids(1))
  have g: "\<not> (sf_auth_mode f = AuthToken \<and> \<not> truthy (sf_api_key f))"
    using c(11) by (simp add: e(12,13) truthy_or_null)
  have r: "(if \<not> sf_tls_enabled f then f\<lparr>sf_https_redirect_enabled := False\<rparr> else f) = f"
    using c(10) by (cases "svc_tls_enabled s") (simp_all add: e(10,11) form_update_ids(2))
  have a: "(if sf_auth_mode f \<noteq> AuthAuthentik then f\<lparr>sf_authentik_group_id := Some []\<rparr> else f) = f"
    using c(12) by (cases "svc_authentik_group_id s") (simp_all add: e(12,16) form_update_ids(3))
  have b: "(if sf_auth_mode f \<noteq> AuthNone
      then f\<lparr>sf_basic_auth_enabled := False, sf_basic_auth_credentials := [\<lparr>cr_username = [], cr_password = []\<rparr>]\<rparr>
      else f) = f"
    using c(25,26)
    by (cases "svc_auth_mode s = AuthNone"; cases "svc_basic_auth_usernames s = []")
      (simp_all add: e(12,14,17) form_update_ids(4))
  have t: "(if sf_upstream_scheme f = Http then f\<lparr>sf_skip_tls_verify := False\<rparr> else f) = f"
    using c(9) by (auto simp: e(8,9) form_update_ids(5))
  show ?thesis
    unfolding serviceFormSyncEffects_def dep_changed_def sync_deps_def Let_def
    by (simp only: SyncDeps.simps option.case simp_thms g if_False k r a b t)
qed

text \<open>The schema accepts the form of a stored service.\<close>

lemma edit_form_valid:
  assumes s: "stored_service H s"
    and f: "createServiceFormDefaultValues H (serviceToFormDefaultValues s) = Inr f"
  shows "serviceFormSchema H f"
proof -
  note e = edit_form_fields [OF f] and c = stored_facts [OF s]
  obtain l where "toKoreanDateTimeLocal H (svc_maintenance_until s) = Inr l"
      "toMaintenanceUntilIso H (Some l) = full_minute H (svc_maintenance_until s)"
      "l = [] \<or> full_minute H (svc_maintenance_until s) \<noteq> None"
    using until_roundtrip [OF c(8)] by blast
  then have u: "sf_maintenance_until f = [] \<or> toMaintenanceUntilIso H (Some (sf_maintenance_until f)) \<noteq> None"
    using e(7) by auto
  have st: "list_all valid_status (parseHealthcheckExpectedStatuses (sf_healthcheck_expected_statuses_input f))"
    unfolding e(28) unchanged_lists(3) [OF s]
    using c(23) by (auto simp: list_all_iff valid_status_def num_int_def)
  have rl: "\<not> (sf_rate_limit_enabled f \<and> (falsy_number (sf_rate_limit_average f) \<or> falsy_number (sf_rate_limit_burst f)))"
    using c(16,17) by (auto simp: e(20-22) falsy_number_def positive_int_def split: option.splits)
  have hp: "svc_healthcheck_path s \<noteq> []" using c(19) by auto
  have hc: "prefix ''/'' (js_trim (sf_healthcheck_path f))"
    using c(19,20) hp by (simp add: e(26))
  have grp: "\<not> (sf_auth_mode f \<noteq> AuthAuthentik \<and> truthy (sf_authentik_group_id f))"
    using c(12) by (cases "svc_authentik_group_id s") (simp_all add: e(12,16))
  have "base_issues H f = []"
    unfolding base_issues_def check_def e(1-6) e(21,22,27) using u c(1-5) c(7) c(16,17,21) by simp
  moreover have "validateServiceFormRefinements f = []"
    unfolding validateServiceFormRefinements_def check_def
    using st rl hc grp c(10,26) by (auto simp: e(10-12) e(14))
  ultimately show ?thesis by (simp add: serviceFormSchema_def)
qed

text \<open>C1. Opening the edit page of a stored service and submitting it at once: the effects of the
  first render leave the form as it was loaded, the schema accepts it, and the payload asks for
  the settings the service has, field by field.  Two fields are not sent exactly as stored: the
  end of a maintenance is cut to the minute, and a blocked path that holds a comma or a line break
  is sent as its parts (every other path as it is).  The service is one that the backend's
  normalisation and cross-field rules allow, has a name, a message of at most 300 UTF-16 units
  and an end whose Korean year has four digits; the select boxes and number fields are taken to
  keep the values they are given.\<close>

theorem edit_unchanged_service:
  assumes "stored_service H s"
  shows "\<exists>f. createServiceFormDefaultValues H (serviceToFormDefaultValues s) = Inr f \<and>
    serviceFormSyncEffects None (svc_api_key s) token f = f \<and>
    serviceFormSchema H f \<and>
    buildServiceSubmitPayload H f = unchanged_payload H s \<and>
    (list_all (\<lambda>p. CHR '','' \<notin> set p \<and> CHR 0x0A \<notin> set p \<and> CHR 0x0D \<notin> set p) (svc_blocked_paths s)
     \<longrightarrow> sc_blocked_paths (unchanged_payload H s) = svc_blocked_paths s)"
proof -
  obtain l where l: "toKoreanDateTimeLocal H (svc_maintenance_until s) = Inr l"
      "toMaintenanceUntilIso H (Some l) = full_minute H (svc_maintenance_until s)"
    using until_roundtrip [OF stored_facts(8) [OF assms]] by blast
  obtain f where f: "createServiceFormDefaultValues H (serviceToFormDefaultValues s) = Inr f"
    using l(1) by (simp add: createServiceFormDefaultValues_def serviceToFormDefaultValues_def Let_def)
  note e = edit_form_fields [OF f] and c = stored_facts [OF assms]
  have u: "toMaintenanceUntilIso H (Some (sf_maintenance_until f)) = full_minute H (svc_maintenance_until s)"
    using e(7) l by simp
  have creds: "(if svc_basic_auth_enabled s then submit_credentials (sf_basic_auth_credentials f) else [])
     = (if svc_basic_auth_enabled s
        then map (\<lambda>u. \<lparr>cr_username = u, cr_password = []\<rparr>) (svc_basic_auth_usernames s) else [])"
    using c(24,25) by (simp add: e(17) submit_credentials_stored)
  have keys: "(if svc_auth_mode s = AuthToken then or_null (svc_api_key s) else None) = svc_api_key s"
      "(if svc_auth_mode s = AuthAuthentik then or_null (Some (or_else (svc_authentik_group_id s) [])) else None)
        = svc_authentik_group_id s"
    using c(11) or_null_truthy [of "svc_api_key s"] apply (cases "svc_auth_mode s = AuthToken"; simp)
    using c(12) or_null_truthy [of "svc_authentik_group_id s"]
    by (cases "svc_authentik_group_id s") auto
  have hp: "svc_healthcheck_path s \<noteq> []" using c(19) by auto
  have rest: "(if svc_upstream_scheme s = Https then svc_skip_tls_verify s else False) = svc_skip_tls_verify s"
      "(svc_rate_limit_average s \<noteq> None \<and> svc_rate_limit_burst s \<noteq> None) = (svc_rate_limit_average s \<noteq> None)"
      "(if svc_rate_limit_average s \<noteq> None then svc_rate_limit_average s else None) = svc_rate_limit_average s"
      "(if svc_rate_limit_average s \<noteq> None then svc_rate_limit_burst s else None) = svc_rate_limit_burst s"
      "js_trim (svc_maintenance_message s) = svc_maintenance_message s"
      "or_else (Some (js_trim (or_else (Some (svc_healthcheck_path s)) ''/''))) ''/'' = svc_healthcheck_path s"
    using c(6,9,15,20) hp by (simp_all, auto)
  have "buildServiceSubmitPayload H f = unchanged_payload H s"
    by (simp only: buildServiceSubmitPayload_def unchanged_payload_def e(1-6) e(8-16) e(18-28) u
        unchanged_lists [OF assms] creds keys rest)
  moreover have "list_all (\<lambda>p. CHR '','' \<notin> set p \<and> CHR 0x0A \<notin> set p \<and> CHR 0x0D \<notin> set p) (svc_blocked_paths s)
     \<longrightarrow> sc_blocked_paths (unchanged_payload H s) = svc_blocked_paths s"
    using path_parts_plain [OF c(14)] by (simp add: unchanged_payload_def)
  ultimately show ?thesis
    using f edit_form_settled [OF assms f] edit_form_valid [OF assms f] by blast
qed

definition edited_sample :: Service where
  "edited_sample = (sample_service ''a'' ''A'' ''a.kr'' RActive)
     \<lparr>svc_allowed_ips := [''10.0.0.0/8'', ''::1''], svc_blocked_paths := [''/admin'', ''/a,b''],
      svc_healthcheck_expected_statuses := [200, 404]\<rparr>"

theorem edit_unchanged_service_witness:
  "\<exists>f. createServiceFormDefaultValues utc_host (serviceToFormDefaultValues edited_sample) = Inr f \<and>
    serviceFormSyncEffects None None ''t'' f = f \<and> serviceFormSchema utc_host f \<and>
    buildServiceSubmitPayload utc_host f = unchanged_payload utc_host edited_sample"
proof -
  have "stored_service utc_host edited_sample"
    by (simp add: stored_service_def edited_sample_def sample_service_def stored_until_def clean_entry_def
        trimmed_headers_def js_trim_visible visible_ascii_def domain_pattern_def domain_label_def is_alnum_def
        is_letter_def is_digit_def positive_int_def utf16_length_def Let_def)
  from edit_unchanged_service [OF this, of "''t''"] show ?thesis
    by (simp add: edited_sample_def sample_service_def)
qed

text \<open>The token that the form generates always has 52 characters: the prefix and 44
  URL-safe symbols; and it depends on the first 17 random bytes only.\<close>

theorem generateSecureToken_shape:
  assumes "17 \<le> length bytes"
  shows "length (generateSecureToken bytes) = 52 \<and>
    list_all (\<lambda>c. is_alnum c \<or> c = CHR ''-'' \<or> c = CHR ''_'') (generateSecureToken bytes) \<and>
    generateSecureToken bytes = generateSecureToken (take 17 bytes)"
proof -
  let ?h = "\<lambda>bs. concat (map hex_byte bs)"
  have body: "generateSecureToken bs = ''service_'' @ map url_safe_char (btoa (take 33 (?h bs)))"
    if "17 \<le> length bs" for bs
    using token_body [of "?h bs"] that by (simp add: generateSecureToken_def length_hex)
  have l: "length (take 33 (?h bytes)) = 33" using assms by (simp add: length_hex)
  have "length (btoa (take 33 (?h bytes))) = 44" using length_btoa [of "take 33 (?h bytes)"] l by simp
  then have "length (generateSecureToken bytes) = 52" using body [OF assms] by simp
  moreover have "list_all (\<lambda>c. is_alnum c \<or> c = CHR ''-'' \<or> c = CHR ''_'') (map url_safe_char (btoa (take 33 (?h bytes))))"
    using btoa_symbols_exact [of "take 33 (?h bytes)"] l
    by (auto simp: list_all_iff url_safe_char_def b64_symbol_def)
  then have "list_all (\<lambda>c. is_alnum c \<or> c = CHR ''-'' \<or> c = CHR ''_'') (generateSecureToken bytes)"
    using body [OF assms] by (simp add: is_alnum_def is_letter_def)
  moreover have "take 33 (?h bytes) = take 33 (?h (take 17 bytes))"
  proof -
    have "take 33 (?h bytes) = take 33 (take (2 * 17) (?h bytes))" by (simp only: take_take) simp
    then show ?thesis by (simp only: take_hex)
  qed
  ultimately show ?thesis using body [OF assms] body [of "take 17 bytes"] assms by simp
qed

text \<open>C21. What a valid form submits satisfies the cross-field rules of the backend: a redirect
  only with TLS, at most one kind of authentication, a token, a group or skipped certificate
  checks only where they belong, both rate-limit numbers (positive integers) or none, a health
  path that starts with a slash, and the expected statuses as strictly ascending codes between
  100 and 599.\<close>

theorem valid_form_payload:
  assumes "serviceFormSchema H v"
  shows "let p = buildServiceSubmitPayload H v in
    (sc_https_redirect_enabled p \<longrightarrow> sc_tls_enabled p) \<and>
    (sc_basic_auth_enabled p \<longrightarrow> sc_auth_mode p = AuthNone) \<and>
    (sc_api_key p \<noteq> None \<longrightarrow> sc_auth_mode p = AuthToken) \<and>
    (sc_authentik_group_id p \<noteq> None \<longrightarrow> sc_auth_mode p = AuthAuthentik) \<and>
    (sc_skip_tls_verify p \<longrightarrow> sc_upstream_scheme p = Https) \<and>
    (sc_basic_auth_credentials p \<noteq> [] \<longrightarrow> sc_basic_auth_enabled p) \<and>
    (if sc_rate_limit_enabled p
     then \<exists>a b. sc_rate_limit_average p = Some a \<and> sc_rate_limit_burst p = Some b \<and>
            positive_int a \<and> positive_int b
     else sc_rate_limit_average p = None \<and> sc_rate_limit_burst p = None) \<and>
    prefix ''/'' (sc_healthcheck_path p) \<and>
    (\<exists>ns::int list. sc_healthcheck_expected_statuses p = map (\<lambda>i. Num (of_int i)) ns \<and>
       sorted_wrt (<) ns \<and> (\<forall>i\<in>set ns. 100 \<le> i \<and> i \<le> 599))"
proof -
  have r: "validateServiceFormRefinements v = []" and b: "base_issues H v = []"
    using assms by (auto simp: serviceFormSchema_def)
  have st: "list_all valid_status (parseHealthcheckExpectedStatuses (sf_healthcheck_expected_statuses_input v))"
      and path: "prefix ''/'' (js_trim (sf_healthcheck_path v))"
      and rl: "sf_rate_limit_enabled v \<Longrightarrow> \<exists>a b. sf_rate_limit_average v = Some a \<and> sf_rate_limit_burst v = Some b"
      and ex: "sf_https_redirect_enabled v \<Longrightarrow> sf_tls_enabled v" "sf_basic_auth_enabled v \<Longrightarrow> sf_auth_mode v = AuthNone"
    using r by (auto simp: validateServiceFormRefinements_def check_def falsy_number_def split: if_splits option.splits)
  have pos: "sf_rate_limit_average v = Some a \<Longrightarrow> positive_int a" "sf_rate_limit_burst v = Some a \<Longrightarrow> positive_int a" for a
    using b by (auto simp: base_issues_def check_def split: if_splits)
  have ne: "js_trim (sf_healthcheck_path v) \<noteq> []" using path by auto
  show ?thesis
    using valid_statuses_sorted [OF st] rl ex pos path ne
    by (auto simp: Let_def buildServiceSubmitPayload_def)
qed

theorem valid_form_payload_witness:
  "sc_healthcheck_path
     (buildServiceSubmitPayload
       utc_host
       (blank_form\<lparr>sf_name := ''App'', sf_domain := ''app.example.com'', sf_upstream_host := ''app''\<rparr>)) = ''/''
   \<and> prefix ''/'' (sc_healthcheck_path
     (buildServiceSubmitPayload
       utc_host
       (blank_form\<lparr>sf_name := ''App'', sf_domain := ''app.example.com'', sf_upstream_host := ''app''\<rparr>)))"
proof -
  let ?H = "utc_host"
  let ?f = "blank_form\<lparr>sf_name := ''App'', sf_domain := ''app.example.com'', sf_upstream_host := ''app''\<rparr>"
  have "serviceFormSchema ?H ?f"
    by (simp add: serviceFormSchema_def base_issues_def validateServiceFormRefinements_def check_def
        blank_form_def createServiceFormDefaultValues_def no_defaults_def toKoreanDateTimeLocal_def Let_def
        domain_pattern_def domain_label_def is_alnum_def is_letter_def is_digit_def positive_int_def
        obj_entries_plain js_trim_visible visible_ascii_def utf16_length_def parseHealthcheckExpectedStatuses_def)
  from valid_form_payload [OF this] show ?thesis
    by (simp add: Let_def buildServiceSubmitPayload_def blank_form_def createServiceFormDefaultValues_def
        no_defaults_def toKoreanDateTimeLocal_def js_trim_visible visible_ascii_def)
qed

text \<open>C22. The effects keep the dependent fields consistent.  After the first render no rule on
  the redirect, the group, basic authentication or the certificate check is violated and a
  token form has an API key; and when the user then changes the authentication mode, TLS, the
  scheme or the API key of a consistent form, the effects of the next render make it consistent
  again.\<close>

theorem sync_effects_consistent:
  assumes "token \<noteq> []"
  shows "form_consistent (serviceFormSyncEffects None k token v) \<and>
    (form_consistent f \<longrightarrow>
     form_consistent (serviceFormSyncEffects (Some (sync_deps k f)) k token
       (f\<lparr>sf_auth_mode := m, sf_tls_enabled := t, sf_upstream_scheme := sch, sf_api_key := key\<rparr>)))"
proof
  have other: "x \<noteq> Http \<longleftrightarrow> x = Https" for x by (cases x) auto
  show "form_consistent (serviceFormSyncEffects None k token v)"
    using assms
    by (simp add: other serviceFormSyncEffects_def form_consistent_def dep_changed_def sync_deps_def Let_def)
  show "form_consistent f \<longrightarrow>
     form_consistent (serviceFormSyncEffects (Some (sync_deps k f)) k token
       (f\<lparr>sf_auth_mode := m, sf_tls_enabled := t, sf_upstream_scheme := sch, sf_api_key := key\<rparr>))"
    using assms
    by (auto simp: other serviceFormSyncEffects_def form_consistent_def dep_changed_def sync_deps_def Let_def)
qed

theorem sync_effects_consistent_witness:
  "form_consistent (serviceFormSyncEffects None None ''t'' blank_form) \<and>
   form_consistent (serviceFormSyncEffects (Some (sync_deps None blank_form)) None ''t''
     (blank_form\<lparr>sf_auth_mode := AuthToken, sf_tls_enabled := False, sf_upstream_scheme := Http,
        sf_api_key := None\<rparr>))"
proof -
  have "form_consistent blank_form"
    by (simp add: form_consistent_def blank_form_def createServiceFormDefaultValues_def no_defaults_def
        toKoreanDateTimeLocal_def Let_def)
  then show ?thesis using sync_effects_consistent [of "''t''"] by blast
qed

end
