(* ===== verification/Url_Params.thy ===== *)
theory Url_Params
  imports JS_Number
begin

text \<open>
  \<open>URLSearchParams\<close> and the browser location.  A parameter list is an association list in
  document order.  \<open>params_parse\<close> and \<open>params_string\<close> are the
  \<open>application/x-www-form-urlencoded\<close> parser and serialiser on UTF-8 bytes (percent sequences
  that are not UTF-8, which the engine replaces by U+FFFD, are kept as their bytes).

  The locale \<open>query_params\<close> is the interface that every filter codec of the dashboard relies
  on: what \<open>get\<close> returns after \<open>set\<close> and \<open>delete\<close>, and that printing and reading a
  parameter list gives the list back.  The clients' common loop (write each value, or delete
  the parameter when the value is the default) is verified once inside it.
\<close>

section \<open>Parameter lists\<close>

type_synonym params = "(string \<times> string) list"

fun params_get :: "string \<Rightarrow> params \<Rightarrow> string option" where
  "params_get k [] = None"
| "params_get k ((a, b) # ps) = (if a = k then Some b else params_get k ps)"

definition params_delete :: "string \<Rightarrow> params \<Rightarrow> params" where
  "params_delete k ps = filter (\<lambda>p. fst p \<noteq> k) ps"

fun params_set :: "string \<Rightarrow> string \<Rightarrow> params \<Rightarrow> params" where
  "params_set k v [] = [(k, v)]"
| "params_set k v ((a, b) # ps) =
     (if a = k then (k, v) # params_delete k ps else (a, b) # params_set k v ps)"

definition params_append :: "string \<Rightarrow> string \<Rightarrow> params \<Rightarrow> params" where
  "params_append k v ps = ps @ [(k, v)]"

lemma params_get_delete: "params_get j (params_delete k ps) = (if j = k then None else params_get j ps)"
  by (induction ps) (auto simp: params_delete_def)

lemma params_get_set: "params_get j (params_set k v ps) = (if j = k then Some v else params_get j ps)"
  by (induction ps) (auto simp: params_get_delete)

section \<open>Percent encoding\<close>

definition hex_char :: "nat \<Rightarrow> char" where
  "hex_char n = (if n < 10 then char_of (48 + n) else char_of (55 + n))"

definition form_safe :: "char \<Rightarrow> bool" where
  "form_safe c =
     (let b = (of_char c :: nat) in
      (48 \<le> b \<and> b \<le> 57) \<or> (65 \<le> b \<and> b \<le> 90) \<or> (97 \<le> b \<and> b \<le> 122) \<or>
      b = 42 \<or> b = 45 \<or> b = 46 \<or> b = 95)"

definition form_encode_char :: "char \<Rightarrow> string" where
  "form_encode_char c =
     (if c = CHR '' '' then ''+''
      else if form_safe c then [c]
      else [CHR ''%'', hex_char (of_char c div 16), hex_char (of_char c mod 16)])"

definition form_encode :: "string \<Rightarrow> string" where
  "form_encode s = concat (map form_encode_char s)"

definition is_hex :: "char \<Rightarrow> bool" where
  "is_hex c = (radix_digit c < 16)"

fun form_decode :: "string \<Rightarrow> string" where
  "form_decode [] = []"
| "form_decode [c] = [if c = CHR ''+'' then CHR '' '' else c]"
| "form_decode [c, d] = (if c = CHR ''+'' then CHR '' '' else c) # form_decode [d]"
| "form_decode (c # d # e # s) =
     (if c = CHR ''%'' \<and> is_hex d \<and> is_hex e
      then char_of (16 * radix_digit d + radix_digit e) # form_decode s
      else (if c = CHR ''+'' then CHR '' '' else c) # form_decode (d # e # s))"

definition split_pair :: "string \<Rightarrow> string \<times> string" where
  "split_pair s =
     (form_decode (takeWhile (\<lambda>c. c \<noteq> CHR ''='') s),
      form_decode (drop 1 (dropWhile (\<lambda>c. c \<noteq> CHR ''='') s)))"

definition params_parse :: "string \<Rightarrow> params" where
  "params_parse s =
     (let body = (case s of [] \<Rightarrow> [] | c # r \<Rightarrow> if c = CHR ''?'' then r else s)
      in map split_pair (filter (\<lambda>w. w \<noteq> []) (str_split CHR ''&'' body)))"

definition params_string :: "params \<Rightarrow> string" where
  "params_string ps =
     str_join ''&'' (map (\<lambda>(k, v). form_encode k @ ''='' @ form_encode v) ps)"

lemma hex_char_digit: "n < 16 \<Longrightarrow> is_hex (hex_char n) \<and> radix_digit (hex_char n) = n"
  by (auto simp: is_hex_def hex_char_def radix_digit_def Let_def)

lemma form_decode_plain:
  "c \<noteq> CHR ''%'' \<Longrightarrow> form_decode (c # s) = (if c = CHR ''+'' then CHR '' '' else c) # form_decode s"
  by (cases s rule: form_decode.cases) auto

lemma form_decode_hex:
  "is_hex d \<Longrightarrow> is_hex e \<Longrightarrow>
   form_decode (CHR ''%'' # d # e # s) = char_of (16 * radix_digit d + radix_digit e) # form_decode s"
  by simp

lemma form_safe_not: "form_safe c \<Longrightarrow>
    c \<noteq> CHR ''%'' \<and> c \<noteq> CHR ''+'' \<and> c \<noteq> CHR ''='' \<and> c \<noteq> CHR ''&'' \<and> c \<noteq> CHR ''?''"
  by (auto simp: form_safe_def)

lemma form_decode_encode_char: "form_decode (form_encode_char c @ s) = c # form_decode s"
proof -
  have b: "(of_char c :: nat) < 256" by simp
  then have q: "(of_char c :: nat) div 16 < 16" "(of_char c :: nat) mod 16 < 16"
    by (simp_all add: less_mult_imp_div_less)
  show ?thesis
    using hex_char_digit [OF q(1)] hex_char_digit [OF q(2)]
    by (auto simp: form_encode_char_def form_decode_plain form_decode_hex
        simp del: form_decode.simps dest!: form_safe_not)
qed

theorem form_decode_encode: "form_decode (form_encode s) = s"
  by (induction s) (auto simp: form_encode_def form_decode_encode_char)

lemma hex_char_safe: "n < 16 \<Longrightarrow> hex_char n \<noteq> CHR ''='' \<and> hex_char n \<noteq> CHR ''&'' \<and> hex_char n \<noteq> CHR ''?''"
proof -
  assume "n < 16"
  then have "is_hex (hex_char n)" using hex_char_digit by blast
  moreover have "\<not> is_hex (CHR ''='')" "\<not> is_hex (CHR ''&'')" "\<not> is_hex (CHR ''?'')"
    by (simp_all add: is_hex_def radix_digit_def)
  ultimately show ?thesis by metis
qed

lemma form_encode_char_safe:
  "d \<in> set (form_encode_char c) \<Longrightarrow> d \<noteq> CHR ''='' \<and> d \<noteq> CHR ''&'' \<and> d \<noteq> CHR ''?''"
proof -
  have "(of_char c :: nat) < 256" by simp
  then have q: "(of_char c :: nat) div 16 < 16" "(of_char c :: nat) mod 16 < 16"
    by (simp_all add: less_mult_imp_div_less)
  show "d \<in> set (form_encode_char c) \<Longrightarrow> ?thesis"
    using hex_char_safe [OF q(1)] hex_char_safe [OF q(2)]
    by (auto simp: form_encode_char_def dest!: form_safe_not split: if_splits)
qed

lemma form_encode_safe:
  "d \<in> set (form_encode s) \<Longrightarrow> d \<noteq> CHR ''='' \<and> d \<noteq> CHR ''&'' \<and> d \<noteq> CHR ''?''"
  using form_encode_char_safe by (auto simp: form_encode_def)

lemma split_pair_encode: "split_pair (form_encode k @ ''='' @ form_encode v) = (k, v)"
proof -
  have "takeWhile (\<lambda>c. c \<noteq> CHR ''='') (form_encode k @ ''='' @ form_encode v) = form_encode k"
    using form_encode_safe by (subst takeWhile_append2) auto
  moreover have "dropWhile (\<lambda>c. c \<noteq> CHR ''='') (form_encode k @ ''='' @ form_encode v) = ''='' @ form_encode v"
    using form_encode_safe by (subst dropWhile_append2) auto
  ultimately show ?thesis by (simp add: split_pair_def form_decode_encode)
qed

lemma params_string_hd: "params_string ps = c # r \<Longrightarrow> c \<noteq> CHR ''?''"
proof (cases ps)
  case (Cons p qs)
  assume e: "params_string ps = c # r"
  obtain k v where p: "p = (k, v)" by (cases p)
  from e Cons p obtain t where "form_encode k @ CHR ''='' # t = c # r"
    by (cases qs) (auto simp: params_string_def)
  then have "c \<in> set (form_encode k) \<or> c = CHR ''=''" by (cases "form_encode k") auto
  then show ?thesis using form_encode_safe by auto
qed (simp add: params_string_def)

theorem params_parse_string: "params_parse (params_string ps) = ps"
proof (cases "ps = []")
  case False
  let ?ws = "map (\<lambda>(k, v). form_encode k @ ''='' @ form_encode v) ps"
  have "params_parse (params_string ps) = map split_pair (filter (\<lambda>w. w \<noteq> []) (str_split CHR ''&'' (params_string ps)))"
    using params_string_hd [of ps] by (auto simp: params_parse_def Let_def split: list.splits)
  also have "str_split CHR ''&'' (params_string ps) = ?ws"
    unfolding params_string_def using False
    by (intro str_split_join) (auto dest: form_encode_safe)
  also have "filter (\<lambda>w. w \<noteq> []) ?ws = ?ws" by (auto simp: filter_id_conv)
  also have "map split_pair ?ws = ps" 
    using split_pair_encode by (induction ps) auto
  finally show ?thesis .
qed (simp add: params_parse_def params_string_def)

section \<open>The interface of the filter codecs\<close>

text \<open>One update of a codec: the key, the value to store, and the value that is not stored.\<close>

type_synonym param_update = "string \<times> string \<times> string"

locale query_params =
  fixes get :: "string \<Rightarrow> 'p \<Rightarrow> string option"
    and put :: "string \<Rightarrow> string \<Rightarrow> 'p \<Rightarrow> 'p"
    and del :: "string \<Rightarrow> 'p \<Rightarrow> 'p"
    and show_p :: "'p \<Rightarrow> string"
    and read_p :: "string \<Rightarrow> 'p"
  assumes get_put: "get j (put k v p) = (if j = k then Some v else get j p)"
    and get_del: "get j (del k p) = (if j = k then None else get j p)"
    and read_show: "read_p (show_p p) = p"
begin

definition store :: "param_update \<Rightarrow> 'p \<Rightarrow> 'p" where
  "store u p = (case u of (k, v, d) \<Rightarrow> if v = d then del k p else put k v p)"

definition store_all :: "param_update list \<Rightarrow> 'p \<Rightarrow> 'p" where
  "store_all us p = fold store us p"

lemma get_store: "get j (store (k, v, d) p) = (if j = k then (if v = d then None else Some v) else get j p)"
  by (simp add: store_def get_put get_del)

lemma get_store_all_other: "j \<notin> fst ` set us \<Longrightarrow> get j (store_all us p) = get j p"
  by (induction us arbitrary: p) (auto simp: store_all_def get_store)

lemma get_store_all:
  "distinct (map fst us) \<Longrightarrow> (k, v, d) \<in> set us \<Longrightarrow>
   get k (store_all us p) = (if v = d then None else Some v)"
proof (induction us arbitrary: p)
  case (Cons u us)
  show ?case
  proof (cases "u = (k, v, d)")
    case True
    then have "k \<notin> fst ` set us" using Cons.prems by auto
    then have "get k (store_all us (store u p)) = get k (store u p)" by (rule get_store_all_other)
    then show ?thesis using True by (simp add: store_all_def get_store)
  next
    case False
    with Cons.prems have "(k, v, d) \<in> set us" "distinct (map fst us)" by auto
    then have "get k (store_all us (store u p)) = (if v = d then None else Some v)" by (rule Cons.IH [rotated])
    then show ?thesis by (simp add: store_all_def)
  qed
qed simp

lemma reload: "get j (read_p (show_p (store_all us p))) = get j (store_all us p)"
  by (simp add: read_show)

end

interpretation usp: query_params params_get params_set params_delete params_string params_parse
  by unfold_locales (simp_all add: params_get_set params_get_delete params_parse_string)

section \<open>The browser location\<close>

record location =
  loc_path :: string
  loc_search :: string
  loc_hash :: string

definition location_href :: "location \<Rightarrow> string" where
  "location_href l = loc_path l @ loc_search l @ loc_hash l"

text \<open>\<open>url.search\<close> of a parameter list: empty when there are no parameters.\<close>

definition search_string :: "params \<Rightarrow> string" where
  "search_string ps = (if ps = [] then [] else CHR ''?'' # params_string ps)"

definition location_params :: "location \<Rightarrow> params" where
  "location_params l = params_parse (loc_search l)"

definition write_param :: "param_update \<Rightarrow> params \<Rightarrow> params" where
  "write_param u ps =
     (case u of (k, v, d) \<Rightarrow> if v = d then params_delete k ps else params_set k v ps)"

text \<open>\<open>shared/lib/replaceBrowserQueryParams\<close>: the location after \<open>history.replaceState\<close>.\<close>

definition replaceBrowserQueryParams :: "param_update list \<Rightarrow> location \<Rightarrow> location" where
  "replaceBrowserQueryParams values l =
     (let ps = fold write_param values (location_params l);
          nextL = l\<lparr>loc_search := search_string ps\<rparr>
      in if location_href nextL \<noteq> location_href l then nextL else l)"

lemma write_param_usp: "fold write_param us ps = usp.store_all us ps"
  by (induction us arbitrary: ps) (auto simp: usp.store_all_def usp.store_def write_param_def)

lemma parse_search_string [simp]: "params_parse (search_string ps) = ps"
proof (cases "ps = []")
  case False
  have "params_parse (CHR ''?'' # params_string ps) = params_parse (params_string ps)"
    using params_string_hd [of ps] by (auto simp: params_parse_def Let_def split: list.splits)
  with False show ?thesis by (simp add: search_string_def params_parse_string)
qed (simp add: search_string_def params_parse_def)

lemma replace_params:
  "location_params (replaceBrowserQueryParams us l) = fold write_param us (location_params l) \<or>
   location_href (replaceBrowserQueryParams us l) = location_href l"
  by (simp add: replaceBrowserQueryParams_def location_params_def Let_def)

lemma replace_search_eq:
  "loc_search (replaceBrowserQueryParams us l) = search_string (fold write_param us (location_params l))"
  by (auto simp: replaceBrowserQueryParams_def location_href_def Let_def)

lemma location_params_replace:
  "location_params (replaceBrowserQueryParams us l) = fold write_param us (location_params l)"
  by (simp add: location_params_def [of "replaceBrowserQueryParams us l"] replace_search_eq)

text \<open>Reading a parameter back after the location was updated.\<close>

theorem replace_then_get:
  assumes "distinct (map fst us)" "(k, v, d) \<in> set us"
  shows "params_get k (location_params (replaceBrowserQueryParams us l)) = (if v = d then None else Some v)"
  using usp.get_store_all [OF assms] by (simp add: location_params_replace write_param_usp)

theorem replace_then_get_other:
  assumes "k \<notin> fst ` set us"
  shows "params_get k (location_params (replaceBrowserQueryParams us l)) = params_get k (location_params l)"
  using usp.get_store_all_other [OF assms] by (simp add: location_params_replace write_param_usp)

lemma replace_get:
  assumes "distinct (map fst us)"
  shows "params_get k (location_params (replaceBrowserQueryParams us l)) =
    (case map_of us k of None \<Rightarrow> params_get k (location_params l) | Some (v, d) \<Rightarrow> if v = d then None else Some v)"
proof (cases "map_of us k")
  case None
  then have "k \<notin> fst ` set us" by (simp add: map_of_eq_None_iff)
  then show ?thesis using None by (simp add: replace_then_get_other)
next
  case (Some p)
  then show ?thesis using replace_then_get [OF assms, of k "fst p" "snd p" l] by (auto dest: map_of_SomeD split: prod.splits)
qed

section \<open>Enumerations in the query string\<close>

text \<open>
  The filter codecs store a value of a union of string literals under its spelling, leave the
  default out, and read a missing or unknown text as the default:
  \<open>VALUES.includes(v) ? v : DEFAULT\<close>.
\<close>

definition read_enum :: "('a \<Rightarrow> string) \<Rightarrow> 'a list \<Rightarrow> 'a \<Rightarrow> string option \<Rightarrow> 'a" where
  "read_enum spell vals d v =
     (case v of None \<Rightarrow> d
      | Some s \<Rightarrow> (case find (\<lambda>x. spell x = s) vals of None \<Rightarrow> d | Some x \<Rightarrow> x))"

locale enum_codec =
  fixes spell :: "'a \<Rightarrow> string" and vals :: "'a list"
  assumes spell_inj: "spell x = spell y \<Longrightarrow> x = y"
    and vals_all: "x \<in> set vals"
begin

lemma find_spell: "find (\<lambda>y. spell y = spell x) vals = Some x"
proof -
  have "\<exists>y. find (\<lambda>y. spell y = spell x) vals = Some y"
    using vals_all [of x] by (auto simp: find_None_iff simp flip: not_None_eq)
  then show ?thesis using spell_inj by (auto simp: find_Some_iff)
qed

lemma read_spell [simp]: "read_enum spell vals d (Some (spell x)) = x"
  by (simp add: read_enum_def find_spell)

lemma read_stored: "read_enum spell vals d (if spell x = spell d then None else Some (spell x)) = x"
  using spell_inj by (auto simp: read_enum_def find_spell)

end

end
