(* ===== verification/Services_Page.thy ===== *)
theory Services_Page
  imports Service_Model Url_Params JS_Object
begin

text \<open>
  The list of services: filtering (\<open>servicesPageFilterUtils.ts\<close>), sorting
  (\<open>servicesPageSortUtils.ts\<close>, \<open>servicesPageHealthUtils.ts\<close>) and the filters in the query
  string (\<open>useServicesPageFilters.ts\<close>).
\<close>

section \<open>Data\<close>

datatype SortKey = SkName | SkDomain | SkAuth | SkRouter | SkHealth | SkCreatedAt
datatype SortDir = Asc | Desc
datatype HealthFilter =
  HfAll | HfUp | HfDown | HfUnknown | HfActive | HfDisabled | HfMaintenance
  | HfDns | HfConnectionRefused | HfTimeout | HfUnexpectedStatus | HfOtherError

fun sort_key_text :: "SortKey \<Rightarrow> string" where
  "sort_key_text SkName = ''name''"
| "sort_key_text SkDomain = ''domain''"
| "sort_key_text SkAuth = ''auth''"
| "sort_key_text SkRouter = ''router''"
| "sort_key_text SkHealth = ''health''"
| "sort_key_text SkCreatedAt = ''created_at''"

fun sort_dir_text :: "SortDir \<Rightarrow> string" where
  "sort_dir_text Asc = ''asc''"
| "sort_dir_text Desc = ''desc''"

fun health_filter_text :: "HealthFilter \<Rightarrow> string" where
  "health_filter_text HfAll = ''all''"
| "health_filter_text HfUp = ''up''"
| "health_filter_text HfDown = ''down''"
| "health_filter_text HfUnknown = ''unknown''"
| "health_filter_text HfActive = ''active''"
| "health_filter_text HfDisabled = ''disabled''"
| "health_filter_text HfMaintenance = ''maintenance''"
| "health_filter_text HfDns = ''dns''"
| "health_filter_text HfConnectionRefused = ''connection_refused''"
| "health_filter_text HfTimeout = ''timeout''"
| "health_filter_text HfUnexpectedStatus = ''unexpected_status''"
| "health_filter_text HfOtherError = ''other_error''"

record TraefikRouterItem =
  ri_name :: string
  ri_status :: string
  ri_rule :: string

record TraefikDomainStatus =
  ds_active :: bool
  ds_routers :: "TraefikRouterItem list"

record TraefikRouterStatus =
  trs_connected :: bool
  trs_message :: string
  trs_domains :: "TraefikDomainStatus js_object"

type_synonym health_map = "UpstreamHealth js_object option"

text \<open>\<open>map?.[key]\<close>\<close>

definition opt_lookup :: "'v js_object option \<Rightarrow> string \<Rightarrow> 'v option" where
  "opt_lookup m k = (case m of None \<Rightarrow> None | Some ps \<Rightarrow> obj_get k ps)"

section \<open>Sorting\<close>

definition getHealthWeight :: "Service \<Rightarrow> health_map \<Rightarrow> int" where
  "getHealthWeight s healthMap =
     (case map_option uh_status (opt_lookup healthMap (svc_id s)) of
        Some HDown \<Rightarrow> 2 | Some HUnknown \<Rightarrow> 1 | None \<Rightarrow> 1 | Some HUp \<Rightarrow> 0)"

definition getAuthWeight :: "Service \<Rightarrow> int" where
  "getAuthWeight s =
     (if svc_auth_mode s = AuthAuthentik then 3
      else if svc_auth_mode s = AuthToken then 2
      else if svc_basic_auth_enabled s then 1 else 0)"

definition router_active :: "TraefikRouterStatus option \<Rightarrow> Service \<Rightarrow> int" where
  "router_active routerStatus s =
     of_bool (default_to False
       (map_option ds_active (opt_lookup (map_option trs_domains routerStatus) (svc_domain s))))"

definition compareRouterStatus :: "Service \<Rightarrow> Service \<Rightarrow> TraefikRouterStatus option \<Rightarrow> int" where
  "compareRouterStatus a b routerStatus = router_active routerStatus b - router_active routerStatus a"

fun compareServices ::
    "js_host \<Rightarrow> Service \<Rightarrow> Service \<Rightarrow> SortKey \<Rightarrow> TraefikRouterStatus option \<Rightarrow> health_map \<Rightarrow> int" where
  "compareServices H a b SkName rs hm = locale_compare H (svc_name a) (svc_name b)"
| "compareServices H a b SkDomain rs hm = locale_compare H (svc_domain a) (svc_domain b)"
| "compareServices H a b SkAuth rs hm = getAuthWeight b - getAuthWeight a"
| "compareServices H a b SkRouter rs hm = compareRouterStatus a b rs"
| "compareServices H a b SkHealth rs hm = getHealthWeight b hm - getHealthWeight a hm"
| "compareServices H a b SkCreatedAt rs hm = (if str_less (svc_created_at b) (svc_created_at a) then 1 else - 1)"

section \<open>Filtering\<close>

definition filterServicesBySearch :: "Service list \<Rightarrow> string \<Rightarrow> Service list" where
  "filterServicesBySearch services search =
     (let query = str_lower (js_trim search) in
      if query = [] then services
      else filter (\<lambda>s. str_includes (str_lower (svc_name s)) query \<or>
                       str_includes (str_lower (svc_domain s)) query) services)"

definition matchesOtherHealthError :: "UpstreamHealth \<Rightarrow> bool" where
  "matchesOtherHealthError health =
     (uh_status health = HDown \<and>
      or_else (uh_error_kind health) [] \<notin>
        {''dns'', ''connection_refused'', ''connection_timeout'', ''request_timeout'', ''unexpected_status''})"

fun health_filter_status :: "HealthFilter \<Rightarrow> HealthStatus option" where
  "health_filter_status HfUp = Some HUp"
| "health_filter_status HfDown = Some HDown"
| "health_filter_status HfUnknown = Some HUnknown"
| "health_filter_status _ = None"

fun health_filter_mode :: "HealthFilter \<Rightarrow> RoutingMode option" where
  "health_filter_mode HfActive = Some RActive"
| "health_filter_mode HfDisabled = Some RDisabled"
| "health_filter_mode HfMaintenance = Some RMaintenance"
| "health_filter_mode _ = None"

definition matchesHealthFilter :: "Service \<Rightarrow> HealthFilter \<Rightarrow> health_map \<Rightarrow> bool" where
  "matchesHealthFilter s hf healthMap =
     (let health = opt_lookup healthMap (svc_id s) in
      if hf = HfAll then True
      else case health_filter_mode hf of Some m \<Rightarrow> svc_routing_mode s = m
      | None \<Rightarrow>
      (case health of None \<Rightarrow> False
       | Some h \<Rightarrow>
         (case health_filter_status hf of Some st \<Rightarrow> uh_status h = st
          | None \<Rightarrow>
            if hf = HfDns then uh_error_kind h = Some ''dns''
            else if hf = HfConnectionRefused then uh_error_kind h = Some ''connection_refused''
            else if hf = HfTimeout
              then uh_error_kind h = Some ''connection_timeout'' \<or> uh_error_kind h = Some ''request_timeout''
            else if hf = HfUnexpectedStatus then uh_error_kind h = Some ''unexpected_status''
            else if hf = HfOtherError then matchesOtherHealthError h
            else True)))"

record ServicesPageUrlFilters =
  sp_healthFilter :: HealthFilter
  sp_search :: string
  sp_sortDir :: SortDir
  sp_sortKey :: SortKey

definition filterAndSortServices ::
    "js_host \<Rightarrow> Service list \<Rightarrow> ServicesPageUrlFilters \<Rightarrow> TraefikRouterStatus option \<Rightarrow> health_map \<Rightarrow> Service list" where
  "filterAndSortServices H services f rs hm =
     (let filtered = filter (\<lambda>s. matchesHealthFilter s (sp_healthFilter f) hm)
                       (filterServicesBySearch services (sp_search f))
      in js_sort (\<lambda>a b. let cmp = compareServices H a b (sp_sortKey f) rs hm
                        in if sp_sortDir f = Asc then cmp else - cmp) filtered)"

section \<open>Filters in the query string (\<open>useServicesPageFilters.ts\<close>)\<close>

definition DEFAULT_SEARCH :: string where "DEFAULT_SEARCH = []"
definition DEFAULT_SORT_KEY :: SortKey where "DEFAULT_SORT_KEY = SkName"
definition DEFAULT_SORT_DIR :: SortDir where "DEFAULT_SORT_DIR = Asc"
definition DEFAULT_HEALTH_FILTER :: HealthFilter where "DEFAULT_HEALTH_FILTER = HfAll"
definition SORT_KEYS :: "SortKey list" where
  "SORT_KEYS = [SkName, SkDomain, SkAuth, SkRouter, SkHealth, SkCreatedAt]"
definition SORT_DIRS :: "SortDir list" where "SORT_DIRS = [Asc, Desc]"
definition HEALTH_FILTERS :: "HealthFilter list" where
  "HEALTH_FILTERS = [HfAll, HfUp, HfDown, HfUnknown, HfActive, HfDisabled, HfMaintenance,
     HfDns, HfConnectionRefused, HfTimeout, HfUnexpectedStatus, HfOtherError]"

text \<open>\<open>None\<close> stands for rendering on the server, where there is no \<open>window\<close>.\<close>

definition readFiltersFromUrl :: "location option \<Rightarrow> ServicesPageUrlFilters" where
  "readFiltersFromUrl window =
     (case window of
        None \<Rightarrow> \<lparr>sp_healthFilter = DEFAULT_HEALTH_FILTER, sp_search = DEFAULT_SEARCH,
                 sp_sortDir = DEFAULT_SORT_DIR, sp_sortKey = DEFAULT_SORT_KEY\<rparr>
      | Some l \<Rightarrow>
          (let params = location_params l in
           \<lparr>sp_healthFilter = read_enum health_filter_text HEALTH_FILTERS DEFAULT_HEALTH_FILTER (params_get ''health'' params),
            sp_search = default_to DEFAULT_SEARCH (params_get ''search'' params),
            sp_sortDir = read_enum sort_dir_text SORT_DIRS DEFAULT_SORT_DIR (params_get ''dir'' params),
            sp_sortKey = read_enum sort_key_text SORT_KEYS DEFAULT_SORT_KEY (params_get ''sort'' params)\<rparr>))"

definition replaceFiltersInUrl :: "ServicesPageUrlFilters \<Rightarrow> location \<Rightarrow> location" where
  "replaceFiltersInUrl f l =
     (let trimmedSearch = js_trim (sp_search f);
          p0 = location_params l;
          p1 = (if trimmedSearch \<noteq> [] then params_set ''search'' trimmedSearch p0
                else params_delete ''search'' p0);
          p2 = (if sp_healthFilter f = DEFAULT_HEALTH_FILTER then params_delete ''health'' p1
                else params_set ''health'' (health_filter_text (sp_healthFilter f)) p1);
          p3 = (if sp_sortKey f = DEFAULT_SORT_KEY then params_delete ''sort'' p2
                else params_set ''sort'' (sort_key_text (sp_sortKey f)) p2);
          p4 = (if sp_sortDir f = DEFAULT_SORT_DIR then params_delete ''dir'' p3
                else params_set ''dir'' (sort_dir_text (sp_sortDir f)) p3);
          nextL = l\<lparr>loc_search := search_string p4\<rparr>
      in if location_href nextL \<noteq> location_href l then nextL else l)"

text \<open>
  The hook: the filters and whether the query string was read.  Mounting reads the query
  string, a \<open>popstate\<close> event reads the query string of the location the browser went to, the
  setters change one filter, and the effect after a render writes the filters back.
\<close>

record page_state =
  pg_filters :: ServicesPageUrlFilters
  pg_ready :: bool
  pg_location :: location

definition page_init :: "location \<Rightarrow> page_state" where
  "page_init l = \<lparr>pg_filters = readFiltersFromUrl None, pg_ready = False, pg_location = l\<rparr>"

definition page_mount :: "page_state \<Rightarrow> page_state" where
  "page_mount s = s\<lparr>pg_filters := readFiltersFromUrl (Some (pg_location s)), pg_ready := True\<rparr>"

definition page_sync :: "page_state \<Rightarrow> page_state" where
  "page_sync s =
     (if \<not> pg_ready s then s
      else s\<lparr>pg_location := replaceFiltersInUrl (pg_filters s) (pg_location s)\<rparr>)"

inductive page_step :: "page_state \<Rightarrow> page_state \<Rightarrow> bool" where
  pstep_mount: "page_step s (page_mount s)"
| pstep_search: "page_step s (s\<lparr>pg_filters := (pg_filters s)\<lparr>sp_search := q\<rparr>\<rparr>)"
| pstep_health: "page_step s (s\<lparr>pg_filters := (pg_filters s)\<lparr>sp_healthFilter := h\<rparr>\<rparr>)"
| pstep_key: "page_step s (s\<lparr>pg_filters := (pg_filters s)\<lparr>sp_sortKey := k\<rparr>\<rparr>)"
| pstep_dir: "page_step s (s\<lparr>pg_filters := (pg_filters s)\<lparr>sp_sortDir := d\<rparr>\<rparr>)"
| pstep_popstate: "pg_ready s \<Longrightarrow>
    page_step s (s\<lparr>pg_location := l, pg_filters := readFiltersFromUrl (Some l)\<rparr>)"
| pstep_sync: "page_step s (page_sync s)"

inductive page_reachable :: "location \<Rightarrow> page_state \<Rightarrow> bool" where
  preach_init: "page_reachable l (page_init l)"
| preach_step: "page_reachable l s \<Longrightarrow> page_step s t \<Longrightarrow> page_reachable l t"

inductive_cases page_stepE [elim]: "page_step s t"

section \<open>The codecs\<close>

interpretation sk: enum_codec sort_key_text SORT_KEYS
proof
  fix x y assume "sort_key_text x = sort_key_text y" then show "x = y" by (cases x; cases y) auto
next
  fix x show "x \<in> set SORT_KEYS" by (cases x) (auto simp: SORT_KEYS_def)
qed

interpretation sd: enum_codec sort_dir_text SORT_DIRS
proof
  fix x y assume "sort_dir_text x = sort_dir_text y" then show "x = y" by (cases x; cases y) auto
next
  fix x show "x \<in> set SORT_DIRS" by (cases x) (auto simp: SORT_DIRS_def)
qed

interpretation hf: enum_codec health_filter_text HEALTH_FILTERS
proof
  fix x y assume "health_filter_text x = health_filter_text y" then show "x = y" by (cases x; cases y) auto
next
  fix x show "x \<in> set HEALTH_FILTERS" by (cases x) (auto simp: HEALTH_FILTERS_def)
qed

text \<open>The page's own URL writer is the shared one on these four updates.\<close>

definition page_updates :: "ServicesPageUrlFilters \<Rightarrow> param_update list" where
  "page_updates f =
     [(''search'', js_trim (sp_search f), []),
      (''health'', health_filter_text (sp_healthFilter f), health_filter_text DEFAULT_HEALTH_FILTER),
      (''sort'', sort_key_text (sp_sortKey f), sort_key_text DEFAULT_SORT_KEY),
      (''dir'', sort_dir_text (sp_sortDir f), sort_dir_text DEFAULT_SORT_DIR)]"

lemma spell_eq_default:
  "(sort_key_text k = sort_key_text DEFAULT_SORT_KEY) = (k = DEFAULT_SORT_KEY)"
  "(sort_dir_text d = sort_dir_text DEFAULT_SORT_DIR) = (d = DEFAULT_SORT_DIR)"
  "(health_filter_text h = health_filter_text DEFAULT_HEALTH_FILTER) = (h = DEFAULT_HEALTH_FILTER)"
  using sk.spell_inj sd.spell_inj hf.spell_inj by blast+

lemma replaceFiltersInUrl_shared: "replaceFiltersInUrl f l = replaceBrowserQueryParams (page_updates f) l"
  by (simp add: replaceFiltersInUrl_def replaceBrowserQueryParams_def page_updates_def write_param_def
      spell_eq_default Let_def)

lemma page_get:
  "(k, v, d) \<in> set (page_updates f) \<Longrightarrow>
   params_get k (location_params (replaceFiltersInUrl f l)) = (if v = d then None else Some v)"
  unfolding replaceFiltersInUrl_shared by (rule replace_then_get) (simp_all add: page_updates_def)

lemma read_after_replace:
  "readFiltersFromUrl (Some (replaceFiltersInUrl f l)) = f\<lparr>sp_search := js_trim (sp_search f)\<rparr>"
proof -
  let ?ps = "location_params (replaceFiltersInUrl f l)"
  have "params_get ''health'' ?ps = (if health_filter_text (sp_healthFilter f) = health_filter_text DEFAULT_HEALTH_FILTER
      then None else Some (health_filter_text (sp_healthFilter f)))"
    by (rule page_get) (simp add: page_updates_def)
  moreover have "params_get ''sort'' ?ps = (if sort_key_text (sp_sortKey f) = sort_key_text DEFAULT_SORT_KEY
      then None else Some (sort_key_text (sp_sortKey f)))"
    by (rule page_get) (simp add: page_updates_def)
  moreover have "params_get ''dir'' ?ps = (if sort_dir_text (sp_sortDir f) = sort_dir_text DEFAULT_SORT_DIR
      then None else Some (sort_dir_text (sp_sortDir f)))"
    by (rule page_get) (simp add: page_updates_def)
  moreover have "params_get ''search'' ?ps = (if js_trim (sp_search f) = [] then None else Some (js_trim (sp_search f)))"
    by (rule page_get) (simp add: page_updates_def)
  ultimately show ?thesis
    by (simp add: readFiltersFromUrl_def Let_def sk.read_stored sd.read_stored hf.read_stored DEFAULT_SEARCH_def)
qed

lemma filter_trimmed:
  "filterAndSortServices H services (f\<lparr>sp_search := js_trim (sp_search f)\<rparr>) rs hm
   = filterAndSortServices H services f rs hm"
  by (simp add: filterAndSortServices_def filterServicesBySearch_def js_trim_idem)

section \<open>The comparators\<close>

lemma compare_comparator:
  assumes "js_comparator (locale_compare H)" "k \<noteq> SkCreatedAt"
  shows "js_comparator (\<lambda>a b. compareServices H a b k rs hm)"
proof (cases k)
  case SkName
  then show ?thesis
    using js_comparator.cmp_flip [OF assms(1)] js_comparator.cmp_trans [OF assms(1)]
    by unfold_locales auto
next
  case SkDomain
  then show ?thesis
    using js_comparator.cmp_flip [OF assms(1)] js_comparator.cmp_trans [OF assms(1)]
    by unfold_locales auto
qed (use assms(2) in \<open>unfold_locales, auto simp: compareRouterStatus_def\<close>)

definition page_cmp :: "js_host \<Rightarrow> ServicesPageUrlFilters \<Rightarrow> TraefikRouterStatus option \<Rightarrow> health_map \<Rightarrow>
    Service \<Rightarrow> Service \<Rightarrow> int" where
  "page_cmp H f rs hm a b =
     (if sp_sortDir f = Asc then compareServices H a b (sp_sortKey f) rs hm
      else - compareServices H a b (sp_sortKey f) rs hm)"

lemma page_comparator:
  assumes "js_comparator (locale_compare H)" "sp_sortKey f \<noteq> SkCreatedAt"
  shows "js_comparator (page_cmp H f rs hm)"
  using compare_comparator [OF assms, of rs hm] neg_comparator [OF compare_comparator [OF assms, of rs hm]]
  by (cases "sp_sortDir f") (simp_all add: page_cmp_def [abs_def])

lemma filterAndSort_alt:
  "filterAndSortServices H services f rs hm =
   js_sort (page_cmp H f rs hm)
     (filter (\<lambda>s. matchesHealthFilter s (sp_healthFilter f) hm) (filterServicesBySearch services (sp_search f)))"
  by (simp add: filterAndSortServices_def page_cmp_def [abs_def] Let_def)

lemma page_step_ready:
  "page_step s t \<Longrightarrow> (\<not> pg_ready s \<longrightarrow> pg_location s = l) \<Longrightarrow> (\<not> pg_ready t \<longrightarrow> pg_location t = l)"
  by (erule page_step.cases) (auto simp: page_mount_def page_sync_def)

section \<open>What the list should show\<close>

text \<open>The health filters as a table: the routing mode, the health of the service (none when it was
  not measured) and whether the filter shows it.\<close>

fun health_table :: "HealthFilter \<Rightarrow> RoutingMode \<Rightarrow> UpstreamHealth option \<Rightarrow> bool" where
  "health_table HfAll m h = True"
| "health_table HfActive m h = (m = RActive)"
| "health_table HfDisabled m h = (m = RDisabled)"
| "health_table HfMaintenance m h = (m = RMaintenance)"
| "health_table HfUp m h = (map_option uh_status h = Some HUp)"
| "health_table HfDown m h = (map_option uh_status h = Some HDown)"
| "health_table HfUnknown m h = (map_option uh_status h = Some HUnknown)"
| "health_table HfDns m h = (Option.bind h uh_error_kind = Some ''dns'')"
| "health_table HfConnectionRefused m h = (Option.bind h uh_error_kind = Some ''connection_refused'')"
| "health_table HfTimeout m h =
     (Option.bind h uh_error_kind = Some ''connection_timeout'' \<or> Option.bind h uh_error_kind = Some ''request_timeout'')"
| "health_table HfUnexpectedStatus m h = (Option.bind h uh_error_kind = Some ''unexpected_status'')"
| "health_table HfOtherError m h =
     (map_option uh_status h = Some HDown \<and>
      Option.bind h uh_error_kind \<notin> Some ` {''dns'', ''connection_refused'', ''connection_timeout'',
        ''request_timeout'', ''unexpected_status''})"

definition service_shown :: "ServicesPageUrlFilters \<Rightarrow> health_map \<Rightarrow> Service \<Rightarrow> bool" where
  "service_shown f hm s =
     (let query = str_lower (js_trim (sp_search f)) in
      (query = [] \<or> sublist query (str_lower (svc_name s)) \<or> sublist query (str_lower (svc_domain s))) \<and>
      health_table (sp_healthFilter f) (svc_routing_mode s) (opt_lookup hm (svc_id s)))"

text \<open>Three of the sort keys make groups; ascending order lists the groups in this order.\<close>

definition router_on :: "TraefikRouterStatus option \<Rightarrow> Service \<Rightarrow> bool" where
  "router_on rs s =
     (case rs of None \<Rightarrow> False
      | Some r \<Rightarrow> map_option ds_active (obj_get (svc_domain s) (trs_domains r)) = Some True)"

definition measured :: "health_map \<Rightarrow> Service \<Rightarrow> HealthStatus option" where
  "measured hm s = map_option uh_status (opt_lookup hm (svc_id s))"

fun sort_groups :: "SortKey \<Rightarrow> TraefikRouterStatus option \<Rightarrow> health_map \<Rightarrow> (Service \<Rightarrow> bool) list" where
  "sort_groups SkAuth rs hm =
     [\<lambda>s. svc_auth_mode s = AuthAuthentik, \<lambda>s. svc_auth_mode s = AuthToken,
      \<lambda>s. svc_auth_mode s = AuthNone \<and> svc_basic_auth_enabled s,
      \<lambda>s. svc_auth_mode s = AuthNone \<and> \<not> svc_basic_auth_enabled s]"
| "sort_groups SkRouter rs hm = [router_on rs, \<lambda>s. \<not> router_on rs s]"
| "sort_groups SkHealth rs hm =
     [\<lambda>s. measured hm s = Some HDown, \<lambda>s. measured hm s = Some HUnknown \<or> measured hm s = None,
      \<lambda>s. measured hm s = Some HUp]"
| "sort_groups k rs hm = []"

subsection \<open>The filter\<close>

lemma other_error: "matchesOtherHealthError h = health_table HfOtherError m (Some h)"
  by (cases "uh_error_kind h") (auto simp: matchesOtherHealthError_def or_else_def)

lemma matches_table:
  "matchesHealthFilter s hf hm = health_table hf (svc_routing_mode s) (opt_lookup hm (svc_id s))"
  by (cases hf; cases "opt_lookup hm (svc_id s)")
    (simp_all add: matchesHealthFilter_def other_error [of _ RActive])

lemma filter_shown:
  "filter (\<lambda>s. matchesHealthFilter s (sp_healthFilter f) hm) (filterServicesBySearch services (sp_search f))
   = filter (service_shown f hm) services"
  by (auto simp: filterServicesBySearch_def service_shown_def matches_table Let_def str_includes_sublist
      intro!: filter_cong)

subsection \<open>The order\<close>

text \<open>A stable sort by a rank below \<open>n\<close> lists the groups of equal rank one after the other.\<close>

lemma sorted_two_parts:
  "sorted_wrt (\<lambda>a b. r a \<le> r b) xs \<Longrightarrow> \<forall>x\<in>set xs. r x < Suc n \<Longrightarrow>
   xs = filter (\<lambda>x. r x < n) xs @ filter (\<lambda>x. r x = (n::nat)) xs"
proof (induction xs)
  case (Cons x xs)
  then have xs: "xs = filter (\<lambda>x. r x < n) xs @ filter (\<lambda>x. r x = n) xs" by simp
  show ?case
  proof (cases "r x < n")
    case False
    then have "filter (\<lambda>x. r x < n) xs = []" using Cons.prems(1) by (auto simp: filter_empty_conv)
    with False xs Cons.prems(2) show ?thesis by simp
  qed (use xs in simp)
qed simp

lemma sorted_ranks:
  assumes "sorted_wrt (\<lambda>a b. r a \<le> r b) xs" "\<forall>x\<in>set xs. r x < n"
  shows "xs = concat (map (\<lambda>i. filter (\<lambda>x. r x = i) xs) [0..<n :: nat])"
  using assms
proof (induction n arbitrary: xs)
  case (Suc n)
  let ?a = "filter (\<lambda>x. r x < n) xs" and ?b = "filter (\<lambda>x. r x = n) xs"
  have "sorted_wrt (\<lambda>a b. r a \<le> r b) ?a" using Suc.prems(1) by (rule sorted_wrt_filter)
  then have a: "?a = concat (map (\<lambda>i. filter (\<lambda>x. r x = i) ?a) [0..<n])" by (rule Suc.IH) simp
  have "map (\<lambda>i. filter (\<lambda>x. r x = i) ?a) [0..<n] = map (\<lambda>i. filter (\<lambda>x. r x = i) xs) [0..<n]"
    by (intro map_cong refl) (auto intro!: filter_cong)
  with a have "?a = concat (map (\<lambda>i. filter (\<lambda>x. r x = i) xs) [0..<n])" by (simp only:)
  then show ?case using sorted_two_parts [OF Suc.prems] by simp
qed simp

lemma js_sort_ranks:
  assumes "\<forall>x\<in>set xs. r x < n"
  shows "js_sort (\<lambda>a b. int (r a) - int (r b)) xs = concat (map (\<lambda>i. filter (\<lambda>x. r x = i) xs) [0..<n])"
proof -
  let ?cmp = "\<lambda>a b. int (r a) - int (r b)"
  have c: "js_comparator ?cmp" by unfold_locales auto
  let ?ys = "js_sort ?cmp xs"
  have "sorted_wrt (\<lambda>a b. r a \<le> r b) ?ys"
    using js_comparator.js_sort_sorted [OF c, of xs] by simp
  from sorted_ranks [OF this, of n] have "?ys = concat (map (\<lambda>i. filter (\<lambda>x. r x = i) ?ys) [0..<n])"
    using assms by simp
  also have "\<dots> = concat (map (\<lambda>i. filter (\<lambda>x. r x = i) xs) [0..<n])"
  proof (intro arg_cong [where f = concat] map_cong refl)
    fix i
    show "filter (\<lambda>x. r x = i) ?ys = filter (\<lambda>x. r x = i) xs"
    proof (cases "\<exists>k\<in>set xs. r k = i")
      case True
      then obtain k where "r k = i" by blast
      then have "(\<lambda>y. ?cmp k y = 0) = (\<lambda>x. r x = i)" by auto
      then show ?thesis using js_comparator.js_sort_stable [OF c, of k xs] by simp
    next
      case False
      then have "filter (\<lambda>x. r x = i) xs = []" "filter (\<lambda>x. r x = i) ?ys = []" by (auto simp: filter_empty_conv)
      then show ?thesis by simp
    qed
  qed
  finally show ?thesis .
qed

text \<open>The order by creation time, when the times differ.\<close>

definition created_cmp :: "Service \<Rightarrow> Service \<Rightarrow> int" where
  "created_cmp a b =
     (if str_less (svc_created_at b) (svc_created_at a) then 1
      else if svc_created_at a = svc_created_at b then 0 else - 1)"

lemma created_comparator: "js_comparator created_cmp"
proof
  fix x y show "created_cmp x y < 0 \<longleftrightarrow> 0 < created_cmp y x"
    using str_less_total [of "svc_created_at x" "svc_created_at y"] str_less_trans [of "svc_created_at x" "svc_created_at y" "svc_created_at x"]
    by (auto simp: created_cmp_def)
next
  fix x y z assume "created_cmp x y \<le> 0" "created_cmp y z \<le> 0"
  then have "\<not> str_less (svc_created_at y) (svc_created_at x)" "\<not> str_less (svc_created_at z) (svc_created_at y)"
    by (auto simp: created_cmp_def split: if_splits)
  then have "\<not> str_less (svc_created_at z) (svc_created_at x)"
    using str_less_total [of "svc_created_at x" "svc_created_at y"] str_less_total [of "svc_created_at y" "svc_created_at z"]
      str_less_trans by metis
  then show "created_cmp x z \<le> 0" by (simp add: created_cmp_def)
qed

lemma js_insert_cong: "\<forall>y\<in>set ys. cmp x y = cmp' x y \<Longrightarrow> js_insert cmp x ys = js_insert cmp' x ys"
  by (induction ys) auto

lemma js_sort_cong:
  "distinct (map k xs) \<Longrightarrow> \<forall>x\<in>set xs. \<forall>y\<in>set xs. k x \<noteq> k y \<longrightarrow> cmp x y = cmp' x y \<Longrightarrow> js_sort cmp xs = js_sort cmp' xs"
proof (induction xs)
  case (Cons x xs)
  then have "js_sort cmp xs = js_sort cmp' xs" by simp
  moreover have "js_insert cmp x (js_sort cmp' xs) = js_insert cmp' x (js_sort cmp' xs)"
  proof (intro js_insert_cong ballI)
    fix y assume "y \<in> set (js_sort cmp' xs)"
    then have "y \<in> set xs" by simp
    moreover from this have "k x \<noteq> k y" using Cons.prems(1) by auto
    ultimately show "cmp x y = cmp' x y" using Cons.prems(2) by simp
  qed
  ultimately show ?case by simp
qed simp

definition created_before :: "Service \<Rightarrow> Service \<Rightarrow> bool" where
  "created_before a b = str_less (svc_created_at a) (svc_created_at b)"

text \<open>One lemma for each kind of sort key.\<close>

lemma sorted_by_text:
  assumes "js_comparator (locale_compare H)" "sp_sortKey f = SkName \<and> name = svc_name \<or> sp_sortKey f = SkDomain \<and> name = svc_domain"
  shows "sorted_wrt (\<lambda>a b. if sp_sortDir f = Asc then locale_compare H (name a) (name b) \<le> 0
            else locale_compare H (name b) (name a) \<le> 0) (js_sort (page_cmp H f rs hm) xs)"
    and "filter (\<lambda>s. locale_compare H t (name s) = 0) (js_sort (page_cmp H f rs hm) xs)
      = filter (\<lambda>s. locale_compare H t (name s) = 0) xs"
proof -
  have c: "js_comparator (page_cmp H f rs hm)" using assms by (intro page_comparator) auto
  have p: "page_cmp H f rs hm a b = (if sp_sortDir f = Asc then locale_compare H (name a) (name b)
      else - locale_compare H (name a) (name b))" for a b
    using assms(2) by (auto simp: page_cmp_def)
  have fl: "0 \<le> locale_compare H x y \<longleftrightarrow> locale_compare H y x \<le> 0" for x y
    using js_comparator.cmp_flip [OF assms(1), of x y] js_comparator.cmp_flip [OF assms(1), of y x] by linarith
  show "sorted_wrt (\<lambda>a b. if sp_sortDir f = Asc then locale_compare H (name a) (name b) \<le> 0
      else locale_compare H (name b) (name a) \<le> 0) (js_sort (page_cmp H f rs hm) xs)"
    using js_comparator.js_sort_sorted [OF c, of xs] by (cases "sp_sortDir f = Asc") (simp_all add: p fl)
  let ?s = "sample_service [] t t RActive"
  have "name ?s = t" using assms(2) by auto
  then have "(\<lambda>y. page_cmp H f rs hm ?s y = 0) = (\<lambda>s. locale_compare H t (name s) = 0)" by (auto simp: p)
  then show "filter (\<lambda>s. locale_compare H t (name s) = 0) (js_sort (page_cmp H f rs hm) xs)
      = filter (\<lambda>s. locale_compare H t (name s) = 0) xs"
    using js_comparator.js_sort_stable [OF c, of ?s xs] by simp
qed

lemma distinct_keys_wrt: "distinct (map k xs) \<Longrightarrow> sorted_wrt (\<lambda>a b. k a \<noteq> k b) xs"
  by (induction xs) auto

lemma sorted_by_created:
  assumes "sp_sortKey f = SkCreatedAt" "distinct (map svc_created_at xs)"
  shows "sorted_wrt (\<lambda>a b. if sp_sortDir f = Asc then created_before a b else created_before b a)
    (js_sort (page_cmp H f rs hm) xs)"
proof -
  let ?c = "\<lambda>a b. if sp_sortDir f = Asc then created_cmp a b else - created_cmp a b"
  have c: "js_comparator ?c"
    using created_comparator neg_comparator [OF created_comparator] by (cases "sp_sortDir f = Asc") simp_all
  have e: "js_sort (page_cmp H f rs hm) xs = js_sort ?c xs"
    by (rule js_sort_cong [OF assms(2)]) (auto simp: page_cmp_def assms(1) created_cmp_def)
  let ?ys = "js_sort ?c xs"
  have "mset (map svc_created_at ?ys) = mset (map svc_created_at xs)" by simp
  then have "distinct (map svc_created_at ?ys)" using assms(2) mset_eq_imp_distinct_iff by blast
  then have d: "sorted_wrt (\<lambda>a b. svc_created_at a \<noteq> svc_created_at b) ?ys" by (rule distinct_keys_wrt)
  have s: "sorted_wrt (\<lambda>a b. ?c a b \<le> 0) ?ys" by (rule js_comparator.js_sort_sorted [OF c])
  have b: "if sp_sortDir f = Asc then created_before a b else created_before b a"
    if "?c a b \<le> 0" "svc_created_at a \<noteq> svc_created_at b" for a b
    using that str_less_total [of "svc_created_at a" "svc_created_at b"]
    by (auto simp: created_cmp_def created_before_def split: if_splits)
  show ?thesis unfolding e
    using s d b unfolding sorted_wrt_iff_nth_less by blast
qed

text \<open>The weights of the code are the groups counted from the end.\<close>

lemma groups_by_rank:
  assumes "\<And>s. (weight s :: int) = int n - int (r s)" "\<And>s. r s < Suc n"
    and "\<And>i. i < Suc n \<Longrightarrow> gs ! i = (\<lambda>s. r s = i)" "length gs = Suc n"
  shows "js_sort (\<lambda>a b. if asc then weight b - weight a else weight a - weight b) xs =
    concat (map (\<lambda>g. filter g xs) (if asc then gs else rev gs))"
proof -
  have gs: "gs = map (\<lambda>i s. r s = i) [0..<Suc n]"
    using assms(3,4) by (intro nth_equalityI) (simp_all del: upt_Suc)
  show ?thesis
  proof (cases asc)
    case True
    have "(\<lambda>a b. weight b - weight a) = (\<lambda>a b. int (r a) - int (r b))" by (auto simp: assms(1))
    then show ?thesis
      using js_sort_ranks [of xs r "Suc n"] assms(2) True by (simp add: gs comp_def del: upt_Suc)
  next
    case False
    let ?q = "\<lambda>s. n - r s"
    have le: "r s \<le> n" for s using assms(2) [of s] by simp
    have w: "(\<lambda>a b. weight a - weight b) = (\<lambda>a b. int (?q a) - int (?q b))"
      using le by (auto simp: assms(1) of_nat_diff)
    have "rev gs = map (\<lambda>i s. ?q s = i) [0..<Suc n]"
    proof (rule nth_equalityI)
      fix i assume "i < length (rev gs)"
      then have i: "i < Suc n" using assms(4) by simp
      then have "rev gs ! i = gs ! (n - i)" using assms(4) by (simp add: rev_nth)
      also have "\<dots> = (\<lambda>s. r s = n - i)" by (rule assms(3)) simp
      also have "\<dots> = (\<lambda>s. ?q s = i)" using le i by (intro ext) (metis diff_diff_cancel less_Suc_eq_le)
      finally show "rev gs ! i = map (\<lambda>i s. ?q s = i) [0..<Suc n] ! i" using i by (simp del: upt_Suc)
    qed (simp add: assms(4))
    then show ?thesis
      using js_sort_ranks [of xs ?q "Suc n"] w False by (simp add: comp_def less_Suc_eq_le del: upt_Suc)
  qed
qed

lemma page_cmp_weights:
  assumes "\<And>a b. compareServices H a b (sp_sortKey f) rs hm = weight b - weight a"
  shows "page_cmp H f rs hm = (\<lambda>a b. if sp_sortDir f = Asc then weight b - weight a else weight a - weight b)"
  by (intro ext) (simp add: page_cmp_def assms)

lemma sorted_by_groups:
  assumes "\<And>a b. compareServices H a b (sp_sortKey f) rs hm = weight b - weight a"
    and "\<And>s. (weight s :: int) = int n - int (r s)" "\<And>s. r s < Suc n"
    and "\<And>i. i < Suc n \<Longrightarrow> sort_groups (sp_sortKey f) rs hm ! i = (\<lambda>s. r s = i)"
    and "length (sort_groups (sp_sortKey f) rs hm) = Suc n"
  shows "js_sort (page_cmp H f rs hm) xs = concat (map (\<lambda>g. filter g xs)
    (if sp_sortDir f = Asc then sort_groups (sp_sortKey f) rs hm else rev (sort_groups (sp_sortKey f) rs hm)))"
  unfolding page_cmp_weights [of H f rs hm weight, OF assms(1)] by (rule groups_by_rank [OF assms(2-5)])

lemma auth_rank: "getAuthWeight s = int 3 - int (nat (3 - getAuthWeight s))" "nat (3 - getAuthWeight s) < Suc 3"
  by (auto simp: getAuthWeight_def)

lemma less_four: "i < Suc 3 \<Longrightarrow> i = 0 \<or> i = 1 \<or> i = 2 \<or> i = (3::nat)" by auto

lemma sorted_by_auth:
  assumes "sp_sortKey f = SkAuth"
  shows "js_sort (page_cmp H f rs hm) xs = concat (map (\<lambda>g. filter g xs)
    (if sp_sortDir f = Asc then sort_groups SkAuth rs hm else rev (sort_groups SkAuth rs hm)))"
proof -
  have modes: "m \<noteq> AuthAuthentik \<Longrightarrow> m \<noteq> AuthToken \<Longrightarrow> m = AuthNone" for m by (cases m) auto
  have g: "sort_groups SkAuth rs hm ! i = (\<lambda>s. nat (3 - getAuthWeight s) = i)" if "i < Suc 3" for i
    using less_four [OF that] by (auto simp: getAuthWeight_def modes)
  have c: "compareServices H a b (sp_sortKey f) rs hm = getAuthWeight b - getAuthWeight a" for a b
    by (simp add: assms)
  have r: "nat (3 - getAuthWeight s) < Suc 3" for s by (rule auth_rank(2))
  have l: "length (sort_groups (sp_sortKey f) rs hm) = Suc 3" by (simp add: assms)
  from sorted_by_groups [OF c auth_rank(1) r _ l, of xs] g show ?thesis by (simp only: assms)
qed

lemma less_two: "i < Suc 1 \<Longrightarrow> i = 0 \<or> i = (1::nat)" by auto

lemma sorted_by_router:
  assumes "sp_sortKey f = SkRouter"
  shows "js_sort (page_cmp H f rs hm) xs = concat (map (\<lambda>g. filter g xs)
    (if sp_sortDir f = Asc then sort_groups SkRouter rs hm else rev (sort_groups SkRouter rs hm)))"
proof -
  have w: "router_active rs s = int 1 - int (if router_on rs s then 0 else 1)" for s
    by (cases rs; cases "obj_get (svc_domain s) (trs_domains (the rs))")
      (auto simp: router_active_def router_on_def opt_lookup_def default_to_def)
  have g: "sort_groups SkRouter rs hm ! i = (\<lambda>s. (if router_on rs s then 0 else 1) = i)" if "i < Suc 1" for i
    using less_two [OF that] by auto
  have c: "compareServices H a b (sp_sortKey f) rs hm = (router_active rs) b - (router_active rs) a" for a b
    by (simp add: assms compareRouterStatus_def)
  have r: "(if router_on rs s then 0 else 1 :: nat) < Suc 1" for s by (simp)
  have l: "length (sort_groups (sp_sortKey f) rs hm) = Suc 1" by (simp add: assms)
  from sorted_by_groups [OF c w r _ l, of xs] g show ?thesis by (simp only: assms)
qed

lemma less_three: "i < Suc 2 \<Longrightarrow> i = 0 \<or> i = 1 \<or> i = (2::nat)" by auto

lemma sorted_by_health:
  assumes "sp_sortKey f = SkHealth"
  shows "js_sort (page_cmp H f rs hm) xs = concat (map (\<lambda>g. filter g xs)
    (if sp_sortDir f = Asc then sort_groups SkHealth rs hm else rev (sort_groups SkHealth rs hm)))"
proof -
  let ?r = "\<lambda>s. if measured hm s = Some HDown then 0 else if measured hm s = Some HUp then 2 else (1::nat)"
  have w: "getHealthWeight s hm = int 2 - int (?r s)" for s
    by (auto simp: getHealthWeight_def measured_def split: option.splits HealthStatus.splits)
  have st: "y \<noteq> HUp \<Longrightarrow> y \<noteq> HDown \<Longrightarrow> y = HUnknown" for y by (cases y) auto
  have g: "sort_groups SkHealth rs hm ! i = (\<lambda>s. ?r s = i)" if "i < Suc 2" for i
    using less_three [OF that] st by (auto intro!: ext)
  have c: "compareServices H a b (sp_sortKey f) rs hm = (\<lambda>s. getHealthWeight s hm) b - (\<lambda>s. getHealthWeight s hm) a" for a b
    by (simp add: assms)
  have r: "?r s < Suc 2" for s by (simp)
  have l: "length (sort_groups (sp_sortKey f) rs hm) = Suc 2" by (simp add: assms)
  from sorted_by_groups [OF c w r _ l, of xs] g show ?thesis by (simp only: assms)
qed

section \<open>Properties\<close>

text \<open>C9. The page never writes to the query string before it has read it, and after every
  synchronisation of a mounted page the query string holds exactly its filters: reading it (as a
  reload or another user with the link does) gives the same filters with the search text
  trimmed, and the same list of services.\<close>

theorem services_page_url_sync:
  assumes "page_reachable l s"
  shows "(\<not> pg_ready s \<longrightarrow> pg_location (page_sync s) = l) \<and>
    (pg_ready s \<longrightarrow>
      readFiltersFromUrl (Some (pg_location (page_sync s)))
        = (pg_filters s)\<lparr>sp_search := js_trim (sp_search (pg_filters s))\<rparr> \<and>
      filterAndSortServices H services (readFiltersFromUrl (Some (pg_location (page_sync s)))) rs hm
        = filterAndSortServices H services (pg_filters s) rs hm)"
proof -
  have "\<not> pg_ready s \<longrightarrow> pg_location s = l"
    using assms by (induction rule: page_reachable.induct) (simp add: page_init_def, rule page_step_ready)
  then show ?thesis by (simp add: page_sync_def read_after_replace filter_trimmed)
qed

theorem services_page_url_sync_witness:
  "readFiltersFromUrl (Some (pg_location (page_sync
      (page_mount (page_init \<lparr>loc_path = ''/s'', loc_search = ''?health=down&x=1'', loc_hash = []\<rparr>)))))
   = readFiltersFromUrl (Some \<lparr>loc_path = ''/s'', loc_search = ''?health=down&x=1'', loc_hash = []\<rparr>)"
proof -
  let ?l = "\<lparr>loc_path = ''/s'', loc_search = ''?health=down&x=1'', loc_hash = []\<rparr>"
  have r: "page_reachable ?l (page_mount (page_init ?l))"
    by (rule preach_step [OF preach_init pstep_mount])
  have s: "params_get ''search'' (location_params ?l) = None"
    by (simp add: location_params_def params_parse_def split_pair_def)
  show ?thesis
    using services_page_url_sync [OF r] s
    by (simp add: page_mount_def page_init_def readFiltersFromUrl_def Let_def DEFAULT_SEARCH_def)
qed

text \<open>C24. The list shows exactly the services whose name or domain contains the trimmed search
  text, whatever the case of the letters, and which the chosen health filter admits.  By name and
  by domain they stand in the order of the collation; by authentication Authentik comes before
  token, basic and none, by router status active before inactive, by health down before unknown
  or unmeasured and those before up, and the services of a group keep the order the backend sent;
  the descending direction reverses the collation or the groups.  By creation time the list runs
  from the oldest to the newest (or back) when the times of the shown services differ; between
  equal times the code's comparator leaves the order to the engine.  The collation is assumed to
  be a consistent comparison.\<close>

theorem filterAndSortServices_correct:
  assumes "js_comparator (locale_compare H)"
  shows "let out = filterAndSortServices H services f rs hm;
      shown = filter (service_shown f hm) services; asc = (sp_sortDir f = Asc);
      by_text = (\<lambda>name.
        sorted_wrt (\<lambda>a b. if asc then locale_compare H (name a) (name b) \<le> 0
                          else locale_compare H (name b) (name a) \<le> 0) out \<and>
        (\<forall>t. filter (\<lambda>s. locale_compare H t (name s) = 0) out = filter (\<lambda>s. locale_compare H t (name s) = 0) shown))
    in mset out = mset shown \<and>
       (case sp_sortKey f of
          SkName \<Rightarrow> by_text svc_name
        | SkDomain \<Rightarrow> by_text svc_domain
        | SkCreatedAt \<Rightarrow> distinct (map svc_created_at shown) \<longrightarrow>
            sorted_wrt (\<lambda>a b. if asc then created_before a b else created_before b a) out
        | key \<Rightarrow> out = concat (map (\<lambda>g. filter g shown)
            (if asc then sort_groups key rs hm else rev (sort_groups key rs hm))))"
proof -
  let ?shown = "filter (service_shown f hm) services"
  have out: "filterAndSortServices H services f rs hm = js_sort (page_cmp H f rs hm) ?shown"
    by (simp add: filterAndSort_alt filter_shown)
  note named = sorted_by_text [OF assms, where f = f and rs = rs and hm = hm and xs = ?shown]
  have created: "sp_sortKey f = SkCreatedAt \<Longrightarrow> distinct (map svc_created_at ?shown) \<longrightarrow>
      sorted_wrt (\<lambda>a b. if sp_sortDir f = Asc then created_before a b else created_before b a)
        (js_sort (page_cmp H f rs hm) ?shown)"
    using sorted_by_created by blast
  show ?thesis
    unfolding Let_def out mset_js_sort
    by (rule conjI [OF refl], cases "sp_sortKey f")
      (simp_all only: SortKey.case named sorted_by_auth sorted_by_router sorted_by_health
        simp_thms SortKey.distinct, erule created)
qed

definition three_services :: "Service list" where
  "three_services =
     [sample_service ''1'' ''bb'' ''b.kr'' RActive,
      (sample_service ''2'' ''a'' ''a.kr'' RDisabled)\<lparr>svc_auth_mode := AuthAuthentik\<rparr>,
      (sample_service ''3'' ''c'' ''c.kr'' RActive)\<lparr>svc_auth_mode := AuthToken\<rparr>]"

theorem filterAndSortServices_correct_witness:
  "map svc_id (filterAndSortServices utc_host three_services
       \<lparr>sp_healthFilter = HfActive, sp_search = ''.KR '', sp_sortDir = Desc, sp_sortKey = SkAuth\<rparr> None None)
     = [''1'', ''3'']"
proof -
  have "js_comparator (locale_compare utc_host)" unfolding utc_host_def by simp (unfold_locales, auto)
  from filterAndSortServices_correct [OF this, of three_services
      "\<lparr>sp_healthFilter = HfActive, sp_search = ''.KR '', sp_sortDir = Desc, sp_sortKey = SkAuth\<rparr>" None None]
  have "filterAndSortServices utc_host three_services
       \<lparr>sp_healthFilter = HfActive, sp_search = ''.KR '', sp_sortDir = Desc, sp_sortKey = SkAuth\<rparr> None None
     = concat (map (\<lambda>g. filter g (filter (service_shown
         \<lparr>sp_healthFilter = HfActive, sp_search = ''.KR '', sp_sortDir = Desc, sp_sortKey = SkAuth\<rparr> None) three_services))
         (rev (sort_groups SkAuth None None)))"
    by (simp add: Let_def)
  moreover have "filter (service_shown
         \<lparr>sp_healthFilter = HfActive, sp_search = ''.KR '', sp_sortDir = Desc, sp_sortKey = SkAuth\<rparr> None) three_services
     = [three_services ! 0, three_services ! 2]"
  proof -
    have "js_trim ''.KR '' = ''.KR''" "str_lower ''.KR'' = ''.kr''" by code_simp+
    moreover have "str_includes ''b.kr'' ''.kr''" "str_includes ''c.kr'' ''.kr''" by simp_all
    moreover have "str_lower ''b.kr'' = ''b.kr''" "str_lower ''c.kr'' = ''c.kr''" by code_simp+
    ultimately show ?thesis
      by (simp add: service_shown_def three_services_def flip: str_includes_sublist)
  qed
  ultimately show ?thesis
    by (simp add: three_services_def sample_service_def)
qed

text \<open>The error filters partition the services that are down: each of them is shown under
  exactly one of the filters DNS, refused, timeout, unexpected status and other.\<close>

theorem error_filters_partition:
  assumes "opt_lookup hm (svc_id s) = Some h" "uh_status h = HDown"
  shows "\<exists>!hf. hf \<in> {HfDns, HfConnectionRefused, HfTimeout, HfUnexpectedStatus, HfOtherError} \<and>
    matchesHealthFilter s hf hm"
proof -
  define e where "e = or_else (uh_error_kind h) []"
  define g where "g = (if e = ''dns'' then HfDns else if e = ''connection_refused'' then HfConnectionRefused
    else if e = ''connection_timeout'' \<or> e = ''request_timeout'' then HfTimeout
    else if e = ''unexpected_status'' then HfUnexpectedStatus else HfOtherError)"
  have k: "(uh_error_kind h = Some x) = (e = x)" if "x \<noteq> []" for x
    using that by (cases "uh_error_kind h") (auto simp: e_def)
  have m: "matchesHealthFilter s HfDns hm = (e = ''dns'')"
      "matchesHealthFilter s HfConnectionRefused hm = (e = ''connection_refused'')"
      "matchesHealthFilter s HfTimeout hm = (e = ''connection_timeout'' \<or> e = ''request_timeout'')"
      "matchesHealthFilter s HfUnexpectedStatus hm = (e = ''unexpected_status'')"
      "matchesHealthFilter s HfOtherError hm
        = (e \<notin> {''dns'', ''connection_refused'', ''connection_timeout'', ''request_timeout'', ''unexpected_status''})"
    using assms by (simp_all add: matchesHealthFilter_def matchesOtherHealthError_def k flip: e_def)
  have "matchesHealthFilter s hf hm = (hf = g)"
    if "hf \<in> {HfDns, HfConnectionRefused, HfTimeout, HfUnexpectedStatus, HfOtherError}" for hf
    using that by (elim insertE emptyE) (simp_all add: m g_def)
  moreover have "g \<in> {HfDns, HfConnectionRefused, HfTimeout, HfUnexpectedStatus, HfOtherError}"
    by (simp add: g_def)
  ultimately show ?thesis by blast
qed

end
