(* ===== verification/Container_Import.thy ===== *)
theory Container_Import
  imports Service_Form
begin

text \<open>
  Import of Docker containers into the service form: \<open>dockerApi.ts\<close> (data),
  \<open>containerImportTypes.ts\<close>, \<open>containerImportFiltering.ts\<close> (which container is the HTTP
  gateway of a Compose project, search), \<open>containerImportApply.ts\<close> (the fields an import
  writes), \<open>containerImportErrors.ts\<close> and the dialog \<open>useServiceContainerImportModel.ts\<close>.
\<close>

section \<open>Data\<close>

record DockerContainerPort =
  po_private_port :: nat
  po_public_port :: "nat option"
  po_type :: "string option"

record DockerTraefikCandidate =
  dc_router_name :: string
  dc_domain :: string
  dc_upstream_host :: string
  dc_upstream_port :: nat
  dc_tls_enabled :: bool

record DockerContainer =
  co_id :: "string option"
  co_name :: string
  co_image :: "string option"
  co_state :: "string option"
  co_status :: "string option"
  co_compose_project :: "string option"
  co_compose_service :: "string option"
  co_ports :: "DockerContainerPort list"
  co_networks :: "string list"
  co_traefik_candidates :: "DockerTraefikCandidate list"

datatype ContainerImportMode = ImportBasic | ImportTraefik

record RecommendedGatewayImport =
  rg_containerName :: string
  rg_upstreamPort :: nat

record TraefikImportCandidate = DockerTraefikCandidate +
  tc_containerName :: string
  tc_image :: "string option"
  tc_networks :: "string list"
  tc_composeProject :: "string option"
  tc_composeService :: "string option"
  tc_isRecommendedGateway :: bool
  tc_recommendedGateway :: "RecommendedGatewayImport option"

section \<open>Filtering (\<open>containerImportFiltering.ts\<close>)\<close>

definition PROXY_NETWORK_NAME :: string where "PROXY_NETWORK_NAME = ''proxy_net''"
definition GATEWAY_MARKERS :: "string list" where "GATEWAY_MARKERS = [''gateway'', ''nginx'']"
definition NON_HTTP_SERVICE_NAMES :: "string list" where
  "NON_HTTP_SERVICE_NAMES =
     [''db'', ''database'', ''mariadb'', ''memcached'', ''mongo'', ''mongodb'', ''mysql'', ''postgres'',
      ''postgresql'', ''redis'']"

definition formatDockerPortLabel :: "DockerContainerPort \<Rightarrow> string" where
  "formatDockerPortLabel port =
     (let publicSuffix = (case po_public_port port of None \<Rightarrow> [] | Some p \<Rightarrow> '' -> '' @ show_nat p);
          protocolSuffix = (if truthy (po_type port) then ''/'' @ the (po_type port) else [])
      in show_nat (po_private_port port) @ publicSuffix @ protocolSuffix)"

definition getSuggestedUpstreamPort :: "DockerContainer \<Rightarrow> nat" where
  "getSuggestedUpstreamPort c = (case co_ports c of [] \<Rightarrow> 80 | p # _ \<Rightarrow> po_private_port p)"

definition isLikelyNonHttpContainer :: "DockerContainer \<Rightarrow> bool" where
  "isLikelyNonHttpContainer c =
     (let serviceName = str_lower (js_trim (or_else (co_compose_service c) [])) in
      if serviceName \<in> set NON_HTTP_SERVICE_NAMES then True
      else
        let imageName =
              str_lower (hd (str_split CHR '':''
                (last (str_split CHR ''/'' (hd (str_split CHR ''@'' (or_else (co_image c) [])))))))
        in if imageName \<noteq> [] then imageName \<in> set NON_HTTP_SERVICE_NAMES else False)"

definition gatewayScore :: "DockerContainer \<Rightarrow> int" where
  "gatewayScore c =
     (let identity = str_lower (or_else (co_compose_service c) [] @ '' '' @ co_name c);
          image = str_lower (or_else (co_image c) [])
      in case find_index (\<lambda>marker. str_includes identity marker) GATEWAY_MARKERS of
           Some i \<Rightarrow> int (length GATEWAY_MARKERS) - int i + 1
         | None \<Rightarrow> (if list_ex (\<lambda>marker. str_includes image marker) GATEWAY_MARKERS then 1 else 0))"

definition on_proxy_network :: "DockerContainer \<Rightarrow> bool" where
  "on_proxy_network c = (PROXY_NETWORK_NAME \<in> set (co_networks c))"

definition findRecommendedComposeGateway ::
    "DockerContainer \<Rightarrow> DockerContainer list \<Rightarrow> DockerContainer option" where
  "findRecommendedComposeGateway c containers =
     (if \<not> truthy (co_compose_project c) \<or> on_proxy_network c \<or> isLikelyNonHttpContainer c then None
      else
        (case js_sort (\<lambda>l r. gatewayScore r - gatewayScore l)
           (filter (\<lambda>d. co_compose_project d = co_compose_project c \<and> on_proxy_network d \<and> 0 < gatewayScore d)
              containers) of
           [] \<Rightarrow> None
         | d # _ \<Rightarrow> Some d))"

definition isRecommendedComposeGateway :: "DockerContainer \<Rightarrow> DockerContainer list \<Rightarrow> bool" where
  "isRecommendedComposeGateway c containers =
     list_ex (\<lambda>d. map_option co_name (findRecommendedComposeGateway d containers) = Some (co_name c)) containers"

definition import_candidate ::
    "DockerContainer list \<Rightarrow> DockerContainer \<Rightarrow> DockerTraefikCandidate \<Rightarrow> TraefikImportCandidate" where
  "import_candidate containers c candidate =
     DockerTraefikCandidate.extend candidate
       (TraefikImportCandidate.fields (co_name c) (co_image c) (co_networks c) (co_compose_project c)
         (co_compose_service c) (isRecommendedComposeGateway c containers)
         (map_option (\<lambda>g. \<lparr>rg_containerName = co_name g, rg_upstreamPort = getSuggestedUpstreamPort g\<rparr>)
            (findRecommendedComposeGateway c containers)))"

definition buildTraefikImportCandidates :: "DockerContainer list \<Rightarrow> TraefikImportCandidate list" where
  "buildTraefikImportCandidates containers =
     concat (map (\<lambda>c. map (import_candidate containers c) (co_traefik_candidates c)) containers)"

definition recommended_names :: "DockerContainer list \<Rightarrow> string list" where
  "recommended_names containers =
     filter (\<lambda>n. n \<noteq> [])
       (map co_name (List.map_filter (\<lambda>c. findRecommendedComposeGateway c containers)
          (filter (\<lambda>c. \<not> on_proxy_network c) containers)))"

definition proxy_score :: "DockerContainer list \<Rightarrow> DockerContainer \<Rightarrow> int" where
  "proxy_score containers c =
     (if co_name c \<in> set (recommended_names containers) then 2 else of_bool (on_proxy_network c))"

definition prioritizeProxyNetworkContainers :: "DockerContainer list \<Rightarrow> DockerContainer list" where
  "prioritizeProxyNetworkContainers containers =
     js_sort (\<lambda>l r. proxy_score containers r - proxy_score containers l) containers"

definition container_haystack :: "DockerContainer \<Rightarrow> string" where
  "container_haystack c =
     str_lower (str_join '' ''
       ([co_name c, or_else (co_image c) [], or_else (co_state c) [], or_else (co_status c) [],
         or_else (co_compose_project c) [], or_else (co_compose_service c) []]
        @ co_networks c @ map formatDockerPortLabel (co_ports c)))"

definition filterDockerContainers :: "DockerContainer list \<Rightarrow> string \<Rightarrow> DockerContainer list" where
  "filterDockerContainers containers query =
     (if query = [] then containers else filter (\<lambda>c. str_includes (container_haystack c) query) containers)"

definition candidate_haystack :: "TraefikImportCandidate \<Rightarrow> string" where
  "candidate_haystack c =
     str_lower (str_join '' ''
       ([dc_domain c, tc_containerName c, or_else (tc_image c) [], dc_router_name c,
         or_else (tc_composeProject c) [], or_else (tc_composeService c) [],
         or_else (map_option rg_containerName (tc_recommendedGateway c)) [], show_nat (dc_upstream_port c)]
        @ tc_networks c))"

definition filterTraefikImportCandidates ::
    "TraefikImportCandidate list \<Rightarrow> string \<Rightarrow> TraefikImportCandidate list" where
  "filterTraefikImportCandidates candidates query =
     (if query = [] then candidates else filter (\<lambda>c. str_includes (candidate_haystack c) query) candidates)"

section \<open>Writing into the form (\<open>containerImportApply.ts\<close>)\<close>

definition applyBasicContainerImport ::
    "ServiceFormData \<Rightarrow> DockerContainer \<Rightarrow> DockerContainer option \<Rightarrow> ServiceFormData" where
  "applyBasicContainerImport v c upstream =
     (let u = default_to c upstream in
      v\<lparr>sf_name := co_name c, sf_upstream_host := co_name u,
        sf_upstream_port := of_nat (getSuggestedUpstreamPort u)\<rparr>)"

definition applyTraefikContainerImport :: "ServiceFormData \<Rightarrow> TraefikImportCandidate \<Rightarrow> ServiceFormData" where
  "applyTraefikContainerImport v c =
     v\<lparr>sf_name := tc_containerName c, sf_domain := dc_domain c, sf_upstream_host := dc_upstream_host c,
       sf_upstream_port := of_nat (dc_upstream_port c), sf_tls_enabled := dc_tls_enabled c\<rparr>"

definition withRecommendedGatewayUpstream :: "TraefikImportCandidate \<Rightarrow> TraefikImportCandidate" where
  "withRecommendedGatewayUpstream c =
     (case tc_recommendedGateway c of None \<Rightarrow> c
      | Some g \<Rightarrow> c\<lparr>dc_upstream_host := rg_containerName g, dc_upstream_port := rg_upstreamPort g\<rparr>)"

section \<open>The dialog (\<open>useServiceContainerImportModel.ts\<close>)\<close>

text \<open>
  The state of the dialog together with the form it writes to.  The search text the lists use
  is the deferred one; between renders it equals the search text.
\<close>

record import_state =
  im_open :: bool
  im_mode :: ContainerImportMode
  im_query :: string
  im_form :: ServiceFormData

definition availableContainers :: "DockerContainer list option \<Rightarrow> DockerContainer list" where
  "availableContainers dockerContainers = prioritizeProxyNetworkContainers (default_to [] dockerContainers)"

definition normalizedSearchQuery :: "import_state \<Rightarrow> string" where
  "normalizedSearchQuery s = str_lower (js_trim (im_query s))"

definition filteredContainers :: "DockerContainer list option \<Rightarrow> import_state \<Rightarrow> DockerContainer list" where
  "filteredContainers d s = filterDockerContainers (availableContainers d) (normalizedSearchQuery s)"

definition filteredTraefikImportCandidates ::
    "DockerContainer list option \<Rightarrow> import_state \<Rightarrow> TraefikImportCandidate list" where
  "filteredTraefikImportCandidates d s =
     filterTraefikImportCandidates (buildTraefikImportCandidates (availableContainers d)) (normalizedSearchQuery s)"

definition openContainerImportModal :: "import_state \<Rightarrow> import_state" where
  "openContainerImportModal s = s\<lparr>im_mode := ImportBasic, im_query := [], im_open := True\<rparr>"

definition handleBasicContainerImport ::
    "DockerContainer list option \<Rightarrow> DockerContainer \<Rightarrow> import_state \<Rightarrow> import_state" where
  "handleBasicContainerImport d c s =
     s\<lparr>im_form := applyBasicContainerImport (im_form s) c (findRecommendedComposeGateway c (availableContainers d)),
       im_open := False\<rparr>"

definition handleTraefikContainerImport :: "TraefikImportCandidate \<Rightarrow> import_state \<Rightarrow> import_state" where
  "handleTraefikContainerImport c s =
     s\<lparr>im_form := applyTraefikContainerImport (im_form s) c, im_open := False\<rparr>"

text \<open>A container of a Compose project, for concrete evaluations.\<close>

definition sample_container :: "string \<Rightarrow> string list \<Rightarrow> DockerContainer" where
  "sample_container n nets =
     \<lparr>co_id = None, co_name = n, co_image = None, co_state = None, co_status = None,
      co_compose_project = Some ''p'', co_compose_service = Some n, co_ports = [], co_networks = nets,
      co_traefik_candidates = []\<rparr>"

section \<open>The recommended gateway\<close>

definition gateway_candidate :: "DockerContainer \<Rightarrow> DockerContainer \<Rightarrow> bool" where
  "gateway_candidate c d =
     (co_compose_project d = co_compose_project c \<and> on_proxy_network d \<and> 0 < gatewayScore d)"

definition wants_gateway :: "DockerContainer \<Rightarrow> bool" where
  "wants_gateway c = (truthy (co_compose_project c) \<and> \<not> on_proxy_network c \<and> \<not> isLikelyNonHttpContainer c)"

lemma gateway_sort: "(\<lambda>l r. gatewayScore r - gatewayScore l) = key_cmp (\<lambda>c. - gatewayScore c)"
  by (simp add: key_cmp_def [abs_def])

lemma proxy_sort: "(\<lambda>l r. proxy_score cs r - proxy_score cs l) = key_cmp (\<lambda>c. - proxy_score cs c)"
  by (simp add: key_cmp_def [abs_def])

lemma find_gateway_alt:
  "findRecommendedComposeGateway c cs =
     (if wants_gateway c
      then case js_sort (key_cmp (\<lambda>c. - gatewayScore c)) (filter (gateway_candidate c) cs) of
             [] \<Rightarrow> None | d # _ \<Rightarrow> Some d
      else None)"
  by (auto simp: findRecommendedComposeGateway_def wants_gateway_def gateway_sort gateway_candidate_def [abs_def])

lemma sort_Nil_iff: "js_sort cmp xs = [] \<longleftrightarrow> xs = []"
  by (metis length_0_conv length_js_sort)

lemma find_gateway_first:
  "findRecommendedComposeGateway c cs = Some g \<longleftrightarrow>
     wants_gateway c \<and> gateway_candidate c g \<and>
     (\<exists>zs. filter (\<lambda>d. gateway_candidate c d \<and> gatewayScore d = gatewayScore g) cs = g # zs) \<and>
     (\<forall>d\<in>set cs. gateway_candidate c d \<longrightarrow> gatewayScore d \<le> gatewayScore g)"
  (is "?l \<longleftrightarrow> ?r")
proof
  assume ?l
  then obtain ds where w: "wants_gateway c"
    and s: "js_sort (key_cmp (\<lambda>c. - gatewayScore c)) (filter (gateway_candidate c) cs) = g # ds"
    by (auto simp: find_gateway_alt split: if_splits list.splits)
  have "g \<in> set (js_sort (key_cmp (\<lambda>c. - gatewayScore c)) (filter (gateway_candidate c) cs))"
    by (simp only: s list.set_intros)
  then have g: "gateway_candidate c g" by simp
  have "\<forall>d\<in>set cs. gateway_candidate c d \<longrightarrow> gatewayScore d \<le> gatewayScore g"
    using key.js_sort_hd_least [OF s] by (auto simp: key_cmp_def)
  moreover have "filter (\<lambda>x. key_cmp (\<lambda>c. - gatewayScore c) g x = 0) (filter (gateway_candidate c) cs)
      = filter (\<lambda>d. gateway_candidate c d \<and> gatewayScore d = gatewayScore g) cs"
    by (auto simp: key_cmp_def intro: filter_cong)
  ultimately show ?r using w g key.js_sort_hd_first [OF s] by simp
next
  assume r: ?r
  then obtain zs where z: "filter (\<lambda>d. gateway_candidate c d \<and> gatewayScore d = gatewayScore g) cs = g # zs" by blast
  from filter_Cons_mem [OF z] have "g \<in> set cs" by simp
  with r obtain h hs where s: "js_sort (key_cmp (\<lambda>c. - gatewayScore c)) (filter (gateway_candidate c) cs) = h # hs"
    by (cases "js_sort (key_cmp (\<lambda>c. - gatewayScore c)) (filter (gateway_candidate c) cs)")
      (auto simp: sort_Nil_iff filter_empty_conv)
  have "h \<in> set (js_sort (key_cmp (\<lambda>c. - gatewayScore c)) (filter (gateway_candidate c) cs))"
    by (simp only: s list.set_intros)
  then have h: "h \<in> set cs" "gateway_candidate c h" by simp_all
  have "gatewayScore h = gatewayScore g"
    using r h key.js_sort_hd_least [OF s, of g] \<open>g \<in> set cs\<close> by (auto simp: key_cmp_def intro: antisym)
  then have "filter (\<lambda>x. key_cmp (\<lambda>c. - gatewayScore c) h x = 0) (filter (gateway_candidate c) cs) = g # zs"
    using z by (simp add: key_cmp_def conj_commute)
  with key.js_sort_hd_first [OF s] have "h = g" by auto
  then show ?l using r s by (simp add: find_gateway_alt)
qed

lemma find_gateway_None:
  "findRecommendedComposeGateway c cs = None \<longleftrightarrow>
     \<not> (wants_gateway c \<and> (\<exists>d\<in>set cs. gateway_candidate c d))"
  by (auto simp: find_gateway_alt sort_Nil_iff filter_empty_conv split: list.splits)
    (metis filter_empty_conv list.distinct(1) sort_Nil_iff)

lemma recommended_score:
  assumes "c \<in> set cs" "findRecommendedComposeGateway c cs = Some g" "co_name g \<noteq> []"
  shows "proxy_score cs g = 2"
proof -
  have "\<not> on_proxy_network c" using assms(2) by (auto simp: find_gateway_first wants_gateway_def)
  then have "co_name g \<in> set (recommended_names cs)"
    using assms by (force simp: recommended_names_def List.map_filter_def)
  then show ?thesis by (simp add: proxy_score_def)
qed

lemma proxy_score_le: "proxy_score cs d \<le> 2"
  by (simp add: proxy_score_def)

section \<open>Properties\<close>

text \<open>A gateway is recommended exactly for a container of a Compose project that is not itself
  on the proxy network and is no database, when its project has a gateway-like container on the
  proxy network; the recommended one has the highest score of them, and is the first of those in
  the list.\<close>

theorem recommended_gateway_spec:
  "(findRecommendedComposeGateway c cs = Some g \<longleftrightarrow>
     wants_gateway c \<and> gateway_candidate c g \<and>
     (\<exists>zs. filter (\<lambda>d. gateway_candidate c d \<and> gatewayScore d = gatewayScore g) cs = g # zs) \<and>
     (\<forall>d\<in>set cs. gateway_candidate c d \<longrightarrow> gatewayScore d \<le> gatewayScore g)) \<and>
   (findRecommendedComposeGateway c cs = None \<longleftrightarrow>
     \<not> (wants_gateway c \<and> (\<exists>d\<in>set cs. gateway_candidate c d)))"
  by (simp only: find_gateway_first find_gateway_None simp_thms)

text \<open>The order in which the dialog lists the containers does not change the
  recommendations: after the containers were sorted by priority, every listed container still
  gets the gateway it got from the list the backend sent (container names are not empty).\<close>

theorem gateway_after_prioritize:
  assumes "c \<in> set cs" "\<forall>d\<in>set cs. co_name d \<noteq> []"
  shows "findRecommendedComposeGateway c (prioritizeProxyNetworkContainers cs)
    = findRecommendedComposeGateway c cs"
proof (cases "findRecommendedComposeGateway c cs")
  case None
  then have "findRecommendedComposeGateway c (prioritizeProxyNetworkContainers cs) = None"
    by (simp add: find_gateway_None prioritizeProxyNetworkContainers_def)
  with None show ?thesis by simp
next
  case (Some g)
  let ?Q = "\<lambda>d. gateway_candidate c d \<and> gatewayScore d = gatewayScore g"
  let ?k = "key_cmp (\<lambda>c. - proxy_score cs c)"
  obtain zs where z: "filter ?Q cs = g # zs" using Some by (auto simp: find_gateway_first)
  from filter_Cons_mem [OF z] have "g \<in> set cs" by simp
  then have "proxy_score cs g = 2" using recommended_score [OF assms(1) Some] assms(2) by blast
  then have "?k g d \<le> 0" for d using proxy_score_le [of cs d] unfolding key_cmp_def by linarith
  then have "js_sort ?k (g # zs) = g # js_sort ?k zs" by (rule key.js_sort_Cons_least)
  then have "filter ?Q (js_sort ?k cs) = g # js_sort ?k zs" by (simp only: key.js_sort_filter z)
  then have "findRecommendedComposeGateway c (js_sort ?k cs) = Some g"
    using Some unfolding find_gateway_first set_js_sort by blast
  then show ?thesis by (simp only: Some prioritizeProxyNetworkContainers_def proxy_sort)
qed

end
