(* ===== verification/Api_Proxy.thy ===== *)
theory Api_Proxy
  imports JS_Date
begin

text \<open>
  The server-side proxy in front of the backend: \<open>app/api/v1/[...path]/apiProxy.ts\<close> and its
  route handlers.

  Headers are a list of lower-case names and values, in the order they were added; iterating
  over them sorts the names and joins the values of a name, cookies apart, as the Fetch
  standard says.  A path is resolved against the upstream the way the URL standard resolves an
  absolute path.  The upstream itself is a function on an abstract world.
\<close>

section \<open>Headers\<close>

type_synonym headers = "(string \<times> string) list"

definition hdr_values :: "string \<Rightarrow> headers \<Rightarrow> string list" where
  "hdr_values k hs = map snd (filter (\<lambda>h. fst h = str_lower k) hs)"

definition hdr_get :: "string \<Rightarrow> headers \<Rightarrow> string option" where
  "hdr_get k hs = (if hdr_values k hs = [] then None else Some (str_join '', '' (hdr_values k hs)))"

definition hdr_append :: "string \<Rightarrow> string \<Rightarrow> headers \<Rightarrow> headers" where
  "hdr_append k v hs = hs @ [(str_lower k, v)]"

fun hdr_set_low :: "string \<Rightarrow> string \<Rightarrow> headers \<Rightarrow> headers" where
  "hdr_set_low k v [] = [(k, v)]"
| "hdr_set_low k v ((a, b) # hs) =
     (if a = k then (k, v) # filter (\<lambda>h. fst h \<noteq> k) hs else (a, b) # hdr_set_low k v hs)"

definition hdr_set :: "string \<Rightarrow> string \<Rightarrow> headers \<Rightarrow> headers" where
  "hdr_set k v hs = hdr_set_low (str_lower k) v hs"

definition getSetCookie :: "headers \<Rightarrow> string list" where
  "getSetCookie hs = hdr_values ''set-cookie'' hs"

definition name_cmp :: "string \<Rightarrow> string \<Rightarrow> int" where
  "name_cmp a b = (if str_less a b then - 1 else if a = b then 0 else 1)"

text \<open>What \<open>headers.forEach\<close> visits.\<close>

definition hdr_entries :: "headers \<Rightarrow> (string \<times> string) list" where
  "hdr_entries hs =
     concat (map (\<lambda>k. if k = ''set-cookie'' then map (\<lambda>v. (k, v)) (hdr_values k hs)
                      else [(k, str_join '', '' (hdr_values k hs))])
       (js_sort name_cmp (js_unique (map fst hs))))"

section \<open>Paths\<close>

definition percent_byte :: "char \<Rightarrow> string" where
  "percent_byte c =
     (let b = (of_char c :: nat); h = (\<lambda>n. if n < 10 then char_of (48 + n) else char_of (55 + n))
      in [CHR ''%'', h (b div 16), h (b mod 16)])"

text \<open>The characters that the path percent-encode set contains.\<close>

definition path_encode_char :: "char \<Rightarrow> string" where
  "path_encode_char c =
     (let b = (of_char c :: nat) in
      if b \<le> 0x20 \<or> 0x7E < b \<or> c \<in> {CHR 0x22, CHR ''#'', CHR ''<'', CHR ''>'', CHR ''?'', CHR ''^'',
        CHR 0x60, CHR ''{'', CHR ''}''}
      then percent_byte c else [c])"

definition path_encode :: "string \<Rightarrow> string" where
  "path_encode s = concat (map path_encode_char s)"

definition single_dot :: "string \<Rightarrow> bool" where
  "single_dot s = (str_lower s \<in> {''.'', ''%2e''})"

definition double_dot :: "string \<Rightarrow> bool" where
  "double_dot s = (str_lower s \<in> {''..'', ''.%2e'', ''%2e.'', ''%2e%2e''})"

text \<open>The segments of a path that may use backslashes.\<close>

definition path_segments :: "string \<Rightarrow> string list" where
  "path_segments s = str_split CHR ''/'' (map (\<lambda>c. if c = CHR 0x5C then CHR ''/'' else c) s)"

fun resolve_segments :: "string list \<Rightarrow> string list \<Rightarrow> string list" where
  "resolve_segments acc [] = acc"
| "resolve_segments acc (s # ss) =
     (if double_dot s then resolve_segments (butlast acc @ (if ss = [] then [[]] else [])) ss
      else if single_dot s then resolve_segments (acc @ (if ss = [] then [[]] else [])) ss
      else resolve_segments (acc @ [path_encode s]) ss)"

text \<open>The URL parser drops tabs and line breaks anywhere and controls and spaces at the end.\<close>

definition url_input :: "string \<Rightarrow> string" where
  "url_input s =
     (let t = rev (dropWhile (\<lambda>c. (of_char c :: nat) \<le> 0x20) (rev s))
      in filter (\<lambda>c. c \<noteq> CHR 0x09 \<and> c \<noteq> CHR 0x0A \<and> c \<noteq> CHR 0x0D) t)"

text \<open>\<open>new URL(path, base).pathname\<close> for a path that begins with one slash.\<close>

definition resolve_path :: "string \<Rightarrow> string" where
  "resolve_path s =
     (let p = takeWhile (\<lambda>c. c \<noteq> CHR ''?'' \<and> c \<noteq> CHR ''#'') (url_input s)
      in concat (map (\<lambda>seg. CHR ''/'' # seg) (resolve_segments [] (tl (path_segments p)))))"

section \<open>The proxy (\<open>apiProxy.ts\<close>)\<close>

record proxy_request =
  rq_method :: string
  rq_protocol :: string
  rq_search :: string
  rq_headers :: headers
  rq_body :: string

record upstream_url =
  uu_origin :: string
  uu_path :: string
  uu_search :: string

record upstream_request =
  ur_url :: upstream_url
  ur_method :: string
  ur_headers :: headers
  ur_body :: "string option"
  ur_cache :: string
  ur_redirect :: string

record upstream_response =
  us_status :: nat
  us_statusText :: string
  us_headers :: headers
  us_body :: string

record next_response =
  nr_status :: nat
  nr_statusText :: string
  nr_headers :: headers
  nr_body :: "string option"

definition HOP_BY_HOP_HEADERS :: "string list" where
  "HOP_BY_HOP_HEADERS =
     [''connection'', ''keep-alive'', ''proxy-authenticate'', ''proxy-authorization'', ''te'', ''trailer'',
      ''transfer-encoding'', ''upgrade'']"

text \<open>The upstream of the environment, or the default; \<open>origin\<close> below is the origin of this URL.\<close>

definition backendUpstream :: "string option \<Rightarrow> string" where
  "backendUpstream BACKEND_UPSTREAM_URL = or_else BACKEND_UPSTREAM_URL ''http://traefik-manager-backend:8000''"

definition buildUpstreamUrl :: "string \<Rightarrow> proxy_request \<Rightarrow> string \<Rightarrow> upstream_url" where
  "buildUpstreamUrl origin request upstreamPath =
     \<lparr>uu_origin = origin, uu_path = resolve_path upstreamPath, uu_search = rq_search request\<rparr>"

definition forward_request_header :: "string \<times> string \<Rightarrow> headers \<Rightarrow> headers" where
  "forward_request_header h hs =
     (let normalizedKey = str_lower (fst h) in
      if normalizedKey = ''host'' \<or> normalizedKey \<in> set HOP_BY_HOP_HEADERS then hs
      else hdr_set (fst h) (snd h) hs)"

definition buildUpstreamHeaders :: "proxy_request \<Rightarrow> headers" where
  "buildUpstreamHeaders request =
     (let headers = fold forward_request_header (hdr_entries (rq_headers request)) [];
          headers = hdr_set ''x-forwarded-host'' (or_else (hdr_get ''host'' (rq_headers request)) []) headers
      in hdr_set ''x-forwarded-proto'' (remove1 CHR '':'' (rq_protocol request)) headers)"

definition forward_response_header :: "string \<times> string \<Rightarrow> headers \<Rightarrow> headers" where
  "forward_response_header h hs =
     (let normalizedKey = str_lower (fst h) in
      if normalizedKey = ''set-cookie'' \<or> normalizedKey \<in> set HOP_BY_HOP_HEADERS then hs
      else hdr_append (fst h) (snd h) hs)"

text \<open>\<open>new NextResponse(body, init)\<close>: the constructor of a response refuses a status outside
  200..599 and a body for a status that has none.\<close>

definition new_response :: "string option \<Rightarrow> nat \<Rightarrow> string \<Rightarrow> headers \<Rightarrow> js_error + next_response" where
  "new_response body status statusText hs =
     (if status < 200 \<or> 599 < status then Inl RangeError
      else if body \<noteq> None \<and> status \<in> {204, 205, 304} then Inl TypeError
      else Inr \<lparr>nr_status = status, nr_statusText = statusText, nr_headers = hs, nr_body = body\<rparr>)"

definition response_headers :: "upstream_response \<Rightarrow> headers" where
  "response_headers r =
     (let hs = fold forward_response_header (hdr_entries (us_headers r)) [];
          hs = fold (hdr_append ''set-cookie'') (getSetCookie (us_headers r)) hs;
          hs = hdr_set ''cache-control'' ''no-store, no-cache, must-revalidate, max-age=0'' hs;
          hs = hdr_set ''pragma'' ''no-cache'' hs
      in hdr_set ''expires'' ''0'' hs)"

definition buildProxyResponse :: "upstream_response \<Rightarrow> js_error + next_response" where
  "buildProxyResponse r =
     (let body = (if us_status r = 204 \<or> us_status r = 304 then None else Some (us_body r))
      in new_response body (us_status r) (us_statusText r) (response_headers r))"

definition str_upper :: "string \<Rightarrow> string" where
  "str_upper s =
     map (\<lambda>c. let b = (of_char c :: nat) in if 97 \<le> b \<and> b \<le> 122 then char_of (b - 32) else c) s"

definition upstream_init :: "string \<Rightarrow> proxy_request \<Rightarrow> string \<Rightarrow> upstream_request" where
  "upstream_init origin request upstreamPath =
     (let method = str_upper (rq_method request) in
      \<lparr>ur_url = buildUpstreamUrl origin request upstreamPath,
       ur_method = method,
       ur_headers = buildUpstreamHeaders request,
       ur_body = (if method \<notin> {''GET'', ''HEAD''} \<and> rq_body request \<noteq> [] then Some (rq_body request) else None),
       ur_cache = ''no-store'',
       ur_redirect = ''manual''\<rparr>)"

definition proxyUpstreamPath ::
    "('w \<Rightarrow> upstream_request \<Rightarrow> (js_error + upstream_response) \<times> 'w) \<Rightarrow> string \<Rightarrow>
     proxy_request \<Rightarrow> string \<Rightarrow> 'w \<Rightarrow> (js_error + next_response) \<times> 'w" where
  "proxyUpstreamPath fetch origin request upstreamPath w =
     (case fetch w (upstream_init origin request upstreamPath) of
        (Inl e, w') \<Rightarrow> (Inl e, w')
      | (Inr r, w') \<Rightarrow> (buildProxyResponse r, w'))"

definition proxyRequest ::
    "('w \<Rightarrow> upstream_request \<Rightarrow> (js_error + upstream_response) \<times> 'w) \<Rightarrow> string \<Rightarrow>
     proxy_request \<Rightarrow> string list \<Rightarrow> 'w \<Rightarrow> (js_error + next_response) \<times> 'w" where
  "proxyRequest fetch origin request path w =
     proxyUpstreamPath fetch origin request (''/api/v1/'' @ str_join ''/'' path) w"

text \<open>The handlers of \<open>route.ts\<close>: one per method the router dispatches; other methods are
  answered by the framework.\<close>

definition route_methods :: "string list" where
  "route_methods = [''GET'', ''POST'', ''PUT'', ''PATCH'', ''DELETE'', ''OPTIONS'']"

section \<open>Lemmas on headers\<close>

definition lower_names :: "headers \<Rightarrow> bool" where
  "lower_names hs = list_all (\<lambda>h. str_lower (fst h) = fst h) hs"

lemma values_set_low: "map snd (filter (\<lambda>h. fst h = j) (hdr_set_low k v hs))
    = (if j = k then [v] else map snd (filter (\<lambda>h. fst h = j) hs))"
proof (induction k v hs rule: hdr_set_low.induct)
  case (2 k v a b hs)
  have "filter (\<lambda>h. fst h = j) (filter (\<lambda>h. fst h \<noteq> k) hs) = (if j = k then [] else filter (\<lambda>h. fst h = j) hs)"
    by (auto simp: filter_empty_conv intro: filter_cong)
  with 2 show ?case by (auto simp del: filter_filter)
qed simp

lemma values_set [simp]: "hdr_values j (hdr_set k v hs) = (if str_lower j = str_lower k then [v] else hdr_values j hs)"
  by (simp add: hdr_values_def hdr_set_def values_set_low)

lemma values_append [simp]:
  "hdr_values j (hdr_append k v hs) = hdr_values j hs @ (if str_lower j = str_lower k then [v] else [])"
  by (simp add: hdr_values_def hdr_append_def)

lemma values_Nil [simp]: "hdr_values j [] = []"
  by (simp add: hdr_values_def)

lemma values_appends:
  "hdr_values j (fold (hdr_append k) vs hs) = hdr_values j hs @ (if str_lower j = str_lower k then vs else [])"
  by (induction vs arbitrary: hs) auto

lemma values_empty_iff: "hdr_values j hs = [] \<longleftrightarrow> str_lower j \<notin> fst ` set hs"
  by (force simp: hdr_values_def filter_empty_conv)

text \<open>What a fold over the visited headers leaves under a name.\<close>

lemma values_request_fold:
  "hdr_values j (fold forward_request_header es hs) =
     (let fs = filter (\<lambda>e. str_lower (fst e) = str_lower j) es in
      if str_lower j = ''host'' \<or> str_lower j \<in> set HOP_BY_HOP_HEADERS \<or> fs = [] then hdr_values j hs
      else [snd (last fs)])"
proof (induction es rule: rev_induct)
  case (snoc e es)
  then show ?case by (simp add: forward_request_header_def Let_def)
qed simp

lemma values_response_fold:
  "hdr_values j (fold forward_response_header es hs) = hdr_values j hs @
     (if str_lower j = ''set-cookie'' \<or> str_lower j \<in> set HOP_BY_HOP_HEADERS then []
      else map snd (filter (\<lambda>e. str_lower (fst e) = str_lower j) es))"
proof (induction es rule: rev_induct)
  case (snoc e es)
  then show ?case by (auto simp: forward_response_header_def Let_def)
qed simp

lemma filter_concat_names:
  assumes "distinct ns" "\<And>k e. k \<in> set ns \<Longrightarrow> e \<in> set (f k) \<Longrightarrow> g e = k"
  shows "filter (\<lambda>e. g e = j) (concat (map f ns)) = (if j \<in> set ns then f j else [])"
  using assms
proof (induction ns)
  case (Cons k ns)
  have "filter (\<lambda>e. g e = j) (f k) = (if j = k then f k else [])"
    using Cons.prems(2) [of k] by (auto simp: filter_id_conv filter_empty_conv)
  moreover have "filter (\<lambda>e. g e = j) (concat (map f ns)) = (if j \<in> set ns then f j else [])"
    using Cons.prems by (intro Cons.IH) auto
  ultimately show ?case using Cons.prems(1) by auto
qed simp

lemma lower_literals:
  "str_lower ''x-forwarded-host'' = ''x-forwarded-host''" "str_lower ''x-forwarded-proto'' = ''x-forwarded-proto''"
  "str_lower ''cache-control'' = ''cache-control''" "str_lower ''pragma'' = ''pragma''"
  "str_lower ''expires'' = ''expires''" "str_lower ''set-cookie'' = ''set-cookie''" "str_lower ''host'' = ''host''"
  by (simp_all add: str_lower_def char_lower_def)

lemma entries_of_name:
  assumes "lower_names hs" "j \<noteq> ''set-cookie'' " "str_lower j = j"
  shows "map snd (filter (\<lambda>e. str_lower (fst e) = j) (hdr_entries hs))
    = (case hdr_get j hs of None \<Rightarrow> [] | Some v \<Rightarrow> [v])"
proof -
  let ?f = "\<lambda>k. if k = ''set-cookie'' then map (\<lambda>v. (k, v)) (hdr_values k hs)
                else [(k, str_join '', '' (hdr_values k hs))]"
  let ?ns = "js_sort name_cmp (js_unique (map fst hs))"
  have low: "str_lower k = k" if "k \<in> set ?ns" for k
    using that assms(1) by (auto simp: lower_names_def list_all_iff)
  have "filter (\<lambda>e. str_lower (fst e) = j) (concat (map ?f ?ns)) = (if j \<in> set ?ns then ?f j else [])"
    by (rule filter_concat_names) (auto split: if_splits simp: low [simplified] lower_literals)
  moreover have "j \<in> set ?ns \<longleftrightarrow> hdr_values j hs \<noteq> []" using assms(3) by (simp add: values_empty_iff)
  ultimately show ?thesis using assms(2) by (simp add: hdr_entries_def hdr_get_def)
qed

lemma hop_lower: "k \<in> set HOP_BY_HOP_HEADERS \<Longrightarrow> str_lower k = k"
  by (auto simp: HOP_BY_HOP_HEADERS_def str_lower_def char_lower_def)

lemma hop_not_extra:
  "k \<in> set HOP_BY_HOP_HEADERS \<Longrightarrow>
   k \<notin> {''x-forwarded-host'', ''x-forwarded-proto'', ''cache-control'', ''pragma'', ''expires'', ''set-cookie''}"
  by (auto simp: HOP_BY_HOP_HEADERS_def)

lemma upstream_values:
  assumes "str_lower k = k" "k \<notin> {''x-forwarded-host'', ''x-forwarded-proto''}"
  shows "hdr_values k (buildUpstreamHeaders r)
    = hdr_values k (fold forward_request_header (hdr_entries (rq_headers r)) [])"
  using assms by (simp add: buildUpstreamHeaders_def Let_def lower_literals)

lemma response_values:
  assumes "str_lower k = k" "k \<notin> {''cache-control'', ''pragma'', ''expires''}"
  shows "hdr_values k (response_headers r)
    = hdr_values k (fold forward_response_header (hdr_entries (us_headers r)) [])
      @ (if k = ''set-cookie'' then getSetCookie (us_headers r) else [])"
  using assms by (simp add: response_headers_def Let_def lower_literals values_appends)

section \<open>Lemmas on paths\<close>

definition path_safe_char :: "char \<Rightarrow> bool" where
  "path_safe_char c =
     (0x20 < (of_char c :: nat) \<and> (of_char c :: nat) \<le> 0x7E \<and>
      c \<notin> {CHR 0x22, CHR ''#'', CHR ''<'', CHR ''>'', CHR ''?'', CHR ''^'', CHR 0x60, CHR ''{'', CHR ''}'',
            CHR ''/'', CHR 0x5C})"

definition plain_segment :: "string \<Rightarrow> bool" where
  "plain_segment s = (list_all path_safe_char s \<and> \<not> single_dot s \<and> \<not> double_dot s)"

lemma path_encode_safe: "list_all path_safe_char s \<Longrightarrow> path_encode s = s"
  by (induction s) (auto simp: path_encode_def path_encode_char_def path_safe_char_def)

lemma resolve_plain: "list_all plain_segment ss \<Longrightarrow> resolve_segments acc ss = acc @ ss"
  by (induction acc ss rule: resolve_segments.induct) (auto simp: plain_segment_def path_encode_safe)

lemma url_input_safe:
  assumes "list_all (\<lambda>c. 0x20 < (of_char c :: nat)) s" shows "url_input s = s"
proof -
  have "dropWhile (\<lambda>c. (of_char c :: nat) \<le> 0x20) (rev s) = rev s"
    using assms by (cases "rev s") (auto simp: list_all_iff dropWhile_eq_self_iff simp flip: set_rev [of s])
  moreover have "filter (\<lambda>c. c \<noteq> CHR 0x09 \<and> c \<noteq> CHR 0x0A \<and> c \<noteq> CHR 0x0D) s = s"
    using assms by (auto simp: filter_id_conv list_all_iff)
  ultimately show ?thesis by (simp add: url_input_def)
qed

lemma join_slashes: "xs \<noteq> [] \<Longrightarrow> concat (map (\<lambda>seg. CHR ''/'' # seg) xs) = CHR ''/'' # str_join ''/'' xs"
  by (induction "''/''" xs rule: str_join.induct) auto

lemma set_str_join: "c \<in> set (str_join d xs) \<Longrightarrow> c \<in> set d \<or> (\<exists>x\<in>set xs. c \<in> set x)"
  by (induction d xs rule: str_join.induct) auto

lemma resolve_plain_path:
  assumes "list_all plain_segment xs" "xs \<noteq> []"
  shows "resolve_path (CHR ''/'' # str_join ''/'' xs) = CHR ''/'' # str_join ''/'' xs"
proof -
  let ?s = "CHR ''/'' # str_join ''/'' xs"
  have c: "path_safe_char c \<or> c = CHR ''/''" if "c \<in> set ?s" for c
    using that set_str_join [of c "''/''" xs] assms(1) by (auto simp: plain_segment_def list_all_iff)
  have u: "url_input ?s = ?s"
    by (rule url_input_safe) (use c in \<open>force simp: list_all_iff path_safe_char_def\<close>)
  have t: "takeWhile (\<lambda>c. c \<noteq> CHR ''?'' \<and> c \<noteq> CHR ''#'') ?s = ?s"
    using c by (force simp: takeWhile_eq_all_conv path_safe_char_def)
  have b: "map (\<lambda>c. if c = CHR 0x5C then CHR ''/'' else c) ?s = ?s"
    using c by (intro map_idI) (force simp: path_safe_char_def)
  have "CHR ''/'' \<notin> set x" if "x \<in> set xs" for x
    using that assms(1) by (force simp: plain_segment_def list_all_iff path_safe_char_def)
  then have "str_split CHR ''/'' (str_join ''/'' xs) = xs" using assms(2) by (intro str_split_join) auto
  then have "tl (path_segments ?s) = xs" unfolding path_segments_def b by simp
  then show ?thesis
    using resolve_plain [OF assms(1), of "[]"] join_slashes [OF assms(2)] by (simp only: resolve_path_def u t Let_def append_Nil)
qed

lemma proxy_upstream_path:
  assumes "resolve_path up = up" "fetch w (upstream_init origin request up) = (Inr r, w')"
  shows "ur_url (upstream_init origin request up)
      = \<lparr>uu_origin = origin, uu_path = up, uu_search = rq_search request\<rparr> \<and>
    (ur_body (upstream_init origin request up) = None \<longleftrightarrow>
      str_upper (rq_method request) = ''GET'' \<or> str_upper (rq_method request) = ''HEAD'' \<or> rq_body request = []) \<and>
    snd (proxyUpstreamPath fetch origin request up w) = w' \<and>
    (case fst (proxyUpstreamPath fetch origin request up w) of
       Inl e \<Rightarrow> us_status r < 200 \<or> 599 < us_status r \<or> us_status r = 205
     | Inr resp \<Rightarrow> nr_status resp = us_status r \<and>
         nr_body resp = (if us_status r = 204 \<or> us_status r = 304 then None else Some (us_body r)))"
proof -
  have "ur_url (upstream_init origin request up) = \<lparr>uu_origin = origin, uu_path = up, uu_search = rq_search request\<rparr>"
    by (simp add: upstream_init_def buildUpstreamUrl_def assms(1) Let_def)
  moreover have "ur_body (upstream_init origin request up) = None \<longleftrightarrow>
      str_upper (rq_method request) = ''GET'' \<or> str_upper (rq_method request) = ''HEAD'' \<or> rq_body request = []"
    by (simp add: upstream_init_def Let_def)
  moreover have "snd (proxyUpstreamPath fetch origin request up w) = w'"
    by (simp add: proxyUpstreamPath_def assms(2))
  moreover have "case fst (proxyUpstreamPath fetch origin request up w) of
       Inl e \<Rightarrow> us_status r < 200 \<or> 599 < us_status r \<or> us_status r = 205
     | Inr resp \<Rightarrow> nr_status resp = us_status r \<and>
         nr_body resp = (if us_status r = 204 \<or> us_status r = 304 then None else Some (us_body r))"
    by (auto simp: proxyUpstreamPath_def assms(2) buildProxyResponse_def new_response_def Let_def)
  ultimately show ?thesis by blast
qed

section \<open>Properties\<close>

text \<open>What reaches the backend: no hop-by-hop header and not the host of the browser, which
  arrives as \<open>x-forwarded-host\<close> instead; every other header arrives with the value the browser
  sent.\<close>

theorem upstream_headers_correct:
  assumes "lower_names (rq_headers r)"
  shows "(\<forall>k\<in>set (''host'' # HOP_BY_HOP_HEADERS). hdr_get k (buildUpstreamHeaders r) = None) \<and>
    hdr_get ''x-forwarded-host'' (buildUpstreamHeaders r) = Some (or_else (hdr_get ''host'' (rq_headers r)) []) \<and>
    (\<forall>k. str_lower k = k \<and> k \<notin> set HOP_BY_HOP_HEADERS \<and>
         k \<notin> {''host'', ''set-cookie'', ''x-forwarded-host'', ''x-forwarded-proto''} \<longrightarrow>
         hdr_get k (buildUpstreamHeaders r) = hdr_get k (rq_headers r))"
proof (intro conjI ballI allI impI)
  fix k assume k: "k \<in> set (''host'' # HOP_BY_HOP_HEADERS)"
  have "hdr_values k (buildUpstreamHeaders r) = []"
    using k hop_lower [of k] hop_not_extra [of k]
    by (subst upstream_values) (auto simp: values_request_fold Let_def lower_literals)
  then show "hdr_get k (buildUpstreamHeaders r) = None" by (simp add: hdr_get_def)
next
  show "hdr_get ''x-forwarded-host'' (buildUpstreamHeaders r) = Some (or_else (hdr_get ''host'' (rq_headers r)) [])"
    by (simp add: hdr_get_def [of "''x-forwarded-host''"] buildUpstreamHeaders_def Let_def lower_literals)
next
  fix k assume k: "str_lower k = k \<and> k \<notin> set HOP_BY_HOP_HEADERS \<and>
      k \<notin> {''host'', ''set-cookie'', ''x-forwarded-host'', ''x-forwarded-proto''}"
  let ?fs = "filter (\<lambda>e. str_lower (fst e) = k) (hdr_entries (rq_headers r))"
  have e: "map snd ?fs = (case hdr_get k (rq_headers r) of None \<Rightarrow> [] | Some v \<Rightarrow> [v])"
    using entries_of_name [OF assms, of k] k by simp
  have v: "hdr_values k (buildUpstreamHeaders r) = (if ?fs = [] then [] else [snd (last ?fs)])"
    using k by (subst upstream_values) (auto simp: values_request_fold Let_def)
  show "hdr_get k (buildUpstreamHeaders r) = hdr_get k (rq_headers r)"
  proof (cases "hdr_get k (rq_headers r)")
    case None
    then show ?thesis using e v by (simp add: hdr_get_def)
  next
    case (Some x)
    then obtain a where "?fs = [(a, x)]" using e by (auto simp: map_eq_Cons_conv)
    then show ?thesis using v Some by (simp add: hdr_get_def)
  qed
qed

text \<open>C4. What the browser gets: every response forbids caching, whatever the backend said; all
  cookies the backend sets arrive, in order and unjoined; no hop-by-hop header arrives; and
  every other header arrives with the backend's value.\<close>

theorem response_headers_correct:
  assumes "lower_names (us_headers r)"
  shows "hdr_get ''cache-control'' (response_headers r) = Some ''no-store, no-cache, must-revalidate, max-age=0'' \<and>
    getSetCookie (response_headers r) = getSetCookie (us_headers r) \<and>
    (\<forall>k\<in>set HOP_BY_HOP_HEADERS. hdr_get k (response_headers r) = None) \<and>
    (\<forall>k. str_lower k = k \<and> k \<notin> set HOP_BY_HOP_HEADERS \<and>
         k \<notin> {''cache-control'', ''pragma'', ''expires'', ''set-cookie''} \<longrightarrow>
         hdr_get k (response_headers r) = hdr_get k (us_headers r))"
proof (intro conjI ballI allI impI)
  show "hdr_get ''cache-control'' (response_headers r) = Some ''no-store, no-cache, must-revalidate, max-age=0''"
    by (simp add: hdr_get_def response_headers_def Let_def lower_literals)
next
  have "hdr_values ''set-cookie'' (response_headers r) = getSetCookie (us_headers r)"
    by (subst response_values) (simp_all add: lower_literals values_response_fold)
  then show "getSetCookie (response_headers r) = getSetCookie (us_headers r)"
    by (simp add: getSetCookie_def)
next
  fix k assume k: "k \<in> set HOP_BY_HOP_HEADERS"
  have "hdr_values k (response_headers r) = []"
    using k hop_lower [of k] hop_not_extra [of k]
    by (subst response_values) (auto simp: values_response_fold)
  then show "hdr_get k (response_headers r) = None" by (simp add: hdr_get_def)
next
  fix k assume k: "str_lower k = k \<and> k \<notin> set HOP_BY_HOP_HEADERS \<and>
      k \<notin> {''cache-control'', ''pragma'', ''expires'', ''set-cookie''}"
  have "hdr_values k (response_headers r) = (case hdr_get k (us_headers r) of None \<Rightarrow> [] | Some v \<Rightarrow> [v])"
    using k entries_of_name [OF assms, of k] by (subst response_values) (auto simp: values_response_fold)
  then show "hdr_get k (response_headers r) = hdr_get k (us_headers r)"
    by (cases "hdr_get k (us_headers r)") (simp_all add: hdr_get_def [of k "response_headers r"])
qed

theorem response_headers_correct_witness:
  "hdr_get ''cache-control'' (response_headers
     \<lparr>us_status = 200, us_statusText = ''OK'', us_headers = [(''cache-control'', ''public''), (''set-cookie'', ''s=1'')],
      us_body = []\<rparr>) = Some ''no-store, no-cache, must-revalidate, max-age=0''"
  by (rule response_headers_correct [THEN conjunct1])
    (simp add: lower_names_def str_lower_def char_lower_def)

text \<open>C23. The request the proxy sends: a path of plain segments arrives unchanged below
  \<open>/api/v1\<close> at the configured origin, with the query string of the browser; a body is sent
  exactly for the methods that have one; and the answer of the upstream is returned with its
  status, except that a status outside 200..599, and 205, end in an error.\<close>

theorem proxyRequest_correct:
  assumes "list_all plain_segment path"
    and "fetch w (upstream_init origin request (''/api/v1/'' @ str_join ''/'' path)) = (Inr r, w')"
  shows "ur_url (upstream_init origin request (''/api/v1/'' @ str_join ''/'' path))
      = \<lparr>uu_origin = origin, uu_path = ''/api/v1/'' @ str_join ''/'' path, uu_search = rq_search request\<rparr> \<and>
    (ur_body (upstream_init origin request (''/api/v1/'' @ str_join ''/'' path)) = None \<longleftrightarrow>
      str_upper (rq_method request) = ''GET'' \<or> str_upper (rq_method request) = ''HEAD'' \<or> rq_body request = []) \<and>
    snd (proxyRequest fetch origin request path w) = w' \<and>
    (case fst (proxyRequest fetch origin request path w) of
       Inl e \<Rightarrow> us_status r < 200 \<or> 599 < us_status r \<or> us_status r = 205
     | Inr resp \<Rightarrow> nr_status resp = us_status r \<and>
         nr_body resp = (if us_status r = 204 \<or> us_status r = 304 then None else Some (us_body r)))"
proof -
  have p: "resolve_path (''/api/v1/'' @ str_join ''/'' path) = ''/api/v1/'' @ str_join ''/'' path"
  proof -
    have e: "str_join ''/'' (''api'' # ''v1'' # (if path = [] then [[]] else path)) = ''api/v1/'' @ str_join ''/'' path"
      by (cases path) auto
    have "list_all plain_segment (''api'' # ''v1'' # (if path = [] then [[]] else path))"
      using assms(1)
      by (auto simp: plain_segment_def path_safe_char_def single_dot_def double_dot_def str_lower_def char_lower_def)
    from resolve_plain_path [OF this] show ?thesis unfolding e by simp
  qed
  show ?thesis
    using proxy_upstream_path [OF p, of fetch w origin request r w'] assms(2) by (simp only: proxyRequest_def)
qed

theorem proxyRequest_correct_witness:
  "nr_status (projr (fst (proxyRequest
     (\<lambda>w q. (Inr \<lparr>us_status = 200, us_statusText = ''OK'', us_headers = [], us_body = ur_method q\<rparr>, w))
     ''http://b:8000'' \<lparr>rq_method = ''get'', rq_protocol = ''http:'', rq_search = [], rq_headers = [], rq_body = []\<rparr>
     [''services''] ()))) = 200"
proof -
  let ?r = "\<lparr>rq_method = ''get'', rq_protocol = ''http:'', rq_search = [], rq_headers = [], rq_body = []\<rparr>"
  let ?f = "\<lambda>(w::unit) q. (Inr \<lparr>us_status = 200, us_statusText = ''OK'', us_headers = [], us_body = ur_method q\<rparr>, w)"
  have "list_all plain_segment [''services'']"
    by (simp add: plain_segment_def path_safe_char_def single_dot_def double_dot_def str_lower_def char_lower_def)
  from proxyRequest_correct [OF this, of ?f "()" "''http://b:8000''" ?r] show ?thesis
    by (auto split: sum.splits)
qed

text \<open>A path with dot segments leaves the prefix: the catch-all parameters are joined before the
  path is resolved.\<close>

lemma proxy_dot_segments_escape:
  "uu_path (ur_url (upstream_init origin request (''/api/v1/'' @ str_join ''/'' [''..'', ''..'', ''docs'']))) = ''/docs''"
  by (simp add: upstream_init_def buildUpstreamUrl_def resolve_path_def url_input_def path_segments_def
      single_dot_def double_dot_def str_lower_def char_lower_def path_encode_def path_encode_char_def Let_def)

end
