(* ===== verification/Session.thy ===== *)
theory Session
  imports Url_Params JS_Object JS_Date Ui_Text
begin

text \<open>
  The session of a user: the HTTP client (\<open>shared/lib/apiClient.ts\<close>: CSRF token, expired
  sessions), the calls of \<open>authApi.ts\<close>, the store \<open>useAuthStore.ts\<close> and the login page
  (\<open>useLoginPageModel.ts\<close>, \<open>useLoginProtectionLoader.ts\<close>, \<open>useLoginTurnstile.ts\<close>).

  The backend answers and the challenge widget are inputs of the steps.  The persistence of the
  store is code of a library: \<open>save\<close> is what it does to the local storage when the store
  changes.
\<close>

section \<open>The HTTP client (\<open>apiClient.ts\<close>)\<close>

text \<open>\<open>s.split("; ")\<close>\<close>

fun split_cookies :: "string \<Rightarrow> string list" where
  "split_cookies [] = [[]]"
| "split_cookies (c # s) =
     (if c = CHR '';'' \<and> s \<noteq> [] \<and> hd s = CHR '' '' then [] # split_cookies (tl s)
      else (case split_cookies s of [] \<Rightarrow> [[c]] | w # ws \<Rightarrow> (c # w) # ws))"

text \<open>\<open>decodeURIComponent\<close>: a percent sign must start the encoding of a whole character.\<close>

definition hex_value :: "char \<Rightarrow> nat" where
  "hex_value c =
     (let b = (of_char c :: nat) in if b \<le> 57 then b - 48 else if b \<le> 70 then b - 55 else b - 87)"

fun take_percent :: "string \<Rightarrow> (nat \<times> string) option" where
  "take_percent (p # a # b # s) =
     (if p = CHR ''%'' \<and> is_hex a \<and> is_hex b then Some (16 * hex_value a + hex_value b, s) else None)"
| "take_percent _ = None"

definition utf8_count :: "nat \<Rightarrow> nat option" where
  "utf8_count b =
     (if b < 0x80 then Some 0 else if 0xC2 \<le> b \<and> b \<le> 0xDF then Some 1
      else if 0xE0 \<le> b \<and> b \<le> 0xEF then Some 2 else if 0xF0 \<le> b \<and> b \<le> 0xF4 then Some 3 else None)"

text \<open>The second byte excludes over-long forms, surrogates and values beyond the last character.\<close>

definition utf8_second_ok :: "nat \<Rightarrow> nat \<Rightarrow> bool" where
  "utf8_second_ok b c =
     ((b = 0xE0 \<longrightarrow> 0xA0 \<le> c) \<and> (b = 0xED \<longrightarrow> c \<le> 0x9F) \<and> (b = 0xF0 \<longrightarrow> 0x90 \<le> c) \<and> (b = 0xF4 \<longrightarrow> c \<le> 0x8F))"

fun take_continuation :: "nat \<Rightarrow> string \<Rightarrow> (nat list \<times> string) option" where
  "take_continuation 0 s = Some ([], s)"
| "take_continuation (Suc n) s =
     (case take_percent s of
        None \<Rightarrow> None
      | Some (b, r) \<Rightarrow>
          (if b < 0x80 \<or> 0xBF < b then None
           else map_option (\<lambda>(bs, r'). (b # bs, r')) (take_continuation n r)))"

definition take_encoded :: "string \<Rightarrow> (string \<times> string) option" where
  "take_encoded s =
     (case take_percent s of
        None \<Rightarrow> None
      | Some (b, r) \<Rightarrow>
          (case utf8_count b of
             None \<Rightarrow> None
           | Some n \<Rightarrow>
               (case take_continuation n r of
                  None \<Rightarrow> None
                | Some (bs, r') \<Rightarrow>
                    (if bs \<noteq> [] \<and> \<not> utf8_second_ok b (hd bs) then None
                     else Some (map char_of (b # bs), r')))))"

lemma take_percent_shorter: "take_percent s = Some (b, r) \<Longrightarrow> length r < length s"
  by (cases s rule: take_percent.cases) (auto split: if_splits)

lemma take_continuation_shorter: "take_continuation n s = Some (bs, r) \<Longrightarrow> length r \<le> length s"
proof (induction n arbitrary: s bs r)
  case (Suc n)
  then show ?case by (fastforce dest: take_percent_shorter split: option.splits if_splits)
qed simp

lemma take_encoded_shorter: "take_encoded s = Some (bs, r) \<Longrightarrow> length r < length s"
  by (auto simp: take_encoded_def dest!: take_percent_shorter take_continuation_shorter
      split: option.splits prod.splits if_splits)

function decodeURIComponent :: "string \<Rightarrow> js_error + string" where
  "decodeURIComponent [] = Inr []"
| "decodeURIComponent (c # s) =
     (if c = CHR ''%'' then
        (case take_encoded (c # s) of
           None \<Rightarrow> Inl UriError
         | Some (bs, r) \<Rightarrow>
             (case decodeURIComponent r of Inl e \<Rightarrow> Inl e | Inr t \<Rightarrow> Inr (bs @ t)))
      else (case decodeURIComponent s of Inl e \<Rightarrow> Inl e | Inr t \<Rightarrow> Inr (c # t)))"
  by pat_completeness auto
termination
  by (relation "measure length") (auto dest: take_encoded_shorter)

text \<open>\<open>document\<close> is the cookie string, or \<open>None\<close> when there is no document.\<close>

definition readCookie :: "string option \<Rightarrow> string \<Rightarrow> js_error + string option" where
  "readCookie document name =
     (case document of
        None \<Rightarrow> Inr None
      | Some cookies \<Rightarrow>
          (let prefix = name @ ''='' in
           case find (\<lambda>item. Sublist.prefix prefix item) (split_cookies cookies) of
             None \<Rightarrow> Inr None
           | Some cookie \<Rightarrow>
               (if cookie = [] then Inr None
                else case decodeURIComponent (drop (length prefix) cookie) of
                       Inl e \<Rightarrow> Inl e | Inr v \<Rightarrow> Inr (Some v))))"

record request_config =
  cf_method :: "string option"
  cf_url :: "string option"
  cf_headers :: "string js_object"

definition ascii_upper :: "string \<Rightarrow> string" where
  "ascii_upper s =
     map (\<lambda>c. let b = (of_char c :: nat) in if 97 \<le> b \<and> b \<le> 122 then char_of (b - 32) else c) s"

text \<open>The request interceptor.\<close>

definition request_interceptor :: "string option \<Rightarrow> request_config \<Rightarrow> js_error + request_config" where
  "request_interceptor document config =
     (let method = map_option ascii_upper (cf_method config) in
      if truthy method \<and> the method \<in> {''POST'', ''PUT'', ''PATCH'', ''DELETE''} then
        (case readCookie document ''tm_csrf'' of
           Inl e \<Rightarrow> Inl e
         | Inr csrfToken \<Rightarrow>
             (if truthy csrfToken
              then Inr (config\<lparr>cf_headers := obj_set ''X-CSRF-Token'' (the csrfToken) (cf_headers config)\<rparr>)
              else Inr config))
      else Inr config)"

record browser =
  br_storage :: "string js_object"
  br_origin :: string
  br_location :: string

definition storage_remove :: "string \<Rightarrow> string js_object \<Rightarrow> string js_object" where
  "storage_remove k st = filter (\<lambda>p. fst p \<noteq> k) st"

text \<open>
  The response interceptor for errors, in a browser; the promise is then rejected with the
  error.  \<open>url\<close> and \<open>status\<close> are those of the error.
\<close>

definition response_error_interceptor :: "string option \<Rightarrow> nat option \<Rightarrow> browser \<Rightarrow> browser" where
  "response_error_interceptor url status b =
     (let u = or_else url [] in
      if status = Some 401 then
        let b1 = b\<lparr>br_storage := storage_remove ''auth'' (storage_remove ''access_token'' (br_storage b))\<rparr>
        in if \<not> str_includes u ''/auth/login'' \<and> \<not> str_includes u ''/auth/me''
           then b1\<lparr>br_location := br_origin b1 @ ''/login''\<rparr> else b1
      else b)"

section \<open>The login call (\<open>authApi.ts\<close>)\<close>

datatype UserRole = RoleAdmin | RoleViewer

record LoginResponse =
  lr_username :: string
  lr_role :: UserRole

datatype TurnstileMode = TsOff | TsAlways | TsRiskBased

record LoginProtectionResponse =
  lp_turnstile_mode :: TurnstileMode
  lp_turnstile_enabled :: bool
  lp_turnstile_required :: bool
  lp_turnstile_site_key :: "string option"

text \<open>The body of the login request.\<close>

definition login_form :: "string \<Rightarrow> string \<Rightarrow> string option \<Rightarrow> params" where
  "login_form username password turnstileToken =
     (let form = params_append ''password'' password (params_append ''username'' username [])
      in if truthy turnstileToken then params_append ''cf-turnstile-response'' (the turnstileToken) form else form)"

section \<open>The store (\<open>useAuthStore.ts\<close>)\<close>

record AuthState =
  au_username :: "string option"
  au_role :: "UserRole option"
  au_isAuthenticated :: bool
  au_hydrated :: bool
  au_initialized :: bool

definition auth_init :: AuthState where
  "auth_init = \<lparr>au_username = None, au_role = None, au_isAuthenticated = False, au_hydrated = False,
     au_initialized = False\<rparr>"

type_synonym auth_store = "AuthState \<times> string js_object"

text \<open>\<open>set\<close> of the persisted store: the new state is saved.\<close>

definition store_set ::
    "(AuthState \<Rightarrow> string js_object \<Rightarrow> string js_object) \<Rightarrow> (AuthState \<Rightarrow> AuthState) \<Rightarrow> auth_store \<Rightarrow> auth_store" where
  "store_set save f s = (f (fst s), save (f (fst s)) (snd s))"

definition signed_out :: "AuthState \<Rightarrow> AuthState" where
  "signed_out a = a\<lparr>au_username := None, au_role := None, au_isAuthenticated := False, au_initialized := True\<rparr>"

definition signed_in :: "string \<Rightarrow> UserRole \<Rightarrow> AuthState \<Rightarrow> AuthState" where
  "signed_in u r a = a\<lparr>au_username := Some u, au_role := Some r, au_isAuthenticated := True, au_initialized := True\<rparr>"

definition auth_login ::
    "(AuthState \<Rightarrow> string js_object \<Rightarrow> string js_object) \<Rightarrow> string \<Rightarrow> UserRole \<Rightarrow> auth_store \<Rightarrow> auth_store" where
  "auth_login save username role s =
     store_set save (signed_in username role) (fst s, storage_remove ''access_token'' (snd s))"

text \<open>The outcome of \<open>authApi.logout\<close> does not matter.\<close>

definition auth_logout ::
    "(AuthState \<Rightarrow> string js_object \<Rightarrow> string js_object) \<Rightarrow> js_error option \<Rightarrow> auth_store \<Rightarrow> auth_store" where
  "auth_logout save outcome s =
     store_set save signed_out (fst s, storage_remove ''auth'' (storage_remove ''access_token'' (snd s)))"

definition syncSession ::
    "(AuthState \<Rightarrow> string js_object \<Rightarrow> string js_object) \<Rightarrow> js_error + LoginResponse \<Rightarrow> auth_store \<Rightarrow> auth_store" where
  "syncSession save me s =
     (case me of
        Inr session \<Rightarrow> store_set save (signed_in (lr_username session) (lr_role session))
          (fst s, storage_remove ''access_token'' (snd s))
      | Inl e \<Rightarrow> store_set save signed_out (fst s, storage_remove ''access_token'' (snd s)))"

definition clearSession ::
    "(AuthState \<Rightarrow> string js_object \<Rightarrow> string js_object) \<Rightarrow> auth_store \<Rightarrow> auth_store" where
  "clearSession save s = store_set save signed_out (fst s, storage_remove ''access_token'' (snd s))"

definition setHydrated ::
    "(AuthState \<Rightarrow> string js_object \<Rightarrow> string js_object) \<Rightarrow> auth_store \<Rightarrow> auth_store" where
  "setHydrated save s = store_set save (\<lambda>a. a\<lparr>au_hydrated := True\<rparr>) s"

text \<open>\<open>onRehydrateStorage\<close>: \<open>restored\<close> is the state that the library read from the storage.\<close>

definition onRehydrateStorage ::
    "(AuthState \<Rightarrow> string js_object \<Rightarrow> string js_object) \<Rightarrow> AuthState option \<Rightarrow> auth_store \<Rightarrow> auth_store" where
  "onRehydrateStorage save restored s =
     (let s1 = (fst s, storage_remove ''access_token'' (snd s))
      in case restored of None \<Rightarrow> s1 | Some a \<Rightarrow> setHydrated save (a, snd s1))"

section \<open>Lemmas\<close>

lemma split_cookies_ne [simp]: "split_cookies s \<noteq> []"
  by (induction s rule: split_cookies.induct) (auto split: list.splits)

lemma split_cookies_none: "CHR '';'' \<notin> set x \<Longrightarrow> split_cookies x = [x]"
  by (induction x) auto

lemma split_cookies_sep: "CHR '';'' \<notin> set x \<Longrightarrow> split_cookies (x @ CHR '';'' # CHR '' '' # s) = x # split_cookies s"
  by (induction x) (auto split: list.splits)

lemma split_cookies_join:
  "xs \<noteq> [] \<Longrightarrow> \<forall>x\<in>set xs. CHR '';'' \<notin> set x \<Longrightarrow> split_cookies (str_join ''; '' xs) = xs"
proof (induction "''; ''" xs rule: str_join.induct)
  case (3 x y xs)
  then show ?case using split_cookies_sep [of x "str_join ''; '' (y # xs)"] by simp
qed (auto simp: split_cookies_none)

lemma decode_plain: "CHR ''%'' \<notin> set s \<Longrightarrow> decodeURIComponent s = Inr s"
  by (induction s) auto

lemma prefix_name: "CHR ''='' \<notin> set a \<Longrightarrow> CHR ''='' \<notin> set b \<Longrightarrow> prefix (a @ ''='') (b @ ''='' @ v) \<longleftrightarrow> a = b"
proof (induction a arbitrary: b)
  case Nil
  then show ?case by (cases b) auto
next
  case (Cons c a)
  then show ?case by (cases b) auto
qed

lemma find_cookie:
  assumes "CHR ''='' \<notin> set name" "\<forall>(n, v)\<in>set cs. CHR ''='' \<notin> set n"
  shows "find (\<lambda>item. prefix (name @ ''='') item) (map (\<lambda>(n, v). n @ ''='' @ v) cs)
    = map_option (\<lambda>v. name @ ''='' @ v) (map_of cs name)"
  using assms(2)
proof (induction cs)
  case (Cons c cs)
  obtain n v where "c = (n, v)" by (cases c)
  with Cons show ?case using prefix_name [OF assms(1), of n v] by auto
qed simp

text \<open>\<open>readCookie\<close> decodes the value of the named cookie and nothing else: a percent sign in
  another cookie does not matter.\<close>

lemma readCookie_header:
  assumes "\<forall>(n, v)\<in>set cs. CHR ''='' \<notin> set n \<and> CHR '';'' \<notin> set n \<and> CHR '';'' \<notin> set v"
    and "CHR ''='' \<notin> set name"
  shows "readCookie (Some (str_join ''; '' (map (\<lambda>(n, v). n @ ''='' @ v) cs))) name =
    (case map_of cs name of
       None \<Rightarrow> Inr None
     | Some v \<Rightarrow> (case decodeURIComponent v of Inl e \<Rightarrow> Inl e | Inr t \<Rightarrow> Inr (Some t)))"
proof (cases "cs = []")
  case True
  then show ?thesis by (simp add: readCookie_def Let_def)
next
  case False
  let ?items = "map (\<lambda>(n, v). n @ ''='' @ v) cs"
  have s: "split_cookies (str_join ''; '' ?items) = ?items"
    using assms(1) False by (intro split_cookies_join) auto
  have f: "find (\<lambda>item. prefix (name @ ''='') item) ?items = map_option (\<lambda>v. name @ ''='' @ v) (map_of cs name)"
    using assms(1) by (intro find_cookie [OF assms(2)]) auto
  show ?thesis
    using f s by (cases "map_of cs name") (simp_all add: readCookie_def Let_def)
qed

text \<open>\<open>encodeURIComponent\<close> on ASCII text, as a server writes the cookie.\<close>

definition uri_unreserved :: "char \<Rightarrow> bool" where
  "uri_unreserved c = (c \<in> set ''ABCDEFGHIJKLMNOPQRSTUVWXYZabcdefghijklmnopqrstuvwxyz0123456789-_.!~*()'' \<or> c = CHR 0x27)"

definition cookie_encode_char :: "char \<Rightarrow> string" where
  "cookie_encode_char c =
     (if uri_unreserved c then [c]
      else [CHR ''%'', hex_char (of_char c div 16), hex_char (of_char c mod 16)])"

definition uri_encode :: "string \<Rightarrow> string" where
  "uri_encode s = concat (map cookie_encode_char s)"

lemma hex_digit_of_char: "n < 16 \<Longrightarrow> is_hex (hex_char n) \<and> hex_value (hex_char n) = n"
  using hex_char_digit [of n] by (auto simp: hex_char_def hex_value_def Let_def)

lemma cookie_decode_char:
  assumes "(of_char c :: nat) < 128"
  shows "decodeURIComponent (cookie_encode_char c @ s) =
    (case decodeURIComponent s of Inl e \<Rightarrow> Inl e | Inr t \<Rightarrow> Inr (c # t))"
proof (cases "uri_unreserved c")
  case True
  then have "c \<noteq> CHR ''%''" by (auto simp: uri_unreserved_def)
  with True show ?thesis by (simp add: cookie_encode_char_def)
next
  case False
  let ?n = "of_char c :: nat"
  have "?n div 16 < 16" "?n mod 16 < 16" using assms by auto
  then have "take_percent (cookie_encode_char c @ s) = Some (?n, s)"
    using False hex_digit_of_char by (simp add: cookie_encode_char_def)
  then have "take_encoded (cookie_encode_char c @ s) = Some ([c], s)"
    using assms by (simp add: take_encoded_def utf8_count_def)
  with False show ?thesis by (simp add: cookie_encode_char_def split: sum.split)
qed

lemma cookie_decode_encode: "\<forall>c\<in>set s. (of_char c :: nat) < 128 \<Longrightarrow> decodeURIComponent (uri_encode s) = Inr s"
  by (induction s) (simp_all add: uri_encode_def cookie_decode_char del: decodeURIComponent.simps(2))

lemma storage_get_remove: "obj_get j (storage_remove k st) = (if j = k then None else obj_get j st)"
  by (induction st) (auto simp: storage_remove_def)

section \<open>Properties\<close>

text \<open>C10. Every changing request of the browser carries the CSRF token that the cookie encodes,
  wherever the cookie stands among the others and whatever the others hold (also percent signs
  that encode nothing).  Requests that change nothing go out as they were, as do requests without
  the cookie or with an empty one; a cookie that cannot be decoded makes the request fail before it
  is sent.  The token is any ASCII text; names of cookies hold no \<open>=\<close> and names and values no
  semicolon, as in every cookie string.\<close>

theorem csrf_header:
  assumes "\<forall>(n, v)\<in>set cs. CHR ''='' \<notin> set n \<and> CHR '';'' \<notin> set n \<and> CHR '';'' \<notin> set v"
  shows "let r = request_interceptor (Some (str_join ''; '' (map (\<lambda>(n, v). n @ ''='' @ v) cs))) c;
      changing = (\<exists>m. cf_method c = Some m \<and> ascii_upper m \<in> {''POST'', ''PUT'', ''PATCH'', ''DELETE''})
    in (\<not> changing \<or> map_of cs ''tm_csrf'' = None \<or> map_of cs ''tm_csrf'' = Some [] \<longrightarrow> r = Inr c) \<and>
       (\<forall>t. changing \<and> t \<noteq> [] \<and> (\<forall>x\<in>set t. (of_char x :: nat) < 128) \<and> map_of cs ''tm_csrf'' = Some (uri_encode t) \<longrightarrow>
          (\<exists>c'. r = Inr c' \<and> obj_get ''X-CSRF-Token'' (cf_headers c') = Some t \<and>
             (\<forall>k. k \<noteq> ''X-CSRF-Token'' \<longrightarrow> obj_get k (cf_headers c') = obj_get k (cf_headers c)) \<and>
             cf_method c' = cf_method c \<and> cf_url c' = cf_url c)) \<and>
       (\<forall>v e. changing \<and> map_of cs ''tm_csrf'' = Some v \<and> decodeURIComponent v = Inl e \<longrightarrow> r = Inl e)"
proof -
  have nm: "CHR ''='' \<notin> set ''tm_csrf''" by simp
  note r = readCookie_header [OF assms nm]
  let ?c = "str_join ''; '' (map (\<lambda>(n, v). n @ ''='' @ v) cs)"
  have "map_of cs ''tm_csrf'' = Some (uri_encode t) \<Longrightarrow> \<forall>x\<in>set t. (of_char x :: nat) < 128 \<Longrightarrow>
      readCookie (Some ?c) ''tm_csrf'' = Inr (Some t)" for t
    unfolding r by (simp add: cookie_decode_encode)
  moreover have "map_of cs ''tm_csrf'' = Some v \<Longrightarrow> decodeURIComponent v = Inl e \<Longrightarrow>
      readCookie (Some ?c) ''tm_csrf'' = Inl e" for v e
    unfolding r by simp
  moreover have "map_of cs ''tm_csrf'' = None \<or> map_of cs ''tm_csrf'' = Some [] \<Longrightarrow>
      \<exists>x. readCookie (Some ?c) ''tm_csrf'' = Inr x \<and> \<not> truthy x"
    unfolding r by auto
  ultimately show ?thesis
    by (cases "cf_method c") (auto simp: request_interceptor_def Let_def obj_get_set)
qed

theorem csrf_header_witness:
  "\<exists>c'. request_interceptor (Some (str_join ''; '' (map (\<lambda>(n, v). n @ ''='' @ v) [(''a'', ''1%''), (''tm_csrf'', uri_encode ''t/1'')])))
      \<lparr>cf_method = Some ''post'', cf_url = None, cf_headers = []\<rparr> = Inr c' \<and>
    obj_get ''X-CSRF-Token'' (cf_headers c') = Some ''t/1''"
proof -
  let ?cs = "[(''a'', ''1%''), (''tm_csrf'', uri_encode ''t/1'')]"
  have m: "ascii_upper ''post'' = ''POST''" and v: "uri_encode ''t/1'' = ''t%2F1''" by code_simp+
  have "\<forall>(n, v)\<in>set ?cs. CHR ''='' \<notin> set n \<and> CHR '';'' \<notin> set n \<and> CHR '';'' \<notin> set v"
    by (simp add: v)
  from csrf_header [OF this, of "\<lparr>cf_method = Some ''post'', cf_url = None, cf_headers = []\<rparr>"] show ?thesis
    using m by (auto simp: Let_def dest!: spec [of _ "''t/1''"])
qed

text \<open>After any sequence of failed calls the stored session is gone exactly when one of them was
  answered 401, the other entries of the storage are untouched, and the browser was sent to the
  login page exactly when such an answer came to a call other than the login and the session
  check.\<close>

definition expired_call :: "string option \<times> nat option \<Rightarrow> bool" where
  "expired_call a =
     (snd a = Some 401 \<and>
      (let u = or_else (fst a) [] in \<not> str_includes u ''/auth/login'' \<and> \<not> str_includes u ''/auth/me''))"

lemma answers_session:
  "let b' = fold (\<lambda>(url, status). response_error_interceptor url status) answers b in
   obj_get ''auth'' (br_storage b') = (if Some 401 \<in> snd ` set answers then None else obj_get ''auth'' (br_storage b)) \<and>
   (k \<notin> {''auth'', ''access_token''} \<longrightarrow> obj_get k (br_storage b') = obj_get k (br_storage b)) \<and>
   br_origin b' = br_origin b \<and>
   br_location b' = (if list_ex expired_call answers then br_origin b @ ''/login'' else br_location b)"
proof (induction answers arbitrary: b)
  case (Cons a answers)
  obtain url status where a: "a = (url, status)" by (cases a)
  show ?case
    using Cons.IH [of "response_error_interceptor url status b"]
    by (auto simp: a expired_call_def response_error_interceptor_def Let_def storage_get_remove)
qed simp

text \<open>The credentials arrive as they were typed: the body of the login request, read back by
  a form parser, gives the user name, the password and, when there is one, the challenge token.\<close>

theorem login_form_roundtrip:
  "let body = params_parse (params_string (login_form u p t)) in
   params_get ''username'' body = Some u \<and> params_get ''password'' body = Some p \<and>
   params_get ''cf-turnstile-response'' body = or_null t \<and> length body = (if truthy t then 3 else 2)"
  by (cases t) (auto simp: params_parse_string login_form_def params_append_def Let_def)

end
