(* ===== verification/Login_Page.thy ===== *)
theory Login_Page
  imports Session
begin

text \<open>
  The login page as a state machine: \<open>useLoginPageModel.ts\<close>, \<open>useLoginProtectionLoader.ts\<close>
  and \<open>useLoginTurnstile.ts\<close>.  Submitting is asynchronous: \<open>submit_begin\<close> is the part of
  \<open>handleSubmit\<close> up to the call of the backend, which keeps the values of its render, and
  \<open>submit_finish\<close> the part after the answer; other steps may happen in between.
\<close>

section \<open>State\<close>

record login_call =
  lc_username :: string
  lc_password :: string
  lc_token :: string
  lc_protection :: LoginProtectionResponse

record login_page =
  lg_username :: string
  lg_password :: string
  lg_error :: string
  lg_loading :: bool
  lg_protection :: LoginProtectionResponse
  lg_turnstileReady :: bool
  lg_token :: string
  lg_widget :: "string option"
  lg_store :: auth_store
  lg_route :: "string option"
  lg_calls :: "login_call list"
  lg_syncing :: nat

type_synonym saver = "AuthState \<Rightarrow> string js_object \<Rightarrow> string js_object"

definition DEFAULT_LOGIN_PROTECTION :: LoginProtectionResponse where
  "DEFAULT_LOGIN_PROTECTION =
     \<lparr>lp_turnstile_mode = TsOff, lp_turnstile_enabled = False, lp_turnstile_required = False,
      lp_turnstile_site_key = None\<rparr>"

definition login_page_init :: "auth_store \<Rightarrow> login_page" where
  "login_page_init st =
     \<lparr>lg_username = [], lg_password = [], lg_error = [], lg_loading = False,
      lg_protection = DEFAULT_LOGIN_PROTECTION, lg_turnstileReady = False, lg_token = [], lg_widget = None,
      lg_store = st, lg_route = None, lg_calls = [], lg_syncing = 0\<rparr>"

section \<open>Protection and challenge\<close>

definition getLoginFailureMessage :: "bool \<Rightarrow> string" where
  "getLoginFailureMessage turnstileRequired =
     (if turnstileRequired then txt_login_failed_challenge else txt_login_failed)"

definition initializeLoginProtection ::
    "bool \<Rightarrow> js_error + LoginProtectionResponse \<Rightarrow> login_page \<Rightarrow> login_page" where
  "initializeLoginProtection cancelled response s =
     (if cancelled then s
      else case response of
             Inr r \<Rightarrow> s\<lparr>lg_protection := r\<rparr>
           | Inl e \<Rightarrow> s\<lparr>lg_protection := DEFAULT_LOGIN_PROTECTION\<rparr>)"

text \<open>\<open>api\<close> is the widget library when it is loaded (what \<open>render\<close> returns for a site key), and
  \<open>mounted\<close> whether the container element exists.\<close>

definition turnstile_render :: "(string \<Rightarrow> string) option \<Rightarrow> bool \<Rightarrow> login_page \<Rightarrow> login_page" where
  "turnstile_render api mounted s =
     (if \<not> lp_turnstile_required (lg_protection s) \<or> \<not> truthy (lp_turnstile_site_key (lg_protection s)) \<or>
         \<not> lg_turnstileReady s \<or> \<not> mounted \<or> lg_widget s \<noteq> None then s
      else case api of
             None \<Rightarrow> s
           | Some render \<Rightarrow> s\<lparr>lg_widget := Some (render (the (lp_turnstile_site_key (lg_protection s))))\<rparr>)"

definition turnstile_clear :: "login_page \<Rightarrow> login_page" where
  "turnstile_clear s =
     (if lp_turnstile_required (lg_protection s) \<and> truthy (lp_turnstile_site_key (lg_protection s)) then s
      else s\<lparr>lg_widget := None, lg_token := []\<rparr>)"

definition resetChallenge :: "bool \<Rightarrow> login_page \<Rightarrow> login_page" where
  "resetChallenge api s = (if api \<and> lg_widget s \<noteq> None then s\<lparr>lg_token := []\<rparr> else s)"

section \<open>Submitting\<close>

definition submit_begin :: "login_page \<Rightarrow> login_page" where
  "submit_begin s =
     (let s1 = s\<lparr>lg_error := []\<rparr> in
      if lp_turnstile_required (lg_protection s) \<and> lg_token s = [] then s1\<lparr>lg_error := txt_login_challenge_missing\<rparr>
      else s1\<lparr>lg_loading := True,
              lg_calls := lg_calls s @ [\<lparr>lc_username = lg_username s, lc_password = lg_password s,
                lc_token = lg_token s, lc_protection = lg_protection s\<rparr>]\<rparr>)"

text \<open>\<open>answer\<close> is the answer to the login call \<open>c\<close>, \<open>next\<close> the answer of the protection endpoint
  that is asked after a failure.\<close>

definition submit_finish ::
    "saver \<Rightarrow> bool \<Rightarrow> login_call \<Rightarrow> js_error + LoginResponse \<Rightarrow> js_error + LoginProtectionResponse \<Rightarrow>
     login_page \<Rightarrow> login_page" where
  "submit_finish save api c answer nextProtection s =
     (let s0 = s\<lparr>lg_calls := remove1 c (lg_calls s)\<rparr>;
          s1 = (case answer of
            Inr result \<Rightarrow>
              s0\<lparr>lg_store := auth_login save (lr_username result) (lr_role result) (lg_store s0),
                 lg_route := Some ''/dashboard''\<rparr>
          | Inl e \<Rightarrow>
              (let s2 = resetChallenge api s0 in
               case nextProtection of
                 Inr p \<Rightarrow> s2\<lparr>lg_protection := p, lg_error := getLoginFailureMessage (lp_turnstile_required p)\<rparr>
               | Inl e' \<Rightarrow> s2\<lparr>lg_error := getLoginFailureMessage (lp_turnstile_required (lc_protection c))\<rparr>))
      in s1\<lparr>lg_loading := False\<rparr>)"

text \<open>\<open>handleSubmit\<close> when nothing happens while it waits.\<close>

definition handleSubmit ::
    "saver \<Rightarrow> bool \<Rightarrow> (login_call \<Rightarrow> js_error + LoginResponse) \<Rightarrow> js_error + LoginProtectionResponse \<Rightarrow>
     login_page \<Rightarrow> login_page" where
  "handleSubmit save api backend nextProtection s =
     (let s1 = submit_begin s in
      if lg_calls s1 = lg_calls s then s1
      else (let c = last (lg_calls s1) in submit_finish save api c (backend c) nextProtection s1))"

section \<open>Steps\<close>

inductive login_step :: "saver \<Rightarrow> login_page \<Rightarrow> login_page \<Rightarrow> bool" for save where
  ls_username: "login_step save s (s\<lparr>lg_username := u\<rparr>)"
| ls_password: "login_step save s (s\<lparr>lg_password := p\<rparr>)"
| ls_protection: "login_step save s (initializeLoginProtection cancelled r s)"
| ls_ready: "login_step save s (s\<lparr>lg_turnstileReady := True\<rparr>)"
| ls_render: "login_step save s (turnstile_render api mounted s)"
| ls_clear: "login_step save s (turnstile_clear s)"
| ls_token: "login_step save s (s\<lparr>lg_token := t\<rparr>)"
| ls_sync_begin: "au_hydrated (fst (lg_store s)) \<Longrightarrow> \<not> au_initialized (fst (lg_store s)) \<Longrightarrow>
    login_step save s (s\<lparr>lg_syncing := lg_syncing s + 1\<rparr>)"
| ls_sync_end: "0 < lg_syncing s \<Longrightarrow>
    login_step save s (s\<lparr>lg_syncing := lg_syncing s - 1, lg_store := syncSession save me (lg_store s)\<rparr>)"
| ls_redirect: "au_hydrated (fst (lg_store s)) \<Longrightarrow> au_initialized (fst (lg_store s)) \<Longrightarrow>
    au_isAuthenticated (fst (lg_store s)) \<Longrightarrow> login_step save s (s\<lparr>lg_route := Some ''/dashboard''\<rparr>)"
| ls_begin: "login_step save s (submit_begin s)"
| ls_finish: "c \<in> set (lg_calls s) \<Longrightarrow> login_step save s (submit_finish save api c answer np s)"

inductive login_reachable :: "saver \<Rightarrow> auth_store \<Rightarrow> login_page \<Rightarrow> bool" for save st where
  lreach_init: "login_reachable save st (login_page_init st)"
| lreach_step: "login_reachable save st s \<Longrightarrow> login_step save s t \<Longrightarrow> login_reachable save st t"

inductive_cases login_stepE [elim]: "login_step save s t"

section \<open>Invariants\<close>

definition auth_consistent :: "AuthState \<Rightarrow> bool" where
  "auth_consistent a =
     ((au_isAuthenticated a \<longleftrightarrow> au_username a \<noteq> None) \<and> (au_isAuthenticated a \<longleftrightarrow> au_role a \<noteq> None))"

definition call_guarded :: "login_call \<Rightarrow> bool" where
  "call_guarded c = (lp_turnstile_required (lc_protection c) \<longrightarrow> lc_token c \<noteq> [])"

definition login_inv :: "login_page \<Rightarrow> bool" where
  "login_inv s = (auth_consistent (fst (lg_store s)) \<and> list_all call_guarded (lg_calls s))"

lemma store_consistent:
  "auth_consistent (fst (auth_login save u r st))"
  "auth_consistent (fst (auth_logout save e st))"
  "auth_consistent (fst (syncSession save me st))"
  "auth_consistent (fst (clearSession save st))"
  by (auto simp: auth_login_def auth_logout_def syncSession_def clearSession_def store_set_def signed_in_def
      signed_out_def auth_consistent_def split: sum.splits)

lemma login_step_inv: "login_step save s t \<Longrightarrow> login_inv s \<Longrightarrow> login_inv t"
proof (induction rule: login_step.induct)
  case (ls_finish c s api answer np)
  then show ?case
    by (auto simp: login_inv_def submit_finish_def resetChallenge_def Let_def store_consistent list_all_iff
        split: sum.splits dest: notin_set_remove1)
next
  case (ls_begin s)
  then show ?case by (simp add: login_inv_def submit_begin_def Let_def call_guarded_def)
qed (auto simp: login_inv_def store_consistent initializeLoginProtection_def turnstile_render_def turnstile_clear_def
      split: sum.splits option.splits)

section \<open>Properties\<close>

text \<open>C5. In every state the login page reaches, however its events interleave: no login request
  is on its way that lacks the challenge token while the challenge was required, and the store
  is signed in exactly when it has a user and a role; and a step sends the browser to the
  dashboard only with a signed-in store.\<close>

theorem login_page_safe:
  assumes "login_reachable save st s" "auth_consistent (fst st)"
  shows "list_all call_guarded (lg_calls s) \<and> auth_consistent (fst (lg_store s)) \<and>
    (\<forall>t. login_step save s t \<longrightarrow> lg_route t \<noteq> lg_route s \<longrightarrow> au_isAuthenticated (fst (lg_store t)))"
proof -
  have "login_inv s"
    using assms(1)
  proof (induction rule: login_reachable.induct)
    case lreach_init
    then show ?case using assms(2) by (simp add: login_page_init_def login_inv_def)
  qed (rule login_step_inv)
  moreover have "au_isAuthenticated (fst (lg_store t))" if "login_step save s t" "lg_route t \<noteq> lg_route s" for t
    using that
    by (induction rule: login_step.induct)
      (auto simp: initializeLoginProtection_def turnstile_render_def turnstile_clear_def submit_begin_def
        submit_finish_def resetChallenge_def auth_login_def store_set_def signed_in_def Let_def
        split: sum.splits option.splits if_splits)
  ultimately show ?thesis by (simp add: login_inv_def)
qed

theorem login_page_safe_witness:
  "list_all call_guarded (lg_calls (submit_begin (login_page_init (auth_init, []))))"
proof -
  have "login_reachable (\<lambda>a st. st) (auth_init, []) (submit_begin (login_page_init (auth_init, [])))"
    by (rule lreach_step [OF lreach_init ls_begin])
  moreover have "auth_consistent (fst (auth_init, []))" by (simp add: auth_init_def auth_consistent_def)
  ultimately show ?thesis using login_page_safe by blast
qed

text \<open>Submitting always ends with the loading indicator off, unless the
  required challenge is missing, which sends nothing; the user is signed in exactly
  with the account the backend answered, and otherwise sees an error and stays on the page with
  an unchanged store.\<close>

theorem handleSubmit_outcome:
  "let t = handleSubmit save api backend np s;
       blocked = lp_turnstile_required (lg_protection s) \<and> lg_token s = [];
       c = \<lparr>lc_username = lg_username s, lc_password = lg_password s, lc_token = lg_token s,
            lc_protection = lg_protection s\<rparr>
   in if blocked then lg_loading t = lg_loading s \<and> lg_error t = txt_login_challenge_missing \<and> lg_store t = lg_store s \<and> lg_route t = lg_route s
       else \<not> lg_loading t \<and>
         (case backend c of
            Inr r \<Rightarrow> au_username (fst (lg_store t)) = Some (lr_username r) \<and> au_role (fst (lg_store t)) = Some (lr_role r) \<and>
                     au_isAuthenticated (fst (lg_store t)) \<and> lg_route t = Some ''/dashboard'' \<and> lg_error t = []
          | Inl e \<Rightarrow> lg_store t = lg_store s \<and> lg_route t = lg_route s \<and>
                     lg_error t \<in> {txt_login_failed, txt_login_failed_challenge})"
  by (auto simp: handleSubmit_def submit_begin_def submit_finish_def resetChallenge_def auth_login_def store_set_def
      signed_in_def getLoginFailureMessage_def Let_def split: sum.splits)

end
