(* ===== verification/Deployment_Query.thy ===== *)
theory Deployment_Query
  imports Url_Params JS_Object JS_Date Ui_Text
begin

text \<open>
  The deployment history of the manager: its entries (\<open>deploymentTypes.ts\<close>), the filters in
  the query string (\<open>managerDeploymentHistoryQuery.ts\<close>) and the hook that keeps filters and
  query string together (\<open>useManagerDeploymentHistoryFilters.ts\<close>).
\<close>

section \<open>Entries\<close>

datatype ManagerDeploymentStage =
  StPrepare | StBuild | StMigrationPreflight | StCandidateHealth | StRouteSwitch
  | StLeaderHandover | StPublicProbe | StStateWrite

datatype DeploymentStatus = DSuccess | DFailedBeforeSwitch | DRolledBack | DRollbackFailed
datatype DeploymentSlot = SlotSingle | SlotBlue | SlotGreen | SlotUnknown
datatype AlertRequestStatus = AlertNotNeeded | AlertRequested | AlertRequestFailed
datatype AlertChannel = ChannelAnubis | ChannelGithub
datatype ArchiveSample = SampleDetailed | SampleDaily

record ManagerDeploymentHistoryEntry =
  dh_status :: DeploymentStatus
  dh_from_slot :: DeploymentSlot
  dh_to_slot :: DeploymentSlot
  dh_active_slot :: DeploymentSlot
  dh_version :: string
  dh_revision :: string
  dh_started_at :: string
  dh_completed_at :: string
  dh_probe_total :: nat
  dh_probe_failures :: nat
  dh_failure_stage :: "ManagerDeploymentStage option"
  dh_failure_reason :: "string option"
  dh_alert_request_status :: AlertRequestStatus
  dh_alert_channel :: "AlertChannel option"
  dh_alert_run_url :: "string option"
  dh_alert_run_status :: "string option"
  dh_alert_run_conclusion :: "string option"
  dh_alert_run_checked_at :: "string option"
  dh_alert_run_error :: "string option"
  dh_stage_durations_ms :: "ManagerDeploymentStage \<Rightarrow> rat option"
  dh_archive_sample :: "ArchiveSample option"

section \<open>Filters (\<open>managerDeploymentHistoryQuery.ts\<close>)\<close>

datatype StatusFilter = SfAll | SfFailure | SfRollback | SfStatus DeploymentStatus
datatype StageFilter = FsAll | FsUnknown | FsStage ManagerDeploymentStage
datatype SourceFilter = SrcAll | SrcArchive | SrcCurrent
datatype ArchiveSampleFilter = AsAll | AsDetailed | AsDaily
datatype PeriodFilter = PerAll | Per1 | Per7 | Per30 | Per90
datatype SpeedFilter = SpAll | SpAverage | SpP95
datatype BottleneckThreshold = Th15000 | Th30000 | Th60000 | Th120000 | Th300000

fun status_text :: "DeploymentStatus \<Rightarrow> string" where
  "status_text DSuccess = ''success''"
| "status_text DFailedBeforeSwitch = ''failed_before_switch''"
| "status_text DRolledBack = ''rolled_back''"
| "status_text DRollbackFailed = ''rollback_failed''"

fun status_filter_text :: "StatusFilter \<Rightarrow> string" where
  "status_filter_text SfAll = ''all''"
| "status_filter_text SfFailure = ''failure''"
| "status_filter_text SfRollback = ''rollback''"
| "status_filter_text (SfStatus s) = status_text s"

fun stage_text :: "ManagerDeploymentStage \<Rightarrow> string" where
  "stage_text StPrepare = ''prepare''"
| "stage_text StBuild = ''build''"
| "stage_text StMigrationPreflight = ''migration_preflight''"
| "stage_text StCandidateHealth = ''candidate_health''"
| "stage_text StRouteSwitch = ''route_switch''"
| "stage_text StLeaderHandover = ''leader_handover''"
| "stage_text StPublicProbe = ''public_probe''"
| "stage_text StStateWrite = ''state_write''"

fun stage_filter_text :: "StageFilter \<Rightarrow> string" where
  "stage_filter_text FsAll = ''all''"
| "stage_filter_text FsUnknown = ''unknown''"
| "stage_filter_text (FsStage s) = stage_text s"

fun source_text :: "SourceFilter \<Rightarrow> string" where
  "source_text SrcAll = ''all''"
| "source_text SrcArchive = ''archive''"
| "source_text SrcCurrent = ''current''"

fun archive_sample_text :: "ArchiveSampleFilter \<Rightarrow> string" where
  "archive_sample_text AsAll = ''all''"
| "archive_sample_text AsDetailed = ''detailed''"
| "archive_sample_text AsDaily = ''daily''"

fun period_text :: "PeriodFilter \<Rightarrow> string" where
  "period_text PerAll = ''all''"
| "period_text Per1 = ''1''"
| "period_text Per7 = ''7''"
| "period_text Per30 = ''30''"
| "period_text Per90 = ''90''"

fun speed_text :: "SpeedFilter \<Rightarrow> string" where
  "speed_text SpAll = ''all''"
| "speed_text SpAverage = ''average''"
| "speed_text SpP95 = ''p95''"

fun threshold_text :: "BottleneckThreshold \<Rightarrow> string" where
  "threshold_text Th15000 = ''15000''"
| "threshold_text Th30000 = ''30000''"
| "threshold_text Th60000 = ''60000''"
| "threshold_text Th120000 = ''120000''"
| "threshold_text Th300000 = ''300000''"

record ManagerDeploymentHistoryFilters =
  df_archiveSample :: ArchiveSampleFilter
  df_bottleneckThreshold :: BottleneckThreshold
  df_dateFrom :: string
  df_dateTo :: string
  df_period :: PeriodFilter
  df_search :: string
  df_source :: SourceFilter
  df_speed :: SpeedFilter
  df_stage :: StageFilter
  df_status :: StatusFilter

definition DEFAULT_BOTTLENECK_THRESHOLD :: BottleneckThreshold where
  "DEFAULT_BOTTLENECK_THRESHOLD = Th60000"

definition BOTTLENECK_THRESHOLDS :: "BottleneckThreshold list" where
  "BOTTLENECK_THRESHOLDS = [Th15000, Th30000, Th60000, Th120000, Th300000]"

definition PERIOD_FILTERS :: "PeriodFilter list" where
  "PERIOD_FILTERS = [PerAll, Per1, Per7, Per30, Per90]"

definition STATUS_FILTERS :: "StatusFilter list" where
  "STATUS_FILTERS = [SfAll, SfStatus DSuccess, SfFailure, SfStatus DFailedBeforeSwitch, SfRollback,
     SfStatus DRolledBack, SfStatus DRollbackFailed]"

definition STAGE_FILTERS :: "StageFilter list" where
  "STAGE_FILTERS = [FsAll, FsUnknown, FsStage StPrepare, FsStage StBuild, FsStage StMigrationPreflight,
     FsStage StCandidateHealth, FsStage StRouteSwitch, FsStage StLeaderHandover, FsStage StPublicProbe,
     FsStage StStateWrite]"

definition parseManagerDeploymentHistoryStatus :: "string option \<Rightarrow> StatusFilter" where
  "parseManagerDeploymentHistoryStatus value = read_enum status_filter_text STATUS_FILTERS SfAll value"

definition matchesManagerDeploymentHistoryStatus :: "ManagerDeploymentHistoryEntry \<Rightarrow> StatusFilter \<Rightarrow> bool" where
  "matchesManagerDeploymentHistoryStatus e f =
     (case f of
        SfAll \<Rightarrow> True
      | SfFailure \<Rightarrow> dh_status e \<noteq> DSuccess
      | SfRollback \<Rightarrow> dh_status e = DRolledBack \<or> dh_status e = DRollbackFailed
      | SfStatus s \<Rightarrow> dh_status e = s)"

definition parseManagerDeploymentHistoryPeriod :: "string option \<Rightarrow> PeriodFilter" where
  "parseManagerDeploymentHistoryPeriod value = read_enum period_text PERIOD_FILTERS PerAll value"

definition parseManagerDeploymentHistoryDate :: "js_host \<Rightarrow> string option \<Rightarrow> string" where
  "parseManagerDeploymentHistoryDate H value =
     (if \<not> truthy value \<or> \<not> date_shape (the value) then []
      else case date_parse H (the value @ ''T00:00:00Z'') of
             None \<Rightarrow> []
           | Some timestamp \<Rightarrow> (if js_take 10 (to_iso timestamp) = the value then the value else []))"

definition parseManagerDeploymentHistoryStage :: "string option \<Rightarrow> StageFilter" where
  "parseManagerDeploymentHistoryStage value = read_enum stage_filter_text STAGE_FILTERS FsAll value"

definition parseManagerDeploymentHistorySource :: "string option \<Rightarrow> SourceFilter" where
  "parseManagerDeploymentHistorySource value =
     (if value = Some ''all'' then SrcAll else if value = Some ''archive'' then SrcArchive else SrcCurrent)"

definition parseManagerDeploymentArchiveSample :: "string option \<Rightarrow> ArchiveSampleFilter" where
  "parseManagerDeploymentArchiveSample value =
     (if value = Some ''detailed'' then AsDetailed else if value = Some ''daily'' then AsDaily else AsAll)"

definition parseManagerDeploymentHistorySpeed :: "string option \<Rightarrow> SpeedFilter" where
  "parseManagerDeploymentHistorySpeed value =
     (if value = Some ''p95'' then SpP95
      else if value = Some ''average'' \<or> value = Some ''slow'' then SpAverage else SpAll)"

definition parseManagerDeploymentBottleneckThreshold :: "string option \<Rightarrow> BottleneckThreshold" where
  "parseManagerDeploymentBottleneckThreshold value =
     read_enum threshold_text BOTTLENECK_THRESHOLDS DEFAULT_BOTTLENECK_THRESHOLD value"

section \<open>The hook (\<open>useManagerDeploymentHistoryFilters.ts\<close>)\<close>

text \<open>The initial state of the ten fields from the query parameters.\<close>

definition initial_filters :: "js_host \<Rightarrow> params \<Rightarrow> ManagerDeploymentHistoryFilters" where
  "initial_filters H ps =
     \<lparr>df_archiveSample =
        (if parseManagerDeploymentHistorySource (params_get ''deployment_source'' ps) = SrcCurrent then AsAll
         else parseManagerDeploymentArchiveSample (params_get ''deployment_archive_sample'' ps)),
      df_bottleneckThreshold = parseManagerDeploymentBottleneckThreshold (params_get ''deployment_bottleneck_ms'' ps),
      df_dateFrom = parseManagerDeploymentHistoryDate H (params_get ''deployment_from'' ps),
      df_dateTo = parseManagerDeploymentHistoryDate H (params_get ''deployment_to'' ps),
      df_period = parseManagerDeploymentHistoryPeriod (params_get ''deployment_period'' ps),
      df_search = js_take 100 (or_else (params_get ''deployment_q'' ps) []),
      df_source = parseManagerDeploymentHistorySource (params_get ''deployment_source'' ps),
      df_speed = parseManagerDeploymentHistorySpeed (params_get ''deployment_speed'' ps),
      df_stage = parseManagerDeploymentHistoryStage (params_get ''deployment_stage'' ps),
      df_status = parseManagerDeploymentHistoryStatus (params_get ''deployment_status'' ps)\<rparr>"

text \<open>\<open>Partial<ManagerDeploymentHistoryFilters>\<close>: \<open>None\<close> is a property that is not given.\<close>

record filter_updates =
  up_archiveSample :: "ArchiveSampleFilter option"
  up_bottleneckThreshold :: "BottleneckThreshold option"
  up_dateFrom :: "string option"
  up_dateTo :: "string option"
  up_period :: "PeriodFilter option"
  up_search :: "string option"
  up_source :: "SourceFilter option"
  up_speed :: "SpeedFilter option"
  up_stage :: "StageFilter option"
  up_status :: "StatusFilter option"

definition opt_update :: "string \<Rightarrow> string option \<Rightarrow> string \<Rightarrow> param_update list" where
  "opt_update k v d = (case v of None \<Rightarrow> [] | Some x \<Rightarrow> [(k, x, d)])"

definition resets_archive_sample :: "filter_updates \<Rightarrow> bool" where
  "resets_archive_sample u = (up_source u = Some SrcCurrent \<and> up_archiveSample u = None)"

definition query_updates :: "filter_updates \<Rightarrow> param_update list" where
  "query_updates u =
     opt_update ''deployment_archive_sample'' (map_option archive_sample_text (up_archiveSample u)) ''all'' @
     opt_update ''deployment_bottleneck_ms'' (map_option threshold_text (up_bottleneckThreshold u))
       (threshold_text DEFAULT_BOTTLENECK_THRESHOLD) @
     opt_update ''deployment_from'' (up_dateFrom u) [] @
     opt_update ''deployment_to'' (up_dateTo u) [] @
     opt_update ''deployment_period'' (map_option period_text (up_period u)) ''all'' @
     opt_update ''deployment_q'' (map_option (js_take 100) (up_search u)) [] @
     opt_update ''deployment_source'' (map_option source_text (up_source u)) ''current'' @
     (if resets_archive_sample u then [(''deployment_archive_sample'', ''all'', ''all'')] else []) @
     opt_update ''deployment_speed'' (map_option speed_text (up_speed u)) ''all'' @
     opt_update ''deployment_stage'' (map_option stage_filter_text (up_stage u)) ''all'' @
     opt_update ''deployment_status'' (map_option status_filter_text (up_status u)) ''all''"

definition apply_updates :: "filter_updates \<Rightarrow> ManagerDeploymentHistoryFilters \<Rightarrow> ManagerDeploymentHistoryFilters" where
  "apply_updates u f =
     \<lparr>df_archiveSample = (if resets_archive_sample u then AsAll else default_to (df_archiveSample f) (up_archiveSample u)),
      df_bottleneckThreshold = default_to (df_bottleneckThreshold f) (up_bottleneckThreshold u),
      df_dateFrom = default_to (df_dateFrom f) (up_dateFrom u),
      df_dateTo = default_to (df_dateTo f) (up_dateTo u),
      df_period = default_to (df_period f) (up_period u),
      df_search = default_to (df_search f) (map_option (js_take 100) (up_search u)),
      df_source = default_to (df_source f) (up_source u),
      df_speed = default_to (df_speed f) (up_speed u),
      df_stage = default_to (df_stage f) (up_stage u),
      df_status = default_to (df_status f) (up_status u)\<rparr>"

record history_state =
  hi_filters :: ManagerDeploymentHistoryFilters
  hi_periodReferenceTime :: int
  hi_location :: location

definition history_init :: "js_host \<Rightarrow> int \<Rightarrow> location \<Rightarrow> history_state" where
  "history_init H now l =
     \<lparr>hi_filters = initial_filters H (location_params l), hi_periodReferenceTime = now, hi_location = l\<rparr>"

definition updateFilters :: "int \<Rightarrow> filter_updates \<Rightarrow> history_state \<Rightarrow> history_state" where
  "updateFilters now u s =
     \<lparr>hi_filters = apply_updates u (hi_filters s),
      hi_periodReferenceTime = (if up_period u \<noteq> None then now else hi_periodReferenceTime s),
      hi_location = replaceBrowserQueryParams (query_updates u) (hi_location s)\<rparr>"

text \<open>
  An update of the controls: dates are empty or exist in the calendar (the value of a date
  input), and the sample is only restricted while archived entries are shown.
\<close>

definition control_update :: "ManagerDeploymentHistoryFilters \<Rightarrow> filter_updates \<Rightarrow> bool" where
  "control_update f u =
     ((\<forall>d. up_dateFrom u = Some d \<longrightarrow> d = [] \<or> calendar_date d) \<and>
      (\<forall>d. up_dateTo u = Some d \<longrightarrow> d = [] \<or> calendar_date d) \<and>
      (df_source (apply_updates u f) = SrcCurrent \<longrightarrow> df_archiveSample (apply_updates u f) = AsAll))"

text \<open>
  The archive sample that a link names, whether or not it is used; a link that names one only while
  it shows archived entries; and the updates that choose the sample anew.
\<close>

definition link_sample :: "location \<Rightarrow> ArchiveSampleFilter" where
  "link_sample l = parseManagerDeploymentArchiveSample (params_get ''deployment_archive_sample'' (location_params l))"

definition fresh_link :: "location \<Rightarrow> bool" where
  "fresh_link l =
     (parseManagerDeploymentHistorySource (params_get ''deployment_source'' (location_params l)) \<noteq> SrcCurrent \<or>
      link_sample l = AsAll)"

definition sets_sample :: "filter_updates \<Rightarrow> bool" where
  "sets_sample u = (up_archiveSample u \<noteq> None \<or> up_source u = Some SrcCurrent)"

text \<open>The states after a sequence of updates on a page opened by any link.\<close>

inductive history_run :: "js_host \<Rightarrow> location \<Rightarrow> filter_updates list \<Rightarrow> history_state \<Rightarrow> bool" for H l where
  run_init: "history_run H l [] (history_init H now l)"
| run_update: "history_run H l us s \<Longrightarrow> control_update (hi_filters s) u \<Longrightarrow>
    history_run H l (us @ [u]) (updateFilters now u s)"

section \<open>Lemmas\<close>

lemma status_text_special: "status_text s \<noteq> ''all''" "status_text s \<noteq> ''failure''" "status_text s \<noteq> ''rollback''"
  by (cases s; simp)+

lemma status_text_inj: "status_text s = status_text t \<Longrightarrow> s = t"
  by (cases s; cases t) auto

lemma stage_text_special: "stage_text s \<noteq> ''all''" "stage_text s \<noteq> ''unknown''"
  by (cases s; simp)+

lemma stage_text_inj: "stage_text s = stage_text t \<Longrightarrow> s = t"
  by (cases s; cases t) auto

interpretation dstatus: enum_codec status_filter_text STATUS_FILTERS
proof
  fix x y assume "status_filter_text x = status_filter_text y"
  then show "x = y"
    by (cases x; cases y) (auto simp: status_text_special status_text_special [symmetric] intro: status_text_inj)
next
  fix x show "x \<in> set STATUS_FILTERS"
    by (cases x) (auto simp: STATUS_FILTERS_def intro: DeploymentStatus.exhaust)
qed

interpretation dstage: enum_codec stage_filter_text STAGE_FILTERS
proof
  fix x y assume "stage_filter_text x = stage_filter_text y"
  then show "x = y"
    by (cases x; cases y) (auto simp: stage_text_special stage_text_special [symmetric] intro: stage_text_inj)
next
  fix x show "x \<in> set STAGE_FILTERS"
    by (cases x) (auto simp: STAGE_FILTERS_def intro: ManagerDeploymentStage.exhaust)
qed

interpretation dperiod: enum_codec period_text PERIOD_FILTERS
proof
  fix x y assume "period_text x = period_text y" then show "x = y" by (cases x; cases y) auto
next
  fix x show "x \<in> set PERIOD_FILTERS" by (cases x) (auto simp: PERIOD_FILTERS_def)
qed

interpretation dthreshold: enum_codec threshold_text BOTTLENECK_THRESHOLDS
proof
  fix x y assume "threshold_text x = threshold_text y" then show "x = y" by (cases x; cases y) auto
next
  fix x show "x \<in> set BOTTLENECK_THRESHOLDS" by (cases x) (auto simp: BOTTLENECK_THRESHOLDS_def)
qed

lemma parse_date_iff: "parseManagerDeploymentHistoryDate H v = (if truthy v \<and> calendar_date (the v) then the v else [])"
  using utc_date_check_iff [of H "the v"]
  by (auto simp: parseManagerDeploymentHistoryDate_def utc_date_check_def split: option.splits)

definition stored :: "string \<Rightarrow> string \<Rightarrow> string option" where
  "stored v d = (if v = d then None else Some v)"

lemma stored_reads:
  "parseManagerDeploymentHistoryStatus (stored (status_filter_text x1) ''all'') = x1"
  "parseManagerDeploymentHistoryStage (stored (stage_filter_text x2) ''all'') = x2"
  "parseManagerDeploymentHistoryPeriod (stored (period_text x3) ''all'') = x3"
  "parseManagerDeploymentBottleneckThreshold (stored (threshold_text x4) (threshold_text DEFAULT_BOTTLENECK_THRESHOLD)) = x4"
  "parseManagerDeploymentHistorySource (stored (source_text x5) ''current'') = x5"
  "parseManagerDeploymentHistorySpeed (stored (speed_text x6) ''all'') = x6"
  "parseManagerDeploymentArchiveSample (stored (archive_sample_text x7) ''all'') = x7"
  "js_take 100 (or_else (stored (js_take 100 s) []) []) = js_take 100 s"
  "d = [] \<or> calendar_date d \<Longrightarrow> parseManagerDeploymentHistoryDate H (stored d []) = d"
proof -
  show "parseManagerDeploymentHistoryStatus (stored (status_filter_text x1) ''all'') = x1"
    using dstatus.read_stored [of SfAll x1] by (simp add: parseManagerDeploymentHistoryStatus_def stored_def)
  show "parseManagerDeploymentHistoryStage (stored (stage_filter_text x2) ''all'') = x2"
    using dstage.read_stored [of FsAll x2] by (simp add: parseManagerDeploymentHistoryStage_def stored_def)
  show "parseManagerDeploymentHistoryPeriod (stored (period_text x3) ''all'') = x3"
    using dperiod.read_stored [of PerAll x3] by (simp add: parseManagerDeploymentHistoryPeriod_def stored_def)
  show "parseManagerDeploymentBottleneckThreshold (stored (threshold_text x4) (threshold_text DEFAULT_BOTTLENECK_THRESHOLD)) = x4"
    using dthreshold.read_stored [of DEFAULT_BOTTLENECK_THRESHOLD x4]
    by (simp add: parseManagerDeploymentBottleneckThreshold_def stored_def)
qed (cases x5; cases x6; cases x7; auto simp: stored_def parseManagerDeploymentHistorySource_def
    parseManagerDeploymentHistorySpeed_def parseManagerDeploymentArchiveSample_def parse_date_iff js_take_idem)+

lemma map_of_opt:
  "map_of (opt_update k v d @ us) j = (if j = k then (case v of None \<Rightarrow> map_of us j | Some x \<Rightarrow> Some (x, d)) else map_of us j)"
  by (auto simp: opt_update_def split: option.splits)

lemma keys_opt: "map fst (opt_update k v d) \<in> {[], [k]}"
  by (auto simp: opt_update_def split: option.splits)

lemma distinct_pieces:
  "list_all2 (\<lambda>p k. map fst p \<in> {[], [k]}) pieces ks \<Longrightarrow> distinct ks \<Longrightarrow>
   distinct (map fst (concat pieces)) \<and> fst ` set (concat pieces) \<subseteq> set ks"
proof (induction rule: list_all2_induct)
  case (Cons p pieces k ks)
  then have ih: "distinct (map fst (concat pieces))" "fst ` set (concat pieces) \<subseteq> set ks" by simp_all
  have "k \<notin> set (map fst (concat pieces))" using ih(2) Cons.prems by auto
  then have "distinct (map fst p @ map fst (concat pieces))"
    using Cons.hyps(1) ih(1) by (metis append_Cons append_Nil distinct.simps(2) insertE singletonD)
  moreover have "fst ` set p \<subseteq> {k}" using Cons.hyps(1) by (auto simp flip: set_map)
  moreover have "fst ` set (concat (p # pieces)) = fst ` set p \<union> fst ` set (concat pieces)" by (simp add: image_Un)
  ultimately show ?case using ih(2) by (simp only: concat.simps map_append list.set) blast
qed simp

lemma query_updates_distinct: "distinct (map fst (query_updates u))"
proof -
  let ?reset = "if resets_archive_sample u then [(''deployment_archive_sample'', ''all'', ''all'')] else []"
  let ?first = "opt_update ''deployment_archive_sample'' (map_option archive_sample_text (up_archiveSample u)) ''all''"
  let ?mid = "[opt_update ''deployment_bottleneck_ms'' (map_option threshold_text (up_bottleneckThreshold u))
       (threshold_text DEFAULT_BOTTLENECK_THRESHOLD), opt_update ''deployment_from'' (up_dateFrom u) [],
     opt_update ''deployment_to'' (up_dateTo u) [],
     opt_update ''deployment_period'' (map_option period_text (up_period u)) ''all'',
     opt_update ''deployment_q'' (map_option (js_take 100) (up_search u)) [],
     opt_update ''deployment_source'' (map_option source_text (up_source u)) ''current'']"
  let ?rest = "[opt_update ''deployment_speed'' (map_option speed_text (up_speed u)) ''all'',
     opt_update ''deployment_stage'' (map_option stage_filter_text (up_stage u)) ''all'',
     opt_update ''deployment_status'' (map_option status_filter_text (up_status u)) ''all'']"
  have q: "query_updates u = ?first @ concat ?mid @ ?reset @ concat ?rest" by (simp add: query_updates_def)
  show ?thesis
  proof (cases "resets_archive_sample u")
    case True
    then have "query_updates u = concat (?mid @ [?reset] @ ?rest)"
      by (simp add: q resets_archive_sample_def opt_update_def)
    moreover have "distinct (map fst (concat (?mid @ [?reset] @ ?rest)))"
      by (rule distinct_pieces [where ks =
            "[''deployment_bottleneck_ms'', ''deployment_from'', ''deployment_to'', ''deployment_period'', ''deployment_q'',
              ''deployment_source'', ''deployment_archive_sample'', ''deployment_speed'', ''deployment_stage'', ''deployment_status'']", THEN conjunct1])
        (simp_all only: list_all2_Cons list_all2_Nil append.simps keys_opt simp_thms, simp_all)
    ultimately show ?thesis by simp
  next
    case False
    then have "query_updates u = concat ([?first] @ ?mid @ ?rest)" by (simp add: q)
    moreover have "distinct (map fst (concat ([?first] @ ?mid @ ?rest)))"
      by (rule distinct_pieces [where ks =
            "[''deployment_archive_sample'', ''deployment_bottleneck_ms'', ''deployment_from'', ''deployment_to'', ''deployment_period'',
              ''deployment_q'', ''deployment_source'', ''deployment_speed'', ''deployment_stage'', ''deployment_status'']", THEN conjunct1])
        (simp_all only: list_all2_Cons list_all2_Nil append.simps keys_opt simp_thms, simp_all)
    ultimately show ?thesis by simp
  qed
qed

lemma query_updates_get:
  "params_get k (location_params (replaceBrowserQueryParams (query_updates u) l)) =
    (case map_of (query_updates u) k of None \<Rightarrow> params_get k (location_params l) | Some (v, d) \<Rightarrow> stored v d)"
  by (simp add: replace_get [OF query_updates_distinct] stored_def split: option.splits)

lemma map_of_opt_last: "map_of (opt_update k v d) j = (if j = k then map_option (\<lambda>x. (x, d)) v else None)"
  by (auto simp: opt_update_def split: option.splits)

lemma map_of_reset:
  "map_of ((if b then [(k, v, d)] else []) @ us) j = (if j = k \<and> b then Some (v, d) else map_of us j)"
  by simp

lemma query_updates_map:
  "map_of (query_updates u) ''deployment_archive_sample'' =
     (case up_archiveSample u of Some x \<Rightarrow> Some (archive_sample_text x, ''all'')
      | None \<Rightarrow> if resets_archive_sample u then Some (''all'', ''all'') else None)"
  "map_of (query_updates u) ''deployment_bottleneck_ms'' =
     map_option (\<lambda>x. (threshold_text x, threshold_text DEFAULT_BOTTLENECK_THRESHOLD)) (up_bottleneckThreshold u)"
  "map_of (query_updates u) ''deployment_from'' = map_option (\<lambda>x. (x, [])) (up_dateFrom u)"
  "map_of (query_updates u) ''deployment_to'' = map_option (\<lambda>x. (x, [])) (up_dateTo u)"
  "map_of (query_updates u) ''deployment_period'' = map_option (\<lambda>x. (period_text x, ''all'')) (up_period u)"
  "map_of (query_updates u) ''deployment_q'' = map_option (\<lambda>x. (js_take 100 x, [])) (up_search u)"
  "map_of (query_updates u) ''deployment_source'' = map_option (\<lambda>x. (source_text x, ''current'')) (up_source u)"
  "map_of (query_updates u) ''deployment_speed'' = map_option (\<lambda>x. (speed_text x, ''all'')) (up_speed u)"
  "map_of (query_updates u) ''deployment_stage'' = map_option (\<lambda>x. (stage_filter_text x, ''all'')) (up_stage u)"
  "map_of (query_updates u) ''deployment_status'' = map_option (\<lambda>x. (status_filter_text x, ''all'')) (up_status u)"
  by (simp_all only: query_updates_def map_of_opt map_of_opt_last map_of_reset list.inject char.inject simp_thms
      list.distinct if_True if_False, simp_all add: option.map_comp comp_def split: option.split)

text \<open>The sample named by the new address.\<close>

lemma sample_after_update:
  "link_sample (replaceBrowserQueryParams (query_updates u) l) =
    (if sets_sample u then df_archiveSample (apply_updates u f) else link_sample l)"
proof (cases "up_archiveSample u")
  case None
  have "parseManagerDeploymentArchiveSample None = AsAll" by (simp add: parseManagerDeploymentArchiveSample_def)
  then show ?thesis
    by (simp add: link_sample_def sets_sample_def query_updates_get query_updates_map None apply_updates_def
        stored_def resets_archive_sample_def)
next
  case (Some x)
  then show ?thesis
    by (simp add: link_sample_def sets_sample_def query_updates_get query_updates_map stored_reads apply_updates_def
        resets_archive_sample_def)
qed

lemma sample_kept: "\<not> sets_sample u \<Longrightarrow> df_archiveSample (apply_updates u f) = df_archiveSample f"
  by (simp add: sets_sample_def apply_updates_def resets_archive_sample_def)

lemma reloaded_sample:
  "df_archiveSample (initial_filters H (location_params l)) =
    (if df_source (initial_filters H (location_params l)) = SrcCurrent then AsAll else link_sample l)"
  by (simp add: initial_filters_def link_sample_def)

text \<open>The other filters named by the new address are those of the new state.\<close>

lemma read_after_update:
  assumes f: "f = (initial_filters H (location_params l))\<lparr>df_archiveSample := a\<rparr>" and u: "control_update f u"
  shows "apply_updates u f =
    (initial_filters H (location_params (replaceBrowserQueryParams (query_updates u) l)))
      \<lparr>df_archiveSample := df_archiveSample (apply_updates u f)\<rparr>"
proof -
  let ?ps = "location_params (replaceBrowserQueryParams (query_updates u) l)"
  note get = query_updates_get [of _ u l] query_updates_map [of u]
  have "df_bottleneckThreshold (initial_filters H ?ps) = df_bottleneckThreshold (apply_updates u f)"
    by (cases "up_bottleneckThreshold u") (simp_all add: initial_filters_def apply_updates_def f get stored_reads)
  moreover have "df_dateFrom (initial_filters H ?ps) = df_dateFrom (apply_updates u f)"
    using u by (cases "up_dateFrom u") (simp_all add: control_update_def initial_filters_def apply_updates_def f get stored_reads)
  moreover have "df_dateTo (initial_filters H ?ps) = df_dateTo (apply_updates u f)"
    using u by (cases "up_dateTo u") (simp_all add: control_update_def initial_filters_def apply_updates_def f get stored_reads)
  moreover have "df_period (initial_filters H ?ps) = df_period (apply_updates u f)"
    by (cases "up_period u") (simp_all add: initial_filters_def apply_updates_def f get stored_reads)
  moreover have "df_search (initial_filters H ?ps) = df_search (apply_updates u f)"
    by (cases "up_search u") (simp_all add: initial_filters_def apply_updates_def f get stored_reads)
  moreover have "df_speed (initial_filters H ?ps) = df_speed (apply_updates u f)"
    by (cases "up_speed u") (simp_all add: initial_filters_def apply_updates_def f get stored_reads)
  moreover have "df_stage (initial_filters H ?ps) = df_stage (apply_updates u f)"
    by (cases "up_stage u") (simp_all add: initial_filters_def apply_updates_def f get stored_reads)
  moreover have "df_status (initial_filters H ?ps) = df_status (apply_updates u f)"
    by (cases "up_status u") (simp_all add: initial_filters_def apply_updates_def f get stored_reads)
  moreover have "df_source (initial_filters H ?ps) = df_source (apply_updates u f)"
    by (cases "up_source u") (simp_all add: initial_filters_def apply_updates_def f get stored_reads)
  ultimately show ?thesis by (intro ManagerDeploymentHistoryFilters.equality) simp_all
qed

text \<open>
  The invariant: all filters but the sample are those of the address; the address names the sample
  of the state, unless the link was not fresh and the sample has not been chosen since.
\<close>

definition deployment_inv :: "js_host \<Rightarrow> bool \<Rightarrow> ArchiveSampleFilter \<Rightarrow> history_state \<Rightarrow> bool" where
  "deployment_inv H settled named s =
     (hi_filters s = (initial_filters H (location_params (hi_location s)))\<lparr>df_archiveSample := df_archiveSample (hi_filters s)\<rparr> \<and>
      (df_source (hi_filters s) = SrcCurrent \<longrightarrow> df_archiveSample (hi_filters s) = AsAll) \<and>
      (if settled then link_sample (hi_location s) = df_archiveSample (hi_filters s)
       else link_sample (hi_location s) = named \<and> df_archiveSample (hi_filters s) = AsAll))"

lemma deployment_inv_init: "deployment_inv H (fresh_link l) (link_sample l) (history_init H now l)"
proof -
  let ?f = "initial_filters H (location_params l)"
  have "?f = ?f\<lparr>df_archiveSample := df_archiveSample ?f\<rparr>" by simp
  moreover have "df_source ?f = parseManagerDeploymentHistorySource (params_get ''deployment_source'' (location_params l))"
    by (simp add: initial_filters_def)
  ultimately show ?thesis
    by (simp add: deployment_inv_def history_init_def reloaded_sample fresh_link_def)
qed

lemma deployment_inv_update:
  assumes "deployment_inv H settled named s" "control_update (hi_filters s) u"
  shows "deployment_inv H (settled \<or> sets_sample u) named (updateFilters now u s)"
proof -
  let ?t = "updateFilters now u s"
  have f: "hi_filters s = (initial_filters H (location_params (hi_location s)))\<lparr>df_archiveSample := df_archiveSample (hi_filters s)\<rparr>"
    using assms(1) by (simp only: deployment_inv_def)
  have "hi_filters ?t = (initial_filters H (location_params (hi_location ?t)))\<lparr>df_archiveSample := df_archiveSample (hi_filters ?t)\<rparr>"
    using read_after_update [OF f assms(2)] by (simp only: updateFilters_def history_state.select_convs)
  moreover have "df_source (hi_filters ?t) = SrcCurrent \<longrightarrow> df_archiveSample (hi_filters ?t) = AsAll"
    using assms(2) by (simp only: control_update_def updateFilters_def history_state.select_convs) blast
  moreover have "if settled \<or> sets_sample u then link_sample (hi_location ?t) = df_archiveSample (hi_filters ?t)
      else link_sample (hi_location ?t) = named \<and> df_archiveSample (hi_filters ?t) = AsAll"
    using assms(1) sample_after_update [of u "hi_location s" "hi_filters s"] sample_kept [of u "hi_filters s"]
    by (simp only: deployment_inv_def updateFilters_def history_state.select_convs split: if_splits) auto
  ultimately show ?thesis by (simp only: deployment_inv_def)
qed

lemma history_run_inv:
  "history_run H l us s \<Longrightarrow> deployment_inv H (fresh_link l \<or> list_ex sets_sample us) (link_sample l) s"
proof (induction rule: history_run.induct)
  case (run_init now)
  then show ?case using deployment_inv_init by simp
next
  case (run_update us s u now)
  then show ?case
    using deployment_inv_update [of H "fresh_link l \<or> list_ex sets_sample us" "link_sample l" s u now]
    by (simp add: disj_assoc)
qed

section \<open>Properties\<close>

text \<open>C25. The page of the deployment history may be opened by any link and its controls used in any order:
  reloading it, or opening its address elsewhere, gives exactly the filters that are shown, with one
  exception.  When the link named an archive sample but not the archive, and no control has chosen
  the sample (or the current entries) since, all samples are shown; once the archived entries are
  shown too, the reloaded page restricts them to the sample of the link.  The search text keeps its
  limit.\<close>

theorem deployment_filters_reload:
  assumes "history_run H l us s"
  shows "initial_filters H (location_params (hi_location s)) =
      (if fresh_link l \<or> list_ex sets_sample us \<or> df_source (hi_filters s) = SrcCurrent then hi_filters s
       else (hi_filters s)\<lparr>df_archiveSample := link_sample l\<rparr>) \<and>
    (fresh_link l \<or> list_ex sets_sample us \<or> df_archiveSample (hi_filters s) = AsAll) \<and>
    utf16_length (df_search (hi_filters s)) \<le> 100"
proof -
  let ?g = "initial_filters H (location_params (hi_location s))" and ?f = "hi_filters s"
  have inv: "deployment_inv H (fresh_link l \<or> list_ex sets_sample us) (link_sample l) s"
    using history_run_inv [OF assms] .
  then have f: "?f = ?g\<lparr>df_archiveSample := df_archiveSample ?f\<rparr>" by (simp only: deployment_inv_def)
  have g: "?g = ?f\<lparr>df_archiveSample := df_archiveSample ?g\<rparr>"
    by (subst f) simp
  have "df_source ?f = df_source ?g" by (subst f) simp
  then have a: "df_archiveSample ?g = (if df_source ?f = SrcCurrent then AsAll else link_sample (hi_location s))"
    by (simp add: reloaded_sample)
  have "utf16_length (df_search ?g) \<le> 100" by (simp add: initial_filters_def utf16_length_js_take)
  moreover have "df_search ?f = df_search ?g" by (subst f) simp
  moreover have same: "?g = ?f" if "df_archiveSample ?g = df_archiveSample ?f"
  proof -
    have "?g = ?f\<lparr>df_archiveSample := df_archiveSample ?f\<rparr>" using g unfolding that .
    then show ?thesis by simp
  qed
  moreover have "?g = (if fresh_link l \<or> list_ex sets_sample us \<or> df_source ?f = SrcCurrent then ?f
       else ?f\<lparr>df_archiveSample := link_sample l\<rparr>)"
  proof (cases "fresh_link l \<or> list_ex sets_sample us \<or> df_source ?f = SrcCurrent")
    case True
    then have "df_archiveSample ?g = df_archiveSample ?f"
      using inv a by (auto simp only: deployment_inv_def if_True if_False split: if_splits)
    then show ?thesis using same True by simp
  next
    case False
    then have "df_archiveSample ?g = link_sample l" using inv a by (simp add: deployment_inv_def)
    then show ?thesis using g False by simp
  qed
  moreover have "fresh_link l \<or> list_ex sets_sample us \<or> df_archiveSample ?f = AsAll"
    using inv by (simp add: deployment_inv_def split: if_splits) blast
  ultimately show ?thesis by metis
qed

definition no_updates :: filter_updates where
  "no_updates = \<lparr>up_archiveSample = None, up_bottleneckThreshold = None, up_dateFrom = None, up_dateTo = None,
     up_period = None, up_search = None, up_source = None, up_speed = None, up_stage = None, up_status = None\<rparr>"

definition daily_link :: location where
  "daily_link = \<lparr>loc_path = ''/'', loc_search = ''?deployment_archive_sample=daily'', loc_hash = []\<rparr>"

lemma daily_params: "location_params daily_link = [(''deployment_archive_sample'', ''daily'')]"
  by (simp add: daily_link_def location_params_def params_parse_def split_pair_def form_decode.simps)

lemma daily_not_fresh: "\<not> fresh_link daily_link" "link_sample daily_link = AsDaily"
  by (simp_all add: fresh_link_def link_sample_def daily_params parseManagerDeploymentArchiveSample_def
      parseManagerDeploymentHistorySource_def)

definition archive_chosen :: history_state where
  "archive_chosen = updateFilters 0 (no_updates\<lparr>up_source := Some SrcArchive\<rparr>) (history_init utc_host 0 daily_link)"

definition sample_chosen :: history_state where
  "sample_chosen = updateFilters 0 (no_updates\<lparr>up_archiveSample := Some AsDetailed\<rparr>) archive_chosen"

text \<open>
  The archive is chosen on the page opened by this link: all samples are shown, the reloaded page
  restricts them; after the sample has been chosen too, the reloaded page shows the same.
\<close>

theorem deployment_filters_reload_witness:
  "df_archiveSample (hi_filters archive_chosen) = AsAll \<and>
   initial_filters utc_host (location_params (hi_location archive_chosen)) =
     (hi_filters archive_chosen)\<lparr>df_archiveSample := AsDaily\<rparr> \<and>
   initial_filters utc_host (location_params (hi_location sample_chosen)) = hi_filters sample_chosen"
proof -
  let ?u = "no_updates\<lparr>up_source := Some SrcArchive\<rparr>" and ?v = "no_updates\<lparr>up_archiveSample := Some AsDetailed\<rparr>"
  let ?s = archive_chosen and ?t = sample_chosen
  have "control_update (hi_filters (history_init utc_host 0 daily_link)) ?u"
    by (simp add: control_update_def no_updates_def apply_updates_def)
  then have r: "history_run utc_host daily_link ([] @ [?u]) ?s" unfolding archive_chosen_def by (intro run_update run_init)
  have src: "df_source (hi_filters ?s) = SrcArchive"
    by (simp add: archive_chosen_def updateFilters_def apply_updates_def no_updates_def)
  have "control_update (hi_filters ?s) ?v" by (simp add: control_update_def no_updates_def apply_updates_def src)
  then have r2: "history_run utc_host daily_link (([] @ [?u]) @ [?v]) ?t" using r unfolding sample_chosen_def by (intro run_update)
  have "\<not> sets_sample ?u" "sets_sample ?v" by (simp_all add: sets_sample_def no_updates_def)
  then show ?thesis
    using deployment_filters_reload [OF r] deployment_filters_reload [OF r2] daily_not_fresh src by simp
qed

end
