(* ===== verification/Deployment_Stats.thy ===== *)
theory Deployment_Stats
  imports Deployment_Query
begin

text \<open>
  What the deployment history shows: durations and their statistics
  (\<open>managerDeploymentDisplay.ts\<close>, \<open>managerDeploymentHistoryDisplay.ts\<close>), the previous period
  (\<open>managerDeploymentPeriodComparison.ts\<close>), the filtered view
  (\<open>managerDeploymentHistoryView.ts\<close>) and the consistency of the deployed components
  (\<open>managerDeploymentConsistency.ts\<close>).  Every arithmetic operation rounds to double precision
  (\<open>fl\<close>).
\<close>

section \<open>Durations\<close>

definition getManagerDeploymentDurationMs :: "js_host \<Rightarrow> string \<Rightarrow> string \<Rightarrow> rat option" where
  "getManagerDeploymentDurationMs H startedAt completedAt =
     (case (date_parse H completedAt, date_parse H startedAt) of
        (Some c, Some s) \<Rightarrow>
          (let durationMs = fl (of_int c - of_int s) in if 0 \<le> durationMs then Some durationMs else None)
      | _ \<Rightarrow> None)"

definition formatManagerDeploymentDurationMs :: "rat \<Rightarrow> string" where
  "formatManagerDeploymentDurationMs durationMs =
     (if durationMs < 1000 then txt_below_one_second
      else
        let totalSeconds = \<lfloor>fl (durationMs / 1000)\<rfloor>;
            hours = totalSeconds div 3600;
            minutes = (totalSeconds mod 3600) div 60;
            seconds = totalSeconds mod 60
        in if 0 < hours then show_int hours @ txt_hours @ (if 0 < minutes then '' '' @ show_int minutes @ txt_minutes else [])
           else if 0 < minutes then show_int minutes @ txt_minutes @ (if 0 < seconds then '' '' @ show_int seconds @ txt_seconds else [])
           else show_int seconds @ txt_seconds)"

section \<open>Statistics (\<open>managerDeploymentHistoryDisplay.ts\<close>)\<close>

record ManagerDeploymentDurationStats =
  st_averageMs :: "rat option"
  st_medianMs :: "rat option"
  st_p95Ms :: "rat option"

record ManagerDeploymentStageStats =
  ss_averageMs :: rat
  ss_count :: nat
  ss_maxMs :: rat
  ss_p95Ms :: rat
  ss_stage :: ManagerDeploymentStage

record ManagerDeploymentBottleneck =
  bn_durationMs :: rat
  bn_stage :: ManagerDeploymentStage

record ManagerDeploymentBottleneckAlert = ManagerDeploymentBottleneck +
  ba_entry :: ManagerDeploymentHistoryEntry

definition js_sum :: "rat list \<Rightarrow> rat" where
  "js_sum ds = fold (\<lambda>d total. fl (total + d)) ds 0"

definition js_average :: "rat list \<Rightarrow> rat" where
  "js_average ds = of_int (math_round (fl (js_sum ds / of_nat (length ds))))"

definition percentile :: "rat list \<Rightarrow> rat \<Rightarrow> rat" where
  "percentile sortedDurations ratio =
     (let position = fl (of_nat (length sortedDurations - 1) * ratio);
          lowerIndex = \<lfloor>position\<rfloor>;
          upperIndex = \<lceil>position\<rceil>;
          lower = sortedDurations ! nat lowerIndex;
          upper = sortedDurations ! nat upperIndex
      in of_int (math_round (fl (lower + fl (fl (upper - lower) * fl (position - of_int lowerIndex))))))"

text \<open>The literal \<open>0.95\<close>.\<close>

definition RATIO_95 :: rat where "RATIO_95 = fl (95 / 100)"

definition sorted_durations :: "js_host \<Rightarrow> ManagerDeploymentHistoryEntry list \<Rightarrow> rat list" where
  "sorted_durations H entries =
     js_sort rat_cmp (List.map_filter
       (\<lambda>e. getManagerDeploymentDurationMs H (dh_started_at e) (dh_completed_at e)) entries)"

definition getManagerDeploymentDurationStats ::
    "js_host \<Rightarrow> ManagerDeploymentHistoryEntry list \<Rightarrow> ManagerDeploymentDurationStats" where
  "getManagerDeploymentDurationStats H entries =
     (let durations = sorted_durations H entries in
      if durations = [] then \<lparr>st_averageMs = None, st_medianMs = None, st_p95Ms = None\<rparr>
      else
        let middle = length durations div 2;
            medianMs =
              (if length durations mod 2 = 0
               then of_int (math_round (fl (fl (durations ! (middle - 1) + durations ! middle) / 2)))
               else durations ! middle)
        in \<lparr>st_averageMs = Some (js_average durations), st_medianMs = Some medianMs,
            st_p95Ms = Some (percentile durations RATIO_95)\<rparr>)"

definition STAGES :: "ManagerDeploymentStage list" where
  "STAGES = [StPrepare, StBuild, StMigrationPreflight, StCandidateHealth, StRouteSwitch, StLeaderHandover,
     StPublicProbe, StStateWrite]"

definition isValidStageDuration :: "rat option \<Rightarrow> bool" where
  "isValidStageDuration d = (case d of None \<Rightarrow> False | Some x \<Rightarrow> 0 \<le> x)"

definition stage_durations :: "ManagerDeploymentHistoryEntry list \<Rightarrow> ManagerDeploymentStage \<Rightarrow> rat list" where
  "stage_durations entries stage =
     js_sort rat_cmp (map the (filter isValidStageDuration (map (\<lambda>e. dh_stage_durations_ms e stage) entries)))"

definition getManagerDeploymentStageStats ::
    "ManagerDeploymentHistoryEntry list \<Rightarrow> ManagerDeploymentStageStats list" where
  "getManagerDeploymentStageStats entries =
     concat (map (\<lambda>stage.
       let durations = stage_durations entries stage in
       if durations = [] then []
       else [\<lparr>ss_averageMs = js_average durations, ss_count = length durations, ss_maxMs = last durations,
              ss_p95Ms = percentile durations RATIO_95, ss_stage = stage\<rparr>]) STAGES)"

definition bottleneck_step ::
    "(ManagerDeploymentStage \<Rightarrow> rat option) \<Rightarrow> ManagerDeploymentStage \<Rightarrow>
     ManagerDeploymentBottleneck option \<Rightarrow> ManagerDeploymentBottleneck option" where
  "bottleneck_step durations stage slowest =
     (let durationMs = durations stage in
      if \<not> isValidStageDuration durationMs then slowest
      else case slowest of
             None \<Rightarrow> Some \<lparr>bn_durationMs = the durationMs, bn_stage = stage\<rparr>
           | Some b \<Rightarrow> (if bn_durationMs b < the durationMs
                        then Some \<lparr>bn_durationMs = the durationMs, bn_stage = stage\<rparr> else slowest))"

definition getManagerDeploymentBottleneck ::
    "(ManagerDeploymentStage \<Rightarrow> rat option) \<Rightarrow> ManagerDeploymentBottleneck option" where
  "getManagerDeploymentBottleneck durations = fold (bottleneck_step durations) STAGES None"

definition getManagerDeploymentBottleneckAlerts ::
    "ManagerDeploymentHistoryEntry list \<Rightarrow> rat \<Rightarrow> ManagerDeploymentBottleneckAlert list" where
  "getManagerDeploymentBottleneckAlerts entries thresholdMs =
     js_sort (\<lambda>l r. rat_cmp (bn_durationMs r) (bn_durationMs l))
       (List.map_filter (\<lambda>e.
          case getManagerDeploymentBottleneck (dh_stage_durations_ms e) of
            None \<Rightarrow> None
          | Some b \<Rightarrow> (if thresholdMs < bn_durationMs b
                       then Some \<lparr>bn_durationMs = bn_durationMs b, bn_stage = bn_stage b, ba_entry = e\<rparr> else None))
        entries)"

definition getManagerDeploymentSpeedThresholdMs :: "ManagerDeploymentDurationStats \<Rightarrow> SpeedFilter \<Rightarrow> rat option" where
  "getManagerDeploymentSpeedThresholdMs stats speed = (if speed = SpP95 then st_p95Ms stats else st_averageMs stats)"

definition getManagerDeploymentExcessDurationMs :: "rat option \<Rightarrow> rat option \<Rightarrow> rat option" where
  "getManagerDeploymentExcessDurationMs durationMs thresholdDurationMs =
     (case (durationMs, thresholdDurationMs) of
        (Some d, Some t) \<Rightarrow> (if d \<le> t then None else Some (fl (d - t)))
      | _ \<Rightarrow> None)"

section \<open>The previous period (\<open>managerDeploymentPeriodComparison.ts\<close>)\<close>

record ManagerDeploymentPeriodComparison =
  pc_averageMs :: "rat option"
  pc_count :: nat
  pc_entries :: "ManagerDeploymentHistoryEntry list"

text \<open>\<open>ToIntegerOrInfinity\<close>; an infinite number gives an invalid date below.\<close>

definition num_trunc :: "jsnum \<Rightarrow> int option" where
  "num_trunc n = (case n of Num q \<Rightarrow> Some (if 0 \<le> q then \<lfloor>q\<rfloor> else \<lceil>q\<rceil>) | _ \<Rightarrow> None)"

text \<open>\<open>month - 1\<close>\<close>

definition num_pred :: "jsnum \<Rightarrow> jsnum" where
  "num_pred n = (case n of Num q \<Rightarrow> Num (fl (q - 1)) | _ \<Rightarrow> n)"

text \<open>\<open>MakeDay\<close>: the day of a year, a month counted from zero that may overflow, and a day.\<close>

definition make_day :: "int \<Rightarrow> int \<Rightarrow> int \<Rightarrow> int" where
  "make_day y m d = day_of_civil (y + m div 12) (m mod 12 + 1) 1 + d - 1"

text \<open>\<open>new Date(year, month, day)\<close>: two-digit years belong to the twentieth century.\<close>

definition local_date :: "js_host \<Rightarrow> jsnum \<Rightarrow> jsnum \<Rightarrow> jsnum \<Rightarrow> int option" where
  "local_date H year month day =
     (case (num_trunc year, num_trunc month, num_trunc day) of
        (Some y, Some m, Some d) \<Rightarrow>
          (let yr = (if 0 \<le> y \<and> y \<le> 99 then 1900 + y else y)
           in time_clip (local_to_utc H (make_day yr m d * day_ms)))
      | _ \<Rightarrow> None)"

text \<open>\<open>boundary.setDate(boundary.getDate() + 1)\<close>: the next local day at the same local time.\<close>

definition next_local_day :: "js_host \<Rightarrow> int \<Rightarrow> int option" where
  "next_local_day H t =
     (let lt = utc_to_local H t in time_clip (local_to_utc H ((lt div day_ms + 1) * day_ms + lt mod day_ms)))"

text \<open>The three numbers of a date text; a missing one is \<open>undefined\<close>, which is no number.\<close>

definition date_numbers :: "string \<Rightarrow> jsnum \<times> jsnum \<times> jsnum" where
  "date_numbers value =
     (let ns = map js_number (str_split CHR ''-'' value); item = (\<lambda>i. if i < length ns then ns ! i else NaN)
      in (item 0, item 1, item 2))"

text \<open>\<open>None\<close> is the \<open>null\<close> of an empty text; \<open>Some None\<close> is a boundary that is no date.\<close>

definition getManagerDeploymentDateBoundary :: "js_host \<Rightarrow> string \<Rightarrow> bool \<Rightarrow> int option option" where
  "getManagerDeploymentDateBoundary H value nextDay =
     (if value = [] then None
      else
        let (year, month, day) = date_numbers value; boundary = local_date H year (num_pred month) day
        in Some (if nextDay then Option.bind boundary (next_local_day H) else boundary))"

fun period_days :: "PeriodFilter \<Rightarrow> int" where
  "period_days PerAll = 0"
| "period_days Per1 = 1"
| "period_days Per7 = 7"
| "period_days Per30 = 30"
| "period_days Per90 = 90"

text \<open>The two ends of the current range; an end may be no date.\<close>

definition getCurrentRange ::
    "js_host \<Rightarrow> ManagerDeploymentHistoryFilters \<Rightarrow> int \<Rightarrow> (int option \<times> int option) option" where
  "getCurrentRange H f referenceTime =
     (if df_dateFrom f \<noteq> [] \<or> df_dateTo f \<noteq> [] then
        (if df_dateFrom f = [] \<or> df_dateTo f = [] then None
         else case (getManagerDeploymentDateBoundary H (df_dateFrom f) False,
                    getManagerDeploymentDateBoundary H (df_dateTo f) True) of
                (Some s, Some e) \<Rightarrow> Some (s, e)
              | _ \<Rightarrow> None)
      else if df_period f = PerAll then None
      else Some (Some (referenceTime - period_days (df_period f) * 86400000), Some referenceTime))"

text \<open>\<open>a >= b\<close> and \<open>a < b\<close> on numbers that may be no number.\<close>

definition time_ge :: "int option \<Rightarrow> int option \<Rightarrow> bool" where
  "time_ge a b = (case (a, b) of (Some x, Some y) \<Rightarrow> y \<le> x | _ \<Rightarrow> False)"

definition time_lt :: "int option \<Rightarrow> int option \<Rightarrow> bool" where
  "time_lt a b = (case (a, b) of (Some x, Some y) \<Rightarrow> x < y | _ \<Rightarrow> False)"

definition getManagerDeploymentPeriodComparison ::
    "js_host \<Rightarrow> ManagerDeploymentHistoryEntry list \<Rightarrow> ManagerDeploymentHistoryFilters \<Rightarrow> int \<Rightarrow>
     ManagerDeploymentPeriodComparison option" where
  "getManagerDeploymentPeriodComparison H entries f referenceTime =
     (case getCurrentRange H f referenceTime of
        None \<Rightarrow> None
      | Some (currentStart, currentEnd) \<Rightarrow>
          (let duration = (case (currentEnd, currentStart) of (Some e, Some s) \<Rightarrow> Some (e - s) | _ \<Rightarrow> None) in
           if (case duration of Some d \<Rightarrow> d \<le> 0 | None \<Rightarrow> False) then None
           else
             let previousStart = (case (currentStart, duration) of (Some s, Some d) \<Rightarrow> Some (s - d) | _ \<Rightarrow> None);
                 previousEntries = filter (\<lambda>e. let c = date_parse H (dh_completed_at e)
                   in time_ge c previousStart \<and> time_lt c currentStart) entries;
                 validCount = length (filter (\<lambda>e.
                   getManagerDeploymentDurationMs H (dh_started_at e) (dh_completed_at e) \<noteq> None) previousEntries)
             in Some \<lparr>pc_averageMs = st_averageMs (getManagerDeploymentDurationStats H previousEntries),
                      pc_count = validCount, pc_entries = previousEntries\<rparr>))"

section \<open>The view (\<open>managerDeploymentHistoryView.ts\<close>)\<close>

text \<open>
  The view tells the current entries from the archived ones by object identity, so an entry is
  paired here with the list it came from.
\<close>

datatype RecordSource = FromCurrent | FromArchive

type_synonym sourced_entry = "RecordSource \<times> ManagerDeploymentHistoryEntry"

record history_view =
  hv_durationStats :: ManagerDeploymentDurationStats
  hv_filteredEntries :: "sourced_entry list"
  hv_periodComparison :: "ManagerDeploymentPeriodComparison option"
  hv_speedThresholdMs :: "rat option"
  hv_summaryCurrentCount :: nat
  hv_summaryEntries :: "sourced_entry list"
  hv_visibleEntries :: "sourced_entry list"

definition source_entries ::
    "SourceFilter \<Rightarrow> ManagerDeploymentHistoryEntry list \<Rightarrow> ManagerDeploymentHistoryEntry list \<Rightarrow> sourced_entry list" where
  "source_entries source entries archiveEntries =
     (case source of
        SrcArchive \<Rightarrow> map (Pair FromArchive) archiveEntries
      | SrcAll \<Rightarrow> map (Pair FromCurrent) entries @ map (Pair FromArchive) archiveEntries
      | SrcCurrent \<Rightarrow> map (Pair FromCurrent) entries)"

fun sample_matches :: "ArchiveSampleFilter \<Rightarrow> ArchiveSample option \<Rightarrow> bool" where
  "sample_matches AsAll _ = True"
| "sample_matches _ None = True"
| "sample_matches AsDetailed (Some s) = (s = SampleDetailed)"
| "sample_matches AsDaily (Some s) = (s = SampleDaily)"

definition in_summary :: "js_host \<Rightarrow> ManagerDeploymentHistoryFilters \<Rightarrow> int \<Rightarrow> ManagerDeploymentHistoryEntry \<Rightarrow> bool" where
  "in_summary H f periodReferenceTime e =
     (let completedAt = date_parse H (dh_completed_at e);
          matchesPeriod = (df_period f = PerAll \<or>
            time_ge completedAt (Some (periodReferenceTime - period_days (df_period f) * 86400000)));
          matchesDateRange =
            ((case getManagerDeploymentDateBoundary H (df_dateFrom f) False of None \<Rightarrow> True | Some b \<Rightarrow> time_ge completedAt b) \<and>
             (case getManagerDeploymentDateBoundary H (df_dateTo f) True of None \<Rightarrow> True | Some b \<Rightarrow> time_lt completedAt b))
      in matchesPeriod \<and> matchesDateRange)"

definition in_view ::
    "js_host \<Rightarrow> ManagerDeploymentHistoryFilters \<Rightarrow> rat option \<Rightarrow> ManagerDeploymentHistoryEntry \<Rightarrow> bool" where
  "in_view H f speedThresholdMs e =
     (let query = str_lower (js_trim (df_search f));
          matchesStatus = matchesManagerDeploymentHistoryStatus e (df_status f);
          matchesFailureStage =
            (case df_stage f of
               FsAll \<Rightarrow> True
             | FsUnknown \<Rightarrow> dh_status e \<noteq> DSuccess \<and> dh_failure_stage e = None
             | FsStage s \<Rightarrow> dh_failure_stage e = Some s);
          matchesSearch =
            (query = [] \<or>
             list_ex (\<lambda>v. case v of None \<Rightarrow> False | Some t \<Rightarrow> str_includes (str_lower t) query)
               [Some (dh_version e), Some (dh_revision e), dh_failure_reason e]);
          matchesSpeed =
            (df_speed f = SpAll \<or>
             getManagerDeploymentExcessDurationMs
               (getManagerDeploymentDurationMs H (dh_started_at e) (dh_completed_at e)) speedThresholdMs \<noteq> None)
      in matchesStatus \<and> matchesFailureStage \<and> matchesSearch \<and> matchesSpeed)"

definition getManagerDeploymentHistoryView ::
    "js_host \<Rightarrow> ManagerDeploymentHistoryEntry list \<Rightarrow> ManagerDeploymentHistoryEntry list \<Rightarrow>
     ManagerDeploymentHistoryFilters \<Rightarrow> int \<Rightarrow> history_view" where
  "getManagerDeploymentHistoryView H archiveEntries entries f periodReferenceTime =
     (let visibleEntries = filter (\<lambda>e. sample_matches (df_archiveSample f) (dh_archive_sample (snd e)))
            (source_entries (df_source f) entries archiveEntries);
          summaryEntries = filter (\<lambda>e. in_summary H f periodReferenceTime (snd e)) visibleEntries;
          durationStats = getManagerDeploymentDurationStats H (map snd summaryEntries);
          speedThresholdMs = getManagerDeploymentSpeedThresholdMs durationStats (df_speed f)
      in \<lparr>hv_durationStats = durationStats,
          hv_filteredEntries = filter (\<lambda>e. in_view H f speedThresholdMs (snd e)) summaryEntries,
          hv_periodComparison = getManagerDeploymentPeriodComparison H (map snd visibleEntries) f periodReferenceTime,
          hv_speedThresholdMs = speedThresholdMs,
          hv_summaryCurrentCount = length (filter (\<lambda>e. fst e = FromCurrent) summaryEntries),
          hv_summaryEntries = summaryEntries,
          hv_visibleEntries = visibleEntries\<rparr>)"

section \<open>Consistency of the components (\<open>managerDeploymentConsistency.ts\<close>)\<close>

record DeploymentComponent =
  cp_name :: string
  cp_container_name :: string
  cp_status :: string
  cp_runtime_status :: "string option"
  cp_health_status :: "string option"
  cp_health_failing_streak :: nat
  cp_health_last_checked_at :: "string option"
  cp_health_last_exit_code :: "int option"
  cp_container_id :: "string option"
  cp_image :: "string option"
  cp_image_id :: "string option"
  cp_image_created :: "string option"
  cp_version :: "string option"
  cp_revision :: "string option"
  cp_build_date :: "string option"
  cp_source :: "string option"
  cp_oci_labels :: "string js_object"

record DeploymentComponentConsistency =
  cc_hasMismatch :: bool
  cc_message :: "string option"
  cc_mismatchedComponentNames :: "string list"

definition normalizeComponentValue :: "string option \<Rightarrow> string option" where
  "normalizeComponentValue value =
     (let text = map_option js_trim value in
      if truthy text \<and> str_lower (the text) \<noteq> ''unknown'' then text else None)"

definition groupComponentValues ::
    "DeploymentComponent list \<Rightarrow> (DeploymentComponent \<Rightarrow> string option) \<Rightarrow> string list" where
  "groupComponentValues components key = js_unique (List.map_filter (\<lambda>c. normalizeComponentValue (key c)) components)"

definition buildMismatchMessage :: "bool \<Rightarrow> bool \<Rightarrow> string" where
  "buildMismatchMessage versionMismatch revisionMismatch =
     (if versionMismatch \<and> revisionMismatch then txt_mismatch_both
      else if versionMismatch then txt_mismatch_version else txt_mismatch_revision)"

definition buildDeploymentComponentConsistency ::
    "DeploymentComponent list option \<Rightarrow> DeploymentComponentConsistency" where
  "buildDeploymentComponentConsistency components =
     (let available = filter (\<lambda>c. cp_status c = ''ok'') (default_to [] components);
          versionMismatch = 1 < length (groupComponentValues available cp_version);
          revisionMismatch = 1 < length (groupComponentValues available cp_revision)
      in if \<not> versionMismatch \<and> \<not> revisionMismatch
         then \<lparr>cc_hasMismatch = False, cc_message = None, cc_mismatchedComponentNames = []\<rparr>
         else \<lparr>cc_hasMismatch = True, cc_message = Some (buildMismatchMessage versionMismatch revisionMismatch),
               cc_mismatchedComponentNames = js_unique (map cp_name available)\<rparr>)"

end
