(* ===== verification/Deployment_Correct.thy ===== *)
theory Deployment_Correct
  imports Deployment_Stats
begin

text \<open>
  Correctness of the deployment history: bounds of the rounded statistics, the bottleneck stage,
  the previous period and the consistency report.
\<close>

section \<open>Rounded statistics\<close>

definition int_valued :: "rat list \<Rightarrow> bool" where
  "int_valued ds = (\<forall>d\<in>set ds. \<exists>n. d = of_int n \<and> 0 \<le> n \<and> n \<le> 2 ^ 53)"

lemma int_valued_nth: "int_valued ds \<Longrightarrow> i < length ds \<Longrightarrow> \<exists>n. ds ! i = of_int n \<and> 0 \<le> n \<and> n \<le> 2 ^ 53"
  by (simp add: int_valued_def)

lemma js_sum_acc:
  "int_valued ds \<Longrightarrow> 0 \<le> a \<Longrightarrow> of_int a + sum_list ds \<le> 2 ^ 53 \<Longrightarrow>
   fold (\<lambda>d total. fl (total + d)) ds (of_int a) = of_int a + sum_list ds"
proof (induction ds arbitrary: a)
  case (Cons d ds)
  then obtain n where n: "d = of_int n" "0 \<le> n" by (auto simp: int_valued_def)
  have nonneg: "0 \<le> sum_list ds" using Cons.prems(1) by (intro sum_list_nonneg) (auto simp: int_valued_def)
  then have "(of_int (a + n) :: rat) \<le> of_int (2 ^ 53)" using Cons.prems(3) n by simp
  then have "a + n \<le> 2 ^ 53" by (simp only: of_int_le_iff)
  then have f: "fl (of_int a + of_int n) = of_int a + of_int n"
    using dbl.rnd_int [of "a + n"] Cons.prems(2) n by simp
  have "fold (\<lambda>d total. fl (total + d)) ds (of_int (a + n)) = of_int (a + n) + sum_list ds"
    using Cons.prems n by (intro Cons.IH) (auto simp: int_valued_def)
  with f show ?case by (simp add: n(1))
qed simp

lemma js_sum_exact: "int_valued ds \<Longrightarrow> sum_list ds \<le> 2 ^ 53 \<Longrightarrow> js_sum ds = sum_list ds"
  using js_sum_acc [of ds 0] by (simp add: js_sum_def)

lemma sum_list_between:
  assumes "\<And>d. d \<in> set ds \<Longrightarrow> l \<le> d \<and> d \<le> (u::rat)"
  shows "of_nat (length ds) * l \<le> sum_list ds \<and> sum_list ds \<le> of_nat (length ds) * u"
  using assms
proof (induction ds)
  case (Cons d ds)
  then have "l \<le> d" "d \<le> u" "of_nat (length ds) * l \<le> sum_list ds" "sum_list ds \<le> of_nat (length ds) * u" by auto
  then show ?case by (simp add: algebra_simps add_mono)
qed simp

lemma round_between:
  assumes "of_int l \<le> x" "x \<le> of_int u" "\<bar>l\<bar> \<le> 2 ^ 53" "\<bar>u\<bar> \<le> 2 ^ 53"
  shows "(of_int l :: rat) \<le> of_int (math_round (fl x)) \<and> (of_int (math_round (fl x)) :: rat) \<le> of_int u"
  using math_round_ge_int [OF dbl.rnd_ge_int [OF assms(1,3)]] math_round_le_int [OF dbl.rnd_le_int [OF assms(2,4)]]
  by simp

lemma average_between:
  assumes "int_valued ds" "ds \<noteq> []" "sum_list ds \<le> 2 ^ 53" "\<And>d. d \<in> set ds \<Longrightarrow> of_int l \<le> d \<and> d \<le> of_int u"
    and "\<bar>l\<bar> \<le> 2 ^ 53" "\<bar>u\<bar> \<le> 2 ^ 53"
  shows "of_int l \<le> js_average ds \<and> js_average ds \<le> of_int u"
proof -
  have p: "0 < (of_nat (length ds) :: rat)" using assms(2) by simp
  have "of_nat (length ds) * of_int l \<le> sum_list ds \<and> sum_list ds \<le> of_nat (length ds) * of_int u"
    by (rule sum_list_between) (rule assms(4))
  then have "of_int l \<le> sum_list ds / of_nat (length ds)" "sum_list ds / of_nat (length ds) \<le> of_int u"
    using p by (simp_all add: field_simps)
  from round_between [OF this assms(5,6)] show ?thesis
    by (simp add: js_average_def js_sum_exact [OF assms(1,3)])
qed

text \<open>Interpolating between two integers stays between them.\<close>

lemma interpolate_between:
  assumes "0 \<le> l" "l \<le> u" "u \<le> 2 ^ 53" "0 \<le> t" "t \<le> 1"
  shows "of_int l \<le> fl (of_int l + fl (fl (of_int u - of_int l) * fl t)) \<and>
    fl (of_int l + fl (fl (of_int u - of_int l) * fl t)) \<le> (of_int u :: rat)"
proof -
  have d: "fl (of_int u - of_int l) = of_int (u - l)" using dbl.rnd_int [of "u - l"] assms by simp
  have t: "0 \<le> fl t" "fl t \<le> 1" using dbl.rnd_unit assms(4,5) by auto
  have n: "(0::rat) \<le> of_int (u - l)" using assms(2) by simp
  have "(of_int (u - l) :: rat) * fl t \<le> of_int (u - l) * 1" by (rule mult_left_mono [OF t(2) n])
  then have "(of_int (u - l) :: rat) * fl t \<le> of_int (u - l)" by simp
  then have a: "fl (of_int (u - l) * fl t) \<le> of_int (u - l)" by (rule dbl.rnd_le_int) (use assms in simp)
  have "of_int 0 \<le> (of_int (u - l) :: rat) * fl t" using t(1) n by simp
  then have b: "of_int 0 \<le> fl (of_int (u - l) * fl t)" by (rule dbl.rnd_ge_int) simp
  have "of_int l \<le> of_int l + fl (of_int (u - l) * fl t)" using b by simp
  then have "of_int l \<le> fl (of_int l + fl (of_int (u - l) * fl t))" by (rule dbl.rnd_ge_int) (use assms in simp)
  moreover have "of_int l + fl (of_int (u - l) * fl t) \<le> of_int u" using a by simp
  then have "fl (of_int l + fl (of_int (u - l) * fl t)) \<le> of_int u" by (rule dbl.rnd_le_int) (use assms in simp)
  ultimately show ?thesis by (simp add: d)
qed

lemma percentile_between:
  assumes "int_valued ds" "sorted ds" "ds \<noteq> []" "length ds \<le> 2 ^ 53" "0 \<le> r" "r \<le> 1"
  shows "hd ds \<le> percentile ds r \<and> percentile ds r \<le> last ds"
proof -
  let ?n = "length ds - 1"
  define pos where "pos = fl (of_nat ?n * r)"
  have "of_int 0 \<le> (of_nat ?n :: rat) * r" using assms(5) by simp
  then have p0: "0 \<le> pos" unfolding pos_def using dbl.rnd_ge_int [of 0] by simp
  have "(of_nat ?n :: rat) * r \<le> of_nat ?n * 1" by (rule mult_left_mono) (use assms(6) in auto)
  then have "(of_nat ?n :: rat) * r \<le> of_int (int ?n)" by simp
  then have "pos \<le> of_int (int ?n)" unfolding pos_def using assms(4) by (intro dbl.rnd_le_int) auto
  then have c: "\<lceil>pos\<rceil> \<le> int ?n" by (simp add: ceiling_le_iff)
  have f: "0 \<le> \<lfloor>pos\<rfloor>" "\<lfloor>pos\<rfloor> \<le> \<lceil>pos\<rceil>" using p0 by (simp_all add: floor_le_ceiling)
  let ?i = "nat \<lfloor>pos\<rfloor>" and ?j = "nat \<lceil>pos\<rceil>"
  have "0 < length ds" "0 \<le> \<lceil>pos\<rceil>" using f assms(3) by auto
  then have ij: "?i \<le> ?j" "?j < length ds" using nat_mono [OF f(2)] c by linarith+
  obtain l where l: "ds ! ?i = of_int l" "0 \<le> l" using int_valued_nth [OF assms(1), of ?i] ij by auto
  obtain u where u: "ds ! ?j = of_int u" "u \<le> 2 ^ 53" using int_valued_nth [OF assms(1), of ?j] ij by auto
  have lu: "l \<le> u" using sorted_nth_mono [OF assms(2) ij] l u by simp
  have t: "0 \<le> pos - of_int \<lfloor>pos\<rfloor>" "pos - of_int \<lfloor>pos\<rfloor> \<le> 1" by linarith+
  note b = interpolate_between [OF l(2) lu u(2) t]
  have "of_int l \<le> percentile ds r \<and> percentile ds r \<le> of_int u"
    using math_round_ge_int [OF b [THEN conjunct1]] math_round_le_int [OF b [THEN conjunct2]]
    unfolding percentile_def Let_def pos_def [symmetric] l(1) u(1) by (simp only: of_int_le_iff simp_thms)
  moreover have "hd ds \<le> of_int l" using sorted_nth_mono [OF assms(2), of 0 ?i] ij assms(3) l by (simp add: hd_conv_nth)
  moreover have "of_int u \<le> last ds" using sorted_nth_mono [OF assms(2), of ?j "length ds - 1"] ij assms(3) u by (simp add: last_conv_nth)
  ultimately show ?thesis by linarith
qed

lemma ratio_95_unit: "0 \<le> RATIO_95" "RATIO_95 \<le> 1"
  unfolding RATIO_95_def using dbl.rnd_unit [of "95 / 100"] by auto

lemma sorted_durations_sorted: "sorted (sorted_durations H es)"
  unfolding sorted_durations_def rat_sorted [symmetric] by (rule ratc.js_sort_sorted)

lemma sorted_bounds:
  assumes "sorted ds" "d \<in> set ds" shows "hd ds \<le> d \<and> d \<le> last ds"
proof -
  have ne: "ds \<noteq> []" using assms(2) by auto
  obtain i where i: "i < length ds" "d = ds ! i" using assms(2) by (auto simp: in_set_conv_nth)
  show ?thesis
    using sorted_nth_mono [OF assms(1), of 0 i] sorted_nth_mono [OF assms(1), of i "length ds - 1"] i ne
    by (simp add: hd_conv_nth last_conv_nth)
qed

text \<open>Time stamps within about 140 thousand years of 1970.\<close>

definition near_times :: "js_host \<Rightarrow> ManagerDeploymentHistoryEntry list \<Rightarrow> bool" where
  "near_times H es =
     (\<forall>e\<in>set es. \<forall>t. date_parse H (dh_started_at e) = Some t \<or> date_parse H (dh_completed_at e) = Some t \<longrightarrow> \<bar>t\<bar> \<le> 2 ^ 52)"

lemma duration_int:
  assumes "near_times H es" "e \<in> set es" "getManagerDeploymentDurationMs H (dh_started_at e) (dh_completed_at e) = Some d"
  shows "\<exists>n. d = of_int n \<and> 0 \<le> n \<and> n \<le> 2 ^ 53"
proof -
  obtain c s where cs: "date_parse H (dh_completed_at e) = Some c" "date_parse H (dh_started_at e) = Some s"
      "d = fl (of_int c - of_int s)" "0 \<le> d"
    using assms(3) by (auto simp: getManagerDeploymentDurationMs_def Let_def split: option.splits if_splits)
  have "\<bar>c\<bar> \<le> 2 ^ 52" "\<bar>s\<bar> \<le> 2 ^ 52" using assms(1,2) cs by (auto simp: near_times_def)
  then have b: "\<bar>c - s\<bar> \<le> 2 ^ 53" by simp
  then have "d = of_int (c - s)" using cs(3) dbl.rnd_int [of "c - s"] by simp
  with b cs(4) show ?thesis by (intro exI [of _ "c - s"]) simp
qed

lemma sorted_durations_int: "near_times H es \<Longrightarrow> int_valued (sorted_durations H es)"
  using duration_int by (fastforce simp: int_valued_def sorted_durations_def List.map_filter_def)

section \<open>The bottleneck stage\<close>

text \<open>The largest valid duration among some stages, or none.\<close>

definition is_slowest :: "(ManagerDeploymentStage \<Rightarrow> rat option) \<Rightarrow> ManagerDeploymentStage set \<Rightarrow>
    ManagerDeploymentBottleneck option \<Rightarrow> bool" where
  "is_slowest ds S b =
     (case b of
        None \<Rightarrow> \<forall>s\<in>S. \<not> isValidStageDuration (ds s)
      | Some m \<Rightarrow> bn_stage m \<in> S \<and> ds (bn_stage m) = Some (bn_durationMs m) \<and> 0 \<le> bn_durationMs m \<and>
          (\<forall>s\<in>S. isValidStageDuration (ds s) \<longrightarrow> the (ds s) \<le> bn_durationMs m))"

lemma bottleneck_step_slowest:
  assumes "is_slowest ds S b" shows "is_slowest ds (insert s S) (bottleneck_step ds s b)"
proof (cases "isValidStageDuration (ds s)")
  case False
  then show ?thesis using assms by (cases b) (simp_all add: is_slowest_def bottleneck_step_def)
next
  case True
  then obtain x where x: "ds s = Some x" "0 \<le> x" by (cases "ds s") (auto simp: isValidStageDuration_def)
  show ?thesis
  proof (cases b)
    case None
    then show ?thesis using assms True x by (auto simp: is_slowest_def bottleneck_step_def Let_def)
  next
    case (Some m)
    then show ?thesis
      using assms True x by (cases "bn_durationMs m < x") (fastforce simp: is_slowest_def bottleneck_step_def Let_def)+
  qed
qed

lemma bottleneck_fold: "is_slowest ds S b \<Longrightarrow> is_slowest ds (set stages \<union> S) (fold (bottleneck_step ds) stages b)"
proof (induction stages arbitrary: S b)
  case (Cons s stages)
  from Cons.IH [OF bottleneck_step_slowest [OF Cons.prems, of s]] show ?case by simp
qed simp

lemma stages_all: "s \<in> set STAGES"
  by (cases s) (auto simp: STAGES_def)

section \<open>Components\<close>

lemma two_values: "1 < length (js_unique xs) \<longleftrightarrow> (\<exists>x\<in>set xs. \<exists>y\<in>set xs. x \<noteq> y)"
proof
  assume l: "1 < length (js_unique xs)"
  have "0 < length (js_unique xs)" using l by linarith
  then have "js_unique xs ! 0 \<noteq> js_unique xs ! 1" using l by (subst nth_eq_iff_index_eq [OF distinct_js_unique]) simp_all
  moreover have "js_unique xs ! 0 \<in> set xs" "js_unique xs ! 1 \<in> set xs"
    using l by (metis nth_mem set_js_unique less_trans zero_less_one)+
  ultimately show "\<exists>x\<in>set xs. \<exists>y\<in>set xs. x \<noteq> y" by blast
next
  assume "\<exists>x\<in>set xs. \<exists>y\<in>set xs. x \<noteq> y"
  then obtain x y where "{x, y} \<subseteq> set (js_unique xs)" "x \<noteq> y" by auto
  then have "card {x, y} \<le> card (set (js_unique xs))" by (intro card_mono) auto
  moreover have "card (set (js_unique xs)) = length (js_unique xs)" by (rule distinct_card) simp
  ultimately show "1 < length (js_unique xs)" using \<open>x \<noteq> y\<close> by (simp del: set_js_unique)
qed

section \<open>Properties\<close>

text \<open>The median: the middle duration, or the rounded mean of the two middle ones.\<close>

definition median_of :: "rat list \<Rightarrow> rat" where
  "median_of ds = (let i = length ds div 2 in
     if length ds mod 2 = 0 then of_int (math_round (fl (fl (ds ! (i - 1) + ds ! i) / 2))) else ds ! i)"

lemma two_le_sum:
  assumes "int_valued ds" "i < length ds" "j < length ds" "i \<noteq> j"
  shows "ds ! i + ds ! j \<le> sum_list ds"
proof -
  have "ds ! i + ds ! j = sum ((!) ds) {i, j}" using assms(4) by simp
  also have "\<dots> \<le> sum ((!) ds) {..<length ds}"
    using assms by (intro sum_mono2) (force simp: int_valued_def in_set_conv_nth)+
  finally show ?thesis by (simp add: sum_list_sum_nth atLeast0LessThan)
qed

lemma median_between:
  assumes int: "int_valued ds" and "ds \<noteq> []" and sum: "sum_list ds \<le> 2 ^ 53"
    and elems: "\<And>d. d \<in> set ds \<Longrightarrow> of_int l \<le> d \<and> d \<le> of_int u"
    and l: "0 \<le> l" "l \<le> 2 ^ 53" and u: "0 \<le> u" "u \<le> 2 ^ 53"
  shows "of_int l \<le> median_of ds \<and> median_of ds \<le> of_int u"
proof -
  define i where "i = length ds div 2"
  have "0 < length ds" using assms(2) by simp
  then have i: "i < length ds" "i - 1 < length ds" unfolding i_def by linarith+
  show ?thesis
  proof (cases "length ds mod 2 = 0")
    case True
    have "2 \<le> length ds" using True assms(2) by (cases ds; cases "tl ds") auto
    then have "i - 1 \<noteq> i" by (simp add: i_def)
    from two_le_sum [OF int i(2,1) this] have s: "ds ! (i - 1) + ds ! i \<le> sum_list ds" .
    obtain a where a: "ds ! (i - 1) = of_int a" "0 \<le> a" using int_valued_nth [OF int i(2)] by auto
    obtain b where b: "ds ! i = of_int b" "0 \<le> b" using int_valued_nth [OF int i(1)] by auto
    have "(of_int (a + b) :: rat) \<le> of_int (2 ^ 53)" using s sum a b by simp
    then have "a + b \<le> 2 ^ 53" by (simp only: of_int_le_iff)
    then have f: "fl (ds ! (i - 1) + ds ! i) = ds ! (i - 1) + ds ! i" using dbl.rnd_int [of "a + b"] a b by simp
    have "of_int l \<le> (ds ! (i - 1) + ds ! i) / 2" "(ds ! (i - 1) + ds ! i) / 2 \<le> of_int u"
      using elems [OF nth_mem [OF i(1)]] elems [OF nth_mem [OF i(2)]] by (simp_all add: field_simps)
    from round_between [OF this] show ?thesis
      using True l u by (simp add: median_of_def Let_def i_def [symmetric] f [unfolded One_nat_def])
  next
    case False
    then show ?thesis using elems [OF nth_mem [OF i(1)]] by (simp add: median_of_def Let_def i_def [symmetric])
  qed
qed

text \<open>C26. The statistics of the deployment durations lie within the durations, in spite of every
  rounding to double precision: average, median and 95th percentile are between the shortest and
  the longest duration, and no index leaves the list.\<close>

theorem duration_stats_bounds:
  assumes "near_times H es" "sorted_durations H es \<noteq> []" "sum_list (sorted_durations H es) \<le> 2 ^ 53"
    and "length (sorted_durations H es) \<le> 2 ^ 53"
  shows "\<exists>a m p. getManagerDeploymentDurationStats H es
      = \<lparr>st_averageMs = Some a, st_medianMs = Some m, st_p95Ms = Some p\<rparr> \<and>
    (\<forall>x\<in>{a, m, p}. hd (sorted_durations H es) \<le> x \<and> x \<le> last (sorted_durations H es))"
proof -
  let ?ds = "sorted_durations H es"
  note int = sorted_durations_int [OF assms(1)] and srt = sorted_durations_sorted [of H es]
  obtain l where l: "hd ?ds = of_int l" "0 \<le> l" "l \<le> 2 ^ 53" using int assms(2) by (metis int_valued_def hd_in_set)
  obtain u where u: "last ?ds = of_int u" "0 \<le> u" "u \<le> 2 ^ 53" using int assms(2) by (metis int_valued_def last_in_set)
  have elems: "of_int l \<le> d \<and> d \<le> of_int u" if "d \<in> set ?ds" for d
    using sorted_bounds [OF srt that] l u by simp
  have avg: "of_int l \<le> js_average ?ds \<and> js_average ?ds \<le> of_int u"
    by (rule average_between [OF int assms(2,3) elems]) (use l u in auto)
  have p95: "of_int l \<le> percentile ?ds RATIO_95 \<and> percentile ?ds RATIO_95 \<le> of_int u"
    using percentile_between [OF int srt assms(2,4) ratio_95_unit] l u by simp
  have med: "of_int l \<le> median_of ?ds \<and> median_of ?ds \<le> of_int u"
    by (rule median_between [OF int assms(2,3) elems]) (use l u in auto)
  have st: "getManagerDeploymentDurationStats H es
      = \<lparr>st_averageMs = Some (js_average ?ds), st_medianMs = Some (median_of ?ds), st_p95Ms = Some (percentile ?ds RATIO_95)\<rparr>"
    using assms(2) by (simp add: getManagerDeploymentDurationStats_def median_of_def Let_def)
  have "\<forall>x\<in>{js_average ?ds, median_of ?ds, percentile ?ds RATIO_95}. of_int l \<le> x \<and> x \<le> of_int u"
    using avg p95 med by blast
  then show ?thesis unfolding l(1) u(1) using st by blast
qed

text \<open>The bottleneck of a deployment is a stage with a valid duration that no stage exceeds;
  there is none exactly when no stage has a valid duration.\<close>

theorem bottleneck_correct:
  "case getManagerDeploymentBottleneck ds of
     None \<Rightarrow> \<forall>s. \<not> isValidStageDuration (ds s)
   | Some b \<Rightarrow> ds (bn_stage b) = Some (bn_durationMs b) \<and> 0 \<le> bn_durationMs b \<and>
       (\<forall>s x. ds s = Some x \<longrightarrow> x \<le> bn_durationMs b)"
proof -
  have "set STAGES = UNIV" using stages_all by auto
  then have "is_slowest ds UNIV (getManagerDeploymentBottleneck ds)"
    using bottleneck_fold [of ds "{}" None STAGES] by (simp add: is_slowest_def getManagerDeploymentBottleneck_def)
  then show ?thesis
  proof (cases "getManagerDeploymentBottleneck ds")
    case (Some b)
    with \<open>is_slowest ds UNIV (getManagerDeploymentBottleneck ds)\<close>
    have b: "ds (bn_stage b) = Some (bn_durationMs b)" "0 \<le> bn_durationMs b"
        "\<And>s. isValidStageDuration (ds s) \<Longrightarrow> the (ds s) \<le> bn_durationMs b"
      by (auto simp: is_slowest_def)
    have "x \<le> bn_durationMs b" if "ds s = Some x" for s x
      using b(2) b(3) [of s] that by (cases "0 \<le> x") (auto simp: isValidStageDuration_def)
    with Some b show ?thesis by simp
  qed (simp add: is_slowest_def)
qed

text \<open>The comparison with the previous period never counts a deployment of the period that is
  shown, and counts only deployments that the source and sample filters admit.\<close>

theorem period_comparison_disjoint:
  assumes "hv_periodComparison (getManagerDeploymentHistoryView H arch es f now) = Some c" "e \<in> set (pc_entries c)"
  shows "e \<in> snd ` set (hv_visibleEntries (getManagerDeploymentHistoryView H arch es f now)) \<and>
    \<not> in_summary H f now e"
proof -
  let ?v = "hv_visibleEntries (getManagerDeploymentHistoryView H arch es f now)"
  have c: "getManagerDeploymentPeriodComparison H (map snd ?v) f now = Some c"
    using assms(1) by (simp add: getManagerDeploymentHistoryView_def Let_def)
  then obtain s e' where r: "getCurrentRange H f now = Some (s, e')"
    and m: "e \<in> set (map snd ?v)" "time_lt (date_parse H (dh_completed_at e)) s"
    using assms(2) by (auto simp: getManagerDeploymentPeriodComparison_def Let_def split: option.splits if_splits prod.splits)
  have "\<not> in_summary H f now e"
    using r m(2)
    by (auto simp: getCurrentRange_def in_summary_def time_lt_def time_ge_def Let_def split: option.splits if_splits)
  with m(1) show ?thesis by simp
qed

text \<open>A mismatch is reported exactly when two components that are available carry different
  known versions or different known revisions, and then it names all available components.\<close>

theorem consistency_correct:
  "let r = buildDeploymentComponentConsistency (Some cs);
       known = (\<lambda>key c v. c \<in> set cs \<and> cp_status c = ''ok'' \<and> normalizeComponentValue (key c) = Some v)
   in (cc_hasMismatch r \<longleftrightarrow>
        (\<exists>c d v w. known cp_version c v \<and> known cp_version d w \<and> v \<noteq> w) \<or>
        (\<exists>c d v w. known cp_revision c v \<and> known cp_revision d w \<and> v \<noteq> w)) \<and>
      set (cc_mismatchedComponentNames r) = (if cc_hasMismatch r then {cp_name c |c. c \<in> set cs \<and> cp_status c = ''ok''} else {})"
proof -
  have g: "1 < length (groupComponentValues (filter (\<lambda>c. cp_status c = ''ok'') cs) key) \<longleftrightarrow>
      (\<exists>c d v w. (c \<in> set cs \<and> cp_status c = ''ok'' \<and> normalizeComponentValue (key c) = Some v) \<and>
        (d \<in> set cs \<and> cp_status d = ''ok'' \<and> normalizeComponentValue (key d) = Some w) \<and> v \<noteq> w)" for key
    unfolding groupComponentValues_def two_values by (force simp: List.map_filter_def)
  let ?r = "buildDeploymentComponentConsistency (Some cs)"
  let ?ok = "filter (\<lambda>c. cp_status c = ''ok'') cs"
  have h: "cc_hasMismatch ?r \<longleftrightarrow> 1 < length (groupComponentValues ?ok cp_version) \<or> 1 < length (groupComponentValues ?ok cp_revision)"
    by (simp add: buildDeploymentComponentConsistency_def Let_def)
  have n: "set (cc_mismatchedComponentNames ?r) = (if cc_hasMismatch ?r then {cp_name c |c. c \<in> set cs \<and> cp_status c = ''ok''} else {})"
    by (auto simp: buildDeploymentComponentConsistency_def Let_def)
  show ?thesis unfolding Let_def using h [unfolded g] n by blast
qed

text \<open>An entry for concrete evaluations.\<close>

definition sample_entry :: "int \<Rightarrow> int \<Rightarrow> ManagerDeploymentHistoryEntry" where
  "sample_entry started completed =
     \<lparr>dh_status = DSuccess, dh_from_slot = SlotBlue, dh_to_slot = SlotGreen, dh_active_slot = SlotGreen,
      dh_version = ''1'', dh_revision = ''r'', dh_started_at = to_iso started, dh_completed_at = to_iso completed,
      dh_probe_total = 0, dh_probe_failures = 0, dh_failure_stage = None, dh_failure_reason = None,
      dh_alert_request_status = AlertNotNeeded, dh_alert_channel = None, dh_alert_run_url = None,
      dh_alert_run_status = None, dh_alert_run_conclusion = None, dh_alert_run_checked_at = None,
      dh_alert_run_error = None, dh_stage_durations_ms = (\<lambda>_. None), dh_archive_sample = None\<rparr>"

lemma sample_durations:
  assumes "\<bar>s\<bar> \<le> max_time" "\<bar>c\<bar> \<le> max_time" "s \<le> c" "c - s \<le> 2 ^ 53"
  shows "getManagerDeploymentDurationMs H (dh_started_at (sample_entry s c)) (dh_completed_at (sample_entry s c))
    = Some (of_int (c - s))"
  using assms dbl.rnd_int [of "c - s"]
  by (simp add: sample_entry_def getManagerDeploymentDurationMs_def date_parse_to_iso Let_def)

theorem duration_stats_bounds_witness:
  "\<exists>a m p. getManagerDeploymentDurationStats utc_host [sample_entry 0 5000, sample_entry 0 7000]
      = \<lparr>st_averageMs = Some a, st_medianMs = Some m, st_p95Ms = Some p\<rparr> \<and> 5000 \<le> p \<and> p \<le> 7000"
proof -
  let ?es = "[sample_entry 0 5000, sample_entry 0 7000]"
  have d: "getManagerDeploymentDurationMs utc_host (dh_started_at (sample_entry 0 5000)) (dh_completed_at (sample_entry 0 5000)) = Some 5000"
      "getManagerDeploymentDurationMs utc_host (dh_started_at (sample_entry 0 7000)) (dh_completed_at (sample_entry 0 7000)) = Some 7000"
    using sample_durations [of 0 5000 utc_host] sample_durations [of 0 7000 utc_host] by (simp_all add: max_time_def)
  have s: "sorted_durations utc_host ?es = [5000, 7000]"
    by (simp add: sorted_durations_def List.map_filter_def d rat_cmp_def)
  have n: "near_times utc_host ?es"
    by (simp add: near_times_def sample_entry_def date_parse_to_iso max_time_def)
  from duration_stats_bounds [OF n] show ?thesis by (auto simp: s)
qed

end
