(* ===== verification/Traefik_Update.thy ===== *)
theory Traefik_Update
  imports Deployment_Stats
begin

text \<open>
  Updates of Traefik: the filters of the update history (\<open>traefikUpdateHistoryFilter.ts\<close>) and
  the plan that is shown before an update (\<open>traefikUpdatePlan.ts\<close>), on the data of
  \<open>traefikApi.ts\<close>.
\<close>

section \<open>Data (\<open>traefikApi.ts\<close>)\<close>

record TraefikHealth =
  th_connected :: bool
  th_message :: string
  th_version :: "string option"
  th_latest_version :: "string option"
  th_latest_release_url :: "string option"
  th_latest_release_has_security_fixes :: bool
  th_latest_release_security_advisories :: "string list"
  th_update_available :: "bool option"
  th_latest_version_checked_at :: "string option"
  th_latest_version_error :: "string option"

datatype CheckStatus = CheckOk | CheckWarning | CheckFail

record TraefikDeploymentCheck =
  dk_key :: string
  dk_label :: string
  dk_status :: CheckStatus
  dk_message :: string

record TraefikDeploymentCommand =
  cm_label :: string
  cm_description :: string
  cm_command :: string

record TraefikDeploymentStatus =
  td_enabled :: bool
  td_message :: string
  td_container_name :: "string option"
  td_current_image :: "string option"
  td_target_image :: "string option"
  td_current_version :: "string option"
  td_target_version :: "string option"
  td_update_available :: "bool option"
  td_compose_project :: "string option"
  td_compose_service :: "string option"
  td_compose_working_dir :: "string option"
  td_compose_config_files :: "string list"
  td_can_apply :: bool
  td_apply_blocked_reason :: "string option"
  td_checks :: "TraefikDeploymentCheck list"
  td_commands :: "TraefikDeploymentCommand list"

datatype UpdateStatus = UpRunning | UpSuccess | UpRejected | UpRolledBack | UpRollbackFailed
datatype UpdateAlertStatus = UaNotNeeded | UaPending | UaRequested | UaRequestFailed

record TraefikUpdateValidation =
  uv_key :: string
  uv_ok :: bool
  uv_message :: string

record TraefikUpdateHistoryEntry =
  tu_request_id :: string
  tu_actor :: string
  tu_status :: UpdateStatus
  tu_from_version :: string
  tu_target_version :: string
  tu_requested_at :: string
  tu_started_at :: string
  tu_completed_at :: "string option"
  tu_message :: string
  tu_backup_dir :: "string option"
  tu_backup_created :: bool
  tu_rollback_performed :: bool
  tu_alert_request_status :: UpdateAlertStatus
  tu_alert_channel :: "AlertChannel option"
  tu_alert_run_url :: "string option"
  tu_alert_retry_request_id :: "string option"
  tu_alert_retry_actor :: "string option"
  tu_alert_retry_requested_at :: "string option"
  tu_alert_run_status :: "string option"
  tu_alert_run_conclusion :: "string option"
  tu_alert_run_checked_at :: "string option"
  tu_alert_run_error :: "string option"
  tu_validations :: "TraefikUpdateValidation list"

section \<open>Filters of the history (\<open>traefikUpdateHistoryFilter.ts\<close>)\<close>

datatype RetryFilter = RetryAll | RetryRetried | RetryNotRetried
datatype UpdateStatusFilter = UsAll | UsStatus UpdateStatus

record TraefikUpdateHistoryFilters =
  tf_actor :: string
  tf_dateFrom :: string
  tf_dateTo :: string
  tf_period :: PeriodFilter
  tf_retry :: RetryFilter
  tf_status :: UpdateStatusFilter

fun retry_text :: "RetryFilter \<Rightarrow> string" where
  "retry_text RetryAll = ''all''"
| "retry_text RetryRetried = ''retried''"
| "retry_text RetryNotRetried = ''not_retried''"

fun update_status_text :: "UpdateStatusFilter \<Rightarrow> string" where
  "update_status_text UsAll = ''all''"
| "update_status_text (UsStatus UpRunning) = ''running''"
| "update_status_text (UsStatus UpSuccess) = ''success''"
| "update_status_text (UsStatus UpRejected) = ''rejected''"
| "update_status_text (UsStatus UpRolledBack) = ''rolled_back''"
| "update_status_text (UsStatus UpRollbackFailed) = ''rollback_failed''"

text \<open>The local calendar date of an instant: \<open>getFullYear\<close>, \<open>getMonth\<close> + 1, \<open>getDate\<close>.\<close>

definition local_civil :: "js_host \<Rightarrow> int \<Rightarrow> int \<times> int \<times> int" where
  "local_civil H t = civil_of_day (utc_to_local H t div day_ms)"

text \<open>The date text has the shape of a date, so its three numbers are exact integers.\<close>

definition getDateBoundary :: "js_host \<Rightarrow> string \<Rightarrow> bool \<Rightarrow> int option" where
  "getDateBoundary H value nextDay =
     (if \<not> date_shape value then None
      else
        let y = shape_year value; m = shape_month value; d = shape_day value
        in case local_date H (Num (of_int y)) (Num (of_int (m - 1))) (Num (of_int d)) of
             None \<Rightarrow> None
           | Some boundary \<Rightarrow>
               (if local_civil H boundary \<noteq> (y, m, d) then None
                else if nextDay then next_local_day H boundary else Some boundary))"

definition parseDate :: "js_host \<Rightarrow> string option \<Rightarrow> string" where
  "parseDate H value =
     (if truthy value \<and> getDateBoundary H (the value) False \<noteq> None then the value else [])"

definition parsePeriod :: "string option \<Rightarrow> PeriodFilter" where
  "parsePeriod value =
     (if value = Some ''1'' then Per1 else if value = Some ''7'' then Per7
      else if value = Some ''30'' then Per30 else if value = Some ''90'' then Per90 else PerAll)"

definition parseRetry :: "string option \<Rightarrow> RetryFilter" where
  "parseRetry value =
     (if value = Some ''retried'' then RetryRetried
      else if value = Some ''not_retried'' then RetryNotRetried else RetryAll)"

definition parseStatus :: "string option \<Rightarrow> UpdateStatusFilter" where
  "parseStatus value =
     (if value = Some ''running'' then UsStatus UpRunning
      else if value = Some ''success'' then UsStatus UpSuccess
      else if value = Some ''rejected'' then UsStatus UpRejected
      else if value = Some ''rolled_back'' then UsStatus UpRolledBack
      else if value = Some ''rollback_failed'' then UsStatus UpRollbackFailed else UsAll)"

definition readTraefikUpdateHistoryFilters :: "js_host \<Rightarrow> params \<Rightarrow> TraefikUpdateHistoryFilters" where
  "readTraefikUpdateHistoryFilters H params =
     (let dateFrom = parseDate H (params_get ''traefik_update_from'' params);
          dateTo = parseDate H (params_get ''traefik_update_to'' params)
      in \<lparr>tf_actor = js_take 100 (js_trim (or_else (params_get ''traefik_update_actor'' params) [])),
          tf_dateFrom = dateFrom,
          tf_dateTo = dateTo,
          tf_period = (if dateFrom \<noteq> [] \<or> dateTo \<noteq> [] then PerAll
                       else parsePeriod (params_get ''traefik_update_period'' params)),
          tf_retry = parseRetry (params_get ''traefik_update_retry'' params),
          tf_status = parseStatus (params_get ''traefik_update_status'' params)\<rparr>)"

definition update_query_values :: "TraefikUpdateHistoryFilters \<Rightarrow> param_update list" where
  "update_query_values f =
     [(''traefik_update_actor'', js_trim (tf_actor f), []),
      (''traefik_update_from'', tf_dateFrom f, []),
      (''traefik_update_to'', tf_dateTo f, []),
      (''traefik_update_period'', period_text (tf_period f), ''all''),
      (''traefik_update_retry'', retry_text (tf_retry f), ''all''),
      (''traefik_update_status'', update_status_text (tf_status f), ''all'')]"

definition replaceTraefikUpdateHistoryQuery :: "TraefikUpdateHistoryFilters \<Rightarrow> location \<Rightarrow> location" where
  "replaceTraefikUpdateHistoryQuery f l =
     l\<lparr>loc_search := search_string (fold write_param (update_query_values f) (location_params l))\<rparr>"

definition isTraefikUpdateHistoryDateRangeValid :: "js_host \<Rightarrow> string \<Rightarrow> string \<Rightarrow> bool" where
  "isTraefikUpdateHistoryDateRangeValid H dateFromText dateToText =
     (let dateFrom = getDateBoundary H dateFromText False; dateTo = getDateBoundary H dateToText True in
      if (dateFromText \<noteq> [] \<and> dateFrom = None) \<or> (dateToText \<noteq> [] \<and> dateTo = None) then False
      else case (dateFrom, dateTo) of (Some a, Some b) \<Rightarrow> a < b | _ \<Rightarrow> True)"

definition actor_matches :: "string \<Rightarrow> TraefikUpdateHistoryEntry \<Rightarrow> bool" where
  "actor_matches actor e =
     (actor = [] \<or> str_includes (str_lower (tu_request_id e)) actor \<or> str_includes (str_lower (tu_actor e)) actor \<or>
      (case tu_alert_retry_actor e of None \<Rightarrow> False | Some a \<Rightarrow> str_includes (str_lower a) actor))"

definition entry_time :: "js_host \<Rightarrow> TraefikUpdateHistoryEntry \<Rightarrow> int option" where
  "entry_time H e = date_parse H (or_else (tu_completed_at e) (tu_started_at e))"

definition update_matches ::
    "js_host \<Rightarrow> TraefikUpdateHistoryFilters \<Rightarrow> int \<Rightarrow> TraefikUpdateHistoryEntry \<Rightarrow> bool" where
  "update_matches H f referenceTime e =
     (let periodCutoff = (if tf_period f = PerAll then None else Some (referenceTime - period_days (tf_period f) * 86400000));
          dateFrom = getDateBoundary H (tf_dateFrom f) False;
          dateTo = getDateBoundary H (tf_dateTo f) True;
          hasTimeFilter = (periodCutoff \<noteq> None \<or> dateFrom \<noteq> None \<or> dateTo \<noteq> None);
          actor = str_lower (js_trim (tf_actor f));
          retried = truthy (tu_alert_retry_requested_at e)
      in if tf_status f \<noteq> UsAll \<and> UsStatus (tu_status e) \<noteq> tf_status f then False
         else if \<not> actor_matches actor e then False
         else if tf_retry f = RetryRetried \<and> \<not> retried then False
         else if tf_retry f = RetryNotRetried \<and> retried then False
         else if \<not> hasTimeFilter then True
         else case entry_time H e of
                None \<Rightarrow> False
              | Some t \<Rightarrow>
                  (case periodCutoff of None \<Rightarrow> True | Some c \<Rightarrow> c \<le> t) \<and>
                  (case dateFrom of None \<Rightarrow> True | Some c \<Rightarrow> c \<le> t) \<and>
                  (case dateTo of None \<Rightarrow> True | Some c \<Rightarrow> t < c))"

definition filterTraefikUpdateHistory ::
    "js_host \<Rightarrow> TraefikUpdateHistoryEntry list \<Rightarrow> TraefikUpdateHistoryFilters \<Rightarrow> int \<Rightarrow> TraefikUpdateHistoryEntry list" where
  "filterTraefikUpdateHistory H entries f referenceTime =
     (if \<not> isTraefikUpdateHistoryDateRangeValid H (tf_dateFrom f) (tf_dateTo f) then []
      else filter (update_matches H f referenceTime) entries)"

section \<open>The update plan (\<open>traefikUpdatePlan.ts\<close>)\<close>

datatype TraefikUpdateRisk = RiskLow | RiskMedium | RiskHigh | RiskUnknown

record TraefikUpdatePlan =
  pl_currentVersion :: string
  pl_latestVersion :: string
  pl_risk :: TraefikUpdateRisk
  pl_riskLabel :: string
  pl_securityUpdate :: bool
  pl_summary :: string
  pl_checks :: "string list"
  pl_commands :: "TraefikDeploymentCommand list"
  pl_canApply :: bool
  pl_applyBlockedReason :: "string option"
  pl_composeWorkingDir :: "string option"
  pl_currentImage :: "string option"
  pl_targetImage :: "string option"
  pl_rollbackNote :: string

text \<open>\<open>/^v?(\d+)\.(\d+)\.(\d+)/\<close>, the digit groups as numbers.\<close>

definition take_digits :: "string \<Rightarrow> (rat \<times> string) option" where
  "take_digits s =
     (let ds = takeWhile is_digit s in
      if ds = [] then None else Some (fl (of_nat (read_nat ds)), dropWhile is_digit s))"

definition expect_char :: "char \<Rightarrow> string \<Rightarrow> string option" where
  "expect_char c s = (case s of x # r \<Rightarrow> if x = c then Some r else None | [] \<Rightarrow> None)"

definition parseVersion :: "string \<Rightarrow> (rat \<times> rat \<times> rat) option" where
  "parseVersion version =
     do {
       let s = (case version of c # r \<Rightarrow> if c = CHR ''v'' then r else version | [] \<Rightarrow> []);
       (major, s1) \<leftarrow> take_digits s;
       s2 \<leftarrow> expect_char CHR ''.'' s1;
       (minor, s3) \<leftarrow> take_digits s2;
       s4 \<leftarrow> expect_char CHR ''.'' s3;
       (patch, s5) \<leftarrow> take_digits s4;
       Some (major, minor, patch)
     }"

definition getUpdateRisk :: "string \<Rightarrow> string \<Rightarrow> TraefikUpdateRisk" where
  "getUpdateRisk currentVersion latestVersion =
     (case (parseVersion currentVersion, parseVersion latestVersion) of
        (Some (cmajor, cminor, cpatch), Some (lmajor, lminor, lpatch)) \<Rightarrow>
          (if cmajor < lmajor then RiskHigh
           else if cminor < lminor then RiskMedium
           else if cpatch < lpatch then RiskLow
           else RiskUnknown)
      | _ \<Rightarrow> RiskUnknown)"

fun getRiskLabel :: "TraefikUpdateRisk \<Rightarrow> string" where
  "getRiskLabel RiskLow = txt_risk_low"
| "getRiskLabel RiskMedium = txt_risk_medium"
| "getRiskLabel RiskHigh = txt_risk_high"
| "getRiskLabel RiskUnknown = txt_risk_unknown"

fun summary_tail :: "TraefikUpdateRisk \<Rightarrow> string" where
  "summary_tail RiskLow = txt_sum_low"
| "summary_tail RiskMedium = txt_sum_medium"
| "summary_tail RiskHigh = txt_sum_high"
| "summary_tail RiskUnknown = txt_sum_unknown"

definition getSummary :: "TraefikUpdateRisk \<Rightarrow> string \<Rightarrow> string \<Rightarrow> bool \<Rightarrow> nat \<Rightarrow> string" where
  "getSummary risk currentVersion latestVersion securityUpdate securityAdvisoryCount =
     (let securitySummary =
            (if securityUpdate
             then txt_sum_security @
                  (if securityAdvisoryCount \<noteq> 0
                   then txt_sum_advisories_before @ show_nat securityAdvisoryCount @ txt_sum_advisories_after else []) @
                  txt_sum_security_after
             else [])
      in securitySummary @ currentVersion @ txt_sum_from @ latestVersion @ summary_tail risk)"

definition default_checks :: "string list" where
  "default_checks = [txt_plan_check1, txt_plan_check2, txt_plan_check3, txt_plan_check4]"

definition default_commands :: "TraefikDeploymentCommand list" where
  "default_commands =
     [\<lparr>cm_label = txt_cmd_image, cm_description = txt_cmd_image_desc,
       cm_command = ''docker inspect traefik --format '' @ [CHR 0x27] @ ''{{.Config.Image}}'' @ [CHR 0x27]\<rparr>,
      \<lparr>cm_label = txt_cmd_compose, cm_description = txt_cmd_compose_desc,
       cm_command = ''docker inspect traefik --format '' @ [CHR 0x27] @ ''{{ index .Config.Labels '' @ [CHR 0x22] @
         ''com.docker.compose.project.working_dir'' @ [CHR 0x22] @ '' }}'' @ [CHR 0x27]\<rparr>,
      \<lparr>cm_label = txt_cmd_apply, cm_description = txt_cmd_apply_desc,
       cm_command = ''docker compose pull traefik && '' @ [CHR 0x22] @
         ''${HOME}/docker/traefik-manager/scripts/run-traefik-recreate-safely.sh'' @ [CHR 0x22]\<rparr>,
      \<lparr>cm_label = txt_cmd_logs, cm_description = txt_cmd_logs_desc,
       cm_command = ''docker compose logs -f --tail=100 traefik''\<rparr>]"

definition security_check :: "string list \<Rightarrow> string" where
  "security_check advisories =
     (if advisories \<noteq> [] then txt_advisory_before @ str_join '', '' advisories @ txt_advisory_after
      else txt_security_notes)"

definition buildTraefikUpdatePlan ::
    "TraefikHealth option \<Rightarrow> TraefikDeploymentStatus option \<Rightarrow> TraefikUpdatePlan option" where
  "buildTraefikUpdatePlan health deployment =
     (case health of
        None \<Rightarrow> None
      | Some h \<Rightarrow>
          (if th_update_available h \<noteq> Some True \<or> \<not> truthy (th_version h) \<or> \<not> truthy (th_latest_version h) then None
           else
             let currentVersion = or_else (Option.bind deployment td_current_version) (the (th_version h));
                 latestVersion = or_else (Option.bind deployment td_target_version) (the (th_latest_version h));
                 risk = getUpdateRisk currentVersion latestVersion;
                 securityUpdate = th_latest_release_has_security_fixes h;
                 advisories = th_latest_release_security_advisories h;
                 dynamicChecks = (case deployment of None \<Rightarrow> []
                   | Some d \<Rightarrow> map (\<lambda>c. dk_label c @ '': '' @ dk_message c) (td_checks d));
                 dynamicCommands = (case deployment of None \<Rightarrow> [] | Some d \<Rightarrow> td_commands d);
                 checks = (if dynamicChecks \<noteq> [] then dynamicChecks else default_checks);
                 checks = (if securityUpdate then security_check advisories # checks else checks)
             in Some
               \<lparr>pl_currentVersion = currentVersion, pl_latestVersion = latestVersion, pl_risk = risk,
                pl_riskLabel = (if securityUpdate \<and> risk = RiskLow then txt_security_patch else getRiskLabel risk),
                pl_securityUpdate = securityUpdate,
                pl_summary = getSummary risk currentVersion latestVersion securityUpdate (length advisories),
                pl_checks = checks,
                pl_commands = (if dynamicCommands \<noteq> [] then dynamicCommands else default_commands),
                pl_canApply = default_to False (map_option td_can_apply deployment),
                pl_applyBlockedReason = or_null (Option.bind deployment td_apply_blocked_reason),
                pl_composeWorkingDir = or_null (Option.bind deployment td_compose_working_dir),
                pl_currentImage = or_null (Option.bind deployment td_current_image),
                pl_targetImage = or_null (Option.bind deployment td_target_image),
                pl_rollbackNote = (if dynamicCommands \<noteq> [] then txt_rollback_dynamic else txt_rollback_static)\<rparr>))"

section \<open>Lemmas\<close>

text \<open>An engine in a time zone with a fixed offset, such as Korean time.\<close>

definition fixed_offset :: "js_host \<Rightarrow> int \<Rightarrow> bool" where
  "fixed_offset H off =
     (\<bar>off\<bar> < day_ms \<and> (\<forall>t. local_to_utc H t = t - off) \<and> (\<forall>t. utc_to_local H t = t + off))"

definition date_day :: "string \<Rightarrow> int" where
  "date_day s = day_of_civil (shape_year s) (shape_month s) (shape_day s)"

lemma make_day_legal: "1 \<le> m \<Longrightarrow> m \<le> 12 \<Longrightarrow> make_day y (m - 1) d = day_of_civil y m d"
  by (simp add: make_day_def day_of_civil_def div_pos_pos_trivial mod_pos_pos_trivial)

lemma num_trunc_int: "num_trunc (Num (of_int n)) = Some n"
  by (simp add: num_trunc_def)

lemma boundary_cases:
  assumes "fixed_offset H off" "date_shape s" "100 \<le> shape_year s"
  shows "getDateBoundary H s nextDay =
    (if calendar_date s then Some ((date_day s + of_bool nextDay) * day_ms - off) else None)"
proof -
  let ?y = "shape_year s" and ?m = "shape_month s" and ?d = "shape_day s"
  let ?t = "make_day ?y (?m - 1) ?d * day_ms - off"
  have l: "local_date H (Num (of_int ?y)) (Num (of_int (?m - 1))) (Num (of_int ?d)) = time_clip ?t"
    using assms(1,3) by (simp add: local_date_def num_trunc_int Let_def fixed_offset_def del: of_int_diff)
  have day: "0 < day_ms" by (simp add: day_ms_def)
  have c: "local_civil H ?t = civil_of_day (make_day ?y (?m - 1) ?d)"
    using assms(1) day by (simp add: local_civil_def fixed_offset_def)
  show ?thesis
  proof (cases "calendar_date s")
    case True
    then have legal: "legal_date ?y ?m ?d" by (simp add: calendar_date_def)
    then have m: "make_day ?y (?m - 1) ?d = date_day s"
      by (simp add: date_day_def make_day_legal legal_date_def)
    have b: "- 719528 \<le> date_day s" "date_day s \<le> 2933100"
      using day_of_civil_bounds [OF legal] date_shape_ymd(2,3) [OF assms(2)] by (simp_all add: date_day_def)
    have off: "- day_ms < off" "off < day_ms" using assms(1) by (auto simp: fixed_offset_def)
    have clip: "time_clip (date_day s * day_ms - off) = Some (date_day s * day_ms - off)"
        "time_clip ((date_day s + 1) * day_ms - off) = Some ((date_day s + 1) * day_ms - off)"
      using b off by (auto simp: time_clip_def day_ms_def max_time_def abs_le_iff)
    have n: "next_local_day H (date_day s * day_ms - off) = Some ((date_day s + 1) * day_ms - off)"
      using clip(2) assms(1) day by (simp add: next_local_day_def fixed_offset_def Let_def)
    have "civil_of_day (date_day s) = (?y, ?m, ?d)" using civil_of_day_of_civil [OF legal] by (simp add: date_day_def)
    then show ?thesis
      using True assms(2) l c n clip(1) by (simp add: getDateBoundary_def m Let_def)
  next
    case False
    then have "civil_of_day (make_day ?y (?m - 1) ?d) \<noteq> (?y, ?m, ?d)"
      using day_of_civil_of_day assms(2) by (auto simp: calendar_date_def)
    then show ?thesis
      using False assms(2) l c by (auto simp: getDateBoundary_def Let_def time_clip_def)
  qed
qed

lemma day_le_iff:
  assumes "0 < (k::int)" shows "d * k - off \<le> t \<longleftrightarrow> d \<le> (t + off) div k"
proof
  assume "d * k - off \<le> t"
  then have "d * k div k \<le> (t + off) div k" using assms by (intro zdiv_mono1) auto
  then show "d \<le> (t + off) div k" using assms by simp
next
  assume "d \<le> (t + off) div k"
  then have "d * k \<le> (t + off) div k * k" using assms by (intro mult_right_mono) auto
  also have "\<dots> \<le> t + off" using assms by (simp add: minus_mod_eq_div_mult [symmetric])
  finally show "d * k - off \<le> t" by simp
qed

lemma stored_update_reads:
  "parsePeriod (if period_text p = ''all'' then None else Some (period_text p)) = p"
  "parseRetry (if retry_text r = ''all'' then None else Some (retry_text r)) = r"
  "parseStatus (if update_status_text s = ''all'' then None else Some (update_status_text s)) = s"
proof -
  show "parsePeriod (if period_text p = ''all'' then None else Some (period_text p)) = p"
    by (cases p) (simp_all add: parsePeriod_def)
  show "parseRetry (if retry_text r = ''all'' then None else Some (retry_text r)) = r"
    by (cases r) (simp_all add: parseRetry_def)
  show "parseStatus (if update_status_text s = ''all'' then None else Some (update_status_text s)) = s"
    by (cases s rule: update_status_text.cases) (simp_all add: parseStatus_def)
qed

lemma update_query_distinct: "distinct (map fst (update_query_values f))"
  by (simp add: update_query_values_def)

lemma update_query_get:
  assumes "(k, v, d) \<in> set (update_query_values f)"
  shows "params_get k (location_params (replaceTraefikUpdateHistoryQuery f l)) = (if v = d then None else Some v)"
  using usp.get_store_all [OF update_query_distinct assms, of "location_params l"]
  by (simp add: replaceTraefikUpdateHistoryQuery_def location_params_def write_param_usp)

text \<open>Filters as the controls make them: the dates can be read, and exclude a period.\<close>

definition readable_filters :: "js_host \<Rightarrow> TraefikUpdateHistoryFilters \<Rightarrow> bool" where
  "readable_filters H f =
     ((tf_dateFrom f = [] \<or> getDateBoundary H (tf_dateFrom f) False \<noteq> None) \<and>
      (tf_dateTo f = [] \<or> getDateBoundary H (tf_dateTo f) False \<noteq> None) \<and>
      (tf_dateFrom f \<noteq> [] \<or> tf_dateTo f \<noteq> [] \<longrightarrow> tf_period f = PerAll))"

lemma getDateBoundary_Nil [simp]: "getDateBoundary H [] b = None"
  by (simp add: getDateBoundary_def date_shape_def)

lemma take_digits_show:
  assumes "n \<le> 2 ^ 53" "r = [] \<or> \<not> is_digit (hd r)"
  shows "take_digits (show_nat n @ r) = Some (of_nat n, r)"
proof -
  have d: "list_all is_digit (show_nat n)" by (rule show_nat_digits)
  then have "takeWhile is_digit (show_nat n @ r) = show_nat n" "dropWhile is_digit (show_nat n @ r) = r"
    using assms(2) by (cases r; auto simp: list_all_iff takeWhile_append dropWhile_append)+
  moreover have "fl (of_nat n) = of_nat n" using dbl.rnd_int [of "int n"] assms(1) by simp
  ultimately show ?thesis by (simp add: take_digits_def show_nat_ne)
qed

definition version_string :: "nat \<Rightarrow> nat \<Rightarrow> nat \<Rightarrow> string" where
  "version_string a b c = show_nat a @ ''.'' @ show_nat b @ ''.'' @ show_nat c"

lemma show_nat_hd: "show_nat n = x # r \<Longrightarrow> x \<noteq> CHR ''v''"
  using show_nat_digits [of n] by (auto simp: is_digit_def)

lemma parse_version_string:
  assumes "a \<le> 2 ^ 53" "b \<le> 2 ^ 53" "c \<le> 2 ^ 53"
  shows "parseVersion (version_string a b c) = Some (of_nat a, of_nat b, of_nat c)"
    "parseVersion (CHR ''v'' # version_string a b c) = Some (of_nat a, of_nat b, of_nat c)"
proof -
  have dot: "\<not> is_digit CHR ''.''" by (simp add: is_digit_def)
  have s: "take_digits (version_string a b c) = Some (of_nat a, ''.'' @ show_nat b @ ''.'' @ show_nat c)"
      "take_digits (show_nat b @ ''.'' @ show_nat c) = Some (of_nat b, ''.'' @ show_nat c)"
      "take_digits (show_nat c) = Some (of_nat c, [])"
    using take_digits_show [OF assms(1)] take_digits_show [OF assms(2)] take_digits_show [OF assms(3), of "[]"] dot
    by (simp_all add: version_string_def)
  obtain x r where x: "version_string a b c = x # r" "x \<noteq> CHR ''v''"
    using show_nat_ne [of a] show_nat_hd [of a] by (cases "show_nat a") (auto simp: version_string_def)
  show "parseVersion (CHR ''v'' # version_string a b c) = Some (of_nat a, of_nat b, of_nat c)"
    using s by (simp add: parseVersion_def expect_char_def)
  then show "parseVersion (version_string a b c) = Some (of_nat a, of_nat b, of_nat c)"
    using x by (simp add: parseVersion_def)
qed

section \<open>Properties\<close>

text \<open>The filters of the update history survive a reload: after they were written to the query
  string, reading it gives them back, with the search text trimmed and cut to its limit.\<close>

theorem update_filters_roundtrip:
  assumes "readable_filters H f"
  shows "readTraefikUpdateHistoryFilters H (location_params (replaceTraefikUpdateHistoryQuery f l))
    = f\<lparr>tf_actor := js_take 100 (js_trim (tf_actor f))\<rparr>"
proof -
  let ?ps = "location_params (replaceTraefikUpdateHistoryQuery f l)"
  have g: "params_get ''traefik_update_actor'' ?ps = (if js_trim (tf_actor f) = [] then None else Some (js_trim (tf_actor f)))"
      "params_get ''traefik_update_from'' ?ps = (if tf_dateFrom f = [] then None else Some (tf_dateFrom f))"
      "params_get ''traefik_update_to'' ?ps = (if tf_dateTo f = [] then None else Some (tf_dateTo f))"
      "params_get ''traefik_update_period'' ?ps = (if period_text (tf_period f) = ''all'' then None else Some (period_text (tf_period f)))"
      "params_get ''traefik_update_retry'' ?ps = (if retry_text (tf_retry f) = ''all'' then None else Some (retry_text (tf_retry f)))"
      "params_get ''traefik_update_status'' ?ps
        = (if update_status_text (tf_status f) = ''all'' then None else Some (update_status_text (tf_status f)))"
    by (rule update_query_get; simp add: update_query_values_def)+
  have d: "parseDate H (if tf_dateFrom f = [] then None else Some (tf_dateFrom f)) = tf_dateFrom f"
      "parseDate H (if tf_dateTo f = [] then None else Some (tf_dateTo f)) = tf_dateTo f"
    using assms by (auto simp: parseDate_def readable_filters_def)
  have a: "js_take 100 (js_trim (or_else (if js_trim (tf_actor f) = [] then None else Some (js_trim (tf_actor f))) []))
      = js_take 100 (js_trim (tf_actor f))"
    by simp
  show ?thesis
    using assms unfolding readTraefikUpdateHistoryFilters_def g d a stored_update_reads Let_def readable_filters_def
    by simp
qed

text \<open>In a time zone with a fixed offset (the application's is Korean time), a date range shows
  exactly the updates whose local calendar day lies in it, both ends included; a range that ends
  before it starts, or a date that does not exist, shows nothing.\<close>

theorem update_date_range:
  assumes "fixed_offset H off" "date_shape a" "date_shape b" "100 \<le> shape_year a" "100 \<le> shape_year b"
  shows "filterTraefikUpdateHistory H es
      \<lparr>tf_actor = [], tf_dateFrom = a, tf_dateTo = b, tf_period = PerAll, tf_retry = RetryAll, tf_status = UsAll\<rparr> now
    = (if calendar_date a \<and> calendar_date b \<and> date_day a \<le> date_day b
       then filter (\<lambda>e. \<exists>t. entry_time H e = Some t \<and>
              date_day a \<le> utc_to_local H t div day_ms \<and> utc_to_local H t div day_ms \<le> date_day b) es
       else [])"
proof -
  have ne: "a \<noteq> []" "b \<noteq> []" using assms(2,3) by (auto simp: date_shape_def)
  have day: "0 < day_ms" by (simp add: day_ms_def)
  note ba = boundary_cases [OF assms(1,2,4), of False] and bb = boundary_cases [OF assms(1,3,5), of True]
  have lt: "date_day a * day_ms - off < (date_day b + 1) * day_ms - off \<longleftrightarrow> date_day a \<le> date_day b"
    using mult_less_cancel_right_pos [OF day, of "date_day a" "date_day b + 1"] by linarith
  have ge: "date_day a * day_ms - off \<le> t \<longleftrightarrow> date_day a \<le> (t + off) div day_ms" for t
    by (rule day_le_iff [OF day])
  have le: "t < (date_day b + 1) * day_ms - off \<longleftrightarrow> (t + off) div day_ms \<le> date_day b" for t
    using day_le_iff [OF day, of "date_day b + 1" off t] by linarith
  have loc: "utc_to_local H t = t + off" for t using assms(1) by (simp add: fixed_offset_def)
  show ?thesis
    using ne day
    by (auto simp: filterTraefikUpdateHistory_def isTraefikUpdateHistoryDateRangeValid_def update_matches_def
        actor_matches_def ba bb lt ge le loc Let_def split: option.splits intro!: filter_cong)
qed

text \<open>For a newer version the risk names the first component that grows: major, minor or
  patch, whether or not the versions are written with a \<open>v\<close>.\<close>

theorem update_risk_correct:
  assumes "a \<le> 2 ^ 53" "b \<le> 2 ^ 53" "c \<le> 2 ^ 53" "a' \<le> 2 ^ 53" "b' \<le> 2 ^ 53" "c' \<le> 2 ^ 53"
    and "a < a' \<or> a = a' \<and> (b < b' \<or> b = b' \<and> c < c')"
    and "cur \<in> {version_string a b c, CHR ''v'' # version_string a b c}"
    and "lat \<in> {version_string a' b' c', CHR ''v'' # version_string a' b' c'}"
  shows "getUpdateRisk cur lat = (if a < a' then RiskHigh else if b < b' then RiskMedium else RiskLow)"
proof -
  have "parseVersion cur = Some (of_nat a, of_nat b, of_nat c)" using assms(8) parse_version_string [OF assms(1-3)] by auto
  moreover have "parseVersion lat = Some (of_nat a', of_nat b', of_nat c')" using assms(9) parse_version_string [OF assms(4-6)] by auto
  ultimately show ?thesis using assms(7) by (auto simp: getUpdateRisk_def)
qed

text \<open>The comparison looks at the minor number even when the major number falls.\<close>

lemma downgrade_called_minor_update: "getUpdateRisk (version_string 3 1 0) (version_string 2 5 0) = RiskMedium"
  using parse_version_string(1) [of 3 1 0] parse_version_string(1) [of 2 5 0] by (simp add: getUpdateRisk_def)

text \<open>An entry for concrete evaluations.\<close>

definition sample_update :: "int \<Rightarrow> TraefikUpdateHistoryEntry" where
  "sample_update t =
     \<lparr>tu_request_id = ''r1'', tu_actor = ''ops'', tu_status = UpSuccess, tu_from_version = ''3.1.0'', tu_target_version = ''3.2.0'',
      tu_requested_at = to_iso 0, tu_started_at = to_iso t, tu_completed_at = None, tu_message = [],
      tu_backup_dir = None, tu_backup_created = True, tu_rollback_performed = False, tu_alert_request_status = UaNotNeeded,
      tu_alert_channel = None, tu_alert_run_url = None, tu_alert_retry_request_id = None, tu_alert_retry_actor = None,
      tu_alert_retry_requested_at = None, tu_alert_run_status = None, tu_alert_run_conclusion = None,
      tu_alert_run_checked_at = None, tu_alert_run_error = None, tu_validations = []\<rparr>"

lemma sample_update_time: "\<bar>t\<bar> \<le> max_time \<Longrightarrow> entry_time H (sample_update t) = Some t"
  by (simp add: entry_time_def sample_update_def date_parse_to_iso)

end
