(* ===== verification/Smoke_Filters.thy ===== *)
theory Smoke_Filters
  imports Url_Params JS_Date
begin

text \<open>
  The filters of the smoke failure metadata (\<open>features/settings/lib/smokeFailureMetadataFilters.ts\<close>),
  the hook that mirrors them in the query string
  (\<open>features/settings/components/useSmokeFailureMetadataFilters.ts\<close>), the selection of entries
  (\<open>smokeFailureMetadataSelection.ts\<close>) and the list that
  \<open>SmokeFailureMetadataManagement.tsx\<close> derives from them.

  \<open>Intl.DateTimeFormat\<close> belongs to the host: a \<open>zone_fields\<close> argument gives the year, month
  and day fields of an instant in a time zone, and \<open>None\<close> when the engine does not know the
  zone (the constructor throws).
\<close>

section \<open>Types\<close>

datatype SmokeFailureType = FailLogin | FailExternalApi | FailVisualRegression

record SmokeFailureMetadataEntry =
  se_captured_at :: string
  se_check_name :: string
  se_failure_type :: SmokeFailureType
  se_screen_path :: "string option"
  se_page_title :: "string option"
  se_run_id :: int

datatype SmokeTypeFilter = STypeAll | SType SmokeFailureType
datatype SmokePeriodFilter = SPeriodAll | SPeriod7 | SPeriod30 | SPeriodCustom
datatype SmokeSort = SmNewest | SmOldest | SmRunDesc | SmRunAsc
datatype SmokeDatePreset = PresetToday | PresetYesterday | PresetThisMonth | PresetLastMonth

fun failure_type_text :: "SmokeFailureType \<Rightarrow> string" where
  "failure_type_text FailLogin = ''login''"
| "failure_type_text FailExternalApi = ''external_api''"
| "failure_type_text FailVisualRegression = ''visual_regression''"

fun smoke_type_text :: "SmokeTypeFilter \<Rightarrow> string" where
  "smoke_type_text STypeAll = ''all''"
| "smoke_type_text (SType t) = failure_type_text t"

fun smoke_period_text :: "SmokePeriodFilter \<Rightarrow> string" where
  "smoke_period_text SPeriodAll = ''all''"
| "smoke_period_text SPeriod7 = ''7''"
| "smoke_period_text SPeriod30 = ''30''"
| "smoke_period_text SPeriodCustom = ''custom''"

fun smoke_sort_text :: "SmokeSort \<Rightarrow> string" where
  "smoke_sort_text SmNewest = ''newest''"
| "smoke_sort_text SmOldest = ''oldest''"
| "smoke_sort_text SmRunDesc = ''run_desc''"
| "smoke_sort_text SmRunAsc = ''run_asc''"

definition SMOKE_TYPES :: "SmokeTypeFilter list" where
  "SMOKE_TYPES = [STypeAll, SType FailLogin, SType FailExternalApi, SType FailVisualRegression]"

definition SMOKE_PERIODS :: "SmokePeriodFilter list" where
  "SMOKE_PERIODS = [SPeriodAll, SPeriod7, SPeriod30, SPeriodCustom]"

definition SMOKE_SORTS :: "SmokeSort list" where
  "SMOKE_SORTS = [SmNewest, SmOldest, SmRunDesc, SmRunAsc]"

record SmokeFailureMetadataDateRange =
  sm_endDate :: string
  sm_startDate :: string

record SmokeFailureMetadataFilters = SmokeFailureMetadataDateRange +
  sm_period :: SmokePeriodFilter
  sm_query :: string
  sm_sort :: SmokeSort
  sm_type :: SmokeTypeFilter

record SmokeFailureMetadataFilterOptions =
  fo_endDate :: "string option"
  fo_now :: "int option"
  fo_query :: "string option"
  fo_startDate :: "string option"
  fo_timezone :: "string option"

type_synonym zone_fields = "string option \<Rightarrow> int \<Rightarrow> (string \<times> string \<times> string) option"

definition SMOKE_SEARCH_LIMIT :: nat where "SMOKE_SEARCH_LIMIT = 100"

section \<open>Filtering and sorting\<close>

definition countSmokeFailureMetadataActiveFilters :: "SmokeFailureMetadataFilters \<Rightarrow> nat" where
  "countSmokeFailureMetadataActiveFilters filters =
     length (filter id [sm_type filters \<noteq> STypeAll, sm_period filters \<noteq> SPeriodAll,
                        sm_query filters \<noteq> [], sm_sort filters \<noteq> SmNewest])"

definition calendarDateInTimezone :: "zone_fields \<Rightarrow> int \<Rightarrow> string option \<Rightarrow> string" where
  "calendarDateInTimezone Z timestamp timezone =
     (case Z timezone timestamp of
        Some (year, month, day) \<Rightarrow> year @ ''-'' @ month @ ''-'' @ day
      | None \<Rightarrow> js_take 10 (to_iso timestamp))"

definition shiftCalendarDate :: "js_host \<Rightarrow> string \<Rightarrow> int \<Rightarrow> js_error + string" where
  "shiftCalendarDate H v days =
     (case Option.bind (date_parse H (v @ ''T00:00:00Z'')) (\<lambda>t. time_clip (t + days * day_ms)) of
        None \<Rightarrow> Inl RangeError
      | Some t \<Rightarrow> Inr (js_take 10 (to_iso t)))"

definition date_range :: "string \<Rightarrow> string \<Rightarrow> SmokeFailureMetadataDateRange" where
  "date_range startDate endDate = \<lparr>sm_endDate = endDate, sm_startDate = startDate\<rparr>"

definition buildSmokeFailureMetadataDatePresetRange ::
    "js_host \<Rightarrow> zone_fields \<Rightarrow> SmokeDatePreset \<Rightarrow> int \<Rightarrow> string option \<Rightarrow> js_error + SmokeFailureMetadataDateRange" where
  "buildSmokeFailureMetadataDatePresetRange H Z preset now timezone =
     (let today = calendarDateInTimezone Z now timezone in
      case preset of
        PresetToday \<Rightarrow> Inr (date_range today today)
      | PresetYesterday \<Rightarrow>
          (case shiftCalendarDate H today (- 1) of Inl e \<Rightarrow> Inl e | Inr y \<Rightarrow> Inr (date_range y y))
      | PresetThisMonth \<Rightarrow> Inr (date_range (js_take 7 today @ ''-01'') today)
      | PresetLastMonth \<Rightarrow>
          (case shiftCalendarDate H (js_take 7 today @ ''-01'') (- 1) of
             Inl e \<Rightarrow> Inl e
           | Inr previousMonthEnd \<Rightarrow> Inr (date_range (js_take 7 previousMonthEnd @ ''-01'') previousMonthEnd)))"

definition normalizeSmokeFailureMetadataSearch :: "string option \<Rightarrow> string" where
  "normalizeSmokeFailureMetadataSearch v = (case v of Some s \<Rightarrow> js_take SMOKE_SEARCH_LIMIT s | None \<Rightarrow> [])"

text \<open>\<open>query.replace(/^#/, "")\<close>.\<close>

fun strip_hash :: "string \<Rightarrow> string" where
  "strip_hash [] = []"
| "strip_hash (c # s) = (if c = CHR ''#'' then s else c # s)"

definition query_matches :: "string \<Rightarrow> SmokeFailureMetadataEntry \<Rightarrow> bool" where
  "query_matches q e =
     (q = [] \<or> str_includes (str_lower (se_check_name e)) q \<or>
      (strip_hash q \<noteq> [] \<and> str_includes (show_int (se_run_id e)) (strip_hash q)))"

fun period_cutoff :: "SmokePeriodFilter \<Rightarrow> int \<Rightarrow> int option" where
  "period_cutoff SPeriod7 now = Some (now - 7 * day_ms)"
| "period_cutoff SPeriod30 now = Some (now - 30 * day_ms)"
| "period_cutoff _ now = None"

definition period_matches ::
    "js_host \<Rightarrow> zone_fields \<Rightarrow> SmokePeriodFilter \<Rightarrow> SmokeFailureMetadataFilterOptions \<Rightarrow> int \<Rightarrow>
     SmokeFailureMetadataEntry \<Rightarrow> bool" where
  "period_matches H Z period opts now e =
     (period = SPeriodAll \<or>
      (case date_parse H (se_captured_at e) of
         None \<Rightarrow> False
       | Some capturedAt \<Rightarrow>
           (case period_cutoff period now of
              Some cutoff \<Rightarrow> cutoff \<le> capturedAt \<and> capturedAt \<le> now
            | None \<Rightarrow>
                let capturedOn = calendarDateInTimezone Z capturedAt (fo_timezone opts) in
                (\<not> truthy (fo_startDate opts) \<or> \<not> str_less capturedOn (the (fo_startDate opts))) \<and>
                (\<not> truthy (fo_endDate opts) \<or> \<not> str_less (the (fo_endDate opts)) capturedOn))))"

definition invalid_custom_range :: "SmokePeriodFilter \<Rightarrow> SmokeFailureMetadataFilterOptions \<Rightarrow> bool" where
  "invalid_custom_range period opts =
     (period = SPeriodCustom \<and> truthy (fo_startDate opts) \<and> truthy (fo_endDate opts) \<and>
      str_less (the (fo_endDate opts)) (the (fo_startDate opts)))"

definition filterSmokeFailureMetadata ::
    "js_host \<Rightarrow> zone_fields \<Rightarrow> int \<Rightarrow> SmokeFailureMetadataEntry list \<Rightarrow> SmokeTypeFilter \<Rightarrow> SmokePeriodFilter \<Rightarrow>
     SmokeFailureMetadataFilterOptions \<Rightarrow> SmokeFailureMetadataEntry list" where
  "filterSmokeFailureMetadata H Z clock entries type period opts =
     (let now = default_to clock (fo_now opts);
          query = str_lower (js_trim (normalizeSmokeFailureMetadataSearch (fo_query opts)))
      in if invalid_custom_range period opts then []
         else filter (\<lambda>e. query_matches query e \<and> (type = STypeAll \<or> type = SType (se_failure_type e)) \<and>
                          period_matches H Z period opts now e) entries)"

definition smoke_cmp :: "js_host \<Rightarrow> SmokeSort \<Rightarrow> SmokeFailureMetadataEntry \<Rightarrow> SmokeFailureMetadataEntry \<Rightarrow> int" where
  "smoke_cmp H srt left right =
     (case srt of
        SmRunDesc \<Rightarrow> se_run_id right - se_run_id left
      | SmRunAsc \<Rightarrow> se_run_id left - se_run_id right
      | _ \<Rightarrow>
         (case (date_parse H (se_captured_at left), date_parse H (se_captured_at right)) of
            (Some l, Some r) \<Rightarrow>
              if l = r then se_run_id right - se_run_id left
              else if srt = SmOldest then l - r else r - l
          | (Some l, None) \<Rightarrow> - 1
          | (None, Some r) \<Rightarrow> 1
          | (None, None) \<Rightarrow> se_run_id right - se_run_id left))"

definition sortSmokeFailureMetadata ::
    "js_host \<Rightarrow> SmokeFailureMetadataEntry list \<Rightarrow> SmokeSort \<Rightarrow> SmokeFailureMetadataEntry list" where
  "sortSmokeFailureMetadata H entries srt = js_sort (smoke_cmp H srt) entries"

section \<open>Reading the query string\<close>

definition normalizeCalendarDate :: "js_host \<Rightarrow> string option \<Rightarrow> string" where
  "normalizeCalendarDate H v =
     (if \<not> truthy v \<or> \<not> date_shape (the v) then []
      else case date_parse H (the v @ ''T00:00:00Z'') of
             None \<Rightarrow> []
           | Some timestamp \<Rightarrow> (if js_take 10 (to_iso timestamp) = the v then the v else []))"

definition parseSmokeFailureMetadataFilters :: "js_host \<Rightarrow> string \<Rightarrow> SmokeFailureMetadataFilters" where
  "parseSmokeFailureMetadataFilters H search =
     (let ps = params_parse search;
          period = read_enum smoke_period_text SMOKE_PERIODS SPeriodAll (params_get ''smoke_metadata_period'' ps)
      in \<lparr>sm_endDate = (if period = SPeriodCustom then normalizeCalendarDate H (params_get ''smoke_metadata_to'' ps) else []),
          sm_startDate = (if period = SPeriodCustom then normalizeCalendarDate H (params_get ''smoke_metadata_from'' ps) else []),
          sm_period = period,
          sm_query = normalizeSmokeFailureMetadataSearch (params_get ''smoke_metadata_q'' ps),
          sm_sort = read_enum smoke_sort_text SMOKE_SORTS SmNewest (params_get ''smoke_metadata_sort'' ps),
          sm_type = read_enum smoke_type_text SMOKE_TYPES STypeAll (params_get ''smoke_metadata_type'' ps)\<rparr>)"

section \<open>The hook\<close>

record smoke_hook =
  sh_filters :: SmokeFailureMetadataFilters
  sh_location :: location

text \<open>The effect of the first render reads the location.\<close>

definition smoke_mount :: "js_host \<Rightarrow> location \<Rightarrow> smoke_hook" where
  "smoke_mount H l = \<lparr>sh_filters = parseSmokeFailureMetadataFilters H (loc_search l), sh_location = l\<rparr>"

definition smoke_put :: "param_update list \<Rightarrow> (SmokeFailureMetadataFilters \<Rightarrow> SmokeFailureMetadataFilters) \<Rightarrow> smoke_hook \<Rightarrow> smoke_hook" where
  "smoke_put us f s =
     \<lparr>sh_filters = f (sh_filters s), sh_location = replaceBrowserQueryParams us (sh_location s)\<rparr>"

definition changeTypeFilter :: "SmokeTypeFilter \<Rightarrow> smoke_hook \<Rightarrow> smoke_hook" where
  "changeTypeFilter v = smoke_put [(''smoke_metadata_type'', smoke_type_text v, ''all'')] (sm_type_update (\<lambda>_. v))"

definition changePeriodFilter :: "SmokePeriodFilter \<Rightarrow> smoke_hook \<Rightarrow> smoke_hook" where
  "changePeriodFilter v s = smoke_put
     [(''smoke_metadata_period'', smoke_period_text v, ''all''),
      (''smoke_metadata_from'', (if v = SPeriodCustom then sm_startDate (sh_filters s) else []), []),
      (''smoke_metadata_to'', (if v = SPeriodCustom then sm_endDate (sh_filters s) else []), [])]
     (sm_period_update (\<lambda>_. v)) s"

definition changeStartDate :: "string \<Rightarrow> smoke_hook \<Rightarrow> smoke_hook" where
  "changeStartDate v = smoke_put [(''smoke_metadata_from'', v, [])] (sm_startDate_update (\<lambda>_. v))"

definition changeEndDate :: "string \<Rightarrow> smoke_hook \<Rightarrow> smoke_hook" where
  "changeEndDate v = smoke_put [(''smoke_metadata_to'', v, [])] (sm_endDate_update (\<lambda>_. v))"

definition changeSort :: "SmokeSort \<Rightarrow> smoke_hook \<Rightarrow> smoke_hook" where
  "changeSort v = smoke_put [(''smoke_metadata_sort'', smoke_sort_text v, ''newest'')] (sm_sort_update (\<lambda>_. v))"

definition changeQuery :: "string \<Rightarrow> smoke_hook \<Rightarrow> smoke_hook" where
  "changeQuery v = smoke_put [(''smoke_metadata_q'', v, [])] (sm_query_update (\<lambda>_. v))"

definition changeDateRange :: "string \<Rightarrow> string \<Rightarrow> smoke_hook \<Rightarrow> smoke_hook" where
  "changeDateRange nextStartDate nextEndDate = smoke_put
     [(''smoke_metadata_period'', ''custom'', ''all''),
      (''smoke_metadata_from'', nextStartDate, []),
      (''smoke_metadata_to'', nextEndDate, [])]
     (\<lambda>f. f\<lparr>sm_period := SPeriodCustom, sm_startDate := nextStartDate, sm_endDate := nextEndDate\<rparr>)"

definition applyFilters :: "SmokeFailureMetadataFilters \<Rightarrow> smoke_hook \<Rightarrow> smoke_hook" where
  "applyFilters filters =
     (let nextStartDate = (if sm_period filters = SPeriodCustom then sm_startDate filters else []);
          nextEndDate = (if sm_period filters = SPeriodCustom then sm_endDate filters else [])
      in smoke_put
           [(''smoke_metadata_type'', smoke_type_text (sm_type filters), ''all''),
            (''smoke_metadata_period'', smoke_period_text (sm_period filters), ''all''),
            (''smoke_metadata_from'', nextStartDate, []),
            (''smoke_metadata_to'', nextEndDate, []),
            (''smoke_metadata_q'', sm_query filters, []),
            (''smoke_metadata_sort'', smoke_sort_text (sm_sort filters), ''newest'')]
           (\<lambda>_. filters\<lparr>sm_startDate := nextStartDate, sm_endDate := nextEndDate\<rparr>))"

text \<open>What a date input or a saved filter supplies: nothing, or a date that exists.\<close>

definition date_input :: "string \<Rightarrow> bool" where
  "date_input s = (s = [] \<or> calendar_date s)"

inductive smoke_step :: "smoke_hook \<Rightarrow> smoke_hook \<Rightarrow> bool" where
  change_type: "smoke_step s (changeTypeFilter v s)"
| change_period: "smoke_step s (changePeriodFilter v s)"
| change_start: "date_input d \<Longrightarrow> smoke_step s (changeStartDate d s)"
| change_end: "date_input d \<Longrightarrow> smoke_step s (changeEndDate d s)"
| change_sort: "smoke_step s (changeSort w s)"
| change_query: "smoke_step s (changeQuery q s)"
| change_range: "date_input a \<Longrightarrow> date_input b \<Longrightarrow> smoke_step s (changeDateRange a b s)"
| apply_saved: "date_input (sm_startDate f) \<Longrightarrow> date_input (sm_endDate f) \<Longrightarrow> smoke_step s (applyFilters f s)"

inductive smoke_reachable :: "js_host \<Rightarrow> smoke_hook \<Rightarrow> bool" for H where
  smoke_start: "smoke_reachable H (smoke_mount H l)"
| smoke_next: "smoke_reachable H s \<Longrightarrow> smoke_step s t \<Longrightarrow> smoke_reachable H t"

text \<open>The list on screen (\<open>SmokeFailureMetadataManagement\<close>).\<close>

definition visibleEntries ::
    "js_host \<Rightarrow> zone_fields \<Rightarrow> int \<Rightarrow> string option \<Rightarrow> SmokeFailureMetadataEntry list \<Rightarrow>
     SmokeFailureMetadataFilters \<Rightarrow> SmokeFailureMetadataEntry list" where
  "visibleEntries H Z clock timezone entries f =
     (let activeStartDate = (if sm_period f = SPeriodCustom then sm_startDate f else []);
          activeEndDate = (if sm_period f = SPeriodCustom then sm_endDate f else [])
      in sortSmokeFailureMetadata H
           (filterSmokeFailureMetadata H Z clock entries (sm_type f) (sm_period f)
             \<lparr>fo_endDate = Some activeEndDate, fo_now = None, fo_query = Some (sm_query f),
              fo_startDate = Some activeStartDate, fo_timezone = timezone\<rparr>)
           (sm_sort f))"

definition updateSmokeFailureMetadataSelection ::
    "int list \<Rightarrow> SmokeFailureMetadataEntry list \<Rightarrow> bool \<Rightarrow> int list" where
  "updateSmokeFailureMetadataSelection current entries selected =
     fold (\<lambda>e acc. if selected then (if se_run_id e \<in> set acc then acc else acc @ [se_run_id e])
                   else removeAll (se_run_id e) acc) entries current"

section \<open>Lemmas\<close>

interpretation stype: enum_codec smoke_type_text SMOKE_TYPES
proof
  fix x y show "smoke_type_text x = smoke_type_text y \<Longrightarrow> x = y"
    by (cases x; cases y) (auto elim!: failure_type_text.elims dest: sym)
  show "x \<in> set SMOKE_TYPES"
  proof (cases x)
    case (SType t)
    then show ?thesis by (cases t) (simp_all add: SMOKE_TYPES_def)
  qed (simp add: SMOKE_TYPES_def)
qed

interpretation speriod: enum_codec smoke_period_text SMOKE_PERIODS
proof
  fix x y show "smoke_period_text x = smoke_period_text y \<Longrightarrow> x = y" by (cases x; cases y) simp_all
  show "x \<in> set SMOKE_PERIODS" by (cases x) (simp_all add: SMOKE_PERIODS_def)
qed

interpretation ssort: enum_codec smoke_sort_text SMOKE_SORTS
proof
  fix x y show "smoke_sort_text x = smoke_sort_text y \<Longrightarrow> x = y" by (cases x; cases y) simp_all
  show "x \<in> set SMOKE_SORTS" by (cases x) (simp_all add: SMOKE_SORTS_def)
qed

lemma normalizeCalendarDate_iff: "normalizeCalendarDate H v = (if truthy v \<and> calendar_date (the v) then the v else [])"
  using utc_date_check_iff [of H "the v"]
  by (auto simp: normalizeCalendarDate_def utc_date_check_def split: option.splits)

lemma normalizeCalendarDate_input [simp]: "date_input (normalizeCalendarDate H v)"
  by (simp add: normalizeCalendarDate_iff date_input_def)

lemma smoke_stored:
  "read_enum smoke_type_text SMOKE_TYPES STypeAll (if smoke_type_text x = ''all'' then None else Some (smoke_type_text x)) = x"
  "read_enum smoke_period_text SMOKE_PERIODS SPeriodAll (if smoke_period_text y = ''all'' then None else Some (smoke_period_text y)) = y"
  "read_enum smoke_period_text SMOKE_PERIODS SPeriodAll (Some ''custom'') = SPeriodCustom"
  "read_enum smoke_sort_text SMOKE_SORTS SmNewest (if smoke_sort_text z = ''newest'' then None else Some (smoke_sort_text z)) = z"
  "date_input d \<Longrightarrow> normalizeCalendarDate H (if d = [] then None else Some d) = d"
  "normalizeSmokeFailureMetadataSearch (if q = [] then None else Some q) = js_take SMOKE_SEARCH_LIMIT q"
  using stype.read_stored [of STypeAll x] speriod.read_stored [of SPeriodAll y] ssort.read_stored [of SmNewest z]
    speriod.read_spell [of SPeriodAll SPeriodCustom]
  by (auto simp: normalizeCalendarDate_iff date_input_def normalizeSmokeFailureMetadataSearch_def)

text \<open>The part of the filters that a link keeps: search text within its limit, dates of a custom period only.\<close>

definition link_filters :: "SmokeFailureMetadataFilters \<Rightarrow> SmokeFailureMetadataFilters" where
  "link_filters f =
     f\<lparr>sm_query := js_take SMOKE_SEARCH_LIMIT (sm_query f),
       sm_startDate := (if sm_period f = SPeriodCustom then sm_startDate f else []),
       sm_endDate := (if sm_period f = SPeriodCustom then sm_endDate f else [])\<rparr>"

definition smoke_inv :: "js_host \<Rightarrow> smoke_hook \<Rightarrow> bool" where
  "smoke_inv H s =
     (parseSmokeFailureMetadataFilters H (loc_search (sh_location s)) = link_filters (sh_filters s) \<and>
      date_input (sm_startDate (sh_filters s)) \<and> date_input (sm_endDate (sh_filters s)))"

lemma smoke_get:
  assumes "distinct (map fst us)"
  shows "params_get k (params_parse (loc_search (replaceBrowserQueryParams us l))) =
    (case map_of us k of None \<Rightarrow> params_get k (params_parse (loc_search l)) | Some (v, d) \<Rightarrow> if v = d then None else Some v)"
  using replace_get [OF assms, of k l] unfolding location_params_def .

lemmas smoke_op_defs = changeTypeFilter_def changePeriodFilter_def changeStartDate_def changeEndDate_def changeSort_def
  changeQuery_def changeDateRange_def applyFilters_def

lemma smoke_mount_inv: "smoke_inv H (smoke_mount H l)"
proof -
  have "js_take SMOKE_SEARCH_LIMIT (normalizeSmokeFailureMetadataSearch q) = normalizeSmokeFailureMetadataSearch q" for q
    by (simp add: normalizeSmokeFailureMetadataSearch_def split: option.splits)
  moreover have "date_input []" by (simp add: date_input_def)
  ultimately show ?thesis
    by (simp add: smoke_inv_def smoke_mount_def link_filters_def parseSmokeFailureMetadataFilters_def Let_def)
qed

lemma smoke_inv_iff:
  "smoke_inv H s \<longleftrightarrow>
    (let f = sh_filters s; get = (\<lambda>k. params_get k (params_parse (loc_search (sh_location s)))) in
     read_enum smoke_period_text SMOKE_PERIODS SPeriodAll (get ''smoke_metadata_period'') = sm_period f \<and>
     read_enum smoke_type_text SMOKE_TYPES STypeAll (get ''smoke_metadata_type'') = sm_type f \<and>
     read_enum smoke_sort_text SMOKE_SORTS SmNewest (get ''smoke_metadata_sort'') = sm_sort f \<and>
     normalizeSmokeFailureMetadataSearch (get ''smoke_metadata_q'') = js_take SMOKE_SEARCH_LIMIT (sm_query f) \<and>
     (sm_period f = SPeriodCustom \<longrightarrow>
        normalizeCalendarDate H (get ''smoke_metadata_from'') = sm_startDate f \<and>
        normalizeCalendarDate H (get ''smoke_metadata_to'') = sm_endDate f) \<and>
     date_input (sm_startDate f) \<and> date_input (sm_endDate f))"
  by (cases "sh_filters s") (auto simp: smoke_inv_def link_filters_def parseSmokeFailureMetadataFilters_def Let_def)

lemma smoke_step_inv: "smoke_step s t \<Longrightarrow> smoke_inv H s \<Longrightarrow> smoke_inv H t"
  by (induction rule: smoke_step.induct)
    (simp_all add: smoke_inv_iff smoke_op_defs smoke_put_def smoke_get Let_def smoke_stored date_input_def)

lemma smoke_reachable_inv: "smoke_reachable H s \<Longrightarrow> smoke_inv H s"
  by (induction rule: smoke_reachable.induct) (auto intro: smoke_mount_inv smoke_step_inv)

lemma period_matches_query: "period_matches H Z p (opts\<lparr>fo_query := q\<rparr>) now e = period_matches H Z p opts now e"
  by (simp add: period_matches_def Let_def cong: option.case_cong)

lemma filter_query_limit:
  "filterSmokeFailureMetadata H Z clock es ty p (opts\<lparr>fo_query := Some (js_take SMOKE_SEARCH_LIMIT q)\<rparr>)
   = filterSmokeFailureMetadata H Z clock es ty p (opts\<lparr>fo_query := Some q\<rparr>)"
  by (simp add: filterSmokeFailureMetadata_def period_matches_query invalid_custom_range_def Let_def
      normalizeSmokeFailureMetadataSearch_def)

lemma visible_link_filters: "visibleEntries H Z clock tz es (link_filters f) = visibleEntries H Z clock tz es f"
  using filter_query_limit [of H Z clock es "sm_type f" "sm_period f" "sm_query f"
      "\<lparr>fo_endDate = Some (if sm_period f = SPeriodCustom then sm_endDate f else []), fo_now = None, fo_query = None,
        fo_startDate = Some (if sm_period f = SPeriodCustom then sm_startDate f else []), fo_timezone = tz\<rparr>"]
  by (cases "sm_period f = SPeriodCustom") (simp_all add: visibleEntries_def link_filters_def Let_def)

text \<open>The order of the list is determined: entries without a readable time come last.\<close>

interpretation smoke_order: js_comparator "smoke_cmp H srt" for H srt
proof
  fix x y z
  show "smoke_cmp H srt x y < 0 \<longleftrightarrow> 0 < smoke_cmp H srt y x"
    by (auto simp: smoke_cmp_def split: SmokeSort.splits option.splits)
  assume "smoke_cmp H srt x y \<le> 0" "smoke_cmp H srt y z \<le> 0"
  then show "smoke_cmp H srt x z \<le> 0"
    by (auto simp: smoke_cmp_def split: SmokeSort.splits option.splits if_splits)
qed

section \<open>Properties\<close>

text \<open>C28. Reloading the page keeps the list of failure metadata: in every state the filter controls
  and saved filters can lead to, the filters read back from the address select and order
  the same entries as the filters in memory.\<close>

theorem smoke_list_survives_reload:
  assumes "smoke_reachable H s"
  shows "visibleEntries H Z clock tz es (parseSmokeFailureMetadataFilters H (loc_search (sh_location s)))
    = visibleEntries H Z clock tz es (sh_filters s)"
  using smoke_reachable_inv [OF assms] by (simp add: smoke_inv_def visible_link_filters)

definition smoke_sample :: "int \<Rightarrow> SmokeFailureMetadataEntry" where
  "smoke_sample n = \<lparr>se_captured_at = to_iso 0, se_check_name = ''login'', se_failure_type = FailLogin,
     se_screen_path = None, se_page_title = None, se_run_id = n\<rparr>"

theorem smoke_list_survives_reload_witness:
  "\<exists>s :: smoke_hook. sm_type (sh_filters s) = SType FailLogin \<and> sm_period (sh_filters s) = SPeriodCustom \<and>
    visibleEntries utc_host (\<lambda>_ _. None) 0 None [smoke_sample 7] (parseSmokeFailureMetadataFilters utc_host (loc_search (sh_location s)))
    = visibleEntries utc_host (\<lambda>_ _. None) 0 None [smoke_sample 7] (sh_filters s)"
proof -
  let ?s = "changePeriodFilter SPeriodCustom (changeTypeFilter (SType FailLogin)
      (smoke_mount utc_host \<lparr>loc_path = ''/'', loc_search = [], loc_hash = []\<rparr>))"
  have r: "smoke_reachable utc_host ?s"
    by (rule smoke_next [OF smoke_next [OF smoke_start change_type] change_period])
  have "sm_type (sh_filters ?s) = SType FailLogin" "sm_period (sh_filters ?s) = SPeriodCustom"
    by (simp_all add: changePeriodFilter_def changeTypeFilter_def smoke_put_def)
  with smoke_list_survives_reload [OF r, of "\<lambda>_ _. None" 0 None "[smoke_sample 7]"] show ?thesis by blast
qed

end
