(* ===== verification/JS_Json.thy ===== *)
theory JS_Json
  imports JS_Object
begin

text \<open>
  \<open>JSON.parse\<close> and \<open>JSON.stringify\<close>.  A value is a tree; an object holds its own properties in
  enumeration order (array-index keys first), which is the order in which it is written.  The
  reader is a tokenizer followed by a parser over tokens; the fuel of the parser is shown to be
  enough, and reading what was written gives the value back.
\<close>

datatype json = JNull | JBool bool | JNum jsnum | JStr string | JArr "json list" | JObj "(string \<times> json) list"

text \<open>\<open>typeof v === "string"\<close>, and \<open>value[key]\<close>; a missing value is \<open>undefined\<close> (\<open>None\<close>).\<close>

fun json_string :: "json option \<Rightarrow> string option" where
  "json_string (Some (JStr s)) = Some s"
| "json_string _ = None"

fun json_field :: "string \<Rightarrow> json \<Rightarrow> json option" where
  "json_field k (JObj ps) = obj_get k ps"
| "json_field k _ = None"

text \<open>\<open>typeof v === "object" && v !== null && !Array.isArray(v)\<close>.\<close>

fun json_is_record :: "json option \<Rightarrow> bool" where
  "json_is_record (Some (JObj ps)) = True"
| "json_is_record _ = False"

section \<open>Numbers as text\<close>

text \<open>\<open>10 ^ (n - 1) \<le> x < 10 ^ n\<close> for a positive double.\<close>

definition dec_exp :: "rat \<Rightarrow> int" where
  "dec_exp x =
     (if 1 \<le> x then int (length (show_nat (nat \<lfloor>x\<rfloor>)))
      else case find (\<lambda>k. 1 \<le> x * 10 ^ k) [1..<330] of None \<Rightarrow> 0 | Some k \<Rightarrow> 1 - int k)"

text \<open>The shortest digits that read back as \<open>x\<close>, the closest ones if two are as short.\<close>

definition try_digits :: "rat \<Rightarrow> int \<Rightarrow> nat \<Rightarrow> nat option" where
  "try_digits x n k =
     (let unit = 10 powi (n - int k);
          s0 = nat \<lfloor>x / unit\<rfloor>;
          ok = (\<lambda>s. 10 ^ (k - 1) \<le> s \<and> s < 10 ^ k \<and> fl (of_nat s * unit) = x);
          near = (of_nat (s0 + 1) * unit - x < x - of_nat s0 * unit)
      in if ok s0 \<and> \<not> (ok (s0 + 1) \<and> near) then Some s0
         else if ok (s0 + 1) then Some (s0 + 1) else None)"

definition shortest_digits :: "rat \<Rightarrow> int \<Rightarrow> string" where
  "shortest_digits x n =
     (case List.map_filter (try_digits x n) [1..<18] of [] \<Rightarrow> [] | s # _ \<Rightarrow> show_nat s)"

definition format_digits :: "string \<Rightarrow> int \<Rightarrow> string" where
  "format_digits ds n =
     (let k = int (length ds) in
      if k \<le> n \<and> n \<le> 21 then ds @ replicate (nat (n - k)) (CHR ''0'')
      else if 0 < n \<and> n \<le> 21 then take (nat n) ds @ ''.'' @ drop (nat n) ds
      else if - 6 < n \<and> n \<le> 0 then ''0.'' @ replicate (nat (- n)) (CHR ''0'') @ ds
      else take 1 ds @ (if k = 1 then [] else ''.'' @ drop 1 ds)
           @ (if 0 \<le> n - 1 then ''e+'' else ''e-'') @ show_int \<bar>n - 1\<bar>)"

definition number_text :: "rat \<Rightarrow> string" where
  "number_text q =
     (if of_int \<lfloor>q\<rfloor> = q \<and> \<bar>q\<bar> < 10 ^ 21 then show_int \<lfloor>q\<rfloor>
      else (if q < 0 then ''-'' else []) @ format_digits (shortest_digits \<bar>q\<bar> (dec_exp \<bar>q\<bar>)) (dec_exp \<bar>q\<bar>))"

section \<open>Writing\<close>

definition hex_lower :: "nat \<Rightarrow> char" where
  "hex_lower n = (if n < 10 then char_of (48 + n) else char_of (87 + n))"

definition escape_char :: "char \<Rightarrow> string" where
  "escape_char c =
     (if c = CHR 0x22 then [CHR 0x5C, CHR 0x22]
      else if c = CHR 0x5C then [CHR 0x5C, CHR 0x5C]
      else if c = CHR 0x08 then [CHR 0x5C, CHR ''b'']
      else if c = CHR 0x0C then [CHR 0x5C, CHR ''f'']
      else if c = CHR 0x0A then [CHR 0x5C, CHR ''n'']
      else if c = CHR 0x0D then [CHR 0x5C, CHR ''r'']
      else if c = CHR 0x09 then [CHR 0x5C, CHR ''t'']
      else if (of_char c :: nat) < 32
      then [CHR 0x5C, CHR ''u'', CHR ''0'', CHR ''0'', hex_lower (of_char c div 16), hex_lower (of_char c mod 16)]
      else [c])"

definition quote_json :: "string \<Rightarrow> string" where
  "quote_json s = CHR 0x22 # concat (map escape_char s) @ [CHR 0x22]"

text \<open>The pieces of an array or object between its brackets; \<open>gap\<close> is the indentation unit.\<close>

definition wrap_items :: "string \<Rightarrow> string \<Rightarrow> char \<Rightarrow> char \<Rightarrow> string list \<Rightarrow> string" where
  "wrap_items gap ind l r items =
     (if items = [] then [l, r]
      else if gap = [] then [l] @ str_join '','' items @ [r]
      else [l, CHR 0x0A] @ ind @ gap @ str_join ([CHR '','', CHR 0x0A] @ ind @ gap) items @ [CHR 0x0A] @ ind @ [r])"

fun json_text :: "string \<Rightarrow> string \<Rightarrow> json \<Rightarrow> string" where
  "json_text gap ind JNull = ''null''"
| "json_text gap ind (JBool b) = (if b then ''true'' else ''false'')"
| "json_text gap ind (JNum n) = (case n of Num q \<Rightarrow> number_text q | _ \<Rightarrow> ''null'')"
| "json_text gap ind (JStr s) = quote_json s"
| "json_text gap ind (JArr xs) = wrap_items gap ind (CHR ''['') (CHR '']'') (map (json_text gap (ind @ gap)) xs)"
| "json_text gap ind (JObj ps) = wrap_items gap ind (CHR ''{'') (CHR ''}'')
     (map (\<lambda>p. quote_json (fst p) @ '':'' @ (if gap = [] then [] else '' '') @ json_text gap (ind @ gap) (snd p)) ps)"

text \<open>\<open>JSON.stringify(v)\<close> and \<open>JSON.stringify(v, null, 2)\<close>.\<close>

definition json_stringify :: "json \<Rightarrow> string" where "json_stringify v = json_text [] [] v"
definition json_stringify2 :: "json \<Rightarrow> string" where "json_stringify2 v = json_text ''  '' [] v"

section \<open>Tokens\<close>

datatype token = TLBrace | TRBrace | TLBrack | TRBrack | TColon | TComma | TNull | TBool bool | TNum jsnum | TStr string

text \<open>The characters of a string literal: bytes, and the code units of \<open>\\u\<close> escapes.\<close>

definition simple_escape :: "char \<Rightarrow> char option" where
  "simple_escape e =
     map_of [(CHR 0x22, CHR 0x22), (CHR 0x5C, CHR 0x5C), (CHR ''/'', CHR ''/''), (CHR ''b'', CHR 0x08),
             (CHR ''f'', CHR 0x0C), (CHR ''n'', CHR 0x0A), (CHR ''r'', CHR 0x0D), (CHR ''t'', CHR 0x09)] e"

fun raw_string :: "string \<Rightarrow> ((char + nat) list \<times> string) option" where
  "raw_string [] = None"
| "raw_string (c # s) =
     (if c = CHR 0x22 then Some ([], s)
      else if c = CHR 0x5C then
        (case s of
           [] \<Rightarrow> None
         | e # r \<Rightarrow>
             if e = CHR ''u'' then
               (case r of
                  h1 # h2 # h3 # h4 # t \<Rightarrow>
                    if list_all (\<lambda>h. radix_digit h < 16) [h1, h2, h3, h4]
                    then map_option (apfst (Cons (Inr (foldl (\<lambda>a h. 16 * a + radix_digit h) 0 [h1, h2, h3, h4])))) (raw_string t)
                    else None
                | _ \<Rightarrow> None)
             else (case simple_escape e of
                     None \<Rightarrow> None
                   | Some d \<Rightarrow> map_option (apfst (Cons (Inl d))) (raw_string r)))
      else if (of_char c :: nat) < 32 then None
      else map_option (apfst (Cons (Inl c))) (raw_string s))"

definition utf8 :: "nat \<Rightarrow> string" where
  "utf8 n =
     (if n < 0x80 then [char_of n]
      else if n < 0x800 then [char_of (0xC0 + n div 64), char_of (0x80 + n mod 64)]
      else if n < 0x10000 then [char_of (0xE0 + n div 4096), char_of (0x80 + n div 64 mod 64), char_of (0x80 + n mod 64)]
      else [char_of (0xF0 + n div 262144), char_of (0x80 + n div 4096 mod 64), char_of (0x80 + n div 64 mod 64),
            char_of (0x80 + n mod 64)])"

text \<open>A high and a low surrogate side by side are one code point.\<close>

fun assemble :: "(char + nat) list \<Rightarrow> string" where
  "assemble [] = []"
| "assemble (Inl c # us) = c # assemble us"
| "assemble (Inr a # Inr b # us) =
     (if 0xD800 \<le> a \<and> a < 0xDC00 \<and> 0xDC00 \<le> b \<and> b < 0xE000
      then utf8 (0x10000 + (a - 0xD800) * 0x400 + (b - 0xDC00)) @ assemble us
      else utf8 a @ assemble (Inr b # us))"
| "assemble (Inr a # us) = utf8 a @ assemble us"

text \<open>The longest number literal at the start of a text.\<close>

definition lex_int :: "string \<Rightarrow> string \<times> string" where
  "lex_int s = (case s of
     [] \<Rightarrow> ([], [])
   | c # r \<Rightarrow> if c = CHR ''0'' then ([c], r)
             else (takeWhile is_digit s, dropWhile is_digit s))"

definition lex_frac :: "string \<Rightarrow> string \<times> string" where
  "lex_frac s = (case s of
     c # r \<Rightarrow> if c = CHR ''.'' \<and> takeWhile is_digit r \<noteq> [] then (c # takeWhile is_digit r, dropWhile is_digit r) else ([], s)
   | [] \<Rightarrow> ([], []))"

definition lex_exp :: "string \<Rightarrow> string \<times> string" where
  "lex_exp s = (case s of
     c # r \<Rightarrow>
       (let sg = (case r of d # _ \<Rightarrow> if d = CHR ''+'' \<or> d = CHR ''-'' then [d] else [] | [] \<Rightarrow> []);
            t = drop (length sg) r
        in if (c = CHR ''e'' \<or> c = CHR ''E'') \<and> takeWhile is_digit t \<noteq> []
           then (c # sg @ takeWhile is_digit t, dropWhile is_digit t) else ([], s))
   | [] \<Rightarrow> ([], []))"

definition lex_number :: "string \<Rightarrow> (string \<times> string) option" where
  "lex_number s =
     (let sg = (case s of c # _ \<Rightarrow> if c = CHR ''-'' then [c] else [] | [] \<Rightarrow> []);
          (ip, r1) = lex_int (drop (length sg) s);
          (fp, r2) = lex_frac r1;
          (ep, r3) = lex_exp r2
      in if ip = [] then None else Some (sg @ ip @ fp @ ep, r3))"

definition punct :: "char \<Rightarrow> token option" where
  "punct c = map_of [(CHR ''{'', TLBrace), (CHR ''}'', TRBrace), (CHR ''['', TLBrack), (CHR '']'', TRBrack),
                     (CHR '':'', TColon), (CHR '','', TComma)] c"

definition json_space :: "char \<Rightarrow> bool" where
  "json_space c = (c = CHR 0x20 \<or> c = CHR 0x09 \<or> c = CHR 0x0A \<or> c = CHR 0x0D)"

definition keywords_json :: "(string \<times> token) list" where
  "keywords_json = [(''null'', TNull), (''true'', TBool True), (''false'', TBool False)]"

text \<open>The first token of a text that starts with a significant character, and the rest.\<close>

definition next_token :: "char \<Rightarrow> string \<Rightarrow> (token \<times> string) option" where
  "next_token c s =
     (case punct c of
        Some t \<Rightarrow> Some (t, s)
      | None \<Rightarrow>
          if c = CHR 0x22 then map_option (\<lambda>(us, r). (TStr (assemble us), r)) (raw_string s)
          else (case find (\<lambda>k. prefix (fst k) (c # s)) keywords_json of
                  Some k \<Rightarrow> Some (snd k, drop (length (fst k)) (c # s))
                | None \<Rightarrow> map_option (\<lambda>(t, r). (TNum (js_number t), r)) (lex_number (c # s))))"

lemma raw_string_shorter: "raw_string s = Some (us, r) \<Longrightarrow> length r < length s"
  by (induction s arbitrary: us r rule: raw_string.induct) (fastforce split: if_splits list.splits option.splits)+

lemma lex_parts:
  "lex_int s = (a, b) \<Longrightarrow> a @ b = s" "lex_frac s = (a, b) \<Longrightarrow> a @ b = s" "lex_exp s = (a, b) \<Longrightarrow> a @ b = s"
  by (auto simp: lex_int_def lex_frac_def lex_exp_def Let_def split: list.splits if_splits)

lemma lex_number_append: "lex_number s = Some (t, r) \<Longrightarrow> t @ r = s \<and> t \<noteq> []"
  by (auto simp: lex_number_def Let_def split: list.splits if_splits prod.splits dest!: lex_parts)

lemma lex_number_shorter: "lex_number s = Some (t, r) \<Longrightarrow> length r < length s"
proof -
  assume "lex_number s = Some (t, r)"
  from lex_number_append [OF this] have "length s = length t + length r" "0 < length t" by auto
  then show ?thesis by linarith
qed

lemma next_token_shorter: "next_token c s = Some (t, r) \<Longrightarrow> length r < length (c # s)"
  by (auto simp: next_token_def keywords_json_def split: option.splits if_splits
      dest: raw_string_shorter lex_number_shorter)

function tokenize :: "string \<Rightarrow> token list option" where
  "tokenize [] = Some []"
| "tokenize (c # s) =
     (if json_space c then tokenize s
      else case next_token c s of
             None \<Rightarrow> None
           | Some (t, r) \<Rightarrow> map_option (Cons t) (tokenize r))"
  by pat_completeness auto
termination
  by (relation "measure length") (auto dest: next_token_shorter)


section \<open>Parsing\<close>

fun parse_value :: "nat \<Rightarrow> token list \<Rightarrow> (json \<times> token list) option"
and parse_array :: "nat \<Rightarrow> json list \<Rightarrow> token list \<Rightarrow> (json \<times> token list) option"
and parse_object :: "nat \<Rightarrow> (string \<times> json) list \<Rightarrow> token list \<Rightarrow> (json \<times> token list) option" where
  "parse_value 0 ts = None"
| "parse_value (Suc n) ts =
     (case ts of
        [] \<Rightarrow> None
      | t # r \<Rightarrow>
          (case t of
             TNull \<Rightarrow> Some (JNull, r)
           | TBool b \<Rightarrow> Some (JBool b, r)
           | TNum q \<Rightarrow> Some (JNum q, r)
           | TStr s \<Rightarrow> Some (JStr s, r)
           | TLBrack \<Rightarrow> if r \<noteq> [] \<and> hd r = TRBrack then Some (JArr [], tl r) else parse_array n [] r
           | TLBrace \<Rightarrow> if r \<noteq> [] \<and> hd r = TRBrace then Some (JObj [], tl r) else parse_object n [] r
           | _ \<Rightarrow> None))"
| "parse_array 0 acc ts = None"
| "parse_array (Suc n) acc ts =
     (case parse_value n ts of
        None \<Rightarrow> None
      | Some (v, r) \<Rightarrow>
          if r = [] then None
          else if hd r = TComma then parse_array n (acc @ [v]) (tl r)
          else if hd r = TRBrack then Some (JArr (acc @ [v]), tl r)
          else None)"
| "parse_object 0 acc ts = None"
| "parse_object (Suc n) acc ts =
     (case ts of
        TStr k # c # q \<Rightarrow>
          (case (if c = TColon then parse_value n q else None) of
             None \<Rightarrow> None
           | Some (v, r) \<Rightarrow>
               if r = [] then None
               else if hd r = TComma then parse_object n (obj_put k v acc) (tl r)
               else if hd r = TRBrace then Some (JObj (obj_entries (obj_put k v acc)), tl r)
               else None)
      | _ \<Rightarrow> None)"

text \<open>\<open>JSON.parse\<close>; \<open>None\<close> is the \<open>SyntaxError\<close>.  Every call consumes a token or follows one that did.\<close>

definition json_parse :: "string \<Rightarrow> json option" where
  "json_parse s =
     (case tokenize s of
        None \<Rightarrow> None
      | Some ts \<Rightarrow> (case parse_value (2 * length ts + 1) ts of Some (v, []) \<Rightarrow> Some v | _ \<Rightarrow> None))"


section \<open>The fuel is enough\<close>

lemma parse_shorter_all:
  "(\<forall>ts v r. parse_value n ts = Some (v, r) \<longrightarrow> length r < length ts) \<and>
   (\<forall>acc ts v r. parse_array n acc ts = Some (v, r) \<longrightarrow> length r < length ts) \<and>
   (\<forall>acc ts v r. parse_object n acc ts = Some (v, r) \<longrightarrow> length r < length ts)"
proof (induction n)
  case (Suc n)
  have l: "r \<noteq> [] \<Longrightarrow> length (tl r) < length r" for r :: "token list" by (cases r) auto
  have v: "length r < length ts" if "parse_value n ts = Some (v, r)" for ts v r using Suc that by blast
  have a: "length r < length ts" if "parse_array n acc ts = Some (v, r)" for acc ts v r using Suc that by blast
  have b: "length r < length ts" if "parse_object n acc ts = Some (v, r)" for acc ts v r using Suc that by blast
  have "length r < length ts" if "parse_value (Suc n) ts = Some (v, r)" for ts v r
    using that by (auto split: list.splits token.splits if_splits dest: a b)
  moreover have "length r < length ts" if "parse_array (Suc n) acc ts = Some (v, r)" for acc ts v r
    using that by (auto split: option.splits if_splits dest!: v a l)
  moreover have "length r < length ts" if "parse_object (Suc n) acc ts = Some (v, r)" for acc ts v r
    using that by (auto split: option.splits list.splits token.splits if_splits dest!: v b l)
  ultimately show ?case by blast
qed simp

lemmas parse_shorter = parse_shorter_all [THEN conjunct1, rule_format]
  parse_shorter_all [THEN conjunct2, THEN conjunct1, rule_format]
  parse_shorter_all [THEN conjunct2, THEN conjunct2, rule_format]

declare parse_value.simps [simp del] parse_array.simps [simp del] parse_object.simps [simp del]

lemma parse_stable_all:
  "(\<forall>ts. 2 * length ts < n \<longrightarrow> parse_value (Suc n) ts = parse_value n ts) \<and>
   (\<forall>acc ts. 2 * length ts + 1 < n \<longrightarrow> parse_array (Suc n) acc ts = parse_array n acc ts) \<and>
   (\<forall>acc ts. 2 * length ts + 1 < n \<longrightarrow> parse_object (Suc n) acc ts = parse_object n acc ts)"
proof (induction n)
  case (Suc n)
  then have v: "2 * length ts < n \<Longrightarrow> parse_value (Suc n) ts = parse_value n ts"
    and a: "2 * length ts + 1 < n \<Longrightarrow> parse_array (Suc n) acc ts = parse_array n acc ts"
    and b: "2 * length ts + 1 < n \<Longrightarrow> parse_object (Suc n) obj ts = parse_object n obj ts" for ts acc obj
    by blast+
  have "parse_value (Suc (Suc n)) ts = parse_value (Suc n) ts" if "2 * length ts < Suc n" for ts
    using that
    by (cases ts) (auto simp: parse_value.simps(2) [of "Suc n"] parse_value.simps(2) [of n] a b split: token.splits)
  moreover have "parse_array (Suc (Suc n)) acc ts = parse_array (Suc n) acc ts" if h: "2 * length ts + 1 < Suc n" for acc ts
  proof (cases "parse_value n ts")
    case (Some p)
    then have "length (snd p) < length ts" using parse_shorter(1) [of n ts "fst p" "snd p"] by simp
    then have "2 * length (tl (snd p)) + 1 < n" using h by simp
    then show ?thesis using h v [of ts] a Some
      unfolding parse_array.simps(2) [of "Suc n" acc ts] parse_array.simps(2) [of n acc ts] by (cases p) simp
  qed (use h v [of ts] in \<open>simp add: parse_array.simps(2) [of "Suc n"] parse_array.simps(2) [of n]\<close>)
  moreover have "parse_object (Suc (Suc n)) acc ts = parse_object (Suc n) acc ts" if h: "2 * length ts + 1 < Suc n" for acc ts
  proof (cases "\<exists>k q. ts = TStr k # TColon # q")
    case True
    then obtain k q where ts: "ts = TStr k # TColon # q" by blast
    with h have "2 * length q < n" by simp
    note vq = v [OF this]
    show ?thesis
    proof (cases "parse_value n q")
      case (Some p)
      then have "length (snd p) < length q" using parse_shorter(1) [of n q "fst p" "snd p"] by simp
      then have "2 * length (tl (snd p)) + 1 < n" using h ts by simp
      then show ?thesis using vq b Some ts
        unfolding parse_object.simps(2) [of "Suc n" acc ts] parse_object.simps(2) [of n acc ts] by (cases p) simp
    qed (use vq ts in \<open>simp add: parse_object.simps(2) [of "Suc n"] parse_object.simps(2) [of n]\<close>)
  qed (auto simp: parse_object.simps(2) [of "Suc n"] parse_object.simps(2) [of n] split: list.splits token.splits)
  ultimately show ?case by blast
qed simp


lemma parse_value_stable: "2 * length ts < n \<Longrightarrow> n \<le> m \<Longrightarrow> parse_value m ts = parse_value n ts"
  by (induction m) (use parse_stable_all le_Suc_eq in auto)

section \<open>Reading what was written\<close>

fun sep_join :: "'a \<Rightarrow> 'a list list \<Rightarrow> 'a list" where
  "sep_join c [] = []"
| "sep_join c [x] = x"
| "sep_join c (x # y # xs) = x @ c # sep_join c (y # xs)"

fun toks :: "json \<Rightarrow> token list" where
  "toks JNull = [TNull]"
| "toks (JBool b) = [TBool b]"
| "toks (JNum q) = [TNum q]"
| "toks (JStr s) = [TStr s]"
| "toks (JArr xs) = TLBrack # sep_join TComma (map toks xs) @ [TRBrack]"
| "toks (JObj ps) = TLBrace # sep_join TComma (map (\<lambda>p. TStr (fst p) # TColon # toks (snd p)) ps) @ [TRBrace]"

text \<open>The values the application writes: natural numbers within the safe range, objects as an engine keeps them.\<close>

fun json_wf :: "json \<Rightarrow> bool" where
  "json_wf (JNum n) = (\<exists>i. n = Num (of_nat i) \<and> i \<le> 2 ^ 53)"
| "json_wf (JArr xs) = list_all json_wf xs"
| "json_wf (JObj ps) = (distinct (map fst ps) \<and> obj_entries ps = ps \<and> list_all (\<lambda>p. json_wf (snd p)) ps)"
| "json_wf _ = True"

lemma toks_Cons: "\<exists>t ts. toks v = t # ts \<and> t \<noteq> TRBrack \<and> t \<noteq> TRBrace"
  by (cases v) auto

lemma sep_join_Cons: "sep_join c (x # xs) = x @ (if xs = [] then [] else c # sep_join c xs)"
  by (cases xs) auto

lemma toks_join_hd: "xs \<noteq> [] \<Longrightarrow> \<exists>t ts. sep_join TComma (map toks xs) = t # ts \<and> t \<noteq> TRBrack"
  using toks_Cons [of "hd xs"] by (cases xs) (auto simp: sep_join_Cons)

text \<open>The parser on the tokens of the items of an array, and of the members of an object.\<close>

definition reads_back :: "json \<Rightarrow> bool" where
  "reads_back v = (\<forall>n r. 2 * length (toks v) \<le> n \<longrightarrow> parse_value n (toks v @ r) = Some (v, r))"

lemma parse_toks_array:
  assumes "list_all reads_back xs" "xs \<noteq> []" "2 * length (sep_join TComma (map toks xs)) < n"
  shows "parse_array n acc (sep_join TComma (map toks xs) @ TRBrack # r) = Some (JArr (acc @ xs), r)"
  using assms
proof (induction xs arbitrary: n acc)
  case (Cons v xs)
  obtain m where n: "n = Suc m" using Cons.prems(3) by (cases n) auto
  have v: "parse_value m (toks v @ q) = Some (v, q)" for q
    using Cons.prems n by (simp add: reads_back_def sep_join_Cons)
  show ?case
  proof (cases "xs = []")
    case False
    then have "parse_array m (acc @ [v]) (sep_join TComma (map toks xs) @ TRBrack # r) = Some (JArr ((acc @ [v]) @ xs), r)"
      using Cons.prems n by (intro Cons.IH) (simp_all add: sep_join_Cons)
    with v False n show ?thesis by (simp add: parse_array.simps sep_join_Cons)
  qed (use v n in \<open>simp add: parse_array.simps\<close>)
qed simp

abbreviation member_toks :: "string \<times> json \<Rightarrow> token list" where
  "member_toks p \<equiv> TStr (fst p) # TColon # toks (snd p)"

lemma parse_toks_object:
  assumes "list_all (\<lambda>p. reads_back (snd p)) ps" "ps \<noteq> []" "distinct (map fst (acc @ ps))"
    and "2 * length (sep_join TComma (map member_toks ps)) < n"
  shows "parse_object n acc (sep_join TComma (map member_toks ps) @ TRBrace # r) = Some (JObj (obj_entries (acc @ ps)), r)"
  using assms
proof (induction ps arbitrary: n acc)
  case (Cons p ps)
  obtain m where n: "n = Suc m" using Cons.prems(4) by (cases n) auto
  have v: "parse_value m (toks (snd p) @ q) = Some (snd p, q)" for q
    using Cons.prems n by (simp add: reads_back_def sep_join_Cons)
  have put: "obj_put (fst p) (snd p) acc = acc @ [p]" using Cons.prems(3) by (simp add: obj_put_new)
  show ?case
  proof (cases "ps = []")
    case False
    then have "parse_object m (acc @ [p]) (sep_join TComma (map member_toks ps) @ TRBrace # r)
        = Some (JObj (obj_entries ((acc @ [p]) @ ps)), r)"
      using Cons.prems n by (intro Cons.IH) (simp_all add: sep_join_Cons)
    with v put False n show ?thesis by (simp add: parse_object.simps sep_join_Cons)
  qed (use v put n in \<open>simp add: parse_object.simps\<close>)
qed simp

lemma reads_backI:
  assumes "\<And>m r. 2 * length (toks v) \<le> Suc m \<Longrightarrow> parse_value (Suc m) (toks v @ r) = Some (v, r)"
  shows "reads_back v"
  unfolding reads_back_def
proof (intro allI impI)
  fix n r assume h: "2 * length (toks v) \<le> n"
  obtain m where "n = Suc m" using h toks_Cons [of v] by (cases n) auto
  with h assms show "parse_value n (toks v @ r) = Some (v, r)" by simp
qed

lemma json_wf_reads_back: "json_wf v \<Longrightarrow> reads_back v"
proof (induction v)
  case (JArr xs)
  then have all: "list_all reads_back xs" by (auto simp: list_all_iff)
  show ?case
  proof (cases "xs = []")
    case False
    obtain t ts where "sep_join TComma (map toks xs) = t # ts" "t \<noteq> TRBrack" using toks_join_hd [OF False] by blast
    then show ?thesis
      using parse_toks_array [OF all False] by (intro reads_backI) (simp add: parse_value.simps)
  qed (auto intro!: reads_backI simp: parse_value.simps)
next
  case (JObj ps)
  then have all: "list_all (\<lambda>p. reads_back (snd p)) ps" by (auto simp: list_all_iff)
  have "sep_join TComma (map member_toks ps) = TStr (fst (hd ps)) # tl (sep_join TComma (map member_toks ps))" if "ps \<noteq> []"
    using that by (cases ps) (auto simp: sep_join_Cons)
  then obtain ts where ts: "ps \<noteq> [] \<Longrightarrow> sep_join TComma (map member_toks ps) = TStr (fst (hd ps)) # ts" by blast
  have "distinct (map fst ([] @ ps))" using JObj.prems by simp
  with parse_toks_object [OF all _ this] ts JObj.prems show ?case
    by (cases "ps = []") (auto intro!: reads_backI simp: parse_value.simps)
qed (auto intro!: reads_backI simp: parse_value.simps)

theorem parse_toks: "json_wf v \<Longrightarrow> parse_value (2 * length (toks v) + 1) (toks v) = Some (v, [])"
  using json_wf_reads_back [of v] unfolding reads_back_def
  by (metis append_Nil2 le_add1)


text \<open>String literals.\<close>

definition unit_of :: "char \<Rightarrow> char + nat" where
  "unit_of c = (if (of_char c :: nat) < 32 \<and> c \<notin> {CHR 0x08, CHR 0x0C, CHR 0x0A, CHR 0x0D, CHR 0x09}
                then Inr (of_char c) else Inl c)"

lemma hex_lower_digit: "n < 16 \<Longrightarrow> radix_digit (hex_lower n) = n"
  by (simp add: hex_lower_def radix_digit_def Let_def)

lemma raw_string_escape: "raw_string (escape_char c @ s) = map_option (apfst (Cons (unit_of c))) (raw_string s)"
proof -
  have "radix_digit (CHR ''0'') = 0" by (simp add: radix_digit_def)
  moreover have "(of_char c :: nat) < 32 \<Longrightarrow> (of_char c :: nat) div 16 < 16" by simp
  ultimately show ?thesis
    by (auto simp: escape_char_def unit_of_def simple_escape_def hex_lower_digit)
qed

lemma raw_string_quoted: "raw_string (concat (map escape_char s) @ CHR 0x22 # r) = Some (map unit_of s, r)"
  by (induction s) (simp_all add: raw_string_escape)

lemma assemble_units: "assemble (map unit_of s) = s"
proof (induction s)
  case (Cons c s)
  show ?case
  proof (cases "unit_of c")
    case (Inl d)
    then have "d = c" by (auto simp: unit_of_def split: if_splits)
    with Inl Cons show ?thesis by simp
  next
    case (Inr n)
    then have n: "n = of_char c" "n < 32" by (auto simp: unit_of_def split: if_splits)
    then have "utf8 n = [c]" by (simp add: utf8_def)
    moreover have "assemble (Inr n # us) = utf8 n @ assemble us" for us
      using n(2) by (cases us rule: assemble.cases) auto
    ultimately show ?thesis using Inr Cons by simp
  qed
qed simp

lemma tokenize_string: "tokenize (quote_json s @ r) = map_option (Cons (TStr s)) (tokenize r)"
  by (simp add: quote_json_def json_space_def next_token_def punct_def raw_string_quoted assemble_units)

text \<open>Numbers.\<close>

definition stops :: "string \<Rightarrow> bool" where
  "stops r = (r = [] \<or> hd r \<in> {CHR '','', CHR '']'', CHR ''}'', CHR 0x0A})"

lemma stops_not_number: "stops r \<Longrightarrow> takeWhile is_digit r = [] \<and> dropWhile is_digit r = r \<and> lex_frac r = ([], r) \<and> lex_exp r = ([], r)"
  by (cases r) (auto simp: stops_def is_digit_def lex_frac_def lex_exp_def Let_def)

lemma show_nat_zero: "show_nat n = CHR ''0'' # t \<Longrightarrow> n = 0"
proof (induction n arbitrary: t rule: show_nat.induct)
  case (1 n)
  show ?case
  proof (cases "n < 10")
    case True
    with "1.prems" have "digit_char n = CHR ''0''" by (simp add: show_nat.simps [of n])
    then have "digit_val (digit_char n) = 0" by (simp add: digit_val_def)
    with True show ?thesis by simp
  next
    case False
    with "1.prems" show_nat_ne [of "n div 10"] obtain u where "show_nat (n div 10) = CHR ''0'' # u"
      by (cases "show_nat (n div 10)") (auto simp: show_nat.simps [of n])
    with "1.IH" False have "n div 10 = 0" by blast
    with False show ?thesis by simp
  qed
qed

lemma lex_show_nat:
  assumes "stops r"
  shows "lex_number (show_nat n @ r) = Some (show_nat n, r)"
proof -
  obtain c t where ct: "show_nat n = c # t" using show_nat_ne [of n] by (cases "show_nat n") auto
  have d: "list_all is_digit (show_nat n)" by (rule show_nat_digits)
  have li: "lex_int (show_nat n @ r) = (show_nat n, r)"
  proof (cases "c = CHR ''0''")
    case True
    then have "n = 0" using ct show_nat_zero by blast
    moreover have "digit_char 0 = CHR ''0''" by code_simp
    ultimately show ?thesis by (simp add: lex_int_def show_nat.simps [of 0])
  next
    case False
    have "takeWhile is_digit (show_nat n @ r) = show_nat n" "dropWhile is_digit (show_nat n @ r) = r"
      using d stops_not_number [OF assms] by (simp_all add: list_all_iff)
    with False show ?thesis by (simp add: lex_int_def ct)
  qed
  have "c \<noteq> CHR ''-''" using d ct by (auto simp: is_digit_def)
  then show ?thesis using li stops_not_number [OF assms] by (simp add: lex_number_def Let_def ct)
qed

lemma tokenize_nat:
  assumes "stops r" "n \<le> 2 ^ 53"
  shows "tokenize (show_nat n @ r) = map_option (Cons (TNum (Num (of_nat n)))) (tokenize r)"
proof -
  obtain c t where ct: "show_nat n = c # t" using show_nat_ne [of n] by (cases "show_nat n") auto
  have dg: "is_digit c" using show_nat_digits [of n] ct by simp
  then have "\<not> json_space c" "punct c = None" "c \<noteq> CHR 0x22"
      "find (\<lambda>k. prefix (fst k) (c # t @ r)) keywords_json = None"
    by (auto simp: is_digit_def json_space_def punct_def keywords_json_def)
  moreover have "js_number (show_nat n) = Num (of_nat n)"
    using js_number_digits [of "show_nat n"] assms(2) by (simp add: show_nat_digits show_nat_ne)
  ultimately show ?thesis using lex_show_nat [OF assms(1), of n] by (simp add: next_token_def ct)
qed


text \<open>Arrays and objects: the pieces are read one after the other.\<close>

lemma tokenize_spaces: "list_all json_space w \<Longrightarrow> tokenize (w @ s) = tokenize s"
  by (induction w) auto

lemma tokenize_punct:
  "tokenize (CHR '','' # s) = map_option (Cons TComma) (tokenize s)"
  "tokenize (CHR '':'' # s) = map_option (Cons TColon) (tokenize s)"
  "tokenize (CHR ''['' # s) = map_option (Cons TLBrack) (tokenize s)"
  "tokenize (CHR '']'' # s) = map_option (Cons TRBrack) (tokenize s)"
  "tokenize (CHR ''{'' # s) = map_option (Cons TLBrace) (tokenize s)"
  "tokenize (CHR ''}'' # s) = map_option (Cons TRBrace) (tokenize s)"
  by (simp_all add: json_space_def next_token_def punct_def)

declare tokenize.simps(2) [simp del]

definition lexes :: "string \<Rightarrow> token list \<Rightarrow> bool" where
  "lexes w ts = (\<forall>r us. stops r \<longrightarrow> tokenize r = Some us \<longrightarrow> tokenize (w @ r) = Some (ts @ us))"

lemma lexes_join:
  assumes "list_all2 lexes ws tss" "list_all json_space sp"
  shows "lexes (str_join (CHR '','' # sp) ws) (sep_join TComma tss)"
  using assms(1)
proof (induction rule: list_all2_induct)
  case (Cons w ws ts tss)
  show ?case
  proof (cases "ws = []")
    case False
    then have j: "str_join (CHR '','' # sp) (w # ws) = w @ CHR '','' # sp @ str_join (CHR '','' # sp) ws"
      by (cases ws) auto
    have ne: "tss \<noteq> []" using Cons.hyps False by auto
    have st: "stops (CHR '','' # q)" for q by (simp add: stops_def)
    show ?thesis
      using Cons ne unfolding j lexes_def
      by (auto simp: st tokenize_punct tokenize_spaces [OF assms(2)] sep_join_Cons)
  qed (use Cons in auto)
qed (simp add: lexes_def)

lemma lexes_wrap:
  assumes "list_all2 lexes ws tss" "list_all json_space gap" "list_all json_space ind"
    and "\<And>s us. tokenize s = Some us \<Longrightarrow> tokenize (l # s) = Some (t # us)"
    and "\<And>s us. tokenize s = Some us \<Longrightarrow> tokenize (c # s) = Some (u # us)"
    and "c \<in> {CHR '']'', CHR ''}''}"
  shows "lexes (wrap_items gap ind l c ws) (t # sep_join TComma tss @ [u])"
proof -
  have nl: "json_space (CHR 0x0A)" by (simp add: json_space_def)
  have st: "stops (c # q)" "stops (CHR 0x0A # q)" for q using assms(6) by (auto simp: stops_def)
  have nil: "ws = [] \<longleftrightarrow> tss = []" using assms(1) by auto
  have j1: "lexes (str_join '','' ws) (sep_join TComma tss)" using lexes_join [OF assms(1), of "[]"] by simp
  have j2: "lexes (str_join (CHR '','' # CHR 0x0A # ind @ gap) ws) (sep_join TComma tss)"
    by (rule lexes_join [OF assms(1)]) (use assms nl in simp)
  have sp: "tokenize (CHR 0x0A # ind @ s) = tokenize s" "tokenize (CHR 0x0A # ind @ gap @ s) = tokenize s" for s
    using tokenize_spaces [of "CHR 0x0A # ind"] tokenize_spaces [of "CHR 0x0A # ind @ gap"] assms(2,3) nl by simp_all
  show ?thesis
    using assms(4,5) j1 j2 st sp nil unfolding lexes_def wrap_items_def by (auto simp: str_join.simps)
qed

lemma lexes_text: "json_wf v \<Longrightarrow> list_all json_space gap \<Longrightarrow> list_all json_space ind \<Longrightarrow> lexes (json_text gap ind v) (toks v)"
proof (induction gap ind v rule: json_text.induct)
  case (3 gap ind n)
  then obtain i where i: "n = Num (of_nat i)" "i \<le> 2 ^ 53" by auto
  have "(of_nat i :: rat) \<le> of_nat (2 ^ 53)" using i(2) by (simp only: of_nat_le_iff)
  then have "number_text (of_nat i) = show_nat i" by (simp add: number_text_def show_int_def)
  with i show ?case by (simp add: lexes_def tokenize_nat)
next
  case (5 gap ind xs)
  then have "lexes (json_text gap (ind @ gap) x) (toks x)" if "x \<in> set xs" for x using that by (auto simp: list_all_iff)
  then have "list_all2 lexes (map (json_text gap (ind @ gap)) xs) (map toks xs)"
    by (simp add: list_all2_map1 list_all2_map2 list_all2_same)
  from lexes_wrap [OF this "5.prems"(2,3), of "CHR ''[''" TLBrack "CHR '']''" TRBrack] show ?case
    by (simp add: tokenize_punct)
next
  case (6 gap ind ps)
  let ?item = "\<lambda>p. quote_json (fst p) @ '':'' @ (if gap = [] then [] else '' '') @ json_text gap (ind @ gap) (snd p)"
  have "json_space (CHR '' '')" by (simp add: json_space_def)
  then have sp: "tokenize (CHR '' '' # s) = tokenize s" for s using tokenize_spaces [of "'' ''"] by simp
  have i: "lexes (json_text gap (ind @ gap) (snd p)) (toks (snd p))" if "p \<in> set ps" for p
    using "6.IH" [OF that] "6.prems" that by (auto simp: list_all_iff)
  have "lexes (?item p) (member_toks p)" if "p \<in> set ps" for p
    using i [OF that] by (auto simp: lexes_def tokenize_string tokenize_punct sp)
  then have "list_all2 lexes (map ?item ps) (map member_toks ps)"
    by (simp add: list_all2_map1 list_all2_map2 list_all2_same)
  from lexes_wrap [OF this "6.prems"(2,3), of "CHR ''{''" TLBrace "CHR ''}''" TRBrace] show ?case
    by (simp add: tokenize_punct)
qed (auto simp: lexes_def tokenize_string tokenize.simps(2) json_space_def next_token_def punct_def keywords_json_def)

theorem json_roundtrip:
  assumes "json_wf v" "list_all json_space gap"
  shows "json_parse (json_text gap [] v) = Some v"
proof -
  have "tokenize (json_text gap [] v) = Some (toks v)"
    using lexes_text [OF assms, of "[]"] unfolding lexes_def by (force simp: stops_def)
  then show ?thesis by (simp add: json_parse_def parse_toks [OF assms(1), simplified])
qed

end
