(* ===== verification/JS_Text.thy ===== *)
theory JS_Text
  imports JS_Prelude
begin

text \<open>
  \<open>s.replace(/\\s+/g, " ")\<close>: every run of white space becomes one blank.  The main facts are
  that a trimmed and collapsed text is its own trimming and collapsing, and that neither
  operation makes a text longer.
\<close>

lemma strip_start_shorter: "\<not> no_prefix ws s \<Longrightarrow> length (strip_start ws s) < length s"
proof -
  assume n: "\<not> no_prefix ws s"
  have "strip_start ws s \<noteq> s" using n strip_start_no_prefix [of ws s] by auto
  moreover obtain zs where "s = zs @ strip_start ws s" using strip_start_suffix [of ws s] by (auto simp: suffix_def)
  ultimately have "length s = length zs + length (strip_start ws s)" "zs \<noteq> []"
    by (metis length_append, metis append_Nil)
  then show ?thesis by simp
qed

function collapse_ws :: "string \<Rightarrow> string" where
  "collapse_ws [] = []"
| "collapse_ws (c # s) =
     (if no_prefix js_ws (c # s) then c # collapse_ws s
      else CHR '' '' # collapse_ws (trim_start (c # s)))"
  by pat_completeness auto
termination
proof (relation "measure length")
  fix c s assume "\<not> no_prefix js_ws (c # s)"
  then show "(trim_start (c # s), c # s) \<in> measure length"
    using strip_start_shorter [of js_ws "c # s"] by (simp add: trim_start_def)
qed auto

declare collapse_ws.simps(2) [simp del]

lemma ws_blank: "\<not> no_prefix js_ws (CHR '' '' # s)"
  by (simp add: no_prefix_def js_ws_def)

lemma ws_other: "w \<in> set js_ws \<Longrightarrow> w \<noteq> [CHR '' ''] \<Longrightarrow> CHR '' '' \<notin> set w \<and> w \<noteq> []"
  by (auto simp: js_ws_def)

lemma no_prefix_Nil [simp]: "no_prefix js_ws []"
  by (simp add: no_prefix_def list_all_iff)

lemma collapse_prefix: "prefix w (collapse_ws s) \<Longrightarrow> CHR '' '' \<notin> set w \<Longrightarrow> prefix w s"
proof (induction s arbitrary: w rule: collapse_ws.induct)
  case (2 c s)
  then show ?case
    by (cases w) (auto simp: collapse_ws.simps(2) split: if_splits)
qed simp

lemma collapse_no_prefix: "no_prefix js_ws s \<Longrightarrow> no_prefix js_ws (collapse_ws s)"
proof -
  assume n: "no_prefix js_ws s"
  show ?thesis
    unfolding no_prefix_def list_all_iff
  proof (intro ballI notI)
    fix w assume w: "w \<in> set js_ws" and p: "w \<noteq> [] \<and> prefix w (collapse_ws s)"
    show False
    proof (cases "w = [CHR '' '']")
      case True
      then obtain c r where s: "s = c # r" using p by (cases s) auto
      with n p True have "c = CHR '' ''" by (simp add: collapse_ws.simps(2))
      with n s ws_blank show False by blast
    next
      case False
      then have "prefix w s" using p ws_other [OF w] collapse_prefix by blast
      with n w p show False by (auto simp: no_prefix_def list_all_iff)
    qed
  qed
qed

lemma collapse_idem [simp]: "collapse_ws (collapse_ws s) = collapse_ws s"
proof (induction s rule: collapse_ws.induct)
  case (2 c s)
  show ?case
  proof (cases "no_prefix js_ws (c # s)")
    case True
    then have e: "collapse_ws (c # s) = c # collapse_ws s" by (simp add: collapse_ws.simps(2))
    with collapse_no_prefix [OF True] "2.IH"(1) [OF True] show ?thesis by (simp add: collapse_ws.simps(2))
  next
    case False
    let ?t = "collapse_ws (trim_start (c # s))"
    have n: "no_prefix js_ws ?t" by (rule collapse_no_prefix) (simp add: trim_start_def strip_start_no_prefix)
    have "find (\<lambda>w. w \<noteq> [] \<and> prefix w (CHR '' '' # ?t)) js_ws = Some '' ''" by (simp add: js_ws_def)
    then have "trim_start (CHR '' '' # ?t) = ?t"
      using strip_start_id [OF n] by (simp add: trim_start_def strip_start.simps [of js_ws "CHR '' '' # _"])
    with False ws_blank "2.IH"(2) [OF False] show ?thesis by (simp add: collapse_ws.simps(2))
  qed
qed simp

lemma collapse_no_blank: "CHR '' '' \<notin> set (collapse_ws s) \<Longrightarrow> collapse_ws s = s"
  by (induction s rule: collapse_ws.induct) (auto simp: collapse_ws.simps(2) split: if_splits)

lemma collapse_suffix: "suffix w (collapse_ws s) \<Longrightarrow> CHR '' '' \<notin> set w \<Longrightarrow> suffix w s"
proof (induction s rule: collapse_ws.induct)
  case (2 c s)
  show ?case
  proof (cases "no_prefix js_ws (c # s)")
    case True
    with "2.prems" consider "w = c # collapse_ws s" | "suffix w (collapse_ws s)"
      by (auto simp: collapse_ws.simps(2) suffix_Cons)
    then show ?thesis
    proof cases
      case 1
      with "2.prems"(2) collapse_no_blank [of s] show ?thesis by simp
    next
      case 2
      with "2.IH"(1) [OF True] "2.prems"(2) show ?thesis by (simp add: suffix_ConsI)
    qed
  next
    case False
    with "2.prems" have "suffix w (collapse_ws (trim_start (c # s)))"
      by (auto simp: collapse_ws.simps(2) suffix_Cons)
    with "2.IH"(2) [OF False] "2.prems"(2) have "suffix w (trim_start (c # s))" by blast
    then show ?thesis using strip_start_suffix suffix_order.order_trans unfolding trim_start_def by blast
  qed
qed simp

lemma strip_all_suffix: "strip_start ws s = [] \<Longrightarrow> s \<noteq> [] \<Longrightarrow> \<exists>w\<in>set ws. w \<noteq> [] \<and> suffix w s"
proof (induction ws s rule: strip_start.induct)
  case (1 ws s)
  show ?case
  proof (cases "find (\<lambda>w. w \<noteq> [] \<and> prefix w s) ws")
    case None
    with "1.prems" show ?thesis by (simp add: strip_start.simps [of ws s])
  next
    case (Some w)
    then have w: "w \<in> set ws" "w \<noteq> []" "prefix w s" by (auto simp: find_Some_iff)
    show ?thesis
    proof (cases "drop (length w) s = []")
      case True
      with w have "w = s" by (auto simp: prefix_def)
      with w show ?thesis by auto
    next
      case False
      with "1.IH" [OF Some] "1.prems" Some have "\<exists>v\<in>set ws. v \<noteq> [] \<and> suffix v (drop (length w) s)"
        by (simp add: strip_start.simps [of ws s])
      then show ?thesis using suffix_drop suffix_order.order_trans by blast
    qed
  qed
qed

lemma collapse_ends_blank:
  "suffix [CHR '' ''] (collapse_ws s) \<Longrightarrow> \<exists>w\<in>set js_ws. w \<noteq> [] \<and> suffix w s"
proof (induction s rule: collapse_ws.induct)
  case (2 c s)
  show ?case
  proof (cases "no_prefix js_ws (c # s)")
    case True
    then have "c \<noteq> CHR '' ''" using ws_blank by blast
    with "2.prems" True have "suffix [CHR '' ''] (collapse_ws s)" by (auto simp: collapse_ws.simps(2) suffix_Cons)
    with "2.IH"(1) [OF True] show ?thesis by (meson suffix_ConsI)
  next
    case False
    show ?thesis
    proof (cases "trim_start (c # s) = []")
      case True
      then show ?thesis using strip_all_suffix [of js_ws "c # s"] by (simp add: trim_start_def)
    next
      case F: False
      then obtain x y where "trim_start (c # s) = x # y" by (cases "trim_start (c # s)") auto
      then have "collapse_ws (trim_start (c # s)) \<noteq> []" by (simp add: collapse_ws.simps(2))
      with "2.prems" False have "suffix [CHR '' ''] (collapse_ws (trim_start (c # s)))"
        by (auto simp: collapse_ws.simps(2) suffix_Cons)
      with "2.IH"(2) [OF False] show ?thesis
        using strip_start_suffix suffix_order.order_trans unfolding trim_start_def by blast
    qed
  qed
qed simp

text \<open>A trimmed text stays trimmed when it is collapsed.\<close>

lemma trim_collapse: "js_trim (collapse_ws (js_trim s)) = collapse_ws (js_trim s)"
proof (rule js_trim_id)
  let ?t = "js_trim s"
  show "no_prefix js_ws (collapse_ws ?t)" by (rule collapse_no_prefix [OF js_trim_starts])
  have no: "\<not> suffix w ?t" if "w \<in> set js_ws" "w \<noteq> []" for w
    using js_trim_ends [of s] that by (auto simp: no_prefix_def list_all_iff suffix_to_prefix)
  have "\<not> suffix w (collapse_ws ?t)" if w: "w \<in> set js_ws" "w \<noteq> []" for w
    using no collapse_ends_blank [of ?t] collapse_suffix [of w ?t] ws_other [OF w(1)] w by metis
  then show "no_prefix (map rev js_ws) (rev (collapse_ws ?t))"
    by (auto simp: no_prefix_def list_all_iff suffix_to_prefix)
qed

text \<open>Lengths.\<close>

lemma ws_units: "w \<in> set js_ws \<Longrightarrow> 1 \<le> utf16_length w"
  by (auto simp: js_ws_def utf16_length_def byte_units_def)

lemma utf16_append [simp]: "utf16_length (s @ t) = utf16_length s + utf16_length t"
  by (simp add: utf16_length_def)

lemma strip_units: "\<not> no_prefix js_ws s \<Longrightarrow> utf16_length (strip_start js_ws s) + 1 \<le> utf16_length s"
proof -
  assume "\<not> no_prefix js_ws s"
  then have "find (\<lambda>w. w \<noteq> [] \<and> prefix w s) js_ws \<noteq> None"
    by (auto simp: no_prefix_def list_all_iff find_None_iff)
  then obtain w where f: "find (\<lambda>w. w \<noteq> [] \<and> prefix w s) js_ws = Some w" by blast
  then have w: "w \<in> set js_ws" "s = w @ drop (length w) s" by (auto simp: find_Some_iff prefix_def)
  let ?r = "drop (length w) s"
  obtain p where "?r = p @ strip_start js_ws ?r" using strip_start_suffix [of js_ws ?r] by (auto simp: suffix_def)
  then have "utf16_length (strip_start js_ws ?r) \<le> utf16_length ?r" by (metis le_add2 utf16_append)
  moreover have "utf16_length s = utf16_length w + utf16_length ?r" using w(2) by (metis utf16_append)
  ultimately show ?thesis using ws_units [OF w(1)] f by (simp add: strip_start.simps [of js_ws s])
qed

lemma collapse_units: "utf16_length (collapse_ws s) \<le> utf16_length s"
proof (induction s rule: collapse_ws.induct)
  case (2 c s)
  have c: "utf16_length (x # y) = byte_units x + utf16_length y" for x y by (simp add: utf16_length_def)
  show ?case
  proof (cases "no_prefix js_ws (c # s)")
    case False
    have "byte_units (CHR '' '') = 1" by (simp add: byte_units_def)
    with False "2.IH"(2) strip_units [OF False] show ?thesis by (simp add: collapse_ws.simps(2) c trim_start_def)
  qed (use "2.IH"(1) in \<open>simp add: collapse_ws.simps(2) c\<close>)
qed simp

lemma trim_units: "utf16_length (js_trim s) \<le> utf16_length s"
proof -
  obtain a b where "s = a @ js_trim s @ b" using js_trim_sublist [of s] by (auto simp: sublist_def)
  then have "utf16_length s = utf16_length a + utf16_length (js_trim s) + utf16_length b"
    by (metis add.assoc utf16_append)
  then show ?thesis by linarith
qed

end
