(* ===== verification/Saved_Filters.thy ===== *)
theory Saved_Filters
  imports Smoke_Filters JS_Json JS_Text
begin

text \<open>
  Saved filters of the smoke failure metadata
  (\<open>features/settings/lib/smokeFailureMetadataSavedFilters.ts\<close>): names are trimmed, collapsed and
  cut to 40 code units, at most 20 filters are kept, and two names that differ in case only are
  the same name.  Values that come from storage or from a file are untyped JSON and are
  normalised field by field.
\<close>

definition SAVED_FILTER_LIMIT :: nat where "SAVED_FILTER_LIMIT = 20"
definition SAVED_FILTER_NAME_LIMIT :: nat where "SAVED_FILTER_NAME_LIMIT = 40"
definition SAVED_FILTER_BACKUP_SIZE_LIMIT :: nat where "SAVED_FILTER_BACKUP_SIZE_LIMIT = 256 * 1024"

datatype SavedFilterSort = SortRecent | SortNameAsc | SortNameDesc

fun saved_sort_text :: "SavedFilterSort \<Rightarrow> string" where
  "saved_sort_text SortRecent = ''recent''"
| "saved_sort_text SortNameAsc = ''name_asc''"
| "saved_sort_text SortNameDesc = ''name_desc''"

definition parseSmokeFailureMetadataSavedFilterSort :: "string option \<Rightarrow> SavedFilterSort" where
  "parseSmokeFailureMetadataSavedFilterSort v =
     (if v = Some ''name_asc'' then SortNameAsc else if v = Some ''name_desc'' then SortNameDesc else SortRecent)"

record SavedFilter =
  sv_filters :: SmokeFailureMetadataFilters
  sv_name :: string

record SavedFiltersBackup =
  bk_filters :: "SavedFilter list"
  bk_sort :: SavedFilterSort

record SavedFiltersMergeResult =
  mr_filters :: "SavedFilter list"
  mr_omitted :: "SavedFilter list"

section \<open>Normalisation\<close>

definition normalizeSmokeFailureMetadataSavedFilterName :: "string \<Rightarrow> string" where
  "normalizeSmokeFailureMetadataSavedFilterName v = js_take SAVED_FILTER_NAME_LIMIT (collapse_ws (js_trim v))"

definition normalizeSavedDate :: "js_host \<Rightarrow> json option \<Rightarrow> string" where
  "normalizeSavedDate H v =
     (case json_string v of
        None \<Rightarrow> []
      | Some s \<Rightarrow>
          if \<not> date_shape s then []
          else case date_parse H (s @ ''T00:00:00Z'') of
                 None \<Rightarrow> []
               | Some timestamp \<Rightarrow> (if js_take 10 (to_iso timestamp) = s then s else []))"

text \<open>\<open>filters[key]\<close> of a value that need not be an object.\<close>

definition record_field :: "string \<Rightarrow> json option \<Rightarrow> json option" where
  "record_field k v = (if json_is_record v then json_field k (the v) else None)"

definition normalizeFilters :: "js_host \<Rightarrow> json option \<Rightarrow> SmokeFailureMetadataFilters" where
  "normalizeFilters H v =
     (let period = read_enum smoke_period_text SMOKE_PERIODS SPeriodAll (json_string (record_field ''period'' v))
      in \<lparr>sm_endDate = (if period = SPeriodCustom then normalizeSavedDate H (record_field ''endDate'' v) else []),
          sm_startDate = (if period = SPeriodCustom then normalizeSavedDate H (record_field ''startDate'' v) else []),
          sm_period = period,
          sm_query = (case json_string (record_field ''query'' v) of None \<Rightarrow> [] | Some q \<Rightarrow> js_take 100 q),
          sm_sort = read_enum smoke_sort_text SMOKE_SORTS SmNewest (json_string (record_field ''sort'' v)),
          sm_type = read_enum smoke_type_text SMOKE_TYPES STypeAll (json_string (record_field ''type'' v))\<rparr>)"

definition saved_key :: "SavedFilter \<Rightarrow> string" where
  "saved_key item = str_lower (sv_name item)"

text \<open>The loop of \<open>normalizeSavedFilters\<close>: \<open>result\<close> is the list built so far.\<close>

fun normalize_loop :: "js_host \<Rightarrow> SavedFilter list \<Rightarrow> json list \<Rightarrow> SavedFilter list" where
  "normalize_loop H result [] = result"
| "normalize_loop H result (item # rest) =
     (let name = normalizeSmokeFailureMetadataSavedFilterName
                   (case json_string (json_field ''name'' item) of Some s \<Rightarrow> s | None \<Rightarrow> [])
      in if \<not> json_is_record (Some item) \<or> name = [] \<or> str_lower name \<in> saved_key ` set result
         then normalize_loop H result rest
         else let result' = result @ [\<lparr>sv_filters = normalizeFilters H (json_field ''filters'' item), sv_name = name\<rparr>]
              in if length result' = SAVED_FILTER_LIMIT then result' else normalize_loop H result' rest)"

definition normalizeSavedFilters :: "js_host \<Rightarrow> json option \<Rightarrow> SavedFilter list" where
  "normalizeSavedFilters H v = (case v of Some (JArr items) \<Rightarrow> normalize_loop H [] items | _ \<Rightarrow> [])"

text \<open>The typed values as the objects they are.\<close>

definition filters_json :: "SmokeFailureMetadataFilters \<Rightarrow> json" where
  "filters_json f = JObj
     [(''endDate'', JStr (sm_endDate f)), (''period'', JStr (smoke_period_text (sm_period f))), (''query'', JStr (sm_query f)),
      (''sort'', JStr (smoke_sort_text (sm_sort f))), (''startDate'', JStr (sm_startDate f)),
      (''type'', JStr (smoke_type_text (sm_type f)))]"

definition saved_json :: "SavedFilter \<Rightarrow> json" where
  "saved_json item = JObj [(''filters'', filters_json (sv_filters item)), (''name'', JStr (sv_name item))]"

definition saved_list_json :: "SavedFilter list \<Rightarrow> json" where
  "saved_list_json items = JArr (map saved_json items)"

section \<open>Operations\<close>

definition parseSmokeFailureMetadataSavedFilters :: "js_host \<Rightarrow> string option \<Rightarrow> SavedFilter list" where
  "parseSmokeFailureMetadataSavedFilters H rawValue =
     (if \<not> truthy rawValue then []
      else case json_parse (the rawValue) of None \<Rightarrow> [] | Some v \<Rightarrow> normalizeSavedFilters H (Some v))"

definition backup_json :: "js_host \<Rightarrow> SavedFilter list \<Rightarrow> SavedFilterSort \<Rightarrow> string \<Rightarrow> json" where
  "backup_json H current srt exportedAt = JObj
     [(''exported_at'', JStr exportedAt),
      (''filters'', saved_list_json (normalizeSavedFilters H (Some (saved_list_json current)))),
      (''schema_version'', JNum (Num 1)),
      (''sort'', JStr (saved_sort_text srt))]"

text \<open>Content and file name of a backup.  \<open>slug\<close> is the NFKC form of a name with other than letters,
  digits, dots, underscores and dashes replaced, which needs the Unicode tables.\<close>

definition buildSmokeFailureMetadataSavedFiltersBackup ::
    "js_host \<Rightarrow> SavedFilter list \<Rightarrow> SavedFilterSort \<Rightarrow> string \<Rightarrow> string \<times> string" where
  "buildSmokeFailureMetadataSavedFiltersBackup H current srt exportedAt =
     (json_stringify2 (backup_json H current srt exportedAt),
      ''traefik-manager-smoke-failure-filters-'' @ js_take 10 exportedAt @ ''.json'')"

definition buildSmokeFailureMetadataSavedFilterBackup ::
    "(string \<Rightarrow> string) \<Rightarrow> js_host \<Rightarrow> SavedFilter \<Rightarrow> SavedFilterSort \<Rightarrow> string \<Rightarrow> string \<times> string" where
  "buildSmokeFailureMetadataSavedFilterBackup slug H current srt exportedAt =
     (fst (buildSmokeFailureMetadataSavedFiltersBackup H [current] srt exportedAt),
      ''traefik-manager-smoke-failure-filter-''
        @ or_else (Some (slug (normalizeSmokeFailureMetadataSavedFilterName (sv_name current)))) ''filter''
        @ ''-'' @ js_take 10 exportedAt @ ''.json'')"

definition parseSmokeFailureMetadataSavedFiltersBackup :: "js_host \<Rightarrow> string \<Rightarrow> SavedFiltersBackup option" where
  "parseSmokeFailureMetadataSavedFiltersBackup H rawValue =
     (case json_parse rawValue of
        None \<Rightarrow> None
      | Some v \<Rightarrow>
          (case (json_is_record (Some v) \<and> json_field ''schema_version'' v = Some (JNum (Num 1)), json_field ''filters'' v) of
             (True, Some (JArr items)) \<Rightarrow>
               Some \<lparr>bk_filters = normalizeSavedFilters H (Some (JArr items)),
                     bk_sort = (case json_string (json_field ''sort'' v) of
                                  Some s \<Rightarrow> parseSmokeFailureMetadataSavedFilterSort (Some s)
                                | None \<Rightarrow> SortRecent)\<rparr>
           | _ \<Rightarrow> None))"

definition merge_candidates :: "js_host \<Rightarrow> SavedFilter list \<Rightarrow> SavedFilter list \<Rightarrow> SavedFilter list" where
  "merge_candidates H current restored =
     (let normalizedRestored = normalizeSavedFilters H (Some (saved_list_json restored))
      in normalizedRestored @
         filter (\<lambda>item. saved_key item \<notin> saved_key ` set normalizedRestored)
           (normalizeSavedFilters H (Some (saved_list_json current))))"

definition mergeSmokeFailureMetadataSavedFilters ::
    "js_host \<Rightarrow> SavedFilter list \<Rightarrow> SavedFilter list \<Rightarrow> SavedFiltersMergeResult" where
  "mergeSmokeFailureMetadataSavedFilters H current restored =
     \<lparr>mr_filters = take SAVED_FILTER_LIMIT (merge_candidates H current restored),
      mr_omitted = drop SAVED_FILTER_LIMIT (merge_candidates H current restored)\<rparr>"

definition upsertSmokeFailureMetadataSavedFilter ::
    "js_host \<Rightarrow> SavedFilter list \<Rightarrow> SavedFilter \<Rightarrow> SavedFilter list" where
  "upsertSmokeFailureMetadataSavedFilter H current nxt =
     (let name = normalizeSmokeFailureMetadataSavedFilterName (sv_name nxt)
      in if name = [] then current
         else take SAVED_FILTER_LIMIT
                (\<lparr>sv_filters = normalizeFilters H (Some (filters_json (sv_filters nxt))), sv_name = name\<rparr>
                 # filter (\<lambda>item. saved_key item \<noteq> str_lower name) current))"

definition removeSmokeFailureMetadataSavedFilter :: "SavedFilter list \<Rightarrow> string \<Rightarrow> SavedFilter list" where
  "removeSmokeFailureMetadataSavedFilter current name =
     filter (\<lambda>item. saved_key item \<noteq> str_lower (normalizeSmokeFailureMetadataSavedFilterName name)) current"

definition renameSmokeFailureMetadataSavedFilter :: "SavedFilter list \<Rightarrow> string \<Rightarrow> string \<Rightarrow> SavedFilter list" where
  "renameSmokeFailureMetadataSavedFilter current currentName nextName =
     (let currentKey = str_lower (normalizeSmokeFailureMetadataSavedFilterName currentName);
          normalizedNextName = normalizeSmokeFailureMetadataSavedFilterName nextName;
          nextKey = str_lower normalizedNextName
      in if currentKey = [] \<or> nextKey = [] then current
         else if currentKey \<noteq> nextKey \<and> nextKey \<in> saved_key ` set current then current
         else map (\<lambda>item. if saved_key item = currentKey then item\<lparr>sv_name := normalizedNextName\<rparr> else item) current)"

text \<open>\<open>localeCompare(_, "ko")\<close> is the collation of the host.\<close>

definition sortSmokeFailureMetadataSavedFilters :: "js_host \<Rightarrow> SavedFilter list \<Rightarrow> SavedFilterSort \<Rightarrow> SavedFilter list" where
  "sortSmokeFailureMetadataSavedFilters H current srt =
     (case srt of
        SortRecent \<Rightarrow> current
      | SortNameAsc \<Rightarrow> js_sort (\<lambda>l r. locale_compare H (sv_name l) (sv_name r)) current
      | SortNameDesc \<Rightarrow> js_sort (\<lambda>l r. - locale_compare H (sv_name l) (sv_name r)) current)"

section \<open>Names\<close>

text \<open>A name that normalisation keeps.\<close>

definition tidy :: "string \<Rightarrow> bool" where
  "tidy n = (normalizeSmokeFailureMetadataSavedFilterName n = n)"

lemma name_units: "utf16_length (normalizeSmokeFailureMetadataSavedFilterName v) \<le> SAVED_FILTER_NAME_LIMIT"
  by (simp add: normalizeSmokeFailureMetadataSavedFilterName_def utf16_length_js_take)

text \<open>A name that fits is tidy once it is normalised; the input field admits no longer one.\<close>

lemma typed_name_tidy:
  assumes "utf16_length v \<le> SAVED_FILTER_NAME_LIMIT"
  shows "tidy (normalizeSmokeFailureMetadataSavedFilterName v)"
proof -
  let ?w = "collapse_ws (js_trim v)"
  have "utf16_length ?w \<le> SAVED_FILTER_NAME_LIMIT"
    using collapse_units [of "js_trim v"] trim_units [of v] assms by linarith
  then have "js_take SAVED_FILTER_NAME_LIMIT ?w = ?w" by (rule js_take_all)
  then show ?thesis
    by (simp add: tidy_def normalizeSmokeFailureMetadataSavedFilterName_def trim_collapse)
qed

text \<open>A longer name can be cut after a blank, and is then not tidy.\<close>

definition cut_name :: string where
  "cut_name = replicate 39 (CHR ''a'') @ '' ''"

lemma cut_name_arises: "normalizeSmokeFailureMetadataSavedFilterName (cut_name @ ''b'') = cut_name"
  by code_simp

lemma cut_name_untidy: "normalizeSmokeFailureMetadataSavedFilterName cut_name = replicate 39 (CHR ''a'')"
  by code_simp

end
