(* ===== verification/Saved_Filters_Correct.thy ===== *)
theory Saved_Filters_Correct
  imports Saved_Filters
begin

text \<open>
  The saved filters are a finite map from case-folded names to filters.  The invariant
  \<open>good\<close> of the list, the operations as updates of the map, normalisation as the identity on
  lists it produced, and the backup read back.
\<close>

section \<open>The contract of a store of named values\<close>

text \<open>What a client of the saved filters relies on: \<open>view\<close> is the map that a state stands for.\<close>

locale named_store =
  fixes view :: "'s \<Rightarrow> 'k \<Rightarrow> 'v option"
    and ok :: "'s \<Rightarrow> bool"
    and put :: "'s \<Rightarrow> 'v \<Rightarrow> 's"
    and del :: "'s \<Rightarrow> 'k \<Rightarrow> 's"
    and key :: "'v \<Rightarrow> 'k"
    and fits :: "'s \<Rightarrow> 'v \<Rightarrow> bool"
  assumes ok_put: "ok s \<Longrightarrow> fits s v \<Longrightarrow> ok (put s v)"
    and ok_del: "ok s \<Longrightarrow> ok (del s k)"
    and view_put: "ok s \<Longrightarrow> fits s v \<Longrightarrow> view (put s v) = (view s)(key v \<mapsto> v)"
    and view_del: "ok s \<Longrightarrow> view (del s k) = (view s)(k := None)"
begin

lemma get_put: "ok s \<Longrightarrow> fits s v \<Longrightarrow> view (put s v) (key v) = Some v"
  by (simp add: view_put)

lemma get_put_other: "ok s \<Longrightarrow> fits s v \<Longrightarrow> k \<noteq> key v \<Longrightarrow> view (put s v) k = view s k"
  by (simp add: view_put)

lemma del_put: "ok s \<Longrightarrow> fits s v \<Longrightarrow> view s (key v) = None \<Longrightarrow> view (del (put s v) (key v)) = view s"
  by (simp add: view_put view_del ok_put fun_upd_idem)

lemma put_del_put: "ok s \<Longrightarrow> fits s v \<Longrightarrow> fits (del (put s v) (key v)) v \<Longrightarrow>
    view (put (del (put s v) (key v)) v) = view (put s v)"
  by (simp add: view_put view_del ok_put ok_del)

end

section \<open>The invariant and the map\<close>

definition good_item :: "SavedFilter \<Rightarrow> bool" where
  "good_item i = (sv_name i \<noteq> [] \<and> utf16_length (sv_name i) \<le> SAVED_FILTER_NAME_LIMIT)"

definition good :: "SavedFilter list \<Rightarrow> bool" where
  "good items = (length items \<le> SAVED_FILTER_LIMIT \<and> distinct (map saved_key items) \<and> list_all good_item items)"

definition saved_view :: "SavedFilter list \<Rightarrow> string \<Rightarrow> SavedFilter option" where
  "saved_view items k = find (\<lambda>i. saved_key i = k) items"

lemma find_filter_other: "find (\<lambda>i. saved_key i = k) (filter (\<lambda>i. saved_key i \<noteq> j) xs)
    = (if k = j then None else find (\<lambda>i. saved_key i = k) xs)"
  by (induction xs) auto

lemma view_append_mem:
  "i \<in> set xs \<Longrightarrow> distinct (map saved_key xs) \<Longrightarrow> saved_view (xs @ ys) (saved_key i) = Some i"
  by (induction xs) (auto simp: saved_view_def)

lemma good_filter: "good items \<Longrightarrow> good (filter P items)"
  by (auto simp: good_def list_all_iff distinct_map inj_on_def intro: order_trans [OF length_filter_le])

lemma good_take: "good_item i \<Longrightarrow> good items \<Longrightarrow> saved_key i \<notin> saved_key ` set items \<Longrightarrow>
    good (take SAVED_FILTER_LIMIT (i # items))"
  by (auto simp: good_def list_all_iff SAVED_FILTER_LIMIT_def dest: in_set_takeD)
    (metis distinct_take take_map)

lemma normalized_good: "normalizeSmokeFailureMetadataSavedFilterName n \<noteq> [] \<Longrightarrow>
    good_item \<lparr>sv_filters = f, sv_name = normalizeSmokeFailureMetadataSavedFilterName n\<rparr>"
  by (simp add: good_item_def name_units)

lemma saved_key_simps [simp]:
  "saved_key \<lparr>sv_filters = f, sv_name = n\<rparr> = str_lower n"
  "saved_key (i\<lparr>sv_name := n\<rparr>) = str_lower n"
  by (simp_all add: saved_key_def)

lemma good_upsert: "good items \<Longrightarrow> good (upsertSmokeFailureMetadataSavedFilter H items nxt)"
  by (auto simp: upsertSmokeFailureMetadataSavedFilter_def Let_def intro!: good_take good_filter normalized_good)

lemma good_remove: "good items \<Longrightarrow> good (removeSmokeFailureMetadataSavedFilter items n)"
  by (simp add: removeSmokeFailureMetadataSavedFilter_def good_filter)

lemma distinct_map_replace:
  "distinct (map k xs) \<Longrightarrow> a = b \<or> b \<notin> k ` set xs \<Longrightarrow> distinct (map (\<lambda>x. if k x = a then b else k x) xs)"
proof (induction xs)
  case (Cons x xs)
  then have "distinct (map (\<lambda>x. if k x = a then b else k x) xs)" by auto
  with Cons.prems show ?case by (auto simp: image_iff)
qed simp

definition rename_item :: "string \<Rightarrow> string \<Rightarrow> SavedFilter \<Rightarrow> SavedFilter" where
  "rename_item ka n i = (if saved_key i = ka then i\<lparr>sv_name := n\<rparr> else i)"

lemma rename_item_key: "saved_key (rename_item ka n i) = (if saved_key i = ka then str_lower n else saved_key i)"
  by (simp add: rename_item_def)

lemma rename_cases:
  fixes a b items
  defines "ka \<equiv> str_lower (normalizeSmokeFailureMetadataSavedFilterName a)"
    and "nb \<equiv> normalizeSmokeFailureMetadataSavedFilterName b"
  shows "renameSmokeFailureMetadataSavedFilter items a b =
    (if ka = [] \<or> nb = [] \<or> ka \<noteq> str_lower nb \<and> str_lower nb \<in> saved_key ` set items then items
     else map (rename_item ka nb) items)"
  by (auto simp: renameSmokeFailureMetadataSavedFilter_def Let_def ka_def nb_def rename_item_def)

lemma good_rename: "good items \<Longrightarrow> good (renameSmokeFailureMetadataSavedFilter items a b)"
proof -
  assume g: "good items"
  let ?ka = "str_lower (normalizeSmokeFailureMetadataSavedFilterName a)"
  let ?nb = "normalizeSmokeFailureMetadataSavedFilterName b"
  have "good (map (rename_item ?ka ?nb) items)"
    if "?nb \<noteq> []" "?ka = str_lower ?nb \<or> str_lower ?nb \<notin> saved_key ` set items"
  proof -
    have "saved_key \<circ> rename_item ?ka ?nb = (\<lambda>i. if saved_key i = ?ka then str_lower ?nb else saved_key i)"
      by (rule ext) (simp add: rename_item_key)
    moreover have "list_all good_item (map (rename_item ?ka ?nb) items)"
      using g that(1) name_units [of b] by (auto simp: good_def list_all_iff good_item_def rename_item_def)
    ultimately show ?thesis
      using g that(2) distinct_map_replace [of saved_key items ?ka "str_lower ?nb"] by (simp add: good_def)
  qed
  with g show ?thesis by (auto simp: rename_cases)
qed

text \<open>Normalisation produces good lists, and keeps lists of normalised items.\<close>

lemma normalize_loop_good:
  "good result \<Longrightarrow> length result < SAVED_FILTER_LIMIT \<Longrightarrow> good (normalize_loop H result items)"
proof (induction H result items rule: normalize_loop.induct)
  case (2 H result item rest)
  define name where "name = normalizeSmokeFailureMetadataSavedFilterName
    (case json_string (json_field ''name'' item) of Some s \<Rightarrow> s | None \<Rightarrow> [])"
  let ?new = "\<lparr>sv_filters = normalizeFilters H (json_field ''filters'' item), sv_name = name\<rparr>"
  show ?case
  proof (cases "\<not> json_is_record (Some item) \<or> name = [] \<or> str_lower name \<in> saved_key ` set result")
    case True
    with 2 show ?thesis by (simp add: name_def Let_def)
  next
    case False
    have "good_item ?new" unfolding name_def by (rule normalized_good) (use False in \<open>simp add: name_def\<close>)
    then have g: "good (result @ [?new])" using False "2.prems" by (auto simp: good_def)
    have le: "length (result @ [?new]) \<noteq> SAVED_FILTER_LIMIT \<Longrightarrow> length (result @ [?new]) < SAVED_FILTER_LIMIT"
      using "2.prems"(2) by simp
    show ?thesis
    proof (cases "length (result @ [?new]) = SAVED_FILTER_LIMIT")
      case True
      with False g show ?thesis by (simp add: name_def [symmetric] Let_def)
    next
      case ne: False
      have "good (normalize_loop H (result @ [?new]) rest)"
        using "2.IH"(2) [OF name_def _ refl] False g le [OF ne] ne by blast
      with False ne show ?thesis by (simp add: name_def [symmetric] Let_def)
    qed
  qed
qed simp

lemma normalize_good: "good (normalizeSavedFilters H v)"
proof -
  have "good []" by (simp add: good_def)
  then show ?thesis
    by (auto simp: normalizeSavedFilters_def SAVED_FILTER_LIMIT_def intro!: normalize_loop_good split: option.splits json.splits)
qed


abbreviation canonical :: "js_host \<Rightarrow> SmokeFailureMetadataFilters \<Rightarrow> SmokeFailureMetadataFilters" where
  "canonical H f \<equiv> normalizeFilters H (Some (filters_json f))"

lemma normalizeSavedDate_iff:
  "normalizeSavedDate H v = (case json_string v of Some s \<Rightarrow> if calendar_date s then s else [] | None \<Rightarrow> [])"
proof (cases "json_string v")
  case (Some s)
  then show ?thesis
    using utc_date_check_iff [of H s] by (auto simp: normalizeSavedDate_def utc_date_check_def split: option.splits)
qed (simp add: normalizeSavedDate_def)

lemma canonical_fields:
  "canonical H f =
     \<lparr>sm_endDate = (if sm_period f = SPeriodCustom \<and> calendar_date (sm_endDate f) then sm_endDate f else []),
      sm_startDate = (if sm_period f = SPeriodCustom \<and> calendar_date (sm_startDate f) then sm_startDate f else []),
      sm_period = sm_period f, sm_query = js_take 100 (sm_query f), sm_sort = sm_sort f, sm_type = sm_type f\<rparr>"
  by (simp add: normalizeFilters_def record_field_def filters_json_def normalizeSavedDate_iff Let_def)

lemma normalizeFilters_canonical: "canonical H (normalizeFilters H v) = normalizeFilters H v"
  unfolding canonical_fields
  by (auto simp: normalizeFilters_def normalizeSavedDate_iff Let_def split: option.splits)

definition clean :: "js_host \<Rightarrow> SavedFilter \<Rightarrow> bool" where
  "clean H i = (tidy (sv_name i) \<and> canonical H (sv_filters i) = sv_filters i)"

lemma normalize_loop_clean:
  assumes "good (result @ items)" "list_all (clean H) items" "items = [] \<or> length result < SAVED_FILTER_LIMIT"
  shows "normalize_loop H result (map saved_json items) = result @ items"
  using assms
proof (induction items arbitrary: result)
  case (Cons i items)
  let ?new = "\<lparr>sv_filters = canonical H (sv_filters i), sv_name = sv_name i\<rparr>"
  have new: "?new = i" using Cons.prems(2) by (simp add: clean_def)
  have n: "normalizeSmokeFailureMetadataSavedFilterName (sv_name i) = sv_name i"
    using Cons.prems(2) by (simp add: clean_def tidy_def)
  have f: "json_string (json_field ''name'' (saved_json i)) = Some (sv_name i)"
      "json_field ''filters'' (saved_json i) = Some (filters_json (sv_filters i))" "json_is_record (Some (saved_json i))"
    by (simp_all add: saved_json_def)
  have k: "sv_name i \<noteq> []" "str_lower (sv_name i) \<notin> saved_key ` set result"
    using Cons.prems(1) by (auto simp: good_def good_item_def saved_key_def)
  have len: "length result + length items < SAVED_FILTER_LIMIT" using Cons.prems(1) by (simp add: good_def)
  show ?case
  proof (cases "length (result @ [i]) = SAVED_FILTER_LIMIT")
    case True
    then have "length result + 1 = SAVED_FILTER_LIMIT" by simp
    with len have "length items = 0" by linarith
    then have "items = []" by simp
    with True k show ?thesis by (simp add: f n new Let_def)
  next
    case False
    then have "normalize_loop H (result @ [i]) (map saved_json items) = (result @ [i]) @ items"
      using Cons.prems len by (intro Cons.IH) auto
    with False k show ?thesis by (simp add: f n new Let_def)
  qed
qed simp

lemma normalize_clean: "good items \<Longrightarrow> list_all (clean H) items \<Longrightarrow>
    normalizeSavedFilters H (Some (saved_list_json items)) = items"
  using normalize_loop_clean [of "[]" items H]
  by (simp add: normalizeSavedFilters_def saved_list_json_def SAVED_FILTER_LIMIT_def)


section \<open>Operations on the map\<close>

text \<open>The item that saving a filter stores.\<close>

definition stored_item :: "js_host \<Rightarrow> SavedFilter \<Rightarrow> SavedFilter" where
  "stored_item H i = \<lparr>sv_filters = canonical H (sv_filters i),
     sv_name = normalizeSmokeFailureMetadataSavedFilterName (sv_name i)\<rparr>"

definition has_room :: "SavedFilter list \<Rightarrow> SavedFilter \<Rightarrow> bool" where
  "has_room items i = (length items < SAVED_FILTER_LIMIT \<or> saved_key i \<in> saved_key ` set items)"

lemma filter_key_shorter:
  "k \<in> saved_key ` set items \<Longrightarrow> length (filter (\<lambda>i. saved_key i \<noteq> k) items) < length items"
  by (induction items) (auto simp: le_imp_less_Suc)

lemma upsert_room:
  assumes "good items" "sv_name (stored_item H i) \<noteq> []" "has_room items (stored_item H i)"
  shows "upsertSmokeFailureMetadataSavedFilter H items i
    = stored_item H i # filter (\<lambda>j. saved_key j \<noteq> saved_key (stored_item H i)) items"
proof -
  let ?rest = "filter (\<lambda>j. saved_key j \<noteq> saved_key (stored_item H i)) items"
  have "length ?rest < SAVED_FILTER_LIMIT"
    using assms filter_key_shorter [of "saved_key (stored_item H i)" items]
    by (auto simp: has_room_def good_def intro: le_less_trans [OF length_filter_le])
  then have "take SAVED_FILTER_LIMIT (stored_item H i # ?rest) = stored_item H i # ?rest" by simp
  then show ?thesis
    using assms(2) by (simp add: upsertSmokeFailureMetadataSavedFilter_def stored_item_def Let_def)
qed

lemma view_upsert:
  assumes "good items" "sv_name (stored_item H i) \<noteq> []" "has_room items (stored_item H i)"
  shows "saved_view (upsertSmokeFailureMetadataSavedFilter H items i)
    = (saved_view items)(saved_key (stored_item H i) \<mapsto> stored_item H i)"
  by (rule ext) (simp add: upsert_room [OF assms] saved_view_def find_filter_other)

lemma view_remove:
  "saved_view (removeSmokeFailureMetadataSavedFilter items n)
    = (saved_view items)(str_lower (normalizeSmokeFailureMetadataSavedFilterName n) := None)"
  by (rule ext) (simp add: removeSmokeFailureMetadataSavedFilter_def saved_view_def find_filter_other)

lemma find_rename:
  assumes "distinct (map saved_key items)" "ka = str_lower n \<or> str_lower n \<notin> saved_key ` set items"
  shows "find (\<lambda>i. saved_key i = k) (map (rename_item ka n) items) =
    (if k = str_lower n then map_option (\<lambda>i. i\<lparr>sv_name := n\<rparr>) (find (\<lambda>i. saved_key i = ka) items)
     else if k = ka then None else find (\<lambda>i. saved_key i = k) items)"
  using assms
proof (induction items)
  case (Cons i items)
  then show ?case by (auto simp: rename_item_key) (auto simp: rename_item_def)
qed simp

lemma view_rename:
  fixes a b items
  defines "ka \<equiv> str_lower (normalizeSmokeFailureMetadataSavedFilterName a)"
    and "nb \<equiv> normalizeSmokeFailureMetadataSavedFilterName b"
  assumes "good items" "ka \<noteq> []" "nb \<noteq> []" "ka = str_lower nb \<or> str_lower nb \<notin> saved_key ` set items"
  shows "saved_view (renameSmokeFailureMetadataSavedFilter items a b)
    = ((saved_view items)(ka := None))(str_lower nb := map_option (\<lambda>i. i\<lparr>sv_name := nb\<rparr>) (saved_view items ka))"
proof (rule ext)
  fix k
  have "renameSmokeFailureMetadataSavedFilter items a b = map (rename_item ka nb) items"
    using assms(4-6) unfolding ka_def nb_def rename_cases by auto
  then show "saved_view (renameSmokeFailureMetadataSavedFilter items a b) k =
    (((saved_view items)(ka := None))(str_lower nb := map_option (\<lambda>i. i\<lparr>sv_name := nb\<rparr>) (saved_view items ka))) k"
    using find_rename [of items ka nb k] assms(3,6) by (simp add: saved_view_def good_def)
qed

text \<open>The saved filters keep the contract of a named store, for items that are already normal.\<close>

lemma stored_item_clean: "clean H i \<Longrightarrow> stored_item H i = i"
  by (simp add: stored_item_def clean_def tidy_def)

interpretation saved: named_store saved_view good "upsertSmokeFailureMetadataSavedFilter H"
    "\<lambda>items k. filter (\<lambda>i. saved_key i \<noteq> k) items" saved_key "\<lambda>items i. clean H i \<and> sv_name i \<noteq> [] \<and> has_room items i" for H
proof
  fix s v assume "good s" "clean H v \<and> sv_name v \<noteq> [] \<and> has_room s v"
  then show "saved_view (upsertSmokeFailureMetadataSavedFilter H s v) = (saved_view s)(saved_key v \<mapsto> v)"
    using view_upsert [of s H v] by (simp add: stored_item_clean)
next
  fix s k show "saved_view (filter (\<lambda>i. saved_key i \<noteq> k) s) = (saved_view s)(k := None)"
    by (rule ext) (simp add: saved_view_def find_filter_other)
qed (simp_all add: good_upsert good_filter)


lemma merge_good: "good (mr_filters (mergeSmokeFailureMetadataSavedFilters H c r))"
proof -
  let ?r = "normalizeSavedFilters H (Some (saved_list_json r))" and ?c = "normalizeSavedFilters H (Some (saved_list_json c))"
  let ?k = "filter (\<lambda>i. saved_key i \<notin> saved_key ` set ?r) ?c"
  have g: "good ?r" "good ?k" by (simp_all add: normalize_good good_filter)
  have "saved_key ` set ?r \<inter> saved_key ` set ?k = {}" by (auto intro: rev_image_eqI)
  then have d: "distinct (map saved_key (?r @ ?k))" using g by (simp add: good_def)
  have t: "mr_filters (mergeSmokeFailureMetadataSavedFilters H c r) = take SAVED_FILTER_LIMIT (?r @ ?k)"
    by (simp add: mergeSmokeFailureMetadataSavedFilters_def merge_candidates_def Let_def)
  have "list_all good_item (?r @ ?k)" using g by (simp add: good_def)
  then have "list_all good_item (take SAVED_FILTER_LIMIT (?r @ ?k))" unfolding list_all_iff by (blast dest: in_set_takeD)
  moreover have "distinct (map saved_key (take SAVED_FILTER_LIMIT (?r @ ?k)))"
    unfolding take_map [symmetric] by (rule distinct_take [OF d])
  ultimately show ?thesis unfolding t good_def by (metis length_take min.cobounded2)
qed

section \<open>Properties\<close>

text \<open>C3. The saved filters implement a finite map from case-folded names: saving a filter with a
  name (when there is room, or the name exists) is an update of the map, deleting removes the
  key, renaming moves the value to the new key; and each keeps the limits (at most 20
  filters, names unique up to case, non-empty and at most 40 code units).\<close>

theorem saved_filters_refine_map:
  fixes a b
  defines "ka \<equiv> str_lower (normalizeSmokeFailureMetadataSavedFilterName a)"
    and "nb \<equiv> normalizeSmokeFailureMetadataSavedFilterName b"
  assumes "good items"
  shows "(sv_name (stored_item H i) \<noteq> [] \<and> has_room items (stored_item H i) \<longrightarrow>
      saved_view (upsertSmokeFailureMetadataSavedFilter H items i)
        = (saved_view items)(saved_key (stored_item H i) \<mapsto> stored_item H i)) \<and>
    saved_view (removeSmokeFailureMetadataSavedFilter items a) = (saved_view items)(ka := None) \<and>
    (ka \<noteq> [] \<and> nb \<noteq> [] \<and> (ka = str_lower nb \<or> saved_view items (str_lower nb) = None) \<longrightarrow>
      saved_view (renameSmokeFailureMetadataSavedFilter items a b)
        = ((saved_view items)(ka := None))(str_lower nb := map_option (\<lambda>i. i\<lparr>sv_name := nb\<rparr>) (saved_view items ka))) \<and>
    good (upsertSmokeFailureMetadataSavedFilter H items i) \<and>
    good (removeSmokeFailureMetadataSavedFilter items a) \<and>
    good (renameSmokeFailureMetadataSavedFilter items a b)"
proof -
  have "str_lower nb \<notin> saved_key ` set items" if "saved_view items (str_lower nb) = None"
    using that by (auto simp: saved_view_def find_None_iff)
  then show ?thesis
    using view_upsert [OF assms(3), of H i] view_remove [of items a] view_rename [OF assms(3), of a b]
      good_upsert [OF assms(3), of H i] good_remove [OF assms(3), of a] good_rename [OF assms(3), of a b]
    unfolding ka_def nb_def by blast
qed

text \<open>Merging a backup loses nothing silently: the merged list and the list of omitted filters
  together are the restored filters, in their order and with their values, followed by the
  current filters whose names are not among them; only the part beyond the limit is omitted.\<close>

theorem merge_keeps_everything:
  assumes "good current" "list_all (clean H) current" "good restored" "list_all (clean H) restored"
  defines "m \<equiv> mergeSmokeFailureMetadataSavedFilters H current restored"
  shows "mr_filters m @ mr_omitted m = restored @ filter (\<lambda>i. saved_view restored (saved_key i) = None) current \<and>
    good (mr_filters m) \<and>
    (mr_omitted m = [] \<longleftrightarrow> length restored + length (filter (\<lambda>i. saved_view restored (saved_key i) = None) current) \<le> SAVED_FILTER_LIMIT) \<and>
    (\<forall>i\<in>set restored. saved_view (mr_filters m) (saved_key i) = Some i)"
proof -
  let ?kept = "filter (\<lambda>i. saved_view restored (saved_key i) = None) current"
  have kept: "filter (\<lambda>i. saved_key i \<notin> saved_key ` set restored) current = ?kept"
    by (intro filter_cong refl) (auto simp: saved_view_def find_None_iff intro: rev_image_eqI)
  have c: "merge_candidates H current restored = restored @ ?kept"
    using assms(1-4) by (simp add: merge_candidates_def Let_def normalize_clean kept)
  have r: "length restored \<le> SAVED_FILTER_LIMIT" using assms(3) by (simp add: good_def)
  have f: "mr_filters m = restored @ take (SAVED_FILTER_LIMIT - length restored) ?kept"
    using r by (simp add: m_def mergeSmokeFailureMetadataSavedFilters_def c)
  have t: "mr_filters m = take SAVED_FILTER_LIMIT (restored @ ?kept)"
    by (simp add: m_def mergeSmokeFailureMetadataSavedFilters_def c)
  have g: "good (mr_filters m)" by (simp add: m_def merge_good)
  have "saved_view (mr_filters m) (saved_key i) = Some i" if "i \<in> set restored" for i
    using that assms(3) unfolding f good_def by (simp add: view_append_mem)
  moreover have o: "mr_omitted m = drop SAVED_FILTER_LIMIT (restored @ ?kept)"
    by (simp add: m_def mergeSmokeFailureMetadataSavedFilters_def c)
  moreover have "mr_filters m @ mr_omitted m = restored @ ?kept" unfolding t o by (rule append_take_drop_id)
  ultimately show ?thesis using g r by (auto simp: le_diff_conv2)
qed


text \<open>The backup as JSON.\<close>

lemma not_index_key: "\<not> is_digit c \<Longrightarrow> \<not> index_key (c # s)"
  by (simp add: index_key_def)

lemma letters_not_digit: "\<not> is_digit (CHR ''e'')" "\<not> is_digit (CHR ''p'')" "\<not> is_digit (CHR ''q'')" "\<not> is_digit (CHR ''s'')"
  "\<not> is_digit (CHR ''t'')" "\<not> is_digit (CHR ''f'')" "\<not> is_digit (CHR ''n'')"
  by (simp_all add: is_digit_def)

lemma filters_json_wf: "json_wf (filters_json f)"
  by (simp add: filters_json_def obj_entries_plain not_index_key letters_not_digit)

lemma saved_json_wf: "json_wf (saved_json i)"
  by (simp add: saved_json_def obj_entries_plain not_index_key letters_not_digit filters_json_wf)

lemma saved_list_json_wf: "json_wf (saved_list_json items)"
  by (simp add: saved_list_json_def list_all_iff saved_json_wf)

lemma backup_json_wf: "json_wf (backup_json H items srt t)"
proof -
  have "(1 :: rat) = of_nat 1" by simp
  then have "json_wf (JNum (Num 1))" by (metis json_wf.simps(1) one_le_numeral one_le_power)
  then show ?thesis
    by (simp add: backup_json_def obj_entries_plain not_index_key letters_not_digit saved_list_json_wf del: json_wf.simps(1))
qed

lemma sort_roundtrip: "parseSmokeFailureMetadataSavedFilterSort (Some (saved_sort_text s)) = s"
  by (cases s) (simp_all add: parseSmokeFailureMetadataSavedFilterSort_def)

text \<open>A backup file of the saved filters reads back as the filters and the order it was made of,
  whatever the filters and their names contain.\<close>

theorem backup_roundtrip:
  assumes "good items" "list_all (clean H) items"
  shows "parseSmokeFailureMetadataSavedFiltersBackup H (fst (buildSmokeFailureMetadataSavedFiltersBackup H items srt t))
    = Some \<lparr>bk_filters = items, bk_sort = srt\<rparr>"
proof -
  have "list_all json_space ''  ''" by (simp add: json_space_def)
  from json_roundtrip [OF backup_json_wf this]
  have "json_parse (json_stringify2 (backup_json H items srt t)) = Some (backup_json H items srt t)"
    by (simp add: json_stringify2_def)
  then show ?thesis
    using normalize_clean [OF assms]
    by (simp add: parseSmokeFailureMetadataSavedFiltersBackup_def buildSmokeFailureMetadataSavedFiltersBackup_def
        backup_json_def saved_list_json_def sort_roundtrip)
qed


section \<open>Concrete evaluations\<close>

definition sample_filters :: SmokeFailureMetadataFilters where
  "sample_filters = \<lparr>sm_endDate = [], sm_startDate = [], sm_period = SPeriod7, sm_query = ''login'', sm_sort = SmOldest,
     sm_type = SType FailLogin\<rparr>"

definition sample_saved :: "string \<Rightarrow> SavedFilter" where
  "sample_saved n = \<lparr>sv_filters = sample_filters, sv_name = n\<rparr>"

lemma sample_canonical: "canonical H sample_filters = sample_filters"
  by (simp add: canonical_fields sample_filters_def js_take_all utf16_length_def byte_units_def)

lemma sample_clean: "visible_ascii n \<Longrightarrow> utf16_length n \<le> 40 \<Longrightarrow> collapse_ws n = n \<Longrightarrow> clean H (sample_saved n)"
  by (simp add: clean_def tidy_def sample_saved_def sample_canonical normalizeSmokeFailureMetadataSavedFilterName_def
      js_trim_visible js_take_all SAVED_FILTER_NAME_LIMIT_def)

lemma sample_names:
  "clean H (sample_saved ''A'')" "clean H (sample_saved ''b'')" "good [sample_saved ''A'']" "good [sample_saved ''b'']"
proof -
  have c: "collapse_ws ''A'' = ''A''" "collapse_ws ''b'' = ''b''" by (code_simp, code_simp)
  show "clean H (sample_saved ''A'')" "clean H (sample_saved ''b'')"
    by (rule sample_clean; simp add: visible_ascii_def utf16_length_def byte_units_def c)+
  show "good [sample_saved ''A'']" "good [sample_saved ''b'']"
    by (simp_all add: good_def good_item_def sample_saved_def utf16_length_def byte_units_def SAVED_FILTER_LIMIT_def
        SAVED_FILTER_NAME_LIMIT_def)
qed

theorem saved_filters_refine_map_witness:
  "saved_view (upsertSmokeFailureMetadataSavedFilter utc_host [sample_saved ''A''] (sample_saved ''b'')) ''b''
    = Some (sample_saved ''b'')"
proof -
  have s: "stored_item utc_host (sample_saved ''b'') = sample_saved ''b''" by (rule stored_item_clean [OF sample_names(2)])
  have "saved_key (sample_saved ''b'') = ''b''" by (simp add: saved_key_def sample_saved_def str_lower_def char_lower_def)
  moreover have "sv_name (sample_saved ''b'') \<noteq> []" by (simp add: sample_saved_def)
  moreover have "has_room [sample_saved ''A''] (sample_saved ''b'')" by (simp add: has_room_def SAVED_FILTER_LIMIT_def)
  ultimately show ?thesis
    using saved_filters_refine_map [OF sample_names(3), of utc_host "sample_saved ''b''"] by (simp add: s)
qed

end
