(* ===== verification/Saved_Panel.thy ===== *)
theory Saved_Panel
  imports Saved_Filters_Correct Ui_Text
begin

text \<open>
  The panel of the saved filters (\<open>features/settings/components/SmokeFailureMetadataSavedFilters.tsx\<close>)
  as a state machine: its React state, the local storage it writes, and one operation per
  handler.  A write to the storage can be refused (\<open>False\<close>), and so can a download.
\<close>

definition SAVED_FILTERS_KEY :: string where "SAVED_FILTERS_KEY = ''traefik-manager:smoke-failure-metadata-saved-filters''"
definition SAVED_SORT_KEY :: string where "SAVED_SORT_KEY = ''traefik-manager:smoke-failure-metadata-saved-filter-sort''"

record PendingRestore =
  pr_backup :: SavedFiltersBackup
  pr_filename :: string
  pr_key :: string

record panel =
  pn_name :: string
  pn_notice :: string
  pn_pending :: "PendingRestore option"
  pn_items :: "SavedFilter list"
  pn_sort :: SavedFilterSort
  pn_selected :: string
  pn_storage :: "string js_object"

definition quoted :: "string \<Rightarrow> string" where
  "quoted s = txt_lquote @ s @ txt_rquote"

definition normalizedName :: "panel \<Rightarrow> string" where
  "normalizedName s = normalizeSmokeFailureMetadataSavedFilterName (pn_name s)"

definition selectedFilter :: "panel \<Rightarrow> SavedFilter option" where
  "selectedFilter s = find (\<lambda>item. sv_name item = pn_selected s) (pn_items s)"

definition isNewFilterAtLimit :: "panel \<Rightarrow> bool" where
  "isNewFilterAtLimit s =
     (SAVED_FILTER_LIMIT \<le> length (pn_items s) \<and> normalizedName s \<noteq> [] \<and>
      str_lower (normalizedName s) \<notin> saved_key ` set (pn_items s))"

section \<open>Handlers\<close>

definition panel_init :: "string js_object \<Rightarrow> panel" where
  "panel_init st = \<lparr>pn_name = [], pn_notice = [], pn_pending = None, pn_items = [], pn_sort = SortRecent, pn_selected = [],
     pn_storage = st\<rparr>"

text \<open>The effect of the first render; \<open>readable\<close> tells whether the storage can be read.\<close>

definition panel_mount :: "js_host \<Rightarrow> bool \<Rightarrow> panel \<Rightarrow> panel" where
  "panel_mount H readable s =
     (if readable
      then s\<lparr>pn_items := parseSmokeFailureMetadataSavedFilters H (obj_get SAVED_FILTERS_KEY (pn_storage s)),
             pn_sort := parseSmokeFailureMetadataSavedFilterSort (obj_get SAVED_SORT_KEY (pn_storage s))\<rparr>
      else s\<lparr>pn_notice := txt_sf_load_failed\<rparr>)"

text \<open>\<open>persist\<close>: the list is written first, then the order; the state follows only if both were accepted.\<close>

definition persist :: "bool \<Rightarrow> bool \<Rightarrow> SavedFilter list \<Rightarrow> SavedFilterSort option \<Rightarrow> panel \<Rightarrow> bool \<times> panel" where
  "persist w1 w2 nxt nextSort s =
     (if \<not> w1 then (False, s\<lparr>pn_notice := txt_sf_write_failed\<rparr>)
      else let s1 = s\<lparr>pn_storage := obj_put SAVED_FILTERS_KEY (json_stringify (saved_list_json nxt)) (pn_storage s)\<rparr> in
           case nextSort of
             None \<Rightarrow> (True, s1\<lparr>pn_items := nxt\<rparr>)
           | Some srt \<Rightarrow>
               if \<not> w2 then (False, s1\<lparr>pn_notice := txt_sf_write_failed\<rparr>)
               else (True, s1\<lparr>pn_storage := obj_put SAVED_SORT_KEY (saved_sort_text srt) (pn_storage s1),
                              pn_items := nxt, pn_sort := srt\<rparr>))"

definition panel_changeSort :: "bool \<Rightarrow> SavedFilterSort \<Rightarrow> panel \<Rightarrow> panel" where
  "panel_changeSort w v s =
     (let s1 = s\<lparr>pn_sort := v\<rparr> in
      if w then s1\<lparr>pn_storage := obj_put SAVED_SORT_KEY (saved_sort_text v) (pn_storage s)\<rparr>
      else s1\<lparr>pn_notice := txt_sf_sort_failed\<rparr>)"

definition panel_save :: "js_host \<Rightarrow> bool \<Rightarrow> SmokeFailureMetadataFilters \<Rightarrow> panel \<Rightarrow> panel" where
  "panel_save H w filters s =
     (let name = normalizedName s in
      if name = [] then s\<lparr>pn_notice := txt_sf_name_missing\<rparr>
      else if isNewFilterAtLimit s then s\<lparr>pn_notice := txt_sf_limit\<rparr>
      else let nxt = upsertSmokeFailureMetadataSavedFilter H (pn_items s) \<lparr>sv_filters = filters, sv_name = name\<rparr>;
               (ok, s1) = persist w w nxt None s
           in if \<not> ok then s1
              else s1\<lparr>pn_name := name, pn_selected := name, pn_notice := quoted name @ txt_sf_saved\<rparr>)"

definition panel_apply :: "panel \<Rightarrow> SmokeFailureMetadataFilters option \<times> panel" where
  "panel_apply s =
     (case selectedFilter s of
        None \<Rightarrow> (None, s)
      | Some item \<Rightarrow> (Some (sv_filters item), s\<lparr>pn_notice := quoted (sv_name item) @ txt_sf_applied\<rparr>))"

definition panel_remove :: "bool \<Rightarrow> panel \<Rightarrow> panel" where
  "panel_remove w s =
     (if pn_selected s = [] then s
      else let (ok, s1) = persist w w (removeSmokeFailureMetadataSavedFilter (pn_items s) (pn_selected s)) None s
           in if \<not> ok then s1
              else s1\<lparr>pn_notice := quoted (pn_selected s) @ txt_sf_removed, pn_name := [], pn_selected := []\<rparr>)"

definition panel_clearAll :: "bool \<Rightarrow> bool \<Rightarrow> panel \<Rightarrow> panel" where
  "panel_clearAll confirmed w s =
     (if pn_items s = [] \<or> \<not> confirmed then s
      else let (ok, s1) = persist w w [] None s
           in if \<not> ok then s1
              else s1\<lparr>pn_name := [], pn_selected := [],
                      pn_notice := txt_sf_count @ show_nat (length (pn_items s)) @ txt_sf_cleared\<rparr>)"

text \<open>Downloads: the file (content and name) and the new state.\<close>

definition panel_downloadBackup :: "js_host \<Rightarrow> bool \<Rightarrow> string \<Rightarrow> panel \<Rightarrow> (string \<times> string) option \<times> panel" where
  "panel_downloadBackup H w exportedAt s =
     (if w then (Some (buildSmokeFailureMetadataSavedFiltersBackup H (pn_items s) (pn_sort s) exportedAt),
                 s\<lparr>pn_notice := txt_sf_count @ show_nat (length (pn_items s)) @ txt_sf_backed\<rparr>)
      else (None, s\<lparr>pn_notice := txt_sf_backup_failed\<rparr>))"

definition panel_downloadSelectedBackup ::
    "(string \<Rightarrow> string) \<Rightarrow> js_host \<Rightarrow> bool \<Rightarrow> string \<Rightarrow> panel \<Rightarrow> (string \<times> string) option \<times> panel" where
  "panel_downloadSelectedBackup slug H w exportedAt s =
     (case selectedFilter s of
        None \<Rightarrow> (None, s)
      | Some item \<Rightarrow>
          if w then (Some (buildSmokeFailureMetadataSavedFilterBackup slug H item (pn_sort s) exportedAt),
                     s\<lparr>pn_notice := quoted (sv_name item) @ txt_sf_one_backed\<rparr>)
          else (None, s\<lparr>pn_notice := txt_sf_one_backup_failed\<rparr>))"

text \<open>\<open>prepareRestoreBackup\<close> up to the \<open>await\<close>, and after the file was read (\<open>None\<close>: it could not be).\<close>

definition prepare_begin :: "nat \<Rightarrow> panel \<Rightarrow> panel" where
  "prepare_begin bytes s =
     (if SAVED_FILTER_BACKUP_SIZE_LIMIT < bytes then s\<lparr>pn_pending := None, pn_notice := txt_sf_too_big\<rparr>
      else s\<lparr>pn_pending := None\<rparr>)"

definition prepare_finish :: "js_host \<Rightarrow> string \<Rightarrow> string \<Rightarrow> string option \<Rightarrow> panel \<Rightarrow> panel" where
  "prepare_finish H filename key content s =
     (case content of
        None \<Rightarrow> s\<lparr>pn_notice := txt_sf_read_failed\<rparr>
      | Some text \<Rightarrow>
          (case parseSmokeFailureMetadataSavedFiltersBackup H text of
             None \<Rightarrow> s\<lparr>pn_notice := txt_sf_bad_file\<rparr>
           | Some backup \<Rightarrow>
               s\<lparr>pn_pending := Some \<lparr>pr_backup = backup, pr_filename = filename, pr_key = key\<rparr>,
                 pn_notice := txt_sf_choose\<rparr>))"

definition restoreBackup :: "js_host \<Rightarrow> bool \<Rightarrow> bool \<Rightarrow> bool \<Rightarrow> panel \<Rightarrow> panel" where
  "restoreBackup H w1 w2 merge s =
     (case pn_pending s of
        None \<Rightarrow> s
      | Some p \<Rightarrow>
          let merged = mergeSmokeFailureMetadataSavedFilters H (pn_items s) (bk_filters (pr_backup p));
              nxt = (if merge then mr_filters merged else bk_filters (pr_backup p));
              (ok, s1) = persist w1 w2 nxt (Some (bk_sort (pr_backup p))) s
          in if \<not> ok then s1
             else s1\<lparr>pn_name := [], pn_selected := [], pn_pending := None,
                     pn_notice :=
                       (if merge \<and> mr_omitted merged \<noteq> []
                        then txt_sf_with_backup @ txt_sf_merge @ txt_sf_result @ show_nat (length nxt) @ txt_sf_limit_omits
                             @ show_nat (length (mr_omitted merged)) @ txt_sf_omitted
                        else txt_sf_with_backup @ (if merge then txt_sf_merge else txt_sf_replace) @ txt_sf_result
                             @ show_nat (length nxt) @ txt_sf_items_end)\<rparr>)"

definition cancelRestore :: "panel \<Rightarrow> panel" where
  "cancelRestore s = s\<lparr>pn_pending := None, pn_notice := txt_sf_cancelled\<rparr>"

definition panel_rename :: "bool \<Rightarrow> panel \<Rightarrow> panel" where
  "panel_rename w s =
     (let name = normalizedName s in
      if pn_selected s = [] then s
      else if name = [] then s\<lparr>pn_notice := txt_sf_rename_missing\<rparr>
      else if list_ex (\<lambda>item. sv_name item \<noteq> pn_selected s \<and> saved_key item = str_lower name) (pn_items s)
      then s\<lparr>pn_notice := quoted name @ txt_sf_name_taken\<rparr>
      else let (ok, s1) = persist w w (renameSmokeFailureMetadataSavedFilter (pn_items s) (pn_selected s) name) None s
           in if \<not> ok then s1
              else s1\<lparr>pn_name := name, pn_selected := name,
                      pn_notice := quoted (pn_selected s) @ txt_sf_rename_from @ quoted name @ txt_sf_renamed\<rparr>)"

definition typeName :: "string \<Rightarrow> panel \<Rightarrow> panel" where
  "typeName v s = s\<lparr>pn_name := v\<rparr>"

definition selectName :: "string \<Rightarrow> panel \<Rightarrow> panel" where
  "selectName v s = s\<lparr>pn_selected := v, pn_name := v\<rparr>"

section \<open>Runs of the panel\<close>

text \<open>
  What the user can do, each with the answers of the browser: whether each write to the storage is
  accepted (the two writes of a restore independently), and whether a download starts.
\<close>

datatype panel_event =
  PeSort bool SavedFilterSort | PeSave bool SmokeFailureMetadataFilters | PeApply | PeRemove bool
  | PeClear bool bool | PeBackup bool string | PeBackupOne "string \<Rightarrow> string" bool string
  | PeBegin nat | PeFinish string string "string option" | PeRestore bool bool bool | PeCancel
  | PeRename bool | PeType string | PeSelect string

fun panel_do :: "js_host \<Rightarrow> panel_event \<Rightarrow> panel \<Rightarrow> panel" where
  "panel_do H (PeSort w v) s = panel_changeSort w v s"
| "panel_do H (PeSave w f) s = panel_save H w f s"
| "panel_do H PeApply s = snd (panel_apply s)"
| "panel_do H (PeRemove w) s = panel_remove w s"
| "panel_do H (PeClear confirmed w) s = panel_clearAll confirmed w s"
| "panel_do H (PeBackup w t) s = snd (panel_downloadBackup H w t s)"
| "panel_do H (PeBackupOne slug w t) s = snd (panel_downloadSelectedBackup slug H w t s)"
| "panel_do H (PeBegin n) s = prepare_begin n s"
| "panel_do H (PeFinish fn k content) s = prepare_finish H fn k content s"
| "panel_do H (PeRestore w1 w2 merge) s = restoreBackup H w1 w2 merge s"
| "panel_do H PeCancel s = cancelRestore s"
| "panel_do H (PeRename w) s = panel_rename w s"
| "panel_do H (PeType v) s = typeName v s"
| "panel_do H (PeSelect v) s = selectName v s"

text \<open>
  Whether the list on screen is written by an event, and whether a restore is cut between its
  two writes; the same for the order: it is written, or its write is refused while the screen
  follows it.
\<close>

definition name_taken :: "panel \<Rightarrow> bool" where
  "name_taken s =
     list_ex (\<lambda>item. sv_name item \<noteq> pn_selected s \<and> saved_key item = str_lower (normalizedName s)) (pn_items s)"

fun list_written :: "panel_event \<Rightarrow> panel \<Rightarrow> bool" where
  "list_written (PeSave w f) s = (w \<and> normalizedName s \<noteq> [] \<and> \<not> isNewFilterAtLimit s)"
| "list_written (PeRemove w) s = (w \<and> pn_selected s \<noteq> [])"
| "list_written (PeClear confirmed w) s = (w \<and> confirmed \<and> pn_items s \<noteq> [])"
| "list_written (PeRename w) s = (w \<and> pn_selected s \<noteq> [] \<and> normalizedName s \<noteq> [] \<and> \<not> name_taken s)"
| "list_written (PeRestore w1 w2 merge) s = (w1 \<and> w2 \<and> pn_pending s \<noteq> None)"
| "list_written e s = False"

fun restore_cut :: "panel_event \<Rightarrow> panel \<Rightarrow> bool" where
  "restore_cut (PeRestore w1 w2 merge) s = (w1 \<and> \<not> w2 \<and> pn_pending s \<noteq> None)"
| "restore_cut e s = False"

fun order_written :: "panel_event \<Rightarrow> panel \<Rightarrow> bool" where
  "order_written (PeSort w v) s = w"
| "order_written (PeRestore w1 w2 merge) s = (w1 \<and> w2 \<and> pn_pending s \<noteq> None)"
| "order_written e s = False"

fun order_refused :: "panel_event \<Rightarrow> panel \<Rightarrow> bool" where
  "order_refused (PeSort w v) s = (\<not> w)"
| "order_refused e s = False"

text \<open>
  A run from the first render, with two marks: the list (the order) of the storage is the one on
  screen.  They start as the first render could read the storage, are set by a write and cleared by
  a cut restore (by a refused change of the order).
\<close>

definition panel_track :: "js_host \<Rightarrow> panel_event \<Rightarrow> bool \<times> bool \<times> panel \<Rightarrow> bool \<times> bool \<times> panel" where
  "panel_track H e r =
     (case r of (lst, ord, s) \<Rightarrow>
        ((lst \<and> \<not> restore_cut e s) \<or> list_written e s, (ord \<and> \<not> order_refused e s) \<or> order_written e s, panel_do H e s))"

definition panel_run :: "js_host \<Rightarrow> bool \<Rightarrow> string js_object \<Rightarrow> panel_event list \<Rightarrow> bool \<times> bool \<times> panel" where
  "panel_run H readable st es = fold (panel_track H) es (readable, readable, panel_mount H readable (panel_init st))"

section \<open>The invariant\<close>

lemma stored_list_reads:
  assumes "good items" "list_all (clean H) items"
  shows "parseSmokeFailureMetadataSavedFilters H (Some (json_stringify (saved_list_json items))) = items"
proof -
  have "json_parse (json_stringify (saved_list_json items)) = Some (saved_list_json items)"
    unfolding json_stringify_def by (rule json_roundtrip [OF saved_list_json_wf]) simp
  moreover have "json_stringify (saved_list_json items) \<noteq> []"
    by (simp add: json_stringify_def saved_list_json_def wrap_items_def)
  ultimately show ?thesis
    using normalize_clean [OF assms] by (simp add: parseSmokeFailureMetadataSavedFilters_def)
qed

definition list_agrees :: "js_host \<Rightarrow> panel \<Rightarrow> bool" where
  "list_agrees H s =
     (list_all (clean H) (pn_items s) \<longrightarrow>
      parseSmokeFailureMetadataSavedFilters H (obj_get SAVED_FILTERS_KEY (pn_storage s)) = pn_items s)"

definition order_agrees :: "panel \<Rightarrow> bool" where
  "order_agrees s = (parseSmokeFailureMetadataSavedFilterSort (obj_get SAVED_SORT_KEY (pn_storage s)) = pn_sort s)"

definition limits_kept :: "panel \<Rightarrow> bool" where
  "limits_kept s = (good (pn_items s) \<and> (\<forall>p. pn_pending s = Some p \<longrightarrow> good (bk_filters (pr_backup p))))"

lemma keys_differ: "SAVED_FILTERS_KEY \<noteq> SAVED_SORT_KEY"
  by (simp add: SAVED_FILTERS_KEY_def SAVED_SORT_KEY_def)

text \<open>The outcome of \<open>persist\<close>, for a list alone and for a list with an order.\<close>

lemma persist_list:
  assumes "good nxt"
  shows "fst (persist w w nxt None s) = w" "pn_pending (snd (persist w w nxt None s)) = pn_pending s"
    "w \<Longrightarrow> pn_items (snd (persist w w nxt None s)) = nxt"
    "\<not> w \<Longrightarrow> pn_items (snd (persist w w nxt None s)) = pn_items s"
    "limits_kept s \<Longrightarrow> limits_kept (snd (persist w w nxt None s))"
    "w \<Longrightarrow> list_agrees H (snd (persist w w nxt None s))"
    "list_agrees H s \<Longrightarrow> list_agrees H (snd (persist w w nxt None s))"
    "order_agrees s \<Longrightarrow> order_agrees (snd (persist w w nxt None s))"
  using assms stored_list_reads [of nxt H] keys_differ
  by (auto simp: persist_def Let_def limits_kept_def list_agrees_def order_agrees_def obj_get_put)

lemma persist_both:
  assumes "good nxt"
  shows "fst (persist w1 w2 nxt (Some v) s) = (w1 \<and> w2)" "pn_pending (snd (persist w1 w2 nxt (Some v) s)) = pn_pending s"
    "limits_kept s \<Longrightarrow> limits_kept (snd (persist w1 w2 nxt (Some v) s))"
    "w1 \<Longrightarrow> w2 \<Longrightarrow> list_agrees H (snd (persist w1 w2 nxt (Some v) s)) \<and> order_agrees (snd (persist w1 w2 nxt (Some v) s))"
    "w1 \<longrightarrow> w2 \<Longrightarrow> list_agrees H s \<Longrightarrow> list_agrees H (snd (persist w1 w2 nxt (Some v) s))"
    "order_agrees s \<Longrightarrow> order_agrees (snd (persist w1 w2 nxt (Some v) s))"
  using assms stored_list_reads [of nxt H] keys_differ
  by (auto simp: persist_def Let_def limits_kept_def list_agrees_def order_agrees_def obj_get_put sort_roundtrip)

lemma parse_good: "good (parseSmokeFailureMetadataSavedFilters H v)"
proof -
  have "good []" by (simp add: good_def)
  then show ?thesis by (simp add: parseSmokeFailureMetadataSavedFilters_def normalize_good split: option.splits)
qed

lemma backup_good: "parseSmokeFailureMetadataSavedFiltersBackup H v = Some b \<Longrightarrow> good (bk_filters b)"
  by (auto simp: parseSmokeFailureMetadataSavedFiltersBackup_def normalize_good split: option.splits json.splits bool.splits prod.splits if_splits)

lemma agrees_update [simp]:
  "list_agrees H (s\<lparr>pn_notice := n\<rparr>) = list_agrees H s" "list_agrees H (s\<lparr>pn_name := n\<rparr>) = list_agrees H s"
  "list_agrees H (s\<lparr>pn_selected := n\<rparr>) = list_agrees H s" "list_agrees H (s\<lparr>pn_sort := v\<rparr>) = list_agrees H s"
  "list_agrees H (s\<lparr>pn_pending := q\<rparr>) = list_agrees H s"
  "order_agrees (s\<lparr>pn_notice := n\<rparr>) = order_agrees s" "order_agrees (s\<lparr>pn_name := n\<rparr>) = order_agrees s"
  "order_agrees (s\<lparr>pn_selected := n\<rparr>) = order_agrees s" "order_agrees (s\<lparr>pn_pending := q\<rparr>) = order_agrees s"
  "limits_kept (s\<lparr>pn_notice := n\<rparr>) = limits_kept s" "limits_kept (s\<lparr>pn_name := n\<rparr>) = limits_kept s"
  "limits_kept (s\<lparr>pn_selected := n\<rparr>) = limits_kept s" "limits_kept (s\<lparr>pn_sort := v\<rparr>) = limits_kept s"
  "limits_kept s \<Longrightarrow> limits_kept (s\<lparr>pn_pending := None\<rparr>)"
  by (simp_all add: list_agrees_def order_agrees_def limits_kept_def)

text \<open>One event keeps the limits, and the marks stay true.\<close>

definition marks_true :: "js_host \<Rightarrow> bool \<times> bool \<times> panel \<Rightarrow> bool" where
  "marks_true H r =
     (case r of (lst, ord, s) \<Rightarrow> limits_kept s \<and> (lst \<longrightarrow> list_agrees H s) \<and> (ord \<longrightarrow> order_agrees s))"

lemma marks_restore:
  assumes "marks_true H (lst, ord, s)"
  shows "marks_true H (panel_track H (PeRestore w1 w2 m) (lst, ord, s))"
proof (cases "pn_pending s")
  case (Some p)
  define nxt where "nxt = (if m then mr_filters (mergeSmokeFailureMetadataSavedFilters H (pn_items s) (bk_filters (pr_backup p)))
    else bk_filters (pr_backup p))"
  have lim: "limits_kept s" using assms by (simp add: marks_true_def)
  then have g: "good nxt" using Some by (simp add: nxt_def limits_kept_def merge_good)
  let ?r = "persist w1 w2 nxt (Some (bk_sort (pr_backup p))) s"
  note p = persist_both [OF g]
  show ?thesis
    using assms p(1) [of w1 w2 "bk_sort (pr_backup p)" s] p(3) [OF lim, of w1 w2 "bk_sort (pr_backup p)"]
      p(4) [of w1 w2 H "bk_sort (pr_backup p)" s] p(5) [of w1 w2 H s "bk_sort (pr_backup p)"]
      p(6) [of s w1 w2 "bk_sort (pr_backup p)"]
    by (cases ?r) (auto simp: marks_true_def panel_track_def restoreBackup_def Some Let_def simp flip: nxt_def)
qed (use assms in \<open>simp add: marks_true_def panel_track_def restoreBackup_def\<close>)

lemma marks_save:
  assumes "marks_true H (lst, ord, s)"
  shows "marks_true H (panel_track H (PeSave w f) (lst, ord, s))"
proof -
  let ?n = "upsertSmokeFailureMetadataSavedFilter H (pn_items s) \<lparr>sv_filters = f, sv_name = normalizedName s\<rparr>"
  have g: "good ?n" using assms by (simp add: marks_true_def limits_kept_def good_upsert)
  show ?thesis
    using assms persist_list [OF g, where w = w and s = s] 
    by (cases "persist w w ?n None s") (auto simp: marks_true_def panel_track_def panel_save_def Let_def)
qed

lemma marks_remove:
  assumes "marks_true H (lst, ord, s)"
  shows "marks_true H (panel_track H (PeRemove w) (lst, ord, s))"
proof -
  let ?n = "removeSmokeFailureMetadataSavedFilter (pn_items s) (pn_selected s)"
  have g: "good ?n" using assms by (simp add: marks_true_def limits_kept_def good_remove)
  show ?thesis
    using assms persist_list [OF g, where w = w and s = s]
    by (cases "persist w w ?n None s") (auto simp: marks_true_def panel_track_def panel_remove_def Let_def)
qed

lemma marks_rename:
  assumes "marks_true H (lst, ord, s)"
  shows "marks_true H (panel_track H (PeRename w) (lst, ord, s))"
proof -
  let ?n = "renameSmokeFailureMetadataSavedFilter (pn_items s) (pn_selected s) (normalizedName s)"
  have g: "good ?n" using assms by (simp add: marks_true_def limits_kept_def good_rename)
  show ?thesis
    using assms persist_list [OF g, where w = w and s = s]
    by (cases "persist w w ?n None s") (auto simp: marks_true_def panel_track_def panel_rename_def Let_def name_taken_def)
qed

lemma marks_clear:
  assumes "marks_true H (lst, ord, s)"
  shows "marks_true H (panel_track H (PeClear confirmed w) (lst, ord, s))"
proof -
  have g: "good []" by (simp add: good_def)
  show ?thesis
    using assms persist_list [OF g, where w = w and s = s]
    by (cases "persist w w [] None s") (auto simp: marks_true_def panel_track_def panel_clearAll_def Let_def)
qed

lemma marks_sort:
  assumes "marks_true H (lst, ord, s)"
  shows "marks_true H (panel_track H (PeSort w v) (lst, ord, s))"
  using assms keys_differ
  by (auto simp: marks_true_def panel_track_def panel_changeSort_def Let_def limits_kept_def list_agrees_def order_agrees_def
      obj_get_put sort_roundtrip)

lemma marks_finish:
  assumes "marks_true H (lst, ord, s)"
  shows "marks_true H (panel_track H (PeFinish fn k content) (lst, ord, s))"
  using assms
  by (auto simp: marks_true_def panel_track_def prepare_finish_def limits_kept_def list_agrees_def order_agrees_def
      dest: backup_good split: option.splits)

lemma marks_step: "marks_true H (lst, ord, s) \<Longrightarrow> marks_true H (panel_track H e (lst, ord, s))"
  by (cases e)
    (simp_all only: marks_restore marks_save marks_remove marks_rename marks_clear marks_sort marks_finish,
     auto simp: marks_true_def panel_track_def panel_apply_def panel_downloadBackup_def panel_downloadSelectedBackup_def
       prepare_begin_def cancelRestore_def typeName_def selectName_def split: option.splits)

lemma marks_run: "marks_true H (panel_run H readable st es)"
proof -
  have "good []" by (simp add: good_def)
  then have "marks_true H (readable, readable, panel_mount H readable (panel_init st))"
    by (simp add: marks_true_def panel_mount_def panel_init_def limits_kept_def parse_good list_agrees_def order_agrees_def)
  moreover have "marks_true H r \<Longrightarrow> marks_true H (fold (panel_track H) es r)" for r
  proof (induction es arbitrary: r)
    case (Cons e es)
    have "marks_true H (panel_track H e r)"
      using marks_step [of H "fst r" "fst (snd r)" "snd (snd r)"] Cons.prems by simp
    then show ?case using Cons.IH by simp
  qed simp
  ultimately show ?thesis by (simp add: panel_run_def)
qed

section \<open>Properties\<close>

text \<open>C27. Whatever the user does in the panel, and whichever reads and writes the browser refuses, the list
  keeps its limits, and so does a backup waiting to be restored.  Reloading the page gives the order
  on screen unless the last change of the order was refused, and the list on screen (for names that
  normalisation keeps) unless the last write of the list was a restore whose second write was refused
  (or the first render could not read the storage and nothing has been written since).\<close>

theorem panel_storage_agrees:
  assumes "panel_run H readable st es = (lst, ord, s)"
  shows "good (pn_items s) \<and> (\<forall>p. pn_pending s = Some p \<longrightarrow> good (bk_filters (pr_backup p))) \<and>
    (lst \<and> list_all (clean H) (pn_items s) \<longrightarrow> pn_items (panel_mount H True (panel_init (pn_storage s))) = pn_items s) \<and>
    (ord \<longrightarrow> pn_sort (panel_mount H True (panel_init (pn_storage s))) = pn_sort s)"
  using marks_run [of H readable st es] assms
  by (simp add: marks_true_def limits_kept_def list_agrees_def order_agrees_def panel_mount_def panel_init_def)

text \<open>A filter saved under a name typed into the field (which admits 40 code units) can be
  used: it is selected, it holds the current filters, no other filter changes, and deleting it
  removes exactly it.\<close>

theorem save_select_remove:
  fixes H s f
  assumes "panel_run H readable st es = (lst, ord, s)" "utf16_length (pn_name s) \<le> SAVED_FILTER_NAME_LIMIT"
    and "normalizedName s \<noteq> []" "\<not> isNewFilterAtLimit s"
  defines "item \<equiv> \<lparr>sv_filters = canonical H f, sv_name = normalizedName s\<rparr>" and "t \<equiv> panel_save H True f s"
  shows "selectedFilter t = Some item \<and>
    saved_view (pn_items t) = (saved_view (pn_items s))(saved_key item \<mapsto> item) \<and>
    saved_view (pn_items (panel_remove True t)) = (saved_view (pn_items s))(saved_key item := None)"
proof -
  let ?n = "normalizedName s" and ?i = "\<lparr>sv_filters = f, sv_name = normalizedName s\<rparr>"
  have g: "good (pn_items s)" using marks_run [of H readable st es] assms(1) by (simp add: marks_true_def limits_kept_def)
  have n: "normalizeSmokeFailureMetadataSavedFilterName ?n = ?n"
    using typed_name_tidy [OF assms(2)] by (simp add: tidy_def normalizedName_def)
  have st: "stored_item H ?i = item" by (simp add: stored_item_def item_def n)
  have room: "has_room (pn_items s) item"
    using assms(3,4) by (auto simp: has_room_def isNewFilterAtLimit_def item_def not_le)
  have u: "upsertSmokeFailureMetadataSavedFilter H (pn_items s) ?i = item # filter (\<lambda>j. saved_key j \<noteq> saved_key item) (pn_items s)"
    using upsert_room [OF g, of H ?i] room assms(3) by (simp add: st) (simp add: item_def)
  have t: "pn_items t = item # filter (\<lambda>j. saved_key j \<noteq> saved_key item) (pn_items s)" "pn_selected t = ?n"
    using assms(3,4) by (simp_all add: t_def panel_save_def Let_def persist_def u)
  have v: "saved_view (pn_items t) = (saved_view (pn_items s))(saved_key item \<mapsto> item)"
    by (rule ext) (simp add: t saved_view_def find_filter_other)
  have "saved_key item = str_lower (normalizeSmokeFailureMetadataSavedFilterName (pn_selected t))"
    by (simp add: t n item_def)
  then have "saved_view (pn_items (panel_remove True t)) = (saved_view (pn_items t))(saved_key item := None)"
    using view_remove [of "pn_items t" "pn_selected t"] assms(3) t(2)
    by (simp add: panel_remove_def persist_def Let_def)
  moreover have "selectedFilter t = Some item" by (simp add: selectedFilter_def t) (simp add: item_def)
  ultimately show ?thesis using v by simp
qed

section \<open>Two defects\<close>

text \<open>
  A name in a backup file is longer than 40 code units, and the cut falls after a blank: the
  filter is listed under a name that normalisation changes, so the panel reports its deletion
  and keeps it.
\<close>

lemma cut_name_imported: "map sv_name (normalizeSavedFilters H (Some (JArr [JObj [(''name'', JStr (cut_name @ ''b''))]]))) = [cut_name]"
proof -
  have "cut_name \<noteq> []" by (simp add: cut_name_def)
  then show ?thesis by (simp add: normalizeSavedFilters_def cut_name_arises Let_def SAVED_FILTER_LIMIT_def)
qed

lemma cut_name_not_removed:
  fixes s
  defines "t \<equiv> s\<lparr>pn_items := [sample_saved cut_name], pn_selected := cut_name\<rparr>"
  shows "pn_items (panel_remove True t) = [sample_saved cut_name] \<and>
    pn_notice (panel_remove True t) = quoted cut_name @ txt_sf_removed"
proof -
  have "str_lower cut_name \<noteq> str_lower (replicate 39 (CHR ''a''))" "cut_name \<noteq> []"
    by (simp_all add: cut_name_def str_lower_append)
  then show ?thesis
    by (simp add: t_def panel_remove_def persist_def Let_def removeSmokeFailureMetadataSavedFilter_def cut_name_untidy
        saved_key_def sample_saved_def)
qed

text \<open>A restore whose second write is refused leaves the new list in the storage and the old one on screen.\<close>

lemma partial_restore:
  assumes "pn_pending s = Some p"
  shows "pn_items (restoreBackup H True False False s) = pn_items s \<and>
    obj_get SAVED_FILTERS_KEY (pn_storage (restoreBackup H True False False s))
      = Some (json_stringify (saved_list_json (bk_filters (pr_backup p))))"
  using assms by (simp add: restoreBackup_def persist_def Let_def obj_get_put)

section \<open>Concrete evaluations\<close>

definition sample_panel :: panel where
  "sample_panel = typeName ''A'' (panel_mount utc_host True (panel_init []))"

lemma sample_name: "normalizedName sample_panel = ''A''"
proof -
  have "normalizeSmokeFailureMetadataSavedFilterName ''A'' = ''A''" by code_simp
  then show ?thesis by (simp add: normalizedName_def sample_panel_def typeName_def)
qed

text \<open>
  A filter is saved, and a change of the order is refused: the reloaded page has the list on screen,
  and the order before the refused change.
\<close>

definition refused_sort :: "panel_event list" where
  "refused_sort = [PeType ''A'', PeSave True sample_filters, PeSort False SortNameAsc]"

theorem panel_storage_agrees_witness:
  "let s = snd (snd (panel_run utc_host True [] refused_sort)) in
   map sv_name (pn_items s) = [''A''] \<and> pn_items (panel_mount utc_host True (panel_init (pn_storage s))) = pn_items s \<and>
   pn_sort s = SortNameAsc \<and> pn_sort (panel_mount utc_host True (panel_init (pn_storage s))) = SortRecent"
proof -
  define r where "r = panel_run utc_host True [] refused_sort"
  let ?s = "snd (snd r)"
  have m: "panel_mount utc_host True (panel_init []) = panel_init []"
    by (simp add: panel_mount_def panel_init_def parseSmokeFailureMetadataSavedFilters_def
        parseSmokeFailureMetadataSavedFilterSort_def)
  define q where "q = typeName ''A'' (panel_init [])"
  have n: "normalizedName q = ''A''" using sample_name by (simp add: sample_panel_def m q_def)
  have q: "pn_items q = []" "pn_storage q = []" by (simp_all add: q_def typeName_def panel_init_def)
  have lim: "\<not> isNewFilterAtLimit q" by (simp add: isNewFilterAtLimit_def q SAVED_FILTER_LIMIT_def)
  have u: "upsertSmokeFailureMetadataSavedFilter utc_host [] \<lparr>sv_filters = sample_filters, sv_name = ''A''\<rparr> = [sample_saved ''A'']"
    using upsert_room [of "[]" utc_host "sample_saved ''A''"] stored_item_clean [OF sample_names(1)]
    by (simp add: good_def sample_saved_def has_room_def SAVED_FILTER_LIMIT_def)
  have r: "fst r" "?s = panel_changeSort False SortNameAsc (panel_save utc_host True sample_filters q)"
    using n lim by (simp_all add: r_def panel_run_def refused_sort_def panel_track_def m q_def)
  have e: "pn_items ?s = [sample_saved ''A'']" "pn_sort ?s = SortNameAsc" "obj_get SAVED_SORT_KEY (pn_storage ?s) = None"
    using n u lim q keys_differ
    by (simp_all add: r panel_save_def Let_def persist_def panel_changeSort_def obj_get_put)
  have "panel_run utc_host True [] refused_sort = (fst r, fst (snd r), ?s)" by (simp add: r_def)
  from panel_storage_agrees [OF this] have "pn_items (panel_mount utc_host True (panel_init (pn_storage ?s))) = pn_items ?s"
    using e r(1) sample_names(1) by simp
  moreover have "pn_sort (panel_mount utc_host True (panel_init (pn_storage ?s))) = SortRecent"
    using e by (simp add: panel_mount_def panel_init_def parseSmokeFailureMetadataSavedFilterSort_def)
  ultimately show ?thesis using e by (simp add: Let_def r_def sample_saved_def)
qed

end
