(* ===== verification/Smoke_Tracking.thy ===== *)
theory Smoke_Tracking
  imports JS_Json JS_Date Ui_Text Toast
begin

text \<open>
  Following a manually started smoke run: the GitHub rate limit
  (\<open>features/settings/lib/smokeGithubRateLimit.ts\<close>), the stored last run
  (\<open>smokeManualRunTracking.ts\<close>), error texts (\<open>settingsErrors.ts\<close>) and the polling hook
  (\<open>app/dashboard/settings/useManualSmokeRunTracking.ts\<close>).

  The hook polls with \<open>setTimeout\<close> and abandons superseded polls by a generation counter.  The
  state holds what the browser holds for it: pending timers, refreshes under way, the toasts
  shown and the local storage.  \<open>new URL\<close> and date formatting belong to the host and are
  arguments.
\<close>

section \<open>Rate limit\<close>

definition GITHUB_API_DEFAULT_REFRESH_RESERVE :: int where "GITHUB_API_DEFAULT_REFRESH_RESERVE = 10"

definition isGithubSecondaryRateLimitBlocked :: "js_host \<Rightarrow> string option \<Rightarrow> int \<Rightarrow> bool" where
  "isGithubSecondaryRateLimitBlocked H retryAt now =
     (case date_parse H (or_else retryAt []) of None \<Rightarrow> False | Some t \<Rightarrow> now < t)"

definition isGithubApiRefreshBlocked ::
    "js_host \<Rightarrow> int option \<Rightarrow> string option \<Rightarrow> string option \<Rightarrow> int \<Rightarrow> int \<Rightarrow> bool" where
  "isGithubApiRefreshBlocked H remaining resetAt secondaryRetryAt refreshReserve now =
     (if isGithubSecondaryRateLimitBlocked H secondaryRetryAt now then True
      else case remaining of
             None \<Rightarrow> False
           | Some n \<Rightarrow>
               if refreshReserve < n then False
               else (case date_parse H (or_else resetAt []) of None \<Rightarrow> True | Some t \<Rightarrow> now < t))"

definition retry_candidates ::
    "js_host \<Rightarrow> int option \<Rightarrow> string option \<Rightarrow> string option \<Rightarrow> int \<Rightarrow> int \<Rightarrow> string list" where
  "retry_candidates H remaining resetAt secondaryRetryAt refreshReserve now =
     filter (\<lambda>v. case date_parse H v of None \<Rightarrow> False | Some t \<Rightarrow> now < t)
       (List.map_filter id
          [(case remaining of Some n \<Rightarrow> if n \<le> refreshReserve then resetAt else None | None \<Rightarrow> None),
           (if isGithubSecondaryRateLimitBlocked H secondaryRetryAt now then secondaryRetryAt else None)])"

definition getGithubApiRefreshRetryAt ::
    "js_host \<Rightarrow> int option \<Rightarrow> string option \<Rightarrow> string option \<Rightarrow> int \<Rightarrow> int \<Rightarrow> string option" where
  "getGithubApiRefreshRetryAt H remaining resetAt secondaryRetryAt refreshReserve now =
     (case retry_candidates H remaining resetAt secondaryRetryAt refreshReserve now of
        [] \<Rightarrow> None
      | c # cs \<Rightarrow>
          Some (fold (\<lambda>candidate latest.
                  if the (date_parse H latest) < the (date_parse H candidate) then candidate else latest) cs c))"

text \<open>
  \<open>useGithubApiRefreshBlocked\<close>: what the component shows at \<open>now\<close>, and the delay after which its
  effect has it looked at again, if any.
\<close>

definition useGithubApiRefreshBlocked ::
    "js_host \<Rightarrow> int option \<Rightarrow> string option \<Rightarrow> string option \<Rightarrow> int \<Rightarrow> int \<Rightarrow> bool \<times> int option" where
  "useGithubApiRefreshBlocked H remaining resetAt secondaryRetryAt refreshReserve now =
     (isGithubApiRefreshBlocked H remaining resetAt secondaryRetryAt refreshReserve now,
      if \<not> isGithubApiRefreshBlocked H remaining resetAt secondaryRetryAt refreshReserve now then None
      else case getGithubApiRefreshRetryAt H remaining resetAt secondaryRetryAt refreshReserve now of
             None \<Rightarrow> None
           | Some retryAt \<Rightarrow> Some (the (date_parse H retryAt) - now + 50))"

section \<open>Runs\<close>

datatype SmokeRunStatus = RunSuccess | RunFailure | RunSkipped | RunCancelled

fun run_status_text :: "SmokeRunStatus \<Rightarrow> string" where
  "run_status_text RunSuccess = ''success''"
| "run_status_text RunFailure = ''failure''"
| "run_status_text RunSkipped = ''skipped''"
| "run_status_text RunCancelled = ''cancelled''"

record SmokeMonitoringRecentRun =
  rr_run_id :: nat
  rr_status :: SmokeRunStatus
  rr_completed_at :: string
  rr_run_url :: string
  rr_run_number :: "nat option"
  rr_commit_sha :: "string option"
  rr_summary :: "string option"
  rr_cancellation_reason :: "string option"
  rr_notification_suppressed :: bool
  rr_artifact_url :: "string option"
  rr_artifact_expires_at :: "string option"
  rr_failure_metadata :: "json option"

text \<open>\<open>status\<close> keeps the value that was read: the check only looks at \<open>String(status)\<close>.\<close>

record TrackedManualSmokeRun =
  tr_completed_at :: string
  tr_run_number :: "jsnum option"
  tr_run_url :: string
  tr_status :: json

definition findNewSmokeRun :: "SmokeMonitoringRecentRun list \<Rightarrow> string list \<Rightarrow> SmokeMonitoringRecentRun option" where
  "findNewSmokeRun runs knownRunUrls = find (\<lambda>run. rr_run_url run \<notin> set knownRunUrls) runs"

text \<open>\<open>String(v)\<close>; arrays join their elements, with \<open>null\<close> as nothing.\<close>

fun json_to_string :: "json \<Rightarrow> string" where
  "json_to_string JNull = ''null''"
| "json_to_string (JBool b) = (if b then ''true'' else ''false'')"
| "json_to_string (JNum n) = (case n of Num q \<Rightarrow> number_text q | NaN \<Rightarrow> ''NaN'' | PosInf \<Rightarrow> ''Infinity'' | NegInf \<Rightarrow> ''-Infinity'')"
| "json_to_string (JStr s) = s"
| "json_to_string (JArr xs) = str_join '','' (map (\<lambda>x. if x = JNull then [] else json_to_string x) xs)"
| "json_to_string (JObj ps) = ''[object Object]''"

text \<open>Protocol, host name and path of \<open>new URL(value)\<close>; \<open>None\<close> when it throws.\<close>

type_synonym url_parser = "string \<Rightarrow> (string \<times> string \<times> string) option"

definition run_path :: "string \<Rightarrow> bool" where
  "run_path path =
     (case str_split (CHR ''/'') path of
        e # a # b # c # d # n # rest \<Rightarrow>
          e = [] \<and> a \<noteq> [] \<and> b \<noteq> [] \<and> c = ''actions'' \<and> d = ''runs'' \<and> n \<noteq> [] \<and> list_all is_digit n \<and> (rest = [] \<or> rest = [[]])
      | _ \<Rightarrow> False)"

definition isGitHubActionsRunUrl :: "url_parser \<Rightarrow> string \<Rightarrow> bool" where
  "isGitHubActionsRunUrl U v =
     (case U v of
        None \<Rightarrow> False
      | Some (protocol, hostname, pathname) \<Rightarrow> protocol = ''https:'' \<and> hostname = ''github.com'' \<and> run_path pathname)"

definition valid_run_number :: "json option \<Rightarrow> bool" where
  "valid_run_number v =
     (v = Some JNull \<or> (case v of Some (JNum n) \<Rightarrow> (case num_int n of Some i \<Rightarrow> 1 \<le> i | None \<Rightarrow> False) | _ \<Rightarrow> False))"

definition tracked_of_json :: "js_host \<Rightarrow> url_parser \<Rightarrow> json \<Rightarrow> TrackedManualSmokeRun option" where
  "tracked_of_json H U v =
     (let status = json_field ''status'' v;
          completed = json_string (json_field ''completed_at'' v);
          url = json_string (json_field ''run_url'' v);
          number = json_field ''run_number'' v
      in if v = JNull
            \<or> (case status of None \<Rightarrow> ''undefined'' | Some x \<Rightarrow> json_to_string x) \<notin> {''success'', ''failure'', ''skipped'', ''cancelled''}
            \<or> completed = None \<or> date_parse H (the completed) = None
            \<or> url = None \<or> \<not> isGitHubActionsRunUrl U (the url)
            \<or> \<not> valid_run_number number
         then None
         else Some \<lparr>tr_completed_at = the completed,
                    tr_run_number = (case number of Some (JNum n) \<Rightarrow> Some n | _ \<Rightarrow> None),
                    tr_run_url = the url, tr_status = the status\<rparr>)"

definition parseTrackedManualSmokeRun :: "js_host \<Rightarrow> url_parser \<Rightarrow> string option \<Rightarrow> TrackedManualSmokeRun option" where
  "parseTrackedManualSmokeRun H U serialized =
     (if \<not> truthy serialized then None
      else Option.bind (json_parse (the serialized)) (tracked_of_json H U))"

definition opt_json :: "string option \<Rightarrow> json" where
  "opt_json v = (case v of None \<Rightarrow> JNull | Some s \<Rightarrow> JStr s)"

definition run_json :: "SmokeMonitoringRecentRun \<Rightarrow> json" where
  "run_json r = JObj
     [(''run_id'', JNum (Num (of_nat (rr_run_id r)))), (''status'', JStr (run_status_text (rr_status r))),
      (''completed_at'', JStr (rr_completed_at r)), (''run_url'', JStr (rr_run_url r)),
      (''run_number'', case rr_run_number r of None \<Rightarrow> JNull | Some n \<Rightarrow> JNum (Num (of_nat n))),
      (''commit_sha'', opt_json (rr_commit_sha r)), (''summary'', opt_json (rr_summary r)),
      (''cancellation_reason'', opt_json (rr_cancellation_reason r)),
      (''notification_suppressed'', JBool (rr_notification_suppressed r)),
      (''artifact_url'', opt_json (rr_artifact_url r)), (''artifact_expires_at'', opt_json (rr_artifact_expires_at r)),
      (''failure_metadata'', case rr_failure_metadata r of None \<Rightarrow> JNull | Some m \<Rightarrow> m)]"

definition getTrackedManualSmokeRun :: "js_host \<Rightarrow> url_parser \<Rightarrow> SmokeMonitoringRecentRun \<Rightarrow> TrackedManualSmokeRun option" where
  "getTrackedManualSmokeRun H U run = parseTrackedManualSmokeRun H U (Some (json_stringify (run_json run)))"

definition tracked_json :: "TrackedManualSmokeRun \<Rightarrow> json" where
  "tracked_json t = JObj
     [(''completed_at'', JStr (tr_completed_at t)),
      (''run_number'', case tr_run_number t of None \<Rightarrow> JNull | Some n \<Rightarrow> JNum n),
      (''run_url'', JStr (tr_run_url t)), (''status'', tr_status t)]"

section \<open>Error texts\<close>

text \<open>The \<open>response\<close> of a failed request, if there was one: its status and the \<open>detail\<close> of its body.\<close>

type_synonym api_error = "(nat option \<times> json option) option"

definition withTerminalPeriod :: "string \<Rightarrow> string" where
  "withTerminalPeriod v =
     (let trimmed = js_trim v in
      if trimmed \<noteq> [] \<and> last trimmed \<in> {CHR ''.'', CHR ''!'', CHR ''?''} then trimmed else trimmed @ ''.'')"

definition getApiErrorDetail :: "api_error \<Rightarrow> string \<Rightarrow> string" where
  "getApiErrorDetail err fallback =
     (let status = Option.bind err fst; detail = Option.bind err snd in
      if status = Some 422 then txt_err_input @ withTerminalPeriod fallback
      else if status \<noteq> None \<and> 500 \<le> the status then txt_err_server @ withTerminalPeriod fallback @ txt_err_retry
      else case detail of
             Some (JStr s) \<Rightarrow> s
           | Some (JArr (x # _)) \<Rightarrow> or_else (json_string (json_field ''msg'' x)) fallback
           | _ \<Rightarrow> fallback)"

section \<open>The hook\<close>

definition MANUAL_RUN_POLL_INTERVAL_MS :: int where "MANUAL_RUN_POLL_INTERVAL_MS = 30000"
definition MANUAL_RUN_TRACKING_TIMEOUT_MS :: int where "MANUAL_RUN_TRACKING_TIMEOUT_MS = 360000"
definition LAST_RUN_KEY :: string where "LAST_RUN_KEY = ''traefik-manager:last-manual-smoke-run''"

text \<open>The fields of \<open>SmokeRotationStatus\<close> that the hook reads.\<close>

record SmokeRotationStatus =
  ss_recent_runs :: "SmokeMonitoringRecentRun list"
  ss_history_error :: "string option"
  ss_rate_limit_remaining :: "int option"
  ss_rate_limit_reset_at :: "string option"
  ss_secondary_limit_retry_at :: "string option"
  ss_refresh_reserve :: int

text \<open>
  What the closure of one \<open>handleOpen\<close> captures.  \<open>ch_polls\<close> is a history variable: the
  refreshes this closure has completed.
\<close>

record poll_chain =
  ch_generation :: nat
  ch_startedAt :: int
  ch_knownRunUrls :: "string list"
  ch_polls :: nat

record poll_timer =
  tm_id :: nat
  tm_due :: int
  tm_chain :: poll_chain

record tracking =
  tk_isTracking :: bool
  tk_lastRun :: "TrackedManualSmokeRun option"
  tk_timerRef :: "nat option"
  tk_generation :: nat
  tk_timers :: "poll_timer list"
  tk_nextId :: nat
  tk_flights :: "poll_chain list"
  tk_clock :: int
  tk_toasts :: "ToastNoticeValue list"
  tk_storage :: "string js_object"

definition clear_timer :: "tracking \<Rightarrow> tracking" where
  "clear_timer s =
     (case tk_timerRef s of
        None \<Rightarrow> s
      | Some i \<Rightarrow> s\<lparr>tk_timers := filter (\<lambda>t. tm_id t \<noteq> i) (tk_timers s)\<rparr>)"

definition set_poll_timer :: "poll_chain \<Rightarrow> tracking \<Rightarrow> tracking" where
  "set_poll_timer c s =
     s\<lparr>tk_timers := \<lparr>tm_id = tk_nextId s, tm_due = tk_clock s + MANUAL_RUN_POLL_INTERVAL_MS, tm_chain = c\<rparr> # tk_timers s,
       tk_timerRef := Some (tk_nextId s), tk_nextId := Suc (tk_nextId s)\<rparr>"

definition show_toast :: "ToastNoticeValue \<Rightarrow> tracking \<Rightarrow> tracking" where
  "show_toast n s = s\<lparr>tk_toasts := tk_toasts s @ [n]\<rparr>"

definition tracking_mount :: "js_host \<Rightarrow> url_parser \<Rightarrow> int \<Rightarrow> string js_object \<Rightarrow> tracking" where
  "tracking_mount H U now st =
     \<lparr>tk_isTracking = False, tk_lastRun = parseTrackedManualSmokeRun H U (obj_get LAST_RUN_KEY st), tk_timerRef = None,
      tk_generation = 0, tk_timers = [], tk_nextId = 1, tk_flights = [], tk_clock = now, tk_toasts = [], tk_storage = st\<rparr>"

text \<open>The cleanup of the effect, when the component goes away.\<close>

definition tracking_unmount :: "tracking \<Rightarrow> tracking" where
  "tracking_unmount s = clear_timer (s\<lparr>tk_generation := Suc (tk_generation s)\<rparr>)"

definition status_blocked :: "js_host \<Rightarrow> SmokeRotationStatus option \<Rightarrow> int \<Rightarrow> bool" where
  "status_blocked H status now =
     (case status of
        None \<Rightarrow> isGithubApiRefreshBlocked H None None None GITHUB_API_DEFAULT_REFRESH_RESERVE now
      | Some st \<Rightarrow> isGithubApiRefreshBlocked H (ss_rate_limit_remaining st) (ss_rate_limit_reset_at st)
                     (ss_secondary_limit_retry_at st) (ss_refresh_reserve st) now)"

definition handleOpen ::
    "js_host \<Rightarrow> (string option \<Rightarrow> string) \<Rightarrow> bool \<Rightarrow> SmokeRotationStatus option \<Rightarrow> tracking \<Rightarrow> tracking" where
  "handleOpen H formatDateTime canManage status s =
     (if \<not> canManage then s
      else if status_blocked H status (tk_clock s)
      then let secondaryBlocked = isGithubSecondaryRateLimitBlocked H (Option.bind status ss_secondary_limit_retry_at) (tk_clock s);
               retryAt = (if secondaryBlocked then Option.bind status ss_secondary_limit_retry_at
                          else Option.bind status ss_rate_limit_reset_at)
           in show_toast
                \<lparr>tn_detail = Some (''GitHub API '' @ (if secondaryBlocked then txt_tr_secondary else txt_tr_reset) @ txt_tr_time
                             @ formatDateTime retryAt @ txt_tr_after),
                 tn_link = None, tn_message = txt_tr_not_started, tn_tone = ToneWarning\<rparr> s
      else let s1 = clear_timer s;
               c = \<lparr>ch_generation = Suc (tk_generation s), ch_startedAt = tk_clock s,
                    ch_knownRunUrls = (case status of None \<Rightarrow> [] | Some st \<Rightarrow> map rr_run_url (ss_recent_runs st)), ch_polls = 0\<rparr>
           in set_poll_timer c (s1\<lparr>tk_generation := ch_generation c, tk_isTracking := True\<rparr>))"

definition finish :: "nat \<Rightarrow> tracking \<Rightarrow> tracking" where
  "finish generation s =
     (if tk_generation s \<noteq> generation then s
      else (clear_timer (s\<lparr>tk_generation := Suc (tk_generation s)\<rparr>))\<lparr>tk_timerRef := None, tk_isTracking := False\<rparr>)"

definition record_run :: "js_host \<Rightarrow> url_parser \<Rightarrow> bool \<Rightarrow> SmokeMonitoringRecentRun \<Rightarrow> tracking \<Rightarrow> tracking" where
  "record_run H U w newRun s =
     (case getTrackedManualSmokeRun H U newRun of
        None \<Rightarrow> s
      | Some trackedRun \<Rightarrow>
          let s1 = s\<lparr>tk_lastRun := Some trackedRun\<rparr> in
          if w then s1\<lparr>tk_storage := obj_put LAST_RUN_KEY (json_stringify (tracked_json trackedRun)) (tk_storage s1)\<rparr> else s1)"

definition run_toast :: "SmokeMonitoringRecentRun \<Rightarrow> ToastNoticeValue" where
  "run_toast r =
     \<lparr>tn_detail = Some (case rr_run_number r of
                     Some n \<Rightarrow> if n = 0 then txt_tr_checked else ''GitHub Actions #'' @ show_nat n
                   | None \<Rightarrow> txt_tr_checked),
      tn_link = Some (rr_run_url r, txt_tr_view),
      tn_message = txt_tr_new_run @ (case rr_status r of RunSuccess \<Rightarrow> txt_tr_success | RunFailure \<Rightarrow> txt_tr_failure | _ \<Rightarrow> txt_tr_skipped),
      tn_tone = (case rr_status r of RunSuccess \<Rightarrow> ToneSuccess | RunFailure \<Rightarrow> ToneError | _ \<Rightarrow> ToneWarning)\<rparr>"

definition plain_toast :: "Tone \<Rightarrow> string \<Rightarrow> string \<Rightarrow> ToastNoticeValue" where
  "plain_toast tone message detail = \<lparr>tn_detail = Some detail, tn_link = None, tn_message = message, tn_tone = tone\<rparr>"

text \<open>\<open>poll\<close> after \<open>await refreshHistory()\<close>: \<open>answer\<close> is what the refresh gave.\<close>

definition poll_settle ::
    "js_host \<Rightarrow> url_parser \<Rightarrow> bool \<Rightarrow> poll_chain \<Rightarrow> api_error + SmokeRotationStatus \<Rightarrow> tracking \<Rightarrow> tracking" where
  "poll_settle H U w c answer s =
     (if tk_generation s \<noteq> ch_generation c then s
      else case answer of
        Inl err \<Rightarrow>
          show_toast (plain_toast ToneError txt_tr_check_failed (getApiErrorDetail err txt_tr_history_failed)) (finish (ch_generation c) s)
      | Inr refreshed \<Rightarrow>
          if truthy (ss_history_error refreshed)
          then show_toast (plain_toast ToneWarning txt_tr_stopped (the (ss_history_error refreshed))) (finish (ch_generation c) s)
          else case findNewSmokeRun (ss_recent_runs refreshed) (ch_knownRunUrls c) of
            Some newRun \<Rightarrow> show_toast (run_toast newRun) (finish (ch_generation c) (record_run H U w newRun s))
          | None \<Rightarrow>
              if MANUAL_RUN_TRACKING_TIMEOUT_MS \<le> tk_clock s - ch_startedAt c
              then show_toast (plain_toast ToneWarning txt_tr_not_found txt_tr_refresh_hint) (finish (ch_generation c) s)
              else set_poll_timer (c\<lparr>ch_polls := Suc (ch_polls c)\<rparr>) s)"

definition handleClear :: "bool \<Rightarrow> tracking \<Rightarrow> tracking" where
  "handleClear w s =
     s\<lparr>tk_storage := (if w then filter (\<lambda>p. fst p \<noteq> LAST_RUN_KEY) (tk_storage s) else tk_storage s), tk_lastRun := None\<rparr>"

section \<open>Runs of the hook\<close>

text \<open>The browser takes a due timer and calls \<open>poll\<close>, which asks for a refresh.\<close>

definition fire_timer :: "poll_timer \<Rightarrow> tracking \<Rightarrow> tracking" where
  "fire_timer t s = s\<lparr>tk_timers := removeAll t (tk_timers s), tk_flights := tm_chain t # tk_flights s\<rparr>"

definition settle_flight ::
    "js_host \<Rightarrow> url_parser \<Rightarrow> bool \<Rightarrow> poll_chain \<Rightarrow> api_error + SmokeRotationStatus \<Rightarrow> tracking \<Rightarrow> tracking" where
  "settle_flight H U w c answer s = poll_settle H U w c answer (s\<lparr>tk_flights := remove1 c (tk_flights s)\<rparr>)"

text \<open>
  A step of the hook and its environment.  Time passes without running backwards; a timer fires
  when it is due; a refresh may take any time and may fail.
\<close>

inductive tracking_step :: "js_host \<Rightarrow> url_parser \<Rightarrow> (string option \<Rightarrow> string) \<Rightarrow> tracking \<Rightarrow> tracking \<Rightarrow> bool" for H U F where
  k_time: "tk_clock s \<le> now \<Longrightarrow> tracking_step H U F s (s\<lparr>tk_clock := now\<rparr>)"
| k_open: "tracking_step H U F s (handleOpen H F can status s)"
| k_fire: "t \<in> set (tk_timers s) \<Longrightarrow> tm_due t \<le> tk_clock s \<Longrightarrow> tracking_step H U F s (fire_timer t s)"
| k_settle: "c \<in> set (tk_flights s) \<Longrightarrow> tracking_step H U F s (settle_flight H U w c answer s)"
| k_clear: "tracking_step H U F s (handleClear w s)"

inductive tracking_reachable :: "js_host \<Rightarrow> url_parser \<Rightarrow> (string option \<Rightarrow> string) \<Rightarrow> tracking \<Rightarrow> bool" for H U F where
  k_start: "tracking_reachable H U F (tracking_mount H U now st)"
| k_next: "tracking_reachable H U F s \<Longrightarrow> tracking_step H U F s t \<Longrightarrow> tracking_reachable H U F t"

text \<open>
  What can still happen once the component is gone: time passes, a timer that was not cleared
  fires, and a refresh under way is answered.  The handlers of the user are gone with it.
\<close>

inductive gone_step :: "js_host \<Rightarrow> url_parser \<Rightarrow> tracking \<Rightarrow> tracking \<Rightarrow> bool" for H U where
  g_time: "tk_clock s \<le> now \<Longrightarrow> gone_step H U s (s\<lparr>tk_clock := now\<rparr>)"
| g_fire: "t \<in> set (tk_timers s) \<Longrightarrow> tm_due t \<le> tk_clock s \<Longrightarrow> gone_step H U s (fire_timer t s)"
| g_settle: "c \<in> set (tk_flights s) \<Longrightarrow> gone_step H U s (settle_flight H U w c answer s)"

text \<open>The polls that still count: timers and refreshes of the current generation.\<close>

definition live_timers :: "tracking \<Rightarrow> poll_timer list" where
  "live_timers s = filter (\<lambda>t. ch_generation (tm_chain t) = tk_generation s) (tk_timers s)"

definition live_flights :: "tracking \<Rightarrow> poll_chain list" where
  "live_flights s = filter (\<lambda>c. ch_generation c = tk_generation s) (tk_flights s)"

text \<open>Upper bound of the steps that the current poll can still take; 12 refreshes fit into the time limit.\<close>

definition remaining_steps :: "tracking \<Rightarrow> nat" where
  "remaining_steps s =
     (case live_timers s of
        t # _ \<Rightarrow> 2 * (12 - ch_polls (tm_chain t))
      | [] \<Rightarrow> (case live_flights s of c # _ \<Rightarrow> 2 * (12 - ch_polls c) - 1 | [] \<Rightarrow> 0))"

text \<open>A step of the current poll itself: its timer fires, or its refresh is answered.\<close>

inductive own_step :: "js_host \<Rightarrow> url_parser \<Rightarrow> tracking \<Rightarrow> tracking \<Rightarrow> bool" for H U where
  own_fire: "t \<in> set (live_timers s) \<Longrightarrow> tm_due t \<le> now \<Longrightarrow> tk_clock s \<le> now \<Longrightarrow>
    own_step H U s (fire_timer t (s\<lparr>tk_clock := now\<rparr>))"
| own_settle: "c \<in> set (live_flights s) \<Longrightarrow> tk_clock s \<le> now \<Longrightarrow>
    own_step H U s (settle_flight H U w c answer (s\<lparr>tk_clock := now\<rparr>))"

end
