(* ===== verification/Smoke_Tracking_Correct.thy ===== *)
theory Smoke_Tracking_Correct
  imports Smoke_Tracking
begin

text \<open>
  The polling hook follows at most one run at a time, does so exactly while it says it does, and
  stops: the invariant of its reachable states, and a measure that every step of the current
  poll decreases.
\<close>

section \<open>The invariant\<close>

definition chain_ok :: "int \<Rightarrow> nat \<Rightarrow> poll_chain \<Rightarrow> bool" where
  "chain_ok limit gen c =
     (ch_generation c \<le> gen \<and> ch_polls c \<le> 11 \<and>
      ch_startedAt c + MANUAL_RUN_POLL_INTERVAL_MS * (int (ch_polls c) + 1) \<le> limit)"

definition tracking_inv :: "tracking \<Rightarrow> bool" where
  "tracking_inv s =
     (length (live_timers s) + length (live_flights s) = (if tk_isTracking s then 1 else 0) \<and>
      (\<forall>t\<in>set (live_timers s). tk_timerRef s = Some (tm_id t)) \<and>
      distinct (map tm_id (tk_timers s)) \<and> (\<forall>t\<in>set (tk_timers s). tm_id t < tk_nextId s) \<and>
      (\<forall>t\<in>set (tk_timers s). chain_ok (tm_due t) (tk_generation s) (tm_chain t)) \<and>
      (\<forall>c\<in>set (tk_flights s). chain_ok (tk_clock s) (tk_generation s) c))"

lemma chain_ok_mono: "chain_ok l g c \<Longrightarrow> l \<le> l' \<Longrightarrow> g \<le> g' \<Longrightarrow> chain_ok l' g' c"
  by (auto simp: chain_ok_def)

text \<open>When the generation moves on, no poll is live any more.\<close>

lemma stale_generation:
  assumes "\<forall>t\<in>set (tk_timers s). ch_generation (tm_chain t) \<le> tk_generation s"
    and "\<forall>c\<in>set (tk_flights s). ch_generation c \<le> tk_generation s"
  shows "filter (\<lambda>t. ch_generation (tm_chain t) = Suc (tk_generation s)) (filter P (tk_timers s)) = []"
    and "filter (\<lambda>c. ch_generation c = Suc (tk_generation s)) (tk_flights s) = []"
  using assms by (auto simp: filter_empty_conv)

lemma inv_generations:
  assumes "tracking_inv s"
  shows "\<forall>t\<in>set (tk_timers s). ch_generation (tm_chain t) \<le> tk_generation s"
    and "\<forall>c\<in>set (tk_flights s). ch_generation c \<le> tk_generation s"
  using assms by (auto simp: tracking_inv_def chain_ok_def)

lemma clear_timer_fields [simp]:
  "tk_flights (clear_timer s) = tk_flights s" "tk_generation (clear_timer s) = tk_generation s"
  "tk_clock (clear_timer s) = tk_clock s" "tk_nextId (clear_timer s) = tk_nextId s"
  "tk_isTracking (clear_timer s) = tk_isTracking s" "tk_timerRef (clear_timer s) = tk_timerRef s"
  by (simp_all add: clear_timer_def split: option.splits)

lemma clear_timer_timers: "\<exists>P. tk_timers (clear_timer s) = filter P (tk_timers s)"
  by (auto simp: clear_timer_def split: option.splits intro: exI [of _ "\<lambda>_. True"])

lemma finish_inv:
  assumes "distinct (map tm_id (tk_timers s))" "\<forall>t\<in>set (tk_timers s). tm_id t < tk_nextId s"
    and "\<forall>t\<in>set (tk_timers s). chain_ok (tm_due t) (tk_generation s) (tm_chain t)"
    and "\<forall>c\<in>set (tk_flights s). chain_ok (tk_clock s) (tk_generation s) c"
  shows "tracking_inv (finish (tk_generation s) s)" "\<not> tk_isTracking (finish (tk_generation s) s)"
proof -
  obtain P where P: "tk_timers (clear_timer (s\<lparr>tk_generation := Suc (tk_generation s)\<rparr>)) = filter P (tk_timers s)"
    using clear_timer_timers [of "s\<lparr>tk_generation := Suc (tk_generation s)\<rparr>"] by auto
  have g: "\<forall>t\<in>set (tk_timers s). ch_generation (tm_chain t) \<le> tk_generation s"
      "\<forall>c\<in>set (tk_flights s). ch_generation c \<le> tk_generation s"
    using assms(3,4) by (auto simp: chain_ok_def)
  show "tracking_inv (finish (tk_generation s) s)"
    unfolding tracking_inv_def live_timers_def live_flights_def finish_def
    using assms stale_generation [OF g] by (auto simp: P distinct_map_filter intro: chain_ok_mono)
  show "\<not> tk_isTracking (finish (tk_generation s) s)" by (simp add: finish_def)
qed

lemma set_poll_timer_inv:
  assumes "live_timers s = []" "live_flights s = []" "tk_isTracking s" "ch_generation c = tk_generation s" "ch_polls c \<le> 11"
    and "ch_startedAt c + MANUAL_RUN_POLL_INTERVAL_MS * int (ch_polls c) \<le> tk_clock s"
    and "distinct (map tm_id (tk_timers s))" "\<forall>t\<in>set (tk_timers s). tm_id t < tk_nextId s"
    and "\<forall>t\<in>set (tk_timers s). chain_ok (tm_due t) (tk_generation s) (tm_chain t)"
    and "\<forall>c\<in>set (tk_flights s). chain_ok (tk_clock s) (tk_generation s) c"
  shows "tracking_inv (set_poll_timer c s)"
proof -
  have "chain_ok (tk_clock s + MANUAL_RUN_POLL_INTERVAL_MS) (tk_generation s) c"
    using assms(4-6) by (simp add: chain_ok_def algebra_simps)
  then show ?thesis
    using assms unfolding tracking_inv_def live_timers_def live_flights_def set_poll_timer_def by fastforce
qed


lemma inv_irrelevant [simp]:
  "tracking_inv (show_toast n s) = tracking_inv s"
  "tracking_inv (handleClear w s) = tracking_inv s"
  "tk_isTracking (show_toast n s) = tk_isTracking s"
  by (simp_all add: show_toast_def handleClear_def tracking_inv_def live_timers_def live_flights_def)

lemma record_run_fields [simp]:
  "tk_flights (record_run H U w r s) = tk_flights s" "tk_generation (record_run H U w r s) = tk_generation s"
  "tk_clock (record_run H U w r s) = tk_clock s" "tk_nextId (record_run H U w r s) = tk_nextId s"
  "tk_isTracking (record_run H U w r s) = tk_isTracking s" "tk_timerRef (record_run H U w r s) = tk_timerRef s"
  "tk_timers (record_run H U w r s) = tk_timers s"
  by (simp_all add: record_run_def Let_def split: option.splits)

lemma handleOpen_inv:
  assumes "tracking_inv s"
  shows "tracking_inv (handleOpen H F can status s)"
proof (cases "\<not> can \<or> status_blocked H status (tk_clock s)")
  case True
  then show ?thesis using assms by (auto simp: handleOpen_def Let_def)
next
  case False
  let ?c = "\<lparr>ch_generation = Suc (tk_generation s), ch_startedAt = tk_clock s,
    ch_knownRunUrls = (case status of None \<Rightarrow> [] | Some st \<Rightarrow> map rr_run_url (ss_recent_runs st)), ch_polls = 0\<rparr>"
  let ?s = "(clear_timer s)\<lparr>tk_generation := Suc (tk_generation s), tk_isTracking := True\<rparr>"
  obtain P where P: "tk_timers (clear_timer s) = filter P (tk_timers s)" using clear_timer_timers by blast
  note st = stale_generation [OF inv_generations [OF assms]]
  have "tracking_inv (set_poll_timer ?c ?s)"
    by (rule set_poll_timer_inv)
      (use assms st in \<open>auto simp: tracking_inv_def live_timers_def live_flights_def P distinct_map_filter intro: chain_ok_mono\<close>)
  with False show ?thesis by (simp add: handleOpen_def Let_def)
qed

lemma time_inv: "tracking_inv s \<Longrightarrow> tk_clock s \<le> now \<Longrightarrow> tracking_inv (s\<lparr>tk_clock := now\<rparr>)"
  by (auto simp: tracking_inv_def live_timers_def live_flights_def intro: chain_ok_mono)

lemma removeAll_distinct_id:
  "distinct (map tm_id ts) \<Longrightarrow> t \<in> set ts \<Longrightarrow> length (filter P (removeAll t ts)) + (if P t then 1 else 0) = length (filter P ts)"
proof (induction ts)
  case (Cons u ts)
  have "t \<notin> set ts" if "u = t" using Cons.prems(1) that by auto
  with Cons show ?case by (cases "u = t") auto
qed simp

lemma fire_inv:
  assumes "tracking_inv s" "t \<in> set (tk_timers s)" "tm_due t \<le> tk_clock s"
  shows "tracking_inv (fire_timer t s)"
proof -
  have d: "distinct (map tm_id (tk_timers s))" using assms(1) by (simp add: tracking_inv_def)
  have l: "length (live_timers (fire_timer t s)) + length (live_flights (fire_timer t s))
      = length (live_timers s) + length (live_flights s)"
    using removeAll_distinct_id [OF d assms(2), of "\<lambda>t. ch_generation (tm_chain t) = tk_generation s"]
    by (auto simp: live_timers_def live_flights_def fire_timer_def split: if_splits)
  have "chain_ok (tk_clock s) (tk_generation s) (tm_chain t)"
    using assms by (auto simp: tracking_inv_def intro: chain_ok_mono)
  moreover have "distinct (map tm_id (removeAll t (tk_timers s)))" using d by (simp add: removeAll_filter_not_eq distinct_map_filter)
  ultimately show ?thesis
    using assms(1) l unfolding tracking_inv_def by (auto simp: fire_timer_def live_timers_def)
qed

lemma one_of_two: "a + b = (if p then 1 else 0) \<Longrightarrow> 0 < b \<Longrightarrow> p \<and> a = 0 \<and> b = (1::nat)"
  by (auto split: if_splits)

text \<open>Answering a refresh of the current generation: it was the only live poll.\<close>

lemma only_live_flight:
  assumes "tracking_inv s" "c \<in> set (live_flights s)"
  shows "live_timers s = []" "live_flights s = [c]" "tk_isTracking s"
proof -
  have l: "length (live_timers s) + length (live_flights s) = (if tk_isTracking s then 1 else 0)"
    using assms(1) by (simp add: tracking_inv_def)
  have "0 < length (live_flights s)" using assms(2) by (cases "live_flights s") auto
  from one_of_two [OF l this]
  have t: "tk_isTracking s" "length (live_timers s) = 0" "length (live_flights s) = 1" by blast+
  then show "tk_isTracking s" "live_timers s = []" by simp_all
  obtain d where "live_flights s = [d]" using t(3) by (auto simp: length_Suc_conv)
  with assms(2) show "live_flights s = [c]" by simp
qed

lemma settle_live:
  assumes "tracking_inv s" "c \<in> set (live_flights s)"
  shows "tracking_inv (settle_flight H U w c answer s)"
    and "tk_isTracking (settle_flight H U w c answer s) \<Longrightarrow>
      live_flights (settle_flight H U w c answer s) = [] \<and>
      (\<exists>t. live_timers (settle_flight H U w c answer s) = [t] \<and> ch_polls (tm_chain t) = Suc (ch_polls c) \<and> Suc (ch_polls c) \<le> 11)"
proof -
  let ?s = "s\<lparr>tk_flights := remove1 c (tk_flights s)\<rparr>"
  note only = only_live_flight [OF assms]
  have g: "ch_generation c = tk_generation s" "c \<in> set (tk_flights s)" using assms(2) by (auto simp: live_flights_def)
  have lt: "live_timers ?s = []" using only(1) by (simp add: live_timers_def)
  have lf: "live_flights ?s = []"
    using only(2) by (simp add: live_flights_def filter_remove1)
  have base: "distinct (map tm_id (tk_timers ?s))" "\<forall>t\<in>set (tk_timers ?s). tm_id t < tk_nextId ?s"
      "\<forall>t\<in>set (tk_timers ?s). chain_ok (tm_due t) (tk_generation ?s) (tm_chain t)"
      "\<forall>c\<in>set (tk_flights ?s). chain_ok (tk_clock ?s) (tk_generation ?s) c"
    using assms(1) set_remove1_subset [of c "tk_flights s"] by (auto simp: tracking_inv_def)
  note fin = finish_inv [OF base]
  have finr: "tracking_inv (finish (tk_generation s) (record_run H U w r ?s))"
      "\<not> tk_isTracking (finish (tk_generation s) (record_run H U w r ?s))" for r
    using finish_inv [of "record_run H U w r ?s"] base by simp_all
  have ok: "chain_ok (tk_clock s) (tk_generation s) c" using assms(1) g by (auto simp: tracking_inv_def)
  have more: "tracking_inv (set_poll_timer (c\<lparr>ch_polls := Suc (ch_polls c)\<rparr>) ?s) \<and> Suc (ch_polls c) \<le> 11"
    if "\<not> MANUAL_RUN_TRACKING_TIMEOUT_MS \<le> tk_clock s - ch_startedAt c"
  proof -
    have "int (ch_polls c) < 11"
      using that ok by (simp add: chain_ok_def MANUAL_RUN_TRACKING_TIMEOUT_MS_def MANUAL_RUN_POLL_INTERVAL_MS_def)
    moreover have "tracking_inv (set_poll_timer (c\<lparr>ch_polls := Suc (ch_polls c)\<rparr>) ?s)"
      by (rule set_poll_timer_inv [OF lt lf _ _ _ _ base])
        (use only(3) g ok calculation in \<open>auto simp: chain_ok_def algebra_simps\<close>)
    ultimately show ?thesis by simp
  qed
  show "tracking_inv (settle_flight H U w c answer s)"
    using fin finr more g
    by (auto simp: settle_flight_def poll_settle_def split: sum.splits option.splits)
  have new: "live_flights (set_poll_timer d ?s) = [] \<and> (\<exists>t. live_timers (set_poll_timer d ?s) = [t] \<and> tm_chain t = d)"
    if "ch_generation d = tk_generation s" for d
    using lt lf that by (simp add: set_poll_timer_def live_timers_def live_flights_def)
  assume "tk_isTracking (settle_flight H U w c answer s)"
  then show "live_flights (settle_flight H U w c answer s) = [] \<and>
      (\<exists>t. live_timers (settle_flight H U w c answer s) = [t] \<and> ch_polls (tm_chain t) = Suc (ch_polls c) \<and> Suc (ch_polls c) \<le> 11)"
    using fin(2) finr(2) more g new [of "c\<lparr>ch_polls := Suc (ch_polls c)\<rparr>"]
    by (auto simp: settle_flight_def poll_settle_def split: sum.splits option.splits if_splits)
qed

lemma settle_flight_inv:
  assumes "tracking_inv s" "c \<in> set (tk_flights s)"
  shows "tracking_inv (settle_flight H U w c answer s)"
proof (cases "ch_generation c = tk_generation s")
  case True
  then show ?thesis using settle_live(1) assms by (simp add: live_flights_def)
next
  case False
  then have "live_flights (s\<lparr>tk_flights := remove1 c (tk_flights s)\<rparr>) = live_flights s"
    by (simp add: live_flights_def filter_remove1 remove1_idem)
  with False assms set_remove1_subset [of c "tk_flights s"] show ?thesis
    by (auto simp: settle_flight_def poll_settle_def tracking_inv_def live_timers_def)
qed

lemma tracking_step_inv: "tracking_step H U F s t \<Longrightarrow> tracking_inv s \<Longrightarrow> tracking_inv t"
  by (induction rule: tracking_step.induct) (auto intro: time_inv handleOpen_inv fire_inv settle_flight_inv)

lemma tracking_reachable_inv: "tracking_reachable H U F s \<Longrightarrow> tracking_inv s"
proof (induction rule: tracking_reachable.induct)
  case (k_start now st)
  then show ?case by (simp add: tracking_inv_def tracking_mount_def live_timers_def live_flights_def)
qed (auto intro: tracking_step_inv)

subsection \<open>No timer but the one of the reference\<close>

definition timers_current :: "tracking \<Rightarrow> bool" where
  "timers_current s =
     (\<forall>t\<in>set (tk_timers s). tk_timerRef s = Some (tm_id t) \<and> ch_generation (tm_chain t) = tk_generation s)"

lemma timers_current_irrelevant [simp]:
  "timers_current (show_toast n s) = timers_current s"
  "timers_current (handleClear w s) = timers_current s"
  "timers_current (s\<lparr>tk_clock := now\<rparr>) = timers_current s"
  "timers_current (record_run H U w r s) = timers_current s"
  by (simp_all add: show_toast_def handleClear_def timers_current_def)

lemma cleared_timers: "timers_current s \<Longrightarrow> tk_timers (clear_timer (s\<lparr>tk_generation := g\<rparr>)) = []"
  by (auto simp: timers_current_def clear_timer_def filter_empty_conv split: option.splits)

lemma finish_current: "timers_current s \<Longrightarrow> timers_current (finish g s)"
  using cleared_timers [of s "Suc (tk_generation s)"] by (auto simp: finish_def timers_current_def)

lemma set_poll_timer_current:
  "tk_timers s = [] \<Longrightarrow> ch_generation c = tk_generation s \<Longrightarrow> timers_current (set_poll_timer c s)"
  by (simp add: timers_current_def set_poll_timer_def)

lemma handleOpen_current:
  assumes "timers_current s" shows "timers_current (handleOpen H F can status s)"
proof -
  have "tk_timers (clear_timer s) = []" using cleared_timers [OF assms, of "tk_generation s"] by simp
  then show ?thesis
    using assms by (auto simp: handleOpen_def Let_def intro!: set_poll_timer_current)
qed

lemma settle_current:
  assumes "tracking_inv s" "timers_current s" "c \<in> set (tk_flights s)"
  shows "timers_current (settle_flight H U w c answer s)"
proof (cases "ch_generation c = tk_generation s")
  case False
  then show ?thesis using assms(2) by (simp add: settle_flight_def poll_settle_def timers_current_def)
next
  case True
  let ?s = "s\<lparr>tk_flights := remove1 c (tk_flights s)\<rparr>"
  have "live_timers s = tk_timers s" using assms(2) by (auto simp: live_timers_def timers_current_def filter_id_conv)
  moreover have "live_timers s = []"
    using only_live_flight(1) [OF assms(1)] assms(3) True by (simp add: live_flights_def)
  ultimately have n: "tk_timers ?s = []" by simp
  moreover have "timers_current ?s" using n by (simp add: timers_current_def)
  ultimately show ?thesis
    using True
    by (auto simp: settle_flight_def poll_settle_def intro!: finish_current set_poll_timer_current
        split: sum.splits option.splits)
qed

lemma fire_current: "timers_current s \<Longrightarrow> timers_current (fire_timer t s)"
  by (auto simp: fire_timer_def timers_current_def)

lemma tracking_reachable_current: "tracking_reachable H U F s \<Longrightarrow> timers_current s"
proof (induction rule: tracking_reachable.induct)
  case (k_start now st)
  then show ?case by (simp add: timers_current_def tracking_mount_def)
next
  case (k_next s t)
  note i = tracking_reachable_inv [OF k_next.hyps(1)]
  from k_next.hyps(2) k_next.IH show ?case
    by cases (simp_all add: fire_current handleOpen_current settle_current [OF i])
qed

lemma single_timer:
  assumes "tracking_inv s" "timers_current s"
  shows "length (tk_timers s) \<le> 1"
proof (cases "tk_timers s")
  case (Cons a ts)
  show ?thesis
  proof (cases ts)
    case (Cons b us)
    with \<open>tk_timers s = a # ts\<close> assms show ?thesis
      by (auto simp: tracking_inv_def timers_current_def)
  qed (simp add: Cons)
qed simp

subsection \<open>After the component is gone\<close>

definition same_but_flights :: "tracking \<Rightarrow> tracking \<Rightarrow> bool" where
  "same_but_flights s t = (t = s\<lparr>tk_clock := tk_clock t, tk_flights := tk_flights t\<rparr>)"

lemma gone_step_same:
  assumes "gone_step H U s t" "tk_timers s = []" "\<forall>c\<in>set (tk_flights s). ch_generation c < tk_generation s"
  shows "same_but_flights s t \<and> tk_timers t = [] \<and> (\<forall>c\<in>set (tk_flights t). ch_generation c < tk_generation t)"
  using assms
proof cases
  case (g_settle c w answer)
  then show ?thesis
    using assms(2,3) set_remove1_subset [of c "tk_flights s"]
    by (auto simp: settle_flight_def poll_settle_def same_but_flights_def)
qed (use assms(2) in \<open>simp_all add: same_but_flights_def\<close>)

lemma gone_steps_same:
  assumes "(gone_step H U)\<^sup>*\<^sup>* s t" "tk_timers s = []" "\<forall>c\<in>set (tk_flights s). ch_generation c < tk_generation s"
  shows "same_but_flights s t \<and> tk_timers t = [] \<and> (\<forall>c\<in>set (tk_flights t). ch_generation c < tk_generation t)"
  using assms(1)
proof (induction rule: rtranclp_induct)
  case base
  then show ?case using assms(2,3) by (simp add: same_but_flights_def)
next
  case (step t u)
  then show ?case
    using gone_step_same [OF step.hyps(2)] unfolding same_but_flights_def
    by (cases s; cases t; cases u) auto
qed

section \<open>Progress\<close>

lemma live_timer_only:
  assumes "tracking_inv s" "t \<in> set (live_timers s)"
  shows "live_timers s = [t]" "live_flights s = []" "tk_isTracking s" "ch_polls (tm_chain t) \<le> 11"
proof -
  have l: "length (live_flights s) + length (live_timers s) = (if tk_isTracking s then 1 else 0)"
    using assms(1) by (simp add: tracking_inv_def add.commute)
  have "0 < length (live_timers s)" using assms(2) by (cases "live_timers s") auto
  from one_of_two [OF l this]
  have n: "tk_isTracking s" "length (live_flights s) = 0" "length (live_timers s) = 1" by blast+
  then show "tk_isTracking s" "live_flights s = []" by simp_all
  obtain u where "live_timers s = [u]" using n(3) by (auto simp: length_Suc_conv)
  with assms(2) show "live_timers s = [t]" by simp
  show "ch_polls (tm_chain t) \<le> 11" using assms by (auto simp: tracking_inv_def live_timers_def chain_ok_def)
qed

lemma live_at_time [simp]:
  "live_timers (s\<lparr>tk_clock := now\<rparr>) = live_timers s" "live_flights (s\<lparr>tk_clock := now\<rparr>) = live_flights s"
  by (simp_all add: live_timers_def live_flights_def)

lemma own_step_is_step:
  assumes "own_step H U s t"
  shows "\<exists>m. tracking_step H U F s m \<and> tracking_step H U F m t"
  using assms
proof (cases rule: own_step.cases)
  case (own_fire u now)
  then show ?thesis
    by (auto simp: live_timers_def intro!: exI [of _ "s\<lparr>tk_clock := now\<rparr>"] k_time k_fire)
next
  case (own_settle c now w answer)
  then show ?thesis
    by (auto simp: live_flights_def intro!: exI [of _ "s\<lparr>tk_clock := now\<rparr>"] k_time k_settle)
qed

lemma own_step_reachable: "tracking_reachable H U F s \<Longrightarrow> own_step H U s t \<Longrightarrow> tracking_reachable H U F t"
  using own_step_is_step k_next by blast

lemma filter_removeAll: "filter P (removeAll u xs) = removeAll u (filter P xs)"
  by (induction xs) auto

lemma own_step_decreases:
  assumes "tracking_inv s" "own_step H U s t"
  shows "remaining_steps t < remaining_steps s"
  using assms(2)
proof (cases rule: own_step.cases)
  case (own_fire u now)
  note only = live_timer_only [OF assms(1) own_fire(2)]
  have u: "ch_generation (tm_chain u) = tk_generation s" "u \<in> set (tk_timers s)"
    using own_fire(2) by (auto simp: live_timers_def)
  have "filter (\<lambda>t. ch_generation (tm_chain t) = tk_generation s) (removeAll u (tk_timers s)) = []"
    using only(1) by (simp add: live_timers_def filter_removeAll)
  then have "live_timers t = []" "live_flights t = [tm_chain u]"
    using own_fire(1) u only(2) by (simp_all add: fire_timer_def live_timers_def live_flights_def)
  with only show ?thesis by (simp add: remaining_steps_def)
next
  case (own_settle c now w answer)
  have i: "tracking_inv (s\<lparr>tk_clock := now\<rparr>)" "c \<in> set (live_flights (s\<lparr>tk_clock := now\<rparr>))"
    using time_inv assms(1) own_settle by auto
  note only = only_live_flight [OF assms(1) own_settle(2)]
  have p: "ch_polls c \<le> 11" using assms(1) own_settle(2) by (auto simp: tracking_inv_def live_flights_def chain_ok_def)
  have r: "remaining_steps s = 2 * (12 - ch_polls c) - 1" using only by (simp add: remaining_steps_def)
  show ?thesis
  proof (cases "tk_isTracking t")
    case True
    then show ?thesis using settle_live(2) [OF i, of H U w answer] own_settle(1) r by (auto simp: remaining_steps_def)
  next
    case False
    have "tracking_inv t" using settle_live(1) [OF i] own_settle(1) by simp
    then have "live_timers t = []" "live_flights t = []" using False by (simp_all add: tracking_inv_def)
    then show ?thesis using r p by (simp add: remaining_steps_def)
  qed
qed

lemma remaining_bound: "tracking_inv s \<Longrightarrow> remaining_steps s \<le> 24"
  by (auto simp: remaining_steps_def split: list.splits)

lemma own_step_possible:
  assumes "tracking_inv s" "tk_isTracking s"
  shows "\<exists>t. own_step H U s t"
proof -
  have "live_timers s \<noteq> [] \<or> live_flights s \<noteq> []" using assms by (auto simp: tracking_inv_def)
  show ?thesis
  proof (cases "live_timers s")
    case (Cons u us)
    then show ?thesis using own_fire [of u s "max (tm_due u) (tk_clock s)"] by auto
  next
    case Nil
    with \<open>live_timers s \<noteq> [] \<or> live_flights s \<noteq> []\<close> obtain c cs where "live_flights s = c # cs" by (cases "live_flights s") auto
    then show ?thesis using own_settle [of c s "tk_clock s" H U False "Inl None"] by auto
  qed
qed

lemma own_steps:
  assumes "(own_step H U ^^ n) s t" "tracking_reachable H U F s"
  shows "tracking_reachable H U F t \<and> remaining_steps t + n \<le> remaining_steps s"
  using assms
proof (induction n arbitrary: t)
  case (Suc n)
  from Suc.prems(1) obtain m where m: "(own_step H U ^^ n) s m" "own_step H U m t" by auto
  with Suc have i: "tracking_reachable H U F m" "remaining_steps m + n \<le> remaining_steps s" by auto
  with m(2) show ?case
    using own_step_reachable own_step_decreases [OF tracking_reachable_inv [OF i(1)] m(2)] by fastforce
qed simp

section \<open>Properties\<close>

text \<open>The run in which a sample test opens the workflow page at time 0 and nothing is known of the rate limit.\<close>

definition opened_sample :: tracking where
  "opened_sample = handleOpen utc_host (\<lambda>_. []) True None (tracking_mount utc_host (\<lambda>_. None) 0 [])"

lemma opened_reachable: "tracking_reachable utc_host (\<lambda>_. None) (\<lambda>_. []) opened_sample"
  unfolding opened_sample_def by (rule k_next [OF k_start k_open])

lemma opened_tracks: "tk_isTracking opened_sample" "remaining_steps opened_sample = 24"
  by code_simp+

text \<open>C6. At any moment at most one poll counts: while the hook says that it is following a run there
  is exactly one pending timer or refresh of the current generation, otherwise none.  There is
  never a second timer: a pending timer is the one \<open>timerRef\<close> holds and belongs to the current
  generation, and no poll has gone through more than eleven refreshes.  Once the component is
  gone no timer is pending, and whatever still happens (time passes, refreshes under way are
  answered) changes nothing: no notice, no stored or shown run, no new timer.
\<close>

theorem tracking_single_poll:
  assumes "tracking_reachable H U F s" and "(gone_step H U)\<^sup>*\<^sup>* (tracking_unmount s) t"
  shows "length (live_timers s) + length (live_flights s) = (if tk_isTracking s then 1 else 0)
    \<and> length (tk_timers s) \<le> 1
    \<and> (\<forall>t\<in>set (tk_timers s). tk_timerRef s = Some (tm_id t) \<and> ch_generation (tm_chain t) = tk_generation s)
    \<and> (\<forall>c\<in>set (tk_flights s) \<union> tm_chain ` set (tk_timers s). ch_polls c \<le> 11)
    \<and> tk_timers (tracking_unmount s) = []
    \<and> t = (tracking_unmount s)\<lparr>tk_clock := tk_clock t, tk_flights := tk_flights t\<rparr>"
proof -
  note i = tracking_reachable_inv [OF assms(1)] and c = tracking_reachable_current [OF assms(1)]
  have n: "tk_timers (tracking_unmount s) = []" unfolding tracking_unmount_def by (rule cleared_timers [OF c])
  have "\<forall>c\<in>set (tk_flights (tracking_unmount s)). ch_generation c < tk_generation (tracking_unmount s)"
    using inv_generations(2) [OF i] by (auto simp: tracking_unmount_def)
  with gone_steps_same [OF assms(2) n] have g: "same_but_flights (tracking_unmount s) t" by blast
  have "length (live_timers s) + length (live_flights s) = (if tk_isTracking s then 1 else 0)"
      "\<forall>c\<in>set (tk_flights s) \<union> tm_chain ` set (tk_timers s). ch_polls c \<le> 11"
    using i by (auto simp: tracking_inv_def chain_ok_def)
  then show ?thesis
    using c [unfolded timers_current_def] single_timer [OF i c] n g [unfolded same_but_flights_def] by blast
qed

text \<open>The same run half a minute later, when its first refresh is under way.\<close>

definition polling_sample :: tracking where
  "polling_sample = fire_timer (hd (tk_timers opened_sample)) (opened_sample\<lparr>tk_clock := 30000\<rparr>)"

lemma polling_reachable: "tracking_reachable utc_host (\<lambda>_. None) (\<lambda>_. []) polling_sample"
proof -
  have "tracking_reachable utc_host (\<lambda>_. None) (\<lambda>_. []) (opened_sample\<lparr>tk_clock := 30000\<rparr>)"
    by (rule k_next [OF opened_reachable k_time]) code_simp
  then show ?thesis unfolding polling_sample_def by (rule k_next) (rule k_fire; code_simp)
qed

theorem tracking_single_poll_witness:
  "length (tk_flights polling_sample) = 1 \<and>
   (let u = settle_flight utc_host (\<lambda>_. None) True (hd (tk_flights polling_sample)) (Inl None) (tracking_unmount polling_sample)
    in tk_toasts u = [] \<and> tk_timers u = [])"
proof -
  let ?c = "hd (tk_flights polling_sample)"
  let ?u = "settle_flight utc_host (\<lambda>_. None) True ?c (Inl None) (tracking_unmount polling_sample)"
  have v: "length (tk_flights polling_sample) = 1" "tk_toasts (tracking_unmount polling_sample) = []"
      "?c \<in> set (tk_flights (tracking_unmount polling_sample))"
    by code_simp+
  have "(gone_step utc_host (\<lambda>_. None))\<^sup>*\<^sup>* (tracking_unmount polling_sample) ?u"
    by (rule r_into_rtranclp) (rule g_settle [OF v(3)])
  from tracking_single_poll [OF polling_reachable this]
  have n: "tk_timers (tracking_unmount polling_sample) = []"
      and u: "?u = (tracking_unmount polling_sample)\<lparr>tk_clock := tk_clock ?u, tk_flights := tk_flights ?u\<rparr>" by blast+
  have "tk_timers ?u = []" "tk_toasts ?u = []"
    using arg_cong [OF u, of tk_timers] arg_cong [OF u, of tk_toasts] n v(2) by simp_all
  with v(1) show ?thesis by (simp add: Let_def)
qed

text \<open>C7. The hook stops following a run: as long as it says that it is following one, its poll can go
  on, and its poll never takes more than 24 steps (a timer fires, a refresh is answered), whatever
  the refreshes give and however long they take.  When no step is left it is not following anything.
\<close>

theorem tracking_ends:
  assumes "tracking_reachable H U F s" and "(own_step H U ^^ n) s t"
  shows "n \<le> 24 \<and> (tk_isTracking t \<longleftrightarrow> (\<exists>u. own_step H U t u))"
proof -
  from own_steps [OF assms(2,1)] have t: "tracking_reachable H U F t" "remaining_steps t + n \<le> remaining_steps s" by auto
  note i = tracking_reachable_inv [OF t(1)]
  have "tk_isTracking t" if "own_step H U t u" for u
    using that live_timer_only(3) [OF i] only_live_flight(3) [OF i] by (auto elim: own_step.cases)
  then show ?thesis
    using remaining_bound [OF tracking_reachable_inv [OF assms(1)]] t(2) own_step_possible [OF i] by fastforce
qed

theorem tracking_ends_witness:
  "(own_step utc_host (\<lambda>_. None) ^^ 1) opened_sample polling_sample \<and> (\<exists>u. own_step utc_host (\<lambda>_. None) polling_sample u)"
proof -
  have "own_step utc_host (\<lambda>_. None) opened_sample polling_sample"
    unfolding polling_sample_def by (rule own_fire; code_simp)
  then have s: "(own_step utc_host (\<lambda>_. None) ^^ 1) opened_sample polling_sample" by auto
  have "tk_isTracking polling_sample" by code_simp
  with tracking_ends [OF opened_reachable s] s show ?thesis by blast
qed

section \<open>The rate limit\<close>

text \<open>Each of the two limits holds until a time; the empty text is no date.\<close>

definition primary_until :: "js_host \<Rightarrow> int option \<Rightarrow> string option \<Rightarrow> int \<Rightarrow> int option" where
  "primary_until H remaining resetAt reserve =
     (case remaining of Some n \<Rightarrow> if n \<le> reserve then date_parse H (or_else resetAt []) else None | None \<Rightarrow> None)"

definition until_holds :: "int option \<Rightarrow> int \<Rightarrow> bool" where
  "until_holds v now = (case v of None \<Rightarrow> False | Some t \<Rightarrow> now < t)"

lemma secondary_until: "isGithubSecondaryRateLimitBlocked H retryAt now = until_holds (date_parse H (or_else retryAt [])) now"
  by (simp add: isGithubSecondaryRateLimitBlocked_def until_holds_def)

lemma blocked_until:
  assumes "\<forall>n. remaining = Some n \<and> n \<le> reserve \<longrightarrow> date_parse H (or_else resetAt []) \<noteq> None"
  shows "isGithubApiRefreshBlocked H remaining resetAt secondaryRetryAt reserve now =
    (until_holds (primary_until H remaining resetAt reserve) now \<or> until_holds (date_parse H (or_else secondaryRetryAt [])) now)"
  using assms by (auto simp: isGithubApiRefreshBlocked_def secondary_until primary_until_def until_holds_def split: option.splits)

lemma candidates_until:
  assumes "date_parse H [] = None"
  shows "retry_candidates H remaining resetAt secondaryRetryAt reserve now =
    (if until_holds (primary_until H remaining resetAt reserve) now then [the resetAt] else [])
    @ (if until_holds (date_parse H (or_else secondaryRetryAt [])) now then [the secondaryRetryAt] else [])"
  using assms
  by (auto simp: retry_candidates_def map_filter_simps secondary_until or_else_def primary_until_def until_holds_def
      split: option.splits if_splits)

lemma until_text:
  assumes "date_parse H [] = None" "until_holds (date_parse H (or_else v [])) now"
  shows "date_parse H (or_else v []) = date_parse H (the v)"
  using assms by (auto simp: or_else_def until_holds_def split: option.splits)

text \<open>C29. A blocked refresh button is released, and not too early.  While the refresh is blocked there is a
  timer; when it fires, the refresh is allowed again; and until 50 milliseconds before it fires, the refresh
  stays blocked: the timer waits for the later of the two limits.  An exhausted limit whose reset time
  cannot be read is excluded; it blocks for good.\<close>

theorem refresh_unblocks:
  assumes "date_parse H [] = None"
    and "\<forall>n. remaining = Some n \<and> n \<le> reserve \<longrightarrow> date_parse H (or_else resetAt []) \<noteq> None"
    and "useGithubApiRefreshBlocked H remaining resetAt secondaryRetryAt reserve now = (True, delay)"
  shows "\<exists>d>50. delay = Some d \<and>
    useGithubApiRefreshBlocked H remaining resetAt secondaryRetryAt reserve (now + d) = (False, None) \<and>
    (\<forall>e. 0 \<le> e \<and> e < d - 50 \<longrightarrow> fst (useGithubApiRefreshBlocked H remaining resetAt secondaryRetryAt reserve (now + e)))"
proof -
  let ?p = "primary_until H remaining resetAt reserve" and ?q = "date_parse H (or_else secondaryRetryAt [])"
  have p: "?p = date_parse H (the resetAt)" if "until_holds ?p now"
    using that until_text [OF assms(1), of resetAt now] by (auto simp: primary_until_def until_holds_def split: option.splits if_splits)
  note q = until_text [OF assms(1), of secondaryRetryAt now]
  note b = blocked_until [OF assms(2)]
  have "until_holds ?p now \<or> until_holds ?q now" using assms(3) by (simp add: useGithubApiRefreshBlocked_def b)
  then obtain t where t: "getGithubApiRefreshRetryAt H remaining resetAt secondaryRetryAt reserve now = Some t"
      "until_holds (date_parse H t) now" "\<forall>u. ?p = Some u \<or> ?q = Some u \<longrightarrow> u \<le> the (date_parse H t)"
      "?p = date_parse H t \<or> ?q = date_parse H t"
    by (cases "until_holds ?p now"; cases "until_holds ?q now")
      (use p q in \<open>auto simp: getGithubApiRefreshRetryAt_def candidates_until [OF assms(1)] until_holds_def split: option.splits if_splits\<close>)
  define d where "d = the (date_parse H t) - now + 50"
  have d: "delay = Some d" "d > 50"
    using assms(3) t(1,2) by (auto simp: useGithubApiRefreshBlocked_def until_holds_def d_def split: option.splits)
  have "\<not> until_holds ?p (now + d)" "\<not> until_holds ?q (now + d)"
    using t(3) by (auto simp: until_holds_def d_def split: option.splits)
  then have f: "useGithubApiRefreshBlocked H remaining resetAt secondaryRetryAt reserve (now + d) = (False, None)"
    by (simp add: useGithubApiRefreshBlocked_def b)
  have "until_holds (date_parse H t) (now + e)" if "e < d - 50" for e
    using t(2) that by (auto simp: until_holds_def d_def split: option.splits)
  then have "fst (useGithubApiRefreshBlocked H remaining resetAt secondaryRetryAt reserve (now + e))" if "e < d - 50" for e
    using t(4) that by (auto simp: useGithubApiRefreshBlocked_def b)
  then show ?thesis using d f by blast
qed

text \<open>An exhausted limit that ends at midnight of the second day, seen at midnight of the first.\<close>

theorem refresh_unblocks_witness:
  "useGithubApiRefreshBlocked utc_host (Some 0) (Some ''1970-01-02T00:00:00Z'') None 10 0 = (True, Some 86400050) \<and>
   useGithubApiRefreshBlocked utc_host (Some 0) (Some ''1970-01-02T00:00:00Z'') None 10 86400050 = (False, None)"
proof -
  have e: "date_parse utc_host [] = None" "date_parse utc_host ''1970-01-02T00:00:00Z'' = Some 86400000" by code_simp+
  have r: "\<forall>n. Some 0 = Some n \<and> n \<le> (10::int) \<longrightarrow> date_parse utc_host (or_else (Some ''1970-01-02T00:00:00Z'') []) \<noteq> None"
    using e(2) by (simp add: or_else_def)
  have b: "useGithubApiRefreshBlocked utc_host (Some 0) (Some ''1970-01-02T00:00:00Z'') None 10 0 = (True, Some 86400050)"
    using e by code_simp
  from refresh_unblocks [OF e(1) r b] b show ?thesis by auto
qed

end
