(* ===== verification/Save_Diagnosis.thy ===== *)
theory Save_Diagnosis
  imports Service_Model JS_Json
begin

text \<open>
  The gateway diagnosis after a service is saved (\<open>app/dashboard/services/serviceSaveDiagnosis.ts\<close>),
  its display on the services page (\<open>page.tsx\<close>, \<open>ServiceSaveDiagnosisBanner.tsx\<close>) and the
  diagnoses read from the audit log (\<open>serviceGatewayDiagnosisAuditSnapshots.ts\<close>).

  The backend's answers are arguments: \<open>Inl\<close> is a failed call with the \<open>detail\<close> of its body, if
  there is one.
\<close>

section \<open>Data\<close>

datatype DiagnosisStatus = DOk | DWarning | DFail

record ServiceGatewayDiagnosticCheck =
  ck_key :: string
  ck_label :: string
  ck_status :: DiagnosisStatus
  ck_message :: string
  ck_details :: "(string \<times> json) list"

record ServiceGatewayDiagnosis =
  dg_service_id :: string
  dg_domain :: string
  dg_status :: DiagnosisStatus
  dg_summary :: string
  dg_checked_at :: string
  dg_checks :: "ServiceGatewayDiagnosticCheck list"

datatype SaveAction = ACreated | AUpdated

record ServiceSaveDiagnosisNotice =
  nt_action :: SaveAction
  nt_checkedAt :: string
  nt_diagnosis :: "ServiceGatewayDiagnosis option"
  nt_domain :: string
  nt_error :: "string option"
  nt_serviceId :: string

section \<open>Running the diagnosis\<close>

definition RETRY_DELAY_MS :: nat where "RETRY_DELAY_MS = 1000"
definition MAX_ATTEMPTS :: nat where "MAX_ATTEMPTS = 3"

type_synonym diagnosis_answer = "string option + ServiceGatewayDiagnosis"

text \<open>What the function does to the outside: it waits, and it asks the backend for a diagnosis.\<close>

datatype diagnosis_event = Waits nat | Asks string

definition shouldRetryDiagnosis :: "ServiceGatewayDiagnosis \<Rightarrow> bool" where
  "shouldRetryDiagnosis diagnosis =
     (case find (\<lambda>check. ck_key check = ''traefik_router'') (dg_checks diagnosis) of
        None \<Rightarrow> False
      | Some routerCheck \<Rightarrow> ck_status routerCheck = DFail \<and> str_includes (ck_message routerCheck) txt_dg_no_router)"

definition getDiagnosisErrorMessage :: "string option \<Rightarrow> string" where
  "getDiagnosisErrorMessage detail = or_else detail txt_dg_failed"

definition buildNotice ::
    "SaveAction \<Rightarrow> ServiceGatewayDiagnosis option \<Rightarrow> string option \<Rightarrow> Service \<Rightarrow> string \<Rightarrow> ServiceSaveDiagnosisNotice" where
  "buildNotice action diagnosis err service now =
     \<lparr>nt_action = action, nt_checkedAt = now, nt_diagnosis = diagnosis, nt_domain = svc_domain service,
      nt_error = err, nt_serviceId = svc_id service\<rparr>"

text \<open>
  The loop from \<open>attempt\<close> on.  \<open>answer n\<close> is what the \<open>n\<close>-th call gives; the result is the last
  diagnosis and the failure that ended the loop, if any.
\<close>

function attempt_loop ::
    "(nat \<Rightarrow> diagnosis_answer) \<Rightarrow> string \<Rightarrow> nat \<Rightarrow> ServiceGatewayDiagnosis option \<Rightarrow>
     diagnosis_event list \<times> ServiceGatewayDiagnosis option \<times> string option" where
  "attempt_loop answer serviceId attempt lastDiagnosis =
     (if attempt \<le> MAX_ATTEMPTS
      then case answer attempt of
          Inl detail \<Rightarrow> ([Waits RETRY_DELAY_MS, Asks serviceId], lastDiagnosis, Some (getDiagnosisErrorMessage detail))
        | Inr d \<Rightarrow>
            if \<not> shouldRetryDiagnosis d \<or> attempt = MAX_ATTEMPTS
            then ([Waits RETRY_DELAY_MS, Asks serviceId], Some d, None)
            else case attempt_loop answer serviceId (Suc attempt) (Some d) of
                (events, result) \<Rightarrow> (Waits RETRY_DELAY_MS # Asks serviceId # events, result)
      else ([], lastDiagnosis, None))"
  by pat_completeness auto
termination
  by (relation "measure (\<lambda>(_, _, attempt, _). Suc MAX_ATTEMPTS - attempt)") auto

declare attempt_loop.simps [simp del]

definition runServiceSaveDiagnosis ::
    "(nat \<Rightarrow> diagnosis_answer) \<Rightarrow> string \<Rightarrow> Service \<Rightarrow> SaveAction \<Rightarrow> diagnosis_event list \<times> ServiceSaveDiagnosisNotice" where
  "runServiceSaveDiagnosis answer now service action =
     (if svc_routing_mode service \<noteq> RActive
      then ([Asks (svc_id service)],
            case answer 1 of
              Inl detail \<Rightarrow> buildNotice action None (Some (getDiagnosisErrorMessage detail)) service now
            | Inr d \<Rightarrow> buildNotice action (Some d) None service now)
      else case attempt_loop answer (svc_id service) 1 None of
          (events, diagnosis, err) \<Rightarrow> (events, buildNotice action diagnosis err service now))"

section \<open>The session storage\<close>

definition SAVE_DIAGNOSIS_KEY :: string where "SAVE_DIAGNOSIS_KEY = ''traefik-manager:service-save-diagnosis''"
definition DIAGNOSIS_SNAPSHOT_KEY :: string where "DIAGNOSIS_SNAPSHOT_KEY = ''traefik-manager:service-diagnosis-snapshots''"

fun diagnosis_status_text :: "DiagnosisStatus \<Rightarrow> string" where
  "diagnosis_status_text DOk = ''ok''"
| "diagnosis_status_text DWarning = ''warning''"
| "diagnosis_status_text DFail = ''fail''"

definition check_json :: "ServiceGatewayDiagnosticCheck \<Rightarrow> json" where
  "check_json c = JObj
     [(''key'', JStr (ck_key c)), (''label'', JStr (ck_label c)), (''status'', JStr (diagnosis_status_text (ck_status c))),
      (''message'', JStr (ck_message c)), (''details'', JObj (ck_details c))]"

definition diagnosis_json :: "ServiceGatewayDiagnosis \<Rightarrow> json" where
  "diagnosis_json d = JObj
     [(''service_id'', JStr (dg_service_id d)), (''domain'', JStr (dg_domain d)),
      (''status'', JStr (diagnosis_status_text (dg_status d))), (''summary'', JStr (dg_summary d)),
      (''checked_at'', JStr (dg_checked_at d)), (''checks'', JArr (map check_json (dg_checks d)))]"

definition notice_json :: "ServiceSaveDiagnosisNotice \<Rightarrow> json" where
  "notice_json n = JObj
     [(''action'', JStr (case nt_action n of ACreated \<Rightarrow> ''created'' | AUpdated \<Rightarrow> ''updated'')),
      (''checkedAt'', JStr (nt_checkedAt n)),
      (''diagnosis'', case nt_diagnosis n of None \<Rightarrow> JNull | Some d \<Rightarrow> diagnosis_json d),
      (''domain'', JStr (nt_domain n)),
      (''error'', case nt_error n of None \<Rightarrow> JNull | Some e \<Rightarrow> JStr e),
      (''serviceId'', JStr (nt_serviceId n))]"

text \<open>
  \<open>value[key] = v\<close> on a value that was read as JSON: an array takes an index only as far as its
  text is concerned, and \<open>null\<close> and other primitives raise a \<open>TypeError\<close>.
\<close>

definition json_assign :: "string \<Rightarrow> json \<Rightarrow> json \<Rightarrow> js_error + json" where
  "json_assign k v target =
     (case target of
        JObj ps \<Rightarrow> Inr (JObj (obj_entries (obj_set k v ps)))
      | JArr xs \<Rightarrow>
          Inr (JArr (if index_key k
                     then (xs @ replicate (Suc (read_nat k) - length xs) JNull)[read_nat k := v]
                     else xs))
      | _ \<Rightarrow> Inl TypeError)"

definition readServiceDiagnosisSnapshots :: "string js_object \<Rightarrow> json" where
  "readServiceDiagnosisSnapshots st =
     (case obj_get DIAGNOSIS_SNAPSHOT_KEY st of
        None \<Rightarrow> JObj []
      | Some raw \<Rightarrow> if raw = [] then JObj [] else (case json_parse raw of None \<Rightarrow> JObj [] | Some v \<Rightarrow> v))"

text \<open>
  The storing functions give the storage they leave behind and whether they return; \<open>w\<close> tells
  whether the storage takes the text (a full one throws).
\<close>

definition storeServiceDiagnosisSnapshot :: "bool \<Rightarrow> ServiceSaveDiagnosisNotice \<Rightarrow> string js_object \<Rightarrow> string js_object \<times> bool" where
  "storeServiceDiagnosisSnapshot w notice st =
     (case json_assign (nt_serviceId notice) (notice_json notice) (readServiceDiagnosisSnapshots st) of
        Inl _ \<Rightarrow> (st, False)
      | Inr snapshots \<Rightarrow> if w then (obj_put DIAGNOSIS_SNAPSHOT_KEY (json_stringify snapshots) st, True) else (st, False))"

definition storeServiceSaveDiagnosisNotice ::
    "bool \<Rightarrow> bool \<Rightarrow> ServiceSaveDiagnosisNotice \<Rightarrow> string js_object \<Rightarrow> string js_object \<times> bool" where
  "storeServiceSaveDiagnosisNotice w1 w2 notice st =
     (if w1 then storeServiceDiagnosisSnapshot w2 notice (obj_put SAVE_DIAGNOSIS_KEY (json_stringify (notice_json notice)) st)
      else (st, False))"

definition consumeServiceSaveDiagnosisNotice :: "string js_object \<Rightarrow> json option \<times> string js_object" where
  "consumeServiceSaveDiagnosisNotice st =
     (case obj_get SAVE_DIAGNOSIS_KEY st of
        None \<Rightarrow> None
      | Some raw \<Rightarrow> if raw = [] then None else json_parse raw,
      filter (\<lambda>p. fst p \<noteq> SAVE_DIAGNOSIS_KEY) st)"

section \<open>The services page\<close>

definition is_routing_notice :: "ServiceSaveDiagnosisNotice \<Rightarrow> bool" where
  "is_routing_notice notice =
     (case nt_diagnosis notice of None \<Rightarrow> False | Some d \<Rightarrow> \<exists>check\<in>set (dg_checks d). ck_key check = ''routing_mode'')"

fun getDiagnosisStatusLabel :: "DiagnosisStatus option \<Rightarrow> string" where
  "getDiagnosisStatusLabel (Some DOk) = txt_dg_ok"
| "getDiagnosisStatusLabel (Some DWarning) = txt_dg_warning"
| "getDiagnosisStatusLabel (Some DFail) = txt_dg_problem"
| "getDiagnosisStatusLabel None = txt_dg_none"

definition buildServiceSaveToast :: "ServiceSaveDiagnosisNotice \<Rightarrow> ToastNoticeValue" where
  "buildServiceSaveToast notice =
     (let actionText = (case nt_action notice of ACreated \<Rightarrow> txt_dg_created | AUpdated \<Rightarrow> txt_dg_updated);
          diagnosisStatus =
            (if truthy (nt_error notice) then txt_dg_needs_check
             else if is_routing_notice notice then dg_summary (the (nt_diagnosis notice))
             else getDiagnosisStatusLabel (map_option dg_status (nt_diagnosis notice)))
      in \<lparr>tn_detail = Some (nt_domain notice @ txt_dg_dot @ diagnosisStatus), tn_link = None,
          tn_message = txt_dg_service @ actionText @ txt_dg_saved,
          tn_tone = (if map_option dg_status (nt_diagnosis notice) = Some DFail \<or> truthy (nt_error notice)
                     then ToneWarning else ToneSuccess)\<rparr>)"

definition getTargetNetwork :: "ServiceGatewayDiagnosis option \<Rightarrow> string option" where
  "getTargetNetwork diagnosis =
     (case Option.bind diagnosis (\<lambda>d. find (\<lambda>check. ck_key check = ''docker_network'' \<and> ck_status check = DFail) (dg_checks d)) of
        None \<Rightarrow> None
      | Some networkCheck \<Rightarrow>
          (case json_string (obj_get ''target_network'' (ck_details networkCheck)) of
             None \<Rightarrow> None
           | Some v \<Rightarrow> if js_trim v = [] then None else Some (js_trim v)))"

text \<open>The banner: its own state, the notice it shows and the session storage.\<close>

record banner =
  bn_connectionMessage :: "string option"
  bn_connectionError :: "string option"
  bn_isConnecting :: bool
  bn_notice :: ServiceSaveDiagnosisNotice
  bn_storage :: "string js_object"

definition banner_status :: "banner \<Rightarrow> DiagnosisStatus" where
  "banner_status b =
     (if truthy (nt_error (bn_notice b)) \<or> truthy (bn_connectionError b) then DWarning
      else case nt_diagnosis (bn_notice b) of None \<Rightarrow> DWarning | Some d \<Rightarrow> dg_status d)"

definition canConnectNetwork :: "bool \<Rightarrow> banner \<Rightarrow> bool" where
  "canConnectNetwork canManage b =
     (canManage \<and> getTargetNetwork (nt_diagnosis (bn_notice b)) \<noteq> None \<and> \<not> truthy (bn_connectionError b))"

definition getNetworkConnectErrorMessage :: "string option \<Rightarrow> string" where
  "getNetworkConnectErrorMessage detail = or_else detail txt_dg_connect_failed"

definition connect_begin :: "banner \<Rightarrow> banner option" where
  "connect_begin b =
     (if getTargetNetwork (nt_diagnosis (bn_notice b)) = None then None
      else Some (b\<lparr>bn_isConnecting := True, bn_connectionMessage := None, bn_connectionError := None\<rparr>))"

text \<open>
  The rest of \<open>handleConnectNetwork\<close>: \<open>connect\<close> and \<open>diagnosed\<close> are the answers of the two calls.
  An error of the snapshot store reaches the same handler and has no \<open>detail\<close>; reloading the
  queries does not reject.
\<close>

definition connect_finish ::
    "string option + string \<Rightarrow> diagnosis_answer \<Rightarrow> bool \<Rightarrow> string \<Rightarrow> banner \<Rightarrow> banner" where
  "connect_finish connect diagnosed w now b =
     (let fail = (\<lambda>detail b. b\<lparr>bn_connectionError := Some (getNetworkConnectErrorMessage detail)\<rparr>);
          b1 = (case connect of
                  Inl detail \<Rightarrow> fail detail b
                | Inr message \<Rightarrow>
                    (case diagnosed of
                       Inl detail \<Rightarrow> fail detail b
                     | Inr d \<Rightarrow>
                         let nextNotice = (bn_notice b)\<lparr>nt_checkedAt := now, nt_diagnosis := Some d, nt_error := None\<rparr>;
                             b2 = b\<lparr>bn_connectionMessage := Some message\<rparr>
                         in case storeServiceDiagnosisSnapshot w nextNotice (bn_storage b) of
                              (st, stored) \<Rightarrow>
                                if stored then b2\<lparr>bn_storage := st, bn_notice := nextNotice\<rparr>
                                else fail None (b2\<lparr>bn_storage := st\<rparr>)))
      in b1\<lparr>bn_isConnecting := False\<rparr>)"

section \<open>Diagnoses of the audit log\<close>

text \<open>The fields of \<open>AuditLogItem\<close> that are read; \<open>detail\<close> is an object or \<open>null\<close>.\<close>

record AuditLogItem =
  al_resource_id :: string
  al_resource_name :: string
  al_detail :: "(string \<times> json) list option"
  al_created_at :: string

definition toDiagnosisStatus :: "json option \<Rightarrow> DiagnosisStatus" where
  "toDiagnosisStatus v =
     (if v = Some (JStr ''ok'') then DOk else if v = Some (JStr ''warning'') then DWarning
      else if v = Some (JStr ''fail'') then DFail else DWarning)"

definition toCheckStatus :: "json option \<Rightarrow> DiagnosisStatus" where
  "toCheckStatus v =
     (if v = Some (JStr ''ok'') then DOk else if v = Some (JStr ''warning'') then DWarning
      else if v = Some (JStr ''fail'') then DFail else DWarning)"

text \<open>One item of \<open>checks\<close>; an array is an object without these properties.\<close>

definition to_check :: "json \<Rightarrow> ServiceGatewayDiagnosticCheck list" where
  "to_check item =
     (let key = json_string (json_field ''key'' item);
          label = (case json_string (json_field ''label'' item) of Some l \<Rightarrow> Some l | None \<Rightarrow> key);
          message = default_to [] (json_string (json_field ''message'' item))
      in if \<not> truthy key \<or> \<not> truthy label then []
         else [\<lparr>ck_key = the key, ck_label = the label, ck_status = toCheckStatus (json_field ''status'' item), ck_message = message,
                ck_details = (case json_field ''details'' item of Some (JObj ps) \<Rightarrow> ps | _ \<Rightarrow> [])\<rparr>])"

definition toDiagnosticChecks :: "json option \<Rightarrow> ServiceGatewayDiagnosticCheck list" where
  "toDiagnosticChecks v = (case v of Some (JArr items) \<Rightarrow> concat (map to_check items) | _ \<Rightarrow> [])"

definition toServiceDiagnosisNotice :: "AuditLogItem \<Rightarrow> ServiceSaveDiagnosisNotice option" where
  "toServiceDiagnosisNotice entry =
     (case al_detail entry of
        None \<Rightarrow> None
      | Some detail \<Rightarrow>
          if obj_get ''event'' detail \<noteq> Some (JStr ''service_gateway_diagnosis'') then None
          else let domain = default_to (al_resource_name entry) (json_string (obj_get ''domain'' detail));
                   checkedAt = default_to (al_created_at entry) (json_string (obj_get ''checked_at'' detail))
               in Some
                 \<lparr>nt_action = AUpdated, nt_checkedAt = checkedAt,
                  nt_diagnosis = Some
                    \<lparr>dg_service_id = al_resource_id entry, dg_domain = domain, dg_status = toDiagnosisStatus (obj_get ''status'' detail),
                     dg_summary = default_to txt_dg_summary (json_string (obj_get ''summary'' detail)),
                     dg_checked_at = checkedAt, dg_checks = toDiagnosticChecks (obj_get ''checks'' detail)\<rparr>,
                  nt_domain = domain, nt_error = None, nt_serviceId = al_resource_id entry\<rparr>)"

text \<open>Names that every object has without being given them; all of their values are truthy.\<close>

definition OBJECT_PROTOTYPE :: "string list" where
  "OBJECT_PROTOTYPE =
     [''constructor'', ''__defineGetter__'', ''__defineSetter__'', ''hasOwnProperty'', ''__lookupGetter__'', ''__lookupSetter__'',
      ''isPrototypeOf'', ''propertyIsEnumerable'', ''toString'', ''valueOf'', ''__proto__'', ''toLocaleString'']"

definition inherited :: "string \<Rightarrow> 'v js_object \<Rightarrow> bool" where
  "inherited k ps = (obj_get k ps = None \<and> k \<in> set OBJECT_PROTOTYPE)"

definition snapshot_log ::
    "AuditLogItem \<Rightarrow> ServiceSaveDiagnosisNotice js_object \<Rightarrow> ServiceSaveDiagnosisNotice js_object" where
  "snapshot_log entry snapshots =
     (if obj_get (al_resource_id entry) snapshots \<noteq> None \<or> inherited (al_resource_id entry) snapshots then snapshots
      else case toServiceDiagnosisNotice entry of
             None \<Rightarrow> snapshots
           | Some notice \<Rightarrow> obj_set (al_resource_id entry) notice snapshots)"

definition buildServiceDiagnosisSnapshotsFromAuditLogs :: "AuditLogItem list \<Rightarrow> ServiceSaveDiagnosisNotice js_object" where
  "buildServiceDiagnosisSnapshotsFromAuditLogs logs = fold snapshot_log logs []"

definition HISTORY_LIMIT :: nat where "HISTORY_LIMIT = 3"

text \<open>An inherited value is no array: the \<open>push\<close> on it is a \<open>TypeError\<close>.\<close>

fun history_loop ::
    "ServiceGatewayDiagnosis list js_object \<Rightarrow> AuditLogItem list \<Rightarrow> js_error + ServiceGatewayDiagnosis list js_object" where
  "history_loop histories [] = Inr histories"
| "history_loop histories (entry # logs) =
     (case Option.bind (toServiceDiagnosisNotice entry) nt_diagnosis of
        None \<Rightarrow> history_loop histories logs
      | Some d \<Rightarrow>
          if inherited (al_resource_id entry) histories then Inl TypeError
          else let history = default_to [] (obj_get (al_resource_id entry) histories) in
               if HISTORY_LIMIT \<le> length history then history_loop histories logs
               else history_loop (obj_put (al_resource_id entry) (history @ [d]) histories) logs)"

definition buildServiceDiagnosisHistoriesFromAuditLogs ::
    "AuditLogItem list \<Rightarrow> js_error + ServiceGatewayDiagnosis list js_object" where
  "buildServiceDiagnosisHistoriesFromAuditLogs logs = history_loop [] logs"

text \<open>\<open>mergeDiagnosisHistories\<close> on snapshots that hold notices; spreading an inherited value throws.\<close>

fun merge_loop ::
    "ServiceGatewayDiagnosis list js_object \<Rightarrow> ServiceSaveDiagnosisNotice list \<Rightarrow> js_error + ServiceGatewayDiagnosis list js_object" where
  "merge_loop histories [] = Inr histories"
| "merge_loop histories (notice # notices) =
     (case nt_diagnosis notice of
        None \<Rightarrow> merge_loop histories notices
      | Some d \<Rightarrow>
          if inherited (nt_serviceId notice) histories then Inl TypeError
          else let current = default_to [] (obj_get (nt_serviceId notice) histories);
                   alreadyFirst = (case current of c # _ \<Rightarrow> dg_checked_at c = dg_checked_at d | [] \<Rightarrow> False)
               in merge_loop (obj_put (nt_serviceId notice) (if alreadyFirst then current else take 3 (d # current)) histories) notices)"

definition mergeDiagnosisHistories ::
    "ServiceGatewayDiagnosis list js_object \<Rightarrow> ServiceSaveDiagnosisNotice js_object \<Rightarrow>
     js_error + ServiceGatewayDiagnosis list js_object" where
  "mergeDiagnosisHistories serverHistories localSnapshots =
     merge_loop serverHistories (map snd (obj_entries localSnapshots))"

end
