(* ===== verification/Save_Diagnosis_Correct.thy ===== *)
theory Save_Diagnosis_Correct
  imports Save_Diagnosis
begin

text \<open>
  The diagnosis after a save asks the backend at most three times and always ends in a notice; the
  notice reaches the services page through the session storage exactly once; the audit log gives
  each service its latest diagnoses.
\<close>

section \<open>The attempts\<close>

abbreviation attempt_events :: "nat \<Rightarrow> string \<Rightarrow> diagnosis_event list" where
  "attempt_events n sid \<equiv> concat (replicate n [Waits RETRY_DELAY_MS, Asks sid])"

lemma attempt_loop_spec:
  assumes "a \<le> MAX_ATTEMPTS"
  shows "\<exists>n. a \<le> n \<and> n \<le> MAX_ATTEMPTS \<and>
    (\<forall>k. a \<le> k \<and> k < n \<longrightarrow> (\<exists>d. answer k = Inr d \<and> shouldRetryDiagnosis d)) \<and>
    (n = MAX_ATTEMPTS \<or> (\<forall>d. answer n = Inr d \<longrightarrow> \<not> shouldRetryDiagnosis d)) \<and>
    attempt_loop answer sid a prev = (attempt_events (Suc n - a) sid,
      case answer n of
        Inl detail \<Rightarrow> (if n = a then prev else Some (projr (answer (n - 1))), Some (getDiagnosisErrorMessage detail))
      | Inr d \<Rightarrow> (Some d, None))"
  using assms
proof (induction "MAX_ATTEMPTS - a" arbitrary: a prev)
  case 0
  then show ?case by (intro exI [of _ a]) (auto simp: attempt_loop.simps [of answer sid MAX_ATTEMPTS] split: sum.splits)
next
  case (Suc m)
  show ?case
  proof (cases "\<exists>d. answer a = Inr d \<and> shouldRetryDiagnosis d")
    case False
    then show ?thesis
      using Suc.prems by (intro exI [of _ a]) (auto simp: attempt_loop.simps [of answer sid a] split: sum.splits)
  next
    case True
    then obtain d where d: "answer a = Inr d" "shouldRetryDiagnosis d" by blast
    have "m = MAX_ATTEMPTS - Suc a" "Suc a \<le> MAX_ATTEMPTS" using Suc.hyps(2) by auto
    from Suc.hyps(1) [OF this, of "Some d"] obtain n where n: "Suc a \<le> n" "n \<le> MAX_ATTEMPTS"
      "\<forall>k. Suc a \<le> k \<and> k < n \<longrightarrow> (\<exists>d. answer k = Inr d \<and> shouldRetryDiagnosis d)"
      "n = MAX_ATTEMPTS \<or> (\<forall>d. answer n = Inr d \<longrightarrow> \<not> shouldRetryDiagnosis d)"
      "attempt_loop answer sid (Suc a) (Some d) = (attempt_events (Suc n - Suc a) sid,
        case answer n of
          Inl detail \<Rightarrow> (if n = Suc a then Some d else Some (projr (answer (n - 1))), Some (getDiagnosisErrorMessage detail))
        | Inr d \<Rightarrow> (Some d, None))" by blast
    have ev: "attempt_events (Suc n - a) sid = Waits RETRY_DELAY_MS # Asks sid # attempt_events (Suc n - Suc a) sid"
      using n(1) by (simp add: Suc_diff_le)
    have k: "\<forall>k. a \<le> k \<and> k < n \<longrightarrow> (\<exists>d. answer k = Inr d \<and> shouldRetryDiagnosis d)"
      using n(3) d by (metis Suc_leI le_neq_implies_less)
    have "attempt_loop answer sid a prev =
        (Waits RETRY_DELAY_MS # Asks sid # attempt_events (Suc n - Suc a) sid,
         case answer n of
          Inl detail \<Rightarrow> (if n = Suc a then Some d else Some (projr (answer (n - 1))), Some (getDiagnosisErrorMessage detail))
        | Inr d \<Rightarrow> (Some d, None))"
      using d n(5) \<open>Suc a \<le> MAX_ATTEMPTS\<close> by (simp add: attempt_loop.simps [of answer sid a])
    then have "attempt_loop answer sid a prev = (attempt_events (Suc n - a) sid,
        case answer n of
          Inl detail \<Rightarrow> (if n = a then prev else Some (projr (answer (n - 1))), Some (getDiagnosisErrorMessage detail))
        | Inr d \<Rightarrow> (Some d, None))"
      unfolding ev using n(1) d(1) by (simp split: sum.splits)
    moreover have "a \<le> n" using n(1) by simp
    ultimately show ?thesis using n(2,4) k by blast
  qed
qed

text \<open>C8. Saving a service always ends in a notice, after at most three calls: a service that is not
  active is asked about once and at once; an active one is asked about again, a second after each
  answer, only while the answer says that the router is missing.  The notice carries the last
  diagnosis that was obtained, and an error exactly when the last call failed.\<close>

theorem save_diagnosis_ends:
  "\<exists>n events notice. runServiceSaveDiagnosis answer now service action = (events, notice) \<and> n \<in> {1, 2, 3}
    \<and> events = (if svc_routing_mode service = RActive then attempt_events n (svc_id service) else [Asks (svc_id service)])
    \<and> (svc_routing_mode service = RActive \<or> n = 1)
    \<and> (\<forall>k\<in>{1..<n}. \<exists>d. answer k = Inr d \<and> shouldRetryDiagnosis d)
    \<and> (n = 3 \<or> svc_routing_mode service \<noteq> RActive \<or> (\<forall>d. answer n = Inr d \<longrightarrow> \<not> shouldRetryDiagnosis d))
    \<and> notice = buildNotice action
        (case answer n of Inr d \<Rightarrow> Some d | Inl _ \<Rightarrow> if n = 1 then None else Some (projr (answer (n - 1))))
        (case answer n of Inr _ \<Rightarrow> None | Inl detail \<Rightarrow> Some (getDiagnosisErrorMessage detail)) service now"
proof (cases "svc_routing_mode service = RActive")
  case False
  then show ?thesis by (intro exI [of _ 1]) (auto simp: runServiceSaveDiagnosis_def split: sum.splits)
next
  case True
  have "1 \<le> MAX_ATTEMPTS" by (simp add: MAX_ATTEMPTS_def)
  from attempt_loop_spec [OF this, of answer "svc_id service" None] obtain n where n: "1 \<le> n" "n \<le> MAX_ATTEMPTS"
    "\<forall>k. 1 \<le> k \<and> k < n \<longrightarrow> (\<exists>d. answer k = Inr d \<and> shouldRetryDiagnosis d)"
    "n = MAX_ATTEMPTS \<or> (\<forall>d. answer n = Inr d \<longrightarrow> \<not> shouldRetryDiagnosis d)"
    "attempt_loop answer (svc_id service) 1 None = (attempt_events (Suc n - 1) (svc_id service),
      case answer n of
        Inl detail \<Rightarrow> (if n = 1 then None else Some (projr (answer (n - 1))), Some (getDiagnosisErrorMessage detail))
      | Inr d \<Rightarrow> (Some d, None))" by blast
  have "n \<in> {1, 2, 3}" using n(1,2) by (auto simp: MAX_ATTEMPTS_def)
  then show ?thesis
    using True n(3-5)
    by (intro exI [of _ n] exI conjI) (auto simp: runServiceSaveDiagnosis_def MAX_ATTEMPTS_def split: sum.splits)
qed

text \<open>A diagnosis that says that the router is missing.\<close>

definition missing_router :: ServiceGatewayDiagnosis where
  "missing_router = \<lparr>dg_service_id = ''s1'', dg_domain = ''a.example'', dg_status = DFail, dg_summary = ''x'', dg_checked_at = ''t'',
     dg_checks = [\<lparr>ck_key = ''traefik_router'', ck_label = ''Router'', ck_status = DFail, ck_message = txt_dg_no_router, ck_details = []\<rparr>]\<rparr>"

lemma missing_router_retry: "shouldRetryDiagnosis missing_router"
  by code_simp

theorem save_diagnosis_ends_witness:
  "\<exists>notice. runServiceSaveDiagnosis (\<lambda>_. Inr missing_router) ''t'' (sample_service ''s1'' ''n'' ''a.example'' RActive) AUpdated
     = (attempt_events 3 ''s1'', notice) \<and> nt_error notice = None \<and> nt_diagnosis notice = Some missing_router"
proof -
  obtain n events notice where n: "runServiceSaveDiagnosis (\<lambda>_. Inr missing_router) ''t'' (sample_service ''s1'' ''n'' ''a.example'' RActive) AUpdated
      = (events, notice)" "events = attempt_events n ''s1''" "n = 3"
      "notice = buildNotice AUpdated (Some missing_router) None (sample_service ''s1'' ''n'' ''a.example'' RActive) ''t''"
    using save_diagnosis_ends [of "\<lambda>_. Inr missing_router" "''t''" "sample_service ''s1'' ''n'' ''a.example'' RActive" AUpdated]
      missing_router_retry by auto
  then show ?thesis by (simp add: buildNotice_def)
qed

section \<open>Handing the notice over\<close>

lemma obj_entries_idem: "obj_entries (obj_entries ps) = obj_entries ps"
proof -
  have f: "filter (\<lambda>p. index_key (fst p)) (obj_entries ps) = js_sort (key_cmp (\<lambda>p. int (read_nat (fst p)))) (filter (\<lambda>p. index_key (fst p)) ps)"
      "filter (\<lambda>p. \<not> index_key (fst p)) (obj_entries ps) = filter (\<lambda>p. \<not> index_key (fst p)) ps"
    by (auto simp: obj_entries_def filter_empty_conv intro!: filter_True)
  show ?thesis
    unfolding obj_entries_def [of "obj_entries ps"] f
    by (simp add: obj_entries_def key.js_sort_id key.js_sort_sorted)
qed

lemma obj_get_map_of: "obj_get k ps = map_of ps k"
  by (induction ps) auto

lemma obj_entries_keys: "distinct (map fst ps) \<Longrightarrow> distinct (map fst (obj_entries ps))"
  by (metis mset_map mset_eq_imp_distinct_iff obj_entries_mset)

lemma set_obj_entries [simp]: "set (obj_entries ps) = set ps"
  by (metis obj_entries_mset set_mset_mset)

lemma obj_get_entries:
  assumes "distinct (map fst ps)"
  shows "obj_get k (obj_entries ps) = obj_get k ps"
proof -
  have "map_of (obj_entries ps) k = Some v \<longleftrightarrow> map_of ps k = Some v" for v
    using assms obj_entries_keys [OF assms] by (simp add: map_of_eq_Some_iff)
  then show ?thesis by (metis obj_get_map_of option.exhaust)
qed

lemma set_obj_put: "set (obj_put k v ps) \<subseteq> insert (k, v) (set ps)"
  by (induction ps) (auto split: if_splits)

text \<open>A notice is written in full when the details of its checks are.\<close>

definition notice_ok :: "ServiceSaveDiagnosisNotice \<Rightarrow> bool" where
  "notice_ok n =
     (case nt_diagnosis n of None \<Rightarrow> True | Some d \<Rightarrow> list_all (\<lambda>c. json_wf (JObj (ck_details c))) (dg_checks d))"

lemma plain_object:
  "distinct (map fst ps) \<Longrightarrow> list_all (\<lambda>p. \<not> index_key (fst p)) ps \<Longrightarrow> list_all (\<lambda>p. json_wf (snd p)) ps \<Longrightarrow> json_wf (JObj ps)"
  by (simp add: obj_entries_plain)

lemma check_json_wf: "json_wf (JObj (ck_details c)) \<Longrightarrow> json_wf (check_json c)"
  unfolding check_json_def by (rule plain_object) (simp_all add: index_key_def is_digit_def)

lemma diagnosis_json_wf: "list_all (\<lambda>c. json_wf (JObj (ck_details c))) (dg_checks d) \<Longrightarrow> json_wf (diagnosis_json d)"
  unfolding diagnosis_json_def
  by (rule plain_object) (auto simp: index_key_def is_digit_def list_all_iff check_json_wf simp del: json_wf.simps(3))

lemma notice_json_wf: "notice_ok n \<Longrightarrow> json_wf (notice_json n)"
  unfolding notice_json_def
  by (rule plain_object)
    (auto simp: index_key_def is_digit_def notice_ok_def diagnosis_json_wf split: option.splits simp del: json_wf.simps(3))

lemma stringify_parse: "json_wf v \<Longrightarrow> json_parse (json_stringify v) = Some v"
  using json_roundtrip [of v "[]"] by (simp add: json_stringify_def)

lemma json_parse_empty: "json_parse [] = None"
  by code_simp

lemma stringify_nonempty: "json_wf v \<Longrightarrow> json_stringify v \<noteq> []"
  using stringify_parse [of v] json_parse_empty by (metis option.distinct(1))

text \<open>Storing a snapshot in a storage whose snapshots are an object.\<close>

lemma store_snapshot:
  assumes "notice_ok n" "readServiceDiagnosisSnapshots st = JObj ps" "json_wf (JObj ps)" "nt_serviceId n \<noteq> ''__proto__''"
  obtains qs where
    "storeServiceDiagnosisSnapshot True n st = (obj_put DIAGNOSIS_SNAPSHOT_KEY (json_stringify (JObj qs)) st, True)"
    "json_wf (JObj qs)" "\<And>k. obj_get k qs = (if k = nt_serviceId n then Some (notice_json n) else obj_get k ps)"
proof
  let ?qs = "obj_entries (obj_put (nt_serviceId n) (notice_json n) ps)"
  show "storeServiceDiagnosisSnapshot True n st = (obj_put DIAGNOSIS_SNAPSHOT_KEY (json_stringify (JObj ?qs)) st, True)"
    using assms(2,4) by (simp add: storeServiceDiagnosisSnapshot_def json_assign_def obj_set_def)
  have d: "distinct (map fst (obj_put (nt_serviceId n) (notice_json n) ps))" using assms(3) by (simp add: obj_put_distinct)
  have "json_wf v" if "(k, v) \<in> set (obj_put (nt_serviceId n) (notice_json n) ps)" for k v
    using that set_obj_put assms(3) notice_json_wf [OF assms(1)] by (fastforce simp: list_all_iff)
  then show "json_wf (JObj ?qs)" using obj_entries_keys [OF d] by (auto simp: obj_entries_idem list_all_iff)
  show "obj_get k ?qs = (if k = nt_serviceId n then Some (notice_json n) else obj_get k ps)" for k
    by (simp add: obj_get_entries [OF d] obj_get_put)
qed

lemma obj_get_filter: "obj_get k (filter (\<lambda>p. fst p \<noteq> j) st) = (if k = j then None else obj_get k st)"
  by (induction st) auto

lemma diagnosis_keys_differ: "DIAGNOSIS_SNAPSHOT_KEY \<noteq> SAVE_DIAGNOSIS_KEY"
  by (simp add: DIAGNOSIS_SNAPSHOT_KEY_def SAVE_DIAGNOSIS_KEY_def)

text \<open>The notice of a save reaches the services page exactly once: after it is stored, the page
  takes that very notice, a second page takes nothing, and the snapshots then have this notice for
  its service and, for every other service, what they had.\<close>

theorem save_notice_handover:
  assumes "notice_ok n" and "readServiceDiagnosisSnapshots st = JObj ps" and "json_wf (JObj ps)"
    and "nt_serviceId n \<noteq> ''__proto__''"
  shows "\<exists>st1 st2 qs. storeServiceSaveDiagnosisNotice True True n st = (st1, True)
    \<and> consumeServiceSaveDiagnosisNotice st1 = (Some (notice_json n), st2)
    \<and> consumeServiceSaveDiagnosisNotice st2 = (None, st2)
    \<and> readServiceDiagnosisSnapshots st2 = JObj qs
    \<and> (\<forall>k. obj_get k qs = (if k = nt_serviceId n then Some (notice_json n) else obj_get k ps))"
proof -
  let ?st0 = "obj_put SAVE_DIAGNOSIS_KEY (json_stringify (notice_json n)) st"
  have r: "readServiceDiagnosisSnapshots ?st0 = JObj ps"
    using assms(2) diagnosis_keys_differ by (simp add: readServiceDiagnosisSnapshots_def obj_get_put)
  from store_snapshot [OF assms(1) r assms(3,4)] obtain qs where qs:
    "storeServiceDiagnosisSnapshot True n ?st0 = (obj_put DIAGNOSIS_SNAPSHOT_KEY (json_stringify (JObj qs)) ?st0, True)"
    "json_wf (JObj qs)" "\<And>k. obj_get k qs = (if k = nt_serviceId n then Some (notice_json n) else obj_get k ps)" by blast
  let ?st1 = "obj_put DIAGNOSIS_SNAPSHOT_KEY (json_stringify (JObj qs)) ?st0"
  let ?st2 = "filter (\<lambda>p. fst p \<noteq> SAVE_DIAGNOSIS_KEY) ?st1"
  note w = notice_json_wf [OF assms(1)]
  have "consumeServiceSaveDiagnosisNotice ?st1 = (Some (notice_json n), ?st2)"
    using diagnosis_keys_differ w
    by (simp add: consumeServiceSaveDiagnosisNotice_def obj_get_put stringify_parse stringify_nonempty)
  moreover have "consumeServiceSaveDiagnosisNotice ?st2 = (None, ?st2)"
    by (simp add: consumeServiceSaveDiagnosisNotice_def obj_get_filter)
  moreover have "readServiceDiagnosisSnapshots ?st2 = JObj qs"
    using diagnosis_keys_differ qs(2)
    by (simp add: readServiceDiagnosisSnapshots_def obj_get_filter obj_get_put stringify_parse stringify_nonempty del: json_wf.simps)
  moreover have "storeServiceSaveDiagnosisNotice True True n st = (?st1, True)"
    using qs(1) by (simp add: storeServiceSaveDiagnosisNotice_def)
  ultimately show ?thesis using qs(3) by blast
qed

definition sample_notice :: ServiceSaveDiagnosisNotice where
  "sample_notice = buildNotice ACreated (Some missing_router) None (sample_service ''s1'' ''n'' ''a.example'' RActive) ''t''"

section \<open>Diagnoses of the audit log\<close>

text \<open>The diagnoses of one service, in the order of the log, and its first notice.\<close>

definition service_notices :: "string \<Rightarrow> AuditLogItem list \<Rightarrow> ServiceSaveDiagnosisNotice list" where
  "service_notices sid logs = List.map_filter toServiceDiagnosisNotice (filter (\<lambda>l. al_resource_id l = sid) logs)"

lemma service_notices_simps [simp]:
  "service_notices sid [] = []"
  "service_notices sid (l # logs) =
     (if al_resource_id l = sid then (case toServiceDiagnosisNotice l of None \<Rightarrow> [] | Some n \<Rightarrow> [n]) else []) @ service_notices sid logs"
  by (auto simp: service_notices_def map_filter_simps split: option.splits)

lemma notice_has_diagnosis: "toServiceDiagnosisNotice l = Some n \<Longrightarrow> nt_diagnosis n \<noteq> None"
  by (auto simp: toServiceDiagnosisNotice_def Let_def split: option.splits if_splits)

lemma snapshots_fold:
  assumes "sid \<notin> set OBJECT_PROTOTYPE"
  shows "obj_get sid (fold snapshot_log logs snap) =
    (case obj_get sid snap of Some n \<Rightarrow> Some n | None \<Rightarrow> (case service_notices sid logs of [] \<Rightarrow> None | n # _ \<Rightarrow> Some n))"
proof (induction logs arbitrary: snap)
  case (Cons l logs)
  have "sid \<noteq> ''__proto__''" using assms by (auto simp: OBJECT_PROTOTYPE_def)
  then have "obj_get sid (snapshot_log l snap) =
      (case obj_get sid snap of Some n \<Rightarrow> Some n | None \<Rightarrow> if al_resource_id l = sid then toServiceDiagnosisNotice l else None)"
    using assms by (auto simp: snapshot_log_def inherited_def obj_set_def obj_get_put split: option.splits)
  then show ?case using Cons [of "snapshot_log l snap"] by (auto split: option.splits list.splits)
qed (simp split: option.splits)

lemma history_fold:
  assumes "\<forall>l\<in>set logs. al_resource_id l \<notin> set OBJECT_PROTOTYPE"
  shows "\<exists>h. history_loop hist logs = Inr h \<and>
    (\<forall>sid. length (default_to [] (obj_get sid hist)) \<le> HISTORY_LIMIT \<longrightarrow>
      default_to [] (obj_get sid h) =
        take HISTORY_LIMIT (default_to [] (obj_get sid hist) @ map (the \<circ> nt_diagnosis) (service_notices sid logs)))"
  using assms
proof (induction logs arbitrary: hist)
  case (Cons l logs)
  show ?case
  proof (cases "toServiceDiagnosisNotice l")
    case None
    then show ?thesis using Cons.IH [of hist] Cons.prems by simp
  next
    case (Some n)
    then obtain d where d: "nt_diagnosis n = Some d" using notice_has_diagnosis by blast
    have ni: "\<not> inherited (al_resource_id l) hist" using Cons.prems by (simp add: inherited_def)
    let ?old = "default_to [] (obj_get (al_resource_id l) hist)"
    let ?hist = "if HISTORY_LIMIT \<le> length ?old then hist else obj_put (al_resource_id l) (?old @ [d]) hist"
    have "\<forall>l\<in>set logs. al_resource_id l \<notin> set OBJECT_PROTOTYPE" using Cons.prems by simp
    from Cons.IH [OF this, of ?hist] obtain h where h: "history_loop ?hist logs = Inr h"
      "\<forall>sid. length (default_to [] (obj_get sid ?hist)) \<le> HISTORY_LIMIT \<longrightarrow> default_to [] (obj_get sid h) =
        take HISTORY_LIMIT (default_to [] (obj_get sid ?hist) @ map (the \<circ> nt_diagnosis) (service_notices sid logs))" by blast
    have "history_loop hist (l # logs) = Inr h" using h(1) Some d ni by (auto simp: Let_def split: if_splits)
    moreover have "default_to [] (obj_get sid h) =
        take HISTORY_LIMIT (default_to [] (obj_get sid hist) @ map (the \<circ> nt_diagnosis) (service_notices sid (l # logs)))"
      if "length (default_to [] (obj_get sid hist)) \<le> HISTORY_LIMIT" for sid
      using that h(2) Some d by (auto simp: obj_get_put default_to_def split: if_splits)
    ultimately show ?thesis by blast
  qed
qed (auto simp: default_to_def)

text \<open>The services page shows for each service the first three diagnoses of the audit log, in its
  order, and the first notice as its snapshot; a service without a diagnosis has neither.  Service
  ids that every object knows (such as \<open>constructor\<close>) are excluded.\<close>

theorem audit_diagnoses:
  assumes "\<forall>l\<in>set logs. al_resource_id l \<notin> set OBJECT_PROTOTYPE" and "sid \<notin> set OBJECT_PROTOTYPE"
  shows "\<exists>h. buildServiceDiagnosisHistoriesFromAuditLogs logs = Inr h
    \<and> default_to [] (obj_get sid h) = take 3 (map (the \<circ> nt_diagnosis) (service_notices sid logs))
    \<and> obj_get sid (buildServiceDiagnosisSnapshotsFromAuditLogs logs)
        = (case service_notices sid logs of [] \<Rightarrow> None | n # _ \<Rightarrow> Some n)"
  using history_fold [OF assms(1), of "[]"] snapshots_fold [OF assms(2), of logs "[]"]
  by (auto simp: buildServiceDiagnosisHistoriesFromAuditLogs_def buildServiceDiagnosisSnapshotsFromAuditLogs_def
      default_to_def HISTORY_LIMIT_def)

definition sample_log :: "string \<Rightarrow> string \<Rightarrow> AuditLogItem" where
  "sample_log sid t = \<lparr>al_resource_id = sid, al_resource_name = ''n'',
     al_detail = Some [(''event'', JStr ''service_gateway_diagnosis''), (''status'', JStr ''ok'')], al_created_at = t\<rparr>"

end
