(* ===== verification/Ui_Text_Admin.thy ===== *)
theory Ui_Text_Admin
  imports Main
begin

text \<open>
  The Korean texts of the audit log, export, middleware and smoke statistics components, as
  UTF-8 byte lists.  Each name says in English what the text says.
\<close>

definition txt_au_all :: string where
  "txt_au_all =
     [CHR 0xEC, CHR 0xA0, CHR 0x84, CHR 0xEC, CHR 0xB2, CHR 0xB4]"

definition txt_au_security :: string where
  "txt_au_security =
     [CHR 0xEB, CHR 0xB3, CHR 0xB4, CHR 0xEC, CHR 0x95, CHR 0x88, CHR 0x20, CHR 0xEC, CHR 0x9D,
      CHR 0xB4, CHR 0xEB, CHR 0xB2, CHR 0xA4, CHR 0xED, CHR 0x8A, CHR 0xB8]"

definition txt_au_alert :: string where
  "txt_au_alert =
     [CHR 0xEC, CHR 0x95, CHR 0x8C, CHR 0xEB, CHR 0xA6, CHR 0xBC, CHR 0x20, CHR 0xEC, CHR 0xA0,
      CHR 0x84, CHR 0xEC, CHR 0x86, CHR 0xA1]"

definition txt_au_delayed :: string where
  "txt_au_delayed =
     [CHR 0xEC, CHR 0xA7, CHR 0x80, CHR 0xEC, CHR 0x97, CHR 0xB0, CHR 0x20, CHR 0xEC, CHR 0x9E,
      CHR 0xAC, CHR 0xEC, CHR 0x8B, CHR 0x9C, CHR 0xEB, CHR 0x8F, CHR 0x84]"

definition txt_au_set_update :: string where
  "txt_au_set_update =
     [CHR 0xEC, CHR 0x84, CHR 0xA4, CHR 0xEC, CHR 0xA0, CHR 0x95, CHR 0x20, CHR 0xEB, CHR 0xB3,
      CHR 0x80, CHR 0xEA, CHR 0xB2, CHR 0xBD]"

definition txt_au_set_test :: string where
  "txt_au_set_test =
     [CHR 0xEC, CHR 0x84, CHR 0xA4, CHR 0xEC, CHR 0xA0, CHR 0x95, CHR 0x20, CHR 0xED, CHR 0x85,
      CHR 0x8C, CHR 0xEC, CHR 0x8A, CHR 0xA4, CHR 0xED, CHR 0x8A, CHR 0xB8]"

definition txt_au_set_rollback :: string where
  "txt_au_set_rollback =
     [CHR 0xEC, CHR 0x84, CHR 0xA4, CHR 0xEC, CHR 0xA0, CHR 0x95, CHR 0x20, CHR 0xEB, CHR 0xA1,
      CHR 0xA4, CHR 0xEB, CHR 0xB0, CHR 0xB1]"

definition txt_au_rotation :: string where
  "txt_au_rotation =
     [CHR 0xEC, CHR 0x8A, CHR 0xA4, CHR 0xEB, CHR 0xAA, CHR 0xA8, CHR 0xED, CHR 0x81, CHR 0xAC,
      CHR 0x20, CHR 0xEA, CHR 0xB3, CHR 0x84, CHR 0xEC, CHR 0xA0, CHR 0x95, CHR 0x20, CHR 0xEC,
      CHR 0xA0, CHR 0x90, CHR 0xEA, CHR 0xB2, CHR 0x80, CHR 0x20, CHR 0xEA, CHR 0xB2, CHR 0xB0,
      CHR 0xEA, CHR 0xB3, CHR 0xBC]"

definition txt_au_rotation_failed :: string where
  "txt_au_rotation_failed =
     [CHR 0xEC, CHR 0x8A, CHR 0xA4, CHR 0xEB, CHR 0xAA, CHR 0xA8, CHR 0xED, CHR 0x81, CHR 0xAC,
      CHR 0x20, CHR 0xEA, CHR 0xB3, CHR 0x84, CHR 0xEC, CHR 0xA0, CHR 0x95, CHR 0x20, CHR 0xEC,
      CHR 0xA0, CHR 0x90, CHR 0xEA, CHR 0xB2, CHR 0x80, CHR 0x20, CHR 0xEC, CHR 0x8B, CHR 0xA4,
      CHR 0xED, CHR 0x8C, CHR 0xA8]"

definition txt_au_github :: string where
  "txt_au_github =
     [CHR 0x47, CHR 0x69, CHR 0x74, CHR 0x48, CHR 0x75, CHR 0x62, CHR 0x20, CHR 0x41, CHR 0x50,
      CHR 0x49, CHR 0x20, CHR 0xEC, CHR 0xA0, CHR 0x9C, CHR 0xED, CHR 0x95, CHR 0x9C]"

definition txt_au_cleanup :: string where
  "txt_au_cleanup =
     [CHR 0xEB, CHR 0xB3, CHR 0x91, CHR 0xEB, CHR 0xAA, CHR 0xA9, CHR 0x20, CHR 0xEC, CHR 0x9D,
      CHR 0xB4, CHR 0xEB, CHR 0xB2, CHR 0xA4, CHR 0xED, CHR 0x8A, CHR 0xB8, CHR 0x20, CHR 0xEC,
      CHR 0xA0, CHR 0x95, CHR 0xEB, CHR 0xA6, CHR 0xAC]"

definition txt_au_locked :: string where
  "txt_au_locked =
     [CHR 0xEA, CHR 0xB3, CHR 0x84, CHR 0xEC, CHR 0xA0, CHR 0x95, CHR 0x20, CHR 0xEC, CHR 0x9E,
      CHR 0xA0, CHR 0xEA, CHR 0xB8, CHR 0x88]"

definition txt_au_suspicious :: string where
  "txt_au_suspicious =
     [CHR 0xEC, CHR 0x9D, CHR 0xB4, CHR 0xEC, CHR 0x83, CHR 0x81, CHR 0x20, CHR 0xEC, CHR 0xA7,
      CHR 0x95, CHR 0xED, CHR 0x9B, CHR 0x84]"

definition txt_au_blocked_ip :: string where
  "txt_au_blocked_ip =
     [CHR 0x49, CHR 0x50, CHR 0x20, CHR 0xEC, CHR 0xB0, CHR 0xA8, CHR 0xEB, CHR 0x8B, CHR 0xA8]"

definition txt_au_login_failure :: string where
  "txt_au_login_failure =
     [CHR 0xEB, CHR 0xA1, CHR 0x9C, CHR 0xEA, CHR 0xB7, CHR 0xB8, CHR 0xEC, CHR 0x9D, CHR 0xB8,
      CHR 0x20, CHR 0xEC, CHR 0x8B, CHR 0xA4, CHR 0xED, CHR 0x8C, CHR 0xA8]"

definition txt_au_manager :: string where
  "txt_au_manager =
     [CHR 0x4D, CHR 0x61, CHR 0x6E, CHR 0x61, CHR 0x67, CHR 0x65, CHR 0x72, CHR 0x20, CHR 0xEC,
      CHR 0xA0, CHR 0x84, CHR 0xEC, CHR 0xB2, CHR 0xB4]"

definition txt_au_cert_warning :: string where
  "txt_au_cert_warning =
     [CHR 0xEC, CHR 0x9D, CHR 0xB8, CHR 0xEC, CHR 0xA6, CHR 0x9D, CHR 0xEC, CHR 0x84, CHR 0x9C,
      CHR 0x20, CHR 0xEB, CHR 0xA7, CHR 0x8C, CHR 0xEB, CHR 0xA3, CHR 0x8C, CHR 0x20, CHR 0xEC,
      CHR 0x9E, CHR 0x84, CHR 0xEB, CHR 0xB0, CHR 0x95]"

definition txt_au_cert_error :: string where
  "txt_au_cert_error =
     [CHR 0xEC, CHR 0x9D, CHR 0xB8, CHR 0xEC, CHR 0xA6, CHR 0x9D, CHR 0xEC, CHR 0x84, CHR 0x9C,
      CHR 0x20, CHR 0xEB, CHR 0xA7, CHR 0x8C, CHR 0xEB, CHR 0xA3, CHR 0x8C]"

definition txt_au_cert_recovered :: string where
  "txt_au_cert_recovered =
     [CHR 0xEC, CHR 0x9D, CHR 0xB8, CHR 0xEC, CHR 0xA6, CHR 0x9D, CHR 0xEC, CHR 0x84, CHR 0x9C,
      CHR 0x20, CHR 0xEB, CHR 0xB3, CHR 0xB5, CHR 0xEA, CHR 0xB5, CHR 0xAC]"

definition txt_au_preflight :: string where
  "txt_au_preflight =
     [CHR 0xEC, CHR 0x9D, CHR 0xB8, CHR 0xEC, CHR 0xA6, CHR 0x9D, CHR 0xEC, CHR 0x84, CHR 0x9C,
      CHR 0x20, CHR 0xEC, CHR 0x82, CHR 0xAC, CHR 0xEC, CHR 0xA0, CHR 0x84, CHR 0x20, CHR 0xEC,
      CHR 0xA7, CHR 0x84, CHR 0xEB, CHR 0x8B, CHR 0xA8]"

definition txt_au_preflight_repeated :: string where
  "txt_au_preflight_repeated =
     [CHR 0xEC, CHR 0x9D, CHR 0xB8, CHR 0xEC, CHR 0xA6, CHR 0x9D, CHR 0xEC, CHR 0x84, CHR 0x9C,
      CHR 0x20, CHR 0xEC, CHR 0x82, CHR 0xAC, CHR 0xEC, CHR 0xA0, CHR 0x84, CHR 0x20, CHR 0xEC,
      CHR 0xA7, CHR 0x84, CHR 0xEB, CHR 0x8B, CHR 0xA8, CHR 0x20, CHR 0xEB, CHR 0xB0, CHR 0x98,
      CHR 0xEB, CHR 0xB3, CHR 0xB5, CHR 0x20, CHR 0xEC, CHR 0x8B, CHR 0xA4, CHR 0xED, CHR 0x8C,
      CHR 0xA8]"

definition txt_au_source_all :: string where
  "txt_au_source_all =
     [CHR 0xEC, CHR 0x86, CHR 0x8C, CHR 0xEC, CHR 0x8A, CHR 0xA4, CHR 0x20, CHR 0xEC, CHR 0xA0,
      CHR 0x84, CHR 0xEC, CHR 0xB2, CHR 0xB4]"

definition txt_au_source_api :: string where
  "txt_au_source_api =
     [CHR 0x41, CHR 0x50, CHR 0x49, CHR 0xC2, CHR 0xB7, CHR 0xEB, CHR 0xA1, CHR 0x9C, CHR 0xEA,
      CHR 0xB7, CHR 0xB8, CHR 0xC2, CHR 0xB7, CHR 0xEB, CHR 0xB0, CHR 0xB0, CHR 0xED, CHR 0x8F,
      CHR 0xAC]"

definition txt_au_status_all :: string where
  "txt_au_status_all =
     [CHR 0xEC, CHR 0x83, CHR 0x81, CHR 0xED, CHR 0x83, CHR 0x9C, CHR 0x20, CHR 0xEC, CHR 0xA0,
      CHR 0x84, CHR 0xEC, CHR 0xB2, CHR 0xB4]"

definition txt_au_unhealthy :: string where
  "txt_au_unhealthy =
     [CHR 0xEC, CHR 0x9D, CHR 0xB4, CHR 0xEC, CHR 0x83, CHR 0x81]"

definition txt_au_recovered :: string where
  "txt_au_recovered =
     [CHR 0xEB, CHR 0xB3, CHR 0xB5, CHR 0xEA, CHR 0xB5, CHR 0xAC]"

definition txt_au_delivery_all :: string where
  "txt_au_delivery_all =
     [CHR 0xEC, CHR 0xA0, CHR 0x84, CHR 0xEC, CHR 0x86, CHR 0xA1, CHR 0x20, CHR 0xEC, CHR 0x83,
      CHR 0x81, CHR 0xED, CHR 0x83, CHR 0x9C, CHR 0x20, CHR 0xEC, CHR 0xA0, CHR 0x84, CHR 0xEC,
      CHR 0xB2, CHR 0xB4]"

definition txt_au_delivery_success :: string where
  "txt_au_delivery_success =
     [CHR 0xEC, CHR 0xA0, CHR 0x84, CHR 0xEC, CHR 0x86, CHR 0xA1, CHR 0x20, CHR 0xEC, CHR 0x84,
      CHR 0xB1, CHR 0xEA, CHR 0xB3, CHR 0xB5]"

definition txt_au_delivery_failure :: string where
  "txt_au_delivery_failure =
     [CHR 0xEC, CHR 0xA0, CHR 0x84, CHR 0xEC, CHR 0x86, CHR 0xA1, CHR 0x20, CHR 0xEC, CHR 0x8B,
      CHR 0xA4, CHR 0xED, CHR 0x8C, CHR 0xA8]"

definition txt_au_provider_all :: string where
  "txt_au_provider_all =
     [CHR 0xEC, CHR 0xB1, CHR 0x84, CHR 0xEB, CHR 0x84, CHR 0x90, CHR 0x20, CHR 0xEC, CHR 0xA0,
      CHR 0x84, CHR 0xEC, CHR 0xB2, CHR 0xB4]"

definition txt_au_24h :: string where
  "txt_au_24h =
     [CHR 0x32, CHR 0x34, CHR 0xEC, CHR 0x8B, CHR 0x9C, CHR 0xEA, CHR 0xB0, CHR 0x84]"

definition txt_au_7d :: string where
  "txt_au_7d =
     [CHR 0x37, CHR 0xEC, CHR 0x9D, CHR 0xBC]"

definition txt_au_30d :: string where
  "txt_au_30d =
     [CHR 0x33, CHR 0x30, CHR 0xEC, CHR 0x9D, CHR 0xBC]"

definition txt_au_90d :: string where
  "txt_au_90d =
     [CHR 0x39, CHR 0x30, CHR 0xEC, CHR 0x9D, CHR 0xBC]"

definition txt_au_period_all :: string where
  "txt_au_period_all =
     [CHR 0xEC, CHR 0xA0, CHR 0x84, CHR 0xEC, CHR 0xB2, CHR 0xB4, CHR 0x20, CHR 0xEA, CHR 0xB8,
      CHR 0xB0, CHR 0xEA, CHR 0xB0, CHR 0x84]"

definition txt_au_last7 :: string where
  "txt_au_last7 =
     [CHR 0xEC, CHR 0xB5, CHR 0x9C, CHR 0xEA, CHR 0xB7, CHR 0xBC, CHR 0x20, CHR 0x37, CHR 0xEC,
      CHR 0x9D, CHR 0xBC]"

definition txt_au_last30 :: string where
  "txt_au_last30 =
     [CHR 0xEC, CHR 0xB5, CHR 0x9C, CHR 0xEA, CHR 0xB7, CHR 0xBC, CHR 0x20, CHR 0x33, CHR 0x30,
      CHR 0xEC, CHR 0x9D, CHR 0xBC]"

definition txt_au_last90 :: string where
  "txt_au_last90 =
     [CHR 0xEC, CHR 0xB5, CHR 0x9C, CHR 0xEA, CHR 0xB7, CHR 0xBC, CHR 0x20, CHR 0x39, CHR 0x30,
      CHR 0xEC, CHR 0x9D, CHR 0xBC]"

definition txt_au_notice_all :: string where
  "txt_au_notice_all =
     [CHR 0xEC, CHR 0x95, CHR 0x8C, CHR 0xEB, CHR 0xA6, CHR 0xBC, CHR 0x20, CHR 0xEC, CHR 0xA0,
      CHR 0x84, CHR 0xEC, CHR 0xB2, CHR 0xB4]"

definition txt_au_notice_success :: string where
  "txt_au_notice_success =
     [CHR 0xEC, CHR 0x95, CHR 0x8C, CHR 0xEB, CHR 0xA6, CHR 0xBC, CHR 0x20, CHR 0xEC, CHR 0x84,
      CHR 0xB1, CHR 0xEA, CHR 0xB3, CHR 0xB5]"

definition txt_au_notice_failure :: string where
  "txt_au_notice_failure =
     [CHR 0xEC, CHR 0x95, CHR 0x8C, CHR 0xEB, CHR 0xA6, CHR 0xBC, CHR 0x20, CHR 0xEC, CHR 0x8B,
      CHR 0xA4, CHR 0xED, CHR 0x8C, CHR 0xA8]"

definition txt_au_notice_none :: string where
  "txt_au_notice_none =
     [CHR 0xEC, CHR 0x95, CHR 0x8C, CHR 0xEB, CHR 0xA6, CHR 0xBC, CHR 0x20, CHR 0xEA, CHR 0xB8,
      CHR 0xB0, CHR 0xEB, CHR 0xA1, CHR 0x9D, CHR 0x20, CHR 0xEC, CHR 0x97, CHR 0x86, CHR 0xEC,
      CHR 0x9D, CHR 0x8C]"

definition txt_au_notice_prefix :: string where
  "txt_au_notice_prefix =
     [CHR 0xEC, CHR 0x95, CHR 0x8C, CHR 0xEB, CHR 0xA6, CHR 0xBC, CHR 0x20]"

definition txt_au_c_search :: string where
  "txt_au_c_search =
     [CHR 0xEA, CHR 0xB2, CHR 0x80, CHR 0xEC, CHR 0x83, CHR 0x89, CHR 0x3A, CHR 0x20]"

definition txt_au_c_period :: string where
  "txt_au_c_period =
     [CHR 0xEA, CHR 0xB8, CHR 0xB0, CHR 0xEA, CHR 0xB0, CHR 0x84, CHR 0x3A, CHR 0x20]"

definition txt_au_c_first :: string where
  "txt_au_c_first =
     [CHR 0xEC, CHR 0xB2, CHR 0x98, CHR 0xEC, CHR 0x9D, CHR 0x8C]"

definition txt_au_c_now :: string where
  "txt_au_c_now =
     [CHR 0xED, CHR 0x98, CHR 0x84, CHR 0xEC, CHR 0x9E, CHR 0xAC]"

definition txt_au_c_bulk_period :: string where
  "txt_au_c_bulk_period =
     [CHR 0xEC, CHR 0x9D, CHR 0xBC, CHR 0xEA, CHR 0xB4, CHR 0x84, CHR 0x20, CHR 0xEA, CHR 0xB8,
      CHR 0xB0, CHR 0xEA, CHR 0xB0, CHR 0x84, CHR 0x3A, CHR 0x20]"

definition txt_au_c_bulk_notice :: string where
  "txt_au_c_bulk_notice =
     [CHR 0xEC, CHR 0x9D, CHR 0xBC, CHR 0xEA, CHR 0xB4, CHR 0x84, CHR 0x20, CHR 0xEC, CHR 0x95,
      CHR 0x8C, CHR 0xEB, CHR 0xA6, CHR 0xBC, CHR 0x3A, CHR 0x20]"

definition txt_au_c_source :: string where
  "txt_au_c_source =
     [CHR 0xEC, CHR 0x86, CHR 0x8C, CHR 0xEC, CHR 0x8A, CHR 0xA4, CHR 0x3A, CHR 0x20]"

definition txt_au_c_status :: string where
  "txt_au_c_status =
     [CHR 0xEC, CHR 0x83, CHR 0x81, CHR 0xED, CHR 0x83, CHR 0x9C, CHR 0x3A, CHR 0x20]"

definition txt_au_c_window :: string where
  "txt_au_c_window =
     [CHR 0xEC, CHR 0xA7, CHR 0x91, CHR 0xEA, CHR 0xB3, CHR 0x84, CHR 0x3A, CHR 0x20]"

definition txt_au_c_channel :: string where
  "txt_au_c_channel =
     [CHR 0xEC, CHR 0xB1, CHR 0x84, CHR 0xEB, CHR 0x84, CHR 0x90, CHR 0x3A, CHR 0x20]"

definition txt_st_event_alert :: string where
  "txt_st_event_alert =
     [CHR 0xEB, CHR 0xB3, CHR 0xB4, CHR 0xEC, CHR 0x95, CHR 0x88, CHR 0x20, CHR 0xEC, CHR 0x9D,
      CHR 0xB4, CHR 0xEB, CHR 0xB2, CHR 0xA4, CHR 0xED, CHR 0x8A, CHR 0xB8, CHR 0x20, CHR 0xEC,
      CHR 0x95, CHR 0x8C, CHR 0xEB, CHR 0xA6, CHR 0xBC]"

definition txt_st_change_alert :: string where
  "txt_st_change_alert =
     [CHR 0xEC, CHR 0x9A, CHR 0xB4, CHR 0xEC, CHR 0x98, CHR 0x81, CHR 0x20, CHR 0xEB, CHR 0xB3,
      CHR 0x80, CHR 0xEA, CHR 0xB2, CHR 0xBD, CHR 0x20, CHR 0xEC, CHR 0x95, CHR 0x8C, CHR 0xEB,
      CHR 0xA6, CHR 0xBC]"

definition txt_st_encoded :: string where
  "txt_st_encoded =
     [CHR 0x54, CHR 0x72, CHR 0x61, CHR 0x65, CHR 0x66, CHR 0x69, CHR 0x6B, CHR 0x20, CHR 0xEC,
      CHR 0x9D, CHR 0xB8, CHR 0xEC, CHR 0xBD, CHR 0x94, CHR 0xEB, CHR 0x94, CHR 0xA9, CHR 0x20,
      CHR 0xEA, CHR 0xB2, CHR 0xBD, CHR 0xEB, CHR 0xA1, CHR 0x9C, CHR 0x20, CHR 0xEA, CHR 0xB8,
      CHR 0x89, CHR 0xEC, CHR 0xA6, CHR 0x9D, CHR 0x20, CHR 0xEA, CHR 0xB0, CHR 0x90, CHR 0xEC,
      CHR 0xA7, CHR 0x80]"

definition txt_st_encoded_window :: string where
  "txt_st_encoded_window =
     [CHR 0xEC, CHR 0x9D, CHR 0xB8, CHR 0xEC, CHR 0xBD, CHR 0x94, CHR 0xEB, CHR 0x94, CHR 0xA9,
      CHR 0x20, CHR 0xEA, CHR 0xB2, CHR 0xBD, CHR 0xEB, CHR 0xA1, CHR 0x9C, CHR 0x20, CHR 0xEC,
      CHR 0xA7, CHR 0x91, CHR 0xEA, CHR 0xB3, CHR 0x84, CHR 0x20, CHR 0xEA, CHR 0xB5, CHR 0xAC,
      CHR 0xEA, CHR 0xB0, CHR 0x84]"

definition txt_st_encoded_threshold :: string where
  "txt_st_encoded_threshold =
     [CHR 0xEC, CHR 0x9D, CHR 0xB8, CHR 0xEC, CHR 0xBD, CHR 0x94, CHR 0xEB, CHR 0x94, CHR 0xA9,
      CHR 0x20, CHR 0xEA, CHR 0xB2, CHR 0xBD, CHR 0xEB, CHR 0xA1, CHR 0x9C, CHR 0x20, CHR 0xEA,
      CHR 0xB2, CHR 0xBD, CHR 0xEA, CHR 0xB3, CHR 0xA0, CHR 0x20, CHR 0xEC, CHR 0x9E, CHR 0x84,
      CHR 0xEA, CHR 0xB3, CHR 0x84, CHR 0xEC, CHR 0xB9, CHR 0x98]"

definition txt_st_health :: string where
  "txt_st_health =
     [CHR 0x4D, CHR 0x61, CHR 0x6E, CHR 0x61, CHR 0x67, CHR 0x65, CHR 0x72, CHR 0x20, CHR 0xEC,
      CHR 0x83, CHR 0x81, CHR 0xED, CHR 0x83, CHR 0x9C, CHR 0x20, CHR 0xEA, CHR 0xB0, CHR 0x90,
      CHR 0xEC, CHR 0x8B, CHR 0x9C]"

definition txt_st_health_cooldown :: string where
  "txt_st_health_cooldown =
     [CHR 0x4D, CHR 0x61, CHR 0x6E, CHR 0x61, CHR 0x67, CHR 0x65, CHR 0x72, CHR 0x20, CHR 0xEC,
      CHR 0x9E, CHR 0xAC, CHR 0xEC, CHR 0x95, CHR 0x8C, CHR 0xEB, CHR 0xA6, CHR 0xBC, CHR 0x20,
      CHR 0xEB, CHR 0x8C, CHR 0x80, CHR 0xEA, CHR 0xB8, CHR 0xB0]"

definition txt_st_watchdog :: string where
  "txt_st_watchdog =
     [CHR 0x57, CHR 0x61, CHR 0x74, CHR 0x63, CHR 0x68, CHR 0x64, CHR 0x6F, CHR 0x67, CHR 0x20,
      CHR 0xEC, CHR 0xA7, CHR 0x80, CHR 0xEC, CHR 0x97, CHR 0xB0, CHR 0x20, CHR 0xEA, CHR 0xB8,
      CHR 0xB0, CHR 0xEC, CHR 0xA4, CHR 0x80]"

definition txt_st_retry_delay :: string where
  "txt_st_retry_delay =
     [CHR 0xEC, CHR 0x9E, CHR 0x90, CHR 0xEB, CHR 0x8F, CHR 0x99, CHR 0x20, CHR 0xEC, CHR 0x9E,
      CHR 0xAC, CHR 0xEC, CHR 0x8B, CHR 0x9C, CHR 0xEB, CHR 0x8F, CHR 0x84, CHR 0x20, CHR 0xEC,
      CHR 0xA7, CHR 0x80, CHR 0xEC, CHR 0x97, CHR 0xB0, CHR 0x20, CHR 0xEC, CHR 0x9E, CHR 0x84,
      CHR 0xEA, CHR 0xB3, CHR 0x84, CHR 0xEC, CHR 0xB9, CHR 0x98]"

definition txt_st_http :: string where
  "txt_st_http =
     [CHR 0x4D, CHR 0x61, CHR 0x6E, CHR 0x61, CHR 0x67, CHR 0x65, CHR 0x72, CHR 0x20, CHR 0x48,
      CHR 0x54, CHR 0x54, CHR 0x50, CHR 0x20, CHR 0xEC, CHR 0x98, CHR 0xA4, CHR 0xEB, CHR 0xA5,
      CHR 0x98, CHR 0x20, CHR 0xEA, CHR 0xB0, CHR 0x90, CHR 0xEC, CHR 0x8B, CHR 0x9C]"

definition txt_st_http_window :: string where
  "txt_st_http_window =
     [CHR 0x48, CHR 0x54, CHR 0x54, CHR 0x50, CHR 0x20, CHR 0xEC, CHR 0x98, CHR 0xA4, CHR 0xEB,
      CHR 0xA5, CHR 0x98, CHR 0x20, CHR 0xEC, CHR 0xA7, CHR 0x91, CHR 0xEA, CHR 0xB3, CHR 0x84,
      CHR 0x20, CHR 0xEA, CHR 0xB5, CHR 0xAC, CHR 0xEA, CHR 0xB0, CHR 0x84]"

definition txt_st_404 :: string where
  "txt_st_404 =
     [CHR 0x34, CHR 0x30, CHR 0x34, CHR 0x20, CHR 0xEA, CHR 0xB2, CHR 0xBD, CHR 0xEA, CHR 0xB3,
      CHR 0xA0, CHR 0x20, CHR 0xEC, CHR 0x9E, CHR 0x84, CHR 0xEA, CHR 0xB3, CHR 0x84, CHR 0xEC,
      CHR 0xB9, CHR 0x98]"

definition txt_st_5xx :: string where
  "txt_st_5xx =
     [CHR 0x35, CHR 0x78, CHR 0x78, CHR 0x20, CHR 0xEA, CHR 0xB2, CHR 0xBD, CHR 0xEA, CHR 0xB3,
      CHR 0xA0, CHR 0x20, CHR 0xEC, CHR 0x9E, CHR 0x84, CHR 0xEA, CHR 0xB3, CHR 0x84, CHR 0xEC,
      CHR 0xB9, CHR 0x98]"

definition txt_st_excluded :: string where
  "txt_st_excluded =
     [CHR 0x48, CHR 0x54, CHR 0x54, CHR 0x50, CHR 0x20, CHR 0xEA, CHR 0xB0, CHR 0x90, CHR 0xEC,
      CHR 0x8B, CHR 0x9C, CHR 0x20, CHR 0xEC, CHR 0xA0, CHR 0x9C, CHR 0xEC, CHR 0x99, CHR 0xB8,
      CHR 0x20, CHR 0xEA, CHR 0xB2, CHR 0xBD, CHR 0xEB, CHR 0xA1, CHR 0x9C]"

definition txt_st_provider :: string where
  "txt_st_provider =
     [CHR 0xEA, CHR 0xB8, CHR 0xB0, CHR 0xEB, CHR 0xB3, CHR 0xB8, CHR 0x20, CHR 0xEC, CHR 0x95,
      CHR 0x8C, CHR 0xEB, CHR 0xA6, CHR 0xBC, CHR 0x20, CHR 0xEC, CHR 0xB1, CHR 0x84, CHR 0xEB,
      CHR 0x84, CHR 0x90]"

definition txt_st_block :: string where
  "txt_st_block =
     [CHR 0xEC, CHR 0x9D, CHR 0x98, CHR 0xEC, CHR 0x8B, CHR 0xAC, CHR 0x20, CHR 0x49, CHR 0x50,
      CHR 0x20, CHR 0xEC, CHR 0x9E, CHR 0x90, CHR 0xEB, CHR 0x8F, CHR 0x99, CHR 0x20, CHR 0xEC,
      CHR 0xB0, CHR 0xA8, CHR 0xEB, CHR 0x8B, CHR 0xA8]"

definition txt_st_trusted :: string where
  "txt_st_trusted =
     [CHR 0xEC, CHR 0x8B, CHR 0xA0, CHR 0xEB, CHR 0xA2, CHR 0xB0, CHR 0x20, CHR 0xEB, CHR 0x84,
      CHR 0xA4, CHR 0xED, CHR 0x8A, CHR 0xB8, CHR 0xEC, CHR 0x9B, CHR 0x8C, CHR 0xED, CHR 0x81,
      CHR 0xAC]"

definition txt_st_escalation :: string where
  "txt_st_escalation =
     [CHR 0xEB, CHR 0xB0, CHR 0x98, CHR 0xEB, CHR 0xB3, CHR 0xB5, CHR 0x20, CHR 0xEA, CHR 0xB3,
      CHR 0xB5, CHR 0xEA, CHR 0xB2, CHR 0xA9, CHR 0x20, CHR 0xEC, CHR 0xB0, CHR 0xA8, CHR 0xEB,
      CHR 0x8B, CHR 0xA8, CHR 0x20, CHR 0xEA, CHR 0xB0, CHR 0x95, CHR 0xED, CHR 0x99, CHR 0x94]"

definition txt_st_escalation_window :: string where
  "txt_st_escalation_window =
     [CHR 0xEB, CHR 0xB0, CHR 0x98, CHR 0xEB, CHR 0xB3, CHR 0xB5, CHR 0x20, CHR 0xEA, CHR 0xB3,
      CHR 0xB5, CHR 0xEA, CHR 0xB2, CHR 0xA9, CHR 0x20, CHR 0xED, CHR 0x8C, CHR 0x90, CHR 0xEC,
      CHR 0xA0, CHR 0x95, CHR 0x20, CHR 0xEA, CHR 0xB5, CHR 0xAC, CHR 0xEA, CHR 0xB0, CHR 0x84]"

definition txt_st_multiplier :: string where
  "txt_st_multiplier =
     [CHR 0xEC, CHR 0xB0, CHR 0xA8, CHR 0xEB, CHR 0x8B, CHR 0xA8, CHR 0x20, CHR 0xEC, CHR 0x8B,
      CHR 0x9C, CHR 0xEA, CHR 0xB0, CHR 0x84, CHR 0x20, CHR 0xEB, CHR 0xB0, CHR 0xB0, CHR 0xEC,
      CHR 0x88, CHR 0x98]"

definition txt_st_max_block :: string where
  "txt_st_max_block =
     [CHR 0xEC, CHR 0xB5, CHR 0x9C, CHR 0xEB, CHR 0x8C, CHR 0x80, CHR 0x20, CHR 0xEC, CHR 0xB0,
      CHR 0xA8, CHR 0xEB, CHR 0x8B, CHR 0xA8, CHR 0x20, CHR 0xEC, CHR 0x8B, CHR 0x9C, CHR 0xEA,
      CHR 0xB0, CHR 0x84]"

definition txt_st_turnstile :: string where
  "txt_st_turnstile =
     [CHR 0x54, CHR 0x75, CHR 0x72, CHR 0x6E, CHR 0x73, CHR 0x74, CHR 0x69, CHR 0x6C, CHR 0x65,
      CHR 0x20, CHR 0xEB, CHR 0xAA, CHR 0xA8, CHR 0xEB, CHR 0x93, CHR 0x9C]"

definition txt_st_turnstile_enabled :: string where
  "txt_st_turnstile_enabled =
     [CHR 0x54, CHR 0x75, CHR 0x72, CHR 0x6E, CHR 0x73, CHR 0x74, CHR 0x69, CHR 0x6C, CHR 0x65,
      CHR 0x20, CHR 0xED, CHR 0x99, CHR 0x9C, CHR 0xEC, CHR 0x84, CHR 0xB1, CHR 0x20, CHR 0xEC,
      CHR 0x83, CHR 0x81, CHR 0xED, CHR 0x83, CHR 0x9C]"

definition txt_st_always :: string where
  "txt_st_always =
     [CHR 0xED, CHR 0x95, CHR 0xAD, CHR 0xEC, CHR 0x83, CHR 0x81]"

definition txt_st_off :: string where
  "txt_st_off =
     [CHR 0xEC, CHR 0x82, CHR 0xAC, CHR 0xEC, CHR 0x9A, CHR 0xA9, CHR 0x20, CHR 0xEC, CHR 0x95,
      CHR 0x88, CHR 0x20, CHR 0xED, CHR 0x95, CHR 0xA8]"

definition txt_st_risk :: string where
  "txt_st_risk =
     [CHR 0xEC, CHR 0x9C, CHR 0x84, CHR 0xED, CHR 0x97, CHR 0x98, CHR 0x20, CHR 0xEA, CHR 0xB8,
      CHR 0xB0, CHR 0xEB, CHR 0xB0, CHR 0x98]"

definition txt_st_on :: string where
  "txt_st_on =
     [CHR 0xEC, CHR 0x82, CHR 0xAC, CHR 0xEC, CHR 0x9A, CHR 0xA9]"

definition txt_u_min :: string where
  "txt_u_min =
     [CHR 0xEB, CHR 0xB6, CHR 0x84]"

definition txt_u_cases :: string where
  "txt_u_cases =
     [CHR 0xEA, CHR 0xB1, CHR 0xB4]"

definition txt_u_items :: string where
  "txt_u_items =
     [CHR 0xEA, CHR 0xB0, CHR 0x9C]"

definition txt_u_times :: string where
  "txt_u_times =
     [CHR 0xEB, CHR 0xB0, CHR 0xB0]"

definition txt_sk_left :: string where
  "txt_sk_left =
     [CHR 0x20, CHR 0xEB, CHR 0x82, CHR 0xA8, CHR 0xEC, CHR 0x9D, CHR 0x8C]"

definition txt_mw_name_required :: string where
  "txt_mw_name_required =
     [CHR 0xED, CHR 0x85, CHR 0x9C, CHR 0xED, CHR 0x94, CHR 0x8C, CHR 0xEB, CHR 0xA6, CHR 0xBF,
      CHR 0x20, CHR 0xEC, CHR 0x9D, CHR 0xB4, CHR 0xEB, CHR 0xA6, CHR 0x84, CHR 0xEC, CHR 0x9D,
      CHR 0x84, CHR 0x20, CHR 0xEC, CHR 0x9E, CHR 0x85, CHR 0xEB, CHR 0xA0, CHR 0xA5, CHR 0xED,
      CHR 0x95, CHR 0x98, CHR 0xEC, CHR 0x84, CHR 0xB8, CHR 0xEC, CHR 0x9A, CHR 0x94]"

definition txt_mw_range_required :: string where
  "txt_mw_range_required =
     [CHR 0x73, CHR 0x6F, CHR 0x75, CHR 0x72, CHR 0x63, CHR 0x65, CHR 0x52, CHR 0x61, CHR 0x6E,
      CHR 0x67, CHR 0x65, CHR 0xEB, CHR 0xA5, CHR 0xBC, CHR 0x20, CHR 0x31, CHR 0xEA, CHR 0xB0,
      CHR 0x9C, CHR 0x20, CHR 0xEC, CHR 0x9D, CHR 0xB4, CHR 0xEC, CHR 0x83, CHR 0x81, CHR 0x20,
      CHR 0xEC, CHR 0x9E, CHR 0x85, CHR 0xEB, CHR 0xA0, CHR 0xA5, CHR 0xED, CHR 0x95, CHR 0x98,
      CHR 0xEC, CHR 0x84, CHR 0xB8, CHR 0xEC, CHR 0x9A, CHR 0x94]"

definition txt_mw_rate_required :: string where
  "txt_mw_rate_required =
     [CHR 0x61, CHR 0x76, CHR 0x65, CHR 0x72, CHR 0x61, CHR 0x67, CHR 0x65, CHR 0xEC, CHR 0x99,
      CHR 0x80, CHR 0x20, CHR 0x62, CHR 0x75, CHR 0x72, CHR 0x73, CHR 0x74, CHR 0xEB, CHR 0xA5,
      CHR 0xBC, CHR 0x20, CHR 0xEB, CHR 0xAA, CHR 0xA8, CHR 0xEB, CHR 0x91, CHR 0x90, CHR 0x20,
      CHR 0xEC, CHR 0x9E, CHR 0x85, CHR 0xEB, CHR 0xA0, CHR 0xA5, CHR 0xED, CHR 0x95, CHR 0x98,
      CHR 0xEC, CHR 0x84, CHR 0xB8, CHR 0xEC, CHR 0x9A, CHR 0x94]"

definition txt_mw_users_required :: string where
  "txt_mw_users_required =
     [CHR 0x75, CHR 0x73, CHR 0x65, CHR 0x72, CHR 0x73, CHR 0xEB, CHR 0xA5, CHR 0xBC, CHR 0x20,
      CHR 0x31, CHR 0xEA, CHR 0xB0, CHR 0x9C, CHR 0x20, CHR 0xEC, CHR 0x9D, CHR 0xB4, CHR 0xEC,
      CHR 0x83, CHR 0x81, CHR 0x20, CHR 0xEC, CHR 0x9E, CHR 0x85, CHR 0xEB, CHR 0xA0, CHR 0xA5,
      CHR 0xED, CHR 0x95, CHR 0x98, CHR 0xEC, CHR 0x84, CHR 0xB8, CHR 0xEC, CHR 0x9A, CHR 0x94,
      CHR 0x20, CHR 0x28, CHR 0xEC, CHR 0x98, CHR 0x88, CHR 0x3A, CHR 0x20, CHR 0x75, CHR 0x73,
      CHR 0x65, CHR 0x72, CHR 0x3A, CHR 0x24, CHR 0x61, CHR 0x70, CHR 0x72, CHR 0x31, CHR 0x24,
      CHR 0x2E, CHR 0x2E, CHR 0x2E, CHR 0x29]"

definition txt_mw_header_required :: string where
  "txt_mw_header_required =
     [CHR 0xED, CHR 0x97, CHR 0xA4, CHR 0xEB, CHR 0x8D, CHR 0x94, CHR 0xEB, CHR 0xA5, CHR 0xBC,
      CHR 0x20, CHR 0x31, CHR 0xEA, CHR 0xB0, CHR 0x9C, CHR 0x20, CHR 0xEC, CHR 0x9D, CHR 0xB4,
      CHR 0xEC, CHR 0x83, CHR 0x81, CHR 0x20, CHR 0xEC, CHR 0x9E, CHR 0x85, CHR 0xEB, CHR 0xA0,
      CHR 0xA5, CHR 0xED, CHR 0x95, CHR 0x98, CHR 0xEC, CHR 0x84, CHR 0xB8, CHR 0xEC, CHR 0x9A,
      CHR 0x94]"

definition txt_mw_allow_ip :: string where
  "txt_mw_allow_ip =
     [CHR 0xED, CHR 0x97, CHR 0x88, CHR 0xEC, CHR 0x9A, CHR 0xA9, CHR 0x20, CHR 0x49, CHR 0x50]"

definition txt_mw_headers :: string where
  "txt_mw_headers =
     [CHR 0xEC, CHR 0x9D, CHR 0x91, CHR 0xEB, CHR 0x8B, CHR 0xB5, CHR 0x20, CHR 0xED, CHR 0x97,
      CHR 0xA4, CHR 0xEB, CHR 0x8D, CHR 0x94]"

definition txt_mw_ranges :: string where
  "txt_mw_ranges =
     [CHR 0xEA, CHR 0xB0, CHR 0x9C, CHR 0x20, CHR 0x49, CHR 0x50, CHR 0x2F, CHR 0x43, CHR 0x49,
      CHR 0x44, CHR 0x52, CHR 0x20, CHR 0xEB, CHR 0x8C, CHR 0x80, CHR 0xEC, CHR 0x97, CHR 0xAD,
      CHR 0x20, CHR 0xED, CHR 0x97, CHR 0x88, CHR 0xEC, CHR 0x9A, CHR 0xA9]"

definition txt_mw_accounts :: string where
  "txt_mw_accounts =
     [CHR 0xEA, CHR 0xB0, CHR 0x9C, CHR 0x20, CHR 0xEA, CHR 0xB3, CHR 0x84, CHR 0xEC, CHR 0xA0,
      CHR 0x95, CHR 0x20, CHR 0xEC, CHR 0x9D, CHR 0xB8, CHR 0xEC, CHR 0xA6, CHR 0x9D]"

definition txt_mw_headers_set :: string where
  "txt_mw_headers_set =
     [CHR 0xEA, CHR 0xB0, CHR 0x9C, CHR 0x20, CHR 0xEC, CHR 0x9D, CHR 0x91, CHR 0xEB, CHR 0x8B,
      CHR 0xB5, CHR 0x20, CHR 0xED, CHR 0x97, CHR 0xA4, CHR 0xEB, CHR 0x8D, CHR 0x94, CHR 0x20,
      CHR 0xEC, CHR 0x84, CHR 0xA4, CHR 0xEC, CHR 0xA0, CHR 0x95]"

definition txt_mw_l_ip :: string where
  "txt_mw_l_ip =
     [CHR 0xED, CHR 0x97, CHR 0x88, CHR 0xEC, CHR 0x9A, CHR 0xA9, CHR 0x20, CHR 0x49, CHR 0x50,
      CHR 0x20, CHR 0xEB, CHR 0xAF, CHR 0xB8, CHR 0xEB, CHR 0x93, CHR 0xA4, CHR 0xEC, CHR 0x9B,
      CHR 0xA8, CHR 0xEC, CHR 0x96, CHR 0xB4]"

definition txt_mw_d_ip :: string where
  "txt_mw_d_ip =
     [CHR 0xEA, CHR 0xB0, CHR 0x9C, CHR 0x20, CHR 0x49, CHR 0x50, CHR 0x2F, CHR 0x43, CHR 0x49,
      CHR 0x44, CHR 0x52, CHR 0x20, CHR 0xEB, CHR 0x8C, CHR 0x80, CHR 0xEC, CHR 0x97, CHR 0xAD,
      CHR 0xEB, CHR 0xA7, CHR 0x8C, CHR 0x20, CHR 0xED, CHR 0x86, CHR 0xB5, CHR 0xEA, CHR 0xB3,
      CHR 0xBC]"

definition txt_mw_l_rate :: string where
  "txt_mw_l_rate =
     [CHR 0xEC, CHR 0x84, CHR 0x9C, CHR 0xEB, CHR 0xB9, CHR 0x84, CHR 0xEC, CHR 0x8A, CHR 0xA4,
      CHR 0x20, CHR 0x52, CHR 0x61, CHR 0x74, CHR 0x65, CHR 0x20, CHR 0x4C, CHR 0x69, CHR 0x6D,
      CHR 0x69, CHR 0x74]"

definition txt_mw_l_headers :: string where
  "txt_mw_l_headers =
     [CHR 0xEC, CHR 0x9D, CHR 0x91, CHR 0xEB, CHR 0x8B, CHR 0xB5, CHR 0x20, CHR 0xED, CHR 0x97,
      CHR 0xA4, CHR 0xEB, CHR 0x8D, CHR 0x94, CHR 0x20, CHR 0xEB, CHR 0xAF, CHR 0xB8, CHR 0xEB,
      CHR 0x93, CHR 0xA4, CHR 0xEC, CHR 0x9B, CHR 0xA8, CHR 0xEC, CHR 0x96, CHR 0xB4]"

definition txt_mw_d_headers :: string where
  "txt_mw_d_headers =
     [CHR 0xEA, CHR 0xB0, CHR 0x9C, CHR 0x20, CHR 0xEC, CHR 0x9D, CHR 0x91, CHR 0xEB, CHR 0x8B,
      CHR 0xB5, CHR 0x20, CHR 0xED, CHR 0x97, CHR 0xA4, CHR 0xEB, CHR 0x8D, CHR 0x94, CHR 0x20,
      CHR 0xEC, CHR 0xA3, CHR 0xBC, CHR 0xEC, CHR 0x9E, CHR 0x85]"

definition txt_mw_l_frame :: string where
  "txt_mw_l_frame =
     [CHR 0xED, CHR 0x94, CHR 0x84, CHR 0xEB, CHR 0xA0, CHR 0x88, CHR 0xEC, CHR 0x9E, CHR 0x84,
      CHR 0x20, CHR 0xEC, CHR 0xA0, CHR 0x95, CHR 0xEC, CHR 0xB1, CHR 0x85]"

definition txt_mw_sameorigin :: string where
  "txt_mw_sameorigin =
     [CHR 0x53, CHR 0x41, CHR 0x4D, CHR 0x45, CHR 0x4F, CHR 0x52, CHR 0x49, CHR 0x47, CHR 0x49,
      CHR 0x4E, CHR 0x20, CHR 0xEC, CHR 0xA0, CHR 0x81, CHR 0xEC, CHR 0x9A, CHR 0xA9]"

definition txt_mw_deny :: string where
  "txt_mw_deny =
     [CHR 0x44, CHR 0x45, CHR 0x4E, CHR 0x59, CHR 0x20, CHR 0xEC, CHR 0xA0, CHR 0x81, CHR 0xEC,
      CHR 0x9A, CHR 0xA9]"

definition txt_mw_l_block :: string where
  "txt_mw_l_block =
     [CHR 0xEC, CHR 0xB0, CHR 0xA8, CHR 0xEB, CHR 0x8B, CHR 0xA8, CHR 0x20, CHR 0xEA, CHR 0xB2,
      CHR 0xBD, CHR 0xEB, CHR 0xA1, CHR 0x9C, CHR 0x20, CHR 0xEB, CHR 0xB3, CHR 0xB4, CHR 0xED,
      CHR 0x98, CHR 0xB8]"

definition txt_mw_d_block :: string where
  "txt_mw_d_block =
     [CHR 0xEA, CHR 0xB0, CHR 0x9C, CHR 0x20, CHR 0xEA, CHR 0xB2, CHR 0xBD, CHR 0xEB, CHR 0xA1,
      CHR 0x9C, CHR 0x20, CHR 0xEC, CHR 0xB0, CHR 0xA8, CHR 0xEB, CHR 0x8B, CHR 0xA8]"

definition txt_mw_l_redirect :: string where
  "txt_mw_l_redirect =
     [CHR 0x48, CHR 0x54, CHR 0x54, CHR 0x50, CHR 0x20, CHR 0xE2, CHR 0x86, CHR 0x92, CHR 0x20,
      CHR 0x48, CHR 0x54, CHR 0x54, CHR 0x50, CHR 0x53, CHR 0x20, CHR 0xEB, CHR 0xA6, CHR 0xAC,
      CHR 0xEB, CHR 0x8B, CHR 0xA4, CHR 0xEC, CHR 0x9D, CHR 0xB4, CHR 0xEB, CHR 0xA0, CHR 0x89,
      CHR 0xED, CHR 0x8A, CHR 0xB8]"

definition txt_mw_d_redirect :: string where
  "txt_mw_d_redirect =
     [CHR 0x48, CHR 0x54, CHR 0x54, CHR 0x50, CHR 0x20, CHR 0xEC, CHR 0x9A, CHR 0x94, CHR 0xEC,
      CHR 0xB2, CHR 0xAD, CHR 0xEC, CHR 0x9D, CHR 0x84, CHR 0x20, CHR 0x48, CHR 0x54, CHR 0x54,
      CHR 0x50, CHR 0x53, CHR 0xEB, CHR 0xA1, CHR 0x9C, CHR 0x20, CHR 0xEA, CHR 0xB0, CHR 0x95,
      CHR 0xEC, CHR 0xA0, CHR 0x9C, CHR 0x20, CHR 0xEC, CHR 0xA0, CHR 0x84, CHR 0xED, CHR 0x99,
      CHR 0x98]"

definition txt_mw_l_basic :: string where
  "txt_mw_l_basic =
     [CHR 0xEC, CHR 0x84, CHR 0x9C, CHR 0xEB, CHR 0xB9, CHR 0x84, CHR 0xEC, CHR 0x8A, CHR 0xA4,
      CHR 0x20, CHR 0x42, CHR 0x61, CHR 0x73, CHR 0x69, CHR 0x63, CHR 0x20, CHR 0x41, CHR 0x75,
      CHR 0x74, CHR 0x68]"

definition txt_mw_l_token :: string where
  "txt_mw_l_token =
     [CHR 0xEB, CHR 0xB0, CHR 0xB1, CHR 0xEC, CHR 0x97, CHR 0x94, CHR 0xEB, CHR 0x93, CHR 0x9C,
      CHR 0x20, CHR 0xED, CHR 0x86, CHR 0xA0, CHR 0xED, CHR 0x81, CHR 0xB0, CHR 0x20, CHR 0x46,
      CHR 0x6F, CHR 0x72, CHR 0x77, CHR 0x61, CHR 0x72, CHR 0x64, CHR 0x41, CHR 0x75, CHR 0x74,
      CHR 0x68]"

definition txt_mw_d_token :: string where
  "txt_mw_d_token =
     [CHR 0xEC, CHR 0x84, CHR 0x9C, CHR 0xEB, CHR 0xB9, CHR 0x84, CHR 0xEC, CHR 0x8A, CHR 0xA4,
      CHR 0x20, CHR 0xEC, CHR 0xA0, CHR 0x84, CHR 0xEC, CHR 0x9A, CHR 0xA9, CHR 0x20, CHR 0x41,
      CHR 0x50, CHR 0x49, CHR 0x20, CHR 0x4B, CHR 0x65, CHR 0x79, CHR 0x20, CHR 0xEA, CHR 0xB2,
      CHR 0x80, CHR 0xEC, CHR 0xA6, CHR 0x9D]"

definition txt_mw_d_authentik :: string where
  "txt_mw_d_authentik =
     [CHR 0xEA, CHR 0xB3, CHR 0xB5, CHR 0xEC, CHR 0x9A, CHR 0xA9, CHR 0x20, CHR 0x41, CHR 0x75,
      CHR 0x74, CHR 0x68, CHR 0x65, CHR 0x6E, CHR 0x74, CHR 0x69, CHR 0x6B, CHR 0x20, CHR 0xEB,
      CHR 0xAF, CHR 0xB8, CHR 0xEB, CHR 0x93, CHR 0xA4, CHR 0xEC, CHR 0x9B, CHR 0xA8, CHR 0xEC,
      CHR 0x96, CHR 0xB4, CHR 0xEB, CHR 0xA5, CHR 0xBC, CHR 0x20, CHR 0xEC, CHR 0x9D, CHR 0xB4,
      CHR 0x20, CHR 0xEC, CHR 0x84, CHR 0x9C, CHR 0xEB, CHR 0xB9, CHR 0x84, CHR 0xEC, CHR 0x8A,
      CHR 0xA4, CHR 0xEA, CHR 0xB0, CHR 0x80, CHR 0x20, CHR 0xEA, CHR 0xB3, CHR 0xB5, CHR 0xEC,
      CHR 0x9C, CHR 0xA0, CHR 0x20, CHR 0xEC, CHR 0x82, CHR 0xAC, CHR 0xEC, CHR 0x9A, CHR 0xA9]"

definition txt_mw_missing :: string where
  "txt_mw_missing =
     [CHR 0x72, CHR 0x75, CHR 0x6E, CHR 0x74, CHR 0x69, CHR 0x6D, CHR 0x65, CHR 0x20, CHR 0xEB,
      CHR 0xAF, CHR 0xB8, CHR 0xEB, CHR 0xB0, CHR 0x9C, CHR 0xEA, CHR 0xB2, CHR 0xAC]"

definition txt_mw_checking :: string where
  "txt_mw_checking =
     [CHR 0x54, CHR 0x72, CHR 0x61, CHR 0x65, CHR 0x66, CHR 0x69, CHR 0x6B, CHR 0x20, CHR 0xEC,
      CHR 0x97, CHR 0xB0, CHR 0xEA, CHR 0xB2, CHR 0xB0, CHR 0x20, CHR 0xED, CHR 0x99, CHR 0x95,
      CHR 0xEC, CHR 0x9D, CHR 0xB8, CHR 0x20, CHR 0xEC, CHR 0xA4, CHR 0x91]"

definition txt_mw_e_search :: string where
  "txt_mw_e_search =
     [CHR 0xEA, CHR 0xB2, CHR 0x80, CHR 0xEC, CHR 0x83, CHR 0x89, CHR 0x20, CHR 0xEC, CHR 0xA1,
      CHR 0xB0, CHR 0xEA, CHR 0xB1, CHR 0xB4, CHR 0xEA, CHR 0xB3, CHR 0xBC, CHR 0x20, CHR 0xEC,
      CHR 0x9D, CHR 0xBC, CHR 0xEC, CHR 0xB9, CHR 0x98, CHR 0xED, CHR 0x95, CHR 0x98, CHR 0xEB,
      CHR 0x8A, CHR 0x94, CHR 0x20, CHR 0xEC, CHR 0x9E, CHR 0x90, CHR 0xEB, CHR 0x8F, CHR 0x99,
      CHR 0x20, CHR 0xEC, CHR 0x83, CHR 0x9D, CHR 0xEC, CHR 0x84, CHR 0xB1, CHR 0x20, CHR 0xEB,
      CHR 0xAF, CHR 0xB8, CHR 0xEB, CHR 0x93, CHR 0xA4, CHR 0xEC, CHR 0x9B, CHR 0xA8, CHR 0xEC,
      CHR 0x96, CHR 0xB4, CHR 0xEA, CHR 0xB0, CHR 0x80, CHR 0x20, CHR 0xEC, CHR 0x97, CHR 0x86,
      CHR 0xEC, CHR 0x8A, CHR 0xB5, CHR 0xEB, CHR 0x8B, CHR 0x88, CHR 0xEB, CHR 0x8B, CHR 0xA4]"

definition txt_mw_e_search_d :: string where
  "txt_mw_e_search_d =
     [CHR 0xEC, CHR 0x84, CHR 0x9C, CHR 0xEB, CHR 0xB9, CHR 0x84, CHR 0xEC, CHR 0x8A, CHR 0xA4,
      CHR 0x20, CHR 0xEC, CHR 0x9D, CHR 0xB4, CHR 0xEB, CHR 0xA6, CHR 0x84, CHR 0xEC, CHR 0x9D,
      CHR 0xB4, CHR 0xEB, CHR 0x82, CHR 0x98, CHR 0x20, CHR 0xEB, CHR 0x8F, CHR 0x84, CHR 0xEB,
      CHR 0xA9, CHR 0x94, CHR 0xEC, CHR 0x9D, CHR 0xB8, CHR 0x20, CHR 0xEA, CHR 0xB2, CHR 0x80,
      CHR 0xEC, CHR 0x83, CHR 0x89, CHR 0xEC, CHR 0x96, CHR 0xB4, CHR 0xEB, CHR 0xA5, CHR 0xBC,
      CHR 0x20, CHR 0xEC, CHR 0xA4, CHR 0x84, CHR 0xEC, CHR 0x97, CHR 0xAC, CHR 0x20, CHR 0xEB,
      CHR 0x8B, CHR 0xA4, CHR 0xEC, CHR 0x8B, CHR 0x9C, CHR 0x20, CHR 0xED, CHR 0x99, CHR 0x95,
      CHR 0xEC, CHR 0x9D, CHR 0xB8, CHR 0xED, CHR 0x95, CHR 0x98, CHR 0xEC, CHR 0x84, CHR 0xB8,
      CHR 0xEC, CHR 0x9A, CHR 0x94, CHR 0x2E]"

definition txt_mw_e_none :: string where
  "txt_mw_e_none =
     [CHR 0xEC, CHR 0x95, CHR 0x84, CHR 0xEC, CHR 0xA7, CHR 0x81, CHR 0x20, CHR 0xEC, CHR 0x9E,
      CHR 0x90, CHR 0xEB, CHR 0x8F, CHR 0x99, CHR 0x20, CHR 0xEC, CHR 0x83, CHR 0x9D, CHR 0xEC,
      CHR 0x84, CHR 0xB1, CHR 0x20, CHR 0xEB, CHR 0xAF, CHR 0xB8, CHR 0xEB, CHR 0x93, CHR 0xA4,
      CHR 0xEC, CHR 0x9B, CHR 0xA8, CHR 0xEC, CHR 0x96, CHR 0xB4, CHR 0xEA, CHR 0xB0, CHR 0x80,
      CHR 0x20, CHR 0xEC, CHR 0x97, CHR 0x86, CHR 0xEC, CHR 0x8A, CHR 0xB5, CHR 0xEB, CHR 0x8B,
      CHR 0x88, CHR 0xEB, CHR 0x8B, CHR 0xA4]"

definition txt_mw_e_none_d :: string where
  "txt_mw_e_none_d =
     [CHR 0xED, CHR 0x97, CHR 0x88, CHR 0xEC, CHR 0x9A, CHR 0xA9, CHR 0x20, CHR 0x49, CHR 0x50,
      CHR 0x2C, CHR 0x20, CHR 0xEC, CHR 0x84, CHR 0x9C, CHR 0xEB, CHR 0xB9, CHR 0x84, CHR 0xEC,
      CHR 0x8A, CHR 0xA4, CHR 0x20, CHR 0x52, CHR 0x61, CHR 0x74, CHR 0x65, CHR 0x20, CHR 0x4C,
      CHR 0x69, CHR 0x6D, CHR 0x69, CHR 0x74, CHR 0x2C, CHR 0x20, CHR 0xED, CHR 0x94, CHR 0x84,
      CHR 0xEB, CHR 0xA0, CHR 0x88, CHR 0xEC, CHR 0x9E, CHR 0x84, CHR 0x20, CHR 0xEC, CHR 0xA0,
      CHR 0x95, CHR 0xEC, CHR 0xB1, CHR 0x85, CHR 0x2C, CHR 0x20, CHR 0x42, CHR 0x61, CHR 0x73,
      CHR 0x69, CHR 0x63, CHR 0x20, CHR 0x41, CHR 0x75, CHR 0x74, CHR 0x68, CHR 0x2C, CHR 0x20,
      CHR 0x48, CHR 0x54, CHR 0x54, CHR 0x50, CHR 0x53, CHR 0x20, CHR 0xEB, CHR 0xA6, CHR 0xAC,
      CHR 0xEB, CHR 0x8B, CHR 0xA4, CHR 0xEC, CHR 0x9D, CHR 0xB4, CHR 0xEB, CHR 0xA0, CHR 0x89,
      CHR 0xED, CHR 0x8A, CHR 0xB8, CHR 0x20, CHR 0xEA, CHR 0xB0, CHR 0x99, CHR 0xEC, CHR 0x9D,
      CHR 0x80, CHR 0x20, CHR 0xEC, CHR 0x84, CHR 0x9C, CHR 0xEB, CHR 0xB9, CHR 0x84, CHR 0xEC,
      CHR 0x8A, CHR 0xA4, CHR 0x20, CHR 0xEC, CHR 0x98, CHR 0xB5, CHR 0xEC, CHR 0x85, CHR 0x98,
      CHR 0xEC, CHR 0x9D, CHR 0x84, CHR 0x20, CHR 0xEC, CHR 0xBC, CHR 0x9C, CHR 0xEB, CHR 0xA9,
      CHR 0xB4, CHR 0x20, CHR 0xEC, CHR 0x97, CHR 0xAC, CHR 0xEA, CHR 0xB8, CHR 0xB0, CHR 0xEC,
      CHR 0x97, CHR 0x90, CHR 0x20, CHR 0xED, CHR 0x91, CHR 0x9C, CHR 0xEC, CHR 0x8B, CHR 0x9C,
      CHR 0xEB, CHR 0x90, CHR 0xA9, CHR 0xEB, CHR 0x8B, CHR 0x88, CHR 0xEB, CHR 0x8B, CHR 0xA4,
      CHR 0x2E]"

definition txt_mw_e_att :: string where
  "txt_mw_e_att =
     [CHR 0xEB, CHR 0xAF, CHR 0xB8, CHR 0xEC, CHR 0xA0, CHR 0x81, CHR 0xEC, CHR 0x9A, CHR 0xA9,
      CHR 0x20, CHR 0xEB, CHR 0x98, CHR 0x90, CHR 0xEB, CHR 0x8A, CHR 0x94, CHR 0x20, CHR 0xEC,
      CHR 0x98, CHR 0xA4, CHR 0xEB, CHR 0xA5, CHR 0x98, CHR 0x20, CHR 0xEC, CHR 0x83, CHR 0x81,
      CHR 0xED, CHR 0x83, CHR 0x9C, CHR 0xEC, CHR 0x9D, CHR 0x98, CHR 0x20, CHR 0xEC, CHR 0x9E,
      CHR 0x90, CHR 0xEB, CHR 0x8F, CHR 0x99, CHR 0x20, CHR 0xEC, CHR 0x83, CHR 0x9D, CHR 0xEC,
      CHR 0x84, CHR 0xB1, CHR 0x20, CHR 0xEB, CHR 0xAF, CHR 0xB8, CHR 0xEB, CHR 0x93, CHR 0xA4,
      CHR 0xEC, CHR 0x9B, CHR 0xA8, CHR 0xEC, CHR 0x96, CHR 0xB4, CHR 0xEA, CHR 0xB0, CHR 0x80,
      CHR 0x20, CHR 0xEC, CHR 0x97, CHR 0x86, CHR 0xEC, CHR 0x8A, CHR 0xB5, CHR 0xEB, CHR 0x8B,
      CHR 0x88, CHR 0xEB, CHR 0x8B, CHR 0xA4]"

definition txt_mw_e_att_d :: string where
  "txt_mw_e_att_d =
     [CHR 0xED, CHR 0x98, CHR 0x84, CHR 0xEC, CHR 0x9E, CHR 0xAC, CHR 0x20, CHR 0xEA, CHR 0xB2,
      CHR 0x80, CHR 0xEC, CHR 0x83, CHR 0x89, CHR 0x20, CHR 0xEB, CHR 0xB2, CHR 0x94, CHR 0xEC,
      CHR 0x9C, CHR 0x84, CHR 0xEC, CHR 0x9D, CHR 0x98, CHR 0x20, CHR 0xEC, CHR 0x9E, CHR 0x90,
      CHR 0xEB, CHR 0x8F, CHR 0x99, CHR 0x20, CHR 0xEC, CHR 0x83, CHR 0x9D, CHR 0xEC, CHR 0x84,
      CHR 0xB1, CHR 0x20, CHR 0xEB, CHR 0xAF, CHR 0xB8, CHR 0xEB, CHR 0x93, CHR 0xA4, CHR 0xEC,
      CHR 0x9B, CHR 0xA8, CHR 0xEC, CHR 0x96, CHR 0xB4, CHR 0xEA, CHR 0xB0, CHR 0x80, CHR 0x20,
      CHR 0xEB, CHR 0xAA, CHR 0xA8, CHR 0xEB, CHR 0x91, CHR 0x90, CHR 0x20, CHR 0xEC, CHR 0xA0,
      CHR 0x81, CHR 0xEC, CHR 0x9A, CHR 0xA9, CHR 0xEB, CHR 0x90, CHR 0x90, CHR 0xEA, CHR 0xB1,
      CHR 0xB0, CHR 0xEB, CHR 0x82, CHR 0x98, CHR 0x20, CHR 0xEB, CHR 0x8C, CHR 0x80, CHR 0xEA,
      CHR 0xB8, CHR 0xB0, CHR 0x20, CHR 0xEC, CHR 0x83, CHR 0x81, CHR 0xED, CHR 0x83, CHR 0x9C,
      CHR 0xEC, CHR 0x9E, CHR 0x85, CHR 0xEB, CHR 0x8B, CHR 0x88, CHR 0xEB, CHR 0x8B, CHR 0xA4,
      CHR 0x2E]"

definition txt_mw_e_pend :: string where
  "txt_mw_e_pend =
     [CHR 0xEB, CHR 0x8C, CHR 0x80, CHR 0xEA, CHR 0xB8, CHR 0xB0, CHR 0x20, CHR 0xEC, CHR 0xA4,
      CHR 0x91, CHR 0xEC, CHR 0x9D, CHR 0xB8, CHR 0x20, CHR 0xEC, CHR 0x9E, CHR 0x90, CHR 0xEB,
      CHR 0x8F, CHR 0x99, CHR 0x20, CHR 0xEC, CHR 0x83, CHR 0x9D, CHR 0xEC, CHR 0x84, CHR 0xB1,
      CHR 0x20, CHR 0xEB, CHR 0xAF, CHR 0xB8, CHR 0xEB, CHR 0x93, CHR 0xA4, CHR 0xEC, CHR 0x9B,
      CHR 0xA8, CHR 0xEC, CHR 0x96, CHR 0xB4, CHR 0xEA, CHR 0xB0, CHR 0x80, CHR 0x20, CHR 0xEC,
      CHR 0x97, CHR 0x86, CHR 0xEC, CHR 0x8A, CHR 0xB5, CHR 0xEB, CHR 0x8B, CHR 0x88, CHR 0xEB,
      CHR 0x8B, CHR 0xA4]"

definition txt_mw_e_pend_d :: string where
  "txt_mw_e_pend_d =
     [CHR 0x54, CHR 0x72, CHR 0x61, CHR 0x65, CHR 0x66, CHR 0x69, CHR 0x6B, CHR 0x20, CHR 0xEB,
      CHR 0x9F, CHR 0xB0, CHR 0xED, CHR 0x83, CHR 0x80, CHR 0xEC, CHR 0x9E, CHR 0x84, CHR 0x20,
      CHR 0xED, CHR 0x99, CHR 0x95, CHR 0xEC, CHR 0x9D, CHR 0xB8, CHR 0xEC, CHR 0x9D, CHR 0xB4,
      CHR 0x20, CHR 0xEB, CHR 0x81, CHR 0x9D, CHR 0xEB, CHR 0x82, CHR 0xAC, CHR 0xEA, CHR 0xB1,
      CHR 0xB0, CHR 0xEB, CHR 0x82, CHR 0x98, CHR 0x20, CHR 0xED, CHR 0x98, CHR 0x84, CHR 0xEC,
      CHR 0x9E, CHR 0xAC, CHR 0x20, CHR 0xEA, CHR 0xB2, CHR 0x80, CHR 0xEC, CHR 0x83, CHR 0x89,
      CHR 0x20, CHR 0xEB, CHR 0xB2, CHR 0x94, CHR 0xEC, CHR 0x9C, CHR 0x84, CHR 0xEC, CHR 0x97,
      CHR 0x90, CHR 0x20, CHR 0xEB, CHR 0x8C, CHR 0x80, CHR 0xEA, CHR 0xB8, CHR 0xB0, CHR 0x20,
      CHR 0xED, CHR 0x95, CHR 0xAD, CHR 0xEB, CHR 0xAA, CHR 0xA9, CHR 0xEC, CHR 0x9D, CHR 0xB4,
      CHR 0x20, CHR 0xEC, CHR 0x97, CHR 0x86, CHR 0xEC, CHR 0x8A, CHR 0xB5, CHR 0xEB, CHR 0x8B,
      CHR 0x88, CHR 0xEB, CHR 0x8B, CHR 0xA4, CHR 0x2E]"

definition txt_mw_e_cond :: string where
  "txt_mw_e_cond =
     [CHR 0xEC, CHR 0xA1, CHR 0xB0, CHR 0xEA, CHR 0xB1, CHR 0xB4, CHR 0xEC, CHR 0x97, CHR 0x90,
      CHR 0x20, CHR 0xEB, CHR 0xA7, CHR 0x9E, CHR 0xEB, CHR 0x8A, CHR 0x94, CHR 0x20, CHR 0xEC,
      CHR 0x9E, CHR 0x90, CHR 0xEB, CHR 0x8F, CHR 0x99, CHR 0x20, CHR 0xEC, CHR 0x83, CHR 0x9D,
      CHR 0xEC, CHR 0x84, CHR 0xB1, CHR 0x20, CHR 0xEB, CHR 0xAF, CHR 0xB8, CHR 0xEB, CHR 0x93,
      CHR 0xA4, CHR 0xEC, CHR 0x9B, CHR 0xA8, CHR 0xEC, CHR 0x96, CHR 0xB4, CHR 0xEA, CHR 0xB0,
      CHR 0x80, CHR 0x20, CHR 0xEC, CHR 0x97, CHR 0x86, CHR 0xEC, CHR 0x8A, CHR 0xB5, CHR 0xEB,
      CHR 0x8B, CHR 0x88, CHR 0xEB, CHR 0x8B, CHR 0xA4]"

definition txt_mw_e_cond_d :: string where
  "txt_mw_e_cond_d =
     [CHR 0xEA, CHR 0xB2, CHR 0x80, CHR 0xEC, CHR 0x83, CHR 0x89, CHR 0xEC, CHR 0x96, CHR 0xB4,
      CHR 0xEB, CHR 0x82, CHR 0x98, CHR 0x20, CHR 0xEC, CHR 0x83, CHR 0x81, CHR 0xED, CHR 0x83,
      CHR 0x9C, CHR 0x20, CHR 0xED, CHR 0x95, CHR 0x84, CHR 0xED, CHR 0x84, CHR 0xB0, CHR 0xEB,
      CHR 0xA5, CHR 0xBC, CHR 0x20, CHR 0xEC, CHR 0xA1, CHR 0xB0, CHR 0xEC, CHR 0xA0, CHR 0x95,
      CHR 0xED, CHR 0x95, CHR 0xB4, CHR 0x20, CHR 0xEB, CHR 0x8B, CHR 0xA4, CHR 0xEC, CHR 0x8B,
      CHR 0x9C, CHR 0x20, CHR 0xED, CHR 0x99, CHR 0x95, CHR 0xEC, CHR 0x9D, CHR 0xB8, CHR 0xED,
      CHR 0x95, CHR 0x98, CHR 0xEC, CHR 0x84, CHR 0xB8, CHR 0xEC, CHR 0x9A, CHR 0x94, CHR 0x2E]"

definition txt_mw_rt_failed :: string where
  "txt_mw_rt_failed =
     [CHR 0x54, CHR 0x72, CHR 0x61, CHR 0x65, CHR 0x66, CHR 0x69, CHR 0x6B, CHR 0x20, CHR 0xEB,
      CHR 0x9F, CHR 0xB0, CHR 0xED, CHR 0x83, CHR 0x80, CHR 0xEC, CHR 0x9E, CHR 0x84, CHR 0x20,
      CHR 0xEB, CHR 0xAF, CHR 0xB8, CHR 0xEB, CHR 0x93, CHR 0xA4, CHR 0xEC, CHR 0x9B, CHR 0xA8,
      CHR 0xEC, CHR 0x96, CHR 0xB4, CHR 0x20, CHR 0xEC, CHR 0x83, CHR 0x81, CHR 0xED, CHR 0x83,
      CHR 0x9C, CHR 0xEB, CHR 0xA5, CHR 0xBC, CHR 0x20, CHR 0xEB, CHR 0xB6, CHR 0x88, CHR 0xEB,
      CHR 0x9F, CHR 0xAC, CHR 0xEC, CHR 0x98, CHR 0xA4, CHR 0xEC, CHR 0xA7, CHR 0x80, CHR 0x20,
      CHR 0xEB, CHR 0xAA, CHR 0xBB, CHR 0xED, CHR 0x96, CHR 0x88, CHR 0xEC, CHR 0x8A, CHR 0xB5,
      CHR 0xEB, CHR 0x8B, CHR 0x88, CHR 0xEB, CHR 0x8B, CHR 0xA4]"

definition txt_mw_rt_unknown :: string where
  "txt_mw_rt_unknown =
     [CHR 0x54, CHR 0x72, CHR 0x61, CHR 0x65, CHR 0x66, CHR 0x69, CHR 0x6B, CHR 0x20, CHR 0xEC,
      CHR 0x97, CHR 0xB0, CHR 0xEA, CHR 0xB2, CHR 0xB0, CHR 0x20, CHR 0xEC, CHR 0x83, CHR 0x81,
      CHR 0xED, CHR 0x83, CHR 0x9C, CHR 0xEB, CHR 0xA5, CHR 0xBC, CHR 0x20, CHR 0xEC, CHR 0x95,
      CHR 0x84, CHR 0xEC, CHR 0xA7, CHR 0x81, CHR 0x20, CHR 0xED, CHR 0x99, CHR 0x95, CHR 0xEC,
      CHR 0x9D, CHR 0xB8, CHR 0xED, CHR 0x95, CHR 0x98, CHR 0xEC, CHR 0xA7, CHR 0x80, CHR 0x20,
      CHR 0xEB, CHR 0xAA, CHR 0xBB, CHR 0xED, CHR 0x96, CHR 0x88, CHR 0xEC, CHR 0x8A, CHR 0xB5,
      CHR 0xEB, CHR 0x8B, CHR 0x88, CHR 0xEB, CHR 0x8B, CHR 0xA4]"

definition txt_mw_tpl_failed :: string where
  "txt_mw_tpl_failed =
     [CHR 0xEB, CHR 0xAF, CHR 0xB8, CHR 0xEB, CHR 0x93, CHR 0xA4, CHR 0xEC, CHR 0x9B, CHR 0xA8,
      CHR 0xEC, CHR 0x96, CHR 0xB4, CHR 0x20, CHR 0xED, CHR 0x85, CHR 0x9C, CHR 0xED, CHR 0x94,
      CHR 0x8C, CHR 0xEB, CHR 0xA6, CHR 0xBF, CHR 0xEC, CHR 0x9D, CHR 0x84, CHR 0x20, CHR 0xEB,
      CHR 0xB6, CHR 0x88, CHR 0xEB, CHR 0x9F, CHR 0xAC, CHR 0xEC, CHR 0x98, CHR 0xA4, CHR 0xEC,
      CHR 0xA7, CHR 0x80, CHR 0x20, CHR 0xEB, CHR 0xAA, CHR 0xBB, CHR 0xED, CHR 0x96, CHR 0x88,
      CHR 0xEC, CHR 0x8A, CHR 0xB5, CHR 0xEB, CHR 0x8B, CHR 0x88, CHR 0xEB, CHR 0x8B, CHR 0xA4]"

definition txt_mw_svc_failed :: string where
  "txt_mw_svc_failed =
     [CHR 0xEC, CHR 0x84, CHR 0x9C, CHR 0xEB, CHR 0xB9, CHR 0x84, CHR 0xEC, CHR 0x8A, CHR 0xA4,
      CHR 0x20, CHR 0xEB, CHR 0xAA, CHR 0xA9, CHR 0xEB, CHR 0xA1, CHR 0x9D, CHR 0xEC, CHR 0x9D,
      CHR 0x84, CHR 0x20, CHR 0xEB, CHR 0xB6, CHR 0x88, CHR 0xEB, CHR 0x9F, CHR 0xAC, CHR 0xEC,
      CHR 0x98, CHR 0xA4, CHR 0xEC, CHR 0xA7, CHR 0x80, CHR 0x20, CHR 0xEB, CHR 0xAA, CHR 0xBB,
      CHR 0xED, CHR 0x96, CHR 0x88, CHR 0xEC, CHR 0x8A, CHR 0xB5, CHR 0xEB, CHR 0x8B, CHR 0x88,
      CHR 0xEB, CHR 0x8B, CHR 0xA4]"

end
