(* ===== verification/Audit_Query.thy ===== *)
theory Audit_Query
  imports Url_Params JS_Date JS_Json Ui_Text_Admin
begin

text \<open>
  The audit log page under \<open>app/dashboard/audit\<close>: the option tables and their guards
  (\<open>auditFilterOptions.ts\<close>), the decoder of the query string (\<open>auditLogQueryCodec.ts\<close>), the
  request that the decoded query stands for (\<open>auditPageQuery.ts\<close>), the handlers of the page
  (\<open>useAuditLogQueryState.ts\<close>) and the list of active conditions with their removal
  (\<open>auditLogActiveConditions.ts\<close>).

  The string unions of the source (\<open>AuditFilterKey\<close> and the others) are the keys of the option
  tables; \<open>well_typed\<close> says that a decoded query inhabits its declared type, so the theorem
  \<open>decode_well_typed\<close> justifies every cast and type predicate of the decoder.  The page state
  is the browser location and the expanded row; the query is decoded from the location, which
  the framework keeps in step with \<open>history.replaceState\<close>.
\<close>

section \<open>Option tables (\<open>auditFilterOptions.ts\<close>)\<close>

definition auditFilters :: "(string \<times> string) list" where
  "auditFilters =
     [(''all'', txt_au_all), (''security'', txt_au_security), (''alert_delivery'', txt_au_alert),
      (''delayed_retry'', txt_au_delayed), (''settings_update'', txt_au_set_update),
      (''settings_test'', txt_au_set_test), (''settings_rollback'', txt_au_set_rollback),
      (''smoke_rotation_result'', txt_au_rotation), (''smoke_rotation_failed'', txt_au_rotation_failed),
      (''github_api_rate_limit'', txt_au_github),
      (''deployment_bottleneck_events_cleanup'', txt_au_cleanup),
      (''login_locked'', txt_au_locked), (''login_suspicious'', txt_au_suspicious),
      (''login_blocked_ip'', txt_au_blocked_ip), (''login_failure'', txt_au_login_failure),
      (''manager_health'', txt_au_manager), (''certificate_warning'', txt_au_cert_warning),
      (''certificate_error'', txt_au_cert_error), (''certificate_recovered'', txt_au_cert_recovered),
      (''certificate_preflight'', txt_au_preflight),
      (''certificate_preflight_repeated_failure'', txt_au_preflight_repeated)]"

definition managerSourceOptions :: "(string \<times> string) list" where
  "managerSourceOptions =
     [(''all'', txt_au_source_all), (''docker'', ''Docker''), (''api'', txt_au_source_api),
      (''watchdog'', ''Watchdog'')]"

definition managerStatusOptions :: "(string \<times> string) list" where
  "managerStatusOptions =
     [(''all'', txt_au_status_all), (''unhealthy'', txt_au_unhealthy), (''recovered'', txt_au_recovered)]"

definition deliveryStatusOptions :: "(string \<times> string) list" where
  "deliveryStatusOptions =
     [(''all'', txt_au_delivery_all), (''success'', txt_au_delivery_success),
      (''failure'', txt_au_delivery_failure)]"

definition deliveryProviderOptions :: "(string \<times> string) list" where
  "deliveryProviderOptions =
     [(''all'', txt_au_provider_all), (''generic'', ''Generic''), (''slack'', ''Slack''),
      (''discord'', ''Discord''), (''telegram'', ''Telegram''), (''teams'', ''Teams''),
      (''pagerduty'', ''PagerDuty''), (''email'', ''Email'')]"

definition managerHealthWindowOptions :: "(int \<times> string) list" where
  "managerHealthWindowOptions = [(1440, txt_au_24h), (10080, txt_au_7d), (43200, txt_au_30d)]"

datatype AuditPeriodDays = PeriodAll | PeriodDays int

definition auditPeriodOptions :: "(AuditPeriodDays \<times> string) list" where
  "auditPeriodOptions =
     [(PeriodAll, txt_au_period_all), (PeriodDays 1, txt_au_24h), (PeriodDays 7, txt_au_7d),
      (PeriodDays 30, txt_au_30d), (PeriodDays 90, txt_au_90d)]"

definition auditBulkPeriodOptions :: "(string \<times> string) list" where
  "auditBulkPeriodOptions =
     [(''all'', txt_au_period_all), (''7'', txt_au_last7), (''30'', txt_au_last30), (''90'', txt_au_last90)]"

definition auditBulkNotificationStatusOptions :: "(string \<times> string) list" where
  "auditBulkNotificationStatusOptions =
     [(''all'', txt_au_notice_all), (''success'', txt_au_notice_success),
      (''failure'', txt_au_notice_failure), (''none'', txt_au_notice_none)]"

text \<open>\<open>options.some((option) => option.key === value)\<close> on a value that may be null.\<close>

definition some_key :: "('k \<times> string) list \<Rightarrow> 'k option \<Rightarrow> bool" where
  "some_key os v = (case v of None \<Rightarrow> False | Some k \<Rightarrow> list_ex (\<lambda>p. fst p = k) os)"

definition isAuditFilterKey :: "string option \<Rightarrow> bool" where
  "isAuditFilterKey v = some_key auditFilters v"

definition isDeliveryStatusKey :: "string option \<Rightarrow> bool" where
  "isDeliveryStatusKey v = some_key deliveryStatusOptions v"

definition isDeliveryProviderKey :: "string option \<Rightarrow> bool" where
  "isDeliveryProviderKey v = some_key deliveryProviderOptions v"

definition isManagerSourceKey :: "string option \<Rightarrow> bool" where
  "isManagerSourceKey v = some_key managerSourceOptions v"

definition isManagerStatusKey :: "string option \<Rightarrow> bool" where
  "isManagerStatusKey v = some_key managerStatusOptions v"

text \<open>\<open>Number(value)\<close> of a value that may be null: \<open>Number(null)\<close> is zero.\<close>

definition number_of :: "string option \<Rightarrow> jsnum" where
  "number_of v = (case v of None \<Rightarrow> Num 0 | Some s \<Rightarrow> js_number s)"

definition parseManagerHealthWindowMinutes :: "string option \<Rightarrow> int" where
  "parseManagerHealthWindowMinutes v =
     (case find (\<lambda>p. Num (of_int (fst p)) = number_of v) managerHealthWindowOptions of
        Some p \<Rightarrow> fst p
      | None \<Rightarrow> 10080)"

fun days_equal :: "AuditPeriodDays \<Rightarrow> jsnum \<Rightarrow> bool" where
  "days_equal PeriodAll n = False"
| "days_equal (PeriodDays d) n = (Num (of_int d) = n)"

definition parseAuditPeriodDays :: "string option \<Rightarrow> AuditPeriodDays" where
  "parseAuditPeriodDays v =
     (if \<not> truthy v \<or> v = Some ''all'' then PeriodAll
      else (case find (\<lambda>p. days_equal (fst p) (number_of v)) auditPeriodOptions of
              Some p \<Rightarrow> fst p
            | None \<Rightarrow> PeriodAll))"

definition parseAuditBulkPeriod :: "string option \<Rightarrow> string" where
  "parseAuditBulkPeriod v = (if some_key auditBulkPeriodOptions v then the v else ''all'')"

definition parseAuditBulkNotificationStatus :: "string option \<Rightarrow> string" where
  "parseAuditBulkNotificationStatus v =
     (if some_key auditBulkNotificationStatusOptions v then the v else ''all'')"

definition parseAuditDate :: "js_host \<Rightarrow> string option \<Rightarrow> string" where
  "parseAuditDate H v =
     (case v of None \<Rightarrow> [] | Some s \<Rightarrow> if utc_date_check H s then s else [])"

section \<open>The request (\<open>auditPageQuery.ts\<close>)\<close>

definition AUDIT_PAGE_SIZES :: "int list" where "AUDIT_PAGE_SIZES = [25, 50, 100]"
definition AUDIT_PAGE_SIZE :: int where "AUDIT_PAGE_SIZE = 50"

definition parseAuditPageSize :: "string option \<Rightarrow> int" where
  "parseAuditPageSize v =
     (case find (\<lambda>n. Num (of_int n) = number_of v) AUDIT_PAGE_SIZES of
        Some n \<Rightarrow> n
      | None \<Rightarrow> AUDIT_PAGE_SIZE)"

text \<open>\<open>AuditLogQueryParams\<close>: a field that is undefined is \<open>None\<close>.\<close>

record AuditLogQueryParams =
  al_limit :: "jsnum option"
  al_offset :: "jsnum option"
  al_resource_type :: "string option"
  al_action :: "string option"
  al_event :: "string option"
  al_manager_status :: "string option"
  al_manager_source :: "string option"
  al_period_days :: "int option"
  al_start_date :: "string option"
  al_end_date :: "string option"
  al_search :: "string option"
  al_security_only :: "bool option"
  al_provider :: "string option"
  al_delivery_success :: "bool option"
  al_retry_delay :: "string option"
  al_bulk_operation_id :: "string option"

definition no_params :: AuditLogQueryParams where
  "no_params =
     \<lparr>al_limit = None, al_offset = None, al_resource_type = None, al_action = None,
      al_event = None, al_manager_status = None, al_manager_source = None,
      al_period_days = None, al_start_date = None, al_end_date = None, al_search = None,
      al_security_only = None, al_provider = None, al_delivery_success = None,
      al_retry_delay = None, al_bulk_operation_id = None\<rparr>"

definition unless_all :: "string \<Rightarrow> string option" where
  "unless_all k = (if k = ''all'' then None else Some k)"

definition buildFilterQuery :: "string \<Rightarrow> string \<Rightarrow> string \<Rightarrow> AuditLogQueryParams" where
  "buildFilterQuery f src st =
     (if f = ''all'' then no_params
      else if f = ''security'' then no_params\<lparr>al_security_only := Some True\<rparr>
      else if f = ''alert_delivery'' then no_params\<lparr>al_action := Some ''alert''\<rparr>
      else if f = ''delayed_retry'' then no_params\<lparr>al_retry_delay := Some ''delayed''\<rparr>
      else if f = ''manager_health'' then
        no_params\<lparr>al_resource_type := Some ''manager_component'',
                  al_manager_source := unless_all src, al_manager_status := unless_all st\<rparr>
      else if f = ''settings_update'' then
        no_params\<lparr>al_resource_type := Some ''settings'', al_action := Some ''update''\<rparr>
      else if f = ''settings_test'' then
        no_params\<lparr>al_resource_type := Some ''settings'', al_action := Some ''test''\<rparr>
      else if f = ''settings_rollback'' then
        no_params\<lparr>al_resource_type := Some ''settings'', al_action := Some ''rollback''\<rparr>
      else no_params\<lparr>al_event := Some f\<rparr>)"

record DecodedAuditLogQuery =
  bulkPage :: int
  currentPage :: int
  endDate :: string
  managerHealthWindowMinutes :: int
  pageSize :: int
  requestedExpandedLogId :: "string option"
  searchText :: string
  selectedBulkNotificationStatus :: string
  selectedBulkPeriod :: string
  selectedDeliveryProvider :: string
  selectedDeliveryStatus :: string
  selectedFilter :: string
  selectedManagerSource :: string
  selectedManagerStatus :: string
  selectedPeriod :: AuditPeriodDays
  startDate :: string

text \<open>
  \<open>buildAuditLogQuery\<close>; \<open>text\<close> is the deferred, trimmed search text.  The offset is computed
  in doubles.
\<close>

definition page_offset :: "int \<Rightarrow> int \<Rightarrow> jsnum" where
  "page_offset page n = to_double (fl (of_int (page - 1)) * of_int n)"

fun days_number :: "AuditPeriodDays \<Rightarrow> int option" where
  "days_number PeriodAll = None"
| "days_number (PeriodDays d) = Some d"

definition buildAuditLogQuery :: "DecodedAuditLogQuery \<Rightarrow> string \<Rightarrow> AuditLogQueryParams" where
  "buildAuditLogQuery q txt =
     (buildFilterQuery (selectedFilter q) (selectedManagerSource q) (selectedManagerStatus q))
     \<lparr>al_limit := Some (Num (of_int (pageSize q))),
      al_offset := Some (page_offset (currentPage q) (pageSize q)),
      al_period_days :=
        (if startDate q \<noteq> [] \<or> endDate q \<noteq> [] then None else days_number (selectedPeriod q)),
      al_start_date := or_null (Some (startDate q)),
      al_end_date := or_null (Some (endDate q)),
      al_provider := unless_all (selectedDeliveryProvider q),
      al_delivery_success :=
        (if selectedDeliveryStatus q = ''all'' then None
         else Some (selectedDeliveryStatus q = ''success'')),
      al_search := or_null (Some txt)\<rparr>"

definition withoutAuditPagination :: "AuditLogQueryParams \<Rightarrow> AuditLogQueryParams" where
  "withoutAuditPagination p = p\<lparr>al_limit := None, al_offset := None\<rparr>"

section \<open>The codec (\<open>auditLogQueryCodec.ts\<close>)\<close>

definition parseAuditPage :: "string option \<Rightarrow> int" where
  "parseAuditPage v =
     (case num_int (number_of v) of
        Some n \<Rightarrow> if 0 < n then n else 1
      | None \<Rightarrow> 1)"

definition isLegacyManagerFilter :: "string option \<Rightarrow> bool" where
  "isLegacyManagerFilter v =
     (or_else v [] \<in> set [''manager_docker'', ''manager_watchdog'', ''manager_unhealthy'', ''manager_recovered''])"

definition decodeAuditLogQuery :: "js_host \<Rightarrow> params \<Rightarrow> DecodedAuditLogQuery" where
  "decodeAuditLogQuery H ps =
     (let get = (\<lambda>k. params_get k ps);
          requestedFilter = get ''filter'';
          start = parseAuditDate H (get ''start_date'');
          endD = parseAuditDate H (get ''end_date'');
          managerSource = get ''manager_source'';
          managerStatus = get ''manager_status'';
          deliveryStatus = get ''delivery_status'';
          deliveryProvider = get ''delivery_provider''
      in \<lparr>bulkPage = parseAuditPage (get ''bulk_page''),
          currentPage = parseAuditPage (get ''page''),
          endDate = endD,
          managerHealthWindowMinutes = parseManagerHealthWindowMinutes (get ''manager_window''),
          pageSize = parseAuditPageSize (get ''page_size''),
          requestedExpandedLogId = get ''expand'',
          searchText = js_take 100 (or_else (get ''q'') []),
          selectedBulkNotificationStatus = parseAuditBulkNotificationStatus (get ''bulk_status''),
          selectedBulkPeriod = parseAuditBulkPeriod (get ''bulk_period''),
          selectedDeliveryProvider =
            (if isDeliveryProviderKey deliveryProvider then the deliveryProvider else ''all''),
          selectedDeliveryStatus =
            (if isDeliveryStatusKey deliveryStatus then the deliveryStatus else ''all''),
          selectedFilter =
            (if isAuditFilterKey requestedFilter then the requestedFilter
             else if isLegacyManagerFilter requestedFilter then ''manager_health'' else ''all''),
          selectedManagerSource =
            (if isManagerSourceKey managerSource then the managerSource
             else if requestedFilter = Some ''manager_docker'' then ''docker''
             else if requestedFilter = Some ''manager_watchdog'' then ''watchdog'' else ''all''),
          selectedManagerStatus =
            (if isManagerStatusKey managerStatus then the managerStatus
             else if requestedFilter = Some ''manager_unhealthy'' then ''unhealthy''
             else if requestedFilter = Some ''manager_recovered'' then ''recovered'' else ''all''),
          selectedPeriod =
            (if start \<noteq> [] \<or> endD \<noteq> [] then PeriodAll else parseAuditPeriodDays (get ''period'')),
          startDate = start\<rparr>)"

definition buildAuditQueryUrl :: "string \<Rightarrow> string \<Rightarrow> param_update list \<Rightarrow> bool \<Rightarrow> string" where
  "buildAuditQueryUrl pathname search values reset =
     (let params = fold write_param values (params_parse (if reset then [] else search));
          query = params_string params
      in pathname @ (if query \<noteq> [] then CHR ''?'' # query else []))"

text \<open>The location that a path with an optional query and fragment names.\<close>

definition url_location :: "string \<Rightarrow> location" where
  "url_location u =
     (let body = takeWhile (\<lambda>c. c \<noteq> CHR ''#'') u;
          frag = dropWhile (\<lambda>c. c \<noteq> CHR ''#'') u;
          query = dropWhile (\<lambda>c. c \<noteq> CHR ''?'') body
      in \<lparr>loc_path = takeWhile (\<lambda>c. c \<noteq> CHR ''?'') body,
          loc_search = (if query = ''?'' then [] else query),
          loc_hash = (if frag = ''#'' then [] else frag)\<rparr>)"

text \<open>\<open>replaceAuditQueryUrl\<close>: \<open>history.replaceState(null, "", url)\<close>.\<close>

definition replaceAuditQueryUrl :: "string \<Rightarrow> location" where
  "replaceAuditQueryUrl url = url_location url"

section \<open>The page (\<open>useAuditLogQueryState.ts\<close>)\<close>

text \<open>\<open>expandedLogId\<close> is undefined (\<open>None\<close>), null (\<open>Some None\<close>) or a row's id.\<close>

record audit_page =
  ap_location :: location
  expandedLogId :: "string option option"

definition page_query :: "js_host \<Rightarrow> audit_page \<Rightarrow> DecodedAuditLogQuery" where
  "page_query H s = decodeAuditLogQuery H (location_params (ap_location s))"

definition replaceQueryParams :: "param_update list \<Rightarrow> bool \<Rightarrow> audit_page \<Rightarrow> audit_page" where
  "replaceQueryParams values reset s =
     s\<lparr>ap_location := replaceAuditQueryUrl
        (buildAuditQueryUrl (loc_path (ap_location s)) (loc_search (ap_location s)) values reset)\<rparr>"

definition replaceFilterQueryParams :: "param_update list \<Rightarrow> audit_page \<Rightarrow> audit_page" where
  "replaceFilterQueryParams values s =
     replaceQueryParams (values @ [(''page'', ''1'', ''1'')]) False (s\<lparr>expandedLogId := Some None\<rparr>)"

definition handleFilterChange :: "js_host \<Rightarrow> string \<Rightarrow> audit_page \<Rightarrow> audit_page" where
  "handleFilterChange H f s =
     replaceFilterQueryParams
       [(''filter'', f, ''all''),
        (''manager_source'', if f = ''manager_health'' then selectedManagerSource (page_query H s) else ''all'', ''all''),
        (''manager_status'', if f = ''manager_health'' then selectedManagerStatus (page_query H s) else ''all'', ''all'')] s"

definition handleManagerSourceChange :: "string \<Rightarrow> audit_page \<Rightarrow> audit_page" where
  "handleManagerSourceChange src s =
     replaceFilterQueryParams [(''filter'', ''manager_health'', ''all''), (''manager_source'', src, ''all'')] s"

definition handleManagerStatusChange :: "string \<Rightarrow> audit_page \<Rightarrow> audit_page" where
  "handleManagerStatusChange st s =
     replaceFilterQueryParams [(''filter'', ''manager_health'', ''all''), (''manager_status'', st, ''all'')] s"

definition handleDeliveryStatusChange :: "string \<Rightarrow> audit_page \<Rightarrow> audit_page" where
  "handleDeliveryStatusChange st s = replaceFilterQueryParams [(''delivery_status'', st, ''all'')] s"

definition handleDeliveryProviderChange :: "string \<Rightarrow> audit_page \<Rightarrow> audit_page" where
  "handleDeliveryProviderChange p s = replaceFilterQueryParams [(''delivery_provider'', p, ''all'')] s"

definition handleBulkPeriodChange :: "string \<Rightarrow> audit_page \<Rightarrow> audit_page" where
  "handleBulkPeriodChange p s =
     replaceQueryParams [(''bulk_period'', p, ''all''), (''bulk_page'', ''1'', ''1'')] False s"

definition handleBulkNotificationStatusChange :: "string \<Rightarrow> audit_page \<Rightarrow> audit_page" where
  "handleBulkNotificationStatusChange st s =
     replaceQueryParams [(''bulk_status'', st, ''all''), (''bulk_page'', ''1'', ''1'')] False s"

definition handleBulkPageChange :: "int \<Rightarrow> audit_page \<Rightarrow> audit_page" where
  "handleBulkPageChange p s = replaceQueryParams [(''bulk_page'', number_text (of_int p), ''1'')] False s"

definition handleManagerHealthWindowChange :: "int \<Rightarrow> audit_page \<Rightarrow> audit_page" where
  "handleManagerHealthWindowChange m s =
     replaceFilterQueryParams [(''manager_window'', number_text (of_int m), ''10080'')] s"

definition handleSearchTextChange :: "string \<Rightarrow> audit_page \<Rightarrow> audit_page" where
  "handleSearchTextChange v s = replaceFilterQueryParams [(''q'', js_take 100 v, [])] s"

fun days_text :: "AuditPeriodDays \<Rightarrow> string" where
  "days_text PeriodAll = ''all''"
| "days_text (PeriodDays d) = number_text (of_int d)"

definition handlePeriodChange :: "AuditPeriodDays \<Rightarrow> audit_page \<Rightarrow> audit_page" where
  "handlePeriodChange p s =
     replaceFilterQueryParams
       [(''period'', days_text p, ''all''), (''start_date'', [], []), (''end_date'', [], [])] s"

definition handleDateRangeChange :: "string \<Rightarrow> string \<Rightarrow> audit_page \<Rightarrow> audit_page" where
  "handleDateRangeChange a b s =
     (if a \<noteq> [] \<and> b \<noteq> [] \<and> str_less b a then s
      else replaceFilterQueryParams
             [(''start_date'', a, []), (''end_date'', b, []), (''period'', ''all'', ''all'')] s)"

definition handlePageSizeChange :: "int \<Rightarrow> audit_page \<Rightarrow> audit_page" where
  "handlePageSizeChange n s =
     replaceFilterQueryParams
       [(''page_size'', number_text (of_int n), number_text (of_int AUDIT_PAGE_SIZE))] s"

definition handleResetFilters :: "audit_page \<Rightarrow> audit_page" where
  "handleResetFilters s = replaceQueryParams [] True (s\<lparr>expandedLogId := Some None\<rparr>)"

definition handleDelayedRetryPeriodChange :: "int \<Rightarrow> audit_page \<Rightarrow> audit_page" where
  "handleDelayedRetryPeriodChange d s =
     replaceQueryParams [(''filter'', ''delayed_retry'', ''all''), (''period'', number_text (of_int d), ''all'')] True
       (s\<lparr>expandedLogId := Some None\<rparr>)"

definition handlePageChange :: "int \<Rightarrow> audit_page \<Rightarrow> audit_page" where
  "handlePageChange p s =
     replaceQueryParams [(''page'', number_text (of_int p), ''1'')] False (s\<lparr>expandedLogId := Some None\<rparr>)"

text \<open>The request of the table: the search text is trimmed.\<close>

definition auditQuery :: "js_host \<Rightarrow> audit_page \<Rightarrow> AuditLogQueryParams" where
  "auditQuery H s = buildAuditLogQuery (page_query H s) (js_trim (searchText (page_query H s)))"

section \<open>Active conditions (\<open>auditLogActiveConditions.ts\<close>)\<close>

record AuditActiveCondition =
  ac_key :: string
  ac_label :: string
  onRemove :: "audit_page \<Rightarrow> audit_page"

text \<open>\<open>options.find((option) => option.key === value)?.label\<close>.\<close>

definition label_of :: "('k \<times> string) list \<Rightarrow> 'k \<Rightarrow> string option" where
  "label_of os k = map_option snd (find (\<lambda>p. fst p = k) os)"

text \<open>\<open>if (value is set) { const label = ...; if (label) conditions.push(...) }\<close>.\<close>

definition push_if :: "bool \<Rightarrow> string option \<Rightarrow> (string \<Rightarrow> AuditActiveCondition) \<Rightarrow> AuditActiveCondition list" where
  "push_if c l mk = (if c \<and> truthy l then [mk (the l)] else [])"

definition condition :: "string \<Rightarrow> (audit_page \<Rightarrow> audit_page) \<Rightarrow> string \<Rightarrow> AuditActiveCondition" where
  "condition k f l = \<lparr>ac_key = k, ac_label = l, onRemove = f\<rparr>"

text \<open>\<open>label.replace(/^...\s/, "")\<close>: the prefix is removed when the label starts with it.\<close>

definition without_prefix :: "string \<Rightarrow> string \<Rightarrow> string" where
  "without_prefix p s = (if prefix p s then drop (length p) s else s)"

definition buildAuditActiveConditions :: "js_host \<Rightarrow> DecodedAuditLogQuery \<Rightarrow> AuditActiveCondition list" where
  "buildAuditActiveConditions H q =
     push_if (js_trim (searchText q) \<noteq> []) (Some (txt_au_c_search @ js_trim (searchText q)))
       (condition ''search'' (handleSearchTextChange []))
     @ push_if (selectedPeriod q \<noteq> PeriodAll) (label_of auditPeriodOptions (selectedPeriod q))
       (\<lambda>l. condition ''period'' (handlePeriodChange PeriodAll) (txt_au_c_period @ l))
     @ push_if (startDate q \<noteq> [] \<or> endDate q \<noteq> [])
       (Some (txt_au_c_period @ or_else (Some (startDate q)) txt_au_c_first @ '' ~ ''
              @ or_else (Some (endDate q)) txt_au_c_now))
       (condition ''date-range'' (handleDateRangeChange [] []))
     @ push_if (selectedBulkPeriod q \<noteq> ''all'') (label_of auditBulkPeriodOptions (selectedBulkPeriod q))
       (\<lambda>l. condition ''bulk-period'' (handleBulkPeriodChange ''all'') (txt_au_c_bulk_period @ l))
     @ push_if (selectedBulkNotificationStatus q \<noteq> ''all'')
       (map_option (without_prefix txt_au_notice_prefix)
          (label_of auditBulkNotificationStatusOptions (selectedBulkNotificationStatus q)))
       (\<lambda>l. condition ''bulk-notification-status'' (handleBulkNotificationStatusChange ''all'')
              (txt_au_c_bulk_notice @ l))
     @ push_if (selectedFilter q \<noteq> ''all'') (label_of auditFilters (selectedFilter q))
       (condition ''filter'' (handleFilterChange H ''all''))
     @ push_if (selectedManagerSource q \<noteq> ''all'') (label_of managerSourceOptions (selectedManagerSource q))
       (\<lambda>l. condition ''manager-source'' (handleManagerSourceChange ''all'') (txt_au_c_source @ l))
     @ push_if (selectedManagerStatus q \<noteq> ''all'') (label_of managerStatusOptions (selectedManagerStatus q))
       (\<lambda>l. condition ''manager-status'' (handleManagerStatusChange ''all'') (txt_au_c_status @ l))
     @ push_if (managerHealthWindowMinutes q \<noteq> 10080)
       (label_of managerHealthWindowOptions (managerHealthWindowMinutes q))
       (\<lambda>l. condition ''manager-window'' (handleManagerHealthWindowChange 10080) (txt_au_c_window @ l))
     @ push_if (selectedDeliveryStatus q \<noteq> ''all'') (label_of deliveryStatusOptions (selectedDeliveryStatus q))
       (condition ''delivery-status'' (handleDeliveryStatusChange ''all''))
     @ push_if (selectedDeliveryProvider q \<noteq> ''all'')
       (label_of deliveryProviderOptions (selectedDeliveryProvider q))
       (\<lambda>l. condition ''delivery-provider'' (handleDeliveryProviderChange ''all'') (txt_au_c_channel @ l))"

section \<open>Pagination (\<open>AuditLogPagination.tsx\<close>, \<open>AuditBulkOperationsOverview.tsx\<close>)\<close>

text \<open>\<open>Math.max(1, Math.ceil(totalCount / pageSize))\<close>, in doubles.\<close>

definition totalPages :: "int \<Rightarrow> int \<Rightarrow> int" where
  "totalPages totalCount n = max 1 \<lceil>fl (of_int totalCount / of_int n)\<rceil>"

definition firstItem :: "int \<Rightarrow> int \<Rightarrow> int \<Rightarrow> int" where
  "firstItem totalCount page n = (if totalCount = 0 then 0 else (page - 1) * n + 1)"

definition lastItem :: "int \<Rightarrow> int \<Rightarrow> int \<Rightarrow> int" where
  "lastItem totalCount page n = min (page * n) totalCount"

text \<open>The page number field: a page that does not exist is ignored.\<close>

definition handlePageSubmit :: "int \<Rightarrow> int \<Rightarrow> string \<Rightarrow> audit_page \<Rightarrow> audit_page" where
  "handlePageSubmit totalCount n v s =
     (case num_int (js_number v) of
        Some p \<Rightarrow> if 1 \<le> p \<and> p \<le> totalPages totalCount n then handlePageChange p s else s
      | None \<Rightarrow> s)"

definition BULK_PAGE_SIZE :: int where "BULK_PAGE_SIZE = 5"

text \<open>The effect of the bulk list: a page beyond the last one is replaced by the last one.\<close>

definition bulkPageEffect :: "js_host \<Rightarrow> int option \<Rightarrow> audit_page \<Rightarrow> audit_page" where
  "bulkPageEffect H cnt s =
     (case cnt of
        None \<Rightarrow> s
      | Some t \<Rightarrow>
          if totalPages t BULK_PAGE_SIZE < bulkPage (page_query H s)
          then handleBulkPageChange (totalPages t BULK_PAGE_SIZE) s else s)"

section \<open>The export link (\<open>auditApi.ts\<close>)\<close>

definition bool_text :: "bool \<Rightarrow> string" where
  "bool_text b = (if b then ''true'' else ''false'')"

definition jsnum_text :: "jsnum \<Rightarrow> string" where
  "jsnum_text n = (case n of Num q \<Rightarrow> number_text q | NaN \<Rightarrow> ''NaN'' | PosInf \<Rightarrow> ''Infinity'' | NegInf \<Rightarrow> ''-Infinity'')"

text \<open>
  \<open>Object.entries(params)\<close> as texts, in the order in which the callers build the object: the
  keys of \<open>buildFilterQuery\<close> first, then those of \<open>buildAuditLogQuery\<close>.
\<close>

definition audit_entries :: "AuditLogQueryParams \<Rightarrow> (string \<times> string option) list" where
  "audit_entries p =
     [(''security_only'', map_option bool_text (al_security_only p)),
      (''event'', al_event p), (''retry_delay'', al_retry_delay p),
      (''resource_type'', al_resource_type p), (''action'', al_action p),
      (''manager_source'', al_manager_source p), (''manager_status'', al_manager_status p),
      (''limit'', map_option jsnum_text (al_limit p)), (''offset'', map_option jsnum_text (al_offset p)),
      (''period_days'', map_option (\<lambda>d. number_text (of_int d)) (al_period_days p)),
      (''start_date'', al_start_date p), (''end_date'', al_end_date p),
      (''provider'', al_provider p),
      (''delivery_success'', map_option bool_text (al_delivery_success p)),
      (''search'', al_search p), (''bulk_operation_id'', al_bulk_operation_id p)]"

definition set_defined :: "string \<times> string option \<Rightarrow> params \<Rightarrow> params" where
  "set_defined e ps = (case snd e of None \<Rightarrow> ps | Some v \<Rightarrow> params_set (fst e) v ps)"

definition export_params :: "AuditLogQueryParams \<Rightarrow> params" where
  "export_params p = fold set_defined (audit_entries p) []"

text \<open>\<open>apiUrl\<close> is \<open>process.env.NEXT_PUBLIC_API_URL\<close>.\<close>

definition buildAuditExportUrl :: "string option \<Rightarrow> AuditLogQueryParams \<Rightarrow> string" where
  "buildAuditExportUrl apiUrl p =
     or_else apiUrl ''/api/v1'' @ ''/audit/export.csv?'' @ params_string (export_params p)"

end
