(* ===== verification/Audit_Correct.thy ===== *)
theory Audit_Correct
  imports Audit_Query
begin

text \<open>
  What the audit log page promises.  Whatever the query string holds, the decoded query is
  well typed; every handler of the page does to the decoded query what its abstract counterpart
  \<open>spec_step\<close> says (a refinement through the URL printer and parser); the manager source and
  status are only ever set under the manager filter; removing a shown condition removes exactly
  it; and the request sent carries a filter exactly when a condition is shown.
\<close>

section \<open>Types of the decoded query\<close>

definition keys_of :: "('k \<times> string) list \<Rightarrow> 'k set" where
  "keys_of os = fst ` set os"

definition date_text :: "string \<Rightarrow> bool" where
  "date_text s = (s = [] \<or> calendar_date s)"

definition well_typed :: "DecodedAuditLogQuery \<Rightarrow> bool" where
  "well_typed q =
     (1 \<le> bulkPage q \<and> 1 \<le> currentPage q \<and> pageSize q \<in> set AUDIT_PAGE_SIZES \<and>
      managerHealthWindowMinutes q \<in> keys_of managerHealthWindowOptions \<and>
      utf16_length (searchText q) \<le> 100 \<and>
      selectedBulkNotificationStatus q \<in> keys_of auditBulkNotificationStatusOptions \<and>
      selectedBulkPeriod q \<in> keys_of auditBulkPeriodOptions \<and>
      selectedDeliveryProvider q \<in> keys_of deliveryProviderOptions \<and>
      selectedDeliveryStatus q \<in> keys_of deliveryStatusOptions \<and>
      selectedFilter q \<in> keys_of auditFilters \<and>
      selectedManagerSource q \<in> keys_of managerSourceOptions \<and>
      selectedManagerStatus q \<in> keys_of managerStatusOptions \<and>
      selectedPeriod q \<in> keys_of auditPeriodOptions \<and>
      date_text (startDate q) \<and> date_text (endDate q) \<and>
      (selectedPeriod q = PeriodAll \<or> startDate q = [] \<and> endDate q = []))"

lemma some_key_iff: "some_key os v \<longleftrightarrow> (\<exists>k. v = Some k \<and> k \<in> keys_of os)"
  by (auto simp: some_key_def keys_of_def list_ex_iff image_iff split: option.splits)

text \<open>\<open>isKey(value) ? value : fallback\<close>, and the fallbacks of the legacy filter names.\<close>

definition key_or :: "'k \<Rightarrow> ('k \<times> string) list \<Rightarrow> 'k option \<Rightarrow> 'k" where
  "key_or d os v = (if some_key os v then the v else d)"

definition legacy_filter :: "string option \<Rightarrow> string" where
  "legacy_filter v = (if isLegacyManagerFilter v then ''manager_health'' else ''all'')"

definition legacy_source :: "string option \<Rightarrow> string" where
  "legacy_source v =
     (if v = Some ''manager_docker'' then ''docker''
      else if v = Some ''manager_watchdog'' then ''watchdog'' else ''all'')"

definition legacy_status :: "string option \<Rightarrow> string" where
  "legacy_status v =
     (if v = Some ''manager_unhealthy'' then ''unhealthy''
      else if v = Some ''manager_recovered'' then ''recovered'' else ''all'')"

lemma key_or_mem: "d \<in> keys_of os \<Longrightarrow> key_or d os v \<in> keys_of os"
  by (auto simp: some_key_iff key_or_def)

lemma key_or_simps [simp]: "key_or d os None = d" "k \<in> keys_of os \<Longrightarrow> key_or d os (Some k) = k"
  by (auto simp: some_key_iff key_or_def)

lemma find_key: "(case find P os of Some p \<Rightarrow> fst p | None \<Rightarrow> d) \<in> insert d (keys_of os)"
proof (cases "find P os")
  case (Some p)
  then have "p \<in> set os" by (auto simp: find_Some_iff)
  then show ?thesis using Some by (simp add: keys_of_def)
qed simp

lemma find_mem: "(case find P xs of Some x \<Rightarrow> x | None \<Rightarrow> d) \<in> insert d (set xs)"
  by (auto simp: find_Some_iff split: option.splits)

lemma all_keys:
  "''all'' \<in> keys_of auditFilters" "''manager_health'' \<in> keys_of auditFilters"
  "''delayed_retry'' \<in> keys_of auditFilters"
  "''all'' \<in> keys_of managerSourceOptions" "''docker'' \<in> keys_of managerSourceOptions"
  "''watchdog'' \<in> keys_of managerSourceOptions"
  "''all'' \<in> keys_of managerStatusOptions" "''unhealthy'' \<in> keys_of managerStatusOptions"
  "''recovered'' \<in> keys_of managerStatusOptions"
  "''all'' \<in> keys_of deliveryStatusOptions" "''all'' \<in> keys_of deliveryProviderOptions"
  "''all'' \<in> keys_of auditBulkPeriodOptions" "''all'' \<in> keys_of auditBulkNotificationStatusOptions"
  "10080 \<in> keys_of managerHealthWindowOptions" "PeriodAll \<in> keys_of auditPeriodOptions"
  by (simp_all add: keys_of_def auditFilters_def managerSourceOptions_def managerStatusOptions_def
      deliveryStatusOptions_def deliveryProviderOptions_def auditBulkPeriodOptions_def
      auditBulkNotificationStatusOptions_def managerHealthWindowOptions_def auditPeriodOptions_def)

lemma parseAuditPage_pos: "1 \<le> parseAuditPage v"
  by (auto simp: parseAuditPage_def split: option.splits)

lemma parseAuditPageSize_mem: "parseAuditPageSize v \<in> set AUDIT_PAGE_SIZES"
  using find_mem [where P = "\<lambda>n. Num (of_int n) = number_of v" and xs = AUDIT_PAGE_SIZES and d = AUDIT_PAGE_SIZE]
  by (auto simp: parseAuditPageSize_def AUDIT_PAGE_SIZE_def AUDIT_PAGE_SIZES_def)

lemma parse_window_mem: "parseManagerHealthWindowMinutes v \<in> keys_of managerHealthWindowOptions"
  using find_key [where P = "\<lambda>p. Num (of_int (fst p)) = number_of v" and os = managerHealthWindowOptions and d = 10080] all_keys
  by (auto simp: parseManagerHealthWindowMinutes_def)

lemma parse_days_mem: "parseAuditPeriodDays v \<in> keys_of auditPeriodOptions"
  using find_key [where P = "\<lambda>p. days_equal (fst p) (number_of v)" and os = auditPeriodOptions and d = PeriodAll] all_keys
  by (auto simp: parseAuditPeriodDays_def)

lemma parseAuditDate_text: "date_text (parseAuditDate H v)"
  by (auto simp: parseAuditDate_def date_text_def utc_date_check_iff split: option.splits)

text \<open>The fields of the decoded query, one equation each.\<close>

lemma decode_simps:
  "bulkPage (decodeAuditLogQuery H ps) = parseAuditPage (params_get ''bulk_page'' ps)"
  "currentPage (decodeAuditLogQuery H ps) = parseAuditPage (params_get ''page'' ps)"
  "endDate (decodeAuditLogQuery H ps) = parseAuditDate H (params_get ''end_date'' ps)"
  "startDate (decodeAuditLogQuery H ps) = parseAuditDate H (params_get ''start_date'' ps)"
  "managerHealthWindowMinutes (decodeAuditLogQuery H ps) =
     parseManagerHealthWindowMinutes (params_get ''manager_window'' ps)"
  "pageSize (decodeAuditLogQuery H ps) = parseAuditPageSize (params_get ''page_size'' ps)"
  "requestedExpandedLogId (decodeAuditLogQuery H ps) = params_get ''expand'' ps"
  "searchText (decodeAuditLogQuery H ps) = js_take 100 (or_else (params_get ''q'' ps) [])"
  "selectedBulkNotificationStatus (decodeAuditLogQuery H ps) =
     key_or ''all'' auditBulkNotificationStatusOptions (params_get ''bulk_status'' ps)"
  "selectedBulkPeriod (decodeAuditLogQuery H ps) =
     key_or ''all'' auditBulkPeriodOptions (params_get ''bulk_period'' ps)"
  "selectedDeliveryProvider (decodeAuditLogQuery H ps) =
     key_or ''all'' deliveryProviderOptions (params_get ''delivery_provider'' ps)"
  "selectedDeliveryStatus (decodeAuditLogQuery H ps) =
     key_or ''all'' deliveryStatusOptions (params_get ''delivery_status'' ps)"
  "selectedFilter (decodeAuditLogQuery H ps) =
     key_or (legacy_filter (params_get ''filter'' ps)) auditFilters (params_get ''filter'' ps)"
  "selectedManagerSource (decodeAuditLogQuery H ps) =
     key_or (legacy_source (params_get ''filter'' ps)) managerSourceOptions (params_get ''manager_source'' ps)"
  "selectedManagerStatus (decodeAuditLogQuery H ps) =
     key_or (legacy_status (params_get ''filter'' ps)) managerStatusOptions (params_get ''manager_status'' ps)"
  "selectedPeriod (decodeAuditLogQuery H ps) =
     (if startDate (decodeAuditLogQuery H ps) \<noteq> [] \<or> endDate (decodeAuditLogQuery H ps) \<noteq> [] then PeriodAll
      else parseAuditPeriodDays (params_get ''period'' ps))"
  by (simp_all add: decodeAuditLogQuery_def Let_def key_or_def legacy_filter_def legacy_source_def
      legacy_status_def parseAuditBulkNotificationStatus_def parseAuditBulkPeriod_def
      isDeliveryProviderKey_def isDeliveryStatusKey_def isAuditFilterKey_def isManagerSourceKey_def
      isManagerStatusKey_def)

lemma legacy_keys:
  "legacy_filter v \<in> keys_of auditFilters" "legacy_source v \<in> keys_of managerSourceOptions"
  "legacy_status v \<in> keys_of managerStatusOptions"
  by (simp_all add: legacy_filter_def legacy_source_def legacy_status_def all_keys)

lemmas decoder_types =
  parseAuditPage_pos parseAuditPageSize_mem parse_window_mem parse_days_mem parseAuditDate_text
  key_or_mem legacy_keys all_keys

lemma decode_typed: "well_typed (decodeAuditLogQuery H ps)"
  unfolding well_typed_def
  by (intro conjI) (simp_all add: decode_simps decoder_types utf16_length_js_take)

text \<open>C13. Every cast and type predicate of \<open>decodeAuditLogQuery\<close> is justified: whatever the query
  string holds, page numbers are at least one, the page size, the keys, the period and the window
  are options of their tables, the search text has at most 100 code units, the dates are empty or
  calendar dates, and a period is only selected when no date is.\<close>

theorem decode_well_typed: "well_typed (decodeAuditLogQuery H ps)"
  by (rule decode_typed)

section \<open>The location after a handler\<close>

text \<open>The path of a location has no query or fragment mark; the handlers keep the path.\<close>

definition page_ok :: "audit_page \<Rightarrow> bool" where
  "page_ok s = (CHR ''?'' \<notin> set (loc_path (ap_location s)) \<and> CHR ''#'' \<notin> set (loc_path (ap_location s)))"

lemma params_string_no_hash: "CHR ''#'' \<notin> set (params_string ps)"
proof -
  have c: "CHR ''#'' \<notin> set (form_encode_char c)" for c
  proof -
    have "(of_char c :: nat) < 256" by simp
    then have q: "(of_char c :: nat) div 16 < 16" "(of_char c :: nat) mod 16 < 16"
      by (simp_all add: less_mult_imp_div_less)
    have "\<not> is_hex CHR ''#''" by (simp add: is_hex_def radix_digit_def)
    then have "hex_char (of_char c div 16) \<noteq> CHR ''#''" "hex_char (of_char c mod 16) \<noteq> CHR ''#''"
      using hex_char_digit [OF q(1)] hex_char_digit [OF q(2)] by metis+
    then show ?thesis by (auto simp: form_encode_char_def form_safe_def)
  qed
  have "CHR ''#'' \<notin> set (form_encode s)" for s using c by (auto simp: form_encode_def)
  then have "\<forall>w \<in> set (map (\<lambda>(k, v). form_encode k @ ''='' @ form_encode v) ps). CHR ''#'' \<notin> set w"
    by auto
  moreover have "\<forall>w \<in> set ws. CHR ''#'' \<notin> set w \<Longrightarrow> CHR ''#'' \<notin> set (str_join ''&'' ws)" for ws
    by (induction "''&''" ws rule: str_join.induct) auto
  ultimately show ?thesis by (simp add: params_string_def)
qed

lemma params_string_Nil: "params_string ps = [] \<longleftrightarrow> ps = []"
  using params_parse_string [of ps] by (auto simp: params_string_def params_parse_def)

lemma params_parse_Nil [simp]: "params_parse [] = []"
  by (simp add: params_parse_def)

lemma split_at_mark:
  "c \<notin> set p \<Longrightarrow> t = [] \<or> hd t = c \<Longrightarrow>
   takeWhile (\<lambda>x. x \<noteq> c) (p @ t) = p \<and> dropWhile (\<lambda>x. x \<noteq> c) (p @ t) = t"
  by (induction p) (cases t, auto)+

lemma url_location_build:
  assumes "CHR ''?'' \<notin> set p" "CHR ''#'' \<notin> set p"
  shows "url_location (buildAuditQueryUrl p se us r) =
    \<lparr>loc_path = p,
     loc_search = search_string (fold write_param us (params_parse (if r then [] else se))),
     loc_hash = []\<rparr>"
proof -
  let ?ps = "fold write_param us (params_parse (if r then [] else se))"
  let ?u = "p @ search_string ?ps"
  have u: "buildAuditQueryUrl p se us r = ?u"
    by (simp add: buildAuditQueryUrl_def Let_def search_string_def params_string_Nil)
  have nh: "\<forall>x\<in>set ?u. x \<noteq> CHR ''#''"
    using assms(2) params_string_no_hash by (auto simp: search_string_def)
  have t: "takeWhile (\<lambda>c. c \<noteq> CHR ''#'') ?u = ?u" "dropWhile (\<lambda>c. c \<noteq> CHR ''#'') ?u = []"
    using nh by (simp_all only: takeWhile_eq_all_conv dropWhile_eq_Nil_conv)
  have q: "takeWhile (\<lambda>c. c \<noteq> CHR ''?'') ?u = p" "dropWhile (\<lambda>c. c \<noteq> CHR ''?'') ?u = search_string ?ps"
    using split_at_mark [OF assms(1), of "search_string ?ps"] by (simp_all add: search_string_def)
  have "search_string ?ps \<noteq> ''?''" by (simp add: search_string_def params_string_Nil)
  then show ?thesis unfolding u url_location_def Let_def t q by simp
qed

abbreviation page_get :: "audit_page \<Rightarrow> string \<Rightarrow> string option" where
  "page_get s k \<equiv> params_get k (location_params (ap_location s))"

lemma replace_page:
  assumes "page_ok s"
  shows "page_ok (replaceQueryParams us r s)"
    "location_params (ap_location (replaceQueryParams us r s)) =
       usp.store_all us (if r then [] else location_params (ap_location s))"
  using assms
  by (auto simp: page_ok_def replaceQueryParams_def replaceAuditQueryUrl_def url_location_build
      location_params_def write_param_usp)

text \<open>Reading a parameter after a handler.\<close>

lemma replace_page_get:
  assumes "page_ok s" "distinct (map fst us)"
  shows "page_get (replaceQueryParams us r s) k =
    (case map_of us k of
       None \<Rightarrow> if r then None else page_get s k
     | Some (v, d) \<Rightarrow> if v = d then None else Some v)"
proof (cases "map_of us k")
  case None
  then have "k \<notin> fst ` set us" by (simp add: map_of_eq_None_iff)
  then show ?thesis using None by (simp add: replace_page [OF assms(1)] usp.get_store_all_other)
next
  case (Some p)
  then have "(k, fst p, snd p) \<in> set us" by (simp add: map_of_SomeD)
  then show ?thesis
    using Some by (cases p) (simp add: replace_page [OF assms(1)] usp.get_store_all [OF assms(2)])
qed

lemma ap_location_expanded [simp]:
  "ap_location (s\<lparr>expandedLogId := e\<rparr>) = ap_location s"
  "page_ok (s\<lparr>expandedLogId := e\<rparr>) = page_ok s"
  by (simp_all add: page_ok_def)

section \<open>The handlers as one step function\<close>

datatype audit_event =
  EvFilter string | EvSource string | EvStatus string | EvDelivery string | EvProvider string
  | EvBulkPeriod string | EvBulkStatus string | EvBulkPage int | EvWindow int | EvSearch string
  | EvPeriod AuditPeriodDays | EvDates string string | EvPageSize int | EvReset | EvDelayed int
  | EvPage int

fun audit_step :: "js_host \<Rightarrow> audit_event \<Rightarrow> audit_page \<Rightarrow> audit_page" where
  "audit_step H (EvFilter f) s = handleFilterChange H f s"
| "audit_step H (EvSource x) s = handleManagerSourceChange x s"
| "audit_step H (EvStatus x) s = handleManagerStatusChange x s"
| "audit_step H (EvDelivery x) s = handleDeliveryStatusChange x s"
| "audit_step H (EvProvider x) s = handleDeliveryProviderChange x s"
| "audit_step H (EvBulkPeriod x) s = handleBulkPeriodChange x s"
| "audit_step H (EvBulkStatus x) s = handleBulkNotificationStatusChange x s"
| "audit_step H (EvBulkPage n) s = handleBulkPageChange n s"
| "audit_step H (EvWindow m) s = handleManagerHealthWindowChange m s"
| "audit_step H (EvSearch v) s = handleSearchTextChange v s"
| "audit_step H (EvPeriod p) s = handlePeriodChange p s"
| "audit_step H (EvDates a b) s = handleDateRangeChange a b s"
| "audit_step H (EvPageSize n) s = handlePageSizeChange n s"
| "audit_step H EvReset s = handleResetFilters s"
| "audit_step H (EvDelayed d) s = handleDelayedRetryPeriodChange d s"
| "audit_step H (EvPage n) s = handlePageChange n s"

text \<open>The argument types of the handlers; page numbers are safe integers.\<close>

definition page_number :: "int \<Rightarrow> bool" where
  "page_number n = (1 \<le> n \<and> n \<le> 2 ^ 53)"

fun event_typed :: "audit_event \<Rightarrow> bool" where
  "event_typed (EvFilter f) = (f \<in> keys_of auditFilters)"
| "event_typed (EvSource x) = (x \<in> keys_of managerSourceOptions)"
| "event_typed (EvStatus x) = (x \<in> keys_of managerStatusOptions)"
| "event_typed (EvDelivery x) = (x \<in> keys_of deliveryStatusOptions)"
| "event_typed (EvProvider x) = (x \<in> keys_of deliveryProviderOptions)"
| "event_typed (EvBulkPeriod x) = (x \<in> keys_of auditBulkPeriodOptions)"
| "event_typed (EvBulkStatus x) = (x \<in> keys_of auditBulkNotificationStatusOptions)"
| "event_typed (EvBulkPage n) = page_number n"
| "event_typed (EvWindow m) = (m \<in> keys_of managerHealthWindowOptions)"
| "event_typed (EvSearch v) = True"
| "event_typed (EvPeriod p) = (p \<in> keys_of auditPeriodOptions)"
| "event_typed (EvDates a b) = (date_text a \<and> date_text b)"
| "event_typed (EvPageSize n) = (n \<in> set AUDIT_PAGE_SIZES)"
| "event_typed EvReset = True"
| "event_typed (EvDelayed d) = (d \<in> {1, 7, 30})"
| "event_typed (EvPage n) = page_number n"

text \<open>The query of a page without parameters.\<close>

definition default_query :: DecodedAuditLogQuery where
  "default_query =
     \<lparr>bulkPage = 1, currentPage = 1, endDate = [], managerHealthWindowMinutes = 10080,
      pageSize = 50, requestedExpandedLogId = None, searchText = [],
      selectedBulkNotificationStatus = ''all'', selectedBulkPeriod = ''all'',
      selectedDeliveryProvider = ''all'', selectedDeliveryStatus = ''all'', selectedFilter = ''all'',
      selectedManagerSource = ''all'', selectedManagerStatus = ''all'', selectedPeriod = PeriodAll,
      startDate = []\<rparr>"

text \<open>What each handler means for the decoded query.\<close>

fun spec_step :: "audit_event \<Rightarrow> DecodedAuditLogQuery \<Rightarrow> DecodedAuditLogQuery" where
  "spec_step (EvFilter f) q =
     (if f = ''manager_health'' then q\<lparr>selectedFilter := f, currentPage := 1\<rparr>
      else q\<lparr>selectedFilter := f, selectedManagerSource := ''all'', selectedManagerStatus := ''all'',
             currentPage := 1\<rparr>)"
| "spec_step (EvSource x) q =
     q\<lparr>selectedFilter := ''manager_health'', selectedManagerSource := x, currentPage := 1\<rparr>"
| "spec_step (EvStatus x) q =
     q\<lparr>selectedFilter := ''manager_health'', selectedManagerStatus := x, currentPage := 1\<rparr>"
| "spec_step (EvDelivery x) q = q\<lparr>selectedDeliveryStatus := x, currentPage := 1\<rparr>"
| "spec_step (EvProvider x) q = q\<lparr>selectedDeliveryProvider := x, currentPage := 1\<rparr>"
| "spec_step (EvBulkPeriod x) q = q\<lparr>selectedBulkPeriod := x, bulkPage := 1\<rparr>"
| "spec_step (EvBulkStatus x) q = q\<lparr>selectedBulkNotificationStatus := x, bulkPage := 1\<rparr>"
| "spec_step (EvBulkPage n) q = q\<lparr>bulkPage := n\<rparr>"
| "spec_step (EvWindow m) q = q\<lparr>managerHealthWindowMinutes := m, currentPage := 1\<rparr>"
| "spec_step (EvSearch v) q = q\<lparr>searchText := js_take 100 v, currentPage := 1\<rparr>"
| "spec_step (EvPeriod p) q = q\<lparr>selectedPeriod := p, startDate := [], endDate := [], currentPage := 1\<rparr>"
| "spec_step (EvDates a b) q =
     (if a \<noteq> [] \<and> b \<noteq> [] \<and> str_less b a then q
      else q\<lparr>startDate := a, endDate := b, selectedPeriod := PeriodAll, currentPage := 1\<rparr>)"
| "spec_step (EvPageSize n) q = q\<lparr>pageSize := n, currentPage := 1\<rparr>"
| "spec_step EvReset q = default_query"
| "spec_step (EvDelayed d) q = default_query\<lparr>selectedFilter := ''delayed_retry'', selectedPeriod := PeriodDays d\<rparr>"
| "spec_step (EvPage n) q = q\<lparr>currentPage := n\<rparr>"

section \<open>The refinement\<close>

lemma filter_page_get:
  assumes "page_ok s" "distinct (map fst us)" "''page'' \<notin> fst ` set us"
  shows "page_get (replaceFilterQueryParams us s) k =
    (if k = ''page'' then None
     else case map_of us k of None \<Rightarrow> page_get s k | Some (v, d) \<Rightarrow> if v = d then None else Some v)"
proof -
  have m: "map_of us ''page'' = None" using assms(3) by (simp add: map_of_eq_None_iff)
  have "distinct (map fst (us @ [(''page'', ''1'', ''1'')]))" using assms(2,3) by auto
  then show ?thesis
    using replace_page_get [where s = "s\<lparr>expandedLogId := Some None\<rparr>" and r = False and k = k
        and us = "us @ [(''page'', ''1'', ''1'')]"] assms(1) m
    by (auto simp: replaceFilterQueryParams_def map_add_def split: option.splits)
qed

lemma number_text_int: "0 \<le> n \<Longrightarrow> n \<le> 2 ^ 53 \<Longrightarrow> number_text (of_int n) = show_int n"
proof -
  assume n: "0 \<le> n" "n \<le> 2 ^ 53"
  then have "(of_int n :: rat) \<le> of_int (2 ^ 53)" by (simp only: of_int_le_iff)
  then have "\<bar>of_int n :: rat\<bar> < 10 ^ 21" using n(1) by simp
  then show ?thesis by (simp add: number_text_def)
qed

lemma number_of_text: "0 \<le> n \<Longrightarrow> n \<le> 2 ^ 53 \<Longrightarrow> number_of (Some (number_text (of_int n))) = Num (of_int n)"
proof -
  assume n: "0 \<le> n" "n \<le> 2 ^ 53"
  then have "js_number (show_nat (nat n)) = Num (of_nat (read_nat (show_nat (nat n))))"
    by (intro js_number_digits) (simp_all add: show_nat_digits nat_le_iff)
  then show ?thesis using n by (simp add: number_of_def number_text_int show_int_def)
qed

lemma parseAuditPage_None [simp]: "parseAuditPage None = 1"
  by (simp add: parseAuditPage_def number_of_def num_int_def)

lemma parseAuditPage_text [simp]: "page_number n \<Longrightarrow> parseAuditPage (Some (number_text (of_int n))) = n"
  by (simp add: parseAuditPage_def page_number_def number_of_text num_int_def)

lemma parse_none [simp]:
  "parseManagerHealthWindowMinutes None = 10080" "parseAuditPageSize None = 50"
  "parseAuditPeriodDays None = PeriodAll" "parseAuditDate H None = []"
  "legacy_filter None = ''all''" "legacy_source None = ''all''" "legacy_status None = ''all''"
  by (simp_all add: parseManagerHealthWindowMinutes_def parseAuditPageSize_def parseAuditPeriodDays_def
      number_of_def managerHealthWindowOptions_def AUDIT_PAGE_SIZES_def AUDIT_PAGE_SIZE_def
      parseAuditDate_def legacy_filter_def isLegacyManagerFilter_def legacy_source_def legacy_status_def)

lemma number_text_inj:
  "0 \<le> m \<Longrightarrow> m \<le> 2 ^ 53 \<Longrightarrow> 0 \<le> n \<Longrightarrow> n \<le> 2 ^ 53 \<Longrightarrow> number_text (of_int m) = number_text (of_int n) \<longleftrightarrow> m = n"
proof
  assume "0 \<le> m" "m \<le> 2 ^ 53" "0 \<le> n" "n \<le> 2 ^ 53" "number_text (of_int m) = number_text (of_int n)"
  then have "Num (of_int m) = Num (of_int n)" by (metis number_of_text)
  then show "m = n" by (simp only: jsnum.inject of_int_eq_iff)
qed (simp only:)

lemma page_texts:
  "number_text (of_int 1) = ''1''" "number_text (of_int 10080) = ''10080''"
proof -
  have s: "show_int 1 = ''1''" "show_int 10080 = ''10080''"
    by (simp_all add: show_int_def show_nat.simps digit_char_def char_of_def bit_simps)
  have "number_text (of_int 1) = show_int 1" "number_text (of_int 10080) = show_int 10080"
    by (rule number_text_int; simp)+
  then show "number_text (of_int 1) = ''1''" "number_text (of_int 10080) = ''10080''"
    by (simp_all only: s)
qed

lemma page_text_one: "page_number n \<Longrightarrow> number_text (of_int n) = ''1'' \<longleftrightarrow> n = 1"
proof -
  assume "page_number n"
  then have "number_text (of_int n) = number_text (of_int 1) \<longleftrightarrow> n = 1"
    by (intro number_text_inj) (simp_all add: page_number_def)
  then show ?thesis by (simp only: page_texts)
qed

lemma window_cases: "m \<in> keys_of managerHealthWindowOptions \<longleftrightarrow> m = 1440 \<or> m = 10080 \<or> m = 43200"
  by (auto simp: keys_of_def managerHealthWindowOptions_def)

lemma days_cases: "p \<in> keys_of auditPeriodOptions \<longleftrightarrow>
    p = PeriodAll \<or> p = PeriodDays 1 \<or> p = PeriodDays 7 \<or> p = PeriodDays 30 \<or> p = PeriodDays 90"
  by (auto simp: keys_of_def auditPeriodOptions_def)

lemma window_text:
  assumes "m \<in> keys_of managerHealthWindowOptions"
  shows "parseManagerHealthWindowMinutes
     (if number_text (of_int m) = ''10080'' then None else Some (number_text (of_int m))) = m"
proof -
  have m: "0 \<le> m" "m \<le> 2 ^ 53" using assms by (auto simp: window_cases)
  have t: "number_text (of_int m) = ''10080'' \<longleftrightarrow> m = 10080"
    using number_text_inj [OF m, of 10080] by (simp only: page_texts) simp
  have "parseManagerHealthWindowMinutes (Some (number_text (of_int m))) = m"
    using assms m unfolding window_cases
    by (auto simp: parseManagerHealthWindowMinutes_def number_of_text managerHealthWindowOptions_def)
  then show ?thesis unfolding t by (simp add: parse_none)
qed

lemma pageSize_text:
  assumes "n \<in> set AUDIT_PAGE_SIZES"
  shows "parseAuditPageSize
     (if number_text (of_int n) = number_text (of_int AUDIT_PAGE_SIZE) then None
      else Some (number_text (of_int n))) = n"
proof -
  have n: "0 \<le> n" "n \<le> 2 ^ 53" using assms by (auto simp: AUDIT_PAGE_SIZES_def)
  have t: "number_text (of_int n) = number_text (of_int AUDIT_PAGE_SIZE) \<longleftrightarrow> n = AUDIT_PAGE_SIZE"
    using n by (rule number_text_inj) (simp_all add: AUDIT_PAGE_SIZE_def)
  have "parseAuditPageSize (Some (number_text (of_int n))) = n"
    using assms n by (auto simp: parseAuditPageSize_def number_of_text AUDIT_PAGE_SIZES_def)
  then show ?thesis unfolding t by (simp add: parse_none AUDIT_PAGE_SIZE_def)
qed

lemma days_text_read:
  assumes "p \<in> keys_of auditPeriodOptions"
  shows "parseAuditPeriodDays (if days_text p = ''all'' then None else Some (days_text p)) = p"
proof (cases p)
  case (PeriodDays d)
  have d: "0 \<le> d" "d \<le> 2 ^ 53" "d \<in> {1, 7, 30, 90}" using assms PeriodDays by (auto simp: days_cases)
  have digits: "list_all is_digit (days_text p)" "days_text p \<noteq> []"
    using d PeriodDays by (simp_all add: number_text_int show_int_def show_nat_digits)
  then have n: "days_text p \<noteq> ''all''" by (auto simp: is_digit_def)
  show ?thesis
    using digits(2) n d PeriodDays
    by (auto simp: parseAuditPeriodDays_def number_of_text auditPeriodOptions_def)
qed (simp add: parse_none)

lemma parseAuditDate_read: "date_text d \<Longrightarrow> parseAuditDate H (if d = [] then None else Some d) = d"
  by (auto simp: date_text_def parseAuditDate_def utc_date_check_iff)

text \<open>A key that is stored unless it is \<open>all\<close> is read back.\<close>

lemma key_or_stored: "k \<in> keys_of os \<Longrightarrow> key_or ''all'' os (if k = ''all'' then None else Some k) = k"
  by simp

lemma legacy_modern:
  "f \<in> keys_of auditFilters \<Longrightarrow> legacy_source (Some f) = ''all'' \<and> legacy_status (Some f) = ''all''"
  by (auto simp: keys_of_def auditFilters_def legacy_source_def legacy_status_def)

lemma legacy_not:
  "\<not> isLegacyManagerFilter v \<Longrightarrow> legacy_source v = ''all'' \<and> legacy_status v = ''all''"
  by (cases v) (auto simp: isLegacyManagerFilter_def legacy_source_def legacy_status_def or_else_def split: if_splits)

text \<open>
  The manager handlers rewrite \<open>filter\<close>.  When the query string still has a legacy filter name,
  the value of the other manager key that the name stood for is lost: what remains is the value
  stored under the key itself.
\<close>

fun after_legacy :: "audit_event \<Rightarrow> audit_page \<Rightarrow> DecodedAuditLogQuery \<Rightarrow> DecodedAuditLogQuery" where
  "after_legacy (EvSource x) s q =
     q\<lparr>selectedManagerStatus := key_or ''all'' managerStatusOptions (page_get s ''manager_status'')\<rparr>"
| "after_legacy (EvStatus x) s q =
     q\<lparr>selectedManagerSource := key_or ''all'' managerSourceOptions (page_get s ''manager_source'')\<rparr>"
| "after_legacy e s q = q"

lemma after_legacy_same:
  "\<not> isLegacyManagerFilter (page_get s ''filter'') \<Longrightarrow> after_legacy e s (page_query H s) = page_query H s"
  by (cases e) (simp_all add: page_query_def decode_simps legacy_not)

lemmas handler_defs =
  handleFilterChange_def handleManagerSourceChange_def handleManagerStatusChange_def
  handleDeliveryStatusChange_def handleDeliveryProviderChange_def handleBulkPeriodChange_def
  handleBulkNotificationStatusChange_def handleBulkPageChange_def handleManagerHealthWindowChange_def
  handleSearchTextChange_def handlePeriodChange_def handleDateRangeChange_def handlePageSizeChange_def
  handleResetFilters_def handleDelayedRetryPeriodChange_def handlePageChange_def

lemmas read_back =
  window_text pageSize_text days_text_read parseAuditDate_read page_text_one legacy_modern legacy_not

lemma delayed_read:
  "d = 1 \<or> d = 7 \<or> d = 30 \<Longrightarrow>
   parseAuditPeriodDays (if number_text (of_int d) = ''all'' then None else Some (number_text (of_int d))) = PeriodDays d"
  by (rule days_text_read [of "PeriodDays d", unfolded days_text.simps]) (auto simp: days_cases)

lemma legacy_store:
  "f \<in> keys_of auditFilters \<Longrightarrow> legacy_source (if f = ''all'' then None else Some f) = ''all''"
  "f \<in> keys_of auditFilters \<Longrightarrow> legacy_status (if f = ''all'' then None else Some f) = ''all''"
  by (simp_all add: legacy_modern)

lemma filter_store:
  "f \<in> keys_of auditFilters \<Longrightarrow>
   key_or (legacy_filter (if f = ''all'' then None else Some f)) auditFilters (if f = ''all'' then None else Some f) = f"
  by simp

lemmas refine_simps =
  page_query_def decode_simps handler_defs filter_page_get replace_page_get read_back all_keys
  default_query_def delayed_read

lemma filter_refines:
  assumes "page_ok s" "f \<in> keys_of auditFilters"
  shows "page_query H (handleFilterChange H f s) = spec_step (EvFilter f) (page_query H s)"
proof -
  let ?q = "page_query H s"
  define t where "t = handleFilterChange H f s"
  have k: "selectedManagerSource ?q \<in> keys_of managerSourceOptions"
    "selectedManagerStatus ?q \<in> keys_of managerStatusOptions"
    using decode_typed [of H] by (simp_all add: page_query_def well_typed_def)
  have get: "page_get t k =
    (if k = ''page'' then None else if k = ''filter'' then (if f = ''all'' then None else Some f)
     else if k = ''manager_source'' then unless_all (if f = ''manager_health'' then selectedManagerSource ?q else ''all'')
     else if k = ''manager_status'' then unless_all (if f = ''manager_health'' then selectedManagerStatus ?q else ''all'')
     else page_get s k)" for k
    using assms(1) by (simp add: t_def handleFilterChange_def filter_page_get unless_all_def)
  have m: "key_or ''all'' managerSourceOptions (unless_all (selectedManagerSource ?q)) = selectedManagerSource ?q"
    "key_or ''all'' managerStatusOptions (unless_all (selectedManagerStatus ?q)) = selectedManagerStatus ?q"
    using k by (simp_all add: unless_all_def)
  have sel: "selectedFilter (page_query H t) = f"
    "selectedManagerSource (page_query H t) =
       (if f = ''manager_health'' then selectedManagerSource ?q else ''all'')"
    "selectedManagerStatus (page_query H t) =
       (if f = ''manager_health'' then selectedManagerStatus ?q else ''all'')"
    using assms(2) m by (simp_all add: page_query_def [of H t] decode_simps get
        legacy_store filter_store) (simp_all add: unless_all_def)
  show ?thesis unfolding t_def [symmetric]
    by (rule DecodedAuditLogQuery.equality)
      (simp_all add: sel, simp_all add: page_query_def decode_simps get)
qed

lemma dates_refine:
  assumes "page_ok s" "date_text a" "date_text b"
  shows "page_query H (handleDateRangeChange a b s) = spec_step (EvDates a b) (page_query H s)"
proof (cases "a \<noteq> [] \<and> b \<noteq> [] \<and> str_less b a")
  case False
  then show ?thesis
    by (intro DecodedAuditLogQuery.equality) (simp_all add: refine_simps assms False cong: if_cong)
qed (simp add: handleDateRangeChange_def)

lemma source_refines:
  assumes "page_ok s" "x \<in> keys_of managerSourceOptions"
  shows "page_query H (handleManagerSourceChange x s) = spec_step (EvSource x) (after_legacy (EvSource x) s (page_query H s))"
  by (rule DecodedAuditLogQuery.equality) (simp_all add: refine_simps assms cong: if_cong)

lemma status_refines:
  assumes "page_ok s" "x \<in> keys_of managerStatusOptions"
  shows "page_query H (handleManagerStatusChange x s) = spec_step (EvStatus x) (after_legacy (EvStatus x) s (page_query H s))"
  by (rule DecodedAuditLogQuery.equality) (simp_all add: refine_simps assms cong: if_cong)

lemma other_refines:
  assumes "page_ok s" "event_typed e"
    "case e of EvFilter f \<Rightarrow> False | EvDates a b \<Rightarrow> False | EvSource x \<Rightarrow> False | EvStatus x \<Rightarrow> False | _ \<Rightarrow> True"
  shows "page_query H (audit_step H e s) = spec_step e (page_query H s)"
  using assms
  by (cases e) (simp_all, (rule DecodedAuditLogQuery.equality; simp add: refine_simps cong: if_cong)+)

lemma step_refines:
  assumes "page_ok s" "event_typed e"
  shows "page_query H (audit_step H e s) = spec_step e (after_legacy e s (page_query H s))"
proof (cases e)
  case (EvFilter f)
  then show ?thesis using filter_refines [OF assms(1)] assms(2) by simp
next
  case (EvDates a b)
  then show ?thesis using dates_refine [OF assms(1)] assms(2) by simp
next
  case (EvSource x)
  then show ?thesis using source_refines [OF assms(1)] assms(2) by simp
next
  case (EvStatus x)
  then show ?thesis using status_refines [OF assms(1)] assms(2) by simp
qed (use other_refines [OF assms] in simp_all)

text \<open>C12. Every handler of the audit page, whatever the query string holds, does to the query decoded
  from it what its abstract counterpart says: it sets its own field, resets the page number when it
  changes a filter, and keeps every other field.  There is one exception, for an address with a
  legacy filter name: a change of the manager source (or status) drops the status (or source) that
  the name stood for and keeps only the one stored under its own key.\<close>

theorem audit_step_refines:
  assumes "page_ok s" "event_typed e"
  shows "page_query H (audit_step H e s) = spec_step e (after_legacy e s (page_query H s)) \<and>
    (isLegacyManagerFilter (page_get s ''filter'') \<or>
     page_query H (audit_step H e s) = spec_step e (page_query H s))"
  using step_refines [OF assms] after_legacy_same by metis

definition legacy_page :: audit_page where
  "legacy_page = \<lparr>ap_location = \<lparr>loc_path = ''/dashboard/audit'', loc_search = ''?filter=manager_docker&page=3'',
     loc_hash = []\<rparr>, expandedLogId = None\<rparr>"

text \<open>The status is set, and the source that \<open>manager_docker\<close> stood for is dropped.\<close>

lemma audit_step_refines_witness:
  "page_query utc_host (audit_step utc_host (EvStatus ''unhealthy'') legacy_page) =
   default_query\<lparr>selectedFilter := ''manager_health'', selectedManagerStatus := ''unhealthy''\<rparr> \<and>
   selectedManagerSource (page_query utc_host legacy_page) = ''docker''"
proof -
  have p: "location_params (ap_location legacy_page) = [(''filter'', ''manager_docker''), (''page'', ''3'')]"
    by code_simp
  have "page_ok legacy_page" by (simp add: page_ok_def legacy_page_def)
  then have "page_query utc_host (audit_step utc_host (EvStatus ''unhealthy'') legacy_page) =
      spec_step (EvStatus ''unhealthy'') (after_legacy (EvStatus ''unhealthy'') legacy_page (page_query utc_host legacy_page))"
    using audit_step_refines [of legacy_page "EvStatus ''unhealthy''" utc_host] all_keys by simp
  also have "\<dots> = default_query\<lparr>selectedFilter := ''manager_health'', selectedManagerStatus := ''unhealthy''\<rparr>"
    by (rule DecodedAuditLogQuery.equality) (simp_all add: page_query_def decode_simps p default_query_def)
  finally show ?thesis by (simp add: page_query_def decode_simps p legacy_source_def)
qed

section \<open>The manager keys stay under the manager filter\<close>

definition scoped :: "DecodedAuditLogQuery \<Rightarrow> bool" where
  "scoped q =
     (selectedFilter q = ''manager_health'' \<or>
      selectedManagerSource q = ''all'' \<and> selectedManagerStatus q = ''all'')"

text \<open>The events that choose the filter anew.\<close>

fun sets_filter :: "audit_event \<Rightarrow> bool" where
  "sets_filter (EvFilter f) = True"
| "sets_filter (EvSource x) = True"
| "sets_filter (EvStatus x) = True"
| "sets_filter EvReset = True"
| "sets_filter (EvDelayed d) = True"
| "sets_filter e = False"

lemma handler_page_ok: "page_ok s \<Longrightarrow> page_ok (audit_step H e s)"
  by (cases e) (simp_all add: handler_defs replaceFilterQueryParams_def replace_page)

lemma spec_scoped: "scoped (spec_step e (after_legacy e s q)) \<longleftrightarrow> scoped q \<or> sets_filter e"
  by (cases e) (auto simp: scoped_def default_query_def)

lemma legacy_no_filter: "isLegacyManagerFilter v \<Longrightarrow> \<not> some_key auditFilters v"
  by (cases v) (auto simp: isLegacyManagerFilter_def or_else_def some_key_def auditFilters_def split: if_splits)

text \<open>C30. A manager source or status that the request ignores, because another filter is selected, can only
  come from the address the page was opened with: whatever the user does, the selected keys agree
  with the filter exactly when they did so at the beginning or the filter has been chosen anew (by the
  filter, source or status control, the reset or the delayed retries).  An address without manager
  keys, and one with a legacy filter name, agrees from the beginning.\<close>

theorem reach_scoped:
  assumes "page_ok s" "list_all event_typed es"
  shows "(scoped (page_query H (fold (audit_step H) es s)) \<longleftrightarrow> scoped (page_query H s) \<or> list_ex sets_filter es) \<and>
    (page_get s ''manager_source'' = None \<and> page_get s ''manager_status'' = None \<or>
     isLegacyManagerFilter (page_get s ''filter'') \<longrightarrow> scoped (page_query H s))"
proof
  show "scoped (page_query H (fold (audit_step H) es s)) \<longleftrightarrow> scoped (page_query H s) \<or> list_ex sets_filter es"
    using assms
  proof (induction es arbitrary: s)
    case (Cons e es)
    then show ?case using step_refines [of s e H] by (simp add: handler_page_ok spec_scoped)
  qed simp
  have "key_or (legacy_filter v) auditFilters v = ''manager_health''" if "isLegacyManagerFilter v" for v
    using that legacy_no_filter [OF that] by (simp add: key_or_def legacy_filter_def)
  moreover have "legacy_source v = ''all'' \<and> legacy_status v = ''all'' \<or>
      key_or (legacy_filter v) auditFilters v = ''manager_health''" for v
    using calculation legacy_not by metis
  ultimately show "page_get s ''manager_source'' = None \<and> page_get s ''manager_status'' = None \<or>
     isLegacyManagerFilter (page_get s ''filter'') \<longrightarrow> scoped (page_query H s)"
    by (auto simp: page_query_def scoped_def decode_simps)
qed

text \<open>
  Such an address: the source is selected and shown, and not requested, since the filter is not
  the manager's.
\<close>

lemma unscoped_address:
  assumes "location_params (ap_location s) = [(''manager_source'', ''docker'')]"
  shows "\<not> scoped (page_query H s) \<and> selectedManagerSource (page_query H s) = ''docker'' \<and>
    al_manager_source (auditQuery H s) = None"
  using assms all_keys
  by (simp add: auditQuery_def buildAuditLogQuery_def buildFilterQuery_def no_params_def page_query_def decode_simps scoped_def)

section \<open>Active conditions\<close>

definition active_keys :: "js_host \<Rightarrow> DecodedAuditLogQuery \<Rightarrow> string list" where
  "active_keys H q = map ac_key (buildAuditActiveConditions H q)"

definition key_if :: "bool \<Rightarrow> string \<Rightarrow> string list" where
  "key_if c k = (if c then [k] else [])"

lemma key_if_subset: "set (key_if c k) \<subseteq> S \<longleftrightarrow> (c \<longrightarrow> k \<in> S)"
  by (auto simp: key_if_def)

lemma push_if_keys:
  "truthy l \<Longrightarrow> (\<And>x. ac_key (mk x) = k) \<Longrightarrow> map ac_key (push_if c l mk) = key_if c k"
  "c \<longrightarrow> truthy l \<Longrightarrow> (\<And>x. ac_key (mk x) = k) \<Longrightarrow> map ac_key (push_if c l mk) = key_if c k"
  by (simp_all add: push_if_def key_if_def)

lemma condition_sel [simp]: "ac_key (condition k f l) = k" "onRemove (condition k f l) = f"
  by (simp_all add: condition_def)

text \<open>Every option of a table has a label.\<close>

lemma label_truthy: "k \<in> keys_of os \<Longrightarrow> list_all (\<lambda>p. snd p \<noteq> []) os \<Longrightarrow> truthy (label_of os k)"
proof -
  assume k: "k \<in> keys_of os" and l: "list_all (\<lambda>p. snd p \<noteq> []) os"
  then obtain p where p: "find (\<lambda>p. fst p = k) os = Some p"
    by (cases "find (\<lambda>p. fst p = k) os") (auto simp: find_None_iff keys_of_def)
  then have "p \<in> set os" by (auto simp: find_Some_iff)
  then show ?thesis using p l by (auto simp: label_of_def list_all_iff)
qed

lemma tables_labelled:
  "list_all (\<lambda>p. snd p \<noteq> []) auditFilters" "list_all (\<lambda>p. snd p \<noteq> []) managerSourceOptions"
  "list_all (\<lambda>p. snd p \<noteq> []) managerStatusOptions" "list_all (\<lambda>p. snd p \<noteq> []) deliveryStatusOptions"
  "list_all (\<lambda>p. snd p \<noteq> []) deliveryProviderOptions" "list_all (\<lambda>p. snd p \<noteq> []) managerHealthWindowOptions"
  "list_all (\<lambda>p. snd p \<noteq> []) auditPeriodOptions" "list_all (\<lambda>p. snd p \<noteq> []) auditBulkPeriodOptions"
  by code_simp+

lemma notice_labelled:
  "k \<in> keys_of auditBulkNotificationStatusOptions \<Longrightarrow>
   truthy (map_option (without_prefix txt_au_notice_prefix) (label_of auditBulkNotificationStatusOptions k))"
  by (auto simp: keys_of_def auditBulkNotificationStatusOptions_def label_of_def without_prefix_def
      txt_au_notice_prefix_def txt_au_notice_all_def txt_au_notice_success_def
      txt_au_notice_failure_def txt_au_notice_none_def)

lemma active_keys_typed:
  assumes "well_typed q"
  shows "active_keys H q =
    key_if (js_trim (searchText q) \<noteq> []) ''search'' @ key_if (selectedPeriod q \<noteq> PeriodAll) ''period'' @
    key_if (startDate q \<noteq> [] \<or> endDate q \<noteq> []) ''date-range'' @
    key_if (selectedBulkPeriod q \<noteq> ''all'') ''bulk-period'' @
    key_if (selectedBulkNotificationStatus q \<noteq> ''all'') ''bulk-notification-status'' @
    key_if (selectedFilter q \<noteq> ''all'') ''filter'' @ key_if (selectedManagerSource q \<noteq> ''all'') ''manager-source'' @
    key_if (selectedManagerStatus q \<noteq> ''all'') ''manager-status'' @
    key_if (managerHealthWindowMinutes q \<noteq> 10080) ''manager-window'' @
    key_if (selectedDeliveryStatus q \<noteq> ''all'') ''delivery-status'' @
    key_if (selectedDeliveryProvider q \<noteq> ''all'') ''delivery-provider''"
  using assms
  by (simp add: active_keys_def buildAuditActiveConditions_def well_typed_def push_if_keys
      label_truthy tables_labelled notice_labelled txt_au_c_search_def txt_au_c_period_def)

lemma filter_query_empty: "buildFilterQuery f src st = no_params \<longleftrightarrow> f = ''all''"
  by (simp add: buildFilterQuery_def no_params_def)

lemma no_params_iff:
  "p = no_params \<longleftrightarrow>
   al_limit p = None \<and> al_offset p = None \<and> al_resource_type p = None \<and> al_action p = None \<and>
   al_event p = None \<and> al_manager_status p = None \<and> al_manager_source p = None \<and>
   al_period_days p = None \<and> al_start_date p = None \<and> al_end_date p = None \<and> al_search p = None \<and>
   al_security_only p = None \<and> al_provider p = None \<and> al_delivery_success p = None \<and>
   al_retry_delay p = None \<and> al_bulk_operation_id p = None"
  by (cases p) (simp add: no_params_def)

lemma filter_query_others:
  "al_limit (buildFilterQuery f x y) = None" "al_offset (buildFilterQuery f x y) = None"
  "al_period_days (buildFilterQuery f x y) = None" "al_start_date (buildFilterQuery f x y) = None"
  "al_end_date (buildFilterQuery f x y) = None" "al_search (buildFilterQuery f x y) = None"
  "al_provider (buildFilterQuery f x y) = None" "al_delivery_success (buildFilterQuery f x y) = None"
  by (simp_all add: buildFilterQuery_def no_params_def)

lemma or_null_None: "or_null (Some s) = None \<longleftrightarrow> s = []"
  by (simp add: or_null_def)

lemma request_empty:
  "withoutAuditPagination (buildAuditLogQuery q t) = no_params \<longleftrightarrow>
   selectedFilter q = ''all'' \<and> days_number (selectedPeriod q) = None \<and> startDate q = [] \<and> endDate q = [] \<and>
   selectedDeliveryProvider q = ''all'' \<and> selectedDeliveryStatus q = ''all'' \<and> t = []"
proof -
  let ?F = "buildFilterQuery (selectedFilter q) (selectedManagerSource q) (selectedManagerStatus q)"
  have "?F = no_params \<longleftrightarrow> selectedFilter q = ''all''" by (rule filter_query_empty)
  then show ?thesis
    by (auto simp: no_params_iff filter_query_others withoutAuditPagination_def buildAuditLogQuery_def
        unless_all_def or_null_None)
qed

lemma days_number_None: "days_number p = None \<longleftrightarrow> p = PeriodAll"
  by (cases p) auto

definition shown_conditions :: "js_host \<Rightarrow> audit_page \<Rightarrow> string set" where
  "shown_conditions H s = set (active_keys H (page_query H s))"

text \<open>C31. The request of the audit table and the conditions shown above it say the same, key by key and
  whatever the address holds: the request restricts by search text, period, dates, delivery status,
  channel or filter exactly when the page shows the condition of that name, and never by a bulk
  operation.  The conditions of the manager source and status are the exception: they are requested
  exactly when they are shown and the manager filter is selected.  So the request is unfiltered
  exactly when the only conditions shown are those of the bulk list, of the health window, and of a
  manager source or status left over in the address.\<close>

theorem request_iff_conditions:
  "(al_search (auditQuery H s) \<noteq> None \<longleftrightarrow> ''search'' \<in> shown_conditions H s) \<and>
    (al_period_days (auditQuery H s) \<noteq> None \<longleftrightarrow> ''period'' \<in> shown_conditions H s) \<and>
    ((al_start_date (auditQuery H s), al_end_date (auditQuery H s)) \<noteq> (None, None) \<longleftrightarrow> ''date-range'' \<in> shown_conditions H s) \<and>
    (al_delivery_success (auditQuery H s) \<noteq> None \<longleftrightarrow> ''delivery-status'' \<in> shown_conditions H s) \<and>
    (al_provider (auditQuery H s) \<noteq> None \<longleftrightarrow> ''delivery-provider'' \<in> shown_conditions H s) \<and>
    ((al_resource_type (auditQuery H s), al_action (auditQuery H s), al_event (auditQuery H s),
      al_security_only (auditQuery H s), al_retry_delay (auditQuery H s)) \<noteq> (None, None, None, None, None)
     \<longleftrightarrow> ''filter'' \<in> shown_conditions H s) \<and>
    (al_manager_source (auditQuery H s) \<noteq> None \<longleftrightarrow>
       ''manager-source'' \<in> shown_conditions H s \<and> selectedFilter (page_query H s) = ''manager_health'') \<and>
    (al_manager_status (auditQuery H s) \<noteq> None \<longleftrightarrow>
       ''manager-status'' \<in> shown_conditions H s \<and> selectedFilter (page_query H s) = ''manager_health'') \<and>
    al_bulk_operation_id (auditQuery H s) = None \<and>
    (withoutAuditPagination (auditQuery H s) = no_params \<longleftrightarrow>
     shown_conditions H s \<subseteq> {''bulk-period'', ''bulk-notification-status'', ''manager-window'', ''manager-source'', ''manager-status''})"
proof -
  let ?q = "page_query H s" and ?r = "auditQuery H s"
  have t: "well_typed ?q" by (simp add: page_query_def decode_typed)
  then have d: "selectedPeriod ?q = PeriodAll \<or> startDate ?q = [] \<and> endDate ?q = []" by (simp add: well_typed_def)
  note k = shown_conditions_def active_keys_typed [OF t] key_if_def
  note r = auditQuery_def buildAuditLogQuery_def filter_query_others or_null_None unless_all_def
  have "al_search ?r \<noteq> None \<longleftrightarrow> ''search'' \<in> shown_conditions H s" by (simp add: k r)
  moreover have "al_period_days ?r \<noteq> None \<longleftrightarrow> ''period'' \<in> shown_conditions H s"
    using d by (auto simp: k r days_number_None simp del: not_None_eq)
  moreover have "(al_start_date ?r, al_end_date ?r) \<noteq> (None, None) \<longleftrightarrow> ''date-range'' \<in> shown_conditions H s" by (simp add: k r)
  moreover have "al_delivery_success ?r \<noteq> None \<longleftrightarrow> ''delivery-status'' \<in> shown_conditions H s" by (simp add: k r)
  moreover have "al_provider ?r \<noteq> None \<longleftrightarrow> ''delivery-provider'' \<in> shown_conditions H s" by (simp add: k r)
  moreover have "(al_resource_type ?r, al_action ?r, al_event ?r, al_security_only ?r, al_retry_delay ?r)
      \<noteq> (None, None, None, None, None) \<longleftrightarrow> ''filter'' \<in> shown_conditions H s"
    by (auto simp: k r buildFilterQuery_def no_params_def)
  moreover have "al_manager_source ?r \<noteq> None \<longleftrightarrow>
      ''manager-source'' \<in> shown_conditions H s \<and> selectedFilter ?q = ''manager_health''"
    by (simp add: k r buildFilterQuery_def no_params_def)
  moreover have "al_manager_status ?r \<noteq> None \<longleftrightarrow>
      ''manager-status'' \<in> shown_conditions H s \<and> selectedFilter ?q = ''manager_health''"
    by (simp add: k r buildFilterQuery_def no_params_def)
  moreover have "al_bulk_operation_id ?r = None" by (simp add: r buildFilterQuery_def no_params_def)
  moreover have "withoutAuditPagination ?r = no_params \<longleftrightarrow> shown_conditions H s \<subseteq>
      {''bulk-period'', ''bulk-notification-status'', ''manager-window'', ''manager-source'', ''manager-status''}"
    unfolding auditQuery_def request_empty days_number_None
    by (simp add: shown_conditions_def active_keys_typed [OF t] key_if_subset) blast
  ultimately show ?thesis by blast
qed

text \<open>The event that the removal of a condition sends.\<close>

definition removal :: "string \<Rightarrow> audit_event" where
  "removal k =
     (if k = ''search'' then EvSearch [] else if k = ''period'' then EvPeriod PeriodAll
      else if k = ''date-range'' then EvDates [] [] else if k = ''bulk-period'' then EvBulkPeriod ''all''
      else if k = ''bulk-notification-status'' then EvBulkStatus ''all''
      else if k = ''filter'' then EvFilter ''all'' else if k = ''manager-source'' then EvSource ''all''
      else if k = ''manager-status'' then EvStatus ''all'' else if k = ''manager-window'' then EvWindow 10080
      else if k = ''delivery-status'' then EvDelivery ''all'' else EvProvider ''all'')"

lemma push_if_all: "(\<And>x. P (mk x)) \<Longrightarrow> list_all P (push_if b l mk)"
  by (simp add: push_if_def)

lemma removal_simps:
  "removal ''search'' = EvSearch []" "removal ''period'' = EvPeriod PeriodAll"
  "removal ''date-range'' = EvDates [] []" "removal ''bulk-period'' = EvBulkPeriod ''all''"
  "removal ''bulk-notification-status'' = EvBulkStatus ''all''" "removal ''filter'' = EvFilter ''all''"
  "removal ''manager-source'' = EvSource ''all''" "removal ''manager-status'' = EvStatus ''all''"
  "removal ''manager-window'' = EvWindow 10080" "removal ''delivery-status'' = EvDelivery ''all''"
  "removal ''delivery-provider'' = EvProvider ''all''"
  by (simp_all add: removal_def)

lemma condition_removal_all:
  "list_all (\<lambda>c. onRemove c = audit_step H (removal (ac_key c))) (buildAuditActiveConditions H q)"
  unfolding buildAuditActiveConditions_def list_all_append
  by (intro conjI push_if_all) (simp_all add: removal_simps fun_eq_iff)

lemma condition_removal:
  "c \<in> set (buildAuditActiveConditions H q) \<Longrightarrow> onRemove c = audit_step H (removal (ac_key c))"
  using condition_removal_all [of H q] by (simp add: list_all_iff)

lemma removal_typed: "event_typed (removal k)"
  by (simp add: removal_def all_keys date_text_def)

definition drops :: "string \<Rightarrow> string list" where
  "drops k = (if k = ''filter'' then [''filter'', ''manager-source'', ''manager-status''] else [k])"

lemma removal_keys:
  assumes "well_typed q" "well_typed (spec_step (removal k) q)" "scoped q" "k \<in> set (active_keys H q)"
  shows "active_keys H (spec_step (removal k) q) = filter (\<lambda>j. j \<notin> set (drops k)) (active_keys H q)"
  using assms
  by (simp add: active_keys_typed)
    (elim disjE; auto simp: key_if_def removal_def drops_def scoped_def well_typed_def split: if_splits)

text \<open>Removing an active condition of a page whose manager keys agree with the filter, and whose address
  has no legacy filter name, removes that condition from the list and keeps all the others, in
  their order; only removing the manager filter takes its source and status along.\<close>

theorem remove_condition:
  assumes "page_ok s" "scoped (page_query H s)" "\<not> isLegacyManagerFilter (page_get s ''filter'')"
    and "c \<in> set (buildAuditActiveConditions H (page_query H s))"
  shows "active_keys H (page_query H (onRemove c s)) =
    filter (\<lambda>k. k \<notin> set (drops (ac_key c))) (active_keys H (page_query H s))"
proof -
  let ?e = "removal (ac_key c)"
  have q: "page_query H (onRemove c s) = spec_step ?e (page_query H s)"
    using step_refines [OF assms(1) removal_typed] by (simp add: condition_removal [OF assms(4)] after_legacy_same [OF assms(3)])
  have t: "well_typed (page_query H s)" "well_typed (page_query H (onRemove c s))"
    by (simp_all add: page_query_def decode_typed)
  have "ac_key c \<in> set (active_keys H (page_query H s))" using assms(4) by (simp add: active_keys_def)
  then show ?thesis using removal_keys [OF t(1) _ assms(2)] t(2) by (simp add: q)
qed

section \<open>Witnesses\<close>

definition docker_page :: audit_page where
  "docker_page =
     \<lparr>ap_location = \<lparr>loc_path = ''/dashboard/audit'', loc_search = ''?manager_source=docker'', loc_hash = []\<rparr>,
      expandedLogId = None\<rparr>"

text \<open>The page opened at this address does not agree; after a search it still does not, after the status was chosen it does.\<close>

lemma reach_scoped_witness:
  "scoped (page_query utc_host (fold (audit_step utc_host) [EvSearch ''x'', EvStatus ''all''] docker_page)) \<and>
   \<not> scoped (page_query utc_host (fold (audit_step utc_host) [EvSearch ''x''] docker_page)) \<and>
   scoped (page_query utc_host legacy_page)"
proof -
  have p: "location_params (ap_location docker_page) = [(''manager_source'', ''docker'')]"
    "location_params (ap_location legacy_page) = [(''filter'', ''manager_docker''), (''page'', ''3'')]"
    by code_simp+
  have ok: "page_ok docker_page" "page_ok legacy_page" by (simp_all add: page_ok_def docker_page_def legacy_page_def)
  have t: "list_all event_typed [EvSearch ''x'', EvStatus ''all'']" "list_all event_typed [EvSearch ''x'']" "list_all event_typed []"
    using all_keys by simp_all
  have n: "\<not> scoped (page_query utc_host docker_page)" using unscoped_address [OF p(1)] by blast
  have "isLegacyManagerFilter (page_get legacy_page ''filter'')" by (simp add: p isLegacyManagerFilter_def)
  then have "scoped (page_query utc_host legacy_page)" using reach_scoped [OF ok(2) t(3), of utc_host] by blast
  then show ?thesis
    using reach_scoped [OF ok(1) t(1), of utc_host] reach_scoped [OF ok(1) t(2), of utc_host] n
    by (simp del: fold.simps)
qed

section \<open>Pages, export link and legacy names\<close>

lemma to_double_int: "\<bar>i\<bar> \<le> 2 ^ 53 \<Longrightarrow> to_double (of_int i) = Num (of_int i)"
proof -
  assume i: "\<bar>i\<bar> \<le> 2 ^ 53"
  then have "\<bar>of_int i :: rat\<bar> \<le> of_int (2 ^ 53)" by (simp only: of_int_abs [symmetric] of_int_le_iff)
  then have "of_int i < (2 :: rat) ^ 1024" "- (2 ^ 1024) < (of_int i :: rat)" by (simp_all add: abs_le_iff)
  then show ?thesis unfolding to_double_def fl_int [OF i] by simp
qed

text \<open>A safe page number gives the exact offset.\<close>

lemma page_offset_exact:
  assumes "1 \<le> p" "p \<le> 2 ^ 46" "n \<in> set AUDIT_PAGE_SIZES"
  shows "page_offset p n = Num (of_int ((p - 1) * n))"
proof -
  have n: "0 \<le> n" "n \<le> 100" using assms(3) by (auto simp: AUDIT_PAGE_SIZES_def)
  have f: "fl (of_int (p - 1)) = of_int (p - 1)" using assms by (intro fl_int) simp
  have "(p - 1) * n \<le> 2 ^ 46 * 100" using assms n by (intro mult_mono) auto
  then have "\<bar>(p - 1) * n\<bar> \<le> 2 ^ 53" using assms n by simp
  then show ?thesis unfolding page_offset_def f of_int_mult [symmetric] by (rule to_double_int)
qed

text \<open>The effect of the bulk list settles at once: afterwards the page exists.\<close>

lemma totalPages_range: "0 \<le> t \<Longrightarrow> t \<le> 2 ^ 53 \<Longrightarrow> 1 \<le> n \<Longrightarrow> page_number (totalPages t n)"
proof -
  assume a: "0 \<le> t" "t \<le> 2 ^ 53" "1 \<le> n"
  have "of_int t / of_int n \<le> (of_int (2 ^ 53) :: rat)"
  proof -
    have "of_int t / of_int n \<le> (of_int t :: rat)" using a by (simp add: divide_le_eq mult_le_cancel_left1)
    also have "\<dots> \<le> of_int (2 ^ 53)" using a(2) by (simp only: of_int_le_iff)
    finally show ?thesis .
  qed
  then have "fl (of_int t / of_int n) \<le> of_int (2 ^ 53)" by (intro dbl.rnd_le_int) simp_all
  then have "\<lceil>fl (of_int t / of_int n)\<rceil> \<le> 2 ^ 53" by (simp only: ceiling_le_iff)
  then show ?thesis by (simp add: page_number_def totalPages_def)
qed

lemma bulk_effect_settles:
  assumes "page_ok s" "0 \<le> t" "t \<le> 2 ^ 53"
  shows "bulkPage (page_query H (bulkPageEffect H (Some t) s)) \<le> totalPages t BULK_PAGE_SIZE"
proof -
  have "page_number (totalPages t BULK_PAGE_SIZE)"
    using assms by (intro totalPages_range) (simp_all add: BULK_PAGE_SIZE_def)
  then have "page_query H (audit_step H (EvBulkPage (totalPages t BULK_PAGE_SIZE)) s) =
      (page_query H s)\<lparr>bulkPage := totalPages t BULK_PAGE_SIZE\<rparr>"
    by (subst step_refines) (simp_all add: assms(1))
  then show ?thesis by (simp add: bulkPageEffect_def)
qed

lemma export_get:
  assumes "distinct (map fst es)"
  shows "params_get k (fold set_defined es ps) =
    (case map_of es k of Some (Some v) \<Rightarrow> Some v | _ \<Rightarrow> params_get k ps)"
  using assms
proof (induction es arbitrary: ps)
  case (Cons e es)
  obtain a o' where e: "e = (a, o')" by (cases e)
  have "map_of es a = None" using Cons.prems e by (simp add: map_of_eq_None_iff)
  then show ?case using Cons e by (auto simp: set_defined_def params_get_set split: option.splits)
qed simp

text \<open>The export link asks for exactly the filters of the table: the parameters read back from
  the link are the defined fields of the request, and no other.\<close>

theorem export_link_params:
  "params_parse (drop (length (or_else apiUrl ''/api/v1'' @ ''/audit/export.csv?'')) (buildAuditExportUrl apiUrl p)) =
     export_params p \<and>
   params_get k (export_params p) = (case map_of (audit_entries p) k of Some (Some v) \<Rightarrow> Some v | _ \<Rightarrow> None)"
proof -
  have "distinct (map fst (audit_entries p))" by (simp add: audit_entries_def)
  then show ?thesis
    by (simp add: buildAuditExportUrl_def params_parse_string export_params_def export_get split: option.splits)
qed

text \<open>
  The legacy name of a filter stands for a manager source as well; a change of the status
  rewrites the name and forgets the source it stood for.
\<close>

lemma legacy_source_forgotten:
  assumes "page_ok s" "location_params (ap_location s) = [(''filter'', ''manager_docker'')]"
  shows "selectedManagerSource (page_query H s) = ''docker''"
    and "selectedManagerSource (page_query H (handleManagerStatusChange ''unhealthy'' s)) = ''all''"
  using assms
  by (simp_all add: page_query_def decode_simps handleManagerStatusChange_def filter_page_get legacy_source_def)

end
