(* ===== verification/Audit_Detail.thy ===== *)
theory Audit_Detail
  imports JS_Date JS_Json JS_Object Ui_Text_Admin
begin

text \<open>
  What the audit log computes from one entry or from a chain of entries: the timing of a chain of
  notification retries (\<open>features/audit/lib/auditRetryChainTiming.ts\<close>), the rows of a change
  (\<open>getAuditDiffRows\<close> of \<open>auditDetailRows.ts\<close>) and the readable changes of the security
  settings (\<open>features/audit/lib/auditSecuritySettingChanges.ts\<close>).  Keys of the settings tables
  are looked up among the tables' own keys: setting names are not names of
  \<open>Object.prototype\<close>.
\<close>

section \<open>Retry chains\<close>

type_synonym detail = "json js_object"

record AuditRetryTimingItem =
  rt_created_at :: string
  rt_detail :: "detail option"

datatype AuditRetryRecoveryState = RecNone | RecPending | RecInvalid | RecRecovered

definition DEFAULT_AUTO_RETRY_DELAY_WARNING_MINUTES :: rat where
  "DEFAULT_AUTO_RETRY_DELAY_WARNING_MINUTES = 10"

text \<open>\<open>item.detail?.key === value\<close>.\<close>

definition detail_is :: "string \<Rightarrow> json \<Rightarrow> AuditRetryTimingItem \<Rightarrow> bool" where
  "detail_is k v item =
     (case rt_detail item of None \<Rightarrow> False | Some d \<Rightarrow> obj_get k d = Some v)"

definition getElapsedMs :: "js_host \<Rightarrow> string \<Rightarrow> string \<Rightarrow> rat option" where
  "getElapsedMs H startedAt completedAt =
     (case (date_parse H completedAt, date_parse H startedAt) of
        (Some b, Some a) \<Rightarrow>
          let durationMs = fl (of_int (b - a)) in if 0 \<le> durationMs then Some durationMs else None
      | _ \<Rightarrow> None)"

record retry_timing =
  recoveryDurationMs :: "rat option"
  recoveryState :: AuditRetryRecoveryState
  stageDelayWarnings :: "bool list"
  stageElapsedMs :: "rat option list"

definition getAuditRetryChainTiming ::
    "js_host \<Rightarrow> AuditRetryTimingItem list \<Rightarrow> rat \<Rightarrow> retry_timing" where
  "getAuditRetryChainTiming H chain warningMs =
     (let elapsed = map (\<lambda>i. if i = 0 then None
                             else getElapsedMs H (rt_created_at (chain ! (i - 1))) (rt_created_at (chain ! i)))
                        [0..<length chain];
          warnings = map (\<lambda>i. detail_is ''trigger'' (JStr ''automatic_retry'') (chain ! i) \<and>
                              (case elapsed ! i of None \<Rightarrow> False | Some e \<Rightarrow> warningMs < e))
                         [0..<length chain];
          firstFailureIndex = find_index (detail_is ''success'' (JBool False)) chain;
          firstFailure = map_option (\<lambda>i. chain ! i) firstFailureIndex;
          firstSuccess = (case firstFailureIndex of None \<Rightarrow> None
                          | Some i \<Rightarrow> find (detail_is ''success'' (JBool True)) (drop (i + 1) chain));
          duration = (case (firstFailure, firstSuccess) of
                        (Some f, Some g) \<Rightarrow> getElapsedMs H (rt_created_at f) (rt_created_at g)
                      | _ \<Rightarrow> None)
      in \<lparr>recoveryDurationMs = duration,
          recoveryState =
            (if firstFailureIndex = None then RecNone else if firstSuccess = None then RecPending
             else if duration = None then RecInvalid else RecRecovered),
          stageDelayWarnings = warnings,
          stageElapsedMs = elapsed\<rparr>)"

section \<open>Changes of an entry\<close>

text \<open>A row of a change; a missing value is \<open>undefined\<close>.\<close>

record AuditDiffRow =
  df_key :: string
  df_before :: "json option"
  df_after :: "json option"

definition getAuditDiffRows :: "detail option \<Rightarrow> AuditDiffRow list" where
  "getAuditDiffRows d =
     (case d of None \<Rightarrow> [] | Some detail \<Rightarrow>
        (case (obj_get ''before'' detail, obj_get ''after'' detail) of
           (Some (JObj before), Some (JObj after)) \<Rightarrow>
             let changedKeys =
                   (case obj_get ''changed_keys'' detail of
                      Some (JArr items) \<Rightarrow> List.map_filter (\<lambda>v. json_string (Some v)) items
                    | _ \<Rightarrow> js_unique (map fst (obj_entries before) @ map fst (obj_entries after)))
             in map (\<lambda>k. \<lparr>df_key = k, df_before = obj_get k before, df_after = obj_get k after\<rparr>) changedKeys
         | _ \<Rightarrow> []))"

section \<open>Security settings\<close>

record SettingMeta =
  sm_label :: string
  sm_unit :: "string option"
  sm_valueLabels :: "(string \<times> string) list"

definition plain_setting :: "string \<Rightarrow> SettingMeta" where
  "plain_setting l = \<lparr>sm_label = l, sm_unit = None, sm_valueLabels = []\<rparr>"

definition unit_setting :: "string \<Rightarrow> string \<Rightarrow> SettingMeta" where
  "unit_setting l u = \<lparr>sm_label = l, sm_unit = Some u, sm_valueLabels = []\<rparr>"

definition SECURITY_SETTINGS_BY_EVENT :: "(string \<times> (string \<times> SettingMeta) list) list" where
  "SECURITY_SETTINGS_BY_EVENT =
     [(''settings_update_security_alert'',
       [(''enabled'', plain_setting txt_st_event_alert),
        (''change_alerts_enabled'', plain_setting txt_st_change_alert),
        (''traefik_encoded_path_block_monitoring_enabled'', plain_setting txt_st_encoded),
        (''traefik_encoded_path_block_window_minutes'', unit_setting txt_st_encoded_window txt_u_min),
        (''traefik_encoded_path_block_threshold'', unit_setting txt_st_encoded_threshold txt_u_cases),
        (''manager_health_monitoring_enabled'', plain_setting txt_st_health),
        (''manager_health_alert_cooldown_minutes'', unit_setting txt_st_health_cooldown txt_u_min),
        (''external_watchdog_stale_minutes'', unit_setting txt_st_watchdog txt_u_min),
        (''automatic_retry_delay_warning_minutes'', unit_setting txt_st_retry_delay txt_u_min),
        (''manager_http_error_monitoring_enabled'', plain_setting txt_st_http),
        (''manager_http_error_window_minutes'', unit_setting txt_st_http_window txt_u_min),
        (''manager_http_not_found_threshold'', unit_setting txt_st_404 txt_u_cases),
        (''manager_http_server_error_threshold'', unit_setting txt_st_5xx txt_u_cases),
        (''manager_http_excluded_paths_count'', unit_setting txt_st_excluded txt_u_items),
        (''provider'',
         \<lparr>sm_label = txt_st_provider, sm_unit = None,
          sm_valueLabels = [(''generic'', ''Webhook''), (''pagerduty'', ''PagerDuty''), (''telegram'', ''Telegram'')]\<rparr>)]),
      (''settings_update_login_defense'',
       [(''suspicious_block_enabled'', plain_setting txt_st_block),
        (''suspicious_trusted_networks_count'', unit_setting txt_st_trusted txt_u_items),
        (''suspicious_block_escalation_enabled'', plain_setting txt_st_escalation),
        (''suspicious_block_escalation_window_minutes'', unit_setting txt_st_escalation_window txt_u_min),
        (''suspicious_block_escalation_multiplier'', unit_setting txt_st_multiplier txt_u_times),
        (''suspicious_block_max_minutes'', unit_setting txt_st_max_block txt_u_min),
        (''turnstile_mode'',
         \<lparr>sm_label = txt_st_turnstile, sm_unit = None,
          sm_valueLabels = [(''always'', txt_st_always), (''off'', txt_st_off), (''risk_based'', txt_st_risk)]\<rparr>),
        (''turnstile_enabled'', plain_setting txt_st_turnstile_enabled)])]"

fun formatSettingValue :: "json option \<Rightarrow> SettingMeta \<Rightarrow> string option" where
  "formatSettingValue (Some (JBool b)) m = Some (if b then txt_st_on else txt_st_off)"
| "formatSettingValue (Some (JNum (Num q))) m = Some (number_text q @ or_else (sm_unit m) [])"
| "formatSettingValue (Some (JStr s)) m = Some (default_to s (map_of (sm_valueLabels m) s))"
| "formatSettingValue _ m = None"

datatype direction = Up | Down

fun numericDelta :: "json option \<Rightarrow> json option \<Rightarrow> string \<Rightarrow> (direction \<times> string) option" where
  "numericDelta (Some (JNum (Num a))) (Some (JNum (Num b))) unit =
     (case to_double (b - a) of
        Num v \<Rightarrow>
          if v = 0 then None
          else Some (if 0 < v then Up else Down, (if 0 < v then ''+'' else []) @ number_text v @ unit)
      | _ \<Rightarrow> None)"
| "numericDelta _ _ unit = None"

record SettingChange =
  sc_afterLabel :: string
  sc_beforeLabel :: string
  sc_deltaLabel :: "string option"
  sc_direction :: "direction option"
  sc_key :: string
  sc_label :: string

text \<open>
  \<open>Object.is\<close> on two values of a parsed entry: primitive values are compared by value, two
  objects or arrays of the entry are never the same object.
\<close>

fun object_is :: "json option \<Rightarrow> json option \<Rightarrow> bool" where
  "object_is (Some (JObj a)) y = False"
| "object_is (Some (JArr a)) y = False"
| "object_is x y = (x = y)"

definition setting_change :: "(string \<times> SettingMeta) list \<Rightarrow> AuditDiffRow \<Rightarrow> SettingChange list" where
  "setting_change settings row =
     (case map_of settings (df_key row) of
        None \<Rightarrow> []
      | Some meta \<Rightarrow>
          if object_is (df_before row) (df_after row) then []
          else (case (formatSettingValue (df_before row) meta, formatSettingValue (df_after row) meta) of
                  (Some b, Some a) \<Rightarrow>
                    let delta = numericDelta (df_before row) (df_after row) (or_else (sm_unit meta) [])
                    in [\<lparr>sc_afterLabel = a, sc_beforeLabel = b, sc_deltaLabel = map_option snd delta,
                         sc_direction = map_option fst delta, sc_key = df_key row, sc_label = sm_label meta\<rparr>]
                | _ \<Rightarrow> []))"

definition getAuditSecuritySettingChanges :: "json option \<Rightarrow> AuditDiffRow list \<Rightarrow> SettingChange list" where
  "getAuditSecuritySettingChanges event rows =
     (case json_string event of
        None \<Rightarrow> []
      | Some e \<Rightarrow> (case map_of SECURITY_SETTINGS_BY_EVENT e of
                     None \<Rightarrow> []
                   | Some settings \<Rightarrow> concat (map (setting_change settings) rows)))"

section \<open>What the timing of a chain says\<close>

abbreviation failed :: "AuditRetryTimingItem \<Rightarrow> bool" where
  "failed \<equiv> detail_is ''success'' (JBool False)"

abbreviation succeeded :: "AuditRetryTimingItem \<Rightarrow> bool" where
  "succeeded \<equiv> detail_is ''success'' (JBool True)"

text \<open>The specification of the recovery: the first failure, then the first success after it.\<close>

definition recovery_spec ::
    "js_host \<Rightarrow> AuditRetryTimingItem list \<Rightarrow> AuditRetryRecoveryState \<times> rat option" where
  "recovery_spec H chain =
     (case dropWhile (\<lambda>x. \<not> failed x) chain of
        [] \<Rightarrow> (RecNone, None)
      | f # rest \<Rightarrow>
          (case dropWhile (\<lambda>x. \<not> succeeded x) rest of
             [] \<Rightarrow> (RecPending, None)
           | g # _ \<Rightarrow>
               (case getElapsedMs H (rt_created_at f) (rt_created_at g) of
                  None \<Rightarrow> (RecInvalid, None)
                | Some d \<Rightarrow> (RecRecovered, Some d))))"

lemma dropWhile_find: "find P xs = (case dropWhile (\<lambda>x. \<not> P x) xs of [] \<Rightarrow> None | x # _ \<Rightarrow> Some x)"
  by (induction xs) auto

lemma timing_recovery:
  "(recoveryState (getAuditRetryChainTiming H chain w), recoveryDurationMs (getAuditRetryChainTiming H chain w)) =
   recovery_spec H chain"
proof (cases "dropWhile (\<lambda>x. \<not> failed x) chain")
  case Nil
  then have "find_index failed chain = None" by (simp add: find_index_None dropWhile_eq_Nil_conv)
  then show ?thesis unfolding recovery_spec_def Nil by (simp add: getAuditRetryChainTiming_def Let_def)
next
  case (Cons f rest)
  let ?pre = "takeWhile (\<lambda>x. \<not> failed x) chain"
  have c: "chain = ?pre @ f # rest" using Cons takeWhile_dropWhile_id [of "\<lambda>x. \<not> failed x" chain] by simp
  have "failed f" using hd_dropWhile [of "\<lambda>x. \<not> failed x" chain] Cons by simp
  then have i: "find_index failed chain = Some (length ?pre)"
    by (subst c, intro find_index_first) (auto dest: set_takeWhileD)
  have n: "chain ! length ?pre = f" "drop (Suc (length ?pre)) chain = rest"
    by (subst c, simp)+
  show ?thesis
    using Cons
    by (cases "dropWhile (\<lambda>x. \<not> succeeded x) rest")
      (auto simp: getAuditRetryChainTiming_def Let_def recovery_spec_def i n dropWhile_find
        simp del: dropWhile_eq_Nil_conv split: option.splits)
qed

text \<open>The stages: the time since the previous entry, and a warning on the automatic retries that
  took longer than the limit.\<close>

definition stages_spec :: "js_host \<Rightarrow> AuditRetryTimingItem list \<Rightarrow> rat option list" where
  "stages_spec H chain =
     take (length chain) (None # map2 (\<lambda>a b. getElapsedMs H (rt_created_at a) (rt_created_at b)) chain (tl chain))"

lemma timing_stages: "stageElapsedMs (getAuditRetryChainTiming H chain w) = stages_spec H chain"
proof (rule nth_equalityI)
  show "length (stageElapsedMs (getAuditRetryChainTiming H chain w)) = length (stages_spec H chain)"
    by (cases chain) (simp_all add: getAuditRetryChainTiming_def Let_def stages_spec_def)
  fix i assume "i < length (stageElapsedMs (getAuditRetryChainTiming H chain w))"
  then have "i < length chain" by (simp add: getAuditRetryChainTiming_def Let_def)
  then show "stageElapsedMs (getAuditRetryChainTiming H chain w) ! i = stages_spec H chain ! i"
    by (cases i) (simp_all add: getAuditRetryChainTiming_def Let_def stages_spec_def nth_tl)
qed

lemma timing_warnings:
  "stageDelayWarnings (getAuditRetryChainTiming H chain w) =
   map2 (\<lambda>x e. detail_is ''trigger'' (JStr ''automatic_retry'') x \<and> (case e of None \<Rightarrow> False | Some d \<Rightarrow> w < d))
     chain (stageElapsedMs (getAuditRetryChainTiming H chain w))"
  by (intro nth_equalityI) (auto simp: getAuditRetryChainTiming_def Let_def)

text \<open>A retry chain is reported as recovered exactly when an entry failed, a later entry
  succeeded and the time between the first failure and the first success after it can be computed,
  and that time is reported; a chain without failure, one without success and one with unreadable
  times are told apart.  Every stage gets the time since its predecessor, and a warning exactly
  when it is an automatic retry that took longer than the limit.\<close>

theorem retry_timing_correct:
  "getAuditRetryChainTiming H chain w =
   \<lparr>recoveryDurationMs = snd (recovery_spec H chain),
    recoveryState = fst (recovery_spec H chain),
    stageDelayWarnings =
      map2 (\<lambda>x e. detail_is ''trigger'' (JStr ''automatic_retry'') x \<and> (case e of None \<Rightarrow> False | Some d \<Rightarrow> w < d))
        chain (stages_spec H chain),
    stageElapsedMs = stages_spec H chain\<rparr>"
  using timing_recovery [of H chain w, symmetric]
  by (intro retry_timing.equality) (simp_all add: timing_warnings timing_stages)

section \<open>What the rows of a change say\<close>

lemma delta_direction:
  assumes "numericDelta (Some (JNum (Num a))) (Some (JNum (Num b))) u = Some (d, l)"
  shows "d = (if a < b then Up else Down) \<and> a \<noteq> b"
proof -
  have n: "fl (b - a) \<noteq> 0" and d: "d = (if 0 < fl (b - a) then Up else Down)"
    using assms by (auto simp: to_double_def split: if_splits)
  have "0 \<le> fl (b - a)" if "a < b" using that dbl.rnd_ge_int [of 0 "b - a"] by simp
  moreover have "fl (b - a) \<le> 0" if "b \<le> a" using that dbl.rnd_le_int [of "b - a" 0] by simp
  moreover have "a \<noteq> b" using n by (auto simp: fl_def)
  ultimately show ?thesis using n d by force
qed

lemma delta_numbers:
  "numericDelta x y u = Some r \<Longrightarrow> \<exists>a b. x = Some (JNum (Num a)) \<and> y = Some (JNum (Num b))"
  by (induction x y u rule: numericDelta.induct) auto

lemma formatted_is: "Some x = formatSettingValue v k \<Longrightarrow> object_is v v"
  by (cases "(v, k)" rule: formatSettingValue.cases) auto

lemma change_row:
  assumes "c \<in> set (setting_change m r)"
  shows "sc_key c = df_key r \<and> df_before r \<noteq> df_after r \<and>
    (\<exists>u. sc_direction c = map_option fst (numericDelta (df_before r) (df_after r) u))"
proof -
  obtain k a b where "c = \<lparr>sc_afterLabel = a, sc_beforeLabel = b,
      sc_deltaLabel = map_option snd (numericDelta (df_before r) (df_after r) (or_else (sm_unit k) [])),
      sc_direction = map_option fst (numericDelta (df_before r) (df_after r) (or_else (sm_unit k) [])),
      sc_key = df_key r, sc_label = sm_label k\<rparr>"
    "\<not> object_is (df_before r) (df_after r)" "Some b = formatSettingValue (df_before r) k"
    using assms by (auto simp: setting_change_def Let_def split: option.splits if_splits)
  then show ?thesis using formatted_is by auto
qed

definition direction_ok :: "AuditDiffRow \<Rightarrow> direction option \<Rightarrow> bool" where
  "direction_ok r d =
     (case d of
        None \<Rightarrow> True
      | Some x \<Rightarrow>
          (case (df_before r, df_after r) of
             (Some (JNum (Num a)), Some (JNum (Num b))) \<Rightarrow> a \<noteq> b \<and> x = (if a < b then Up else Down)
           | _ \<Rightarrow> False))"

lemma delta_ok: "direction_ok r (map_option fst (numericDelta (df_before r) (df_after r) u))"
proof (cases "numericDelta (df_before r) (df_after r) u")
  case (Some p)
  then obtain a b where ab: "df_before r = Some (JNum (Num a))" "df_after r = Some (JNum (Num b))"
    using delta_numbers by blast
  then show ?thesis using Some delta_direction [of a b u "fst p" "snd p"] by (simp add: direction_ok_def)
qed (simp add: direction_ok_def)

text \<open>Every reported change of a security setting is about a row of the entry whose value
  changed, and a reported direction tells whether the number went up or down.\<close>

theorem setting_changes_sound:
  assumes "c \<in> set (getAuditSecuritySettingChanges ev rows)"
  shows "\<exists>r \<in> set rows. sc_key c = df_key r \<and> df_before r \<noteq> df_after r \<and> direction_ok r (sc_direction c)"
proof -
  obtain m r where "r \<in> set rows" "c \<in> set (setting_change m r)"
    using assms by (auto simp: getAuditSecuritySettingChanges_def split: option.splits)
  then show ?thesis using change_row delta_ok by metis
qed

text \<open>Without a list of changed keys, every key of either side has exactly one row.\<close>

lemma diff_rows_keys:
  assumes "obj_get ''before'' d = Some (JObj b)" "obj_get ''after'' d = Some (JObj a)" "obj_get ''changed_keys'' d = None"
  shows "distinct (map df_key (getAuditDiffRows (Some d)))"
    "set (map df_key (getAuditDiffRows (Some d))) = fst ` set (obj_entries b) \<union> fst ` set (obj_entries a)"
  using assms by (simp_all add: getAuditDiffRows_def comp_def)

end
