(* ===== verification/Csv.thy ===== *)
theory Csv
  imports Smoke_Tracking
begin

text \<open>
  CSV files.  Five modules of the dashboard write CSV, each with its own copy of a cell writer:
  \<open>csvCell\<close> of the deployment history, the Traefik update history and the bottleneck events, and
  \<open>toCsvCell\<close> of the smoke failure metadata and of the smoke statistics.  The writers differ in
  how they turn a value into text and in which first characters they defuse for spreadsheet
  programs.

  The locale \<open>csv_writer\<close> is what the exports rely on: a cell is a quoted text, and the text
  does not start a formula.  Inside it the tbls are verified once against \<open>csv_rows\<close>, a reader
  for the format of RFC 4180.
\<close>

section \<open>Writing\<close>

definition CR :: char where "CR = CHR 0x0D"
definition LF :: char where "LF = CHR 0x0A"
definition TAB :: char where "TAB = CHR 0x09"
definition QUOTE :: char where "QUOTE = CHR 0x22"
definition CRLF :: string where "CRLF = [CR, LF]"

text \<open>The byte order mark \<open>\uFEFF\<close>.\<close>

definition BOM :: string where "BOM = [CHR 0xEF, CHR 0xBB, CHR 0xBF]"

text \<open>\<open>text.replaceAll('"', '""')\<close>.\<close>

definition double_quotes :: "string \<Rightarrow> string" where
  "double_quotes s = concat (map (\<lambda>c. if c = QUOTE then [QUOTE, QUOTE] else [c]) s)"

definition csv_quote :: "string \<Rightarrow> string" where
  "csv_quote s = QUOTE # double_quotes s @ [QUOTE]"

definition FORMULA_STARTS :: "char list" where
  "FORMULA_STARTS = [CHR ''='', CHR ''+'', CHR ''-'', CHR ''@'']"

text \<open>\<open>/^[...]/.test(text) ? `'${text}` : text\<close>.\<close>

definition guard_text :: "char list \<Rightarrow> string \<Rightarrow> string" where
  "guard_text cs s = (if s \<noteq> [] \<and> hd s \<in> set cs then CHR 0x27 # s else s)"

text \<open>The values of cells: \<open>None\<close> is a missing property.\<close>

definition is_nullish :: "json option \<Rightarrow> bool" where
  "is_nullish v = (v = None \<or> v = Some JNull)"

text \<open>\<open>csvCell\<close> of \<open>managerDeploymentHistoryExport.ts\<close> and \<open>traefikUpdateHistoryExport.ts\<close>.\<close>

definition history_text :: "json option \<Rightarrow> string" where
  "history_text v =
     (let tx = (if is_nullish v then []
                 else (case the v of JArr xs \<Rightarrow> json_stringify (JArr xs)
                       | JObj ps \<Rightarrow> json_stringify (JObj ps) | x \<Rightarrow> json_to_string x))
      in guard_text (FORMULA_STARTS @ [TAB, CR, LF]) tx)"

definition history_csvCell :: "json option \<Rightarrow> string" where
  "history_csvCell v = csv_quote (history_text v)"

text \<open>\<open>csvCell\<close> of \<open>managerDeploymentBottleneckEventExport.ts\<close>.\<close>

definition bottleneck_text :: "json option \<Rightarrow> string" where
  "bottleneck_text v =
     guard_text (FORMULA_STARTS @ [TAB, CR, LF]) (if is_nullish v then [] else json_to_string (the v))"

definition bottleneck_csvCell :: "json option \<Rightarrow> string" where
  "bottleneck_csvCell v = csv_quote (bottleneck_text v)"

text \<open>\<open>toCsvCell\<close> of \<open>smokeFailureMetadataExport.ts\<close> and \<open>smokeStatisticsHistory.ts\<close>.\<close>

definition smoke_text :: "json option \<Rightarrow> string" where
  "smoke_text v = guard_text FORMULA_STARTS (if is_nullish v then [] else json_to_string (the v))"

definition toCsvCell :: "json option \<Rightarrow> string" where
  "toCsvCell v = csv_quote (smoke_text v)"

text \<open>
  The layout that three exports share: a block of metadata, an empty line, the column names and
  one line per entry.
\<close>

definition csv_lines ::
    "(json option \<Rightarrow> string) \<Rightarrow> (string \<times> json) list \<Rightarrow> string list \<Rightarrow> json js_object list \<Rightarrow> string list list" where
  "csv_lines cell metadataRows columns entries =
     [[''metadata'', ''value'']] @ map (\<lambda>(k, v). [k, cell (Some v)]) metadataRows @ [[[]]] @ [columns]
     @ map (\<lambda>e. map (\<lambda>c. cell (obj_get c e)) columns) entries"

definition csv_document ::
    "(json option \<Rightarrow> string) \<Rightarrow> (string \<times> json) list \<Rightarrow> string list \<Rightarrow> json js_object list \<Rightarrow> string" where
  "csv_document cell metadataRows columns entries =
     str_join CRLF (map (str_join '','') (csv_lines cell metadataRows columns entries))"

text \<open>The layout of the smoke exports: every cell is written by \<open>toCsvCell\<close>, the last line ends too.\<close>

definition smoke_document :: "json option list list \<Rightarrow> string" where
  "smoke_document rows =
     BOM @ str_join CRLF (map (\<lambda>row. str_join '','' (map toCsvCell row)) rows) @ CRLF"

section \<open>Reading\<close>

text \<open>A reader for RFC 4180: after an opening quote, up to the closing one.\<close>

fun read_quoted :: "string \<Rightarrow> string \<times> string" where
  "read_quoted [] = ([], [])"
| "read_quoted [c] = (if c = QUOTE then ([], []) else ([c], []))"
| "read_quoted (c # d # s) =
     (if c = QUOTE then
        (if d = QUOTE then (let (f, r) = read_quoted s in (QUOTE # f, r)) else ([], d # s))
      else (let (f, r) = read_quoted (d # s) in (c # f, r)))"

definition csv_plain :: "char \<Rightarrow> bool" where
  "csv_plain c = (c \<noteq> CHR '','' \<and> c \<noteq> CR \<and> c \<noteq> LF \<and> c \<noteq> QUOTE)"

definition csv_field :: "string \<Rightarrow> string \<times> string" where
  "csv_field s =
     (case s of
        c # r \<Rightarrow> if c = QUOTE then read_quoted r else (takeWhile csv_plain s, dropWhile csv_plain s)
      | [] \<Rightarrow> ([], []))"

lemma read_quoted_length: "length (snd (read_quoted s)) \<le> length s"
  by (induction s rule: read_quoted.induct) (auto split: prod.splits)

lemma csv_field_length: "length (snd (csv_field s)) \<le> length s"
proof (cases s)
  case (Cons c r)
  then show ?thesis
    using read_quoted_length [of r] length_dropWhile_le [of csv_plain s] by (auto simp: csv_field_def)
qed (simp add: csv_field_def)

lemma field_shrinks: "(f, c # t) = csv_field s \<Longrightarrow> length t < length s \<and> length t - Suc 0 < length s"
  using csv_field_length [of s] by (cases "csv_field s") auto

text \<open>The records of a file; the line end after the last record is optional.\<close>

function csv_rows :: "string \<Rightarrow> string list list" where
  "csv_rows s =
     (let (f, r) = csv_field s in
      case r of
        [] \<Rightarrow> [[f]]
      | c # t \<Rightarrow>
          if c = CHR '','' then (case csv_rows t of [] \<Rightarrow> [[f]] | x # xs \<Rightarrow> (f # x) # xs)
          else if c = CR \<and> t \<noteq> [] \<and> hd t = LF then (if tl t = [] then [[f]] else [f] # csv_rows (tl t))
          else [[f]])"
  by pat_completeness auto
termination
  by (relation "measure length") (auto dest: field_shrinks)

declare csv_rows.simps [simp del]

section \<open>What the reader gets back\<close>

lemma read_quoted_double:
  "r = [] \<or> hd r \<noteq> QUOTE \<Longrightarrow> read_quoted (double_quotes s @ QUOTE # r) = (s, r)"
proof (induction s)
  case Nil
  then show ?case by (cases r) (auto simp: double_quotes_def)
next
  case (Cons c s)
  have n: "double_quotes s @ QUOTE # r \<noteq> []" by simp
  show ?case
  proof (cases "c = QUOTE")
    case True
    then show ?thesis using Cons by (simp add: double_quotes_def)
  next
    case False
    obtain d t where "double_quotes s @ QUOTE # r = d # t" using n by (cases "double_quotes s @ QUOTE # r") auto
    then show ?thesis using Cons False by (simp add: double_quotes_def)
  qed
qed

text \<open>A cell that the reader takes back as \<open>tx\<close>: a quoted text, or a plain one.\<close>

definition cell_of :: "string \<Rightarrow> string \<Rightarrow> bool" where
  "cell_of tx c = (c = csv_quote tx \<or> c = tx \<and> list_all csv_plain tx)"

definition csv_stop :: "string \<Rightarrow> bool" where
  "csv_stop r = (r = [] \<or> \<not> csv_plain (hd r) \<and> hd r \<noteq> QUOTE)"

lemma csv_field_cell: "cell_of tx c \<Longrightarrow> csv_stop r \<Longrightarrow> csv_field (c @ r) = (tx, r)"
proof -
  assume c: "cell_of tx c" and r: "csv_stop r"
  consider "c = csv_quote tx" | "c = tx" "list_all csv_plain tx" using c by (auto simp: cell_of_def)
  then show ?thesis
  proof cases
    case 1
    then show ?thesis using r read_quoted_double [of r tx] by (auto simp: csv_field_def csv_quote_def csv_stop_def)
  next
    case 2
    have h: "\<not> (tx @ r \<noteq> [] \<and> hd (tx @ r) = QUOTE)"
      using "2" r by (cases tx) (auto simp: csv_plain_def csv_stop_def)
    have "takeWhile csv_plain (tx @ r) = tx" "dropWhile csv_plain (tx @ r) = r"
      using "2" r by (cases r; auto simp: list_all_iff takeWhile_append2 dropWhile_append2 csv_stop_def)+
    then show ?thesis using h "2" by (cases "tx @ r") (auto simp: csv_field_def)
  qed
qed

definition row_of :: "string list \<Rightarrow> string list \<Rightarrow> bool" where
  "row_of txts cs = (cs \<noteq> [] \<and> list_all2 cell_of txts cs)"

definition rest_rows :: "string \<Rightarrow> string list list" where
  "rest_rows t = (if drop 2 t = [] then [] else csv_rows (drop 2 t))"

lemma rest_rows_CRLF: "s \<noteq> [] \<Longrightarrow> rest_rows (CRLF @ s) = csv_rows s"
  by (simp add: rest_rows_def CRLF_def)

lemma csv_rows_row:
  assumes "row_of txts cs" "t = [] \<or> (\<exists>s. t = CRLF @ s)"
  shows "csv_rows (str_join '','' cs @ t) = txts # rest_rows t"
  using assms(1)
proof (induction cs arbitrary: txts)
  case (Cons c cs)
  then obtain x xs where t: "txts = x # xs" "cell_of x c" "list_all2 cell_of xs cs"
    by (auto simp: row_of_def list_all2_Cons2)
  show ?case
  proof (cases cs)
    case Nil
    have "csv_stop t" using assms(2) by (auto simp: csv_stop_def CRLF_def csv_plain_def CR_def QUOTE_def)
    then have "csv_field (c @ t) = (x, t)" by (rule csv_field_cell [OF t(2)])
    then show ?thesis using Nil t assms(2)
      by (auto simp: csv_rows.simps [of "c @ t"] rest_rows_def CRLF_def CR_def)
  next
    case (Cons d ds)
    have "csv_stop (CHR '','' # str_join '','' cs @ t)" by (simp add: csv_stop_def csv_plain_def QUOTE_def)
    then have f: "csv_field (c @ CHR '','' # str_join '','' cs @ t) = (x, CHR '','' # str_join '','' cs @ t)"
      by (rule csv_field_cell [OF t(2)])
    have "row_of xs cs" using Cons t(3) by (simp add: row_of_def)
    then have "csv_rows (str_join '','' cs @ t) = xs # rest_rows t" by (rule Cons.IH)
    then have "csv_rows (c @ CHR '','' # str_join '','' cs @ t) = (x # xs) # rest_rows t"
      using f by (simp add: csv_rows.simps [of "c @ CHR '','' # str_join '','' cs @ t"])
    then show ?thesis using Cons t by simp
  qed
qed (simp add: row_of_def)

text \<open>Lines joined by line ends, with or without a last line end.\<close>

lemma row_text_ne: "row_of txts cs \<Longrightarrow> str_join '','' cs = [] \<Longrightarrow> txts = [[]]"
proof -
  assume r: "row_of txts cs" and e: "str_join '','' cs = []"
  then have "cs = [[]]" by (cases cs rule: remdups_adj.cases) (auto simp: row_of_def)
  then show ?thesis using r by (auto simp: row_of_def cell_of_def csv_quote_def list_all2_Cons2)
qed

theorem csv_rows_table:
  assumes "list_all2 row_of tbls rws" "rws \<noteq> []" "t = [] \<or> t = CRLF"
    and "str_join '','' (last rws) \<noteq> []"
  shows "csv_rows (str_join CRLF (map (str_join '','') rws) @ t) = tbls"
  using assms
proof (induction rws arbitrary: tbls rule: list.induct)
  case (Cons l ls)
  then obtain x xs where x: "tbls = x # xs" "row_of x l" "list_all2 row_of xs ls"
    by (auto simp: list_all2_Cons2)
  show ?case
  proof (cases ls)
    case Nil
    then show ?thesis using x Cons.prems csv_rows_row [OF x(2), of t] by (auto simp: rest_rows_def CRLF_def)
  next
    case (Cons m ms)
    let ?rest = "str_join CRLF (map (str_join '','') ls) @ t"
    have ne: "?rest \<noteq> []"
      using Cons.prems Cons by (cases ms) (auto simp: CRLF_def)
    have "csv_rows ?rest = xs" using Cons.IH [OF x(3)] Cons.prems Cons by simp
    then show ?thesis
      using x Cons csv_rows_row [OF x(2), of "CRLF @ ?rest"] rest_rows_CRLF [OF ne] by simp
  qed
qed simp

lemma plain_read: "cs \<noteq> [] \<Longrightarrow> list_all (list_all csv_plain) cs \<Longrightarrow> row_of cs cs"
  by (auto simp: row_of_def list_all2_same list_all_iff cell_of_def)


section \<open>The interface of the exports\<close>

text \<open>
  A cell writer quotes a text, and the text does not begin with one of the characters it guards
  against.
\<close>

definition safe_start :: "char list \<Rightarrow> string \<Rightarrow> bool" where
  "safe_start starts f = (f = [] \<or> hd f \<notin> set starts)"

locale csv_writer =
  fixes cell :: "json option \<Rightarrow> string" and tx :: "json option \<Rightarrow> string" and starts :: "char list"
  assumes cell_quoted: "cell v = csv_quote (tx v)"
    and tx_guarded: "safe_start starts (tx v)"
begin

lemma cell_reads: "cell_of (tx v) (cell v)"
  by (simp add: cell_of_def cell_quoted)

lemma cells_read: "vs \<noteq> [] \<Longrightarrow> row_of (map tx vs) (map cell vs)"
  by (simp add: row_of_def list_all2_map1 list_all2_map2 list_all2_same cell_reads)

lemma labelled_read: "list_all csv_plain k \<Longrightarrow> row_of [k, tx v] [k, cell v]"
  by (simp add: row_of_def cell_reads) (simp add: cell_of_def)

text \<open>The fields of a document, as a reader sees them.\<close>

definition table :: "(string \<times> json) list \<Rightarrow> string list \<Rightarrow> json js_object list \<Rightarrow> string list list" where
  "table metadataRows columns entries =
     [[''metadata'', ''value'']] @ map (\<lambda>(k, v). [k, tx (Some v)]) metadataRows @ [[[]]] @ [columns]
     @ map (\<lambda>e. map (\<lambda>c. tx (obj_get c e)) columns) entries"

lemma document_reads:
  assumes "list_all (\<lambda>p. list_all csv_plain (fst p)) m" "cs \<noteq> []" "list_all (\<lambda>c. c \<noteq> [] \<and> list_all csv_plain c) cs"
  shows "csv_rows (csv_document cell m cs es) = table m cs es"
proof -
  let ?l = "csv_lines cell m cs es"
  have m: "list_all2 row_of (map (\<lambda>(k, v). [k, tx (Some v)]) m) (map (\<lambda>(k, v). [k, cell (Some v)]) m)"
    using assms(1) by (induction m) (auto simp: labelled_read)
  have e: "list_all2 row_of (map (\<lambda>e. map (\<lambda>c. tx (obj_get c e)) cs) es) (map (\<lambda>e. map (\<lambda>c. cell (obj_get c e)) cs) es)"
    using cells_read [of "map (\<lambda>c. obj_get c e) cs" for e] assms(2)
    by (simp add: list_all2_map1 list_all2_map2 list_all2_same comp_def)
  have h: "row_of [''metadata'', ''value''] [''metadata'', ''value'']" "row_of [[]] [[]]" "row_of cs cs"
  proof -
    have "list_all (list_all csv_plain) [''metadata'', ''value'']" by code_simp
    moreover have "list_all (list_all csv_plain) cs" using assms(3) by (auto simp: list_all_iff)
    ultimately show "row_of [''metadata'', ''value''] [''metadata'', ''value'']" "row_of [[]] [[]]" "row_of cs cs"
      using assms(2) plain_read by auto
  qed
  have "list_all2 row_of (table m cs es) ?l"
    unfolding table_def csv_lines_def by (intro list_all2_appendI m e) (simp_all add: h)
  moreover have "str_join '','' (last ?l) \<noteq> []"
  proof (cases "es = []")
    case True
    then show ?thesis using assms(2,3) by (cases cs rule: remdups_adj.cases) (auto simp: csv_lines_def)
  next
    case False
    then have "last ?l = map (\<lambda>c. cell (obj_get c (last es))) cs" by (simp add: csv_lines_def last_map)
    then show ?thesis using assms(2)
      by (cases cs rule: remdups_adj.cases) (auto simp: cell_quoted csv_quote_def)
  qed
  ultimately show ?thesis
    unfolding csv_document_def using csv_rows_table [of "table m cs es" ?l "[]"] by (simp add: csv_lines_def)
qed

text \<open>No field of a table starts a formula.\<close>

lemma table_safe:
  assumes "list_all (\<lambda>p. safe_start starts (fst p)) m" "list_all (safe_start starts) cs" "safe_start starts ''metadata''" "safe_start starts ''value''"
  shows "list_all (list_all (safe_start starts)) (table m cs es)"
proof -
  have s: "safe_start starts (tx v)" "safe_start starts []" for v using tx_guarded by (auto simp: safe_start_def)
  have "list_all (safe_start starts) [fst p, tx (Some (snd p))]" if "p \<in> set m" for p
    using that assms(1) s by (auto simp: list_all_iff)
  then show ?thesis using assms(2-) s by (auto simp: table_def list_all_iff)
qed

end

lemma guard_text_ok: "CHR 0x27 \<notin> set cs \<Longrightarrow> safe_start cs (guard_text cs s)"
  by (auto simp: guard_text_def safe_start_def)

interpretation history: csv_writer history_csvCell history_text "FORMULA_STARTS @ [TAB, CR, LF]"
  unfolding history_csvCell_def history_text_def Let_def
  by unfold_locales (rule refl, rule guard_text_ok, simp add: FORMULA_STARTS_def TAB_def CR_def LF_def)

interpretation bottleneck: csv_writer bottleneck_csvCell bottleneck_text "FORMULA_STARTS @ [TAB, CR, LF]"
  unfolding bottleneck_csvCell_def bottleneck_text_def
  by unfold_locales (rule refl, rule guard_text_ok, simp add: FORMULA_STARTS_def TAB_def CR_def LF_def)

interpretation smoke: csv_writer toCsvCell smoke_text FORMULA_STARTS
  unfolding toCsvCell_def smoke_text_def
  by unfold_locales (rule refl, rule guard_text_ok, simp add: FORMULA_STARTS_def)

text \<open>The smoke writers do not guard against the white space that the other writers guard against.\<close>

lemma smoke_text_tab: "smoke_text (Some (JStr (TAB # ''=1+1''))) = TAB # ''=1+1''"
  by (simp add: smoke_text_def is_nullish_def guard_text_def FORMULA_STARTS_def TAB_def)

end
