(* ===== verification/Exports.thy ===== *)
theory Exports
  imports Csv Traefik_Update Deployment_Query Smoke_Filters
begin

text \<open>
  The files that the dashboard offers for download: the deployment history
  (\<open>managerDeploymentHistoryExport.ts\<close>), the Traefik update history
  (\<open>traefikUpdateHistoryExport.ts\<close>), the bottleneck events
  (\<open>managerDeploymentBottleneckEventExport.ts\<close>) and the smoke failure metadata
  (\<open>smokeFailureMetadataExport.ts\<close>), as CSV and as JSON.

  The entries are the objects of the server's answer, with the properties they have there.  A
  download is the content, the name and the media type of the file; the anchor element that
  triggers it is not modelled.  The arguments of the model that come from the environment are the
  instant \<open>now\<close>, the zone name \<open>hostZone\<close> of \<open>Intl.DateTimeFormat\<close>, the Unicode normal form
  \<open>nfkc\<close> and the Unicode classes \<open>\p{L}\<close> and \<open>\p{N}\<close> as \<open>wordPoint\<close>.
\<close>

section \<open>Common parts\<close>

datatype ExportFormat = Fmt_csv | Fmt_json

fun format_text :: "ExportFormat \<Rightarrow> string" where
  "format_text Fmt_csv = ''csv''"
| "format_text Fmt_json = ''json''"

record export_file =
  ef_content :: string
  ef_filename :: string
  ef_mimeType :: string

definition mime_type :: "ExportFormat \<Rightarrow> string" where
  "mime_type f = (case f of Fmt_csv \<Rightarrow> ''text/csv;charset=utf-8'' | Fmt_json \<Rightarrow> ''application/json;charset=utf-8'')"

text \<open>\<open>timezone?.trim() || Intl.DateTimeFormat().resolvedOptions().timeZone || "UTC"\<close>.\<close>

definition export_timezone :: "string \<Rightarrow> string option \<Rightarrow> string" where
  "export_timezone hostZone tz = or_else (map_option js_trim tz) (or_else (Some hostZone) ''UTC'')"

definition null_or :: "string \<Rightarrow> json" where
  "null_or s = (if s = [] then JNull else JStr s)"

definition json_nat :: "nat \<Rightarrow> json" where
  "json_nat n = JNum (Num (of_nat n))"

section \<open>Deployment history (\<open>managerDeploymentHistoryExport.ts\<close>)\<close>

definition DEPLOYMENT_CSV_COLUMNS :: "string list" where
  "DEPLOYMENT_CSV_COLUMNS =
     [''status'', ''from_slot'', ''to_slot'', ''active_slot'', ''version'', ''revision'', ''started_at'',
      ''completed_at'', ''probe_total'', ''probe_failures'', ''failure_stage'', ''failure_reason'',
      ''stage_durations_ms'', ''alert_request_status'', ''alert_channel'', ''alert_run_url'',
      ''alert_run_status'', ''alert_run_conclusion'', ''alert_run_checked_at'', ''alert_run_error'',
      ''archive_sample'']"

record DeploymentExportMetadata =
  dm_exported_at :: string
  dm_archive_sample :: string
  dm_bottleneck_threshold_ms :: json
  dm_date_from :: json
  dm_date_to :: json
  dm_failure_stage :: string
  dm_period :: string
  dm_search :: json
  dm_source :: string
  dm_speed :: string
  dm_status :: string
  dm_result_count :: nat
  dm_timezone :: string

definition buildMetadata ::
    "string \<Rightarrow> int \<Rightarrow> ManagerDeploymentHistoryFilters \<Rightarrow> nat \<Rightarrow> string option \<Rightarrow> DeploymentExportMetadata" where
  "buildMetadata hostZone now filters resultCount tz =
     \<lparr>dm_exported_at = to_iso now,
      dm_archive_sample = archive_sample_text (df_archiveSample filters),
      dm_bottleneck_threshold_ms = JNum (js_number (threshold_text (df_bottleneckThreshold filters))),
      dm_date_from = null_or (df_dateFrom filters),
      dm_date_to = null_or (df_dateTo filters),
      dm_failure_stage = stage_filter_text (df_stage filters),
      dm_period = period_text (df_period filters),
      dm_search = null_or (js_trim (df_search filters)),
      dm_source = source_text (df_source filters),
      dm_speed = speed_text (df_speed filters),
      dm_status = status_filter_text (df_status filters),
      dm_result_count = resultCount,
      dm_timezone = export_timezone hostZone tz\<rparr>"

definition deployment_metadata_rows :: "DeploymentExportMetadata \<Rightarrow> (string \<times> json) list" where
  "deployment_metadata_rows m =
     [(''schema_version'', json_nat 6), (''exported_at'', JStr (dm_exported_at m)),
      (''timezone'', JStr (dm_timezone m)), (''result_count'', json_nat (dm_result_count m)),
      (''filter_source'', JStr (dm_source m)), (''filter_archive_sample'', JStr (dm_archive_sample m)),
      (''filter_bottleneck_threshold_ms'', dm_bottleneck_threshold_ms m),
      (''filter_speed'', JStr (dm_speed m)), (''filter_period'', JStr (dm_period m)),
      (''filter_date_from'', dm_date_from m), (''filter_date_to'', dm_date_to m),
      (''filter_status'', JStr (dm_status m)), (''filter_failure_stage'', JStr (dm_failure_stage m)),
      (''filter_search'', dm_search m)]"

definition deployment_toCsv :: "DeploymentExportMetadata \<Rightarrow> json js_object list \<Rightarrow> bool \<Rightarrow> string" where
  "deployment_toCsv m entries includeSource =
     (let columns = (if includeSource then ''source'' # DEPLOYMENT_CSV_COLUMNS else DEPLOYMENT_CSV_COLUMNS)
      in csv_document history_csvCell (deployment_metadata_rows m) columns entries)"

definition deployment_metadata_json :: "DeploymentExportMetadata \<Rightarrow> json" where
  "deployment_metadata_json m =
     JObj [(''exported_at'', JStr (dm_exported_at m)),
           (''filters'', JObj
              [(''archive_sample'', JStr (dm_archive_sample m)),
               (''bottleneck_threshold_ms'', dm_bottleneck_threshold_ms m),
               (''date_from'', dm_date_from m), (''date_to'', dm_date_to m),
               (''failure_stage'', JStr (dm_failure_stage m)), (''period'', JStr (dm_period m)),
               (''search'', dm_search m), (''source'', JStr (dm_source m)), (''speed'', JStr (dm_speed m)),
               (''status'', JStr (dm_status m))]),
           (''result_count'', json_nat (dm_result_count m)), (''schema_version'', json_nat 6),
           (''timezone'', JStr (dm_timezone m))]"

text \<open>\<open>{ source: resolveSource(entry), ...entry }\<close>.\<close>

definition with_source :: "(json js_object \<Rightarrow> string) \<Rightarrow> json js_object \<Rightarrow> json js_object" where
  "with_source resolve e = fold (\<lambda>p o'. obj_put (fst p) (snd p) o') e [(''source'', JStr (resolve e))]"

definition deployment_period :: "ManagerDeploymentHistoryFilters \<Rightarrow> string" where
  "deployment_period filters =
     (if df_dateFrom filters \<noteq> [] \<or> df_dateTo filters \<noteq> []
      then or_else (Some (df_dateFrom filters)) ''start'' @ ''_to_'' @ or_else (Some (df_dateTo filters)) ''end''
      else if df_period filters = PerAll then ''all-time'' else period_text (df_period filters) @ ''d'')"

datatype export_error = SourceResolverMissing

definition downloadManagerDeploymentHistory ::
    "string \<Rightarrow> int \<Rightarrow> json js_object list \<Rightarrow> ManagerDeploymentHistoryFilters \<Rightarrow> ExportFormat \<Rightarrow>
     (json js_object \<Rightarrow> string) option \<Rightarrow> string option \<Rightarrow> export_error + export_file" where
  "downloadManagerDeploymentHistory hostZone now entries filters fmt resolveSource tz =
     (if df_source filters = SrcAll \<and> resolveSource = None then Inl SourceResolverMissing
      else
        let includeSource = (df_source filters = SrcAll);
            exportEntries = (if includeSource then map (with_source (the resolveSource)) entries else entries);
            metadata = buildMetadata hostZone now filters (length entries) tz;
            content = (case fmt of
                         Fmt_csv \<Rightarrow> BOM @ deployment_toCsv metadata exportEntries includeSource
                       | Fmt_json \<Rightarrow> json_stringify2
                           (JObj [(''metadata'', deployment_metadata_json metadata),
                                  (''entries'', JArr (map JObj exportEntries))]));
            speed = (if df_speed filters = SpAll then [] else ''-slow-'' @ speed_text (df_speed filters))
        in Inr \<lparr>ef_content = content,
                ef_filename = ''traefik-manager-deployments-'' @ source_text (df_source filters) @ ''-''
                  @ deployment_period filters @ ''-'' @ status_filter_text (df_status filters) @ speed @ ''-''
                  @ js_take 10 (dm_exported_at metadata) @ ''.'' @ format_text fmt,
                ef_mimeType = mime_type fmt\<rparr>)"

section \<open>Traefik update history (\<open>traefikUpdateHistoryExport.ts\<close>)\<close>

definition UPDATE_CSV_COLUMNS :: "string list" where
  "UPDATE_CSV_COLUMNS =
     [''request_id'', ''actor'', ''status'', ''from_version'', ''target_version'', ''requested_at'',
      ''started_at'', ''completed_at'', ''message'', ''backup_dir'', ''backup_created'',
      ''rollback_performed'', ''alert_request_status'', ''alert_channel'', ''alert_run_url'',
      ''alert_retry_request_id'', ''alert_retry_actor'', ''alert_retry_requested_at'',
      ''alert_run_status'', ''alert_run_conclusion'', ''alert_run_checked_at'', ''alert_run_error'',
      ''validations'']"

definition update_period :: "TraefikUpdateHistoryFilters \<Rightarrow> string" where
  "update_period filters =
     (if tf_dateFrom filters \<noteq> [] \<or> tf_dateTo filters \<noteq> []
      then or_else (Some (tf_dateFrom filters)) ''start'' @ ''-to-'' @ or_else (Some (tf_dateTo filters)) ''end''
      else if tf_period filters = PerAll then ''all-time'' else period_text (tf_period filters) @ ''d'')"

definition update_metadata_rows ::
    "TraefikUpdateHistoryFilters \<Rightarrow> nat \<Rightarrow> string \<Rightarrow> string \<Rightarrow> (string \<times> json) list" where
  "update_metadata_rows filters n tz exportedAt =
     [(''schema_version'', json_nat 5), (''exported_at'', JStr exportedAt), (''timezone'', JStr tz),
      (''result_count'', json_nat n), (''filter_actor'', null_or (js_trim (tf_actor filters))),
      (''filter_status'', JStr (update_status_text (tf_status filters))),
      (''filter_retry'', JStr (retry_text (tf_retry filters))),
      (''filter_period'', JStr (period_text (tf_period filters))),
      (''filter_date_from'', null_or (tf_dateFrom filters)), (''filter_date_to'', null_or (tf_dateTo filters))]"

definition update_metadata_json ::
    "TraefikUpdateHistoryFilters \<Rightarrow> nat \<Rightarrow> string \<Rightarrow> string \<Rightarrow> json" where
  "update_metadata_json filters n tz exportedAt =
     JObj [(''exported_at'', JStr exportedAt),
           (''filters'', JObj
              [(''actor'', null_or (js_trim (tf_actor filters))),
               (''date_from'', null_or (tf_dateFrom filters)), (''date_to'', null_or (tf_dateTo filters)),
               (''period'', JStr (period_text (tf_period filters))),
               (''retry'', JStr (retry_text (tf_retry filters))),
               (''status'', JStr (update_status_text (tf_status filters)))]),
           (''result_count'', json_nat n), (''schema_version'', json_nat 5), (''timezone'', JStr tz)]"

definition buildTraefikUpdateHistoryExport ::
    "string \<Rightarrow> json js_object list \<Rightarrow> TraefikUpdateHistoryFilters \<Rightarrow> ExportFormat \<Rightarrow> string option \<Rightarrow>
     string \<Rightarrow> string \<times> string" where
  "buildTraefikUpdateHistoryExport hostZone entries filters fmt tz exportedAt =
     (let zone = export_timezone hostZone tz;
          filename = ''traefik-updates-'' @ update_status_text (tf_status filters) @ ''-''
            @ update_period filters @ ''-'' @ js_take 10 exportedAt @ ''.'' @ format_text fmt
      in (case fmt of
            Fmt_json \<Rightarrow> json_stringify2
              (JObj [(''metadata'', update_metadata_json filters (length entries) zone exportedAt),
                     (''entries'', JArr (map JObj entries))])
          | Fmt_csv \<Rightarrow> BOM @ csv_document history_csvCell
              (update_metadata_rows filters (length entries) zone exportedAt) UPDATE_CSV_COLUMNS entries,
          filename))"

definition downloadTraefikUpdateHistory ::
    "string \<Rightarrow> int \<Rightarrow> json js_object list \<Rightarrow> TraefikUpdateHistoryFilters \<Rightarrow> ExportFormat \<Rightarrow> string option \<Rightarrow>
     export_file" where
  "downloadTraefikUpdateHistory hostZone now entries filters fmt tz =
     (let (content, filename) = buildTraefikUpdateHistoryExport hostZone entries filters fmt tz (to_iso now)
      in \<lparr>ef_content = content, ef_filename = filename, ef_mimeType = mime_type fmt\<rparr>)"

section \<open>Bottleneck events (\<open>managerDeploymentBottleneckEventExport.ts\<close>)\<close>

datatype BottleneckEventFilter = BeAll | BeAlerted | BeCleared
datatype BottleneckEventPeriod = BpAll | Bp1 | Bp7 | Bp30

fun bottleneck_event_text :: "BottleneckEventFilter \<Rightarrow> string" where
  "bottleneck_event_text BeAll = ''all''"
| "bottleneck_event_text BeAlerted = ''alerted''"
| "bottleneck_event_text BeCleared = ''cleared''"

fun bottleneck_period_text :: "BottleneckEventPeriod \<Rightarrow> string" where
  "bottleneck_period_text BpAll = ''all''"
| "bottleneck_period_text Bp1 = ''1''"
| "bottleneck_period_text Bp7 = ''7''"
| "bottleneck_period_text Bp30 = ''30''"

definition BOTTLENECK_CSV_COLUMNS :: "string list" where
  "BOTTLENECK_CSV_COLUMNS =
     [''event'', ''occurred_at'', ''threshold_ms'', ''required_consecutive_count'',
      ''current_consecutive_count'', ''latest_version'', ''slowest_stage'', ''slowest_ms'',
      ''alert_channel'', ''run_url'']"

definition bottleneck_metadata_rows ::
    "BottleneckEventFilter \<Rightarrow> BottleneckEventPeriod \<Rightarrow> nat \<Rightarrow> string \<Rightarrow> string \<Rightarrow> (string \<times> json) list" where
  "bottleneck_metadata_rows ev per n tz exportedAt =
     [(''schema_version'', json_nat 2), (''exported_at'', JStr exportedAt), (''timezone'', JStr tz),
      (''result_count'', json_nat n), (''filter_event'', JStr (bottleneck_event_text ev)),
      (''filter_period'', JStr (bottleneck_period_text per))]"

definition downloadManagerDeploymentBottleneckEvents ::
    "string \<Rightarrow> int \<Rightarrow> json js_object list \<Rightarrow> BottleneckEventFilter \<Rightarrow> BottleneckEventPeriod \<Rightarrow> ExportFormat \<Rightarrow>
     string option \<Rightarrow> export_file" where
  "downloadManagerDeploymentBottleneckEvents hostZone now events ev per fmt tz =
     (let exportedAt = to_iso now;
          zone = export_timezone hostZone tz;
          content = (case fmt of
            Fmt_csv \<Rightarrow> BOM @ csv_document bottleneck_csvCell
              (bottleneck_metadata_rows ev per (length events) zone exportedAt) BOTTLENECK_CSV_COLUMNS events
          | Fmt_json \<Rightarrow> json_stringify2
              (JObj [(''metadata'', JObj
                        [(''exported_at'', JStr exportedAt),
                         (''filters'', JObj [(''event'', JStr (bottleneck_event_text ev)),
                                             (''period'', JStr (bottleneck_period_text per))]),
                         (''result_count'', json_nat (length events)), (''schema_version'', json_nat 2),
                         (''timezone'', JStr zone)]),
                     (''events'', JArr (map JObj events))]))
      in \<lparr>ef_content = content,
          ef_filename = ''traefik-manager-bottleneck-events-'' @ bottleneck_event_text ev @ ''-''
            @ (if per = BpAll then ''all-time'' else bottleneck_period_text per @ ''d'') @ ''-''
            @ js_take 10 exportedAt @ ''.'' @ format_text fmt,
          ef_mimeType = mime_type fmt\<rparr>)"

section \<open>Smoke failure metadata (\<open>smokeFailureMetadataExport.ts\<close>)\<close>

definition SMOKE_CSV_COLUMNS :: "string list" where
  "SMOKE_CSV_COLUMNS = [''run_id'', ''failure_type'', ''captured_at'', ''check_name'', ''screen_path'', ''page_title'']"

definition SMOKE_CSV_FILTER_COLUMNS :: "string list" where
  "SMOKE_CSV_FILTER_COLUMNS =
     [''filter_type'', ''filter_period'', ''filter_start_date'', ''filter_end_date'', ''filter_timezone'',
      ''filter_query'', ''filter_sort'']"

datatype SmokeExportScope = ScopeAll | ScopeFiltered | ScopeSelected

fun scope_text :: "SmokeExportScope \<Rightarrow> string" where
  "scope_text ScopeAll = ''all''"
| "scope_text ScopeFiltered = ''filtered''"
| "scope_text ScopeSelected = ''selected''"

definition DEFAULT_SMOKE_FAILURE_METADATA_EXPORT_BASE_NAME :: string where
  "DEFAULT_SMOKE_FAILURE_METADATA_EXPORT_BASE_NAME = ''traefik-manager-smoke-failure-metadata''"

definition SMOKE_FAILURE_METADATA_EXPORT_BASE_NAME_LIMIT :: nat where
  "SMOKE_FAILURE_METADATA_EXPORT_BASE_NAME_LIMIT = 80"

record SmokeExportFilters =
  sx_end_date :: string
  sx_period :: SmokePeriodFilter
  sx_query :: string
  sx_sort :: SmokeSort
  sx_start_date :: string
  sx_type :: SmokeTypeFilter

definition smoke_filter_values :: "SmokeExportFilters option \<Rightarrow> string \<Rightarrow> string list" where
  "smoke_filter_values filters tz =
     (case filters of
        Some f \<Rightarrow> [smoke_type_text (sx_type f), smoke_period_text (sx_period f), sx_start_date f, sx_end_date f,
                   tz, sx_query f, smoke_sort_text (sx_sort f)]
      | None \<Rightarrow> [[], [], [], [], [], [], []])"

definition smoke_csv_rows :: "json js_object list \<Rightarrow> SmokeExportFilters option \<Rightarrow> string \<Rightarrow> json option list list" where
  "smoke_csv_rows entries filters tz =
     map (\<lambda>c. Some (JStr c)) (SMOKE_CSV_COLUMNS @ SMOKE_CSV_FILTER_COLUMNS)
     # map (\<lambda>e. map (\<lambda>c. obj_get c e) SMOKE_CSV_COLUMNS
                @ map (\<lambda>v. Some (JStr v)) (smoke_filter_values filters tz)) entries"

definition buildCsv :: "json js_object list \<Rightarrow> SmokeExportFilters option \<Rightarrow> string \<Rightarrow> string" where
  "buildCsv entries filters tz = smoke_document (smoke_csv_rows entries filters tz)"

text \<open>The code points of a string: a lead byte and its continuation bytes.\<close>

definition continuation :: "char \<Rightarrow> bool" where
  "continuation c = (0x80 \<le> (of_char c :: nat) \<and> (of_char c :: nat) < 0xC0)"

function code_points :: "string \<Rightarrow> string list" where
  "code_points [] = []"
| "code_points (c # s) = (c # takeWhile continuation s) # code_points (dropWhile continuation s)"
  by pat_completeness auto
termination
  by (relation "measure length") (auto simp: length_dropWhile_le less_Suc_eq_le)

text \<open>\<open>replace(/P+/g, r)\<close>: every maximal run of code points of the class becomes one \<open>r\<close>.\<close>

fun collapse_runs :: "(string \<Rightarrow> bool) \<Rightarrow> string \<Rightarrow> string list \<Rightarrow> string list" where
  "collapse_runs P r [] = []"
| "collapse_runs P r [x] = (if P x then [r] else [x])"
| "collapse_runs P r (x # y # xs) =
     (if P x then (if P y then collapse_runs P r (y # xs) else r # collapse_runs P r (y # xs))
      else x # collapse_runs P r (y # xs))"

definition edge_point :: "string \<Rightarrow> bool" where
  "edge_point p = (p = ''.'' \<or> p = ''_'' \<or> p = ''-'')"

text \<open>\<open>replace(/^[._-]+|[._-]+$/g, "")\<close>.\<close>

definition strip_edges :: "string list \<Rightarrow> string list" where
  "strip_edges ps = rev (dropWhile edge_point (rev (dropWhile edge_point ps)))"

definition normalizeSmokeFailureMetadataExportBaseName ::
    "(string \<Rightarrow> string) \<Rightarrow> (string \<Rightarrow> bool) \<Rightarrow> string option \<Rightarrow> string" where
  "normalizeSmokeFailureMetadataExportBaseName nfkc wordPoint value =
     (let raw = code_points (js_trim (nfkc (or_else value DEFAULT_SMOKE_FAILURE_METADATA_EXPORT_BASE_NAME)));
          words = collapse_runs (\<lambda>p. \<not> (wordPoint p \<or> edge_point p)) ''-'' raw;
          dots = collapse_runs (\<lambda>p. p = ''.'') ''.'' words;
          dashes = collapse_runs (\<lambda>p. p = ''-'') ''-'' dots;
          normalized = concat (strip_edges (take SMOKE_FAILURE_METADATA_EXPORT_BASE_NAME_LIMIT dashes))
      in or_else (Some normalized) DEFAULT_SMOKE_FAILURE_METADATA_EXPORT_BASE_NAME)"

definition resolveSmokeFailureMetadataExportFilenamePreference :: "string option \<Rightarrow> string" where
  "resolveSmokeFailureMetadataExportFilenamePreference value =
     (if \<not> truthy value then DEFAULT_SMOKE_FAILURE_METADATA_EXPORT_BASE_NAME
      else concat (take SMOKE_FAILURE_METADATA_EXPORT_BASE_NAME_LIMIT (code_points (the value))))"

definition smoke_filters_json :: "SmokeExportFilters \<Rightarrow> json" where
  "smoke_filters_json f =
     JObj [(''end_date'', JStr (sx_end_date f)), (''period'', JStr (smoke_period_text (sx_period f))),
           (''query'', JStr (sx_query f)), (''sort'', JStr (smoke_sort_text (sx_sort f))),
           (''start_date'', JStr (sx_start_date f)), (''type'', JStr (smoke_type_text (sx_type f)))]"

record SmokeExportOptions =
  so_exportedAt :: "string option"
  so_filenameBase :: "string option"
  so_filters :: "SmokeExportFilters option"
  so_format :: ExportFormat
  so_scope :: SmokeExportScope
  so_timezone :: "string option"

definition buildSmokeFailureMetadataExport ::
    "(string \<Rightarrow> string) \<Rightarrow> (string \<Rightarrow> bool) \<Rightarrow> string \<Rightarrow> int \<Rightarrow> json js_object list \<Rightarrow> SmokeExportOptions \<Rightarrow> export_file" where
  "buildSmokeFailureMetadataExport nfkc wordPoint hostZone now entries options =
     (let exportedAt = default_to (to_iso now) (so_exportedAt options);
          tz = or_else (so_timezone options) (or_else (Some hostZone) ''UTC'');
          content = (case so_format options of
            Fmt_csv \<Rightarrow> buildCsv entries (so_filters options) tz
          | Fmt_json \<Rightarrow> json_stringify2
              (JObj [(''metadata'', JObj
                        ([(''exported_at'', JStr exportedAt), (''result_count'', json_nat (length entries)),
                          (''schema_version'', json_nat 2), (''scope'', JStr (scope_text (so_scope options)))]
                         @ (case so_filters options of None \<Rightarrow> [] | Some f \<Rightarrow> [(''filters'', smoke_filters_json f)])
                         @ [(''timezone'', JStr tz)])),
                     (''entries'', JArr (map JObj entries))]))
      in \<lparr>ef_content = content,
          ef_filename = normalizeSmokeFailureMetadataExportBaseName nfkc wordPoint (so_filenameBase options) @ ''-''
            @ scope_text (so_scope options) @ ''-'' @ js_take 10 exportedAt @ ''.'' @ format_text (so_format options),
          ef_mimeType = mime_type (so_format options)\<rparr>)"

end
