(* ===== verification/Smoke_Stats.thy ===== *)
theory Smoke_Stats
  imports Smoke_Tracking Csv Ui_Text Ui_Text_Admin
begin

text \<open>
  The statistics of the smoke runs: when an artifact expires and which runs a filter shows
  (\<open>shared/lib/smokeArtifactExpiry.ts\<close>), the failure rate (\<open>smokeRunFailureRate.ts\<close>), whether
  the deployed revision was tested (\<open>smokeDeploymentRevision.ts\<close>), and the history of snapshots
  and local runs with its filters, durations and CSV files (\<open>smokeStatisticsHistory.ts\<close>).
  Instants are integers of milliseconds; a reference time that is not finite is \<open>None\<close>.
  Durations are doubles, and their arithmetic is rounded by \<open>fl\<close>.
\<close>

section \<open>Artifacts (\<open>smokeArtifactExpiry.ts\<close>)\<close>

definition EXPIRING_SOON_MS :: rat where "EXPIRING_SOON_MS = 72 * 60 * 60 * 1000"
definition MINUTE_MS :: rat where "MINUTE_MS = 60 * 1000"

datatype SmokeArtifactExpiryState = ArtActive | ArtExpiringSoon | ArtExpired
datatype SmokeArtifactFilter = AfAll | AfAvailable | AfExpiringSoon | AfExpired

definition expires_time :: "js_host \<Rightarrow> string option \<Rightarrow> int option" where
  "expires_time H expiresAt = (if truthy expiresAt then date_parse H (the expiresAt) else None)"

definition getSmokeArtifactExpiryState ::
    "js_host \<Rightarrow> string option \<Rightarrow> int option \<Rightarrow> SmokeArtifactExpiryState option" where
  "getSmokeArtifactExpiryState H expiresAt referenceTime =
     (case (expires_time H expiresAt, referenceTime) of
        (Some e, Some r) \<Rightarrow>
          let remainingMs = fl (of_int (e - r)) in
          if remainingMs \<le> 0 then Some ArtExpired
          else if remainingMs \<le> EXPIRING_SOON_MS then Some ArtExpiringSoon else Some ArtActive
      | _ \<Rightarrow> None)"

definition getSmokeArtifactRemainingLabel :: "js_host \<Rightarrow> string option \<Rightarrow> int option \<Rightarrow> string option" where
  "getSmokeArtifactRemainingLabel H expiresAt referenceTime =
     (case (expires_time H expiresAt, referenceTime) of
        (Some e, Some r) \<Rightarrow>
          let remainingMs = fl (of_int (e - r)) in
          if remainingMs \<le> 0 then None
          else
            let totalMinutes = \<lceil>fl (remainingMs / MINUTE_MS)\<rceil>;
                days = totalMinutes div (24 * 60);
                hours = (totalMinutes mod (24 * 60)) div 60;
                minutes = totalMinutes mod 60
            in if 0 < days then
                 let remainder = (if 0 < hours then show_int hours @ txt_hours
                                  else if 0 < minutes then show_int minutes @ txt_minutes else [])
                 in Some (show_int days @ txt_day @ (if remainder \<noteq> [] then CHR '' '' # remainder else []) @ txt_sk_left)
               else if 0 < hours then
                 Some (show_int hours @ txt_hours
                       @ (if 0 < minutes then CHR '' '' # show_int minutes @ txt_minutes else []) @ txt_sk_left)
               else Some (show_int minutes @ txt_minutes @ txt_sk_left)
      | _ \<Rightarrow> None)"

text \<open>The state of a run with an artifact.\<close>

definition run_state :: "js_host \<Rightarrow> int option \<Rightarrow> SmokeMonitoringRecentRun \<Rightarrow> SmokeArtifactExpiryState option" where
  "run_state H now run = getSmokeArtifactExpiryState H (rr_artifact_expires_at run) now"

definition matchesSmokeArtifactFilter ::
    "js_host \<Rightarrow> SmokeArtifactFilter \<Rightarrow> int option \<Rightarrow> SmokeMonitoringRecentRun \<Rightarrow> bool" where
  "matchesSmokeArtifactFilter H f now run =
     (let state = (if truthy (rr_artifact_url run) then run_state H now run else None) in
      case f of
        AfAll \<Rightarrow> True
      | AfAvailable \<Rightarrow> truthy (rr_artifact_url run) \<and> state \<noteq> Some ArtExpired
      | AfExpiringSoon \<Rightarrow> truthy (rr_artifact_url run) \<and> state = Some ArtExpiringSoon
      | AfExpired \<Rightarrow> truthy (rr_artifact_url run) \<and> state = Some ArtExpired)"

definition MAX_SAFE_INTEGER :: int where "MAX_SAFE_INTEGER = 2 ^ 53 - 1"

definition getArtifactSortValue :: "js_host \<Rightarrow> int option \<Rightarrow> SmokeMonitoringRecentRun \<Rightarrow> int" where
  "getArtifactSortValue H now run =
     (if \<not> truthy (rr_artifact_url run) then MAX_SAFE_INTEGER
      else if run_state H now run = Some ArtExpired then MAX_SAFE_INTEGER - 1
      else case expires_time H (rr_artifact_expires_at run) of
             Some e \<Rightarrow> e
           | None \<Rightarrow> MAX_SAFE_INTEGER - 2)"

definition filterAndPrioritizeSmokeArtifactRuns ::
    "js_host \<Rightarrow> SmokeMonitoringRecentRun list \<Rightarrow> SmokeArtifactFilter \<Rightarrow> int option \<Rightarrow> SmokeMonitoringRecentRun list" where
  "filterAndPrioritizeSmokeArtifactRuns H runs f now =
     js_sort (key_cmp (getArtifactSortValue H now)) (filter (matchesSmokeArtifactFilter H f now) runs)"

record SmokeArtifactFilterCounts =
  ct_all :: nat
  ct_available :: nat
  ct_expiring_soon :: nat
  ct_expired :: nat

text \<open>One round of the loop over the runs.\<close>

definition count_artifact ::
    "js_host \<Rightarrow> int option \<Rightarrow> SmokeMonitoringRecentRun \<Rightarrow> SmokeArtifactFilterCounts \<Rightarrow> SmokeArtifactFilterCounts" where
  "count_artifact H now run c =
     (if \<not> truthy (rr_artifact_url run) then c
      else
        let state = run_state H now run;
            c1 = (if state \<noteq> Some ArtExpired then c\<lparr>ct_available := ct_available c + 1\<rparr> else c);
            c2 = (if state = Some ArtExpiringSoon then c1\<lparr>ct_expiring_soon := ct_expiring_soon c1 + 1\<rparr> else c1)
        in if state = Some ArtExpired then c2\<lparr>ct_expired := ct_expired c2 + 1\<rparr> else c2)"

definition getSmokeArtifactFilterCounts ::
    "js_host \<Rightarrow> SmokeMonitoringRecentRun list \<Rightarrow> int option \<Rightarrow> SmokeArtifactFilterCounts" where
  "getSmokeArtifactFilterCounts H runs now =
     fold (count_artifact H now) runs
       \<lparr>ct_all = length runs, ct_available = 0, ct_expiring_soon = 0, ct_expired = 0\<rparr>"

section \<open>Failure rate (\<open>smokeRunFailureRate.ts\<close>)\<close>

definition DEFAULT_SMOKE_FAILURE_RATE_WINDOW_DAYS :: rat where "DEFAULT_SMOKE_FAILURE_RATE_WINDOW_DAYS = 7"
definition DEFAULT_SMOKE_FAILURE_RATE_THRESHOLD_PERCENT :: rat where "DEFAULT_SMOKE_FAILURE_RATE_THRESHOLD_PERCENT = 30"
definition DEFAULT_SMOKE_FAILURE_RATE_MIN_RUNS :: rat where "DEFAULT_SMOKE_FAILURE_RATE_MIN_RUNS = 3"

text \<open>The cutoff \<open>referenceTime - windowDays * 24 * 60 * 60 * 1000\<close>, rounded after every operation.\<close>

definition window_cutoff :: "int \<Rightarrow> rat \<Rightarrow> rat" where
  "window_cutoff referenceTime windowDays =
     fl (of_int referenceTime - fl (fl (fl (fl (windowDays * 24) * 60) * 60) * 1000))"

definition getCompletedSmokeRunsInWindow ::
    "js_host \<Rightarrow> SmokeMonitoringRecentRun list \<Rightarrow> int \<Rightarrow> rat \<Rightarrow> SmokeMonitoringRecentRun list" where
  "getCompletedSmokeRunsInWindow H runs referenceTime windowDays =
     filter (\<lambda>run. (rr_status run = RunSuccess \<or> rr_status run = RunFailure) \<and>
               (case date_parse H (rr_completed_at run) of
                  None \<Rightarrow> False
                | Some t \<Rightarrow> window_cutoff referenceTime windowDays \<le> of_int t)) runs"

record SmokeFailureRate =
  fr_failureCount :: nat
  fr_isAlert :: bool
  fr_percentage :: int
  fr_totalCount :: nat

text \<open>\<open>Math.round((failureCount / totalCount) * 100)\<close>.\<close>

definition failure_percentage :: "nat \<Rightarrow> nat \<Rightarrow> int" where
  "failure_percentage failures n =
     (if n \<noteq> 0 then math_round (fl (fl (of_nat failures / of_nat n) * 100)) else 0)"

definition getSmokeFailureRateFromCounts :: "nat \<Rightarrow> nat \<Rightarrow> rat \<Rightarrow> rat \<Rightarrow> SmokeFailureRate" where
  "getSmokeFailureRateFromCounts successCount failureCount thresholdPercent minRuns =
     (let totalCount = successCount + failureCount;
          percentage = failure_percentage failureCount totalCount
      in \<lparr>fr_failureCount = failureCount,
          fr_isAlert = (minRuns \<le> of_nat totalCount \<and> thresholdPercent \<le> of_int percentage),
          fr_percentage = percentage,
          fr_totalCount = totalCount\<rparr>)"

definition getSmokeRunFailureRate ::
    "js_host \<Rightarrow> SmokeMonitoringRecentRun list \<Rightarrow> int \<Rightarrow> rat \<Rightarrow> rat \<Rightarrow> rat \<Rightarrow> SmokeFailureRate" where
  "getSmokeRunFailureRate H runs referenceTime thresholdPercent minRuns windowDays =
     (let completed = getCompletedSmokeRunsInWindow H runs referenceTime windowDays;
          failureCount = length (filter (\<lambda>run. rr_status run = RunFailure) completed)
      in getSmokeFailureRateFromCounts (length completed - failureCount) failureCount thresholdPercent minRuns)"

section \<open>Tested revision (\<open>smokeDeploymentRevision.ts\<close>)\<close>

definition lower_hex :: "char \<Rightarrow> bool" where
  "lower_hex c = (is_digit c \<or> c \<in> set ''abcdef'')"

definition normalizeSmokeRevision :: "string option \<Rightarrow> string option" where
  "normalizeSmokeRevision value =
     (let revision = (case value of None \<Rightarrow> [] | Some v \<Rightarrow> str_lower (js_trim v))
      in if 7 \<le> length revision \<and> length revision \<le> 40 \<and> list_all lower_hex revision then Some revision else None)"

record SmokeDeploymentRevisionStatus =
  rv_deployedRevision :: string
  rv_matches :: bool
  rv_run :: SmokeMonitoringRecentRun
  rv_smokeRevision :: string

definition getSmokeDeploymentRevisionStatus ::
    "string option \<Rightarrow> SmokeMonitoringRecentRun list \<Rightarrow> SmokeDeploymentRevisionStatus option" where
  "getSmokeDeploymentRevisionStatus deployedRevision runs =
     (let deployed = normalizeSmokeRevision deployedRevision;
          run = find (\<lambda>item. rr_status item = RunSuccess \<and> normalizeSmokeRevision (rr_commit_sha item) \<noteq> None) runs;
          smoke = (case run of None \<Rightarrow> None | Some r \<Rightarrow> normalizeSmokeRevision (rr_commit_sha r))
      in case (deployed, run, smoke) of
           (Some d, Some r, Some s) \<Rightarrow>
             Some \<lparr>rv_deployedRevision = d, rv_matches = (prefix s d \<or> prefix d s), rv_run = r, rv_smokeRevision = s\<rparr>
         | _ \<Rightarrow> None)"

section \<open>Snapshots and local runs (\<open>smokeStatisticsHistory.ts\<close>)\<close>

record SmokeStatisticsSnapshot =
  sn_captured_on :: string
  sn_total_count :: nat
  sn_success_count :: nat
  sn_failure_count :: nat
  sn_cancelled_count :: nat
  sn_skipped_count :: nat
  sn_duration_run_count :: nat
  sn_total_duration_seconds :: rat
  sn_average_duration_seconds :: rat
  sn_estimated_runner_minutes :: rat

datatype SmokeLocalStatus = LocalSuccess | LocalFailure

fun local_status_text :: "SmokeLocalStatus \<Rightarrow> string" where
  "local_status_text LocalSuccess = ''success''"
| "local_status_text LocalFailure = ''failure''"

record SmokeLocalRun =
  lr_run_id :: nat
  lr_status :: SmokeLocalStatus
  lr_started_at :: "string option"
  lr_completed_at :: string
  lr_duration_seconds :: "rat option"
  lr_admin_checked :: bool

record SmokeRunStatistics =
  ss_window_days :: int
  ss_duration_run_count :: nat
  ss_average_duration_seconds :: rat

definition getFailureRate :: "SmokeStatisticsSnapshot \<Rightarrow> int" where
  "getFailureRate s = failure_percentage (sn_failure_count s) (sn_success_count s + sn_failure_count s)"

record SmokeSnapshotComparison =
  cp_averageDurationSeconds :: rat
  cp_estimatedRunnerMinutes :: rat
  cp_failureRatePercentagePoints :: int
  cp_previousCapturedOn :: string

fun getSmokeStatisticsSnapshotComparison :: "SmokeStatisticsSnapshot list \<Rightarrow> SmokeSnapshotComparison option" where
  "getSmokeStatisticsSnapshotComparison (latest # previous # _) =
     Some \<lparr>cp_averageDurationSeconds = fl (sn_average_duration_seconds latest - sn_average_duration_seconds previous),
           cp_estimatedRunnerMinutes = fl (sn_estimated_runner_minutes latest - sn_estimated_runner_minutes previous),
           cp_failureRatePercentagePoints = getFailureRate latest - getFailureRate previous,
           cp_previousCapturedOn = sn_captured_on previous\<rparr>"
| "getSmokeStatisticsSnapshotComparison _ = None"

definition SNAPSHOT_CSV_COLUMNS :: "string list" where
  "SNAPSHOT_CSV_COLUMNS =
     [''captured_on'', ''window_days'', ''total_count'', ''success_count'', ''failure_count'', ''cancelled_count'',
      ''skipped_count'', ''duration_run_count'', ''total_duration_seconds'', ''average_duration_seconds'',
      ''estimated_runner_minutes'', ''failure_rate_percent'']"

definition num_cell :: "rat \<Rightarrow> json option" where "num_cell q = Some (JNum (Num q))"

definition snapshot_row :: "SmokeStatisticsSnapshot \<Rightarrow> json option list" where
  "snapshot_row s =
     [Some (JStr (sn_captured_on s)), num_cell 30, num_cell (of_nat (sn_total_count s)),
      num_cell (of_nat (sn_success_count s)), num_cell (of_nat (sn_failure_count s)),
      num_cell (of_nat (sn_cancelled_count s)), num_cell (of_nat (sn_skipped_count s)),
      num_cell (of_nat (sn_duration_run_count s)), num_cell (sn_total_duration_seconds s),
      num_cell (sn_average_duration_seconds s), num_cell (sn_estimated_runner_minutes s),
      num_cell (of_int (getFailureRate s))]"

definition buildSmokeStatisticsSnapshotsCsv :: "SmokeStatisticsSnapshot list \<Rightarrow> string" where
  "buildSmokeStatisticsSnapshotsCsv snapshots =
     smoke_document (map (\<lambda>c. Some (JStr c)) SNAPSHOT_CSV_COLUMNS # map snapshot_row snapshots)"

text \<open>\<open>text.split(sep)[0]\<close> for a separator that is not empty.\<close>

fun before_sub :: "string \<Rightarrow> string \<Rightarrow> string" where
  "before_sub sep [] = []"
| "before_sub sep (c # s) = (if prefix sep (c # s) then [] else c # before_sub sep s)"

definition getSmokeRunUrl :: "string \<Rightarrow> nat \<Rightarrow> string" where
  "getSmokeRunUrl workflowUrl runId =
     (let repositoryUrl = before_sub ''/actions/workflows/'' workflowUrl
      in rev (dropWhile (\<lambda>c. c = CHR ''/'') (rev repositoryUrl)) @ ''/actions/runs/'' @ show_nat runId)"

datatype SmokeLocalRunStatusFilter = LsAll | LsStatus SmokeLocalStatus
datatype SmokeLocalRunAdminFilter = LaAll | LaAdmin | LaViewer

definition filterSmokeLocalRuns ::
    "SmokeLocalRun list \<Rightarrow> SmokeLocalRunStatusFilter \<Rightarrow> SmokeLocalRunAdminFilter \<Rightarrow> SmokeLocalRun list" where
  "filterSmokeLocalRuns localRuns statusFilter adminFilter =
     filter (\<lambda>run. (statusFilter = LsAll \<or> LsStatus (lr_status run) = statusFilter) \<and>
                   (adminFilter = LaAll \<or> lr_admin_checked run = (adminFilter = LaAdmin))) localRuns"

definition parseSmokeLocalRunStatusFilter :: "string option \<Rightarrow> SmokeLocalRunStatusFilter" where
  "parseSmokeLocalRunStatusFilter value =
     (if value = Some ''success'' then LsStatus LocalSuccess
      else if value = Some ''failure'' then LsStatus LocalFailure else LsAll)"

definition parseSmokeLocalRunAdminFilter :: "string option \<Rightarrow> SmokeLocalRunAdminFilter" where
  "parseSmokeLocalRunAdminFilter value =
     (if value = Some ''admin'' then LaAdmin else if value = Some ''viewer'' then LaViewer else LaAll)"

definition isMeasuredSmokeLocalRun :: "SmokeLocalRun \<Rightarrow> bool" where
  "isMeasuredSmokeLocalRun run = (lr_duration_seconds run \<noteq> None)"

definition slower_cmp :: "SmokeLocalRun \<Rightarrow> SmokeLocalRun \<Rightarrow> int" where
  "slower_cmp l r = rat_cmp (the (lr_duration_seconds r)) (the (lr_duration_seconds l))"

record SmokeLocalRunDurationSummary =
  dsum_durationDeltaSeconds :: "rat option"
  dsum_latestDurationSeconds :: "rat option"
  dsum_latestRunId :: "nat option"
  dsum_slowestRuns :: "SmokeLocalRun list"

definition head_of :: "'a list \<Rightarrow> 'a option" where
  "head_of xs = (case xs of [] \<Rightarrow> None | x # _ \<Rightarrow> Some x)"

definition getSmokeLocalRunDurationSummary :: "SmokeLocalRun list \<Rightarrow> SmokeLocalRunDurationSummary" where
  "getSmokeLocalRunDurationSummary localRuns =
     (let latestRun = head_of localRuns;
          previous = find isMeasuredSmokeLocalRun (drop 1 localRuns);
          latestDuration = (case latestRun of None \<Rightarrow> None | Some r \<Rightarrow> lr_duration_seconds r)
      in \<lparr>dsum_durationDeltaSeconds =
            (case (latestDuration, previous) of
               (Some d, Some p) \<Rightarrow> Some (fl (d - the (lr_duration_seconds p)))
             | _ \<Rightarrow> None),
          dsum_latestDurationSeconds = latestDuration,
          dsum_latestRunId = map_option lr_run_id latestRun,
          dsum_slowestRuns = take 3 (js_sort slower_cmp (filter isMeasuredSmokeLocalRun localRuns))\<rparr>)"

definition getMeasuredAverage :: "SmokeRunStatistics option \<Rightarrow> rat option" where
  "getMeasuredAverage statistic =
     (case statistic of
        None \<Rightarrow> None
      | Some s \<Rightarrow> if 0 < ss_duration_run_count s then Some (ss_average_duration_seconds s) else None)"

record SmokeDurationTrend =
  tn_averageDeltaSeconds :: "rat option"
  tn_isDelayed :: bool
  tn_latestDeltaSeconds :: "rat option"
  tn_latestRun :: "SmokeLocalRun option"
  tn_sevenDayAverageSeconds :: "rat option"
  tn_sevenDayRunCount :: nat
  tn_thirtyDayAverageSeconds :: "rat option"
  tn_thirtyDayRunCount :: nat

definition run_count :: "SmokeRunStatistics option \<Rightarrow> nat" where
  "run_count s = (case s of None \<Rightarrow> 0 | Some x \<Rightarrow> ss_duration_run_count x)"

definition getSmokeDurationTrend :: "SmokeRunStatistics list \<Rightarrow> SmokeLocalRun list \<Rightarrow> SmokeDurationTrend" where
  "getSmokeDurationTrend statistics localRuns =
     (let sevenDay = find (\<lambda>item. ss_window_days item = 7) statistics;
          thirtyDay = find (\<lambda>item. ss_window_days item = 30) statistics;
          sevenDayAverage = getMeasuredAverage sevenDay;
          thirtyDayAverage = getMeasuredAverage thirtyDay;
          latestRun = find isMeasuredSmokeLocalRun localRuns;
          latestDelta = (case (latestRun, sevenDayAverage) of
                           (Some r, Some a) \<Rightarrow> Some (fl (the (lr_duration_seconds r) - a))
                         | _ \<Rightarrow> None);
          delayThreshold = map_option (\<lambda>a. max 30 (math_round (fl (a * (1 / 2))))) sevenDayAverage
      in \<lparr>tn_averageDeltaSeconds =
            (case (sevenDayAverage, thirtyDayAverage) of
               (Some a, Some b) \<Rightarrow> Some (fl (a - b))
             | _ \<Rightarrow> None),
          tn_isDelayed =
            (case (latestDelta, delayThreshold) of
               (Some d, Some t) \<Rightarrow> 3 \<le> run_count sevenDay \<and> of_int t \<le> d
             | _ \<Rightarrow> False),
          tn_latestDeltaSeconds = latestDelta,
          tn_latestRun = latestRun,
          tn_sevenDayAverageSeconds = sevenDayAverage,
          tn_sevenDayRunCount = run_count sevenDay,
          tn_thirtyDayAverageSeconds = thirtyDayAverage,
          tn_thirtyDayRunCount = run_count thirtyDay\<rparr>)"

definition LOCAL_RUN_CSV_COLUMNS :: "string list" where
  "LOCAL_RUN_CSV_COLUMNS =
     [''run_id'', ''status'', ''started_at'', ''completed_at'', ''duration_seconds'', ''admin_checked'', ''run_url'']"

definition local_run_row :: "string \<Rightarrow> SmokeLocalRun \<Rightarrow> json option list" where
  "local_run_row workflowUrl run =
     [num_cell (of_nat (lr_run_id run)), Some (JStr (local_status_text (lr_status run))),
      Some (case lr_started_at run of None \<Rightarrow> JNull | Some t \<Rightarrow> JStr t), Some (JStr (lr_completed_at run)),
      Some (case lr_duration_seconds run of None \<Rightarrow> JNull | Some q \<Rightarrow> JNum (Num q)),
      Some (JBool (lr_admin_checked run)), Some (JStr (getSmokeRunUrl workflowUrl (lr_run_id run)))]"

definition buildSmokeLocalRunsCsv :: "SmokeLocalRun list \<Rightarrow> string \<Rightarrow> string" where
  "buildSmokeLocalRunsCsv localRuns workflowUrl =
     smoke_document (map (\<lambda>c. Some (JStr c)) LOCAL_RUN_CSV_COLUMNS # map (local_run_row workflowUrl) localRuns)"

definition downloadSmokeStatisticsSnapshots :: "int \<Rightarrow> SmokeStatisticsSnapshot list \<Rightarrow> string \<times> string" where
  "downloadSmokeStatisticsSnapshots now snapshots =
     (buildSmokeStatisticsSnapshotsCsv snapshots,
      ''traefik-manager-smoke-statistics-'' @ js_take 10 (to_iso now) @ ''.csv'')"

definition downloadSmokeLocalRuns :: "int \<Rightarrow> SmokeLocalRun list \<Rightarrow> string \<Rightarrow> string \<times> string" where
  "downloadSmokeLocalRuns now localRuns workflowUrl =
     (buildSmokeLocalRunsCsv localRuns workflowUrl,
      ''traefik-manager-smoke-local-runs-'' @ js_take 10 (to_iso now) @ ''.csv'')"

end
