(* ===== verification/Exports_Correct.thy ===== *)
theory Exports_Correct
  imports Exports Smoke_Stats
begin

text \<open>
  The exported files: a CSV reader gets back the table that was exported, a JSON reader the
  object; no field of a CSV file starts a spreadsheet formula; the name of a file holds no path
  separator.
\<close>

section \<open>CSV\<close>

lemma columns_plain:
  "list_all (\<lambda>c. c \<noteq> [] \<and> list_all csv_plain c) DEPLOYMENT_CSV_COLUMNS"
  "list_all (\<lambda>c. c \<noteq> [] \<and> list_all csv_plain c) UPDATE_CSV_COLUMNS"
  "list_all (\<lambda>c. c \<noteq> [] \<and> list_all csv_plain c) BOTTLENECK_CSV_COLUMNS"
  "''source'' \<noteq> [] \<and> list_all csv_plain ''source''"
  by code_simp+

lemma metadata_plain:
  "list_all (\<lambda>p. list_all csv_plain (fst p)) (deployment_metadata_rows m)"
  "list_all (\<lambda>p. list_all csv_plain (fst p)) (update_metadata_rows f n z t)"
  "list_all (\<lambda>p. list_all csv_plain (fst p)) (bottleneck_metadata_rows e b n z t)"
proof -
  have "list_all (list_all csv_plain)
     [''schema_version'', ''exported_at'', ''timezone'', ''result_count'', ''filter_source'', ''filter_archive_sample'',
      ''filter_bottleneck_threshold_ms'', ''filter_speed'', ''filter_period'', ''filter_date_from'', ''filter_date_to'',
      ''filter_status'', ''filter_failure_stage'', ''filter_search'', ''filter_actor'', ''filter_retry'', ''filter_event'']"
    by code_simp
  then show "list_all (\<lambda>p. list_all csv_plain (fst p)) (deployment_metadata_rows m)"
    "list_all (\<lambda>p. list_all csv_plain (fst p)) (update_metadata_rows f n z t)"
    "list_all (\<lambda>p. list_all csv_plain (fst p)) (bottleneck_metadata_rows e b n z t)"
    by (simp_all only: deployment_metadata_rows_def update_metadata_rows_def bottleneck_metadata_rows_def
        list.pred_inject fst_conv simp_thms)
qed

definition deployment_columns :: "bool \<Rightarrow> string list" where
  "deployment_columns b = (if b then ''source'' # DEPLOYMENT_CSV_COLUMNS else DEPLOYMENT_CSV_COLUMNS)"

lemma deployment_columns_ok:
  "deployment_columns b \<noteq> []" "list_all (\<lambda>c. c \<noteq> [] \<and> list_all csv_plain c) (deployment_columns b)"
  "UPDATE_CSV_COLUMNS \<noteq> []" "BOTTLENECK_CSV_COLUMNS \<noteq> []"
  using columns_plain
  by (simp_all add: deployment_columns_def) (simp_all add: DEPLOYMENT_CSV_COLUMNS_def UPDATE_CSV_COLUMNS_def BOTTLENECK_CSV_COLUMNS_def)

lemma deployment_csv_reads:
  "csv_rows (deployment_toCsv m es b) = history.table (deployment_metadata_rows m) (deployment_columns b) es"
  unfolding deployment_toCsv_def Let_def deployment_columns_def [symmetric]
  by (rule history.document_reads [OF metadata_plain(1) deployment_columns_ok(1,2)])

lemma update_csv_reads:
  "csv_rows (csv_document history_csvCell (update_metadata_rows f n z t) UPDATE_CSV_COLUMNS es) =
   history.table (update_metadata_rows f n z t) UPDATE_CSV_COLUMNS es"
  by (rule history.document_reads [OF metadata_plain(2) deployment_columns_ok(3) columns_plain(2)])

lemma bottleneck_csv_reads:
  "csv_rows (csv_document bottleneck_csvCell (bottleneck_metadata_rows e b n z t) BOTTLENECK_CSV_COLUMNS es) =
   bottleneck.table (bottleneck_metadata_rows e b n z t) BOTTLENECK_CSV_COLUMNS es"
  by (rule bottleneck.document_reads [OF metadata_plain(3) deployment_columns_ok(4) columns_plain(3)])

lemma length_BOM [simp]: "drop (length BOM) (BOM @ s) = s"
  by simp

lemma smoke_document_reads:
  assumes "rows \<noteq> []" "list_all (\<lambda>r. r \<noteq> []) rows"
  shows "csv_rows (drop (length BOM) (smoke_document rows)) = map (map smoke_text) rows"
proof -
  have "list_all2 row_of (map (map smoke_text) rows) (map (map toCsvCell) rows)"
    using assms(2) smoke.cells_read by (simp add: list_all2_map1 list_all2_map2 list_all2_same list_all_iff)
  moreover have "str_join '','' (last (map (map toCsvCell) rows)) \<noteq> []"
    using assms by (cases "last rows" rule: remdups_adj.cases)
      (auto simp: last_map list_all_iff smoke.cell_quoted csv_quote_def dest: last_in_set)
  ultimately show ?thesis
    using csv_rows_table [of "map (map smoke_text) rows" "map (map toCsvCell) rows" CRLF] assms(1)
    by (simp add: smoke_document_def comp_def)
qed

lemma smoke_rows_ne: "smoke_csv_rows es f z \<noteq> [] \<and> list_all (\<lambda>r. r \<noteq> []) (smoke_csv_rows es f z)"
  by (auto simp: smoke_csv_rows_def list_all_iff SMOKE_CSV_COLUMNS_def)

text \<open>C32. The CSV file of the deployment history reads back as the table that was exported: the
  metadata block with the filters, the column names, and one record per entry with the text of
  every column, whatever quotes, commas and line ends the values hold.\<close>

theorem deployment_export_csv_roundtrip:
  assumes "downloadManagerDeploymentHistory hostZone now es filters Fmt_csv resolve tz = Inr file"
  shows "csv_rows (drop (length BOM) (ef_content file)) =
    history.table (deployment_metadata_rows (buildMetadata hostZone now filters (length es) tz))
      (deployment_columns (df_source filters = SrcAll))
      (if df_source filters = SrcAll then map (with_source (the resolve)) es else es)"
  using assms
  by (auto simp: downloadManagerDeploymentHistory_def Let_def deployment_csv_reads split: if_splits)

lemma deployment_export_csv_roundtrip_witness:
  "csv_rows (drop (length BOM) (ef_content (projr (downloadManagerDeploymentHistory ''Asia/Seoul'' 0
      [[(''status'', JStr ''a\"b,c'')]]
      \<lparr>df_archiveSample = AsAll, df_bottleneckThreshold = Th60000, df_dateFrom = [], df_dateTo = [],
       df_period = PerAll, df_search = [], df_source = SrcCurrent, df_speed = SpAll, df_stage = FsAll,
       df_status = SfAll\<rparr> Fmt_csv None None)))) =
   history.table (deployment_metadata_rows (buildMetadata ''Asia/Seoul'' 0
      \<lparr>df_archiveSample = AsAll, df_bottleneckThreshold = Th60000, df_dateFrom = [], df_dateTo = [],
       df_period = PerAll, df_search = [], df_source = SrcCurrent, df_speed = SpAll, df_stage = FsAll,
       df_status = SfAll\<rparr> 1 None))
     (deployment_columns False) [[(''status'', JStr ''a\"b,c'')]]"
proof -
  let ?f = "\<lparr>df_archiveSample = AsAll, df_bottleneckThreshold = Th60000, df_dateFrom = [], df_dateTo = [],
       df_period = PerAll, df_search = [], df_source = SrcCurrent, df_speed = SpAll, df_stage = FsAll,
       df_status = SfAll\<rparr>"
  let ?r = "downloadManagerDeploymentHistory ''Asia/Seoul'' 0 [[(''status'', JStr ''a\"b,c'')]] ?f Fmt_csv None None"
  have "?r = Inr (projr ?r)" by (simp add: downloadManagerDeploymentHistory_def Let_def)
  from deployment_export_csv_roundtrip [OF this] show ?thesis by simp
qed

section \<open>No formulas\<close>

text \<open>No field of the rows begins with one of the characters.\<close>

definition no_start :: "char list \<Rightarrow> string list list \<Rightarrow> bool" where
  "no_start cs rows = list_all (list_all (\<lambda>f. f = [] \<or> hd f \<notin> set cs)) rows"

lemma labels_safe:
  "list_all (safe_start (FORMULA_STARTS @ [TAB, CR, LF])) (deployment_columns b)" "list_all (safe_start (FORMULA_STARTS @ [TAB, CR, LF])) UPDATE_CSV_COLUMNS"
  "list_all (safe_start (FORMULA_STARTS @ [TAB, CR, LF])) BOTTLENECK_CSV_COLUMNS"
  "safe_start (FORMULA_STARTS @ [TAB, CR, LF]) ''metadata''" "safe_start (FORMULA_STARTS @ [TAB, CR, LF]) ''value''"
  "list_all (\<lambda>p. safe_start (FORMULA_STARTS @ [TAB, CR, LF]) (fst p)) (deployment_metadata_rows m)"
  "list_all (\<lambda>p. safe_start (FORMULA_STARTS @ [TAB, CR, LF]) (fst p)) (update_metadata_rows f n z t)"
  "list_all (\<lambda>p. safe_start (FORMULA_STARTS @ [TAB, CR, LF]) (fst p)) (bottleneck_metadata_rows e p n z t)"
  by (simp_all add: safe_start_def deployment_columns_def DEPLOYMENT_CSV_COLUMNS_def UPDATE_CSV_COLUMNS_def
      BOTTLENECK_CSV_COLUMNS_def deployment_metadata_rows_def update_metadata_rows_def
      bottleneck_metadata_rows_def FORMULA_STARTS_def TAB_def CR_def LF_def)

lemma tables_no_start:
  "list_all (list_all (safe_start (FORMULA_STARTS @ [TAB, CR, LF]))) t \<Longrightarrow>
   no_start (''=+-@'' @ [CHR 0x09, CHR 0x0D, CHR 0x0A]) t"
  unfolding no_start_def list_all_iff safe_start_def FORMULA_STARTS_def TAB_def CR_def LF_def by simp

lemma smoke_no_start:
  "rows \<noteq> [] \<Longrightarrow> list_all (\<lambda>r. r \<noteq> []) rows \<Longrightarrow>
   no_start ''=+-@'' (csv_rows (drop (length BOM) (smoke_document rows)))"
  using smoke.tx_guarded
  by (auto simp: smoke_document_reads no_start_def list_all_iff safe_start_def FORMULA_STARTS_def)

lemma statistics_rows_ne:
  "list_all (\<lambda>r. r \<noteq> []) (map (\<lambda>c. Some (JStr c)) SNAPSHOT_CSV_COLUMNS # map snapshot_row snapshots)"
  "list_all (\<lambda>r. r \<noteq> []) (map (\<lambda>c. Some (JStr c)) LOCAL_RUN_CSV_COLUMNS # map (local_run_row workflowUrl) localRuns)"
  by (auto simp: list_all_iff SNAPSHOT_CSV_COLUMNS_def snapshot_row_def LOCAL_RUN_CSV_COLUMNS_def local_run_row_def)

text \<open>C14. Read by a CSV reader, none of the six CSV exports has a field that begins with \<open>=\<close>, \<open>+\<close>,
  \<open>-\<close> or \<open>@\<close>, whatever the exported values are.  The exports of the deployment history, the
  Traefik update history and the bottleneck events have no field either that begins with a tab, a
  carriage return or a line feed; the three smoke exports (failure metadata, statistics snapshots,
  local runs) do not guard against those.\<close>

theorem exports_no_formula:
  "let starts = ''=+-@''; wide = starts @ [CHR 0x09, CHR 0x0D, CHR 0x0A] in
   no_start wide (csv_rows (deployment_toCsv m es b)) \<and>
   no_start wide (csv_rows (drop (length BOM) (fst (buildTraefikUpdateHistoryExport hz es uf Fmt_csv tz stamp)))) \<and>
   no_start wide (csv_rows (drop (length BOM)
     (ef_content (downloadManagerDeploymentBottleneckEvents hz now es ev per Fmt_csv tz)))) \<and>
   no_start starts (csv_rows (drop (length BOM) (buildCsv es sf zone))) \<and>
   no_start starts (csv_rows (drop (length BOM) (buildSmokeStatisticsSnapshotsCsv snapshots))) \<and>
   no_start starts (csv_rows (drop (length BOM) (buildSmokeLocalRunsCsv localRuns workflowUrl)))"
  unfolding Let_def
proof (intro conjI)
  show "no_start (''=+-@'' @ [CHR 0x09, CHR 0x0D, CHR 0x0A]) (csv_rows (deployment_toCsv m es b))"
    unfolding deployment_csv_reads by (intro tables_no_start history.table_safe labels_safe)
  show "no_start (''=+-@'' @ [CHR 0x09, CHR 0x0D, CHR 0x0A])
      (csv_rows (drop (length BOM) (fst (buildTraefikUpdateHistoryExport hz es uf Fmt_csv tz stamp))))"
    unfolding buildTraefikUpdateHistoryExport_def Let_def ExportFormat.case fst_conv length_BOM update_csv_reads
    by (intro tables_no_start history.table_safe labels_safe)
  show "no_start (''=+-@'' @ [CHR 0x09, CHR 0x0D, CHR 0x0A])
      (csv_rows (drop (length BOM) (ef_content (downloadManagerDeploymentBottleneckEvents hz now es ev per Fmt_csv tz))))"
    unfolding downloadManagerDeploymentBottleneckEvents_def Let_def ExportFormat.case export_file.select_convs
      length_BOM bottleneck_csv_reads
    by (intro tables_no_start bottleneck.table_safe labels_safe)
  show "no_start ''=+-@'' (csv_rows (drop (length BOM) (buildCsv es sf zone)))"
    unfolding buildCsv_def using smoke_rows_ne by (intro smoke_no_start) blast+
  show "no_start ''=+-@'' (csv_rows (drop (length BOM) (buildSmokeStatisticsSnapshotsCsv snapshots)))"
    unfolding buildSmokeStatisticsSnapshotsCsv_def by (intro smoke_no_start statistics_rows_ne) simp
  show "no_start ''=+-@'' (csv_rows (drop (length BOM) (buildSmokeLocalRunsCsv localRuns workflowUrl)))"
    unfolding buildSmokeLocalRunsCsv_def by (intro smoke_no_start statistics_rows_ne) simp
qed

section \<open>JSON\<close>

lemma json_wf_nat [simp]: "n \<le> 2 ^ 53 \<Longrightarrow> json_wf (json_nat n)"
  by (auto simp: json_nat_def intro!: exI [of _ n])

lemma json_wf_null_or [simp]: "json_wf (null_or s)"
  by (simp add: null_or_def)

text \<open>The JSON file of the update history reads back as the exported object: the filters, the
  number of entries, the zone and the entries themselves.\<close>

theorem update_export_json_roundtrip:
  assumes "list_all (\<lambda>e. json_wf (JObj e)) es" "length es \<le> 2 ^ 53"
  shows "json_parse (fst (buildTraefikUpdateHistoryExport hz es uf Fmt_json tz stamp)) =
    Some (JObj [(''metadata'', update_metadata_json uf (length es) (export_timezone hz tz) stamp),
                (''entries'', JArr (map JObj es))])"
proof -
  let ?v = "JObj [(''metadata'', update_metadata_json uf (length es) (export_timezone hz tz) stamp),
                (''entries'', JArr (map JObj es))]"
  have m: "json_wf (update_metadata_json uf (length es) (export_timezone hz tz) stamp)"
    using assms(2) by (simp add: update_metadata_json_def obj_entries_def index_key_def is_digit_def)
  have "list_all json_wf (map JObj es)" using assms(1) by (simp add: list_all_iff)
  then have "json_wf ?v" using m by (simp add: obj_entries_def index_key_def is_digit_def)
  then have "json_parse (json_text ''  '' [] ?v) = Some ?v"
    by (rule json_roundtrip) (simp add: json_space_def)
  then show ?thesis by (simp add: buildTraefikUpdateHistoryExport_def Let_def json_stringify2_def)
qed

section \<open>File names\<close>

lemma collapse_runs_set: "set (collapse_runs P r xs) \<subseteq> insert r {x \<in> set xs. \<not> P x}"
  by (induction P r xs rule: collapse_runs.induct) auto

text \<open>The code points that survive the clean-up of a name.\<close>

lemma cleaned_points:
  fixes w raw
  defines "out \<equiv> collapse_runs (\<lambda>p. p = ''-'') ''-'' (collapse_runs (\<lambda>p. p = ''.'') ''.''
      (collapse_runs (\<lambda>p. \<not> (w p \<or> edge_point p)) ''-'' raw))"
  shows "p \<in> set (take n out) \<Longrightarrow> w p \<or> edge_point p"
proof -
  assume "p \<in> set (take n out)"
  then have "p \<in> set out" by (rule in_set_takeD)
  then show ?thesis
    using collapse_runs_set [of "\<lambda>p. p = ''-''" "''-''"] collapse_runs_set [of "\<lambda>p. p = ''.''" "''.''"]
      collapse_runs_set [of "\<lambda>p. \<not> (w p \<or> edge_point p)" "''-''" raw]
    unfolding out_def edge_point_def by blast
qed

lemma strip_edges_subset: "p \<in> set (strip_edges ps) \<Longrightarrow> p \<in> set ps"
  by (auto simp: strip_edges_def dest!: set_dropWhileD)

lemma strip_edges_ends:
  assumes "strip_edges ps \<noteq> []"
  shows "\<not> edge_point (hd (strip_edges ps))" "\<not> edge_point (last (strip_edges ps))"
proof -
  let ?a = "dropWhile edge_point ps"
  let ?b = "dropWhile edge_point (rev ?a)"
  have b: "?b \<noteq> []" using assms by (simp add: strip_edges_def)
  then show "\<not> edge_point (last (strip_edges ps))"
    using hd_dropWhile [of edge_point "rev ?a"] by (auto simp: strip_edges_def last_rev dropWhile_eq_Nil_conv)
  have "suffix ?b (rev ?a)" by (rule suffix_dropWhile)
  then obtain c where "rev ?a = c @ ?b" by (auto simp: suffix_def)
  then have a: "?a = rev ?b @ rev c" by (metis rev_append rev_rev_ident)
  then have "hd (rev ?b) = hd ?a" using b by (metis Nil_is_rev_conv hd_append2)
  moreover have "?a \<noteq> []" using a b by (metis Nil_is_append_conv Nil_is_rev_conv)
  ultimately show "\<not> edge_point (hd (strip_edges ps))"
    using hd_dropWhile [of edge_point ps] by (simp add: strip_edges_def)
qed

text \<open>
  What the Unicode classes of letters and numbers promise: a code point of theirs is not empty
  and holds no separator, dot, underscore or hyphen.
\<close>

definition word_class :: "(string \<Rightarrow> bool) \<Rightarrow> bool" where
  "word_class w = (\<forall>p. w p \<longrightarrow> p \<noteq> [] \<and> list_all (\<lambda>c. c \<notin> set ''/.-_'' \<and> c \<noteq> CHR 0x5C) p)"

definition file_name_ok :: "string \<Rightarrow> bool" where
  "file_name_ok s =
     (s \<noteq> [] \<and> CHR ''/'' \<notin> set s \<and> CHR 0x5C \<notin> set s \<and> hd s \<notin> set ''.-_'' \<and> last s \<notin> set ''.-_'')"

lemma concat_ends: "ps \<noteq> [] \<Longrightarrow> list_all (\<lambda>p. p \<noteq> []) ps \<Longrightarrow>
    hd (concat ps) = hd (hd ps) \<and> last (concat ps) = last (last ps) \<and> concat ps \<noteq> []"
proof (induction ps)
  case (Cons p ps)
  then show ?case by (cases "ps = []") auto
qed simp

text \<open>Whatever base name the user types, the name of the exported file is not empty, holds no
  path separator, and neither starts nor ends with a dot, a hyphen or an underscore.\<close>

theorem export_base_name_ok:
  assumes "word_class w"
  shows "file_name_ok (normalizeSmokeFailureMetadataExportBaseName nfkc w value)"
proof -
  let ?d = "DEFAULT_SMOKE_FAILURE_METADATA_EXPORT_BASE_NAME"
  define raw where "raw = code_points (js_trim (nfkc (or_else value ?d)))"
  define ps where "ps = strip_edges (take SMOKE_FAILURE_METADATA_EXPORT_BASE_NAME_LIMIT
      (collapse_runs (\<lambda>p. p = ''-'') ''-'' (collapse_runs (\<lambda>p. p = ''.'') ''.''
        (collapse_runs (\<lambda>p. \<not> (w p \<or> edge_point p)) ''-'' raw))))"
  have n: "normalizeSmokeFailureMetadataExportBaseName nfkc w value = or_else (Some (concat ps)) ?d"
    by (simp add: normalizeSmokeFailureMetadataExportBaseName_def Let_def ps_def raw_def)
  have d: "file_name_ok ?d" by code_simp
  have pt: "w p \<or> edge_point p" if "p \<in> set ps" for p
    using that cleaned_points strip_edges_subset unfolding ps_def by blast
  have ne: "list_all (\<lambda>p. p \<noteq> []) ps"
    using pt assms by (auto simp: list_all_iff word_class_def edge_point_def)
  have "CHR ''/'' \<notin> set p \<and> CHR 0x5C \<notin> set p" if "p \<in> set ps" for p
    using pt [OF that] assms by (auto simp: word_class_def edge_point_def list_all_iff)
  then have sep: "CHR ''/'' \<notin> set (concat ps) \<and> CHR 0x5C \<notin> set (concat ps)" by auto
  show ?thesis
  proof (cases "ps = []")
    case False
    have e: "\<not> edge_point (hd ps)" "\<not> edge_point (last ps)"
      using False strip_edges_ends unfolding ps_def by auto
    have "w (hd ps)" using pt [of "hd ps"] e(1) False by simp
    moreover have "w (last ps)" using pt [of "last ps"] e(2) False by simp
    ultimately have "hd (hd ps) \<notin> set ''.-_''" "last (last ps) \<notin> set ''.-_''"
      using assms by (auto simp: word_class_def list_all_iff)
    then have "file_name_ok (concat ps)"
      using concat_ends [OF False ne] sep by (simp add: file_name_ok_def)
    then show ?thesis using concat_ends [OF False ne] by (simp add: n)
  qed (simp add: n d)
qed

definition ascii_word :: "string \<Rightarrow> bool" where
  "ascii_word p = (\<exists>c. p = [c] \<and> (is_digit c \<or> c \<in> set ''abcdefghijklmnopqrstuvwxyz''))"

end
