(* ===== verification/Smoke_Stats_Correct.thy ===== *)
theory Smoke_Stats_Correct
  imports Smoke_Stats Exports_Correct
begin

text \<open>
  The numbers of the smoke pages: the counts on the artifact filters are the lengths of the lists
  they show; the list puts the artifacts that expire first at the top and the missing ones at the
  bottom; percentages are percentages; the slowest runs are the slowest; the CSV files read back.
\<close>

section \<open>Artifacts\<close>

lemma artifact_counts_fold:
  "fold (count_artifact H now) runs c =
   c\<lparr>ct_available := ct_available c + length (filter (matchesSmokeArtifactFilter H AfAvailable now) runs),
     ct_expiring_soon := ct_expiring_soon c + length (filter (matchesSmokeArtifactFilter H AfExpiringSoon now) runs),
     ct_expired := ct_expired c + length (filter (matchesSmokeArtifactFilter H AfExpired now) runs)\<rparr>"
  by (induction runs arbitrary: c) (auto simp: count_artifact_def matchesSmokeArtifactFilter_def Let_def)

text \<open>The number on each artifact filter is the number of runs that the filter shows.\<close>

theorem artifact_counts_correct:
  "getSmokeArtifactFilterCounts H runs now =
   \<lparr>ct_all = length (filterAndPrioritizeSmokeArtifactRuns H runs AfAll now),
    ct_available = length (filterAndPrioritizeSmokeArtifactRuns H runs AfAvailable now),
    ct_expiring_soon = length (filterAndPrioritizeSmokeArtifactRuns H runs AfExpiringSoon now),
    ct_expired = length (filterAndPrioritizeSmokeArtifactRuns H runs AfExpired now)\<rparr>"
proof -
  have "filter (matchesSmokeArtifactFilter H AfAll now) runs = runs"
    by (simp add: matchesSmokeArtifactFilter_def Let_def)
  then show ?thesis
    by (simp add: getSmokeArtifactFilterCounts_def artifact_counts_fold filterAndPrioritizeSmokeArtifactRuns_def)
qed

text \<open>The place of a run: an artifact with a date, one without, an expired one, none.\<close>

definition artifact_rank :: "js_host \<Rightarrow> int option \<Rightarrow> SmokeMonitoringRecentRun \<Rightarrow> nat" where
  "artifact_rank H now run =
     (if \<not> truthy (rr_artifact_url run) then 3
      else if run_state H now run = Some ArtExpired then 2
      else if expires_time H (rr_artifact_expires_at run) = None then 1 else 0)"

definition before_run :: "js_host \<Rightarrow> int option \<Rightarrow> SmokeMonitoringRecentRun \<Rightarrow> SmokeMonitoringRecentRun \<Rightarrow> bool" where
  "before_run H now a b =
     (artifact_rank H now a < artifact_rank H now b \<or>
      artifact_rank H now a = artifact_rank H now b \<and>
      (artifact_rank H now a = 0 \<longrightarrow>
       the (expires_time H (rr_artifact_expires_at a)) \<le> the (expires_time H (rr_artifact_expires_at b))))"

lemma sort_value_before:
  assumes "getArtifactSortValue H now a \<le> getArtifactSortValue H now b"
  shows "before_run H now a b"
proof -
  have r: "expires_time H x = Some e \<Longrightarrow> e < MAX_SAFE_INTEGER - 2" for x e
    using date_parse_range by (fastforce simp: expires_time_def MAX_SAFE_INTEGER_def max_time_def split: if_splits)
  show ?thesis
    using assms r [of "rr_artifact_expires_at a"] r [of "rr_artifact_expires_at b"]
    by (auto simp: before_run_def artifact_rank_def getArtifactSortValue_def split: if_splits option.splits)
qed

text \<open>The list shows exactly the runs that match the filter.  Runs whose artifact has a date
  come first, the one that expires next at the top; then those without a date, then the expired
  ones, then the runs without an artifact.\<close>

theorem artifact_runs_prioritized:
  "mset (filterAndPrioritizeSmokeArtifactRuns H runs f now) =
     mset (filter (matchesSmokeArtifactFilter H f now) runs) \<and>
   sorted_wrt (before_run H now) (filterAndPrioritizeSmokeArtifactRuns H runs f now)"
proof -
  have "sorted_wrt (\<lambda>a b. key_cmp (getArtifactSortValue H now) a b \<le> 0)
      (filterAndPrioritizeSmokeArtifactRuns H runs f now)"
    unfolding filterAndPrioritizeSmokeArtifactRuns_def by (rule key.js_sort_sorted)
  then have "sorted_wrt (before_run H now) (filterAndPrioritizeSmokeArtifactRuns H runs f now)"
    by (rule sorted_wrt_mono_rel [rotated]) (simp add: key_cmp_def sort_value_before)
  then show ?thesis by (simp add: filterAndPrioritizeSmokeArtifactRuns_def)
qed

section \<open>Failure rate\<close>

lemma percentage_range: "f \<le> n \<Longrightarrow> 0 \<le> failure_percentage f n \<and> failure_percentage f n \<le> 100"
proof (cases "n = 0")
  case False
  assume "f \<le> n"
  then have "0 \<le> (of_nat f / of_nat n :: rat)" "of_nat f / of_nat n \<le> (1 :: rat)"
    using False by (simp_all add: divide_le_eq)
  then have "0 \<le> fl (of_nat f / of_nat n) \<and> fl (of_nat f / of_nat n) \<le> 1" by (rule dbl.rnd_unit)
  then have "0 \<le> fl (of_nat f / of_nat n) * 100" "fl (of_nat f / of_nat n) * 100 \<le> 100" by auto
  then have "of_int 0 \<le> fl (fl (of_nat f / of_nat n) * 100)" "fl (fl (of_nat f / of_nat n) * 100) \<le> of_int 100"
    by (intro dbl.rnd_ge_int dbl.rnd_le_int; simp)+
  then show ?thesis
    using False math_round_ge_int math_round_le_int unfolding failure_percentage_def by presburger
qed (simp add: failure_percentage_def)

lemma percentage_extremes: "0 < n \<Longrightarrow> failure_percentage 0 n = 0 \<and> failure_percentage n n = 100"
proof -
  assume "0 < n"
  have "fl 1 = 1" "fl 100 = 100" using fl_int [of 1] fl_int [of 100] by simp_all
  then show ?thesis using \<open>0 < n\<close> math_round_int [of 100] math_round_int [of 0]
    by (simp add: failure_percentage_def fl_def [of 0])
qed

lemma failure_rate_facts:
  fixes H runs now th mn days
  defines "r \<equiv> getSmokeRunFailureRate H runs now th mn days"
    and "done_runs \<equiv> getCompletedSmokeRunsInWindow H runs now days"
  shows "0 \<le> fr_percentage r \<and> fr_percentage r \<le> 100 \<and>
    fr_totalCount r = length done_runs \<and>
    fr_failureCount r = length (filter (\<lambda>x. rr_status x = RunFailure) done_runs) \<and>
    (if fr_failureCount r = 0 then fr_percentage r = 0
     else if fr_failureCount r = fr_totalCount r then fr_percentage r = 100 else True) \<and>
    fr_isAlert r = (mn \<le> of_nat (fr_totalCount r) \<and> th \<le> of_int (fr_percentage r))"
proof -
  let ?f = "length (filter (\<lambda>x. rr_status x = RunFailure) done_runs)"
  have le: "?f \<le> length done_runs" by simp
  have f: "r = getSmokeFailureRateFromCounts (length done_runs - ?f) ?f th mn"
    by (simp add: r_def done_runs_def getSmokeRunFailureRate_def Let_def)
  have t: "length done_runs - ?f + ?f = length done_runs" using le by simp
  have p: "failure_percentage 0 (length done_runs) = 0"
    using percentage_extremes [of "length done_runs"] by (cases "length done_runs = 0") (auto simp: failure_percentage_def)
  have q: "0 < length done_runs \<Longrightarrow> failure_percentage (length done_runs) (length done_runs) = 100"
    using percentage_extremes by blast
  have pos: "?f \<noteq> 0 \<Longrightarrow> 0 < length done_runs" using le by linarith
  show ?thesis unfolding f getSmokeFailureRateFromCounts_def Let_def t
    using percentage_range [OF le] p q pos by (cases "?f = 0"; cases "?f = length done_runs") simp_all
qed

text \<open>The failure rate of the runs of the window is a percentage: it lies between 0 and 100, is 0
  without a failure and 100 without a success, and the alert is raised exactly when enough runs
  completed and the percentage reaches the threshold.\<close>

theorem failure_rate_bounds:
  "let r = getSmokeRunFailureRate H runs now th mn days;
       done_runs = getCompletedSmokeRunsInWindow H runs now days
   in 0 \<le> fr_percentage r \<and> fr_percentage r \<le> 100 \<and>
    fr_totalCount r = length done_runs \<and>
    fr_failureCount r = length (filter (\<lambda>x. rr_status x = RunFailure) done_runs) \<and>
    (if fr_failureCount r = 0 then fr_percentage r = 0
     else if fr_failureCount r = fr_totalCount r then fr_percentage r = 100 else True) \<and>
    fr_isAlert r = (mn \<le> of_nat (fr_totalCount r) \<and> th \<le> of_int (fr_percentage r))"
  unfolding Let_def by (rule failure_rate_facts)

section \<open>Durations\<close>

interpretation slower: js_comparator slower_cmp
  by unfold_locales (auto simp: slower_cmp_def rat_cmp_def split: if_splits)

lemma slower_cmp_le:
  "slower_cmp a b \<le> 0 \<longleftrightarrow> the (lr_duration_seconds b) \<le> the (lr_duration_seconds a)"
  by (auto simp: slower_cmp_def rat_cmp_def)

lemma sorted_take_drop: "sorted_wrt P xs \<Longrightarrow> x \<in> set (take n xs) \<Longrightarrow> y \<in> set (drop n xs) \<Longrightarrow> P x y"
  using append_take_drop_id [of n xs] sorted_wrt_append by metis

lemma slowest_runs_split:
  fixes runs defines "slow \<equiv> dsum_slowestRuns (getSmokeLocalRunDurationSummary runs)"
  shows "\<exists>others. mset slow + mset others = mset (filter isMeasuredSmokeLocalRun runs) \<and>
    length slow = min 3 (length (filter isMeasuredSmokeLocalRun runs)) \<and>
    sorted_wrt (\<lambda>a b. the (lr_duration_seconds b) \<le> the (lr_duration_seconds a)) (slow @ others)"
proof (intro exI conjI)
  let ?s = "js_sort slower_cmp (filter isMeasuredSmokeLocalRun runs)"
  have slow: "slow = take 3 ?s" by (simp add: slow_def getSmokeLocalRunDurationSummary_def Let_def)
  have "mset slow + mset (drop 3 ?s) = mset ?s" unfolding slow by (metis append_take_drop_id mset_append)
  then show "mset slow + mset (drop 3 ?s) = mset (filter isMeasuredSmokeLocalRun runs)" by simp
  show "length slow = min 3 (length (filter isMeasuredSmokeLocalRun runs))" by (simp add: slow)
  show "sorted_wrt (\<lambda>a b. the (lr_duration_seconds b) \<le> the (lr_duration_seconds a)) (slow @ drop 3 ?s)"
    using slower.js_sort_sorted [of "filter isMeasuredSmokeLocalRun runs"]
    by (simp add: slow slower_cmp_le)
qed

text \<open>The slowest runs are at most three measured runs, slowest first, and no measured run that
  is left out took longer than one of them.\<close>

theorem slowest_runs_correct:
  "\<exists>others.
    let slow = dsum_slowestRuns (getSmokeLocalRunDurationSummary runs) in
    mset slow + mset others = mset (filter isMeasuredSmokeLocalRun runs) \<and>
    length slow = min 3 (length (filter isMeasuredSmokeLocalRun runs)) \<and>
    sorted_wrt (\<lambda>a b. the (lr_duration_seconds b) \<le> the (lr_duration_seconds a)) (slow @ others)"
  unfolding Let_def by (rule slowest_runs_split)

section \<open>Files and revisions\<close>

lemma snapshots_csv_reads:
  "csv_rows (drop (length BOM) (buildSmokeStatisticsSnapshotsCsv ss)) =
   map (map smoke_text) (map (\<lambda>c. Some (JStr c)) SNAPSHOT_CSV_COLUMNS # map snapshot_row ss)"
  unfolding buildSmokeStatisticsSnapshotsCsv_def
  by (rule smoke_document_reads) (auto simp: list_all_iff SNAPSHOT_CSV_COLUMNS_def snapshot_row_def)

lemma local_runs_csv_reads:
  "csv_rows (drop (length BOM) (buildSmokeLocalRunsCsv rs u)) =
   map (map smoke_text) (map (\<lambda>c. Some (JStr c)) LOCAL_RUN_CSV_COLUMNS # map (local_run_row u) rs)"
  unfolding buildSmokeLocalRunsCsv_def
  by (rule smoke_document_reads) (auto simp: list_all_iff LOCAL_RUN_CSV_COLUMNS_def local_run_row_def)

text \<open>The revision that is compared is the one of the first successful run that has one.\<close>

lemma revision_status_run:
  assumes "getSmokeDeploymentRevisionStatus d runs = Some st"
  shows "\<exists>pre post. runs = pre @ rv_run st # post \<and> rr_status (rv_run st) = RunSuccess \<and>
    normalizeSmokeRevision (rr_commit_sha (rv_run st)) = Some (rv_smokeRevision st) \<and>
    (\<forall>x\<in>set pre. rr_status x \<noteq> RunSuccess \<or> normalizeSmokeRevision (rr_commit_sha x) = None)"
proof -
  let ?P = "\<lambda>item. rr_status item = RunSuccess \<and> normalizeSmokeRevision (rr_commit_sha item) \<noteq> None"
  obtain r where r: "find ?P runs = Some r" "rv_run st = r"
    "normalizeSmokeRevision (rr_commit_sha r) = Some (rv_smokeRevision st)"
    using assms by (auto simp: getSmokeDeploymentRevisionStatus_def Let_def split: option.splits)
  have "\<exists>pre post. runs = pre @ r # post \<and> ?P r \<and> (\<forall>x\<in>set pre. \<not> ?P x)"
    using r(1)
  proof (induction runs)
    case (Cons x xs)
    then show ?case
    proof (cases "?P x")
      case False
      then obtain pre post where "xs = pre @ r # post" "?P r" "\<forall>x\<in>set pre. \<not> ?P x" using Cons by auto
      then show ?thesis using False by (intro exI [of _ "x # pre"] exI [of _ post]) auto
    qed (intro exI [of _ "[]"] exI [of _ xs], simp)
  qed simp
  then show ?thesis using r by auto
qed

end
