(* ===== verification/Smoke_Run_Filters.thy ===== *)
theory Smoke_Run_Filters
  imports JS_Text Url_Params JS_Json Audit_Correct
begin

text \<open>
  The filters of the recent smoke runs
  (\<open>features/settings/components/useSmokeRecentRunFilters.ts\<close>): the state of the hook, the
  effect that restores it from the query string, and the handlers, each of which changes the state
  and the query string together.

  The invariant is that the query string stands for the filters shown: reading it again, as a
  reload does, gives the applied filters back.  The handler of the cancellation reason keeps it
  only under the status \<open>cancelled\<close>; \<open>SmokeRecentRunHistory.tsx\<close> disables the control elsewhere.
\<close>

section \<open>State\<close>

datatype SmokeHistoryStatus = HsAll | HsSuccess | HsFailure | HsCancelled
datatype SmokeFailureTypeFilter = FtAll | FtLogin | FtExternalApi | FtVisualRegression | FtUnclassified
datatype SmokeCancellationReasonFilter = CrAll | CrTimeout | CrSuperseded | CrManual
datatype SmokeHistoryDays = Days7 | Days30

fun history_status_text :: "SmokeHistoryStatus \<Rightarrow> string" where
  "history_status_text HsAll = ''all''"
| "history_status_text HsSuccess = ''success''"
| "history_status_text HsFailure = ''failure''"
| "history_status_text HsCancelled = ''cancelled''"

fun type_filter_text :: "SmokeFailureTypeFilter \<Rightarrow> string" where
  "type_filter_text FtAll = ''all''"
| "type_filter_text FtLogin = ''login''"
| "type_filter_text FtExternalApi = ''external_api''"
| "type_filter_text FtVisualRegression = ''visual_regression''"
| "type_filter_text FtUnclassified = ''unclassified''"

fun reason_text :: "SmokeCancellationReasonFilter \<Rightarrow> string" where
  "reason_text CrAll = ''all''"
| "reason_text CrTimeout = ''timeout''"
| "reason_text CrSuperseded = ''superseded''"
| "reason_text CrManual = ''manual_or_unknown''"

fun history_days_text :: "SmokeHistoryDays \<Rightarrow> string" where
  "history_days_text Days7 = ''7''"
| "history_days_text Days30 = ''30''"

record run_filters =
  rf_search :: string
  rf_appliedSearch :: string
  rf_runStatus :: SmokeHistoryStatus
  rf_failureType :: SmokeFailureTypeFilter
  rf_cancellationReason :: SmokeCancellationReasonFilter
  rf_days :: SmokeHistoryDays
  rf_page :: int
  rf_filtersRestored :: bool

text \<open>The hook and the browser location.\<close>

record run_page =
  rp_filters :: run_filters
  rp_location :: location

definition initial_run_filters :: "SmokeHistoryDays option \<Rightarrow> int option \<Rightarrow> run_filters" where
  "initial_run_filters historyDays historyPage =
     \<lparr>rf_search = [], rf_appliedSearch = [], rf_runStatus = HsAll, rf_failureType = FtAll,
      rf_cancellationReason = CrAll, rf_days = default_to Days30 historyDays,
      rf_page = default_to 1 historyPage, rf_filtersRestored = False\<rparr>"

section \<open>The query string\<close>

record history_filters =
  hf_search :: string
  hf_status :: SmokeHistoryStatus
  hf_failureType :: SmokeFailureTypeFilter
  hf_cancellationReason :: SmokeCancellationReasonFilter
  hf_days :: SmokeHistoryDays
  hf_page :: int

definition readHistoryFilters :: "location \<Rightarrow> history_filters" where
  "readHistoryFilters l =
     (let params = location_params l;
          status = params_get ''smoke_status'' params;
          reason = params_get ''smoke_cancel_reason'' params;
          failureType = params_get ''smoke_failure_type'' params;
          days = number_of (params_get ''smoke_days'' params);
          page = number_of (params_get ''smoke_page'' params);
          normalizedStatus =
            (if status = Some ''success'' then HsSuccess else if status = Some ''failure'' then HsFailure
             else if status = Some ''cancelled'' then HsCancelled else HsAll)
      in \<lparr>hf_search = js_take 100 (or_else (params_get ''smoke_search'' params) []),
          hf_status = normalizedStatus,
          hf_failureType =
            (if normalizedStatus = HsFailure
             then read_enum type_filter_text [FtLogin, FtExternalApi, FtVisualRegression, FtUnclassified] FtAll failureType
             else FtAll),
          hf_cancellationReason =
            (if normalizedStatus = HsCancelled
             then read_enum reason_text [CrTimeout, CrSuperseded, CrManual] CrAll reason
             else CrAll),
          hf_days = (if days = Num 7 then Days7 else Days30),
          hf_page = (case num_int page of Some n \<Rightarrow> if 0 < n then n else 1 | None \<Rightarrow> 1)\<rparr>)"

text \<open>
  \<open>replaceHistoryUrl\<close>: a value that is null or empty deletes its parameter.  The address keeps
  its path and fragment.
\<close>

definition replaceHistoryUrl :: "(string \<times> string option) list \<Rightarrow> location \<Rightarrow> location" where
  "replaceHistoryUrl updates l =
     l\<lparr>loc_search := search_string
        (fold write_param (map (\<lambda>(k, v). (k, or_else v [], [])) updates) (location_params l))\<rparr>"

section \<open>The hook\<close>

text \<open>The effect that runs once after the first render.\<close>

definition restoreFilters :: "run_page \<Rightarrow> run_page" where
  "restoreFilters s =
     (let f = readHistoryFilters (rp_location s)
      in s\<lparr>rp_filters :=
           \<lparr>rf_search = hf_search f, rf_appliedSearch = hf_search f, rf_runStatus = hf_status f,
            rf_failureType = hf_failureType f, rf_cancellationReason = hf_cancellationReason f,
            rf_days = hf_days f, rf_page = hf_page f, rf_filtersRestored = True\<rparr>\<rparr>)"

definition update_page :: "(run_filters \<Rightarrow> run_filters) \<Rightarrow> (string \<times> string option) list \<Rightarrow> run_page \<Rightarrow> run_page" where
  "update_page f us s = s\<lparr>rp_filters := f (rp_filters s), rp_location := replaceHistoryUrl us (rp_location s)\<rparr>"

definition setSearch :: "string \<Rightarrow> run_page \<Rightarrow> run_page" where
  "setSearch v s = s\<lparr>rp_filters := (rp_filters s)\<lparr>rf_search := v\<rparr>\<rparr>"

text \<open>\<open>value || null\<close> and \<open>value === "all" ? null : value\<close>.\<close>

definition null_if :: "bool \<Rightarrow> string \<Rightarrow> string option" where
  "null_if c v = (if c then None else Some v)"

definition applySearch :: "run_page \<Rightarrow> run_page" where
  "applySearch s =
     (let v = js_trim (rf_search (rp_filters s))
      in update_page (\<lambda>f. f\<lparr>rf_search := v, rf_appliedSearch := v, rf_page := 1\<rparr>)
           [(''smoke_page'', None), (''smoke_search'', or_null (Some v))] s)"

definition changeStatus :: "SmokeHistoryStatus \<Rightarrow> run_page \<Rightarrow> run_page" where
  "changeStatus value s =
     (let v = js_trim (rf_search (rp_filters s)); ft = rf_failureType (rp_filters s)
      in update_page
           (\<lambda>f. f\<lparr>rf_search := v, rf_appliedSearch := v, rf_runStatus := value,
                  rf_failureType := (if value \<noteq> HsFailure then FtAll else rf_failureType f),
                  rf_cancellationReason := CrAll, rf_page := 1\<rparr>)
           [(''smoke_page'', None), (''smoke_search'', or_null (Some v)),
            (''smoke_status'', null_if (value = HsAll) (history_status_text value)),
            (''smoke_cancel_reason'', None),
            (''smoke_failure_type'', null_if (\<not> (value = HsFailure \<and> ft \<noteq> FtAll)) (type_filter_text ft))] s)"

definition changeFailureType :: "SmokeFailureTypeFilter \<Rightarrow> run_page \<Rightarrow> run_page" where
  "changeFailureType value s =
     (let v = js_trim (rf_search (rp_filters s));
          nextStatus = (if value = FtAll then rf_runStatus (rp_filters s) else HsFailure);
          reason = rf_cancellationReason (rp_filters s)
      in update_page
           (\<lambda>f. f\<lparr>rf_search := v, rf_appliedSearch := v, rf_runStatus := nextStatus, rf_failureType := value,
                  rf_cancellationReason := (if nextStatus \<noteq> HsCancelled then CrAll else rf_cancellationReason f),
                  rf_page := 1\<rparr>)
           [(''smoke_cancel_reason'', null_if (\<not> (nextStatus = HsCancelled \<and> reason \<noteq> CrAll)) (reason_text reason)),
            (''smoke_failure_type'', null_if (value = FtAll) (type_filter_text value)),
            (''smoke_page'', None), (''smoke_search'', or_null (Some v)),
            (''smoke_status'', null_if (nextStatus = HsAll) (history_status_text nextStatus))] s)"

definition changeCancellationReason :: "SmokeCancellationReasonFilter \<Rightarrow> run_page \<Rightarrow> run_page" where
  "changeCancellationReason value s =
     (let v = js_trim (rf_search (rp_filters s))
      in update_page
           (\<lambda>f. f\<lparr>rf_search := v, rf_appliedSearch := v, rf_cancellationReason := value, rf_page := 1\<rparr>)
           [(''smoke_cancel_reason'', null_if (value = CrAll) (reason_text value)),
            (''smoke_page'', None), (''smoke_search'', or_null (Some v))] s)"

definition changeDays :: "SmokeHistoryDays \<Rightarrow> run_page \<Rightarrow> run_page" where
  "changeDays value s =
     (let v = js_trim (rf_search (rp_filters s))
      in update_page (\<lambda>f. f\<lparr>rf_search := v, rf_appliedSearch := v, rf_days := value, rf_page := 1\<rparr>)
           [(''smoke_days'', null_if (value = Days30) (history_days_text value)),
            (''smoke_page'', None), (''smoke_search'', or_null (Some v))] s)"

definition changePage :: "int \<Rightarrow> run_page \<Rightarrow> run_page" where
  "changePage value s =
     update_page (\<lambda>f. f\<lparr>rf_page := value\<rparr>)
       [(''smoke_page'', null_if (value = 1) (number_text (of_int value)))] s"

definition resetFilters :: "run_page \<Rightarrow> run_page" where
  "resetFilters s =
     update_page
       (\<lambda>f. f\<lparr>rf_search := [], rf_appliedSearch := [], rf_runStatus := HsAll, rf_failureType := FtAll,
              rf_cancellationReason := CrAll, rf_days := Days30, rf_page := 1\<rparr>)
       [(''smoke_days'', None), (''smoke_page'', None), (''smoke_search'', None), (''smoke_status'', None),
        (''smoke_cancel_reason'', None), (''smoke_failure_type'', None)] s"

definition filtersAreDefault :: "run_filters \<Rightarrow> bool" where
  "filtersAreDefault f =
     (rf_search f = [] \<and> rf_appliedSearch f = [] \<and> rf_runStatus f = HsAll \<and> rf_failureType f = FtAll \<and>
      rf_cancellationReason f = CrAll \<and> rf_days f = Days30 \<and> rf_page f = 1)"

section \<open>The query string stands for the filters\<close>

definition shown :: "run_filters \<Rightarrow> history_filters" where
  "shown f =
     \<lparr>hf_search = rf_appliedSearch f, hf_status = rf_runStatus f, hf_failureType = rf_failureType f,
      hf_cancellationReason = rf_cancellationReason f, hf_days = rf_days f, hf_page = rf_page f\<rparr>"

abbreviation run_get :: "location \<Rightarrow> string \<Rightarrow> string option" where
  "run_get l k \<equiv> params_get k (location_params l)"

lemma history_get:
  assumes "distinct (map fst us)"
  shows "run_get (replaceHistoryUrl us l) k = (case map_of us k of None \<Rightarrow> run_get l k | Some v \<Rightarrow> or_null v)"
proof -
  let ?us = "map (\<lambda>(k, v). (k, or_else v [], [])) us"
  have d: "distinct (map fst ?us)" using assms by (simp add: comp_def case_prod_unfold)
  have ps: "location_params (replaceHistoryUrl us l) = usp.store_all ?us (location_params l)"
    by (simp add: replaceHistoryUrl_def location_params_def write_param_usp)
  show ?thesis
  proof (cases "map_of us k")
    case None
    then have "k \<notin> fst ` set ?us" by (force simp: map_of_eq_None_iff)
    then have "params_get k (usp.store_all ?us (location_params l)) = run_get l k" by (rule usp.get_store_all_other)
    then show ?thesis using None ps by simp
  next
    case (Some v)
    then have "(k, or_else v [], []) \<in> set ?us" by (force dest: map_of_SomeD)
    then have "params_get k (usp.store_all ?us (location_params l)) = (if or_else v [] = [] then None else Some (or_else v []))"
      by (rule usp.get_store_all [OF d])
    then show ?thesis using Some ps by (cases v) (simp_all add: or_null_def)
  qed
qed

lemma read_type:
  "t \<noteq> FtAll \<Longrightarrow>
   read_enum type_filter_text [FtLogin, FtExternalApi, FtVisualRegression, FtUnclassified] FtAll (Some (type_filter_text t)) = t"
  by (cases t) (simp_all add: read_enum_def)

lemma read_reason:
  "r \<noteq> CrAll \<Longrightarrow> read_enum reason_text [CrTimeout, CrSuperseded, CrManual] CrAll (Some (reason_text r)) = r"
  by (cases r) (simp_all add: read_enum_def)

lemma read_enum_None [simp]: "read_enum spell vals d None = d"
  by (simp add: read_enum_def)

text \<open>The status that a parameter stands for.\<close>

definition status_of :: "string option \<Rightarrow> SmokeHistoryStatus" where
  "status_of v =
     (if v = Some ''success'' then HsSuccess else if v = Some ''failure'' then HsFailure
      else if v = Some ''cancelled'' then HsCancelled else HsAll)"

lemma status_of_text: "status_of (null_if (st = HsAll) (history_status_text st)) = st"
  by (cases st) (simp_all add: status_of_def null_if_def)

definition days_of :: "string option \<Rightarrow> SmokeHistoryDays" where
  "days_of v = (if number_of v = Num 7 then Days7 else Days30)"

lemma days_of_text: "days_of (null_if (d = Days30) (history_days_text d)) = d"
proof -
  have "js_number ''7'' = Num (of_nat (read_nat ''7''))"
    by (rule js_number_digits) (simp_all add: is_digit_def read_nat_def digit_val_def)
  then have "js_number ''7'' = Num 7" by (simp add: read_nat_def digit_val_def)
  then show ?thesis by (cases d) (simp_all add: days_of_def number_of_def null_if_def)
qed

lemma read_simps:
  "hf_search (readHistoryFilters l) = js_take 100 (or_else (run_get l ''smoke_search'') [])"
  "hf_status (readHistoryFilters l) = status_of (run_get l ''smoke_status'')"
  "hf_failureType (readHistoryFilters l) =
     (if status_of (run_get l ''smoke_status'') = HsFailure
      then read_enum type_filter_text [FtLogin, FtExternalApi, FtVisualRegression, FtUnclassified] FtAll
             (run_get l ''smoke_failure_type'') else FtAll)"
  "hf_cancellationReason (readHistoryFilters l) =
     (if status_of (run_get l ''smoke_status'') = HsCancelled
      then read_enum reason_text [CrTimeout, CrSuperseded, CrManual] CrAll (run_get l ''smoke_cancel_reason'') else CrAll)"
  "hf_days (readHistoryFilters l) = days_of (run_get l ''smoke_days'')"
  "hf_page (readHistoryFilters l) = parseAuditPage (run_get l ''smoke_page'')"
  by (simp_all add: readHistoryFilters_def Let_def status_of_def days_of_def parseAuditPage_def split del: if_split)

lemma or_null_null_if [simp]: "s \<noteq> [] \<Longrightarrow> or_null (null_if c s) = null_if c s"
  by (simp add: null_if_def)

lemma texts_ne [simp]:
  "history_status_text a \<noteq> []" "type_filter_text b \<noteq> []" "reason_text c \<noteq> []" "history_days_text d \<noteq> []"
proof -
  show "history_status_text a \<noteq> []" by (cases a) simp_all
  show "type_filter_text b \<noteq> []" by (cases b) simp_all
  show "reason_text c \<noteq> []" by (cases c) simp_all
  show "history_days_text d \<noteq> []" by (cases d) simp_all
qed

lemma or_null_idem [simp]: "or_null (or_null v) = or_null v"
  by (auto simp: or_null_def split: option.splits)

lemma or_else_or_null [simp]: "or_else (or_null (Some s)) [] = s"
  by (simp add: or_null_def)

section \<open>Sessions\<close>

text \<open>The search field takes at most 100 code units.\<close>

inductive run_reach :: "run_page \<Rightarrow> bool" where
  restored: "run_reach (restoreFilters s)"
| typed: "run_reach s \<Longrightarrow> utf16_length v \<le> 100 \<Longrightarrow> run_reach (setSearch v s)"
| searched: "run_reach s \<Longrightarrow> run_reach (applySearch s)"
| status: "run_reach s \<Longrightarrow> run_reach (changeStatus st s)"
| failure_type: "run_reach s \<Longrightarrow> run_reach (changeFailureType t s)"
| reason: "run_reach s \<Longrightarrow> rf_runStatus (rp_filters s) = HsCancelled \<Longrightarrow> run_reach (changeCancellationReason r s)"
| days: "run_reach s \<Longrightarrow> run_reach (changeDays d s)"
| page: "run_reach s \<Longrightarrow> page_number n \<Longrightarrow> run_reach (changePage n s)"
| reset: "run_reach s \<Longrightarrow> run_reach (resetFilters s)"

definition run_ok :: "run_page \<Rightarrow> bool" where
  "run_ok s =
     (readHistoryFilters (rp_location s) = shown (rp_filters s) \<and> utf16_length (rf_search (rp_filters s)) \<le> 100)"

lemma run_ok_facts:
  assumes "run_ok s"
  shows "js_take 100 (or_else (run_get (rp_location s) ''smoke_search'') []) = rf_appliedSearch (rp_filters s)"
    "status_of (run_get (rp_location s) ''smoke_status'') = rf_runStatus (rp_filters s)"
    "days_of (run_get (rp_location s) ''smoke_days'') = rf_days (rp_filters s)"
    "parseAuditPage (run_get (rp_location s) ''smoke_page'') = rf_page (rp_filters s)"
    "js_take 100 (js_trim (rf_search (rp_filters s))) = js_trim (rf_search (rp_filters s))"
  using assms trim_units [of "rf_search (rp_filters s)"]
  by (auto simp: run_ok_def shown_def js_take_all simp flip: read_simps)

lemmas run_handlers =
  applySearch_def changeStatus_def changeFailureType_def changeCancellationReason_def changeDays_def
  changePage_def resetFilters_def update_page_def Let_def

lemma null_if_type: "read_enum type_filter_text [FtLogin, FtExternalApi, FtVisualRegression, FtUnclassified] FtAll
    (null_if (t = FtAll) (type_filter_text t)) = t"
  by (simp add: null_if_def read_type)

lemma null_if_reason: "read_enum reason_text [CrTimeout, CrSuperseded, CrManual] CrAll
    (null_if (r = CrAll) (reason_text r)) = r"
  by (simp add: null_if_def read_reason)

lemma null_if_page: "page_number n \<Longrightarrow> parseAuditPage (or_null (null_if (n = 1) (number_text (of_int n)))) = n"
proof -
  assume n: "page_number n"
  have "show_int n \<noteq> []" by (simp add: show_int_def)
  then have "number_text (of_int n) \<noteq> []" using n by (simp add: page_number_def number_text_int)
  then show ?thesis using n by (simp add: null_if_def)
qed

lemma run_ok_more:
  assumes "run_ok s"
  shows "rf_failureType (rp_filters s) =
      (if rf_runStatus (rp_filters s) = HsFailure
       then read_enum type_filter_text [FtLogin, FtExternalApi, FtVisualRegression, FtUnclassified] FtAll
             (run_get (rp_location s) ''smoke_failure_type'') else FtAll)"
    "rf_cancellationReason (rp_filters s) =
      (if rf_runStatus (rp_filters s) = HsCancelled
       then read_enum reason_text [CrTimeout, CrSuperseded, CrManual] CrAll
             (run_get (rp_location s) ''smoke_cancel_reason'') else CrAll)"
proof -
  have e: "readHistoryFilters (rp_location s) = shown (rp_filters s)" using assms by (simp add: run_ok_def)
  then have "rf_failureType (rp_filters s) = hf_failureType (readHistoryFilters (rp_location s))"
    "rf_cancellationReason (rp_filters s) = hf_cancellationReason (readHistoryFilters (rp_location s))"
    by (simp_all add: shown_def)
  then show "rf_failureType (rp_filters s) =
      (if rf_runStatus (rp_filters s) = HsFailure
       then read_enum type_filter_text [FtLogin, FtExternalApi, FtVisualRegression, FtUnclassified] FtAll
             (run_get (rp_location s) ''smoke_failure_type'') else FtAll)"
    "rf_cancellationReason (rp_filters s) =
      (if rf_runStatus (rp_filters s) = HsCancelled
       then read_enum reason_text [CrTimeout, CrSuperseded, CrManual] CrAll
             (run_get (rp_location s) ''smoke_cancel_reason'') else CrAll)"
    by (simp_all only: read_simps run_ok_facts(2) [OF assms])
qed

lemma run_okI:
  assumes "run_ok s"
    and "rf_search (rp_filters t) \<in> {[], rf_search (rp_filters s), js_trim (rf_search (rp_filters s))}"
    and "readHistoryFilters (rp_location t) = shown (rp_filters t)"
  shows "run_ok t"
  using assms trim_units [of "rf_search (rp_filters s)"] by (auto simp: run_ok_def utf16_length_def [of "[]"])

lemma or_null_text [simp]: "or_null (Some (history_status_text a)) = Some (history_status_text a)"
  "or_null (Some (type_filter_text b)) = Some (type_filter_text b)"
  "or_null (Some (reason_text c)) = Some (reason_text c)"
  by (simp_all add: or_null_def)

lemma handlers_ok:
  assumes "run_ok s"
  shows "run_ok (applySearch s)" "run_ok (changeDays d s)" "page_number n \<Longrightarrow> run_ok (changePage n s)"
    "run_ok (resetFilters s)"
  by (rule run_okI [OF assms], simp add: run_handlers, rule history_filters.equality,
      simp_all add: run_handlers shown_def read_simps history_get run_ok_facts [OF assms] days_of_text null_if_page,
      (simp_all add: run_ok_more [OF assms] status_of_def days_of_def number_of_def)?)+

lemma status_ok: "run_ok s \<Longrightarrow> run_ok (changeStatus st s)"
proof (rule run_okI [of s])
  assume "run_ok s"
  note f = run_ok_facts [OF this] and m = run_ok_more [OF this]
  have t: "rf_failureType (rp_filters s) = FtAll \<or> rf_runStatus (rp_filters s) = HsFailure"
    using m(1) by (auto split: if_splits)
  show "readHistoryFilters (rp_location (changeStatus st s)) = shown (rp_filters (changeStatus st s))"
    by (rule history_filters.equality)
      (simp_all add: run_handlers shown_def read_simps history_get f status_of_text null_if_type)
qed (simp_all add: run_handlers)

lemma type_ok: "run_ok s \<Longrightarrow> run_ok (changeFailureType t s)"
proof (rule run_okI [of s])
  assume "run_ok s"
  note f = run_ok_facts [OF this] and m = run_ok_more [OF this]
  show "readHistoryFilters (rp_location (changeFailureType t s)) = shown (rp_filters (changeFailureType t s))"
    by (rule history_filters.equality)
      (simp_all add: run_handlers shown_def read_simps history_get f status_of_text null_if_type null_if_reason)
qed (simp_all add: run_handlers)

lemma reason_ok:
  "run_ok s \<Longrightarrow> rf_runStatus (rp_filters s) = HsCancelled \<Longrightarrow> run_ok (changeCancellationReason r s)"
proof (rule run_okI [of s])
  assume "run_ok s" and c: "rf_runStatus (rp_filters s) = HsCancelled"
  note f = run_ok_facts [OF this(1)] and m = run_ok_more [OF this(1)]
  show "readHistoryFilters (rp_location (changeCancellationReason r s)) = shown (rp_filters (changeCancellationReason r s))"
    by (rule history_filters.equality)
      (simp_all add: run_handlers shown_def read_simps history_get f c null_if_reason, simp_all add: m c)
qed (simp_all add: run_handlers)

lemma reach_run_ok: "run_reach s \<Longrightarrow> run_ok s"
proof (induction rule: run_reach.induct)
  case (restored s)
  have "utf16_length (hf_search (readHistoryFilters (rp_location s))) \<le> 100"
    by (simp add: read_simps utf16_length_js_take)
  then show ?case by (simp add: run_ok_def restoreFilters_def Let_def shown_def)
next
  case (typed s v)
  then show ?case by (simp add: run_ok_def setSearch_def shown_def)
qed (simp_all add: handlers_ok status_ok type_ok reason_ok)

text \<open>C15. However the filters of the recent runs are changed, the query string stands for the
  filters shown: what a reload reads from the address are the applied filters and the page.\<close>

theorem run_filters_in_url: "run_reach s \<Longrightarrow> readHistoryFilters (rp_location s) = shown (rp_filters s)"
  using reach_run_ok by (simp add: run_ok_def)

definition sample_runs :: run_page where
  "sample_runs =
     restoreFilters \<lparr>rp_filters = initial_run_filters None None,
       rp_location = \<lparr>loc_path = ''/dashboard/settings'', loc_search = ''?smoke_status=cancelled'', loc_hash = []\<rparr>\<rparr>"

lemma run_filters_in_url_witness:
  "readHistoryFilters (rp_location (changeStatus HsFailure sample_runs)) =
   shown (rp_filters (changeStatus HsFailure sample_runs))"
proof -
  have "run_reach (changeStatus HsFailure sample_runs)"
    unfolding sample_runs_def by (intro run_reach.intros)
  then show ?thesis by (rule run_filters_in_url)
qed

text \<open>Outside the status \<open>cancelled\<close> the reason is not read back: the control has to be disabled.\<close>

lemma reason_not_restored:
  assumes "run_ok s" "rf_runStatus (rp_filters s) = HsAll"
  shows "hf_cancellationReason (readHistoryFilters (rp_location (changeCancellationReason CrTimeout s))) = CrAll"
    and "rf_cancellationReason (rp_filters (changeCancellationReason CrTimeout s)) = CrTimeout"
  using assms run_ok_facts(2) [OF assms(1)] by (simp_all add: read_simps run_handlers history_get)

lemma reset_is_default: "filtersAreDefault (rp_filters (resetFilters s))"
  by (simp add: filtersAreDefault_def run_handlers)

end
