(* ===== verification/Middleware_Form.thy ===== *)
theory Middleware_Form
  imports Service_Form_Correct Smoke_Tracking Ui_Text_Admin
begin

text \<open>
  The form of a middleware template under \<open>features/middlewares/components\<close>: the parser of its
  text areas (\<open>middlewareFormParsing.ts\<close>), the default values of an edited template
  (\<open>middlewareFormDefaults.ts\<close>), the refinement of the schema (\<open>middlewareFormModel.ts\<close>) and the
  submitted payload (\<open>middlewareFormPayload.ts\<close>).  The field checks of the schema library come
  before the refinement and are not modelled.
\<close>

section \<open>Types (\<open>middlewareApi.ts\<close>)\<close>

datatype MiddlewareTemplateType = MwIpAllowList | MwRateLimit | MwBasicAuth | MwHeaders

record MiddlewareTemplate =
  mt_id :: string
  mt_name :: string
  mt_type :: MiddlewareTemplateType
  mt_config :: "json js_object"
  mt_shared_name :: string
  mt_created_at :: string
  mt_updated_at :: string

record MiddlewareTemplateCreate =
  mc_name :: string
  mc_type :: MiddlewareTemplateType
  mc_config :: "json js_object"

record MiddlewareFormData =
  mf_name :: string
  mf_type :: MiddlewareTemplateType
  mf_source_range_input :: "string option"
  mf_rate_limit_average :: "jsnum option"
  mf_rate_limit_burst :: "jsnum option"
  mf_basic_auth_users_input :: "string option"
  mf_custom_headers :: "(string \<times> string) list"

section \<open>Parsing and default values\<close>

definition parseMultiline :: "string option \<Rightarrow> string list" where
  "parseMultiline input = (if \<not> truthy input then [] else entry_list (the input))"

definition extractArrayInput :: "json option \<Rightarrow> string" where
  "extractArrayInput v = (case v of Some (JArr xs) \<Rightarrow> str_join [CHR 0x0A] (map json_to_string xs) | _ \<Rightarrow> [])"

definition extractCustomHeaderDefaults :: "json js_object \<Rightarrow> (string \<times> string) list" where
  "extractCustomHeaderDefaults config =
     (case obj_get ''customResponseHeaders'' config of
        Some (JObj hs) \<Rightarrow>
          let entries = map (\<lambda>(k, v). (k, json_to_string v)) (obj_entries hs)
          in if entries \<noteq> [] then entries else [([], [])]
      | _ \<Rightarrow> [([], [])])"

definition number_field :: "json option \<Rightarrow> jsnum option" where
  "number_field v = (case v of Some (JNum n) \<Rightarrow> Some n | _ \<Rightarrow> None)"

definition extractMiddlewareFormDefaults :: "MiddlewareTemplate option \<Rightarrow> MiddlewareFormData" where
  "extractMiddlewareFormDefaults template =
     (let config = (case template of None \<Rightarrow> [] | Some t \<Rightarrow> mt_config t)
      in \<lparr>mf_name = or_else (map_option mt_name template) [],
          mf_type = (case template of None \<Rightarrow> MwIpAllowList | Some t \<Rightarrow> mt_type t),
          mf_source_range_input = Some (extractArrayInput (obj_get ''sourceRange'' config)),
          mf_rate_limit_average = number_field (obj_get ''average'' config),
          mf_rate_limit_burst = number_field (obj_get ''burst'' config),
          mf_basic_auth_users_input = Some (extractArrayInput (obj_get ''users'' config)),
          mf_custom_headers = extractCustomHeaderDefaults config\<rparr>)"

section \<open>The refinement of the schema\<close>

text \<open>\<open>!value\<close> of an optional number: missing, zero or not a number.\<close>

definition falsy_jsnum :: "jsnum option \<Rightarrow> bool" where
  "falsy_jsnum v = (v = None \<or> v = Some (Num 0) \<or> v = Some NaN)"

definition middlewareFormIssues :: "MiddlewareFormData \<Rightarrow> (string \<times> string) list" where
  "middlewareFormIssues value =
     (if mf_type value = MwIpAllowList \<and> parseMultiline (mf_source_range_input value) = []
      then [(''source_range_input'', txt_mw_range_required)] else [])
     @ (if mf_type value = MwRateLimit \<and> (falsy_jsnum (mf_rate_limit_average value) \<or> falsy_jsnum (mf_rate_limit_burst value))
        then [(''rate_limit_average'', txt_mw_rate_required)] else [])
     @ (if mf_type value = MwBasicAuth \<and> parseMultiline (mf_basic_auth_users_input value) = []
        then [(''basic_auth_users_input'', txt_mw_users_required)] else [])
     @ (if mf_type value = MwHeaders \<and> \<not> list_ex (\<lambda>(k, v). js_trim k \<noteq> []) (mf_custom_headers value)
        then [(''custom_headers'', txt_mw_header_required)] else [])"

section \<open>The payload\<close>

definition buildCustomResponseHeaders :: "MiddlewareFormData \<Rightarrow> string js_object" where
  "buildCustomResponseHeaders data =
     fold (\<lambda>(k, v) acc. if js_trim k = [] then acc else obj_set (js_trim k) (js_trim v) acc) (mf_custom_headers data) []"

text \<open>A property that is undefined is left out of the request.\<close>

definition defined_number :: "string \<Rightarrow> jsnum option \<Rightarrow> json js_object" where
  "defined_number k v = (case v of None \<Rightarrow> [] | Some n \<Rightarrow> [(k, JNum n)])"

definition buildMiddlewareConfig :: "MiddlewareFormData \<Rightarrow> json js_object" where
  "buildMiddlewareConfig data =
     (case mf_type data of
        MwIpAllowList \<Rightarrow> [(''sourceRange'', JArr (map JStr (parseMultiline (mf_source_range_input data))))]
      | MwRateLimit \<Rightarrow>
          defined_number ''average'' (mf_rate_limit_average data) @ defined_number ''burst'' (mf_rate_limit_burst data)
      | MwBasicAuth \<Rightarrow> [(''users'', JArr (map JStr (parseMultiline (mf_basic_auth_users_input data))))]
      | MwHeaders \<Rightarrow>
          [(''customResponseHeaders'', JObj (map (\<lambda>(k, v). (k, JStr v)) (buildCustomResponseHeaders data)))])"

definition buildMiddlewareTemplatePayload :: "MiddlewareFormData \<Rightarrow> MiddlewareTemplateCreate" where
  "buildMiddlewareTemplatePayload data =
     \<lparr>mc_name = js_trim (mf_name data), mc_type = mf_type data, mc_config = buildMiddlewareConfig data\<rparr>"

section \<open>Editing without a change\<close>

text \<open>The configurations that the form itself submits.\<close>

definition stored_config :: "MiddlewareTemplateType \<Rightarrow> json js_object \<Rightarrow> bool" where
  "stored_config ty config =
     (case ty of
        MwIpAllowList \<Rightarrow> (\<exists>xs. config = [(''sourceRange'', JArr (map JStr xs))] \<and> list_all clean_entry xs)
      | MwRateLimit \<Rightarrow> (\<exists>a b. config = [(''average'', JNum a), (''burst'', JNum b)])
      | MwBasicAuth \<Rightarrow> (\<exists>xs. config = [(''users'', JArr (map JStr xs))] \<and> list_all clean_entry xs)
      | MwHeaders \<Rightarrow> (\<exists>hs. config = [(''customResponseHeaders'', JObj (map (\<lambda>(k, v). (k, JStr v)) hs))] \<and> stored_headers hs))"

lemma map_json_to_string: "map json_to_string (map JStr xs) = xs"
  by (simp add: comp_def)

lemma multiline_join: "list_all clean_entry xs \<Longrightarrow> parseMultiline (Some (str_join [CHR 0x0A] xs)) = xs"
proof -
  assume c: "list_all clean_entry xs"
  have "str_join [CHR 0x0A] xs = [] \<Longrightarrow> xs = []" using entry_list_lines [OF c] by force
  then show ?thesis using entry_list_lines [OF c] by (auto simp: parseMultiline_def)
qed

lemma headers_as_json: "obj_entries (map (\<lambda>(k, v). (k, f v)) hs) = map (\<lambda>(k, v). (k, f v)) hs" if "stored_headers hs"
proof (rule obj_entries_plain)
  show "list_all (\<lambda>p. \<not> index_key (fst p)) (map (\<lambda>(k, v). (k, f v)) hs)"
    using that by (auto simp: stored_headers_def list_all_iff)
qed

lemma headers_edit:
  assumes "stored_headers hs"
  shows "header_object (extractCustomHeaderDefaults [(''customResponseHeaders'', JObj (map (\<lambda>(k, v). (k, JStr v)) hs))]) = hs"
proof -
  have e: "map (\<lambda>(k, v). (k, json_to_string v)) (obj_entries (map (\<lambda>(k, v). (k, JStr v)) hs)) = hs"
    unfolding headers_as_json [OF assms] by (simp add: comp_def case_prod_unfold)
  show ?thesis
  proof (cases "hs = []")
    case True
    then show ?thesis by (simp add: extractCustomHeaderDefaults_def obj_entries_def header_object_def)
  next
    case False
    then show ?thesis using e header_object_id [OF assms] by (simp add: extractCustomHeaderDefaults_def Let_def)
  qed
qed

lemma payload_headers: "buildCustomResponseHeaders d = header_object (mf_custom_headers d)"
  by (simp add: buildCustomResponseHeaders_def header_object_def)

text \<open>C16. Editing a stored middleware template and saving it without a change submits the name, the
  type and the configuration it has, for each of the four types.\<close>

theorem middleware_edit_roundtrip:
  assumes "stored_config (mt_type t) (mt_config t)" "js_trim (mt_name t) = mt_name t"
  shows "buildMiddlewareTemplatePayload (extractMiddlewareFormDefaults (Some t)) =
    \<lparr>mc_name = mt_name t, mc_type = mt_type t, mc_config = mt_config t\<rparr>"
proof -
  have "buildMiddlewareConfig (extractMiddlewareFormDefaults (Some t)) = mt_config t"
  proof (cases "mt_type t")
    case MwIpAllowList
    then obtain xs where "mt_config t = [(''sourceRange'', JArr (map JStr xs))]" "list_all clean_entry xs"
      using assms(1) by (auto simp: stored_config_def)
    then show ?thesis using MwIpAllowList
      by (simp add: buildMiddlewareConfig_def extractMiddlewareFormDefaults_def Let_def extractArrayInput_def
          map_json_to_string multiline_join del: map_map)
  next
    case MwRateLimit
    then show ?thesis using assms(1)
      by (auto simp: stored_config_def buildMiddlewareConfig_def extractMiddlewareFormDefaults_def number_field_def defined_number_def)
  next
    case MwBasicAuth
    then obtain xs where "mt_config t = [(''users'', JArr (map JStr xs))]" "list_all clean_entry xs"
      using assms(1) by (auto simp: stored_config_def)
    then show ?thesis using MwBasicAuth
      by (simp add: buildMiddlewareConfig_def extractMiddlewareFormDefaults_def Let_def extractArrayInput_def
          map_json_to_string multiline_join del: map_map)
  next
    case MwHeaders
    then obtain hs where "mt_config t = [(''customResponseHeaders'', JObj (map (\<lambda>(k, v). (k, JStr v)) hs))]" "stored_headers hs"
      using assms(1) by (auto simp: stored_config_def)
    then show ?thesis using MwHeaders headers_edit [of hs]
      by (simp add: buildMiddlewareConfig_def extractMiddlewareFormDefaults_def Let_def payload_headers)
  qed
  moreover have "mf_name (extractMiddlewareFormDefaults (Some t)) = mt_name t"
    by (cases "mt_name t") (simp_all add: extractMiddlewareFormDefaults_def Let_def)
  moreover have "mf_type (extractMiddlewareFormDefaults (Some t)) = mt_type t"
    by (simp add: extractMiddlewareFormDefaults_def Let_def)
  ultimately show ?thesis using assms(2) by (simp add: buildMiddlewareTemplatePayload_def)
qed

lemma middleware_edit_roundtrip_witness:
  "buildMiddlewareTemplatePayload (extractMiddlewareFormDefaults (Some
     \<lparr>mt_id = ''1'', mt_name = ''office'', mt_type = MwIpAllowList,
      mt_config = [(''sourceRange'', JArr [JStr ''10.0.0.0/8'', JStr ''::1''])],
      mt_shared_name = ''office'', mt_created_at = [], mt_updated_at = []\<rparr>)) =
   \<lparr>mc_name = ''office'', mc_type = MwIpAllowList,
    mc_config = [(''sourceRange'', JArr [JStr ''10.0.0.0/8'', JStr ''::1''])]\<rparr>"
proof -
  let ?t = "\<lparr>mt_id = ''1'', mt_name = ''office'', mt_type = MwIpAllowList,
      mt_config = [(''sourceRange'', JArr [JStr ''10.0.0.0/8'', JStr ''::1''])],
      mt_shared_name = ''office'', mt_created_at = [], mt_updated_at = []\<rparr>"
  have "list_all clean_entry [''10.0.0.0/8'', ''::1'']" by code_simp
  then have "stored_config (mt_type ?t) (mt_config ?t)"
    by (auto simp: stored_config_def intro!: exI [of _ "[''10.0.0.0/8'', ''::1'']"])
  moreover have "js_trim ''office'' = ''office''" by code_simp
  ultimately show ?thesis using middleware_edit_roundtrip [of ?t] by simp
qed

text \<open>A header whose name is \<open>__proto__\<close> passes the refinement and is not submitted.\<close>

lemma proto_header_lost:
  "mf_type d = MwHeaders \<Longrightarrow> mf_custom_headers d = [(''__proto__'', ''x'')] \<Longrightarrow>
   middlewareFormIssues d = [] \<and> buildMiddlewareConfig d = [(''customResponseHeaders'', JObj [])]"
proof -
  assume d: "mf_type d = MwHeaders" "mf_custom_headers d = [(''__proto__'', ''x'')]"
  have "js_trim ''__proto__'' = ''__proto__''" by code_simp
  then show ?thesis using d by (simp add: middlewareFormIssues_def buildMiddlewareConfig_def buildCustomResponseHeaders_def obj_set_def)
qed

end
