(* ===== verification/Middleware_Page.thy ===== *)
theory Middleware_Page
  imports Middleware_Form Url_Params
begin

text \<open>
  The middlewares page under \<open>app/dashboard/middlewares\<close>: the state of a middleware in the
  Traefik runtime (\<open>middlewareRuntimeStatus.ts\<close>), the middlewares that a service generates
  (\<open>middlewareGeneratedBuilder.ts\<close>), what the page derives from templates and services
  (\<open>middlewareDerivedModelHelpers.ts\<close>), the two lists with their filters and counts
  (\<open>middlewareTemplateFilters.ts\<close>, \<open>generatedMiddlewareFilters.ts\<close>), and the state of the page
  in the query string (\<open>useMiddlewaresPageUiState.ts\<close>).  Identifiers of templates are not
  names of \<open>Object.prototype\<close>.
\<close>

section \<open>Runtime status\<close>

record TraefikMiddlewareItem =
  ti_name :: string
  ti_status :: string

datatype BadgeStatus = BgActive | BgInactive | BgWarning | BgError | BgPending

type_synonym runtime_map = "string \<Rightarrow> TraefikMiddlewareItem option"

text \<open>\<open>missingStatus\<close> keeps its default in every call.\<close>

definition mapRuntimeStatus :: "TraefikMiddlewareItem option \<Rightarrow> bool \<Rightarrow> BadgeStatus" where
  "mapRuntimeStatus runtime runtimeConnected =
     (if \<not> runtimeConnected then BgPending
      else case runtime of
             None \<Rightarrow> BgWarning
           | Some r \<Rightarrow>
               let normalized = str_lower (ti_status r) in
               if normalized = ''enabled'' then BgActive
               else if normalized = ''disabled'' then BgInactive
               else if normalized = ''error'' then BgError else BgWarning)"

definition formatRuntimeStatusLabel :: "TraefikMiddlewareItem option \<Rightarrow> bool \<Rightarrow> string" where
  "formatRuntimeStatusLabel runtime runtimeConnected =
     (if runtimeConnected then or_else (map_option ti_status runtime) txt_mw_missing else txt_mw_checking)"

text \<open>\<open>domain.replaceAll(".", "-").replaceAll("_", "-")\<close>.\<close>

definition toGeneratedMiddlewareSafeName :: "string \<Rightarrow> string" where
  "toGeneratedMiddlewareSafeName domain =
     map (\<lambda>c. if c = CHR ''_'' then CHR ''-'' else c) (map (\<lambda>c. if c = CHR ''.'' then CHR ''-'' else c) domain)"

definition generatedSearchValue :: "string \<Rightarrow> string" where
  "generatedSearchValue v = str_lower (js_trim v)"

section \<open>Generated middlewares (\<open>middlewareGeneratedBuilder.ts\<close>)\<close>

datatype GeneratedScope = ScopeService | ScopeShared

record GeneratedMiddlewareItem =
  gm_label :: string
  gm_runtimeName :: string
  gm_description :: string
  gm_scope :: GeneratedScope
  gm_status :: BadgeStatus
  gm_runtimeStatusLabel :: string

definition register :: "runtime_map \<Rightarrow> bool \<Rightarrow> string \<Rightarrow> string \<Rightarrow> string \<Rightarrow> GeneratedScope \<Rightarrow> GeneratedMiddlewareItem" where
  "register runtimeMap runtimeConnected runtimeName label description scope =
     \<lparr>gm_label = label, gm_runtimeName = runtimeName, gm_description = description, gm_scope = scope,
      gm_status = mapRuntimeStatus (runtimeMap runtimeName) runtimeConnected,
      gm_runtimeStatusLabel = formatRuntimeStatusLabel (runtimeMap runtimeName) runtimeConnected\<rparr>"

definition count_text :: "nat \<Rightarrow> string \<Rightarrow> string" where
  "count_text n s = show_nat n @ s"

definition registerAccessMiddlewares ::
    "Service \<Rightarrow> string \<Rightarrow> (string \<Rightarrow> string \<Rightarrow> string \<Rightarrow> GeneratedScope \<Rightarrow> 'i) \<Rightarrow> 'i list" where
  "registerAccessMiddlewares s routerName reg =
     (if svc_allowed_ips s \<noteq> []
      then [reg (routerName @ ''-ipallowlist@file'') txt_mw_l_ip (count_text (length (svc_allowed_ips s)) txt_mw_d_ip) ScopeService]
      else [])
     @ (case (svc_rate_limit_enabled s, svc_rate_limit_average s, svc_rate_limit_burst s) of
          (True, Some a, Some b) \<Rightarrow>
            [reg (routerName @ ''-ratelimit@file'') txt_mw_l_rate
               (''average '' @ number_text a @ '' / burst '' @ number_text b) ScopeService]
        | _ \<Rightarrow> [])"

definition registerSecurityMiddlewares ::
    "Service \<Rightarrow> string \<Rightarrow> (string \<Rightarrow> string \<Rightarrow> string \<Rightarrow> GeneratedScope \<Rightarrow> 'i) \<Rightarrow> 'i list" where
  "registerSecurityMiddlewares s routerName reg =
     (if svc_custom_headers s \<noteq> []
      then [reg (routerName @ ''-response-headers@file'') txt_mw_l_headers
              (count_text (length (svc_custom_headers s)) txt_mw_d_headers) ScopeService]
      else [])
     @ (if svc_frame_policy s \<noteq> FrameOff
        then [reg (routerName @ ''-frame-policy@file'') txt_mw_l_frame
                (if svc_frame_policy s = FrameSameorigin then txt_mw_sameorigin else txt_mw_deny) ScopeService]
        else [])
     @ (if svc_blocked_paths s \<noteq> []
        then [reg (routerName @ ''-block@file'') txt_mw_l_block
                (count_text (length (svc_blocked_paths s)) txt_mw_d_block) ScopeService]
        else [])
     @ (if svc_tls_enabled s \<and> svc_https_redirect_enabled s
        then [reg (routerName @ ''-redirectscheme@file'') txt_mw_l_redirect txt_mw_d_redirect ScopeService]
        else [])"

definition registerAuthMiddlewares ::
    "Service \<Rightarrow> string \<Rightarrow> (string \<Rightarrow> string \<Rightarrow> string \<Rightarrow> GeneratedScope \<Rightarrow> 'i) \<Rightarrow> 'i list" where
  "registerAuthMiddlewares s routerName reg =
     (if svc_basic_auth_enabled s
      then [reg (routerName @ ''-basicauth@file'') txt_mw_l_basic
              (count_text (svc_basic_auth_user_count s) txt_mw_accounts) ScopeService]
      else [])
     @ (if svc_auth_mode s = AuthToken
        then [reg (routerName @ ''-token-auth@file'') txt_mw_l_token txt_mw_d_token ScopeService] else [])
     @ (if svc_auth_mode s = AuthAuthentik
        then [reg ''authentik@file'' ''Authentik ForwardAuth'' txt_mw_d_authentik ScopeShared] else [])"

definition buildGeneratedMiddlewareItems :: "Service \<Rightarrow> runtime_map \<Rightarrow> bool \<Rightarrow> GeneratedMiddlewareItem list" where
  "buildGeneratedMiddlewareItems s runtimeMap runtimeConnected =
     (let routerName = toGeneratedMiddlewareSafeName (svc_domain s);
          reg = register runtimeMap runtimeConnected
      in registerAccessMiddlewares s routerName reg @ registerSecurityMiddlewares s routerName reg
         @ registerAuthMiddlewares s routerName reg)"

section \<open>Derived data (\<open>middlewareDerivedModelHelpers.ts\<close>)\<close>

text \<open>\<open>new Map(entries)\<close>: a later entry of the same name replaces an earlier one.\<close>

definition createRuntimeMiddlewareMap :: "TraefikMiddlewareItem list option \<Rightarrow> runtime_map" where
  "createRuntimeMiddlewareMap middlewares = map_of (rev (map (\<lambda>m. (ti_name m, m)) (default_to [] middlewares)))"

definition sortMiddlewareTemplates :: "js_host \<Rightarrow> MiddlewareTemplate list \<Rightarrow> MiddlewareTemplate list" where
  "sortMiddlewareTemplates H ts = js_sort (\<lambda>a b. locale_compare H (mt_name a) (mt_name b)) ts"

definition sortServicesByName :: "js_host \<Rightarrow> Service list \<Rightarrow> Service list" where
  "sortServicesByName H ss = js_sort (\<lambda>a b. locale_compare H (svc_name a) (svc_name b)) ss"

type_synonym applied = "Service list js_object"

definition push_service :: "Service \<Rightarrow> string \<Rightarrow> applied \<Rightarrow> applied" where
  "push_service s templateId acc =
     (case obj_get templateId acc of None \<Rightarrow> acc | Some xs \<Rightarrow> obj_put templateId (xs @ [s]) acc)"

definition buildAppliedServicesByTemplate :: "MiddlewareTemplate list \<Rightarrow> Service list \<Rightarrow> applied" where
  "buildAppliedServicesByTemplate sortedTemplates sortedServices =
     fold (\<lambda>s acc. fold (push_service s) (svc_middleware_template_ids s) acc) sortedServices
       (fold (\<lambda>t acc. obj_put (mt_id t) [] acc) sortedTemplates [])"

definition filterServicesForMiddlewareAssignment :: "Service list \<Rightarrow> string \<Rightarrow> Service list" where
  "filterServicesForMiddlewareAssignment sortedServices assignmentSearch =
     (let query = generatedSearchValue assignmentSearch
      in if query = [] then sortedServices
         else filter (\<lambda>s. str_includes (generatedSearchValue (svc_name s @ '' '' @ svc_domain s)) query) sortedServices)"

record GeneratedGroup =
  gg_service :: Service
  gg_items :: "GeneratedMiddlewareItem list"

definition buildGeneratedServiceGroups :: "Service list \<Rightarrow> runtime_map \<Rightarrow> bool \<Rightarrow> string \<Rightarrow> GeneratedGroup list" where
  "buildGeneratedServiceGroups sortedServices runtimeMap runtimeConnected generatedSearch =
     (let query = generatedSearchValue generatedSearch
      in filter (\<lambda>g. gg_items g \<noteq> [] \<and>
              (query = [] \<or> str_includes (generatedSearchValue (svc_name (gg_service g) @ '' '' @ svc_domain (gg_service g))) query))
           (map (\<lambda>s. \<lparr>gg_service = s, gg_items = buildGeneratedMiddlewareItems s runtimeMap runtimeConnected\<rparr>) sortedServices))"

text \<open>An error of the HTTP client: the detail of the answer and the message.\<close>

record query_error =
  qe_detail :: "string option"
  qe_message :: "string option"

definition extractErrorMessage :: "query_error option \<Rightarrow> string \<Rightarrow> string" where
  "extractErrorMessage e fallback =
     (case e of None \<Rightarrow> fallback | Some x \<Rightarrow> or_else (qe_detail x) (or_else (qe_message x) fallback))"

definition getRuntimeBannerMessage :: "bool \<Rightarrow> query_error option \<Rightarrow> string option \<Rightarrow> string option" where
  "getRuntimeBannerMessage runtimeConnected runtimeError responseMessage =
     (if runtimeError \<noteq> None then Some (extractErrorMessage runtimeError txt_mw_rt_failed)
      else if runtimeConnected then None else Some (or_else responseMessage txt_mw_rt_unknown))"

definition getSharedTabErrorState :: "bool \<Rightarrow> bool \<Rightarrow> query_error option \<Rightarrow> query_error option \<Rightarrow> bool \<times> string" where
  "getSharedTabErrorState isServicesError isTemplateError servicesError templateError =
     (isTemplateError \<or> isServicesError,
      if isTemplateError then extractErrorMessage templateError txt_mw_tpl_failed
      else extractErrorMessage servicesError txt_mw_svc_failed)"

section \<open>The templates (\<open>middlewareTemplateFilters.ts\<close>)\<close>

datatype TemplateStatusFilter = TfAll | TfActive | TfInactive | TfAttention

fun template_filter_text :: "TemplateStatusFilter \<Rightarrow> string" where
  "template_filter_text TfAll = ''all''"
| "template_filter_text TfActive = ''active''"
| "template_filter_text TfInactive = ''inactive''"
| "template_filter_text TfAttention = ''attention''"

definition TEMPLATE_FILTERS :: "TemplateStatusFilter list" where
  "TEMPLATE_FILTERS = [TfAll, TfActive, TfInactive, TfAttention]"

fun getTemplateTypeLabel :: "MiddlewareTemplateType \<Rightarrow> string" where
  "getTemplateTypeLabel MwIpAllowList = txt_mw_allow_ip"
| "getTemplateTypeLabel MwRateLimit = ''Rate Limit''"
| "getTemplateTypeLabel MwBasicAuth = ''Basic Auth''"
| "getTemplateTypeLabel MwHeaders = txt_mw_headers"

text \<open>\<open>${value}\<close> of a property: a missing one prints \<open>undefined\<close>.\<close>

definition template_text :: "json option \<Rightarrow> string" where
  "template_text v = (case v of None \<Rightarrow> ''undefined'' | Some x \<Rightarrow> json_to_string x)"

definition array_length :: "json option \<Rightarrow> nat" where
  "array_length v = (case v of Some (JArr xs) \<Rightarrow> length xs | _ \<Rightarrow> 0)"

definition getTemplateConfigSummary :: "MiddlewareTemplate \<Rightarrow> string" where
  "getTemplateConfigSummary t =
     (case mt_type t of
        MwIpAllowList \<Rightarrow> count_text (array_length (obj_get ''sourceRange'' (mt_config t))) txt_mw_ranges
      | MwRateLimit \<Rightarrow> ''average '' @ template_text (obj_get ''average'' (mt_config t)) @ '' / burst ''
          @ template_text (obj_get ''burst'' (mt_config t))
      | MwBasicAuth \<Rightarrow> count_text (array_length (obj_get ''users'' (mt_config t))) txt_mw_accounts
      | MwHeaders \<Rightarrow>
          count_text (case obj_get ''customResponseHeaders'' (mt_config t) of Some (JObj hs) \<Rightarrow> length hs | _ \<Rightarrow> 0)
            txt_mw_headers_set)"

definition getSharedTemplateStatus :: "Service list \<Rightarrow> bool \<Rightarrow> runtime_map \<Rightarrow> MiddlewareTemplate \<Rightarrow> BadgeStatus" where
  "getSharedTemplateStatus appliedServices runtimeConnected runtimeMap template =
     (if appliedServices = [] then BgInactive
      else mapRuntimeStatus (runtimeMap (mt_shared_name template @ ''@file'')) runtimeConnected)"

definition getTemplateSearchValue :: "MiddlewareTemplate \<Rightarrow> Service list \<Rightarrow> string" where
  "getTemplateSearchValue t appliedServices =
     generatedSearchValue
       (str_join '' '' ([mt_name t, mt_shared_name t, getTemplateTypeLabel (mt_type t), getTemplateConfigSummary t]
          @ concat (map (\<lambda>s. [svc_name s, svc_domain s]) appliedServices)))"

definition applied_to :: "applied \<Rightarrow> MiddlewareTemplate \<Rightarrow> Service list" where
  "applied_to m t = default_to [] (obj_get (mt_id t) m)"

definition filterMiddlewareTemplates ::
    "applied \<Rightarrow> bool \<Rightarrow> runtime_map \<Rightarrow> TemplateStatusFilter \<Rightarrow> MiddlewareTemplate list \<Rightarrow> string \<Rightarrow> MiddlewareTemplate list" where
  "filterMiddlewareTemplates m runtimeConnected runtimeMap statusFilter templates templateSearch =
     (let query = generatedSearchValue templateSearch
      in filter (\<lambda>t.
           (query = [] \<or> str_includes (getTemplateSearchValue t (applied_to m t)) query) \<and>
           (let status = getSharedTemplateStatus (applied_to m t) runtimeConnected runtimeMap t in
            case statusFilter of
              TfAll \<Rightarrow> True
            | TfAttention \<Rightarrow> status = BgWarning \<or> status = BgError \<or> status = BgPending
            | TfActive \<Rightarrow> status = BgActive
            | TfInactive \<Rightarrow> status = BgInactive)) templates)"

record TemplateCounts =
  tc_all :: nat
  tc_active :: nat
  tc_inactive :: nat
  tc_attention :: nat

definition countMiddlewareTemplateStatuses ::
    "applied \<Rightarrow> bool \<Rightarrow> runtime_map \<Rightarrow> MiddlewareTemplate list \<Rightarrow> string \<Rightarrow> TemplateCounts" where
  "countMiddlewareTemplateStatuses m runtimeConnected runtimeMap templates templateSearch =
     fold (\<lambda>t c.
         let status = getSharedTemplateStatus (applied_to m t) runtimeConnected runtimeMap t;
             c1 = c\<lparr>tc_all := tc_all c + 1\<rparr>
         in if status = BgActive then c1\<lparr>tc_active := tc_active c1 + 1\<rparr>
            else if status = BgInactive then c1\<lparr>tc_inactive := tc_inactive c1 + 1\<rparr>
            else c1\<lparr>tc_attention := tc_attention c1 + 1\<rparr>)
       (filterMiddlewareTemplates m runtimeConnected runtimeMap TfAll templates templateSearch)
       \<lparr>tc_all = 0, tc_active = 0, tc_inactive = 0, tc_attention = 0\<rparr>"

section \<open>The generated list (\<open>generatedMiddlewareFilters.ts\<close>)\<close>

datatype GeneratedStatusFilter = GfAll | GfAttention | GfPending

fun generated_filter_text :: "GeneratedStatusFilter \<Rightarrow> string" where
  "generated_filter_text GfAll = ''all''"
| "generated_filter_text GfAttention = ''attention''"
| "generated_filter_text GfPending = ''pending''"

definition GENERATED_FILTERS :: "GeneratedStatusFilter list" where
  "GENERATED_FILTERS = [GfAll, GfAttention, GfPending]"

definition isAttentionItem :: "GeneratedMiddlewareItem \<Rightarrow> bool" where
  "isAttentionItem item = (gm_status item \<noteq> BgActive \<and> gm_status item \<noteq> BgPending)"

record GeneratedCounts =
  gc_all :: nat
  gc_attention :: nat
  gc_pending :: nat

definition countGeneratedMiddlewareStatuses :: "GeneratedGroup list \<Rightarrow> GeneratedCounts" where
  "countGeneratedMiddlewareStatuses groups =
     fold (\<lambda>g c. c\<lparr>gc_all := gc_all c + length (gg_items g),
                  gc_attention := gc_attention c + length (filter isAttentionItem (gg_items g)),
                  gc_pending := gc_pending c + length (filter (\<lambda>i. gm_status i = BgPending) (gg_items g))\<rparr>)
       groups \<lparr>gc_all = 0, gc_attention = 0, gc_pending = 0\<rparr>"

definition filterGeneratedServiceGroups :: "GeneratedGroup list \<Rightarrow> GeneratedStatusFilter \<Rightarrow> GeneratedGroup list" where
  "filterGeneratedServiceGroups groups statusFilter =
     (if statusFilter = GfAll then groups
      else filter (\<lambda>g. gg_items g \<noteq> [])
        (map (\<lambda>g. g\<lparr>gg_items := filter (\<lambda>i. if statusFilter = GfPending then gm_status i = BgPending else isAttentionItem i)
                                     (gg_items g)\<rparr>) groups))"

definition getGeneratedMiddlewareEmptyState :: "string \<Rightarrow> GeneratedStatusFilter \<Rightarrow> nat \<Rightarrow> string \<times> string" where
  "getGeneratedMiddlewareEmptyState generatedSearch statusFilter totalItems =
     (if totalItems = 0 then
        (if js_trim generatedSearch \<noteq> [] then (txt_mw_e_search, txt_mw_e_search_d) else (txt_mw_e_none, txt_mw_e_none_d))
      else if statusFilter = GfAttention then (txt_mw_e_att, txt_mw_e_att_d)
      else if statusFilter = GfPending then (txt_mw_e_pend, txt_mw_e_pend_d)
      else (txt_mw_e_cond, txt_mw_e_cond_d))"

section \<open>The state of the page (\<open>useMiddlewaresPageUiState.ts\<close>)\<close>

datatype MiddlewareTab = TabTemplates | TabGenerated

record MiddlewarePageUrlState =
  us_activeTab :: MiddlewareTab
  us_generatedSearch :: string
  us_generatedStatusFilter :: GeneratedStatusFilter
  us_templateSearch :: string
  us_templateStatusFilter :: TemplateStatusFilter

definition readMiddlewarePageUrlState :: "location \<Rightarrow> MiddlewarePageUrlState" where
  "readMiddlewarePageUrlState l =
     (let params = location_params l;
          activeTab = (if params_get ''tab'' params = Some ''generated'' then TabGenerated else TabTemplates);
          search = default_to [] (params_get ''search'' params);
          status = params_get ''status'' params
      in \<lparr>us_activeTab = activeTab,
          us_generatedSearch = (if activeTab = TabGenerated then search else []),
          us_generatedStatusFilter =
            (if activeTab = TabGenerated then read_enum generated_filter_text GENERATED_FILTERS GfAll status else GfAll),
          us_templateSearch = (if activeTab = TabTemplates then search else []),
          us_templateStatusFilter =
            (if activeTab = TabTemplates then read_enum template_filter_text TEMPLATE_FILTERS TfAll status else TfAll)\<rparr>)"

definition replaceMiddlewarePageUrl :: "MiddlewarePageUrlState \<Rightarrow> location \<Rightarrow> location" where
  "replaceMiddlewarePageUrl st l =
     replaceBrowserQueryParams
       (if us_activeTab st = TabGenerated then
          [(''tab'', ''generated'', []), (''search'', js_trim (us_generatedSearch st), []),
           (''status'', generated_filter_text (us_generatedStatusFilter st), ''all'')]
        else
          [(''tab'', [], []), (''search'', js_trim (us_templateSearch st), []),
           (''status'', template_filter_text (us_templateStatusFilter st), ''all'')]) l"

record mw_ui =
  ui_url :: MiddlewarePageUrlState
  ui_isUrlReady :: bool
  ui_isCreateOpen :: bool
  ui_editTarget :: "MiddlewareTemplate option"
  ui_deleteTarget :: "MiddlewareTemplate option"
  ui_assignmentTarget :: "MiddlewareTemplate option"
  ui_assignmentSearch :: string
  ui_selectedServiceIds :: "string list"

definition initial_mw_ui :: mw_ui where
  "initial_mw_ui =
     \<lparr>ui_url = \<lparr>us_activeTab = TabTemplates, us_generatedSearch = [], us_generatedStatusFilter = GfAll,
                us_templateSearch = [], us_templateStatusFilter = TfAll\<rparr>,
      ui_isUrlReady = False, ui_isCreateOpen = False, ui_editTarget = None, ui_deleteTarget = None,
      ui_assignmentTarget = None, ui_assignmentSearch = [], ui_selectedServiceIds = []\<rparr>"

text \<open>The listener of \<open>popstate\<close>, and the effect that installs it.\<close>

definition applyUrlState :: "location \<Rightarrow> mw_ui \<Rightarrow> mw_ui" where
  "applyUrlState l u = u\<lparr>ui_url := readMiddlewarePageUrlState l\<rparr>"

definition mountEffect :: "location \<Rightarrow> mw_ui \<Rightarrow> mw_ui" where
  "mountEffect l u = (applyUrlState l u)\<lparr>ui_isUrlReady := True\<rparr>"

text \<open>The effect that follows every change of the URL state.\<close>

definition urlEffect :: "mw_ui \<Rightarrow> location \<Rightarrow> location" where
  "urlEffect u l = (if \<not> ui_isUrlReady u then l else replaceMiddlewarePageUrl (ui_url u) l)"

definition toggleServiceSelection :: "string \<Rightarrow> mw_ui \<Rightarrow> mw_ui" where
  "toggleServiceSelection serviceId u =
     u\<lparr>ui_selectedServiceIds :=
        (if serviceId \<in> set (ui_selectedServiceIds u)
         then filter (\<lambda>i. i \<noteq> serviceId) (ui_selectedServiceIds u)
         else ui_selectedServiceIds u @ [serviceId])\<rparr>"

definition syncAssignmentSelection :: "applied \<Rightarrow> mw_ui \<Rightarrow> mw_ui" where
  "syncAssignmentSelection m u =
     (case ui_assignmentTarget u of
        None \<Rightarrow> u\<lparr>ui_assignmentSearch := [], ui_selectedServiceIds := []\<rparr>
      | Some t \<Rightarrow> u\<lparr>ui_assignmentSearch := [], ui_selectedServiceIds := map svc_id (applied_to m t)\<rparr>)"

end
