(* ===== verification/Middleware_Correct.thy ===== *)
theory Middleware_Correct
  imports Middleware_Page
begin

text \<open>
  What the middlewares page shows: the counts on the filter buttons are the lengths of the lists
  that the buttons select, the services under a template are the ones that use it, the middlewares
  that a service generates have names of their own, and the query string stands for the open tab.
\<close>

section \<open>Counts and filters\<close>

lemma template_counts_fold:
  "fold (\<lambda>t c.
      let status = f t; c1 = c\<lparr>tc_all := tc_all c + 1\<rparr>
      in if status = BgActive then c1\<lparr>tc_active := tc_active c1 + 1\<rparr>
         else if status = BgInactive then c1\<lparr>tc_inactive := tc_inactive c1 + 1\<rparr>
         else c1\<lparr>tc_attention := tc_attention c1 + 1\<rparr>) ts c =
   \<lparr>tc_all = tc_all c + length ts,
    tc_active = tc_active c + length (filter (\<lambda>t. f t = BgActive) ts),
    tc_inactive = tc_inactive c + length (filter (\<lambda>t. f t = BgInactive) ts),
    tc_attention = tc_attention c
      + length (filter (\<lambda>t. f t = BgWarning \<or> f t = BgError \<or> f t = BgPending) ts)\<rparr>"
proof (induction ts arbitrary: c)
  case (Cons t ts)
  then show ?case by (cases "f t") (simp_all add: Let_def)
qed simp

lemma filter_templates_status:
  "filterMiddlewareTemplates m con rm sf ts q =
   filter (\<lambda>t. let status = getSharedTemplateStatus (applied_to m t) con rm t in
       case sf of TfAll \<Rightarrow> True | TfAttention \<Rightarrow> status = BgWarning \<or> status = BgError \<or> status = BgPending
         | TfActive \<Rightarrow> status = BgActive | TfInactive \<Rightarrow> status = BgInactive)
     (filterMiddlewareTemplates m con rm TfAll ts q)"
  by (cases sf) (simp_all add: filterMiddlewareTemplates_def Let_def conj_commute)

lemma status_partition:
  fixes f :: "'a \<Rightarrow> BadgeStatus"
  shows "length ts = length (filter (\<lambda>t. f t = BgActive) ts) + length (filter (\<lambda>t. f t = BgInactive) ts)
    + length (filter (\<lambda>t. f t = BgWarning \<or> f t = BgError \<or> f t = BgPending) ts)"
proof (induction ts)
  case (Cons t ts)
  then show ?case by (cases "f t") simp_all
qed simp

text \<open>The number on each of the four filter buttons of the template list is the length of the
  list that the button selects under the same search, and every template that the search finds is
  on exactly one of the three status lists.\<close>

theorem template_counts_match_lists:
  "let c = countMiddlewareTemplateStatuses m con rm ts q;
       list = (\<lambda>sf. filterMiddlewareTemplates m con rm sf ts q)
   in tc_all c = length (list TfAll) \<and> tc_active c = length (list TfActive) \<and>
      tc_inactive c = length (list TfInactive) \<and> tc_attention c = length (list TfAttention) \<and>
      tc_all c = tc_active c + tc_inactive c + tc_attention c"
proof -
  let ?f = "\<lambda>t. getSharedTemplateStatus (applied_to m t) con rm t"
  let ?all = "filterMiddlewareTemplates m con rm TfAll ts q"
  have c: "countMiddlewareTemplateStatuses m con rm ts q =
      \<lparr>tc_all = length ?all, tc_active = length (filter (\<lambda>t. ?f t = BgActive) ?all),
       tc_inactive = length (filter (\<lambda>t. ?f t = BgInactive) ?all),
       tc_attention = length (filter (\<lambda>t. ?f t = BgWarning \<or> ?f t = BgError \<or> ?f t = BgPending) ?all)\<rparr>"
    unfolding countMiddlewareTemplateStatuses_def by (subst template_counts_fold) simp
  show ?thesis
    using status_partition [of ?all ?f] filter_templates_status [of m con rm TfActive ts q]
      filter_templates_status [of m con rm TfInactive ts q]
      filter_templates_status [of m con rm TfAttention ts q]
    unfolding c Let_def by simp
qed

lemma generated_counts_fold:
  "fold (\<lambda>g c. c\<lparr>gc_all := gc_all c + length (gg_items g),
                gc_attention := gc_attention c + length (filter isAttentionItem (gg_items g)),
                gc_pending := gc_pending c + length (filter (\<lambda>i. gm_status i = BgPending) (gg_items g))\<rparr>) gs c =
   \<lparr>gc_all = gc_all c + length (concat (map gg_items gs)),
    gc_attention = gc_attention c + length (filter isAttentionItem (concat (map gg_items gs))),
    gc_pending = gc_pending c + length (filter (\<lambda>i. gm_status i = BgPending) (concat (map gg_items gs)))\<rparr>"
  by (induction gs arbitrary: c) simp_all

lemma concat_items_filter:
  "concat (map gg_items (filter (\<lambda>g. gg_items g \<noteq> []) gs)) = concat (map gg_items gs)"
  by (induction gs) simp_all

lemma filtered_items:
  "concat (map gg_items (filterGeneratedServiceGroups gs sf)) =
   filter (\<lambda>i. case sf of GfAll \<Rightarrow> True | GfPending \<Rightarrow> gm_status i = BgPending | GfAttention \<Rightarrow> isAttentionItem i)
     (concat (map gg_items gs))"
proof -
  have h: "concat (map (\<lambda>g. filter P (gg_items g)) gs) = filter P (concat (map gg_items gs))" for P
    by (simp add: filter_concat comp_def)
  show ?thesis by (cases sf) (simp_all add: filterGeneratedServiceGroups_def concat_items_filter comp_def h)
qed

text \<open>The number on each of the three filter buttons of the generated list is the number of
  middlewares in the groups that the button selects, no group without middlewares is shown, and
  the middlewares keep their order.\<close>

theorem generated_counts_match_lists:
  "let gs = buildGeneratedServiceGroups ss rm con q;
       c = countGeneratedMiddlewareStatuses gs;
       items = (\<lambda>sf. concat (map gg_items (filterGeneratedServiceGroups gs sf)))
   in gc_all c = length (items GfAll) \<and> gc_attention c = length (items GfAttention) \<and>
      gc_pending c = length (items GfPending) \<and>
      [] \<notin> gg_items ` set (filterGeneratedServiceGroups gs sf) \<and> subseq (items sf) (items GfAll)"
proof -
  let ?gs = "buildGeneratedServiceGroups ss rm con q"
  have ne: "[] \<notin> gg_items ` set ?gs" by (auto simp: buildGeneratedServiceGroups_def Let_def)
  have "[] \<notin> gg_items ` set (filterGeneratedServiceGroups ?gs sf)"
    using ne by (auto simp: filterGeneratedServiceGroups_def split: if_splits)
  moreover have "subseq (concat (map gg_items (filterGeneratedServiceGroups ?gs sf))) (concat (map gg_items (filterGeneratedServiceGroups ?gs GfAll)))"
    by (simp add: filtered_items subseq_filter_left)
  ultimately show ?thesis
    by (simp add: Let_def filtered_items countGeneratedMiddlewareStatuses_def generated_counts_fold)
qed

section \<open>The services of a template\<close>

lemma initial_groups: "obj_get k (fold (\<lambda>t acc. obj_put (mt_id t) [] acc) ts acc) =
    (if k \<in> mt_id ` set ts then Some [] else obj_get k acc)"
  by (induction ts arbitrary: acc) (auto simp: obj_get_put)

lemma push_service_get:
  "obj_get k (fold (push_service s) ids acc) =
   map_option (\<lambda>xs. xs @ replicate (count_list ids k) s) (obj_get k acc)"
proof (induction ids arbitrary: acc)
  case Nil
  show ?case by (simp add: option.map_ident)
next
  case (Cons i ids)
  then show ?case
    by (cases "obj_get i acc"; cases "obj_get k acc") (auto simp: push_service_def obj_get_put)
qed

lemma push_services_get:
  "obj_get k (fold (\<lambda>s acc. fold (push_service s) (svc_middleware_template_ids s) acc) ss acc) =
   map_option (\<lambda>xs. xs @ concat (map (\<lambda>s. replicate (count_list (svc_middleware_template_ids s) k) s) ss)) (obj_get k acc)"
proof (induction ss arbitrary: acc)
  case Nil
  show ?case by (simp add: option.map_ident)
next
  case (Cons s ss)
  then show ?case by (simp add: push_service_get option.map_comp comp_def)
qed

lemma replicate_count:
  "distinct ids \<Longrightarrow> replicate (count_list ids k) s = (if k \<in> set ids then [s] else [])"
  by (induction ids) (auto simp: count_list_0_iff)

lemma concat_replicate_filter:
  assumes "list_all (\<lambda>s. distinct (ids s)) ss"
  shows "concat (map (\<lambda>s. replicate (count_list (ids s) k) s) ss) = filter (\<lambda>s. k \<in> set (ids s)) ss"
  using assms by (induction ss) (simp_all add: replicate_count)

text \<open>Under each template the page lists the services that use it, in the order of the service
  list and each once, when no service names a template twice; opening the assignment dialog selects
  exactly these services.\<close>

theorem applied_services_correct:
  assumes "t \<in> set ts" and "list_all (\<lambda>s. distinct (svc_middleware_template_ids s)) ss"
  shows "applied_to (buildAppliedServicesByTemplate ts ss) t =
      filter (\<lambda>s. mt_id t \<in> set (svc_middleware_template_ids s)) ss"
    and "ui_selectedServiceIds (syncAssignmentSelection (buildAppliedServicesByTemplate ts ss) (u\<lparr>ui_assignmentTarget := Some t\<rparr>)) =
      map svc_id (filter (\<lambda>s. mt_id t \<in> set (svc_middleware_template_ids s)) ss)"
proof -
  show a: "applied_to (buildAppliedServicesByTemplate ts ss) t =
      filter (\<lambda>s. mt_id t \<in> set (svc_middleware_template_ids s)) ss"
    using assms
    by (simp add: applied_to_def buildAppliedServicesByTemplate_def push_services_get initial_groups concat_replicate_filter)
  show "ui_selectedServiceIds (syncAssignmentSelection (buildAppliedServicesByTemplate ts ss) (u\<lparr>ui_assignmentTarget := Some t\<rparr>)) =
      map svc_id (filter (\<lambda>s. mt_id t \<in> set (svc_middleware_template_ids s)) ss)"
    by (simp add: syncAssignmentSelection_def a)
qed

section \<open>Names in the runtime\<close>

definition generated_suffixes :: "string list" where
  "generated_suffixes =
     [''-ipallowlist@file'', ''-ratelimit@file'', ''-response-headers@file'', ''-frame-policy@file'', ''-block@file'',
      ''-redirectscheme@file'', ''-basicauth@file'', ''-token-auth@file'']"

lemma subseq_distinct: "subseq xs ys \<Longrightarrow> distinct ys \<Longrightarrow> distinct xs"
  by (induction rule: list_emb.induct) (auto dest: list_emb_set)

lemma access_names:
  "subseq (map gm_runtimeName (registerAccessMiddlewares s n (register rm con)))
     ([n @ ''-ipallowlist@file''] @ [n @ ''-ratelimit@file''])"
  unfolding registerAccessMiddlewares_def map_append
  by (rule list_emb_append_mono) (simp_all add: register_def split: bool.split option.split)

lemma security_names:
  "subseq (map gm_runtimeName (registerSecurityMiddlewares s n (register rm con)))
     ([n @ ''-response-headers@file''] @ [n @ ''-frame-policy@file''] @ [n @ ''-block@file''] @ [n @ ''-redirectscheme@file''])"
  unfolding registerSecurityMiddlewares_def map_append
  by (intro list_emb_append_mono) (simp_all add: register_def)

lemma auth_names:
  "subseq (map gm_runtimeName (registerAuthMiddlewares s n (register rm con)))
     ([n @ ''-basicauth@file''] @ [n @ ''-token-auth@file''] @ [''authentik@file''])"
  unfolding registerAuthMiddlewares_def map_append
  by (intro list_emb_append_mono) (simp_all add: register_def)

lemma generated_names_subseq:
  "subseq (map gm_runtimeName (buildGeneratedMiddlewareItems s rm con))
     (map ((@) (toGeneratedMiddlewareSafeName (svc_domain s))) generated_suffixes @ [''authentik@file''])"
  using list_emb_append_mono [OF access_names list_emb_append_mono [OF security_names auth_names],
      of s "toGeneratedMiddlewareSafeName (svc_domain s)" rm con s "toGeneratedMiddlewareSafeName (svc_domain s)" rm con
        s "toGeneratedMiddlewareSafeName (svc_domain s)" rm con]
  by (simp add: buildGeneratedMiddlewareItems_def Let_def generated_suffixes_def)

lemma all_names_distinct: "distinct (map ((@) n) generated_suffixes @ [''authentik@file''])"
proof -
  have "distinct generated_suffixes" by (simp add: generated_suffixes_def)
  then have d: "distinct (map ((@) n) generated_suffixes)" by (simp add: distinct_map inj_on_def)
  have "list_all (\<lambda>x. CHR ''-'' \<in> set (n @ x)) generated_suffixes" by (simp add: generated_suffixes_def)
  then have "CHR ''-'' \<in> set (n @ x)" if "x \<in> set generated_suffixes" for x using that by (auto simp: list_all_iff)
  moreover have "CHR ''-'' \<notin> set ''authentik@file''" by simp
  ultimately have "''authentik@file'' \<noteq> n @ x" if "x \<in> set generated_suffixes" for x using that by metis
  then have "''authentik@file'' \<notin> set (map ((@) n) generated_suffixes)" by auto
  then show ?thesis using d by simp
qed

lemma register_status:
  "list_all (\<lambda>i. gm_status i = mapRuntimeStatus (rm (gm_runtimeName i)) con) (registerAccessMiddlewares s n (register rm con))"
  "list_all (\<lambda>i. gm_status i = mapRuntimeStatus (rm (gm_runtimeName i)) con) (registerSecurityMiddlewares s n (register rm con))"
  "list_all (\<lambda>i. gm_status i = mapRuntimeStatus (rm (gm_runtimeName i)) con) (registerAuthMiddlewares s n (register rm con))"
  by (simp_all add: registerAccessMiddlewares_def registerSecurityMiddlewares_def registerAuthMiddlewares_def register_def
      split: option.split bool.split)

text \<open>The middlewares that a service generates have pairwise different runtime names, and each
  shows the status of the runtime entry of its name.\<close>

theorem generated_names_distinct:
  "let items = buildGeneratedMiddlewareItems s rm con
   in distinct (map gm_runtimeName items) \<and>
      list_all (\<lambda>i. gm_status i = mapRuntimeStatus (rm (gm_runtimeName i)) con) items"
proof -
  have "distinct (map gm_runtimeName (buildGeneratedMiddlewareItems s rm con))"
    using generated_names_subseq all_names_distinct by (rule subseq_distinct)
  then show ?thesis by (simp add: Let_def buildGeneratedMiddlewareItems_def register_status)
qed

text \<open>Two domains may share their runtime names: a dot, an underscore and a hyphen are one character
  of the name.\<close>

lemma safe_name_collision:
  "toGeneratedMiddlewareSafeName ''app.dev-example.org'' = toGeneratedMiddlewareSafeName ''app-dev.example.org''"
  by (simp add: toGeneratedMiddlewareSafeName_def)

section \<open>The query string\<close>

interpretation mwt: enum_codec template_filter_text TEMPLATE_FILTERS
proof
  fix x y show "template_filter_text x = template_filter_text y \<Longrightarrow> x = y" by (cases x; cases y) simp_all
  show "x \<in> set TEMPLATE_FILTERS" by (cases x) (simp_all add: TEMPLATE_FILTERS_def)
qed

interpretation mwg: enum_codec generated_filter_text GENERATED_FILTERS
proof
  fix x y show "generated_filter_text x = generated_filter_text y \<Longrightarrow> x = y" by (cases x; cases y) simp_all
  show "x \<in> set GENERATED_FILTERS" by (cases x) (simp_all add: GENERATED_FILTERS_def)
qed

text \<open>The part of the state that belongs to the open tab, with the search trimmed.\<close>

definition open_tab :: "MiddlewarePageUrlState \<Rightarrow> MiddlewarePageUrlState" where
  "open_tab st =
     (case us_activeTab st of
        TabGenerated \<Rightarrow> st\<lparr>us_generatedSearch := js_trim (us_generatedSearch st), us_templateSearch := [], us_templateStatusFilter := TfAll\<rparr>
      | TabTemplates \<Rightarrow> st\<lparr>us_templateSearch := js_trim (us_templateSearch st), us_generatedSearch := [], us_generatedStatusFilter := GfAll\<rparr>)"

lemma stored_default: "default_to [] (if v = [] then None else Some v) = v"
  by (simp add: default_to_def)

lemma mw_read_replace: "readMiddlewarePageUrlState (replaceMiddlewarePageUrl st l) = open_tab st"
proof (cases "us_activeTab st")
  case TabGenerated
  then show ?thesis
    using mwg.read_stored [of GfAll "us_generatedStatusFilter st"]
    by (intro MiddlewarePageUrlState.equality)
      (simp_all add: readMiddlewarePageUrlState_def replaceMiddlewarePageUrl_def replace_get open_tab_def Let_def stored_default)
next
  case TabTemplates
  then show ?thesis
    using mwt.read_stored [of TfAll "us_templateStatusFilter st"]
    by (intro MiddlewarePageUrlState.equality)
      (simp_all add: readMiddlewarePageUrlState_def replaceMiddlewarePageUrl_def replace_get open_tab_def Let_def stored_default)
qed

text \<open>When the page has read the address, any change of the tab, the searches and the filters is
  written back by the effect, so that a reload of the address shows the same tab with the same
  (trimmed) search and the same filter; writing again what was read changes nothing, and the other
  tab starts from its defaults.\<close>

theorem middleware_page_reload:
  "let u = (mountEffect l0 u0)\<lparr>ui_url := st\<rparr>; l1 = urlEffect u l
   in ui_url (mountEffect l1 initial_mw_ui) = open_tab st \<and>
      readMiddlewarePageUrlState (urlEffect (mountEffect l1 initial_mw_ui) l1) = open_tab st"
proof -
  have t: "js_trim (js_trim x) = js_trim x" for x by simp
  have "open_tab (open_tab st) = open_tab st" by (cases "us_activeTab st") (simp_all add: open_tab_def)
  then show ?thesis by (simp add: Let_def mountEffect_def applyUrlState_def urlEffect_def mw_read_replace)
qed

section \<open>Selection of services\<close>

lemma toggle_twice:
  assumes "distinct (ui_selectedServiceIds u)"
  shows "set (ui_selectedServiceIds (toggleServiceSelection i (toggleServiceSelection i u))) = set (ui_selectedServiceIds u)"
    and "distinct (ui_selectedServiceIds (toggleServiceSelection i u))"
  using assms by (auto simp: toggleServiceSelection_def)

end
