(* ===== verification/Settings_Card.thy ===== *)
theory Settings_Card
  imports Smoke_Tracking Middleware_Form
begin

text \<open>
  The editing cards of the settings page.  Every hook \<open>use...SettingsModel\<close> under
  \<open>app/dashboard/settings\<close> keeps the same three state variables and the same life: \<open>handleEdit\<close>
  fills the form from the loaded settings, \<open>handleSave\<close> sends what the form says and, when the
  answer arrives, closes the card with a notice or shows the error.  This theory holds the state of
  a card, the parts of the handlers that all hooks share, and their interleaving: the request is in
  flight while the user goes on clicking, with the save button disabled.

  The locale \<open>settings_form\<close> is the contract between a hook and its card: the form of loaded settings,
  sent unchanged, is the settings as stored.  \<open>Settings_Models\<close> interprets it for every hook.
\<close>

section \<open>Shared functions\<close>

text \<open>\<open>features/settings/lib/settingsErrors.ts\<close>, \<open>settingsModelErrors.ts\<close>.\<close>

record SettingsActionTestResult =
  at_success :: bool
  at_message :: string
  at_detail :: "string option"
  at_provider :: "string option"

definition buildActionFailure :: "string \<Rightarrow> string option \<Rightarrow> SettingsActionTestResult" where
  "buildActionFailure message detail =
     \<lparr>at_success = False, at_message = message, at_detail = or_null detail, at_provider = None\<rparr>"

definition getSettingsModelErrorMessage :: "api_error \<Rightarrow> string \<Rightarrow> string" where
  "getSettingsModelErrorMessage e fallback = getApiErrorDetail e fallback"

text \<open>\<open>features/settings/lib/settingsFormHelpers.ts\<close>.\<close>

definition parseMultivalueText :: "string \<Rightarrow> string list" where
  "parseMultivalueText v = entry_list v"

section \<open>State and handlers\<close>

text \<open>
  \<open>cd_flight\<close> is the form that the pending \<open>handleSave\<close> has captured.  \<open>cd_sent\<close> and
  \<open>cd_toasts\<close> are the requests and notices so far.
\<close>

record ('f, 'p) card =
  cd_isEditing :: bool
  cd_formValue :: 'f
  cd_errorMessage :: string
  cd_flight :: "'f option"
  cd_sent :: "'p list"
  cd_toasts :: "ToastNoticeValue list"

definition card_init :: "'f \<Rightarrow> ('f, 'p) card" where
  "card_init f =
     \<lparr>cd_isEditing = False, cd_formValue = f, cd_errorMessage = [], cd_flight = None, cd_sent = [], cd_toasts = []\<rparr>"

definition card_edit :: "'f \<Rightarrow> ('f, 'p) card \<Rightarrow> ('f, 'p) card" where
  "card_edit f s = s\<lparr>cd_formValue := f, cd_errorMessage := [], cd_isEditing := True\<rparr>"

definition card_cancel :: "('f, 'p) card \<Rightarrow> ('f, 'p) card" where
  "card_cancel s = s\<lparr>cd_isEditing := False\<rparr>"

definition card_change :: "'f \<Rightarrow> ('f, 'p) card \<Rightarrow> ('f, 'p) card" where
  "card_change f s = s\<lparr>cd_formValue := f\<rparr>"

text \<open>\<open>handleSave\<close> up to \<open>await mutateAsync(payload)\<close>, and after it; the answer itself is not used.\<close>

definition card_send :: "('f \<Rightarrow> 'p) \<Rightarrow> ('f, 'p) card \<Rightarrow> ('f, 'p) card" where
  "card_send payload s =
     s\<lparr>cd_errorMessage := [], cd_flight := Some (cd_formValue s), cd_sent := cd_sent s @ [payload (cd_formValue s)]\<rparr>"

definition card_settle ::
    "('f \<Rightarrow> ToastNoticeValue) \<Rightarrow> string \<Rightarrow> api_error + unit \<Rightarrow> ('f, 'p) card \<Rightarrow> ('f, 'p) card" where
  "card_settle notice fallback answer s =
     (case cd_flight s of
        None \<Rightarrow> s
      | Some f \<Rightarrow>
          let s1 = s\<lparr>cd_flight := None\<rparr>
          in (case answer of
               Inr _ \<Rightarrow> s1\<lparr>cd_toasts := cd_toasts s1 @ [notice f], cd_isEditing := False\<rparr>
             | Inl e \<Rightarrow> s1\<lparr>cd_errorMessage := getSettingsModelErrorMessage e fallback\<rparr>))"

section \<open>The life of a card\<close>

text \<open>
  The edit button is shown to administrators while the card is closed, the fields and the two
  buttons while it is open; saving is disabled while a request is pending.  \<open>allowed\<close> is what
  \<open>handleSave\<close> checks before it sends; a form that is refused shows \<open>refused\<close>, and a
  save that asks first may be declined.
\<close>

inductive card_reach ::
    "bool \<Rightarrow> ('s option \<Rightarrow> 'f) \<Rightarrow> ('f \<Rightarrow> bool) \<Rightarrow> string \<Rightarrow> ('f \<Rightarrow> 'p) \<Rightarrow> ('f \<Rightarrow> ToastNoticeValue) \<Rightarrow> string \<Rightarrow> 'f
     \<Rightarrow> ('f, 'p) card \<Rightarrow> bool"
  for canManage form_of allowed refused payload notice fallback f0 where
  start: "card_reach canManage form_of allowed refused payload notice fallback f0 (card_init f0)"
| edit: "card_reach canManage form_of allowed refused payload notice fallback f0 s \<Longrightarrow> canManage \<Longrightarrow> \<not> cd_isEditing s
    \<Longrightarrow> card_reach canManage form_of allowed refused payload notice fallback f0 (card_edit (form_of settings) s)"
| cancel: "card_reach canManage form_of allowed refused payload notice fallback f0 s \<Longrightarrow> cd_isEditing s
    \<Longrightarrow> card_reach canManage form_of allowed refused payload notice fallback f0 (card_cancel s)"
| change: "card_reach canManage form_of allowed refused payload notice fallback f0 s \<Longrightarrow> cd_isEditing s
    \<Longrightarrow> card_reach canManage form_of allowed refused payload notice fallback f0 (card_change f s)"
| send: "card_reach canManage form_of allowed refused payload notice fallback f0 s \<Longrightarrow> cd_isEditing s
    \<Longrightarrow> cd_flight s = None \<Longrightarrow> allowed (cd_formValue s)
    \<Longrightarrow> card_reach canManage form_of allowed refused payload notice fallback f0 (card_send payload s)"
| refuse: "card_reach canManage form_of allowed refused payload notice fallback f0 s \<Longrightarrow> cd_isEditing s
    \<Longrightarrow> cd_flight s = None \<Longrightarrow> \<not> allowed (cd_formValue s)
    \<Longrightarrow> card_reach canManage form_of allowed refused payload notice fallback f0 (s\<lparr>cd_errorMessage := refused\<rparr>)"
| decline: "card_reach canManage form_of allowed refused payload notice fallback f0 s \<Longrightarrow> cd_isEditing s
    \<Longrightarrow> cd_flight s = None
    \<Longrightarrow> card_reach canManage form_of allowed refused payload notice fallback f0 (s\<lparr>cd_errorMessage := []\<rparr>)"
| settle: "card_reach canManage form_of allowed refused payload notice fallback f0 s
    \<Longrightarrow> card_reach canManage form_of allowed refused payload notice fallback f0 (card_settle notice fallback answer s)"

text \<open>
  What holds of every card: only an administrator sends anything, and only forms that the check
  admits; the pending request is the last one sent; there are never more notices of success than
  answered requests; while a request is pending no error is shown.
\<close>

definition card_inv :: "bool \<Rightarrow> ('f \<Rightarrow> bool) \<Rightarrow> ('f \<Rightarrow> 'p) \<Rightarrow> ('f \<Rightarrow> ToastNoticeValue) \<Rightarrow> ('f, 'p) card \<Rightarrow> bool" where
  "card_inv canManage allowed payload notice s =
     ((cd_isEditing s \<or> cd_flight s \<noteq> None \<or> cd_sent s \<noteq> [] \<longrightarrow> canManage) \<and>
      set (cd_sent s) \<subseteq> payload ` {f. allowed f} \<and>
      (\<forall>f. cd_flight s = Some f \<longrightarrow> allowed f \<and> cd_sent s \<noteq> [] \<and> last (cd_sent s) = payload f \<and> cd_errorMessage s = []) \<and>
      length (cd_toasts s) + (if cd_flight s = None then 0 else 1) \<le> length (cd_sent s) \<and>
      set (cd_toasts s) \<subseteq> notice ` {f. allowed f})"

lemma card_inv_init: "card_inv canManage allowed payload notice (card_init f)"
  by (simp add: card_inv_def card_init_def)

lemma card_inv_send:
  "card_inv canManage allowed payload notice s \<Longrightarrow> cd_isEditing s \<Longrightarrow> cd_flight s = None \<Longrightarrow> allowed (cd_formValue s) \<Longrightarrow>
   card_inv canManage allowed payload notice (card_send payload s)"
  by (auto simp: card_inv_def card_send_def)

lemma card_inv_settle:
  assumes "card_inv canManage allowed payload notice s"
  shows "card_inv canManage allowed payload notice (card_settle notice fallback answer s)"
proof (cases "cd_flight s")
  case None
  then show ?thesis using assms by (simp add: card_settle_def)
next
  case (Some f)
  then show ?thesis using assms by (cases answer) (auto simp: card_inv_def card_settle_def)
qed

lemma card_reach_inv:
  "card_reach canManage form_of allowed refused payload notice fallback f0 s \<Longrightarrow> card_inv canManage allowed payload notice s"
proof (induction rule: card_reach.induct)
  case start
  show ?case by (rule card_inv_init)
next
  case (edit s settings)
  then show ?case by (auto simp: card_inv_def card_edit_def)
next
  case (cancel s)
  then show ?case by (auto simp: card_inv_def card_cancel_def)
next
  case (change s f)
  then show ?case by (auto simp: card_inv_def card_change_def)
next
  case (send s)
  then show ?case by (auto intro: card_inv_send)
next
  case (refuse s)
  then show ?case by (auto simp: card_inv_def)
next
  case (decline s)
  then show ?case by (auto simp: card_inv_def)
next
  case (settle s answer)
  then show ?case by (auto intro: card_inv_settle)
qed

section \<open>The contract of a settings form\<close>

locale settings_form =
  fixes form_of :: "'s option \<Rightarrow> 'f"
    and payload :: "'f \<Rightarrow> 'p"
    and stored :: "'s \<Rightarrow> 'p"
    and clean :: "'s \<Rightarrow> bool"
    and defaults :: 'f
  assumes edit_keeps: "clean s \<Longrightarrow> payload (form_of (Some s)) = stored s"
    and no_settings: "form_of None = defaults"
begin

text \<open>Opening the card and saving at once, also after a failed attempt, sends the stored settings.\<close>

lemma unchanged_save:
  assumes "clean s"
  shows "cd_sent (card_send payload (card_edit (form_of (Some s)) c)) = cd_sent c @ [stored s]"
    and "cd_sent (card_send payload (card_settle notice fallback (Inl e) (card_send payload (card_edit (form_of (Some s)) c))))
      = cd_sent c @ [stored s, stored s]"
  using edit_keeps [OF assms] by (simp_all add: card_send_def card_edit_def card_settle_def)

text \<open>When the settings could not be loaded, the form opens with the defaults, and saving it sends them.\<close>

lemma unloaded_save: "cd_sent (card_send payload (card_edit (form_of None) c)) = cd_sent c @ [payload defaults]"
  by (simp add: card_send_def card_edit_def no_settings)

lemma reopened: "clean s \<Longrightarrow> payload (cd_formValue (card_edit (form_of (Some s)) c)) = stored s"
  by (simp add: card_edit_def edit_keeps)

end

text \<open>The outcome of a save: a notice and a closed card, or the error and the form as it was.\<close>

lemma save_outcome:
  assumes "cd_flight s = None"
  shows "card_settle notice fallback (Inr r) (card_send payload s) =
      s\<lparr>cd_errorMessage := [], cd_sent := cd_sent s @ [payload (cd_formValue s)],
        cd_toasts := cd_toasts s @ [notice (cd_formValue s)], cd_isEditing := False\<rparr>"
    and "card_settle notice fallback (Inl e) (card_send payload s) =
      s\<lparr>cd_errorMessage := getApiErrorDetail e fallback, cd_sent := cd_sent s @ [payload (cd_formValue s)]\<rparr>"
  using assms by (simp_all add: card_settle_def card_send_def getSettingsModelErrorMessage_def)

text \<open>An answer that arrives after the card was cancelled and opened again closes it.\<close>

lemma late_answer_closes:
  assumes "cd_flight s = None"
  shows "\<not> cd_isEditing (card_settle notice fallback (Inr r) (card_change g (card_edit f (card_cancel (card_send payload s)))))"
    and "cd_formValue (card_settle notice fallback (Inr r) (card_change g (card_edit f (card_cancel (card_send payload s))))) = g"
  by (simp_all add: card_settle_def card_send_def card_change_def card_edit_def card_cancel_def)

end
