(* ===== verification/Ui_Text_Settings.thy ===== *)
theory Ui_Text_Settings
  imports Main
begin

text \<open>
  The Korean texts of the settings page, as UTF-8 byte lists.  Each name says in English what
  the text says.
\<close>

definition txt_st_ar_saved :: string where
  "txt_st_ar_saved =
     [CHR 0xEA, CHR 0xB0, CHR 0x90, CHR 0xEC, CHR 0x82, CHR 0xAC, CHR 0x20, CHR 0xEB, CHR 0xA1,
      CHR 0x9C, CHR 0xEA, CHR 0xB7, CHR 0xB8, CHR 0x20, CHR 0xEB, CHR 0xB3, CHR 0xB4, CHR 0xEC,
      CHR 0xA1, CHR 0xB4, CHR 0x20, CHR 0xEC, CHR 0xA0, CHR 0x95, CHR 0xEC, CHR 0xB1, CHR 0x85,
      CHR 0x20, CHR 0xEC, CHR 0xA0, CHR 0x80, CHR 0xEC, CHR 0x9E, CHR 0xA5, CHR 0x20, CHR 0xEC,
      CHR 0x99, CHR 0x84, CHR 0xEB, CHR 0xA3, CHR 0x8C]"

definition txt_st_ar_d1 :: string where
  "txt_st_ar_d1 =
     [CHR 0xEC, CHR 0x9D, CHR 0xBC, CHR 0xEC, CHR 0x9D, CHR 0xB4, CHR 0x20, CHR 0xEC, CHR 0xA7,
      CHR 0x80, CHR 0xEB, CHR 0x82, CHR 0x9C, CHR 0x20, CHR 0xEB, CHR 0xA1, CHR 0x9C, CHR 0xEA,
      CHR 0xB7, CHR 0xB8, CHR 0xEB, CHR 0xA5, CHR 0xBC, CHR 0x20]"

definition txt_st_ar_d2 :: string where
  "txt_st_ar_d2 =
     [CHR 0xEC, CHR 0x95, CHR 0x84, CHR 0xEC, CHR 0xB9, CHR 0xB4, CHR 0xEC, CHR 0x9D, CHR 0xB4,
      CHR 0xEB, CHR 0xB8, CHR 0x8C, CHR 0x20, CHR 0xED, CHR 0x9B, CHR 0x84, CHR 0x20]"

definition txt_st_ar_d3 :: string where
  "txt_st_ar_d3 =
     [CHR 0xEC, CHR 0xA0, CHR 0x95, CHR 0xEB, CHR 0xA6, CHR 0xAC, CHR 0xED, CHR 0x95, CHR 0xA9,
      CHR 0xEB, CHR 0x8B, CHR 0x88, CHR 0xEB, CHR 0x8B, CHR 0xA4, CHR 0x2E]"

definition txt_st_ar_fail :: string where
  "txt_st_ar_fail =
     [CHR 0xEA, CHR 0xB0, CHR 0x90, CHR 0xEC, CHR 0x82, CHR 0xAC, CHR 0x20, CHR 0xEB, CHR 0xA1,
      CHR 0x9C, CHR 0xEA, CHR 0xB7, CHR 0xB8, CHR 0x20, CHR 0xEB, CHR 0xB3, CHR 0xB4, CHR 0xEC,
      CHR 0xA1, CHR 0xB4, CHR 0x20, CHR 0xEC, CHR 0xA0, CHR 0x95, CHR 0xEC, CHR 0xB1, CHR 0x85,
      CHR 0x20, CHR 0xEC, CHR 0xA0, CHR 0x80, CHR 0xEC, CHR 0x9E, CHR 0xA5, CHR 0xEC, CHR 0x97,
      CHR 0x90, CHR 0x20, CHR 0xEC, CHR 0x8B, CHR 0xA4, CHR 0xED, CHR 0x8C, CHR 0xA8, CHR 0xED,
      CHR 0x96, CHR 0x88, CHR 0xEC, CHR 0x8A, CHR 0xB5, CHR 0xEB, CHR 0x8B, CHR 0x88, CHR 0xEB,
      CHR 0x8B, CHR 0xA4]"

definition txt_st_cl_done :: string where
  "txt_st_cl_done =
     [CHR 0xEA, CHR 0xB0, CHR 0x90, CHR 0xEC, CHR 0x82, CHR 0xAC, CHR 0x20, CHR 0xEB, CHR 0xA1,
      CHR 0x9C, CHR 0xEA, CHR 0xB7, CHR 0xB8, CHR 0x20, CHR 0xEC, CHR 0xA0, CHR 0x95, CHR 0xEB,
      CHR 0xA6, CHR 0xAC, CHR 0x20, CHR 0xEC, CHR 0x99, CHR 0x84, CHR 0xEB, CHR 0xA3, CHR 0x8C]"

definition txt_st_cl_d1 :: string where
  "txt_st_cl_d1 =
     [CHR 0xEA, CHR 0xB1, CHR 0xB4, CHR 0x20, CHR 0xEC, CHR 0x95, CHR 0x84, CHR 0xEC, CHR 0xB9,
      CHR 0xB4, CHR 0xEC, CHR 0x9D, CHR 0xB4, CHR 0xEB, CHR 0xB8, CHR 0x8C, CHR 0x2C, CHR 0x20]"

definition txt_st_cl_d2 :: string where
  "txt_st_cl_d2 =
     [CHR 0xEA, CHR 0xB1, CHR 0xB4, CHR 0x20, CHR 0xEC, CHR 0x82, CHR 0xAD, CHR 0xEC, CHR 0xA0,
      CHR 0x9C, CHR 0xED, CHR 0x96, CHR 0x88, CHR 0xEC, CHR 0x8A, CHR 0xB5, CHR 0xEB, CHR 0x8B,
      CHR 0x88, CHR 0xEB, CHR 0x8B, CHR 0xA4, CHR 0x2E]"

definition txt_st_cl_fail :: string where
  "txt_st_cl_fail =
     [CHR 0xEA, CHR 0xB0, CHR 0x90, CHR 0xEC, CHR 0x82, CHR 0xAC, CHR 0x20, CHR 0xEB, CHR 0xA1,
      CHR 0x9C, CHR 0xEA, CHR 0xB7, CHR 0xB8, CHR 0x20, CHR 0xEC, CHR 0xA0, CHR 0x95, CHR 0xEB,
      CHR 0xA6, CHR 0xAC, CHR 0x20, CHR 0xEC, CHR 0x8B, CHR 0xA4, CHR 0xED, CHR 0x8C, CHR 0xA8]"

definition txt_st_cl_fail_d :: string where
  "txt_st_cl_fail_d =
     [CHR 0xEB, CHR 0xB3, CHR 0xB4, CHR 0xEC, CHR 0xA1, CHR 0xB4, CHR 0x20, CHR 0xEC, CHR 0xA0,
      CHR 0x95, CHR 0xEC, CHR 0xB1, CHR 0x85, CHR 0xEC, CHR 0x9D, CHR 0x84, CHR 0x20, CHR 0xEC,
      CHR 0x8B, CHR 0xA4, CHR 0xED, CHR 0x96, CHR 0x89, CHR 0xED, CHR 0x95, CHR 0x98, CHR 0xEC,
      CHR 0xA7, CHR 0x80, CHR 0x20, CHR 0xEB, CHR 0xAA, CHR 0xBB, CHR 0xED, CHR 0x96, CHR 0x88,
      CHR 0xEC, CHR 0x8A, CHR 0xB5, CHR 0xEB, CHR 0x8B, CHR 0x88, CHR 0xEB, CHR 0x8B, CHR 0xA4]"

definition txt_st_rs_ask :: string where
  "txt_st_rs_ask =
     [CHR 0xEC, CHR 0x9D, CHR 0x84, CHR 0x20, CHR 0xEB, CHR 0xB3, CHR 0xB5, CHR 0xEC, CHR 0x9B,
      CHR 0x90, CHR 0xED, CHR 0x95, CHR 0x98, CHR 0xEC, CHR 0x8B, CHR 0x9C, CHR 0xEA, CHR 0xB2,
      CHR 0xA0, CHR 0xEC, CHR 0x8A, CHR 0xB5, CHR 0xEB, CHR 0x8B, CHR 0x88, CHR 0xEA, CHR 0xB9,
      CHR 0x8C, CHR 0x3F, CHR 0x20, CHR 0xEC, CHR 0x9D, CHR 0xB4, CHR 0xEB, CHR 0xAF, CHR 0xB8,
      CHR 0x20, CHR 0xEC, CHR 0xA1, CHR 0xB4, CHR 0xEC, CHR 0x9E, CHR 0xAC, CHR 0xED, CHR 0x95,
      CHR 0x98, CHR 0xEB, CHR 0x8A, CHR 0x94, CHR 0x20, CHR 0xEA, CHR 0xB0, CHR 0x90, CHR 0xEC,
      CHR 0x82, CHR 0xAC, CHR 0x20, CHR 0xEB, CHR 0xA1, CHR 0x9C, CHR 0xEA, CHR 0xB7, CHR 0xB8,
      CHR 0xEB, CHR 0x8A, CHR 0x94, CHR 0x20, CHR 0xEB, CHR 0xB3, CHR 0x80, CHR 0xEA, CHR 0xB2,
      CHR 0xBD, CHR 0xED, CHR 0x95, CHR 0x98, CHR 0xEC, CHR 0xA7, CHR 0x80, CHR 0x20, CHR 0xEC,
      CHR 0x95, CHR 0x8A, CHR 0xEC, CHR 0x8A, CHR 0xB5, CHR 0xEB, CHR 0x8B, CHR 0x88, CHR 0xEB,
      CHR 0x8B, CHR 0xA4, CHR 0x2E]"

definition txt_st_rs_done :: string where
  "txt_st_rs_done =
     [CHR 0xEA, CHR 0xB0, CHR 0x90, CHR 0xEC, CHR 0x82, CHR 0xAC, CHR 0x20, CHR 0xEB, CHR 0xA1,
      CHR 0x9C, CHR 0xEA, CHR 0xB7, CHR 0xB8, CHR 0x20, CHR 0xEC, CHR 0x95, CHR 0x84, CHR 0xEC,
      CHR 0xB9, CHR 0xB4, CHR 0xEC, CHR 0x9D, CHR 0xB4, CHR 0xEB, CHR 0xB8, CHR 0x8C, CHR 0x20,
      CHR 0xEB, CHR 0xB3, CHR 0xB5, CHR 0xEC, CHR 0x9B, CHR 0x90, CHR 0x20, CHR 0xEC, CHR 0x99,
      CHR 0x84, CHR 0xEB, CHR 0xA3, CHR 0x8C]"

definition txt_st_rs_d1 :: string where
  "txt_st_rs_d1 =
     [CHR 0xEA, CHR 0xB1, CHR 0xB4, CHR 0x20, CHR 0xEB, CHR 0xB3, CHR 0xB5, CHR 0xEC, CHR 0x9B,
      CHR 0x90, CHR 0x2C, CHR 0x20]"

definition txt_st_rs_d2 :: string where
  "txt_st_rs_d2 =
     [CHR 0xEA, CHR 0xB1, CHR 0xB4, CHR 0x20, CHR 0xEA, CHR 0xB1, CHR 0xB4, CHR 0xEB, CHR 0x84,
      CHR 0x88, CHR 0xEB, CHR 0x9B, CHR 0xB0, CHR 0xEC, CHR 0x97, CHR 0x88, CHR 0xEC, CHR 0x8A,
      CHR 0xB5, CHR 0xEB, CHR 0x8B, CHR 0x88, CHR 0xEB, CHR 0x8B, CHR 0xA4, CHR 0x2E]"

definition txt_st_rs_fail :: string where
  "txt_st_rs_fail =
     [CHR 0xEA, CHR 0xB0, CHR 0x90, CHR 0xEC, CHR 0x82, CHR 0xAC, CHR 0x20, CHR 0xEB, CHR 0xA1,
      CHR 0x9C, CHR 0xEA, CHR 0xB7, CHR 0xB8, CHR 0x20, CHR 0xEC, CHR 0x95, CHR 0x84, CHR 0xEC,
      CHR 0xB9, CHR 0xB4, CHR 0xEC, CHR 0x9D, CHR 0xB4, CHR 0xEB, CHR 0xB8, CHR 0x8C, CHR 0x20,
      CHR 0xEB, CHR 0xB3, CHR 0xB5, CHR 0xEC, CHR 0x9B, CHR 0x90, CHR 0x20, CHR 0xEC, CHR 0x8B,
      CHR 0xA4, CHR 0xED, CHR 0x8C, CHR 0xA8]"

definition txt_st_rs_fail_d :: string where
  "txt_st_rs_fail_d =
     [CHR 0xEC, CHR 0x95, CHR 0x84, CHR 0xEC, CHR 0xB9, CHR 0xB4, CHR 0xEC, CHR 0x9D, CHR 0xB4,
      CHR 0xEB, CHR 0xB8, CHR 0x8C, CHR 0xEB, CHR 0xA5, CHR 0xBC, CHR 0x20, CHR 0xEB, CHR 0xB3,
      CHR 0xB5, CHR 0xEC, CHR 0x9B, CHR 0x90, CHR 0xED, CHR 0x95, CHR 0x98, CHR 0xEC, CHR 0xA7,
      CHR 0x80, CHR 0x20, CHR 0xEB, CHR 0xAA, CHR 0xBB, CHR 0xED, CHR 0x96, CHR 0x88, CHR 0xEC,
      CHR 0x8A, CHR 0xB5, CHR 0xEB, CHR 0x8B, CHR 0x88, CHR 0xEB, CHR 0x8B, CHR 0xA4]"

definition txt_st_cd_saved :: string where
  "txt_st_cd_saved =
     [CHR 0xEC, CHR 0x9D, CHR 0xB8, CHR 0xEC, CHR 0xA6, CHR 0x9D, CHR 0xEC, CHR 0x84, CHR 0x9C,
      CHR 0x20, CHR 0xEC, CHR 0xA7, CHR 0x84, CHR 0xEB, CHR 0x8B, CHR 0xA8, CHR 0x20, CHR 0xEC,
      CHR 0x84, CHR 0xA4, CHR 0xEC, CHR 0xA0, CHR 0x95, CHR 0x20, CHR 0xEC, CHR 0xA0, CHR 0x80,
      CHR 0xEC, CHR 0x9E, CHR 0xA5, CHR 0x20, CHR 0xEC, CHR 0x99, CHR 0x84, CHR 0xEB, CHR 0xA3,
      CHR 0x8C]"

definition txt_st_cd_d1 :: string where
  "txt_st_cd_d1 =
     [CHR 0xEC, CHR 0x9E, CHR 0x90, CHR 0xEB, CHR 0x8F, CHR 0x99, CHR 0x20, CHR 0xEC, CHR 0x9E,
      CHR 0xAC, CHR 0xEA, CHR 0xB2, CHR 0x80, CHR 0xEC, CHR 0x82, CHR 0xAC, CHR 0x20, CHR 0xEC,
      CHR 0xA3, CHR 0xBC, CHR 0xEA, CHR 0xB8, CHR 0xB0, CHR 0x20]"

definition txt_st_cd_d2 :: string where
  "txt_st_cd_d2 =
     [CHR 0xEB, CHR 0xB6, CHR 0x84, CHR 0x2C, CHR 0x20, CHR 0xEB, CHR 0xB0, CHR 0x98, CHR 0xEB,
      CHR 0xB3, CHR 0xB5, CHR 0x20, CHR 0xEC, CHR 0x8B, CHR 0xA4, CHR 0xED, CHR 0x8C, CHR 0xA8,
      CHR 0x20]"

definition txt_st_cd_d3 :: string where
  "txt_st_cd_d3 =
     [CHR 0xED, CHR 0x9A, CHR 0x8C, CHR 0x20, CHR 0xEA, CHR 0xB8, CHR 0xB0, CHR 0xEC, CHR 0xA4,
      CHR 0x80, CHR 0xEC, CHR 0x9E, CHR 0x85, CHR 0xEB, CHR 0x8B, CHR 0x88, CHR 0xEB, CHR 0x8B,
      CHR 0xA4, CHR 0x2E]"

definition txt_st_cd_fail :: string where
  "txt_st_cd_fail =
     [CHR 0xEC, CHR 0x9D, CHR 0xB8, CHR 0xEC, CHR 0xA6, CHR 0x9D, CHR 0xEC, CHR 0x84, CHR 0x9C,
      CHR 0x20, CHR 0xEC, CHR 0xA7, CHR 0x84, CHR 0xEB, CHR 0x8B, CHR 0xA8, CHR 0x20, CHR 0xEC,
      CHR 0x84, CHR 0xA4, CHR 0xEC, CHR 0xA0, CHR 0x95, CHR 0x20, CHR 0xEC, CHR 0xA0, CHR 0x80,
      CHR 0xEC, CHR 0x9E, CHR 0xA5, CHR 0xEC, CHR 0x97, CHR 0x90, CHR 0x20, CHR 0xEC, CHR 0x8B,
      CHR 0xA4, CHR 0xED, CHR 0x8C, CHR 0xA8, CHR 0xED, CHR 0x96, CHR 0x88, CHR 0xEC, CHR 0x8A,
      CHR 0xB5, CHR 0xEB, CHR 0x8B, CHR 0x88, CHR 0xEB, CHR 0x8B, CHR 0xA4]"

definition txt_st_td_saved :: string where
  "txt_st_td_saved =
     [CHR 0x54, CHR 0x72, CHR 0x61, CHR 0x65, CHR 0x66, CHR 0x69, CHR 0x6B, CHR 0x20, CHR 0xEB,
      CHR 0x94, CHR 0x94, CHR 0xEB, CHR 0xB2, CHR 0x84, CHR 0xEA, CHR 0xB7, CHR 0xB8, CHR 0x20,
      CHR 0xEB, CHR 0x8C, CHR 0x80, CHR 0xEC, CHR 0x8B, CHR 0x9C, CHR 0xEB, CHR 0xB3, CHR 0xB4,
      CHR 0xEB, CHR 0x93, CHR 0x9C, CHR 0x20, CHR 0xEC, CHR 0x84, CHR 0xA4, CHR 0xEC, CHR 0xA0,
      CHR 0x95, CHR 0x20, CHR 0xEC, CHR 0xA0, CHR 0x80, CHR 0xEC, CHR 0x9E, CHR 0xA5, CHR 0x20,
      CHR 0xEC, CHR 0x99, CHR 0x84, CHR 0xEB, CHR 0xA3, CHR 0x8C]"

definition txt_st_td_on :: string where
  "txt_st_td_on =
     [CHR 0x20, CHR 0xEA, CHR 0xB3, CHR 0xB5, CHR 0xEA, CHR 0xB0, CHR 0x9C, CHR 0x20, CHR 0xEB,
      CHR 0x9D, CHR 0xBC, CHR 0xEC, CHR 0x9A, CHR 0xB0, CHR 0xED, CHR 0x8A, CHR 0xB8, CHR 0xEA,
      CHR 0xB0, CHR 0x80, CHR 0x20, CHR 0xEC, CHR 0xA0, CHR 0x81, CHR 0xEC, CHR 0x9A, CHR 0xA9,
      CHR 0xEB, CHR 0x90, CHR 0xA9, CHR 0xEB, CHR 0x8B, CHR 0x88, CHR 0xEB, CHR 0x8B, CHR 0xA4,
      CHR 0x2E]"

definition txt_st_td_off :: string where
  "txt_st_td_off =
     [CHR 0xEA, CHR 0xB3, CHR 0xB5, CHR 0xEA, CHR 0xB0, CHR 0x9C, CHR 0x20, CHR 0xEB, CHR 0x9D,
      CHR 0xBC, CHR 0xEC, CHR 0x9A, CHR 0xB0, CHR 0xED, CHR 0x8A, CHR 0xB8, CHR 0xEA, CHR 0xB0,
      CHR 0x80, CHR 0x20, CHR 0xEB, CHR 0xB9, CHR 0x84, CHR 0xED, CHR 0x99, CHR 0x9C, CHR 0xEC,
      CHR 0x84, CHR 0xB1, CHR 0xED, CHR 0x99, CHR 0x94, CHR 0xEB, CHR 0x90, CHR 0xA9, CHR 0xEB,
      CHR 0x8B, CHR 0x88, CHR 0xEB, CHR 0x8B, CHR 0xA4, CHR 0x2E]"

definition txt_st_td_fail :: string where
  "txt_st_td_fail =
     [CHR 0x54, CHR 0x72, CHR 0x61, CHR 0x65, CHR 0x66, CHR 0x69, CHR 0x6B, CHR 0x20, CHR 0xEB,
      CHR 0x94, CHR 0x94, CHR 0xEB, CHR 0xB2, CHR 0x84, CHR 0xEA, CHR 0xB7, CHR 0xB8, CHR 0x20,
      CHR 0xEB, CHR 0x8C, CHR 0x80, CHR 0xEC, CHR 0x8B, CHR 0x9C, CHR 0xEB, CHR 0xB3, CHR 0xB4,
      CHR 0xEB, CHR 0x93, CHR 0x9C, CHR 0x20, CHR 0xEC, CHR 0x84, CHR 0xA4, CHR 0xEC, CHR 0xA0,
      CHR 0x95, CHR 0x20, CHR 0xEC, CHR 0xA0, CHR 0x80, CHR 0xEC, CHR 0x9E, CHR 0xA5, CHR 0xEC,
      CHR 0x97, CHR 0x90, CHR 0x20, CHR 0xEC, CHR 0x8B, CHR 0xA4, CHR 0xED, CHR 0x8C, CHR 0xA8,
      CHR 0xED, CHR 0x96, CHR 0x88, CHR 0xEC, CHR 0x8A, CHR 0xB5, CHR 0xEB, CHR 0x8B, CHR 0x88,
      CHR 0xEB, CHR 0x8B, CHR 0xA4]"

definition txt_st_ld_saved :: string where
  "txt_st_ld_saved =
     [CHR 0xEB, CHR 0xA1, CHR 0x9C, CHR 0xEA, CHR 0xB7, CHR 0xB8, CHR 0xEC, CHR 0x9D, CHR 0xB8,
      CHR 0x20, CHR 0xEB, CHR 0xB0, CHR 0xA9, CHR 0xEC, CHR 0x96, CHR 0xB4, CHR 0x20, CHR 0xEC,
      CHR 0x84, CHR 0xA4, CHR 0xEC, CHR 0xA0, CHR 0x95, CHR 0x20, CHR 0xEC, CHR 0xA0, CHR 0x80,
      CHR 0xEC, CHR 0x9E, CHR 0xA5, CHR 0x20, CHR 0xEC, CHR 0x99, CHR 0x84, CHR 0xEB, CHR 0xA3,
      CHR 0x8C]"

definition txt_st_ld_d1 :: string where
  "txt_st_ld_d1 =
     [CHR 0xEB, CHR 0xB0, CHR 0x98, CHR 0xEB, CHR 0xB3, CHR 0xB5, CHR 0x20, CHR 0xEC, CHR 0x8B,
      CHR 0xA4, CHR 0xED, CHR 0x8C, CHR 0xA8, CHR 0x20, CHR 0x49, CHR 0x50, CHR 0x20, CHR 0xEC,
      CHR 0xB0, CHR 0xA8, CHR 0xEB, CHR 0x8B, CHR 0xA8, CHR 0x20]"

definition txt_st_ld_on :: string where
  "txt_st_ld_on =
     [CHR 0xED, CHR 0x99, CHR 0x9C, CHR 0xEC, CHR 0x84, CHR 0xB1, CHR 0xED, CHR 0x99, CHR 0x94]"

definition txt_st_ld_off :: string where
  "txt_st_ld_off =
     [CHR 0xEB, CHR 0xB9, CHR 0x84, CHR 0xED, CHR 0x99, CHR 0x9C, CHR 0xEC, CHR 0x84, CHR 0xB1,
      CHR 0xED, CHR 0x99, CHR 0x94]"

definition txt_st_ld_d3 :: string where
  "txt_st_ld_d3 =
     [CHR 0x20, CHR 0xEB, CHR 0xAA, CHR 0xA8, CHR 0xEB, CHR 0x93, CHR 0x9C, CHR 0xEC, CHR 0x9E,
      CHR 0x85, CHR 0xEB, CHR 0x8B, CHR 0x88, CHR 0xEB, CHR 0x8B, CHR 0xA4, CHR 0x2E]"

definition txt_st_ld_fail :: string where
  "txt_st_ld_fail =
     [CHR 0xEB, CHR 0xA1, CHR 0x9C, CHR 0xEA, CHR 0xB7, CHR 0xB8, CHR 0xEC, CHR 0x9D, CHR 0xB8,
      CHR 0x20, CHR 0xEB, CHR 0xB0, CHR 0xA9, CHR 0xEC, CHR 0x96, CHR 0xB4, CHR 0x20, CHR 0xEC,
      CHR 0x84, CHR 0xA4, CHR 0xEC, CHR 0xA0, CHR 0x95, CHR 0x20, CHR 0xEC, CHR 0xA0, CHR 0x80,
      CHR 0xEC, CHR 0x9E, CHR 0xA5, CHR 0xEC, CHR 0x97, CHR 0x90, CHR 0x20, CHR 0xEC, CHR 0x8B,
      CHR 0xA4, CHR 0xED, CHR 0x8C, CHR 0xA8, CHR 0xED, CHR 0x96, CHR 0x88, CHR 0xEC, CHR 0x8A,
      CHR 0xB5, CHR 0xEB, CHR 0x8B, CHR 0x88, CHR 0xEB, CHR 0x8B, CHR 0xA4]"

definition txt_st_us_saved :: string where
  "txt_st_us_saved =
     [CHR 0xEC, CHR 0x97, CHR 0x85, CHR 0xEC, CHR 0x8A, CHR 0xA4, CHR 0xED, CHR 0x8A, CHR 0xB8,
      CHR 0xEB, CHR 0xA6, CHR 0xBC, CHR 0x20, CHR 0xEB, CHR 0xB3, CHR 0xB4, CHR 0xEC, CHR 0x95,
      CHR 0x88, CHR 0x20, CHR 0xEC, CHR 0x84, CHR 0xA4, CHR 0xEC, CHR 0xA0, CHR 0x95, CHR 0x20,
      CHR 0xEC, CHR 0xA0, CHR 0x80, CHR 0xEC, CHR 0x9E, CHR 0xA5, CHR 0x20, CHR 0xEC, CHR 0x99,
      CHR 0x84, CHR 0xEB, CHR 0xA3, CHR 0x8C]"

definition txt_st_us_on :: string where
  "txt_st_us_on =
     [CHR 0x44, CHR 0x4E, CHR 0x53, CHR 0x20, CHR 0x73, CHR 0x74, CHR 0x72, CHR 0x69, CHR 0x63,
      CHR 0x74, CHR 0x20, CHR 0x6D, CHR 0x6F, CHR 0x64, CHR 0x65, CHR 0xEA, CHR 0xB0, CHR 0x80,
      CHR 0x20, CHR 0xED, CHR 0x99, CHR 0x9C, CHR 0xEC, CHR 0x84, CHR 0xB1, CHR 0xED, CHR 0x99,
      CHR 0x94, CHR 0xEB, CHR 0x90, CHR 0x90, CHR 0xEC, CHR 0x8A, CHR 0xB5, CHR 0xEB, CHR 0x8B,
      CHR 0x88, CHR 0xEB, CHR 0x8B, CHR 0xA4, CHR 0x2E]"

definition txt_st_us_off :: string where
  "txt_st_us_off =
     [CHR 0x44, CHR 0x4E, CHR 0x53, CHR 0x20, CHR 0x73, CHR 0x74, CHR 0x72, CHR 0x69, CHR 0x63,
      CHR 0x74, CHR 0x20, CHR 0x6D, CHR 0x6F, CHR 0x64, CHR 0x65, CHR 0xEA, CHR 0xB0, CHR 0x80,
      CHR 0x20, CHR 0xEB, CHR 0xB9, CHR 0x84, CHR 0xED, CHR 0x99, CHR 0x9C, CHR 0xEC, CHR 0x84,
      CHR 0xB1, CHR 0xED, CHR 0x99, CHR 0x94, CHR 0xEB, CHR 0x90, CHR 0x90, CHR 0xEC, CHR 0x8A,
      CHR 0xB5, CHR 0xEB, CHR 0x8B, CHR 0x88, CHR 0xEB, CHR 0x8B, CHR 0xA4, CHR 0x2E]"

definition txt_st_us_fail :: string where
  "txt_st_us_fail =
     [CHR 0xEC, CHR 0x97, CHR 0x85, CHR 0xEC, CHR 0x8A, CHR 0xA4, CHR 0xED, CHR 0x8A, CHR 0xB8,
      CHR 0xEB, CHR 0xA6, CHR 0xBC, CHR 0x20, CHR 0xEB, CHR 0xB3, CHR 0xB4, CHR 0xEC, CHR 0x95,
      CHR 0x88, CHR 0x20, CHR 0xEC, CHR 0x84, CHR 0xA4, CHR 0xEC, CHR 0xA0, CHR 0x95, CHR 0x20,
      CHR 0xEC, CHR 0xA0, CHR 0x80, CHR 0xEC, CHR 0x9E, CHR 0xA5, CHR 0xEC, CHR 0x97, CHR 0x90,
      CHR 0x20, CHR 0xEC, CHR 0x8B, CHR 0xA4, CHR 0xED, CHR 0x8C, CHR 0xA8, CHR 0xED, CHR 0x96,
      CHR 0x88, CHR 0xEC, CHR 0x8A, CHR 0xB5, CHR 0xEB, CHR 0x8B, CHR 0x88, CHR 0xEB, CHR 0x8B,
      CHR 0xA4]"

definition txt_st_ti_saved :: string where
  "txt_st_ti_saved =
     [CHR 0xEC, CHR 0x8B, CHR 0x9C, CHR 0xEA, CHR 0xB0, CHR 0x84, CHR 0x20, CHR 0xED, CHR 0x91,
      CHR 0x9C, CHR 0xEC, CHR 0x8B, CHR 0x9C, CHR 0x20, CHR 0xEC, CHR 0x84, CHR 0xA4, CHR 0xEC,
      CHR 0xA0, CHR 0x95, CHR 0x20, CHR 0xEC, CHR 0xA0, CHR 0x80, CHR 0xEC, CHR 0x9E, CHR 0xA5,
      CHR 0x20, CHR 0xEC, CHR 0x99, CHR 0x84, CHR 0xEB, CHR 0xA3, CHR 0x8C]"

definition txt_st_ti_d :: string where
  "txt_st_ti_d =
     [CHR 0x20, CHR 0xEA, CHR 0xB8, CHR 0xB0, CHR 0xEC, CHR 0xA4, CHR 0x80, CHR 0xEC, CHR 0x9C,
      CHR 0xBC, CHR 0xEB, CHR 0xA1, CHR 0x9C, CHR 0x20, CHR 0xED, CHR 0x99, CHR 0x94, CHR 0xEB,
      CHR 0xA9, CHR 0xB4, CHR 0x20, CHR 0xEC, CHR 0x8B, CHR 0x9C, CHR 0xEA, CHR 0xB0, CHR 0x84,
      CHR 0xEC, CHR 0x9D, CHR 0xB4, CHR 0x20, CHR 0xED, CHR 0x91, CHR 0x9C, CHR 0xEC, CHR 0x8B,
      CHR 0x9C, CHR 0xEB, CHR 0x90, CHR 0xA9, CHR 0xEB, CHR 0x8B, CHR 0x88, CHR 0xEB, CHR 0x8B,
      CHR 0xA4, CHR 0x2E]"

definition txt_st_ti_fail :: string where
  "txt_st_ti_fail =
     [CHR 0xED, CHR 0x91, CHR 0x9C, CHR 0xEC, CHR 0x8B, CHR 0x9C, CHR 0x20, CHR 0xEC, CHR 0x8B,
      CHR 0x9C, CHR 0xEA, CHR 0xB0, CHR 0x84, CHR 0xEB, CHR 0x8C, CHR 0x80, CHR 0x20, CHR 0xEC,
      CHR 0xA0, CHR 0x80, CHR 0xEC, CHR 0x9E, CHR 0xA5, CHR 0xEC, CHR 0x97, CHR 0x90, CHR 0x20,
      CHR 0xEC, CHR 0x8B, CHR 0xA4, CHR 0xED, CHR 0x8C, CHR 0xA8, CHR 0xED, CHR 0x96, CHR 0x88,
      CHR 0xEC, CHR 0x8A, CHR 0xB5, CHR 0xEB, CHR 0x8B, CHR 0x88, CHR 0xEB, CHR 0x8B, CHR 0xA4]"

definition txt_st_sa_saved :: string where
  "txt_st_sa_saved =
     [CHR 0xEB, CHR 0xB3, CHR 0xB4, CHR 0xEC, CHR 0x95, CHR 0x88, CHR 0x20, CHR 0xEC, CHR 0x95,
      CHR 0x8C, CHR 0xEB, CHR 0xA6, CHR 0xBC, CHR 0x20, CHR 0xEC, CHR 0x84, CHR 0xA4, CHR 0xEC,
      CHR 0xA0, CHR 0x95, CHR 0x20, CHR 0xEC, CHR 0xA0, CHR 0x80, CHR 0xEC, CHR 0x9E, CHR 0xA5,
      CHR 0x20, CHR 0xEC, CHR 0x99, CHR 0x84, CHR 0xEB, CHR 0xA3, CHR 0x8C]"

definition txt_st_sa_d :: string where
  "txt_st_sa_d =
     [CHR 0xEC, CHR 0xA0, CHR 0x80, CHR 0xEC, CHR 0x9E, CHR 0xA5, CHR 0xEB, CHR 0x90, CHR 0x9C,
      CHR 0x20, CHR 0xEC, CHR 0xB1, CHR 0x84, CHR 0xEB, CHR 0x84, CHR 0x90, CHR 0xEA, CHR 0xB3,
      CHR 0xBC, CHR 0x20, CHR 0xEC, CHR 0x9D, CHR 0xB4, CHR 0xEB, CHR 0xB2, CHR 0xA4, CHR 0xED,
      CHR 0x8A, CHR 0xB8, CHR 0xEB, CHR 0xB3, CHR 0x84, CHR 0x20, CHR 0xEB, CHR 0x9D, CHR 0xBC,
      CHR 0xEC, CHR 0x9A, CHR 0xB0, CHR 0xED, CHR 0x8C, CHR 0x85, CHR 0x20, CHR 0xEC, CHR 0xA0,
      CHR 0x95, CHR 0xEC, CHR 0xB1, CHR 0x85, CHR 0xEC, CHR 0x9D, CHR 0xB4, CHR 0x20, CHR 0xEB,
      CHR 0x8B, CHR 0xA4, CHR 0xEC, CHR 0x9D, CHR 0x8C, CHR 0x20, CHR 0xEC, CHR 0x95, CHR 0x8C,
      CHR 0xEB, CHR 0xA6, CHR 0xBC, CHR 0xEB, CHR 0xB6, CHR 0x80, CHR 0xED, CHR 0x84, CHR 0xB0,
      CHR 0x20, CHR 0xEC, CHR 0xA0, CHR 0x81, CHR 0xEC, CHR 0x9A, CHR 0xA9, CHR 0xEB, CHR 0x90,
      CHR 0xA9, CHR 0xEB, CHR 0x8B, CHR 0x88, CHR 0xEB, CHR 0x8B, CHR 0xA4, CHR 0x2E]"

definition txt_st_sa_fail :: string where
  "txt_st_sa_fail =
     [CHR 0xEB, CHR 0xB3, CHR 0xB4, CHR 0xEC, CHR 0x95, CHR 0x88, CHR 0x20, CHR 0xEC, CHR 0x95,
      CHR 0x8C, CHR 0xEB, CHR 0xA6, CHR 0xBC, CHR 0x20, CHR 0xEC, CHR 0x84, CHR 0xA4, CHR 0xEC,
      CHR 0xA0, CHR 0x95, CHR 0x20, CHR 0xEC, CHR 0xA0, CHR 0x80, CHR 0xEC, CHR 0x9E, CHR 0xA5,
      CHR 0xEC, CHR 0x97, CHR 0x90, CHR 0x20, CHR 0xEC, CHR 0x8B, CHR 0xA4, CHR 0xED, CHR 0x8C,
      CHR 0xA8, CHR 0xED, CHR 0x96, CHR 0x88, CHR 0xEC, CHR 0x8A, CHR 0xB5, CHR 0xEB, CHR 0x8B,
      CHR 0x88, CHR 0xEB, CHR 0x8B, CHR 0xA4]"

definition txt_st_sa_test :: string where
  "txt_st_sa_test =
     [CHR 0xED, CHR 0x85, CHR 0x8C, CHR 0xEC, CHR 0x8A, CHR 0xA4, CHR 0xED, CHR 0x8A, CHR 0xB8,
      CHR 0x20, CHR 0xEB, CHR 0xB3, CHR 0xB4, CHR 0xEC, CHR 0x95, CHR 0x88, CHR 0x20, CHR 0xEC,
      CHR 0x95, CHR 0x8C, CHR 0xEB, CHR 0xA6, CHR 0xBC, CHR 0x20, CHR 0xEC, CHR 0xA0, CHR 0x84,
      CHR 0xEC, CHR 0x86, CHR 0xA1, CHR 0xEC, CHR 0x97, CHR 0x90, CHR 0x20, CHR 0xEC, CHR 0x8B,
      CHR 0xA4, CHR 0xED, CHR 0x8C, CHR 0xA8, CHR 0xED, CHR 0x96, CHR 0x88, CHR 0xEC, CHR 0x8A,
      CHR 0xB5, CHR 0xEB, CHR 0x8B, CHR 0x88, CHR 0xEB, CHR 0x8B, CHR 0xA4]"

definition txt_st_request :: string where
  "txt_st_request =
     [CHR 0xEC, CHR 0x9A, CHR 0x94, CHR 0xEC, CHR 0xB2, CHR 0xAD, CHR 0x20, CHR 0xEC, CHR 0xB2,
      CHR 0x98, CHR 0xEB, CHR 0xA6, CHR 0xAC, CHR 0x20, CHR 0xEC, CHR 0xA4, CHR 0x91, CHR 0x20,
      CHR 0xEC, CHR 0x98, CHR 0xA4, CHR 0xEB, CHR 0xA5, CHR 0x98, CHR 0xEA, CHR 0xB0, CHR 0x80,
      CHR 0x20, CHR 0xEB, CHR 0xB0, CHR 0x9C, CHR 0xEC, CHR 0x83, CHR 0x9D, CHR 0xED, CHR 0x96,
      CHR 0x88, CHR 0xEC, CHR 0x8A, CHR 0xB5, CHR 0xEB, CHR 0x8B, CHR 0x88, CHR 0xEB, CHR 0x8B,
      CHR 0xA4]"

definition txt_st_retry :: string where
  "txt_st_retry =
     [CHR 0xEC, CHR 0x95, CHR 0x8C, CHR 0xEB, CHR 0xA6, CHR 0xBC, CHR 0x20, CHR 0xEC, CHR 0xA0,
      CHR 0x84, CHR 0xEC, CHR 0x86, CHR 0xA1, CHR 0x20, CHR 0xEC, CHR 0x9E, CHR 0xAC, CHR 0xEC,
      CHR 0x8B, CHR 0x9C, CHR 0xEB, CHR 0x8F, CHR 0x84, CHR 0xEC, CHR 0x97, CHR 0x90, CHR 0x20,
      CHR 0xEC, CHR 0x8B, CHR 0xA4, CHR 0xED, CHR 0x8C, CHR 0xA8, CHR 0xED, CHR 0x96, CHR 0x88,
      CHR 0xEC, CHR 0x8A, CHR 0xB5, CHR 0xEB, CHR 0x8B, CHR 0x88, CHR 0xEB, CHR 0x8B, CHR 0xA4]"

definition txt_st_cf_saved :: string where
  "txt_st_cf_saved =
     [CHR 0x43, CHR 0x6C, CHR 0x6F, CHR 0x75, CHR 0x64, CHR 0x66, CHR 0x6C, CHR 0x61, CHR 0x72,
      CHR 0x65, CHR 0x20, CHR 0x44, CHR 0x4E, CHR 0x53, CHR 0x20, CHR 0xEC, CHR 0x84, CHR 0xA4,
      CHR 0xEC, CHR 0xA0, CHR 0x95, CHR 0x20, CHR 0xEC, CHR 0xA0, CHR 0x80, CHR 0xEC, CHR 0x9E,
      CHR 0xA5, CHR 0x20, CHR 0xEC, CHR 0x99, CHR 0x84, CHR 0xEB, CHR 0xA3, CHR 0x8C]"

definition txt_st_cf_d :: string where
  "txt_st_cf_d =
     [CHR 0xEA, CHR 0xB0, CHR 0x9C, CHR 0x20, CHR 0x7A, CHR 0x6F, CHR 0x6E, CHR 0x65, CHR 0x20,
      CHR 0xEC, CHR 0x84, CHR 0xA4, CHR 0xEC, CHR 0xA0, CHR 0x95, CHR 0xEC, CHR 0x9D, CHR 0xB4,
      CHR 0x20, CHR 0xEC, CHR 0xA0, CHR 0x80, CHR 0xEC, CHR 0x9E, CHR 0xA5, CHR 0xEB, CHR 0x90,
      CHR 0x90, CHR 0xEC, CHR 0x8A, CHR 0xB5, CHR 0xEB, CHR 0x8B, CHR 0x88, CHR 0xEB, CHR 0x8B,
      CHR 0xA4, CHR 0x2E]"

definition txt_st_cf_fail :: string where
  "txt_st_cf_fail =
     [CHR 0x43, CHR 0x6C, CHR 0x6F, CHR 0x75, CHR 0x64, CHR 0x66, CHR 0x6C, CHR 0x61, CHR 0x72,
      CHR 0x65, CHR 0x20, CHR 0xEC, CHR 0x84, CHR 0xA4, CHR 0xEC, CHR 0xA0, CHR 0x95, CHR 0x20,
      CHR 0xEC, CHR 0xA0, CHR 0x80, CHR 0xEC, CHR 0x9E, CHR 0xA5, CHR 0xEC, CHR 0x97, CHR 0x90,
      CHR 0x20, CHR 0xEC, CHR 0x8B, CHR 0xA4, CHR 0xED, CHR 0x8C, CHR 0xA8, CHR 0xED, CHR 0x96,
      CHR 0x88, CHR 0xEC, CHR 0x8A, CHR 0xB5, CHR 0xEB, CHR 0x8B, CHR 0x88, CHR 0xEB, CHR 0x8B,
      CHR 0xA4]"

definition txt_st_cf_test :: string where
  "txt_st_cf_test =
     [CHR 0x43, CHR 0x6C, CHR 0x6F, CHR 0x75, CHR 0x64, CHR 0x66, CHR 0x6C, CHR 0x61, CHR 0x72,
      CHR 0x65, CHR 0x20, CHR 0xEC, CHR 0x97, CHR 0xB0, CHR 0xEA, CHR 0xB2, CHR 0xB0, CHR 0x20,
      CHR 0xED, CHR 0x85, CHR 0x8C, CHR 0xEC, CHR 0x8A, CHR 0xA4, CHR 0xED, CHR 0x8A, CHR 0xB8,
      CHR 0xEC, CHR 0x97, CHR 0x90, CHR 0x20, CHR 0xEC, CHR 0x8B, CHR 0xA4, CHR 0xED, CHR 0x8C,
      CHR 0xA8, CHR 0xED, CHR 0x96, CHR 0x88, CHR 0xEC, CHR 0x8A, CHR 0xB5, CHR 0xEB, CHR 0x8B,
      CHR 0x88, CHR 0xEB, CHR 0x8B, CHR 0xA4]"

definition txt_st_cf_recon :: string where
  "txt_st_cf_recon =
     [CHR 0x43, CHR 0x6C, CHR 0x6F, CHR 0x75, CHR 0x64, CHR 0x66, CHR 0x6C, CHR 0x61, CHR 0x72,
      CHR 0x65, CHR 0x20, CHR 0x44, CHR 0x4E, CHR 0x53, CHR 0x20, CHR 0xEC, CHR 0x9E, CHR 0xAC,
      CHR 0xEB, CHR 0x8F, CHR 0x99, CHR 0xEA, CHR 0xB8, CHR 0xB0, CHR 0xED, CHR 0x99, CHR 0x94,
      CHR 0xEC, CHR 0x97, CHR 0x90, CHR 0x20, CHR 0xEC, CHR 0x8B, CHR 0xA4, CHR 0xED, CHR 0x8C,
      CHR 0xA8, CHR 0xED, CHR 0x96, CHR 0x88, CHR 0xEC, CHR 0x8A, CHR 0xB5, CHR 0xEB, CHR 0x8B,
      CHR 0x88, CHR 0xEB, CHR 0x8B, CHR 0xA4]"

definition txt_st_cf_drift :: string where
  "txt_st_cf_drift =
     [CHR 0x43, CHR 0x6C, CHR 0x6F, CHR 0x75, CHR 0x64, CHR 0x66, CHR 0x6C, CHR 0x61, CHR 0x72,
      CHR 0x65, CHR 0x20, CHR 0x44, CHR 0x4E, CHR 0x53, CHR 0x20, CHR 0xEB, CHR 0x93, CHR 0x9C,
      CHR 0xEB, CHR 0xA6, CHR 0xAC, CHR 0xED, CHR 0x94, CHR 0x84, CHR 0xED, CHR 0x8A, CHR 0xB8,
      CHR 0x20, CHR 0xEC, CHR 0xA7, CHR 0x84, CHR 0xEB, CHR 0x8B, CHR 0xA8, CHR 0xEC, CHR 0x97,
      CHR 0x90, CHR 0x20, CHR 0xEC, CHR 0x8B, CHR 0xA4, CHR 0xED, CHR 0x8C, CHR 0xA8, CHR 0xED,
      CHR 0x96, CHR 0x88, CHR 0xEC, CHR 0x8A, CHR 0xB5, CHR 0xEB, CHR 0x8B, CHR 0x88, CHR 0xEB,
      CHR 0x8B, CHR 0xA4]"

definition txt_st_bn_saved :: string where
  "txt_st_bn_saved =
     [CHR 0xEB, CHR 0xB0, CHR 0xB0, CHR 0xED, CHR 0x8F, CHR 0xAC, CHR 0x20, CHR 0xEB, CHR 0xB3,
      CHR 0x91, CHR 0xEB, CHR 0xAA, CHR 0xA9, CHR 0x20, CHR 0xEC, CHR 0x9A, CHR 0xB4, CHR 0xEC,
      CHR 0x98, CHR 0x81, CHR 0x20, CHR 0xEC, CHR 0x95, CHR 0x8C, CHR 0xEB, CHR 0xA6, CHR 0xBC,
      CHR 0x20, CHR 0xEC, CHR 0x84, CHR 0xA4, CHR 0xEC, CHR 0xA0, CHR 0x95, CHR 0x20, CHR 0xEC,
      CHR 0xA0, CHR 0x80, CHR 0xEC, CHR 0x9E, CHR 0xA5, CHR 0x20, CHR 0xEC, CHR 0x99, CHR 0x84,
      CHR 0xEB, CHR 0xA3, CHR 0x8C]"

definition txt_st_bn_d1 :: string where
  "txt_st_bn_d1 =
     [CHR 0xEC, CHR 0xB4, CHR 0x88, CHR 0x20, CHR 0xEC, CHR 0xB4, CHR 0x88, CHR 0xEA, CHR 0xB3,
      CHR 0xBC, CHR 0xEA, CHR 0xB0, CHR 0x80, CHR 0x20]"

definition txt_st_bn_d2 :: string where
  "txt_st_bn_d2 =
     [CHR 0xED, CHR 0x9A, CHR 0x8C, CHR 0x20, CHR 0xEC, CHR 0x97, CHR 0xB0, CHR 0xEC, CHR 0x86,
      CHR 0x8D, CHR 0xEB, CHR 0x90, CHR 0x98, CHR 0xEB, CHR 0xA9, CHR 0xB4, CHR 0x20, CHR 0xEC,
      CHR 0x95, CHR 0x8C, CHR 0xEB, CHR 0xA6, CHR 0xBC, CHR 0xEC, CHR 0x9D, CHR 0x84, CHR 0x20,
      CHR 0xEC, CHR 0x9A, CHR 0x94, CHR 0xEC, CHR 0xB2, CHR 0xAD, CHR 0xED, CHR 0x95, CHR 0x98,
      CHR 0xEA, CHR 0xB3, CHR 0xA0, CHR 0x20, CHR 0xEC, CHR 0x9D, CHR 0xB4, CHR 0xEB, CHR 0xB2,
      CHR 0xA4, CHR 0xED, CHR 0x8A, CHR 0xB8, CHR 0xEB, CHR 0x8A, CHR 0x94, CHR 0x20]"

definition txt_st_bn_d3 :: string where
  "txt_st_bn_d3 =
     [CHR 0xEC, CHR 0x9D, CHR 0xBC, CHR 0x20, CHR 0xEB, CHR 0xB3, CHR 0xB4, CHR 0xEA, CHR 0xB4,
      CHR 0x80, CHR 0xED, CHR 0x95, CHR 0xA9, CHR 0xEB, CHR 0x8B, CHR 0x88, CHR 0xEB, CHR 0x8B,
      CHR 0xA4, CHR 0x2E]"

definition txt_st_bn_fail :: string where
  "txt_st_bn_fail =
     [CHR 0xEB, CHR 0xB0, CHR 0xB0, CHR 0xED, CHR 0x8F, CHR 0xAC, CHR 0x20, CHR 0xEB, CHR 0xB3,
      CHR 0x91, CHR 0xEB, CHR 0xAA, CHR 0xA9, CHR 0x20, CHR 0xEC, CHR 0x9A, CHR 0xB4, CHR 0xEC,
      CHR 0x98, CHR 0x81, CHR 0x20, CHR 0xEC, CHR 0x95, CHR 0x8C, CHR 0xEB, CHR 0xA6, CHR 0xBC,
      CHR 0x20, CHR 0xEC, CHR 0x84, CHR 0xA4, CHR 0xEC, CHR 0xA0, CHR 0x95, CHR 0x20, CHR 0xEC,
      CHR 0xA0, CHR 0x80, CHR 0xEC, CHR 0x9E, CHR 0xA5, CHR 0xEC, CHR 0x97, CHR 0x90, CHR 0x20,
      CHR 0xEC, CHR 0x8B, CHR 0xA4, CHR 0xED, CHR 0x8C, CHR 0xA8, CHR 0xED, CHR 0x96, CHR 0x88,
      CHR 0xEC, CHR 0x8A, CHR 0xB5, CHR 0xEB, CHR 0x8B, CHR 0x88, CHR 0xEB, CHR 0x8B, CHR 0xA4]"

definition txt_st_bn_threshold :: string where
  "txt_st_bn_threshold =
     [CHR 0xEB, CHR 0x8B, CHR 0xA8, CHR 0xEA, CHR 0xB3, CHR 0x84, CHR 0x20, CHR 0xEC, CHR 0x86,
      CHR 0x8C, CHR 0xEC, CHR 0x9A, CHR 0x94, CHR 0x20, CHR 0xEA, CHR 0xB8, CHR 0xB0, CHR 0xEC,
      CHR 0xA4, CHR 0x80]"

definition txt_st_bn_consecutive :: string where
  "txt_st_bn_consecutive =
     [CHR 0xEC, CHR 0x97, CHR 0xB0, CHR 0xEC, CHR 0x86, CHR 0x8D, CHR 0x20, CHR 0xEA, CHR 0xB0,
      CHR 0x90, CHR 0xEC, CHR 0xA7, CHR 0x80, CHR 0x20, CHR 0xEA, CHR 0xB8, CHR 0xB0, CHR 0xEC,
      CHR 0xA4, CHR 0x80]"

definition txt_st_bn_retention :: string where
  "txt_st_bn_retention =
     [CHR 0xEC, CHR 0x9D, CHR 0xB4, CHR 0xEB, CHR 0xB2, CHR 0xA4, CHR 0xED, CHR 0x8A, CHR 0xB8,
      CHR 0x20, CHR 0xEB, CHR 0xB3, CHR 0xB4, CHR 0xEA, CHR 0xB4, CHR 0x80, CHR 0x20, CHR 0xEA,
      CHR 0xB8, CHR 0xB0, CHR 0xEA, CHR 0xB0, CHR 0x84]"

definition txt_st_bc_check :: string where
  "txt_st_bc_check =
     [CHR 0xEB, CHR 0xB0, CHR 0xB0, CHR 0xED, CHR 0x8F, CHR 0xAC, CHR 0x20, CHR 0xEB, CHR 0xB3,
      CHR 0x91, CHR 0xEB, CHR 0xAA, CHR 0xA9, CHR 0x20, CHR 0xEC, CHR 0x9D, CHR 0xB4, CHR 0xEB,
      CHR 0xB2, CHR 0xA4, CHR 0xED, CHR 0x8A, CHR 0xB8, CHR 0x20, CHR 0xEC, CHR 0xA0, CHR 0x95,
      CHR 0xEB, CHR 0xA6, CHR 0xAC, CHR 0x20, CHR 0xED, CHR 0x99, CHR 0x95, CHR 0xEC, CHR 0x9D,
      CHR 0xB8, CHR 0x20, CHR 0xEC, CHR 0x8B, CHR 0xA4, CHR 0xED, CHR 0x8C, CHR 0xA8]"

definition txt_st_bc_check_d :: string where
  "txt_st_bc_check_d =
     [CHR 0xEC, CHR 0x82, CHR 0xAD, CHR 0xEC, CHR 0xA0, CHR 0x9C, CHR 0x20, CHR 0xEC, CHR 0x98,
      CHR 0x88, CHR 0xEC, CHR 0xA0, CHR 0x95, CHR 0x20, CHR 0xEC, CHR 0x9D, CHR 0xB4, CHR 0xEB,
      CHR 0xB2, CHR 0xA4, CHR 0xED, CHR 0x8A, CHR 0xB8, CHR 0xEB, CHR 0xA5, CHR 0xBC, CHR 0x20,
      CHR 0xED, CHR 0x99, CHR 0x95, CHR 0xEC, CHR 0x9D, CHR 0xB8, CHR 0xED, CHR 0x95, CHR 0x98,
      CHR 0xEC, CHR 0xA7, CHR 0x80, CHR 0x20, CHR 0xEB, CHR 0xAA, CHR 0xBB, CHR 0xED, CHR 0x96,
      CHR 0x88, CHR 0xEC, CHR 0x8A, CHR 0xB5, CHR 0xEB, CHR 0x8B, CHR 0x88, CHR 0xEB, CHR 0x8B,
      CHR 0xA4]"

definition txt_st_bc_none :: string where
  "txt_st_bc_none =
     [CHR 0xEC, CHR 0xA0, CHR 0x95, CHR 0xEB, CHR 0xA6, CHR 0xAC, CHR 0xED, CHR 0x95, CHR 0xA0,
      CHR 0x20, CHR 0xEB, CHR 0xB0, CHR 0xB0, CHR 0xED, CHR 0x8F, CHR 0xAC, CHR 0x20, CHR 0xEB,
      CHR 0xB3, CHR 0x91, CHR 0xEB, CHR 0xAA, CHR 0xA9, CHR 0x20, CHR 0xEC, CHR 0x9D, CHR 0xB4,
      CHR 0xEB, CHR 0xB2, CHR 0xA4, CHR 0xED, CHR 0x8A, CHR 0xB8, CHR 0x20, CHR 0xEC, CHR 0x97,
      CHR 0x86, CHR 0xEC, CHR 0x9D, CHR 0x8C]"

definition txt_st_bc_period :: string where
  "txt_st_bc_period =
     [CHR 0xEC, CHR 0xA0, CHR 0x81, CHR 0xEC, CHR 0x9A, CHR 0xA9, CHR 0x20, CHR 0xEA, CHR 0xB8,
      CHR 0xB0, CHR 0xEA, CHR 0xB0, CHR 0x84, CHR 0x20]"

definition txt_st_bc_now :: string where
  "txt_st_bc_now =
     [CHR 0xEC, CHR 0x9D, CHR 0xBC, CHR 0x20, CHR 0xC2, CHR 0xB7, CHR 0x20, CHR 0xED, CHR 0x98,
      CHR 0x84, CHR 0xEC, CHR 0x9E, CHR 0xAC, CHR 0x20]"

definition txt_st_bc_kept :: string where
  "txt_st_bc_kept =
     [CHR 0xEA, CHR 0xB1, CHR 0xB4, CHR 0x20, CHR 0xEB, CHR 0xB3, CHR 0xB4, CHR 0xEA, CHR 0xB4,
      CHR 0x80, CHR 0x20, CHR 0xEC, CHR 0xA4, CHR 0x91, CHR 0xEC, CHR 0x9E, CHR 0x85, CHR 0xEB,
      CHR 0x8B, CHR 0x88, CHR 0xEB, CHR 0x8B, CHR 0xA4, CHR 0x2E]"

definition txt_st_bc_ask1 :: string where
  "txt_st_bc_ask1 =
     [CHR 0xEB, CHR 0xB3, CHR 0xB4, CHR 0xEA, CHR 0xB4, CHR 0x80, CHR 0x20, CHR 0xEA, CHR 0xB8,
      CHR 0xB0, CHR 0xEA, CHR 0xB0, CHR 0x84, CHR 0x20]"

definition txt_st_bc_ask2 :: string where
  "txt_st_bc_ask2 =
     [CHR 0xEC, CHR 0x9D, CHR 0xBC, CHR 0xEC, CHR 0x9D, CHR 0x84, CHR 0x20, CHR 0xEC, CHR 0xA0,
      CHR 0x81, CHR 0xEC, CHR 0x9A, CHR 0xA9, CHR 0xED, CHR 0x95, CHR 0x98, CHR 0xEB, CHR 0xA9,
      CHR 0xB4, CHR 0x20]"

definition txt_st_bc_ask3 :: string where
  "txt_st_bc_ask3 =
     [CHR 0xEA, CHR 0xB1, CHR 0xB4, CHR 0xEC, CHR 0x9D, CHR 0x84, CHR 0x20, CHR 0xEC, CHR 0x82,
      CHR 0xAD, CHR 0xEC, CHR 0xA0, CHR 0x9C, CHR 0xED, CHR 0x95, CHR 0x98, CHR 0xEA, CHR 0xB3,
      CHR 0xA0, CHR 0x20]"

definition txt_st_bc_ask4 :: string where
  "txt_st_bc_ask4 =
     [CHR 0xEA, CHR 0xB1, CHR 0xB4, CHR 0xEC, CHR 0x9D, CHR 0x84, CHR 0x20, CHR 0xEB, CHR 0x82,
      CHR 0xA8, CHR 0xEA, CHR 0xB9, CHR 0x81, CHR 0xEB, CHR 0x8B, CHR 0x88, CHR 0xEB, CHR 0x8B,
      CHR 0xA4, CHR 0x2E, CHR 0x20, CHR 0xEA, CHR 0xB3, CHR 0x84, CHR 0xEC, CHR 0x86, CHR 0x8D,
      CHR 0xED, CHR 0x95, CHR 0x98, CHR 0xEC, CHR 0x8B, CHR 0x9C, CHR 0xEA, CHR 0xB2, CHR 0xA0,
      CHR 0xEC, CHR 0x8A, CHR 0xB5, CHR 0xEB, CHR 0x8B, CHR 0x88, CHR 0xEA, CHR 0xB9, CHR 0x8C,
      CHR 0x3F]"

definition txt_st_bc_done :: string where
  "txt_st_bc_done =
     [CHR 0xEB, CHR 0xB0, CHR 0xB0, CHR 0xED, CHR 0x8F, CHR 0xAC, CHR 0x20, CHR 0xEB, CHR 0xB3,
      CHR 0x91, CHR 0xEB, CHR 0xAA, CHR 0xA9, CHR 0x20, CHR 0xEC, CHR 0x9D, CHR 0xB4, CHR 0xEB,
      CHR 0xB2, CHR 0xA4, CHR 0xED, CHR 0x8A, CHR 0xB8, CHR 0x20, CHR 0xEC, CHR 0xA0, CHR 0x95,
      CHR 0xEB, CHR 0xA6, CHR 0xAC, CHR 0x20, CHR 0xEC, CHR 0x99, CHR 0x84, CHR 0xEB, CHR 0xA3,
      CHR 0x8C]"

definition txt_st_bc_d1 :: string where
  "txt_st_bc_d1 =
     [CHR 0xEA, CHR 0xB1, CHR 0xB4, CHR 0x20, CHR 0xEC, CHR 0x82, CHR 0xAD, CHR 0xEC, CHR 0xA0,
      CHR 0x9C, CHR 0x20, CHR 0xC2, CHR 0xB7, CHR 0x20]"

definition txt_st_bc_d2 :: string where
  "txt_st_bc_d2 =
     [CHR 0xEA, CHR 0xB1, CHR 0xB4, CHR 0x20, CHR 0xEB, CHR 0xB3, CHR 0xB4, CHR 0xEA, CHR 0xB4,
      CHR 0x80, CHR 0x20, CHR 0xC2, CHR 0xB7, CHR 0x20]"

definition txt_st_bc_days :: string where
  "txt_st_bc_days =
     [CHR 0xEC, CHR 0x9D, CHR 0xBC]"

definition txt_st_bc_fail :: string where
  "txt_st_bc_fail =
     [CHR 0xEB, CHR 0xB0, CHR 0xB0, CHR 0xED, CHR 0x8F, CHR 0xAC, CHR 0x20, CHR 0xEB, CHR 0xB3,
      CHR 0x91, CHR 0xEB, CHR 0xAA, CHR 0xA9, CHR 0x20, CHR 0xEC, CHR 0x9D, CHR 0xB4, CHR 0xEB,
      CHR 0xB2, CHR 0xA4, CHR 0xED, CHR 0x8A, CHR 0xB8, CHR 0x20, CHR 0xEC, CHR 0xA0, CHR 0x95,
      CHR 0xEB, CHR 0xA6, CHR 0xAC, CHR 0x20, CHR 0xEC, CHR 0x8B, CHR 0xA4, CHR 0xED, CHR 0x8C,
      CHR 0xA8]"

definition txt_st_bc_fail_d :: string where
  "txt_st_bc_fail_d =
     [CHR 0xEB, CHR 0xB3, CHR 0xB4, CHR 0xEA, CHR 0xB4, CHR 0x80, CHR 0x20, CHR 0xEA, CHR 0xB8,
      CHR 0xB0, CHR 0xEA, CHR 0xB0, CHR 0x84, CHR 0x20, CHR 0xEC, CHR 0xA0, CHR 0x95, CHR 0xEB,
      CHR 0xA6, CHR 0xAC, CHR 0xEB, CHR 0xA5, CHR 0xBC, CHR 0x20, CHR 0xEC, CHR 0x88, CHR 0x98,
      CHR 0xED, CHR 0x96, CHR 0x89, CHR 0xED, CHR 0x95, CHR 0x98, CHR 0xEC, CHR 0xA7, CHR 0x80,
      CHR 0x20, CHR 0xEB, CHR 0xAA, CHR 0xBB, CHR 0xED, CHR 0x96, CHR 0x88, CHR 0xEC, CHR 0x8A,
      CHR 0xB5, CHR 0xEB, CHR 0x8B, CHR 0x88, CHR 0xEB, CHR 0x8B, CHR 0xA4]"

definition txt_st_sm_range :: string where
  "txt_st_sm_range =
     [CHR 0xEC, CHR 0x8B, CHR 0xA4, CHR 0xED, CHR 0x8C, CHR 0xA8, CHR 0xEC, CHR 0x9C, CHR 0xA8,
      CHR 0x2C, CHR 0x20, CHR 0xEB, CHR 0xB3, CHR 0xB4, CHR 0xEC, CHR 0xA1, CHR 0xB4, CHR 0x20,
      CHR 0xEA, CHR 0xB1, CHR 0xB4, CHR 0xEC, CHR 0x88, CHR 0x98, CHR 0xEC, CHR 0x99, CHR 0x80,
      CHR 0x20, CHR 0x47, CHR 0x69, CHR 0x74, CHR 0x48, CHR 0x75, CHR 0x62, CHR 0x20, CHR 0x41,
      CHR 0x50, CHR 0x49, CHR 0x20, CHR 0xEA, CHR 0xB2, CHR 0xBD, CHR 0xEA, CHR 0xB3, CHR 0xA0,
      CHR 0x20, CHR 0xEA, CHR 0xB8, CHR 0xB0, CHR 0xEC, CHR 0xA4, CHR 0x80, CHR 0xEC, CHR 0x9D,
      CHR 0x98, CHR 0x20, CHR 0xEC, CHR 0x9E, CHR 0x85, CHR 0xEB, CHR 0xA0, CHR 0xA5, CHR 0x20,
      CHR 0xEB, CHR 0xB2, CHR 0x94, CHR 0xEC, CHR 0x9C, CHR 0x84, CHR 0xEB, CHR 0xA5, CHR 0xBC,
      CHR 0x20, CHR 0xED, CHR 0x99, CHR 0x95, CHR 0xEC, CHR 0x9D, CHR 0xB8, CHR 0xED, CHR 0x95,
      CHR 0xB4, CHR 0xEC, CHR 0xA3, CHR 0xBC, CHR 0xEC, CHR 0x84, CHR 0xB8, CHR 0xEC, CHR 0x9A,
      CHR 0x94, CHR 0x2E]"

definition txt_st_sm_ask1 :: string where
  "txt_st_sm_ask1 =
     [CHR 0xED, CHR 0x98, CHR 0x84, CHR 0xEC, CHR 0x9E, CHR 0xAC, CHR 0x20, CHR 0xEA, CHR 0xB8,
      CHR 0xB0, CHR 0xEC, CHR 0xA4, CHR 0x80, CHR 0xEC, CHR 0x9C, CHR 0xBC, CHR 0xEB, CHR 0xA1,
      CHR 0x9C, CHR 0x20, CHR 0xEC, CHR 0x98, CHR 0xA4, CHR 0xEB, CHR 0x9E, CHR 0x98, CHR 0xEB,
      CHR 0x90, CHR 0x9C, CHR 0x20, CHR 0xEC, CHR 0x8B, CHR 0xA4, CHR 0xED, CHR 0x8C, CHR 0xA8,
      CHR 0x20, CHR 0xEB, CHR 0xB6, CHR 0x84, CHR 0xEB, CHR 0xA5, CHR 0x98, CHR 0x20, CHR 0xEC,
      CHR 0xA0, CHR 0x95, CHR 0xEB, CHR 0xB3, CHR 0xB4, CHR 0x20]"

definition txt_st_sm_ask2 :: string where
  "txt_st_sm_ask2 =
     [CHR 0xEA, CHR 0xB1, CHR 0xB4, CHR 0xEC, CHR 0x9D, CHR 0xB4, CHR 0x20, CHR 0xEC, CHR 0x82,
      CHR 0xAD, CHR 0xEC, CHR 0xA0, CHR 0x9C, CHR 0xEB, CHR 0x90, CHR 0xA0, CHR 0x20, CHR 0xEA,
      CHR 0xB2, CHR 0x83, CHR 0xEC, CHR 0x9C, CHR 0xBC, CHR 0xEB, CHR 0xA1, CHR 0x9C, CHR 0x20,
      CHR 0xEC, CHR 0x98, CHR 0x88, CHR 0xEC, CHR 0x83, CHR 0x81, CHR 0xEB, CHR 0x90, CHR 0xA9,
      CHR 0xEB, CHR 0x8B, CHR 0x88, CHR 0xEB, CHR 0x8B, CHR 0xA4, CHR 0x2E, CHR 0x20, CHR 0xEA,
      CHR 0xB3, CHR 0x84, CHR 0xEC, CHR 0x86, CHR 0x8D, CHR 0xED, CHR 0x95, CHR 0xA0, CHR 0xEA,
      CHR 0xB9, CHR 0x8C, CHR 0xEC, CHR 0x9A, CHR 0x94, CHR 0x3F]"

definition txt_st_sm_saved :: string where
  "txt_st_sm_saved =
     [CHR 0xEC, CHR 0x9A, CHR 0xB4, CHR 0xEC, CHR 0x98, CHR 0x81, CHR 0x20, CHR 0xEB, CHR 0xA1,
      CHR 0x9C, CHR 0xEA, CHR 0xB7, CHR 0xB8, CHR 0xEC, CHR 0x9D, CHR 0xB8, CHR 0xC2, CHR 0xB7,
      CHR 0xED, CHR 0x99, CHR 0x94, CHR 0xEB, CHR 0xA9, CHR 0xB4, CHR 0x20, CHR 0xEC, CHR 0xA0,
      CHR 0x90, CHR 0xEA, CHR 0xB2, CHR 0x80, CHR 0x20, CHR 0xEC, CHR 0x84, CHR 0xA4, CHR 0xEC,
      CHR 0xA0, CHR 0x95, CHR 0x20, CHR 0xEC, CHR 0xA0, CHR 0x80, CHR 0xEC, CHR 0x9E, CHR 0xA5,
      CHR 0x20, CHR 0xEC, CHR 0x99, CHR 0x84, CHR 0xEB, CHR 0xA3, CHR 0x8C]"

definition txt_st_sm_daily :: string where
  "txt_st_sm_daily =
     [CHR 0xEB, CHR 0xA7, CHR 0xA4, CHR 0xEC, CHR 0x9D, CHR 0xBC]"

definition txt_st_sm_weekly :: string where
  "txt_st_sm_weekly =
     [CHR 0xEB, CHR 0xA7, CHR 0xA4, CHR 0xEC, CHR 0xA3, CHR 0xBC, CHR 0x20, CHR 0xEC, CHR 0x9D,
      CHR 0xBC, CHR 0xEC, CHR 0x9A, CHR 0x94, CHR 0xEC, CHR 0x9D, CHR 0xBC]"

definition txt_st_sm_run :: string where
  "txt_st_sm_run =
     [CHR 0x20, CHR 0xEC, CHR 0x98, CHR 0x88, CHR 0xEC, CHR 0x95, CHR 0xBD, CHR 0x20, CHR 0xEC,
      CHR 0xA0, CHR 0x90, CHR 0xEA, CHR 0xB2, CHR 0x80, CHR 0xEC, CHR 0x9D, CHR 0x84, CHR 0x20,
      CHR 0xEC, CHR 0x8B, CHR 0xA4, CHR 0xED, CHR 0x96, CHR 0x89, CHR 0xED, CHR 0x95, CHR 0xA9,
      CHR 0xEB, CHR 0x8B, CHR 0x88, CHR 0xEB, CHR 0x8B, CHR 0xA4, CHR 0x2E]"

definition txt_st_sm_stop :: string where
  "txt_st_sm_stop =
     [CHR 0xEC, CHR 0x98, CHR 0x88, CHR 0xEC, CHR 0x95, CHR 0xBD, CHR 0x20, CHR 0xEC, CHR 0x9E,
      CHR 0x90, CHR 0xEB, CHR 0x8F, CHR 0x99, CHR 0x20, CHR 0xEC, CHR 0xA0, CHR 0x90, CHR 0xEA,
      CHR 0xB2, CHR 0x80, CHR 0xEC, CHR 0x9D, CHR 0x84, CHR 0x20, CHR 0xEC, CHR 0xA4, CHR 0x91,
      CHR 0xEC, CHR 0xA7, CHR 0x80, CHR 0xED, CHR 0x96, CHR 0x88, CHR 0xEC, CHR 0x8A, CHR 0xB5,
      CHR 0xEB, CHR 0x8B, CHR 0x88, CHR 0xEB, CHR 0x8B, CHR 0xA4, CHR 0x2E, CHR 0x20, CHR 0xEC,
      CHR 0x88, CHR 0x98, CHR 0xEB, CHR 0x8F, CHR 0x99, CHR 0x20, CHR 0xEC, CHR 0xA0, CHR 0x90,
      CHR 0xEA, CHR 0xB2, CHR 0x80, CHR 0xEC, CHR 0x9D, CHR 0x80, CHR 0x20, CHR 0xEA, CHR 0xB3,
      CHR 0x84, CHR 0xEC, CHR 0x86, CHR 0x8D, CHR 0x20, CHR 0xEC, CHR 0x8B, CHR 0xA4, CHR 0xED,
      CHR 0x96, CHR 0x89, CHR 0xED, CHR 0x95, CHR 0xA0, CHR 0x20, CHR 0xEC, CHR 0x88, CHR 0x98,
      CHR 0x20, CHR 0xEC, CHR 0x9E, CHR 0x88, CHR 0xEC, CHR 0x8A, CHR 0xB5, CHR 0xEB, CHR 0x8B,
      CHR 0x88, CHR 0xEB, CHR 0x8B, CHR 0xA4, CHR 0x2E]"

definition txt_st_sm_fail :: string where
  "txt_st_sm_fail =
     [CHR 0xEC, CHR 0x9A, CHR 0xB4, CHR 0xEC, CHR 0x98, CHR 0x81, CHR 0x20, CHR 0xEC, CHR 0xA0,
      CHR 0x90, CHR 0xEA, CHR 0xB2, CHR 0x80, CHR 0x20, CHR 0xEC, CHR 0x84, CHR 0xA4, CHR 0xEC,
      CHR 0xA0, CHR 0x95, CHR 0x20, CHR 0xEC, CHR 0xA0, CHR 0x80, CHR 0xEC, CHR 0x9E, CHR 0xA5,
      CHR 0xEC, CHR 0x97, CHR 0x90, CHR 0x20, CHR 0xEC, CHR 0x8B, CHR 0xA4, CHR 0xED, CHR 0x8C,
      CHR 0xA8, CHR 0xED, CHR 0x96, CHR 0x88, CHR 0xEC, CHR 0x8A, CHR 0xB5, CHR 0xEB, CHR 0x8B,
      CHR 0x88, CHR 0xEB, CHR 0x8B, CHR 0xA4]"

definition txt_st_rf_locked :: string where
  "txt_st_rf_locked =
     [CHR 0xEC, CHR 0x9B, CHR 0x90, CHR 0xEA, CHR 0xB2, CHR 0xA9, CHR 0x20, CHR 0xEC, CHR 0x8B,
      CHR 0xA4, CHR 0xED, CHR 0x96, CHR 0x89, CHR 0x20, CHR 0xEC, CHR 0x9D, CHR 0xB4, CHR 0xEB,
      CHR 0xA0, CHR 0xA5, CHR 0x20, CHR 0xEC, CHR 0x83, CHR 0x88, CHR 0xEB, CHR 0xA1, CHR 0x9C,
      CHR 0xEA, CHR 0xB3, CHR 0xA0, CHR 0xEC, CHR 0xB9, CHR 0xA8, CHR 0x20, CHR 0xEC, CHR 0x9E,
      CHR 0xA0, CHR 0xEA, CHR 0xB8, CHR 0x88]"

definition txt_st_rf_secondary :: string where
  "txt_st_rf_secondary =
     [CHR 0xEB, CHR 0xB3, CHR 0xB4, CHR 0xEC, CHR 0xA1, CHR 0xB0, CHR 0x20, CHR 0xEC, CHR 0xA0,
      CHR 0x9C, CHR 0xED, CHR 0x95, CHR 0x9C]"

definition txt_st_rf_reserve :: string where
  "txt_st_rf_reserve =
     [CHR 0xEC, CHR 0x9E, CHR 0x94, CHR 0xEC, CHR 0x97, CHR 0xAC, CHR 0xEB, CHR 0x9F, CHR 0x89,
      CHR 0x20, CHR 0xEB, CHR 0xB3, CHR 0xB4, CHR 0xED, CHR 0x98, CHR 0xB8]"

definition txt_st_rf_by :: string where
  "txt_st_rf_by =
     [CHR 0xEC, CHR 0x9C, CHR 0xBC, CHR 0xEB, CHR 0xA1, CHR 0x9C, CHR 0x20]"

definition txt_st_rf_after :: string where
  "txt_st_rf_after =
     [CHR 0x20, CHR 0xEC, CHR 0x9D, CHR 0xB4, CHR 0xED, CHR 0x9B, CHR 0x84, CHR 0x20, CHR 0xEB,
      CHR 0x8B, CHR 0xA4, CHR 0xEC, CHR 0x8B, CHR 0x9C, CHR 0x20, CHR 0xEC, CHR 0x8B, CHR 0x9C,
      CHR 0xEB, CHR 0x8F, CHR 0x84, CHR 0xED, CHR 0x95, CHR 0xB4, CHR 0xEC, CHR 0xA3, CHR 0xBC,
      CHR 0xEC, CHR 0x84, CHR 0xB8, CHR 0xEC, CHR 0x9A, CHR 0x94, CHR 0x2E]"

definition txt_st_rf_not :: string where
  "txt_st_rf_not =
     [CHR 0xEC, CHR 0x9B, CHR 0x90, CHR 0xEA, CHR 0xB2, CHR 0xA9, CHR 0x20, CHR 0xEC, CHR 0x8B,
      CHR 0xA4, CHR 0xED, CHR 0x96, CHR 0x89, CHR 0x20, CHR 0xEC, CHR 0x9D, CHR 0xB4, CHR 0xEB,
      CHR 0xA0, CHR 0xA5, CHR 0xEC, CHR 0x9D, CHR 0x84, CHR 0x20, CHR 0xEA, CHR 0xB0, CHR 0xB1,
      CHR 0xEC, CHR 0x8B, CHR 0xA0, CHR 0xED, CHR 0x95, CHR 0x98, CHR 0xEC, CHR 0xA7, CHR 0x80,
      CHR 0x20, CHR 0xEB, CHR 0xAA, CHR 0xBB, CHR 0xED, CHR 0x96, CHR 0x88, CHR 0xEC, CHR 0x8A,
      CHR 0xB5, CHR 0xEB, CHR 0x8B, CHR 0x88, CHR 0xEB, CHR 0x8B, CHR 0xA4]"

definition txt_st_rf_done :: string where
  "txt_st_rf_done =
     [CHR 0xEC, CHR 0x9B, CHR 0x90, CHR 0xEA, CHR 0xB2, CHR 0xA9, CHR 0x20, CHR 0xEC, CHR 0x8B,
      CHR 0xA4, CHR 0xED, CHR 0x96, CHR 0x89, CHR 0x20, CHR 0xEC, CHR 0x9D, CHR 0xB4, CHR 0xEB,
      CHR 0xA0, CHR 0xA5, CHR 0x20, CHR 0xEC, CHR 0x83, CHR 0x88, CHR 0xEB, CHR 0xA1, CHR 0x9C,
      CHR 0xEA, CHR 0xB3, CHR 0xA0, CHR 0xEC, CHR 0xB9, CHR 0xA8, CHR 0x20, CHR 0xEC, CHR 0x99,
      CHR 0x84, CHR 0xEB, CHR 0xA3, CHR 0x8C]"

definition txt_st_rf_d1 :: string where
  "txt_st_rf_d1 =
     [CHR 0xEC, CHR 0xB5, CHR 0x9C, CHR 0xEA, CHR 0xB7, CHR 0xBC, CHR 0x20, CHR 0xEC, CHR 0x8B,
      CHR 0xA4, CHR 0xED, CHR 0x96, CHR 0x89, CHR 0x20]"

definition txt_st_rf_d2 :: string where
  "txt_st_rf_d2 =
     [CHR 0xEA, CHR 0xB1, CHR 0xB4, CHR 0xEC, CHR 0x9D, CHR 0x84, CHR 0x20, CHR 0xED, CHR 0x99,
      CHR 0x95, CHR 0xEC, CHR 0x9D, CHR 0xB8, CHR 0xED, CHR 0x96, CHR 0x88, CHR 0xEC, CHR 0x8A,
      CHR 0xB5, CHR 0xEB, CHR 0x8B, CHR 0x88, CHR 0xEB, CHR 0x8B, CHR 0xA4, CHR 0x2E]"

definition txt_st_rf_fail :: string where
  "txt_st_rf_fail =
     [CHR 0xEC, CHR 0x9B, CHR 0x90, CHR 0xEA, CHR 0xB2, CHR 0xA9, CHR 0x20, CHR 0xEC, CHR 0x8B,
      CHR 0xA4, CHR 0xED, CHR 0x96, CHR 0x89, CHR 0x20, CHR 0xEC, CHR 0x9D, CHR 0xB4, CHR 0xEB,
      CHR 0xA0, CHR 0xA5, CHR 0x20, CHR 0xEC, CHR 0x83, CHR 0x88, CHR 0xEB, CHR 0xA1, CHR 0x9C,
      CHR 0xEA, CHR 0xB3, CHR 0xA0, CHR 0xEC, CHR 0xB9, CHR 0xA8, CHR 0x20, CHR 0xEC, CHR 0x8B,
      CHR 0xA4, CHR 0xED, CHR 0x8C, CHR 0xA8]"

definition txt_st_rf_fail_d :: string where
  "txt_st_rf_fail_d =
     [CHR 0x47, CHR 0x69, CHR 0x74, CHR 0x48, CHR 0x75, CHR 0x62, CHR 0x20, CHR 0xEC, CHR 0x8B,
      CHR 0xA4, CHR 0xED, CHR 0x96, CHR 0x89, CHR 0x20, CHR 0xEC, CHR 0x9D, CHR 0xB4, CHR 0xEB,
      CHR 0xA0, CHR 0xA5, CHR 0xEC, CHR 0x9D, CHR 0x84, CHR 0x20, CHR 0xED, CHR 0x99, CHR 0x95,
      CHR 0xEC, CHR 0x9D, CHR 0xB8, CHR 0xED, CHR 0x95, CHR 0x98, CHR 0xEC, CHR 0xA7, CHR 0x80,
      CHR 0x20, CHR 0xEB, CHR 0xAA, CHR 0xBB, CHR 0xED, CHR 0x96, CHR 0x88, CHR 0xEC, CHR 0x8A,
      CHR 0xB5, CHR 0xEB, CHR 0x8B, CHR 0x88, CHR 0xEB, CHR 0x8B, CHR 0xA4]"

definition txt_st_ts_ask :: string where
  "txt_st_ts_ask =
     [CHR 0xEC, CHR 0xA0, CHR 0x80, CHR 0xEC, CHR 0x9E, CHR 0xA5, CHR 0xEB, CHR 0x90, CHR 0x9C,
      CHR 0x20, CHR 0x54, CHR 0x65, CHR 0x6C, CHR 0x65, CHR 0x67, CHR 0x72, CHR 0x61, CHR 0x6D,
      CHR 0x20, CHR 0xEC, CHR 0xB1, CHR 0x84, CHR 0xEB, CHR 0x84, CHR 0x90, CHR 0xEB, CHR 0xA1,
      CHR 0x9C, CHR 0x20, CHR 0xEA, CHR 0xB4, CHR 0x80, CHR 0xEB, CHR 0xA6, CHR 0xAC, CHR 0xEC,
      CHR 0x9E, CHR 0x90, CHR 0x20, CHR 0xEC, CHR 0xA0, CHR 0x90, CHR 0xEA, CHR 0xB2, CHR 0x80,
      CHR 0x20, CHR 0xEC, CHR 0xA7, CHR 0x80, CHR 0xEC, CHR 0x97, CHR 0xB0, CHR 0x20, CHR 0xED,
      CHR 0x85, CHR 0x8C, CHR 0xEC, CHR 0x8A, CHR 0xA4, CHR 0xED, CHR 0x8A, CHR 0xB8, CHR 0x20,
      CHR 0xEC, CHR 0x95, CHR 0x8C, CHR 0xEB, CHR 0xA6, CHR 0xBC, CHR 0xEC, CHR 0x9D, CHR 0x84,
      CHR 0x20, CHR 0xEC, CHR 0xA0, CHR 0x84, CHR 0xEC, CHR 0x86, CHR 0xA1, CHR 0xED, CHR 0x95,
      CHR 0xA0, CHR 0xEA, CHR 0xB9, CHR 0x8C, CHR 0xEC, CHR 0x9A, CHR 0x94, CHR 0x3F]"

definition txt_st_ts_fail :: string where
  "txt_st_ts_fail =
     [CHR 0xEA, CHR 0xB4, CHR 0x80, CHR 0xEB, CHR 0xA6, CHR 0xAC, CHR 0xEC, CHR 0x9E, CHR 0x90,
      CHR 0x20, CHR 0xEC, CHR 0xA7, CHR 0x80, CHR 0xEC, CHR 0x97, CHR 0xB0, CHR 0x20, CHR 0xEC,
      CHR 0x95, CHR 0x8C, CHR 0xEB, CHR 0xA6, CHR 0xBC, CHR 0x20, CHR 0x64, CHR 0x72, CHR 0x79,
      CHR 0x2D, CHR 0x72, CHR 0x75, CHR 0x6E, CHR 0x20, CHR 0xEC, CHR 0x8B, CHR 0xA4, CHR 0xED,
      CHR 0x8C, CHR 0xA8]"

definition txt_st_ts_fail_d :: string where
  "txt_st_ts_fail_d =
     [CHR 0x54, CHR 0x65, CHR 0x6C, CHR 0x65, CHR 0x67, CHR 0x72, CHR 0x61, CHR 0x6D, CHR 0x20,
      CHR 0xEC, CHR 0x84, CHR 0xA4, CHR 0xEC, CHR 0xA0, CHR 0x95, CHR 0xEC, CHR 0x9D, CHR 0x84,
      CHR 0x20, CHR 0xED, CHR 0x99, CHR 0x95, CHR 0xEC, CHR 0x9D, CHR 0xB8, CHR 0xED, CHR 0x95,
      CHR 0x98, CHR 0xEC, CHR 0xA7, CHR 0x80, CHR 0x20, CHR 0xEB, CHR 0xAA, CHR 0xBB, CHR 0xED,
      CHR 0x96, CHR 0x88, CHR 0xEC, CHR 0x8A, CHR 0xB5, CHR 0xEB, CHR 0x8B, CHR 0x88, CHR 0xEB,
      CHR 0x8B, CHR 0xA4]"

definition txt_st_tg_ask :: string where
  "txt_st_tg_ask =
     [CHR 0xED, CHR 0x98, CHR 0x84, CHR 0xEC, CHR 0x9E, CHR 0xAC, CHR 0x20, CHR 0x4D, CHR 0x61,
      CHR 0x6E, CHR 0x61, CHR 0x67, CHR 0x65, CHR 0x72, CHR 0x20, CHR 0xEC, CHR 0x83, CHR 0x81,
      CHR 0xED, CHR 0x83, CHR 0x9C, CHR 0x20, CHR 0xEC, CHR 0x9A, CHR 0xB4, CHR 0xEC, CHR 0x98,
      CHR 0x81, CHR 0x20, CHR 0xEC, CHR 0x95, CHR 0x8C, CHR 0xEB, CHR 0xA6, CHR 0xBC, CHR 0x20,
      CHR 0xEA, CHR 0xB2, CHR 0xBD, CHR 0xEB, CHR 0xA1, CHR 0x9C, CHR 0xEB, CHR 0xA1, CHR 0x9C,
      CHR 0x20, CHR 0x47, CHR 0x69, CHR 0x74, CHR 0x48, CHR 0x75, CHR 0x62, CHR 0x20, CHR 0x41,
      CHR 0x50, CHR 0x49, CHR 0x20, CHR 0xEB, CHR 0xB0, CHR 0x98, CHR 0xEB, CHR 0xB3, CHR 0xB5,
      CHR 0x20, CHR 0xEC, CHR 0xA0, CHR 0x9C, CHR 0xED, CHR 0x95, CHR 0x9C, CHR 0x20, CHR 0xED,
      CHR 0x85, CHR 0x8C, CHR 0xEC, CHR 0x8A, CHR 0xA4, CHR 0xED, CHR 0x8A, CHR 0xB8, CHR 0xEB,
      CHR 0xA5, CHR 0xBC, CHR 0x20, CHR 0xEC, CHR 0xA0, CHR 0x84, CHR 0xEC, CHR 0x86, CHR 0xA1,
      CHR 0xED, CHR 0x95, CHR 0xA0, CHR 0xEA, CHR 0xB9, CHR 0x8C, CHR 0xEC, CHR 0x9A, CHR 0x94,
      CHR 0x3F]"

definition txt_st_tg_fail :: string where
  "txt_st_tg_fail =
     [CHR 0x47, CHR 0x69, CHR 0x74, CHR 0x48, CHR 0x75, CHR 0x62, CHR 0x20, CHR 0x41, CHR 0x50,
      CHR 0x49, CHR 0x20, CHR 0xEB, CHR 0xB0, CHR 0x98, CHR 0xEB, CHR 0xB3, CHR 0xB5, CHR 0x20,
      CHR 0xEC, CHR 0xA0, CHR 0x9C, CHR 0xED, CHR 0x95, CHR 0x9C, CHR 0x20, CHR 0x64, CHR 0x72,
      CHR 0x79, CHR 0x2D, CHR 0x72, CHR 0x75, CHR 0x6E, CHR 0x20, CHR 0xEC, CHR 0x8B, CHR 0xA4,
      CHR 0xED, CHR 0x8C, CHR 0xA8]"

definition txt_st_tg_fail_d :: string where
  "txt_st_tg_fail_d =
     [CHR 0xEC, CHR 0x9A, CHR 0xB4, CHR 0xEC, CHR 0x98, CHR 0x81, CHR 0x20, CHR 0xEC, CHR 0x95,
      CHR 0x8C, CHR 0xEB, CHR 0xA6, CHR 0xBC, CHR 0x20, CHR 0xEA, CHR 0xB2, CHR 0xBD, CHR 0xEB,
      CHR 0xA1, CHR 0x9C, CHR 0xEB, CHR 0xA5, CHR 0xBC, CHR 0x20, CHR 0xED, CHR 0x99, CHR 0x95,
      CHR 0xEC, CHR 0x9D, CHR 0xB8, CHR 0xED, CHR 0x95, CHR 0x98, CHR 0xEC, CHR 0xA7, CHR 0x80,
      CHR 0x20, CHR 0xEB, CHR 0xAA, CHR 0xBB, CHR 0xED, CHR 0x96, CHR 0x88, CHR 0xEC, CHR 0x8A,
      CHR 0xB5, CHR 0xEB, CHR 0x8B, CHR 0x88, CHR 0xEB, CHR 0x8B, CHR 0xA4]"

definition txt_st_tf_ask :: string where
  "txt_st_tf_ask =
     [CHR 0xED, CHR 0x98, CHR 0x84, CHR 0xEC, CHR 0x9E, CHR 0xAC, CHR 0x20, CHR 0x4D, CHR 0x61,
      CHR 0x6E, CHR 0x61, CHR 0x67, CHR 0x65, CHR 0x72, CHR 0x20, CHR 0xEC, CHR 0x83, CHR 0x81,
      CHR 0xED, CHR 0x83, CHR 0x9C, CHR 0x20, CHR 0xEC, CHR 0x9A, CHR 0xB4, CHR 0xEC, CHR 0x98,
      CHR 0x81, CHR 0x20, CHR 0xEC, CHR 0x95, CHR 0x8C, CHR 0xEB, CHR 0xA6, CHR 0xBC, CHR 0x20,
      CHR 0xEA, CHR 0xB2, CHR 0xBD, CHR 0xEB, CHR 0xA1, CHR 0x9C, CHR 0xEB, CHR 0xA1, CHR 0x9C,
      CHR 0x20, CHR 0xEC, CHR 0x8B, CHR 0xA4, CHR 0xED, CHR 0x8C, CHR 0xA8, CHR 0x20, CHR 0xEC,
      CHR 0x9C, CHR 0xA0, CHR 0xED, CHR 0x98, CHR 0x95, CHR 0x20, CHR 0xEC, CHR 0xA6, CHR 0x9D,
      CHR 0xEA, CHR 0xB0, CHR 0x80, CHR 0x20, CHR 0xED, CHR 0x85, CHR 0x8C, CHR 0xEC, CHR 0x8A,
      CHR 0xA4, CHR 0xED, CHR 0x8A, CHR 0xB8, CHR 0xEB, CHR 0xA5, CHR 0xBC, CHR 0x20, CHR 0xEC,
      CHR 0xA0, CHR 0x84, CHR 0xEC, CHR 0x86, CHR 0xA1, CHR 0xED, CHR 0x95, CHR 0xA0, CHR 0xEA,
      CHR 0xB9, CHR 0x8C, CHR 0xEC, CHR 0x9A, CHR 0x94, CHR 0x3F]"

definition txt_st_tf_fail :: string where
  "txt_st_tf_fail =
     [CHR 0xEC, CHR 0x8B, CHR 0xA4, CHR 0xED, CHR 0x8C, CHR 0xA8, CHR 0x20, CHR 0xEC, CHR 0x9C,
      CHR 0xA0, CHR 0xED, CHR 0x98, CHR 0x95, CHR 0x20, CHR 0xEC, CHR 0xA6, CHR 0x9D, CHR 0xEA,
      CHR 0xB0, CHR 0x80, CHR 0x20, CHR 0x64, CHR 0x72, CHR 0x79, CHR 0x2D, CHR 0x72, CHR 0x75,
      CHR 0x6E, CHR 0x20, CHR 0xEC, CHR 0x8B, CHR 0xA4, CHR 0xED, CHR 0x8C, CHR 0xA8]"

definition txt_st_bk_invalid :: string where
  "txt_st_bk_invalid =
     [CHR 0xEC, CHR 0x9C, CHR 0xA0, CHR 0xED, CHR 0x9A, CHR 0xA8, CHR 0xED, CHR 0x95, CHR 0x98,
      CHR 0xEC, CHR 0xA7, CHR 0x80, CHR 0x20, CHR 0xEC, CHR 0x95, CHR 0x8A, CHR 0xEC, CHR 0x9D,
      CHR 0x80, CHR 0x20, CHR 0x4A, CHR 0x53, CHR 0x4F, CHR 0x4E, CHR 0x20, CHR 0xED, CHR 0x8C,
      CHR 0x8C, CHR 0xEC, CHR 0x9D, CHR 0xBC, CHR 0xEC, CHR 0x9E, CHR 0x85, CHR 0xEB, CHR 0x8B,
      CHR 0x88, CHR 0xEB, CHR 0x8B, CHR 0xA4]"

definition txt_st_bk_check :: string where
  "txt_st_bk_check =
     [CHR 0xEB, CHR 0xB0, CHR 0xB1, CHR 0xEC, CHR 0x97, CHR 0x85, CHR 0x20, CHR 0xED, CHR 0x8C,
      CHR 0x8C, CHR 0xEC, CHR 0x9D, CHR 0xBC, CHR 0x20, CHR 0xED, CHR 0x99, CHR 0x95, CHR 0xEC,
      CHR 0x9D, CHR 0xB8, CHR 0x20, CHR 0xED, CHR 0x95, CHR 0x84, CHR 0xEC, CHR 0x9A, CHR 0x94]"

definition txt_st_bk_sep :: string where
  "txt_st_bk_sep =
     [CHR 0x20, CHR 0xC2, CHR 0xB7, CHR 0x20]"

definition txt_st_bk_i1 :: string where
  "txt_st_bk_i1 =
     [CHR 0xEA, CHR 0xB0, CHR 0x80, CHR 0xEC, CHR 0xA0, CHR 0xB8, CHR 0xEC, CHR 0x98, CHR 0xA4,
      CHR 0xEA, CHR 0xB8, CHR 0xB0, CHR 0x20, CHR 0xEC, CHR 0x99, CHR 0x84, CHR 0xEB, CHR 0xA3,
      CHR 0x8C, CHR 0x3A, CHR 0x20, CHR 0xEC, CHR 0x84, CHR 0x9C, CHR 0xEB, CHR 0xB9, CHR 0x84,
      CHR 0xEC, CHR 0x8A, CHR 0xA4, CHR 0x20, CHR 0xEC, CHR 0x83, CHR 0x9D, CHR 0xEC, CHR 0x84,
      CHR 0xB1, CHR 0x20]"

definition txt_st_bk_n :: string where
  "txt_st_bk_n =
     [CHR 0xEA, CHR 0xB0, CHR 0x9C]"

definition txt_st_bk_i2 :: string where
  "txt_st_bk_i2 =
     [CHR 0xEC, CHR 0x84, CHR 0x9C, CHR 0xEB, CHR 0xB9, CHR 0x84, CHR 0xEC, CHR 0x8A, CHR 0xA4,
      CHR 0x20, CHR 0xEC, CHR 0x88, CHR 0x98, CHR 0xEC, CHR 0xA0, CHR 0x95, CHR 0x20]"

definition txt_st_bk_i3 :: string where
  "txt_st_bk_i3 =
     [CHR 0xEC, CHR 0x84, CHR 0x9C, CHR 0xEB, CHR 0xB9, CHR 0x84, CHR 0xEC, CHR 0x8A, CHR 0xA4,
      CHR 0x20, CHR 0xEC, CHR 0x82, CHR 0xAD, CHR 0xEC, CHR 0xA0, CHR 0x9C, CHR 0x20]"

definition txt_st_bk_i4 :: string where
  "txt_st_bk_i4 =
     [CHR 0xEB, CHR 0xA6, CHR 0xAC, CHR 0xEB, CHR 0x8B, CHR 0xA4, CHR 0xEC, CHR 0x9D, CHR 0xB4,
      CHR 0xEB, CHR 0xA0, CHR 0x89, CHR 0xED, CHR 0x8A, CHR 0xB8, CHR 0x20, CHR 0xEC, CHR 0x83,
      CHR 0x9D, CHR 0xEC, CHR 0x84, CHR 0xB1, CHR 0x20]"

definition txt_st_bk_i5 :: string where
  "txt_st_bk_i5 =
     [CHR 0xEB, CHR 0xA6, CHR 0xAC, CHR 0xEB, CHR 0x8B, CHR 0xA4, CHR 0xEC, CHR 0x9D, CHR 0xB4,
      CHR 0xEB, CHR 0xA0, CHR 0x89, CHR 0xED, CHR 0x8A, CHR 0xB8, CHR 0x20, CHR 0xEC, CHR 0x88,
      CHR 0x98, CHR 0xEC, CHR 0xA0, CHR 0x95, CHR 0x20]"

definition txt_st_bk_i6 :: string where
  "txt_st_bk_i6 =
     [CHR 0xEB, CHR 0xA6, CHR 0xAC, CHR 0xEB, CHR 0x8B, CHR 0xA4, CHR 0xEC, CHR 0x9D, CHR 0xB4,
      CHR 0xEB, CHR 0xA0, CHR 0x89, CHR 0xED, CHR 0x8A, CHR 0xB8, CHR 0x20, CHR 0xEC, CHR 0x82,
      CHR 0xAD, CHR 0xEC, CHR 0xA0, CHR 0x9C, CHR 0x20]"

definition txt_st_bk_service :: string where
  "txt_st_bk_service =
     [CHR 0xEC, CHR 0x84, CHR 0x9C, CHR 0xEB, CHR 0xB9, CHR 0x84, CHR 0xEC, CHR 0x8A, CHR 0xA4]"

definition txt_st_bk_redirect :: string where
  "txt_st_bk_redirect =
     [CHR 0xEB, CHR 0xA6, CHR 0xAC, CHR 0xEB, CHR 0x8B, CHR 0xA4, CHR 0xEC, CHR 0x9D, CHR 0xB4,
      CHR 0xEB, CHR 0xA0, CHR 0x89, CHR 0xED, CHR 0x8A, CHR 0xB8]"

definition txt_st_bk_create :: string where
  "txt_st_bk_create =
     [CHR 0x20, CHR 0xEC, CHR 0x83, CHR 0x9D, CHR 0xEC, CHR 0x84, CHR 0xB1, CHR 0x20]"

definition txt_st_bk_update :: string where
  "txt_st_bk_update =
     [CHR 0x20, CHR 0x2F, CHR 0x20, CHR 0xEC, CHR 0x88, CHR 0x98, CHR 0xEC, CHR 0xA0, CHR 0x95,
      CHR 0x20]"

definition txt_st_bk_delete :: string where
  "txt_st_bk_delete =
     [CHR 0x20, CHR 0x2F, CHR 0x20, CHR 0xEC, CHR 0x82, CHR 0xAD, CHR 0xEC, CHR 0xA0, CHR 0x9C,
      CHR 0x20]"

definition txt_st_bk_warn :: string where
  "txt_st_bk_warn =
     [CHR 0xEA, CHR 0xB2, CHR 0xBD, CHR 0xEA, CHR 0xB3, CHR 0xA0, CHR 0x20]"

definition txt_st_bk_nowarn :: string where
  "txt_st_bk_nowarn =
     [CHR 0xEA, CHR 0xB2, CHR 0xBD, CHR 0xEA, CHR 0xB3, CHR 0xA0, CHR 0x20, CHR 0xEC, CHR 0x97,
      CHR 0x86, CHR 0xEC, CHR 0x9D, CHR 0x8C]"

definition txt_st_bk_done :: string where
  "txt_st_bk_done =
     [CHR 0xEB, CHR 0xB0, CHR 0xB1, CHR 0xEC, CHR 0x97, CHR 0x85, CHR 0x20, CHR 0xEB, CHR 0xB3,
      CHR 0xB5, CHR 0xEC, CHR 0x9B, CHR 0x90, CHR 0x20, CHR 0xEC, CHR 0x99, CHR 0x84, CHR 0xEB,
      CHR 0xA3, CHR 0x8C]"

definition txt_st_bk_fail :: string where
  "txt_st_bk_fail =
     [CHR 0xEB, CHR 0xB0, CHR 0xB1, CHR 0xEC, CHR 0x97, CHR 0x85, CHR 0x20, CHR 0xEB, CHR 0xB3,
      CHR 0xB5, CHR 0xEC, CHR 0x9B, CHR 0x90, CHR 0x20, CHR 0xEC, CHR 0x8B, CHR 0xA4, CHR 0xED,
      CHR 0x8C, CHR 0xA8]"

definition txt_st_bk_fail_d :: string where
  "txt_st_bk_fail_d =
     [CHR 0xEC, CHR 0x84, CHR 0xA4, CHR 0xEC, CHR 0xA0, CHR 0x95, CHR 0x20, CHR 0x4A, CHR 0x53,
      CHR 0x4F, CHR 0x4E, CHR 0x20, CHR 0xEA, CHR 0xB0, CHR 0x80, CHR 0xEC, CHR 0xA0, CHR 0xB8,
      CHR 0xEC, CHR 0x98, CHR 0xA4, CHR 0xEA, CHR 0xB8, CHR 0xB0, CHR 0xEB, CHR 0xA5, CHR 0xBC,
      CHR 0x20, CHR 0xEC, CHR 0x99, CHR 0x84, CHR 0xEB, CHR 0xA3, CHR 0x8C, CHR 0xED, CHR 0x95,
      CHR 0x98, CHR 0xEC, CHR 0xA7, CHR 0x80, CHR 0x20, CHR 0xEB, CHR 0xAA, CHR 0xBB, CHR 0xED,
      CHR 0x96, CHR 0x88, CHR 0xEC, CHR 0x8A, CHR 0xB5, CHR 0xEB, CHR 0x8B, CHR 0x88, CHR 0xEB,
      CHR 0x8B, CHR 0xA4, CHR 0x2E]"

definition txt_st_bk_vdone :: string where
  "txt_st_bk_vdone =
     [CHR 0xEB, CHR 0xB0, CHR 0xB1, CHR 0xEC, CHR 0x97, CHR 0x85, CHR 0x20, CHR 0xEC, CHR 0x82,
      CHR 0xAC, CHR 0xEC, CHR 0xA0, CHR 0x84, CHR 0x20, CHR 0xEA, CHR 0xB2, CHR 0x80, CHR 0xEC,
      CHR 0xA6, CHR 0x9D, CHR 0x20, CHR 0xEC, CHR 0x99, CHR 0x84, CHR 0xEB, CHR 0xA3, CHR 0x8C]"

definition txt_st_bk_vfail_d :: string where
  "txt_st_bk_vfail_d =
     [CHR 0xEB, CHR 0xB0, CHR 0xB1, CHR 0xEC, CHR 0x97, CHR 0x85, CHR 0x20, CHR 0xEC, CHR 0x82,
      CHR 0xAC, CHR 0xEC, CHR 0xA0, CHR 0x84, CHR 0x20, CHR 0xEA, CHR 0xB2, CHR 0x80, CHR 0xEC,
      CHR 0xA6, CHR 0x9D, CHR 0xEC, CHR 0x97, CHR 0x90, CHR 0x20, CHR 0xEC, CHR 0x8B, CHR 0xA4,
      CHR 0xED, CHR 0x8C, CHR 0xA8, CHR 0xED, CHR 0x96, CHR 0x88, CHR 0xEC, CHR 0x8A, CHR 0xB5,
      CHR 0xEB, CHR 0x8B, CHR 0x88, CHR 0xEB, CHR 0x8B, CHR 0xA4]"

definition txt_st_bk_vfail :: string where
  "txt_st_bk_vfail =
     [CHR 0xEB, CHR 0xB0, CHR 0xB1, CHR 0xEC, CHR 0x97, CHR 0x85, CHR 0x20, CHR 0xEC, CHR 0x82,
      CHR 0xAC, CHR 0xEC, CHR 0xA0, CHR 0x84, CHR 0x20, CHR 0xEA, CHR 0xB2, CHR 0x80, CHR 0xEC,
      CHR 0xA6, CHR 0x9D, CHR 0x20, CHR 0xEC, CHR 0x8B, CHR 0xA4, CHR 0xED, CHR 0x8C, CHR 0xA8]"

definition txt_st_bk_pdone :: string where
  "txt_st_bk_pdone =
     [CHR 0xEB, CHR 0xB3, CHR 0xB5, CHR 0xEC, CHR 0x9B, CHR 0x90, CHR 0x20, CHR 0xEB, CHR 0xAF,
      CHR 0xB8, CHR 0xEB, CHR 0xA6, CHR 0xAC, CHR 0xEB, CHR 0xB3, CHR 0xB4, CHR 0xEA, CHR 0xB8,
      CHR 0xB0, CHR 0x20, CHR 0xEC, CHR 0x99, CHR 0x84, CHR 0xEB, CHR 0xA3, CHR 0x8C]"

definition txt_st_bk_pfail_d :: string where
  "txt_st_bk_pfail_d =
     [CHR 0xEB, CHR 0xB3, CHR 0xB5, CHR 0xEC, CHR 0x9B, CHR 0x90, CHR 0x20, CHR 0xEB, CHR 0xAF,
      CHR 0xB8, CHR 0xEB, CHR 0xA6, CHR 0xAC, CHR 0xEB, CHR 0xB3, CHR 0xB4, CHR 0xEA, CHR 0xB8,
      CHR 0xB0, CHR 0xEC, CHR 0x97, CHR 0x90, CHR 0x20, CHR 0xEC, CHR 0x8B, CHR 0xA4, CHR 0xED,
      CHR 0x8C, CHR 0xA8, CHR 0xED, CHR 0x96, CHR 0x88, CHR 0xEC, CHR 0x8A, CHR 0xB5, CHR 0xEB,
      CHR 0x8B, CHR 0x88, CHR 0xEB, CHR 0x8B, CHR 0xA4]"

definition txt_st_bk_pfail :: string where
  "txt_st_bk_pfail =
     [CHR 0xEB, CHR 0xB3, CHR 0xB5, CHR 0xEC, CHR 0x9B, CHR 0x90, CHR 0x20, CHR 0xEB, CHR 0xAF,
      CHR 0xB8, CHR 0xEB, CHR 0xA6, CHR 0xAC, CHR 0xEB, CHR 0xB3, CHR 0xB4, CHR 0xEA, CHR 0xB8,
      CHR 0xB0, CHR 0x20, CHR 0xEC, CHR 0x8B, CHR 0xA4, CHR 0xED, CHR 0x8C, CHR 0xA8]"

definition txt_st_bx_done :: string where
  "txt_st_bx_done =
     [CHR 0xEB, CHR 0xB0, CHR 0xB1, CHR 0xEC, CHR 0x97, CHR 0x85, CHR 0x20, CHR 0xEB, CHR 0x82,
      CHR 0xB4, CHR 0xEB, CHR 0xB3, CHR 0xB4, CHR 0xEB, CHR 0x82, CHR 0xB4, CHR 0xEA, CHR 0xB8,
      CHR 0xB0, CHR 0x20, CHR 0xEC, CHR 0x99, CHR 0x84, CHR 0xEB, CHR 0xA3, CHR 0x8C]"

definition txt_st_bx_err :: string where
  "txt_st_bx_err =
     [CHR 0xEB, CHR 0xB0, CHR 0xB1, CHR 0xEC, CHR 0x97, CHR 0x85, CHR 0x20, CHR 0xEB, CHR 0x82,
      CHR 0xB4, CHR 0xEB, CHR 0xB3, CHR 0xB4, CHR 0xEB, CHR 0x82, CHR 0xB4, CHR 0xEA, CHR 0xB8,
      CHR 0xB0, CHR 0xEC, CHR 0x97, CHR 0x90, CHR 0x20, CHR 0xEC, CHR 0x8B, CHR 0xA4, CHR 0xED,
      CHR 0x8C, CHR 0xA8, CHR 0xED, CHR 0x96, CHR 0x88, CHR 0xEC, CHR 0x8A, CHR 0xB5, CHR 0xEB,
      CHR 0x8B, CHR 0x88, CHR 0xEB, CHR 0x8B, CHR 0xA4]"

definition txt_st_bx_fail :: string where
  "txt_st_bx_fail =
     [CHR 0xEB, CHR 0xB0, CHR 0xB1, CHR 0xEC, CHR 0x97, CHR 0x85, CHR 0x20, CHR 0xEB, CHR 0x82,
      CHR 0xB4, CHR 0xEB, CHR 0xB3, CHR 0xB4, CHR 0xEB, CHR 0x82, CHR 0xB4, CHR 0xEA, CHR 0xB8,
      CHR 0xB0, CHR 0x20, CHR 0xEC, CHR 0x8B, CHR 0xA4, CHR 0xED, CHR 0x8C, CHR 0xA8]"

definition txt_st_bx_fail_d :: string where
  "txt_st_bx_fail_d =
     [CHR 0xEC, CHR 0x84, CHR 0xA4, CHR 0xEC, CHR 0xA0, CHR 0x95, CHR 0x20, CHR 0x4A, CHR 0x53,
      CHR 0x4F, CHR 0x4E, CHR 0x20, CHR 0xED, CHR 0x8C, CHR 0x8C, CHR 0xEC, CHR 0x9D, CHR 0xBC,
      CHR 0xEC, CHR 0x9D, CHR 0x84, CHR 0x20, CHR 0xEC, CHR 0x83, CHR 0x9D, CHR 0xEC, CHR 0x84,
      CHR 0xB1, CHR 0xED, CHR 0x95, CHR 0x98, CHR 0xEC, CHR 0xA7, CHR 0x80, CHR 0x20, CHR 0xEB,
      CHR 0xAA, CHR 0xBB, CHR 0xED, CHR 0x96, CHR 0x88, CHR 0xEC, CHR 0x8A, CHR 0xB5, CHR 0xEB,
      CHR 0x8B, CHR 0x88, CHR 0xEB, CHR 0x8B, CHR 0xA4, CHR 0x2E]"

end
