(* ===== verification/Settings_Models.thy ===== *)
theory Settings_Models
  imports Settings_Card Session Ui_Text_Settings
begin

text \<open>
  The hooks of the policy cards on the settings page: audit retention, certificate diagnostics,
  Traefik dashboard, login defense, upstream security, time display and Cloudflare.  For each hook:
  the loaded settings, the form that \<open>handleEdit\<close> makes of them, the request of \<open>handleSave\<close>
  and its notice, the handlers (\<open>handleSave\<close> up to the call, and \<open>..._saved\<close> after it), and the
  interpretation of \<open>settings_form\<close>.  A setting that the page does not show
  (a password, an API token) starts empty and is sent empty, which leaves it as stored.
\<close>

text \<open>\<open>onToast({tone: "success", ...})\<close>.\<close>

definition saved_toast :: "string \<Rightarrow> string \<Rightarrow> ToastNoticeValue" where
  "saved_toast message detail = plain_toast ToneSuccess message detail"

definition of_settings :: "'s option \<Rightarrow> ('s \<Rightarrow> 'a) \<Rightarrow> 'a \<Rightarrow> 'a" where
  "of_settings settings field d = (case settings of None \<Rightarrow> d | Some s \<Rightarrow> field s)"

text \<open>\<open>settings?.field ?? d\<close> where the field itself may be null.\<close>

definition of_nullable :: "'s option \<Rightarrow> ('s \<Rightarrow> 'a option) \<Rightarrow> 'a \<Rightarrow> 'a" where
  "of_nullable settings field d = default_to d (Option.bind settings field)"

lemma of_settings_simps [simp]:
  "of_settings None g d = d" "of_settings (Some s) g d = g s"
  "of_nullable None h e = e" "of_nullable (Some s) h e = default_to e (h s)"
  by (simp_all add: of_settings_def of_nullable_def default_to_def)

text \<open>A text as the backend keeps it: trimmed.\<close>

definition trimmed :: "string option \<Rightarrow> bool" where
  "trimmed v = (case v of None \<Rightarrow> True | Some s \<Rightarrow> js_trim s = s)"

lemma js_trim_empty [simp]: "js_trim [] = []"
  by (simp add: js_trim_visible)

lemma trimmed_default [simp]: "trimmed v \<Longrightarrow> js_trim (default_to [] v) = default_to [] v"
  by (cases v) (simp_all add: trimmed_def default_to_def)

section \<open>Audit retention (\<open>useAuditRetentionSettingsModel.ts\<close>)\<close>

record AuditRetentionSettingsInput =
  ar_retention_days :: rat
  ar_archive_enabled :: bool

definition AUDIT_RETENTION_DEFAULT :: AuditRetentionSettingsInput where
  "AUDIT_RETENTION_DEFAULT = \<lparr>ar_retention_days = 365, ar_archive_enabled = True\<rparr>"

record AuditRetentionSettingsStatus = AuditRetentionSettingsInput +
  ar_last_archived_count :: nat
  ar_last_deleted_count :: nat

definition retention_form :: "AuditRetentionSettingsStatus option \<Rightarrow> AuditRetentionSettingsInput" where
  "retention_form d =
     \<lparr>ar_retention_days = of_settings d ar_retention_days (ar_retention_days AUDIT_RETENTION_DEFAULT),
      ar_archive_enabled = of_settings d ar_archive_enabled (ar_archive_enabled AUDIT_RETENTION_DEFAULT)\<rparr>"

definition retention_notice :: "AuditRetentionSettingsInput \<Rightarrow> ToastNoticeValue" where
  "retention_notice f =
     saved_toast txt_st_ar_saved (number_text (ar_retention_days f) @ txt_st_ar_d1
       @ (if ar_archive_enabled f then txt_st_ar_d2 else []) @ txt_st_ar_d3)"

type_synonym retention_card = "(AuditRetentionSettingsInput, AuditRetentionSettingsInput) card"

definition retention_handleEdit :: "AuditRetentionSettingsStatus option \<Rightarrow> retention_card \<Rightarrow> retention_card" where
  "retention_handleEdit settings s = card_edit (retention_form settings) s"

definition retention_handleSave :: "retention_card \<Rightarrow> retention_card" where
  "retention_handleSave s = card_send id s"

definition retention_saved :: "api_error + unit \<Rightarrow> retention_card \<Rightarrow> retention_card" where
  "retention_saved answer s = card_settle retention_notice txt_st_ar_fail answer s"

interpretation retention: settings_form retention_form id AuditRetentionSettingsInput.truncate "\<lambda>_. True" AUDIT_RETENTION_DEFAULT
  by unfold_locales (simp_all add: retention_form_def AUDIT_RETENTION_DEFAULT_def AuditRetentionSettingsInput.truncate_def)

text \<open>\<open>handleCleanup\<close>: the archives are read again after the cleanup, and an error of either call is shown.\<close>

definition retention_handleCleanup :: "api_error + AuditRetentionSettingsStatus \<Rightarrow> api_error + unit \<Rightarrow> ToastNoticeValue" where
  "retention_handleCleanup cleanup refetch =
     (case cleanup of
        Inl e \<Rightarrow> plain_toast ToneError txt_st_cl_fail (getSettingsModelErrorMessage e txt_st_cl_fail_d)
      | Inr r \<Rightarrow> (case refetch of
            Inl e \<Rightarrow> plain_toast ToneError txt_st_cl_fail (getSettingsModelErrorMessage e txt_st_cl_fail_d)
          | Inr _ \<Rightarrow> saved_toast txt_st_cl_done (show_nat (ar_last_archived_count r) @ txt_st_cl_d1
                @ show_nat (ar_last_deleted_count r) @ txt_st_cl_d2)))"

text \<open>\<open>handleRestore\<close>: \<open>restore\<close> is the call, \<open>confirm\<close> the answer of the dialog.\<close>

definition retention_handleRestore ::
    "(string \<Rightarrow> bool) \<Rightarrow> (string \<Rightarrow> api_error + nat \<times> nat) \<Rightarrow> string \<Rightarrow> ToastNoticeValue option" where
  "retention_handleRestore confirm restore filename =
     (if \<not> confirm (filename @ txt_st_rs_ask) then None
      else Some (case restore filename of
             Inr (restored, skipped) \<Rightarrow>
               saved_toast txt_st_rs_done (show_nat restored @ txt_st_rs_d1 @ show_nat skipped @ txt_st_rs_d2)
           | Inl e \<Rightarrow> plain_toast ToneError txt_st_rs_fail (getSettingsModelErrorMessage e txt_st_rs_fail_d)))"

section \<open>Certificate diagnostics (\<open>useCertificateDiagnosticsSettingsModel.ts\<close>)\<close>

record CertificateDiagnosticsSettings =
  ci_auto_check_interval_minutes :: rat
  ci_repeat_alert_threshold :: rat
  ci_repeat_alert_window_minutes :: rat
  ci_repeat_alert_cooldown_minutes :: rat

definition createDefaultCertificateDiagnosticsForm :: CertificateDiagnosticsSettings where
  "createDefaultCertificateDiagnosticsForm =
     \<lparr>ci_auto_check_interval_minutes = 60, ci_repeat_alert_threshold = 3, ci_repeat_alert_window_minutes = 240,
      ci_repeat_alert_cooldown_minutes = 240\<rparr>"

definition diagnostics_form :: "CertificateDiagnosticsSettings option \<Rightarrow> CertificateDiagnosticsSettings" where
  "diagnostics_form d =
     \<lparr>ci_auto_check_interval_minutes = of_settings d ci_auto_check_interval_minutes 60,
      ci_repeat_alert_threshold = of_settings d ci_repeat_alert_threshold 3,
      ci_repeat_alert_window_minutes = of_settings d ci_repeat_alert_window_minutes 240,
      ci_repeat_alert_cooldown_minutes = of_settings d ci_repeat_alert_cooldown_minutes 240\<rparr>"

definition diagnostics_notice :: "CertificateDiagnosticsSettings \<Rightarrow> ToastNoticeValue" where
  "diagnostics_notice f =
     saved_toast txt_st_cd_saved (txt_st_cd_d1 @ number_text (ci_auto_check_interval_minutes f) @ txt_st_cd_d2
       @ number_text (ci_repeat_alert_threshold f) @ txt_st_cd_d3)"

type_synonym diagnostics_card = "(CertificateDiagnosticsSettings, CertificateDiagnosticsSettings) card"

definition diagnostics_handleEdit :: "CertificateDiagnosticsSettings option \<Rightarrow> diagnostics_card \<Rightarrow> diagnostics_card" where
  "diagnostics_handleEdit settings s = card_edit (diagnostics_form settings) s"

definition diagnostics_handleSave :: "diagnostics_card \<Rightarrow> diagnostics_card" where
  "diagnostics_handleSave s = card_send id s"

definition diagnostics_saved :: "api_error + unit \<Rightarrow> diagnostics_card \<Rightarrow> diagnostics_card" where
  "diagnostics_saved answer s = card_settle diagnostics_notice txt_st_cd_fail answer s"

interpretation diagnostics: settings_form diagnostics_form id id "\<lambda>_. True" createDefaultCertificateDiagnosticsForm
  by unfold_locales (simp_all add: diagnostics_form_def createDefaultCertificateDiagnosticsForm_def)

section \<open>Traefik dashboard (\<open>useTraefikDashboardSettingsModel.ts\<close>)\<close>

record TraefikDashboardSettingsStatus =
  ts_enabled :: bool
  ts_domain :: "string option"
  ts_auth_username :: "string option"

record TraefikDashboardSettingsInput =
  ti_enabled :: bool
  ti_domain :: string
  ti_auth_username :: string
  ti_auth_password :: string

definition createDefaultTraefikDashboardForm :: TraefikDashboardSettingsInput where
  "createDefaultTraefikDashboardForm = \<lparr>ti_enabled = False, ti_domain = [], ti_auth_username = [], ti_auth_password = []\<rparr>"

definition dashboard_form :: "TraefikDashboardSettingsStatus option \<Rightarrow> TraefikDashboardSettingsInput" where
  "dashboard_form d =
     \<lparr>ti_enabled = of_settings d ts_enabled False, ti_domain = of_nullable d ts_domain [],
      ti_auth_username = of_nullable d ts_auth_username [], ti_auth_password = []\<rparr>"

text \<open>The password is sent as typed.\<close>

definition dashboard_payload :: "TraefikDashboardSettingsInput \<Rightarrow> TraefikDashboardSettingsInput" where
  "dashboard_payload f =
     \<lparr>ti_enabled = ti_enabled f, ti_domain = js_trim (ti_domain f), ti_auth_username = js_trim (ti_auth_username f),
      ti_auth_password = ti_auth_password f\<rparr>"

definition dashboard_notice :: "TraefikDashboardSettingsInput \<Rightarrow> ToastNoticeValue" where
  "dashboard_notice f =
     saved_toast txt_st_td_saved (if ti_enabled f then js_trim (ti_domain f) @ txt_st_td_on else txt_st_td_off)"

definition dashboard_stored :: "TraefikDashboardSettingsStatus \<Rightarrow> TraefikDashboardSettingsInput" where
  "dashboard_stored d =
     \<lparr>ti_enabled = ts_enabled d, ti_domain = default_to [] (ts_domain d),
      ti_auth_username = default_to [] (ts_auth_username d), ti_auth_password = []\<rparr>"

type_synonym dashboard_card = "(TraefikDashboardSettingsInput, TraefikDashboardSettingsInput) card"

definition dashboard_handleEdit :: "TraefikDashboardSettingsStatus option \<Rightarrow> dashboard_card \<Rightarrow> dashboard_card" where
  "dashboard_handleEdit settings s = card_edit (dashboard_form settings) s"

definition dashboard_handleSave :: "dashboard_card \<Rightarrow> dashboard_card" where
  "dashboard_handleSave s = card_send dashboard_payload s"

definition dashboard_saved :: "api_error + unit \<Rightarrow> dashboard_card \<Rightarrow> dashboard_card" where
  "dashboard_saved answer s = card_settle dashboard_notice txt_st_td_fail answer s"

interpretation dashboard: settings_form dashboard_form dashboard_payload dashboard_stored
    "\<lambda>d. trimmed (ts_domain d) \<and> trimmed (ts_auth_username d)" createDefaultTraefikDashboardForm
  by unfold_locales
    (simp_all add: dashboard_form_def dashboard_payload_def dashboard_stored_def createDefaultTraefikDashboardForm_def)

section \<open>Login defense (\<open>useLoginDefenseSettingsModel.ts\<close>)\<close>

record LoginDefenseSettings =
  ld_suspicious_block_enabled :: bool
  ld_suspicious_trusted_networks :: "string list"
  ld_escalation_enabled :: bool
  ld_escalation_window_minutes :: rat
  ld_escalation_multiplier :: rat
  ld_max_minutes :: rat
  ld_turnstile_mode :: TurnstileMode

text \<open>The loaded settings (the site key may be null), the request and the form.\<close>

record LoginDefenseSettingsStatus = LoginDefenseSettings +
  lds_turnstile_site_key :: "string option"

record LoginDefenseSettingsInput = LoginDefenseSettings +
  ldi_turnstile_site_key :: string
  ldi_turnstile_secret_key :: string

record LoginDefenseForm = LoginDefenseSettingsInput +
  ldf_trusted_networks_text :: string

fun turnstile_mode_text :: "TurnstileMode \<Rightarrow> string" where
  "turnstile_mode_text TsOff = ''off''"
| "turnstile_mode_text TsAlways = ''always''"
| "turnstile_mode_text TsRiskBased = ''risk_based''"

definition createDefaultLoginDefenseForm :: LoginDefenseForm where
  "createDefaultLoginDefenseForm =
     \<lparr>ld_suspicious_block_enabled = True, ld_suspicious_trusted_networks = [], ld_escalation_enabled = False,
      ld_escalation_window_minutes = 1440, ld_escalation_multiplier = 2, ld_max_minutes = 1440,
      ld_turnstile_mode = TsOff, ldi_turnstile_site_key = [], ldi_turnstile_secret_key = [],
      ldf_trusted_networks_text = []\<rparr>"

definition login_defense_form :: "LoginDefenseSettingsStatus option \<Rightarrow> LoginDefenseForm" where
  "login_defense_form d =
     \<lparr>ld_suspicious_block_enabled = of_settings d ld_suspicious_block_enabled True,
      ld_suspicious_trusted_networks = of_settings d ld_suspicious_trusted_networks [],
      ld_escalation_enabled = of_settings d ld_escalation_enabled False,
      ld_escalation_window_minutes = of_settings d ld_escalation_window_minutes 1440,
      ld_escalation_multiplier = of_settings d ld_escalation_multiplier 2,
      ld_max_minutes = of_settings d ld_max_minutes 1440,
      ld_turnstile_mode = of_settings d ld_turnstile_mode TsOff,
      ldi_turnstile_site_key = of_nullable d lds_turnstile_site_key [],
      ldi_turnstile_secret_key = [],
      ldf_trusted_networks_text = str_join [CHR 0x0A] (of_settings d ld_suspicious_trusted_networks [])\<rparr>"

definition login_defense_payload :: "LoginDefenseForm \<Rightarrow> LoginDefenseSettingsInput" where
  "login_defense_payload f =
     \<lparr>ld_suspicious_block_enabled = ld_suspicious_block_enabled f,
      ld_suspicious_trusted_networks = parseMultivalueText (ldf_trusted_networks_text f),
      ld_escalation_enabled = ld_escalation_enabled f,
      ld_escalation_window_minutes = ld_escalation_window_minutes f,
      ld_escalation_multiplier = ld_escalation_multiplier f,
      ld_max_minutes = ld_max_minutes f, ld_turnstile_mode = ld_turnstile_mode f,
      ldi_turnstile_site_key = js_trim (ldi_turnstile_site_key f),
      ldi_turnstile_secret_key = js_trim (ldi_turnstile_secret_key f)\<rparr>"

definition login_defense_notice :: "LoginDefenseForm \<Rightarrow> ToastNoticeValue" where
  "login_defense_notice f =
     saved_toast txt_st_ld_saved (txt_st_ld_d1 @ (if ld_suspicious_block_enabled f then txt_st_ld_on else txt_st_ld_off)
       @ '', Turnstile '' @ turnstile_mode_text (ld_turnstile_mode f) @ txt_st_ld_d3)"

definition login_defense_stored :: "LoginDefenseSettingsStatus \<Rightarrow> LoginDefenseSettingsInput" where
  "login_defense_stored d =
     LoginDefenseSettings.extend (LoginDefenseSettings.truncate d)
       (LoginDefenseSettingsInput.fields (default_to [] (lds_turnstile_site_key d)) [])"

type_synonym login_defense_card = "(LoginDefenseForm, LoginDefenseSettingsInput) card"

definition login_defense_handleEdit :: "LoginDefenseSettingsStatus option \<Rightarrow> login_defense_card \<Rightarrow> login_defense_card" where
  "login_defense_handleEdit settings s = card_edit (login_defense_form settings) s"

definition login_defense_handleSave :: "login_defense_card \<Rightarrow> login_defense_card" where
  "login_defense_handleSave s = card_send login_defense_payload s"

definition login_defense_saved :: "api_error + unit \<Rightarrow> login_defense_card \<Rightarrow> login_defense_card" where
  "login_defense_saved answer s = card_settle login_defense_notice txt_st_ld_fail answer s"

interpretation login_defense: settings_form login_defense_form login_defense_payload login_defense_stored
    "\<lambda>d. list_all clean_entry (ld_suspicious_trusted_networks d) \<and> trimmed (lds_turnstile_site_key d)"
    createDefaultLoginDefenseForm
  by unfold_locales
    (simp_all add: login_defense_form_def login_defense_payload_def login_defense_stored_def
      createDefaultLoginDefenseForm_def parseMultivalueText_def entry_list_lines
      LoginDefenseSettings.defs LoginDefenseSettingsInput.defs)

section \<open>Upstream security (\<open>useUpstreamSecuritySettingsModel.ts\<close>)\<close>

record UpstreamFlags =
  up_dns_strict_mode :: bool
  up_allowlist_enabled :: bool
  up_allow_docker_service_names :: bool
  up_allow_private_networks :: bool

record UpstreamSecuritySettingsInput = UpstreamFlags +
  up_allowed_domain_suffixes :: "string list"

record UpstreamSecurityForm = UpstreamSecuritySettingsInput +
  up_suffixes_text :: string

record UpstreamSecurityPreset = UpstreamFlags +
  pr_key :: string

definition createDefaultUpstreamSecurityForm :: UpstreamSecurityForm where
  "createDefaultUpstreamSecurityForm =
     \<lparr>up_dns_strict_mode = False, up_allowlist_enabled = False, up_allow_docker_service_names = True,
      up_allow_private_networks = True, up_allowed_domain_suffixes = [], up_suffixes_text = []\<rparr>"

definition upstream_form :: "UpstreamSecuritySettingsInput option \<Rightarrow> UpstreamSecurityForm" where
  "upstream_form d =
     \<lparr>up_dns_strict_mode = of_settings d up_dns_strict_mode False,
      up_allowlist_enabled = of_settings d up_allowlist_enabled False,
      up_allow_docker_service_names = of_settings d up_allow_docker_service_names True,
      up_allow_private_networks = of_settings d up_allow_private_networks True,
      up_allowed_domain_suffixes = of_settings d up_allowed_domain_suffixes [],
      up_suffixes_text = str_join [CHR 0x0A] (of_settings d up_allowed_domain_suffixes [])\<rparr>"

definition upstream_payload :: "UpstreamSecurityForm \<Rightarrow> UpstreamSecuritySettingsInput" where
  "upstream_payload f =
     \<lparr>up_dns_strict_mode = up_dns_strict_mode f, up_allowlist_enabled = up_allowlist_enabled f,
      up_allow_docker_service_names = up_allow_docker_service_names f,
      up_allow_private_networks = up_allow_private_networks f,
      up_allowed_domain_suffixes = parseMultivalueText (up_suffixes_text f)\<rparr>"

definition upstream_notice :: "UpstreamSecurityForm \<Rightarrow> ToastNoticeValue" where
  "upstream_notice f = saved_toast txt_st_us_saved (if up_dns_strict_mode f then txt_st_us_on else txt_st_us_off)"

type_synonym upstream_card = "(UpstreamSecurityForm, UpstreamSecuritySettingsInput) card"

definition upstream_handleEdit :: "UpstreamSecuritySettingsInput option \<Rightarrow> upstream_card \<Rightarrow> upstream_card" where
  "upstream_handleEdit settings s = card_edit (upstream_form settings) s"

definition upstream_handleSave :: "upstream_card \<Rightarrow> upstream_card" where
  "upstream_handleSave s = card_send upstream_payload s"

definition upstream_saved :: "api_error + unit \<Rightarrow> upstream_card \<Rightarrow> upstream_card" where
  "upstream_saved answer s = card_settle upstream_notice txt_st_us_fail answer s"

interpretation upstream: settings_form upstream_form upstream_payload id
    "\<lambda>d. list_all clean_entry (up_allowed_domain_suffixes d)" createDefaultUpstreamSecurityForm
  by unfold_locales
    (simp_all add: upstream_form_def upstream_payload_def createDefaultUpstreamSecurityForm_def parseMultivalueText_def
      entry_list_lines)

text \<open>\<open>settingsFormHelpers.ts\<close>: the presets.\<close>

definition same_flags :: "'a UpstreamFlags_scheme \<Rightarrow> 'b UpstreamFlags_scheme \<Rightarrow> bool" where
  "same_flags p f =
     (up_dns_strict_mode p = up_dns_strict_mode f \<and> up_allowlist_enabled p = up_allowlist_enabled f \<and>
      up_allow_docker_service_names p = up_allow_docker_service_names f \<and>
      up_allow_private_networks p = up_allow_private_networks f)"

definition inferUpstreamPresetKey :: "UpstreamSecurityPreset list \<Rightarrow> 'a UpstreamSecuritySettingsInput_scheme \<Rightarrow> string" where
  "inferUpstreamPresetKey presets f =
     (case find (\<lambda>p. same_flags p f) presets of None \<Rightarrow> ''custom'' | Some p \<Rightarrow> pr_key p)"

definition applyUpstreamPreset :: "UpstreamSecurityForm \<Rightarrow> UpstreamSecurityPreset \<Rightarrow> UpstreamSecurityForm" where
  "applyUpstreamPreset current p =
     current\<lparr>up_dns_strict_mode := up_dns_strict_mode p, up_allowlist_enabled := up_allowlist_enabled p,
             up_allow_docker_service_names := up_allow_docker_service_names p,
             up_allow_private_networks := up_allow_private_networks p\<rparr>"

text \<open>A preset that is applied is the one the form shows, when the presets differ in their flags; the
  list of domains stays.\<close>

lemma preset_shown:
  assumes "p \<in> set presets" and "\<forall>q\<in>set presets. same_flags q p \<longrightarrow> q = p"
  shows "inferUpstreamPresetKey presets (applyUpstreamPreset f p) = pr_key p"
    and "upstream_payload (applyUpstreamPreset f p) =
      UpstreamFlags.extend (UpstreamFlags.truncate p) (UpstreamSecuritySettingsInput.fields (parseMultivalueText (up_suffixes_text f)))"
proof -
  have s: "same_flags q (applyUpstreamPreset f p) = same_flags q p" for q :: UpstreamSecurityPreset
    by (simp add: same_flags_def applyUpstreamPreset_def)
  obtain q where q: "find (\<lambda>q. same_flags q p) presets = Some q"
    using assms(1) by (cases "find (\<lambda>q. same_flags q p) presets") (auto simp: find_None_iff same_flags_def)
  then have "q \<in> set presets" "same_flags q p" by (auto simp: find_Some_iff)
  then show "inferUpstreamPresetKey presets (applyUpstreamPreset f p) = pr_key p"
    using assms(2) q by (auto simp: inferUpstreamPresetKey_def s)
  show "upstream_payload (applyUpstreamPreset f p) =
      UpstreamFlags.extend (UpstreamFlags.truncate p) (UpstreamSecuritySettingsInput.fields (parseMultivalueText (up_suffixes_text f)))"
    by (simp add: upstream_payload_def applyUpstreamPreset_def UpstreamFlags.defs UpstreamSecuritySettingsInput.defs)
qed

section \<open>Time display (\<open>useTimeDisplaySettingsModel.ts\<close>)\<close>

definition DEFAULT_DISPLAY_TIMEZONE :: string where "DEFAULT_DISPLAY_TIMEZONE = ''Asia/Seoul''"

text \<open>The settings are the time zone.\<close>

definition time_form :: "string option \<Rightarrow> string" where
  "time_form d = default_to DEFAULT_DISPLAY_TIMEZONE d"

definition time_notice :: "string \<Rightarrow> ToastNoticeValue" where
  "time_notice f = saved_toast txt_st_ti_saved (js_trim f @ txt_st_ti_d)"

type_synonym time_card = "(string, string) card"

definition time_handleEdit :: "string option \<Rightarrow> time_card \<Rightarrow> time_card" where
  "time_handleEdit settings s = card_edit (time_form settings) s"

definition time_handleSave :: "time_card \<Rightarrow> time_card" where
  "time_handleSave s = card_send js_trim s"

definition time_saved :: "api_error + unit \<Rightarrow> time_card \<Rightarrow> time_card" where
  "time_saved answer s = card_settle time_notice txt_st_ti_fail answer s"

interpretation time_display: settings_form time_form js_trim id "\<lambda>z. js_trim z = z" DEFAULT_DISPLAY_TIMEZONE
  by unfold_locales (simp_all add: time_form_def default_to_def)

section \<open>Cloudflare (\<open>useCloudflareDnsSettingsSection.ts\<close>)\<close>

record CloudflareZoneStatus =
  zs_zone_id :: string
  zs_record_target :: "string option"
  zs_proxied :: bool

record CloudflareZoneInput =
  zi_api_token :: string
  zi_zone_id :: string
  zi_record_target :: string
  zi_proxied :: bool

definition createDefaultCloudflareZoneForm :: CloudflareZoneInput where
  "createDefaultCloudflareZoneForm = \<lparr>zi_api_token = [], zi_zone_id = [], zi_record_target = [], zi_proxied = False\<rparr>"

definition zone_stored :: "CloudflareZoneStatus \<Rightarrow> CloudflareZoneInput" where
  "zone_stored z =
     \<lparr>zi_api_token = [], zi_zone_id = zs_zone_id z, zi_record_target = default_to [] (zs_record_target z),
      zi_proxied = zs_proxied z\<rparr>"

text \<open>The status is its list of zones.\<close>

definition buildCloudflareZoneFormValue :: "CloudflareZoneStatus list option \<Rightarrow> CloudflareZoneInput list" where
  "buildCloudflareZoneFormValue status =
     (if default_to [] status \<noteq> [] then map zone_stored (the status) else [createDefaultCloudflareZoneForm])"

definition cloudflare_notice :: "CloudflareZoneInput list \<Rightarrow> ToastNoticeValue" where
  "cloudflare_notice f = saved_toast txt_st_cf_saved (show_nat (length f) @ txt_st_cf_d)"

interpretation cloudflare: settings_form buildCloudflareZoneFormValue id "map zone_stored" "\<lambda>zs. zs \<noteq> []"
    "[createDefaultCloudflareZoneForm]"
  by unfold_locales (simp_all add: buildCloudflareZoneFormValue_def default_to_def)

type_synonym cloudflare_card = "(CloudflareZoneInput list, CloudflareZoneInput list) card"

definition cloudflare_handleEdit :: "CloudflareZoneStatus list option \<Rightarrow> cloudflare_card \<Rightarrow> cloudflare_card" where
  "cloudflare_handleEdit status s = card_edit (buildCloudflareZoneFormValue status) s"

definition cloudflare_handleSave :: "cloudflare_card \<Rightarrow> cloudflare_card" where
  "cloudflare_handleSave s = card_send id s"

text \<open>
  The results of the three actions (\<open>useCloudflareDnsActionResults.ts\<close>).  A drift check answers
  with more fields than the model keeps: its counts and lists are \<open>'d\<close>, empty after a failure.
\<close>

record 'd cloudflare_results =
  cr_testResult :: "SettingsActionTestResult option"
  cr_driftResult :: "(SettingsActionTestResult \<times> 'd) option"
  cr_reconcileResult :: "SettingsActionTestResult option"

definition resetActionResults :: "'d cloudflare_results" where
  "resetActionResults = \<lparr>cr_testResult = None, cr_driftResult = None, cr_reconcileResult = None\<rparr>"

text \<open>After the answer: a saved card drops the results of earlier actions.\<close>

definition cloudflare_saved ::
    "api_error + unit \<Rightarrow> cloudflare_card \<times> 'd cloudflare_results \<Rightarrow> cloudflare_card \<times> 'd cloudflare_results" where
  "cloudflare_saved answer p =
     (card_settle cloudflare_notice txt_st_cf_fail answer (fst p),
      case (cd_flight (fst p), answer) of (Some _, Inr _) \<Rightarrow> resetActionResults | _ \<Rightarrow> snd p)"

definition buildCloudflareActionFailureResult :: "api_error \<Rightarrow> string \<Rightarrow> SettingsActionTestResult" where
  "buildCloudflareActionFailureResult e message = buildActionFailure message (Some (getApiErrorDetail e txt_st_request))"

definition cloudflare_handleTest :: "api_error + SettingsActionTestResult \<Rightarrow> 'd cloudflare_results \<Rightarrow> 'd cloudflare_results" where
  "cloudflare_handleTest answer r =
     r\<lparr>cr_testResult := Some (case answer of Inr x \<Rightarrow> x | Inl e \<Rightarrow> buildCloudflareActionFailureResult e txt_st_cf_test)\<rparr>"

definition cloudflare_handleReconcile :: "api_error + SettingsActionTestResult \<Rightarrow> 'd cloudflare_results \<Rightarrow> 'd cloudflare_results" where
  "cloudflare_handleReconcile answer r =
     r\<lparr>cr_reconcileResult := Some (case answer of Inr x \<Rightarrow> x | Inl e \<Rightarrow> buildCloudflareActionFailureResult e txt_st_cf_recon)\<rparr>"

definition cloudflare_handleDiagnose ::
    "'d \<Rightarrow> api_error + SettingsActionTestResult \<times> 'd \<Rightarrow> 'd cloudflare_results \<Rightarrow> 'd cloudflare_results" where
  "cloudflare_handleDiagnose none answer r =
     r\<lparr>cr_driftResult := Some (case answer of
         Inr x \<Rightarrow> x
       | Inl e \<Rightarrow> (\<lparr>at_success = False, at_message = txt_st_cf_drift, at_detail = Some (getApiErrorDetail e txt_st_request),
                   at_provider = None\<rparr>, none))\<rparr>"

end
