(* ===== verification/Settings_Alerts.thy ===== *)
theory Settings_Alerts
  imports Settings_Models
begin

text \<open>
  The card of the security alerts (\<open>useSecurityAlertSettingsModel.ts\<close>,
  \<open>securityAlertSettingsModelHelpers.ts\<close>) with the retry of failed deliveries
  (\<open>useSettingsAlertRetry.ts\<close>), and the actions on sessions (\<open>useSettingsSessionActions.ts\<close>).
\<close>

section \<open>The settings\<close>

datatype AlertProvider = PrGeneric | PrSlack | PrDiscord | PrTelegram | PrTeams | PrPagerduty | PrEmail
datatype EmailSecurity = EsNone | EsStarttls | EsSsl

text \<open>What the loaded settings and the request have in common.\<close>

record SecurityAlertSettings =
  sa_enabled :: bool
  sa_change_alerts_enabled :: bool
  sa_encoded_path_monitoring_enabled :: bool
  sa_encoded_path_window_minutes :: rat
  sa_encoded_path_threshold :: rat
  sa_health_monitoring_enabled :: bool
  sa_health_cooldown_minutes :: rat
  sa_watchdog_stale_minutes :: rat
  sa_retry_delay_warning_minutes :: rat
  sa_http_error_monitoring_enabled :: bool
  sa_http_error_window_minutes :: rat
  sa_http_not_found_threshold :: rat
  sa_http_server_error_threshold :: rat
  sa_http_excluded_paths :: "string list"
  sa_provider :: AlertProvider
  sa_email_port :: rat
  sa_email_security :: EmailSecurity
  sa_email_recipients :: "string list"
  sa_event_routes :: "string js_object"
  sa_change_event_routes :: "string js_object"

record SecurityAlertSettingsStatus = SecurityAlertSettings +
  sas_webhook_url :: "string option"
  sas_telegram_chat_id :: "string option"
  sas_email_host :: "string option"
  sas_email_username :: "string option"
  sas_email_from :: "string option"

record SecurityAlertSettingsInput = SecurityAlertSettings +
  sai_webhook_url :: string
  sai_telegram_bot_token :: string
  sai_telegram_chat_id :: string
  sai_pagerduty_routing_key :: string
  sai_email_host :: string
  sai_email_username :: string
  sai_email_password :: string
  sai_email_from :: string

definition SECURITY_ROUTE_EVENTS :: "string list" where
  "SECURITY_ROUTE_EVENTS = [''login_locked'', ''login_suspicious'', ''login_blocked_ip'', ''encoded_path_blocks'']"

definition CHANGE_ROUTE_EVENTS :: "string list" where
  "CHANGE_ROUTE_EVENTS =
     [''settings_change'', ''service_change'', ''redirect_change'', ''middleware_change'', ''user_change'',
      ''certificate_status_change'', ''certificate_preflight_failure'', ''manager_health'', ''rollback'']"

definition default_routes :: "string list \<Rightarrow> string js_object" where
  "default_routes events = map (\<lambda>e. (e, ''default'')) events"

definition createDefaultSecurityAlertForm :: SecurityAlertSettingsInput where
  "createDefaultSecurityAlertForm =
     \<lparr>sa_enabled = False, sa_change_alerts_enabled = False, sa_encoded_path_monitoring_enabled = True,
      sa_encoded_path_window_minutes = 15, sa_encoded_path_threshold = 20, sa_health_monitoring_enabled = True,
      sa_health_cooldown_minutes = 60, sa_watchdog_stale_minutes = 10, sa_retry_delay_warning_minutes = 10,
      sa_http_error_monitoring_enabled = False, sa_http_error_window_minutes = 15, sa_http_not_found_threshold = 20,
      sa_http_server_error_threshold = 1, sa_http_excluded_paths = [], sa_provider = PrGeneric, sa_email_port = 587,
      sa_email_security = EsStarttls, sa_email_recipients = [],
      sa_event_routes = default_routes SECURITY_ROUTE_EVENTS, sa_change_event_routes = default_routes CHANGE_ROUTE_EVENTS,
      sai_webhook_url = [], sai_telegram_bot_token = [], sai_telegram_chat_id = [], sai_pagerduty_routing_key = [],
      sai_email_host = [], sai_email_username = [], sai_email_password = [], sai_email_from = []\<rparr>"

text \<open>\<open>{ ...defaults, ...routes }\<close>; spreading undefined adds nothing.\<close>

definition spread_over :: "'v js_object \<Rightarrow> 'v js_object option \<Rightarrow> 'v js_object" where
  "spread_over defaults routes = fold (\<lambda>p acc. obj_put (fst p) (snd p) acc) (default_to [] routes) defaults"

definition createSecurityAlertFormFromSettings :: "SecurityAlertSettingsStatus option \<Rightarrow> SecurityAlertSettingsInput" where
  "createSecurityAlertFormFromSettings d =
     (let defaults = createDefaultSecurityAlertForm in
      \<lparr>sa_enabled = of_settings d sa_enabled (sa_enabled defaults),
       sa_change_alerts_enabled = of_settings d sa_change_alerts_enabled (sa_change_alerts_enabled defaults),
       sa_encoded_path_monitoring_enabled =
         of_settings d sa_encoded_path_monitoring_enabled (sa_encoded_path_monitoring_enabled defaults),
       sa_encoded_path_window_minutes = of_settings d sa_encoded_path_window_minutes (sa_encoded_path_window_minutes defaults),
       sa_encoded_path_threshold = of_settings d sa_encoded_path_threshold (sa_encoded_path_threshold defaults),
       sa_health_monitoring_enabled = of_settings d sa_health_monitoring_enabled (sa_health_monitoring_enabled defaults),
       sa_health_cooldown_minutes = of_settings d sa_health_cooldown_minutes (sa_health_cooldown_minutes defaults),
       sa_watchdog_stale_minutes = of_settings d sa_watchdog_stale_minutes (sa_watchdog_stale_minutes defaults),
       sa_retry_delay_warning_minutes = of_settings d sa_retry_delay_warning_minutes (sa_retry_delay_warning_minutes defaults),
       sa_http_error_monitoring_enabled =
         of_settings d sa_http_error_monitoring_enabled (sa_http_error_monitoring_enabled defaults),
       sa_http_error_window_minutes = of_settings d sa_http_error_window_minutes (sa_http_error_window_minutes defaults),
       sa_http_not_found_threshold = of_settings d sa_http_not_found_threshold (sa_http_not_found_threshold defaults),
       sa_http_server_error_threshold = of_settings d sa_http_server_error_threshold (sa_http_server_error_threshold defaults),
       sa_http_excluded_paths = of_settings d sa_http_excluded_paths (sa_http_excluded_paths defaults),
       sa_provider = of_settings d sa_provider (sa_provider defaults),
       sa_email_port = of_settings d sa_email_port (sa_email_port defaults),
       sa_email_security = of_settings d sa_email_security (sa_email_security defaults),
       sa_email_recipients = of_settings d sa_email_recipients (sa_email_recipients defaults),
       sa_event_routes = spread_over (sa_event_routes defaults) (map_option sa_event_routes d),
       sa_change_event_routes = spread_over (sa_change_event_routes defaults) (map_option sa_change_event_routes d),
       sai_webhook_url = of_nullable d sas_webhook_url (sai_webhook_url defaults),
       sai_telegram_bot_token = sai_telegram_bot_token defaults,
       sai_telegram_chat_id = of_nullable d sas_telegram_chat_id (sai_telegram_chat_id defaults),
       sai_pagerduty_routing_key = sai_pagerduty_routing_key defaults,
       sai_email_host = of_nullable d sas_email_host (sai_email_host defaults),
       sai_email_username = of_nullable d sas_email_username (sai_email_username defaults),
       sai_email_password = sai_email_password defaults,
       sai_email_from = of_nullable d sas_email_from (sai_email_from defaults)\<rparr>)"

definition buildSecurityAlertSettingsPayload :: "SecurityAlertSettingsInput \<Rightarrow> SecurityAlertSettingsInput" where
  "buildSecurityAlertSettingsPayload f =
     f\<lparr>sai_webhook_url := js_trim (sai_webhook_url f), sai_telegram_bot_token := js_trim (sai_telegram_bot_token f),
       sai_telegram_chat_id := js_trim (sai_telegram_chat_id f),
       sai_pagerduty_routing_key := js_trim (sai_pagerduty_routing_key f),
       sai_email_host := js_trim (sai_email_host f), sai_email_username := js_trim (sai_email_username f),
       sai_email_password := js_trim (sai_email_password f), sai_email_from := js_trim (sai_email_from f)\<rparr>"

definition alert_notice :: "SecurityAlertSettingsInput \<Rightarrow> ToastNoticeValue" where
  "alert_notice f = saved_toast txt_st_sa_saved txt_st_sa_d"

type_synonym alert_card = "(SecurityAlertSettingsInput, SecurityAlertSettingsInput) card"

definition alert_handleEdit :: "SecurityAlertSettingsStatus option \<Rightarrow> alert_card \<Rightarrow> alert_card" where
  "alert_handleEdit settings s = card_edit (createSecurityAlertFormFromSettings settings) s"

definition alert_handleSave :: "alert_card \<Rightarrow> alert_card" where
  "alert_handleSave s = card_send buildSecurityAlertSettingsPayload s"

text \<open>After the answer: a saved card drops the result of the last test.\<close>

definition alert_saved ::
    "api_error + unit \<Rightarrow> alert_card \<times> SettingsActionTestResult option \<Rightarrow> alert_card \<times> SettingsActionTestResult option" where
  "alert_saved answer p =
     (card_settle alert_notice txt_st_sa_fail answer (fst p),
      case (cd_flight (fst p), answer) of (Some _, Inr _) \<Rightarrow> None | _ \<Rightarrow> snd p)"

section \<open>The contract\<close>

text \<open>The settings as stored: the secrets are not part of what is loaded, and are sent empty.\<close>

definition alert_stored :: "SecurityAlertSettingsStatus \<Rightarrow> SecurityAlertSettingsInput" where
  "alert_stored d =
     SecurityAlertSettings.extend (SecurityAlertSettings.truncate d)
       (SecurityAlertSettingsInput.fields (default_to [] (sas_webhook_url d)) [] (default_to [] (sas_telegram_chat_id d)) []
          (default_to [] (sas_email_host d)) (default_to [] (sas_email_username d)) [] (default_to [] (sas_email_from d)))"

text \<open>Texts are trimmed, and there is a route for every event and no other, in the order of the backend.\<close>

definition alert_clean :: "SecurityAlertSettingsStatus \<Rightarrow> bool" where
  "alert_clean d =
     (trimmed (sas_webhook_url d) \<and> trimmed (sas_telegram_chat_id d) \<and> trimmed (sas_email_host d) \<and>
      trimmed (sas_email_username d) \<and> trimmed (sas_email_from d) \<and>
      map fst (sa_event_routes d) = SECURITY_ROUTE_EVENTS \<and> map fst (sa_change_event_routes d) = CHANGE_ROUTE_EVENTS)"

lemma put_same_key: "k \<notin> fst ` set xs \<Longrightarrow> obj_put k v (xs @ (k, w) # ys) = xs @ (k, v) # ys"
  by (induction xs) auto

lemma spread_all:
  assumes "distinct (map fst xs @ map fst rs)" "map fst rs = map fst ds"
  shows "fold (\<lambda>p acc. obj_put (fst p) (snd p) acc) rs (xs @ ds) = xs @ rs"
  using assms
proof (induction rs arbitrary: xs ds)
  case (Cons r rs)
  then obtain w ds' where ds: "ds = (fst r, w) # ds'" "map fst rs = map fst ds'" by (cases ds) auto
  have "obj_put (fst r) (snd r) (xs @ ds) = (xs @ [r]) @ ds'"
    using put_same_key [of "fst r" xs "snd r" w ds'] Cons.prems(1) ds(1) by simp
  then show ?case using Cons.IH [of "xs @ [r]" ds'] Cons.prems(1) ds(2) by simp
qed simp

lemma spread_over_all:
  "map fst rs = events \<Longrightarrow> distinct events \<Longrightarrow> spread_over (default_routes events) (Some rs) = rs"
  using spread_all [of "[]" rs "default_routes events"]
  by (simp add: spread_over_def default_routes_def default_to_def comp_def)

lemma spread_over_None: "spread_over ds None = ds"
  by (simp add: spread_over_def default_to_def)

lemma route_events_distinct: "distinct SECURITY_ROUTE_EVENTS" "distinct CHANGE_ROUTE_EVENTS"
  by (simp_all add: SECURITY_ROUTE_EVENTS_def CHANGE_ROUTE_EVENTS_def)

interpretation alerts: settings_form createSecurityAlertFormFromSettings buildSecurityAlertSettingsPayload alert_stored
    alert_clean createDefaultSecurityAlertForm
proof
  fix d assume "alert_clean d"
  then show "buildSecurityAlertSettingsPayload (createSecurityAlertFormFromSettings (Some d)) = alert_stored d"
    by (simp add: alert_clean_def alert_stored_def buildSecurityAlertSettingsPayload_def
        createSecurityAlertFormFromSettings_def createDefaultSecurityAlertForm_def Let_def spread_over_all
        route_events_distinct SecurityAlertSettings.defs SecurityAlertSettingsInput.defs)
next
  show "createSecurityAlertFormFromSettings None = createDefaultSecurityAlertForm"
    by (simp add: createSecurityAlertFormFromSettings_def createDefaultSecurityAlertForm_def Let_def spread_over_None)
qed

text \<open>A stored route for every event also fills up routes that the backend does not know yet.\<close>

lemma spread_over_get:
  "obj_get e (spread_over ds (Some rs)) = (case map_of (rev rs) e of None \<Rightarrow> obj_get e ds | Some v \<Rightarrow> Some v)"
proof (induction rs arbitrary: ds)
  case (Cons r rs)
  have "spread_over ds (Some (r # rs)) = spread_over (obj_put (fst r) (snd r) ds) (Some rs)"
    by (simp add: spread_over_def default_to_def)
  then show ?case using Cons.IH [of "obj_put (fst r) (snd r) ds"]
    by (cases r) (auto simp: obj_get_put map_add_def split: option.splits)
qed (simp add: spread_over_def default_to_def)

section \<open>Test and retry\<close>

text \<open>\<open>handleTest\<close>: the result of the test.\<close>

definition alert_handleTest :: "api_error + SettingsActionTestResult \<Rightarrow> SettingsActionTestResult" where
  "alert_handleTest answer =
     (case answer of
        Inr r \<Rightarrow> r
      | Inl e \<Rightarrow> buildActionFailure txt_st_sa_test (Some (getApiErrorDetail e txt_st_request)))"

datatype AlertRetryTarget = RetrySecurity | RetryChange

record alert_retry =
  ry_security :: "SettingsActionTestResult option"
  ry_change :: "SettingsActionTestResult option"
  ry_targetAuditId :: "string option"

definition retry_init :: alert_retry where
  "retry_init = \<lparr>ry_security = None, ry_change = None, ry_targetAuditId = None\<rparr>"

text \<open>\<open>handleRetryDelivery\<close> up to the call, and after it.\<close>

definition retry_begin :: "string option \<Rightarrow> alert_retry \<Rightarrow> alert_retry" where
  "retry_begin auditLogId s = (if \<not> truthy auditLogId then s else s\<lparr>ry_targetAuditId := auditLogId\<rparr>)"

definition retry_finish :: "AlertRetryTarget \<Rightarrow> api_error + SettingsActionTestResult \<Rightarrow> alert_retry \<Rightarrow> alert_retry" where
  "retry_finish target answer s =
     (let notice = (case answer of
            Inr r \<Rightarrow> r
          | Inl e \<Rightarrow> buildActionFailure txt_st_retry (Some (getApiErrorDetail e txt_st_request)));
          s1 = (case target of RetrySecurity \<Rightarrow> s\<lparr>ry_security := Some notice\<rparr> | RetryChange \<Rightarrow> s\<lparr>ry_change := Some notice\<rparr>)
      in s1\<lparr>ry_targetAuditId := None\<rparr>)"

definition handleRetryDelivery ::
    "(string \<Rightarrow> api_error + SettingsActionTestResult) \<Rightarrow> string option \<Rightarrow> AlertRetryTarget \<Rightarrow> alert_retry \<Rightarrow> alert_retry" where
  "handleRetryDelivery call auditLogId target s =
     (if \<not> truthy auditLogId then s else retry_finish target (call (the auditLogId)) (retry_begin auditLogId s))"

text \<open>The two callbacks: without an id they retry the last failure of their history.\<close>

definition retrySecurityDelivery ::
    "(string \<Rightarrow> api_error + SettingsActionTestResult) \<Rightarrow> string option \<Rightarrow> string option \<Rightarrow> alert_retry \<Rightarrow> alert_retry" where
  "retrySecurityDelivery call lastFailure auditLogId s =
     handleRetryDelivery call (if auditLogId = None then lastFailure else auditLogId) RetrySecurity s"

definition retryChangeDelivery ::
    "(string \<Rightarrow> api_error + SettingsActionTestResult) \<Rightarrow> string option \<Rightarrow> string option \<Rightarrow> alert_retry \<Rightarrow> alert_retry" where
  "retryChangeDelivery call lastFailure auditLogId s =
     handleRetryDelivery call (if auditLogId = None then lastFailure else auditLogId) RetryChange s"

text \<open>A retry ends with no target, changes the result of its own kind only, and reports exactly what
  the call gave; without an id nothing happens.\<close>

lemma retry_outcome:
  "handleRetryDelivery call (Some []) t s = s" "handleRetryDelivery call None t s = s"
  "i \<noteq> [] \<Longrightarrow> ry_targetAuditId (handleRetryDelivery call (Some i) t s) = None"
  "i \<noteq> [] \<Longrightarrow> call i = Inr r \<Longrightarrow> handleRetryDelivery call (Some i) RetrySecurity s = s\<lparr>ry_security := Some r, ry_targetAuditId := None\<rparr>"
  "i \<noteq> [] \<Longrightarrow> call i = Inr r \<Longrightarrow> handleRetryDelivery call (Some i) RetryChange s = s\<lparr>ry_change := Some r, ry_targetAuditId := None\<rparr>"
  by (simp_all add: handleRetryDelivery_def retry_finish_def retry_begin_def Let_def split: AlertRetryTarget.splits)

section \<open>Sessions (\<open>useSettingsSessionActions.ts\<close>)\<close>

text \<open>
  The two handlers reject when the call does; then nothing changes.  The result is the store and
  whether the router goes to the login page.
\<close>

definition handleLogoutAllSessions ::
    "(AuthState \<Rightarrow> string js_object \<Rightarrow> string js_object) \<Rightarrow> api_error + unit \<Rightarrow> auth_store \<Rightarrow> api_error + auth_store \<times> bool" where
  "handleLogoutAllSessions save answer s =
     (case answer of Inl e \<Rightarrow> Inl e | Inr _ \<Rightarrow> Inr (clearSession save s, True))"

definition handleRevokeSession ::
    "(AuthState \<Rightarrow> string js_object \<Rightarrow> string js_object) \<Rightarrow> bool \<Rightarrow> api_error + unit \<Rightarrow> auth_store \<Rightarrow> api_error + auth_store \<times> bool" where
  "handleRevokeSession save isCurrent answer s =
     (case answer of
        Inl e \<Rightarrow> Inl e
      | Inr _ \<Rightarrow> Inr (if isCurrent then (clearSession save s, True) else (s, False)))"

lemma revoke_other_keeps: "handleRevokeSession save False (Inr u) s = Inr (s, False)"
  by (simp add: handleRevokeSession_def)

end
