(* ===== verification/Settings_Smoke.thy ===== *)
theory Settings_Smoke
  imports Settings_Models
begin

text \<open>
  The card of the smoke monitoring (\<open>useSmokeMonitoringSettingsModel.ts\<close>): its settings, the save
  with the check of the ranges and the question before stored failures are deleted, the refresh of
  the run history under the rate limit, and the three test alerts.  Following a manual run is
  \<open>Smoke_Tracking\<close>.
\<close>

section \<open>The settings\<close>

datatype SmokeMonitoringFrequency = FreqDaily | FreqWeekly

record SmokeMonitoringSettingsInput =
  sm_enabled :: bool
  sm_frequency :: SmokeMonitoringFrequency
  sm_failure_rate_threshold_percent :: rat
  sm_failure_rate_min_runs :: rat
  sm_failure_rate_window_days :: rat
  sm_failure_type_alert_enabled :: bool
  sm_failure_metadata_limit :: rat
  sm_github_alert_enabled :: bool
  sm_github_primary_threshold :: rat
  sm_github_secondary_threshold :: rat
  sm_github_window_hours :: rat

text \<open>What the card reads of \<open>SmokeRotationStatus\<close> besides the settings.\<close>

record SmokeMonitoringStatus = SmokeMonitoringSettingsInput +
  sm_failure_metadata_count :: nat

definition SMOKE_DEFAULT_FORM :: SmokeMonitoringSettingsInput where
  "SMOKE_DEFAULT_FORM =
     \<lparr>sm_enabled = True, sm_frequency = FreqDaily, sm_failure_rate_threshold_percent = 30, sm_failure_rate_min_runs = 3,
      sm_failure_rate_window_days = 7, sm_failure_type_alert_enabled = False, sm_failure_metadata_limit = 20,
      sm_github_alert_enabled = False, sm_github_primary_threshold = 3, sm_github_secondary_threshold = 3,
      sm_github_window_hours = 24\<rparr>"

definition smoke_form :: "SmokeMonitoringStatus option \<Rightarrow> SmokeMonitoringSettingsInput" where
  "smoke_form d =
     \<lparr>sm_enabled = of_settings d sm_enabled True, sm_frequency = of_settings d sm_frequency FreqDaily,
      sm_failure_rate_threshold_percent = of_settings d sm_failure_rate_threshold_percent 30,
      sm_failure_rate_min_runs = of_settings d sm_failure_rate_min_runs 3,
      sm_failure_rate_window_days = of_settings d sm_failure_rate_window_days 7,
      sm_failure_type_alert_enabled = of_settings d sm_failure_type_alert_enabled False,
      sm_failure_metadata_limit = of_settings d sm_failure_metadata_limit 20,
      sm_github_alert_enabled = of_settings d sm_github_alert_enabled False,
      sm_github_primary_threshold = of_settings d sm_github_primary_threshold 3,
      sm_github_secondary_threshold = of_settings d sm_github_secondary_threshold 3,
      sm_github_window_hours = of_settings d sm_github_window_hours 24\<rparr>"

interpretation smoke_settings: settings_form smoke_form id SmokeMonitoringSettingsInput.truncate "\<lambda>_. True" SMOKE_DEFAULT_FORM
  by unfold_locales (simp_all add: smoke_form_def SMOKE_DEFAULT_FORM_def SmokeMonitoringSettingsInput.truncate_def)

section \<open>Saving\<close>

text \<open>The condition of \<open>handleSave\<close> that refuses a form.\<close>

definition smoke_out_of_range :: "SmokeMonitoringSettingsInput \<Rightarrow> bool" where
  "smoke_out_of_range f =
     (sm_failure_rate_threshold_percent f < 1 \<or> 100 < sm_failure_rate_threshold_percent f \<or>
      sm_failure_rate_min_runs f < 1 \<or> 30 < sm_failure_rate_min_runs f \<or>
      sm_failure_metadata_limit f < 20 \<or> 200 < sm_failure_metadata_limit f \<or>
      sm_failure_rate_window_days f \<notin> set [7, 30] \<or>
      sm_github_primary_threshold f < 1 \<or> 100 < sm_github_primary_threshold f \<or>
      sm_github_secondary_threshold f < 1 \<or> 100 < sm_github_secondary_threshold f \<or>
      sm_github_window_hours f < 1 \<or> 168 < sm_github_window_hours f)"

definition smoke_deletionCount :: "SmokeMonitoringStatus option \<Rightarrow> SmokeMonitoringSettingsInput \<Rightarrow> rat" where
  "smoke_deletionCount d f = max (of_nat (of_settings d sm_failure_metadata_count 0) - sm_failure_metadata_limit f) 0"

definition smoke_question :: "rat \<Rightarrow> string" where
  "smoke_question n = txt_st_sm_ask1 @ number_text n @ txt_st_sm_ask2"

definition smoke_notice :: "SmokeMonitoringSettingsInput \<Rightarrow> ToastNoticeValue" where
  "smoke_notice f =
     saved_toast txt_st_sm_saved
       (if sm_enabled f then (if sm_frequency f = FreqDaily then txt_st_sm_daily else txt_st_sm_weekly) @ txt_st_sm_run
        else txt_st_sm_stop)"

type_synonym smoke_card = "(SmokeMonitoringSettingsInput, SmokeMonitoringSettingsInput) card"

definition smoke_handleEdit :: "SmokeMonitoringStatus option \<Rightarrow> smoke_card \<Rightarrow> smoke_card" where
  "smoke_handleEdit d s = card_edit (smoke_form d) s"

definition smoke_handleSave :: "(string \<Rightarrow> bool) \<Rightarrow> SmokeMonitoringStatus option \<Rightarrow> smoke_card \<Rightarrow> smoke_card" where
  "smoke_handleSave confirm d s =
     (let s1 = s\<lparr>cd_errorMessage := []\<rparr>; f = cd_formValue s in
      if smoke_out_of_range f then s1\<lparr>cd_errorMessage := txt_st_sm_range\<rparr>
      else let n = smoke_deletionCount d f in
           if 0 < n \<and> \<not> confirm (smoke_question n) then s1 else card_send id s1)"

definition smoke_settle :: "api_error + unit \<Rightarrow> smoke_card \<Rightarrow> smoke_card" where
  "smoke_settle answer s = card_settle smoke_notice txt_st_sm_fail answer s"

section \<open>Refresh and test alerts\<close>

text \<open>
  \<open>handleRefreshHistory\<close>: \<open>rendered\<close> is the time of the render whose values the handler has,
  \<open>now\<close> the time of the click.
\<close>

definition handleRefreshHistory ::
    "js_host \<Rightarrow> (string option \<Rightarrow> string) \<Rightarrow> int \<Rightarrow> int \<Rightarrow> SmokeRotationStatus option \<Rightarrow>
     api_error + SmokeRotationStatus \<Rightarrow> ToastNoticeValue" where
  "handleRefreshHistory H formatDateTime rendered now d answer =
     (let secondary = Option.bind d ss_secondary_limit_retry_at;
          secondaryBlocked = isGithubSecondaryRateLimitBlocked H secondary rendered;
          retryAt = (if secondaryBlocked then secondary else Option.bind d ss_rate_limit_reset_at)
      in if status_blocked H d now
         then plain_toast ToneWarning txt_st_rf_locked
                (''GitHub API '' @ (if secondaryBlocked then txt_st_rf_secondary else txt_st_rf_reserve) @ txt_st_rf_by
                 @ formatDateTime retryAt @ txt_st_rf_after)
         else (case answer of
                 Inl e \<Rightarrow> plain_toast ToneError txt_st_rf_fail (getSettingsModelErrorMessage e txt_st_rf_fail_d)
               | Inr r \<Rightarrow>
                   if truthy (ss_history_error r) then plain_toast ToneWarning txt_st_rf_not (the (ss_history_error r))
                   else plain_toast ToneSuccess txt_st_rf_done
                          (txt_st_rf_d1 @ show_nat (length (ss_recent_runs r)) @ txt_st_rf_d2)))"

text \<open>The three test handlers share their shape.\<close>

definition test_alert ::
    "string \<Rightarrow> string \<Rightarrow> string \<Rightarrow> (string \<Rightarrow> bool) \<Rightarrow> api_error + SettingsActionTestResult \<Rightarrow> ToastNoticeValue option" where
  "test_alert question failed fallback confirm answer =
     (if \<not> confirm question then None
      else Some (case answer of
             Inr r \<Rightarrow> \<lparr>tn_detail = at_detail r, tn_link = None, tn_message = at_message r,
                       tn_tone = (if at_success r then ToneSuccess else ToneError)\<rparr>
           | Inl e \<Rightarrow> plain_toast ToneError failed (getSettingsModelErrorMessage e fallback)))"

definition handleTestStaleAlert :: "(string \<Rightarrow> bool) \<Rightarrow> api_error + SettingsActionTestResult \<Rightarrow> ToastNoticeValue option" where
  "handleTestStaleAlert = test_alert txt_st_ts_ask txt_st_ts_fail txt_st_ts_fail_d"

definition handleTestGithubRateLimitAlert :: "(string \<Rightarrow> bool) \<Rightarrow> api_error + SettingsActionTestResult \<Rightarrow> ToastNoticeValue option" where
  "handleTestGithubRateLimitAlert = test_alert txt_st_tg_ask txt_st_tg_fail txt_st_tg_fail_d"

definition handleTestFailureTypeIncreaseAlert ::
    "(string \<Rightarrow> bool) \<Rightarrow> api_error + SettingsActionTestResult \<Rightarrow> ToastNoticeValue option" where
  "handleTestFailureTypeIncreaseAlert = test_alert txt_st_tf_ask txt_st_tf_fail txt_st_tg_fail_d"

section \<open>What is sent\<close>

abbreviation smoke_reach :: "bool \<Rightarrow> smoke_card \<Rightarrow> bool" where
  "smoke_reach canManage \<equiv>
     card_reach canManage smoke_form (\<lambda>f. \<not> smoke_out_of_range f) txt_st_sm_range id smoke_notice txt_st_sm_fail SMOKE_DEFAULT_FORM"

lemma smoke_save_reach:
  assumes "smoke_reach canManage s" "cd_isEditing s" "cd_flight s = None"
  shows "smoke_reach canManage (smoke_handleSave confirm d s)"
proof -
  let ?s1 = "s\<lparr>cd_errorMessage := []\<rparr>"
  have r: "smoke_reach canManage ?s1" using assms by (rule card_reach.decline)
  have e: "cd_isEditing ?s1" "cd_flight ?s1 = None" "cd_formValue ?s1 = cd_formValue s" using assms by simp_all
  consider "smoke_out_of_range (cd_formValue s)"
    | "\<not> smoke_out_of_range (cd_formValue s)" "smoke_handleSave confirm d s = ?s1"
    | "\<not> smoke_out_of_range (cd_formValue s)" "smoke_handleSave confirm d s = card_send id ?s1"
    by (cases "0 < smoke_deletionCount d (cd_formValue s) \<and> \<not> confirm (smoke_question (smoke_deletionCount d (cd_formValue s)))")
      (simp_all add: smoke_handleSave_def Let_def, blast+)
  then show ?thesis
  proof cases
    case 1
    then have "smoke_reach canManage (?s1\<lparr>cd_errorMessage := txt_st_sm_range\<rparr>)"
      using r e by (intro card_reach.refuse) simp_all
    then show ?thesis using 1 by (simp add: smoke_handleSave_def Let_def)
  next
    case 2
    then show ?thesis using r by simp
  next
    case 3
    then show ?thesis using r e by (simp add: card_reach.send)
  qed
qed

text \<open>Saving sends at most one request, the form as it is; it sends it exactly when every number is in
  its range and no stored failure would be deleted without the user's consent.\<close>

lemma smoke_save_sends:
  "cd_sent (smoke_handleSave confirm d s) =
   cd_sent s @ (if \<not> smoke_out_of_range (cd_formValue s)
       \<and> (of_nat (of_settings d sm_failure_metadata_count 0) \<le> sm_failure_metadata_limit (cd_formValue s)
          \<or> confirm (smoke_question (of_nat (of_settings d sm_failure_metadata_count 0) - sm_failure_metadata_limit (cd_formValue s))))
     then [cd_formValue s] else [])"
  by (auto simp: smoke_handleSave_def Let_def card_send_def smoke_deletionCount_def max_def)

text \<open>The ranges admit fractions: half a run passes the check.\<close>

lemma fraction_in_range: "\<not> smoke_out_of_range (SMOKE_DEFAULT_FORM\<lparr>sm_failure_rate_min_runs := 3 / 2\<rparr>)"
  by (simp add: smoke_out_of_range_def SMOKE_DEFAULT_FORM_def)

end
