(* ===== verification/Settings_Bottleneck.thy ===== *)
theory Settings_Bottleneck
  imports Settings_Models Deployment_Query
begin

text \<open>
  The card of the deployment bottleneck alert (\<open>useDeploymentBottleneckSettingsModel.ts\<close>) and the
  preview that it shows (\<open>features/deployment/lib/deploymentBottleneckPreview.ts\<close>): the streak of
  latest deployments whose slowest stage exceeds the threshold, and whether it would raise the alert.
\<close>

section \<open>The preview\<close>

text \<open>What the preview reads of an entry; \<open>Object.entries\<close> gives the stages in the order of the object.\<close>

record bottleneck_entry =
  be_status :: DeploymentStatus
  be_version :: string
  be_stage_durations_ms :: "json js_object"

record DeploymentBottleneckPreview =
  bp_currentCount :: nat
  bp_hasHistory :: bool
  bp_latestVersion :: "string option"
  bp_remainingCount :: rat
  bp_slowestMs :: rat
  bp_slowestStage :: "string option"
  bp_wouldAlert :: bool

text \<open>The reducer over the stages: the first of the longest valid durations.\<close>

fun slower_stage :: "string \<times> json \<Rightarrow> (rat \<times> string) option \<Rightarrow> (rat \<times> string) option" where
  "slower_stage (stage, JNum (Num d)) current =
     (if d < 0 then current
      else case current of None \<Rightarrow> Some (d, stage) | Some (c, _) \<Rightarrow> if c < d then Some (d, stage) else current)"
| "slower_stage (stage, _) current = current"

definition slowest_of :: "bottleneck_entry \<Rightarrow> (rat \<times> string) option" where
  "slowest_of e = fold slower_stage (obj_entries (be_stage_durations_ms e)) None"

text \<open>The loop: \<open>break\<close> ends it.\<close>

fun preview_loop :: "rat \<Rightarrow> bottleneck_entry list \<Rightarrow> nat \<times> rat \<times> string option \<Rightarrow> nat \<times> rat \<times> string option" where
  "preview_loop thresholdMs [] acc = acc"
| "preview_loop thresholdMs (e # es) (currentCount, slowestMs, slowestStage) =
     (if be_status e \<noteq> DSuccess then (currentCount, slowestMs, slowestStage)
      else case slowest_of e of
        None \<Rightarrow> (currentCount, slowestMs, slowestStage)
      | Some (d, stage) \<Rightarrow>
          if d \<le> thresholdMs then (currentCount, slowestMs, slowestStage)
          else preview_loop thresholdMs es
                 (if slowestMs < d then (Suc currentCount, d, Some stage) else (Suc currentCount, slowestMs, slowestStage)))"

definition buildDeploymentBottleneckPreview :: "bottleneck_entry list \<Rightarrow> rat \<Rightarrow> rat \<Rightarrow> DeploymentBottleneckPreview" where
  "buildDeploymentBottleneckPreview entries thresholdMs requiredCount =
     (let (currentCount, slowestMs, slowestStage) = preview_loop thresholdMs entries (0, 0, None) in
      \<lparr>bp_currentCount = currentCount, bp_hasHistory = entries \<noteq> [],
       bp_latestVersion = (if 0 < currentCount then Some (be_version (hd entries)) else None),
       bp_remainingCount = max 0 (requiredCount - of_nat currentCount),
       bp_slowestMs = slowestMs, bp_slowestStage = slowestStage,
       bp_wouldAlert = (requiredCount \<le> of_nat currentCount)\<rparr>)"

section \<open>The card\<close>

record DeploymentBottleneckSettings =
  bs_threshold_ms :: rat
  bs_consecutive_count :: rat
  bs_event_retention_days :: rat

definition BOTTLENECK_DEFAULT :: DeploymentBottleneckSettings where
  "BOTTLENECK_DEFAULT = \<lparr>bs_threshold_ms = 60000, bs_consecutive_count = 3, bs_event_retention_days = 90\<rparr>"

definition bottleneck_form :: "DeploymentBottleneckSettings option \<Rightarrow> DeploymentBottleneckSettings" where
  "bottleneck_form settings = default_to BOTTLENECK_DEFAULT settings"

definition bottleneck_notice :: "DeploymentBottleneckSettings \<Rightarrow> ToastNoticeValue" where
  "bottleneck_notice f =
     saved_toast txt_st_bn_saved (number_text (fl (bs_threshold_ms f / 1000)) @ txt_st_bn_d1
       @ number_text (bs_consecutive_count f) @ txt_st_bn_d2 @ number_text (bs_event_retention_days f) @ txt_st_bn_d3)"

type_synonym bottleneck_state = "(DeploymentBottleneckSettings, DeploymentBottleneckSettings) card"

definition bottleneck_handleEdit :: "DeploymentBottleneckSettings option \<Rightarrow> bottleneck_state \<Rightarrow> bottleneck_state" where
  "bottleneck_handleEdit settings s = card_edit (bottleneck_form settings) s"

definition bottleneck_handleSave :: "bottleneck_state \<Rightarrow> bottleneck_state" where
  "bottleneck_handleSave s = card_send id s"

definition bottleneck_saved :: "api_error + unit \<Rightarrow> bottleneck_state \<Rightarrow> bottleneck_state" where
  "bottleneck_saved answer s = card_settle bottleneck_notice txt_st_bn_fail answer s"

interpretation bottleneck_card: settings_form bottleneck_form id id "\<lambda>_. True" BOTTLENECK_DEFAULT
  by unfold_locales (simp_all add: bottleneck_form_def default_to_def)

text \<open>The settings that the host applies, and where the environment overrides them.\<close>

record bottleneck_alert =
  ba_settings :: DeploymentBottleneckSettings
  ba_threshold_from_environment :: bool
  ba_consecutive_from_environment :: bool
  ba_retention_from_environment :: bool

definition previewSettings ::
    "DeploymentBottleneckSettings option \<Rightarrow> (DeploymentBottleneckSettings, 'p) card \<Rightarrow> DeploymentBottleneckSettings" where
  "previewSettings settings s = (if cd_isEditing s then cd_formValue s else default_to BOTTLENECK_DEFAULT settings)"

definition hostOverrideLabels :: "bottleneck_alert option \<Rightarrow> string list" where
  "hostOverrideLabels alert =
     (case alert of
        None \<Rightarrow> []
      | Some a \<Rightarrow>
          (if ba_threshold_from_environment a then [txt_st_bn_threshold] else [])
          @ (if ba_consecutive_from_environment a then [txt_st_bn_consecutive] else [])
          @ (if ba_retention_from_environment a then [txt_st_bn_retention] else []))"

text \<open>\<open>hostPreview\<close>: the preview on screen is taken when the settings agree.\<close>

definition hostPreview ::
    "bottleneck_entry list option \<Rightarrow> bottleneck_alert option \<Rightarrow> DeploymentBottleneckSettings \<Rightarrow> DeploymentBottleneckPreview option" where
  "hostPreview deploymentHistory alert shown =
     (case (deploymentHistory, alert) of
        (Some es, Some a) \<Rightarrow>
          let h = ba_settings a in
          Some (if bs_threshold_ms h = bs_threshold_ms shown \<and> bs_consecutive_count h = bs_consecutive_count shown
                then buildDeploymentBottleneckPreview es (bs_threshold_ms shown) (bs_consecutive_count shown)
                else buildDeploymentBottleneckPreview es (bs_threshold_ms h) (bs_consecutive_count h))
      | _ \<Rightarrow> None)"

record DeploymentBottleneckCleanupResult =
  cu_retention_days :: nat
  cu_deleted_count :: nat
  cu_retained_event_count :: nat

text \<open>\<open>handleCleanup\<close>: the notices, and whether events were deleted.\<close>

definition bottleneck_handleCleanup ::
    "(string \<Rightarrow> bool) \<Rightarrow> api_error + DeploymentBottleneckCleanupResult \<Rightarrow> api_error + DeploymentBottleneckCleanupResult
     \<Rightarrow> bool \<times> ToastNoticeValue option" where
  "bottleneck_handleCleanup confirm preview cleanup =
     (case preview of
        Inl e \<Rightarrow> (False, Some (plain_toast ToneError txt_st_bc_check (getSettingsModelErrorMessage e txt_st_bc_check_d)))
      | Inr p \<Rightarrow>
          if cu_deleted_count p = 0 then
            (False, Some (plain_toast ToneWarning txt_st_bc_none
               (txt_st_bc_period @ show_nat (cu_retention_days p) @ txt_st_bc_now @ show_nat (cu_retained_event_count p) @ txt_st_bc_kept)))
          else if \<not> confirm (txt_st_bc_ask1 @ show_nat (cu_retention_days p) @ txt_st_bc_ask2 @ show_nat (cu_deleted_count p)
                             @ txt_st_bc_ask3 @ show_nat (cu_retained_event_count p) @ txt_st_bc_ask4)
          then (False, None)
          else (True, Some (case cleanup of
             Inr r \<Rightarrow> plain_toast ToneSuccess txt_st_bc_done
               (show_nat (cu_deleted_count r) @ txt_st_bc_d1 @ show_nat (cu_retained_event_count r) @ txt_st_bc_d2
                @ txt_st_bc_period @ show_nat (cu_retention_days r) @ txt_st_bc_days)
           | Inl e \<Rightarrow> plain_toast ToneError txt_st_bc_fail (getSettingsModelErrorMessage e txt_st_bc_fail_d))))"

section \<open>What the preview computes\<close>

text \<open>The valid durations of an entry.\<close>

definition durations :: "bottleneck_entry \<Rightarrow> rat list" where
  "durations e = concat (map (\<lambda>p. case snd p of JNum (Num d) \<Rightarrow> if d < 0 then [] else [d] | _ \<Rightarrow> [])
     (obj_entries (be_stage_durations_ms e)))"

definition slow :: "rat \<Rightarrow> bottleneck_entry \<Rightarrow> bool" where
  "slow t e = (be_status e = DSuccess \<and> (\<exists>d\<in>set (durations e). t < d))"

definition duration_of :: "string \<times> json \<Rightarrow> rat option" where
  "duration_of p = (case snd p of JNum (Num d) \<Rightarrow> if d < 0 then None else Some d | _ \<Rightarrow> None)"

lemma slower_stage_eq:
  "slower_stage p current =
   (case duration_of p of
      None \<Rightarrow> current
    | Some d \<Rightarrow> (case current of None \<Rightarrow> Some (d, fst p) | Some (c, _) \<Rightarrow> if c < d then Some (d, fst p) else current))"
proof (cases "(p, current)" rule: slower_stage.cases)
  case (1 stage d c)
  then show ?thesis by (simp add: duration_of_def split: option.splits)
qed (auto simp: duration_of_def)

lemma durations_eq: "set (durations e) = {d. \<exists>p\<in>set (obj_entries (be_stage_durations_ms e)). duration_of p = Some d}"
proof -
  have "set (case snd p of JNum (Num d) \<Rightarrow> if d < 0 then [] else [d] | _ \<Rightarrow> []) = {d. duration_of p = Some d}" for p :: "string \<times> json"
    by (auto simp: duration_of_def split: json.splits jsnum.splits)
  then show ?thesis by (auto simp: durations_def)
qed

text \<open>The reducer keeps a maximum of what it has seen.\<close>

definition best_of :: "(string \<times> json) set \<Rightarrow> (rat \<times> string) option \<Rightarrow> bool" where
  "best_of ps acc =
     (case acc of
        None \<Rightarrow> \<forall>p\<in>ps. duration_of p = None
      | Some (d, stage) \<Rightarrow> (\<exists>p\<in>ps. duration_of p = Some d \<and> fst p = stage) \<and> (\<forall>p\<in>ps. \<forall>x. duration_of p = Some x \<longrightarrow> x \<le> d))"

lemma best_step: "best_of ps acc \<Longrightarrow> best_of (insert p ps) (slower_stage p acc)"
proof (cases "duration_of p")
  case None
  moreover assume "best_of ps acc"
  ultimately show ?thesis by (auto simp: best_of_def slower_stage_eq split: option.splits)
next
  case (Some d)
  moreover assume b: "best_of ps acc"
  ultimately show ?thesis
    by (cases acc) (force simp: best_of_def slower_stage_eq)+
qed

lemma best_fold: "best_of ps acc \<Longrightarrow> best_of (ps \<union> set xs) (fold slower_stage xs acc)"
proof (induction xs arbitrary: ps acc)
  case (Cons x xs)
  from Cons.IH [OF best_step [OF Cons.prems, of x]] show ?case by simp
qed simp

lemma slowest_best: "best_of (set (obj_entries (be_stage_durations_ms e))) (slowest_of e)"
  using best_fold [of "{}" None "obj_entries (be_stage_durations_ms e)"] by (simp add: slowest_of_def best_of_def)

lemma slowest_of_max:
  "(case slowest_of e of
      None \<Rightarrow> set (durations e) = {}
    | Some (d, stage) \<Rightarrow> d \<in> set (durations e) \<and> (\<forall>x\<in>set (durations e). x \<le> d))"
  using slowest_best [of e] by (auto simp: best_of_def durations_eq split: option.splits prod.splits)

lemma slow_iff: "slow t e \<longleftrightarrow> be_status e = DSuccess \<and> (\<exists>d stage. slowest_of e = Some (d, stage) \<and> t < d)"
proof (cases "slowest_of e")
  case None
  then show ?thesis using slowest_of_max [of e] by (simp add: slow_def)
next
  case (Some p)
  obtain d stage where p: "p = (d, stage)" by (cases p)
  have m: "d \<in> set (durations e)" "\<forall>x\<in>set (durations e). x \<le> d" using slowest_of_max [of e] Some p by simp_all
  show ?thesis using m Some p by (auto simp: slow_def intro: less_le_trans)
qed

definition peak :: "bottleneck_entry \<Rightarrow> rat" where
  "peak e = (case slowest_of e of None \<Rightarrow> 0 | Some (d, _) \<Rightarrow> d)"

lemma preview_loop_streak:
  "preview_loop t es (n, ms, st) =
   (n + length (takeWhile (slow t) es), fold max (map peak (takeWhile (slow t) es)) ms,
    snd (snd (preview_loop t es (n, ms, st))))"
proof (induction es arbitrary: n ms st)
  case (Cons e es)
  show ?case
  proof (cases "slow t e")
    case True
    then obtain d stage where d: "be_status e = DSuccess" "slowest_of e = Some (d, stage)" "t < d" by (auto simp: slow_iff)
    then have "preview_loop t (e # es) (n, ms, st) =
        preview_loop t es (Suc n, max d ms, if ms < d then Some stage else st)" by (simp add: max_def)
    then show ?thesis using Cons.IH [of "Suc n" "max d ms" "if ms < d then Some stage else st"] True d
      by (simp add: peak_def max.commute)
  next
    case False
    then have "preview_loop t (e # es) (n, ms, st) = (n, ms, st)" by (auto simp: slow_iff split: option.splits)
    then show ?thesis using False by simp
  qed
qed simp

text \<open>The preview counts the streak of latest deployments that succeeded with a stage above the
  threshold, and reports the longest stage of the streak; it announces the alert exactly when the
  streak has the required length, that is when nothing remains.\<close>

theorem bottleneck_preview_streak:
  "let p = buildDeploymentBottleneckPreview es t k; streak = takeWhile (slow t) es
   in bp_currentCount p = length streak \<and>
      bp_slowestMs p = fold max (map peak streak) 0 \<and>
      (bp_wouldAlert p \<longleftrightarrow> k \<le> of_nat (length streak)) \<and>
      (bp_wouldAlert p \<longleftrightarrow> bp_remainingCount p = 0) \<and>
      (bp_latestVersion p = None \<longleftrightarrow> streak = [])"
proof -
  obtain n ms st where l: "preview_loop t es (0, 0, None) = (n, ms, st)" by (metis prod_cases3)
  have "n = length (takeWhile (slow t) es)" "ms = fold max (map peak (takeWhile (slow t) es)) 0"
    using preview_loop_streak [of t es 0 0 None] l by simp_all
  then show ?thesis by (auto simp: buildDeploymentBottleneckPreview_def l Let_def)
qed

text \<open>Reusing the preview on screen for the host changes nothing.\<close>

lemma hostPreview_eq:
  "hostPreview (Some es) (Some a) shown =
   Some (buildDeploymentBottleneckPreview es (bs_threshold_ms (ba_settings a)) (bs_consecutive_count (ba_settings a)))"
  by (simp add: hostPreview_def Let_def)

text \<open>Events are deleted only after a preview that names some and a confirmation.\<close>

lemma cleanup_confirmed:
  "fst (bottleneck_handleCleanup confirm preview cleanup) \<longleftrightarrow>
   (\<exists>p q. preview = Inr p \<and> cu_deleted_count p \<noteq> 0 \<and> confirm q \<and>
      q = txt_st_bc_ask1 @ show_nat (cu_retention_days p) @ txt_st_bc_ask2 @ show_nat (cu_deleted_count p)
          @ txt_st_bc_ask3 @ show_nat (cu_retained_event_count p) @ txt_st_bc_ask4)"
  by (auto simp: bottleneck_handleCleanup_def split: sum.splits)

end
