(* ===== verification/Settings_Correct.thy ===== *)
theory Settings_Correct
  imports Settings_Alerts Settings_Smoke Settings_Bottleneck
begin

text \<open>
  Properties of the settings cards, from the interpretations of \<open>settings_form\<close> and the invariant
  of the life of a card: what an unchanged save sends, and what the card of the smoke monitoring
  may send at all.
\<close>

section \<open>Opening a card and saving it\<close>

lemmas edit_handlers =
  alert_handleEdit_def login_defense_handleEdit_def upstream_handleEdit_def dashboard_handleEdit_def

lemmas save_handlers =
  alert_handleSave_def login_defense_handleSave_def upstream_handleSave_def dashboard_handleSave_def

definition sample_alerts :: SecurityAlertSettingsStatus where
  "sample_alerts =
     \<lparr>sa_enabled = True, sa_change_alerts_enabled = True, sa_encoded_path_monitoring_enabled = True,
      sa_encoded_path_window_minutes = 5, sa_encoded_path_threshold = 7, sa_health_monitoring_enabled = True,
      sa_health_cooldown_minutes = 30, sa_watchdog_stale_minutes = 10, sa_retry_delay_warning_minutes = 10,
      sa_http_error_monitoring_enabled = True, sa_http_error_window_minutes = 15, sa_http_not_found_threshold = 9,
      sa_http_server_error_threshold = 2, sa_http_excluded_paths = [''/health''], sa_provider = PrEmail,
      sa_email_port = 465, sa_email_security = EsSsl, sa_email_recipients = [''ops@example.com''],
      sa_event_routes = (''login_locked'', ''email'') # tl (default_routes SECURITY_ROUTE_EVENTS),
      sa_change_event_routes = default_routes CHANGE_ROUTE_EVENTS,
      sas_webhook_url = None, sas_telegram_chat_id = None, sas_email_host = Some ''mail'', sas_email_username = None,
      sas_email_from = Some ''tm@example.com''\<rparr>"

definition sample_defense :: LoginDefenseSettingsStatus where
  "sample_defense =
     \<lparr>ld_suspicious_block_enabled = True, ld_suspicious_trusted_networks = [''10.0.0.0/8'', ''192.168.0.0/16''],
      ld_escalation_enabled = True, ld_escalation_window_minutes = 60, ld_escalation_multiplier = 3,
      ld_max_minutes = 120, ld_turnstile_mode = TsRiskBased, lds_turnstile_site_key = Some ''key''\<rparr>"

definition sample_upstream :: UpstreamSecuritySettingsInput where
  "sample_upstream =
     \<lparr>up_dns_strict_mode = True, up_allowlist_enabled = True, up_allow_docker_service_names = True,
      up_allow_private_networks = False, up_allowed_domain_suffixes = [''example.com'']\<rparr>"

definition sample_dashboard :: TraefikDashboardSettingsStatus where
  "sample_dashboard = \<lparr>ts_enabled = True, ts_domain = Some ''traefik.example.com'', ts_auth_username = None\<rparr>"

lemma settings_samples_clean:
  "alert_clean sample_alerts"
  "list_all clean_entry (ld_suspicious_trusted_networks sample_defense)" "trimmed (lds_turnstile_site_key sample_defense)"
  "list_all clean_entry (up_allowed_domain_suffixes sample_upstream)"
  "trimmed (ts_domain sample_dashboard)" "trimmed (ts_auth_username sample_dashboard)"
  by (code_simp, code_simp, code_simp, code_simp, code_simp, code_simp)

lemma settings_samples_stored:
  "sa_email_port (alert_stored sample_alerts) = 465"
  "ld_suspicious_trusted_networks (login_defense_stored sample_defense) = [''10.0.0.0/8'', ''192.168.0.0/16'']"
  by (simp_all add: alert_stored_def login_defense_stored_def sample_alerts_def sample_defense_def
      SecurityAlertSettings.defs LoginDefenseSettings.defs)

text \<open>C33. Settings survive an unchanged save.  For the cards of the security alerts, the login defense,
  the upstream security and the Traefik dashboard: opening the card on stored settings whose texts are
  trimmed, whose lists hold clean entries and whose alert routes name every event in the order of the
  backend, and saving it at once, sends one more request, and this request is the stored settings, with
  every secret empty; saving again after the first request was refused, whatever the refusal, sends the
  same once more, on each of the four cards.\<close>

theorem settings_unchanged_save:
  assumes "alert_clean a"
    and "list_all clean_entry (ld_suspicious_trusted_networks l)" and "trimmed (lds_turnstile_site_key l)"
    and "list_all clean_entry (up_allowed_domain_suffixes u)"
    and "trimmed (ts_domain d)" and "trimmed (ts_auth_username d)"
  shows "(let opened = alert_handleSave (alert_handleEdit (Some a) ca);
              again = alert_handleSave (fst (alert_saved (Inl e) (opened, t)))
          in cd_sent opened = cd_sent ca @ [alert_stored a] \<and> cd_sent again = cd_sent ca @ [alert_stored a, alert_stored a])
    \<and> (let opened = login_defense_handleSave (login_defense_handleEdit (Some l) cl);
           again = login_defense_handleSave (login_defense_saved (Inl e) opened)
       in cd_sent opened = cd_sent cl @ [login_defense_stored l]
          \<and> cd_sent again = cd_sent cl @ [login_defense_stored l, login_defense_stored l])
    \<and> (let opened = upstream_handleSave (upstream_handleEdit (Some u) cu);
           again = upstream_handleSave (upstream_saved (Inl e) opened)
       in cd_sent opened = cd_sent cu @ [u] \<and> cd_sent again = cd_sent cu @ [u, u])
    \<and> (let opened = dashboard_handleSave (dashboard_handleEdit (Some d) cd);
           again = dashboard_handleSave (dashboard_saved (Inl e) opened)
       in cd_sent opened = cd_sent cd @ [dashboard_stored d] \<and> cd_sent again = cd_sent cd @ [dashboard_stored d, dashboard_stored d])"
proof -
  note l = conjI [OF assms(2,3)] and d = conjI [OF assms(5,6)]
  show ?thesis
    using alerts.unchanged_save(1) [OF assms(1), of ca]
      alerts.unchanged_save(2) [OF assms(1), of alert_notice txt_st_sa_fail e ca]
      login_defense.unchanged_save(1) [OF l, of cl]
      login_defense.unchanged_save(2) [OF l, of login_defense_notice txt_st_ld_fail e cl]
      upstream.unchanged_save(1) [OF assms(4), of cu]
      upstream.unchanged_save(2) [OF assms(4), of upstream_notice txt_st_us_fail e cu]
      dashboard.unchanged_save(1) [OF d, of cd]
      dashboard.unchanged_save(2) [OF d, of dashboard_notice txt_st_td_fail e cd]
    by (simp add: Let_def edit_handlers save_handlers login_defense_saved_def alert_saved_def upstream_saved_def
        dashboard_saved_def)
qed

theorem settings_unchanged_save_witness:
  "cd_sent (alert_handleSave (alert_handleEdit (Some sample_alerts) (card_init createDefaultSecurityAlertForm)))
     = [alert_stored sample_alerts]
   \<and> sa_email_port (alert_stored sample_alerts) = 465
   \<and> cd_sent (login_defense_handleSave (login_defense_handleEdit (Some sample_defense) (card_init createDefaultLoginDefenseForm)))
     = [login_defense_stored sample_defense]
   \<and> ld_suspicious_trusted_networks (login_defense_stored sample_defense) = [''10.0.0.0/8'', ''192.168.0.0/16'']
   \<and> cd_sent (upstream_handleSave (upstream_handleEdit (Some sample_upstream) (card_init createDefaultUpstreamSecurityForm)))
     = [sample_upstream]
   \<and> cd_sent (dashboard_handleSave (dashboard_saved (Inl (Some (Some 400, None))) (dashboard_handleSave
       (dashboard_handleEdit (Some sample_dashboard) (card_init createDefaultTraefikDashboardForm)))))
     = [dashboard_stored sample_dashboard, dashboard_stored sample_dashboard]"
  using settings_unchanged_save [OF settings_samples_clean(1-6), of "card_init createDefaultSecurityAlertForm" "Some (Some 400, None)" None
      "card_init createDefaultLoginDefenseForm" "card_init createDefaultUpstreamSecurityForm"
      "card_init createDefaultTraefikDashboardForm"]
  by (simp add: settings_samples_stored card_init_def Let_def)

text \<open>The edit button of a card asks for the end of the loading, not for its success: when the settings
  could not be loaded the form opens with the defaults, and saving it replaces what is stored by them.\<close>

lemma defaults_after_failed_load:
  "cd_sent (login_defense_handleSave (login_defense_handleEdit None c)) = cd_sent c @ [login_defense_payload createDefaultLoginDefenseForm]"
  "ld_suspicious_trusted_networks (login_defense_payload createDefaultLoginDefenseForm) = []"
  "cd_sent (alert_handleSave (alert_handleEdit None c')) = cd_sent c' @ [buildSecurityAlertSettingsPayload createDefaultSecurityAlertForm]"
  "\<not> sa_enabled (buildSecurityAlertSettingsPayload createDefaultSecurityAlertForm)"
  using login_defense.unloaded_save [of c] alerts.unloaded_save [of c']
  by (simp_all add: edit_handlers save_handlers)
    (simp_all add: login_defense_payload_def createDefaultLoginDefenseForm_def parseMultivalueText_def
      entry_list_def buildSecurityAlertSettingsPayload_def createDefaultSecurityAlertForm_def)

section \<open>The smoke monitoring card\<close>

text \<open>C18. The card of the smoke monitoring is safe along every sequence of clicks and answers: a user who
  may not manage never sends anything; every request sent has its numbers in the ranges of the backend; a
  pending request is the last one sent and no error is shown beside it; there are at most as many notices of
  success as answered requests; and a click on save sends the form as it is, exactly when it is in range
  and the user has agreed to the deletion of the stored failures above the new limit, if there are any.\<close>

theorem smoke_card_safe:
  assumes "smoke_reach canManage s"
  shows "(\<not> canManage \<longrightarrow> cd_sent s = [])
    \<and> (\<forall>f\<in>set (cd_sent s). \<not> smoke_out_of_range f)
    \<and> (\<forall>f. cd_flight s = Some f \<longrightarrow> cd_sent s \<noteq> [] \<and> last (cd_sent s) = f \<and> cd_errorMessage s = [])
    \<and> length (cd_toasts s) + (if cd_flight s = None then 0 else 1) \<le> length (cd_sent s)
    \<and> cd_sent (smoke_handleSave confirm d s) =
        cd_sent s @
        (let f = cd_formValue s;
             excess = of_nat (of_settings d sm_failure_metadata_count 0) - sm_failure_metadata_limit f
         in if \<not> smoke_out_of_range f \<and> (excess \<le> 0 \<or> confirm (smoke_question excess)) then [f] else [])"
proof -
  have i: "card_inv canManage (\<lambda>f. \<not> smoke_out_of_range f) id smoke_notice s" using assms by (rule card_reach_inv)
  show ?thesis
    using i unfolding card_inv_def by (auto simp: smoke_save_sends Let_def)
qed

theorem smoke_card_safe_witness:
  "cd_sent (smoke_settle (Inr ()) (smoke_handleSave (\<lambda>_. True) None
      (smoke_handleEdit None (card_init SMOKE_DEFAULT_FORM)))) = [SMOKE_DEFAULT_FORM]
   \<and> \<not> smoke_out_of_range SMOKE_DEFAULT_FORM"
proof -
  let ?e = "smoke_handleEdit None (card_init SMOKE_DEFAULT_FORM)"
  let ?s = "smoke_settle (Inr ()) (smoke_handleSave (\<lambda>_. True) None ?e)"
  have n: "smoke_form None = SMOKE_DEFAULT_FORM" by (rule smoke_settings.no_settings)
  have e: "smoke_reach True ?e" unfolding smoke_handleEdit_def
    by (rule card_reach.edit [OF card_reach.start]) (simp_all add: card_init_def)
  have "smoke_reach True (smoke_handleSave (\<lambda>_. True) None ?e)"
    by (rule smoke_save_reach [OF e]) (simp_all add: smoke_handleEdit_def card_edit_def card_init_def)
  then have r: "smoke_reach True ?s" unfolding smoke_settle_def by (rule card_reach.settle)
  have "cd_sent ?s = [SMOKE_DEFAULT_FORM]"
    by (simp add: smoke_settle_def smoke_handleSave_def smoke_handleEdit_def card_settle_def card_send_def card_edit_def
        card_init_def n Let_def smoke_out_of_range_def smoke_deletionCount_def SMOKE_DEFAULT_FORM_def)
  then show ?thesis using smoke_card_safe [OF r, of "\<lambda>_. True" None] by simp
qed

end
