(* ===== verification/Backup_Import.thy ===== *)
theory Backup_Import
  imports Settings_Card Ui_Text_Settings
begin

text \<open>
  Backup and restore on the settings page: the state of the import (\<open>useBackupImportState.ts\<close>), its
  three actions (\<open>useBackupImportActions.ts\<close>) with their texts (\<open>backupImportActionHelpers.ts\<close>), and
  the export (\<open>useBackupExportAction.ts\<close>).

  An action first reads the file and then calls the backend; both take time, and the file field and
  the choice of the mode stay enabled meanwhile.  An action therefore works on the file and the mode
  of the click, while its result goes to whatever is selected when it arrives.  Used one action at
  a time, a review on screen is the review of the selected file and mode; with a selection changed
  under way it may be the review of another (\<open>stale_review\<close>).
\<close>

section \<open>Data\<close>

datatype BackupImportMode = Merge | Overwrite

text \<open>A chosen file: its text, or \<open>None\<close> when it cannot be read.\<close>

record backup_file =
  fl_name :: string
  fl_text :: "string option"

record BackupImportResult =
  ir_created_services :: nat
  ir_updated_services :: nat
  ir_deleted_services :: nat
  ir_created_redirects :: nat
  ir_updated_redirects :: nat
  ir_deleted_redirects :: nat

record BackupValidateResult =
  vr_service_count :: nat
  vr_redirect_count :: nat
  vr_warning_count :: nat
  vr_warnings :: "string list"

text \<open>Of the items of a preview their domains.\<close>

record BackupPreviewGroup =
  pg_creates :: "string list"
  pg_updates :: "string list"
  pg_deletes :: "string list"

record BackupPreviewResult =
  pv_mode :: BackupImportMode
  pv_warning_count :: nat
  pv_services :: BackupPreviewGroup
  pv_redirect_hosts :: BackupPreviewGroup

section \<open>Texts (\<open>backupImportActionHelpers.ts\<close>)\<close>

definition readBackupPayloadFile :: "backup_file \<Rightarrow> string + json" where
  "readBackupPayloadFile file =
     (case Option.bind (fl_text file) json_parse of None \<Rightarrow> Inl txt_st_bk_invalid | Some v \<Rightarrow> Inr v)"

definition formatBackupWarningCount :: "nat \<Rightarrow> string" where
  "formatBackupWarningCount n = (if n \<noteq> 0 then txt_st_bk_warn @ show_nat n @ txt_st_bk_n else txt_st_bk_nowarn)"

definition formatBackupImportResult :: "BackupImportResult \<Rightarrow> string" where
  "formatBackupImportResult r =
     str_join txt_st_bk_sep
       [txt_st_bk_i1 @ show_nat (ir_created_services r) @ txt_st_bk_n, txt_st_bk_i2 @ show_nat (ir_updated_services r) @ txt_st_bk_n,
        txt_st_bk_i3 @ show_nat (ir_deleted_services r) @ txt_st_bk_n, txt_st_bk_i4 @ show_nat (ir_created_redirects r) @ txt_st_bk_n,
        txt_st_bk_i5 @ show_nat (ir_updated_redirects r) @ txt_st_bk_n, txt_st_bk_i6 @ show_nat (ir_deleted_redirects r) @ txt_st_bk_n]"

definition formatBackupPreviewGroup :: "string \<Rightarrow> BackupPreviewGroup \<Rightarrow> string" where
  "formatBackupPreviewGroup label g =
     label @ txt_st_bk_create @ show_nat (length (pg_creates g)) @ txt_st_bk_update @ show_nat (length (pg_updates g))
     @ txt_st_bk_delete @ show_nat (length (pg_deletes g))"

definition formatBackupPreviewResult :: "BackupPreviewResult \<Rightarrow> string" where
  "formatBackupPreviewResult r =
     str_join txt_st_bk_sep
       [formatBackupPreviewGroup txt_st_bk_service (pv_services r), formatBackupPreviewGroup txt_st_bk_redirect (pv_redirect_hosts r),
        formatBackupWarningCount (pv_warning_count r)]"

definition formatBackupValidationResult :: "BackupValidateResult \<Rightarrow> string" where
  "formatBackupValidationResult r =
     str_join txt_st_bk_sep
       [txt_st_bk_service @ '' '' @ show_nat (vr_service_count r) @ txt_st_bk_n,
        txt_st_bk_redirect @ '' '' @ show_nat (vr_redirect_count r) @ txt_st_bk_n, formatBackupWarningCount (vr_warning_count r)]"

section \<open>State\<close>

text \<open>
  An action in flight: it reads its file, then asks the backend.  The file and the mode are those
  of the click.
\<close>

datatype backup_action = Import | Validate | Preview

datatype backup_flight =
    Reading backup_action backup_file BackupImportMode
  | Asking backup_action backup_file BackupImportMode json

fun flight_action :: "backup_flight \<Rightarrow> backup_action" where
  "flight_action (Reading a f m) = a"
| "flight_action (Asking a f m v) = a"

fun flight_source :: "backup_flight \<Rightarrow> backup_file \<times> BackupImportMode" where
  "flight_source (Reading a f m) = (f, m)"
| "flight_source (Asking a f m v) = (f, m)"

text \<open>
  The reviews on screen are kept with the file and the mode they were made for, which the program
  does not record.  \<open>bk_imports\<close> are the restore requests so far.
\<close>

record backup =
  bk_file :: "backup_file option"
  bk_mode :: BackupImportMode
  bk_message :: string
  bk_validation :: "(BackupValidateResult \<times> backup_file \<times> BackupImportMode) option"
  bk_preview :: "(BackupPreviewResult \<times> backup_file \<times> BackupImportMode) option"
  bk_flights :: "backup_flight list"
  bk_imports :: "(BackupImportMode \<times> json) list"
  bk_toasts :: "ToastNoticeValue list"

definition backup_init :: backup where
  "backup_init =
     \<lparr>bk_file = None, bk_mode = Merge, bk_message = [], bk_validation = None, bk_preview = None, bk_flights = [],
      bk_imports = [], bk_toasts = []\<rparr>"

definition resetReview :: "backup \<Rightarrow> backup" where
  "resetReview s = s\<lparr>bk_validation := None, bk_preview := None\<rparr>"

definition handleBackupFileChange :: "backup_file option \<Rightarrow> backup \<Rightarrow> backup" where
  "handleBackupFileChange file s = (resetReview (s\<lparr>bk_file := file\<rparr>))\<lparr>bk_message := []\<rparr>"

definition handleImportModeChange :: "BackupImportMode \<Rightarrow> backup \<Rightarrow> backup" where
  "handleImportModeChange mode s = resetReview (s\<lparr>bk_mode := mode\<rparr>)"

section \<open>The actions\<close>

definition backup_toast :: "ToastNoticeValue \<Rightarrow> backup \<Rightarrow> backup" where
  "backup_toast t s = s\<lparr>bk_toasts := bk_toasts s @ [t]\<rparr>"

text \<open>\<open>handleImport\<close>, \<open>handleValidate\<close> and \<open>handlePreview\<close> up to \<open>await file.text()\<close>.\<close>

definition import_begin :: "bool \<Rightarrow> backup \<Rightarrow> backup" where
  "import_begin canManage s =
     (case bk_file s of
        None \<Rightarrow> s
      | Some file \<Rightarrow>
          if \<not> canManage then s
          else (resetReview (s\<lparr>bk_message := []\<rparr>))\<lparr>bk_flights := bk_flights s @ [Reading Import file (bk_mode s)]\<rparr>)"

definition validate_begin :: "backup \<Rightarrow> backup" where
  "validate_begin s =
     (case bk_file s of
        None \<Rightarrow> s
      | Some file \<Rightarrow> (resetReview (s\<lparr>bk_message := []\<rparr>))\<lparr>bk_flights := bk_flights s @ [Reading Validate file (bk_mode s)]\<rparr>)"

definition preview_begin :: "backup \<Rightarrow> backup" where
  "preview_begin s =
     (case bk_file s of
        None \<Rightarrow> s
      | Some file \<Rightarrow> s\<lparr>bk_message := [], bk_preview := None, bk_flights := bk_flights s @ [Reading Preview file (bk_mode s)]\<rparr>)"

text \<open>\<open>if (!data) return\<close>: the file may hold \<open>null\<close>, \<open>false\<close>, \<open>0\<close> or an empty text.\<close>

definition falsy_json :: "json \<Rightarrow> bool" where
  "falsy_json v = (v = JNull \<or> v = JBool False \<or> v = JNum (Num 0) \<or> v = JStr [])"

text \<open>The file has been read: the request is sent, or the error shown.\<close>

definition file_read :: "backup_action \<Rightarrow> backup_file \<Rightarrow> BackupImportMode \<Rightarrow> backup \<Rightarrow> backup" where
  "file_read a file mode s =
     (let s1 = s\<lparr>bk_flights := remove1 (Reading a file mode) (bk_flights s)\<rparr> in
      case readBackupPayloadFile file of
        Inl e \<Rightarrow> backup_toast (plain_toast ToneWarning txt_st_bk_check e) (s1\<lparr>bk_message := e\<rparr>)
      | Inr v \<Rightarrow>
          if falsy_json v then s1
          else s1\<lparr>bk_flights := bk_flights s1 @ [Asking a file mode v],
                 bk_imports := (if a = Import then bk_imports s1 @ [(mode, v)] else bk_imports s1)\<rparr>)"

text \<open>The backend has answered.\<close>

definition import_finish :: "api_error + BackupImportResult \<Rightarrow> backup \<Rightarrow> backup" where
  "import_finish answer s =
     (case answer of
        Inr r \<Rightarrow> backup_toast (plain_toast ToneSuccess txt_st_bk_done (formatBackupImportResult r))
                  (s\<lparr>bk_message := formatBackupImportResult r, bk_file := None\<rparr>)
      | Inl e \<Rightarrow> backup_toast (plain_toast ToneError txt_st_bk_fail txt_st_bk_fail_d) s)"

definition validate_finish :: "backup_file \<Rightarrow> BackupImportMode \<Rightarrow> api_error + BackupValidateResult \<Rightarrow> backup \<Rightarrow> backup" where
  "validate_finish file mode answer s =
     (case answer of
        Inr r \<Rightarrow> backup_toast (plain_toast ToneSuccess txt_st_bk_vdone (formatBackupValidationResult r))
                  (s\<lparr>bk_validation := Some (r, file, mode)\<rparr>)
      | Inl e \<Rightarrow> (let m = getApiErrorDetail e txt_st_bk_vfail_d
                  in backup_toast (plain_toast ToneError txt_st_bk_vfail m) (s\<lparr>bk_message := m\<rparr>)))"

definition preview_finish :: "backup_file \<Rightarrow> BackupImportMode \<Rightarrow> api_error + BackupPreviewResult \<Rightarrow> backup \<Rightarrow> backup" where
  "preview_finish file mode answer s =
     (case answer of
        Inr r \<Rightarrow> backup_toast (plain_toast ToneSuccess txt_st_bk_pdone (formatBackupPreviewResult r))
                  (s\<lparr>bk_preview := Some (r, file, mode)\<rparr>)
      | Inl e \<Rightarrow> (let m = getApiErrorDetail e txt_st_bk_pfail_d
                  in backup_toast (plain_toast ToneError txt_st_bk_pfail m) (s\<lparr>bk_message := m\<rparr>)))"

definition land :: "backup_flight \<Rightarrow> backup \<Rightarrow> backup" where
  "land x s = s\<lparr>bk_flights := remove1 x (bk_flights s)\<rparr>"

section \<open>Steps\<close>

text \<open>
  What the user does, and what the actions in flight do.  The buttons are enabled when a file is
  selected and no request of their kind is pending; restoring is for administrators.
\<close>

definition asking :: "backup_action \<Rightarrow> backup \<Rightarrow> bool" where
  "asking a s = list_ex (\<lambda>x. case x of Asking b _ _ _ \<Rightarrow> b = a | _ \<Rightarrow> False) (bk_flights s)"

inductive user_step :: "bool \<Rightarrow> backup \<Rightarrow> backup \<Rightarrow> bool" for canManage where
  choose: "user_step canManage s (handleBackupFileChange file s)"
| mode: "user_step canManage s (handleImportModeChange m s)"
| import: "\<not> asking Import s \<Longrightarrow> user_step canManage s (import_begin canManage s)"
| validate: "\<not> asking Validate s \<Longrightarrow> user_step canManage s (validate_begin s)"
| preview: "\<not> asking Preview s \<Longrightarrow> user_step canManage s (preview_begin s)"

inductive flight_step :: "backup \<Rightarrow> backup \<Rightarrow> bool" where
  read: "Reading a file m \<in> set (bk_flights s) \<Longrightarrow> flight_step s (file_read a file m s)"
| imported: "Asking Import file m v \<in> set (bk_flights s) \<Longrightarrow>
    flight_step s (import_finish ir (land (Asking Import file m v) s))"
| validated: "Asking Validate file m v \<in> set (bk_flights s) \<Longrightarrow>
    flight_step s (validate_finish file m vr (land (Asking Validate file m v) s))"
| previewed: "Asking Preview file m v \<in> set (bk_flights s) \<Longrightarrow>
    flight_step s (preview_finish file m pr (land (Asking Preview file m v) s))"

text \<open>Any use, and the use of one action at a time: the user waits for the answer.\<close>

inductive backup_reach :: "bool \<Rightarrow> backup \<Rightarrow> bool" for canManage where
  init: "backup_reach canManage backup_init"
| user: "backup_reach canManage s \<Longrightarrow> user_step canManage s t \<Longrightarrow> backup_reach canManage t"
| flight: "backup_reach canManage s \<Longrightarrow> flight_step s t \<Longrightarrow> backup_reach canManage t"

inductive patient_reach :: "bool \<Rightarrow> backup \<Rightarrow> bool" for canManage where
  init: "patient_reach canManage backup_init"
| user: "patient_reach canManage s \<Longrightarrow> bk_flights s = [] \<Longrightarrow> user_step canManage s t \<Longrightarrow> patient_reach canManage t"
| flight: "patient_reach canManage s \<Longrightarrow> flight_step s t \<Longrightarrow> patient_reach canManage t"

inductive_cases user_stepE: "user_step canManage s t"
inductive_cases flight_stepE: "flight_step s t"

lemma patient_is_reach: "patient_reach canManage s \<Longrightarrow> backup_reach canManage s"
  by (induction rule: patient_reach.induct) (auto intro: backup_reach.intros)

end
