(* ===== verification/Backup_Correct.thy ===== *)
theory Backup_Correct
  imports Backup_Import Exports
begin

text \<open>
  What restoring a backup promises: only an administrator asks for it, what is asked for is the
  content of a file that was read, a review belongs to what is selected when the user waits for the
  answers, and an exported backup restores what was exported.
\<close>

section \<open>Export (\<open>useBackupExportAction.ts\<close>)\<close>

definition backup_filename :: "int \<Rightarrow> string" where
  "backup_filename now =
     ''traefik-manager-backup-'' @ map (\<lambda>c. if c = CHR '':'' \<or> c = CHR ''.'' then CHR ''-'' else c) (to_iso now) @ ''.json''"

text \<open>\<open>handleExport\<close>: the shown error, the downloaded file and the notice.\<close>

definition handleExport :: "int \<Rightarrow> api_error + json \<Rightarrow> string \<times> export_file option \<times> ToastNoticeValue" where
  "handleExport now answer =
     (case answer of
        Inr v \<Rightarrow> ([], Some \<lparr>ef_content = json_stringify2 v, ef_filename = backup_filename now, ef_mimeType = ''application/json''\<rparr>,
                  plain_toast ToneSuccess txt_st_bx_done (backup_filename now))
      | Inl e \<Rightarrow> (txt_st_bx_err, None, plain_toast ToneError txt_st_bx_fail txt_st_bx_fail_d))"

text \<open>The file that the user chooses after a download.\<close>

definition downloaded :: "export_file \<Rightarrow> backup_file" where
  "downloaded f = \<lparr>fl_name = ef_filename f, fl_text = Some (ef_content f)\<rparr>"

lemma filename_plain: "CHR '':'' \<notin> set (backup_filename now)"
  by (auto simp: backup_filename_def)

lemma read_exported:
  assumes "json_wf v" "handleExport now (Inr v) = (e, Some f, t)"
  shows "readBackupPayloadFile (downloaded f) = Inr v"
proof -
  have "json_parse (json_text ''  '' [] v) = Some v" using assms(1) by (rule json_roundtrip) (simp add: json_space_def)
  then show ?thesis using assms(2) by (auto simp: handleExport_def downloaded_def readBackupPayloadFile_def json_stringify2_def)
qed

section \<open>Any use\<close>

text \<open>Whatever the user does: restore requests are an administrator's, and carry the content of a file.\<close>

definition flight_ok :: "bool \<Rightarrow> backup_flight \<Rightarrow> bool" where
  "flight_ok canManage x =
     ((flight_action x = Import \<longrightarrow> canManage) \<and>
      (case x of Asking a f m v \<Rightarrow> readBackupPayloadFile f = Inr v \<and> \<not> falsy_json v | _ \<Rightarrow> True))"

definition backup_safe :: "bool \<Rightarrow> backup \<Rightarrow> bool" where
  "backup_safe canManage s =
     (list_all (flight_ok canManage) (bk_flights s) \<and>
      list_all (\<lambda>(m, v). canManage \<and> \<not> falsy_json v \<and> (\<exists>f. readBackupPayloadFile f = Inr v)) (bk_imports s))"

lemma backup_safe_mono:
  "backup_safe canManage s \<Longrightarrow> set (bk_flights t) \<subseteq> set (bk_flights s) \<Longrightarrow> bk_imports t = bk_imports s \<Longrightarrow> backup_safe canManage t"
  by (auto simp: backup_safe_def list_all_iff)

lemmas begin_defs = import_begin_def validate_begin_def preview_begin_def resetReview_def

lemma user_step_safe: "backup_safe canManage s \<Longrightarrow> user_step canManage s t \<Longrightarrow> backup_safe canManage t"
  by (erule user_stepE)
    (auto simp: backup_safe_def begin_defs handleBackupFileChange_def handleImportModeChange_def flight_ok_def split: option.splits)

lemma finish_keeps:
  "bk_flights (import_finish ir s) = bk_flights s" "bk_imports (import_finish ir s) = bk_imports s"
  "bk_flights (validate_finish f m vr s) = bk_flights s" "bk_imports (validate_finish f m vr s) = bk_imports s"
  "bk_flights (preview_finish f m pr s) = bk_flights s" "bk_imports (preview_finish f m pr s) = bk_imports s"
  by (simp_all add: import_finish_def validate_finish_def preview_finish_def backup_toast_def Let_def split: sum.splits)

lemma file_read_safe:
  assumes "backup_safe canManage s" "Reading a file m \<in> set (bk_flights s)"
  shows "backup_safe canManage (file_read a file m s)"
proof -
  have c: "a = Import \<Longrightarrow> canManage" using assms by (auto simp: backup_safe_def list_all_iff flight_ok_def)
  have l: "list_all (flight_ok canManage) (remove1 (Reading a file m) (bk_flights s))"
    using assms(1) by (auto simp: backup_safe_def list_all_iff dest: notin_set_remove1)
  show ?thesis
  proof (cases "readBackupPayloadFile file")
    case (Inl e)
    then show ?thesis using assms(1) l by (simp add: file_read_def Let_def backup_toast_def backup_safe_def)
  next
    case (Inr v)
    then show ?thesis using assms(1) l c by (auto simp: file_read_def Let_def backup_safe_def flight_ok_def)
  qed
qed

lemma flight_step_safe:
  assumes "backup_safe canManage s" "flight_step s t"
  shows "backup_safe canManage t"
  using assms(2)
proof cases
  case (read a bf m)
  then show ?thesis using file_read_safe [OF assms(1)] by simp
qed (rule backup_safe_mono [OF assms(1)]; simp add: finish_keeps land_def set_remove1_subset)+

lemma reach_safe: "backup_reach canManage s \<Longrightarrow> backup_safe canManage s"
proof (induction rule: backup_reach.induct)
  case init
  show ?case by (simp add: backup_safe_def backup_init_def)
qed (auto intro: user_step_safe flight_step_safe)

text \<open>Nobody but an administrator makes the backend restore anything, however the clicks and the answers
  interleave.\<close>

lemma only_managers_restore: "backup_reach False s \<Longrightarrow> bk_imports s = []"
  using reach_safe [of False s] by (cases "bk_imports s") (auto simp: backup_safe_def)

section \<open>One action at a time\<close>

definition review_for :: "('r \<times> backup_file \<times> BackupImportMode) option \<Rightarrow> backup \<Rightarrow> bool" where
  "review_for v s = (\<forall>r f m. v = Some (r, f, m) \<longrightarrow> bk_file s = Some f \<and> bk_mode s = m)"

definition patient_inv :: "backup \<Rightarrow> bool" where
  "patient_inv s =
     (review_for (bk_validation s) s \<and> review_for (bk_preview s) s \<and>
      (bk_flights s = [] \<or>
       (\<exists>x f m. bk_flights s = [x] \<and> flight_source x = (f, m) \<and> bk_file s = Some f \<and> bk_mode s = m \<and>
          (flight_action x = Import \<longrightarrow> bk_validation s = None \<and> bk_preview s = None))))"

lemma patient_user:
  assumes "bk_flights s = []" "patient_inv s" "user_step canManage s t"
  shows "patient_inv t"
  using assms(3)
proof cases
  case (choose bf)
  then show ?thesis using assms(1) by (simp add: patient_inv_def review_for_def handleBackupFileChange_def resetReview_def)
next
  case (mode m)
  then show ?thesis using assms(1) by (simp add: patient_inv_def review_for_def handleImportModeChange_def resetReview_def)
next
  case import
  then show ?thesis using assms(1,2)
    by (cases "bk_file s") (auto simp: patient_inv_def review_for_def import_begin_def resetReview_def)
next
  case validate
  then show ?thesis using assms(1,2)
    by (cases "bk_file s") (auto simp: patient_inv_def review_for_def validate_begin_def resetReview_def)
next
  case preview
  then show ?thesis using assms(1,2)
    by (cases "bk_file s") (auto simp: patient_inv_def review_for_def preview_begin_def)
qed

lemma patient_one:
  assumes "patient_inv s" "x \<in> set (bk_flights s)"
  shows "bk_flights s = [x]" "bk_file s = Some (fst (flight_source x))" "bk_mode s = snd (flight_source x)"
    "flight_action x = Import \<Longrightarrow> bk_validation s = None \<and> bk_preview s = None"
  using assms by (auto simp: patient_inv_def)

lemma patient_read:
  assumes i: "patient_inv s" and x: "Reading a file m \<in> set (bk_flights s)"
  shows "patient_inv (file_read a file m s)"
proof -
  note p = patient_one [OF i x, simplified]
  show ?thesis
  proof (cases "readBackupPayloadFile file")
    case (Inl e)
    then show ?thesis using i p by (simp add: file_read_def Let_def backup_toast_def patient_inv_def review_for_def)
  next
    case (Inr v)
    then show ?thesis using i p by (auto simp: file_read_def Let_def patient_inv_def review_for_def)
  qed
qed

lemma patient_flight:
  assumes "patient_inv s" "flight_step s t"
  shows "patient_inv t"
  using assms(2)
proof cases
  case (read a bf m)
  then show ?thesis using patient_read [OF assms(1)] by simp
next
  case (imported bf m v ir)
  then show ?thesis using patient_one [OF assms(1) imported(2)] assms(1)
    by (cases ir) (auto simp: import_finish_def land_def backup_toast_def patient_inv_def review_for_def)
next
  case (validated bf m v vr)
  then show ?thesis using patient_one [OF assms(1) validated(2)] assms(1)
    by (cases vr) (auto simp: validate_finish_def land_def backup_toast_def patient_inv_def review_for_def Let_def)
next
  case (previewed bf m v pr)
  then show ?thesis using patient_one [OF assms(1) previewed(2)] assms(1)
    by (cases pr) (auto simp: preview_finish_def land_def backup_toast_def patient_inv_def review_for_def Let_def)
qed

lemma patient_reach_inv: "patient_reach canManage s \<Longrightarrow> patient_inv s"
proof (induction rule: patient_reach.induct)
  case init
  show ?case by (simp add: patient_inv_def review_for_def backup_init_def)
qed (auto intro: patient_user patient_flight)

text \<open>The requests to restore that a step makes: none, or one with the selected file's content and
  the selected mode.\<close>

definition restores_selected :: "bool \<Rightarrow> backup \<Rightarrow> backup \<Rightarrow> bool" where
  "restores_selected canManage s t =
     (bk_imports t = bk_imports s \<or>
      canManage \<and> (\<exists>f v. bk_file s = Some f \<and> readBackupPayloadFile f = Inr v \<and>
        bk_imports t = bk_imports s @ [(bk_mode s, v)]))"

lemma user_restores: "user_step canManage s t \<Longrightarrow> bk_imports t = bk_imports s"
  by (erule user_stepE)
    (auto simp: begin_defs handleBackupFileChange_def handleImportModeChange_def split: option.splits)

lemma flight_restores:
  assumes "patient_inv s" "backup_safe canManage s" "flight_step s t"
  shows "restores_selected canManage s t"
  using assms(3)
proof cases
  case (read a bf m)
  note p = patient_one [OF assms(1) read(2), simplified]
  have c: "a = Import \<Longrightarrow> canManage" using assms(2) read(2) by (auto simp: backup_safe_def list_all_iff flight_ok_def)
  show ?thesis
  proof (cases "readBackupPayloadFile bf")
    case (Inr v)
    then show ?thesis using read(1) p c by (simp add: restores_selected_def file_read_def Let_def)
  qed (simp add: read(1) restores_selected_def file_read_def Let_def backup_toast_def)
qed (simp_all add: restores_selected_def finish_keeps land_def)

text \<open>C17. When the user waits for each answer, a validation or preview on screen was made for the file and
  the mode that are selected; at most one action is under way, and it is for the selected file and
  mode.  A step asks the backend to restore only for an administrator, and then exactly once, with
  what the selected file holds and with the selected mode.\<close>

theorem backup_review_matches:
  assumes "patient_reach canManage s"
  shows "(\<forall>r f m. bk_validation s = Some (r, f, m) \<longrightarrow> bk_file s = Some f \<and> bk_mode s = m) \<and>
    (\<forall>r f m. bk_preview s = Some (r, f, m) \<longrightarrow> bk_file s = Some f \<and> bk_mode s = m) \<and>
    length (bk_flights s) \<le> 1 \<and>
    (\<forall>x\<in>set (bk_flights s). bk_file s = Some (fst (flight_source x)) \<and> bk_mode s = snd (flight_source x)) \<and>
    (\<forall>t. user_step canManage s t \<or> flight_step s t \<longrightarrow>
       bk_imports t = bk_imports s \<or>
       canManage \<and> (\<exists>f v. bk_file s = Some f \<and> readBackupPayloadFile f = Inr v \<and>
         bk_imports t = bk_imports s @ [(bk_mode s, v)]))"
proof -
  have i: "patient_inv s" using assms by (rule patient_reach_inv)
  have b: "backup_safe canManage s" using assms by (intro reach_safe patient_is_reach)
  have "\<forall>t. user_step canManage s t \<or> flight_step s t \<longrightarrow> restores_selected canManage s t"
    using flight_restores [OF i b] user_restores [of canManage s] by (auto simp: restores_selected_def)
  moreover have "length (bk_flights s) \<le> 1" using i by (auto simp: patient_inv_def)
  moreover have "\<forall>x\<in>set (bk_flights s). bk_file s = Some (fst (flight_source x)) \<and> bk_mode s = snd (flight_source x)"
    using patient_one(2,3) [OF i] by blast
  moreover have "review_for (bk_validation s) s" "review_for (bk_preview s) s"
    using i by (simp_all add: patient_inv_def)
  ultimately show ?thesis unfolding restores_selected_def review_for_def by blast
qed

section \<open>A sample\<close>

definition sample_file :: backup_file where
  "sample_file = \<lparr>fl_name = ''backup.json'', fl_text = Some (json_stringify (JObj []))\<rparr>"

definition sample_preview :: BackupPreviewResult where
  "sample_preview =
     \<lparr>pv_mode = Merge, pv_warning_count = 0, pv_services = \<lparr>pg_creates = [], pg_updates = [], pg_deletes = []\<rparr>,
      pv_redirect_hosts = \<lparr>pg_creates = [], pg_updates = [], pg_deletes = []\<rparr>\<rparr>"

lemma sample_reads: "readBackupPayloadFile sample_file = Inr (JObj [])"
proof -
  have "json_parse (json_text [] [] (JObj [])) = Some (JObj [])"
    by (rule json_roundtrip) (simp_all add: obj_entries_def)
  then show ?thesis by (simp add: readBackupPayloadFile_def sample_file_def json_stringify_def)
qed

abbreviation chosen :: backup where
  "chosen \<equiv> handleBackupFileChange (Some sample_file) backup_init"

abbreviation asked :: backup where
  "asked \<equiv> file_read Preview sample_file Merge (preview_begin chosen)"

lemma chosen_reach: "patient_reach canManage (preview_begin chosen)"
proof -
  have "patient_reach canManage chosen"
    by (rule patient_reach.user [OF patient_reach.init]) (simp_all add: backup_init_def user_step.choose)
  then show ?thesis
    by (rule patient_reach.user)
      (simp_all add: backup_init_def handleBackupFileChange_def resetReview_def asking_def user_step.preview)
qed

lemma preview_begin_chosen:
  "preview_begin chosen = backup_init\<lparr>bk_file := Some sample_file, bk_flights := [Reading Preview sample_file Merge]\<rparr>"
  by (simp add: preview_begin_def handleBackupFileChange_def resetReview_def backup_init_def)

lemma asked_eq:
  "asked = backup_init\<lparr>bk_file := Some sample_file, bk_flights := [Asking Preview sample_file Merge (JObj [])]\<rparr>"
  unfolding preview_begin_chosen
  by (simp add: file_read_def sample_reads falsy_json_def backup_init_def)

lemma asked_reach: "patient_reach canManage asked"
  by (rule patient_reach.flight [OF chosen_reach flight_step.read]) (simp add: preview_begin_chosen)

definition restoring :: backup where
  "restoring = import_begin True chosen"

lemma restoring_reach: "patient_reach True restoring"
proof -
  have "patient_reach True chosen"
    by (rule patient_reach.user [OF patient_reach.init]) (simp_all add: backup_init_def user_step.choose)
  then show ?thesis unfolding restoring_def
    by (rule patient_reach.user)
      (simp_all add: backup_init_def handleBackupFileChange_def resetReview_def asking_def user_step.import)
qed

theorem backup_review_matches_witness:
  "\<exists>t. flight_step restoring t \<and> bk_imports restoring = [] \<and> bk_imports t = [(Merge, JObj [])] \<and>
     bk_file restoring = Some sample_file"
proof -
  let ?t = "file_read Import sample_file Merge restoring"
  have f: "bk_flights restoring = [Reading Import sample_file Merge]" "bk_imports restoring = []" "bk_mode restoring = Merge"
    by (simp_all add: restoring_def import_begin_def handleBackupFileChange_def resetReview_def backup_init_def)
  have s: "flight_step restoring ?t" by (rule flight_step.read) (simp add: f)
  have n: "bk_imports ?t \<noteq> []" by (simp add: file_read_def sample_reads falsy_json_def f)
  show ?thesis
    using backup_review_matches [OF restoring_reach] s n f sample_reads by fastforce
qed

text \<open>The preview of a merge, shown for an overwrite: the mode was changed before the answer arrived.\<close>

lemma stale_review:
  "\<exists>s. backup_reach True s \<and> bk_preview s = Some (sample_preview, sample_file, Merge) \<and>
       bk_file s = Some sample_file \<and> bk_mode s = Overwrite"
proof -
  let ?t = "handleImportModeChange Overwrite asked"
  let ?s = "preview_finish sample_file Merge (Inr sample_preview) (land (Asking Preview sample_file Merge (JObj [])) ?t)"
  have t: "backup_reach True ?t" by (rule backup_reach.user [OF patient_is_reach [OF asked_reach] user_step.mode])
  have "backup_reach True ?s"
    by (rule backup_reach.flight [OF t flight_step.previewed]) (simp add: asked_eq handleImportModeChange_def resetReview_def)
  moreover have "bk_preview ?s = Some (sample_preview, sample_file, Merge)" "bk_file ?s = Some sample_file" "bk_mode ?s = Overwrite"
    by (simp_all add: preview_finish_def backup_toast_def land_def handleImportModeChange_def resetReview_def asked_eq)
  ultimately show ?thesis by blast
qed

text \<open>A file that holds \<open>null\<close> ends the action without a request and without a notice.\<close>

lemma null_file_silent:
  "readBackupPayloadFile f = Inr JNull \<Longrightarrow>
   file_read a f m s = s\<lparr>bk_flights := remove1 (Reading a f m) (bk_flights s)\<rparr>"
  by (simp add: file_read_def falsy_json_def)

section \<open>Export and restore\<close>

text \<open>An exported backup restores what was exported: choosing the downloaded file and restoring it asks
  the backend for exactly the exported data, in the selected mode.\<close>

theorem backup_export_restore:
  assumes "json_wf v" and "\<not> falsy_json v" and "handleExport now (Inr v) = (e, Some f, t)"
  shows "bk_imports (file_read Import (downloaded f) (bk_mode s)
      (import_begin True (handleBackupFileChange (Some (downloaded f)) s))) = bk_imports s @ [(bk_mode s, v)]"
  using read_exported [OF assms(1,3)] assms(2)
  by (simp add: file_read_def import_begin_def handleBackupFileChange_def resetReview_def)

end
