(* ===== verification/Self_Tests.thy ===== *)
theory Self_Tests
  imports Container_Import Smoke_Tracking Smoke_Filters
begin

text \<open>
  Assertions of the repository's own self tests (\<open>scripts/*-self-test.mjs\<close>), evaluated on the
  model: the definitions give what the tests expect of the code.  Clock and time zone are those of
  the fixtures.
\<close>

section \<open>\<open>container-import-self-test.mjs\<close>\<close>

definition englishApp :: DockerContainer where
  "englishApp = \<lparr>co_id = Some ''english-1'', co_name = ''english-app-1'', co_image = Some ''example/english:latest'',
     co_state = Some ''running'', co_status = Some ''Up 2 hours'', co_compose_project = Some ''english'',
     co_compose_service = Some ''app'', co_ports = [\<lparr>po_private_port = 3000, po_public_port = Some 3011, po_type = Some ''tcp''\<rparr>],
     co_networks = [''english_default''],
     co_traefik_candidates = [\<lparr>dc_router_name = ''english'', dc_domain = ''english.example.com'',
       dc_upstream_host = ''english-app-1'', dc_upstream_port = 3000, dc_tls_enabled = True\<rparr>]\<rparr>"

definition englishGateway :: DockerContainer where
  "englishGateway = englishApp\<lparr>co_id := Some ''english-nginx-1'', co_name := ''english-nginx-1'', co_image := Some ''nginx:alpine'',
     co_compose_service := Some ''nginx'', co_ports := [\<lparr>po_private_port = 80, po_public_port = None, po_type = Some ''tcp''\<rparr>],
     co_networks := [''english_default'', ''proxy_net''],
     co_traefik_candidates := [\<lparr>dc_router_name = ''english-gateway'', dc_domain = ''english-gateway.example.com'',
       dc_upstream_host = ''english-nginx-1'', dc_upstream_port = 80, dc_tls_enabled = True\<rparr>]\<rparr>"

definition managerContainer :: DockerContainer where
  "managerContainer = englishApp\<lparr>co_id := Some ''manager-1'', co_name := ''traefik-manager'', co_image := Some ''traefik:v3.7.9'',
     co_compose_project := Some ''traefik-manager'', co_compose_service := Some ''backend'',
     co_ports := [\<lparr>po_private_port = 8000, po_public_port = None, po_type = Some ''tcp''\<rparr>],
     co_networks := [''proxy_net''], co_traefik_candidates := []\<rparr>"

definition englishDb :: DockerContainer where
  "englishDb = englishApp\<lparr>co_id := Some ''english-db-1'', co_name := ''english-db-1'', co_image := Some ''postgres:17-alpine'',
     co_compose_service := Some ''db'', co_ports := [\<lparr>po_private_port = 5432, po_public_port = None, po_type = Some ''tcp''\<rparr>],
     co_traefik_candidates := []\<rparr>"

definition redisCommander :: DockerContainer where
  "redisCommander = managerContainer\<lparr>co_id := Some ''redis-commander-1'', co_name := ''redis-commander-1'',
     co_image := Some ''rediscommander/redis-commander:latest'', co_compose_project := Some ''redis-tools'',
     co_compose_service := Some ''redis-commander''\<rparr>"

definition fixture_containers :: "DockerContainer list" where
  "fixture_containers = [englishApp, englishGateway, englishDb, managerContainer, redisCommander]"

lemma test_container_order:
  "prioritizeProxyNetworkContainers fixture_containers = [englishGateway, managerContainer, redisCommander, englishApp, englishDb]"
  by code_simp

section \<open>\<open>service-routing-self-test.mjs\<close>\<close>

definition fixture_services :: "Service list" where
  "fixture_services = [sample_service ''active'' [] [] RActive, sample_service ''disabled'' [] [] RDisabled,
     sample_service ''maintenance'' [] [] RMaintenance, sample_service ''second-active'' [] [] RActive]"

lemma test_routing:
  "countServiceRoutingModes fixture_services = \<lparr>rc_active = 2, rc_disabled = 1, rc_maintenance = 1\<rparr>"
  "map svc_id (getRoutingUpdateTargets fixture_services [''active'', ''disabled''] RDisabled) = [''active'']"
  "applyRoutingModeUpdates (\<lambda>w i m. (if i = ''disabled'' then Some TypeError else None, w @ [i])) (take 3 fixture_services) RMaintenance []
     = (\<lparr>rr_successCount = 2, rr_failedServiceIds = [''disabled'']\<rparr>, [''active'', ''disabled'', ''maintenance''])"
  by code_simp+

definition maintenance_now :: int where
  "maintenance_now = the (date_parse utc_host ''2030-01-02T00:00:00Z'')"

lemma test_maintenance_times:
  "toMaintenanceUntilIso utc_host (Some ''2030-01-02T12:04'') = Some ''2030-01-02T03:04:00.000Z''"
  "toKoreanDateTimeLocal utc_host (Some ''2030-01-02T03:04:00Z'') = Inr ''2030-01-02T12:04''"
  "extendMaintenanceUntil utc_host (Some ''2030-01-02T02:00:00Z'') 1 maintenance_now = Inr ''2030-01-02T03:00:00.000Z''"
  "extendMaintenanceUntil utc_host (Some ''2030-01-01T23:59:00Z'') 24 maintenance_now = Inr ''2030-01-03T00:00:00.000Z''"
  by code_simp+

section \<open>\<open>github-api-rate-limit-self-test.mjs\<close>\<close>

definition rate_now :: int where
  "rate_now = the (date_parse utc_host ''2026-07-22T01:00:00+00:00'')"

lemma test_rate_limit:
  "isGithubApiRefreshBlocked utc_host (Some 8) (Some ''2026-07-22T02:00:00+00:00'') None 8 rate_now"
  "\<not> isGithubApiRefreshBlocked utc_host (Some 9) (Some ''2026-07-22T02:00:00+00:00'') None 8 rate_now"
  "isGithubSecondaryRateLimitBlocked utc_host (Some ''2026-07-22T01:01:00+00:00'') rate_now"
  "getGithubApiRefreshRetryAt utc_host (Some 8) (Some ''2026-07-22T02:00:00+00:00'') (Some ''2026-07-22T03:00:00+00:00'') 8 rate_now
     = Some ''2026-07-22T03:00:00+00:00''"
  "getGithubApiRefreshRetryAt utc_host (Some 9) (Some ''2026-07-22T02:00:00+00:00'') None 8 rate_now = None"
  by code_simp+

section \<open>\<open>smoke-failure-metadata-filter-self-test.mjs\<close>\<close>

text \<open>The time zone of the fixtures: Seoul, nine hours ahead of UTC.\<close>

definition seoul :: zone_fields where
  "seoul tz t = (let s = to_iso (t + 9 * 3600000) in Some (take 4 s, take 2 (drop 5 s), take 2 (drop 8 s)))"

definition preset_now :: int where
  "preset_now = the (date_parse utc_host ''2026-01-01T15:30:00Z'')"

lemma test_date_presets:
  "buildSmokeFailureMetadataDatePresetRange utc_host seoul PresetToday preset_now None = Inr (date_range ''2026-01-02'' ''2026-01-02'')"
  "buildSmokeFailureMetadataDatePresetRange utc_host seoul PresetYesterday preset_now None = Inr (date_range ''2026-01-01'' ''2026-01-01'')"
  "buildSmokeFailureMetadataDatePresetRange utc_host seoul PresetThisMonth preset_now None = Inr (date_range ''2026-01-01'' ''2026-01-02'')"
  "buildSmokeFailureMetadataDatePresetRange utc_host seoul PresetLastMonth preset_now None = Inr (date_range ''2025-12-01'' ''2025-12-31'')"
  by code_simp+

definition fixture_entry :: "int \<Rightarrow> SmokeFailureType \<Rightarrow> string \<Rightarrow> SmokeFailureMetadataEntry" where
  "fixture_entry i f c = \<lparr>se_captured_at = c, se_check_name = ''check'', se_failure_type = f, se_screen_path = None,
     se_page_title = None, se_run_id = i\<rparr>"

definition fixture_entries :: "SmokeFailureMetadataEntry list" where
  "fixture_entries = [fixture_entry 1 FailLogin ''2026-08-05T00:00:00Z'', fixture_entry 2 FailExternalApi ''2026-07-28T00:00:00Z'',
     fixture_entry 3 FailVisualRegression ''2026-06-01T00:00:00Z'', fixture_entry 4 FailLogin ''invalid'']"

definition fixture_options :: SmokeFailureMetadataFilterOptions where
  "fixture_options = \<lparr>fo_endDate = None, fo_now = date_parse utc_host ''2026-08-06T00:00:00Z'', fo_query = None, fo_startDate = None,
     fo_timezone = None\<rparr>"

lemma test_failure_order:
  "map se_run_id (sortSmokeFailureMetadata utc_host fixture_entries SmNewest) = [1, 2, 3, 4]"
  "map se_run_id (sortSmokeFailureMetadata utc_host fixture_entries SmOldest) = [3, 2, 1, 4]"
  "map se_run_id (sortSmokeFailureMetadata utc_host fixture_entries SmRunDesc) = [4, 3, 2, 1]"
  by code_simp+

lemma test_failure_filter:
  "map se_run_id (filterSmokeFailureMetadata utc_host seoul 0 fixture_entries (SType FailLogin) SPeriodAll fixture_options) = [1, 4]"
  "map se_run_id (filterSmokeFailureMetadata utc_host seoul 0 fixture_entries STypeAll SPeriod7 fixture_options) = [1]"
  "map se_run_id (filterSmokeFailureMetadata utc_host seoul 0 fixture_entries (SType FailExternalApi) SPeriod30 fixture_options) = [2]"
  "map se_run_id (filterSmokeFailureMetadata utc_host seoul 0
     [fixture_entry 5 FailLogin ''2026-08-05T15:30:00Z'', fixture_entry 6 FailLogin ''2026-08-06T15:30:00Z''] STypeAll SPeriodCustom
     (fixture_options\<lparr>fo_startDate := Some ''2026-08-06'', fo_endDate := Some ''2026-08-06''\<rparr>)) = [5]"
  by code_simp+

end
