(* ===== verification/Ui_Text_Pages.thy ===== *)
theory Ui_Text_Pages
  imports Main
begin

text \<open>
  The Korean texts of the certificates, redirects and users pages, of the deployment card and of the
  audit actions, as UTF-8 byte lists.  Each name says in English what the text says.
\<close>

definition txt_ce_better :: string where
  "txt_ce_better =
     [CHR 0xEC, CHR 0xA7, CHR 0x81, CHR 0xEC, CHR 0xA0, CHR 0x84, CHR 0x20, CHR 0xEA, CHR 0xB2,
      CHR 0x80, CHR 0xEC, CHR 0x82, CHR 0xAC, CHR 0xEB, CHR 0xB3, CHR 0xB4, CHR 0xEB, CHR 0x8B,
      CHR 0xA4, CHR 0x20, CHR 0xEA, CHR 0xB0, CHR 0x9C, CHR 0xEC, CHR 0x84, CHR 0xA0, CHR 0xEB,
      CHR 0x90, CHR 0xA8]"

definition txt_ce_worse :: string where
  "txt_ce_worse =
     [CHR 0xEC, CHR 0xA7, CHR 0x81, CHR 0xEC, CHR 0xA0, CHR 0x84, CHR 0x20, CHR 0xEA, CHR 0xB2,
      CHR 0x80, CHR 0xEC, CHR 0x82, CHR 0xAC, CHR 0xEB, CHR 0xB3, CHR 0xB4, CHR 0xEB, CHR 0x8B,
      CHR 0xA4, CHR 0x20, CHR 0xEC, CHR 0x95, CHR 0x85, CHR 0xED, CHR 0x99, CHR 0x94, CHR 0xEB,
      CHR 0x90, CHR 0xA8]"

definition txt_ce_same :: string where
  "txt_ce_same =
     [CHR 0xEC, CHR 0xA7, CHR 0x81, CHR 0xEC, CHR 0xA0, CHR 0x84, CHR 0x20, CHR 0xEA, CHR 0xB2,
      CHR 0x80, CHR 0xEC, CHR 0x82, CHR 0xAC, CHR 0xEC, CHR 0x99, CHR 0x80, CHR 0x20, CHR 0xEA,
      CHR 0xB0, CHR 0x99, CHR 0xEC, CHR 0x9D, CHR 0x80, CHR 0x20, CHR 0xEB, CHR 0x8B, CHR 0xA8,
      CHR 0xEA, CHR 0xB3, CHR 0x84]"

definition txt_ce_new_item :: string where
  "txt_ce_new_item =
     [CHR 0xEC, CHR 0x9D, CHR 0xB4, CHR 0x20, CHR 0xED, CHR 0x95, CHR 0xAD, CHR 0xEB, CHR 0xAA,
      CHR 0xA9, CHR 0xEC, CHR 0x9D, CHR 0xB4, CHR 0x20, CHR 0xEC, CHR 0x83, CHR 0x88, CHR 0xEB,
      CHR 0xA1, CHR 0x9C, CHR 0x20, CHR 0xEC, CHR 0xB6, CHR 0x94, CHR 0xEA, CHR 0xB0, CHR 0x80,
      CHR 0xEB, CHR 0x90, CHR 0x98, CHR 0xEC, CHR 0x97, CHR 0x88, CHR 0xEC, CHR 0x8A, CHR 0xB5,
      CHR 0xEB, CHR 0x8B, CHR 0x88, CHR 0xEB, CHR 0x8B, CHR 0xA4, CHR 0x2E]"

definition txt_ce_detail_changed :: string where
  "txt_ce_detail_changed =
     [CHR 0xEC, CHR 0x83, CHR 0x81, CHR 0xEC, CHR 0x84, CHR 0xB8, CHR 0x20, CHR 0xEB, CHR 0xA9,
      CHR 0x94, CHR 0xEC, CHR 0x8B, CHR 0x9C, CHR 0xEC, CHR 0xA7, CHR 0x80, CHR 0xEA, CHR 0xB0,
      CHR 0x80, CHR 0x20, CHR 0xEB, CHR 0xB3, CHR 0x80, CHR 0xEA, CHR 0xB2, CHR 0xBD, CHR 0xEB,
      CHR 0x90, CHR 0x98, CHR 0xEC, CHR 0x97, CHR 0x88, CHR 0xEC, CHR 0x8A, CHR 0xB5, CHR 0xEB,
      CHR 0x8B, CHR 0x88, CHR 0xEB, CHR 0x8B, CHR 0xA4, CHR 0x2E]"

definition txt_ce_failed :: string where
  "txt_ce_failed =
     [CHR 0xEC, CHR 0x8B, CHR 0xA4, CHR 0xED, CHR 0x8C, CHR 0xA8]"

definition txt_ce_waiting :: string where
  "txt_ce_waiting =
     [CHR 0xEB, CHR 0x8C, CHR 0x80, CHR 0xEA, CHR 0xB8, CHR 0xB0]"

definition txt_ce_ok :: string where
  "txt_ce_ok =
     [CHR 0xEC, CHR 0xA0, CHR 0x95, CHR 0xEC, CHR 0x83, CHR 0x81]"

definition txt_ce_act_dns :: string where
  "txt_ce_act_dns =
     [CHR 0xEA, CHR 0xB6, CHR 0x8C, CHR 0xED, CHR 0x95, CHR 0x9C, CHR 0x20, CHR 0x44, CHR 0x4E,
      CHR 0x53, CHR 0x20, CHR 0xEC, CHR 0x9D, CHR 0x91, CHR 0xEB, CHR 0x8B, CHR 0xB5, CHR 0xEA,
      CHR 0xB3, CHR 0xBC, CHR 0x20, CHR 0x41, CHR 0x2F, CHR 0x41, CHR 0x41, CHR 0x41, CHR 0x41,
      CHR 0x20, CHR 0xEC, CHR 0xA1, CHR 0xB0, CHR 0xED, CHR 0x9A, CHR 0x8C, CHR 0x20, CHR 0xEA,
      CHR 0xB2, CHR 0xB0, CHR 0xEA, CHR 0xB3, CHR 0xBC, CHR 0xEB, CHR 0xA5, CHR 0xBC, CHR 0x20,
      CHR 0xEB, CHR 0xA8, CHR 0xBC, CHR 0xEC, CHR 0xA0, CHR 0x80, CHR 0x20, CHR 0xED, CHR 0x99,
      CHR 0x95, CHR 0xEC, CHR 0x9D, CHR 0xB8, CHR 0xED, CHR 0x95, CHR 0x98, CHR 0xEC, CHR 0x84,
      CHR 0xB8, CHR 0xEC, CHR 0x9A, CHR 0x94, CHR 0x2E]"

definition txt_ce_act_challenge :: string where
  "txt_ce_act_challenge =
     [CHR 0x38, CHR 0x30, CHR 0x2F, CHR 0x34, CHR 0x34, CHR 0x33, CHR 0x20, CHR 0xEA, CHR 0xB3,
      CHR 0xB5, CHR 0xEA, CHR 0xB0, CHR 0x9C, CHR 0x20, CHR 0xEC, CHR 0x83, CHR 0x81, CHR 0xED,
      CHR 0x83, CHR 0x9C, CHR 0xEC, CHR 0x99, CHR 0x80, CHR 0x20, CHR 0x63, CHR 0x68, CHR 0x61,
      CHR 0x6C, CHR 0x6C, CHR 0x65, CHR 0x6E, CHR 0x67, CHR 0x65, CHR 0x20, CHR 0xEA, CHR 0xB2,
      CHR 0xBD, CHR 0xEB, CHR 0xA1, CHR 0x9C, CHR 0x20, CHR 0xEC, CHR 0x9D, CHR 0x91, CHR 0xEB,
      CHR 0x8B, CHR 0xB5, CHR 0xEC, CHR 0x9D, CHR 0x84, CHR 0x20, CHR 0xEB, CHR 0xA8, CHR 0xBC,
      CHR 0xEC, CHR 0xA0, CHR 0x80, CHR 0x20, CHR 0xED, CHR 0x99, CHR 0x95, CHR 0xEC, CHR 0x9D,
      CHR 0xB8, CHR 0xED, CHR 0x95, CHR 0x98, CHR 0xEC, CHR 0x84, CHR 0xB8, CHR 0xEC, CHR 0x9A,
      CHR 0x94, CHR 0x2E]"

definition txt_ce_act_limit :: string where
  "txt_ce_act_limit =
     [CHR 0xEB, CHR 0xB0, CHR 0x98, CHR 0xEB, CHR 0xB3, CHR 0xB5, CHR 0x20, CHR 0xEB, CHR 0xB0,
      CHR 0x9C, CHR 0xEA, CHR 0xB8, CHR 0x89, CHR 0xEC, CHR 0x9D, CHR 0x84, CHR 0x20, CHR 0xEB,
      CHR 0xA9, CHR 0x88, CHR 0xEC, CHR 0xB6, CHR 0x94, CHR 0xEA, CHR 0xB3, CHR 0xA0, CHR 0x20,
      CHR 0xEC, CHR 0x9E, CHR 0xA0, CHR 0xEC, CHR 0x8B, CHR 0x9C, CHR 0x20, CHR 0xEB, CHR 0x92,
      CHR 0xA4, CHR 0x20, CHR 0xEB, CHR 0x8B, CHR 0xA4, CHR 0xEC, CHR 0x8B, CHR 0x9C, CHR 0x20,
      CHR 0xEA, CHR 0xB2, CHR 0x80, CHR 0xEC, CHR 0x82, CHR 0xAC, CHR 0xED, CHR 0x95, CHR 0x98,
      CHR 0xEC, CHR 0x84, CHR 0xB8, CHR 0xEC, CHR 0x9A, CHR 0x94, CHR 0x2E]"

definition txt_ce_act_router :: string where
  "txt_ce_act_router =
     [CHR 0xEB, CHR 0x8F, CHR 0x84, CHR 0xEB, CHR 0xA9, CHR 0x94, CHR 0xEC, CHR 0x9D, CHR 0xB8,
      CHR 0x20, CHR 0xEB, CHR 0x9D, CHR 0xBC, CHR 0xEC, CHR 0x9A, CHR 0xB0, CHR 0xED, CHR 0x8A,
      CHR 0xB8, CHR 0xEA, CHR 0xB0, CHR 0x80, CHR 0x20, CHR 0xEC, CHR 0x8B, CHR 0xA4, CHR 0xEC,
      CHR 0xA0, CHR 0x9C, CHR 0xEB, CHR 0xA1, CHR 0x9C, CHR 0x20, CHR 0xEC, CHR 0x83, CHR 0x9D,
      CHR 0xEC, CHR 0x84, CHR 0xB1, CHR 0xEB, CHR 0x90, CHR 0x90, CHR 0xEB, CHR 0x8A, CHR 0x94,
      CHR 0xEC, CHR 0xA7, CHR 0x80, CHR 0x20, CHR 0xEB, CHR 0xA8, CHR 0xBC, CHR 0xEC, CHR 0xA0,
      CHR 0x80, CHR 0x20, CHR 0xED, CHR 0x99, CHR 0x95, CHR 0xEC, CHR 0x9D, CHR 0xB8, CHR 0xED,
      CHR 0x95, CHR 0x98, CHR 0xEC, CHR 0x84, CHR 0xB8, CHR 0xEC, CHR 0x9A, CHR 0x94, CHR 0x2E]"

definition txt_ce_act_resolver :: string where
  "txt_ce_act_resolver =
     [CHR 0x54, CHR 0x4C, CHR 0x53, CHR 0x20, CHR 0xEC, CHR 0x84, CHR 0xA4, CHR 0xEC, CHR 0xA0,
      CHR 0x95, CHR 0xEA, CHR 0xB3, CHR 0xBC, CHR 0x20, CHR 0x63, CHR 0x65, CHR 0x72, CHR 0x74,
      CHR 0x52, CHR 0x65, CHR 0x73, CHR 0x6F, CHR 0x6C, CHR 0x76, CHR 0x65, CHR 0x72, CHR 0x20,
      CHR 0xEC, CHR 0x97, CHR 0xB0, CHR 0xEA, CHR 0xB2, CHR 0xB0, CHR 0xEB, CHR 0xB6, CHR 0x80,
      CHR 0xED, CHR 0x84, CHR 0xB0, CHR 0x20, CHR 0xED, CHR 0x99, CHR 0x95, CHR 0xEC, CHR 0x9D,
      CHR 0xB8, CHR 0xED, CHR 0x95, CHR 0x98, CHR 0xEC, CHR 0x84, CHR 0xB8, CHR 0xEC, CHR 0x9A,
      CHR 0x94, CHR 0x2E]"

definition txt_ce_act_pending :: string where
  "txt_ce_act_pending =
     [CHR 0xEB, CHR 0x8F, CHR 0x84, CHR 0xEB, CHR 0xA9, CHR 0x94, CHR 0xEC, CHR 0x9D, CHR 0xB8,
      CHR 0x20, CHR 0xEC, CHR 0x9A, CHR 0x94, CHR 0xEC, CHR 0xB2, CHR 0xAD, CHR 0x20, CHR 0xED,
      CHR 0x9B, CHR 0x84, CHR 0x20, CHR 0xEB, CHR 0xAA, CHR 0x87, CHR 0x20, CHR 0xEB, CHR 0xB6,
      CHR 0x84, CHR 0x20, CHR 0xEB, CHR 0x92, CHR 0xA4, CHR 0x20, CHR 0xEA, CHR 0xB2, CHR 0xBD,
      CHR 0xEA, CHR 0xB3, CHR 0xA0, CHR 0x20, CHR 0xEA, CHR 0xB2, CHR 0x80, CHR 0xEC, CHR 0x82,
      CHR 0xAC, CHR 0xEB, CHR 0xA5, CHR 0xBC, CHR 0x20, CHR 0xEB, CHR 0x8B, CHR 0xA4, CHR 0xEC,
      CHR 0x8B, CHR 0x9C, CHR 0x20, CHR 0xEC, CHR 0x8B, CHR 0xA4, CHR 0xED, CHR 0x96, CHR 0x89,
      CHR 0xED, CHR 0x95, CHR 0x98, CHR 0xEC, CHR 0x84, CHR 0xB8, CHR 0xEC, CHR 0x9A, CHR 0x94,
      CHR 0x2E]"

definition txt_ce_act_inactive :: string where
  "txt_ce_act_inactive =
     [CHR 0xEC, CHR 0x9E, CHR 0x90, CHR 0xEB, CHR 0x8F, CHR 0x99, CHR 0x20, CHR 0xEB, CHR 0xB0,
      CHR 0x9C, CHR 0xEA, CHR 0xB8, CHR 0x89, CHR 0xEC, CHR 0x9D, CHR 0x84, CHR 0x20, CHR 0xEC,
      CHR 0x93, CHR 0xB0, CHR 0xEB, CHR 0xA0, CHR 0xA4, CHR 0xEB, CHR 0xA9, CHR 0xB4, CHR 0x20,
      CHR 0xEC, CHR 0x9D, CHR 0xB4, CHR 0x20, CHR 0xEB, CHR 0x8F, CHR 0x84, CHR 0xEB, CHR 0xA9,
      CHR 0x94, CHR 0xEC, CHR 0x9D, CHR 0xB8, CHR 0x20, CHR 0xEB, CHR 0x9D, CHR 0xBC, CHR 0xEC,
      CHR 0x9A, CHR 0xB0, CHR 0xED, CHR 0x8A, CHR 0xB8, CHR 0xEC, CHR 0x97, CHR 0x90, CHR 0x20,
      CHR 0x63, CHR 0x65, CHR 0x72, CHR 0x74, CHR 0x52, CHR 0x65, CHR 0x73, CHR 0x6F, CHR 0x6C,
      CHR 0x76, CHR 0x65, CHR 0x72, CHR 0xEB, CHR 0xA5, CHR 0xBC, CHR 0x20, CHR 0xEB, CHR 0xB6,
      CHR 0x99, CHR 0xEC, CHR 0x97, CHR 0xAC, CHR 0xEC, CHR 0x95, CHR 0xBC, CHR 0x20, CHR 0xED,
      CHR 0x95, CHR 0xA9, CHR 0xEB, CHR 0x8B, CHR 0x88, CHR 0xEB, CHR 0x8B, CHR 0xA4, CHR 0x2E]"

definition txt_ce_act_monitor :: string where
  "txt_ce_act_monitor =
     [CHR 0xEC, CHR 0xB6, CHR 0x94, CHR 0xEA, CHR 0xB0, CHR 0x80, CHR 0x20, CHR 0xEC, CHR 0xA1,
      CHR 0xB0, CHR 0xEC, CHR 0xB9, CHR 0x98, CHR 0x20, CHR 0xEC, CHR 0x97, CHR 0x86, CHR 0xEC,
      CHR 0x9D, CHR 0xB4, CHR 0x20, CHR 0xED, CHR 0x98, CHR 0x84, CHR 0xEC, CHR 0x9E, CHR 0xAC,
      CHR 0x20, CHR 0xEC, CHR 0x83, CHR 0x81, CHR 0xED, CHR 0x83, CHR 0x9C, CHR 0xEB, CHR 0xA7,
      CHR 0x8C, CHR 0x20, CHR 0xEB, CHR 0xAA, CHR 0xA8, CHR 0xEB, CHR 0x8B, CHR 0x88, CHR 0xED,
      CHR 0x84, CHR 0xB0, CHR 0xEB, CHR 0xA7, CHR 0x81, CHR 0xED, CHR 0x95, CHR 0x98, CHR 0xEB,
      CHR 0xA9, CHR 0xB4, CHR 0x20, CHR 0xEB, CHR 0x90, CHR 0xA9, CHR 0xEB, CHR 0x8B, CHR 0x88,
      CHR 0xEB, CHR 0x8B, CHR 0xA4, CHR 0x2E]"

definition txt_ce_before :: string where
  "txt_ce_before =
     [CHR 0xEB, CHR 0xB0, CHR 0x9C, CHR 0xEA, CHR 0xB8, CHR 0x89, CHR 0x20, CHR 0xEC, CHR 0xA0,
      CHR 0x84]"

definition txt_ce_no_auto :: string where
  "txt_ce_no_auto =
     [CHR 0xEC, CHR 0x9E, CHR 0x90, CHR 0xEB, CHR 0x8F, CHR 0x99, CHR 0x20, CHR 0xEB, CHR 0xB0,
      CHR 0x9C, CHR 0xEA, CHR 0xB8, CHR 0x89, CHR 0x20, CHR 0xEC, CHR 0x95, CHR 0x88, CHR 0x20,
      CHR 0xED, CHR 0x95, CHR 0xA8]"

definition txt_ce_expired :: string where
  "txt_ce_expired =
     [CHR 0xEB, CHR 0xA7, CHR 0x8C, CHR 0xEB, CHR 0xA3, CHR 0x8C, CHR 0xEB, CHR 0x90, CHR 0xA8]"

definition txt_ce_days :: string where
  "txt_ce_days =
     [CHR 0xEC, CHR 0x9D, CHR 0xBC]"

definition txt_ce_router :: string where
  "txt_ce_router =
     [CHR 0xEB, CHR 0x9D, CHR 0xBC, CHR 0xEC, CHR 0x9A, CHR 0xB0, CHR 0xED, CHR 0x8A, CHR 0xB8,
      CHR 0x20, CHR 0xEA, CHR 0xB0, CHR 0x90, CHR 0xEC, CHR 0xA7, CHR 0x80]"

definition txt_ce_router_ok :: string where
  "txt_ce_router_ok =
     [CHR 0xEA, CHR 0xB0, CHR 0x9C, CHR 0x20, CHR 0xEB, CHR 0x9D, CHR 0xBC, CHR 0xEC, CHR 0x9A,
      CHR 0xB0, CHR 0xED, CHR 0x84, CHR 0xB0, CHR 0xEA, CHR 0xB0, CHR 0x80, CHR 0x20, CHR 0xEB,
      CHR 0x8F, CHR 0x84, CHR 0xEB, CHR 0xA9, CHR 0x94, CHR 0xEC, CHR 0x9D, CHR 0xB8, CHR 0xEC,
      CHR 0x9D, CHR 0x84, CHR 0x20, CHR 0xEC, CHR 0xB2, CHR 0x98, CHR 0xEB, CHR 0xA6, CHR 0xAC,
      CHR 0x20, CHR 0xEC, CHR 0xA4, CHR 0x91, CHR 0xEC, CHR 0x9E, CHR 0x85, CHR 0xEB, CHR 0x8B,
      CHR 0x88, CHR 0xEB, CHR 0x8B, CHR 0xA4]"

definition txt_ce_router_fail :: string where
  "txt_ce_router_fail =
     [CHR 0xEC, CHR 0x9D, CHR 0xB4, CHR 0x20, CHR 0xEB, CHR 0x8F, CHR 0x84, CHR 0xEB, CHR 0xA9,
      CHR 0x94, CHR 0xEC, CHR 0x9D, CHR 0xB8, CHR 0xEC, CHR 0x9D, CHR 0x84, CHR 0x20, CHR 0xEC,
      CHR 0xB2, CHR 0x98, CHR 0xEB, CHR 0xA6, CHR 0xAC, CHR 0xED, CHR 0x95, CHR 0x98, CHR 0xEB,
      CHR 0x8A, CHR 0x94, CHR 0x20, CHR 0x54, CHR 0x72, CHR 0x61, CHR 0x65, CHR 0x66, CHR 0x69,
      CHR 0x6B, CHR 0x20, CHR 0xEB, CHR 0x9D, CHR 0xBC, CHR 0xEC, CHR 0x9A, CHR 0xB0, CHR 0xED,
      CHR 0x84, CHR 0xB0, CHR 0xEB, CHR 0xA5, CHR 0xBC, CHR 0x20, CHR 0xEC, CHR 0xB0, CHR 0xBE,
      CHR 0xEC, CHR 0xA7, CHR 0x80, CHR 0x20, CHR 0xEB, CHR 0xAA, CHR 0xBB, CHR 0xED, CHR 0x96,
      CHR 0x88, CHR 0xEC, CHR 0x8A, CHR 0xB5, CHR 0xEB, CHR 0x8B, CHR 0x88, CHR 0xEB, CHR 0x8B,
      CHR 0xA4]"

definition txt_ce_auto :: string where
  "txt_ce_auto =
     [CHR 0xEC, CHR 0x9E, CHR 0x90, CHR 0xEB, CHR 0x8F, CHR 0x99, CHR 0x20, CHR 0xEB, CHR 0xB0,
      CHR 0x9C, CHR 0xEA, CHR 0xB8, CHR 0x89, CHR 0x20, CHR 0xEC, CHR 0x84, CHR 0xA4, CHR 0xEC,
      CHR 0xA0, CHR 0x95]"

definition txt_ce_auto_ok :: string where
  "txt_ce_auto_ok =
     [CHR 0x20, CHR 0xEC, CHR 0x82, CHR 0xAC, CHR 0xEC, CHR 0x9A, CHR 0xA9]"

definition txt_ce_auto_fail :: string where
  "txt_ce_auto_fail =
     [CHR 0x63, CHR 0x65, CHR 0x72, CHR 0x74, CHR 0x52, CHR 0x65, CHR 0x73, CHR 0x6F, CHR 0x6C,
      CHR 0x76, CHR 0x65, CHR 0x72, CHR 0xEA, CHR 0xB0, CHR 0x80, CHR 0x20, CHR 0xEC, CHR 0x97,
      CHR 0x86, CHR 0xEC, CHR 0x96, CHR 0xB4, CHR 0x20, CHR 0x4C, CHR 0x65, CHR 0x74, CHR 0xE2,
      CHR 0x80, CHR 0x99, CHR 0x73, CHR 0x20, CHR 0x45, CHR 0x6E, CHR 0x63, CHR 0x72, CHR 0x79,
      CHR 0x70, CHR 0x74, CHR 0x20, CHR 0xEC, CHR 0x9E, CHR 0x90, CHR 0xEB, CHR 0x8F, CHR 0x99,
      CHR 0x20, CHR 0xEB, CHR 0xB0, CHR 0x9C, CHR 0xEA, CHR 0xB8, CHR 0x89, CHR 0xEC, CHR 0x9D,
      CHR 0xB4, CHR 0x20, CHR 0xEB, CHR 0x8F, CHR 0x8C, CHR 0xEC, CHR 0xA7, CHR 0x80, CHR 0x20,
      CHR 0xEC, CHR 0x95, CHR 0x8A, CHR 0xEC, CHR 0x8A, CHR 0xB5, CHR 0xEB, CHR 0x8B, CHR 0x88,
      CHR 0xEB, CHR 0x8B, CHR 0xA4]"

definition txt_ce_store :: string where
  "txt_ce_store =
     [CHR 0x41, CHR 0x43, CHR 0x4D, CHR 0x45, CHR 0x20, CHR 0xEC, CHR 0xA0, CHR 0x80, CHR 0xEC,
      CHR 0x9E, CHR 0xA5, CHR 0xEC, CHR 0x86, CHR 0x8C]"

definition txt_ce_store_ok :: string where
  "txt_ce_store_ok =
     [CHR 0xEC, CHR 0x9D, CHR 0xB8, CHR 0xEC, CHR 0xA6, CHR 0x9D, CHR 0xEC, CHR 0x84, CHR 0x9C,
      CHR 0xEA, CHR 0xB0, CHR 0x80, CHR 0x20, CHR 0x41, CHR 0x43, CHR 0x4D, CHR 0x45, CHR 0x20,
      CHR 0xEC, CHR 0xA0, CHR 0x80, CHR 0xEC, CHR 0x9E, CHR 0xA5, CHR 0xEC, CHR 0x86, CHR 0x8C,
      CHR 0xEC, CHR 0x97, CHR 0x90, CHR 0x20, CHR 0xEA, CHR 0xB8, CHR 0xB0, CHR 0xEB, CHR 0xA1,
      CHR 0x9D, CHR 0xEB, CHR 0x8F, CHR 0xBC, CHR 0x20, CHR 0xEC, CHR 0x9E, CHR 0x88, CHR 0xEC,
      CHR 0x8A, CHR 0xB5, CHR 0xEB, CHR 0x8B, CHR 0x88, CHR 0xEB, CHR 0x8B, CHR 0xA4]"

definition txt_ce_store_wait :: string where
  "txt_ce_store_wait =
     [CHR 0xEB, CHR 0x9D, CHR 0xBC, CHR 0xEC, CHR 0x9A, CHR 0xB0, CHR 0xED, CHR 0x84, CHR 0xB0,
      CHR 0xEB, CHR 0x8A, CHR 0x94, CHR 0x20, CHR 0xEC, CHR 0xA4, CHR 0x80, CHR 0xEB, CHR 0xB9,
      CHR 0x84, CHR 0xEB, CHR 0x90, CHR 0x90, CHR 0xEC, CHR 0xA7, CHR 0x80, CHR 0xEB, CHR 0xA7,
      CHR 0x8C, CHR 0x20, CHR 0xEC, CHR 0x9D, CHR 0xB8, CHR 0xEC, CHR 0xA6, CHR 0x9D, CHR 0xEC,
      CHR 0x84, CHR 0x9C, CHR 0xEA, CHR 0xB0, CHR 0x80, CHR 0x20, CHR 0xEC, CHR 0x95, CHR 0x84,
      CHR 0xEC, CHR 0xA7, CHR 0x81, CHR 0x20, CHR 0xEC, CHR 0xA0, CHR 0x80, CHR 0xEC, CHR 0x9E,
      CHR 0xA5, CHR 0xEB, CHR 0x90, CHR 0x98, CHR 0xEC, CHR 0xA7, CHR 0x80, CHR 0x20, CHR 0xEC,
      CHR 0x95, CHR 0x8A, CHR 0xEC, CHR 0x95, CHR 0x98, CHR 0xEC, CHR 0x8A, CHR 0xB5, CHR 0xEB,
      CHR 0x8B, CHR 0x88, CHR 0xEB, CHR 0x8B, CHR 0xA4]"

definition txt_ce_store_fail :: string where
  "txt_ce_store_fail =
     [CHR 0xEC, CHR 0xA0, CHR 0x80, CHR 0xEC, CHR 0x9E, CHR 0xA5, CHR 0xEB, CHR 0x90, CHR 0x9C,
      CHR 0x20, CHR 0xEC, CHR 0x9D, CHR 0xB8, CHR 0xEC, CHR 0xA6, CHR 0x9D, CHR 0xEC, CHR 0x84,
      CHR 0x9C, CHR 0xEA, CHR 0xB0, CHR 0x80, CHR 0x20, CHR 0xEC, CHR 0x97, CHR 0x86, CHR 0xEC,
      CHR 0x96, CHR 0xB4, CHR 0x20, CHR 0xEA, CHR 0xB8, CHR 0xB0, CHR 0xEB, CHR 0xB3, CHR 0xB8,
      CHR 0x20, CHR 0xEC, CHR 0x9D, CHR 0xB8, CHR 0xEC, CHR 0xA6, CHR 0x9D, CHR 0xEC, CHR 0x84,
      CHR 0x9C, CHR 0x20, CHR 0xEB, CHR 0x98, CHR 0x90, CHR 0xEB, CHR 0x8A, CHR 0x94, CHR 0x20,
      CHR 0xEB, CHR 0xAF, CHR 0xB8, CHR 0xEC, CHR 0x84, CHR 0xA4, CHR 0xEC, CHR 0xA0, CHR 0x95,
      CHR 0x20, CHR 0xEC, CHR 0x83, CHR 0x81, CHR 0xED, CHR 0x83, CHR 0x9C, CHR 0xEC, CHR 0x9D,
      CHR 0xBC, CHR 0x20, CHR 0xEC, CHR 0x88, CHR 0x98, CHR 0x20, CHR 0xEC, CHR 0x9E, CHR 0x88,
      CHR 0xEC, CHR 0x8A, CHR 0xB5, CHR 0xEB, CHR 0x8B, CHR 0x88, CHR 0xEB, CHR 0x8B, CHR 0xA4]"

definition txt_ce_recent :: string where
  "txt_ce_recent =
     [CHR 0xEC, CHR 0xB5, CHR 0x9C, CHR 0xEA, CHR 0xB7, CHR 0xBC, CHR 0x20, CHR 0xEB, CHR 0xB0,
      CHR 0x9C, CHR 0xEA, CHR 0xB8, CHR 0x89, CHR 0x20, CHR 0xEC, CHR 0x8B, CHR 0xA4, CHR 0xED,
      CHR 0x8C, CHR 0xA8]"

definition txt_ce_recent_ok :: string where
  "txt_ce_recent_ok =
     [CHR 0xEC, CHR 0xB5, CHR 0x9C, CHR 0xEA, CHR 0xB7, CHR 0xBC, CHR 0x20, CHR 0x41, CHR 0x43,
      CHR 0x4D, CHR 0x45, CHR 0x20, CHR 0xEC, CHR 0x8B, CHR 0xA4, CHR 0xED, CHR 0x8C, CHR 0xA8,
      CHR 0xEA, CHR 0xB0, CHR 0x80, CHR 0x20, CHR 0xEA, CHR 0xB8, CHR 0xB0, CHR 0xEB, CHR 0xA1,
      CHR 0x9D, CHR 0xEB, CHR 0x90, CHR 0x98, CHR 0xEC, CHR 0xA7, CHR 0x80, CHR 0x20, CHR 0xEC,
      CHR 0x95, CHR 0x8A, CHR 0xEC, CHR 0x95, CHR 0x98, CHR 0xEC, CHR 0x8A, CHR 0xB5, CHR 0xEB,
      CHR 0x8B, CHR 0x88, CHR 0xEB, CHR 0x8B, CHR 0xA4]"

definition txt_ce_k_dns :: string where
  "txt_ce_k_dns =
     [CHR 0x44, CHR 0x4E, CHR 0x53, CHR 0x20, CHR 0xEA, CHR 0xB2, CHR 0x80, CHR 0xEC, CHR 0xA6,
      CHR 0x9D]"

definition txt_ce_k_limit :: string where
  "txt_ce_k_limit =
     [CHR 0xEB, CHR 0xB0, CHR 0x9C, CHR 0xEA, CHR 0xB8, CHR 0x89, CHR 0x20, CHR 0xEC, CHR 0xA0,
      CHR 0x9C, CHR 0xED, CHR 0x95, CHR 0x9C]"

definition txt_ce_k_auth :: string where
  "txt_ce_k_auth =
     [CHR 0xEB, CHR 0x8F, CHR 0x84, CHR 0xEB, CHR 0xA9, CHR 0x94, CHR 0xEC, CHR 0x9D, CHR 0xB8,
      CHR 0x20, CHR 0xEC, CHR 0x9D, CHR 0xB8, CHR 0xEC, CHR 0xA6, CHR 0x9D]"

definition txt_ce_k_challenge :: string where
  "txt_ce_k_challenge =
     [CHR 0xEC, CHR 0xB1, CHR 0x8C, CHR 0xEB, CHR 0xA6, CHR 0xB0, CHR 0xEC, CHR 0xA7, CHR 0x80]"

definition txt_ce_k_unknown :: string where
  "txt_ce_k_unknown =
     [CHR 0xEB, CHR 0xB0, CHR 0x9C, CHR 0xEA, CHR 0xB8, CHR 0x89, CHR 0x20, CHR 0xEC, CHR 0x8B,
      CHR 0xA4, CHR 0xED, CHR 0x8C, CHR 0xA8]"

definition txt_ce_no_failure :: string where
  "txt_ce_no_failure =
     [CHR 0xEC, CHR 0xB5, CHR 0x9C, CHR 0xEA, CHR 0xB7, CHR 0xBC, CHR 0x20, CHR 0xEC, CHR 0x8B,
      CHR 0xA4, CHR 0xED, CHR 0x8C, CHR 0xA8, CHR 0x20, CHR 0xEC, CHR 0x97, CHR 0x86, CHR 0xEC,
      CHR 0x9D, CHR 0x8C]"

definition txt_ce_dot :: string where
  "txt_ce_dot =
     [CHR 0x20, CHR 0xC2, CHR 0xB7, CHR 0x20]"

definition txt_ce_manual :: string where
  "txt_ce_manual =
     [CHR 0xEC, CHR 0x88, CHR 0x98, CHR 0xEB, CHR 0x8F, CHR 0x99, CHR 0x2F, CHR 0xEB, CHR 0xAF,
      CHR 0xB8, CHR 0xEC, CHR 0x84, CHR 0xA4, CHR 0xEC, CHR 0xA0, CHR 0x95]"

definition txt_ce_resolver :: string where
  "txt_ce_resolver =
     [CHR 0xEC, CHR 0x9E, CHR 0x90, CHR 0xEB, CHR 0x8F, CHR 0x99, CHR 0x20, CHR 0xEB, CHR 0xB0,
      CHR 0x9C, CHR 0xEA, CHR 0xB8, CHR 0x89, CHR 0x20, CHR 0x28]"

definition txt_ce_ev_error :: string where
  "txt_ce_ev_error =
     [CHR 0xEC, CHR 0x9D, CHR 0xB8, CHR 0xEC, CHR 0xA6, CHR 0x9D, CHR 0xEC, CHR 0x84, CHR 0x9C,
      CHR 0x20, CHR 0xEB, CHR 0xA7, CHR 0x8C, CHR 0xEB, CHR 0xA3, CHR 0x8C]"

definition txt_ce_ev_recovered :: string where
  "txt_ce_ev_recovered =
     [CHR 0xEC, CHR 0x9D, CHR 0xB8, CHR 0xEC, CHR 0xA6, CHR 0x9D, CHR 0xEC, CHR 0x84, CHR 0x9C,
      CHR 0x20, CHR 0xEB, CHR 0xB3, CHR 0xB5, CHR 0xEA, CHR 0xB5, CHR 0xAC]"

definition txt_ce_ev_warning :: string where
  "txt_ce_ev_warning =
     [CHR 0xEC, CHR 0x9D, CHR 0xB8, CHR 0xEC, CHR 0xA6, CHR 0x9D, CHR 0xEC, CHR 0x84, CHR 0x9C,
      CHR 0x20, CHR 0xEB, CHR 0xA7, CHR 0x8C, CHR 0xEB, CHR 0xA3, CHR 0x8C, CHR 0x20, CHR 0xEC,
      CHR 0x9E, CHR 0x84, CHR 0xEB, CHR 0xB0, CHR 0x95]"

definition txt_ce_c_total :: string where
  "txt_ce_c_total =
     [CHR 0xEC, CHR 0xA0, CHR 0x84, CHR 0xEC, CHR 0xB2, CHR 0xB4, CHR 0x20]"

definition txt_ce_c_n :: string where
  "txt_ce_c_n =
     [CHR 0xEA, CHR 0xB0, CHR 0x9C]"

definition txt_ce_c_warn :: string where
  "txt_ce_c_warn =
     [CHR 0xEB, CHR 0xA7, CHR 0x8C, CHR 0xEB, CHR 0xA3, CHR 0x8C, CHR 0x20, CHR 0xEC, CHR 0x9E,
      CHR 0x84, CHR 0xEB, CHR 0xB0, CHR 0x95, CHR 0x20]"

definition txt_ce_c_err :: string where
  "txt_ce_c_err =
     [CHR 0xEB, CHR 0xA7, CHR 0x8C, CHR 0xEB, CHR 0xA3, CHR 0x8C, CHR 0x20]"

definition txt_ce_c_rec :: string where
  "txt_ce_c_rec =
     [CHR 0xEC, CHR 0x8B, CHR 0xA0, CHR 0xEA, CHR 0xB7, CHR 0x9C, CHR 0x20, CHR 0xEA, CHR 0xB2,
      CHR 0xBD, CHR 0xEA, CHR 0xB3, CHR 0xA0, CHR 0x20]"

definition txt_ce_c_cases :: string where
  "txt_ce_c_cases =
     [CHR 0xEA, CHR 0xB1, CHR 0xB4]"

definition txt_ce_again :: string where
  "txt_ce_again =
     [CHR 0xEC, CHR 0x9E, CHR 0xA0, CHR 0xEC, CHR 0x8B, CHR 0x9C, CHR 0x20, CHR 0xED, CHR 0x9B,
      CHR 0x84, CHR 0x20, CHR 0xEB, CHR 0x8B, CHR 0xA4, CHR 0xEC, CHR 0x8B, CHR 0x9C, CHR 0x20,
      CHR 0xEC, CHR 0x8B, CHR 0x9C, CHR 0xEB, CHR 0x8F, CHR 0x84, CHR 0xED, CHR 0x95, CHR 0xB4,
      CHR 0x20, CHR 0xEC, CHR 0xA3, CHR 0xBC, CHR 0xEC, CHR 0x84, CHR 0xB8, CHR 0xEC, CHR 0x9A,
      CHR 0x94]"

definition txt_rd_list :: string where
  "txt_rd_list =
     [CHR 0xEB, CHR 0xA6, CHR 0xAC, CHR 0xEB, CHR 0x8B, CHR 0xA4, CHR 0xEC, CHR 0x9D, CHR 0xB4,
      CHR 0xEB, CHR 0xA0, CHR 0x89, CHR 0xED, CHR 0x8A, CHR 0xB8, CHR 0x20, CHR 0xEB, CHR 0xAA,
      CHR 0xA9, CHR 0xEB, CHR 0xA1, CHR 0x9D, CHR 0xEC, CHR 0x9D, CHR 0x84, CHR 0x20, CHR 0xEB,
      CHR 0xB6, CHR 0x88, CHR 0xEB, CHR 0x9F, CHR 0xAC, CHR 0xEC, CHR 0x98, CHR 0xA4, CHR 0xEC,
      CHR 0xA7, CHR 0x80, CHR 0x20, CHR 0xEB, CHR 0xAA, CHR 0xBB, CHR 0xED, CHR 0x96, CHR 0x88,
      CHR 0xEC, CHR 0x8A, CHR 0xB5, CHR 0xEB, CHR 0x8B, CHR 0x88, CHR 0xEB, CHR 0x8B, CHR 0xA4]"

definition txt_rd_create :: string where
  "txt_rd_create =
     [CHR 0xEB, CHR 0xA6, CHR 0xAC, CHR 0xEB, CHR 0x8B, CHR 0xA4, CHR 0xEC, CHR 0x9D, CHR 0xB4,
      CHR 0xEB, CHR 0xA0, CHR 0x89, CHR 0xED, CHR 0x8A, CHR 0xB8, CHR 0x20, CHR 0xEC, CHR 0xB6,
      CHR 0x94, CHR 0xEA, CHR 0xB0, CHR 0x80, CHR 0x20, CHR 0xEC, CHR 0xA4, CHR 0x91, CHR 0x20,
      CHR 0xEC, CHR 0x98, CHR 0xA4, CHR 0xEB, CHR 0xA5, CHR 0x98, CHR 0xEA, CHR 0xB0, CHR 0x80,
      CHR 0x20, CHR 0xEB, CHR 0xB0, CHR 0x9C, CHR 0xEC, CHR 0x83, CHR 0x9D, CHR 0xED, CHR 0x96,
      CHR 0x88, CHR 0xEC, CHR 0x8A, CHR 0xB5, CHR 0xEB, CHR 0x8B, CHR 0x88, CHR 0xEB, CHR 0x8B,
      CHR 0xA4]"

definition txt_rd_update :: string where
  "txt_rd_update =
     [CHR 0xEB, CHR 0xA6, CHR 0xAC, CHR 0xEB, CHR 0x8B, CHR 0xA4, CHR 0xEC, CHR 0x9D, CHR 0xB4,
      CHR 0xEB, CHR 0xA0, CHR 0x89, CHR 0xED, CHR 0x8A, CHR 0xB8, CHR 0x20, CHR 0xEC, CHR 0x88,
      CHR 0x98, CHR 0xEC, CHR 0xA0, CHR 0x95, CHR 0x20, CHR 0xEC, CHR 0xA4, CHR 0x91, CHR 0x20,
      CHR 0xEC, CHR 0x98, CHR 0xA4, CHR 0xEB, CHR 0xA5, CHR 0x98, CHR 0xEA, CHR 0xB0, CHR 0x80,
      CHR 0x20, CHR 0xEB, CHR 0xB0, CHR 0x9C, CHR 0xEC, CHR 0x83, CHR 0x9D, CHR 0xED, CHR 0x96,
      CHR 0x88, CHR 0xEC, CHR 0x8A, CHR 0xB5, CHR 0xEB, CHR 0x8B, CHR 0x88, CHR 0xEB, CHR 0x8B,
      CHR 0xA4]"

definition txt_rd_target :: string where
  "txt_rd_target =
     [CHR 0xEB, CHR 0xA6, CHR 0xAC, CHR 0xEB, CHR 0x8B, CHR 0xA4, CHR 0xEC, CHR 0x9D, CHR 0xB4,
      CHR 0xEB, CHR 0xA0, CHR 0x89, CHR 0xED, CHR 0x8A, CHR 0xB8, CHR 0x20, CHR 0xEB, CHR 0x8C,
      CHR 0x80, CHR 0xEC, CHR 0x83, CHR 0x81, CHR 0x20, CHR 0x55, CHR 0x52, CHR 0x4C, CHR 0xEC,
      CHR 0x9D, CHR 0x84, CHR 0x20, CHR 0xEC, CHR 0x9E, CHR 0x85, CHR 0xEB, CHR 0xA0, CHR 0xA5,
      CHR 0xED, CHR 0x95, CHR 0x98, CHR 0xEC, CHR 0x84, CHR 0xB8, CHR 0xEC, CHR 0x9A, CHR 0x94]"

definition txt_us_name :: string where
  "txt_us_name =
     [CHR 0xEC, CHR 0x82, CHR 0xAC, CHR 0xEC, CHR 0x9A, CHR 0xA9, CHR 0xEC, CHR 0x9E, CHR 0x90,
      CHR 0x20, CHR 0xEC, CHR 0x9D, CHR 0xB4, CHR 0xEB, CHR 0xA6, CHR 0x84, CHR 0xEC, CHR 0x9D,
      CHR 0x84, CHR 0x20, CHR 0xEC, CHR 0x9E, CHR 0x85, CHR 0xEB, CHR 0xA0, CHR 0xA5, CHR 0xED,
      CHR 0x95, CHR 0x98, CHR 0xEC, CHR 0x84, CHR 0xB8, CHR 0xEC, CHR 0x9A, CHR 0x94]"

definition txt_us_password :: string where
  "txt_us_password =
     [CHR 0xEB, CHR 0xB9, CHR 0x84, CHR 0xEB, CHR 0xB0, CHR 0x80, CHR 0xEB, CHR 0xB2, CHR 0x88,
      CHR 0xED, CHR 0x98, CHR 0xB8, CHR 0xEB, CHR 0xA5, CHR 0xBC, CHR 0x20, CHR 0xEC, CHR 0x9E,
      CHR 0x85, CHR 0xEB, CHR 0xA0, CHR 0xA5, CHR 0xED, CHR 0x95, CHR 0x98, CHR 0xEC, CHR 0x84,
      CHR 0xB8, CHR 0xEC, CHR 0x9A, CHR 0x94]"

definition txt_du_minutes :: string where
  "txt_du_minutes =
     [CHR 0xEB, CHR 0xB6, CHR 0x84]"

definition txt_du_days :: string where
  "txt_du_days =
     [CHR 0xEC, CHR 0x9D, CHR 0xBC]"

definition txt_du_hours :: string where
  "txt_du_hours =
     [CHR 0xEC, CHR 0x8B, CHR 0x9C, CHR 0xEA, CHR 0xB0, CHR 0x84]"

definition txt_vd_checking :: string where
  "txt_vd_checking =
     [CHR 0xED, CHR 0x99, CHR 0x95, CHR 0xEC, CHR 0x9D, CHR 0xB8, CHR 0x20, CHR 0xEC, CHR 0xA4,
      CHR 0x91]"

definition txt_vd_docker :: string where
  "txt_vd_docker =
     [CHR 0x44, CHR 0x6F, CHR 0x63, CHR 0x6B, CHR 0x65, CHR 0x72, CHR 0x20, CHR 0xEC, CHR 0xA1,
      CHR 0xB0, CHR 0xED, CHR 0x9A, CHR 0x8C, CHR 0x20, CHR 0xEB, CHR 0xB6, CHR 0x88, CHR 0xEA,
      CHR 0xB0, CHR 0x80]"

definition txt_vd_update :: string where
  "txt_vd_update =
     [CHR 0xEC, CHR 0x97, CHR 0x85, CHR 0xEB, CHR 0x8D, CHR 0xB0, CHR 0xEC, CHR 0x9D, CHR 0xB4,
      CHR 0xED, CHR 0x8A, CHR 0xB8, CHR 0x20, CHR 0xED, CHR 0x95, CHR 0x84, CHR 0xEC, CHR 0x9A,
      CHR 0x94]"

definition txt_vd_after :: string where
  "txt_vd_after =
     [CHR 0x20, CHR 0xEC, CHR 0x9D, CHR 0xB4, CHR 0xED, CHR 0x9B, CHR 0x84, CHR 0x20]"

definition txt_vd_commits :: string where
  "txt_vd_commits =
     [CHR 0xEC, CHR 0xBB, CHR 0xA4, CHR 0xEB, CHR 0xB0, CHR 0x8B]"

definition txt_vd_post :: string where
  "txt_vd_post =
     [CHR 0xEB, CHR 0xA6, CHR 0xB4, CHR 0xEB, CHR 0xA6, CHR 0xAC, CHR 0xEC, CHR 0xA6, CHR 0x88,
      CHR 0x20, CHR 0xEC, CHR 0x9D, CHR 0xB4, CHR 0xED, CHR 0x9B, CHR 0x84, CHR 0x20, CHR 0xEB,
      CHR 0xB9, CHR 0x8C, CHR 0xEB, CHR 0x93, CHR 0x9C]"

definition txt_vd_msg1 :: string where
  "txt_vd_msg1 =
     [CHR 0xED, CHR 0x98, CHR 0x84, CHR 0xEC, CHR 0x9E, CHR 0xAC, CHR 0x20, CHR 0xEB, CHR 0xB0,
      CHR 0xB0, CHR 0xED, CHR 0x8F, CHR 0xAC, CHR 0xEB, CHR 0x8A, CHR 0x94, CHR 0x20, CHR 0xEC,
      CHR 0xB5, CHR 0x9C, CHR 0xEC, CHR 0x8B, CHR 0xA0, CHR 0x20, CHR 0xEB, CHR 0xA6, CHR 0xB4,
      CHR 0xEB, CHR 0xA6, CHR 0xAC, CHR 0xEC, CHR 0xA6, CHR 0x88, CHR 0x20]"

definition txt_vd_msg2 :: string where
  "txt_vd_msg2 =
     [CHR 0xEA, CHR 0xB0, CHR 0x9C, CHR 0x20, CHR 0xEC, CHR 0xBB, CHR 0xA4, CHR 0xEB, CHR 0xB0,
      CHR 0x8B, CHR 0xEC, CHR 0x9D, CHR 0xB4, CHR 0x20, CHR 0xED, CHR 0x8F, CHR 0xAC, CHR 0xED,
      CHR 0x95, CHR 0xA8, CHR 0xEB, CHR 0x90, CHR 0x9C, CHR 0x20, CHR 0xEB, CHR 0xB9, CHR 0x8C,
      CHR 0xEB, CHR 0x93, CHR 0x9C, CHR 0xEC, CHR 0x9E, CHR 0x85, CHR 0xEB, CHR 0x8B, CHR 0x88,
      CHR 0xEB, CHR 0x8B, CHR 0xA4, CHR 0x2E]"

definition txt_vd_current :: string where
  "txt_vd_current =
     [CHR 0xEC, CHR 0xB5, CHR 0x9C, CHR 0xEC, CHR 0x8B, CHR 0xA0, CHR 0x20, CHR 0xEC, CHR 0x83,
      CHR 0x81, CHR 0xED, CHR 0x83, CHR 0x9C]"

definition txt_vd_failed :: string where
  "txt_vd_failed =
     [CHR 0xED, CHR 0x99, CHR 0x95, CHR 0xEC, CHR 0x9D, CHR 0xB8, CHR 0x20, CHR 0xEC, CHR 0x8B,
      CHR 0xA4, CHR 0xED, CHR 0x8C, CHR 0xA8]"

definition txt_vd_none :: string where
  "txt_vd_none =
     [CHR 0xEB, CHR 0xB9, CHR 0x84, CHR 0xEA, CHR 0xB5, CHR 0x90, CHR 0x20, CHR 0xEB, CHR 0xB6,
      CHR 0x88, CHR 0xEA, CHR 0xB0, CHR 0x80]"

definition txt_pr_none :: string where
  "txt_pr_none =
     [CHR 0xEA, CHR 0xB3, CHR 0xB5, CHR 0xEA, CHR 0xB0, CHR 0x9C, CHR 0x20, CHR 0x70, CHR 0x72,
      CHR 0x6F, CHR 0x62, CHR 0x65, CHR 0x20, CHR 0xEC, CHR 0xA0, CHR 0x84, CHR 0x20, CHR 0xEC,
      CHR 0xA2, CHR 0x85, CHR 0xEB, CHR 0xA3, CHR 0x8C]"

definition txt_pr_of :: string where
  "txt_pr_of =
     [CHR 0xEA, CHR 0xB1, CHR 0xB4, CHR 0x20, CHR 0xEC, CHR 0xA4, CHR 0x91, CHR 0x20]"

definition txt_pr_failed :: string where
  "txt_pr_failed =
     [CHR 0xEA, CHR 0xB1, CHR 0xB4, CHR 0x20, CHR 0xEC, CHR 0x8B, CHR 0xA4, CHR 0xED, CHR 0x8C,
      CHR 0xA8]"

definition txt_pr_all :: string where
  "txt_pr_all =
     [CHR 0xEA, CHR 0xB1, CHR 0xB4, CHR 0x20, CHR 0xEB, CHR 0xAA, CHR 0xA8, CHR 0xEB, CHR 0x91,
      CHR 0x90, CHR 0x20, CHR 0x48, CHR 0x54, CHR 0x54, CHR 0x50, CHR 0x20, CHR 0x32, CHR 0x30,
      CHR 0x30]"

definition txt_pr_unknown :: string where
  "txt_pr_unknown =
     [CHR 0xED, CHR 0x99, CHR 0x95, CHR 0xEC, CHR 0x9D, CHR 0xB8, CHR 0x20, CHR 0xEB, CHR 0xB6,
      CHR 0x88, CHR 0xEA, CHR 0xB0, CHR 0x80]"

definition txt_wd_healthy :: string where
  "txt_wd_healthy =
     [CHR 0xEC, CHR 0xA0, CHR 0x95, CHR 0xEC, CHR 0x83, CHR 0x81]"

definition txt_wd_unhealthy :: string where
  "txt_wd_unhealthy =
     [CHR 0xEC, CHR 0x9E, CHR 0xA5, CHR 0xEC, CHR 0x95, CHR 0xA0, CHR 0x20, CHR 0xEA, CHR 0xB0,
      CHR 0x90, CHR 0xEC, CHR 0xA7, CHR 0x80]"

definition txt_wd_norecord :: string where
  "txt_wd_norecord =
     [CHR 0xEA, CHR 0xB8, CHR 0xB0, CHR 0xEB, CHR 0xA1, CHR 0x9D, CHR 0x20, CHR 0xEC, CHR 0x97,
      CHR 0x86, CHR 0xEC, CHR 0x9D, CHR 0x8C]"

definition txt_wd_failure :: string where
  "txt_wd_failure =
     [CHR 0xEC, CHR 0x9E, CHR 0xA5, CHR 0xEC, CHR 0x95, CHR 0xA0]"

definition txt_wd_recovery :: string where
  "txt_wd_recovery =
     [CHR 0xEB, CHR 0xB3, CHR 0xB5, CHR 0xEA, CHR 0xB5, CHR 0xAC]"

definition txt_wd_sent :: string where
  "txt_wd_sent =
     [CHR 0x20, CHR 0xEC, CHR 0x9A, CHR 0xB4, CHR 0xEC, CHR 0x98, CHR 0x81, CHR 0x20, CHR 0xEC,
      CHR 0x95, CHR 0x8C, CHR 0xEB, CHR 0xA6, CHR 0xBC, CHR 0x20, CHR 0xEC, CHR 0xA0, CHR 0x84,
      CHR 0xEC, CHR 0x86, CHR 0xA1, CHR 0x20]"

definition txt_wd_ok :: string where
  "txt_wd_ok =
     [CHR 0xEC, CHR 0x84, CHR 0xB1, CHR 0xEA, CHR 0xB3, CHR 0xB5]"

definition txt_wd_bad :: string where
  "txt_wd_bad =
     [CHR 0xEC, CHR 0x8B, CHR 0xA4, CHR 0xED, CHR 0x8C, CHR 0xA8]"

definition txt_wd_waiting :: string where
  "txt_wd_waiting =
     [CHR 0xEB, CHR 0x8C, CHR 0x80, CHR 0xEA, CHR 0xB8, CHR 0xB0, CHR 0x20, CHR 0xEC, CHR 0xA4,
      CHR 0x91]"

definition txt_wd_running :: string where
  "txt_wd_running =
     [CHR 0xEC, CHR 0xA7, CHR 0x84, CHR 0xED, CHR 0x96, CHR 0x89, CHR 0x20, CHR 0xEC, CHR 0xA4,
      CHR 0x91]"

definition txt_wd_action :: string where
  "txt_wd_action =
     [CHR 0xEC, CHR 0xA1, CHR 0xB0, CHR 0xEC, CHR 0xB9, CHR 0x98, CHR 0x20, CHR 0xED, CHR 0x95,
      CHR 0x84, CHR 0xEC, CHR 0x9A, CHR 0x94]"

definition txt_wd_cancelled :: string where
  "txt_wd_cancelled =
     [CHR 0xEC, CHR 0xB7, CHR 0xA8, CHR 0xEC, CHR 0x86, CHR 0x8C]"

definition txt_wd_neutral :: string where
  "txt_wd_neutral =
     [CHR 0xEC, CHR 0xA4, CHR 0x91, CHR 0xEB, CHR 0xA6, CHR 0xBD]"

definition txt_wd_skipped :: string where
  "txt_wd_skipped =
     [CHR 0xEA, CHR 0xB1, CHR 0xB4, CHR 0xEB, CHR 0x84, CHR 0x88, CHR 0xEB, CHR 0x9C, CHR 0x80]"

definition txt_wd_stale :: string where
  "txt_wd_stale =
     [CHR 0xEB, CHR 0xA7, CHR 0x8C, CHR 0xEB, CHR 0xA3, CHR 0x8C]"

definition txt_wd_startup :: string where
  "txt_wd_startup =
     [CHR 0xEC, CHR 0x8B, CHR 0x9C, CHR 0xEC, CHR 0x9E, CHR 0x91, CHR 0x20, CHR 0xEC, CHR 0x8B,
      CHR 0xA4, CHR 0xED, CHR 0x8C, CHR 0xA8]"

definition txt_wd_timeout :: string where
  "txt_wd_timeout =
     [CHR 0xEC, CHR 0x8B, CHR 0x9C, CHR 0xEA, CHR 0xB0, CHR 0x84, CHR 0x20, CHR 0xEC, CHR 0xB4,
      CHR 0x88, CHR 0xEA, CHR 0xB3, CHR 0xBC]"

definition txt_wd_done :: string where
  "txt_wd_done =
     [CHR 0xEC, CHR 0x99, CHR 0x84, CHR 0xEB, CHR 0xA3, CHR 0x8C]"

definition txt_ro_order :: string where
  "txt_ro_order =
     [CHR 0xEC, CHR 0x8B, CHR 0x9C, CHR 0xEC, CHR 0x9E, CHR 0x91, CHR 0xEC, CHR 0x9D, CHR 0xBC,
      CHR 0xEA, CHR 0xB3, CHR 0xBC, CHR 0x20, CHR 0xEC, CHR 0xA2, CHR 0x85, CHR 0xEB, CHR 0xA3,
      CHR 0x8C, CHR 0xEC, CHR 0x9D, CHR 0xBC, CHR 0xEC, CHR 0x9D, CHR 0x84, CHR 0x20, CHR 0xEC,
      CHR 0x88, CHR 0x9C, CHR 0xEC, CHR 0x84, CHR 0x9C, CHR 0xEB, CHR 0x8C, CHR 0x80, CHR 0xEB,
      CHR 0xA1, CHR 0x9C, CHR 0x20, CHR 0xEC, CHR 0x84, CHR 0xA0, CHR 0xED, CHR 0x83, CHR 0x9D,
      CHR 0xED, CHR 0x95, CHR 0x98, CHR 0xEC, CHR 0x84, CHR 0xB8, CHR 0xEC, CHR 0x9A, CHR 0x94,
      CHR 0x2E]"

definition txt_ro_error :: string where
  "txt_ro_error =
     [CHR 0xEB, CHR 0x8B, CHR 0xA4, CHR 0xEC, CHR 0x9A, CHR 0xB4, CHR 0xEB, CHR 0xA1, CHR 0x9C,
      CHR 0xEB, CHR 0x93, CHR 0x9C, CHR 0x20, CHR 0xEB, CHR 0x8C, CHR 0x80, CHR 0xEC, CHR 0x83,
      CHR 0x81, CHR 0x20, CHR 0xEA, CHR 0xB1, CHR 0xB4, CHR 0xEC, CHR 0x88, CHR 0x98, CHR 0xEB,
      CHR 0xA5, CHR 0xBC, CHR 0x20, CHR 0xED, CHR 0x99, CHR 0x95, CHR 0xEC, CHR 0x9D, CHR 0xB8,
      CHR 0xED, CHR 0x95, CHR 0x98, CHR 0xEC, CHR 0xA7, CHR 0x80, CHR 0x20, CHR 0xEB, CHR 0xAA,
      CHR 0xBB, CHR 0xED, CHR 0x96, CHR 0x88, CHR 0xEC, CHR 0x8A, CHR 0xB5, CHR 0xEB, CHR 0x8B,
      CHR 0x88, CHR 0xEB, CHR 0x8B, CHR 0xA4, CHR 0x2E]"

definition txt_ro_loading :: string where
  "txt_ro_loading =
     [CHR 0xEB, CHR 0x8B, CHR 0xA4, CHR 0xEC, CHR 0x9A, CHR 0xB4, CHR 0xEB, CHR 0xA1, CHR 0x9C,
      CHR 0xEB, CHR 0x93, CHR 0x9C, CHR 0x20, CHR 0xEB, CHR 0x8C, CHR 0x80, CHR 0xEC, CHR 0x83,
      CHR 0x81, CHR 0x20, CHR 0xEA, CHR 0xB1, CHR 0xB4, CHR 0xEC, CHR 0x88, CHR 0x98, CHR 0x20,
      CHR 0xED, CHR 0x99, CHR 0x95, CHR 0xEC, CHR 0x9D, CHR 0xB8, CHR 0x20, CHR 0xEC, CHR 0xA4,
      CHR 0x91, CHR 0x2E, CHR 0x2E, CHR 0x2E]"

definition txt_ro_empty :: string where
  "txt_ro_empty =
     [CHR 0xEB, CHR 0x8B, CHR 0xA4, CHR 0xEC, CHR 0x9A, CHR 0xB4, CHR 0xEB, CHR 0xA1, CHR 0x9C,
      CHR 0xEB, CHR 0x93, CHR 0x9C, CHR 0x20, CHR 0xEB, CHR 0x8C, CHR 0x80, CHR 0xEC, CHR 0x83,
      CHR 0x81, CHR 0x20, CHR 0x30, CHR 0xEA, CHR 0xB1, CHR 0xB4, CHR 0x20, CHR 0xC2, CHR 0xB7,
      CHR 0x20, CHR 0x43, CHR 0x53, CHR 0x56, CHR 0xEC, CHR 0x97, CHR 0x90, CHR 0xEB, CHR 0x8A,
      CHR 0x94, CHR 0x20, CHR 0xED, CHR 0x97, CHR 0xA4, CHR 0xEB, CHR 0x8D, CHR 0x94, CHR 0xEB,
      CHR 0xA7, CHR 0x8C, CHR 0x20, CHR 0xED, CHR 0x8F, CHR 0xAC, CHR 0xED, CHR 0x95, CHR 0xA8,
      CHR 0xEB, CHR 0x90, CHR 0xA9, CHR 0xEB, CHR 0x8B, CHR 0x88, CHR 0xEB, CHR 0x8B, CHR 0xA4,
      CHR 0x2E]"

definition txt_ro_target :: string where
  "txt_ro_target =
     [CHR 0xEB, CHR 0x8B, CHR 0xA4, CHR 0xEC, CHR 0x9A, CHR 0xB4, CHR 0xEB, CHR 0xA1, CHR 0x9C,
      CHR 0xEB, CHR 0x93, CHR 0x9C, CHR 0x20, CHR 0xEB, CHR 0x8C, CHR 0x80, CHR 0xEC, CHR 0x83,
      CHR 0x81, CHR 0x20]"

definition txt_ro_cases :: string where
  "txt_ro_cases =
     [CHR 0xEA, CHR 0xB1, CHR 0xB4]"

definition txt_ro_step :: string where
  "txt_ro_step =
     [CHR 0xEC, CHR 0x95, CHR 0x8C, CHR 0x20, CHR 0xEC, CHR 0x88, CHR 0x98, CHR 0x20, CHR 0xEC,
      CHR 0x97, CHR 0x86, CHR 0xEB, CHR 0x8A, CHR 0x94, CHR 0x20, CHR 0xEB, CHR 0x8B, CHR 0xA8,
      CHR 0xEA, CHR 0xB3, CHR 0x84]"

definition txt_al_rolled :: string where
  "txt_al_rolled =
     [CHR 0xEB, CHR 0x8C, CHR 0x80, CHR 0xEC, CHR 0x83, CHR 0x81, CHR 0x20, CHR 0xED, CHR 0x95,
      CHR 0xAD, CHR 0xEB, CHR 0xAA, CHR 0xA9, CHR 0xEC, CHR 0x9D, CHR 0x84, CHR 0x20, CHR 0xEC,
      CHR 0x9D, CHR 0xB4, CHR 0xEC, CHR 0xA0, CHR 0x84, CHR 0x20, CHR 0xEC, CHR 0x83, CHR 0x81,
      CHR 0xED, CHR 0x83, CHR 0x9C, CHR 0xEB, CHR 0xA1, CHR 0x9C, CHR 0x20, CHR 0xEB, CHR 0x90,
      CHR 0x98, CHR 0xEB, CHR 0x8F, CHR 0x8C, CHR 0xEB, CHR 0xA0, CHR 0xB8, CHR 0xEC, CHR 0x8A,
      CHR 0xB5, CHR 0xEB, CHR 0x8B, CHR 0x88, CHR 0xEB, CHR 0x8B, CHR 0xA4, CHR 0x2E]"

definition txt_al_rollback :: string where
  "txt_al_rollback =
     [CHR 0xEB, CHR 0xA1, CHR 0xA4, CHR 0xEB, CHR 0xB0, CHR 0xB1, CHR 0xEC, CHR 0x97, CHR 0x90,
      CHR 0x20, CHR 0xEC, CHR 0x8B, CHR 0xA4, CHR 0xED, CHR 0x8C, CHR 0xA8, CHR 0xED, CHR 0x96,
      CHR 0x88, CHR 0xEC, CHR 0x8A, CHR 0xB5, CHR 0xEB, CHR 0x8B, CHR 0x88, CHR 0xEB, CHR 0x8B,
      CHR 0xA4, CHR 0x2E]"

definition txt_al_retry :: string where
  "txt_al_retry =
     [CHR 0xEC, CHR 0x95, CHR 0x8C, CHR 0xEB, CHR 0xA6, CHR 0xBC, CHR 0x20, CHR 0xEC, CHR 0x9E,
      CHR 0xAC, CHR 0xEC, CHR 0x8B, CHR 0x9C, CHR 0xEB, CHR 0x8F, CHR 0x84, CHR 0xEC, CHR 0x97,
      CHR 0x90, CHR 0x20, CHR 0xEC, CHR 0x8B, CHR 0xA4, CHR 0xED, CHR 0x8C, CHR 0xA8, CHR 0xED,
      CHR 0x96, CHR 0x88, CHR 0xEC, CHR 0x8A, CHR 0xB5, CHR 0xEB, CHR 0x8B, CHR 0x88, CHR 0xEB,
      CHR 0x8B, CHR 0xA4, CHR 0x2E]"

definition txt_sp_list :: string where
  "txt_sp_list =
     [CHR 0xEC, CHR 0x83, CHR 0x81, CHR 0xED, CHR 0x92, CHR 0x88, CHR 0x20, CHR 0xEB, CHR 0xAA,
      CHR 0xA9, CHR 0xEB, CHR 0xA1, CHR 0x9D]"

definition txt_sp_terms :: string where
  "txt_sp_terms =
     [CHR 0xEB, CHR 0xB0, CHR 0xB0, CHR 0xEC, CHR 0x86, CHR 0xA1, CHR 0x2F, CHR 0xEA, CHR 0xB5,
      CHR 0x90, CHR 0xED, CHR 0x99, CHR 0x98, CHR 0x2F, CHR 0xED, CHR 0x99, CHR 0x98, CHR 0xEB,
      CHR 0xB6, CHR 0x88, CHR 0x20, CHR 0xEC, CHR 0x95, CHR 0x88, CHR 0xEB, CHR 0x82, CHR 0xB4]"

definition txt_sp_login :: string where
  "txt_sp_login =
     [CHR 0xEB, CHR 0xA1, CHR 0x9C, CHR 0xEA, CHR 0xB7, CHR 0xB8, CHR 0xEC, CHR 0x9D, CHR 0xB8]"

definition txt_sp_loading :: string where
  "txt_sp_loading =
     [CHR 0xEB, CHR 0xA1, CHR 0x9C, CHR 0xEB, CHR 0x94, CHR 0xA9, CHR 0x20, CHR 0xEC, CHR 0xA4,
      CHR 0x91]"

definition txt_sp_pay :: string where
  "txt_sp_pay =
     [CHR 0xEA, CHR 0xB2, CHR 0xB0, CHR 0xEC, CHR 0xA0, CHR 0x9C, CHR 0xED, CHR 0x95, CHR 0x98,
      CHR 0xEA, CHR 0xB8, CHR 0xB0]"

definition txt_sp_empty :: string where
  "txt_sp_empty =
     [CHR 0xEC, CHR 0x9E, CHR 0xA5, CHR 0xEB, CHR 0xB0, CHR 0x94, CHR 0xEA, CHR 0xB5, CHR 0xAC,
      CHR 0xEB, CHR 0x8B, CHR 0x88, CHR 0xEA, CHR 0xB0, CHR 0x80, CHR 0x20, CHR 0xEB, CHR 0xB9,
      CHR 0x84, CHR 0xEC, CHR 0x96, CHR 0xB4]"

definition txt_sp_koe :: string where
  "txt_sp_koe =
     [CHR 0xEC, CHR 0x95, CHR 0xB1, CHR 0x20, CHR 0xEA, CHR 0xB4, CHR 0x80, CHR 0xEB, CHR 0xA6,
      CHR 0xAC, CHR 0xEC, CHR 0x9E, CHR 0x90, CHR 0x20, CHR 0xEC, CHR 0x84, CHR 0xA4, CHR 0xEC,
      CHR 0xA0, CHR 0x95, CHR 0x20, CHR 0xEC, CHR 0x98, CHR 0xA4, CHR 0xEB, CHR 0xA5, CHR 0x98]"

definition txt_cd_timeout :: string where
  "txt_cd_timeout =
     [CHR 0x20, CHR 0xEC, CHR 0x9D, CHR 0xB4, CHR 0xEB, CHR 0xB2, CHR 0xA4, CHR 0xED, CHR 0x8A,
      CHR 0xB8, CHR 0x20, CHR 0xEB, CHR 0x8C, CHR 0x80, CHR 0xEA, CHR 0xB8, CHR 0xB0, CHR 0x20,
      CHR 0xEC, CHR 0x8B, CHR 0x9C, CHR 0xEA, CHR 0xB0, CHR 0x84, CHR 0x20, CHR 0xEC, CHR 0xB4,
      CHR 0x88, CHR 0xEA, CHR 0xB3, CHR 0xBC]"

definition txt_cd_evaluate :: string where
  "txt_cd_evaluate =
     [CHR 0xEB, CHR 0xB8, CHR 0x8C, CHR 0xEB, CHR 0x9D, CHR 0xBC, CHR 0xEC, CHR 0x9A, CHR 0xB0,
      CHR 0xEC, CHR 0xA0, CHR 0x80, CHR 0x20, CHR 0xED, CHR 0x8F, CHR 0x89, CHR 0xEA, CHR 0xB0,
      CHR 0x80, CHR 0x20, CHR 0xEC, CHR 0x8B, CHR 0xA4, CHR 0xED, CHR 0x8C, CHR 0xA8]"

definition txt_ds_done :: string where
  "txt_ds_done =
     [CHR 0xEC, CHR 0xA0, CHR 0x84, CHR 0xED, CHR 0x99, CHR 0x98, CHR 0x20, CHR 0xEC, CHR 0x99,
      CHR 0x84, CHR 0xEB, CHR 0xA3, CHR 0x8C]"

definition txt_ds_stopped :: string where
  "txt_ds_stopped =
     [CHR 0xEC, CHR 0xA0, CHR 0x84, CHR 0xED, CHR 0x99, CHR 0x98, CHR 0x20, CHR 0xEC, CHR 0xA0,
      CHR 0x84, CHR 0x20, CHR 0xEC, CHR 0xA4, CHR 0x91, CHR 0xEB, CHR 0x8B, CHR 0xA8]"

definition txt_ds_rolled :: string where
  "txt_ds_rolled =
     [CHR 0xEC, CHR 0x9E, CHR 0x90, CHR 0xEB, CHR 0x8F, CHR 0x99, CHR 0x20, CHR 0xEB, CHR 0xA1,
      CHR 0xA4, CHR 0xEB, CHR 0xB0, CHR 0xB1]"

definition txt_ds_rollback_failed :: string where
  "txt_ds_rollback_failed =
     [CHR 0xEB, CHR 0xA1, CHR 0xA4, CHR 0xEB, CHR 0xB0, CHR 0xB1, CHR 0x20, CHR 0xEC, CHR 0x8B,
      CHR 0xA4, CHR 0xED, CHR 0x8C, CHR 0xA8]"

end
