(* ===== verification/Certificates.thy ===== *)
theory Certificates
  imports Smoke_Tracking Ui_Text_Pages
begin

text \<open>
  The certificates page (\<open>app/dashboard/certificates\<close>): the counts of the overview, the labels of the
  list, the checklist of a certificate with the action it recommends, the comparison of two preflight
  checks, and the drawer with the preflight of the selected domain.  The list, the running check and the
  running preflight belong to the query library; their current values are arguments, as they are in
  the code.
\<close>

section \<open>Data (\<open>features/certificates/api/certificateApi.ts\<close>)\<close>

datatype CertificateStatus = CsActive | CsWarning | CsError | CsPending | CsInactive
datatype CertificateAcmeErrorKind = AkDns | AkRateLimit | AkAuthorization | AkChallenge | AkUnknown
datatype CertificatePreflightStatus = PfOk | PfWarning | PfError

record Certificate =
  ce_domain :: string
  ce_router_names :: "string list"
  ce_cert_resolvers :: "string list"
  ce_expires_at :: "string option"
  ce_days_remaining :: "int option"
  ce_status :: CertificateStatus
  ce_status_message :: string
  ce_alerts_suppressed :: bool
  ce_last_acme_error_at :: "string option"
  ce_last_acme_error_message :: "string option"
  ce_last_acme_error_kind :: "CertificateAcmeErrorKind option"
  ce_preflight_failure_streak :: nat
  ce_preflight_repeated_failure_active :: bool

record CertificateCheckResult =
  cc_checked_at :: string
  cc_total_count :: nat
  cc_warning_count :: nat
  cc_error_count :: nat
  cc_recorded_event_count :: nat

datatype PreflightItemKey = KRouterDetected | KCertResolver | KDnsPublic | KHttpChallenge | KHttpsCertificate | KRecentAcmeFailure

record CertificatePreflightItem =
  pi_key :: PreflightItemKey
  pi_label :: string
  pi_status :: CertificatePreflightStatus
  pi_detail :: string

record CertificatePreflightSnapshot =
  ps_checked_at :: string
  ps_overall_status :: CertificatePreflightStatus
  ps_recommendation :: string
  ps_items :: "CertificatePreflightItem list"

record CertificatePreflightResult = CertificatePreflightSnapshot +
  pr_domain :: string
  pr_previous_result :: "CertificatePreflightSnapshot option"
  pr_repeated_failure_streak :: nat
  pr_repeated_failure_active :: bool

section \<open>Labels\<close>

fun getAcmeErrorKindLabel :: "CertificateAcmeErrorKind option \<Rightarrow> string option" where
  "getAcmeErrorKindLabel (Some AkDns) = Some txt_ce_k_dns"
| "getAcmeErrorKindLabel (Some AkRateLimit) = Some txt_ce_k_limit"
| "getAcmeErrorKindLabel (Some AkAuthorization) = Some txt_ce_k_auth"
| "getAcmeErrorKindLabel (Some AkChallenge) = Some txt_ce_k_challenge"
| "getAcmeErrorKindLabel (Some AkUnknown) = Some txt_ce_k_unknown"
| "getAcmeErrorKindLabel None = None"

text \<open>\<open>${kindLabel ? `${kindLabel} . ` : ""}${message}\<close>\<close>

definition failure_text :: "Certificate \<Rightarrow> string" where
  "failure_text c =
     (case getAcmeErrorKindLabel (ce_last_acme_error_kind c) of None \<Rightarrow> [] | Some l \<Rightarrow> l @ txt_ce_dot)
     @ the (ce_last_acme_error_message c)"

text \<open>The label, and whether it is that of a failure, which decides the colour.\<close>

definition getFailureSummary :: "Certificate \<Rightarrow> string \<times> bool" where
  "getFailureSummary c =
     (if \<not> truthy (ce_last_acme_error_message c) then (txt_ce_no_failure, False) else (failure_text c, True))"

definition getRemainingLabel :: "Certificate \<Rightarrow> string" where
  "getRemainingLabel c =
     (case ce_days_remaining c of
        None \<Rightarrow>
          if ce_status c = CsPending then txt_ce_before else if ce_status c = CsInactive then txt_ce_no_auto else ''-''
      | Some d \<Rightarrow> if d < 0 then txt_ce_expired else number_text (of_int d) @ txt_ce_days)"

definition getCertificateErrorDetail :: "api_error \<Rightarrow> string \<Rightarrow> string" where
  "getCertificateErrorDetail err fallback =
     (case Option.bind err snd of
        Some (JStr s) \<Rightarrow> s
      | Some (JArr (x # _)) \<Rightarrow> or_else (json_string (json_field ''msg'' x)) fallback
      | _ \<Rightarrow> fallback)"

definition getResolverLabel :: "Certificate \<Rightarrow> string" where
  "getResolverLabel c =
     (if ce_cert_resolvers c = [] then txt_ce_manual else txt_ce_resolver @ str_join '', '' (ce_cert_resolvers c) @ '')'')"

definition getCertificateEventLabel :: "string \<Rightarrow> string" where
  "getCertificateEventLabel event =
     (if event = ''certificate_error'' then txt_ce_ev_error
      else if event = ''certificate_recovered'' then txt_ce_ev_recovered else txt_ce_ev_warning)"

definition check_details :: "CertificateCheckResult \<Rightarrow> string" where
  "check_details r =
     str_join txt_ce_dot
       [txt_ce_c_total @ show_nat (cc_total_count r) @ txt_ce_c_n, txt_ce_c_warn @ show_nat (cc_warning_count r) @ txt_ce_c_n,
        txt_ce_c_err @ show_nat (cc_error_count r) @ txt_ce_c_n, txt_ce_c_rec @ show_nat (cc_recorded_event_count r) @ txt_ce_c_cases]"

fun getPreflightBadgeStatus :: "CertificatePreflightStatus \<Rightarrow> CertificateStatus" where
  "getPreflightBadgeStatus PfOk = CsActive"
| "getPreflightBadgeStatus PfWarning = CsWarning"
| "getPreflightBadgeStatus PfError = CsError"

section \<open>Overview (\<open>useCertificatesOverviewModel.ts\<close>)\<close>

record CertificateCounts =
  ct_errorCount :: nat
  ct_pendingCount :: nat
  ct_recentFailureCount :: nat
  ct_repeatedFailureCount :: nat
  ct_warningCount :: nat

definition getCertificateCounts :: "Certificate list \<Rightarrow> CertificateCounts" where
  "getCertificateCounts cs =
     \<lparr>ct_errorCount = length (filter (\<lambda>c. ce_status c = CsError) cs),
      ct_pendingCount = length (filter (\<lambda>c. ce_status c = CsPending) cs),
      ct_recentFailureCount = length (filter (\<lambda>c. truthy (ce_last_acme_error_message c)) cs),
      ct_repeatedFailureCount = length (filter ce_preflight_repeated_failure_active cs),
      ct_warningCount = length (filter (\<lambda>c. ce_status c = CsWarning) cs)\<rparr>"

section \<open>Checklist (\<open>certificateChecklistItems.ts\<close>, \<open>certificateChecklistActions.ts\<close>)\<close>

datatype ChecklistState = ChkOk | ChkPending | ChkFail

record CertificateChecklistItem =
  ck_label :: string
  ck_state :: ChecklistState
  ck_detail :: string

definition getCertificateChecklistItems :: "Certificate \<Rightarrow> CertificateChecklistItem list" where
  "getCertificateChecklistItems c =
     [\<lparr>ck_label = txt_ce_router, ck_state = (if ce_router_names c \<noteq> [] then ChkOk else ChkFail),
       ck_detail = (if ce_router_names c \<noteq> [] then show_nat (length (ce_router_names c)) @ txt_ce_router_ok else txt_ce_router_fail)\<rparr>,
      \<lparr>ck_label = txt_ce_auto, ck_state = (if ce_cert_resolvers c \<noteq> [] then ChkOk else ChkFail),
       ck_detail = (if ce_cert_resolvers c \<noteq> [] then ''certResolver '' @ str_join '', '' (ce_cert_resolvers c) @ txt_ce_auto_ok
                    else txt_ce_auto_fail)\<rparr>,
      \<lparr>ck_label = txt_ce_store,
       ck_state = (if truthy (ce_expires_at c) then ChkOk else if ce_status c = CsPending then ChkPending else ChkFail),
       ck_detail = (if truthy (ce_expires_at c) then txt_ce_store_ok
                    else if ce_status c = CsPending then txt_ce_store_wait else txt_ce_store_fail)\<rparr>,
      \<lparr>ck_label = txt_ce_recent, ck_state = (if truthy (ce_last_acme_error_message c) then ChkFail else ChkOk),
       ck_detail = (if truthy (ce_last_acme_error_message c) then failure_text c else txt_ce_recent_ok)\<rparr>]"

definition getCertificateChecklistAction :: "Certificate \<Rightarrow> string" where
  "getCertificateChecklistAction c =
     (let k = ce_last_acme_error_kind c in
      if k = Some AkDns then txt_ce_act_dns
      else if k = Some AkAuthorization \<or> k = Some AkChallenge then txt_ce_act_challenge
      else if k = Some AkRateLimit then txt_ce_act_limit
      else if ce_router_names c = [] then txt_ce_act_router
      else if ce_cert_resolvers c = [] then txt_ce_act_resolver
      else if ce_status c = CsPending then txt_ce_act_pending
      else if ce_status c = CsInactive then txt_ce_act_inactive
      else txt_ce_act_monitor)"

definition getCertificateChecklist :: "Certificate \<Rightarrow> string \<times> CertificateChecklistItem list" where
  "getCertificateChecklist c = (getCertificateChecklistAction c, getCertificateChecklistItems c)"

section \<open>Comparison of preflights\<close>

fun getPreflightStatusWeight :: "CertificatePreflightStatus \<Rightarrow> nat" where
  "getPreflightStatusWeight PfError = 2"
| "getPreflightStatusWeight PfWarning = 1"
| "getPreflightStatusWeight PfOk = 0"

definition getPreflightTrend ::
    "'a CertificatePreflightSnapshot_scheme \<Rightarrow> 'b CertificatePreflightSnapshot_scheme \<Rightarrow> string" where
  "getPreflightTrend current previous =
     (let c = getPreflightStatusWeight (ps_overall_status current); p = getPreflightStatusWeight (ps_overall_status previous) in
      if c < p then txt_ce_better else if p < c then txt_ce_worse else txt_ce_same)"

record ChangedPreflightItem =
  ch_key :: PreflightItemKey
  ch_label :: string
  ch_summary :: string
  ch_previousDetail :: "string option"
  ch_currentDetail :: "string option"

fun getPreflightStatusLabel :: "CertificatePreflightStatus \<Rightarrow> string" where
  "getPreflightStatusLabel PfError = txt_ce_failed"
| "getPreflightStatusLabel PfWarning = txt_ce_waiting"
| "getPreflightStatusLabel PfOk = txt_ce_ok"

text \<open>\<open>new Map(previous.items.map(...))\<close>: the last item of a key counts.\<close>

definition previousItems :: "CertificatePreflightItem list \<Rightarrow> PreflightItemKey \<Rightarrow> CertificatePreflightItem option" where
  "previousItems items k = find (\<lambda>i. pi_key i = k) (rev items)"

fun changed_loop :: "(PreflightItemKey \<Rightarrow> CertificatePreflightItem option) \<Rightarrow> CertificatePreflightItem list \<Rightarrow> ChangedPreflightItem list" where
  "changed_loop previous [] = []"
| "changed_loop previous (item # items) =
     (case previous (pi_key item) of
        None \<Rightarrow>
          \<lparr>ch_key = pi_key item, ch_label = pi_label item, ch_summary = txt_ce_new_item, ch_previousDetail = None,
           ch_currentDetail = None\<rparr> # changed_loop previous items
      | Some p \<Rightarrow>
          if pi_status p = pi_status item \<and> pi_detail p = pi_detail item then changed_loop previous items
          else \<lparr>ch_key = pi_key item, ch_label = pi_label item,
                ch_summary = (if pi_status p \<noteq> pi_status item
                   then getPreflightStatusLabel (pi_status p) @ '' -> '' @ getPreflightStatusLabel (pi_status item)
                   else txt_ce_detail_changed),
                ch_previousDetail = Some (pi_detail p), ch_currentDetail = Some (pi_detail item)\<rparr> # changed_loop previous items)"

definition getChangedPreflightItems ::
    "'a CertificatePreflightSnapshot_scheme \<Rightarrow> 'b CertificatePreflightSnapshot_scheme \<Rightarrow> ChangedPreflightItem list" where
  "getChangedPreflightItems current previous = changed_loop (previousItems (ps_items previous)) (ps_items current)"

section \<open>Drawer (\<open>useCertificatesDrawerModel.ts\<close>)\<close>

text \<open>The running preflight as the page gets it: its answer, its error, and whether it is pending.\<close>

record preflight_run =
  rn_data :: "CertificatePreflightResult option"
  rn_error :: "api_error option"
  rn_pending :: bool

definition selectedCertificate :: "Certificate list \<Rightarrow> string option \<Rightarrow> Certificate option" where
  "selectedCertificate certificates selectedDomain =
     (if truthy selectedDomain then find (\<lambda>c. ce_domain c = the selectedDomain) certificates else None)"

definition selectedPreflight :: "CertificatePreflightResult option \<Rightarrow> string option \<Rightarrow> CertificatePreflightResult option" where
  "selectedPreflight preflightData selectedDomain =
     (case preflightData of None \<Rightarrow> None | Some r \<Rightarrow> if Some (pr_domain r) = selectedDomain then Some r else None)"

text \<open>The two handlers: the selection after them, and the domain whose preflight they start.\<close>

definition openCertificateDrawer :: "string \<Rightarrow> string option \<times> string option" where
  "openCertificateDrawer domain = (Some domain, Some domain)"

definition closeCertificateDrawer :: "string option \<times> string option" where
  "closeCertificateDrawer = (None, None)"

text \<open>\<open>CertificatePreflightSection.tsx\<close>: what the section shows.\<close>

datatype preflight_view =
    PreflightLoading
  | PreflightError string
  | PreflightPanel CertificatePreflightResult
  | PreflightEmpty

definition preflight_section :: "CertificatePreflightResult option \<Rightarrow> bool \<Rightarrow> api_error option \<Rightarrow> preflight_view" where
  "preflight_section preflight isPending err =
     (if isPending \<and> preflight = None then PreflightLoading
      else case err of
        Some e \<Rightarrow> PreflightError (getCertificateErrorDetail e txt_ce_again)
      | None \<Rightarrow> (case preflight of Some r \<Rightarrow> PreflightPanel r | None \<Rightarrow> PreflightEmpty))"

text \<open>The drawer: the certificate, and its preflight section.\<close>

definition certificate_drawer :: "Certificate list \<Rightarrow> preflight_run \<Rightarrow> string option \<Rightarrow> (Certificate \<times> preflight_view) option" where
  "certificate_drawer certificates run selectedDomain =
     map_option (\<lambda>c. (c, preflight_section (selectedPreflight (rn_data run) selectedDomain) (rn_pending run) (rn_error run)))
       (selectedCertificate certificates selectedDomain)"

section \<open>What the page promises\<close>

lemma item_find_key:
  "distinct (map pi_key items) \<Longrightarrow> previousItems items k = Some p \<longleftrightarrow> p \<in> set items \<and> pi_key p = k"
proof -
  assume d: "distinct (map pi_key items)"
  have f: "find (\<lambda>i. pi_key i = k) xs = Some p \<longleftrightarrow> p \<in> set xs \<and> pi_key p = k" if "distinct (map pi_key xs)" for xs
    using that by (induction xs) (auto simp: image_iff)
  show ?thesis unfolding previousItems_def using f [of "rev items"] d by (simp add: rev_map [symmetric])
qed

text \<open>An item that the previous check had with the same status and the same detail.\<close>

definition same_item :: "CertificatePreflightItem \<Rightarrow> CertificatePreflightItem \<Rightarrow> bool" where
  "same_item p i = (pi_key p = pi_key i \<and> pi_status p = pi_status i \<and> pi_detail p = pi_detail i)"

text \<open>What a listed change says of the current item: it is new, or it names the status or the detail that the
  previous item of its key had, and the ones it has now.\<close>

definition reports :: "CertificatePreflightItem list \<Rightarrow> CertificatePreflightItem \<Rightarrow> ChangedPreflightItem \<Rightarrow> bool" where
  "reports previous i ch =
     (ch_key ch = pi_key i \<and> ch_label ch = pi_label i \<and>
      (pi_key i \<notin> pi_key ` set previous \<and> ch_summary ch = txt_ce_new_item \<and> ch_previousDetail ch = None \<and>
         ch_currentDetail ch = None \<or>
       (\<exists>p \<in> set previous. pi_key p = pi_key i \<and> ch_previousDetail ch = Some (pi_detail p) \<and>
          ch_currentDetail ch = Some (pi_detail i) \<and>
          ch_summary ch =
            (if pi_status p = pi_status i then txt_ce_detail_changed
             else getPreflightStatusLabel (pi_status p) @ '' -> '' @ getPreflightStatusLabel (pi_status i)))))"

lemma changed_items:
  assumes "distinct (map pi_key (ps_items previous))"
  shows "list_all2 (reports (ps_items previous))
    (filter (\<lambda>i. \<not> list_ex (\<lambda>p. same_item p i) (ps_items previous)) (ps_items current))
    (getChangedPreflightItems current previous)"
proof -
  let ?prev = "ps_items previous"
  have u: "list_ex (\<lambda>p. same_item p i) ?prev \<longleftrightarrow>
      (\<exists>p. previousItems ?prev (pi_key i) = Some p \<and> pi_status p = pi_status i \<and> pi_detail p = pi_detail i)" for i
    unfolding item_find_key [OF assms] list_ex_iff same_item_def by blast
  have "list_all2 (reports ?prev) (filter (\<lambda>i. \<not> list_ex (\<lambda>p. same_item p i) ?prev) items)
      (changed_loop (previousItems ?prev) items)" for items
  proof (induction items)
    case (Cons i items)
    show ?case
    proof (cases "previousItems ?prev (pi_key i)")
      case None
      then have "pi_key i \<notin> pi_key ` set ?prev" using item_find_key [OF assms] by force
      then show ?thesis using Cons None by (simp add: u reports_def)
    next
      case (Some p)
      then have "p \<in> set ?prev \<and> pi_key p = pi_key i" using item_find_key [OF assms] by blast
      then show ?thesis using Cons Some by (auto simp: u reports_def)
    qed
  qed simp
  then show ?thesis by (simp add: getChangedPreflightItems_def)
qed

text \<open>The trend by the two overall statuses.\<close>

lemma trend_statuses:
  "getPreflightTrend current previous = txt_ce_better \<longleftrightarrow>
     (ps_overall_status current, ps_overall_status previous) \<in> {(PfOk, PfWarning), (PfOk, PfError), (PfWarning, PfError)}"
  "getPreflightTrend current previous = txt_ce_worse \<longleftrightarrow>
     (ps_overall_status current, ps_overall_status previous) \<in> {(PfWarning, PfOk), (PfError, PfOk), (PfError, PfWarning)}"
  "getPreflightTrend current previous = txt_ce_same \<longleftrightarrow> ps_overall_status current = ps_overall_status previous"
proof -
  have "txt_ce_better \<noteq> txt_ce_worse" "txt_ce_better \<noteq> txt_ce_same" "txt_ce_worse \<noteq> txt_ce_same" by code_simp+
  then show "getPreflightTrend current previous = txt_ce_better \<longleftrightarrow>
     (ps_overall_status current, ps_overall_status previous) \<in> {(PfOk, PfWarning), (PfOk, PfError), (PfWarning, PfError)}"
    "getPreflightTrend current previous = txt_ce_worse \<longleftrightarrow>
     (ps_overall_status current, ps_overall_status previous) \<in> {(PfWarning, PfOk), (PfError, PfOk), (PfError, PfWarning)}"
    "getPreflightTrend current previous = txt_ce_same \<longleftrightarrow> ps_overall_status current = ps_overall_status previous"
    by (cases "ps_overall_status current"; cases "ps_overall_status previous"; simp add: getPreflightTrend_def)+
qed

text \<open>An item of the previous check that the current one no longer has is not reported.\<close>

lemma removed_item_unreported:
  "ps_items current = [] \<Longrightarrow> getChangedPreflightItems current previous = []"
  by (simp add: getChangedPreflightItems_def)

text \<open>A certificate whose last failure is of no known kind is told that nothing is to be done, while its
  checklist shows the failure.\<close>

lemma unknown_failure_no_action:
  "getCertificateChecklist
     \<lparr>ce_domain = ''a.kr'', ce_router_names = [''a@file''], ce_cert_resolvers = [''le''], ce_expires_at = None,
      ce_days_remaining = None, ce_status = CsError, ce_status_message = [], ce_alerts_suppressed = False,
      ce_last_acme_error_at = None, ce_last_acme_error_message = Some ''x'', ce_last_acme_error_kind = Some AkUnknown,
      ce_preflight_failure_streak = 0, ce_preflight_repeated_failure_active = False\<rparr>
     = (txt_ce_act_monitor, items) \<Longrightarrow> map ck_state items = [ChkOk, ChkOk, ChkFail, ChkFail]"
  by (auto simp: getCertificateChecklist_def getCertificateChecklistItems_def truthy_def)

text \<open>C38. What the drawer says of a certificate is about this certificate.  When it shows a preflight, the
  certificate is the listed one with the selected domain and the preflight was made for this domain.  Compared
  with its previous preflight, in which no key occurs twice, the changes listed are the current items that the
  previous one did not have with the same status and detail, one each and in their order, and each change says
  that the item is new, or gives the previous and the current detail and, if it changed, the previous and the
  current status; an item that the current preflight no longer has is not listed.  The trend says \<open>better\<close> from
  a warning or an error to ok and from an error to a warning, \<open>worse\<close> the other way round, and \<open>same\<close> for
  equal statuses.\<close>

theorem drawer_preflight:
  assumes "certificate_drawer certificates run selected = Some (c, PreflightPanel r)"
    and "pr_previous_result r = Some previous" and "distinct (map pi_key (ps_items previous))"
  shows "c \<in> set certificates \<and> selected = Some (ce_domain c) \<and> pr_domain r = ce_domain c \<and> rn_error run = None
    \<and> list_all2 (reports (ps_items previous))
        (filter (\<lambda>i. \<not> list_ex (\<lambda>p. same_item p i) (ps_items previous)) (ps_items r)) (getChangedPreflightItems r previous)
    \<and> ch_key ` set (getChangedPreflightItems r previous) \<subseteq> pi_key ` set (ps_items r)
    \<and> (getPreflightTrend r previous = txt_ce_better \<longleftrightarrow>
         (ps_overall_status r, ps_overall_status previous) \<in> {(PfOk, PfWarning), (PfOk, PfError), (PfWarning, PfError)})
    \<and> (getPreflightTrend r previous = txt_ce_worse \<longleftrightarrow>
         (ps_overall_status r, ps_overall_status previous) \<in> {(PfWarning, PfOk), (PfError, PfOk), (PfError, PfWarning)})
    \<and> (getPreflightTrend r previous = txt_ce_same \<longleftrightarrow> ps_overall_status r = ps_overall_status previous)"
proof -
  have k: "list_all2 (reports (ps_items previous))
        (filter (\<lambda>i. \<not> list_ex (\<lambda>p. same_item p i) (ps_items previous)) (ps_items r)) (getChangedPreflightItems r previous)"
    using changed_items [OF assms(3)] .
  have e: "ch_key ` set (getChangedPreflightItems r previous) \<subseteq> pi_key ` set (ps_items r)"
  proof -
    have "map ch_key ys = map pi_key xs" if "list_all2 (reports prev) xs ys" for prev xs ys
      using that by (induction rule: list_all2_induct) (auto simp: reports_def)
    from this [OF k] have "ch_key ` set (getChangedPreflightItems r previous) =
        pi_key ` set (filter (\<lambda>i. \<not> list_ex (\<lambda>p. same_item p i) (ps_items previous)) (ps_items r))"
      by (metis list.set_map)
    then show ?thesis by auto
  qed
  have c: "selectedCertificate certificates selected = Some c"
    and v: "preflight_section (selectedPreflight (rn_data run) selected) (rn_pending run) (rn_error run) = PreflightPanel r"
    using assms(1) by (auto simp: certificate_drawer_def)
  have d: "selected = Some (ce_domain c) \<and> c \<in> set certificates"
    using c by (auto simp: selectedCertificate_def truthy_def find_Some_iff split: if_splits option.splits)
  have "selectedPreflight (rn_data run) selected = Some r \<and> rn_error run = None"
    using v by (auto simp: preflight_section_def split: if_splits option.splits)
  then have "Some (pr_domain r) = selected \<and> rn_error run = None" by (auto simp: selectedPreflight_def split: option.splits if_splits)
  then show ?thesis using d k e trend_statuses by (intro conjI) (simp_all only: option.inject)
qed

definition sample_snapshot :: "CertificatePreflightStatus \<Rightarrow> CertificatePreflightSnapshot" where
  "sample_snapshot st =
     \<lparr>ps_checked_at = ''t'', ps_overall_status = st, ps_recommendation = [],
      ps_items = [\<lparr>pi_key = KDnsPublic, pi_label = ''DNS'', pi_status = st, pi_detail = ''d''\<rparr>,
        \<lparr>pi_key = KHttpChallenge, pi_label = ''HTTP'', pi_status = PfOk, pi_detail = ''h''\<rparr>]\<rparr>"

definition sample_preflight :: CertificatePreflightResult where
  "sample_preflight =
     CertificatePreflightSnapshot.extend (sample_snapshot PfOk)
       (CertificatePreflightResult.fields ''a.kr'' (Some (sample_snapshot PfError)) 0 False)"

definition sample_certificate :: Certificate where
  "sample_certificate =
     \<lparr>ce_domain = ''a.kr'', ce_router_names = [], ce_cert_resolvers = [], ce_expires_at = None, ce_days_remaining = None,
      ce_status = CsInactive, ce_status_message = [], ce_alerts_suppressed = False, ce_last_acme_error_at = None,
      ce_last_acme_error_message = None, ce_last_acme_error_kind = None, ce_preflight_failure_streak = 0,
      ce_preflight_repeated_failure_active = False\<rparr>"

theorem drawer_preflight_witness:
  "map ch_previousDetail (getChangedPreflightItems sample_preflight (sample_snapshot PfError)) = [Some ''d'']
   \<and> map ch_summary (getChangedPreflightItems sample_preflight (sample_snapshot PfError)) = [txt_ce_failed @ '' -> '' @ txt_ce_ok]
   \<and> getPreflightTrend sample_preflight (sample_snapshot PfError) = txt_ce_better"
proof -
  have d: "certificate_drawer [sample_certificate] \<lparr>rn_data = Some sample_preflight, rn_error = None, rn_pending = False\<rparr> (Some ''a.kr'')
      = Some (sample_certificate, PreflightPanel sample_preflight)"
    by (simp add: certificate_drawer_def selectedCertificate_def selectedPreflight_def preflight_section_def truthy_def
        sample_certificate_def sample_preflight_def CertificatePreflightSnapshot.defs CertificatePreflightResult.defs sample_snapshot_def)
  have p: "pr_previous_result sample_preflight = Some (sample_snapshot PfError)" "distinct (map pi_key (ps_items (sample_snapshot PfError)))"
    by (simp_all add: sample_preflight_def CertificatePreflightSnapshot.defs CertificatePreflightResult.defs sample_snapshot_def)
  let ?new = "\<lparr>pi_key = KDnsPublic, pi_label = ''DNS'', pi_status = PfOk, pi_detail = ''d''\<rparr>"
  have k: "filter (\<lambda>i. \<not> list_ex (\<lambda>p. same_item p i) (ps_items (sample_snapshot PfError))) (ps_items sample_preflight) = [?new]"
    "(ps_overall_status sample_preflight, ps_overall_status (sample_snapshot PfError)) = (PfOk, PfError)"
    by code_simp+
  note t = drawer_preflight [OF d p]
  have "list_all2 (reports (ps_items (sample_snapshot PfError))) [?new] (getChangedPreflightItems sample_preflight (sample_snapshot PfError))"
    using t [THEN conjunct2, THEN conjunct2, THEN conjunct2, THEN conjunct2, THEN conjunct1] by (simp only: k)
  then obtain ch where ch: "getChangedPreflightItems sample_preflight (sample_snapshot PfError) = [ch]"
    "reports (ps_items (sample_snapshot PfError)) ?new ch"
    by (auto simp: list_all2_Cons1)
  then have "ch_previousDetail ch = Some ''d'' \<and> ch_summary ch = txt_ce_failed @ '' -> '' @ txt_ce_ok"
    by (auto simp: reports_def sample_snapshot_def)
  moreover have "getPreflightTrend sample_preflight (sample_snapshot PfError) = txt_ce_better"
    using t [THEN conjunct2, THEN conjunct2, THEN conjunct2, THEN conjunct2, THEN conjunct2, THEN conjunct2, THEN conjunct1]
    by (simp only: k) simp
  ultimately show ?thesis using ch(1) by simp
qed

end
