(* ===== verification/Crud_Dialogs.thy ===== *)
theory Crud_Dialogs
  imports Settings_Card Service_Form Session Ui_Text_Pages
begin

text \<open>
  The pages that manage a list of entities through three dialogs: redirects
  (\<open>app/dashboard/redirects/useRedirectsPageModel.ts\<close>, \<open>features/redirects/components\<close>) and users
  (\<open>features/users/components\<close>).  Both keep whether the dialog for a new entity is open, the entity being
  edited and the entity about to be deleted; a dialog stays open while its request is pending, with its
  submit button disabled, and closes when the request succeeds.  First the dialogs, for any kind of entity,
  with the requests in flight; then the forms of the two pages.  The contract of a form is
  \<open>settings_form\<close> again.
\<close>

section \<open>Dialogs\<close>

text \<open>\<open>'c\<close> and \<open>'u\<close> are what is sent for a new and for a changed entity.\<close>

datatype ('c, 'u) crud_call = CallCreate 'c | CallUpdate string 'u | CallDelete string

record ('e, 'c, 'u) crud =
  cx_isCreateOpen :: bool
  cx_editTarget :: "'e option"
  cx_deleteTarget :: "'e option"
  cx_flights :: "('c, 'u) crud_call list"
  cx_sent :: "('c, 'u) crud_call list"

definition crud_init :: "('e, 'c, 'u) crud" where
  "crud_init = \<lparr>cx_isCreateOpen = False, cx_editTarget = None, cx_deleteTarget = None, cx_flights = [], cx_sent = []\<rparr>"

definition crud_send :: "('c, 'u) crud_call \<Rightarrow> ('e, 'c, 'u) crud \<Rightarrow> ('e, 'c, 'u) crud" where
  "crud_send c s = s\<lparr>cx_flights := cx_flights s @ [c], cx_sent := cx_sent s @ [c]\<rparr>"

text \<open>The handlers up to their \<open>await\<close>; \<open>useUpdate...(editTarget?.id || "")\<close> gives the id of an update.\<close>

definition handleCreate :: "'c \<Rightarrow> ('e, 'c, 'u) crud \<Rightarrow> ('e, 'c, 'u) crud" where
  "handleCreate data s = crud_send (CallCreate data) s"

definition handleUpdate :: "('e \<Rightarrow> string) \<Rightarrow> 'u \<Rightarrow> ('e, 'c, 'u) crud \<Rightarrow> ('e, 'c, 'u) crud" where
  "handleUpdate ident data s =
     crud_send (CallUpdate (case cx_editTarget s of None \<Rightarrow> [] | Some e \<Rightarrow> ident e) data) s"

definition handleConfirmDelete :: "('e \<Rightarrow> string) \<Rightarrow> ('e, 'c, 'u) crud \<Rightarrow> ('e, 'c, 'u) crud" where
  "handleConfirmDelete ident s =
     (case cx_deleteTarget s of None \<Rightarrow> s | Some e \<Rightarrow> crud_send (CallDelete (ident e)) s)"

text \<open>The rest of the handlers: a failed request rejects and leaves the dialog as it is.\<close>

fun close_dialog :: "('c, 'u) crud_call \<Rightarrow> ('e, 'c, 'u) crud \<Rightarrow> ('e, 'c, 'u) crud" where
  "close_dialog (CallCreate c) s = s\<lparr>cx_isCreateOpen := False\<rparr>"
| "close_dialog (CallUpdate i u) s = s\<lparr>cx_editTarget := None\<rparr>"
| "close_dialog (CallDelete i) s = s\<lparr>cx_deleteTarget := None\<rparr>"

definition crud_answer :: "('c, 'u) crud_call \<Rightarrow> bool \<Rightarrow> ('e, 'c, 'u) crud \<Rightarrow> ('e, 'c, 'u) crud" where
  "crud_answer c success s =
     (let s1 = s\<lparr>cx_flights := remove1 c (cx_flights s)\<rparr> in if success then close_dialog c s1 else s1)"

text \<open>\<open>isPending\<close> of the three mutations.\<close>

fun call_kind :: "('c, 'u) crud_call \<Rightarrow> nat" where
  "call_kind (CallCreate c) = 0"
| "call_kind (CallUpdate i u) = 1"
| "call_kind (CallDelete i) = 2"

definition pending :: "nat \<Rightarrow> ('e, 'c, 'u) crud \<Rightarrow> bool" where
  "pending k s = list_ex (\<lambda>c. call_kind c = k) (cx_flights s)"

text \<open>
  The page: \<open>canManage\<close> shows the buttons and the dialogs; \<open>okc\<close> and \<open>oku\<close> are what the forms of the
  two dialogs hand over.
\<close>

inductive crud_reach ::
    "('e \<Rightarrow> string) \<Rightarrow> ('c \<Rightarrow> bool) \<Rightarrow> ('u \<Rightarrow> bool) \<Rightarrow> bool \<Rightarrow> ('e, 'c, 'u) crud \<Rightarrow> bool"
  for ident okc oku canManage where
  init: "crud_reach ident okc oku canManage crud_init"
| open_create: "crud_reach ident okc oku canManage s \<Longrightarrow> canManage
    \<Longrightarrow> crud_reach ident okc oku canManage (s\<lparr>cx_isCreateOpen := True\<rparr>)"
| close_create: "crud_reach ident okc oku canManage s
    \<Longrightarrow> crud_reach ident okc oku canManage (s\<lparr>cx_isCreateOpen := False\<rparr>)"
| edit: "crud_reach ident okc oku canManage s \<Longrightarrow> canManage
    \<Longrightarrow> crud_reach ident okc oku canManage (s\<lparr>cx_editTarget := Some e\<rparr>)"
| close_edit: "crud_reach ident okc oku canManage s
    \<Longrightarrow> crud_reach ident okc oku canManage (s\<lparr>cx_editTarget := None\<rparr>)"
| delete: "crud_reach ident okc oku canManage s \<Longrightarrow> canManage
    \<Longrightarrow> crud_reach ident okc oku canManage (s\<lparr>cx_deleteTarget := Some e\<rparr>)"
| close_delete: "crud_reach ident okc oku canManage s
    \<Longrightarrow> crud_reach ident okc oku canManage (s\<lparr>cx_deleteTarget := None\<rparr>)"
| submit_create: "crud_reach ident okc oku canManage s \<Longrightarrow> cx_isCreateOpen s \<Longrightarrow> \<not> pending 0 s \<Longrightarrow> okc c
    \<Longrightarrow> crud_reach ident okc oku canManage (handleCreate c s)"
| submit_update: "crud_reach ident okc oku canManage s \<Longrightarrow> cx_editTarget s \<noteq> None \<Longrightarrow> \<not> pending 1 s \<Longrightarrow> oku u
    \<Longrightarrow> crud_reach ident okc oku canManage (handleUpdate ident u s)"
| confirm: "crud_reach ident okc oku canManage s \<Longrightarrow> cx_deleteTarget s \<noteq> None \<Longrightarrow> \<not> pending 2 s
    \<Longrightarrow> crud_reach ident okc oku canManage (handleConfirmDelete ident s)"
| answer: "crud_reach ident okc oku canManage s \<Longrightarrow> c \<in> set (cx_flights s)
    \<Longrightarrow> crud_reach ident okc oku canManage (crud_answer c success s)"

section \<open>Redirects\<close>

record RedirectHostCreate =
  rh_domain :: string
  rh_target_url :: string
  rh_permanent :: bool
  rh_tls_enabled :: bool

record RedirectHost = RedirectHostCreate +
  rh_id :: string
  rh_created_at :: string
  rh_updated_at :: string

definition redirectFormSchema :: "RedirectHostCreate \<Rightarrow> issue list" where
  "redirectFormSchema v =
     check (domain_pattern (rh_domain v)) ''domain'' txt_err_domain @
     check (rh_target_url v \<noteq> []) ''target_url'' txt_rd_target"

text \<open>The default values of \<open>RedirectForm.tsx\<close>; the form hands over its values unchanged.\<close>

definition redirect_form :: "RedirectHost option \<Rightarrow> RedirectHostCreate" where
  "redirect_form d =
     (case d of
        None \<Rightarrow> \<lparr>rh_domain = [], rh_target_url = [], rh_permanent = True, rh_tls_enabled = True\<rparr>
      | Some r \<Rightarrow> RedirectHostCreate.truncate r)"

text \<open>\<open>getRedirectErrorMessage\<close>; \<open>None\<close> is no error.  A detail that is no text is shown as the fallback here.\<close>

definition getRedirectErrorMessage :: "api_error option \<Rightarrow> string \<Rightarrow> string" where
  "getRedirectErrorMessage err fallback =
     (case err of None \<Rightarrow> [] | Some e \<Rightarrow> or_else (Option.bind (Option.bind e snd) (\<lambda>j. json_string (Some j))) fallback)"

abbreviation redirect_reach :: "bool \<Rightarrow> (RedirectHost, RedirectHostCreate, RedirectHostCreate) crud \<Rightarrow> bool" where
  "redirect_reach \<equiv> crud_reach rh_id (\<lambda>c. redirectFormSchema c = []) (\<lambda>u. redirectFormSchema u = [])"

section \<open>Users\<close>

record User =
  ur_id :: string
  ur_username :: string
  ur_role :: UserRole
  ur_is_active :: bool
  ur_created_at :: string
  ur_updated_at :: string

record UserFormData =
  uf_username :: string
  uf_password :: string
  uf_role :: UserRole
  uf_is_active :: bool

text \<open>A property that may be absent is an option.\<close>

record UserUpdate =
  uu_username :: string
  uu_password :: "string option"
  uu_role :: UserRole
  uu_is_active :: bool

record UserCreate =
  uc_username :: string
  uc_password :: string
  uc_role :: UserRole
  uc_is_active :: bool

definition userFormSchema :: "UserFormData \<Rightarrow> issue list" where
  "userFormSchema v = check (uf_username v \<noteq> []) ''username'' txt_us_name"

definition buildUserFormPayload :: "UserFormData \<Rightarrow> UserUpdate" where
  "buildUserFormPayload v =
     \<lparr>uu_username = js_trim (uf_username v), uu_password = (if uf_password v \<noteq> [] then Some (uf_password v) else None),
      uu_role = uf_role v, uu_is_active = uf_is_active v\<rparr>"

definition user_form :: "User option \<Rightarrow> UserFormData" where
  "user_form d =
     (case d of
        None \<Rightarrow> \<lparr>uf_username = [], uf_password = [], uf_role = RoleViewer, uf_is_active = True\<rparr>
      | Some u \<Rightarrow> \<lparr>uf_username = ur_username u, uf_password = [], uf_role = ur_role u, uf_is_active = ur_is_active u\<rparr>)"

text \<open>The submit handler of \<open>UserForm.tsx\<close>: the issues shown, or what is handed over.\<close>

definition user_submit :: "bool \<Rightarrow> UserFormData \<Rightarrow> issue list + UserUpdate" where
  "user_submit isEdit v =
     (if userFormSchema v \<noteq> [] then Inl (userFormSchema v)
      else if \<not> isEdit \<and> uf_password v = [] then Inl [(''password'', txt_us_password)]
      else Inr (buildUserFormPayload v))"

text \<open>The requests of \<open>UserCreateModal.tsx\<close> and \<open>UserEditModal.tsx\<close>.\<close>

definition user_create :: "UserUpdate \<Rightarrow> UserCreate" where
  "user_create v =
     \<lparr>uc_username = uu_username v, uc_password = or_else (uu_password v) [], uc_role = uu_role v, uc_is_active = uu_is_active v\<rparr>"

definition user_update :: "UserUpdate \<Rightarrow> UserUpdate" where
  "user_update v =
     \<lparr>uu_username = uu_username v, uu_password = (if truthy (uu_password v) then uu_password v else None), uu_role = uu_role v,
      uu_is_active = uu_is_active v\<rparr>"

definition created_by :: "UserCreate \<Rightarrow> UserFormData \<Rightarrow> bool" where
  "created_by c v = (map_sum id user_create (user_submit False v) = Inr c)"

definition updated_by :: "UserUpdate \<Rightarrow> UserFormData \<Rightarrow> bool" where
  "updated_by u v = (map_sum id user_update (user_submit True v) = Inr u)"

abbreviation user_reach :: "bool \<Rightarrow> (User, UserCreate, UserUpdate) crud \<Rightarrow> bool" where
  "user_reach \<equiv> crud_reach ur_id (\<lambda>c. \<exists>v. created_by c v) (\<lambda>u. \<exists>v. updated_by u v)"

section \<open>What the dialogs send\<close>

fun call_ok :: "('c \<Rightarrow> bool) \<Rightarrow> ('u \<Rightarrow> bool) \<Rightarrow> ('c, 'u) crud_call \<Rightarrow> bool" where
  "call_ok okc oku (CallCreate c) = okc c"
| "call_ok okc oku (CallUpdate i u) = oku u"
| "call_ok okc oku (CallDelete i) = True"

text \<open>
  The invariant: without the right to manage there is no dialog and no request; every request carries
  what its form admits; of each kind at most one request is pending, and it was sent.
\<close>

definition crud_inv :: "('c \<Rightarrow> bool) \<Rightarrow> ('u \<Rightarrow> bool) \<Rightarrow> bool \<Rightarrow> ('e, 'c, 'u) crud \<Rightarrow> bool" where
  "crud_inv okc oku canManage s =
     ((cx_isCreateOpen s \<or> cx_editTarget s \<noteq> None \<or> cx_deleteTarget s \<noteq> None \<or> cx_sent s \<noteq> [] \<longrightarrow> canManage) \<and>
      list_all (call_ok okc oku) (cx_sent s) \<and> set (cx_flights s) \<subseteq> set (cx_sent s) \<and>
      distinct (map call_kind (cx_flights s)))"

lemma crud_inv_send:
  assumes "crud_inv okc oku canManage s" "canManage" "call_ok okc oku c" "\<not> pending (call_kind c) s"
  shows "crud_inv okc oku canManage (crud_send c s)"
  using assms by (auto simp: crud_inv_def crud_send_def pending_def list_ex_iff)

lemma distinct_remove1_map: "distinct (map f xs) \<Longrightarrow> distinct (map f (remove1 x xs))"
proof (induction xs)
  case (Cons a xs)
  then show ?case using set_remove1_subset [of x xs] by auto
qed simp

lemma crud_inv_answer:
  assumes "crud_inv okc oku canManage s"
  shows "crud_inv okc oku canManage (crud_answer c success s)"
proof -
  have f: "set (remove1 c (cx_flights s)) \<subseteq> set (cx_sent s)"
    using assms unfolding crud_inv_def by (intro order_trans [OF set_remove1_subset]) (elim conjE)
  have d: "distinct (map call_kind (remove1 c (cx_flights s)))"
    using assms unfolding crud_inv_def by (intro distinct_remove1_map) (elim conjE)
  have l: "list_all (call_ok okc oku) (cx_sent s)" using assms unfolding crud_inv_def by blast
  have m: "cx_isCreateOpen s \<or> cx_editTarget s \<noteq> None \<or> cx_deleteTarget s \<noteq> None \<or> cx_sent s \<noteq> [] \<Longrightarrow> canManage"
    using assms unfolding crud_inv_def by (elim conjE) (erule mp)
  have k: "cx_flights (crud_answer c success s) = remove1 c (cx_flights s)" "cx_sent (crud_answer c success s) = cx_sent s"
    by (cases c; simp add: crud_answer_def Let_def)+
  have o: "cx_isCreateOpen (crud_answer c success s) \<or> cx_editTarget (crud_answer c success s) \<noteq> None
      \<or> cx_deleteTarget (crud_answer c success s) \<noteq> None
    \<Longrightarrow> cx_isCreateOpen s \<or> cx_editTarget s \<noteq> None \<or> cx_deleteTarget s \<noteq> None"
    by (cases c; cases success; auto simp: crud_answer_def Let_def)
  show ?thesis
    unfolding crud_inv_def k by (intro conjI impI f d l m) (use o in blast)
qed

lemma crud_inv_managed:
  "crud_inv okc oku canManage s \<Longrightarrow> cx_isCreateOpen s \<or> cx_editTarget s \<noteq> None \<or> cx_deleteTarget s \<noteq> None \<Longrightarrow> canManage"
  unfolding crud_inv_def by (elim conjE) (erule mp, auto)

lemma crud_reach_inv: "crud_reach ident okc oku canManage s \<Longrightarrow> crud_inv okc oku canManage s"
proof (induction rule: crud_reach.induct)
  case init
  show ?case by (simp add: crud_inv_def crud_init_def)
next
  case (submit_create s c)
  have "canManage" by (rule crud_inv_managed [OF submit_create.IH]) (simp add: submit_create.hyps)
  with submit_create show ?case unfolding handleCreate_def by (intro crud_inv_send) simp_all
next
  case (submit_update s u)
  have "canManage" by (rule crud_inv_managed [OF submit_update.IH]) (simp add: submit_update.hyps)
  with submit_update show ?case unfolding handleUpdate_def by (intro crud_inv_send) simp_all
next
  case (confirm s)
  have m: "canManage" by (rule crud_inv_managed [OF confirm.IH]) (simp add: confirm.hyps)
  obtain e where "cx_deleteTarget s = Some e" using confirm by blast
  with confirm m show ?case unfolding handleConfirmDelete_def by (simp, intro crud_inv_send) simp_all
next
  case (answer s c success)
  then show ?case by (simp add: crud_inv_answer)
qed (auto simp: crud_inv_def)

text \<open>An answer closes the dialog of its kind, also when the dialog is by now about another entity.\<close>

lemma late_answer_closes_other:
  "cx_editTarget (crud_answer (CallUpdate (ident a) u) True
     ((handleUpdate ident u (s\<lparr>cx_editTarget := Some a\<rparr>))\<lparr>cx_editTarget := Some b\<rparr>)) = None"
  by (simp add: crud_answer_def handleUpdate_def crud_send_def)

section \<open>The forms\<close>

interpretation redirect_edit: settings_form redirect_form id RedirectHostCreate.truncate "\<lambda>_. True" "redirect_form None"
  by unfold_locales (simp_all add: redirect_form_def)

definition user_stored :: "User \<Rightarrow> UserUpdate" where
  "user_stored u = \<lparr>uu_username = ur_username u, uu_password = None, uu_role = ur_role u, uu_is_active = ur_is_active u\<rparr>"

interpretation user_edit: settings_form user_form buildUserFormPayload user_stored "\<lambda>u. js_trim (ur_username u) = ur_username u"
    "user_form None"
  by unfold_locales (simp_all add: user_form_def buildUserFormPayload_def user_stored_def)

lemma created_fields:
  "created_by c v \<Longrightarrow> uc_password c = uf_password v \<and> uf_password v \<noteq> [] \<and> uc_username c = js_trim (uf_username v)"
  by (auto simp: created_by_def user_submit_def user_create_def buildUserFormPayload_def or_else_def check_def userFormSchema_def
      split: if_splits)

lemma updated_fields:
  "updated_by u v \<Longrightarrow> uu_password u = (if uf_password v = [] then None else Some (uf_password v)) \<and> uu_username u = js_trim (uf_username v)"
  by (auto simp: updated_by_def user_submit_def user_update_def buildUserFormPayload_def check_def userFormSchema_def truthy_def
      split: if_splits)

text \<open>A name of blanks passes the form and is sent as an empty name.\<close>

lemma blank_name_passes:
  "user_submit True \<lparr>uf_username = '' '', uf_password = [], uf_role = RoleViewer, uf_is_active = True\<rparr>
     = Inr \<lparr>uu_username = [], uu_password = None, uu_role = RoleViewer, uu_is_active = True\<rparr>"
  by code_simp

text \<open>C37. User management, however clicks and answers interleave: only administrators send requests; a new
  user always has a password, and an update never carries an empty one; names are sent without
  surrounding blanks; and of each kind at most one request is pending.  Editing a user whose stored name is
  trimmed and submitting the form unchanged sends name, role and state as stored and no password.\<close>

theorem user_requests:
  assumes "user_reach canManage s" and "js_trim (ur_username u) = ur_username u" and "ur_username u \<noteq> []"
  shows "(\<not> canManage \<longrightarrow> cx_sent s = [])
    \<and> (\<forall>c. CallCreate c \<in> set (cx_sent s) \<longrightarrow> uc_password c \<noteq> [] \<and> js_trim (uc_username c) = uc_username c)
    \<and> (\<forall>i d. CallUpdate i d \<in> set (cx_sent s) \<longrightarrow> uu_password d \<noteq> Some [] \<and> js_trim (uu_username d) = uu_username d)
    \<and> distinct (map call_kind (cx_flights s))
    \<and> map_sum id user_update (user_submit True (user_form (Some u))) = Inr (user_stored u)"
proof -
  have i: "crud_inv (\<lambda>c. \<exists>v. created_by c v) (\<lambda>u. \<exists>v. updated_by u v) canManage s" using assms(1) by (rule crud_reach_inv)
  have t: "js_trim (js_trim x) = js_trim x" for x by (simp add: js_trim_idem)
  have l: "list_all (call_ok (\<lambda>c. \<exists>v. created_by c v) (\<lambda>u. \<exists>v. updated_by u v)) (cx_sent s)"
    using i unfolding crud_inv_def by blast
  have c: "uc_password c \<noteq> [] \<and> js_trim (uc_username c) = uc_username c" if "CallCreate c \<in> set (cx_sent s)" for c
  proof -
    have "call_ok (\<lambda>c. \<exists>v. created_by c v) (\<lambda>u. \<exists>v. updated_by u v) (CallCreate c)" using l that unfolding list_all_iff by blast
    then obtain v where "created_by c v" by auto
    from created_fields [OF this] show ?thesis by (simp add: t)
  qed
  have d: "uu_password d \<noteq> Some [] \<and> js_trim (uu_username d) = uu_username d" if "CallUpdate i d \<in> set (cx_sent s)" for i d
  proof -
    have "call_ok (\<lambda>c. \<exists>v. created_by c v) (\<lambda>u. \<exists>v. updated_by u v) (CallUpdate i d)" using l that unfolding list_all_iff by blast
    then obtain v where "updated_by d v" by auto
    from updated_fields [OF this] show ?thesis by (simp add: t)
  qed
  have "map_sum id user_update (user_submit True (user_form (Some u))) = Inr (user_stored u)"
    using assms(2,3) by (simp add: user_submit_def user_form_def userFormSchema_def check_def buildUserFormPayload_def user_update_def
        user_stored_def truthy_def)
  moreover have "\<not> canManage \<longrightarrow> cx_sent s = []" "distinct (map call_kind (cx_flights s))"
    using i unfolding crud_inv_def by blast+
  ultimately show ?thesis using c d by blast
qed

definition sample_user :: User where
  "sample_user = \<lparr>ur_id = ''u1'', ur_username = ''kim'', ur_role = RoleViewer, ur_is_active = True, ur_created_at = ''t'', ur_updated_at = ''t''\<rparr>"

definition sample_new :: UserCreate where
  "sample_new = \<lparr>uc_username = ''lee'', uc_password = ''secret'', uc_role = RoleAdmin, uc_is_active = True\<rparr>"

lemma sample_new_created: "created_by sample_new \<lparr>uf_username = '' lee'', uf_password = ''secret'', uf_role = RoleAdmin, uf_is_active = True\<rparr>"
  unfolding created_by_def by code_simp

lemma sample_user_reach: "user_reach True (handleCreate sample_new (crud_init\<lparr>cx_isCreateOpen := True\<rparr>))"
  by (intro crud_reach.submit_create crud_reach.open_create crud_reach.init exI [of _ "\<lparr>uf_username = '' lee'', uf_password = ''secret'', uf_role = RoleAdmin, uf_is_active = True\<rparr>"])
    (simp_all add: sample_new_created pending_def crud_init_def)

theorem user_requests_witness:
  "cx_sent (handleCreate sample_new (crud_init\<lparr>cx_isCreateOpen := True\<rparr>) :: (User, UserCreate, UserUpdate) crud) = [CallCreate sample_new]
   \<and> uc_password sample_new \<noteq> [] \<and> js_trim (uc_username sample_new) = uc_username sample_new
   \<and> map_sum id user_update (user_submit True (user_form (Some sample_user))) = Inr (user_stored sample_user)"
proof -
  have u: "js_trim (ur_username sample_user) = ur_username sample_user" "ur_username sample_user \<noteq> []"
    unfolding sample_user_def by code_simp+
  have s: "cx_sent (handleCreate sample_new (crud_init\<lparr>cx_isCreateOpen := True\<rparr>) :: (User, UserCreate, UserUpdate) crud) = [CallCreate sample_new]"
    by (simp add: handleCreate_def crud_send_def crud_init_def)
  show ?thesis using user_requests [OF sample_user_reach u] s by simp
qed

end
