(* ===== verification/Web_Url.thy ===== *)
theory Web_Url
  imports Session Url_Params
begin

text \<open>
  What the scripts and the link builders use of URLs.  Parsing is the engine's: \<open>url_parser\<close> stands for
  \<open>new URL(text)\<close>, with \<open>None\<close> when it throws.  \<open>encodeURIComponent\<close> is the language's, on UTF-8 bytes;
  reading what it writes gives the text back, and what it writes has no delimiter of a URL.
\<close>

record js_url =
  ul_protocol :: string
  ul_hostname :: string
  ul_host :: string
  ul_pathname :: string
  ul_searchParams :: params
  ul_href :: string

type_synonym parse_url = "string \<Rightarrow> js_url option"

definition uri_plain :: "char \<Rightarrow> bool" where
  "uri_plain c = (form_safe c \<or> c \<in> set [CHR ''!'', CHR ''~'', CHR 0x27, CHR ''('', CHR '')''])"

definition uri_encode_char :: "char \<Rightarrow> string" where
  "uri_encode_char c =
     (if uri_plain c then [c] else [CHR ''%'', hex_char (of_char c div 16), hex_char (of_char c mod 16)])"

definition encodeURIComponent :: "string \<Rightarrow> string" where
  "encodeURIComponent s = concat (map uri_encode_char s)"

lemma encode_simps [simp]:
  "encodeURIComponent [] = []" "encodeURIComponent (c # s) = uri_encode_char c @ encodeURIComponent s"
  "encodeURIComponent (s @ t) = encodeURIComponent s @ encodeURIComponent t"
  by (simp_all add: encodeURIComponent_def)

lemma encode_eq_Nil [simp]: "encodeURIComponent s = [] \<longleftrightarrow> s = []"
  by (cases s) (auto simp: uri_encode_char_def)

text \<open>The characters that an encoded text may have.\<close>

definition uri_token :: "string \<Rightarrow> bool" where
  "uri_token s = list_all (\<lambda>c. uri_plain c \<or> c = CHR ''%'') s"

lemma hex_char_plain: "n < 16 \<Longrightarrow> uri_plain (hex_char n)"
  by (auto simp: uri_plain_def form_safe_def hex_char_def Let_def)

lemma encode_token: "uri_token (encodeURIComponent s)"
proof (induction s)
  case (Cons c s)
  have "(of_char c :: nat) div 16 < 16" "(of_char c :: nat) mod 16 < 16" by (auto simp: less_mult_imp_div_less)
  then show ?case using Cons by (simp add: uri_token_def uri_encode_char_def hex_char_plain)
qed (simp add: uri_token_def)

lemma token_no_delimiter:
  assumes "uri_token s"
  shows "CHR ''/'' \<notin> set s" "CHR ''?'' \<notin> set s" "CHR ''#'' \<notin> set s" "CHR '' '' \<notin> set s"
proof -
  have "\<not> uri_plain (CHR ''/'')" "\<not> uri_plain (CHR ''?'')" "\<not> uri_plain (CHR ''#'')" "\<not> uri_plain (CHR '' '')" by code_simp+
  then show "CHR ''/'' \<notin> set s" "CHR ''?'' \<notin> set s" "CHR ''#'' \<notin> set s" "CHR '' '' \<notin> set s"
    using assms by (auto simp: uri_token_def list_all_iff)
qed

section \<open>Reading back\<close>

text \<open>Well-formed UTF-8, as \<open>decodeURIComponent\<close> accepts it.\<close>

function utf8_wf :: "string \<Rightarrow> bool" where
  "utf8_wf [] = True"
| "utf8_wf (c # s) =
     (case utf8_count (of_char c) of
        None \<Rightarrow> False
      | Some n \<Rightarrow>
          n \<le> length s \<and> list_all (\<lambda>d. 0x80 \<le> (of_char d :: nat) \<and> (of_char d :: nat) \<le> 0xBF) (take n s) \<and>
          (0 < n \<longrightarrow> utf8_second_ok (of_char c) (of_char (hd s))) \<and> utf8_wf (drop n s))"
  by pat_completeness auto
termination
  by (relation "measure length") auto

lemma hex_char_value: "n < 16 \<Longrightarrow> is_hex (hex_char n) \<and> hex_value (hex_char n) = n"
  by (auto simp: is_hex_def radix_digit_def hex_value_def hex_char_def Let_def)

lemma take_percent_encoded:
  "take_percent (CHR ''%'' # hex_char (of_char c div 16) # hex_char (of_char c mod 16) # r) = Some (of_char c, r)"
proof -
  have "(of_char c :: nat) div 16 < 16" "(of_char c :: nat) mod 16 < 16" by (auto simp: less_mult_imp_div_less)
  note d = hex_char_value [OF this(1)] hex_char_value [OF this(2)]
  have "16 * ((of_char c :: nat) div 16) + of_char c mod 16 = of_char c" by simp
  then show ?thesis using d by simp
qed

lemma high_not_plain: "0x80 \<le> (of_char c :: nat) \<Longrightarrow> \<not> uri_plain c"
  by (auto simp: uri_plain_def form_safe_def Let_def)

lemma take_continuation_encoded:
  "list_all (\<lambda>d. 0x80 \<le> (of_char d :: nat) \<and> (of_char d :: nat) \<le> 0xBF) ds \<Longrightarrow>
   take_continuation (length ds) (encodeURIComponent ds @ r) = Some (map of_char ds, r)"
proof (induction ds)
  case (Cons d ds)
  then have "\<not> uri_plain d" using high_not_plain by simp
  then have "encodeURIComponent (d # ds) @ r =
      CHR ''%'' # hex_char (of_char d div 16) # hex_char (of_char d mod 16) # (encodeURIComponent ds @ r)"
    by (simp add: uri_encode_char_def)
  then show ?case using Cons by (simp add: take_percent_encoded del: take_percent.simps)
qed simp

lemma take_encoded_char:
  assumes "utf8_count (of_char c) = Some n" "length ds = n" "\<not> uri_plain c"
    and "list_all (\<lambda>d. 0x80 \<le> (of_char d :: nat) \<and> (of_char d :: nat) \<le> 0xBF) ds"
    and "0 < n \<Longrightarrow> utf8_second_ok (of_char c) (of_char (hd ds))"
  shows "take_encoded (encodeURIComponent (c # ds) @ r) = Some (c # ds, r)"
proof -
  have e: "encodeURIComponent (c # ds) @ r =
      CHR ''%'' # hex_char (of_char c div 16) # hex_char (of_char c mod 16) # (encodeURIComponent ds @ r)"
    using assms(3) by (simp add: uri_encode_char_def)
  have "ds \<noteq> [] \<Longrightarrow> utf8_second_ok (of_char c) (hd (map of_char ds))" using assms(2,5) by (cases ds) auto
  then show ?thesis
    unfolding e take_encoded_def take_percent_encoded
    using assms(1,2) take_continuation_encoded [OF assms(4), of r] by (cases "ds = []") (simp_all add: comp_def)
qed

lemma plain_count: "uri_plain c \<Longrightarrow> utf8_count (of_char c) = Some 0"
proof -
  assume "uri_plain c"
  then have "\<not> 0x80 \<le> (of_char c :: nat)" using high_not_plain by blast
  then show ?thesis by (simp add: utf8_count_def)
qed

lemma decode_encode: "utf8_wf s \<Longrightarrow> decodeURIComponent (encodeURIComponent s) = Inr s"
proof (induction s rule: utf8_wf.induct)
  case (2 c s)
  then obtain n where n: "utf8_count (of_char c) = Some n" by (auto split: option.splits)
  with 2 have w: "n \<le> length s" "list_all (\<lambda>d. 0x80 \<le> (of_char d :: nat) \<and> (of_char d :: nat) \<le> 0xBF) (take n s)"
    "0 < n \<Longrightarrow> utf8_second_ok (of_char c) (of_char (hd s))" "utf8_wf (drop n s)" by auto
  have ih: "decodeURIComponent (encodeURIComponent (drop n s)) = Inr (drop n s)" using 2 n w(4) by auto
  show ?case
  proof (cases "uri_plain c")
    case True
    then have z: "n = 0" using n plain_count by simp
    have "c \<noteq> CHR ''%''" using True by (auto simp: uri_plain_def form_safe_def)
    then show ?thesis using ih z True by (simp add: uri_encode_char_def)
  next
    case False
    have "0 < n \<Longrightarrow> hd (take n s) = hd s" by (cases s) auto
    then have t: "take_encoded (encodeURIComponent (c # take n s) @ encodeURIComponent (drop n s)) =
        Some (c # take n s, encodeURIComponent (drop n s))"
      using take_encoded_char [OF n _ False w(2)] w(1,3) by simp
    have e: "encodeURIComponent (c # s) = encodeURIComponent (c # take n s) @ encodeURIComponent (drop n s)"
      by (metis append_Cons append_take_drop_id encode_simps(3))
    obtain x where x: "encodeURIComponent (c # take n s) @ encodeURIComponent (drop n s) = CHR ''%'' # x"
      using False by (simp add: uri_encode_char_def)
    show ?thesis using t ih unfolding e x by simp
  qed
qed simp

end
