(* ===== verification/Deployment_Links.thy ===== *)
theory Deployment_Links
  imports Web_Url JS_Json Deployment_Stats Ui_Text_Pages
begin

text \<open>
  What the deployment card says of a version: its links to GitHub (\<open>managerDeploymentLinks.ts\<close>), the
  comparison with the latest release (\<open>managerDeploymentVersionDisplay.ts\<close>), the row of a history entry
  (\<open>managerDeploymentHistoryItemModel.ts\<close>), and the labels of the watchdog (\<open>managerWatchdogStatus.ts\<close>).
\<close>

section \<open>Links\<close>

text \<open>A null, missing, blank or \<open>unknown\<close> text is nothing.\<close>

definition normalizeText :: "string option \<Rightarrow> string option" where
  "normalizeText v =
     (case v of
        None \<Rightarrow> None
      | Some s \<Rightarrow> let tx = js_trim s in if tx = [] \<or> str_lower tx = ''unknown'' then None else Some tx)"

definition buildGitHubRepositoryUrl :: "string option \<Rightarrow> string option \<Rightarrow> string option" where
  "buildGitHubRepositoryUrl owner repo =
     (case (normalizeText owner, normalizeText repo) of
        (Some a, Some b) \<Rightarrow> Some (''https://github.com/'' @ encodeURIComponent a @ ''/'' @ encodeURIComponent b)
      | _ \<Rightarrow> None)"

text \<open>\<open>.replace(/\.git$/, "")\<close>\<close>

definition strip_git :: "string \<Rightarrow> string" where
  "strip_git s = (if suffix ''.git'' s then take (length s - 4) s else s)"

text \<open>The dot of a pattern matches no line terminator: LF, CR, U+2028 and U+2029.\<close>

definition line_end_free :: "string \<Rightarrow> bool" where
  "line_end_free s =
     (\<not> list_ex (\<lambda>e. str_includes s e)
        [[CHR 0x0A], [CHR 0x0D], [CHR 0xE2, CHR 0x80, CHR 0xA8], [CHR 0xE2, CHR 0x80, CHR 0xA9]])"

text \<open>\<open>/^git@github\.com:([^/]+)\/(.+?)(?:\.git)?$/\<close>: the owner, and the shortest rest that an optional
  \<open>.git\<close> completes.\<close>

definition ssh_match :: "string \<Rightarrow> (string \<times> string) option" where
  "ssh_match s =
     (if \<not> prefix ''git@github.com:'' s then None
      else let rest = drop 15 s; owner = takeWhile (\<lambda>c. c \<noteq> CHR ''/'') rest; r = drop (Suc (length owner)) rest in
           if owner = [] \<or> length owner = length rest \<or> r = [] \<or> \<not> line_end_free r then None
           else Some (owner, if 4 < length r then strip_git r else r))"

definition resolveGitHubSourceUrl :: "parse_url \<Rightarrow> string option \<Rightarrow> string option" where
  "resolveGitHubSourceUrl U v =
     (case normalizeText v of
        None \<Rightarrow> None
      | Some source \<Rightarrow>
          (case ssh_match source of
             Some (owner, repo) \<Rightarrow> buildGitHubRepositoryUrl (Some owner) (Some repo)
           | None \<Rightarrow>
               (case U source of
                  None \<Rightarrow> None
                | Some parsed \<Rightarrow>
                    if str_lower (ul_hostname parsed) \<notin> set [''github.com'', ''www.github.com''] then None
                    else (case filter (\<lambda>p. p \<noteq> []) (str_split (CHR ''/'') (ul_pathname parsed)) of
                            owner # repo # _ \<Rightarrow> buildGitHubRepositoryUrl (Some owner) (Some (strip_git repo))
                          | _ \<Rightarrow> None))))"

definition buildGitHubCommitUrl :: "string option \<Rightarrow> string option \<Rightarrow> string option" where
  "buildGitHubCommitUrl sourceUrl revision =
     (case (or_null sourceUrl, normalizeText revision) of
        (Some u, Some r) \<Rightarrow> Some (u @ ''/commit/'' @ encodeURIComponent r) | _ \<Rightarrow> None)"

definition buildGitHubReleaseUrl :: "string option \<Rightarrow> string option \<Rightarrow> string option" where
  "buildGitHubReleaseUrl sourceUrl version =
     (case (or_null sourceUrl, normalizeText version) of
        (Some u, Some v) \<Rightarrow> Some (u @ ''/releases/tag/'' @ encodeURIComponent v) | _ \<Rightarrow> None)"

definition buildGitHubCompareUrl :: "string option \<Rightarrow> string option \<Rightarrow> string option \<Rightarrow> string option" where
  "buildGitHubCompareUrl sourceUrl previousVersion latestVersion =
     (case (or_null sourceUrl, normalizeText previousVersion, normalizeText latestVersion) of
        (Some u, Some p, Some l) \<Rightarrow>
          if p = l then None else Some (u @ ''/compare/'' @ encodeURIComponent p @ ''...'' @ encodeURIComponent l)
      | _ \<Rightarrow> None)"

definition normalizeWebUrl :: "parse_url \<Rightarrow> string option \<Rightarrow> string option" where
  "normalizeWebUrl U v =
     (case normalizeText v of
        None \<Rightarrow> None
      | Some tx \<Rightarrow>
          (case U tx of
             None \<Rightarrow> None
           | Some parsed \<Rightarrow> if ul_protocol parsed \<in> set [''http:'', ''https:''] then Some (ul_href parsed) else None))"

record ManagerDeploymentLinks =
  ml_commitUrl :: "string option"
  ml_compareUrl :: "string option"
  ml_releaseUrl :: "string option"
  ml_sourceUrl :: "string option"

record ManagerDeploymentLinksInput =
  mi_latestReleaseUrl :: "string option"
  mi_latestVersion :: "string option"
  mi_previousVersion :: "string option"
  mi_revision :: "string option"
  mi_source :: "string option"

definition buildManagerDeploymentLinks :: "parse_url \<Rightarrow> ManagerDeploymentLinksInput \<Rightarrow> ManagerDeploymentLinks" where
  "buildManagerDeploymentLinks U i =
     (let sourceUrl = resolveGitHubSourceUrl U (mi_source i) in
      \<lparr>ml_commitUrl = buildGitHubCommitUrl sourceUrl (mi_revision i),
       ml_compareUrl = buildGitHubCompareUrl sourceUrl (mi_previousVersion i) (mi_latestVersion i),
       ml_releaseUrl = (case or_null (normalizeWebUrl U (mi_latestReleaseUrl i)) of
          Some u \<Rightarrow> Some u | None \<Rightarrow> buildGitHubReleaseUrl sourceUrl (mi_latestVersion i)),
       ml_sourceUrl = sourceUrl\<rparr>)"

definition getManagerDeploymentHistoryAnchor :: "js_host \<Rightarrow> string \<Rightarrow> string \<Rightarrow> string" where
  "getManagerDeploymentHistoryAnchor H revision completedAt =
     ''manager-deployment-'' @ revision @ ''-'' @ (case date_parse H completedAt of None \<Rightarrow> ''NaN'' | Some n \<Rightarrow> show_int n)"

section \<open>Version\<close>

datatype version_state = VsLoading | VsUpdate | VsPostRelease | VsCurrent | VsUnavailable | VsUnknown

record DeploymentVersionDisplay =
  vd_currentValue :: string
  vd_currentDetail :: "string option"
  vd_statusLabel :: string
  vd_releaseMessage :: "string option"
  vd_state :: version_state

record version_input =
  vi_enabled :: "bool option"
  vi_latestVersion :: "string option"
  vi_latestVersionError :: "string option"
  vi_updateAvailable :: "bool option"
  vi_version :: "string option"

definition digits :: "string \<Rightarrow> bool" where
  "digits s = (s \<noteq> [] \<and> list_all is_digit s)"

text \<open>\<open>v?\d+\.\d+\.\d+\<close>, ignoring case.\<close>

definition semver_text :: "string \<Rightarrow> bool" where
  "semver_text s =
     (let r = (if s \<noteq> [] \<and> hd s \<in> {CHR ''v'', CHR ''V''} then tl s else s); ps = str_split (CHR ''.'') r
      in length ps = 3 \<and> list_all digits ps)"

definition normalizeVersionPrefix :: "string \<Rightarrow> string" where
  "normalizeVersionPrefix s = (if s \<noteq> [] \<and> hd s \<in> {CHR ''v'', CHR ''V''} then CHR ''v'' # tl s else CHR ''v'' # s)"

definition normalizeSemver :: "string \<Rightarrow> string" where
  "normalizeSemver s = (if s \<noteq> [] \<and> hd s \<in> {CHR ''v'', CHR ''V''} then tl s else s)"

text \<open>\<open>-g([0-9a-f]+)\<close>, ignoring case.\<close>

definition git_hash :: "string \<Rightarrow> bool" where
  "git_hash s = (s \<noteq> [] \<and> hd s \<in> {CHR ''g'', CHR ''G''} \<and> tl s \<noteq> [] \<and> list_all is_hex (tl s))"

text \<open>\<open>parseGitDescribeVersion\<close>: no part of the pattern but its separators has a hyphen.\<close>

definition parseGitDescribeVersion :: "string option \<Rightarrow> (string \<times> rat) option" where
  "parseGitDescribeVersion version =
     (case version of
        None \<Rightarrow> None
      | Some s \<Rightarrow>
          (case str_split (CHR ''-'') s of
             base # n # g # rest \<Rightarrow>
               if semver_text base \<and> digits n \<and> git_hash g \<and> (rest = [] \<or> map str_lower rest = [''dirty''])
               then Some (normalizeVersionPrefix base, fl (of_nat (read_nat n))) else None
           | _ \<Rightarrow> None))"

definition version_or_dash :: "string option \<Rightarrow> string" where
  "version_or_dash v = or_else v ''-''"

definition plain_version :: "string \<Rightarrow> string \<Rightarrow> version_state \<Rightarrow> DeploymentVersionDisplay" where
  "plain_version v label st =
     \<lparr>vd_currentValue = v, vd_currentDetail = None, vd_statusLabel = label, vd_releaseMessage = None, vd_state = st\<rparr>"

definition buildDeploymentVersionDisplay :: "version_input \<Rightarrow> DeploymentVersionDisplay" where
  "buildDeploymentVersionDisplay i =
     (let currentVersion = normalizeText (vi_version i); latest = normalizeText (vi_latestVersion i);
          gitDescribe = parseGitDescribeVersion currentVersion; shown = version_or_dash currentVersion
      in if currentVersion = None \<and> vi_enabled i = None then plain_version ''-'' txt_vd_checking VsLoading
         else if vi_enabled i = Some False then plain_version shown txt_vd_docker VsUnavailable
         else if vi_updateAvailable i = Some True then plain_version shown txt_vd_update VsUpdate
         else case (gitDescribe, latest) of
           (Some (base, n), Some l) \<Rightarrow>
             if normalizeSemver base = normalizeSemver l then
               \<lparr>vd_currentValue = base @ txt_vd_after @ number_text n @ txt_vd_commits, vd_currentDetail = currentVersion,
                vd_statusLabel = txt_vd_post,
                vd_releaseMessage = Some (txt_vd_msg1 @ base @ txt_vd_after @ number_text n @ txt_vd_msg2),
                vd_state = VsPostRelease\<rparr>
             else if vi_updateAvailable i = Some False then plain_version shown txt_vd_current VsCurrent
             else if truthy (vi_latestVersionError i) then plain_version shown txt_vd_failed VsUnknown
             else plain_version shown txt_vd_none VsUnknown
         | _ \<Rightarrow>
             if vi_updateAvailable i = Some False then plain_version shown txt_vd_current VsCurrent
             else if truthy (vi_latestVersionError i) then plain_version shown txt_vd_failed VsUnknown
             else plain_version shown txt_vd_none VsUnknown)"

section \<open>A row of the history\<close>

text \<open>The label and the classes of \<open>MANAGER_DEPLOYMENT_STATUS_DISPLAY\<close>.\<close>

fun MANAGER_DEPLOYMENT_STATUS_DISPLAY :: "DeploymentStatus \<Rightarrow> string \<times> string" where
  "MANAGER_DEPLOYMENT_STATUS_DISPLAY DSuccess =
     (txt_ds_done, ''bg-emerald-100 text-emerald-700 dark:bg-emerald-500/15 dark:text-emerald-200'')"
| "MANAGER_DEPLOYMENT_STATUS_DISPLAY DFailedBeforeSwitch =
     (txt_ds_stopped, ''bg-amber-100 text-amber-800 dark:bg-amber-500/15 dark:text-amber-100'')"
| "MANAGER_DEPLOYMENT_STATUS_DISPLAY DRolledBack =
     (txt_ds_rolled, ''bg-amber-100 text-amber-800 dark:bg-amber-500/15 dark:text-amber-100'')"
| "MANAGER_DEPLOYMENT_STATUS_DISPLAY DRollbackFailed =
     (txt_ds_rollback_failed, ''bg-red-100 text-red-700 dark:bg-red-500/15 dark:text-red-200'')"

definition formatManagerDeploymentProbe :: "ManagerDeploymentHistoryEntry \<Rightarrow> string" where
  "formatManagerDeploymentProbe e =
     (if dh_probe_total e = 0 then txt_pr_none
      else if 0 < dh_probe_failures e then
        ''probe '' @ show_nat (dh_probe_total e) @ txt_pr_of @ show_nat (dh_probe_failures e) @ txt_pr_failed
      else ''probe '' @ show_nat (dh_probe_total e) @ txt_pr_all)"

record history_item =
  hi_anchor :: string
  hi_duration :: string
  hi_excessDuration :: "string option"
  hi_excessDurationMs :: "rat option"
  hi_isSlowerThanThreshold :: bool
  hi_links :: ManagerDeploymentLinks
  hi_probe :: string
  hi_revision :: string
  hi_status :: "string \<times> string"

definition buildManagerDeploymentHistoryItemModel ::
    "js_host \<Rightarrow> parse_url \<Rightarrow> ManagerDeploymentHistoryEntry \<Rightarrow> string option \<Rightarrow> string option \<Rightarrow> rat option \<Rightarrow> history_item" where
  "buildManagerDeploymentHistoryItemModel H U entry previousVersion source thresholdDurationMs =
     (let durationMs = getManagerDeploymentDurationMs H (dh_started_at entry) (dh_completed_at entry);
          excess = getManagerDeploymentExcessDurationMs durationMs thresholdDurationMs
      in \<lparr>hi_anchor = getManagerDeploymentHistoryAnchor H (dh_revision entry) (dh_completed_at entry),
          hi_duration = (case durationMs of None \<Rightarrow> txt_pr_unknown | Some d \<Rightarrow> formatManagerDeploymentDurationMs d),
          hi_excessDuration = map_option formatManagerDeploymentDurationMs excess,
          hi_excessDurationMs = excess, hi_isSlowerThanThreshold = (excess \<noteq> None),
          hi_links = buildManagerDeploymentLinks U
            \<lparr>mi_latestReleaseUrl = None, mi_latestVersion = Some (dh_version entry), mi_previousVersion = previousVersion,
             mi_revision = Some (dh_revision entry), mi_source = source\<rparr>,
          hi_probe = formatManagerDeploymentProbe entry, hi_revision = js_take 12 (dh_revision entry),
          hi_status = MANAGER_DEPLOYMENT_STATUS_DISPLAY (dh_status entry)\<rparr>)"

section \<open>Watchdog\<close>

datatype watchdog_status = WdHealthy | WdUnhealthy
datatype watchdog_event = WdFailure | WdRecovery

definition getExternalWatchdogLabel :: "watchdog_status option \<Rightarrow> string" where
  "getExternalWatchdogLabel v =
     (case v of Some WdHealthy \<Rightarrow> txt_wd_healthy | Some WdUnhealthy \<Rightarrow> txt_wd_unhealthy | None \<Rightarrow> txt_pr_unknown)"

definition getExternalWatchdogAlertLabel :: "watchdog_event option \<Rightarrow> bool option \<Rightarrow> string" where
  "getExternalWatchdogAlertLabel event success =
     (case (event, success) of
        (Some e, Some ok) \<Rightarrow>
          (if e = WdFailure then txt_wd_failure else txt_wd_recovery) @ txt_wd_sent @ (if ok then txt_wd_ok else txt_wd_bad)
      | _ \<Rightarrow> txt_wd_norecord)"

definition watchdog_labels :: "string js_object" where
  "watchdog_labels =
     [(''action_required'', txt_wd_action), (''cancelled'', txt_wd_cancelled), (''failure'', txt_wd_bad),
      (''neutral'', txt_wd_neutral), (''skipped'', txt_wd_skipped), (''stale'', txt_wd_stale),
      (''startup_failure'', txt_wd_startup), (''success'', txt_wd_ok), (''timed_out'', txt_wd_timeout)]"

text \<open>GitHub's conclusions are none of the names that every object inherits.\<close>

definition getExternalWatchdogRunLabel :: "string option \<Rightarrow> string option \<Rightarrow> string option \<Rightarrow> string" where
  "getExternalWatchdogRunLabel status conclusion err =
     (if \<not> truthy status then (if truthy err then txt_vd_failed else txt_wd_norecord)
      else let s = the status in
           if s \<in> set [''queued'', ''requested'', ''waiting'', ''pending''] then txt_wd_waiting
           else if s = ''in_progress'' then txt_wd_running
           else if s \<noteq> ''completed'' then s
           else if truthy conclusion then default_to (the conclusion) (obj_get (the conclusion) watchdog_labels) else txt_wd_done)"

definition isExternalWatchdogRunFailure :: "string option \<Rightarrow> bool" where
  "isExternalWatchdogRunFailure conclusion =
     (or_else conclusion [] \<in> set [''action_required'', ''cancelled'', ''failure'', ''stale'', ''startup_failure'', ''timed_out''])"

section \<open>Where the links lead\<close>

definition github_link :: "string \<Rightarrow> bool" where
  "github_link u = (\<exists>owner repo. u = ''https://github.com/'' @ owner @ ''/'' @ repo \<and> owner \<noteq> [] \<and> repo \<noteq> [] \<and> uri_token owner \<and> uri_token repo)"

lemma normalizeText_nonempty: "normalizeText v = Some s \<Longrightarrow> s \<noteq> []"
  by (auto simp: normalizeText_def Let_def split: option.splits if_splits)

lemma repository_link: "buildGitHubRepositoryUrl a b = Some u \<Longrightarrow> github_link u"
  unfolding buildGitHubRepositoryUrl_def github_link_def
  by (force simp: encode_token dest: normalizeText_nonempty split: option.splits)

lemma source_link: "resolveGitHubSourceUrl U v = Some u \<Longrightarrow> github_link u"
  by (auto simp: resolveGitHubSourceUrl_def dest: repository_link split: option.splits prod.splits if_splits list.splits)

lemma source_nonempty: "resolveGitHubSourceUrl U v = Some u \<Longrightarrow> or_null (Some u) = Some u"
  using source_link [of U v u] by (auto simp: github_link_def or_null_def)

text \<open>
  The repository that a source text names: \<open>git@github.com:owner/repo\<close>, or an address that parses with a
  host of GitHub and the owner and the repository as the first two parts of its path; both with or without
  a final \<open>.git\<close>.
\<close>

definition repository_of :: "parse_url \<Rightarrow> string \<Rightarrow> string \<Rightarrow> bool" where
  "repository_of U t u =
     (\<exists>owner repo full. u = ''https://github.com/'' @ encodeURIComponent (js_trim owner) @ ''/'' @ encodeURIComponent (js_trim repo) \<and>
        full \<in> {repo, repo @ ''.git''} \<and>
        (t = ''git@github.com:'' @ owner @ ''/'' @ full \<and> CHR ''/'' \<notin> set owner \<or>
         (\<exists>p rest. U t = Some p \<and> str_lower (ul_hostname p) \<in> {''github.com'', ''www.github.com''} \<and>
            filter (\<lambda>s. s \<noteq> []) (str_split (CHR ''/'') (ul_pathname p)) = owner # full # rest)))"

lemma strip_git_full: "s \<in> {strip_git s, strip_git s @ ''.git''}"
  by (auto simp: strip_git_def suffix_def)

lemma normalizeText_trim: "normalizeText v = Some t \<Longrightarrow> \<exists>s. v = Some s \<and> t = js_trim s"
  by (auto simp: normalizeText_def Let_def split: option.splits if_splits)

lemma ssh_match_text:
  assumes "ssh_match t = Some (owner, repo)"
  shows "\<exists>full. full \<in> {repo, repo @ ''.git''} \<and> t = ''git@github.com:'' @ owner @ ''/'' @ full \<and> CHR ''/'' \<notin> set owner"
proof -
  let ?rest = "drop 15 t"
  let ?r = "drop (Suc (length owner)) ?rest"
  have p: "prefix ''git@github.com:'' t" and o: "owner = takeWhile (\<lambda>c. c \<noteq> CHR ''/'') ?rest"
    and l: "length owner \<noteq> length ?rest" and r: "repo = (if 4 < length ?r then strip_git ?r else ?r)"
    using assms by (auto simp: ssh_match_def Let_def split: if_splits)
  have t: "t = ''git@github.com:'' @ ?rest" using p by (auto simp: prefix_def)
  have "dropWhile (\<lambda>c. c \<noteq> CHR ''/'') ?rest \<noteq> []"
    using l o by (metis append_Nil2 takeWhile_dropWhile_id)
  then obtain x xs where d: "dropWhile (\<lambda>c. c \<noteq> CHR ''/'') ?rest = x # xs" by (cases "dropWhile (\<lambda>c. c \<noteq> CHR ''/'') ?rest") auto
  then have x: "x = CHR ''/''" using hd_dropWhile [of "\<lambda>c. c \<noteq> CHR ''/''" ?rest] by auto
  have e: "?rest = owner @ CHR ''/'' # xs" using takeWhile_dropWhile_id [of "\<lambda>c. c \<noteq> CHR ''/''" ?rest] d x o by simp
  then have xs: "?r = xs" by simp
  have n: "CHR ''/'' \<notin> set owner" using o by (auto dest: set_takeWhileD)
  have "xs \<in> {repo, repo @ ''.git''}" using strip_git_full [of xs] unfolding r xs by simp
  then show ?thesis using t e n by (metis append.assoc append_Cons append_Nil)
qed

lemma source_repository:
  assumes "resolveGitHubSourceUrl U v = Some u"
  shows "\<exists>s. v = Some s \<and> repository_of U (js_trim s) u"
proof -
  obtain t where t: "normalizeText v = Some t" using assms by (auto simp: resolveGitHubSourceUrl_def split: option.splits)
  then obtain s where s: "v = Some s" "t = js_trim s" using normalizeText_trim by blast
  have b: "u = ''https://github.com/'' @ encodeURIComponent (js_trim a) @ ''/'' @ encodeURIComponent (js_trim c)"
    if "buildGitHubRepositoryUrl (Some a) (Some c) = Some u" for a c
    using that by (auto simp: buildGitHubRepositoryUrl_def dest!: normalizeText_trim split: option.splits)
  show ?thesis
  proof (cases "ssh_match t")
    case (Some m)
    obtain owner repo where m: "m = (owner, repo)" by (cases m)
    have "buildGitHubRepositoryUrl (Some owner) (Some repo) = Some u"
      using assms t Some m by (simp add: resolveGitHubSourceUrl_def)
    note u = b [OF this]
    obtain full where "full \<in> {repo, repo @ ''.git''}" "t = ''git@github.com:'' @ owner @ ''/'' @ full" "CHR ''/'' \<notin> set owner"
      using ssh_match_text [of t owner repo] Some m by blast
    then have "repository_of U t u"
      unfolding repository_of_def by (intro exI [of _ owner] exI [of _ repo] exI [of _ full] conjI disjI1) (rule u)
    then show ?thesis using s by metis
  next
    case None
    then obtain p owner full rest where p: "U t = Some p" "str_lower (ul_hostname p) \<in> {''github.com'', ''www.github.com''}"
      "filter (\<lambda>s. s \<noteq> []) (str_split (CHR ''/'') (ul_pathname p)) = owner # full # rest"
      "buildGitHubRepositoryUrl (Some owner) (Some (strip_git full)) = Some u"
      using assms t by (auto simp: resolveGitHubSourceUrl_def split: option.splits if_splits list.splits)
    have "repository_of U t u"
      unfolding repository_of_def
      by (intro exI [of _ owner] exI [of _ "strip_git full"] exI [of _ full] exI [of _ p] exI [of _ rest] conjI disjI2)
        (rule b [OF p(4)], rule strip_git_full, rule p(1), rule p(2), rule p(3))
    then show ?thesis using s by metis
  qed
qed

text \<open>C36. Where the links of a deployment lead.  Whatever the source, the versions and the revision of a
  deployment say, there is a source link only when the source names a repository on GitHub, and it is this
  repository on github.com; the commit and the comparison are this repository followed by one path of encoded
  names, with no further slash, question mark or hash in a name; the commit link names the trimmed revision,
  which decoding gives back; there is no comparison of a version with itself.  The release link is the given
  address of the release whenever that parses with the protocol http or https, whatever its host, and
  otherwise the tag of the latest version in the repository.\<close>

theorem deployment_links_stay:
  assumes "utf8_wf (js_trim revision)"
  shows "(let l = buildManagerDeploymentLinks U
            \<lparr>mi_latestReleaseUrl = release, mi_latestVersion = latest, mi_previousVersion = previous,
             mi_revision = Some revision, mi_source = source\<rparr>
     in (\<forall>u. ml_sourceUrl l = Some u \<longrightarrow> github_link u \<and> (\<exists>s. source = Some s \<and> repository_of U (js_trim s) u))
      \<and> (\<forall>c. ml_commitUrl l = Some c \<longrightarrow>
           (\<exists>u r. ml_sourceUrl l = Some u \<and> c = u @ ''/commit/'' @ r \<and> uri_token r \<and> decodeURIComponent r = Inr (js_trim revision)))
      \<and> (\<forall>c. ml_compareUrl l = Some c \<longrightarrow> normalizeText previous \<noteq> normalizeText latest \<and>
           (\<exists>u p v. ml_sourceUrl l = Some u \<and> c = u @ ''/compare/'' @ p @ ''...'' @ v \<and> uri_token p \<and> uri_token v))
      \<and> (\<forall>c. ml_releaseUrl l = Some c \<longrightarrow>
           (\<exists>r p. release = Some r \<and> U (js_trim r) = Some p \<and> ul_protocol p \<in> {''http:'', ''https:''} \<and> c = ul_href p)
           \<or> (\<exists>u v. ml_sourceUrl l = Some u \<and> c = u @ ''/releases/tag/'' @ v \<and> uri_token v))
      \<and> (\<forall>r p. release = Some r \<and> js_trim r \<noteq> [] \<and> str_lower (js_trim r) \<noteq> ''unknown'' \<and> U (js_trim r) = Some p \<and>
           ul_protocol p \<in> {''http:'', ''https:''} \<and> ul_href p \<noteq> [] \<longrightarrow> ml_releaseUrl l = Some (ul_href p)))"
proof -
  let ?s = "resolveGitHubSourceUrl U source"
  have t: "normalizeText (Some revision) = Some r \<Longrightarrow> r = js_trim revision" for r
    by (auto simp: normalizeText_def Let_def split: if_splits)
  have commit: "buildGitHubCommitUrl ?s (Some revision) = Some c \<Longrightarrow>
      \<exists>u r. ?s = Some u \<and> c = u @ ''/commit/'' @ r \<and> uri_token r \<and> decodeURIComponent r = Inr (js_trim revision)" for c
    using decode_encode [OF assms] encode_token [of "js_trim revision"] t
    by (cases ?s) (auto simp: buildGitHubCommitUrl_def source_nonempty or_null_def split: option.splits if_splits)
  have compare: "buildGitHubCompareUrl ?s previous latest = Some c \<Longrightarrow> normalizeText previous \<noteq> normalizeText latest \<and>
      (\<exists>u p v. ?s = Some u \<and> c = u @ ''/compare/'' @ p @ ''...'' @ v \<and> uri_token p \<and> uri_token v)" for c
    using encode_token
    by (cases ?s) (auto simp: buildGitHubCompareUrl_def or_null_def split: option.splits if_splits)
  have tag: "buildGitHubReleaseUrl ?s latest = Some c \<Longrightarrow> \<exists>u v. ?s = Some u \<and> c = u @ ''/releases/tag/'' @ v \<and> uri_token v" for c
    using encode_token
    by (cases ?s) (auto simp: buildGitHubReleaseUrl_def or_null_def split: option.splits if_splits)
  have web: "or_null (normalizeWebUrl U release) = Some c \<Longrightarrow>
      \<exists>r p. release = Some r \<and> U (js_trim r) = Some p \<and> ul_protocol p \<in> {''http:'', ''https:''} \<and> c = ul_href p" for c
    by (auto simp: normalizeWebUrl_def or_null_def dest!: normalizeText_trim split: option.splits if_splits)
  have own: "or_null (normalizeWebUrl U (Some r)) = Some (ul_href p)"
    if "js_trim r \<noteq> []" "str_lower (js_trim r) \<noteq> ''unknown''" "U (js_trim r) = Some p" "ul_protocol p \<in> {''http:'', ''https:''}"
      "ul_href p \<noteq> []" for r p
    using that by (simp add: normalizeWebUrl_def normalizeText_def or_null_def)
  show ?thesis
    using source_link [of U source] source_repository [of U source] commit compare tag web own
    by (simp add: buildManagerDeploymentLinks_def Let_def split: option.splits)
qed

definition sample_github :: parse_url where
  "sample_github t =
     (if t = ''https://github.com/hanawa07/traefik-manager.git''
      then Some \<lparr>ul_protocol = ''https:'', ul_hostname = ''github.com'', ul_host = ''github.com'',
                 ul_pathname = ''/hanawa07/traefik-manager.git'', ul_searchParams = [], ul_href = t\<rparr>
      else None)"

definition sample_links :: "string \<Rightarrow> ManagerDeploymentLinksInput" where
  "sample_links source =
     \<lparr>mi_latestReleaseUrl = None, mi_latestVersion = Some ''v1.2.0'', mi_previousVersion = Some ''v1.1.0'',
      mi_revision = Some ''abc 1'', mi_source = Some source\<rparr>"

theorem deployment_links_stay_witness:
  "repository_of sample_github ''https://github.com/hanawa07/traefik-manager.git'' ''https://github.com/hanawa07/traefik-manager''
   \<and> ml_commitUrl (buildManagerDeploymentLinks sample_github (sample_links ''https://github.com/hanawa07/traefik-manager.git''))
       = Some ''https://github.com/hanawa07/traefik-manager/commit/abc%201''
   \<and> ml_sourceUrl (buildManagerDeploymentLinks sample_github (sample_links ''https://example.com/a/b'')) = None"
proof -
  let ?l = "\<lambda>s. buildManagerDeploymentLinks sample_github (sample_links s)"
  have w: "utf8_wf (js_trim ''abc 1'')" by code_simp
  have c: "ml_commitUrl (?l ''https://github.com/hanawa07/traefik-manager.git'')
        = Some ''https://github.com/hanawa07/traefik-manager/commit/abc%201''"
    "ml_sourceUrl (?l ''https://github.com/hanawa07/traefik-manager.git'') = Some ''https://github.com/hanawa07/traefik-manager''"
    "ml_sourceUrl (?l ''https://example.com/a/b'') = None" "js_trim ''https://github.com/hanawa07/traefik-manager.git'' = ''https://github.com/hanawa07/traefik-manager.git''"
    by code_simp+
  show ?thesis
    using deployment_links_stay [OF w, of sample_github None "Some ''v1.2.0''" "Some ''v1.1.0''"
        "Some ''https://github.com/hanawa07/traefik-manager.git''"] c
    by (simp add: Let_def sample_links_def)
qed

text \<open>The kind of the version display: an update is announced exactly when Docker can be asked (or has not
  been) and the backend says so; a build after a release only when the release is the latest one.\<close>

lemma version_update:
  "vd_state (buildDeploymentVersionDisplay i) = VsUpdate \<longleftrightarrow>
   vi_updateAvailable i = Some True \<and> vi_enabled i \<noteq> Some False \<and> (normalizeText (vi_version i) \<noteq> None \<or> vi_enabled i \<noteq> None)"
  by (auto simp: buildDeploymentVersionDisplay_def plain_version_def Let_def split: option.splits prod.splits if_splits)

lemma version_post_release:
  "vd_state (buildDeploymentVersionDisplay i) = VsPostRelease \<Longrightarrow>
   \<exists>base n l. parseGitDescribeVersion (normalizeText (vi_version i)) = Some (base, n) \<and> normalizeText (vi_latestVersion i) = Some l \<and>
     normalizeSemver base = normalizeSemver l \<and> vi_updateAvailable i \<noteq> Some True"
  by (auto simp: buildDeploymentVersionDisplay_def plain_version_def Let_def split: option.splits prod.splits if_splits)

end
