(* ===== verification/Storefront_Probe.thy ===== *)
theory Storefront_Probe
  imports Web_Url JS_Json Ui_Text_Pages
begin

text \<open>
  The external probe of a storefront behind the proxy (\<open>scripts/tcg-storefront-probe.mjs\<close>): seven checks,
  each of which fetches pages of the shop and raises a \<open>ProbeError\<close> when it does not find what a customer
  needs, the verdict over all of them, the line it prints and its exit code.

  \<open>fetch\<close> and the parser of URLs are the engine's: \<open>fetch\<close> maps the address and the redirect mode
  to a response, or to the name of the error it throws; every address is fetched once per mode, so that a
  function of both is general enough.  Values that are thrown are \<open>probe_exn\<close>.
\<close>

section \<open>Requests\<close>

datatype probe_exn = ProbeError string bool | OtherError string

text \<open>The body is what \<open>text()\<close> gives, or the name of the error it throws.\<close>

record probe_response =
  sr_status :: nat
  sr_headers :: "string \<Rightarrow> string option"
  sr_body :: "string + string"
  sr_url :: string

record probe_host =
  sh_url :: parse_url
  sh_resolve :: "string \<Rightarrow> js_url \<Rightarrow> string"
  sh_fetch :: "string \<Rightarrow> bool \<Rightarrow> string + probe_response"

definition normalizeError :: "probe_exn \<Rightarrow> string" where
  "normalizeError e =
     (case e of
        ProbeError m _ \<Rightarrow> m
      | OtherError n \<Rightarrow> if n \<in> set [''AbortError'', ''TimeoutError''] then ''timeout'' else ''network-error'')"

definition probe_request :: "probe_host \<Rightarrow> string \<Rightarrow> bool \<Rightarrow> probe_exn + probe_response" where
  "probe_request h url follow = (case sh_fetch h url follow of Inl n \<Rightarrow> Inl (OtherError n) | Inr r \<Rightarrow> Inr r)"

definition response_text :: "probe_response \<Rightarrow> probe_exn + string" where
  "response_text r = (case sr_body r of Inl n \<Rightarrow> Inl (OtherError n) | Inr s \<Rightarrow> Inr s)"

definition response_json :: "probe_response \<Rightarrow> probe_exn + json" where
  "response_json r =
     (case response_text r of
        Inl e \<Rightarrow> Inl e
      | Inr s \<Rightarrow> (case json_parse s of None \<Rightarrow> Inl (OtherError ''SyntaxError'') | Some v \<Rightarrow> Inr v))"

text \<open>\<open>await\<close> of a step that may throw.\<close>

definition and_then :: "probe_exn + 'a \<Rightarrow> ('a \<Rightarrow> probe_exn + 'b) \<Rightarrow> probe_exn + 'b" where
  "and_then m f = (case m of Inl e \<Rightarrow> Inl e | Inr x \<Rightarrow> f x)"

definition ensure :: "bool \<Rightarrow> probe_exn \<Rightarrow> probe_exn + unit" where
  "ensure b e = (if b then Inr () else Inl e)"

lemma and_then_Inr: "and_then m f = Inr y \<longleftrightarrow> (\<exists>x. m = Inr x \<and> f x = Inr y)"
  by (cases m) (auto simp: and_then_def)

lemma ensure_Inr: "ensure b e = Inr u \<longleftrightarrow> b"
  by (simp add: ensure_def)

lemmas probe_steps = and_then_Inr ensure_Inr

section \<open>Pages\<close>

definition header_text :: "string \<Rightarrow> probe_response \<Rightarrow> string" where
  "header_text k r = or_else (sr_headers r k) []"

definition assertHtml :: "probe_host \<Rightarrow> js_url \<Rightarrow> string \<Rightarrow> string list \<Rightarrow> probe_exn + unit" where
  "assertHtml h base path markers =
     and_then (probe_request h (sh_resolve h path base) False) (\<lambda>r.
     and_then (ensure (sr_status r = 200) (ProbeError (''HTTP-'' @ show_nat (sr_status r)) False)) (\<lambda>_.
     and_then (ensure (str_includes (header_text ''content-type'' r) ''text/html'') (ProbeError ''non-html-response'' False)) (\<lambda>_.
     and_then (response_text r) (\<lambda>html.
     ensure (list_ex (\<lambda>m. str_includes html m) markers) (ProbeError ''page-marker-missing'' False)))))"

section \<open>The catalog\<close>

text \<open>\<open>Array.isArray(v?.k) ? v.k : []\<close>\<close>

definition array_of :: "json option \<Rightarrow> json list" where
  "array_of v = (case v of Some (JArr xs) \<Rightarrow> xs | _ \<Rightarrow> [])"

definition active_variants :: "json \<Rightarrow> json list" where
  "active_variants product =
     filter (\<lambda>v. json_field ''isActive'' v \<noteq> Some (JBool False)) (array_of (json_field ''variants'' product))"

definition valid_price :: "json option \<Rightarrow> bool" where
  "valid_price p = (case p of Some (JNum (Num q)) \<Rightarrow> 0 < q | _ \<Rightarrow> False)"

text \<open>\<open>variants.some(...)\<close>: reading the price of \<open>null\<close> throws.\<close>

fun check_prices :: "json list \<Rightarrow> probe_exn + unit" where
  "check_prices [] = Inr ()"
| "check_prices (v # vs) =
     (if v = JNull then Inl (OtherError ''TypeError'')
      else if \<not> valid_price (json_field ''price'' v) then Inl (ProbeError ''public-price-invalid'' False)
      else check_prices vs)"

fun check_products :: "json list \<Rightarrow> probe_exn + unit" where
  "check_products [] = Inr ()"
| "check_products (p # ps) =
     and_then (ensure (json_string (json_field ''slug'' p) \<noteq> None \<and> active_variants p \<noteq> []) (ProbeError ''catalog-shape-invalid'' False))
       (\<lambda>_. and_then (check_prices (active_variants p)) (\<lambda>_. check_products ps))"

definition first_slug :: "json list \<Rightarrow> string" where
  "first_slug products = (case products of [] \<Rightarrow> [] | p # _ \<Rightarrow> default_to [] (json_string (json_field ''slug'' p)))"

definition checkCatalog :: "probe_host \<Rightarrow> js_url \<Rightarrow> probe_exn + string" where
  "checkCatalog h base =
     and_then (probe_request h (sh_resolve h ''/api/products?limit=20&page=1'' base) False) (\<lambda>r.
     and_then (ensure (sr_status r = 200) (ProbeError (''catalog-HTTP-'' @ show_nat (sr_status r)) False)) (\<lambda>_.
     and_then (response_json r) (\<lambda>body.
     let products = array_of (json_field ''products'' body) in
     and_then (ensure (products \<noteq> []) (ProbeError ''public-catalog-empty'' False)) (\<lambda>_.
     and_then (check_products products) (\<lambda>_.
     and_then (assertHtml h base ''/products'' [txt_sp_list]) (\<lambda>_.
     and_then (assertHtml h base (''/p/'' @ encodeURIComponent (first_slug products)) [txt_sp_terms]) (\<lambda>_.
     Inr (''catalog-'' @ show_nat (length products)))))))))"

section \<open>Payment\<close>

definition online_method :: "json \<Rightarrow> bool" where
  "online_method m = (json_field ''isActive'' m = Some (JBool True) \<and> json_field ''provider'' m = Some (JStr ''PORTONE''))"

definition checkPaymentMethods :: "probe_host \<Rightarrow> js_url \<Rightarrow> probe_exn + string" where
  "checkPaymentMethods h base =
     and_then (probe_request h (sh_resolve h ''/api/payment-methods'' base) False) (\<lambda>r.
     and_then (ensure (sr_status r = 200) (ProbeError (''payment-methods-HTTP-'' @ show_nat (sr_status r)) False)) (\<lambda>_.
     and_then (response_json r) (\<lambda>body.
     and_then (ensure (list_ex online_method (array_of (json_field ''paymentMethods'' body)))
                 (ProbeError ''online-payment-method-unavailable'' False)) (\<lambda>_.
     Inr ''payment-methods-ready''))))"

section \<open>Login providers\<close>

record oauth_check =
  oc_name :: string
  oc_path :: string
  oc_hostname :: string
  oc_pathname :: string
  oc_providerHostname :: string
  oc_callbackPath :: string
  oc_stateCookie :: string

definition OAUTH_CHECKS :: "oauth_check list" where
  "OAUTH_CHECKS =
     [\<lparr>oc_name = ''kakaoLogin'', oc_path = ''/api/auth/kakao'', oc_hostname = ''kauth.kakao.com'',
       oc_pathname = ''/oauth/authorize'', oc_providerHostname = ''accounts.kakao.com'',
       oc_callbackPath = ''/api/auth/kakao/callback'', oc_stateCookie = ''kakao_oauth_state=''\<rparr>,
      \<lparr>oc_name = ''naverLogin'', oc_path = ''/api/auth/naver'', oc_hostname = ''nid.naver.com'',
       oc_pathname = ''/oauth2.0/authorize'', oc_providerHostname = ''nid.naver.com'',
       oc_callbackPath = ''/api/auth/naver/callback'', oc_stateCookie = ''naver_oauth_state=''\<rparr>,
      \<lparr>oc_name = ''googleLogin'', oc_path = ''/api/auth/google'', oc_hostname = ''accounts.google.com'',
       oc_pathname = ''/o/oauth2/v2/auth'', oc_providerHostname = ''accounts.google.com'',
       oc_callbackPath = ''/api/auth/google/callback'', oc_stateCookie = ''google_oauth_state=''\<rparr>]"

text \<open>\<open>OAUTH_CONFIGURATION_ERROR.test(html)\<close>, ignoring case: \<open>KOE\<close> and three digits as a word of their
  own, or one of the texts.\<close>

definition word_char :: "char \<Rightarrow> bool" where
  "word_char c =
     (let b = (of_char c :: nat) in (48 \<le> b \<and> b \<le> 57) \<or> (65 \<le> b \<and> b \<le> 90) \<or> (97 \<le> b \<and> b \<le> 122) \<or> b = 95)"

fun koe_here :: "string \<Rightarrow> bool" where
  "koe_here (k # o' # e # a # b # c # s) =
     (k = CHR ''k'' \<and> o' = CHR ''o'' \<and> e = CHR ''e'' \<and> is_digit a \<and> is_digit b \<and> is_digit c \<and> (s = [] \<or> \<not> word_char (hd s)))"
| "koe_here _ = False"

fun koe_scan :: "bool \<Rightarrow> string \<Rightarrow> bool" where
  "koe_scan inside [] = False"
| "koe_scan inside (c # s) = (\<not> inside \<and> koe_here (c # s) \<or> koe_scan (word_char c) s)"

definition configuration_error :: "string \<Rightarrow> bool" where
  "configuration_error html =
     (let s = str_lower html in
      koe_scan False s \<or> str_includes s txt_sp_koe \<or> str_includes s ''redirect_uri_mismatch'' \<or>
      str_includes s ''invalid_request'' \<or> str_includes s ''invalid_client'')"

text \<open>The redirect that starts a login, as the check demands it.\<close>

definition oauth_redirect_ok :: "js_url \<Rightarrow> oauth_check \<Rightarrow> js_url \<Rightarrow> js_url \<Rightarrow> bool" where
  "oauth_redirect_ok base d target callback =
     (ul_protocol target = ''https:'' \<and> ul_hostname target = oc_hostname d \<and> ul_pathname target = oc_pathname d \<and>
      truthy (params_get ''client_id'' (ul_searchParams target)) \<and> truthy (params_get ''state'' (ul_searchParams target)) \<and>
      ul_protocol callback = ul_protocol base \<and> ul_host callback = ul_host base \<and> ul_pathname callback = oc_callbackPath d)"

definition parse_or :: "probe_host \<Rightarrow> string \<Rightarrow> string \<Rightarrow> probe_exn + js_url" where
  "parse_or h v message = (case sh_url h v of None \<Rightarrow> Inl (ProbeError message False) | Some u \<Rightarrow> Inr u)"

text \<open>The second half: errors other than a \<open>ProbeError\<close> leave the result open.\<close>

definition provider_page :: "probe_host \<Rightarrow> oauth_check \<Rightarrow> js_url \<Rightarrow> probe_exn + string" where
  "provider_page h d target =
     and_then (probe_request h (ul_href target) True) (\<lambda>r.
     and_then (response_text r) (\<lambda>html.
     and_then (ensure (\<not> configuration_error html) (ProbeError ''oauth-provider-configuration-error'' True)) (\<lambda>_.
     (case sh_url h (sr_url r) of
        None \<Rightarrow> Inl (OtherError ''TypeError'')
      | Some final \<Rightarrow>
          Inr (if sr_status r = 200 \<and> ul_hostname final = oc_providerHostname d then ''oauth-provider-verified''
               else ''oauth-provider-inconclusive'')))))"

definition verify_provider :: "probe_host \<Rightarrow> oauth_check \<Rightarrow> js_url \<Rightarrow> probe_exn + string" where
  "verify_provider h d target =
     (case provider_page h d target of
        Inl (ProbeError m b) \<Rightarrow> Inl (ProbeError m b)
      | Inl (OtherError n) \<Rightarrow> Inr ''oauth-provider-inconclusive''
      | Inr s \<Rightarrow> Inr s)"

definition checkOAuth :: "probe_host \<Rightarrow> js_url \<Rightarrow> bool \<Rightarrow> oauth_check \<Rightarrow> probe_exn + string" where
  "checkOAuth h base verifyProvider d =
     and_then (probe_request h (sh_resolve h (oc_path d) base) False) (\<lambda>r.
     and_then (ensure (sr_status r \<in> set [302, 303, 307, 308]) (ProbeError (''oauth-HTTP-'' @ show_nat (sr_status r)) False)) (\<lambda>_.
     and_then (parse_or h (header_text ''location'' r) ''oauth-redirect-invalid'') (\<lambda>target.
     and_then (parse_or h (or_else (params_get ''redirect_uri'' (ul_searchParams target)) []) ''oauth-callback-invalid'') (\<lambda>callback.
     and_then (ensure (oauth_redirect_ok base d target callback) (ProbeError ''oauth-redirect-invalid'' False)) (\<lambda>_.
     and_then (ensure (str_includes (header_text ''set-cookie'' r) (oc_stateCookie d)) (ProbeError ''oauth-state-cookie-missing'' False)) (\<lambda>_.
     if \<not> verifyProvider then Inr ''oauth-redirect-ready'' else verify_provider h d target))))))"

section \<open>The probe\<close>

record probe_check =
  pk_name :: string
  pk_ok :: bool
  pk_detail :: string
  pk_providerFailure :: bool

definition runCheck :: "string \<Rightarrow> probe_exn + string \<Rightarrow> probe_check" where
  "runCheck name outcome =
     (case outcome of
        Inr detail \<Rightarrow> \<lparr>pk_name = name, pk_ok = True, pk_detail = detail, pk_providerFailure = False\<rparr>
      | Inl e \<Rightarrow>
          \<lparr>pk_name = name, pk_ok = False, pk_detail = normalizeError e,
           pk_providerFailure = (case e of ProbeError _ p \<Rightarrow> p | OtherError _ \<Rightarrow> False)\<rparr>)"

record probe_result =
  pb_ok :: bool
  pb_providerFailure :: bool
  pb_durationMs :: nat
  pb_checks :: "probe_check list"

definition probe_checks :: "probe_host \<Rightarrow> js_url \<Rightarrow> bool \<Rightarrow> probe_check list" where
  "probe_checks h base verifyProviders =
     [runCheck ''catalog'' (checkCatalog h base),
      runCheck ''loginPage'' (and_then (assertHtml h base ''/login'' [txt_sp_login]) (\<lambda>_. Inr ''login-page-ready'')),
      runCheck ''checkoutPage''
        (and_then (assertHtml h base ''/checkout'' [txt_sp_loading, txt_sp_pay, txt_sp_empty]) (\<lambda>_. Inr ''checkout-page-ready'')),
      runCheck ''paymentMethods'' (checkPaymentMethods h base)]
     @ map (\<lambda>d. runCheck (oc_name d) (checkOAuth h base verifyProviders d)) OAUTH_CHECKS"

definition runProbe :: "probe_host \<Rightarrow> js_url \<Rightarrow> bool \<Rightarrow> nat \<Rightarrow> probe_result" where
  "runProbe h base verifyProviders elapsed =
     (let checks = probe_checks h base verifyProviders in
      \<lparr>pb_ok = list_all pk_ok checks, pb_providerFailure = list_ex pk_providerFailure checks, pb_durationMs = elapsed,
       pb_checks = checks\<rparr>)"

definition formatResult :: "probe_result \<Rightarrow> bool \<Rightarrow> string" where
  "formatResult r verifyProviders =
     (if pb_ok r then
        ''healthy providerFailure=0 checks='' @ show_nat (length (pb_checks r)) @ '' providerCheck=''
        @ (if verifyProviders then ''attempted'' else ''skipped'') @ '' durationMs='' @ show_nat (pb_durationMs r)
      else
        ''unhealthy providerFailure='' @ (if pb_providerFailure r then ''1'' else ''0'') @ '' failures=''
        @ str_join '','' (map (\<lambda>c. pk_name c @ '':'' @ pk_detail c) (filter (\<lambda>c. \<not> pk_ok c) (pb_checks r))))"

text \<open>\<open>normalizeBaseUrl\<close>; clearing path, search and fragment is the engine's, \<open>strip\<close> here.  Errors are their
  messages.\<close>

definition normalizeBaseUrl :: "probe_host \<Rightarrow> (js_url \<Rightarrow> js_url) \<Rightarrow> string \<Rightarrow> string + js_url" where
  "normalizeBaseUrl h strip v =
     (case sh_url h v of
        None \<Rightarrow> Inl ''Invalid URL''
      | Some u \<Rightarrow> if ul_protocol u \<in> set [''http:'', ''https:''] then Inr (strip u) else Inl ''base URL protocol invalid'')"

definition probe_timeout :: "string option \<Rightarrow> string + rat" where
  "probe_timeout env =
     (case (if truthy env then js_number (the env) else Num 10000) of
        Num q \<Rightarrow> if of_int \<lfloor>q\<rfloor> = q \<and> 1 \<le> q then Inr q else Inl ''timeout must be a positive integer''
      | _ \<Rightarrow> Inl ''timeout must be a positive integer'')"

text \<open>The main program without \<open>--self-test\<close>: the error that ends it, or the line and the exit code.\<close>

definition probe_main ::
    "probe_host \<Rightarrow> (js_url \<Rightarrow> js_url) \<Rightarrow> nat \<Rightarrow> string list \<Rightarrow> string option \<Rightarrow> string option \<Rightarrow> string + string \<times> nat" where
  "probe_main h strip elapsed args timeoutEnv baseEnv =
     (case find (\<lambda>a. a \<noteq> ''--verify-oauth-providers'') args of
        Some a \<Rightarrow> Inl (''unknown argument: '' @ a)
      | None \<Rightarrow>
          (case probe_timeout timeoutEnv of
             Inl e \<Rightarrow> Inl e
           | Inr _ \<Rightarrow>
               (case normalizeBaseUrl h strip (or_else baseEnv ''https://tcg.lizstudio.co.kr'') of
                  Inl e \<Rightarrow> Inl e
                | Inr base \<Rightarrow>
                    let verify = (''--verify-oauth-providers'' \<in> set args);
                        result = runProbe h base verify elapsed
                    in Inr (formatResult result verify, if pb_ok result then 0 else 1))))"

section \<open>What the verdict means\<close>

lemma runCheck_ok: "pk_ok (runCheck n m) \<longleftrightarrow> (\<exists>d. m = Inr d)"
  by (cases m) (simp_all add: runCheck_def)

lemma check_prices_ok: "check_prices vs = Inr () \<Longrightarrow> v \<in> set vs \<Longrightarrow> valid_price (json_field ''price'' v)"
  by (induction vs) (auto split: if_splits)

lemma check_products_ok:
  "check_products ps = Inr () \<Longrightarrow> p \<in> set ps \<Longrightarrow>
   json_string (json_field ''slug'' p) \<noteq> None \<and> active_variants p \<noteq> [] \<and>
   (\<forall>v\<in>set (active_variants p). valid_price (json_field ''price'' v))"
  by (induction ps) (auto simp: probe_steps dest: check_prices_ok)

text \<open>What a shop that passes the catalog check sells, and how a login starts.\<close>

definition sells :: "probe_host \<Rightarrow> js_url \<Rightarrow> bool" where
  "sells h base =
     (\<exists>r s body. sh_fetch h (sh_resolve h ''/api/products?limit=20&page=1'' base) False = Inr r \<and> sr_status r = 200 \<and>
        sr_body r = Inr s \<and> json_parse s = Some body \<and> array_of (json_field ''products'' body) \<noteq> [] \<and>
        (\<forall>p\<in>set (array_of (json_field ''products'' body)).
           json_string (json_field ''slug'' p) \<noteq> None \<and> active_variants p \<noteq> [] \<and>
           (\<forall>v\<in>set (active_variants p). valid_price (json_field ''price'' v))))"

definition takes_payment :: "probe_host \<Rightarrow> js_url \<Rightarrow> bool" where
  "takes_payment h base =
     (\<exists>r s body. sh_fetch h (sh_resolve h ''/api/payment-methods'' base) False = Inr r \<and> sr_status r = 200 \<and>
        sr_body r = Inr s \<and> json_parse s = Some body \<and> (\<exists>m\<in>set (array_of (json_field ''paymentMethods'' body)). online_method m))"

definition starts_login :: "probe_host \<Rightarrow> js_url \<Rightarrow> oauth_check \<Rightarrow> bool" where
  "starts_login h base d =
     (\<exists>r target callback. sh_fetch h (sh_resolve h (oc_path d) base) False = Inr r \<and> sr_status r \<in> {302, 303, 307, 308} \<and>
        sh_url h (header_text ''location'' r) = Some target \<and>
        sh_url h (or_else (params_get ''redirect_uri'' (ul_searchParams target)) []) = Some callback \<and>
        oauth_redirect_ok base d target callback \<and> str_includes (header_text ''set-cookie'' r) (oc_stateCookie d))"

lemma request_Inr: "probe_request h u b = Inr r \<longleftrightarrow> sh_fetch h u b = Inr r"
  by (simp add: probe_request_def split: sum.splits)

lemma json_Inr: "response_json r = Inr v \<longleftrightarrow> (\<exists>s. sr_body r = Inr s \<and> json_parse s = Some v)"
  by (auto simp: response_json_def response_text_def split: sum.splits option.splits)

lemma parse_or_Inr: "parse_or h v m = Inr u \<longleftrightarrow> sh_url h v = Some u"
  by (auto simp: parse_or_def split: option.splits)

lemma catalog_sells: "checkCatalog h base = Inr x \<Longrightarrow> sells h base"
  unfolding checkCatalog_def sells_def Let_def probe_steps request_Inr json_Inr
  using check_products_ok by (metis old.unit.exhaust)

lemma payment_takes: "checkPaymentMethods h base = Inr x \<Longrightarrow> takes_payment h base"
  unfolding checkPaymentMethods_def takes_payment_def probe_steps request_Inr json_Inr list_ex_iff by blast

lemma oauth_starts: "checkOAuth h base v d = Inr x \<Longrightarrow> starts_login h base d"
  unfolding checkOAuth_def starts_login_def probe_steps request_Inr parse_or_Inr by (simp; blast)

text \<open>Only the page of a provider raises an error that blames the provider.\<close>

definition blames :: "probe_exn + 'a \<Rightarrow> bool" where
  "blames m = (\<exists>msg. m = Inl (ProbeError msg True))"

lemma blames_simps [simp]:
  "\<not> blames (Inr x)" "\<not> blames (ensure b (ProbeError msg False))" "\<not> blames (probe_request h url follow)"
  "\<not> blames (response_text r)" "\<not> blames (response_json r)" "\<not> blames (parse_or h v msg)"
  by (auto simp: blames_def ensure_def probe_request_def response_text_def response_json_def parse_or_def
      split: sum.splits option.splits)

lemma blames_then: "\<not> blames m \<Longrightarrow> (\<And>x. \<not> blames (f x)) \<Longrightarrow> \<not> blames (and_then m f)"
  by (cases m) (auto simp: and_then_def blames_def)

lemma blames_catalog: "\<not> blames (check_prices vs)" "\<not> blames (check_products ps)" "\<not> blames (assertHtml h base path ms)"
proof -
  show v: "\<not> blames (check_prices vs)" for vs by (induction vs) (simp_all add: blames_def)
  show "\<not> blames (check_products ps)"
    by (induction ps) (simp_all add: blames_then v)
  show "\<not> blames (assertHtml h base path ms)" unfolding assertHtml_def by (intro blames_then blames_simps)
qed

lemma blames_checks:
  "\<not> blames (checkCatalog h base)" "\<not> blames (checkPaymentMethods h base)" "\<not> blames (checkOAuth h base False d)"
  unfolding checkCatalog_def checkPaymentMethods_def checkOAuth_def Let_def
  by (intro blames_then blames_simps blames_catalog; simp)+

lemma runCheck_blames: "pk_providerFailure (runCheck n m) \<longleftrightarrow> blames m"
  by (auto simp: runCheck_def blames_def split: sum.splits probe_exn.splits)

lemma probe_ok_parts:
  assumes "pb_ok (runProbe h base v n)"
  shows "sells h base" "takes_payment h base" "d \<in> set OAUTH_CHECKS \<Longrightarrow> starts_login h base d"
proof -
  have o: "list_all pk_ok (probe_checks h base v)" using assms by (simp add: runProbe_def Let_def)
  have c: "\<exists>x. checkCatalog h base = Inr x" "\<exists>x. checkPaymentMethods h base = Inr x"
    "\<forall>d\<in>set OAUTH_CHECKS. \<exists>x. checkOAuth h base v d = Inr x"
    using o by (simp_all add: probe_checks_def runCheck_ok list_all_iff)
  show "sells h base" using c(1) catalog_sells by blast
  show "takes_payment h base" using c(2) payment_takes by blast
  show "d \<in> set OAUTH_CHECKS \<Longrightarrow> starts_login h base d" using c(3) oauth_starts by blast
qed

lemma probe_provider_failure: "\<not> pb_providerFailure (runProbe h base False n)"
  by (simp add: runProbe_def probe_checks_def runCheck_blames blames_then blames_checks blames_catalog list_ex_iff Let_def)

lemma probe_names:
  "map pk_name (pb_checks (runProbe h base v n)) =
     [''catalog'', ''loginPage'', ''checkoutPage'', ''paymentMethods'', ''kakaoLogin'', ''naverLogin'', ''googleLogin'']"
proof -
  have "pk_name (runCheck k m) = k" for k m by (cases m) (simp_all add: runCheck_def)
  then show ?thesis by (simp add: runProbe_def probe_checks_def OAUTH_CHECKS_def Let_def)
qed

lemma format_healthy: "prefix ''healthy '' (formatResult r v) \<longleftrightarrow> pb_ok r"
  by (simp add: formatResult_def)

text \<open>C34. What the exit code of the storefront probe means.  A run that prints a line has parsed its base
  address and made the seven checks in this order; it exits with 0 exactly if the line says \<open>healthy\<close>.
  Then the shop answered with a catalog of at least one product, every product with a slug and an active
  variant and every active variant with a positive price; it offers an active online payment; and each of the
  three logins redirects, over HTTPS, to its provider with a client id, a state and a callback on the shop
  itself, and sets its state cookie.  Without \<open>--verify-oauth-providers\<close> no provider is blamed.\<close>

theorem storefront_verdict:
  assumes "probe_main h strip elapsed args timeoutEnv baseEnv = Inr (line, code)"
  shows "\<exists>base r. normalizeBaseUrl h strip (or_else baseEnv ''https://tcg.lizstudio.co.kr'') = Inr base
    \<and> r = runProbe h base (''--verify-oauth-providers'' \<in> set args) elapsed
    \<and> map pk_name (pb_checks r) =
        [''catalog'', ''loginPage'', ''checkoutPage'', ''paymentMethods'', ''kakaoLogin'', ''naverLogin'', ''googleLogin'']
    \<and> (code = 0 \<longleftrightarrow> prefix ''healthy '' line)
    \<and> (code = 0 \<longrightarrow> sells h base \<and> takes_payment h base \<and> (\<forall>d\<in>set OAUTH_CHECKS. starts_login h base d))
    \<and> (args = [] \<longrightarrow> \<not> pb_providerFailure r)"
proof -
  let ?v = "''--verify-oauth-providers'' \<in> set args"
  obtain base where b: "normalizeBaseUrl h strip (or_else baseEnv ''https://tcg.lizstudio.co.kr'') = Inr base"
    and l: "line = formatResult (runProbe h base ?v elapsed) ?v" "code = (if pb_ok (runProbe h base ?v elapsed) then 0 else 1)"
    using assms by (simp add: probe_main_def Let_def split: option.splits sum.splits)
  have k: "code = 0 \<longleftrightarrow> pb_ok (runProbe h base ?v elapsed)" using l(2) by simp
  have p: "args = [] \<longrightarrow> \<not> pb_providerFailure (runProbe h base ?v elapsed)" using probe_provider_failure by simp
  show ?thesis
    unfolding l(1) format_healthy k
    by (intro exI [of _ base] exI [of _ "runProbe h base ?v elapsed"] conjI b refl probe_names p impI ballI)
      (erule probe_ok_parts, assumption?)+
qed

text \<open>A shop at which everything works.\<close>

definition sample_answer :: "nat \<Rightarrow> (string \<Rightarrow> string option) \<Rightarrow> string \<Rightarrow> probe_response" where
  "sample_answer status headers body = \<lparr>sr_status = status, sr_headers = headers, sr_body = Inr body, sr_url = []\<rparr>"

definition sample_address :: "string \<Rightarrow> string \<Rightarrow> string \<Rightarrow> params \<Rightarrow> js_url" where
  "sample_address protocol host path ps =
     \<lparr>ul_protocol = protocol, ul_hostname = host, ul_host = host, ul_pathname = path, ul_searchParams = ps, ul_href = path\<rparr>"

definition sample_parse :: parse_url where
  "sample_parse tx =
     (case find (\<lambda>d. oc_name d = tx) OAUTH_CHECKS of
        Some d \<Rightarrow> Some (sample_address ''https:'' (oc_hostname d) (oc_pathname d)
                    [(''client_id'', ''c''), (''state'', ''s''), (''redirect_uri'', oc_callbackPath d)])
      | None \<Rightarrow> Some (sample_address ''https:'' ''shop'' tx []))"

definition sample_products :: json where
  "sample_products =
     JObj [(''products'', JArr [JObj [(''slug'', JStr ''a''), (''variants'', JArr [JObj [(''price'', JNum (Num (of_nat 5)))]])]])]"

definition sample_fetch :: "string \<Rightarrow> string + probe_response" where
  "sample_fetch path =
     (case find (\<lambda>d. oc_path d = path) OAUTH_CHECKS of
        Some d \<Rightarrow> Inr (sample_answer 302 [''location'' \<mapsto> oc_name d, ''set-cookie'' \<mapsto> oc_stateCookie d] [])
      | None \<Rightarrow>
          if path = ''/api/products?limit=20&page=1'' then
            Inr (sample_answer 200 Map.empty (json_text [] [] sample_products))
          else if path = ''/api/payment-methods'' then
            Inr (sample_answer 200 Map.empty ''{\"paymentMethods\":[{\"isActive\":true,\"provider\":\"PORTONE\"}]}'')
          else Inr (sample_answer 200 [''content-type'' \<mapsto> ''text/html''] (txt_sp_list @ txt_sp_terms @ txt_sp_login @ txt_sp_pay)))"

definition sample_shop :: probe_host where
  "sample_shop = \<lparr>sh_url = sample_parse, sh_resolve = (\<lambda>path base. path), sh_fetch = (\<lambda>url follow. sample_fetch url)\<rparr>"

abbreviation sample_base :: js_url where
  "sample_base \<equiv> sample_address ''https:'' ''shop'' ''https://tcg.lizstudio.co.kr'' []"

lemma sample_payment: "checkPaymentMethods sample_shop sample_base = Inr ''payment-methods-ready''"
  by code_simp

lemma sample_logins: "map (checkOAuth sample_shop sample_base False) OAUTH_CHECKS = replicate 3 (Inr ''oauth-redirect-ready'')"
  by code_simp

lemma sample_shop_pages:
  "assertHtml sample_shop sample_base ''/login'' [txt_sp_login] = Inr ()"
  "assertHtml sample_shop sample_base ''/checkout'' [txt_sp_loading, txt_sp_pay, txt_sp_empty] = Inr ()"
  by code_simp+

lemma sample_catalog: "checkCatalog sample_shop sample_base = Inr ''catalog-1''"
proof -
  have p: "json_parse (json_text [] [] sample_products) = Some sample_products"
    by (rule json_roundtrip) (auto simp: sample_products_def obj_entries_plain index_key_def is_digit_def intro!: exI [of _ 5])
  have f: "probe_request sample_shop (sh_resolve sample_shop ''/api/products?limit=20&page=1'' sample_base) False =
      Inr (sample_answer 200 Map.empty (json_text [] [] sample_products))"
    by (simp add: probe_request_def sample_shop_def sample_fetch_def OAUTH_CHECKS_def)
  have a: "array_of (json_field ''products'' sample_products) =
      [JObj [(''slug'', JStr ''a''), (''variants'', JArr [JObj [(''price'', JNum (Num (of_nat 5)))]])]]"
    by code_simp
  have c: "check_products (array_of (json_field ''products'' sample_products)) = Inr ()" "0 < length (array_of (json_field ''products'' sample_products))"
    "encodeURIComponent (first_slug (array_of (json_field ''products'' sample_products))) = ''a''"
    "show_nat (length (array_of (json_field ''products'' sample_products))) = ''1''"
    by code_simp+
  have h: "assertHtml sample_shop sample_base ''/products'' [txt_sp_list] = Inr ()" "assertHtml sample_shop sample_base ''/p/a'' [txt_sp_terms] = Inr ()"
    by code_simp+
  have r: "response_json (sample_answer 200 Map.empty (json_text [] [] sample_products)) = Inr sample_products"
    by (simp add: response_json_def response_text_def sample_answer_def p)
  have "sr_status (sample_answer 200 Map.empty (json_text [] [] sample_products)) = 200" by (simp add: sample_answer_def)
  then show ?thesis using c h
    by (simp add: checkCatalog_def f r and_then_def ensure_def Let_def)
qed

lemma sample_main:
  "normalizeBaseUrl sample_shop id (or_else None ''https://tcg.lizstudio.co.kr'') = Inr sample_base" "probe_timeout None = Inr 10000"
  by code_simp+

lemma sample_checks: "pb_ok (runProbe sample_shop sample_base False 7)"
proof -
  have "\<forall>d\<in>set OAUTH_CHECKS. checkOAuth sample_shop sample_base False d = Inr ''oauth-redirect-ready''"
    using sample_logins unfolding OAUTH_CHECKS_def by (simp add: numeral_3_eq_3)
  then show ?thesis
    by (simp add: runProbe_def probe_checks_def Let_def runCheck_ok sample_catalog sample_payment sample_shop_pages and_then_def list_all_iff)
qed

lemma sample_shop_run:
  "probe_main sample_shop id 7 [] None None = Inr (formatResult (runProbe sample_shop sample_base False 7) False, 0)"
  using sample_main sample_checks by (simp add: probe_main_def Let_def)

theorem storefront_verdict_witness:
  "\<exists>base. sells sample_shop base \<and> takes_payment sample_shop base \<and> list_all (starts_login sample_shop base) OAUTH_CHECKS"
  using storefront_verdict [OF sample_shop_run] by (auto simp: list_all_iff)

end
