(* ===== verification/Cdp_Client.thy ===== *)
theory Cdp_Client
  imports JS_Json Ui_Text_Pages
begin

text \<open>
  The client of the browser's debugging protocol (\<open>CdpClient\<close> of \<open>scripts/smoke-browser-cdp.mjs\<close>), with
  which every browser check speaks: commands are answered by id, events are handed to the oldest waiter.
  The promises of \<open>send\<close> and \<open>waitFor\<close> are named by numbers in the order of the calls; the state keeps how
  each was settled.  A promise is settled once: what comes later has no effect, as the language has it.

  The client is a state machine whose steps are calls of the program, messages of the browser and timers.
\<close>

section \<open>State\<close>

datatype settled = Resolved json | Rejected string

text \<open>
  \<open>cp_promises\<close> gives the outcome of a promise; \<open>cp_created\<close> the number of promises so far.  A waiter is
  its promise, with its timer; \<open>cp_timers\<close> are the timers that have not been cleared, with their texts.
\<close>

record cdp =
  cp_nextId :: nat
  cp_pending :: "(nat \<times> nat) list"
  cp_events :: "string \<Rightarrow> nat list"
  cp_timers :: "(nat \<times> string) list"
  cp_sent :: "(nat \<times> string \<times> json) list"
  cp_created :: nat
  cp_promises :: "nat \<Rightarrow> settled option"

definition cdp_init :: cdp where
  "cdp_init =
     \<lparr>cp_nextId = 1, cp_pending = [], cp_events = (\<lambda>_. []), cp_timers = [], cp_sent = [], cp_created = 0,
      cp_promises = (\<lambda>_. None)\<rparr>"

definition settle_promise :: "nat \<Rightarrow> settled \<Rightarrow> cdp \<Rightarrow> cdp" where
  "settle_promise p v s = (if cp_promises s p = None then s\<lparr>cp_promises := (cp_promises s)(p := Some v)\<rparr> else s)"

section \<open>Operations\<close>

definition cdp_send :: "string \<Rightarrow> json \<Rightarrow> cdp \<Rightarrow> cdp" where
  "cdp_send name params s =
     s\<lparr>cp_nextId := Suc (cp_nextId s), cp_sent := cp_sent s @ [(cp_nextId s, name, params)],
       cp_pending := cp_pending s @ [(cp_nextId s, cp_created s)], cp_created := Suc (cp_created s)\<rparr>"

definition waitFor :: "string \<Rightarrow> cdp \<Rightarrow> cdp" where
  "waitFor name s =
     s\<lparr>cp_timers := cp_timers s @ [(cp_created s, name @ txt_cd_timeout)],
       cp_events := (cp_events s)(name := cp_events s name @ [cp_created s]), cp_created := Suc (cp_created s)\<rparr>"

text \<open>A timer fires: its promise is rejected; its waiter stays in the list.\<close>

definition timer_fires :: "nat \<Rightarrow> cdp \<Rightarrow> cdp" where
  "timer_fires p s =
     (case map_of (cp_timers s) p of
        None \<Rightarrow> s
      | Some message \<Rightarrow>
          settle_promise p (Rejected message) (s\<lparr>cp_timers := filter (\<lambda>t. fst t \<noteq> p) (cp_timers s)\<rparr>))"

text \<open>
  A message of the browser, after \<open>JSON.parse\<close>: an answer with its id (\<open>message.id\<close> is truthy, so not
  0), the message of its error, if any, and its result; or an event.
\<close>

datatype cdp_message =
    Answer nat "string option" "json option"
  | Event string "json option"

definition handleMessage :: "cdp_message \<Rightarrow> cdp \<Rightarrow> cdp" where
  "handleMessage message s =
     (case message of
        Answer i err result \<Rightarrow>
          (case map_of (cp_pending s) i of
             None \<Rightarrow> s
           | Some p \<Rightarrow>
               settle_promise p
                 (case err of Some e \<Rightarrow> Rejected e | None \<Rightarrow> Resolved (default_to (JObj []) result))
                 (s\<lparr>cp_pending := filter (\<lambda>q. fst q \<noteq> i) (cp_pending s)\<rparr>))
      | Event name params \<Rightarrow>
          (case cp_events s name of
             [] \<Rightarrow> s
           | p # ps \<Rightarrow>
               settle_promise p (Resolved (default_to (JObj []) params))
                 (s\<lparr>cp_events := (cp_events s)(name := ps), cp_timers := filter (\<lambda>t. fst t \<noteq> p) (cp_timers s)\<rparr>)))"

inductive cdp_step :: "cdp \<Rightarrow> cdp \<Rightarrow> bool" where
  send: "cdp_step s (cdp_send name params s)"
| wait: "cdp_step s (waitFor name s)"
| message: "cdp_step s (handleMessage m s)"
| timer: "cdp_step s (timer_fires p s)"

inductive cdp_reach :: "cdp \<Rightarrow> bool" where
  init: "cdp_reach cdp_init"
| step: "cdp_reach s \<Longrightarrow> cdp_step s t \<Longrightarrow> cdp_reach t"

inductive_cases cdp_stepE: "cdp_step s t"

section \<open>Evaluation in the page\<close>

text \<open>\<open>evaluateInSmokePage\<close> on the answer of \<open>Runtime.evaluate\<close>: the value, or the error that is thrown.
  An answer without a result object is a \<open>TypeError\<close> of the script.\<close>

definition truthy_json :: "json option \<Rightarrow> bool" where
  "truthy_json v =
     (case v of
        None \<Rightarrow> False
      | Some j \<Rightarrow> \<not> (j = JNull \<or> j = JBool False \<or> j = JNum (Num 0) \<or> j = JNum NaN \<or> j = JStr []))"

definition evaluateInSmokePage :: "json \<Rightarrow> string + json option" where
  "evaluateInSmokePage response =
     (case json_field ''exceptionDetails'' response of
        Some details \<Rightarrow>
          if truthy_json (Some details) then Inl (or_else (json_string (json_field ''text'' details)) txt_cd_evaluate)
          else (case json_field ''result'' response of
                  None \<Rightarrow> Inl ''TypeError'' | Some JNull \<Rightarrow> Inl ''TypeError'' | Some r \<Rightarrow> Inr (json_field ''value'' r))
      | None \<Rightarrow>
          (case json_field ''result'' response of
             None \<Rightarrow> Inl ''TypeError'' | Some JNull \<Rightarrow> Inl ''TypeError'' | Some r \<Rightarrow> Inr (json_field ''value'' r)))"

section \<open>The invariant\<close>

text \<open>
  Ids are never used twice; a pending command has a promise of its own that is unsettled; a waiter has a
  promise of its own, and a running timer belongs to a waiter that is unsettled.
\<close>

definition waiting :: "cdp \<Rightarrow> nat set" where
  "waiting s = (\<Union>m. set (cp_events s m))"

definition ids_inv :: "cdp \<Rightarrow> bool" where
  "ids_inv s =
     (distinct (map fst (cp_sent s)) \<and> (\<forall>i\<in>fst ` set (cp_sent s). 0 < i \<and> i < cp_nextId s) \<and> 0 < cp_nextId s \<and>
      distinct (map fst (cp_pending s)) \<and> fst ` set (cp_pending s) \<subseteq> fst ` set (cp_sent s))"

definition promises_inv :: "cdp \<Rightarrow> bool" where
  "promises_inv s =
     (distinct (map snd (cp_pending s)) \<and>
      snd ` set (cp_pending s) \<union> waiting s \<union> dom (cp_promises s) \<subseteq> {..<cp_created s} \<and>
      snd ` set (cp_pending s) \<inter> (waiting s \<union> dom (cp_promises s)) = {} \<and>
      fst ` set (cp_timers s) \<subseteq> waiting s - dom (cp_promises s) \<and>
      (\<forall>m. distinct (cp_events s m)) \<and>
      (\<forall>m n. m \<noteq> n \<longrightarrow> set (cp_events s m) \<inter> set (cp_events s n) = {}))"

lemma settle_simps [simp]:
  "cp_nextId (settle_promise p v s) = cp_nextId s" "cp_pending (settle_promise p v s) = cp_pending s"
  "cp_events (settle_promise p v s) = cp_events s" "cp_timers (settle_promise p v s) = cp_timers s"
  "cp_sent (settle_promise p v s) = cp_sent s" "cp_created (settle_promise p v s) = cp_created s"
  "dom (cp_promises (settle_promise p v s)) = insert p (dom (cp_promises s))"
  "waiting (settle_promise p v s) = waiting s"
  by (auto simp: settle_promise_def waiting_def)

lemma ids_fresh: "ids_inv s \<Longrightarrow> cp_nextId s \<notin> fst ` set (cp_sent s) \<and> cp_nextId s \<notin> fst ` set (cp_pending s)"
  unfolding ids_inv_def by blast

lemma ids_send: "ids_inv s \<Longrightarrow> ids_inv (cdp_send name params s)"
proof -
  assume i: "ids_inv s"
  have b: "\<forall>k\<in>fst ` set (cp_sent s). 0 < k \<and> k < Suc (cp_nextId s)" using i unfolding ids_inv_def by (blast intro: less_SucI)
  have f: "fst ` set (cp_pending s) \<subseteq> insert (cp_nextId s) (fst ` set (cp_sent s))" using i unfolding ids_inv_def by blast
  show ?thesis using i ids_fresh [OF i] b f by (simp add: ids_inv_def cdp_send_def)
qed

lemma ids_message: "ids_inv s \<Longrightarrow> ids_inv (handleMessage m s)"
proof -
  assume i: "ids_inv s"
  have d: "distinct (map fst (filter (\<lambda>q. fst q \<noteq> k) (cp_pending s)))" for k
    using i by (simp add: ids_inv_def distinct_map_filter)
  have f: "fst ` set (filter (\<lambda>q. fst q \<noteq> k) (cp_pending s)) \<subseteq> fst ` set (cp_sent s)" for k
    using i unfolding ids_inv_def by (meson filter_is_subset image_mono order_trans)
  have c: "cp_sent (handleMessage m s) = cp_sent s" "cp_nextId (handleMessage m s) = cp_nextId s"
    by (simp_all add: handleMessage_def split: cdp_message.split option.split list.split)
  have "cp_pending (handleMessage m s) = cp_pending s \<or> (\<exists>k. cp_pending (handleMessage m s) = filter (\<lambda>q. fst q \<noteq> k) (cp_pending s))"
    by (auto simp add: handleMessage_def split: cdp_message.split option.split list.split)
  then have "distinct (map fst (cp_pending (handleMessage m s)))" "fst ` set (cp_pending (handleMessage m s)) \<subseteq> fst ` set (cp_sent s)"
    using i d f unfolding ids_inv_def by metis+
  then show ?thesis using i by (simp add: ids_inv_def c)
qed

lemma ids_step: "ids_inv s \<Longrightarrow> cdp_step s t \<Longrightarrow> ids_inv t"
proof (erule cdp_stepE)
  fix name assume "ids_inv s" "t = waitFor name s"
  then show "ids_inv t" by (simp add: ids_inv_def waitFor_def)
next
  fix p assume "ids_inv s" "t = timer_fires p s"
  then show "ids_inv t" by (cases "map_of (cp_timers s) p") (simp_all add: ids_inv_def timer_fires_def)
qed (simp_all add: ids_send ids_message)

lemma promises_invI:
  assumes "distinct (map snd (cp_pending s))" "snd ` set (cp_pending s) \<union> waiting s \<union> dom (cp_promises s) \<subseteq> {..<cp_created s}"
    "snd ` set (cp_pending s) \<inter> (waiting s \<union> dom (cp_promises s)) = {}"
    "fst ` set (cp_timers s) \<subseteq> waiting s - dom (cp_promises s)" "\<And>m. distinct (cp_events s m)"
    "\<And>m n. m \<noteq> n \<Longrightarrow> set (cp_events s m) \<inter> set (cp_events s n) = {}"
  shows "promises_inv s"
  using assms unfolding promises_inv_def by simp

lemma promises_invD:
  assumes "promises_inv s"
  shows "distinct (map snd (cp_pending s))" "snd ` set (cp_pending s) \<union> waiting s \<union> dom (cp_promises s) \<subseteq> {..<cp_created s}"
    "snd ` set (cp_pending s) \<inter> (waiting s \<union> dom (cp_promises s)) = {}"
    "fst ` set (cp_timers s) \<subseteq> waiting s - dom (cp_promises s)" "distinct (cp_events s m)"
    "m \<noteq> n \<Longrightarrow> set (cp_events s m) \<inter> set (cp_events s n) = {}"
  using assms unfolding promises_inv_def by simp_all

lemma created_fresh:
  assumes "promises_inv s"
  shows "cp_created s \<notin> waiting s" "cp_created s \<notin> dom (cp_promises s)" "cp_created s \<notin> snd ` set (cp_pending s)"
    "cp_created s \<notin> set (cp_events s m)"
proof -
  have b: "waiting s \<subseteq> {..<cp_created s}" "dom (cp_promises s) \<subseteq> {..<cp_created s}"
    "snd ` set (cp_pending s) \<subseteq> {..<cp_created s}"
    using promises_invD(2) [OF assms] by simp_all
  then show w: "cp_created s \<notin> waiting s" and "cp_created s \<notin> dom (cp_promises s)" "cp_created s \<notin> snd ` set (cp_pending s)"
    by blast+
  show "cp_created s \<notin> set (cp_events s m)" using w by (simp add: waiting_def)
qed

lemma promises_send: "promises_inv s \<Longrightarrow> promises_inv (cdp_send name params s)"
proof -
  assume i: "promises_inv s"
  note d = promises_invD [OF i] and f = created_fresh [OF i]
  have w: "waiting (cdp_send name params s) = waiting s" by (simp add: waiting_def cdp_send_def)
  have u: "snd ` set (cp_pending s) \<union> waiting s \<union> dom (cp_promises s) \<subseteq> {..<Suc (cp_created s)}" using d(2) by fastforce
  have r: "cp_events (cdp_send name params s) = cp_events s" "cp_promises (cdp_send name params s) = cp_promises s"
    "cp_timers (cdp_send name params s) = cp_timers s" "cp_created (cdp_send name params s) = Suc (cp_created s)"
    "map snd (cp_pending (cdp_send name params s)) = map snd (cp_pending s) @ [cp_created s]"
    "snd ` set (cp_pending (cdp_send name params s)) = insert (cp_created s) (snd ` set (cp_pending s))"
    by (simp_all add: cdp_send_def)
  show ?thesis
  proof (rule promises_invI, unfold w r)
    show "distinct (map snd (cp_pending s) @ [cp_created s])" using d(1) f(3) by simp
    show "insert (cp_created s) (snd ` set (cp_pending s)) \<union> waiting s \<union> dom (cp_promises s) \<subseteq> {..<Suc (cp_created s)}"
      using u by simp
    show "insert (cp_created s) (snd ` set (cp_pending s)) \<inter> (waiting s \<union> dom (cp_promises s)) = {}" using d(3) f(1,2) by blast
  qed (rule d(4), rule d(5), rule d(6), assumption)
qed

lemma promises_wait: "promises_inv s \<Longrightarrow> promises_inv (waitFor name s)"
proof -
  assume i: "promises_inv s"
  note d = promises_invD [OF i] and f = created_fresh [OF i]
  let ?t = "waitFor name s"
  have w: "waiting ?t = insert (cp_created s) (waiting s)" 
  proof -
    have "set (cp_events ?t m) = set (cp_events s m) \<union> (if m = name then {cp_created s} else {})" for m by (simp add: waitFor_def)
    moreover have "(\<Union>m. if m = name then {cp_created s} else {}) = {cp_created s}" by simp
    ultimately show ?thesis unfolding waiting_def by (simp only: UN_Un_distrib Un_insert_right Un_empty_right)
  qed
  have r: "cp_pending ?t = cp_pending s" "cp_created ?t = Suc (cp_created s)" "cp_promises ?t = cp_promises s"
    "fst ` set (cp_timers ?t) = insert (cp_created s) (fst ` set (cp_timers s))"
    "cp_events ?t m = (if m = name then cp_events s m @ [cp_created s] else cp_events s m)" for m
    by (simp_all add: waitFor_def)
  show ?thesis
  proof (rule promises_invI, unfold w r)
    show "snd ` set (cp_pending s) \<union> insert (cp_created s) (waiting s) \<union> dom (cp_promises s) \<subseteq> {..<Suc (cp_created s)}"
      unfolding lessThan_Suc using d(2) by blast
    show "snd ` set (cp_pending s) \<inter> (insert (cp_created s) (waiting s) \<union> dom (cp_promises s)) = {}" using d(3) f(3) by (simp only: Un_insert_left Int_insert_right_if0 not_False_eq_True)
    show "insert (cp_created s) (fst ` set (cp_timers s)) \<subseteq> insert (cp_created s) (waiting s) - dom (cp_promises s)"
      using d(4) f(2) by blast
    show "distinct (if m = name then cp_events s m @ [cp_created s] else cp_events s m)" for m using d(5) f(4) by simp
    show "set (if m = name then cp_events s m @ [cp_created s] else cp_events s m)
        \<inter> set (if n = name then cp_events s n @ [cp_created s] else cp_events s n) = {}" if "m \<noteq> n" for m n
      using d(6) [OF that] f(4) that by auto
  qed (rule d(1))
qed

lemma promises_answer:
  assumes i: "promises_inv s"
  shows "promises_inv (handleMessage (Answer k err result) s)"
proof (cases "map_of (cp_pending s) k")
  case (Some p)
  then have m: "(k, p) \<in> set (cp_pending s)" by (rule map_of_SomeD)
  let ?s = "s\<lparr>cp_pending := filter (\<lambda>q. fst q \<noteq> k) (cp_pending s)\<rparr>"
  let ?t = "handleMessage (Answer k err result) s"
  have w: "waiting ?t = waiting s" by (simp add: handleMessage_def Some waiting_def)
  have d: "dom (cp_promises ?t) = insert p (dom (cp_promises s))" by (simp add: handleMessage_def Some)
  note ob = promises_invD [OF i]
  have c: "cp_pending ?t = filter (\<lambda>q. fst q \<noteq> k) (cp_pending s)" by (simp add: handleMessage_def Some)
  have q: "snd ` set (cp_pending ?t) \<subseteq> snd ` set (cp_pending s) - {p}"
  proof
    fix x assume "x \<in> snd ` set (cp_pending ?t)"
    then obtain j where j: "(j, x) \<in> set (cp_pending s)" "j \<noteq> k" unfolding c by auto
    have "x \<noteq> p"
    proof
      assume "x = p"
      with j(1) m ob(1) have "(j, x) = (k, p)" unfolding distinct_map by (metis inj_on_eq_iff snd_conv)
      with j(2) show False by simp
    qed
    with j show "x \<in> snd ` set (cp_pending s) - {p}" by force
  qed
  have p: "p \<in> snd ` set (cp_pending s)" using m by force
  have r: "cp_timers ?t = cp_timers s" "cp_events ?t = cp_events s" "cp_created ?t = cp_created s"
    by (simp_all add: handleMessage_def Some)
  have tp: "p \<notin> waiting s" using ob(3) p by blast
  show ?thesis
  proof (rule promises_invI, unfold w d r)
    show "distinct (map snd (cp_pending ?t))" using ob(1) by (simp add: c distinct_map_filter)
    show "snd ` set (cp_pending ?t) \<union> waiting s \<union> insert p (dom (cp_promises s)) \<subseteq> {..<cp_created s}" using ob(2) p q by blast
    show "snd ` set (cp_pending ?t) \<inter> (waiting s \<union> insert p (dom (cp_promises s))) = {}" using ob(3) q by blast
    show "fst ` set (cp_timers s) \<subseteq> waiting s - insert p (dom (cp_promises s))" using ob(4) tp by blast
  qed (rule ob(5), rule ob(6), assumption)
next
  case None
  then show ?thesis using i by (simp add: handleMessage_def)
qed

lemma promises_event:
  assumes i: "promises_inv s"
  shows "promises_inv (handleMessage (Event name params) s)"
proof (cases "cp_events s name")
  case (Cons p ps)
  let ?t = "handleMessage (Event name params) s"
  have p: "p \<in> waiting s" using Cons by (auto simp: waiting_def intro!: exI [of _ name])
  have other: "p \<notin> set (cp_events s n)" if "n \<noteq> name" for n
    using promises_invD(6) [OF i that] Cons by auto
  have "p \<notin> set ps" using promises_invD(5) [OF i, of name] Cons by simp
  then have w: "waiting ?t = waiting s - {p}"
  proof -
    have "set (cp_events ?t m) = set (cp_events s m) - {p}" for m
      using Cons other \<open>p \<notin> set ps\<close> by (cases "m = name") (auto simp: handleMessage_def)
    then show ?thesis unfolding waiting_def by blast
  qed
  have d: "dom (cp_promises ?t) = insert p (dom (cp_promises s))" by (simp add: handleMessage_def Cons)
  have r: "cp_pending ?t = cp_pending s" "cp_created ?t = cp_created s" "cp_events ?t = (cp_events s)(name := ps)"
    "cp_timers ?t = filter (\<lambda>t. fst t \<noteq> p) (cp_timers s)"
    by (simp_all add: handleMessage_def Cons)
  have e2: "set (((cp_events s)(name := ps)) m) \<subseteq> set (cp_events s m)" for m using Cons by auto
  note ob = promises_invD [OF i]
  have tp: "p \<notin> snd ` set (cp_pending s)" using ob(3) p by blast
  show ?thesis
  proof (rule promises_invI, unfold w d r)
    show "snd ` set (cp_pending s) \<union> (waiting s - {p}) \<union> insert p (dom (cp_promises s)) \<subseteq> {..<cp_created s}" using ob(2) p by blast
    show "snd ` set (cp_pending s) \<inter> (waiting s - {p} \<union> insert p (dom (cp_promises s))) = {}" using ob(3) tp by blast
    show "fst ` set (filter (\<lambda>t. fst t \<noteq> p) (cp_timers s)) \<subseteq> waiting s - {p} - insert p (dom (cp_promises s))" using ob(4) by auto
    show "distinct (((cp_events s)(name := ps)) m)" for m using ob(5) [of m] Cons by auto
    show "set (((cp_events s)(name := ps)) m) \<inter> set (((cp_events s)(name := ps)) n) = {}" if "m \<noteq> n" for m n
      using ob(6) [OF that] e2 by blast
  qed (rule ob(1))
next
  case Nil
  then show ?thesis using i by (simp add: handleMessage_def)
qed

lemma promises_timer:
  assumes i: "promises_inv s"
  shows "promises_inv (timer_fires p s)"
proof (cases "map_of (cp_timers s) p")
  case (Some message)
  then have m: "p \<in> fst ` set (cp_timers s)" by (force dest: map_of_SomeD)
  let ?t = "timer_fires p s"
  have r: "cp_pending ?t = cp_pending s" "cp_created ?t = cp_created s" "cp_events ?t = cp_events s" "waiting ?t = waiting s"
    "cp_timers ?t = filter (\<lambda>t. fst t \<noteq> p) (cp_timers s)" "dom (cp_promises ?t) = insert p (dom (cp_promises s))"
    by (simp_all add: timer_fires_def Some waiting_def)
  note ob = promises_invD [OF i]
  have p: "p \<in> waiting s" "p \<notin> snd ` set (cp_pending s)" using ob(3,4) m by blast+
  show ?thesis
  proof (rule promises_invI, unfold r)
    show "snd ` set (cp_pending s) \<union> waiting s \<union> insert p (dom (cp_promises s)) \<subseteq> {..<cp_created s}" using ob(2) p by blast
    show "snd ` set (cp_pending s) \<inter> (waiting s \<union> insert p (dom (cp_promises s))) = {}" using ob(3) p by blast
    show "fst ` set (filter (\<lambda>t. fst t \<noteq> p) (cp_timers s)) \<subseteq> waiting s - insert p (dom (cp_promises s))" using ob(4) by auto
  qed (rule ob(1), rule ob(5), rule ob(6), assumption)
next
  case None
  then show ?thesis using i by (simp add: timer_fires_def)
qed

lemma promises_step: "promises_inv s \<Longrightarrow> cdp_step s t \<Longrightarrow> promises_inv t"
proof (erule cdp_stepE)
  fix m assume "promises_inv s" "t = handleMessage m s"
  then show "promises_inv t" by (cases m) (simp_all add: promises_answer promises_event)
qed (simp_all add: promises_send promises_wait promises_timer)

lemma cdp_reach_inv: "cdp_reach s \<Longrightarrow> ids_inv s \<and> promises_inv s"
proof (induction rule: cdp_reach.induct)
  case init
  show ?case by (simp add: ids_inv_def promises_inv_def cdp_init_def waiting_def)
next
  case (step s t)
  then show ?case by (blast intro: ids_step promises_step)
qed

text \<open>A settled promise stays as it is.\<close>

lemma settled_stays: "cdp_step s t \<Longrightarrow> cp_promises s p = Some v \<Longrightarrow> cp_promises t p = Some v"
  proof -
  assume t: "cdp_step s t" and v: "cp_promises s p = Some v"
  have k: "cp_promises (settle_promise q w r) p = Some v" if "cp_promises r p = Some v" for q w r
    using that by (auto simp: settle_promise_def)
  from t show ?thesis
    by (cases rule: cdp_step.cases)
      (simp_all add: cdp_send_def waitFor_def handleMessage_def timer_fires_def k v split: cdp_message.split option.split list.split)
qed

text \<open>A waiter without a running timer has been settled: by its timer.\<close>

definition waiters_inv :: "cdp \<Rightarrow> bool" where
  "waiters_inv s = (waiting s \<subseteq> fst ` set (cp_timers s) \<union> dom (cp_promises s))"

lemma waiting_wait: "waiting (waitFor name s) = insert (cp_created s) (waiting s)"
proof -
  have "set (cp_events (waitFor name s) m) = set (cp_events s m) \<union> (if m = name then {cp_created s} else {})" for m
    by (simp add: waitFor_def)
  moreover have "(\<Union>m. if m = name then {cp_created s} else {}) = {cp_created s}" by simp
  ultimately show ?thesis unfolding waiting_def by (simp only: UN_Un_distrib Un_insert_right Un_empty_right)
qed

lemma waiters_event:
  assumes "waiters_inv s"
  shows "waiters_inv (handleMessage (Event m params) s)"
proof (cases "cp_events s m")
  case (Cons p ps)
  let ?t = "handleMessage (Event m params) s"
  have e: "cp_events ?t = (cp_events s)(m := ps)" "cp_timers ?t = filter (\<lambda>t. fst t \<noteq> p) (cp_timers s)"
    "dom (cp_promises ?t) = insert p (dom (cp_promises s))"
    by (simp_all add: handleMessage_def Cons)
  have "set (((cp_events s)(m := ps)) n) \<subseteq> waiting s" for n
  proof -
    have "set (((cp_events s)(m := ps)) n) \<subseteq> set (cp_events s n)" using Cons by auto
    then show ?thesis unfolding waiting_def by blast
  qed
  then have "waiting ?t \<subseteq> waiting s" unfolding waiting_def [of ?t] e by blast
  moreover have "fst ` set (cp_timers s) \<subseteq> insert p (fst ` set (cp_timers ?t))" by (auto simp: e)
  ultimately show ?thesis using assms unfolding waiters_inv_def e by blast
qed (use assms in \<open>simp add: handleMessage_def\<close>)

lemma waiters_step: "waiters_inv s \<Longrightarrow> cdp_step s t \<Longrightarrow> waiters_inv t"
proof (erule cdp_stepE)
  fix name params assume "waiters_inv s" "t = cdp_send name params s"
  then show "waiters_inv t" by (simp add: waiters_inv_def waiting_def cdp_send_def)
next
  fix name assume "waiters_inv s" "t = waitFor name s"
  then show "waiters_inv t" unfolding waiters_inv_def by (simp only: waiting_wait) (auto simp: waitFor_def)
next
  fix m assume i: "waiters_inv s" "t = handleMessage m s"
  then show "waiters_inv t"
  proof (cases m)
    case (Answer k err result)
    then show ?thesis using i
      by (cases "map_of (cp_pending s) k") (auto simp: waiters_inv_def handleMessage_def waiting_def settle_promise_def)
  qed (simp add: waiters_event)
next
  fix p assume i: "waiters_inv s" "t = timer_fires p s"
  then show "waiters_inv t"
    by (cases "map_of (cp_timers s) p") (auto simp: waiters_inv_def timer_fires_def waiting_def settle_promise_def image_iff)
qed

lemma cdp_reach_waiters: "cdp_reach s \<Longrightarrow> waiters_inv s"
proof (induction rule: cdp_reach.induct)
  case init
  show ?case by (simp add: waiters_inv_def cdp_init_def waiting_def)
qed (rule waiters_step)

section \<open>Pairing\<close>

lemma event_outcome:
  assumes "promises_inv s" "waiters_inv s" "cp_events s m = p # ps"
  shows "cp_promises (handleMessage (Event m params) s) =
    (if p \<in> fst ` set (cp_timers s) then (cp_promises s)(p := Some (Resolved (default_to (JObj []) params)))
     else cp_promises s)"
proof -
  have "p \<in> set (cp_events s m)" using assms(3) by simp
  then have "p \<in> waiting s" unfolding waiting_def by blast
  then have "p \<in> fst ` set (cp_timers s) \<longleftrightarrow> cp_promises s p = None"
    using promises_invD(4) [OF assms(1)] assms(2) by (auto simp: waiters_inv_def)
  then show ?thesis using assms(3) by (simp add: handleMessage_def settle_promise_def)
qed

lemma timer_outcome:
  assumes "promises_inv s" "(p, message) \<in> set (cp_timers s)"
  shows "\<exists>w. cp_promises (timer_fires p s) = (cp_promises s)(p := Some (Rejected w)) \<and> (p, w) \<in> set (cp_timers s)"
proof -
  have "p \<in> fst ` set (cp_timers s)" using assms(2) by force
  then obtain w where w: "map_of (cp_timers s) p = Some w" "(p, w) \<in> set (cp_timers s)"
    using assms(2) by (meson map_of_SomeD weak_map_of_SomeI)
  have "cp_promises s p = None" using promises_invD(4) [OF assms(1)] \<open>p \<in> fst ` set (cp_timers s)\<close> by blast
  then show ?thesis using w by (intro exI [of _ w]) (simp add: timer_fires_def settle_promise_def)
qed

text \<open>C35. Answers find their commands.  In every reachable state of the protocol client a new command gets an
  id that no command had before; an answer with the id of a pending command settles the promise of exactly
  this command, with its result or its error, and nothing else, and a second answer with the same id has no
  effect; an event is taken by the oldest listed waiter of its method, which leaves the list: if its timer still
  runs, the event resolves it and nothing else, and if it has timed out, the event is lost and settles nothing;
  an event without a waiter changes nothing; and a running timer rejects its own waiter and nothing else.\<close>

theorem cdp_pairing:
  assumes "cdp_reach s"
  shows "cp_nextId s \<notin> fst ` set (cp_sent s)
    \<and> (\<forall>i p. (i, p) \<in> set (cp_pending s) \<longrightarrow>
          (let t = handleMessage (Answer i err result) s in
           cp_promises t = (cp_promises s)(p := Some (case err of Some e \<Rightarrow> Rejected e | None \<Rightarrow> Resolved (default_to (JObj []) result)))
           \<and> handleMessage (Answer i err' result') t = t))
    \<and> (\<forall>m. let t = handleMessage (Event m params) s in
          (case cp_events s m of
             [] \<Rightarrow> t = s
           | p # ps \<Rightarrow>
               cp_events t = (cp_events s)(m := ps) \<and> p \<notin> fst ` set (cp_timers t) \<and>
               cp_promises t =
                 (if p \<in> fst ` set (cp_timers s) then (cp_promises s)(p := Some (Resolved (default_to (JObj []) params)))
                  else cp_promises s)))
    \<and> (\<forall>p message. (p, message) \<in> set (cp_timers s) \<longrightarrow>
          (\<exists>w. cp_promises (timer_fires p s) = (cp_promises s)(p := Some (Rejected w)) \<and> (p, w) \<in> set (cp_timers s)))"
proof (intro conjI allI impI)
  have i: "ids_inv s" "promises_inv s" using cdp_reach_inv [OF assms] by simp_all
  show "cp_nextId s \<notin> fst ` set (cp_sent s)" using i(1) unfolding ids_inv_def by blast
  fix k p assume m: "(k, p) \<in> set (cp_pending s)"
  then have f: "map_of (cp_pending s) k = Some p" using i(1) by (simp add: ids_inv_def)
  have n: "cp_promises s p = None"
  proof -
    have "p \<in> snd ` set (cp_pending s)" using m by force
    then have "p \<notin> dom (cp_promises s)" using promises_invD(3) [OF i(2)] by blast
    then show ?thesis by blast
  qed
  have g: "map_of (filter (\<lambda>q. fst q \<noteq> k) (cp_pending s)) k = None" by (auto simp: map_of_eq_None_iff)
  show "let t = handleMessage (Answer k err result) s in
      cp_promises t = (cp_promises s)(p := Some (case err of Some e \<Rightarrow> Rejected e | None \<Rightarrow> Resolved (default_to (JObj []) result)))
      \<and> handleMessage (Answer k err' result') t = t"
    using n g by (simp add: handleMessage_def f settle_promise_def Let_def)
next
  have i: "promises_inv s" "waiters_inv s" using cdp_reach_inv [OF assms] cdp_reach_waiters [OF assms] by simp_all
  fix m
  show "let t = handleMessage (Event m params) s in
      (case cp_events s m of
         [] \<Rightarrow> t = s
       | p # ps \<Rightarrow>
           cp_events t = (cp_events s)(m := ps) \<and> p \<notin> fst ` set (cp_timers t) \<and>
           cp_promises t =
             (if p \<in> fst ` set (cp_timers s) then (cp_promises s)(p := Some (Resolved (default_to (JObj []) params)))
              else cp_promises s))"
  proof (cases "cp_events s m")
    case (Cons p ps)
    then have "cp_events (handleMessage (Event m params) s) = (cp_events s)(m := ps)"
      "p \<notin> fst ` set (cp_timers (handleMessage (Event m params) s))"
      by (auto simp: handleMessage_def)
    then show ?thesis using Cons event_outcome [OF i Cons] by (simp add: Let_def)
  qed (simp add: handleMessage_def)
next
  fix p message assume "(p, message) \<in> set (cp_timers s)"
  then show "\<exists>w. cp_promises (timer_fires p s) = (cp_promises s)(p := Some (Rejected w)) \<and> (p, w) \<in> set (cp_timers s)"
    using timer_outcome cdp_reach_inv [OF assms] by blast
qed

definition sample_cdp :: cdp where
  "sample_cdp = waitFor ''Page.loadEventFired'' (cdp_send ''Runtime.enable'' (JObj []) (cdp_send ''Page.enable'' (JObj []) cdp_init))"

lemma sample_cdp_reach: "cdp_reach sample_cdp"
  unfolding sample_cdp_def by (intro cdp_reach.step [OF _ cdp_step.wait] cdp_reach.step [OF _ cdp_step.send] cdp_reach.init)

theorem cdp_pairing_witness:
  "cp_promises (handleMessage (Answer 2 None (Some (JBool True))) sample_cdp) 1 = Some (Resolved (JBool True))
   \<and> cp_promises (handleMessage (Answer 2 None (Some (JBool True))) sample_cdp) 0 = None
   \<and> cp_promises (handleMessage (Event ''Page.loadEventFired'' None) sample_cdp) 2 = Some (Resolved (JObj []))
   \<and> cp_promises (handleMessage (Event ''Page.loadEventFired'' None) (timer_fires 2 sample_cdp)) =
       cp_promises (timer_fires 2 sample_cdp)"
proof -
  have s: "(2, 1) \<in> set (cp_pending sample_cdp)" "cp_events sample_cdp ''Page.loadEventFired'' = [2]"
    "2 \<in> fst ` set (cp_timers sample_cdp)" "cp_promises sample_cdp 0 = None"
    by (simp_all add: sample_cdp_def cdp_init_def cdp_send_def waitFor_def)
  have t: "cp_events (timer_fires 2 sample_cdp) ''Page.loadEventFired'' = [2]" "cp_timers (timer_fires 2 sample_cdp) = []"
    by (simp_all add: sample_cdp_def cdp_init_def cdp_send_def waitFor_def timer_fires_def)
  have r: "cdp_reach (timer_fires 2 sample_cdp)" using sample_cdp_reach cdp_step.timer by (rule cdp_reach.step)
  note c = cdp_pairing [OF sample_cdp_reach, of None "Some (JBool True)" None None None]
  have "cp_promises (handleMessage (Event ''Page.loadEventFired'' None) sample_cdp) 2 = Some (Resolved (JObj []))"
    using c [THEN conjunct2, THEN conjunct2, THEN conjunct1, THEN spec, of "''Page.loadEventFired''"] s
    by (simp add: Let_def default_to_def)
  moreover have "cp_promises (handleMessage (Event ''Page.loadEventFired'' None) (timer_fires 2 sample_cdp)) =
      cp_promises (timer_fires 2 sample_cdp)"
    using cdp_pairing [OF r, of None None None None None, THEN conjunct2, THEN conjunct2, THEN conjunct1, THEN spec,
        of "''Page.loadEventFired''"] t
    by (simp add: Let_def)
  moreover have "cp_promises (handleMessage (Answer 2 None (Some (JBool True))) sample_cdp) =
      (cp_promises sample_cdp)(1 := Some (Resolved (JBool True)))"
    using c [THEN conjunct2, THEN conjunct1, rule_format, OF s(1)] by (simp add: Let_def default_to_def)
  ultimately show ?thesis using s(4) by simp
qed

text \<open>A waiter that has timed out stays in its list and takes the next event of its method: the waiter
  behind it misses the event and times out although the event came.\<close>

lemma dead_waiter_takes_event:
  "let s = timer_fires 0 (waitFor m cdp_init);
       t = handleMessage (Event m v) (waitFor m s)
   in cp_promises t 1 = None \<and> cp_events t m = [1] \<and> cp_promises (timer_fires 1 t) 1 = Some (Rejected (m @ txt_cd_timeout))"
  by (simp add: waitFor_def cdp_init_def timer_fires_def settle_promise_def handleMessage_def Let_def)

end
