(* ===== verification/Ui_Text_Scripts.thy ===== *)
theory Ui_Text_Scripts
  imports Main
begin

text \<open>
  The Korean texts of the smoke and exposure scripts and of the failure and history panels, as UTF-8 byte lists.  Each
  name says in English what the text says.
\<close>

definition txt_sc_need :: string where
  "txt_sc_need =
     [CHR 0x54, CHR 0x4D, CHR 0x5F, CHR 0x53, CHR 0x4D, CHR 0x4F, CHR 0x4B, CHR 0x45, CHR 0x5F,
      CHR 0x43, CHR 0x4F, CHR 0x4F, CHR 0x4B, CHR 0x49, CHR 0x45, CHR 0x20, CHR 0xEB, CHR 0x98,
      CHR 0x90, CHR 0xEB, CHR 0x8A, CHR 0x94, CHR 0x20, CHR 0x54, CHR 0x4D, CHR 0x5F, CHR 0x53,
      CHR 0x4D, CHR 0x4F, CHR 0x4B, CHR 0x45, CHR 0x5F, CHR 0x55, CHR 0x53, CHR 0x45, CHR 0x52,
      CHR 0x4E, CHR 0x41, CHR 0x4D, CHR 0x45, CHR 0x2F, CHR 0x54, CHR 0x4D, CHR 0x5F, CHR 0x53,
      CHR 0x4D, CHR 0x4F, CHR 0x4B, CHR 0x45, CHR 0x5F, CHR 0x50, CHR 0x41, CHR 0x53, CHR 0x53,
      CHR 0x57, CHR 0x4F, CHR 0x52, CHR 0x44, CHR 0xEA, CHR 0xB0, CHR 0x80, CHR 0x20, CHR 0xED,
      CHR 0x95, CHR 0x84, CHR 0xEC, CHR 0x9A, CHR 0x94, CHR 0xED, CHR 0x95, CHR 0xA9, CHR 0xEB,
      CHR 0x8B, CHR 0x88, CHR 0xEB, CHR 0x8B, CHR 0xA4]"

definition txt_sc_login_api :: string where
  "txt_sc_login_api =
     [CHR 0xEB, CHR 0xA1, CHR 0x9C, CHR 0xEA, CHR 0xB7, CHR 0xB8, CHR 0xEC, CHR 0x9D, CHR 0xB8,
      CHR 0x20, CHR 0x41, CHR 0x50, CHR 0x49, CHR 0x20]"

definition txt_sc_no_cookie :: string where
  "txt_sc_no_cookie =
     [CHR 0xEB, CHR 0xA1, CHR 0x9C, CHR 0xEA, CHR 0xB7, CHR 0xB8, CHR 0xEC, CHR 0x9D, CHR 0xB8,
      CHR 0x20, CHR 0xEC, CHR 0x9D, CHR 0x91, CHR 0xEB, CHR 0x8B, CHR 0xB5, CHR 0xEC, CHR 0x97,
      CHR 0x90, CHR 0xEC, CHR 0x84, CHR 0x9C, CHR 0x20, CHR 0xEC, CHR 0x84, CHR 0xB8, CHR 0xEC,
      CHR 0x85, CHR 0x98, CHR 0x20, CHR 0xEC, CHR 0xBF, CHR 0xA0, CHR 0xED, CHR 0x82, CHR 0xA4,
      CHR 0xEB, CHR 0xA5, CHR 0xBC, CHR 0x20, CHR 0xEB, CHR 0xB0, CHR 0x9B, CHR 0xEC, CHR 0xA7,
      CHR 0x80, CHR 0x20, CHR 0xEB, CHR 0xAA, CHR 0xBB, CHR 0xED, CHR 0x96, CHR 0x88, CHR 0xEC,
      CHR 0x8A, CHR 0xB5, CHR 0xEB, CHR 0x8B, CHR 0x88, CHR 0xEB, CHR 0x8B, CHR 0xA4]"

definition txt_sc_success_csrf :: string where
  "txt_sc_success_csrf =
     [CHR 0xEC, CHR 0x9B, CHR 0x90, CHR 0xEA, CHR 0xB2, CHR 0xA9, CHR 0x20, CHR 0xEC, CHR 0x8A,
      CHR 0xA4, CHR 0xEB, CHR 0xAA, CHR 0xA8, CHR 0xED, CHR 0x81, CHR 0xAC, CHR 0x20, CHR 0xEC,
      CHR 0x84, CHR 0xB1, CHR 0xEA, CHR 0xB3, CHR 0xB5, CHR 0x20, CHR 0xEA, CHR 0xB8, CHR 0xB0,
      CHR 0xEB, CHR 0xA1, CHR 0x9D, CHR 0xEC, CHR 0x97, CHR 0x90, CHR 0x20, CHR 0xED, CHR 0x95,
      CHR 0x84, CHR 0xEC, CHR 0x9A, CHR 0x94, CHR 0xED, CHR 0x95, CHR 0x9C, CHR 0x20, CHR 0x43,
      CHR 0x53, CHR 0x52, CHR 0x46, CHR 0x20, CHR 0xEC, CHR 0xBF, CHR 0xA0, CHR 0xED, CHR 0x82,
      CHR 0xA4, CHR 0xEA, CHR 0xB0, CHR 0x80, CHR 0x20, CHR 0xEC, CHR 0x97, CHR 0x86, CHR 0xEC,
      CHR 0x8A, CHR 0xB5, CHR 0xEB, CHR 0x8B, CHR 0x88, CHR 0xEB, CHR 0x8B, CHR 0xA4]"

definition txt_sc_success_api :: string where
  "txt_sc_success_api =
     [CHR 0xEC, CHR 0x9B, CHR 0x90, CHR 0xEA, CHR 0xB2, CHR 0xA9, CHR 0x20, CHR 0xEC, CHR 0x8A,
      CHR 0xA4, CHR 0xEB, CHR 0xAA, CHR 0xA8, CHR 0xED, CHR 0x81, CHR 0xAC, CHR 0x20, CHR 0xEC,
      CHR 0x84, CHR 0xB1, CHR 0xEA, CHR 0xB3, CHR 0xB5, CHR 0x20, CHR 0xEA, CHR 0xB8, CHR 0xB0,
      CHR 0xEB, CHR 0xA1, CHR 0x9D, CHR 0x20, CHR 0x41, CHR 0x50, CHR 0x49, CHR 0x20]"

definition txt_sc_status_api :: string where
  "txt_sc_status_api =
     [CHR 0xEA, CHR 0xB4, CHR 0x80, CHR 0xEB, CHR 0xA6, CHR 0xAC, CHR 0xEC, CHR 0x9E, CHR 0x90,
      CHR 0x20, CHR 0xEC, CHR 0xA0, CHR 0x84, CHR 0xEC, CHR 0x9A, CHR 0xA9, CHR 0x20, CHR 0xEC,
      CHR 0xA0, CHR 0x90, CHR 0xEA, CHR 0xB2, CHR 0x80, CHR 0x20, CHR 0xEC, CHR 0x83, CHR 0x81,
      CHR 0xED, CHR 0x83, CHR 0x9C, CHR 0x20, CHR 0x41, CHR 0x50, CHR 0x49, CHR 0x20]"

definition txt_sc_failure_csrf :: string where
  "txt_sc_failure_csrf =
     [CHR 0xEC, CHR 0x9B, CHR 0x90, CHR 0xEA, CHR 0xB2, CHR 0xA9, CHR 0x20, CHR 0xEC, CHR 0x8A,
      CHR 0xA4, CHR 0xEB, CHR 0xAA, CHR 0xA8, CHR 0xED, CHR 0x81, CHR 0xAC, CHR 0x20, CHR 0xEC,
      CHR 0x8B, CHR 0xA4, CHR 0xED, CHR 0x8C, CHR 0xA8, CHR 0x20, CHR 0xEA, CHR 0xB8, CHR 0xB0,
      CHR 0xEB, CHR 0xA1, CHR 0x9D, CHR 0xEC, CHR 0x97, CHR 0x90, CHR 0x20, CHR 0xED, CHR 0x95,
      CHR 0x84, CHR 0xEC, CHR 0x9A, CHR 0x94, CHR 0xED, CHR 0x95, CHR 0x9C, CHR 0x20, CHR 0x43,
      CHR 0x53, CHR 0x52, CHR 0x46, CHR 0x20, CHR 0xEC, CHR 0xBF, CHR 0xA0, CHR 0xED, CHR 0x82,
      CHR 0xA4, CHR 0xEA, CHR 0xB0, CHR 0x80, CHR 0x20, CHR 0xEC, CHR 0x97, CHR 0x86, CHR 0xEC,
      CHR 0x8A, CHR 0xB5, CHR 0xEB, CHR 0x8B, CHR 0x88, CHR 0xEB, CHR 0x8B, CHR 0xA4]"

definition txt_sc_failure_api :: string where
  "txt_sc_failure_api =
     [CHR 0xEC, CHR 0x9B, CHR 0x90, CHR 0xEA, CHR 0xB2, CHR 0xA9, CHR 0x20, CHR 0xEC, CHR 0x8A,
      CHR 0xA4, CHR 0xEB, CHR 0xAA, CHR 0xA8, CHR 0xED, CHR 0x81, CHR 0xAC, CHR 0x20, CHR 0xEC,
      CHR 0x8B, CHR 0xA4, CHR 0xED, CHR 0x8C, CHR 0xA8, CHR 0x20, CHR 0xEA, CHR 0xB8, CHR 0xB0,
      CHR 0xEB, CHR 0xA1, CHR 0x9D, CHR 0x20, CHR 0x41, CHR 0x50, CHR 0x49, CHR 0x20]"

definition txt_sc_login :: string where
  "txt_sc_login =
     [CHR 0xEB, CHR 0xA1, CHR 0x9C, CHR 0xEA, CHR 0xB7, CHR 0xB8, CHR 0xEC, CHR 0x9D, CHR 0xB8]"

definition txt_sc_session :: string where
  "txt_sc_session =
     [CHR 0xEC, CHR 0x84, CHR 0xB8, CHR 0xEC, CHR 0x85, CHR 0x98]"

definition txt_sc_auth :: string where
  "txt_sc_auth =
     [CHR 0xEC, CHR 0x9D, CHR 0xB8, CHR 0xEC, CHR 0xA6, CHR 0x9D]"

definition txt_sc_rotation :: string where
  "txt_sc_rotation =
     [CHR 0xEA, CHR 0xB3, CHR 0x84, CHR 0xEC, CHR 0xA0, CHR 0x95, CHR 0x20, CHR 0xEC, CHR 0x9E,
      CHR 0x90, CHR 0xEB, CHR 0x8F, CHR 0x99, CHR 0x20, CHR 0xED, CHR 0x9A, CHR 0x8C, CHR 0xEC,
      CHR 0xA0, CHR 0x84]"

definition txt_sc_admin :: string where
  "txt_sc_admin =
     [CHR 0xEA, CHR 0xB4, CHR 0x80, CHR 0xEB, CHR 0xA6, CHR 0xAC, CHR 0xEC, CHR 0x9E, CHR 0x90,
      CHR 0x20, CHR 0xEC, CHR 0xA0, CHR 0x84, CHR 0xEC, CHR 0x9A, CHR 0xA9, CHR 0x20, CHR 0xEC,
      CHR 0xA0, CHR 0x90, CHR 0xEA, CHR 0xB2, CHR 0x80]"

definition txt_sc_remote :: string where
  "txt_sc_remote =
     [CHR 0xEC, CHR 0x9B, CHR 0x90, CHR 0xEA, CHR 0xB2, CHR 0xA9]"

definition txt_sc_no_record :: string where
  "txt_sc_no_record =
     [CHR 0xEA, CHR 0xB4, CHR 0x80, CHR 0xEB, CHR 0xA6, CHR 0xAC, CHR 0xEC, CHR 0x9E, CHR 0x90,
      CHR 0x20, CHR 0xEC, CHR 0xA0, CHR 0x84, CHR 0xEC, CHR 0x9A, CHR 0xA9, CHR 0x20, CHR 0xEC,
      CHR 0xA0, CHR 0x90, CHR 0xEA, CHR 0xB2, CHR 0x80, CHR 0x20, CHR 0xEC, CHR 0x84, CHR 0xB1,
      CHR 0xEA, CHR 0xB3, CHR 0xB5, CHR 0x20, CHR 0xEA, CHR 0xB8, CHR 0xB0, CHR 0xEB, CHR 0xA1,
      CHR 0x9D, CHR 0xEC, CHR 0x9D, CHR 0xB4, CHR 0x20, CHR 0xEC, CHR 0x97, CHR 0x86, CHR 0xEC,
      CHR 0x8A, CHR 0xB5, CHR 0xEB, CHR 0x8B, CHR 0x88, CHR 0xEB, CHR 0x8B, CHR 0xA4]"

definition txt_sc_stale1 :: string where
  "txt_sc_stale1 =
     [CHR 0xEA, CHR 0xB4, CHR 0x80, CHR 0xEB, CHR 0xA6, CHR 0xAC, CHR 0xEC, CHR 0x9E, CHR 0x90,
      CHR 0x20, CHR 0xEC, CHR 0xA0, CHR 0x84, CHR 0xEC, CHR 0x9A, CHR 0xA9, CHR 0x20, CHR 0xEC,
      CHR 0xA0, CHR 0x90, CHR 0xEA, CHR 0xB2, CHR 0x80, CHR 0xEC, CHR 0x9D, CHR 0xB4, CHR 0x20]"

definition txt_sc_stale2 :: string where
  "txt_sc_stale2 =
     [CHR 0xEC, CHR 0x9D, CHR 0xBC, CHR 0x20, CHR 0xEB, CHR 0x84, CHR 0x98, CHR 0xEA, CHR 0xB2,
      CHR 0x8C, CHR 0x20, CHR 0xEC, CHR 0x84, CHR 0xB1, CHR 0xEA, CHR 0xB3, CHR 0xB5, CHR 0xED,
      CHR 0x95, CHR 0x98, CHR 0xEC, CHR 0xA7, CHR 0x80, CHR 0x20, CHR 0xEC, CHR 0x95, CHR 0x8A,
      CHR 0xEC, CHR 0x95, CHR 0x98, CHR 0xEC, CHR 0x8A, CHR 0xB5, CHR 0xEB, CHR 0x8B, CHR 0x88,
      CHR 0xEB, CHR 0x8B, CHR 0xA4]"

definition txt_sc_unknown :: string where
  "txt_sc_unknown =
     [CHR 0xEC, CHR 0x95, CHR 0x8C, CHR 0x20, CHR 0xEC, CHR 0x88, CHR 0x98, CHR 0x20, CHR 0xEC,
      CHR 0x97, CHR 0x86, CHR 0xEB, CHR 0x8A, CHR 0x94, CHR 0x20, CHR 0xEC, CHR 0x98, CHR 0xA4,
      CHR 0xEB, CHR 0xA5, CHR 0x98]"

definition txt_sc_type :: string where
  "txt_sc_type =
     [CHR 0xEC, CHR 0x9C, CHR 0xA0, CHR 0xED, CHR 0x98, CHR 0x95, CHR 0x3A, CHR 0x20]"

definition txt_sc_detail :: string where
  "txt_sc_detail =
     [CHR 0xEC, CHR 0x83, CHR 0x81, CHR 0xEC, CHR 0x84, CHR 0xB8, CHR 0x3A, CHR 0x20]"

definition txt_sc_l_api :: string where
  "txt_sc_l_api =
     [CHR 0xEC, CHR 0x99, CHR 0xB8, CHR 0xEB, CHR 0xB6, CHR 0x80, CHR 0x20, CHR 0x41, CHR 0x50,
      CHR 0x49]"

definition txt_sc_l_visual :: string where
  "txt_sc_l_visual =
     [CHR 0xED, CHR 0x99, CHR 0x94, CHR 0xEB, CHR 0xA9, CHR 0xB4, CHR 0x20, CHR 0xED, CHR 0x9A,
      CHR 0x8C, CHR 0xEA, CHR 0xB7, CHR 0x80]"

definition txt_sc_should_run :: string where
  "txt_sc_should_run =
     [CHR 0x73, CHR 0x68, CHR 0x6F, CHR 0x75, CHR 0x6C, CHR 0x64, CHR 0x5F, CHR 0x72, CHR 0x75,
      CHR 0x6E, CHR 0x20, CHR 0xEC, CHR 0x84, CHR 0xA4, CHR 0xEC, CHR 0xA0, CHR 0x95, CHR 0xEC,
      CHR 0x9D, CHR 0xB4, CHR 0x20, CHR 0xEC, CHR 0x98, CHR 0xAC, CHR 0xEB, CHR 0xB0, CHR 0x94,
      CHR 0xEB, CHR 0xA5, CHR 0xB4, CHR 0xEC, CHR 0xA7, CHR 0x80, CHR 0x20, CHR 0xEC, CHR 0x95,
      CHR 0x8A, CHR 0xEC, CHR 0x8A, CHR 0xB5, CHR 0xEB, CHR 0x8B, CHR 0x88, CHR 0xEB, CHR 0x8B,
      CHR 0xA4]"

definition txt_sc_settings_api :: string where
  "txt_sc_settings_api =
     [CHR 0xEC, CHR 0x84, CHR 0xA4, CHR 0xEC, CHR 0xA0, CHR 0x95, CHR 0x20, CHR 0x41, CHR 0x50,
      CHR 0x49, CHR 0x20]"

definition txt_sc_base_url :: string where
  "txt_sc_base_url =
     [CHR 0x54, CHR 0x4D, CHR 0x5F, CHR 0x53, CHR 0x4D, CHR 0x4F, CHR 0x4B, CHR 0x45, CHR 0x5F,
      CHR 0x42, CHR 0x41, CHR 0x53, CHR 0x45, CHR 0x5F, CHR 0x55, CHR 0x52, CHR 0x4C, CHR 0xEC,
      CHR 0x9D, CHR 0xB4, CHR 0x20, CHR 0xED, CHR 0x95, CHR 0x84, CHR 0xEC, CHR 0x9A, CHR 0x94,
      CHR 0xED, CHR 0x95, CHR 0xA9, CHR 0xEB, CHR 0x8B, CHR 0x88, CHR 0xEB, CHR 0x8B, CHR 0xA4]"

definition txt_sc_role :: string where
  "txt_sc_role =
     [CHR 0xEC, CHR 0xA7, CHR 0x80, CHR 0xEC, CHR 0x9B, CHR 0x90, CHR 0xED, CHR 0x95, CHR 0x98,
      CHR 0xEC, CHR 0xA7, CHR 0x80, CHR 0x20, CHR 0xEC, CHR 0x95, CHR 0x8A, CHR 0xEB, CHR 0x8A,
      CHR 0x94, CHR 0x20, CHR 0xEC, CHR 0x8A, CHR 0xA4, CHR 0xEB, CHR 0xAA, CHR 0xA8, CHR 0xED,
      CHR 0x81, CHR 0xAC, CHR 0x20, CHR 0xEC, CHR 0x84, CHR 0xB8, CHR 0xEC, CHR 0x85, CHR 0x98,
      CHR 0x20, CHR 0xEC, CHR 0x97, CHR 0xAD, CHR 0xED, CHR 0x95, CHR 0xA0, CHR 0xEC, CHR 0x9E,
      CHR 0x85, CHR 0xEB, CHR 0x8B, CHR 0x88, CHR 0xEB, CHR 0x8B, CHR 0xA4, CHR 0x3A, CHR 0x20]"

definition txt_sc_credentials :: string where
  "txt_sc_credentials =
     [CHR 0xEC, CHR 0x9D, CHR 0xBD, CHR 0xEA, CHR 0xB8, CHR 0xB0, CHR 0x20, CHR 0xEC, CHR 0xA0,
      CHR 0x84, CHR 0xEC, CHR 0x9A, CHR 0xA9, CHR 0x20, CHR 0xEA, CHR 0xB2, CHR 0x80, CHR 0xEC,
      CHR 0xA6, CHR 0x9D, CHR 0xEC, CHR 0x97, CHR 0x90, CHR 0x20, CHR 0xED, CHR 0x95, CHR 0x84,
      CHR 0xEC, CHR 0x9A, CHR 0x94, CHR 0xED, CHR 0x95, CHR 0x9C, CHR 0x20, CHR 0xEC, CHR 0xA0,
      CHR 0x84, CHR 0xEC, CHR 0x9A, CHR 0xA9, CHR 0x20, CHR 0x61, CHR 0x64, CHR 0x6D, CHR 0x69,
      CHR 0x6E, CHR 0x20, CHR 0xEC, CHR 0x9D, CHR 0xB8, CHR 0xEC, CHR 0xA6, CHR 0x9D, CHR 0xEA,
      CHR 0xB0, CHR 0x92, CHR 0xEC, CHR 0x9D, CHR 0xB4, CHR 0x20, CHR 0xEC, CHR 0x97, CHR 0x86,
      CHR 0xEC, CHR 0x8A, CHR 0xB5, CHR 0xEB, CHR 0x8B, CHR 0x88, CHR 0xEB, CHR 0x8B, CHR 0xA4]"

definition txt_sc_write_csrf :: string where
  "txt_sc_write_csrf =
     [CHR 0xEC, CHR 0xA0, CHR 0x84, CHR 0xEC, CHR 0x9A, CHR 0xA9, CHR 0x20, CHR 0x61, CHR 0x64,
      CHR 0x6D, CHR 0x69, CHR 0x6E, CHR 0x20, CHR 0xEC, CHR 0x93, CHR 0xB0, CHR 0xEA, CHR 0xB8,
      CHR 0xB0, CHR 0x20, CHR 0xEC, CHR 0xB0, CHR 0xA8, CHR 0xEB, CHR 0x8B, CHR 0xA8, CHR 0x20,
      CHR 0xEA, CHR 0xB2, CHR 0x80, CHR 0xEC, CHR 0xA6, CHR 0x9D, CHR 0xEC, CHR 0x97, CHR 0x90,
      CHR 0x20, CHR 0xED, CHR 0x95, CHR 0x84, CHR 0xEC, CHR 0x9A, CHR 0x94, CHR 0xED, CHR 0x95,
      CHR 0x9C, CHR 0x20, CHR 0x43, CHR 0x53, CHR 0x52, CHR 0x46, CHR 0x20, CHR 0xEC, CHR 0xBF,
      CHR 0xA0, CHR 0xED, CHR 0x82, CHR 0xA4, CHR 0xEA, CHR 0xB0, CHR 0x80, CHR 0x20, CHR 0xEC,
      CHR 0x97, CHR 0x86, CHR 0xEC, CHR 0x8A, CHR 0xB5, CHR 0xEB, CHR 0x8B, CHR 0x88, CHR 0xEB,
      CHR 0x8B, CHR 0xA4]"

definition txt_sc_write1 :: string where
  "txt_sc_write1 =
     [CHR 0xEC, CHR 0xA0, CHR 0x84, CHR 0xEC, CHR 0x9A, CHR 0xA9, CHR 0x20, CHR 0x61, CHR 0x64,
      CHR 0x6D, CHR 0x69, CHR 0x6E, CHR 0x20, CHR 0xEC, CHR 0x93, CHR 0xB0, CHR 0xEA, CHR 0xB8,
      CHR 0xB0, CHR 0x20, CHR 0xEC, CHR 0x9A, CHR 0x94, CHR 0xEC, CHR 0xB2, CHR 0xAD, CHR 0xEC,
      CHR 0x9D, CHR 0xB4, CHR 0x20]"

definition txt_sc_write2 :: string where
  "txt_sc_write2 =
     [CHR 0xEB, CHR 0xA1, CHR 0x9C, CHR 0x20, CHR 0xEC, CHR 0x9D, CHR 0x91, CHR 0xEB, CHR 0x8B,
      CHR 0xB5, CHR 0xED, CHR 0x96, CHR 0x88, CHR 0xEC, CHR 0x8A, CHR 0xB5, CHR 0xEB, CHR 0x8B,
      CHR 0x88, CHR 0xEB, CHR 0x8B, CHR 0xA4, CHR 0x3A, CHR 0x20]"

definition txt_sc_read_only :: string where
  "txt_sc_read_only =
     [CHR 0xEC, CHR 0xA0, CHR 0x84, CHR 0xEC, CHR 0x9A, CHR 0xA9, CHR 0x20, CHR 0xEC, CHR 0x8A,
      CHR 0xA4, CHR 0xEB, CHR 0xAA, CHR 0xA8, CHR 0xED, CHR 0x81, CHR 0xAC, CHR 0x20, CHR 0xEA,
      CHR 0xB4, CHR 0x80, CHR 0xEB, CHR 0xA6, CHR 0xAC, CHR 0xEC, CHR 0x9E, CHR 0x90, CHR 0x20,
      CHR 0xEA, CHR 0xB3, CHR 0x84, CHR 0xEC, CHR 0xA0, CHR 0x95, CHR 0xEC, CHR 0x9D, CHR 0x80,
      CHR 0x20, CHR 0xEC, CHR 0xA1, CHR 0xB0, CHR 0xED, CHR 0x9A, CHR 0x8C, CHR 0xEB, CHR 0xA7,
      CHR 0x8C, CHR 0x20, CHR 0xED, CHR 0x95, CHR 0xA0, CHR 0x20, CHR 0xEC, CHR 0x88, CHR 0x98,
      CHR 0x20, CHR 0xEC, CHR 0x9E, CHR 0x88, CHR 0xEC, CHR 0x8A, CHR 0xB5, CHR 0xEB, CHR 0x8B,
      CHR 0x88, CHR 0xEB, CHR 0x8B, CHR 0xA4]"

definition txt_sc_c_health :: string where
  "txt_sc_c_health =
     [CHR 0xEC, CHR 0x95, CHR 0xA0, CHR 0xED, CHR 0x94, CHR 0x8C, CHR 0xEB, CHR 0xA6, CHR 0xAC,
      CHR 0xEC, CHR 0xBC, CHR 0x80, CHR 0xEC, CHR 0x9D, CHR 0xB4, CHR 0xEC, CHR 0x85, CHR 0x98,
      CHR 0x20, CHR 0xED, CHR 0x97, CHR 0xAC, CHR 0xEC, CHR 0x8A, CHR 0xA4]"

definition txt_sc_c_session :: string where
  "txt_sc_c_session =
     [CHR 0xED, CHR 0x98, CHR 0x84, CHR 0xEC, CHR 0x9E, CHR 0xAC, CHR 0x20, CHR 0xEC, CHR 0x84,
      CHR 0xB8, CHR 0xEC, CHR 0x85, CHR 0x98]"

definition txt_sc_c_services :: string where
  "txt_sc_c_services =
     [CHR 0xEC, CHR 0x84, CHR 0x9C, CHR 0xEB, CHR 0xB9, CHR 0x84, CHR 0xEC, CHR 0x8A, CHR 0xA4,
      CHR 0x20, CHR 0xEB, CHR 0xAA, CHR 0xA9, CHR 0xEB, CHR 0xA1, CHR 0x9D]"

definition txt_sc_c_routers :: string where
  "txt_sc_c_routers =
     [CHR 0xEB, CHR 0x9D, CHR 0xBC, CHR 0xEC, CHR 0x9A, CHR 0xB0, CHR 0xED, CHR 0x84, CHR 0xB0,
      CHR 0x20, CHR 0xEC, CHR 0x83, CHR 0x81, CHR 0xED, CHR 0x83, CHR 0x9C]"

definition txt_sc_c_service_health :: string where
  "txt_sc_c_service_health =
     [CHR 0xEC, CHR 0x84, CHR 0x9C, CHR 0xEB, CHR 0xB9, CHR 0x84, CHR 0xEC, CHR 0x8A, CHR 0xA4,
      CHR 0x20, CHR 0xED, CHR 0x97, CHR 0xAC, CHR 0xEC, CHR 0x8A, CHR 0xA4]"

definition txt_sc_c_certificates :: string where
  "txt_sc_c_certificates =
     [CHR 0xEC, CHR 0x9D, CHR 0xB8, CHR 0xEC, CHR 0xA6, CHR 0x9D, CHR 0xEC, CHR 0x84, CHR 0x9C,
      CHR 0x20, CHR 0xEB, CHR 0xAA, CHR 0xA9, CHR 0xEB, CHR 0xA1, CHR 0x9D]"

definition txt_sc_c_time :: string where
  "txt_sc_c_time =
     [CHR 0xEC, CHR 0x8B, CHR 0x9C, CHR 0xEA, CHR 0xB0, CHR 0x84, CHR 0x20, CHR 0xED, CHR 0x91,
      CHR 0x9C, CHR 0xEC, CHR 0x8B, CHR 0x9C, CHR 0x20, CHR 0xEC, CHR 0x84, CHR 0xA4, CHR 0xEC,
      CHR 0xA0, CHR 0x95]"

definition txt_sc_c_rotation :: string where
  "txt_sc_c_rotation =
     [CHR 0xEC, CHR 0x8A, CHR 0xA4, CHR 0xEB, CHR 0xAA, CHR 0xA8, CHR 0xED, CHR 0x81, CHR 0xAC,
      CHR 0x20, CHR 0xED, CHR 0x9A, CHR 0x8C, CHR 0xEC, CHR 0xA0, CHR 0x84, CHR 0x20, CHR 0xEC,
      CHR 0x83, CHR 0x81, CHR 0xED, CHR 0x83, CHR 0x9C]"

definition txt_sc_c_cleanup :: string where
  "txt_sc_c_cleanup =
     [CHR 0xEB, CHR 0xB3, CHR 0x91, CHR 0xEB, CHR 0xAA, CHR 0xA9, CHR 0x20, CHR 0xEC, CHR 0x9D,
      CHR 0xB4, CHR 0xEB, CHR 0xB2, CHR 0xA4, CHR 0xED, CHR 0x8A, CHR 0xB8, CHR 0x20, CHR 0xEC,
      CHR 0xA0, CHR 0x95, CHR 0xEB, CHR 0xA6, CHR 0xAC, CHR 0x20, CHR 0xEB, CHR 0xAF, CHR 0xB8,
      CHR 0xEB, CHR 0xA6, CHR 0xAC, CHR 0xEB, CHR 0xB3, CHR 0xB4, CHR 0xEA, CHR 0xB8, CHR 0xB0]"

definition txt_sc_c_audit :: string where
  "txt_sc_c_audit =
     [CHR 0xEC, CHR 0x84, CHR 0x9C, CHR 0xEB, CHR 0xB9, CHR 0x84, CHR 0xEC, CHR 0x8A, CHR 0xA4,
      CHR 0x20, CHR 0xEC, CHR 0xA7, CHR 0x84, CHR 0xEB, CHR 0x8B, CHR 0xA8, CHR 0x20, CHR 0xEA,
      CHR 0xB0, CHR 0x90, CHR 0xEC, CHR 0x82, CHR 0xAC, CHR 0x20, CHR 0xEB, CHR 0xA1, CHR 0x9C,
      CHR 0xEA, CHR 0xB7, CHR 0xB8]"

definition txt_sc_normal :: string where
  "txt_sc_normal =
     [CHR 0xEC, CHR 0xA0, CHR 0x95, CHR 0xEC, CHR 0x83, CHR 0x81]"

definition txt_sc_stale_account :: string where
  "txt_sc_stale_account =
     [CHR 0xEC, CHR 0x8A, CHR 0xA4, CHR 0xEB, CHR 0xAA, CHR 0xA8, CHR 0xED, CHR 0x81, CHR 0xAC,
      CHR 0x20, CHR 0xEA, CHR 0xB3, CHR 0x84, CHR 0xEC, CHR 0xA0, CHR 0x95, CHR 0x20, CHR 0xEC,
      CHR 0x9E, CHR 0x90, CHR 0xEB, CHR 0x8F, CHR 0x99, CHR 0x20, CHR 0xED, CHR 0x9A, CHR 0x8C,
      CHR 0xEC, CHR 0xA0, CHR 0x84, CHR 0xEC, CHR 0x9D, CHR 0xB4, CHR 0x20]"

definition txt_sc_stale_days :: string where
  "txt_sc_stale_days =
     [CHR 0xEC, CHR 0x9D, CHR 0xBC, CHR 0x20, CHR 0xEC, CHR 0x9D, CHR 0xB4, CHR 0xEC, CHR 0x83,
      CHR 0x81, CHR 0x20, CHR 0xEC, CHR 0x84, CHR 0xB1, CHR 0xEA, CHR 0xB3, CHR 0xB5, CHR 0xED,
      CHR 0x95, CHR 0x98, CHR 0xEC, CHR 0xA7, CHR 0x80, CHR 0x20, CHR 0xEC, CHR 0x95, CHR 0x8A,
      CHR 0xEC, CHR 0x95, CHR 0x98, CHR 0xEC, CHR 0x8A, CHR 0xB5, CHR 0xEB, CHR 0x8B, CHR 0x88,
      CHR 0xEB, CHR 0x8B, CHR 0xA4]"

definition txt_sc_shape :: string where
  "txt_sc_shape =
     [CHR 0x20, CHR 0x41, CHR 0x50, CHR 0x49, CHR 0x20, CHR 0xEC, CHR 0x9D, CHR 0x91, CHR 0xEB,
      CHR 0x8B, CHR 0xB5, CHR 0x20, CHR 0xED, CHR 0x98, CHR 0x95, CHR 0xEC, CHR 0x8B, CHR 0x9D,
      CHR 0xEC, CHR 0x9D, CHR 0xB4, CHR 0x20, CHR 0xEC, CHR 0x98, CHR 0x88, CHR 0xEC, CHR 0x83,
      CHR 0x81, CHR 0xEA, CHR 0xB3, CHR 0xBC, CHR 0x20, CHR 0xEB, CHR 0x8B, CHR 0xA4, CHR 0xEB,
      CHR 0xA6, CHR 0x85, CHR 0xEB, CHR 0x8B, CHR 0x88, CHR 0xEB, CHR 0x8B, CHR 0xA4]"

definition txt_sc_read :: string where
  "txt_sc_read =
     [CHR 0xEC, CHR 0x8A, CHR 0xA4, CHR 0xEB, CHR 0xAA, CHR 0xA8, CHR 0xED, CHR 0x81, CHR 0xAC,
      CHR 0x20, CHR 0xEC, CHR 0x9D, CHR 0xBD, CHR 0xEA, CHR 0xB8, CHR 0xB0, CHR 0x20, CHR 0x47,
      CHR 0x45, CHR 0x54, CHR 0x20]"

definition txt_sc_failed :: string where
  "txt_sc_failed =
     [CHR 0x20, CHR 0xEC, CHR 0x8B, CHR 0xA4, CHR 0xED, CHR 0x8C, CHR 0xA8, CHR 0x20, CHR 0x28]"

definition txt_sc_times :: string where
  "txt_sc_times =
     [CHR 0xED, CHR 0x9A, CHR 0x8C, CHR 0x29, CHR 0x3A, CHR 0x20]"

definition txt_sc_admin_failed :: string where
  "txt_sc_admin_failed =
     [CHR 0xEA, CHR 0xB4, CHR 0x80, CHR 0xEB, CHR 0xA6, CHR 0xAC, CHR 0xEC, CHR 0x9E, CHR 0x90,
      CHR 0x20, CHR 0xEC, CHR 0xA0, CHR 0x84, CHR 0xEC, CHR 0x9A, CHR 0xA9, CHR 0x20, CHR 0xEC,
      CHR 0xA0, CHR 0x90, CHR 0xEA, CHR 0xB2, CHR 0x80, CHR 0x20, CHR 0xEC, CHR 0x8B, CHR 0xA4,
      CHR 0xED, CHR 0x8C, CHR 0xA8, CHR 0x3A, CHR 0x20]"

definition txt_sc_s_shown :: string where
  "txt_sc_s_shown =
     [CHR 0xEC, CHR 0x84, CHR 0x9C, CHR 0xEB, CHR 0xB9, CHR 0x84, CHR 0xEC, CHR 0x8A, CHR 0xA4,
      CHR 0xC2, CHR 0xB7, CHR 0xEC, CHR 0x84, CHR 0xA4, CHR 0xEC, CHR 0xA0, CHR 0x95, CHR 0xC2,
      CHR 0xB7, CHR 0xEC, CHR 0x82, CHR 0xAC, CHR 0xEC, CHR 0x9A, CHR 0xA9, CHR 0xEC, CHR 0x9E,
      CHR 0x90, CHR 0x20, CHR 0xEA, CHR 0xB4, CHR 0x80, CHR 0xEB, CHR 0xA6, CHR 0xAC, CHR 0x20,
      CHR 0xEA, CHR 0xB8, CHR 0xB0, CHR 0xEB, CHR 0x8A, CHR 0xA5, CHR 0x20, CHR 0xED, CHR 0x91,
      CHR 0x9C, CHR 0xEC, CHR 0x8B, CHR 0x9C]"

definition txt_sc_s_hidden :: string where
  "txt_sc_s_hidden =
     [CHR 0xEC, CHR 0x84, CHR 0x9C, CHR 0xEB, CHR 0xB9, CHR 0x84, CHR 0xEC, CHR 0x8A, CHR 0xA4,
      CHR 0xC2, CHR 0xB7, CHR 0xEC, CHR 0x84, CHR 0xA4, CHR 0xEC, CHR 0xA0, CHR 0x95, CHR 0xC2,
      CHR 0xB7, CHR 0xEC, CHR 0x82, CHR 0xAC, CHR 0xEC, CHR 0x9A, CHR 0xA9, CHR 0xEC, CHR 0x9E,
      CHR 0x90, CHR 0x20, CHR 0xEA, CHR 0xB4, CHR 0x80, CHR 0xEB, CHR 0xA6, CHR 0xAC, CHR 0x20,
      CHR 0xEA, CHR 0xB8, CHR 0xB0, CHR 0xEB, CHR 0x8A, CHR 0xA5, CHR 0x20, CHR 0xEC, CHR 0x88,
      CHR 0xA8, CHR 0xEA, CHR 0xB9, CHR 0x80]"

definition txt_sc_s_passed :: string where
  "txt_sc_s_passed =
     [CHR 0xED, CHR 0x86, CHR 0xB5, CHR 0xEA, CHR 0xB3, CHR 0xBC]"

definition txt_sc_s_not_run :: string where
  "txt_sc_s_not_run =
     [CHR 0xEB, CHR 0xAF, CHR 0xB8, CHR 0xEC, CHR 0x8B, CHR 0xA4, CHR 0xED, CHR 0x96, CHR 0x89]"

definition txt_sc_s_title :: string where
  "txt_sc_s_title =
     [CHR 0x23, CHR 0x23, CHR 0x23, CHR 0x20, CHR 0xEC, CHR 0x97, CHR 0xAD, CHR 0xED, CHR 0x95,
      CHR 0xA0, CHR 0xEB, CHR 0xB3, CHR 0x84, CHR 0x20, CHR 0xEC, CHR 0x9A, CHR 0xB4, CHR 0xEC,
      CHR 0x98, CHR 0x81, CHR 0x20, CHR 0xEC, CHR 0x8A, CHR 0xA4, CHR 0xEB, CHR 0xAA, CHR 0xA8,
      CHR 0xED, CHR 0x81, CHR 0xAC, CHR 0x20, CHR 0xEA, CHR 0xB2, CHR 0xB0, CHR 0xEA, CHR 0xB3,
      CHR 0xBC]"

definition txt_sc_s_head :: string where
  "txt_sc_s_head =
     [CHR 0x7C, CHR 0x20, CHR 0xEC, CHR 0xA0, CHR 0x90, CHR 0xEA, CHR 0xB2, CHR 0x80, CHR 0x20,
      CHR 0xEC, CHR 0x84, CHR 0xB8, CHR 0xEC, CHR 0x85, CHR 0x98, CHR 0x20, CHR 0x7C, CHR 0x20,
      CHR 0xEA, CHR 0xB0, CHR 0x90, CHR 0xEC, CHR 0xA7, CHR 0x80, CHR 0x20, CHR 0xEC, CHR 0x97,
      CHR 0xAD, CHR 0xED, CHR 0x95, CHR 0xA0, CHR 0x20, CHR 0x7C, CHR 0x20, CHR 0xEA, CHR 0xB8,
      CHR 0xB0, CHR 0xEB, CHR 0x8C, CHR 0x80, CHR 0xEA, CHR 0xB0, CHR 0x92, CHR 0x20, CHR 0x7C,
      CHR 0x20, CHR 0xEA, CHR 0xB2, CHR 0xB0, CHR 0xEA, CHR 0xB3, CHR 0xBC, CHR 0x20, CHR 0x7C]"

definition txt_sc_s_api :: string where
  "txt_sc_s_api =
     [CHR 0x7C, CHR 0x20, CHR 0xEC, CHR 0x9A, CHR 0xB4, CHR 0xEC, CHR 0x98, CHR 0x81, CHR 0x20,
      CHR 0x41, CHR 0x50, CHR 0x49, CHR 0x20, CHR 0x7C, CHR 0x20]"

definition txt_sc_s_api_count :: string where
  "txt_sc_s_api_count =
     [CHR 0xEA, CHR 0xB0, CHR 0x9C, CHR 0x20, CHR 0x41, CHR 0x50, CHR 0x49, CHR 0x20, CHR 0xEC,
      CHR 0x9D, CHR 0x91, CHR 0xEB, CHR 0x8B, CHR 0xB5, CHR 0x20, CHR 0x7C, CHR 0x20, CHR 0xED,
      CHR 0x86, CHR 0xB5, CHR 0xEA, CHR 0xB3, CHR 0xBC, CHR 0x20, CHR 0x7C]"

definition txt_sc_s_screen :: string where
  "txt_sc_s_screen =
     [CHR 0x7C, CHR 0x20, CHR 0xEC, CHR 0x9A, CHR 0xB4, CHR 0xEC, CHR 0x98, CHR 0x81, CHR 0x20,
      CHR 0xED, CHR 0x99, CHR 0x94, CHR 0xEB, CHR 0xA9, CHR 0xB4, CHR 0x20, CHR 0x7C, CHR 0x20]"

definition txt_sc_s_screen_count :: string where
  "txt_sc_s_screen_count =
     [CHR 0xEA, CHR 0xB0, CHR 0x9C, CHR 0x20, CHR 0xED, CHR 0x99, CHR 0x94, CHR 0xEB, CHR 0xA9,
      CHR 0xB4, CHR 0xC2, CHR 0xB7, CHR 0xEC, CHR 0x83, CHR 0x81, CHR 0xED, CHR 0x98, CHR 0xB8,
      CHR 0xEC, CHR 0x9E, CHR 0x91, CHR 0xEC, CHR 0x9A, CHR 0xA9, CHR 0x20, CHR 0x7C, CHR 0x20,
      CHR 0xED, CHR 0x86, CHR 0xB5, CHR 0xEA, CHR 0xB3, CHR 0xBC, CHR 0x20, CHR 0x7C]"

definition txt_sc_s_history :: string where
  "txt_sc_s_history =
     [CHR 0x7C, CHR 0x20, CHR 0xEA, CHR 0xB4, CHR 0x80, CHR 0xEB, CHR 0xA6, CHR 0xAC, CHR 0xEC,
      CHR 0x9E, CHR 0x90, CHR 0x20, CHR 0xEC, CHR 0x9A, CHR 0xB4, CHR 0xEC, CHR 0x98, CHR 0x81,
      CHR 0x20, CHR 0xEC, CHR 0x9D, CHR 0xB4, CHR 0xEB, CHR 0xA0, CHR 0xA5, CHR 0x20, CHR 0x7C,
      CHR 0x20, CHR 0x61, CHR 0x64, CHR 0x6D, CHR 0x69, CHR 0x6E, CHR 0x20, CHR 0x7C, CHR 0x20,
      CHR 0x47, CHR 0x69, CHR 0x74, CHR 0x48, CHR 0x75, CHR 0x62, CHR 0x20, CHR 0x33, CHR 0x30,
      CHR 0xEC, CHR 0x9D, CHR 0xBC, CHR 0x20, CHR 0xED, CHR 0x86, CHR 0xB5, CHR 0xEA, CHR 0xB3,
      CHR 0x84, CHR 0xC2, CHR 0xB7, CHR 0xEB, CHR 0xA1, CHR 0x9C, CHR 0xEC, CHR 0xBB, CHR 0xAC,
      CHR 0x20, CHR 0xEC, CHR 0x8B, CHR 0xA4, CHR 0xED, CHR 0x8C, CHR 0xA8, CHR 0x20, CHR 0xED,
      CHR 0x95, CHR 0x84, CHR 0xED, CHR 0x84, CHR 0xB0, CHR 0x20, CHR 0x7C, CHR 0x20]"

definition txt_sc_s_write :: string where
  "txt_sc_s_write =
     [CHR 0x7C, CHR 0x20, CHR 0xEA, CHR 0xB4, CHR 0x80, CHR 0xEB, CHR 0xA6, CHR 0xAC, CHR 0xEC,
      CHR 0x9E, CHR 0x90, CHR 0x20, CHR 0xEB, CHR 0xB3, CHR 0xB4, CHR 0xEC, CHR 0xA1, CHR 0xB0,
      CHR 0x20, CHR 0xEC, CHR 0xA0, CHR 0x90, CHR 0xEA, CHR 0xB2, CHR 0x80, CHR 0x20, CHR 0x7C,
      CHR 0x20, CHR 0x61, CHR 0x64, CHR 0x6D, CHR 0x69, CHR 0x6E, CHR 0x20, CHR 0x7C, CHR 0x20,
      CHR 0xEC, CHR 0x9D, CHR 0xBD, CHR 0xEA, CHR 0xB8, CHR 0xB0, CHR 0x20, CHR 0xEC, CHR 0xA0,
      CHR 0x84, CHR 0xEC, CHR 0x9A, CHR 0xA9, CHR 0x20, CHR 0xED, CHR 0x99, CHR 0x98, CHR 0xEA,
      CHR 0xB2, CHR 0xBD, CHR 0xEC, CHR 0x9D, CHR 0x98, CHR 0x20, CHR 0xEC, CHR 0x93, CHR 0xB0,
      CHR 0xEA, CHR 0xB8, CHR 0xB0, CHR 0x20, CHR 0xEC, CHR 0x9A, CHR 0x94, CHR 0xEC, CHR 0xB2,
      CHR 0xAD, CHR 0x20, CHR 0x34, CHR 0x30, CHR 0x33, CHR 0x20, CHR 0x7C, CHR 0x20]"

definition txt_sc_l_admin :: string where
  "txt_sc_l_admin =
     [CHR 0xEA, CHR 0xB4, CHR 0x80, CHR 0xEB, CHR 0xA6, CHR 0xAC, CHR 0xEC, CHR 0x9E, CHR 0x90,
      CHR 0x20, CHR 0xEC, CHR 0x84, CHR 0xA4, CHR 0xEC, CHR 0xA0, CHR 0x95, CHR 0x20, CHR 0xEC,
      CHR 0xA0, CHR 0x80, CHR 0xEC, CHR 0x9E, CHR 0xA5, CHR 0x20, CHR 0x34, CHR 0x32, CHR 0x32,
      CHR 0xC2, CHR 0xB7, CHR 0x35, CHR 0x30, CHR 0x30, CHR 0xC2, CHR 0xB7, CHR 0xED, CHR 0x8F,
      CHR 0xBC, CHR 0x20, CHR 0xEC, CHR 0x9C, CHR 0xA0, CHR 0xEC, CHR 0xA7, CHR 0x80, CHR 0xC2,
      CHR 0xB7, CHR 0xEB, CHR 0x82, CHR 0xB4, CHR 0xEB, CHR 0xB6, CHR 0x80, CHR 0x20, CHR 0xEC,
      CHR 0x98, CHR 0xA4, CHR 0xEB, CHR 0xA5, CHR 0x98, CHR 0x20, CHR 0xEC, CHR 0xB0, CHR 0xA8,
      CHR 0xEB, CHR 0x8B, CHR 0xA8, CHR 0xC2, CHR 0xB7, CHR 0x45, CHR 0x6E, CHR 0x67, CHR 0x6C,
      CHR 0x69, CHR 0x73, CHR 0x68, CHR 0x20, CHR 0x67, CHR 0x61, CHR 0x74, CHR 0x65, CHR 0x77,
      CHR 0x61, CHR 0x79, CHR 0x20, CHR 0xEA, CHR 0xB0, CHR 0x80, CHR 0xEC, CHR 0xA0, CHR 0xB8,
      CHR 0xEC, CHR 0x98, CHR 0xA4, CHR 0xEA, CHR 0xB8, CHR 0xB0, CHR 0xC2, CHR 0xB7, CHR 0x41,
      CHR 0x50, CHR 0x49, CHR 0x20, CHR 0xEB, CHR 0xB3, CHR 0xB4, CHR 0xED, CHR 0x98, CHR 0xB8,
      CHR 0xC2, CHR 0xB7, CHR 0x54, CHR 0x72, CHR 0x61, CHR 0x65, CHR 0x66, CHR 0x69, CHR 0x6B,
      CHR 0x20, CHR 0xEC, CHR 0x95, CHR 0x8C, CHR 0xEB, CHR 0xA6, CHR 0xBC, CHR 0x20, CHR 0xEC,
      CHR 0x9E, CHR 0xAC, CHR 0xEC, CHR 0x8B, CHR 0x9C, CHR 0xEB, CHR 0x8F, CHR 0x84, CHR 0x20,
      CHR 0xEC, CHR 0x9A, CHR 0x94, CHR 0xEC, CHR 0xB2, CHR 0xAD]"

definition txt_sc_l_read_only :: string where
  "txt_sc_l_read_only =
     [CHR 0xEA, CHR 0xB4, CHR 0x80, CHR 0xEB, CHR 0xA6, CHR 0xAC, CHR 0xEC, CHR 0x9E, CHR 0x90,
      CHR 0x20, CHR 0xEC, CHR 0x9D, CHR 0xBD, CHR 0xEA, CHR 0xB8, CHR 0xB0, CHR 0x20, CHR 0xEC,
      CHR 0xA0, CHR 0x84, CHR 0xEC, CHR 0x9A, CHR 0xA9, CHR 0x20, CHR 0x34, CHR 0x30, CHR 0x33]"

definition txt_sc_test :: string where
  "txt_sc_test =
     [CHR 0x5B, CHR 0xED, CHR 0x85, CHR 0x8C, CHR 0xEC, CHR 0x8A, CHR 0xA4, CHR 0xED, CHR 0x8A,
      CHR 0xB8, CHR 0x5D]"

definition txt_sc_x_tailnet :: string where
  "txt_sc_x_tailnet =
     [CHR 0x54, CHR 0x61, CHR 0x69, CHR 0x6C, CHR 0x6E, CHR 0x65, CHR 0x74, CHR 0x20, CHR 0xEC,
      CHR 0xA0, CHR 0x84, CHR 0xEC, CHR 0x9A, CHR 0xA9]"

definition txt_sc_x_exception :: string where
  "txt_sc_x_exception =
     [CHR 0x54, CHR 0x61, CHR 0x69, CHR 0x6C, CHR 0x6E, CHR 0x65, CHR 0x74, CHR 0x20, CHR 0x55,
      CHR 0x49, CHR 0xEC, CHR 0x99, CHR 0x80, CHR 0x20, CHR 0xEA, CHR 0xB3, CHR 0xB5, CHR 0xEA,
      CHR 0xB0, CHR 0x9C, CHR 0x20, CHR 0xEC, CHR 0x98, CHR 0x88, CHR 0xEC, CHR 0x99, CHR 0xB8]"

definition txt_sc_x_authentik :: string where
  "txt_sc_x_authentik =
     [CHR 0xEA, CHR 0xB3, CHR 0xB5, CHR 0xEA, CHR 0xB0, CHR 0x9C, CHR 0xEB, CHR 0xA7, CHR 0x9D,
      CHR 0xEA, CHR 0xB3, CHR 0xBC, CHR 0x20, CHR 0x41, CHR 0x75, CHR 0x74, CHR 0x68, CHR 0x65,
      CHR 0x6E, CHR 0x74, CHR 0x69, CHR 0x6B]"

definition txt_sc_x_edge :: string where
  "txt_sc_x_edge =
     [CHR 0xEA, CHR 0xB3, CHR 0xB5, CHR 0xEA, CHR 0xB0, CHR 0x9C, CHR 0xEB, CHR 0xA7, CHR 0x9D,
      CHR 0xEA, CHR 0xB3, CHR 0xBC, CHR 0x20, CHR 0xEC, CHR 0x95, CHR 0xB1, CHR 0x20, CHR 0xEB,
      CHR 0x98, CHR 0x90, CHR 0xEB, CHR 0x8A, CHR 0x94, CHR 0x20, CHR 0xEC, CHR 0x97, CHR 0xA3,
      CHR 0xEC, CHR 0xA7, CHR 0x80, CHR 0x20, CHR 0xEB, CHR 0xB3, CHR 0xB4, CHR 0xEC, CHR 0x95,
      CHR 0x88]"

definition txt_sc_x_missing :: string where
  "txt_sc_x_missing =
     [CHR 0xEB, CHR 0xAC, CHR 0xB8, CHR 0xEC, CHR 0x84, CHR 0x9C, CHR 0xEC, CHR 0x97, CHR 0x90,
      CHR 0xEB, CHR 0xA7, CHR 0x8C, CHR 0x20, CHR 0xEC, CHR 0x9E, CHR 0x88, CHR 0xEC, CHR 0x9D,
      CHR 0x8C, CHR 0x3A, CHR 0x20]"

definition txt_sc_x_unexpected :: string where
  "txt_sc_x_unexpected =
     [CHR 0xEB, CHR 0x9F, CHR 0xB0, CHR 0xED, CHR 0x83, CHR 0x80, CHR 0xEC, CHR 0x9E, CHR 0x84,
      CHR 0xEC, CHR 0x97, CHR 0x90, CHR 0xEB, CHR 0xA7, CHR 0x8C, CHR 0x20, CHR 0xEC, CHR 0x9E,
      CHR 0x88, CHR 0xEC, CHR 0x9D, CHR 0x8C, CHR 0x3A, CHR 0x20]"

definition txt_sc_x_equal :: string where
  "txt_sc_x_equal =
     [CHR 0xEC, CHR 0x99, CHR 0xB8, CHR 0xEB, CHR 0xB6, CHR 0x80, CHR 0x20, CHR 0xEB, CHR 0x85,
      CHR 0xB8, CHR 0xEC, CHR 0xB6, CHR 0x9C, CHR 0x20, CHR 0xEC, CHR 0x8A, CHR 0xA4, CHR 0xEB,
      CHR 0x83, CHR 0x85, CHR 0xEC, CHR 0x83, CHR 0xB7, CHR 0x20, CHR 0xEC, CHR 0x9D, CHR 0xBC,
      CHR 0xEC, CHR 0xB9, CHR 0x98, CHR 0x3A, CHR 0x20, CHR 0x48, CHR 0x54, CHR 0x54, CHR 0x50,
      CHR 0x53, CHR 0x20, CHR 0x48, CHR 0x6F, CHR 0x73, CHR 0x74, CHR 0x20]"

definition txt_sc_x_count :: string where
  "txt_sc_x_count =
     [CHR 0xEA, CHR 0xB0, CHR 0x9C]"

definition txt_fp_cleaned :: string where
  "txt_fp_cleaned =
     [CHR 0xEA, CHR 0xB1, CHR 0xB4, CHR 0xEC, CHR 0x9D, CHR 0x84, CHR 0x20, CHR 0xEC, CHR 0xA0,
      CHR 0x95, CHR 0xEB, CHR 0xA6, CHR 0xAC, CHR 0xED, CHR 0x96, CHR 0x88, CHR 0xEC, CHR 0x8A,
      CHR 0xB5, CHR 0xEB, CHR 0x8B, CHR 0x88, CHR 0xEB, CHR 0x8B, CHR 0xA4, CHR 0x2E]"

definition txt_fp_failed :: string where
  "txt_fp_failed =
     [CHR 0xEC, CHR 0x84, CHR 0xA0, CHR 0xED, CHR 0x83, CHR 0x9D, CHR 0xED, CHR 0x95, CHR 0x9C,
      CHR 0x20, CHR 0xEC, CHR 0x8B, CHR 0xA4, CHR 0xED, CHR 0x8C, CHR 0xA8, CHR 0x20, CHR 0xEB,
      CHR 0xB6, CHR 0x84, CHR 0xEB, CHR 0xA5, CHR 0x98, CHR 0x20, CHR 0xEC, CHR 0xA0, CHR 0x95,
      CHR 0xEB, CHR 0xB3, CHR 0xB4, CHR 0xEB, CHR 0xA5, CHR 0xBC, CHR 0x20, CHR 0xEC, CHR 0xA0,
      CHR 0x95, CHR 0xEB, CHR 0xA6, CHR 0xAC, CHR 0xED, CHR 0x95, CHR 0x98, CHR 0xEC, CHR 0xA7,
      CHR 0x80, CHR 0x20, CHR 0xEB, CHR 0xAA, CHR 0xBB, CHR 0xED, CHR 0x96, CHR 0x88, CHR 0xEC,
      CHR 0x8A, CHR 0xB5, CHR 0xEB, CHR 0x8B, CHR 0x88, CHR 0xEB, CHR 0x8B, CHR 0xA4, CHR 0x2E]"

definition txt_fp_cleared :: string where
  "txt_fp_cleared =
     [CHR 0xEC, CHR 0x84, CHR 0xA0, CHR 0xED, CHR 0x83, CHR 0x9D, CHR 0xEC, CHR 0x9D, CHR 0x84,
      CHR 0x20, CHR 0xEB, CHR 0xAA, CHR 0xA8, CHR 0xEB, CHR 0x91, CHR 0x90, CHR 0x20, CHR 0xED,
      CHR 0x95, CHR 0xB4, CHR 0xEC, CHR 0xA0, CHR 0x9C, CHR 0xED, CHR 0x96, CHR 0x88, CHR 0xEC,
      CHR 0x8A, CHR 0xB5, CHR 0xEB, CHR 0x8B, CHR 0x88, CHR 0xEB, CHR 0x8B, CHR 0xA4, CHR 0x2E]"

definition txt_fp_from_results :: string where
  "txt_fp_from_results =
     [CHR 0xED, CHR 0x98, CHR 0x84, CHR 0xEC, CHR 0x9E, CHR 0xAC, CHR 0x20, CHR 0xEA, CHR 0xB2,
      CHR 0xB0, CHR 0xEA, CHR 0xB3, CHR 0xBC, CHR 0xEC, CHR 0x97, CHR 0x90, CHR 0xEC, CHR 0x84,
      CHR 0x9C, CHR 0x20]"

definition txt_fp_results :: string where
  "txt_fp_results =
     [CHR 0xED, CHR 0x98, CHR 0x84, CHR 0xEC, CHR 0x9E, CHR 0xAC, CHR 0x20, CHR 0xEA, CHR 0xB2,
      CHR 0xB0, CHR 0xEA, CHR 0xB3, CHR 0xBC, CHR 0x20]"

definition txt_fp_records :: string where
  "txt_fp_records =
     [CHR 0xEC, CHR 0xA0, CHR 0x84, CHR 0xEC, CHR 0xB2, CHR 0xB4, CHR 0x20, CHR 0xEA, CHR 0xB8,
      CHR 0xB0, CHR 0xEB, CHR 0xA1, CHR 0x9D, CHR 0x20]"

definition txt_fp_released :: string where
  "txt_fp_released =
     [CHR 0xEA, CHR 0xB1, CHR 0xB4, CHR 0xEC, CHR 0x9D, CHR 0x84, CHR 0x20, CHR 0xED, CHR 0x95,
      CHR 0xB4, CHR 0xEC, CHR 0xA0, CHR 0x9C, CHR 0xED, CHR 0x96, CHR 0x88, CHR 0xEC, CHR 0x8A,
      CHR 0xB5, CHR 0xEB, CHR 0x8B, CHR 0x88, CHR 0xEB, CHR 0x8B, CHR 0xA4, CHR 0x2E]"

definition txt_fp_selected :: string where
  "txt_fp_selected =
     [CHR 0xEA, CHR 0xB1, CHR 0xB4, CHR 0xEC, CHR 0x9D, CHR 0x84, CHR 0x20, CHR 0xEC, CHR 0x84,
      CHR 0xA0, CHR 0xED, CHR 0x83, CHR 0x9D, CHR 0xED, CHR 0x96, CHR 0x88, CHR 0xEC, CHR 0x8A,
      CHR 0xB5, CHR 0xEB, CHR 0x8B, CHR 0x88, CHR 0xEB, CHR 0x8B, CHR 0xA4, CHR 0x2E]"

definition txt_fp_no_start :: string where
  "txt_fp_no_start =
     [CHR 0xEC, CHR 0x8B, CHR 0x9C, CHR 0xEC, CHR 0x9E, CHR 0x91, CHR 0x20, CHR 0xEC, CHR 0x97,
      CHR 0x86, CHR 0xEC, CHR 0x9D, CHR 0x8C]"

definition txt_fp_no_end :: string where
  "txt_fp_no_end =
     [CHR 0xEC, CHR 0xA2, CHR 0x85, CHR 0xEB, CHR 0xA3, CHR 0x8C, CHR 0x20, CHR 0xEC, CHR 0x97,
      CHR 0x86, CHR 0xEC, CHR 0x9D, CHR 0x8C]"

definition txt_fp_blank :: string where
  "txt_fp_blank =
     [CHR 0xEA, CHR 0xB3, CHR 0xB5, CHR 0xEB, CHR 0xB0, CHR 0xB1]"

definition txt_fp_7 :: string where
  "txt_fp_7 =
     [CHR 0xEC, CHR 0xB5, CHR 0x9C, CHR 0xEA, CHR 0xB7, CHR 0xBC, CHR 0x20, CHR 0x37, CHR 0xEC,
      CHR 0x9D, CHR 0xBC]"

definition txt_fp_30 :: string where
  "txt_fp_30 =
     [CHR 0xEC, CHR 0xB5, CHR 0x9C, CHR 0xEA, CHR 0xB7, CHR 0xBC, CHR 0x20, CHR 0x33, CHR 0x30,
      CHR 0xEC, CHR 0x9D, CHR 0xBC]"

definition txt_fp_oldest :: string where
  "txt_fp_oldest =
     [CHR 0xEC, CHR 0x98, CHR 0xA4, CHR 0xEB, CHR 0x9E, CHR 0x98, CHR 0xEB, CHR 0x90, CHR 0x9C,
      CHR 0xEC, CHR 0x88, CHR 0x9C]"

definition txt_fp_run_asc :: string where
  "txt_fp_run_asc =
     [CHR 0xEC, CHR 0x8B, CHR 0xA4, CHR 0xED, CHR 0x96, CHR 0x89, CHR 0x20, CHR 0xEB, CHR 0xB2,
      CHR 0x88, CHR 0xED, CHR 0x98, CHR 0xB8, CHR 0x20, CHR 0xEB, CHR 0x82, CHR 0xAE, CHR 0xEC,
      CHR 0x9D, CHR 0x80, CHR 0xEC, CHR 0x88, CHR 0x9C]"

definition txt_fp_run_desc :: string where
  "txt_fp_run_desc =
     [CHR 0xEC, CHR 0x8B, CHR 0xA4, CHR 0xED, CHR 0x96, CHR 0x89, CHR 0x20, CHR 0xEB, CHR 0xB2,
      CHR 0x88, CHR 0xED, CHR 0x98, CHR 0xB8, CHR 0x20, CHR 0xEB, CHR 0x86, CHR 0x92, CHR 0xEC,
      CHR 0x9D, CHR 0x80, CHR 0xEC, CHR 0x88, CHR 0x9C]"

definition txt_fp_type :: string where
  "txt_fp_type =
     [CHR 0xEC, CHR 0x9C, CHR 0xA0, CHR 0xED, CHR 0x98, CHR 0x95, CHR 0x3A, CHR 0x20]"

definition txt_fp_period :: string where
  "txt_fp_period =
     [CHR 0xEA, CHR 0xB8, CHR 0xB0, CHR 0xEA, CHR 0xB0, CHR 0x84, CHR 0x3A, CHR 0x20]"

definition txt_fp_search :: string where
  "txt_fp_search =
     [CHR 0xEA, CHR 0xB2, CHR 0x80, CHR 0xEC, CHR 0x83, CHR 0x89, CHR 0x3A, CHR 0x20]"

definition txt_fp_sort :: string where
  "txt_fp_sort =
     [CHR 0xEC, CHR 0xA0, CHR 0x95, CHR 0xEB, CHR 0xA0, CHR 0xAC, CHR 0x3A, CHR 0x20]"

definition txt_fp_to_delete :: string where
  "txt_fp_to_delete =
     [CHR 0xEC, CHR 0x82, CHR 0xAD, CHR 0xEC, CHR 0xA0, CHR 0x9C, CHR 0x20, CHR 0xEB, CHR 0x8C,
      CHR 0x80, CHR 0xEC, CHR 0x83, CHR 0x81, CHR 0x20]"

definition txt_fp_items :: string where
  "txt_fp_items =
     [CHR 0xEA, CHR 0xB1, CHR 0xB4]"

definition txt_fp_hidden_in :: string where
  "txt_fp_hidden_in =
     [CHR 0x20, CHR 0xC2, CHR 0xB7, CHR 0x20, CHR 0xED, CHR 0x98, CHR 0x84, CHR 0xEC, CHR 0x9E,
      CHR 0xAC, CHR 0x20, CHR 0xED, CHR 0x95, CHR 0x84, CHR 0xED, CHR 0x84, CHR 0xB0, CHR 0x20,
      CHR 0xEB, CHR 0xB0, CHR 0x96, CHR 0xEC, CHR 0x97, CHR 0x90, CHR 0xEC, CHR 0x84, CHR 0x9C,
      CHR 0x20, CHR 0xEC, CHR 0x84, CHR 0xA0, CHR 0xED, CHR 0x83, CHR 0x9D, CHR 0xED, CHR 0x95,
      CHR 0x9C, CHR 0x20, CHR 0xED, CHR 0x95, CHR 0xAD, CHR 0xEB, CHR 0xAA, CHR 0xA9, CHR 0x20]"

definition txt_fp_included :: string where
  "txt_fp_included =
     [CHR 0xEA, CHR 0xB1, CHR 0xB4, CHR 0x20, CHR 0xED, CHR 0x8F, CHR 0xAC, CHR 0xED, CHR 0x95,
      CHR 0xA8]"

definition txt_fp_all_shown :: string where
  "txt_fp_all_shown =
     [CHR 0x20, CHR 0xC2, CHR 0xB7, CHR 0x20, CHR 0xEB, CHR 0xAA, CHR 0xA8, CHR 0xEB, CHR 0x91,
      CHR 0x90, CHR 0x20, CHR 0xED, CHR 0x98, CHR 0x84, CHR 0xEC, CHR 0x9E, CHR 0xAC, CHR 0x20,
      CHR 0xED, CHR 0x95, CHR 0x84, CHR 0xED, CHR 0x84, CHR 0xB0, CHR 0xEC, CHR 0x97, CHR 0x90,
      CHR 0x20, CHR 0xED, CHR 0x91, CHR 0x9C, CHR 0xEC, CHR 0x8B, CHR 0x9C, CHR 0xEB, CHR 0x90,
      CHR 0xA8]"

definition txt_fp_selection :: string where
  "txt_fp_selection =
     [CHR 0xEC, CHR 0x84, CHR 0xA0, CHR 0xED, CHR 0x83, CHR 0x9D, CHR 0x20]"

definition txt_fp_selection_in :: string where
  "txt_fp_selection_in =
     [CHR 0xEA, CHR 0xB1, CHR 0xB4, CHR 0x20, CHR 0xC2, CHR 0xB7, CHR 0x20, CHR 0xED, CHR 0x98,
      CHR 0x84, CHR 0xEC, CHR 0x9E, CHR 0xAC, CHR 0x20, CHR 0xEA, CHR 0xB2, CHR 0xB0, CHR 0xEA,
      CHR 0xB3, CHR 0xBC, CHR 0x20]"

definition txt_fp_selection_hidden :: string where
  "txt_fp_selection_hidden =
     [CHR 0xEA, CHR 0xB1, CHR 0xB4, CHR 0x20, CHR 0xC2, CHR 0xB7, CHR 0x20, CHR 0xEC, CHR 0x88,
      CHR 0xA8, CHR 0xEA, CHR 0xB9, CHR 0x80, CHR 0x20]"

definition txt_fp_no_selection :: string where
  "txt_fp_no_selection =
     [CHR 0xEC, CHR 0x84, CHR 0xA0, CHR 0xED, CHR 0x83, CHR 0x9D, CHR 0x20, CHR 0xEC, CHR 0x97,
      CHR 0x86, CHR 0xEC, CHR 0x9D, CHR 0x8C]"

definition txt_fp_classify_failed :: string where
  "txt_fp_classify_failed =
     [CHR 0xEC, CHR 0x8B, CHR 0xA4, CHR 0xED, CHR 0x8C, CHR 0xA8, CHR 0x20, CHR 0xEC, CHR 0x9C,
      CHR 0xA0, CHR 0xED, CHR 0x98, CHR 0x95, CHR 0xEC, CHR 0x9D, CHR 0x84, CHR 0x20, CHR 0xEC,
      CHR 0xA0, CHR 0x80, CHR 0xEC, CHR 0x9E, CHR 0xA5, CHR 0xED, CHR 0x95, CHR 0x98, CHR 0xEC,
      CHR 0xA7, CHR 0x80, CHR 0x20, CHR 0xEB, CHR 0xAA, CHR 0xBB, CHR 0xED, CHR 0x96, CHR 0x88,
      CHR 0xEC, CHR 0x8A, CHR 0xB5, CHR 0xEB, CHR 0x8B, CHR 0x88, CHR 0xEB, CHR 0x8B, CHR 0xA4,
      CHR 0x2E]"

definition txt_hp_export_done :: string where
  "txt_hp_export_done =
     [CHR 0x20, CHR 0xEB, CHR 0x82, CHR 0xB4, CHR 0xEB, CHR 0xB3, CHR 0xB4, CHR 0xEB, CHR 0x82,
      CHR 0xB4, CHR 0xEA, CHR 0xB8, CHR 0xB0, CHR 0x20, CHR 0xEC, CHR 0x99, CHR 0x84, CHR 0xEB,
      CHR 0xA3, CHR 0x8C, CHR 0x20, CHR 0xC2, CHR 0xB7, CHR 0x20]"

definition txt_hp_export_failed :: string where
  "txt_hp_export_failed =
     [CHR 0x20, CHR 0xEB, CHR 0x82, CHR 0xB4, CHR 0xEB, CHR 0xB3, CHR 0xB4, CHR 0xEB, CHR 0x82,
      CHR 0xB4, CHR 0xEA, CHR 0xB8, CHR 0xB0, CHR 0x20, CHR 0xEC, CHR 0x8B, CHR 0xA4, CHR 0xED,
      CHR 0x8C, CHR 0xA8]"

definition txt_hp_link_copied :: string where
  "txt_hp_link_copied =
     [CHR 0xED, CHR 0x98, CHR 0x84, CHR 0xEC, CHR 0x9E, CHR 0xAC, CHR 0x20, CHR 0xEB, CHR 0xB3,
      CHR 0x91, CHR 0xEB, CHR 0xAA, CHR 0xA9, CHR 0x20, CHR 0xEC, CHR 0x9D, CHR 0xB4, CHR 0xEB,
      CHR 0xA0, CHR 0xA5, CHR 0x20, CHR 0xED, CHR 0x95, CHR 0x84, CHR 0xED, CHR 0x84, CHR 0xB0,
      CHR 0x20, CHR 0xEB, CHR 0xA7, CHR 0x81, CHR 0xED, CHR 0x81, CHR 0xAC, CHR 0x20, CHR 0xEB,
      CHR 0xB3, CHR 0xB5, CHR 0xEC, CHR 0x82, CHR 0xAC, CHR 0x20, CHR 0xEC, CHR 0x99, CHR 0x84,
      CHR 0xEB, CHR 0xA3, CHR 0x8C]"

definition txt_hp_link_failed :: string where
  "txt_hp_link_failed =
     [CHR 0xED, CHR 0x98, CHR 0x84, CHR 0xEC, CHR 0x9E, CHR 0xAC, CHR 0x20, CHR 0xEB, CHR 0xB3,
      CHR 0x91, CHR 0xEB, CHR 0xAA, CHR 0xA9, CHR 0x20, CHR 0xEC, CHR 0x9D, CHR 0xB4, CHR 0xEB,
      CHR 0xA0, CHR 0xA5, CHR 0x20, CHR 0xED, CHR 0x95, CHR 0x84, CHR 0xED, CHR 0x84, CHR 0xB0,
      CHR 0x20, CHR 0xEB, CHR 0xA7, CHR 0x81, CHR 0xED, CHR 0x81, CHR 0xAC, CHR 0x20, CHR 0xEB,
      CHR 0xB3, CHR 0xB5, CHR 0xEC, CHR 0x82, CHR 0xAC, CHR 0x20, CHR 0xEC, CHR 0x8B, CHR 0xA4,
      CHR 0xED, CHR 0x8C, CHR 0xA8]"

definition txt_hp_current :: string where
  "txt_hp_current =
     [CHR 0xED, CHR 0x98, CHR 0x84, CHR 0xEC, CHR 0x9E, CHR 0xAC, CHR 0x20, CHR 0xEA, CHR 0xB2,
      CHR 0xB0, CHR 0xEA, CHR 0xB3, CHR 0xBC, CHR 0x20]"

definition txt_hp_waiting :: string where
  "txt_hp_waiting =
     [CHR 0xEC, CHR 0x8B, CHR 0x9C, CHR 0xEC, CHR 0x9E, CHR 0x91, CHR 0xEC, CHR 0x9D, CHR 0xBC,
      CHR 0xEA, CHR 0xB3, CHR 0xBC, CHR 0x20, CHR 0xEC, CHR 0xA2, CHR 0x85, CHR 0xEB, CHR 0xA3,
      CHR 0x8C, CHR 0xEC, CHR 0x9D, CHR 0xBC, CHR 0xEC, CHR 0x9D, CHR 0x84, CHR 0x20, CHR 0xEC,
      CHR 0x88, CHR 0x9C, CHR 0xEC, CHR 0x84, CHR 0x9C, CHR 0xEB, CHR 0x8C, CHR 0x80, CHR 0xEB,
      CHR 0xA1, CHR 0x9C, CHR 0x20, CHR 0xEC, CHR 0x84, CHR 0xA0, CHR 0xED, CHR 0x83, CHR 0x9D,
      CHR 0xED, CHR 0x95, CHR 0x98, CHR 0xEC, CHR 0x84, CHR 0xB8, CHR 0xEC, CHR 0x9A, CHR 0x94,
      CHR 0x2E]"

definition txt_hp_count_error :: string where
  "txt_hp_count_error =
     [CHR 0xEB, CHR 0x8B, CHR 0xA4, CHR 0xEC, CHR 0x9A, CHR 0xB4, CHR 0xEB, CHR 0xA1, CHR 0x9C,
      CHR 0xEB, CHR 0x93, CHR 0x9C, CHR 0x20, CHR 0xEB, CHR 0x8C, CHR 0x80, CHR 0xEC, CHR 0x83,
      CHR 0x81, CHR 0x20, CHR 0xEA, CHR 0xB1, CHR 0xB4, CHR 0xEC, CHR 0x88, CHR 0x98, CHR 0xEB,
      CHR 0xA5, CHR 0xBC, CHR 0x20, CHR 0xED, CHR 0x99, CHR 0x95, CHR 0xEC, CHR 0x9D, CHR 0xB8,
      CHR 0xED, CHR 0x95, CHR 0x98, CHR 0xEC, CHR 0xA7, CHR 0x80, CHR 0x20, CHR 0xEB, CHR 0xAA,
      CHR 0xBB, CHR 0xED, CHR 0x96, CHR 0x88, CHR 0xEC, CHR 0x8A, CHR 0xB5, CHR 0xEB, CHR 0x8B,
      CHR 0x88, CHR 0xEB, CHR 0x8B, CHR 0xA4, CHR 0x2E]"

definition txt_hp_counting :: string where
  "txt_hp_counting =
     [CHR 0xEB, CHR 0x8B, CHR 0xA4, CHR 0xEC, CHR 0x9A, CHR 0xB4, CHR 0xEB, CHR 0xA1, CHR 0x9C,
      CHR 0xEB, CHR 0x93, CHR 0x9C, CHR 0x20, CHR 0xEB, CHR 0x8C, CHR 0x80, CHR 0xEC, CHR 0x83,
      CHR 0x81, CHR 0x20, CHR 0xEA, CHR 0xB1, CHR 0xB4, CHR 0xEC, CHR 0x88, CHR 0x98, CHR 0x20,
      CHR 0xED, CHR 0x99, CHR 0x95, CHR 0xEC, CHR 0x9D, CHR 0xB8, CHR 0x20, CHR 0xEC, CHR 0xA4,
      CHR 0x91, CHR 0x2E, CHR 0x2E, CHR 0x2E]"

definition txt_hp_count_zero :: string where
  "txt_hp_count_zero =
     [CHR 0xEB, CHR 0x8B, CHR 0xA4, CHR 0xEC, CHR 0x9A, CHR 0xB4, CHR 0xEB, CHR 0xA1, CHR 0x9C,
      CHR 0xEB, CHR 0x93, CHR 0x9C, CHR 0x20, CHR 0xEB, CHR 0x8C, CHR 0x80, CHR 0xEC, CHR 0x83,
      CHR 0x81, CHR 0x20, CHR 0x30, CHR 0xEA, CHR 0xB1, CHR 0xB4, CHR 0x20, CHR 0xC2, CHR 0xB7,
      CHR 0x20, CHR 0x43, CHR 0x53, CHR 0x56, CHR 0xEC, CHR 0x97, CHR 0x90, CHR 0xEB, CHR 0x8A,
      CHR 0x94, CHR 0x20, CHR 0xED, CHR 0x97, CHR 0xA4, CHR 0xEB, CHR 0x8D, CHR 0x94, CHR 0xEB,
      CHR 0xA7, CHR 0x8C, CHR 0x20, CHR 0xED, CHR 0x8F, CHR 0xAC, CHR 0xED, CHR 0x95, CHR 0xA8,
      CHR 0xEB, CHR 0x90, CHR 0xA9, CHR 0xEB, CHR 0x8B, CHR 0x88, CHR 0xEB, CHR 0x8B, CHR 0xA4,
      CHR 0x2E]"

definition txt_hp_count :: string where
  "txt_hp_count =
     [CHR 0xEB, CHR 0x8B, CHR 0xA4, CHR 0xEC, CHR 0x9A, CHR 0xB4, CHR 0xEB, CHR 0xA1, CHR 0x9C,
      CHR 0xEB, CHR 0x93, CHR 0x9C, CHR 0x20, CHR 0xEB, CHR 0x8C, CHR 0x80, CHR 0xEC, CHR 0x83,
      CHR 0x81, CHR 0x20]"

definition txt_hp_success :: string where
  "txt_hp_success =
     [CHR 0xEC, CHR 0x84, CHR 0xB1, CHR 0xEA, CHR 0xB3, CHR 0xB5]"

definition txt_hp_failure :: string where
  "txt_hp_failure =
     [CHR 0xEC, CHR 0x8B, CHR 0xA4, CHR 0xED, CHR 0x8C, CHR 0xA8]"

definition txt_hp_unknown_step :: string where
  "txt_hp_unknown_step =
     [CHR 0xEC, CHR 0x95, CHR 0x8C, CHR 0x20, CHR 0xEC, CHR 0x88, CHR 0x98, CHR 0x20, CHR 0xEC,
      CHR 0x97, CHR 0x86, CHR 0xEB, CHR 0x8A, CHR 0x94, CHR 0x20, CHR 0xEB, CHR 0x8B, CHR 0xA8,
      CHR 0xEA, CHR 0xB3, CHR 0x84]"

end
