(* ===== verification/Smoke_Session.thy ===== *)
theory Smoke_Session
  imports JS_Text Cdp_Client Smoke_Tracking Smoke_Filters Middleware_Page Ui_Text_Scripts
begin

text \<open>
  The sessions of the smoke test (\<open>scripts/smoke-session-auth.mjs\<close>, \<open>smoke-admin-read-only.mjs\<close>,
  \<open>smoke-remote-status.mjs\<close>): cookies as they are written, read and taken from an answer, the login, the
  check that the extra administrator may not write, and the record of a run in the backend.

  A script is a function of the requests it has sent so far; it gives its result, or the message of the
  error it throws, and the requests after it.  \<open>fetch\<close> is an argument that may depend on all of them.
\<close>

section \<open>Scripts\<close>

record script_request =
  sq_method :: string
  sq_url :: string
  sq_headers :: "(string \<times> string) list"
  sq_body :: "string option"

text \<open>\<open>sp_cookies\<close> is what \<open>headers.getSetCookie\<close> gives, if the engine has it; \<open>sp_combined\<close> is the header
  \<open>set-cookie\<close>.\<close>

record script_response =
  sp_status :: nat
  sp_text :: string
  sp_cookies :: "string list option"
  sp_combined :: "string option"

text \<open>The messages of the errors that the engine and the assertion library throw are theirs.\<close>

record smoke_host =
  sm_fetch :: "script_request list \<Rightarrow> script_request \<Rightarrow> string + script_response"
  sm_env :: "string \<Rightarrow> string option"
  sm_now :: string
  sm_syntaxError :: "string \<Rightarrow> string"
  sm_typeError :: string
  sm_assertion :: "json option \<Rightarrow> string"

type_synonym 'a script = "script_request list \<Rightarrow> (string + 'a) \<times> script_request list"

definition sc_return :: "'a \<Rightarrow> 'a script" where
  "sc_return x l = (Inr x, l)"

definition sc_throw :: "string \<Rightarrow> 'a script" where
  "sc_throw e l = (Inl e, l)"

definition sc_bind :: "'a script \<Rightarrow> ('a \<Rightarrow> 'b script) \<Rightarrow> 'b script" where
  "sc_bind m f l = (case m l of (Inl e, l') \<Rightarrow> (Inl e, l') | (Inr x, l') \<Rightarrow> f x l')"

definition sc_lift :: "string + 'a \<Rightarrow> 'a script" where
  "sc_lift r l = (r, l)"

definition sc_catch :: "'a script \<Rightarrow> (string \<Rightarrow> 'a script) \<Rightarrow> 'a script" where
  "sc_catch m f l = (case m l of (Inl e, l') \<Rightarrow> f e l' | (Inr x, l') \<Rightarrow> (Inr x, l'))"

definition sc_ensure :: "bool \<Rightarrow> string \<Rightarrow> unit script" where
  "sc_ensure b e = (if b then sc_return () else sc_throw e)"

definition sc_fetch :: "smoke_host \<Rightarrow> script_request \<Rightarrow> script_response script" where
  "sc_fetch h q l = (sm_fetch h l q, l @ [q])"

definition response_ok :: "script_response \<Rightarrow> bool" where
  "response_ok r = (200 \<le> sp_status r \<and> sp_status r \<le> 299)"

definition sc_parse :: "smoke_host \<Rightarrow> string \<Rightarrow> json script" where
  "sc_parse h tx = (case json_parse tx of None \<Rightarrow> sc_throw (sm_syntaxError h tx) | Some v \<Rightarrow> sc_return v)"

text \<open>\<open>v.k\<close>\<close>

definition sc_member :: "smoke_host \<Rightarrow> json \<Rightarrow> string \<Rightarrow> json option script" where
  "sc_member h v k = (if v = JNull then sc_throw (sm_typeError h) else sc_return (json_field k v))"

section \<open>Cookies\<close>

record cookie =
  ck_name :: string
  ck_value :: string

definition parseCookiePair :: "string \<Rightarrow> cookie option" where
  "parseCookiePair pair =
     (let index = length (takeWhile (\<lambda>c. c \<noteq> CHR ''='') pair) in
      if index = 0 \<or> index = length pair then None
      else Some \<lparr>ck_name = js_trim (take index pair), ck_value = js_trim (drop (Suc index) pair)\<rparr>)"

definition formatCookieHeader :: "cookie list \<Rightarrow> string" where
  "formatCookieHeader cookies = str_join ''; '' (map (\<lambda>c. ck_name c @ ''='' @ ck_value c) cookies)"

definition parseCookieHeader :: "string \<Rightarrow> cookie list" where
  "parseCookieHeader v = List.map_filter (\<lambda>item. parseCookiePair (js_trim item)) (str_split (CHR '';'') v)"

definition parseSetCookieHeaders :: "string list \<Rightarrow> cookie list" where
  "parseSetCookieHeaders headers =
     List.map_filter (\<lambda>header. parseCookiePair (js_trim (hd (str_split (CHR '';'') header)))) headers"

text \<open>\<open>value.split(/,(?=\s*[^;,=\s]+=)/)\<close>: a comma separates where the name of a cookie follows.\<close>

definition cookie_ahead :: "string \<Rightarrow> bool" where
  "cookie_ahead s =
     (let r = trim_start s; name = takeWhile (\<lambda>c. c \<notin> {CHR '';'', CHR '','', CHR ''=''}) r in
      name \<noteq> [] \<and> prefix ''='' (drop (length name) r) \<and> collapse_ws name = name \<and> CHR '' '' \<notin> set name)"

fun split_cookie_commas :: "string \<Rightarrow> string list" where
  "split_cookie_commas [] = [[]]"
| "split_cookie_commas (c # s) =
     (if c = CHR '','' \<and> cookie_ahead s then [] # split_cookie_commas s
      else (case split_cookie_commas s of [] \<Rightarrow> [[c]] | w # ws \<Rightarrow> (c # w) # ws))"

definition splitCombinedSetCookie :: "string \<Rightarrow> string list" where
  "splitCombinedSetCookie v = (if v = [] then [] else map js_trim (split_cookie_commas v))"

definition getSetCookieHeaders :: "script_response \<Rightarrow> string list" where
  "getSetCookieHeaders r =
     (case sp_cookies r of Some hs \<Rightarrow> hs | None \<Rightarrow> splitCombinedSetCookie (or_else (sp_combined r) []))"

section \<open>Login\<close>

definition http_error :: "string \<Rightarrow> script_response \<Rightarrow> string" where
  "http_error label r = label @ show_nat (sp_status r) @ '': '' @ js_take 200 (sp_text r)"

definition login_request :: "string \<Rightarrow> string \<Rightarrow> string \<Rightarrow> script_request" where
  "login_request baseUrl username password =
     \<lparr>sq_method = ''POST'', sq_url = baseUrl @ ''/api/v1/auth/login'',
      sq_headers = [(''content-type'', ''application/x-www-form-urlencoded'')],
      sq_body = Some (params_string [(''username'', username), (''password'', password)])\<rparr>"

definition loginSessionCookies :: "smoke_host \<Rightarrow> string \<Rightarrow> string \<Rightarrow> string \<Rightarrow> cookie list script" where
  "loginSessionCookies h baseUrl username password =
     sc_bind (sc_fetch h (login_request baseUrl username password)) (\<lambda>r.
     sc_bind (sc_ensure (response_ok r) (http_error txt_sc_login_api r)) (\<lambda>_.
     let cookies = parseSetCookieHeaders (getSetCookieHeaders r) in
     sc_bind (sc_ensure (cookies \<noteq> []) txt_sc_no_cookie) (\<lambda>_. sc_return cookies)))"

definition resolveSessionCookies :: "smoke_host \<Rightarrow> string \<Rightarrow> cookie list script" where
  "resolveSessionCookies h baseUrl =
     (if truthy (sm_env h ''TM_SMOKE_COOKIE'') then sc_return (parseCookieHeader (the (sm_env h ''TM_SMOKE_COOKIE'')))
      else if \<not> truthy (sm_env h ''TM_SMOKE_USERNAME'') \<or> \<not> truthy (sm_env h ''TM_SMOKE_PASSWORD'') then sc_throw txt_sc_need
      else loginSessionCookies h baseUrl (the (sm_env h ''TM_SMOKE_USERNAME'')) (the (sm_env h ''TM_SMOKE_PASSWORD'')))"

section \<open>The extra administrator\<close>

definition find_csrf :: "cookie list \<Rightarrow> cookie option" where
  "find_csrf cookies = find (\<lambda>c. str_includes (str_lower (ck_name c)) ''csrf'') cookies"

definition csrf_headers :: "cookie list \<Rightarrow> cookie \<Rightarrow> (string \<times> string) list" where
  "csrf_headers cookies csrf =
     [(''content-type'', ''application/json''), (''cookie'', formatCookieHeader cookies), (''x-csrf-token'', ck_value csrf)]"

definition write_probe :: "string \<Rightarrow> cookie list \<Rightarrow> cookie \<Rightarrow> script_request" where
  "write_probe baseUrl cookies csrf =
     \<lparr>sq_method = ''PUT'', sq_url = baseUrl @ ''/api/v1/users/00000000-0000-0000-0000-000000000000'',
      sq_headers = csrf_headers cookies csrf, sq_body = Some ''{}''\<rparr>"

definition assertSmokeAdminReadOnly :: "smoke_host \<Rightarrow> string \<Rightarrow> cookie list \<Rightarrow> unit script" where
  "assertSmokeAdminReadOnly h baseUrl cookies =
     (case find_csrf cookies of
        None \<Rightarrow> sc_throw txt_sc_write_csrf
      | Some csrf \<Rightarrow>
          sc_bind (sc_fetch h (write_probe baseUrl cookies csrf)) (\<lambda>r.
          sc_bind (sc_ensure (sp_status r = 403)
                     (txt_sc_write1 @ show_nat (sp_status r) @ txt_sc_write2 @ js_take 200 (sp_text r))) (\<lambda>_.
          sc_bind (sc_parse h (sp_text r)) (\<lambda>v.
          sc_bind (sc_member h v ''detail'') (\<lambda>detail.
          sc_ensure (detail = Some (JStr txt_sc_read_only)) (sm_assertion h detail))))))"

definition resolveOptionalSmokeAdminReadOnlySession :: "smoke_host \<Rightarrow> string \<Rightarrow> cookie list option script" where
  "resolveOptionalSmokeAdminReadOnlySession h baseUrl =
     (if sm_env h ''TM_SMOKE_ADMIN_EXPECT_READ_ONLY'' \<noteq> Some ''1'' then sc_return None
      else if \<not> truthy (sm_env h ''TM_SMOKE_ADMIN_USERNAME'') \<or> \<not> truthy (sm_env h ''TM_SMOKE_ADMIN_PASSWORD'')
        then sc_throw txt_sc_credentials
      else
        sc_bind (loginSessionCookies h baseUrl (the (sm_env h ''TM_SMOKE_ADMIN_USERNAME'')) (the (sm_env h ''TM_SMOKE_ADMIN_PASSWORD'')))
          (\<lambda>cookies. sc_bind (assertSmokeAdminReadOnly h baseUrl cookies) (\<lambda>_. sc_return (Some cookies))))"

section \<open>The record of a run\<close>

definition text_or_null :: "string option \<Rightarrow> json" where
  "text_or_null v = (case or_null v of None \<Rightarrow> JNull | Some s \<Rightarrow> JStr s)"

definition getAdminSmokeAlertMessage :: "json \<Rightarrow> string option" where
  "getAdminSmokeAlertMessage status =
     (if \<not> truthy_json (json_field ''monitoring_enabled'' status) then None
      else if \<not> truthy_json (json_field ''monitoring_admin_last_success_at'' status) then Some txt_sc_no_record
      else if truthy_json (json_field ''monitoring_admin_is_stale'' status) then
        Some (txt_sc_stale1 @ template_text (json_field ''monitoring_admin_stale_after_days'' status) @ txt_sc_stale2)
      else None)"

definition success_request :: "smoke_host \<Rightarrow> string \<Rightarrow> cookie list \<Rightarrow> cookie \<Rightarrow> bool \<Rightarrow> string \<Rightarrow> script_request" where
  "success_request h baseUrl cookies csrf adminChecked runId =
     \<lparr>sq_method = ''POST'', sq_url = baseUrl @ ''/api/v1/settings/smoke-run-success'', sq_headers = csrf_headers cookies csrf,
      sq_body = Some (json_stringify (JObj
        [(''admin_checked'', JBool adminChecked), (''run_id'', JNum (js_number runId)),
         (''started_at'', text_or_null (sm_env h ''TM_SMOKE_STARTED_AT'')), (''completed_at'', JStr (sm_now h))]))\<rparr>"

definition status_request :: "string \<Rightarrow> cookie list \<Rightarrow> script_request" where
  "status_request baseUrl cookies =
     \<lparr>sq_method = ''GET'', sq_url = baseUrl @ ''/api/v1/settings/smoke-rotation?summary=true'',
      sq_headers = [(''cookie'', formatCookieHeader cookies)], sq_body = None\<rparr>"

definition check_admin_status :: "smoke_host \<Rightarrow> string \<Rightarrow> cookie list \<Rightarrow> unit script" where
  "check_admin_status h baseUrl cookies =
     sc_bind (sc_fetch h (status_request baseUrl cookies)) (\<lambda>r.
     sc_bind (sc_ensure (response_ok r) (http_error txt_sc_status_api r)) (\<lambda>_.
     sc_bind (sc_parse h (sp_text r)) (\<lambda>v.
     (case getAdminSmokeAlertMessage v of None \<Rightarrow> sc_return () | Some message \<Rightarrow> sc_throw message))))"

definition recordRemoteSmokeSuccess :: "smoke_host \<Rightarrow> string \<Rightarrow> cookie list \<Rightarrow> bool \<Rightarrow> unit script" where
  "recordRemoteSmokeSuccess h baseUrl cookies adminChecked =
     (if \<not> truthy (sm_env h ''GITHUB_RUN_ID'') then sc_return ()
      else case find_csrf cookies of
        None \<Rightarrow> sc_throw txt_sc_success_csrf
      | Some csrf \<Rightarrow>
          sc_bind (sc_fetch h (success_request h baseUrl cookies csrf adminChecked (the (sm_env h ''GITHUB_RUN_ID'')))) (\<lambda>r.
          sc_bind (sc_ensure (response_ok r) (http_error txt_sc_success_api r)) (\<lambda>_.
          if \<not> adminChecked \<and> sm_env h ''TM_SMOKE_ADMIN_EXPECT_READ_ONLY'' \<noteq> Some ''1'' then sc_return ()
          else check_admin_status h baseUrl cookies)))"

text \<open>\<open>classifySmokeFailure\<close>; the last pattern asks for \<open>API\<close> between blanks or ends, which is a word of the
  text with its blanks collapsed.\<close>

definition classifySmokeFailure :: "string option \<Rightarrow> SmokeFailureType" where
  "classifySmokeFailure message =
     (let tx = or_else message [] in
      if list_ex (str_includes tx) [txt_sc_login, txt_sc_session, txt_sc_auth, txt_sc_rotation] then FailLogin
      else if list_ex (str_includes tx) [''GitHub'', ''Cloudflare'', ''Traefik''] then FailExternalApi
      else if str_includes tx txt_sc_admin then FailLogin
      else if str_includes tx txt_sc_remote \<or> ''API'' \<in> set (str_split (CHR '' '') (collapse_ws tx)) then FailExternalApi
      else FailVisualRegression)"

fun FAILURE_TYPE_LABELS :: "SmokeFailureType \<Rightarrow> string" where
  "FAILURE_TYPE_LABELS FailExternalApi = txt_sc_l_api"
| "FAILURE_TYPE_LABELS FailLogin = txt_sc_login"
| "FAILURE_TYPE_LABELS FailVisualRegression = txt_sc_l_visual"

definition buildSmokeAlertDetail :: "string option \<Rightarrow> string" where
  "buildSmokeAlertDetail message =
     (let detail = js_trim (collapse_ws (or_else message txt_sc_unknown)) in
      txt_sc_type @ FAILURE_TYPE_LABELS (classifySmokeFailure (Some detail)) @ [CHR 0x0A] @ txt_sc_detail @ detail)"

text \<open>\<open>writeSmokeAlertDetail\<close>: the file and its content, when there is one to write.\<close>

definition writeSmokeAlertDetail :: "smoke_host \<Rightarrow> string option \<Rightarrow> (string \<times> string) option" where
  "writeSmokeAlertDetail h message =
     map_option (\<lambda>p. (p, js_take 500 (buildSmokeAlertDetail message))) (or_null (sm_env h ''TM_SMOKE_ALERT_DETAIL_FILE''))"

text \<open>The body of a recorded failure: the metadata is spread into it, then three fields are set.\<close>

definition failure_body :: "smoke_host \<Rightarrow> json js_object \<Rightarrow> string \<Rightarrow> json" where
  "failure_body h metadata runId =
     JObj (obj_put ''completed_at''
             (if truthy_json (obj_get ''captured_at'' metadata) then the (obj_get ''captured_at'' metadata) else JStr (sm_now h))
          (obj_put ''started_at'' (text_or_null (sm_env h ''TM_SMOKE_STARTED_AT''))
          (obj_put ''failure_type''
             (case obj_get ''failure_type'' metadata of
                Some v \<Rightarrow>
                  if v = JNull then JStr (failure_type_text (classifySmokeFailure (json_string (obj_get ''check_name'' metadata)))) else v
              | None \<Rightarrow> JStr (failure_type_text (classifySmokeFailure (json_string (obj_get ''check_name'' metadata)))))
          (foldl (\<lambda>ps (k, v). obj_put k v ps) [(''run_id'', JNum (js_number runId))] metadata))))"

definition recordRemoteSmokeFailure :: "smoke_host \<Rightarrow> string \<Rightarrow> cookie list \<Rightarrow> json js_object option \<Rightarrow> unit script" where
  "recordRemoteSmokeFailure h baseUrl cookies metadata =
     (case metadata of
        None \<Rightarrow> sc_return ()
      | Some ps \<Rightarrow>
          if \<not> truthy (sm_env h ''GITHUB_RUN_ID'') then sc_return ()
          else case find_csrf cookies of
            None \<Rightarrow> sc_throw txt_sc_failure_csrf
          | Some csrf \<Rightarrow>
              sc_bind (sc_fetch h
                 \<lparr>sq_method = ''POST'', sq_url = baseUrl @ ''/api/v1/settings/smoke-run-failure'', sq_headers = csrf_headers cookies csrf,
                  sq_body = Some (json_stringify (failure_body h ps (the (sm_env h ''GITHUB_RUN_ID''))))\<rparr>) (\<lambda>r.
              sc_ensure (response_ok r) (http_error txt_sc_failure_api r)))"

section \<open>Cookies read back\<close>

text \<open>A cookie as the readers give it: no separator in it, a name, and nothing to trim.\<close>

definition cookie_ok :: "cookie \<Rightarrow> bool" where
  "cookie_ok c =
     (CHR ''='' \<notin> set (ck_name c) \<and> CHR '';'' \<notin> set (ck_name c) \<union> set (ck_value c) \<and> ck_name c \<noteq> [] \<and>
      js_trim (ck_name c) = ck_name c \<and> js_trim (ck_value c) = ck_value c)"

lemma ws_no_equals: "w \<in> set js_ws \<Longrightarrow> CHR ''='' \<notin> set w"
  by (auto simp: js_ws_def)

lemma no_prefix_append:
  assumes n: "no_prefix ws s" and c: "\<And>w. w \<in> set ws \<Longrightarrow> c \<notin> set w"
  shows "no_prefix ws (s @ c # r)"
  unfolding no_prefix_def list_all_iff
proof (intro ballI notI)
  fix w assume w: "w \<in> set ws" and p: "w \<noteq> [] \<and> prefix w (s @ c # r)"
  have "prefix w s \<or> (\<exists>u. w = s @ u \<and> prefix u (c # r) \<and> u \<noteq> [])"
    using p prefix_append [of w s "c # r"] by (metis append_Nil2 prefix_order.refl)
  then consider "prefix w s" | u where "w = s @ u" "prefix u (c # r)" "u \<noteq> []" by blast
  then show False
  proof cases
    case 1
    then show ?thesis using n w p by (auto simp: no_prefix_def list_all_iff)
  next
    case 2
    then have "c \<in> set w" by (cases u) auto
    then show ?thesis using c w by blast
  qed
qed

lemma trim_pair:
  assumes "js_trim n = n" "js_trim v = v"
  shows "js_trim (n @ CHR ''='' # v) = n @ CHR ''='' # v"
proof (rule js_trim_id)
  show "no_prefix js_ws (n @ CHR ''='' # v)" by (rule no_prefix_append) (use js_trim_starts [of n] assms(1) ws_no_equals in simp_all)
  have "no_prefix (map rev js_ws) (rev v @ CHR ''='' # rev n)"
    using js_trim_ends [of v] assms(2) ws_no_equals by (intro no_prefix_append) auto
  then show "no_prefix (map rev js_ws) (rev (n @ CHR ''='' # v))" by simp
qed

lemma pair_ok:
  assumes "parseCookiePair (js_trim s) = Some c" and "CHR '';'' \<notin> set s"
  shows "cookie_ok c"
proof -
  let ?p = "js_trim s"
  let ?i = "length (takeWhile (\<lambda>c. c \<noteq> CHR ''='') ?p)"
  have c: "ck_name c = js_trim (take ?i ?p)" "ck_value c = js_trim (drop (Suc ?i) ?p)" and i: "?i \<noteq> 0"
    using assms(1) by (auto simp: parseCookiePair_def Let_def split: if_splits)
  have t: "take ?i ?p = takeWhile (\<lambda>c. c \<noteq> CHR ''='') ?p" by (rule takeWhile_eq_take [symmetric])
  have "set ?p \<subseteq> set s" by (rule set_js_trim)
  then have semi: "CHR '';'' \<notin> set (take ?i ?p)" "CHR '';'' \<notin> set (drop (Suc ?i) ?p)"
    using assms(2) set_take_subset set_drop_subset by fastforce+
  have eq: "CHR ''='' \<notin> set (take ?i ?p)" unfolding t by (auto dest: set_takeWhileD)
  have start: "no_prefix js_ws (take ?i ?p)" using js_trim_starts [of s] take_is_prefix by (rule no_prefix_prefix)
  have "js_trim (take ?i ?p) \<noteq> []"
  proof
    assume e: "js_trim (take ?i ?p) = []"
    have "trim_start (take ?i ?p) = take ?i ?p" using strip_start_id [OF start] by (simp add: trim_start_def)
    then have z: "strip_start (map rev js_ws) (rev (take ?i ?p)) = []" using e by (simp add: js_trim_def trim_end_def)
    have "rev (take ?i ?p) \<noteq> []" using i by (metis length_rev length_0_conv length_takeWhile_le t)
    then obtain w where w: "w \<in> set (map rev js_ws)" "w \<noteq> []" "suffix w (rev (take ?i ?p))" using strip_all_suffix [OF z] by blast
    then obtain u where u: "u \<in> set js_ws" "w = rev u" by auto
    then have "prefix u (take ?i ?p)" using w(3) by (simp add: suffix_to_prefix)
    then show False using start u w(2) by (auto simp: no_prefix_def list_all_iff)
  qed
  then show ?thesis
    using semi eq set_js_trim by (auto simp: cookie_ok_def c)
qed

lemma pair_reads:
  assumes "cookie_ok c"
  shows "parseCookiePair (js_trim (ck_name c @ ''='' @ ck_value c)) = Some c"
    "parseCookiePair (js_trim (CHR '' '' # ck_name c @ ''='' @ ck_value c)) = Some c"
proof -
  have t: "js_trim (ck_name c @ CHR ''='' # ck_value c) = ck_name c @ CHR ''='' # ck_value c"
    using assms by (intro trim_pair) (simp_all add: cookie_ok_def)
  have w: "takeWhile (\<lambda>c. c \<noteq> CHR ''='') (ck_name c @ CHR ''='' # ck_value c) = ck_name c"
    using assms by (subst takeWhile_append2) (auto simp: cookie_ok_def)
  have "parseCookiePair (ck_name c @ CHR ''='' # ck_value c) = Some c"
    using assms by (simp add: parseCookiePair_def w cookie_ok_def)
  then show "parseCookiePair (js_trim (ck_name c @ ''='' @ ck_value c)) = Some c"
    "parseCookiePair (js_trim (CHR '' '' # ck_name c @ ''='' @ ck_value c)) = Some c"
    by (simp_all add: t)
qed

lemma split_cookie_header:
  "list_all (\<lambda>x. CHR '';'' \<notin> set x) (x # xs) \<Longrightarrow>
   str_split (CHR '';'') (str_join ''; '' (x # xs)) = x # map (Cons (CHR '' '')) xs"
proof (induction xs arbitrary: x)
  case Nil
  then show ?case by (simp add: str_split_no_sep)
next
  case (Cons y ys)
  have "str_split (CHR '';'') (CHR '' '' # str_join ''; '' (y # ys)) = (CHR '' '' # y) # map (Cons (CHR '' '')) ys"
    using Cons by simp
  then show ?case using Cons.prems by (simp add: str_split_sep)
qed

lemma cookie_header_reads:
  assumes "list_all cookie_ok cs"
  shows "parseCookieHeader (formatCookieHeader cs) = cs"
proof (cases cs)
  case Nil
  then show ?thesis by (simp add: parseCookieHeader_def formatCookieHeader_def map_filter_simps parseCookiePair_def)
next
  case (Cons d ds)
  let ?t = "\<lambda>c. ck_name c @ ''='' @ ck_value c"
  have "list_all (\<lambda>x. CHR '';'' \<notin> set x) (map ?t (d # ds))"
    using assms by (auto simp: Cons list_all_iff cookie_ok_def)
  then have s: "str_split (CHR '';'') (formatCookieHeader cs) = ?t d # map (Cons (CHR '' '')) (map ?t ds)"
    unfolding formatCookieHeader_def Cons using split_cookie_header [of "?t d" "map ?t ds"] by simp
  have "List.map_filter (\<lambda>item. parseCookiePair (js_trim item)) (map (Cons (CHR '' '')) (map ?t es)) = es" if "list_all cookie_ok es" for es
    using that by (induction es) (simp_all add: map_filter_simps pair_reads [unfolded append_Cons append_Nil])
  then show ?thesis unfolding parseCookieHeader_def s using assms
    by (simp add: Cons map_filter_simps pair_reads [unfolded append_Cons append_Nil])
qed

text \<open>C40. The session survives its header.  The cookies taken from the answer to a login, written as a cookie
  header and read again, are the same cookies in the same order, whatever the \<open>set-cookie\<close> headers hold;
  and reading, writing and reading a header gives what the first reading gave.\<close>

theorem cookies_roundtrip:
  "parseCookieHeader (formatCookieHeader (parseSetCookieHeaders headers)) = parseSetCookieHeaders headers
   \<and> parseCookieHeader (formatCookieHeader (parseCookieHeader v)) = parseCookieHeader v"
proof -
  have f: "list_all cookie_ok (List.map_filter f xs)" if "\<And>x c. x \<in> set xs \<Longrightarrow> f x = Some c \<Longrightarrow> cookie_ok c" for f and xs :: "string list"
    using that by (induction xs) (auto simp: map_filter_simps split: option.splits)
  have "list_all cookie_ok (parseSetCookieHeaders headers)"
    unfolding parseSetCookieHeaders_def
  proof (rule f)
    fix x c assume p: "parseCookiePair (js_trim (hd (str_split (CHR '';'') x))) = Some c"
    have "hd (str_split (CHR '';'') x) \<in> set (str_split (CHR '';'') x)" by simp
    then show "cookie_ok c" using pair_ok [OF p] str_split_pieces by blast
  qed
  moreover have "list_all cookie_ok (parseCookieHeader v)"
    unfolding parseCookieHeader_def
  proof (rule f)
    fix x c assume "x \<in> set (str_split (CHR '';'') v)" and p: "parseCookiePair (js_trim x) = Some c"
    then show "cookie_ok c" using pair_ok [OF p] str_split_pieces by blast
  qed
  ultimately show ?thesis by (simp add: cookie_header_reads)
qed

text \<open>A combined header is split at the commas before the name of a cookie, not at those of a date.\<close>

lemma split_combined_sample:
  "splitCombinedSetCookie ''a=1; Expires=Wed, 21 Oct 2030 07:28:00 GMT; Path=/, b=2; Path=/''
     = [''a=1; Expires=Wed, 21 Oct 2030 07:28:00 GMT; Path=/'', ''b=2; Path=/'']"
  by code_simp

end
