(* ===== verification/Smoke_Main.thy ===== *)
theory Smoke_Main
  imports Smoke_Session
begin

text \<open>
  The smoke test itself (\<open>scripts/smoke-services-browser-session.mjs\<close>): it signs in, checks the extra administrator,
  reads ten addresses of the API from within the page (\<open>smoke-services-api-checks.mjs\<close>,
  \<open>fetchJsonReadWithRetry\<close> of \<open>dashboard-visual-runtime.mjs\<close>), finds out what the session may do
  (\<open>smoke-session-capabilities.mjs\<close>), looks at the pages, records the success and writes a summary
  (\<open>smoke-ci-summary.mjs\<close>).  The browser with the pages it shows is an argument.
\<close>

section \<open>Addresses\<close>

text \<open>\<open>/^[a-z][a-z0-9+.-]*:\/\//i\<close>\<close>

definition has_scheme :: "string \<Rightarrow> bool" where
  "has_scheme s =
     (let alpha = (\<lambda>c. let b = (of_char (char_lower c) :: nat) in 97 \<le> b \<and> b \<le> 122);
          scheme = takeWhile (\<lambda>c. alpha c \<or> is_digit c \<or> c \<in> {CHR ''+'', CHR ''.'', CHR ''-''}) s
      in scheme \<noteq> [] \<and> alpha (hd scheme) \<and> prefix ''://'' (drop (length scheme) s))"

text \<open>\<open>.replace(/\/+$/, "")\<close>\<close>

definition strip_slashes :: "string \<Rightarrow> string" where
  "strip_slashes s = rev (dropWhile (\<lambda>c. c = CHR ''/'') (rev s))"

definition with_scheme :: "string \<Rightarrow> string" where
  "with_scheme raw = strip_slashes (if has_scheme raw then raw else ''https://'' @ raw)"

definition smoke_normalizeBaseUrl :: "string \<Rightarrow> string" where
  "smoke_normalizeBaseUrl v = (let trimmed = js_trim v in if trimmed = [] then ''http://localhost:3000'' else with_scheme trimmed)"

definition smoke_resolveBaseUrl :: "smoke_host \<Rightarrow> string" where
  "smoke_resolveBaseUrl h =
     smoke_normalizeBaseUrl
       (or_else (sm_env h ''TM_SMOKE_BASE_URL'') (or_else (sm_env h ''FRONTEND_DOMAIN'') ''http://localhost:3000''))"

section \<open>Scheduled runs (\<open>smoke-schedule-check.mjs\<close>)\<close>

definition schedule_resolveBaseUrl :: "smoke_host \<Rightarrow> string + string" where
  "schedule_resolveBaseUrl h =
     (let raw = js_trim (or_else (sm_env h ''TM_SMOKE_BASE_URL'') []) in
      if raw = [] then Inl txt_sc_base_url else Inr (with_scheme raw))"

text \<open>\<open>JSON.parse(text)?.should_run\<close>\<close>

definition parseScheduleDecision :: "smoke_host \<Rightarrow> string \<Rightarrow> bool script" where
  "parseScheduleDecision h tx =
     sc_bind (sc_parse h tx) (\<lambda>v.
     (case json_field ''should_run'' v of Some (JBool b) \<Rightarrow> sc_return b | _ \<Rightarrow> sc_throw txt_sc_should_run))"

definition schedule_main :: "smoke_host \<Rightarrow> string script" where
  "schedule_main h =
     sc_bind (sc_lift (schedule_resolveBaseUrl h)) (\<lambda>baseUrl.
     sc_bind (sc_fetch h \<lparr>sq_method = ''GET'', sq_url = baseUrl @ ''/api/v1/settings/smoke-schedule-decision'', sq_headers = [], sq_body = None\<rparr>) (\<lambda>r.
     sc_bind (sc_ensure (response_ok r) (http_error txt_sc_settings_api r)) (\<lambda>_.
     sc_bind (parseScheduleDecision h (sp_text r)) (\<lambda>b.
     sc_return (''should_run='' @ (if b then ''true'' else ''false''))))))"

section \<open>Reading with a retry\<close>

record read_result =
  rr_data :: json
  rr_ok :: bool
  rr_status :: nat
  rr_text :: string

text \<open>The loop over the attempts: the error of the last one ends it.\<close>

fun read_loop :: "(nat \<Rightarrow> string + 'a) \<Rightarrow> nat list \<Rightarrow> string \<Rightarrow> string + ('a \<times> nat)" where
  "read_loop read [] last_error = Inl last_error"
| "read_loop read (attempt # attempts) last_error =
     (case read attempt of Inr x \<Rightarrow> Inr (x, attempt) | Inl e \<Rightarrow> read_loop read attempts e)"

definition fetchJsonReadWithRetry :: "(string \<Rightarrow> nat \<Rightarrow> string + read_result) \<Rightarrow> string \<Rightarrow> nat \<Rightarrow> string + (read_result \<times> nat)" where
  "fetchJsonReadWithRetry read path attempts =
     (case read_loop (read path) [1..<Suc attempts] [] of
        Inl e \<Rightarrow>
          Inl (txt_sc_read @ path @ txt_sc_failed @ show_nat attempts @ ''/'' @ show_nat attempts @ txt_sc_times
               @ or_else (Some e) txt_sc_unknown)
      | Inr x \<Rightarrow> Inr x)"

section \<open>Checks of the API\<close>

record api_check =
  ac_label :: string
  ac_path :: string
  ac_validate :: "json \<Rightarrow> bool"
  ac_failureMessage :: "json \<Rightarrow> string option"

definition is_text :: "json option \<Rightarrow> bool" where
  "is_text v = (json_string v \<noteq> None)"

fun is_bool :: "json option \<Rightarrow> bool" where
  "is_bool (Some (JBool b)) = True"
| "is_bool _ = False"

fun is_array :: "json \<Rightarrow> bool" where
  "is_array (JArr xs) = True"
| "is_array _ = False"

text \<open>\<open>typeof v === "object"\<close>\<close>

fun is_object :: "json option \<Rightarrow> bool" where
  "is_object (Some JNull) = True"
| "is_object (Some (JArr xs)) = True"
| "is_object (Some (JObj ps)) = True"
| "is_object _ = False"

text \<open>\<open>Number.isInteger\<close>\<close>

fun is_integer :: "json option \<Rightarrow> bool" where
  "is_integer (Some (JNum (Num q))) = (of_int \<lfloor>q\<rfloor> = q)"
| "is_integer _ = False"

definition rotation_valid :: "json \<Rightarrow> bool" where
  "rotation_valid d =
     (json_field ''status'' d \<in> (\<lambda>s. Some (JStr s)) ` {''never'', ''running'', ''success'', ''failure''} \<and>
      is_bool (json_field ''is_stale'' d) \<and> json_field ''stale_after_days'' d = Some (JNum (Num 35)) \<and>
      is_bool (json_field ''monitoring_enabled'' d) \<and>
      json_field ''monitoring_frequency'' d \<in> (\<lambda>s. Some (JStr s)) ` {''daily'', ''weekly''} \<and>
      is_bool (json_field ''monitoring_admin_is_stale'' d) \<and>
      json_field ''monitoring_admin_stale_after_days'' d =
        Some (JNum (Num (if json_field ''monitoring_frequency'' d = Some (JStr ''weekly'') then 8 else 2))))"

definition rotation_failure :: "json \<Rightarrow> string option" where
  "rotation_failure d =
     (if truthy_json (json_field ''is_stale'' d)
      then Some (txt_sc_stale_account @ template_text (json_field ''stale_after_days'' d) @ txt_sc_stale_days) else None)"

definition plain_check :: "string \<Rightarrow> string \<Rightarrow> (json \<Rightarrow> bool) \<Rightarrow> api_check" where
  "plain_check label path valid = \<lparr>ac_label = label, ac_path = path, ac_validate = valid, ac_failureMessage = (\<lambda>_. None)\<rparr>"

definition CHECKS :: "api_check list" where
  "CHECKS =
     [plain_check txt_sc_c_health ''/api/health'' (\<lambda>d. json_field ''status'' d = Some (JStr txt_sc_normal)),
      plain_check txt_sc_c_session ''/api/v1/auth/me'' (\<lambda>d. is_text (json_field ''username'' d) \<and> is_text (json_field ''role'' d)),
      plain_check txt_sc_c_services ''/api/v1/services'' is_array,
      plain_check txt_sc_c_routers ''/api/v1/traefik/routers''
        (\<lambda>d. is_bool (json_field ''connected'' d) \<and> is_object (json_field ''domains'' d)),
      plain_check txt_sc_c_service_health ''/api/v1/services/health/all'' (\<lambda>d. json_is_record (Some d)),
      plain_check txt_sc_c_certificates ''/api/v1/certificates'' is_array,
      plain_check txt_sc_c_time ''/api/v1/settings/time-display'' (\<lambda>d. is_text (json_field ''display_timezone'' d)),
      \<lparr>ac_label = txt_sc_c_rotation, ac_path = ''/api/v1/settings/smoke-rotation?summary=true'', ac_validate = rotation_valid,
       ac_failureMessage = rotation_failure\<rparr>,
      plain_check txt_sc_c_cleanup ''/api/v1/settings/deployment-bottleneck-alert/cleanup''
        (\<lambda>d. is_integer (json_field ''retention_days'' d) \<and> is_integer (json_field ''deleted_count'' d) \<and>
             is_integer (json_field ''retained_event_count'' d)),
      plain_check txt_sc_c_audit ''/api/v1/audit?event=service_gateway_diagnosis&limit=100&resource_type=service'' is_array]"

fun run_checks :: "(string \<Rightarrow> nat \<Rightarrow> string + read_result) \<Rightarrow> api_check list \<Rightarrow> string + (api_check \<times> json) list" where
  "run_checks read [] = Inr []"
| "run_checks read (c # cs) =
     (case fetchJsonReadWithRetry read (ac_path c) 2 of
        Inl e \<Rightarrow> Inl e
      | Inr (r, n) \<Rightarrow>
          (if \<not> rr_ok r then
             Inl (ac_label c @ '' API GET '' @ ac_path c @ '' HTTP '' @ show_nat (rr_status r) @ '': '' @ rr_text r)
           else if \<not> ac_validate c (rr_data r) then Inl (ac_label c @ txt_sc_shape)
           else (case or_null (ac_failureMessage c (rr_data r)) of
               Some message \<Rightarrow> Inl message
             | None \<Rightarrow> map_sum id (Cons (c, rr_data r)) (run_checks read cs))))"

definition runSmokeServicesApiChecks :: "(string \<Rightarrow> nat \<Rightarrow> string + read_result) \<Rightarrow> string + (api_check \<times> json) list" where
  "runSmokeServicesApiChecks read = run_checks read CHECKS"

definition result_of :: "string \<Rightarrow> (api_check \<times> json) list \<Rightarrow> json option" where
  "result_of label results = map_option snd (find (\<lambda>r. ac_label (fst r) = label) results)"

section \<open>Capabilities and summary\<close>

definition resolveSmokeSessionCapabilities :: "json option \<Rightarrow> string + bool" where
  "resolveSmokeSessionCapabilities session =
     (let role = Option.bind session (json_field ''role'') in
      if role = Some (JStr ''admin'') \<or> role = Some (JStr ''viewer'') then Inr (role = Some (JStr ''admin''))
      else Inl (txt_sc_role @ template_text role))"

text \<open>\<open>replaceAll("|", "\\|")\<close>, then runs of line ends become a blank.\<close>

fun blank_line_ends :: "bool \<Rightarrow> string \<Rightarrow> string" where
  "blank_line_ends inside [] = []"
| "blank_line_ends inside (c # s) =
     (if c = CHR 0x0D \<or> c = CHR 0x0A then (if inside then blank_line_ends True s else CHR '' '' # blank_line_ends True s)
      else c # blank_line_ends False s)"

definition markdownCell :: "string \<Rightarrow> string" where
  "markdownCell v = blank_line_ends False (concat (map (\<lambda>c. if c = CHR ''|'' then [CHR 0x5C, CHR ''|''] else [c]) v))"

definition buildSmokeCiSummary :: "bool \<Rightarrow> nat \<Rightarrow> bool \<Rightarrow> string \<Rightarrow> string \<Rightarrow> nat \<Rightarrow> string" where
  "buildSmokeCiSummary adminReadOnlyChecked apiCheckCount canManage role username visualCheckCount =
     (let managementExpectation = (if canManage then txt_sc_s_shown else txt_sc_s_hidden);
          adminResult = (if adminReadOnlyChecked then txt_sc_s_passed else txt_sc_s_not_run)
      in str_join [CHR 0x0A]
        [txt_sc_s_title, [], txt_sc_s_head, ''| --- | --- | --- | --- |'',
         ''| '' @ markdownCell username @ '' | '' @ markdownCell role @ '' | '' @ managementExpectation @ '' | '' @ txt_sc_s_passed @ '' |'',
         txt_sc_s_api @ markdownCell role @ '' | '' @ show_nat apiCheckCount @ txt_sc_s_api_count,
         txt_sc_s_screen @ markdownCell role @ '' | '' @ show_nat visualCheckCount @ txt_sc_s_screen_count,
         txt_sc_s_history @ adminResult @ '' |'', txt_sc_s_write @ adminResult @ '' |''])"

definition writeSmokeCiSummary :: "smoke_host \<Rightarrow> string \<Rightarrow> (string \<times> string) option" where
  "writeSmokeCiSummary h summary = map_option (\<lambda>p. (p, summary @ [CHR 0x0A])) (or_null (sm_env h ''GITHUB_STEP_SUMMARY''))"

section \<open>The run\<close>

text \<open>The browser: starting it and showing the services page, reading an address from within the page (the
  result of an attempt), the visual checks (whether an administrator's checks ran, and their labels), the
  path and title of the page after a failed check, and the checks with the extra administrator.\<close>

record smoke_browser =
  br_open :: "cookie list \<Rightarrow> string + unit"
  br_read :: "string \<Rightarrow> nat \<Rightarrow> string + read_result"
  br_visual :: "bool \<Rightarrow> string + bool \<times> string list"
  br_page :: "json option"
  br_fixtures :: "cookie list \<Rightarrow> string + bool"

text \<open>The visual checks (\<open>dashboard-visual-runner.mjs\<close>): a failure is recorded in the backend, as well as
  possible, with what \<open>buildVisualFailureMetadata\<close> of \<open>dashboard-visual-artifacts.mjs\<close> gathers.\<close>

definition page_field :: "nat \<Rightarrow> string \<Rightarrow> json option \<Rightarrow> json" where
  "page_field n k page =
     (case Option.bind page (json_field k) of
        Some v \<Rightarrow> if truthy_json (Some v) then JStr (js_take n (json_to_string v)) else JNull
      | None \<Rightarrow> JNull)"

definition buildVisualFailureMetadata :: "string \<Rightarrow> string \<Rightarrow> json option \<Rightarrow> json js_object" where
  "buildVisualFailureMetadata capturedAt message page =
     [(''captured_at'', JStr capturedAt), (''check_name'', JStr (js_take 500 message)),
      (''failure_type'', JStr (failure_type_text (classifySmokeFailure (Some message)))),
      (''screen_path'', page_field 500 ''path'' page), (''page_title'', page_field 300 ''title'' page)]"

text \<open>\<open>.catch(() => undefined)\<close>\<close>

definition sc_ignore :: "unit script \<Rightarrow> unit script" where
  "sc_ignore m l = (Inr (), snd (m l))"

definition runDashboardVisualSmoke ::
    "smoke_host \<Rightarrow> smoke_browser \<Rightarrow> string \<Rightarrow> cookie list \<Rightarrow> bool \<Rightarrow> (bool \<times> string list) script" where
  "runDashboardVisualSmoke h br baseUrl cookies canManage =
     (case br_visual br canManage of
        Inr x \<Rightarrow> sc_return x
      | Inl e \<Rightarrow>
          sc_bind (sc_ignore (recordRemoteSmokeFailure h baseUrl cookies
            (Some (buildVisualFailureMetadata (sm_now h) (or_else (Some e) txt_sc_unknown) (br_page br))))) (\<lambda>_. sc_throw e))"

text \<open>What follows the two sign-ins; the browser is closed in any case.\<close>

definition smoke_checked ::
    "smoke_host \<Rightarrow> smoke_browser \<Rightarrow> string \<Rightarrow> cookie list \<Rightarrow> cookie list option \<Rightarrow> (string \<times> string) option script" where
  "smoke_checked h br baseUrl cookiePairs adminCookies =
     sc_bind (sc_lift (br_open br cookiePairs)) (\<lambda>_.
     sc_bind (sc_lift (runSmokeServicesApiChecks (br_read br))) (\<lambda>results.
     let session = result_of txt_sc_c_session results in
     sc_bind (sc_lift (resolveSmokeSessionCapabilities session)) (\<lambda>canManage.
     sc_bind (runDashboardVisualSmoke h br baseUrl cookiePairs canManage) (\<lambda>(adminChecked, labels).
     sc_bind (sc_lift (case adminCookies of None \<Rightarrow> Inr False | Some cs \<Rightarrow> br_fixtures br cs)) (\<lambda>fixtures.
     let allLabels = labels @ (if fixtures then [txt_sc_l_admin] else []) @ (if adminCookies \<noteq> None then [txt_sc_l_read_only] else []) in
     sc_bind (recordRemoteSmokeSuccess h baseUrl cookiePairs (adminChecked \<or> adminCookies \<noteq> None)) (\<lambda>_.
     sc_return (writeSmokeCiSummary h
       (buildSmokeCiSummary (adminCookies \<noteq> None) (length results) canManage
         (template_text (Option.bind session (json_field ''role''))) (template_text (Option.bind session (json_field ''username'')))
         (length allLabels)))))))))"

definition smoke_main :: "smoke_host \<Rightarrow> smoke_browser \<Rightarrow> (string \<times> string) option script" where
  "smoke_main h br =
     sc_bind (resolveSessionCookies h (smoke_resolveBaseUrl h)) (\<lambda>cookiePairs.
     sc_bind (sc_catch (resolveOptionalSmokeAdminReadOnlySession h (smoke_resolveBaseUrl h)) (\<lambda>e. sc_throw (txt_sc_admin_failed @ e)))
       (\<lambda>adminCookies. smoke_checked h br (smoke_resolveBaseUrl h) cookiePairs adminCookies))"

text \<open>\<open>process.env.TM_SMOKE_STARTED_AT ||= ...\<close>\<close>

definition started :: "smoke_host \<Rightarrow> smoke_host" where
  "started h = h\<lparr>sm_env := (sm_env h)(''TM_SMOKE_STARTED_AT'' := Some (or_else (sm_env h ''TM_SMOKE_STARTED_AT'') (sm_now h)))\<rparr>"

text \<open>The exit code, the file with the detail of a failure, and the requests made.\<close>

definition smoke_program :: "smoke_host \<Rightarrow> smoke_browser \<Rightarrow> nat \<times> (string \<times> string) option \<times> script_request list" where
  "smoke_program h0 br =
     (let h = started h0 in
      case smoke_main h br [] of
        (Inr _, requests) \<Rightarrow> (0, None, requests)
      | (Inl e, requests) \<Rightarrow> (1, writeSmokeAlertDetail h (Some (or_else (Some e) txt_sc_unknown)), requests))"

section \<open>What a script sends\<close>

text \<open>Every request of the script satisfies \<open>P\<close>.\<close>

definition sends :: "(script_request \<Rightarrow> bool) \<Rightarrow> 'a script \<Rightarrow> bool" where
  "sends P m \<longleftrightarrow> (\<forall>l. \<exists>ext. snd (m l) = l @ ext \<and> list_all P ext)"

lemma sends_silent: "(\<And>l. snd (m l) = l) \<Longrightarrow> sends P m"
  by (simp add: sends_def)

lemma sends_plain [simp]:
  "sends P (sc_return x)" "sends P (sc_throw e)" "sends P (sc_lift r)" "sends P (sc_ensure b e)"
  "sends P (sc_parse h tx)" "sends P (sc_member h v k)"
  by (rule sends_silent; simp add: sc_return_def sc_throw_def sc_lift_def sc_ensure_def sc_parse_def sc_member_def split: option.split)+

lemma sends_fetch: "P q \<Longrightarrow> sends P (sc_fetch h q)"
  by (simp add: sends_def sc_fetch_def)

lemma sends_bind: "sends P m \<Longrightarrow> (\<And>x. sends P (f x)) \<Longrightarrow> sends P (sc_bind m f)"
  unfolding sends_def
proof (intro allI)
  fix l assume m: "\<forall>l. \<exists>ext. snd (m l) = l @ ext \<and> list_all P ext" and f: "\<And>x. \<forall>l. \<exists>ext. snd (f x l) = l @ ext \<and> list_all P ext"
  obtain r l' where r: "m l = (r, l')" by (cases "m l")
  then obtain ext where e: "l' = l @ ext" "list_all P ext" using m by (metis snd_conv)
  show "\<exists>ext. snd (sc_bind m f l) = l @ ext \<and> list_all P ext"
  proof (cases r)
    case (Inl a)
    then show ?thesis using r e by (simp add: sc_bind_def)
  next
    case (Inr x)
    obtain ext2 where "snd (f x l') = l' @ ext2" "list_all P ext2" using f by blast
    then show ?thesis using r e Inr by (intro exI [of _ "ext @ ext2"]) (simp add: sc_bind_def)
  qed
qed

lemma sends_catch: "sends P m \<Longrightarrow> (\<And>e. sends P (f e)) \<Longrightarrow> sends P (sc_catch m f)"
  unfolding sends_def
proof (intro allI)
  fix l assume m: "\<forall>l. \<exists>ext. snd (m l) = l @ ext \<and> list_all P ext" and f: "\<And>x. \<forall>l. \<exists>ext. snd (f x l) = l @ ext \<and> list_all P ext"
  obtain r l' where r: "m l = (r, l')" by (cases "m l")
  then obtain ext where e: "l' = l @ ext" "list_all P ext" using m by (metis snd_conv)
  show "\<exists>ext. snd (sc_catch m f l) = l @ ext \<and> list_all P ext"
  proof (cases r)
    case (Inr a)
    then show ?thesis using r e by (simp add: sc_catch_def)
  next
    case (Inl x)
    obtain ext2 where "snd (f x l') = l' @ ext2" "list_all P ext2" using f by blast
    then show ?thesis using r e Inl by (intro exI [of _ "ext @ ext2"]) (simp add: sc_catch_def)
  qed
qed

lemmas sends_intros = sends_plain sends_fetch sends_bind sends_catch

text \<open>A request that the first part does not send comes from the second, which the first has reached.\<close>

lemma sent_later:
  assumes "q \<in> set (snd (sc_bind m f l))" and "sends P m" and "\<not> P q" and "q \<notin> set l"
  obtains x l' where "m l = (Inr x, l')" "q \<in> set (snd (f x l'))" "q \<notin> set l'"
proof -
  obtain r l' where r: "m l = (r, l')" by (cases "m l")
  obtain ext where "l' = l @ ext" "list_all P ext" using assms(2) r unfolding sends_def by (metis snd_conv)
  then have n: "q \<notin> set l'" using assms(3,4) by (auto simp: list_all_iff)
  then obtain x where "r = Inr x" using assms(1) r by (cases r) (auto simp: sc_bind_def)
  then show thesis using that r n assms(1) by (simp add: sc_bind_def)
qed

lemma bind_Inr:
  "sc_bind m f l = (Inr y, l'') \<Longrightarrow> (\<And>x l'. m l = (Inr x, l') \<Longrightarrow> f x l' = (Inr y, l'') \<Longrightarrow> thesis) \<Longrightarrow> thesis"
  by (auto simp: sc_bind_def split: prod.splits sum.splits)

lemma plain_Inr:
  "sc_ensure b e l = (Inr u, l') \<longleftrightarrow> b \<and> l' = l" "sc_lift r l = (Inr x, l') \<longleftrightarrow> r = Inr x \<and> l' = l"
  "sc_return x l = (Inr y, l') \<longleftrightarrow> x = y \<and> l' = l" "sc_throw e l \<noteq> (Inr y, l')"
  "sc_parse h tx l = (Inr v, l') \<longleftrightarrow> json_parse tx = Some v \<and> l' = l"
  "sc_member h j k l = (Inr w, l') \<longleftrightarrow> j \<noteq> JNull \<and> w = json_field k j \<and> l' = l"
  "sc_fetch h q l = (Inr answer, l') \<longleftrightarrow> sm_fetch h l q = Inr answer \<and> l' = l @ [q]"
  by (auto simp: sc_ensure_def sc_lift_def sc_return_def sc_throw_def sc_parse_def sc_member_def sc_fetch_def split: option.splits)

section \<open>The record of a success\<close>

definition success_url :: "smoke_host \<Rightarrow> string" where
  "success_url h = smoke_resolveBaseUrl h @ ''/api/v1/settings/smoke-run-success''"

abbreviation other_request :: "smoke_host \<Rightarrow> script_request \<Rightarrow> bool" where
  "other_request h q \<equiv> sq_url q \<noteq> success_url h"

lemma login_sends: "sends (other_request h) (loginSessionCookies h (smoke_resolveBaseUrl h) u p)"
  unfolding loginSessionCookies_def Let_def
  by (intro sends_bind sends_fetch sends_plain) (simp add: login_request_def success_url_def)

lemma session_sends: "sends (other_request h) (resolveSessionCookies h (smoke_resolveBaseUrl h))"
  by (simp add: resolveSessionCookies_def login_sends)

lemma read_only_sends: "sends (other_request h) (assertSmokeAdminReadOnly h (smoke_resolveBaseUrl h) cookies)"
  unfolding assertSmokeAdminReadOnly_def
  by (cases "find_csrf cookies") (auto intro!: sends_bind sends_fetch simp: write_probe_def success_url_def)

lemma admin_sends:
  "sends (other_request h) (sc_catch (resolveOptionalSmokeAdminReadOnlySession h (smoke_resolveBaseUrl h)) (\<lambda>e. sc_throw (m e)))"
  by (rule sends_catch)
    (auto intro!: sends_bind simp: resolveOptionalSmokeAdminReadOnlySession_def login_sends read_only_sends)

lemma record_sends:
  "sends (\<lambda>q. other_request h q \<or> (\<exists>csrf. find_csrf cookies = Some csrf \<and> truthy (sm_env h ''GITHUB_RUN_ID'') \<and>
        q = success_request h (smoke_resolveBaseUrl h) cookies csrf ac (the (sm_env h ''GITHUB_RUN_ID''))))
     (recordRemoteSmokeSuccess h (smoke_resolveBaseUrl h) cookies ac)"
  unfolding recordRemoteSmokeSuccess_def check_admin_status_def
  by (auto intro!: sends_bind sends_fetch simp: status_request_def success_url_def split: option.splits)

lemma sends_ignore: "sends P m \<Longrightarrow> sends P (sc_ignore m)"
  by (simp add: sends_def sc_ignore_def)

lemma visual_sends:
  "sends (other_request h) (runDashboardVisualSmoke h br (smoke_resolveBaseUrl h) cookies canManage)"
  unfolding runDashboardVisualSmoke_def recordRemoteSmokeFailure_def
  by (auto intro!: sends_bind sends_fetch sends_ignore simp: success_url_def split: sum.splits option.splits)

lemma visual_Inr:
  "runDashboardVisualSmoke h br baseUrl cookies canManage l = (Inr x, l') \<Longrightarrow> br_visual br canManage = Inr x \<and> l' = l"
  by (auto simp: runDashboardVisualSmoke_def sc_bind_def sc_throw_def sc_return_def split: sum.splits prod.splits)

text \<open>The extra administrator was refused a write.\<close>

definition write_refused :: "smoke_host \<Rightarrow> bool" where
  "write_refused h \<longleftrightarrow>
     (\<exists>before cookies csrf r v. find_csrf cookies = Some csrf \<and>
        sm_fetch h before (write_probe (smoke_resolveBaseUrl h) cookies csrf) = Inr r \<and> sp_status r = 403 \<and>
        json_parse (sp_text r) = Some v \<and> json_field ''detail'' v = Some (JStr txt_sc_read_only))"

lemma read_only_refused: "assertSmokeAdminReadOnly h (smoke_resolveBaseUrl h) cookies l = (Inr u, l') \<Longrightarrow> write_refused h"
proof (cases "find_csrf cookies")
  case (Some csrf)
  assume "assertSmokeAdminReadOnly h (smoke_resolveBaseUrl h) cookies l = (Inr u, l')"
  then show ?thesis
    unfolding assertSmokeAdminReadOnly_def
    apply (simp only: Some option.case)
    apply (elim bind_Inr)
    apply (simp only: plain_Inr)
    unfolding write_refused_def using Some by blast
qed (simp add: assertSmokeAdminReadOnly_def plain_Inr)

lemma admin_refused:
  assumes "sc_catch (resolveOptionalSmokeAdminReadOnlySession h (smoke_resolveBaseUrl h)) (\<lambda>e. sc_throw (m e)) l = (Inr r, l')"
    and "sm_env h ''TM_SMOKE_ADMIN_EXPECT_READ_ONLY'' = Some ''1''"
  shows "write_refused h"
proof -
  have i: "resolveOptionalSmokeAdminReadOnlySession h (smoke_resolveBaseUrl h) l = (Inr r, l')"
    using assms(1) by (auto simp: sc_catch_def sc_throw_def split: prod.splits sum.splits)
  show ?thesis
    using i assms(2) unfolding resolveOptionalSmokeAdminReadOnlySession_def
    by (auto simp: plain_Inr split: if_splits elim!: bind_Inr dest: read_only_refused)
qed

lemma run_checks_Inr:
  "run_checks read cs = Inr rs \<Longrightarrow> map fst rs = cs \<and> list_all (\<lambda>(c, d). ac_validate c d \<and> or_null (ac_failureMessage c d) = None) rs"
proof (induction cs arbitrary: rs)
  case (Cons c cs)
  obtain r n ss where "fetchJsonReadWithRetry read (ac_path c) 2 = Inr (r, n)" "ac_validate c (rr_data r)"
    "or_null (ac_failureMessage c (rr_data r)) = None" "run_checks read cs = Inr ss" "rs = (c, rr_data r) # ss"
    using Cons.prems by (auto simp: map_sum_def split: sum.splits if_splits option.splits)
  then show ?case using Cons.IH by simp
qed simp

lemma capabilities_Inr:
  "resolveSmokeSessionCapabilities session = Inr b \<Longrightarrow>
   \<exists>s. session = Some s \<and> json_field ''role'' s = Some (JStr (if b then ''admin'' else ''viewer''))"
  by (cases session) (auto simp: resolveSmokeSessionCapabilities_def Let_def split: if_splits)

lemma lift_bind: "sc_bind (sc_lift r) f l = (case r of Inl e \<Rightarrow> (Inl e, l) | Inr x \<Rightarrow> f x l)"
  by (cases r) (simp_all add: sc_bind_def sc_lift_def)

lemma sent_by: "q \<in> set (snd (m l)) \<Longrightarrow> sends P m \<Longrightarrow> q \<notin> set l \<Longrightarrow> P q"
  unfolding sends_def list_all_iff by (metis Un_iff set_append)

lemma checked_records:
  assumes "q \<in> set (snd (smoke_checked h br (smoke_resolveBaseUrl h) cookies admin l))" and "q \<notin> set l" and "sq_url q = success_url h"
  shows "\<exists>csrf results session canManage adminChecked labels runId ac.
      find_csrf cookies = Some csrf \<and> q = success_request h (smoke_resolveBaseUrl h) cookies csrf ac runId \<and>
      runSmokeServicesApiChecks (br_read br) = Inr results \<and> result_of txt_sc_c_session results = Some session \<and>
      json_field ''role'' session = Some (JStr (if canManage then ''admin'' else ''viewer'')) \<and>
      br_visual br canManage = Inr (adminChecked, labels)"
proof -
  have n: "\<not> other_request h q" using assms(3) by simp
  obtain results canManage f where a: "runSmokeServicesApiChecks (br_read br) = Inr results"
    "resolveSmokeSessionCapabilities (result_of txt_sc_c_session results) = Inr canManage"
    "q \<in> set (snd (sc_bind (runDashboardVisualSmoke h br (smoke_resolveBaseUrl h) cookies canManage) f l))"
    and f: "f = (\<lambda>(adminChecked, labels).
     sc_bind (sc_lift (case admin of None \<Rightarrow> Inr False | Some cs \<Rightarrow> br_fixtures br cs)) (\<lambda>fixtures.
     let allLabels = labels @ (if fixtures then [txt_sc_l_admin] else []) @ (if admin \<noteq> None then [txt_sc_l_read_only] else []) in
     sc_bind (recordRemoteSmokeSuccess h (smoke_resolveBaseUrl h) cookies (adminChecked \<or> admin \<noteq> None)) (\<lambda>_.
     sc_return (writeSmokeCiSummary h
       (buildSmokeCiSummary (admin \<noteq> None) (length results) canManage
         (template_text (Option.bind (result_of txt_sc_c_session results) (json_field ''role'')))
         (template_text (Option.bind (result_of txt_sc_c_session results) (json_field ''username'')))
         (length allLabels))))))"
    using assms(1,2) unfolding smoke_checked_def Let_def [of "result_of _ _"] lift_bind
    by (auto split: sum.split_asm)
  obtain x l' where v: "runDashboardVisualSmoke h br (smoke_resolveBaseUrl h) cookies canManage l = (Inr x, l')"
    "q \<in> set (snd (f x l'))"
    by (rule sent_later [OF a(3) visual_sends n assms(2)])
  obtain adminChecked labels where x: "x = (adminChecked, labels)" by (cases x)
  have b: "br_visual br canManage = Inr (adminChecked, labels)" "l' = l" using visual_Inr [OF v(1)] x by simp_all
  obtain ac and y :: "(string \<times> string) option" where
    "q \<in> set (snd (sc_bind (recordRemoteSmokeSuccess h (smoke_resolveBaseUrl h) cookies ac) (\<lambda>_. sc_return y) l))"
    using v(2) assms(2) unfolding f x b(2) Let_def prod.case lift_bind by (auto split: sum.split_asm)
  then have r: "runSmokeServicesApiChecks (br_read br) = Inr results"
    "resolveSmokeSessionCapabilities (result_of txt_sc_c_session results) = Inr canManage"
    "br_visual br canManage = Inr (adminChecked, labels)"
    "q \<in> set (snd (sc_bind (recordRemoteSmokeSuccess h (smoke_resolveBaseUrl h) cookies ac) (\<lambda>_. sc_return y) l))"
    using a(1,2) b(1) by blast+
  obtain session where s: "result_of txt_sc_c_session results = Some session"
    "json_field ''role'' session = Some (JStr (if canManage then ''admin'' else ''viewer''))"
    using capabilities_Inr [OF r(2)] by blast
  have "\<exists>csrf. find_csrf cookies = Some csrf \<and> truthy (sm_env h ''GITHUB_RUN_ID'') \<and>
        q = success_request h (smoke_resolveBaseUrl h) cookies csrf ac (the (sm_env h ''GITHUB_RUN_ID''))"
    using sent_by [OF r(4) sends_bind [OF record_sends sends_plain(1)] assms(2)] assms(3) by blast
  then show ?thesis using r(1,3) s by blast
qed

text \<open>C19. A success is recorded only after everything was checked.  If any request of the smoke test, however
  the test ends, is the record of a success, then it carries the cookies of the session and the token
  among them; all ten addresses of the API had been read with a valid answer and no failure; the session is
  that of an administrator or a viewer and the visual checks passed for it; and where the extra
  administrator is expected to be read-only, its write had been refused.\<close>

theorem success_recorded:
  assumes "h = started h0" and "smoke_program h0 br = (code, detail, requests)" and "q \<in> set requests" and "sq_url q = success_url h"
  shows "\<exists>cookies csrf results session canManage adminChecked labels.
      fst (resolveSessionCookies h (smoke_resolveBaseUrl h) []) = Inr cookies \<and> find_csrf cookies = Some csrf \<and>
      sq_method q = ''POST'' \<and> sq_headers q = csrf_headers cookies csrf \<and>
      runSmokeServicesApiChecks (br_read br) = Inr results \<and> map fst results = CHECKS \<and>
      list_all (\<lambda>(c, d). ac_validate c d \<and> or_null (ac_failureMessage c d) = None) results \<and>
      result_of txt_sc_c_session results = Some session \<and>
      json_field ''role'' session = Some (JStr (if canManage then ''admin'' else ''viewer'')) \<and>
      br_visual br canManage = Inr (adminChecked, labels) \<and>
      (sm_env h ''TM_SMOKE_ADMIN_EXPECT_READ_ONLY'' = Some ''1'' \<longrightarrow> write_refused h)"
proof -
  have q: "\<not> other_request h q" using assms(4) by simp
  have m: "q \<in> set (snd (smoke_main h br []))" using assms(1-3) by (auto simp: smoke_program_def Let_def split: prod.splits sum.splits)
  obtain cookies l1 where c: "resolveSessionCookies h (smoke_resolveBaseUrl h) [] = (Inr cookies, l1)" "q \<notin> set l1"
    and r: "q \<in> set (snd (sc_bind (sc_catch (resolveOptionalSmokeAdminReadOnlySession h (smoke_resolveBaseUrl h)) (\<lambda>e. sc_throw (txt_sc_admin_failed @ e)))
       (\<lambda>adminCookies. smoke_checked h br (smoke_resolveBaseUrl h) cookies adminCookies) l1))"
    by (rule sent_later [OF m [unfolded smoke_main_def] session_sends q]) auto
  obtain admin l2 where a: "sc_catch (resolveOptionalSmokeAdminReadOnlySession h (smoke_resolveBaseUrl h)) (\<lambda>e. sc_throw (txt_sc_admin_failed @ e)) l1
      = (Inr admin, l2)" "q \<notin> set l2" and k: "q \<in> set (snd (smoke_checked h br (smoke_resolveBaseUrl h) cookies admin l2))"
    by (rule sent_later [OF r admin_sends q c(2)])
  obtain csrf results session canManage adminChecked labels runId ac where f: "find_csrf cookies = Some csrf"
    "q = success_request h (smoke_resolveBaseUrl h) cookies csrf ac runId" "runSmokeServicesApiChecks (br_read br) = Inr results"
    "result_of txt_sc_c_session results = Some session"
    "json_field ''role'' session = Some (JStr (if canManage then ''admin'' else ''viewer''))"
    "br_visual br canManage = Inr (adminChecked, labels)"
    using checked_records [OF k a(2) assms(4)] by blast
  have "map fst results = CHECKS \<and> list_all (\<lambda>(c, d). ac_validate c d \<and> or_null (ac_failureMessage c d) = None) results"
    using f(3) unfolding runSmokeServicesApiChecks_def by (rule run_checks_Inr)
  moreover have "sq_method q = ''POST''" "sq_headers q = csrf_headers cookies csrf" by (simp_all add: f(2) success_request_def)
  moreover have "sm_env h ''TM_SMOKE_ADMIN_EXPECT_READ_ONLY'' = Some ''1'' \<longrightarrow> write_refused h" using admin_refused [OF a(1)] by blast
  moreover have "fst (resolveSessionCookies h (smoke_resolveBaseUrl h) []) = Inr cookies" using c(1) by simp
  ultimately show ?thesis using f(1,3-6) by blast
qed

text \<open>A run in which everything works.\<close>

definition sample_answers :: "string \<Rightarrow> nat \<Rightarrow> string + read_result" where
  "sample_answers path attempt =
     (let d = (if path = ''/api/health'' then JObj [(''status'', JStr txt_sc_normal)]
        else if path = ''/api/v1/auth/me'' then JObj [(''username'', JStr ''smoke''), (''role'', JStr ''viewer'')]
        else if path = ''/api/v1/traefik/routers'' then JObj [(''connected'', JBool True), (''domains'', JObj [])]
        else if path = ''/api/v1/services/health/all'' then JObj []
        else if path = ''/api/v1/settings/time-display'' then JObj [(''display_timezone'', JStr ''UTC'')]
        else if path = ''/api/v1/settings/smoke-rotation?summary=true'' then
          JObj [(''status'', JStr ''success''), (''is_stale'', JBool False), (''stale_after_days'', JNum (Num 35)),
            (''monitoring_enabled'', JBool True), (''monitoring_frequency'', JStr ''daily''),
            (''monitoring_admin_is_stale'', JBool False), (''monitoring_admin_stale_after_days'', JNum (Num 2))]
        else if path = ''/api/v1/settings/deployment-bottleneck-alert/cleanup'' then
          JObj [(''retention_days'', JNum (Num 1)), (''deleted_count'', JNum (Num 0)), (''retained_event_count'', JNum (Num 0))]
        else JArr [])
      in Inr \<lparr>rr_data = d, rr_ok = True, rr_status = 200, rr_text = []\<rparr>)"

definition sample_browser :: smoke_browser where
  "sample_browser =
     \<lparr>br_open = (\<lambda>_. Inr ()), br_read = sample_answers, br_visual = (\<lambda>_. Inr (False, [])), br_page = None, br_fixtures = (\<lambda>_. Inr False)\<rparr>"

definition sample_runner :: smoke_host where
  "sample_runner =
     \<lparr>sm_fetch = (\<lambda>_ _. Inr \<lparr>sp_status = 200, sp_text = ''{}'', sp_cookies = None, sp_combined = None\<rparr>),
      sm_env = [''TM_SMOKE_COOKIE'' \<mapsto> ''tm_session=a; tm_csrf=b'', ''GITHUB_RUN_ID'' \<mapsto> ''7''], sm_now = ''now'',
      sm_syntaxError = id, sm_typeError = [], sm_assertion = (\<lambda>_. [])\<rparr>"

definition first_answer_ok :: "(string \<Rightarrow> nat \<Rightarrow> string + read_result) \<Rightarrow> api_check \<Rightarrow> bool" where
  "first_answer_ok read c =
     (case read (ac_path c) 1 of
        Inl e \<Rightarrow> False
      | Inr r \<Rightarrow> rr_ok r \<and> ac_validate c (rr_data r) \<and> or_null (ac_failureMessage c (rr_data r)) = None)"

lemma read_first: "read path 1 = Inr r \<Longrightarrow> fetchJsonReadWithRetry read path 2 = Inr (r, 1)"
  by (simp add: fetchJsonReadWithRetry_def upt_rec)

lemma run_checks_ok:
  "list_all (first_answer_ok read) cs \<Longrightarrow> run_checks read cs = Inr (map (\<lambda>c. (c, rr_data (projr (read (ac_path c) 1)))) cs)"
  by (induction cs) (auto simp: first_answer_ok_def read_first split: sum.splits)

lemma sample_api:
  "runSmokeServicesApiChecks sample_answers = Inr (map (\<lambda>c. (c, rr_data (projr (sample_answers (ac_path c) 1)))) CHECKS)"
proof -
  have "list_all (first_answer_ok sample_answers) CHECKS" by code_simp
  then show ?thesis by (simp add: runSmokeServicesApiChecks_def run_checks_ok)
qed

lemma sample_session:
  "result_of txt_sc_c_session (map (\<lambda>c. (c, rr_data (projr (sample_answers (ac_path c) 1)))) CHECKS)
     = Some (JObj [(''username'', JStr ''smoke''), (''role'', JStr ''viewer'')])"
  by code_simp

definition sample_cookies :: "cookie list" where
  "sample_cookies = [\<lparr>ck_name = ''tm_session'', ck_value = ''a''\<rparr>, \<lparr>ck_name = ''tm_csrf'', ck_value = ''b''\<rparr>]"

lemma sample_sign_in:
  "parseCookieHeader ''tm_session=a; tm_csrf=b'' = sample_cookies"
  "find_csrf sample_cookies = Some \<lparr>ck_name = ''tm_csrf'', ck_value = ''b''\<rparr>"
  by code_simp+

lemma sample_env:
  "sm_env (started sample_runner) ''TM_SMOKE_COOKIE'' = Some ''tm_session=a; tm_csrf=b''"
  "sm_env (started sample_runner) ''GITHUB_RUN_ID'' = Some ''7''"
  "sm_env (started sample_runner) ''TM_SMOKE_ADMIN_EXPECT_READ_ONLY'' = None"
  "sm_env (started sample_runner) ''GITHUB_STEP_SUMMARY'' = None"
  "sm_fetch (started sample_runner) l q = Inr \<lparr>sp_status = 200, sp_text = ''{}'', sp_cookies = None, sp_combined = None\<rparr>"
  by (simp_all add: started_def sample_runner_def)

lemma sample_run:
  "snd (snd (smoke_program sample_runner sample_browser))
     = [success_request (started sample_runner) (smoke_resolveBaseUrl (started sample_runner)) sample_cookies
          \<lparr>ck_name = ''tm_csrf'', ck_value = ''b''\<rparr> False ''7'']"
proof -
  have c: "resolveSessionCookies (started sample_runner) base [] = (Inr sample_cookies, [])" for base
    by (simp add: resolveSessionCookies_def sample_env sample_sign_in sc_return_def truthy_def)
  have a: "resolveOptionalSmokeAdminReadOnlySession (started sample_runner) base l = (Inr None, l)" for base l
    by (simp add: resolveOptionalSmokeAdminReadOnlySession_def sample_env sc_return_def)
  have d: "runDashboardVisualSmoke h \<lparr>br_open = p, br_read = q, br_visual = (\<lambda>_. Inr x), br_page = g, br_fixtures = e\<rparr> base cs can
      = sc_return x" for h p q x g e base cs can
    by (simp add: runDashboardVisualSmoke_def)
  have r: "resolveSmokeSessionCapabilities (Some (JObj [(''username'', JStr ''smoke''), (''role'', JStr ''viewer'')])) = Inr False"
    by code_simp
  have w: "recordRemoteSmokeSuccess (started sample_runner) base sample_cookies False []
      = (Inr (), [success_request (started sample_runner) base sample_cookies \<lparr>ck_name = ''tm_csrf'', ck_value = ''b''\<rparr> False ''7''])" for base
    by (simp add: recordRemoteSmokeSuccess_def sample_env sample_sign_in sc_bind_def sc_fetch_def sc_ensure_def sc_return_def
        response_ok_def truthy_def)
  let ?base = "smoke_resolveBaseUrl (started sample_runner)"
  have k: "\<exists>x. smoke_checked (started sample_runner) sample_browser ?base sample_cookies None []
      = (Inr x, [success_request (started sample_runner) ?base sample_cookies \<lparr>ck_name = ''tm_csrf'', ck_value = ''b''\<rparr> False ''7''])"
    by (simp add: smoke_checked_def sample_browser_def lift_bind Let_def sample_api sample_session [unfolded One_nat_def] r d)
      (simp add: sc_bind_def w sc_return_def sc_lift_def)
  then obtain x where "smoke_main (started sample_runner) sample_browser []
      = (Inr x, [success_request (started sample_runner) ?base sample_cookies \<lparr>ck_name = ''tm_csrf'', ck_value = ''b''\<rparr> False ''7''])"
    by (auto simp: smoke_main_def sc_bind_def c a sc_catch_def)
  then show ?thesis by (simp add: smoke_program_def Let_def)
qed

lemma success_recorded_witness:
  "\<exists>q cookies csrf results. q \<in> set (snd (snd (smoke_program sample_runner sample_browser))) \<and> sq_url q = success_url (started sample_runner) \<and>
     find_csrf cookies = Some csrf \<and> sq_headers q = csrf_headers cookies csrf \<and>
     runSmokeServicesApiChecks (br_read sample_browser) = Inr results \<and> map fst results = CHECKS"
proof -
  obtain code detail requests where p: "smoke_program sample_runner sample_browser = (code, detail, requests)" by (metis prod.exhaust)
  let ?q = "success_request (started sample_runner) (smoke_resolveBaseUrl (started sample_runner)) sample_cookies
          \<lparr>ck_name = ''tm_csrf'', ck_value = ''b''\<rparr> False ''7''"
  have s: "?q \<in> set (snd (snd (smoke_program sample_runner sample_browser)))" unfolding sample_run by simp
  then have q: "?q \<in> set requests" unfolding p by simp
  have u: "sq_url ?q = success_url (started sample_runner)" by (simp add: success_request_def success_url_def)
  obtain cookies csrf results where "find_csrf cookies = Some csrf" "sq_headers ?q = csrf_headers cookies csrf"
    "runSmokeServicesApiChecks (br_read sample_browser) = Inr results" "map fst results = CHECKS"
    using success_recorded [OF refl p q u] by (elim exE conjE) (rule that)
  then show ?thesis using s u by (intro exI conjI)
qed

end
