(* ===== verification/Exposure_Check.thy ===== *)
theory Exposure_Check
  imports Api_Proxy Deployment_Links Ui_Text_Scripts
begin

text \<open>
  The comparison of the documented with the real exposure (\<open>scripts/check-exposure-snapshot.mjs\<close>): the hosts
  listed in the active sections of a document, the hosts that the enabled HTTPS routers of Traefik match,
  and the exit code, which is 0 exactly if both are the same hosts.  Reading the files and the routers is
  the argument.
\<close>

section \<open>The document\<close>

definition ACTIVE_SECTIONS :: "string list" where
  "ACTIVE_SECTIONS = [txt_sc_x_tailnet, txt_sc_x_exception, txt_sc_x_authentik, txt_sc_x_edge]"

definition INTERNAL_HOSTS :: "string list" where
  "INTERNAL_HOSTS = [''traefik-traefik'']"

text \<open>\<open>/^## (.+)$/\<close> and \<open>/^- `([^`]+)`/\<close>\<close>

definition heading_of :: "string \<Rightarrow> string option" where
  "heading_of line =
     (let rest = drop 3 line in if prefix ''## '' line \<and> rest \<noteq> [] \<and> line_end_free rest then Some rest else None)"

definition item_of :: "string \<Rightarrow> string option" where
  "item_of line =
     (let rest = drop 3 line; host = takeWhile (\<lambda>c. c \<noteq> CHR 0x60) rest in
      if prefix [CHR ''-'', CHR '' '', CHR 0x60] line \<and> host \<noteq> [] \<and> length host < length rest then Some host else None)"

text \<open>The loop over the lines: the set of hosts in insertion order, and the section.\<close>

fun documented_loop :: "string list \<Rightarrow> string list \<Rightarrow> string \<Rightarrow> string list" where
  "documented_loop [] hosts sec = hosts"
| "documented_loop (line # rest) hosts sec =
     (let sec' = default_to sec (heading_of line) in
      if sec' \<notin> set ACTIVE_SECTIONS then documented_loop rest hosts sec'
      else case item_of line of
        None \<Rightarrow> documented_loop rest hosts sec'
      | Some host \<Rightarrow> documented_loop rest (hosts @ [host]) sec')"

definition extractDocumentedHosts :: "string \<Rightarrow> string list" where
  "extractDocumentedHosts markdown = js_sort name_cmp (js_unique (documented_loop (str_split (CHR 0x0A) markdown) [] []))"

section \<open>The routers\<close>

record traefik_router =
  rt_status :: "string option"
  rt_entryPoints :: "string list option"
  rt_rule :: "string option"

text \<open>One match of \<open>/Host\(`([^`]+)`\)/g\<close> at the start of a text, with the rest behind it.\<close>

definition host_here :: "string \<Rightarrow> (string \<times> string) option" where
  "host_here s =
     (let r = drop 6 s; host = takeWhile (\<lambda>c. c \<noteq> CHR 0x60) r; t = drop (length host) r in
      if prefix (''Host('' @ [CHR 0x60]) s \<and> host \<noteq> [] \<and> prefix [CHR 0x60, CHR '')''] t then Some (host, drop 2 t) else None)"

lemma host_here_shorter: "host_here s = Some (h, r) \<Longrightarrow> length r < length s"
  by (cases s) (auto simp: host_here_def Let_def split: if_splits)

function host_matches :: "string \<Rightarrow> string list" where
  "host_matches [] = []"
| "host_matches (c # s) =
     (case host_here (c # s) of Some (host, rest) \<Rightarrow> host # host_matches rest | None \<Rightarrow> host_matches s)"
  by pat_completeness auto
termination
  by (relation "measure length") (auto dest: host_here_shorter)

definition router_hosts :: "traefik_router \<Rightarrow> string list" where
  "router_hosts r =
     (if truthy (rt_status r) \<and> rt_status r \<noteq> Some ''enabled'' then []
      else if \<not> list_ex (\<lambda>e. e = ''websecure'') (default_to [] (rt_entryPoints r)) then []
      else filter (\<lambda>host. host \<notin> set INTERNAL_HOSTS) (host_matches (or_else (rt_rule r) [])))"

definition extractRuntimeHosts :: "traefik_router list \<Rightarrow> string list" where
  "extractRuntimeHosts routers = js_sort name_cmp (js_unique (concat (map router_hosts routers)))"

section \<open>The comparison\<close>

record host_difference =
  hd_missing :: "string list"
  hd_unexpected :: "string list"

definition compareHosts :: "string list \<Rightarrow> string list \<Rightarrow> host_difference" where
  "compareHosts documented runtime =
     \<lparr>hd_missing = filter (\<lambda>host. host \<notin> set runtime) documented,
      hd_unexpected = filter (\<lambda>host. host \<notin> set documented) runtime\<rparr>"

text \<open>The lines printed and the exit code.\<close>

definition exposure_main :: "string \<Rightarrow> traefik_router list \<Rightarrow> string list \<times> nat" where
  "exposure_main markdown routers =
     (let runtime = extractRuntimeHosts routers; d = compareHosts (extractDocumentedHosts markdown) runtime in
      if hd_missing d \<noteq> [] \<or> hd_unexpected d \<noteq> [] then
        ((if hd_missing d \<noteq> [] then [txt_sc_x_missing @ str_join '', '' (hd_missing d)] else [])
         @ (if hd_unexpected d \<noteq> [] then [txt_sc_x_unexpected @ str_join '', '' (hd_unexpected d)] else []), 1)
      else ([txt_sc_x_equal @ show_nat (length runtime) @ txt_sc_x_count], 0))"

section \<open>What the exit code means\<close>

text \<open>A host is documented if a line that lists it stands in an active section: the last heading up to this
  line, if any, names one.\<close>

definition section_at :: "string list \<Rightarrow> string \<Rightarrow> string" where
  "section_at before sec = last (sec # List.map_filter heading_of before)"

definition documents :: "string list \<Rightarrow> string \<Rightarrow> string \<Rightarrow> bool" where
  "documents ls sec host \<longleftrightarrow>
     (\<exists>before line after. ls = before @ line # after \<and> item_of line = Some host \<and>
        section_at (before @ [line]) sec \<in> set ACTIVE_SECTIONS)"

lemma section_at_Cons: "section_at (line # ls) sec = section_at ls (default_to sec (heading_of line))"
  by (cases "heading_of line") (simp_all add: section_at_def map_filter_simps)

lemma documents_Cons:
  "documents (line # ls) sec host \<longleftrightarrow>
     (item_of line = Some host \<and> default_to sec (heading_of line) \<in> set ACTIVE_SECTIONS) \<or>
     documents ls (default_to sec (heading_of line)) host"
proof -
  have s: "section_at [line] sec = default_to sec (heading_of line)"
    by (cases "heading_of line") (simp_all add: section_at_def map_filter_simps)
  show ?thesis
  proof
    assume "documents (line # ls) sec host"
    then obtain before l after where d: "line # ls = before @ l # after" "item_of l = Some host"
      "section_at (before @ [l]) sec \<in> set ACTIVE_SECTIONS"
      unfolding documents_def by blast
    show "(item_of line = Some host \<and> default_to sec (heading_of line) \<in> set ACTIVE_SECTIONS) \<or>
        documents ls (default_to sec (heading_of line)) host"
    proof (cases before)
      case Nil
      then show ?thesis using d s by simp
    next
      case (Cons b bs)
      then have "ls = bs @ l # after" "section_at (bs @ [l]) (default_to sec (heading_of line)) \<in> set ACTIVE_SECTIONS"
        using d by (simp_all add: section_at_Cons)
      then show ?thesis using d(2) unfolding documents_def by blast
    qed
  next
    assume "(item_of line = Some host \<and> default_to sec (heading_of line) \<in> set ACTIVE_SECTIONS) \<or>
        documents ls (default_to sec (heading_of line)) host"
    then show "documents (line # ls) sec host"
    proof
      assume "item_of line = Some host \<and> default_to sec (heading_of line) \<in> set ACTIVE_SECTIONS"
      then show ?thesis unfolding documents_def using s by (intro exI [of _ "[]"] exI [of _ line] exI [of _ ls]) simp
    next
      assume "documents ls (default_to sec (heading_of line)) host"
      then obtain before l after where "ls = before @ l # after" "item_of l = Some host"
        "section_at (before @ [l]) (default_to sec (heading_of line)) \<in> set ACTIVE_SECTIONS"
        unfolding documents_def by blast
      then show ?thesis unfolding documents_def
        by (intro exI [of _ "line # before"] exI [of _ l] exI [of _ after]) (simp add: section_at_Cons)
    qed
  qed
qed

lemma documents_Nil [simp]: "\<not> documents [] sec host"
  by (simp add: documents_def)

lemma documented_loop_set: "set (documented_loop ls hosts sec) = set hosts \<union> {host. documents ls sec host}"
proof (induction ls arbitrary: hosts sec)
  case (Cons line ls)
  let ?s = "default_to sec (heading_of line)"
  show ?case
  proof (cases "?s \<in> set ACTIVE_SECTIONS")
    case True
    then show ?thesis using Cons.IH by (cases "item_of line") (auto simp: documents_Cons Let_def)
  next
    case False
    then show ?thesis using Cons.IH by (auto simp: documents_Cons Let_def)
  qed
next
  case Nil
  have "documents [] sec = (\<lambda>_. False)" by (rule ext) simp
  then show ?case by simp
qed

text \<open>A host is exposed if the rule of an enabled router at the HTTPS entry point matches it.\<close>

definition exposes :: "traefik_router list \<Rightarrow> string \<Rightarrow> bool" where
  "exposes routers host \<longleftrightarrow>
     (\<exists>r\<in>set routers. (rt_status r = None \<or> rt_status r = Some [] \<or> rt_status r = Some ''enabled'') \<and>
        ''websecure'' \<in> set (default_to [] (rt_entryPoints r)) \<and> host \<in> set (host_matches (or_else (rt_rule r) []))) \<and>
     host \<notin> set INTERNAL_HOSTS"

lemma runtime_hosts: "set (extractRuntimeHosts routers) = {host. exposes routers host}"
proof -
  have t: "truthy v \<and> v \<noteq> Some ''enabled'' \<longleftrightarrow> \<not> (v = None \<or> v = Some [] \<or> v = Some ''enabled'')" for v
    by (cases v) auto
  have "host \<in> set (router_hosts r) \<longleftrightarrow>
      (rt_status r = None \<or> rt_status r = Some [] \<or> rt_status r = Some ''enabled'') \<and>
      ''websecure'' \<in> set (default_to [] (rt_entryPoints r)) \<and> host \<in> set (host_matches (or_else (rt_rule r) [])) \<and>
      host \<notin> set INTERNAL_HOSTS" for host r
    unfolding router_hosts_def t by (auto simp: list_ex_iff)
  then show ?thesis unfolding extractRuntimeHosts_def exposes_def by auto
qed

text \<open>A rule that matches a host between other texts.\<close>

lemma host_matches_here: "host \<noteq> [] \<Longrightarrow> CHR 0x60 \<notin> set host \<Longrightarrow>
    host_matches (''Host('' @ CHR 0x60 # host @ [CHR 0x60, CHR '')''] @ rest) = host # host_matches rest"
proof -
  assume h: "host \<noteq> []" "CHR 0x60 \<notin> set host"
  then have "takeWhile (\<lambda>c. c \<noteq> CHR 0x60) (host @ CHR 0x60 # CHR '')'' # rest) = host"
    by (subst takeWhile_append2) auto
  then have "host_here (CHR ''H'' # ''ost('' @ CHR 0x60 # host @ [CHR 0x60, CHR '')''] @ rest) = Some (host, rest)"
    using h(1) by (simp add: host_here_def Let_def)
  then show ?thesis by simp
qed

text \<open>The pattern asks for one host in a matcher: a matcher with two is not seen at all.\<close>

lemma two_hosts_missed:
  "host_matches (''Host('' @ [CHR 0x60] @ ''a.kr'' @ [CHR 0x60] @ '', '' @ [CHR 0x60] @ ''b.kr'' @ [CHR 0x60] @ '')'') = []"
  by code_simp

text \<open>C39. The exposure check is exact.  Whatever the document and the routers are, the exit code is 0 exactly
  if the hosts documented in active sections are the hosts that enabled HTTPS routers match, except the
  internal ones; otherwise the hosts named as missing are those that are documented and not exposed, and
  the ones named as unexpected are those that are exposed and not documented.\<close>

theorem exposure_check_exact:
  "let d = compareHosts (extractDocumentedHosts markdown) (extractRuntimeHosts routers) in
   (snd (exposure_main markdown routers) = 0 \<longleftrightarrow>
      {host. documents (str_split (CHR 0x0A) markdown) [] host} = {host. exposes routers host}) \<and>
   set (hd_missing d) = {host. documents (str_split (CHR 0x0A) markdown) [] host \<and> \<not> exposes routers host} \<and>
   set (hd_unexpected d) = {host. exposes routers host \<and> \<not> documents (str_split (CHR 0x0A) markdown) [] host} \<and>
   distinct (hd_missing d) \<and> distinct (hd_unexpected d)"
proof -
  let ?m = "extractDocumentedHosts markdown" and ?r = "extractRuntimeHosts routers"
  have m: "set ?m = {host. documents (str_split (CHR 0x0A) markdown) [] host}"
    by (simp add: extractDocumentedHosts_def documented_loop_set)
  have r: "set ?r = {host. exposes routers host}" by (rule runtime_hosts)
  have "snd (exposure_main markdown routers) = 0 \<longleftrightarrow> set ?m = set ?r"
    by (auto simp: exposure_main_def compareHosts_def Let_def filter_empty_conv)
  moreover have "distinct ?m" "distinct ?r" by (simp_all add: extractDocumentedHosts_def extractRuntimeHosts_def)
  ultimately show ?thesis unfolding Let_def compareHosts_def using m r by auto
qed

end
