(* ===== verification/Failure_Panel.thy ===== *)
theory Failure_Panel
  imports Smoke_Session
begin

text \<open>
  The management of the classified failures (\<open>features/settings/components/\<close>
  \<open>SmokeFailureMetadataManagement.tsx\<close>, \<open>SmokeFailureMetadataActiveFilters.tsx\<close>,
  \<open>SmokeFailureMetadataBulkSelection.tsx\<close>, \<open>SmokeFailureMetadataCleanupPreview.tsx\<close>): the selection of
  entries, the numbers on screen, the preview and the request that deletes the selected ones.  The
  entries, the host, the clock and the filters are those of \<open>Smoke_Filters\<close>.
\<close>

section \<open>The panel\<close>

text \<open>\<open>fp_pending\<close> are the run ids of the request under way (\<open>cleanup.isPending\<close>), \<open>fp_sent\<close> the requests
  made so far.\<close>

record failure_panel =
  fp_entries :: "SmokeFailureMetadataEntry list"
  fp_hook :: smoke_hook
  fp_selected :: "int list"
  fp_notice :: string
  fp_preview :: bool
  fp_pending :: "int list option"
  fp_sent :: "int list list"

definition failure_mount :: "js_host \<Rightarrow> SmokeFailureMetadataEntry list \<Rightarrow> location \<Rightarrow> failure_panel" where
  "failure_mount H es l =
     \<lparr>fp_entries = es, fp_hook = smoke_mount H l, fp_selected = [], fp_notice = [], fp_preview = False,
      fp_pending = None, fp_sent = []\<rparr>"

definition selected_in :: "failure_panel \<Rightarrow> SmokeFailureMetadataEntry list \<Rightarrow> SmokeFailureMetadataEntry list" where
  "selected_in s es = filter (\<lambda>e. se_run_id e \<in> set (fp_selected s)) es"

definition selectedEntries :: "failure_panel \<Rightarrow> SmokeFailureMetadataEntry list" where
  "selectedEntries s = selected_in s (fp_entries s)"

definition visibleSelectedCount :: "failure_panel \<Rightarrow> SmokeFailureMetadataEntry list \<Rightarrow> nat" where
  "visibleSelectedCount s visible = length (selected_in s visible)"

definition hiddenSelectedCount :: "failure_panel \<Rightarrow> SmokeFailureMetadataEntry list \<Rightarrow> int" where
  "hiddenSelectedCount s visible = int (length (selectedEntries s)) - int (visibleSelectedCount s visible)"

definition allVisibleSelected_failures :: "failure_panel \<Rightarrow> SmokeFailureMetadataEntry list \<Rightarrow> bool" where
  "allVisibleSelected_failures s visible = (visible \<noteq> [] \<and> list_all (\<lambda>e. se_run_id e \<in> set (fp_selected s)) visible)"

section \<open>Handlers\<close>

definition toggleRun :: "int \<Rightarrow> failure_panel \<Rightarrow> failure_panel" where
  "toggleRun runId s =
     s\<lparr>fp_selected := (if runId \<in> set (fp_selected s) then removeAll runId (fp_selected s) else fp_selected s @ [runId])\<rparr>"

definition updateSelection :: "SmokeFailureMetadataEntry list \<Rightarrow> bool \<Rightarrow> string \<Rightarrow> failure_panel \<Rightarrow> failure_panel" where
  "updateSelection targetEntries selected message s =
     s\<lparr>fp_selected := updateSmokeFailureMetadataSelection (fp_selected s) targetEntries selected, fp_notice := message\<rparr>"

definition clear_selection :: "failure_panel \<Rightarrow> failure_panel" where
  "clear_selection s = s\<lparr>fp_selected := [], fp_notice := txt_fp_cleared\<rparr>"

definition clear_visible :: "SmokeFailureMetadataEntry list \<Rightarrow> failure_panel \<Rightarrow> failure_panel" where
  "clear_visible visible s =
     updateSelection visible False (txt_fp_from_results @ show_nat (visibleSelectedCount s visible) @ txt_fp_released) s"

definition select_all :: "failure_panel \<Rightarrow> failure_panel" where
  "select_all s =
     updateSelection (fp_entries s) True (txt_fp_records @ show_nat (length (fp_entries s)) @ txt_fp_selected) s"

definition select_visible :: "SmokeFailureMetadataEntry list \<Rightarrow> failure_panel \<Rightarrow> failure_panel" where
  "select_visible visible s =
     updateSelection visible True (txt_fp_results @ show_nat (length visible) @ txt_fp_selected) s"

definition header_checkbox :: "SmokeFailureMetadataEntry list \<Rightarrow> failure_panel \<Rightarrow> failure_panel" where
  "header_checkbox visible s =
     updateSelection visible (\<not> allVisibleSelected_failures s visible)
       (if allVisibleSelected_failures s visible then txt_fp_results @ show_nat (length visible) @ txt_fp_released
        else txt_fp_results @ show_nat (length visible) @ txt_fp_selected) s"

definition open_preview :: "failure_panel \<Rightarrow> failure_panel" where
  "open_preview s = s\<lparr>fp_preview := True\<rparr>"

definition cancel_preview :: "failure_panel \<Rightarrow> failure_panel" where
  "cancel_preview s = s\<lparr>fp_preview := False\<rparr>"

text \<open>\<open>handleCleanup\<close> up to the request, and what follows its answer.\<close>

definition handleCleanup :: "failure_panel \<Rightarrow> failure_panel" where
  "handleCleanup s =
     (let runIds = map se_run_id (selectedEntries s) in
      if runIds = [] then s
      else s\<lparr>fp_notice := [], fp_pending := Some runIds, fp_sent := fp_sent s @ [runIds]\<rparr>)"

definition cleanup_done :: "nat \<Rightarrow> failure_panel \<Rightarrow> failure_panel" where
  "cleanup_done deleted_count s =
     s\<lparr>fp_selected := [], fp_notice := show_nat deleted_count @ txt_fp_cleaned, fp_preview := False, fp_pending := None\<rparr>"

definition cleanup_failed :: "failure_panel \<Rightarrow> failure_panel" where
  "cleanup_failed s = s\<lparr>fp_notice := txt_fp_failed, fp_preview := False, fp_pending := None\<rparr>"

section \<open>Events\<close>

definition visible_on :: "js_host \<Rightarrow> zone_fields \<Rightarrow> string option \<Rightarrow> int \<Rightarrow> failure_panel \<Rightarrow> SmokeFailureMetadataEntry list" where
  "visible_on H Z timezone clock s = visibleEntries H Z clock timezone (fp_entries s) (sh_filters (fp_hook s))"

text \<open>What can happen: a click on a control that is enabled and on screen (\<open>clock\<close> is the time of the last
  rendering), a change of a filter, new entries from the server, and the answer to a request.\<close>

inductive failure_step :: "js_host \<Rightarrow> zone_fields \<Rightarrow> string option \<Rightarrow> failure_panel \<Rightarrow> failure_panel \<Rightarrow> bool" for H Z tz where
  step_toggle: "e \<in> set (visible_on H Z tz clock s) \<Longrightarrow> failure_step H Z tz s (toggleRun (se_run_id e) s)"
| step_select_visible:
    "v = visible_on H Z tz clock s \<Longrightarrow> v \<noteq> [] \<Longrightarrow> visibleSelectedCount s v \<noteq> length v \<Longrightarrow>
     failure_step H Z tz s (select_visible v s)"
| step_clear_visible:
    "v = visible_on H Z tz clock s \<Longrightarrow> visibleSelectedCount s v \<noteq> 0 \<Longrightarrow> failure_step H Z tz s (clear_visible v s)"
| step_select_all:
    "fp_entries s \<noteq> [] \<Longrightarrow> length (selectedEntries s) \<noteq> length (fp_entries s) \<Longrightarrow> failure_step H Z tz s (select_all s)"
| step_clear: "selectedEntries s \<noteq> [] \<Longrightarrow> failure_step H Z tz s (clear_selection s)"
| step_header: "v = visible_on H Z tz clock s \<Longrightarrow> v \<noteq> [] \<Longrightarrow> failure_step H Z tz s (header_checkbox v s)"
| step_open: "selectedEntries s \<noteq> [] \<Longrightarrow> fp_pending s = None \<Longrightarrow> failure_step H Z tz s (open_preview s)"
| step_cancel: "fp_preview s \<Longrightarrow> fp_pending s = None \<Longrightarrow> failure_step H Z tz s (cancel_preview s)"
| step_confirm:
    "fp_preview s \<Longrightarrow> selectedEntries s \<noteq> [] \<Longrightarrow> fp_pending s = None \<Longrightarrow> failure_step H Z tz s (handleCleanup s)"
| step_done: "fp_pending s = Some ids \<Longrightarrow> failure_step H Z tz s (cleanup_done n s)"
| step_failed: "fp_pending s = Some ids \<Longrightarrow> failure_step H Z tz s (cleanup_failed s)"
| step_filter: "smoke_step (fp_hook s) h \<Longrightarrow> failure_step H Z tz s (s\<lparr>fp_hook := h\<rparr>)"
| step_entries: "failure_step H Z tz s (s\<lparr>fp_entries := es\<rparr>)"

inductive failure_reachable :: "js_host \<Rightarrow> zone_fields \<Rightarrow> string option \<Rightarrow> failure_panel \<Rightarrow> bool" for H Z tz where
  failure_start: "failure_reachable H Z tz (failure_mount H es l)"
| failure_next: "failure_reachable H Z tz s \<Longrightarrow> failure_step H Z tz s t \<Longrightarrow> failure_reachable H Z tz t"

section \<open>Texts\<close>

definition cleanup_summary :: "failure_panel \<Rightarrow> SmokeFailureMetadataEntry list \<Rightarrow> string" where
  "cleanup_summary s visible =
     txt_fp_to_delete @ show_nat (length (selectedEntries s)) @ txt_fp_items @
     (if hiddenSelectedCount s visible \<noteq> 0
      then txt_fp_hidden_in @ show_int (hiddenSelectedCount s visible) @ txt_fp_included else txt_fp_all_shown)"

definition selection_summary :: "failure_panel \<Rightarrow> SmokeFailureMetadataEntry list \<Rightarrow> string" where
  "selection_summary s visible =
     (if selectedEntries s \<noteq> []
      then txt_fp_selection @ show_nat (length (selectedEntries s)) @ txt_fp_selection_in
        @ show_nat (visibleSelectedCount s visible) @ txt_fp_selection_hidden @ show_int (hiddenSelectedCount s visible) @ txt_fp_items
      else txt_fp_no_selection)"

section \<open>The chips of the active filters\<close>

datatype filter_chip = ChipType | ChipPeriod | ChipQuery | ChipSort

definition typeLabel :: "SmokeFailureMetadataFilters \<Rightarrow> string" where
  "typeLabel f = (case sm_type f of STypeAll \<Rightarrow> [] | SType t \<Rightarrow> FAILURE_TYPE_LABELS t)"

definition periodLabel :: "SmokeFailureMetadataFilters \<Rightarrow> string" where
  "periodLabel f =
     (case sm_period f of
        SPeriodAll \<Rightarrow> []
      | SPeriodCustom \<Rightarrow>
          str_join '' ~ '' [or_else (Some (sm_startDate f)) txt_fp_no_start, or_else (Some (sm_endDate f)) txt_fp_no_end]
      | SPeriod7 \<Rightarrow> txt_fp_7
      | SPeriod30 \<Rightarrow> txt_fp_30)"

definition queryLabel :: "SmokeFailureMetadataFilters \<Rightarrow> string" where
  "queryLabel f = or_else (Some (js_trim (sm_query f))) (if sm_query f \<noteq> [] then txt_fp_blank else [])"

definition sortLabel :: "SmokeFailureMetadataFilters \<Rightarrow> string" where
  "sortLabel f =
     (case sm_sort f of SmNewest \<Rightarrow> [] | SmOldest \<Rightarrow> txt_fp_oldest | SmRunAsc \<Rightarrow> txt_fp_run_asc | SmRunDesc \<Rightarrow> txt_fp_run_desc)"

definition filter_chips :: "SmokeFailureMetadataFilters \<Rightarrow> (filter_chip \<times> string) list" where
  "filter_chips f =
     (if countSmokeFailureMetadataActiveFilters f = 0 then []
      else (if typeLabel f \<noteq> [] then [(ChipType, txt_fp_type @ typeLabel f)] else [])
         @ (if periodLabel f \<noteq> [] then [(ChipPeriod, txt_fp_period @ periodLabel f)] else [])
         @ (if queryLabel f \<noteq> [] then [(ChipQuery, txt_fp_search @ queryLabel f)] else [])
         @ (if sortLabel f \<noteq> [] then [(ChipSort, txt_fp_sort @ sortLabel f)] else []))"

fun clear_chip :: "filter_chip \<Rightarrow> smoke_hook \<Rightarrow> smoke_hook" where
  "clear_chip ChipType = changeTypeFilter STypeAll"
| "clear_chip ChipPeriod = changePeriodFilter SPeriodAll"
| "clear_chip ChipQuery = changeQuery []"
| "clear_chip ChipSort = changeSort SmNewest"

definition clear_all_filters :: "smoke_hook \<Rightarrow> smoke_hook" where
  "clear_all_filters =
     applyFilters \<lparr>sm_endDate = [], sm_startDate = [], sm_period = SPeriodAll, sm_query = [], sm_sort = SmNewest, sm_type = STypeAll\<rparr>"

lemma label_texts:
  "FAILURE_TYPE_LABELS t \<noteq> []" "txt_fp_7 \<noteq> []" "txt_fp_30 \<noteq> []" "txt_fp_blank \<noteq> []"
  "txt_fp_oldest \<noteq> []" "txt_fp_run_asc \<noteq> []" "txt_fp_run_desc \<noteq> []"
  by (cases t) (simp_all add: txt_sc_l_api_def txt_sc_login_def txt_sc_l_visual_def txt_fp_7_def txt_fp_30_def txt_fp_blank_def
      txt_fp_oldest_def txt_fp_run_asc_def txt_fp_run_desc_def)

lemma label_shown:
  "typeLabel f \<noteq> [] \<longleftrightarrow> sm_type f \<noteq> STypeAll" "periodLabel f \<noteq> [] \<longleftrightarrow> sm_period f \<noteq> SPeriodAll"
  "queryLabel f \<noteq> [] \<longleftrightarrow> sm_query f \<noteq> []" "sortLabel f \<noteq> [] \<longleftrightarrow> sm_sort f \<noteq> SmNewest"
proof -
  show "typeLabel f \<noteq> [] \<longleftrightarrow> sm_type f \<noteq> STypeAll" by (auto simp: typeLabel_def label_texts split: SmokeTypeFilter.splits)
  show "periodLabel f \<noteq> [] \<longleftrightarrow> sm_period f \<noteq> SPeriodAll"
    by (auto simp: periodLabel_def label_texts split: SmokePeriodFilter.splits)
  show "queryLabel f \<noteq> [] \<longleftrightarrow> sm_query f \<noteq> []"
    by (cases "js_trim (sm_query f)") (auto simp: queryLabel_def or_else_def truthy_def label_texts)
  show "sortLabel f \<noteq> [] \<longleftrightarrow> sm_sort f \<noteq> SmNewest" by (auto simp: sortLabel_def label_texts split: SmokeSort.splits)
qed

text \<open>Every active condition has one chip, and the chip takes back its own condition only.\<close>

lemma chips_count: "length (filter_chips f) = countSmokeFailureMetadataActiveFilters f"
  unfolding filter_chips_def label_shown by (simp add: countSmokeFailureMetadataActiveFilters_def)

lemma chip_clears:
  assumes "(chip, label) \<in> set (filter_chips (sh_filters s))"
  shows "Suc (length (filter_chips (sh_filters (clear_chip chip s)))) = length (filter_chips (sh_filters s))"
  using assms unfolding chips_count filter_chips_def label_shown
  by (cases chip)
    (auto simp: smoke_op_defs smoke_put_def countSmokeFailureMetadataActiveFilters_def split: if_splits)

lemma clear_all_chips: "filter_chips (sh_filters (clear_all_filters s)) = []"
  by (simp add: filter_chips_def clear_all_filters_def smoke_op_defs smoke_put_def countSmokeFailureMetadataActiveFilters_def Let_def)

section \<open>Selection and numbers\<close>

lemma selection_set:
  "set (updateSmokeFailureMetadataSelection current es selected) =
     (if selected then set current \<union> se_run_id ` set es else set current - se_run_id ` set es)"
  unfolding updateSmokeFailureMetadataSelection_def by (induction es arbitrary: current) auto

lemma filter_shape: "\<exists>P. filterSmokeFailureMetadata H Z clock es type period opts = filter P es"
proof (cases "invalid_custom_range period opts")
  case True
  then have "filterSmokeFailureMetadata H Z clock es type period opts = filter (\<lambda>e. False) es"
    by (simp add: filterSmokeFailureMetadata_def)
  then show ?thesis by blast
next
  case False
  then show ?thesis by (intro exI) (simp only: filterSmokeFailureMetadata_def Let_def if_False)
qed

lemma visible_filter:
  "\<exists>P. visible_on H Z tz clock s = sortSmokeFailureMetadata H (filter P (fp_entries s)) (sm_sort (sh_filters (fp_hook s)))"
  unfolding visible_on_def visibleEntries_def Let_def using filter_shape by (metis (no_types))

lemma count_parts: "length (filter Q xs) = length (filter Q (filter P xs)) + length (filter (\<lambda>x. \<not> P x) (filter Q xs))"
  by (induction xs) auto

text \<open>The hidden ones are the selected entries that the filters do not show.\<close>

lemma hidden_count:
  "hiddenSelectedCount s (visible_on H Z tz clock s)
     = int (length (filter (\<lambda>e. e \<notin> set (visible_on H Z tz clock s)) (selectedEntries s)))"
proof -
  obtain P where v: "visible_on H Z tz clock s = sortSmokeFailureMetadata H (filter P (fp_entries s)) (sm_sort (sh_filters (fp_hook s)))"
    using visible_filter by blast
  let ?Q = "\<lambda>e. se_run_id e \<in> set (fp_selected s)"
  have "length (filter ?Q (visible_on H Z tz clock s)) = length (filter ?Q (filter P (fp_entries s)))"
    unfolding v sortSmokeFailureMetadata_def by (metis mset_filter mset_js_sort size_mset)
  moreover have "filter (\<lambda>e. e \<notin> set (visible_on H Z tz clock s)) (selectedEntries s)
      = filter (\<lambda>e. \<not> P e) (filter ?Q (fp_entries s))"
    unfolding selectedEntries_def selected_in_def
    by (rule filter_cong) (auto simp: v sortSmokeFailureMetadata_def)
  ultimately show ?thesis
    using count_parts [of ?Q "fp_entries s" P]
    by (simp add: hiddenSelectedCount_def visibleSelectedCount_def selectedEntries_def selected_in_def)
qed

text \<open>Selecting and releasing the shown entries leaves the choice of the hidden ones as it is.\<close>

lemma visible_selection:
  "set (fp_selected (select_visible v s)) = set (fp_selected s) \<union> se_run_id ` set v"
  "set (fp_selected (clear_visible v s)) = set (fp_selected s) - se_run_id ` set v"
  "allVisibleSelected_failures s v \<Longrightarrow> set (fp_selected (header_checkbox v s)) = set (fp_selected s) - se_run_id ` set v"
  "v \<noteq> [] \<Longrightarrow> \<not> allVisibleSelected_failures s v \<Longrightarrow> allVisibleSelected_failures (header_checkbox v s) v"
  by (auto simp: select_visible_def clear_visible_def header_checkbox_def updateSelection_def selection_set
      allVisibleSelected_failures_def list_all_iff)

section \<open>The request\<close>

lemmas panel_handlers = toggleRun_def updateSelection_def clear_selection_def clear_visible_def select_all_def
  select_visible_def header_checkbox_def open_preview_def cancel_preview_def cleanup_done_def cleanup_failed_def

definition failure_inv :: "failure_panel \<Rightarrow> bool" where
  "failure_inv s \<longleftrightarrow> (\<forall>ids. fp_pending s = Some ids \<longrightarrow> fp_preview s \<and> fp_sent s \<noteq> [] \<and> last (fp_sent s) = ids) \<and>
     list_all (\<lambda>ids. ids \<noteq> []) (fp_sent s)"

lemma failure_step_inv: "failure_step H Z tz s t \<Longrightarrow> failure_inv s \<Longrightarrow> failure_inv t"
  by (induction rule: failure_step.induct)
    (auto simp: failure_inv_def panel_handlers handleCleanup_def Let_def)

lemma failure_reachable_inv: "failure_reachable H Z tz s \<Longrightarrow> failure_inv s"
proof (induction rule: failure_reachable.induct)
  case (failure_next s t)
  then show ?case using failure_step_inv by blast
qed (simp add: failure_inv_def failure_mount_def)

lemma step_sends:
  "failure_step H Z tz s t \<Longrightarrow> fp_sent t \<noteq> fp_sent s \<Longrightarrow>
   fp_preview s \<and> fp_pending s = None \<and> selectedEntries s \<noteq> [] \<and> t = handleCleanup s"
  by (induction rule: failure_step.induct) (auto simp: panel_handlers handleCleanup_def)

text \<open>C20. Only what the preview shows is deleted.  Whatever was clicked, filtered or loaded before, a request
  to delete is sent only from the open preview while none is under way, and it names exactly the runs that
  the preview lists, the selected entries in the order of the records; the number of them outside the
  filters that the preview shows is the number of selected entries that the list does not show.  While a
  request is under way, the preview stays open and no other request is sent.\<close>

theorem cleanup_names_the_preview:
  assumes "failure_reachable H Z tz s" and "failure_step H Z tz s t"
  shows "(fp_sent t \<noteq> fp_sent s \<longrightarrow>
       fp_preview s \<and> fp_pending s = None \<and> selectedEntries s \<noteq> [] \<and>
       fp_sent t = fp_sent s @ [map se_run_id (selectedEntries s)] \<and> selectedEntries t = selectedEntries s) \<and>
     hiddenSelectedCount s (visible_on H Z tz clock s)
       = int (length (filter (\<lambda>e. e \<notin> set (visible_on H Z tz clock s)) (selectedEntries s))) \<and>
     (fp_pending s \<noteq> None \<longrightarrow> fp_preview s \<and> fp_pending s = Some (last (fp_sent s)) \<and> fp_sent t = fp_sent s)"
proof -
  have c: "fp_preview s \<and> fp_pending s = None \<and> selectedEntries s \<noteq> [] \<and>
      fp_sent t = fp_sent s @ [map se_run_id (selectedEntries s)] \<and> selectedEntries t = selectedEntries s"
    if n: "fp_sent t \<noteq> fp_sent s"
  proof -
    have s: "fp_preview s" "fp_pending s = None" "selectedEntries s \<noteq> []" "t = handleCleanup s"
      using step_sends [OF assms(2) n] by blast+
    then have "t = s\<lparr>fp_notice := [], fp_pending := Some (map se_run_id (selectedEntries s)),
        fp_sent := fp_sent s @ [map se_run_id (selectedEntries s)]\<rparr>"
      by (simp add: handleCleanup_def Let_def)
    then show ?thesis using s(1-3) by (simp add: selectedEntries_def selected_in_def)
  qed
  moreover have "fp_preview s \<and> fp_pending s = Some (last (fp_sent s)) \<and> fp_sent t = fp_sent s" if "fp_pending s \<noteq> None"
    using that failure_reachable_inv [OF assms(1)] c unfolding failure_inv_def by (cases "fp_pending s") auto
  ultimately show ?thesis using hidden_count [of s H Z tz clock] by blast
qed

text \<open>Two entries are chosen, the filter hides one of them, and the preview is confirmed.\<close>

definition panel_sample :: failure_panel where
  "panel_sample = (failure_mount utc_host [smoke_sample 7, smoke_sample 8] \<lparr>loc_path = ''/'', loc_search = [], loc_hash = []\<rparr>)"

definition panel_chosen :: failure_panel where
  "panel_chosen =
     (let s = select_all panel_sample in open_preview (s\<lparr>fp_hook := changeQuery ''8'' (fp_hook s)\<rparr>))"

lemma panel_chosen_reachable: "failure_reachable utc_host (\<lambda>_ _. None) None panel_chosen"
proof -
  let ?s = "select_all panel_sample"
  have "failure_reachable utc_host (\<lambda>_ _. None) None panel_sample" unfolding panel_sample_def by (rule failure_start)
  moreover have "failure_step utc_host (\<lambda>_ _. None) None panel_sample ?s"
    by (rule step_select_all) (simp_all add: panel_sample_def failure_mount_def selectedEntries_def selected_in_def)
  ultimately have "failure_reachable utc_host (\<lambda>_ _. None) None ?s" by (rule failure_next)
  moreover have "failure_step utc_host (\<lambda>_ _. None) None ?s (?s\<lparr>fp_hook := changeQuery ''8'' (fp_hook ?s)\<rparr>)"
    by (rule step_filter) (rule change_query)
  ultimately have "failure_reachable utc_host (\<lambda>_ _. None) None (?s\<lparr>fp_hook := changeQuery ''8'' (fp_hook ?s)\<rparr>)"
    by (rule failure_next)
  then show ?thesis unfolding panel_chosen_def Let_def
    by (rule failure_next) (rule step_open; simp add: panel_sample_def failure_mount_def select_all_def updateSelection_def
        selectedEntries_def selected_in_def selection_set)
qed

theorem cleanup_names_the_preview_witness:
  "fp_sent (handleCleanup panel_chosen) = [[7, 8]] \<and> fp_preview panel_chosen \<and>
   hiddenSelectedCount panel_chosen (visible_on utc_host (\<lambda>_ _. None) None 0 panel_chosen)
     = int (length (filter (\<lambda>e. e \<notin> set (visible_on utc_host (\<lambda>_ _. None) None 0 panel_chosen)) (selectedEntries panel_chosen)))"
proof -
  have e: "map se_run_id (selectedEntries panel_chosen) = [7, 8]" "fp_sent panel_chosen = []" "fp_preview panel_chosen"
      "fp_pending panel_chosen = None"
    by (simp_all add: panel_chosen_def panel_sample_def failure_mount_def select_all_def updateSelection_def open_preview_def
        selectedEntries_def selected_in_def selection_set smoke_sample_def Let_def)
  then have n: "selectedEntries panel_chosen \<noteq> []" by auto
  have "failure_step utc_host (\<lambda>_ _. None) None panel_chosen (handleCleanup panel_chosen)" by (rule step_confirm [OF e(3) n e(4)])
  note w = cleanup_names_the_preview [OF panel_chosen_reachable this, of 0]
  have "hiddenSelectedCount panel_chosen (visible_on utc_host (\<lambda>_ _. None) None 0 panel_chosen)
     = int (length (filter (\<lambda>e. e \<notin> set (visible_on utc_host (\<lambda>_ _. None) None 0 panel_chosen)) (selectedEntries panel_chosen)))"
    using w by blast
  moreover have "fp_sent (handleCleanup panel_chosen) = [[7, 8]]" using e(1,2) n by (simp add: handleCleanup_def Let_def)
  ultimately show ?thesis using e(3) by blast
qed

end
