(* ===== verification/Maintenance_History.thy ===== *)
theory Maintenance_History
  imports Audit_Query Smoke_Filters Api_Proxy
begin

text \<open>
  The history of the end of maintenance of a service (\<open>app/dashboard/MaintenanceScheduleHistoryPanel.tsx\<close>):
  its filters, the address that repeats them, the request for audit logs and the list on screen; and the
  service whose history is open (\<open>maintenanceHistoryServiceQuery.ts\<close>).
\<close>

section \<open>Filters\<close>

datatype MaintenanceHistoryPeriod = MpAll | Mp7 | Mp30 | Mp90 | MpCustom

fun maintenance_period_text :: "MaintenanceHistoryPeriod \<Rightarrow> string" where
  "maintenance_period_text MpAll = ''all''"
| "maintenance_period_text Mp7 = ''7''"
| "maintenance_period_text Mp30 = ''30''"
| "maintenance_period_text Mp90 = ''90''"
| "maintenance_period_text MpCustom = ''custom''"

fun maintenance_period_days :: "MaintenanceHistoryPeriod \<Rightarrow> int option" where
  "maintenance_period_days Mp7 = Some 7"
| "maintenance_period_days Mp30 = Some 30"
| "maintenance_period_days Mp90 = Some 90"
| "maintenance_period_days _ = None"

record MaintenanceHistoryFilters =
  mh_actor :: string
  mh_endDate :: string
  mh_period :: MaintenanceHistoryPeriod
  mh_startDate :: string

definition parseMaintenanceHistoryPeriod :: "string option \<Rightarrow> MaintenanceHistoryPeriod" where
  "parseMaintenanceHistoryPeriod v = read_enum maintenance_period_text [Mp7, Mp30, Mp90] MpAll v"

definition readMaintenanceHistoryFilters :: "js_host \<Rightarrow> location \<Rightarrow> MaintenanceHistoryFilters" where
  "readMaintenanceHistoryFilters H l =
     (let ps = location_params l;
          startDate = parseAuditDate H (params_get ''maintenance_history_start'' ps);
          parsedEndDate = parseAuditDate H (params_get ''maintenance_history_end'' ps);
          endDate = (if startDate \<noteq> [] \<and> parsedEndDate \<noteq> [] \<and> str_less parsedEndDate startDate then [] else parsedEndDate);
          actor = js_take 100 (or_else (params_get ''maintenance_history_actor'' ps) ''all'')
      in \<lparr>mh_actor = or_else (Some actor) ''all'', mh_endDate = endDate,
          mh_period = (if startDate \<noteq> [] \<or> endDate \<noteq> [] then MpCustom
            else parseMaintenanceHistoryPeriod (params_get ''maintenance_history_period'' ps)),
          mh_startDate = startDate\<rparr>)"

definition maintenance_values :: "MaintenanceHistoryFilters \<Rightarrow> param_update list" where
  "maintenance_values f =
     [(''maintenance_history_actor'', mh_actor f, ''all''),
      (''maintenance_history_period'', maintenance_period_text (mh_period f), ''all''),
      (''maintenance_history_start'', mh_startDate f, []),
      (''maintenance_history_end'', mh_endDate f, [])]"

definition replaceMaintenanceHistoryFilters :: "MaintenanceHistoryFilters \<Rightarrow> location \<Rightarrow> location" where
  "replaceMaintenanceHistoryFilters f l =
     l\<lparr>loc_search := search_string (fold write_param (maintenance_values f) (location_params l))\<rparr>"

section \<open>The panel\<close>

record history_panel =
  hp_filters :: MaintenanceHistoryFilters
  hp_location :: location

definition history_mount :: "js_host \<Rightarrow> location \<Rightarrow> history_panel" where
  "history_mount H l = \<lparr>hp_filters = readMaintenanceHistoryFilters H l, hp_location = l\<rparr>"

definition updateFilters_history :: "(MaintenanceHistoryFilters \<Rightarrow> MaintenanceHistoryFilters) \<Rightarrow> history_panel \<Rightarrow> history_panel" where
  "updateFilters_history up s =
     (let n = up (hp_filters s) in \<lparr>hp_filters = n, hp_location = replaceMaintenanceHistoryFilters n (hp_location s)\<rparr>)"

definition handleActorChange :: "string \<Rightarrow> history_panel \<Rightarrow> history_panel" where
  "handleActorChange v = updateFilters_history (mh_actor_update (\<lambda>_. v))"

definition handlePeriodChange_history :: "MaintenanceHistoryPeriod \<Rightarrow> history_panel \<Rightarrow> history_panel" where
  "handlePeriodChange_history v = updateFilters_history (\<lambda>f. f\<lparr>mh_endDate := [], mh_period := v, mh_startDate := []\<rparr>)"

definition handleStartDateChange :: "string \<Rightarrow> history_panel \<Rightarrow> history_panel" where
  "handleStartDateChange v s =
     (let endDate = mh_endDate (hp_filters s);
          nextEndDate = (if v \<noteq> [] \<and> endDate \<noteq> [] \<and> str_less endDate v then [] else endDate)
      in updateFilters_history (\<lambda>f. f\<lparr>mh_endDate := nextEndDate,
           mh_period := (if v \<noteq> [] \<or> nextEndDate \<noteq> [] then MpCustom else MpAll), mh_startDate := v\<rparr>) s)"

definition handleEndDateChange :: "string \<Rightarrow> history_panel \<Rightarrow> history_panel" where
  "handleEndDateChange v s =
     (let startDate = mh_startDate (hp_filters s);
          nextStartDate = (if v \<noteq> [] \<and> startDate \<noteq> [] \<and> str_less v startDate then [] else startDate)
      in updateFilters_history (\<lambda>f. f\<lparr>mh_endDate := v,
           mh_period := (if v \<noteq> [] \<or> nextStartDate \<noteq> [] then MpCustom else MpAll), mh_startDate := nextStartDate\<rparr>) s)"

section \<open>The request and the list\<close>

record maintenance_log =
  ml_resource_id :: string
  ml_actor :: string
  ml_detail :: "json option"

definition maintenance_query :: "string \<Rightarrow> MaintenanceHistoryFilters \<Rightarrow> AuditLogQueryParams" where
  "maintenance_query serviceId f =
     no_params\<lparr>al_limit := Some (Num 100), al_offset := Some (Num 0), al_resource_type := Some ''service'',
       al_action := Some ''update'', al_event := Some ''service_update'',
       al_period_days := maintenance_period_days (mh_period f), al_start_date := or_null (Some (mh_startDate f)),
       al_end_date := or_null (Some (mh_endDate f)), al_search := Some serviceId\<rparr>"

definition hasMaintenanceUntilChange :: "maintenance_log \<Rightarrow> bool" where
  "hasMaintenanceUntilChange l =
     (case Option.bind (ml_detail l) (json_field ''changed_keys'') of
        Some (JArr ks) \<Rightarrow> JStr ''maintenance_until'' \<in> set ks
      | _ \<Rightarrow> False)"

text \<open>The value before or after the change: a text in the snapshot, if it is an object.\<close>

definition getMaintenanceUntil :: "maintenance_log \<Rightarrow> string \<Rightarrow> string option" where
  "getMaintenanceUntil l k =
     (case Option.bind (ml_detail l) (json_field k) of
        Some (JObj ps) \<Rightarrow> json_string (obj_get ''maintenance_until'' ps)
      | _ \<Rightarrow> None)"

definition historyLogs :: "string \<Rightarrow> maintenance_log list \<Rightarrow> maintenance_log list" where
  "historyLogs serviceId items = filter (\<lambda>l. ml_resource_id l = serviceId \<and> hasMaintenanceUntilChange l) items"

definition history_actors :: "maintenance_log list \<Rightarrow> string list" where
  "history_actors logs = js_sort name_cmp (js_unique (map ml_actor logs))"

definition selectedActor :: "MaintenanceHistoryFilters \<Rightarrow> maintenance_log list \<Rightarrow> string" where
  "selectedActor f logs = (if mh_actor f = ''all'' \<or> mh_actor f \<in> set (history_actors logs) then mh_actor f else ''all'')"

definition shown_logs :: "string \<Rightarrow> MaintenanceHistoryFilters \<Rightarrow> maintenance_log list \<Rightarrow> maintenance_log list" where
  "shown_logs serviceId f items =
     (let logs = historyLogs serviceId items; actor = selectedActor f logs in
      if actor = ''all'' then logs else filter (\<lambda>l. ml_actor l = actor) logs)"

section \<open>The service whose history is open\<close>

definition group_sizes :: "nat list" where
  "group_sizes = [8, 4, 4, 4, 12]"

definition service_id_shape :: "string \<Rightarrow> bool" where
  "service_id_shape s =
     (let gs = str_split (CHR ''-'') s in map length gs = group_sizes \<and> list_all (list_all is_hex) gs)"

definition readMaintenanceHistoryServiceId :: "location \<Rightarrow> string option" where
  "readMaintenanceHistoryServiceId l =
     (case params_get ''maintenance_history_service'' (location_params l) of
        Some v \<Rightarrow> (if v \<noteq> [] \<and> service_id_shape v then Some v else None)
      | None \<Rightarrow> None)"

definition replaceMaintenanceHistoryServiceId :: "string option \<Rightarrow> location \<Rightarrow> location" where
  "replaceMaintenanceHistoryServiceId serviceId l =
     l\<lparr>loc_search := search_string
         (if truthy serviceId then params_set ''maintenance_history_service'' (the serviceId) (location_params l)
          else params_delete ''maintenance_history_service'' (location_params l))\<rparr>"

lemma service_id_kept:
  "readMaintenanceHistoryServiceId (replaceMaintenanceHistoryServiceId serviceId l) =
     (if truthy serviceId \<and> service_id_shape (the serviceId) then serviceId else None)"
  by (cases serviceId)
    (auto simp: readMaintenanceHistoryServiceId_def replaceMaintenanceHistoryServiceId_def location_params_def
      params_get_set params_get_delete truthy_def)

section \<open>Events\<close>

text \<open>A period button (the entry for dates cannot be chosen), a date from a date field (nothing, or a date of
  four digits for the year) and a user name of the list, which has at most a hundred characters.\<close>

inductive history_step :: "history_panel \<Rightarrow> history_panel \<Rightarrow> bool" where
  step_actor: "v \<noteq> [] \<Longrightarrow> js_take 100 v = v \<Longrightarrow> history_step s (handleActorChange v s)"
| step_period: "v \<noteq> MpCustom \<Longrightarrow> history_step s (handlePeriodChange_history v s)"
| step_start: "date_input d \<Longrightarrow> history_step s (handleStartDateChange d s)"
| step_end: "date_input d \<Longrightarrow> history_step s (handleEndDateChange d s)"

inductive maintenance_reachable :: "js_host \<Rightarrow> history_panel \<Rightarrow> bool" for H where
  history_start: "maintenance_reachable H (history_mount H l)"
| history_next: "maintenance_reachable H s \<Longrightarrow> history_step s t \<Longrightarrow> maintenance_reachable H t"

section \<open>Invariant\<close>

definition filters_ok :: "MaintenanceHistoryFilters \<Rightarrow> bool" where
  "filters_ok f \<longleftrightarrow> date_input (mh_startDate f) \<and> date_input (mh_endDate f) \<and>
     (mh_startDate f = [] \<or> mh_endDate f = [] \<or> \<not> str_less (mh_endDate f) (mh_startDate f)) \<and>
     (mh_period f = MpCustom \<longleftrightarrow> mh_startDate f \<noteq> [] \<or> mh_endDate f \<noteq> []) \<and>
     mh_actor f \<noteq> [] \<and> js_take 100 (mh_actor f) = mh_actor f"

lemma parse_date: "parseAuditDate H v = (if truthy v \<and> calendar_date (the v) then the v else [])"
  by (cases v) (auto simp: parseAuditDate_def utc_date_check_iff truthy_def calendar_date_def date_shape_def)

lemma parse_date_input [simp]: "date_input (parseAuditDate H v)"
  by (simp add: parse_date date_input_def)

lemma stored_date: "date_input d \<Longrightarrow> parseAuditDate H (if d = [] then None else Some d) = d"
  by (auto simp: parse_date date_input_def truthy_def)

lemma stored_period:
  "p \<noteq> MpCustom \<Longrightarrow>
   parseMaintenanceHistoryPeriod (if maintenance_period_text p = ''all'' then None else Some (maintenance_period_text p)) = p"
  by (cases p) (simp_all add: parseMaintenanceHistoryPeriod_def read_enum_def)

lemma parse_not_custom: "parseMaintenanceHistoryPeriod v \<noteq> MpCustom"
  by (auto simp: parseMaintenanceHistoryPeriod_def read_enum_def split: option.splits)

lemma stored_get:
  "params_get ''maintenance_history_actor'' (location_params (replaceMaintenanceHistoryFilters f l))
     = (if mh_actor f = ''all'' then None else Some (mh_actor f))"
  "params_get ''maintenance_history_period'' (location_params (replaceMaintenanceHistoryFilters f l))
     = (if maintenance_period_text (mh_period f) = ''all'' then None else Some (maintenance_period_text (mh_period f)))"
  "params_get ''maintenance_history_start'' (location_params (replaceMaintenanceHistoryFilters f l))
     = (if mh_startDate f = [] then None else Some (mh_startDate f))"
  "params_get ''maintenance_history_end'' (location_params (replaceMaintenanceHistoryFilters f l))
     = (if mh_endDate f = [] then None else Some (mh_endDate f))"
  by (simp_all add: replaceMaintenanceHistoryFilters_def location_params_def maintenance_values_def write_param_def
      params_get_set params_get_delete)

lemma take_all: "js_take 100 ''all'' = ''all''"
  by code_simp

lemma or_else_cases: "or_else None d = d" "or_else (Some v) d = (if v = [] then d else v)"
  by (simp_all add: or_else_def truthy_def)

lemma stored_filters:
  assumes "filters_ok f"
  shows "readMaintenanceHistoryFilters H (replaceMaintenanceHistoryFilters f l) = f"
proof -
  have d: "parseAuditDate H (if mh_startDate f = [] then None else Some (mh_startDate f)) = mh_startDate f"
    "parseAuditDate H (if mh_endDate f = [] then None else Some (mh_endDate f)) = mh_endDate f"
    using assms by (simp_all add: filters_ok_def stored_date)
  have a: "or_else (Some (js_take 100 (or_else (if mh_actor f = ''all'' then None else Some (mh_actor f)) ''all''))) ''all'' = mh_actor f"
  proof (cases "mh_actor f = ''all''")
    case True
    then show ?thesis by (simp only: refl if_True or_else_cases take_all if_cancel)
  next
    case False
    then have "or_else (if mh_actor f = ''all'' then None else Some (mh_actor f)) ''all'' = mh_actor f"
      using assms by (simp add: filters_ok_def or_else_cases)
    then show ?thesis using assms by (simp only: filters_ok_def or_else_cases if_False)
  qed
  have e: "(if mh_startDate f \<noteq> [] \<and> mh_endDate f \<noteq> [] \<and> str_less (mh_endDate f) (mh_startDate f) then [] else mh_endDate f) = mh_endDate f"
    using assms by (auto simp: filters_ok_def)
  have p: "(if mh_startDate f \<noteq> [] \<or> mh_endDate f \<noteq> [] then MpCustom else parseMaintenanceHistoryPeriod
      (if maintenance_period_text (mh_period f) = ''all'' then None else Some (maintenance_period_text (mh_period f)))) = mh_period f"
    using assms stored_period [of "mh_period f"] by (auto simp: filters_ok_def)
  show ?thesis unfolding readMaintenanceHistoryFilters_def Let_def stored_get d a e p by simp
qed

lemma read_filters_ok: "filters_ok (readMaintenanceHistoryFilters H l)"
proof -
  let ?f = "readMaintenanceHistoryFilters H l"
  let ?v = "js_take 100 (or_else (params_get ''maintenance_history_actor'' (location_params l)) ''all'')"
  have z: "date_input []" by (simp add: date_input_def)
  have "date_input (mh_startDate ?f)" "date_input (mh_endDate ?f)"
    by (simp_all add: readMaintenanceHistoryFilters_def Let_def z del: js_take.simps)
  moreover have "mh_startDate ?f = [] \<or> mh_endDate ?f = [] \<or> \<not> str_less (mh_endDate ?f) (mh_startDate ?f)"
    by (auto simp: readMaintenanceHistoryFilters_def Let_def simp del: js_take.simps)
  moreover have "mh_period ?f = MpCustom \<longleftrightarrow> mh_startDate ?f \<noteq> [] \<or> mh_endDate ?f \<noteq> []"
    using parse_not_custom by (auto simp: readMaintenanceHistoryFilters_def Let_def simp del: js_take.simps)
  moreover have a: "mh_actor ?f = (if ?v = [] then ''all'' else ?v)"
    by (simp only: readMaintenanceHistoryFilters_def Let_def MaintenanceHistoryFilters.simps or_else_cases)
  have i: "js_take 100 (js_take 100 v) = js_take 100 v" for v by simp
  have "mh_actor ?f \<noteq> [] \<and> js_take 100 (mh_actor ?f) = mh_actor ?f"
  proof (cases "?v = []")
    case True
    then show ?thesis unfolding a by (simp only: refl if_True take_all) blast
  next
    case False
    then show ?thesis unfolding a by (simp only: if_False i simp_thms)
  qed
  ultimately show ?thesis by (simp only: filters_ok_def simp_thms)
qed

definition history_inv :: "js_host \<Rightarrow> history_panel \<Rightarrow> bool" where
  "history_inv H s \<longleftrightarrow> filters_ok (hp_filters s) \<and> readMaintenanceHistoryFilters H (hp_location s) = hp_filters s"

lemma update_inv: "filters_ok (up (hp_filters s)) \<Longrightarrow> history_inv H (updateFilters_history up s)"
  by (simp add: history_inv_def updateFilters_history_def Let_def stored_filters)

lemma history_step_inv: "history_step s t \<Longrightarrow> history_inv H s \<Longrightarrow> history_inv H t"
proof (induction rule: history_step.induct)
  case (step_actor v s)
  then show ?case unfolding handleActorChange_def by (intro update_inv) (simp add: history_inv_def filters_ok_def)
next
  case (step_period v s)
  then show ?case unfolding handlePeriodChange_history_def
    by (intro update_inv) (simp add: history_inv_def filters_ok_def date_input_def)
next
  case (step_start d s)
  then show ?case unfolding handleStartDateChange_def Let_def
    by (intro update_inv) (auto simp: history_inv_def filters_ok_def date_input_def)
next
  case (step_end d s)
  then show ?case unfolding handleEndDateChange_def Let_def
    by (intro update_inv) (auto simp: history_inv_def filters_ok_def date_input_def)
qed

lemma maintenance_reachable_inv: "maintenance_reachable H s \<Longrightarrow> history_inv H s"
proof (induction rule: maintenance_reachable.induct)
  case (history_start l)
  then show ?case by (simp add: history_inv_def history_mount_def read_filters_ok)
next
  case (history_next s t)
  then show ?case using history_step_inv by blast
qed

text \<open>The maintenance history can be linked and asked for.  In every state that the period list, the two
  date fields and the user list lead to, reading the address gives the filters in memory; the start is not
  after the end; and the request never carries a number of days together with dates, and carries dates
  exactly if the period is the chosen one.\<close>

theorem maintenance_history_linked:
  assumes "maintenance_reachable H s"
  shows "readMaintenanceHistoryFilters H (hp_location s) = hp_filters s \<and>
    (let f = hp_filters s; q = maintenance_query serviceId f in
      (mh_startDate f = [] \<or> mh_endDate f = [] \<or> \<not> str_less (mh_endDate f) (mh_startDate f)) \<and>
      (al_period_days q = None \<or> al_start_date q = None \<and> al_end_date q = None) \<and>
      (mh_period f = MpCustom \<longleftrightarrow> al_start_date q \<noteq> None \<or> al_end_date q \<noteq> None))"
proof -
  have i: "filters_ok (hp_filters s)" "readMaintenanceHistoryFilters H (hp_location s) = hp_filters s"
    using maintenance_reachable_inv [OF assms] by (simp_all add: history_inv_def)
  have n: "or_null (Some d) = (if d = [] then None else Some d)" for d :: string by (simp add: or_null_def truthy_def)
  have "maintenance_period_days (mh_period (hp_filters s)) = None \<or> mh_period (hp_filters s) \<noteq> MpCustom"
    by (cases "mh_period (hp_filters s)") simp_all
  then show ?thesis using i by (auto simp: Let_def maintenance_query_def n filters_ok_def)
qed

text \<open>What the panel shows: changes of this service only, and all of them unless a user who made one is
  chosen.\<close>

lemma shown_logs_set:
  "set (shown_logs serviceId f items) =
     {l \<in> set items. ml_resource_id l = serviceId \<and> hasMaintenanceUntilChange l \<and>
        (mh_actor f = ''all'' \<or> mh_actor f \<notin> ml_actor ` set (historyLogs serviceId items) \<or> ml_actor l = mh_actor f)}"
  by (auto simp: shown_logs_def Let_def selectedActor_def history_actors_def historyLogs_def)

end
