(* ===== verification/History_Panels.thy ===== *)
theory History_Panels
  imports Exports Smoke_Stats Audit_Query Deployment_Links Ui_Text_Scripts
begin

text \<open>
  Three panels of histories: the bottleneck events of the deployment
  (\<open>app/dashboard/ManagerDeploymentBottleneckEventHistory.tsx\<close>), the local smoke runs
  (\<open>app/dashboard/SmokeRunStatisticsHistory.tsx\<close>) and the export of the rotation results of the smoke
  account (\<open>app/dashboard/audit/useAuditRotationExportModel.ts\<close>).  The first two repeat each filter in a
  parameter of the address; what they rely on is the interface \<open>url_filter\<close>, of which their four filters
  are instances.
\<close>

section \<open>A filter in the address\<close>

text \<open>A filter is read from a parameter and written under its spelling, except for \<open>all\<close>.\<close>

locale url_filter =
  fixes key :: string and spell :: "'a \<Rightarrow> string" and parse :: "string option \<Rightarrow> 'a"
  assumes parse_stored: "parse (if spell x = ''all'' then None else Some (spell x)) = x"
begin

definition put_filter :: "'a \<Rightarrow> location \<Rightarrow> location" where
  "put_filter x l = replaceBrowserQueryParams [(key, spell x, ''all'')] l"

definition read_from :: "location \<Rightarrow> 'a" where
  "read_from l = parse (params_get key (location_params l))"

lemma read_put: "read_from (put_filter x l) = x"
  using replace_get [of "[(key, spell x, ''all'')]" key l] parse_stored [of x] by (simp add: read_from_def put_filter_def)

lemma put_other: "k \<noteq> key \<Longrightarrow> params_get k (location_params (put_filter x l)) = params_get k (location_params l)"
  by (simp add: put_filter_def replace_then_get_other)

end

section \<open>Bottleneck events\<close>

definition EVENT_FILTER_QUERY :: string where "EVENT_FILTER_QUERY = ''deployment_bottleneck_event_type''"
definition PERIOD_QUERY :: string where "PERIOD_QUERY = ''deployment_bottleneck_event_period''"

definition parseEventFilter :: "string option \<Rightarrow> BottleneckEventFilter" where
  "parseEventFilter v =
     (if v = Some ''alerted'' then BeAlerted else if v = Some ''cleared'' then BeCleared else BeAll)"

definition parseEventPeriod :: "string option \<Rightarrow> BottleneckEventPeriod" where
  "parseEventPeriod v =
     (if v = Some ''1'' then Bp1 else if v = Some ''7'' then Bp7 else if v = Some ''30'' then Bp30 else BpAll)"

fun bottleneck_days :: "BottleneckEventPeriod \<Rightarrow> int" where
  "bottleneck_days BpAll = 0"
| "bottleneck_days Bp1 = 1"
| "bottleneck_days Bp7 = 7"
| "bottleneck_days Bp30 = 30"

record bottleneck_panel =
  bn_filter :: BottleneckEventFilter
  bn_period :: BottleneckEventPeriod
  bn_reference :: int
  bn_notice :: string
  bn_location :: location

definition bottleneck_mount :: "int \<Rightarrow> location \<Rightarrow> bottleneck_panel" where
  "bottleneck_mount now l =
     \<lparr>bn_filter = parseEventFilter (params_get EVENT_FILTER_QUERY (location_params l)),
      bn_period = parseEventPeriod (params_get PERIOD_QUERY (location_params l)),
      bn_reference = now, bn_notice = [], bn_location = l\<rparr>"

definition periodEvents :: "js_host \<Rightarrow> BottleneckEventPeriod \<Rightarrow> int \<Rightarrow> json js_object list \<Rightarrow> json js_object list" where
  "periodEvents H period now events =
     (if period = BpAll then events
      else filter (\<lambda>e. case Option.bind (json_string (obj_get ''occurred_at'' e)) (date_parse H) of
             None \<Rightarrow> False
           | Some t \<Rightarrow> now - bottleneck_days period * day_ms \<le> t) events)"

definition event_is :: "BottleneckEventFilter \<Rightarrow> json js_object \<Rightarrow> bool" where
  "event_is f e = (obj_get ''event'' e = Some (JStr (bottleneck_event_text f)))"

definition filteredEvents :: "js_host \<Rightarrow> bottleneck_panel \<Rightarrow> json js_object list \<Rightarrow> json js_object list" where
  "filteredEvents H s events =
     (let es = periodEvents H (bn_period s) (bn_reference s) events in
      if bn_filter s = BeAll then es else filter (event_is (bn_filter s)) es)"

text \<open>The number on the button of a filter.\<close>

definition filter_count :: "js_host \<Rightarrow> bottleneck_panel \<Rightarrow> json js_object list \<Rightarrow> BottleneckEventFilter \<Rightarrow> nat" where
  "filter_count H s events f =
     (let es = periodEvents H (bn_period s) (bn_reference s) events in
      if f = BeAll then length es else length (filter (event_is f) es))"

definition change_period :: "int \<Rightarrow> BottleneckEventPeriod \<Rightarrow> bottleneck_panel \<Rightarrow> bottleneck_panel" where
  "change_period now p s =
     s\<lparr>bn_period := p, bn_reference := now, bn_notice := [],
       bn_location := replaceBrowserQueryParams [(PERIOD_QUERY, bottleneck_period_text p, ''all'')] (bn_location s)\<rparr>"

definition change_event :: "BottleneckEventFilter \<Rightarrow> bottleneck_panel \<Rightarrow> bottleneck_panel" where
  "change_event f s =
     s\<lparr>bn_filter := f, bn_notice := [],
       bn_location := replaceBrowserQueryParams [(EVENT_FILTER_QUERY, bottleneck_event_text f, ''all'')] (bn_location s)\<rparr>"

fun format_upper :: "ExportFormat \<Rightarrow> string" where
  "format_upper Fmt_csv = ''CSV''"
| "format_upper Fmt_json = ''JSON''"

text \<open>\<open>saved\<close>: the browser has taken the file.\<close>

definition handleExport_bottleneck ::
    "js_host \<Rightarrow> string \<Rightarrow> int \<Rightarrow> string option \<Rightarrow> bool \<Rightarrow> json js_object list \<Rightarrow> ExportFormat \<Rightarrow> bottleneck_panel \<Rightarrow>
     export_file \<times> bottleneck_panel" where
  "handleExport_bottleneck H hostZone now timezone saved events fmt s =
     (let f = downloadManagerDeploymentBottleneckEvents hostZone now (filteredEvents H s events) (bn_filter s) (bn_period s) fmt timezone
      in (f, s\<lparr>bn_notice :=
            (if saved then format_upper fmt @ txt_hp_export_done @ ef_filename f else format_upper fmt @ txt_hp_export_failed)\<rparr>))"

definition handleCopyLink :: "bool \<Rightarrow> bottleneck_panel \<Rightarrow> bottleneck_panel" where
  "handleCopyLink copied s = s\<lparr>bn_notice := (if copied then txt_hp_link_copied else txt_hp_link_failed)\<rparr>"

inductive bottleneck_reachable :: "bottleneck_panel \<Rightarrow> bool" where
  bn_start: "bottleneck_reachable (bottleneck_mount now l)"
| bn_period_change: "bottleneck_reachable s \<Longrightarrow> bottleneck_reachable (change_period now p s)"
| bn_event_change: "bottleneck_reachable s \<Longrightarrow> bottleneck_reachable (change_event f s)"
| bn_export: "bottleneck_reachable s \<Longrightarrow> bottleneck_reachable (snd (handleExport_bottleneck H hz now tz ok es fmt s))"
| bn_copy: "bottleneck_reachable s \<Longrightarrow> bottleneck_reachable (handleCopyLink ok s)"

interpretation event_filter: url_filter EVENT_FILTER_QUERY bottleneck_event_text parseEventFilter
proof
  fix x show "parseEventFilter (if bottleneck_event_text x = ''all'' then None else Some (bottleneck_event_text x)) = x"
    by (cases x) (simp_all add: parseEventFilter_def)
qed

interpretation event_period: url_filter PERIOD_QUERY bottleneck_period_text parseEventPeriod
proof
  fix x show "parseEventPeriod (if bottleneck_period_text x = ''all'' then None else Some (bottleneck_period_text x)) = x"
    by (cases x) (simp_all add: parseEventPeriod_def)
qed

definition bottleneck_linked :: "bottleneck_panel \<Rightarrow> bool" where
  "bottleneck_linked s \<longleftrightarrow> event_filter.read_from (bn_location s) = bn_filter s \<and> event_period.read_from (bn_location s) = bn_period s"

lemma bottleneck_keys: "EVENT_FILTER_QUERY \<noteq> PERIOD_QUERY"
  by (simp add: EVENT_FILTER_QUERY_def PERIOD_QUERY_def)

lemma bottleneck_reachable_linked: "bottleneck_reachable s \<Longrightarrow> bottleneck_linked s"
proof (induction rule: bottleneck_reachable.induct)
  case (bn_period_change s now p)
  then show ?case
    using event_period.read_put [of p "bn_location s"] event_period.put_other [OF bottleneck_keys, of p "bn_location s"]
    by (simp add: bottleneck_linked_def change_period_def event_period.put_filter_def event_filter.read_from_def)
next
  case (bn_event_change s f)
  then show ?case
    using event_filter.read_put [of f "bn_location s"] event_filter.put_other [OF bottleneck_keys [symmetric], of f "bn_location s"]
    by (simp add: bottleneck_linked_def change_event_def event_filter.put_filter_def event_period.read_from_def)
qed (simp_all add: bottleneck_linked_def bottleneck_mount_def event_filter.read_from_def event_period.read_from_def
    handleExport_bottleneck_def handleCopyLink_def Let_def)

text \<open>A link to the panel, opened at the same moment, shows the same events.\<close>

lemma bottleneck_link_shows_same:
  "bottleneck_reachable s \<Longrightarrow>
   filteredEvents H (bottleneck_mount (bn_reference s) (bn_location s)) events = filteredEvents H s events"
  using bottleneck_reachable_linked [of s]
  by (simp add: filteredEvents_def Let_def bottleneck_mount_def bottleneck_linked_def event_filter.read_from_def event_period.read_from_def)

text \<open>The number on a button is the number of events listed after pressing it; if every event is of one of the
  two kinds, the first number is the sum of the others.\<close>

lemma filter_count_listed: "filter_count H s events f = length (filteredEvents H (change_event f s) events)"
  by (simp add: filter_count_def filteredEvents_def change_event_def Let_def)

lemma event_kinds: "event_is BeAlerted e \<Longrightarrow> \<not> event_is BeCleared e"
  by (simp add: event_is_def)

lemma filter_count_sum:
  assumes "list_all (\<lambda>e. event_is BeAlerted e \<or> event_is BeCleared e) events"
  shows "filter_count H s events BeAll = filter_count H s events BeAlerted + filter_count H s events BeCleared"
proof -
  have "length es = length (filter (event_is BeAlerted) es) + length (filter (event_is BeCleared) es)"
    if "set es \<subseteq> set events" for es
    using that
  proof (induction es)
    case (Cons e es)
    then have "event_is BeAlerted e \<or> event_is BeCleared e" using assms by (simp add: list_all_iff)
    then show ?case using Cons event_kinds [of e] by auto
  qed simp
  moreover have "set (periodEvents H p now events) \<subseteq> set events" for p now by (auto simp: periodEvents_def)
  ultimately show ?thesis unfolding filter_count_def Let_def by simp
qed

section \<open>Local smoke runs\<close>

datatype copy_status = CopyIdle | CopyDone | CopyError

fun local_filter_text :: "SmokeLocalRunStatusFilter \<Rightarrow> string" where
  "local_filter_text LsAll = ''all''"
| "local_filter_text (LsStatus s) = local_status_text s"

fun local_admin_text :: "SmokeLocalRunAdminFilter \<Rightarrow> string" where
  "local_admin_text LaAll = ''all''"
| "local_admin_text LaAdmin = ''admin''"
| "local_admin_text LaViewer = ''viewer''"

record local_panel =
  lp_status :: SmokeLocalRunStatusFilter
  lp_admin :: SmokeLocalRunAdminFilter
  lp_copy :: copy_status
  lp_location :: location

text \<open>The two parameters: \<open>SMOKE_LOCAL_RUN_QUERY\<close>.\<close>

definition LOCAL_STATUS_KEY :: string where "LOCAL_STATUS_KEY = ''smoke_local_status''"
definition LOCAL_ADMIN_KEY :: string where "LOCAL_ADMIN_KEY = ''smoke_local_admin''"

definition local_mount :: "location \<Rightarrow> local_panel" where
  "local_mount l =
     \<lparr>lp_status = parseSmokeLocalRunStatusFilter (params_get LOCAL_STATUS_KEY (location_params l)),
      lp_admin = parseSmokeLocalRunAdminFilter (params_get LOCAL_ADMIN_KEY (location_params l)),
      lp_copy = CopyIdle, lp_location = l\<rparr>"

definition updateStatusFilter :: "SmokeLocalRunStatusFilter \<Rightarrow> local_panel \<Rightarrow> local_panel" where
  "updateStatusFilter v s =
     s\<lparr>lp_status := v, lp_copy := CopyIdle,
       lp_location := replaceBrowserQueryParams [(LOCAL_STATUS_KEY, local_filter_text v, ''all'')] (lp_location s)\<rparr>"

definition updateAdminFilter :: "SmokeLocalRunAdminFilter \<Rightarrow> local_panel \<Rightarrow> local_panel" where
  "updateAdminFilter v s =
     s\<lparr>lp_admin := v, lp_copy := CopyIdle,
       lp_location := replaceBrowserQueryParams [(LOCAL_ADMIN_KEY, local_admin_text v, ''all'')] (lp_location s)\<rparr>"

definition copyFilterLink :: "bool \<Rightarrow> local_panel \<Rightarrow> local_panel" where
  "copyFilterLink copied s = s\<lparr>lp_copy := (if copied then CopyDone else CopyError)\<rparr>"

definition filteredLocalRuns :: "SmokeLocalRun list \<Rightarrow> local_panel \<Rightarrow> SmokeLocalRun list" where
  "filteredLocalRuns runs s = filterSmokeLocalRuns runs (lp_status s) (lp_admin s)"

text \<open>The numbers beside the entries of the two lists.\<close>

definition local_status_count :: "SmokeLocalRun list \<Rightarrow> SmokeLocalRunStatusFilter \<Rightarrow> nat" where
  "local_status_count runs f =
     (case f of LsAll \<Rightarrow> length runs | LsStatus st \<Rightarrow> length (filter (\<lambda>r. lr_status r = st) runs))"

definition local_admin_count :: "SmokeLocalRun list \<Rightarrow> SmokeLocalRunAdminFilter \<Rightarrow> nat" where
  "local_admin_count runs f =
     (let adminCount = length (filter lr_admin_checked runs) in
      case f of LaAll \<Rightarrow> length runs | LaAdmin \<Rightarrow> adminCount | LaViewer \<Rightarrow> length runs - adminCount)"

inductive local_reachable :: "local_panel \<Rightarrow> bool" where
  lp_start: "local_reachable (local_mount l)"
| lp_status_change: "local_reachable s \<Longrightarrow> local_reachable (updateStatusFilter f s)"
| lp_admin_change: "local_reachable s \<Longrightarrow> local_reachable (updateAdminFilter a s)"
| lp_copied: "local_reachable s \<Longrightarrow> local_reachable (copyFilterLink ok s)"

interpretation local_status: url_filter LOCAL_STATUS_KEY local_filter_text parseSmokeLocalRunStatusFilter
proof
  fix x show "parseSmokeLocalRunStatusFilter (if local_filter_text x = ''all'' then None else Some (local_filter_text x)) = x"
  proof (cases x)
    case (LsStatus s)
    then show ?thesis by (cases s) (simp_all add: parseSmokeLocalRunStatusFilter_def)
  qed (simp add: parseSmokeLocalRunStatusFilter_def)
qed

interpretation local_admin: url_filter LOCAL_ADMIN_KEY local_admin_text parseSmokeLocalRunAdminFilter
proof
  fix x show "parseSmokeLocalRunAdminFilter (if local_admin_text x = ''all'' then None else Some (local_admin_text x)) = x"
    by (cases x) (simp_all add: parseSmokeLocalRunAdminFilter_def)
qed

lemma local_keys: "LOCAL_STATUS_KEY \<noteq> LOCAL_ADMIN_KEY"
  by (simp add: LOCAL_STATUS_KEY_def LOCAL_ADMIN_KEY_def)

lemma local_reachable_linked:
  "local_reachable s \<Longrightarrow> local_status.read_from (lp_location s) = lp_status s \<and> local_admin.read_from (lp_location s) = lp_admin s"
proof (induction rule: local_reachable.induct)
  case (lp_status_change s f)
  then show ?case
    using local_status.read_put [of f "lp_location s"] local_status.put_other [OF local_keys [symmetric], of f "lp_location s"]
    by (simp add: updateStatusFilter_def local_status.put_filter_def local_admin.read_from_def)
next
  case (lp_admin_change s a)
  then show ?case
    using local_admin.read_put [of a "lp_location s"] local_admin.put_other [OF local_keys, of a "lp_location s"]
    by (simp add: updateAdminFilter_def local_admin.put_filter_def local_status.read_from_def)
qed (simp_all add: local_mount_def copyFilterLink_def local_status.read_from_def local_admin.read_from_def)

lemma local_link_shows_same: "local_reachable s \<Longrightarrow> filteredLocalRuns runs (local_mount (lp_location s)) = filteredLocalRuns runs s"
  using local_reachable_linked [of s]
  by (simp add: filteredLocalRuns_def local_mount_def local_status.read_from_def local_admin.read_from_def)

text \<open>Each number is the length of the list under this filter alone.\<close>

lemma local_counts:
  "local_status_count runs f = length (filterSmokeLocalRuns runs f LaAll)"
  "local_admin_count runs a = length (filterSmokeLocalRuns runs LsAll a)"
proof -
  show "local_status_count runs f = length (filterSmokeLocalRuns runs f LaAll)"
    by (cases f) (simp_all add: local_status_count_def filterSmokeLocalRuns_def)
  have "length runs - length (filter lr_admin_checked runs) = length (filter (\<lambda>r. \<not> lr_admin_checked r) runs)"
    using sum_length_filter_compl [of lr_admin_checked runs] by simp
  then show "local_admin_count runs a = length (filterSmokeLocalRuns runs LsAll a)"
    by (cases a) (simp_all add: local_admin_count_def filterSmokeLocalRuns_def)
qed

section \<open>Rotation results\<close>

datatype RotationCsvPeriod = RcAll | Rc7 | Rc30 | Rc90 | RcCustom

fun rotation_days :: "RotationCsvPeriod \<Rightarrow> int option" where
  "rotation_days Rc7 = Some 7"
| "rotation_days Rc30 = Some 30"
| "rotation_days Rc90 = Some 90"
| "rotation_days _ = None"

record rotation_state =
  rot_period :: RotationCsvPeriod
  rot_start :: string
  rot_end :: string

definition rotation_initial :: rotation_state where
  "rotation_initial = \<lparr>rot_period = RcAll, rot_start = [], rot_end = []\<rparr>"

definition setRotationRange :: "string \<Rightarrow> rotation_state \<Rightarrow> rotation_state" where
  "setRotationRange date s = \<lparr>rot_period = RcCustom, rot_start = date, rot_end = date\<rparr>"

definition isRotationRangeValid :: "rotation_state \<Rightarrow> bool" where
  "isRotationRangeValid s =
     (rot_period s \<noteq> RcCustom \<or> rot_start s \<noteq> [] \<and> rot_end s \<noteq> [] \<and> \<not> str_less (rot_end s) (rot_start s))"

definition smokeRotationFilters :: "rotation_state \<Rightarrow> AuditLogQueryParams" where
  "smokeRotationFilters s =
     no_params\<lparr>al_event := Some ''smoke_rotation_result'', al_period_days := rotation_days (rot_period s),
       al_start_date := (if rot_period s = RcCustom then or_null (Some (rot_start s)) else None),
       al_end_date := (if rot_period s = RcCustom then or_null (Some (rot_end s)) else None)\<rparr>"

text \<open>A request for a page of the audit log: the number of results, and what \<open>useAuditPage\<close> says of it.\<close>

record count_query =
  cq_total :: "nat option"
  cq_fetching :: bool
  cq_error :: bool

datatype rotation_status = RotWaiting | RotLoading | RotError | RotReady

definition rotationCountStatus :: "rotation_state \<Rightarrow> count_query \<Rightarrow> rotation_status" where
  "rotationCountStatus s q =
     (if \<not> isRotationRangeValid s then RotWaiting
      else if cq_fetching q then RotLoading
      else if cq_error q then RotError
      else if cq_total q = None then RotLoading
      else RotReady)"

text \<open>\<open>grouped\<close> is \<open>toLocaleString("ko-KR")\<close>.\<close>

definition rotationCountLabel :: "(nat \<Rightarrow> string) \<Rightarrow> rotation_state \<Rightarrow> count_query \<Rightarrow> string" where
  "rotationCountLabel grouped s q =
     (case rotationCountStatus s q of
        RotWaiting \<Rightarrow> txt_hp_waiting
      | RotError \<Rightarrow> txt_hp_count_error
      | RotLoading \<Rightarrow> txt_hp_counting
      | RotReady \<Rightarrow>
          if cq_total q = Some 0 then txt_hp_count_zero else txt_hp_count @ grouped (default_to 0 (cq_total q)) @ txt_fp_items)"

definition isEmptyRotationExport :: "rotation_state \<Rightarrow> count_query \<Rightarrow> bool" where
  "isEmptyRotationExport s q = (rotationCountStatus s q = RotReady \<and> cq_total q = Some 0)"

record rotation_log =
  rol_event :: string
  rol_created_at :: string
  rol_detail :: "json option"

definition latestRotationStatusLabel :: "rotation_log option \<Rightarrow> string option" where
  "latestRotationStatusLabel latest =
     (let ev = map_option rol_event latest in
      if ev = Some ''smoke_rotation_succeeded'' then Some txt_hp_success
      else if ev = Some ''smoke_rotation_failed'' then Some txt_hp_failure else None)"

definition latestRotationFailureStep :: "rotation_log option \<Rightarrow> string option" where
  "latestRotationFailureStep latest =
     map_option (\<lambda>l. or_else (map_option js_trim (json_string (Option.bind (rol_detail l) (json_field ''step'')))) txt_hp_unknown_step) latest"

definition latestRotationFailureDate :: "rotation_log option \<Rightarrow> string option" where
  "latestRotationFailureDate latest = map_option (\<lambda>l. js_take 10 (rol_created_at l)) latest"

definition latestRotationFailureExportUrl :: "string option \<Rightarrow> rotation_log option \<Rightarrow> string option" where
  "latestRotationFailureExportUrl apiUrl latest =
     map_option (\<lambda>d. buildAuditExportUrl apiUrl
        (no_params\<lparr>al_event := Some ''smoke_rotation_failed'', al_start_date := Some d, al_end_date := Some d\<rparr>))
       (or_null (latestRotationFailureDate latest))"

definition latestRotationFailureListUrl :: "rotation_log option \<Rightarrow> string option" where
  "latestRotationFailureListUrl latest =
     map_option (\<lambda>d. ''/dashboard/audit?filter=smoke_rotation_failed&start_date='' @ encodeURIComponent d @ ''&end_date='' @ encodeURIComponent d)
       (or_null (latestRotationFailureDate latest))"

definition smokeRotationExportUrl :: "string option \<Rightarrow> rotation_state \<Rightarrow> string" where
  "smokeRotationExportUrl apiUrl s = buildAuditExportUrl apiUrl (smokeRotationFilters s)"

text \<open>A count is shown only for a range that is valid and for an answer that has arrived; a request names days
  or dates, never both; a day taken over from the list is a valid range.\<close>

lemma rotation_counted:
  "rotationCountStatus s q = RotReady \<longleftrightarrow>
     isRotationRangeValid s \<and> \<not> cq_fetching q \<and> \<not> cq_error q \<and> cq_total q \<noteq> None"
  by (auto simp: rotationCountStatus_def)

lemma rotation_request:
  "al_period_days (smokeRotationFilters s) = None \<or>
   al_start_date (smokeRotationFilters s) = None \<and> al_end_date (smokeRotationFilters s) = None"
  by (cases "rot_period s") (simp_all add: smokeRotationFilters_def no_params_def)

lemma rotation_range_valid: "d \<noteq> [] \<Longrightarrow> isRotationRangeValid (setRotationRange d s)"
  by (simp add: isRotationRangeValid_def setRotationRange_def)

end
