(* ===== verification/Spec2Isabelle.thy ===== *)
theory Spec2Isabelle
  imports Service_Form_Correct Url_Params Services_Page Container_Import Api_Proxy Login_Page
    Deployment_Correct Traefik_Update Smoke_Filters Saved_Panel Smoke_Tracking_Correct Save_Diagnosis_Correct
    Audit_Correct Audit_Detail Exports_Correct Smoke_Stats_Correct Smoke_Run_Filters Middleware_Correct
    Settings_Correct Backup_Correct Self_Tests Certificates Crud_Dialogs Deployment_Links Storefront_Probe
    Smoke_Main Exposure_Check Failure_Panel Maintenance_History History_Panels
begin

text \<open>
  A verification of Traefik Manager, the part of it that runs in the browser and in the Next.js
  server (TypeScript, \<open>src/frontend/src\<close>).  The program manages the services a Traefik reverse
  proxy routes: pages list and edit them, follow deployments, updates and smoke tests, and reach
  the FastAPI backend through a proxy route.  Scripts (\<open>src/scripts\<close>) check the running system from
  outside.  The backend is another program; its answers are arguments here.

  \<^bold>\<open>Language.\<close>  Strings are UTF-8 byte lists, and the operations that count UTF-16 units do so
  (\<open>js_take\<close>, \<open>utf16_length\<close>).  Numbers are rationals with the rounding of doubles (\<open>fl\<close>) where the
  code divides, \<open>int\<close> or \<open>nat\<close> where they are exact; \<open>NaN\<close> and an invalid date are \<open>None\<close>.  A raised
  error is \<open>Inl\<close> of a sum.  Objects are property lists in creation order.  What the engine decides
  (time zone, fallback date formats, collation) is the record \<open>js_host\<close>.  React state is a record,
  a handler a function on it, an effect a function that follows the handlers it depends on, and a
  page with callbacks in flight is an inductive step relation with its reachable states.

  \<^item> \<open>JS_Prelude\<close>, \<open>JS_Text\<close>: truthiness, strings, trimming and blanks, \<open>Array.prototype.sort\<close> with
    the locale \<open>js_comparator\<close> (a consistent comparator gives a sorted, stable permutation).
  \<^item> \<open>JS_Number\<close>: digits, doubles with the locale of their rounding, \<open>Number(text)\<close>.
  \<^item> \<open>JS_Date\<close>: calendar, \<open>Date.parse\<close>, \<open>toISOString\<close> and their round trip.
  \<^item> \<open>JS_Object\<close>, \<open>JS_Json\<close>: dictionaries; \<open>JSON.parse\<close> and \<open>JSON.stringify\<close>, where the parser takes fuel
    (twice the tokens and one) that is shown to be enough, and reading what was written gives it back.
  \<^item> \<open>Url_Params\<close>: \<open>URLSearchParams\<close> and \<open>shared/lib/replaceBrowserQueryParams.ts\<close>; \<open>Web_Url\<close>:
    \<open>encodeURIComponent\<close> and the parts of an address, whose parser is an argument.
  \<^item> \<open>Ui_Text\<close>, \<open>Toast\<close>: the texts that results contain; \<open>shared/components/ToastNotice.tsx\<close>.

  \<^bold>\<open>Services.\<close>
  \<^item> \<open>Service_Model\<close> (\<open>features/services/lib/serviceRouting.ts\<close>, \<open>hooks/useServices.ts\<close>,
    \<open>app/dashboard/services/useServicesBulkRouting.ts\<close>): the bulk change of the routing mode.  One call
    per service, every target accounted for, and the invariant of the selection in every reachable state.
  \<^item> \<open>Maintenance\<close> (\<open>maintenanceSchedule.ts\<close>): local times read back, extension, the ordered schedule.
  \<^item> \<open>Maintenance_History\<close> (\<open>MaintenanceScheduleHistoryPanel.tsx\<close>): the filters of the history of the end
    of maintenance as a state machine with the address, its request and its list.
  \<^item> \<open>Service_Form\<close>, \<open>Service_Form_Correct\<close> (\<open>features/services/components/serviceForm*.ts\<close>): an unchanged
    edit, with the effects of the first render and the schema of the form, sends the settings of the
    service (the end of a maintenance to the minute, a blocked path with a comma as its parts); a valid form gives a payload that meets the cross-field
    rules; the effects keep dependent fields consistent; the shape of a generated token.
  \<^item> \<open>Services_Page\<close> (\<open>servicesPage*.ts\<close>, \<open>useServicesPageFilters.ts\<close>): what the list shows and in which
    order, for every sort key, and the query string as a mirror of the filters.
  \<^item> \<open>Container_Import\<close> (\<open>containerImport*.ts\<close>): which gateway is recommended; sorting does not change it.
  \<^item> \<open>Save_Diagnosis\<close>, \<open>Save_Diagnosis_Correct\<close> (\<open>serviceSaveDiagnosis.ts\<close>, \<open>page.tsx\<close>,
    \<open>ServiceSaveDiagnosisBanner.tsx\<close>, \<open>serviceGatewayDiagnosisAuditSnapshots.ts\<close>): the retry loop ends
    after at most three calls, the notice is handed over once, the audit log gives the histories.

  \<^bold>\<open>Session.\<close>
  \<^item> \<open>Api_Proxy\<close> (\<open>app/api/v1/[...path]\<close>): URL, headers, body and status of a proxied request.
  \<^item> \<open>Session\<close>, \<open>Login_Page\<close> (\<open>apiClient.ts\<close>, \<open>useAuthStore.ts\<close>, \<open>app/login\<close>): the CSRF header, the end of
    a session, and the login page as a state machine.

  \<^bold>\<open>Operations.\<close>
  \<^item> \<open>Deployment_Query\<close>, \<open>Deployment_Stats\<close>, \<open>Deployment_Correct\<close> (\<open>app/dashboard/managerDeployment*.ts\<close>):
    filters and their query string (with the one link that does not read back as shown), statistics within their bounds under rounding, the comparison with
    the period before, bottlenecks.
  \<^item> \<open>Deployment_Links\<close> (\<open>managerDeploymentLinks.ts\<close>, \<open>managerDeploymentVersionDisplay.ts\<close>,
    \<open>managerWatchdogStatus.ts\<close>): the links lead to the repository that the source names, or to the given
    address of the release; versions, releases and labels.
  \<^item> \<open>Traefik_Update\<close> (\<open>traefikUpdate*.ts\<close>): the update history, its date range, the risk of an update.
  \<^item> \<open>Smoke_Filters\<close> (\<open>smokeFailureMetadataFilters.ts\<close> and its hook): a reload shows the same list.
  \<^item> \<open>Saved_Filters\<close>, \<open>Saved_Filters_Correct\<close> (\<open>smokeFailureMetadataSavedFilters.ts\<close>): the locale
    \<open>named_store\<close> states what a store of named values promises, and the list of the code is an
    interpretation of it; merging loses nothing; a backup reads back.
  \<^item> \<open>Saved_Panel\<close> (\<open>SmokeFailureMetadataSavedFilters.tsx\<close>): the panel as a fold over its
    events, with independent answers to each write: list and order agree with the local storage except
    after a restore cut between its two writes and a refused change of the order.
  \<^item> \<open>Smoke_Tracking\<close>, \<open>Smoke_Tracking_Correct\<close> (\<open>useManualSmokeRunTracking.ts\<close>, \<open>smokeGithubRateLimit.ts\<close>,
    \<open>smokeManualRunTracking.ts\<close>): timers and refreshes in flight with the generation counter; one
    poll and one timer at a time, none after the page is left; a poll ends after at most 24 steps (12 refreshes at 30 seconds fit into the
    limit of six minutes); a blocked refresh is unblocked by its timer, and not before.
  \<^item> \<open>Smoke_Stats\<close>, \<open>Smoke_Stats_Correct\<close> (\<open>smokeRunFailureRate.ts\<close>, \<open>smokeStatisticsHistory.ts\<close>,
    \<open>smokeDeploymentRevision.ts\<close>, \<open>shared/lib/smokeArtifactExpiry.ts\<close>): failure rates within their bounds
    under rounding, the counts and the order of the artifacts, the slowest runs.
  \<^item> \<open>Smoke_Run_Filters\<close> (\<open>useSmokeRecentRunFilters.ts\<close>): the query string stands for the filters shown.
  \<^item> \<open>Failure_Panel\<close> (\<open>SmokeFailureMetadataManagement.tsx\<close> and its parts): the selection of failures, what
    the preview says and the request that deletes: exactly what is shown, one at a time; the chips of
    the active filters.
  \<^item> \<open>History_Panels\<close> (\<open>ManagerDeploymentBottleneckEventHistory.tsx\<close>, \<open>SmokeRunStatisticsHistory.tsx\<close>,
    \<open>useAuditRotationExportModel.ts\<close>): the locale \<open>url_filter\<close> states what a filter kept in the address
    promises, four filters are interpretations of it; a link shows the same list, the numbers agree.
  \<^item> \<open>Csv\<close>, \<open>Exports\<close>, \<open>Exports_Correct\<close> (\<open>*Export.ts\<close>): the locale \<open>csv_writer\<close> states what a cell
    writer promises, the three writers of the code are interpretations of it; a reader for CSV gets
    back what was written, no cell of the six exports starts a formula, and file names are safe.

  \<^bold>\<open>Administration.\<close>
  \<^item> \<open>Audit_Query\<close>, \<open>Audit_Correct\<close> (\<open>app/dashboard/audit\<close>): the query string decodes to a typed query,
    every handler refines an update of the decoded query (with what a legacy filter name loses), the
    manager keys agree with the filter from the first choice of a filter on, the active conditions are
    what the request filters by, key by key, and the export link carries them.
  \<^item> \<open>Audit_Detail\<close> (\<open>features/audit/lib\<close>): the timing of a retry chain and the changes of settings.
  \<^item> \<open>Middleware_Form\<close>, \<open>Middleware_Page\<close>, \<open>Middleware_Correct\<close> (\<open>features/middlewares\<close>,
    \<open>app/dashboard/middlewares\<close>): an unchanged edit sends the stored template; counts and lists agree;
    the services under a template are those that use it; runtime names; the query string.
  \<^item> \<open>Settings_Card\<close>, \<open>Settings_Models\<close>, \<open>Settings_Alerts\<close>, \<open>Settings_Smoke\<close>, \<open>Settings_Bottleneck\<close>,
    \<open>Settings_Correct\<close> (\<open>app/dashboard/settings\<close>): the editing cards with their save in flight.  The
    locale \<open>settings_form\<close> states what a form promises, every card is an interpretation of it: an
    unchanged save sends what is stored.  The card of the smoke monitoring sends admissible settings
    only; the preview of the bottleneck alert is the streak it stands for.
  \<^item> \<open>Backup_Import\<close>, \<open>Backup_Correct\<close> (\<open>features/settings/hooks/useBackup*.ts\<close>): reading, review and restore
    of a backup with requests in flight; a review belongs to what is selected when the user waits,
    a restore is the selected file with the selected mode, by administrators only, and what was
    exported restores.
  \<^item> \<open>Certificates\<close> (\<open>app/dashboard/certificates\<close>): counts, the checklist with its action, the comparison of
    two preflights item by item and its trend, and the drawer, which shows the preflight of the selected certificate only.
  \<^item> \<open>Crud_Dialogs\<close> (\<open>useRedirectsPageModel.ts\<close>, \<open>features/users/components\<close>): the dialogs of the redirects
    and the users with their requests in flight, however clicks and answers interleave.
  \<^item> \<open>Ui_Text_Admin\<close>, \<open>Ui_Text_Settings\<close>, \<open>Ui_Text_Pages\<close>: the texts of these pages.

  \<^bold>\<open>Scripts.\<close>  A script is a function of the requests sent so far; it gives a result or the message of an
  error, and the requests after it.
  \<^item> \<open>Storefront_Probe\<close> (\<open>tcg-storefront-probe.mjs\<close>): the verdict of the seven checks and the exit code.
  \<^item> \<open>Cdp_Client\<close> (\<open>smoke-browser-cdp.mjs\<close>): the client of the browser protocol as a state machine; an
    answer settles the command it belongs to and no other, an event the oldest waiter or nobody.
  \<^item> \<open>Smoke_Session\<close> (\<open>smoke-session-auth.mjs\<close>, \<open>smoke-admin-read-only.mjs\<close>, \<open>smoke-remote-status.mjs\<close>):
    cookies survive their header; sign-in, the refused write, the records of success and failure.
  \<^item> \<open>Smoke_Main\<close> (\<open>smoke-services-browser-session.mjs\<close>, \<open>smoke-services-api-checks.mjs\<close>,
    \<open>dashboard-visual-runner.mjs\<close> and the modules they call): the composition.  A success is recorded
    only after every check; the browser is an argument.
  \<^item> \<open>Exposure_Check\<close> (\<open>check-exposure-snapshot.mjs\<close>): the exit code is 0 exactly if the documented
    hosts are the exposed ones.
  \<^item> \<open>Ui_Text_Scripts\<close>: the texts of the scripts and of the failure and history panels.
  \<^item> \<open>Self_Tests\<close>: assertions of the repository's self tests, evaluated on the model.

  \<^bold>\<open>Simplifications.\<close>  Two handlers that wait for an answer are one step: a bulk change sends its requests
  and settles at once, so that a change of the selection while it runs is left out (\<open>execute_bulk_step\<close>,
  \<open>useServicesBulkRouting.ts\<close>), and the end of a login covers the answer and, after a refusal, the reading of
  the protection (\<open>submit_finish\<close>, \<open>useLoginPageModel.ts\<close>).  A smoke test runs at one fixed time, and its
  browser is a pure argument (\<open>smoke_host\<close>).  In \<open>crud_reach\<close> the role of the user is fixed for a run, and
  leaving the page is no step.  Select boxes and number fields keep the values they are given.

  \<^bold>\<open>Not modelled.\<close>  JSX and styling, which render what the models compute, and the query hooks that only
  send a request; the tables of texts that describe single audit events; the visual checks of the
  scripts and their fixtures, which drive a browser and assert on what it renders; the Python backend.
  Case folding (\<open>str_lower\<close>) acts on ASCII letters; the service names of the fixtures and the Korean
  texts have no other case.  What an export normalises by Unicode tables (NFKC, letters and digits) is
  an argument.
\<close>

end
